(* ===== verification/Prelude.thy ===== *)
theory Prelude
  imports Complex_Main "HOL-Library.AList" "HOL-Library.Sublist"
begin

text \<open>
  What every component shares.  JavaScript strings are lists of the bytes of their UTF-8 form
  (a non-ASCII literal is written byte by byte); \<open>trim\<close> strips the UTF-8 forms of all the
  code points ECMAScript counts as white space or line terminators.  Objects and \<open>Map\<close>s are
  association lists in enumeration order: \<open>obj_set\<close> is property assignment on an object (new
  array-index keys are enumerated first, in numeric order), \<open>AList.update\<close> is \<open>Map.set\<close>.
  The locale of dictionaries states what both promise, and the locale of machines lifts a one-step
  invariant to runs.
\<close>

named_theorems helper_defs \<open>definitions of small helpers, unfolded by the component proofs\<close>

section \<open>Lists\<close>

text \<open>\<open>xs.slice(-n)\<close> for a positive \<open>n\<close>.\<close>

definition last_n :: "nat \<Rightarrow> 'a list \<Rightarrow> 'a list" where
  "last_n n xs = drop (length xs - n) xs"

lemma length_last_n [simp]: "length (last_n n xs) = min n (length xs)"
  by (simp add: last_n_def)

lemma set_last_n: "set (last_n n xs) \<subseteq> set xs"
  by (simp add: last_n_def set_drop_subset)

lemma distinct_last_n: "distinct xs \<Longrightarrow> distinct (last_n n xs)"
  by (simp add: last_n_def)

lemma map_last_n: "map f (last_n n xs) = last_n n (map f xs)"
  by (simp add: last_n_def drop_map)

lemma last_n_all [simp]: "length xs \<le> n \<Longrightarrow> last_n n xs = xs"
  by (simp add: last_n_def)

lemma last_n_snoc: "0 < n \<Longrightarrow> x \<in> set (last_n n (xs @ [x]))"
  by (simp add: last_n_def)

text \<open>\<open>Array.from(new Set(xs))\<close>: the first occurrence of every element, in order.\<close>

definition dedupe :: "'a list \<Rightarrow> 'a list" where
  "dedupe xs = rev (remdups (rev xs))"

lemma set_dedupe [simp]: "set (dedupe xs) = set xs"
  by (simp add: dedupe_def)

lemma distinct_dedupe [simp]: "distinct (dedupe xs)"
  by (simp add: dedupe_def)

lemma dedupe_id: "distinct xs \<Longrightarrow> dedupe xs = xs"
  by (simp add: dedupe_def distinct_remdups_id)

lemma dedupe_snoc: "dedupe (xs @ [x]) = (if x \<in> set xs then dedupe xs else dedupe xs @ [x])"
  by (simp add: dedupe_def)

section \<open>Strings\<close>

definition white_space :: "string list" where
  "white_space =
    [[CHR 0x09], [CHR 0x0A], [CHR 0x0B], [CHR 0x0C], [CHR 0x0D], [CHR 0x20],
     [CHR 0xC2, CHR 0xA0], [CHR 0xE1, CHR 0x9A, CHR 0x80],
     [CHR 0xE2, CHR 0x80, CHR 0x80], [CHR 0xE2, CHR 0x80, CHR 0x81],
     [CHR 0xE2, CHR 0x80, CHR 0x82], [CHR 0xE2, CHR 0x80, CHR 0x83],
     [CHR 0xE2, CHR 0x80, CHR 0x84], [CHR 0xE2, CHR 0x80, CHR 0x85],
     [CHR 0xE2, CHR 0x80, CHR 0x86], [CHR 0xE2, CHR 0x80, CHR 0x87],
     [CHR 0xE2, CHR 0x80, CHR 0x88], [CHR 0xE2, CHR 0x80, CHR 0x89],
     [CHR 0xE2, CHR 0x80, CHR 0x8A], [CHR 0xE2, CHR 0x80, CHR 0xA8],
     [CHR 0xE2, CHR 0x80, CHR 0xA9], [CHR 0xE2, CHR 0x80, CHR 0xAF],
     [CHR 0xE2, CHR 0x81, CHR 0x9F], [CHR 0xE3, CHR 0x80, CHR 0x80],
     [CHR 0xEF, CHR 0xBB, CHR 0xBF]]"

definition leading_unit :: "'a list list \<Rightarrow> 'a list \<Rightarrow> 'a list option" where
  "leading_unit us s = find (\<lambda>u. u \<noteq> [] \<and> prefix u s) us"

lemma leading_unit_Some: "leading_unit us s = Some u \<Longrightarrow> u \<in> set us \<and> u \<noteq> [] \<and> prefix u s"
  by (auto simp: leading_unit_def find_Some_iff)

lemma leading_unit_None: "leading_unit us s = None \<longleftrightarrow> (\<forall>u \<in> set us. u \<noteq> [] \<longrightarrow> \<not> prefix u s)"
  by (auto simp: leading_unit_def find_None_iff)

lemma leading_unit_prefix: "leading_unit us s = None \<Longrightarrow> prefix t s \<Longrightarrow> leading_unit us t = None"
  by (meson leading_unit_None prefix_order.trans)

function strip_units :: "'a list list \<Rightarrow> 'a list \<Rightarrow> 'a list" where
  "strip_units us s =
     (case leading_unit us s of None \<Rightarrow> s | Some u \<Rightarrow> strip_units us (drop (length u) s))"
  by pat_completeness auto
termination
  by (relation "measure (\<lambda>(us, s). length s)")
    (auto dest!: leading_unit_Some simp: prefix_def)

declare strip_units.simps [simp del]

lemma strip_units_id: "leading_unit us s = None \<Longrightarrow> strip_units us s = s"
  by (subst strip_units.simps) simp

lemma strip_units_none: "leading_unit us (strip_units us s) = None"
proof (induction us s rule: strip_units.induct)
  case (1 us s)
  then show ?case
    by (cases "leading_unit us s") (simp_all add: strip_units.simps [of us s])
qed

lemma suffix_strip_units: "suffix (strip_units us s) s"
proof (induction us s rule: strip_units.induct)
  case (1 us s)
  show ?case
  proof (cases "leading_unit us s")
    case None
    then show ?thesis by (simp add: strip_units_id)
  next
    case (Some u)
    with "1.IH" have "suffix (strip_units us (drop (length u) s)) (drop (length u) s)" by simp
    then have "suffix (strip_units us (drop (length u) s)) s"
      by (rule suffix_order.trans) (rule suffix_drop)
    with Some show ?thesis by (simp add: strip_units.simps [of us s])
  qed
qed

definition trim_start :: "string \<Rightarrow> string" where
  "trim_start s = strip_units white_space s"

definition trim_end :: "string \<Rightarrow> string" where
  "trim_end s = rev (strip_units (map rev white_space) (rev s))"

definition trim :: "string \<Rightarrow> string" where
  "trim s = trim_end (trim_start s)"

lemma trim_end_prefix: "prefix (trim_end s) s"
  using suffix_strip_units [of "map rev white_space" "rev s"]
  by (simp add: trim_end_def suffix_to_prefix)

lemma trim_end_trim_end [simp]: "trim_end (trim_end s) = trim_end s"
  by (simp add: trim_end_def strip_units_id strip_units_none)

lemma trim_start_trim_start [simp]: "trim_start (trim_start s) = trim_start s"
  by (simp add: trim_start_def strip_units_id strip_units_none)

lemma trim_trim [simp]: "trim (trim s) = trim s"
proof -
  have "leading_unit white_space (trim_end (trim_start s)) = None"
    by (rule leading_unit_prefix [OF _ trim_end_prefix])
      (simp add: trim_start_def strip_units_none)
  then have "trim_start (trim s) = trim s"
    by (simp add: trim_def trim_start_def [of "trim_end _"] strip_units_id)
  then show ?thesis by (simp add: trim_def)
qed

lemma strip_units_Nil [simp]: "strip_units us [] = []"
  by (rule strip_units_id) (auto simp: leading_unit_None)

lemma trim_Nil [simp]: "trim [] = []" "trim_start [] = []" "trim_end [] = []"
  by (simp_all add: trim_def trim_start_def trim_end_def)

text \<open>\<open>s.split(c)\<close> for a one-character separator, and \<open>xs.join(sep)\<close>.\<close>

fun split_on :: "char \<Rightarrow> string \<Rightarrow> string list" where
  "split_on c [] = [[]]"
| "split_on c (x # xs) =
     (let ys = split_on c xs in if x = c then [] # ys else (x # hd ys) # tl ys)"

fun join :: "string \<Rightarrow> string list \<Rightarrow> string" where
  "join sep [] = []"
| "join sep [x] = x"
| "join sep (x # y # ys) = x @ sep @ join sep (y # ys)"

lemma split_on_not_Nil [simp]: "split_on c s \<noteq> []"
  by (cases s) (auto simp: Let_def)

lemma join_Cons: "xs \<noteq> [] \<Longrightarrow> join sep (x # xs) = x @ sep @ join sep xs"
  by (cases xs) auto

lemma join_split_on: "join [c] (split_on c s) = s"
proof (induction s)
  case Nil
  then show ?case by simp
next
  case (Cons x xs)
  obtain y ys where ys: "split_on c xs = y # ys" by (cases "split_on c xs") auto
  with Cons.IH show ?case
    by (cases ys) (auto simp: Let_def)
qed

lemma split_on_no_sep: "c \<notin> set s \<Longrightarrow> split_on c s = [s]"
  by (induction s) (auto simp: Let_def)

lemma split_on_append: "c \<notin> set s \<Longrightarrow> split_on c (s @ c # t) = s # split_on c t"
  by (induction s) (auto simp: Let_def)

lemma split_on_join:
  "xs \<noteq> [] \<Longrightarrow> (\<And>x. x \<in> set xs \<Longrightarrow> c \<notin> set x) \<Longrightarrow> split_on c (join [c] xs) = xs"
  by (induction "[c]" xs rule: join.induct) (auto simp: split_on_no_sep split_on_append)

text \<open>\<open>parts.filter(Boolean).join(sep)\<close> over strings: empty strings are falsy.\<close>

definition join_nonempty :: "string \<Rightarrow> string list \<Rightarrow> string" where
  "join_nonempty sep xs = join sep (filter (\<lambda>x. x \<noteq> []) xs)"

definition ends_with :: "string \<Rightarrow> string \<Rightarrow> bool" where
  "ends_with s t \<longleftrightarrow> suffix t s"

definition starts_with :: "string \<Rightarrow> string \<Rightarrow> bool" where
  "starts_with s t \<longleftrightarrow> prefix t s"

lemma starts_with_simps [simp]:
  "starts_with (t @ s) t"
  "starts_with s []"
  "\<not> starts_with [] (d # t)"
  "starts_with (c # s) (d # t) \<longleftrightarrow> c = d \<and> starts_with s t"
  by (auto simp: starts_with_def)

text \<open>\<open>s.slice(0, -n)\<close> for a positive \<open>n\<close>.\<close>

definition drop_last :: "nat \<Rightarrow> string \<Rightarrow> string" where
  "drop_last n s = take (length s - n) s"

lemma drop_last_append [simp]: "drop_last (length t) (s @ t) = s"
  by (simp add: drop_last_def)

text \<open>\<open>s.has_substring(t)\<close>, and \<open>s.replaceAll(t, r)\<close> for a non-empty \<open>t\<close>.\<close>

fun has_substring :: "string \<Rightarrow> string \<Rightarrow> bool" where
  "has_substring [] t \<longleftrightarrow> t = []"
| "has_substring (x # s) t \<longleftrightarrow> prefix t (x # s) \<or> has_substring s t"

function replace_all :: "string \<Rightarrow> string \<Rightarrow> string \<Rightarrow> string" where
  "replace_all t r s =
     (case s of [] \<Rightarrow> []
      | x # s' \<Rightarrow>
          if t \<noteq> [] \<and> prefix t s then r @ replace_all t r (drop (length t) s)
          else x # replace_all t r s')"
  by pat_completeness auto
termination
  by (relation "measure (\<lambda>(t, r, s). length s)") (auto simp: prefix_def)

declare replace_all.simps [simp del]

lemma replace_all_Nil [simp]: "replace_all t r [] = []"
  by (subst replace_all.simps) simp

lemma replace_all_char_absent: "c \<notin> set s \<Longrightarrow> replace_all [c] r s = s"
  by (induction s) (auto simp: replace_all.simps)

section \<open>Decimal numerals\<close>

definition digit_char :: "nat \<Rightarrow> char" where
  "digit_char d = char_of (48 + d)"

fun show_nat :: "nat \<Rightarrow> string" where
  "show_nat n = (if n < 10 then [digit_char n] else show_nat (n div 10) @ [digit_char (n mod 10)])"

declare show_nat.simps [simp del]

definition show_int :: "int \<Rightarrow> string" where
  "show_int i = (if i < 0 then CHR ''-'' # show_nat (nat (- i)) else show_nat (nat i))"

definition is_digit :: "char \<Rightarrow> bool" where
  "is_digit c \<longleftrightarrow> 48 \<le> (of_char c :: nat) \<and> (of_char c :: nat) \<le> 57"

definition digit_val :: "char \<Rightarrow> nat" where
  "digit_val c = of_char c - 48"

definition digits_val :: "string \<Rightarrow> nat" where
  "digits_val s = foldl (\<lambda>n c. 10 * n + digit_val c) 0 s"

lemma digit_char_0 [simp]: "digit_char 0 = CHR ''0''"
  by code_simp

lemma of_char_digit_char: "d < 10 \<Longrightarrow> (of_char (digit_char d) :: nat) = 48 + d"
  by (simp add: digit_char_def of_char_of)

lemma is_digit_digit_char [simp]: "d < 10 \<Longrightarrow> is_digit (digit_char d)"
  by (simp add: is_digit_def of_char_digit_char)

lemma digit_val_digit_char [simp]: "d < 10 \<Longrightarrow> digit_val (digit_char d) = d"
  by (simp add: digit_val_def of_char_digit_char)

lemma show_nat_not_Nil [simp]: "show_nat n \<noteq> []"
  by (subst show_nat.simps) simp

lemma show_nat_digits: "c \<in> set (show_nat n) \<Longrightarrow> is_digit c"
proof (induction n rule: show_nat.induct)
  case (1 n)
  then show ?case by (cases "n < 10") (auto simp: show_nat.simps [of n])
qed

lemma digits_val_snoc: "digits_val (s @ [c]) = 10 * digits_val s + digit_val c"
  by (simp add: digits_val_def)

lemma digits_val_show_nat [simp]: "digits_val (show_nat n) = n"
proof (induction n rule: show_nat.induct)
  case (1 n)
  show ?case
  proof (cases "n < 10")
    case True
    then show ?thesis by (simp add: show_nat.simps [of n] digits_val_def)
  next
    case False
    with "1.IH" show ?thesis by (simp add: show_nat.simps [of n] digits_val_snoc)
  qed
qed

lemma show_nat_inject [simp]: "show_nat m = show_nat n \<longleftrightarrow> m = n"
  by (metis digits_val_show_nat)

text \<open>A numeral behind a separator can be told from the text before it.\<close>

lemma numeral_suffix:
  assumes "xs @ c # show_nat i = ys @ c # show_nat j" "\<not> is_digit c"
  shows "i = j"
proof -
  have tail: "takeWhile (\<lambda>x. x \<noteq> c) (rev (zs @ c # show_nat n)) = rev (show_nat n)" for zs n
  proof -
    have "\<forall>x \<in> set (rev (show_nat n)). x \<noteq> c" using assms(2) show_nat_digits by auto
    then have "takeWhile (\<lambda>x. x \<noteq> c) (rev (show_nat n)) = rev (show_nat n)"
      by (simp only: takeWhile_eq_all_conv)
    then show ?thesis by (simp add: takeWhile_tail)
  qed
  from assms(1) have "rev (show_nat i) = rev (show_nat j)" using tail by metis
  then show ?thesis by simp
qed

section \<open>Objects and maps\<close>

text \<open>
  A property key that is an array index: the canonical numeral of a number below \<open>2^32 - 1\<close>.
\<close>

definition array_index :: "string \<Rightarrow> nat option" where
  "array_index k =
     (if k \<noteq> [] \<and> list_all is_digit k \<and> show_nat (digits_val k) = k
         \<and> digits_val k < 2 ^ 32 - 1 then Some (digits_val k) else None)"

definition index_below :: "nat \<Rightarrow> string \<times> 'v \<Rightarrow> bool" where
  "index_below i kv = (case array_index (fst kv) of Some j \<Rightarrow> j < i | None \<Rightarrow> False)"

definition obj_set :: "string \<Rightarrow> 'v \<Rightarrow> (string \<times> 'v) list \<Rightarrow> (string \<times> 'v) list" where
  "obj_set k v m =
     (if k \<in> fst ` set m then AList.update k v m
      else case array_index k of
        None \<Rightarrow> m @ [(k, v)]
      | Some i \<Rightarrow> takeWhile (index_below i) m @ (k, v) # dropWhile (index_below i) m)"

text \<open>Association lists: a new key goes to the end.\<close>

lemma alist_update_new: "k \<notin> fst ` set m \<Longrightarrow> AList.update k v m = m @ [(k, v)]"
  by (induction m) auto

lemma set_alist_update: "set (AList.update k v xs) \<subseteq> insert (k, v) (set xs)"
  by (induction xs) auto

text \<open>\<open>Object.fromEntries(es)\<close>.\<close>

definition from_entries :: "(string \<times> 'v) list \<Rightarrow> (string \<times> 'v) list" where
  "from_entries es = fold (\<lambda>(k, v). obj_set k v) es []"

lemma map_of_insert_new:
  "k \<notin> fst ` set (xs @ ys) \<Longrightarrow> map_of (xs @ (k, v) # ys) = (map_of (xs @ ys))(k \<mapsto> v)"
  by (induction xs) (auto simp: fun_eq_iff)

lemma map_of_obj_set [simp]: "map_of (obj_set k v m) = (map_of m)(k \<mapsto> v)"
proof (cases "k \<in> fst ` set m")
  case True
  then show ?thesis by (simp add: obj_set_def update_conv')
next
  case False
  have whole: "takeWhile (index_below i) m @ dropWhile (index_below i) m = m" for i by simp
  show ?thesis
  proof (cases "array_index k")
    case None
    with False show ?thesis
      using map_of_insert_new [of k m "[]" v] by (simp add: obj_set_def)
  next
    case (Some i)
    with False show ?thesis
      using map_of_insert_new [of k "takeWhile (index_below i) m" "dropWhile (index_below i) m" v]
      by (simp add: obj_set_def whole)
  qed
qed

lemma keys_obj_set [simp]: "fst ` set (obj_set k v m) = insert k (fst ` set m)"
  unfolding dom_map_of_conv_image_fst [symmetric] by simp

lemma distinct_obj_set [simp]:
  assumes "distinct (map fst m)"
  shows "distinct (map fst (obj_set k v m))"
proof (cases "k \<in> fst ` set m")
  case True
  with assms show ?thesis by (simp add: obj_set_def distinct_update)
next
  case False
  define xs where "xs i = takeWhile (index_below i) m" for i
  define ys where "ys i = dropWhile (index_below i) m" for i
  have m: "m = xs i @ ys i" for i by (simp add: xs_def ys_def)
  have "distinct (map fst (xs i @ (k, v) # ys i))" for i
    using assms False by (subst (asm) (1 2) m [of i]) auto
  with assms False show ?thesis
    by (auto simp: obj_set_def xs_def ys_def split: option.splits)
qed

lemma map_of_from_entries_acc:
  "map_of (fold (\<lambda>(k, v). obj_set k v) es m) = map_of (rev es @ m)"
  by (induction es arbitrary: m) (auto simp: fun_eq_iff map_add_def split: option.splits)

lemma map_of_from_entries: "map_of (from_entries es) = map_of (rev es)"
  by (simp add: from_entries_def map_of_from_entries_acc)

lemma keys_from_entries: "fst ` set (from_entries es) = fst ` set es"
  using dom_map_of_conv_image_fst [of "from_entries es"] dom_map_of_conv_image_fst [of "rev es"]
  by (simp add: map_of_from_entries)

lemma distinct_from_entries [simp]: "distinct (map fst (from_entries es))"
proof -
  have "distinct (map fst m) \<Longrightarrow> distinct (map fst (fold (\<lambda>(k, v). obj_set k v) es m))"
    for m :: "(string \<times> 'a) list"
    by (induction es arbitrary: m) auto
  then show ?thesis by (simp add: from_entries_def)
qed

text \<open>What an object and a \<open>Map\<close> promise to the code that uses them.\<close>

locale dictionary =
  fixes lookup :: "'m \<Rightarrow> 'k \<Rightarrow> 'v option"
    and put :: "'k \<Rightarrow> 'v \<Rightarrow> 'm \<Rightarrow> 'm"
    and remove :: "'k \<Rightarrow> 'm \<Rightarrow> 'm"
    and nothing :: "'m"
  assumes lookup_nothing: "lookup nothing k = None"
    and lookup_put: "lookup (put k v m) k' = (if k' = k then Some v else lookup m k')"
    and lookup_remove: "lookup (remove k m) k' = (if k' = k then None else lookup m k')"
begin

lemma lookup_put_same: "lookup (put k v m) k = Some v"
  by (simp add: lookup_put)

lemma lookup_put_other: "k' \<noteq> k \<Longrightarrow> lookup (put k v m) k' = lookup m k'"
  by (simp add: lookup_put)

lemma lookup_remove_put: "k' \<noteq> k \<Longrightarrow> lookup (remove k (put k v m)) k' = lookup m k'"
  by (simp add: lookup_put lookup_remove)

lemma lookup_fold_put:
  "lookup (fold (\<lambda>(k, v). put k v) es m) k =
     (case map_of (rev es) k of Some v \<Rightarrow> Some v | None \<Rightarrow> lookup m k)"
  by (induction es arbitrary: m)
    (auto simp: lookup_put map_add_def split: option.splits prod.splits)

end

interpretation js_object: dictionary map_of obj_set AList.delete "[]"
  by unfold_locales (auto simp: delete_conv')

interpretation js_map: dictionary map_of AList.update AList.delete "[]"
  by unfold_locales (auto simp: delete_conv' update_conv')

section \<open>Runs of a machine\<close>

locale machine =
  fixes step :: "'e \<Rightarrow> 's \<Rightarrow> 's"
    and inv :: "'s \<Rightarrow> bool"
    and allowed :: "'e \<Rightarrow> bool"
  assumes step_inv: "inv s \<Longrightarrow> allowed e \<Longrightarrow> inv (step e s)"
begin

lemma run_inv: "inv s \<Longrightarrow> list_all allowed es \<Longrightarrow> inv (fold step es s)"
  by (induction es arbitrary: s) (auto intro: step_inv)

end

end
