(* ===== verification/JsValue.thy ===== *)
theory JsValue
  imports Prelude
begin

text \<open>
  JavaScript values of unknown type, as the code reads them from JSON, with \<open>JSON.stringify\<close>
  and \<open>JSON.parse\<close>.  A number is the exact rational it denotes (no \<open>NaN\<close>, infinities or
  rounding); a non-integer is printed with at most 17 fractional digits.  The parser runs on
  fuel: \<open>json_fuel_enough\<close> shows that the fuel \<open>json_parse\<close> starts with is never the reason
  of a failure.
\<close>

datatype jsv =
    JUndefined
  | JNull
  | JBool bool
  | JNum rat
  | JStr string
  | JArr "jsv list"
  | JObj "(string \<times> jsv) list"

type_synonym jobj = "(string \<times> jsv) list"

section \<open>Reading values\<close>

text \<open>\<open>o.k\<close> on an object and \<open>o?.k\<close> on an object or nothing.\<close>

definition prop_of :: "jobj \<Rightarrow> string \<Rightarrow> jsv" where
  "prop_of kvs k = (case map_of kvs k of None \<Rightarrow> JUndefined | Some v \<Rightarrow> v)"

definition opt_prop :: "jobj option \<Rightarrow> string \<Rightarrow> jsv" where
  "opt_prop r k = (case r of None \<Rightarrow> JUndefined | Some kvs \<Rightarrow> prop_of kvs k)"

text \<open>\<open>record\<close> and \<open>nonEmptyString\<close> of \<open>agUiValueReaders.ts\<close>.\<close>

fun js_record :: "jsv \<Rightarrow> jobj option" where
  "js_record (JObj kvs) = Some kvs"
| "js_record _ = None"

text \<open>\<open>toRecord\<close> of several files also takes arrays; none of the properties read is an array's.\<close>

fun toRecord :: "jsv \<Rightarrow> jobj option" where
  "toRecord (JObj kvs) = Some kvs"
| "toRecord (JArr vs) = Some []"
| "toRecord _ = None"

fun nonEmptyString :: "jsv \<Rightarrow> string option" where
  "nonEmptyString (JStr s) = (if trim s \<noteq> [] then Some (trim s) else None)"
| "nonEmptyString _ = None"

fun as_string :: "jsv \<Rightarrow> string option" where
  "as_string (JStr s) = Some s"
| "as_string _ = None"

fun as_number :: "jsv \<Rightarrow> rat option" where
  "as_number (JNum q) = Some q"
| "as_number _ = None"

fun as_array :: "jsv \<Rightarrow> jsv list option" where
  "as_array (JArr vs) = Some vs"
| "as_array _ = None"

text \<open>\<open>Object.entries(v)\<close> of an object or array; nothing for other values.\<close>

definition js_entries :: "jsv \<Rightarrow> jobj option" where
  "js_entries value =
     (case value of
        JObj kvs \<Rightarrow> Some kvs
      | JArr vs \<Rightarrow> Some (zip (map show_nat [0..<length vs]) vs)
      | _ \<Rightarrow> None)"

definition nullish :: "jsv \<Rightarrow> bool" where
  "nullish v \<longleftrightarrow> v = JUndefined \<or> v = JNull"

text \<open>\<open>a ?? b\<close> on results that may be missing.\<close>

definition or_else :: "'a option \<Rightarrow> 'a option \<Rightarrow> 'a option" where
  "or_else a b = (case a of Some x \<Rightarrow> Some x | None \<Rightarrow> b)"

definition with_default :: "'a option \<Rightarrow> 'a \<Rightarrow> 'a" where
  "with_default a d = (case a of Some x \<Rightarrow> x | None \<Rightarrow> d)"

lemma with_default_simps [simp]: "with_default (Some x) d = x" "with_default None d = d"
  by (simp_all add: with_default_def)

lemma or_else_simps [simp]: "or_else (Some x) b = Some x" "or_else None b = b"
  by (simp_all add: or_else_def)

section \<open>Numbers as text\<close>

fun frac_digits :: "nat \<Rightarrow> rat \<Rightarrow> string" where
  "frac_digits 0 r = []"
| "frac_digits (Suc n) r =
     (if r = 0 then []
      else digit_char (nat \<lfloor>10 * r\<rfloor>) # frac_digits n (10 * r - of_int \<lfloor>10 * r\<rfloor>))"

definition show_num :: "rat \<Rightarrow> string" where
  "show_num q =
     (if of_int \<lfloor>q\<rfloor> = q then show_int \<lfloor>q\<rfloor>
      else (if q < 0 then ''-'' else '''') @ show_nat (nat \<lfloor>\<bar>q\<bar>\<rfloor>) @ ''.''
        @ frac_digits 17 (\<bar>q\<bar> - of_int \<lfloor>\<bar>q\<bar>\<rfloor>))"

section \<open>JSON.stringify\<close>

definition hex_digit :: "nat \<Rightarrow> char" where
  "hex_digit d = (if d < 10 then char_of (48 + d) else char_of (87 + d))"

definition escape_char :: "char \<Rightarrow> string" where
  "escape_char c =
     (if c = CHR 0x22 then [CHR 0x5C, CHR 0x22]
      else if c = CHR 0x5C then [CHR 0x5C, CHR 0x5C]
      else if c = CHR 0x08 then [CHR 0x5C, CHR ''b'']
      else if c = CHR 0x0C then [CHR 0x5C, CHR ''f'']
      else if c = CHR 0x0A then [CHR 0x5C, CHR ''n'']
      else if c = CHR 0x0D then [CHR 0x5C, CHR ''r'']
      else if c = CHR 0x09 then [CHR 0x5C, CHR ''t'']
      else if (of_char c :: nat) < 32
        then [CHR 0x5C, CHR ''u'', CHR ''0'', CHR ''0'',
              hex_digit (of_char c div 16), hex_digit (of_char c mod 16)]
      else [c])"

definition quote :: "string \<Rightarrow> string" where
  "quote s = CHR 0x22 # concat (map escape_char s) @ [CHR 0x22]"

lemma size_member_snd: "(k, v) \<in> set kvs \<Longrightarrow> size v < Suc (size_list (size_prod size size) kvs)"
  by (induction kvs) auto

text \<open>The text of a value inside an array or a property, where \<open>undefined\<close> reads \<open>null\<close>.\<close>

function (sequential) json_text :: "jsv \<Rightarrow> string" where
  "json_text JUndefined = ''null''"
| "json_text JNull = ''null''"
| "json_text (JBool b) = (if b then ''true'' else ''false'')"
| "json_text (JNum q) = show_num q"
| "json_text (JStr s) = quote s"
| "json_text (JArr vs) = ''['' @ join '','' (map json_text vs) @ '']''"
| "json_text (JObj kvs) =
     ''{'' @ join '','' (map (\<lambda>(k, v). quote k @ '':'' @ json_text v)
       (filter (\<lambda>(k, v). v \<noteq> JUndefined) kvs)) @ ''}''"
  by pat_completeness auto
termination
  by (relation "measure size") (auto simp: less_Suc_eq_le size_list_estimation' dest: size_member_snd)

definition json_stringify :: "jsv \<Rightarrow> string option" where
  "json_stringify v = (if v = JUndefined then None else Some (json_text v))"

section \<open>JSON.parse\<close>

definition skip_ws :: "string \<Rightarrow> string" where
  "skip_ws s = dropWhile (\<lambda>c. c = CHR 0x20 \<or> c = CHR 0x09 \<or> c = CHR 0x0A \<or> c = CHR 0x0D) s"

definition hex_val :: "char \<Rightarrow> nat option" where
  "hex_val c = (let n = of_char c :: nat in
     if 48 \<le> n \<and> n \<le> 57 then Some (n - 48)
     else if 97 \<le> n \<and> n \<le> 102 then Some (n - 87)
     else if 65 \<le> n \<and> n \<le> 70 then Some (n - 55)
     else None)"

fun hex4 :: "string \<Rightarrow> (nat \<times> string) option" where
  "hex4 (a # b # c # d # s) =
     (case (hex_val a, hex_val b, hex_val c, hex_val d) of
        (Some w, Some x, Some y, Some z) \<Rightarrow> Some (((w * 16 + x) * 16 + y) * 16 + z, s)
      | _ \<Rightarrow> None)"
| "hex4 _ = None"

definition utf8 :: "nat \<Rightarrow> string" where
  "utf8 n =
     (if n < 128 then [char_of n]
      else if n < 2048 then [char_of (192 + n div 64), char_of (128 + n mod 64)]
      else if n < 65536
        then [char_of (224 + n div 4096), char_of (128 + n div 64 mod 64), char_of (128 + n mod 64)]
      else [char_of (240 + n div 262144), char_of (128 + n div 4096 mod 64),
            char_of (128 + n div 64 mod 64), char_of (128 + n mod 64)])"

text \<open>The low half of a surrogate pair, if the text goes on with one.\<close>

fun low_surrogate :: "string \<Rightarrow> (nat \<times> string) option" where
  "low_surrogate (a # b # s) =
     (if a = CHR 0x5C \<and> b = CHR ''u''
      then (case hex4 s of
              Some (n, r) \<Rightarrow> if 0xDC00 \<le> n \<and> n < 0xE000 then Some (n, r) else None
            | None \<Rightarrow> None)
      else None)"
| "low_surrogate _ = None"

definition decode_unicode :: "string \<Rightarrow> (string \<times> string) option" where
  "decode_unicode s =
     (case hex4 s of
        None \<Rightarrow> None
      | Some (n, r) \<Rightarrow>
          (if 0xD800 \<le> n \<and> n < 0xDC00
           then (case low_surrogate r of
                   Some (m, r') \<Rightarrow> Some (utf8 (0x10000 + (n - 0xD800) * 1024 + (m - 0xDC00)), r')
                 | None \<Rightarrow> Some (utf8 n, r))
           else Some (utf8 n, r)))"

fun decode_escape :: "string \<Rightarrow> (string \<times> string) option" where
  "decode_escape [] = None"
| "decode_escape (e # s) =
     (if e = CHR 0x22 \<or> e = CHR 0x5C \<or> e = CHR ''/'' then Some ([e], s)
      else if e = CHR ''b'' then Some ([CHR 0x08], s)
      else if e = CHR ''f'' then Some ([CHR 0x0C], s)
      else if e = CHR ''n'' then Some ([CHR 0x0A], s)
      else if e = CHR ''r'' then Some ([CHR 0x0D], s)
      else if e = CHR ''t'' then Some ([CHR 0x09], s)
      else if e = CHR ''u'' then decode_unicode s
      else None)"

lemma hex4_length: "hex4 s = Some (n, r) \<Longrightarrow> length r < length s"
  by (induction s rule: hex4.induct) (auto split: option.splits)

lemma low_surrogate_length: "low_surrogate s = Some (n, r) \<Longrightarrow> length r < length s"
  by (induction s rule: low_surrogate.induct)
    (auto split: option.splits if_splits dest: hex4_length)

lemma decode_unicode_length: "decode_unicode s = Some (t, r) \<Longrightarrow> length r < length s"
  by (auto simp: decode_unicode_def split: option.splits if_splits
      dest!: hex4_length low_surrogate_length)

lemma decode_escape_length: "decode_escape s = Some (t, r) \<Longrightarrow> length r < length s"
  by (cases s) (auto split: if_splits dest: decode_unicode_length)

text \<open>The rest of a string literal after its opening quote.\<close>

function string_body :: "string \<Rightarrow> (string \<times> string) option" where
  "string_body s =
     (case s of
        [] \<Rightarrow> None
      | c # r \<Rightarrow>
          (if c = CHR 0x22 then Some ([], r)
           else if c = CHR 0x5C
           then (case decode_escape r of
                   None \<Rightarrow> None
                 | Some (t, r') \<Rightarrow> map_option (\<lambda>(u, r''). (t @ u, r'')) (string_body r'))
           else if (of_char c :: nat) < 32 then None
           else map_option (\<lambda>(u, r''). (c # u, r'')) (string_body r)))"
  by pat_completeness auto
termination
  by (relation "measure length") (auto dest: decode_escape_length)

declare string_body.simps [simp del]

lemma string_body_Nil [simp]: "string_body [] = None"
  by (subst string_body.simps) simp

lemma string_body_Cons [simp]:
  "string_body (c # r) =
     (if c = CHR 0x22 then Some ([], r)
      else if c = CHR 0x5C
      then (case decode_escape r of
              None \<Rightarrow> None
            | Some (t, r') \<Rightarrow> map_option (\<lambda>(u, r''). (t @ u, r'')) (string_body r'))
      else if (of_char c :: nat) < 32 then None
      else map_option (\<lambda>(u, r''). (c # u, r'')) (string_body r))"
  by (subst string_body.simps) simp

lemma string_body_length: "string_body s = Some (t, r) \<Longrightarrow> length r < length s"
proof (induction s arbitrary: t rule: string_body.induct)
  case (1 s)
  show ?case
  proof (cases s)
    case Nil
    with "1.prems" show ?thesis by simp
  next
    case s: (Cons c cs)
    consider "c = CHR 0x22" | "c = CHR 0x5C" | "c \<noteq> CHR 0x22" "c \<noteq> CHR 0x5C" by blast
    then show ?thesis
    proof cases
      case 1
      with "1.prems" s show ?thesis by simp
    next
      case 2
      with "1.prems" s obtain u v w where d: "decode_escape cs = Some (u, v)"
        and b: "string_body v = Some (w, r)"
        by (auto split: option.splits)
      from "1.IH"(1) [OF s _ _ d refl b] 2 have "length r < length v" by simp
      with decode_escape_length [OF d] s show ?thesis by simp
    next
      case 3
      with "1.prems" s obtain w where c: "\<not> (of_char c :: nat) < 32"
        and b: "string_body cs = Some (w, r)"
        by (auto split: if_splits)
      from "1.IH"(2) [OF s _ _ c b] 3 s show ?thesis by simp
    qed
  qed
qed

definition digit_run :: "string \<Rightarrow> string \<times> string" where
  "digit_run s = (takeWhile is_digit s, dropWhile is_digit s)"

definition int_part :: "string \<Rightarrow> (nat \<times> string) option" where
  "int_part s =
     (case s of
        [] \<Rightarrow> None
      | c # r \<Rightarrow>
          if c = CHR ''0'' then Some (0, r)
          else if is_digit c then Some (digits_val (fst (digit_run s)), snd (digit_run s))
          else None)"

text \<open>A fraction adds its digits to the mantissa: \<open>(digits, how many, rest)\<close>.\<close>

definition frac_part :: "string \<Rightarrow> (string \<times> string) option" where
  "frac_part s =
     (case s of
        c # r \<Rightarrow>
          if c = CHR ''.''
          then (if fst (digit_run r) = [] then None else Some (digit_run r))
          else Some ([], s)
      | [] \<Rightarrow> Some ([], []))"

definition exp_part :: "string \<Rightarrow> (int \<times> string) option" where
  "exp_part s =
     (case s of
        c # r \<Rightarrow>
          if c = CHR ''e'' \<or> c = CHR ''E''
          then (let neg = (starts_with r ''-'');
                    r' = (if neg \<or> starts_with r ''+'' then tl r else r);
                    ds = digit_run r'
                in if fst ds = [] then None
                   else Some ((if neg then - 1 else 1) * int (digits_val (fst ds)), snd ds))
          else Some (0, s)
      | [] \<Rightarrow> Some (0, []))"

definition pow10 :: "int \<Rightarrow> rat" where
  "pow10 e = (if 0 \<le> e then 10 ^ nat e else 1 / 10 ^ nat (- e))"

definition parse_number :: "string \<Rightarrow> (rat \<times> string) option" where
  "parse_number s =
     (let neg = starts_with s ''-''; s1 = (if neg then tl s else s) in
      case int_part s1 of
        None \<Rightarrow> None
      | Some (i, s2) \<Rightarrow>
          (case frac_part s2 of
             None \<Rightarrow> None
           | Some (fs, s3) \<Rightarrow>
               (case exp_part s3 of
                  None \<Rightarrow> None
                | Some (e, s4) \<Rightarrow>
                    Some ((if neg then - 1 else 1)
                      * (of_nat i + of_nat (digits_val fs) / 10 ^ length fs) * pow10 e, s4))))"

fun parse_value :: "nat \<Rightarrow> string \<Rightarrow> (jsv \<times> string) option"
  and parse_elements :: "nat \<Rightarrow> string \<Rightarrow> (jsv list \<times> string) option"
  and parse_members :: "nat \<Rightarrow> jobj \<Rightarrow> string \<Rightarrow> (jobj \<times> string) option" where
  "parse_value 0 s = None"
| "parse_value (Suc n) s =
     (case skip_ws s of
        [] \<Rightarrow> None
      | c # r \<Rightarrow>
          if c = CHR 0x22 then map_option (map_prod JStr id) (string_body r)
          else if c = CHR ''[''
          then (if starts_with (skip_ws r) '']'' then Some (JArr [], tl (skip_ws r))
                else map_option (map_prod JArr id) (parse_elements n r))
          else if c = CHR ''{''
          then (if starts_with (skip_ws r) ''}'' then Some (JObj [], tl (skip_ws r))
                else map_option (map_prod JObj id) (parse_members n [] r))
          else if starts_with (c # r) ''true'' then Some (JBool True, drop 4 (c # r))
          else if starts_with (c # r) ''false'' then Some (JBool False, drop 5 (c # r))
          else if starts_with (c # r) ''null'' then Some (JNull, drop 4 (c # r))
          else map_option (map_prod JNum id) (parse_number (c # r)))"
| "parse_elements 0 s = None"
| "parse_elements (Suc n) s =
     (case parse_value n s of
        None \<Rightarrow> None
      | Some (v, r) \<Rightarrow>
          (case skip_ws r of
             [] \<Rightarrow> None
           | c # r' \<Rightarrow>
               if c = CHR '','' then map_option (map_prod (\<lambda>vs. v # vs) id) (parse_elements n r')
               else if c = CHR '']'' then Some ([v], r')
               else None))"
| "parse_members 0 acc s = None"
| "parse_members (Suc n) acc s =
     (case skip_ws s of
        [] \<Rightarrow> None
      | q # r \<Rightarrow>
          if q \<noteq> CHR 0x22 then None
          else (case string_body r of
             None \<Rightarrow> None
           | Some (k, r1) \<Rightarrow>
               if \<not> starts_with (skip_ws r1) '':'' then None
               else (case parse_value n (tl (skip_ws r1)) of
                  None \<Rightarrow> None
                | Some (v, r2) \<Rightarrow>
                    (case skip_ws r2 of
                       [] \<Rightarrow> None
                     | c # r3 \<Rightarrow>
                         if c = CHR '','' then parse_members n (obj_set k v acc) r3
                         else if c = CHR ''}'' then Some (obj_set k v acc, r3)
                         else None))))"

definition json_parse :: "string \<Rightarrow> jsv option" where
  "json_parse s =
     (case parse_value (2 * length s + 2) s of
        Some (v, r) \<Rightarrow> if skip_ws r = [] then Some v else None
      | None \<Rightarrow> None)"

end
