(* ===== verification/AgUiContent.thy ===== *)
theory AgUiContent
  imports JsValue
begin

text \<open>
  Rendering of structured message content (\<open>api/agUiContent.ts\<close>), the ordered parts of a
  message and the JSON patches of \<open>api/agUiReducerUtilities.ts\<close>.  A mutable JSON tree that
  the code patches in place is rebuilt here along the patch's path: after \<open>cloneJson\<close> nothing
  else refers to it.
\<close>

section \<open>Rendering\<close>

definition lower_char :: "char \<Rightarrow> char" where
  "lower_char c = (let n = of_char c :: nat in if 65 \<le> n \<and> n \<le> 90 then char_of (n + 32) else c)"

definition ascii_alnum :: "char \<Rightarrow> bool" where
  "ascii_alnum c = (let n = of_char c :: nat in
     (48 \<le> n \<and> n \<le> 57) \<or> (65 \<le> n \<and> n \<le> 90) \<or> (97 \<le> n \<and> n \<le> 122))"

text \<open>\<open>type.replace(/[^a-z0-9]/gi, '').toLowerCase()\<close>\<close>

definition contentType :: "jobj \<Rightarrow> string option" where
  "contentType entry =
     map_option (\<lambda>t. map lower_char (filter ascii_alnum t)) (nonEmptyString (prop_of entry ''type''))"

definition first_string :: "jobj \<Rightarrow> string list \<Rightarrow> string option" where
  "first_string entry ks =
     foldr (\<lambda>k rest. or_else (nonEmptyString (prop_of entry k)) rest) ks None"

definition renderImage :: "jobj \<Rightarrow> string list" where
  "renderImage entry =
     (let url = first_string entry [''url'', ''imageUrl'', ''image_url''];
          dat = nonEmptyString (prop_of entry ''data'');
          mime = first_string entry [''mimeType'', ''mime_type''];
          source = (case url of Some u \<Rightarrow> Some u
            | None \<Rightarrow> (case (dat, mime) of
                (Some d, Some m) \<Rightarrow> Some (''data:'' @ m @ '';base64,'' @ d)
              | _ \<Rightarrow> None))
      in case source of Some s \<Rightarrow> [''[image: '' @ s @ '']''] | None \<Rightarrow> [''[image]''])"

definition renderAudio :: "jobj \<Rightarrow> string list" where
  "renderAudio entry =
     [''[audio'' @ (case first_string entry [''mimeType'', ''mime_type''] of
        Some m \<Rightarrow> '': '' @ m | None \<Rightarrow> '''') @ '']'']"

definition renderResourceLink :: "jobj \<Rightarrow> string list" where
  "renderResourceLink entry =
     (case nonEmptyString (prop_of entry ''uri'') of
        None \<Rightarrow> []
      | Some uri \<Rightarrow>
          [''[file: '' @ uri @ '']''
            @ (case nonEmptyString (prop_of entry ''name'') of
                 Some name \<Rightarrow> if name \<noteq> uri then '' '' @ name else ''''
               | None \<Rightarrow> '''')])"

definition renderResource :: "jobj \<Rightarrow> string list" where
  "renderResource entry =
     (let resource = js_record (prop_of entry ''resource'')
      in (case nonEmptyString (opt_prop resource ''uri'') of
            Some uri \<Rightarrow> ''[resource: '' @ uri @ '']'' | None \<Rightarrow> ''[resource]'')
         # (case nonEmptyString (opt_prop resource ''text'') of Some t \<Rightarrow> [t] | None \<Rightarrow> []))"

definition renderLocation :: "jobj \<Rightarrow> string list" where
  "renderLocation entry =
     (case nonEmptyString (prop_of entry ''path'') of
        None \<Rightarrow> []
      | Some path \<Rightarrow>
          [''[location: '' @ path
            @ (case as_number (prop_of entry ''line'') of
                 Some n \<Rightarrow> if n \<noteq> 0 then '':'' @ show_num n else ''''
               | None \<Rightarrow> '''') @ '']''])"

definition nestedKeys :: "string list" where
  "nestedKeys = [''content'', ''structuredContent'', ''structured_content'', ''locations'',
     ''result'', ''output'']"

text \<open>The values of those keys of an object that it has, in the keys' order.\<close>

definition present_values :: "jobj \<Rightarrow> string list \<Rightarrow> jsv list" where
  "present_values entry ks =
     concat (map (\<lambda>k. case map_of entry k of Some v \<Rightarrow> [v] | None \<Rightarrow> []) ks)"

function renderStructuredContent :: "jsv \<Rightarrow> nat \<Rightarrow> string list" where
  "renderStructuredContent value depth =
     (if depth > 4 \<or> nullish value then []
      else case value of
        JArr vs \<Rightarrow> concat (map (\<lambda>v. renderStructuredContent v (depth + 1)) vs)
      | JStr s \<Rightarrow> (if trim s \<noteq> [] then [s] else [])
      | JObj entry \<Rightarrow>
          (let type = contentType entry in
           if type = Some ''text''
           then (case prop_of entry ''text'' of
                   JStr t \<Rightarrow> if trim t \<noteq> [] then [t] else [] | _ \<Rightarrow> [])
           else if type = Some ''image'' then renderImage entry
           else if type = Some ''audio'' then renderAudio entry
           else if type = Some ''resourcelink'' then renderResourceLink entry
           else if type = Some ''resource'' then renderResource entry
           else if type = Some ''content''
           then renderStructuredContent (prop_of entry ''content'') (depth + 1)
           else if type = Some ''diff''
           then (''[diff: '' @ with_default (nonEmptyString (prop_of entry ''path'')) ''file'' @ '']'')
             # concat (map (\<lambda>v. renderStructuredContent v (depth + 1))
                 [prop_of entry ''oldText'', prop_of entry ''newText''])
           else if type = Some ''terminal''
           then (''[terminal'' @ (case first_string entry [''terminalId'', ''terminal_id''] of
                   Some t \<Rightarrow> '': '' @ t | None \<Rightarrow> '''') @ '']'')
             # concat (map (\<lambda>v. renderStructuredContent v (depth + 1))
                 (present_values entry [''output'', ''content'']))
           else (let nested = concat (map (\<lambda>v. renderStructuredContent v (depth + 1))
                       (present_values entry nestedKeys))
                 in if nested \<noteq> [] then nested else renderLocation entry))
      | _ \<Rightarrow> [])"
  by pat_completeness auto
termination
  by (relation "measure (\<lambda>(value, depth). 5 - depth)") auto

declare renderStructuredContent.simps [simp del]

text \<open>Nothing is printed for \<open>undefined\<close>, which \<open>JSON.stringify\<close> does not print either.\<close>

definition renderAgUiCustomContent :: "jsv \<Rightarrow> string option" where
  "renderAgUiCustomContent value =
     (let structured = renderStructuredContent value 0 in
      if structured \<noteq> [] then Some (join [CHR 0x0A] structured)
      else case value of JStr s \<Rightarrow> Some s | _ \<Rightarrow> json_stringify value)"

section \<open>Ordered parts\<close>

definition isChatMessagePart :: "jsv \<Rightarrow> bool" where
  "isChatMessagePart value =
     (case js_record value of
        None \<Rightarrow> False
      | Some part \<Rightarrow>
          (case as_string (prop_of part ''type'') of
             None \<Rightarrow> False
           | Some type \<Rightarrow>
               if type = ''text'' then as_string (prop_of part ''text'') \<noteq> None
               else if type = ''image'' \<or> type = ''audio'' then True
               else if type = ''resourceLink'' then as_string (prop_of part ''uri'') \<noteq> None
               else type = ''resource'' \<and> js_record (prop_of part ''resource'') \<noteq> None))"

text \<open>The text of a text part, \<open>null\<close> for anything else.\<close>

definition text_of_part :: "jsv \<Rightarrow> string option" where
  "text_of_part part =
     (case js_record part of
        Some r \<Rightarrow> if prop_of r ''type'' = JStr ''text'' then as_string (prop_of r ''text'') else None
      | None \<Rightarrow> None)"

definition text_part :: "string \<Rightarrow> jsv" where
  "text_part t = JObj [(''type'', JStr ''text''), (''text'', JStr t)]"

definition appendOrderedPart :: "jsv list \<Rightarrow> jsv \<Rightarrow> jsv list" where
  "appendOrderedPart parts part =
     (case text_of_part part of
        None \<Rightarrow> if isChatMessagePart part then parts @ [part] else parts
      | Some t \<Rightarrow>
          if t = [] then parts
          else (case (if parts = [] then None else text_of_part (last parts)) of
             Some p \<Rightarrow> butlast parts @ [text_part (p @ t)]
           | None \<Rightarrow> parts @ [text_part t]))"

definition renderOrderedParts :: "jsv list \<Rightarrow> string" where
  "renderOrderedParts parts =
     join_nonempty [CHR 0x0A] (map (\<lambda>p. with_default (renderAgUiCustomContent p) []) parts)"

section \<open>JSON patches\<close>

text \<open>\<open>JSON.parse(JSON.stringify(v))\<close>: \<open>undefined\<close> properties go, \<open>undefined\<close> elements are \<open>null\<close>.\<close>

function (sequential) clone_inner :: "jsv \<Rightarrow> jsv" where
  "clone_inner JUndefined = JNull"
| "clone_inner (JArr vs) = JArr (map clone_inner vs)"
| "clone_inner (JObj kvs) =
     JObj (map (\<lambda>(k, v). (k, clone_inner v)) (filter (\<lambda>(k, v). v \<noteq> JUndefined) kvs))"
| "clone_inner v = v"
  by pat_completeness auto
termination
  by (relation "measure size") (auto simp: less_Suc_eq_le size_list_estimation' dest: size_member_snd)

definition cloneJson :: "jsv \<Rightarrow> jsv" where
  "cloneJson v = (if v = JUndefined then JUndefined else clone_inner v)"

definition unescapePointer :: "string \<Rightarrow> string" where
  "unescapePointer s = replace_all ''~0'' ''~'' (replace_all ''~1'' ''/'' s)"

text \<open>\<open>Number.parseInt(s, 10)\<close>, where nothing stands for \<open>NaN\<close>.\<close>

definition parse_int :: "string \<Rightarrow> int option" where
  "parse_int s =
     (let t = trim_start s; neg = starts_with t ''-'';
          u = (if neg \<or> starts_with t ''+'' then tl t else t); ds = fst (digit_run u)
      in if ds = [] then None
         else Some ((if neg then - 1 else 1) * int (digits_val ds)))"

text \<open>\<open>xs.splice(i, 1)\<close> and \<open>xs.splice(i, 0, v)\<close>: a negative start counts from the end.\<close>

definition splice_start :: "'a list \<Rightarrow> int \<Rightarrow> nat" where
  "splice_start xs i =
     (if i < 0 then nat (max 0 (int (length xs) + i)) else min (nat i) (length xs))"

definition splice_remove :: "int \<Rightarrow> 'a list \<Rightarrow> 'a list" where
  "splice_remove i xs = (let k = splice_start xs i in take k xs @ drop (Suc k) xs)"

definition splice_insert :: "int \<Rightarrow> 'a \<Rightarrow> 'a list \<Rightarrow> 'a list" where
  "splice_insert i v xs = (let k = splice_start xs i in take k xs @ v # drop k xs)"

text \<open>
  \<open>xs[i] = v\<close>: beyond the end the array grows with holes; a negative index sets a property
  that only a later patch through the same negative index could read, and that is not kept here.
\<close>

definition array_assign :: "int \<Rightarrow> jsv \<Rightarrow> jsv list \<Rightarrow> jsv list" where
  "array_assign i v xs =
     (if i < 0 then xs
      else if nat i < length xs then xs[nat i := v]
      else xs @ replicate (nat i - length xs) JUndefined @ [v])"

text \<open>The patch of one container at its last segment.\<close>

definition patch_container :: "string \<Rightarrow> string \<Rightarrow> jsv \<Rightarrow> jsv \<Rightarrow> jsv" where
  "patch_container op key value parent =
     (case parent of
        JArr xs \<Rightarrow>
          (case (if key = ''-'' then Some (int (length xs)) else parse_int key) of
             None \<Rightarrow> parent
           | Some i \<Rightarrow>
               if op = ''remove'' then JArr (splice_remove i xs)
               else if op = ''add'' then JArr (splice_insert i (cloneJson value) xs)
               else if op = ''replace'' then JArr (array_assign i (cloneJson value) xs)
               else parent)
      | JObj kvs \<Rightarrow>
          (if op = ''remove'' then JObj (AList.delete key kvs)
           else if op = ''add'' \<or> op = ''replace'' then JObj (obj_set key (cloneJson value) kvs)
           else parent)
      | _ \<Rightarrow> parent)"

text \<open>\<open>getPatchParent\<close>, with the change made to the parent it finds.\<close>

fun patch_at :: "string list \<Rightarrow> (jsv \<Rightarrow> jsv) \<Rightarrow> jsv \<Rightarrow> jsv" where
  "patch_at [] f v = f v"
| "patch_at (seg # segs) f (JArr xs) =
     (case parse_int seg of
        Some i \<Rightarrow>
          if 0 \<le> i \<and> nat i < length xs then JArr (xs[nat i := patch_at segs f (xs ! nat i)])
          else JArr xs
      | None \<Rightarrow> JArr xs)"
| "patch_at (seg # segs) f (JObj kvs) =
     (case map_of kvs seg of
        Some v \<Rightarrow> JObj (AList.update seg (patch_at segs f v) kvs)
      | None \<Rightarrow> JObj kvs)"
| "patch_at (seg # segs) f v = v"

fun getPatchParent :: "jsv \<Rightarrow> string list \<Rightarrow> jsv" where
  "getPatchParent v [] = v"
| "getPatchParent (JArr xs) (seg # segs) =
     getPatchParent
       (case parse_int seg of
          Some i \<Rightarrow> if 0 \<le> i \<and> nat i < length xs then xs ! nat i else JUndefined
        | None \<Rightarrow> JUndefined) segs"
| "getPatchParent (JObj kvs) (seg # segs) = getPatchParent (prop_of kvs seg) segs"
| "getPatchParent v (seg # segs) = JNull"

text \<open>\<open>path.split('/').slice(1).map(unescapePointer)\<close>\<close>

definition pointer_segments :: "string \<Rightarrow> string list" where
  "pointer_segments path = map unescapePointer (tl (split_on CHR ''/'' path))"

definition apply_operation :: "jsv \<Rightarrow> jsv \<Rightarrow> jsv" where
  "apply_operation operation document =
     (let patch = js_record operation;
          op = nonEmptyString (opt_prop patch ''op'');
          path = as_string (opt_prop patch ''path'');
          value = opt_prop patch ''value''
      in case (op, path) of
        (Some op, Some path) \<Rightarrow>
          (let segments = pointer_segments path in
           if segments = []
           then (if op = ''replace'' \<or> op = ''add'' then cloneJson value
                 else if op = ''remove'' then JNull else document)
           else patch_at (butlast segments) (patch_container op (last segments) value) document)
      | _ \<Rightarrow> document)"

definition applyJsonPatch :: "jsv \<Rightarrow> jsv list \<Rightarrow> jsv" where
  "applyJsonPatch value operations =
     fold apply_operation operations (cloneJson (if nullish value then JObj [] else value))"

end
