(* ===== verification/JsText.thy ===== *)
theory JsText
  imports AgUiContent
begin

text \<open>
  Text as the code treats it: lines, white space, words, numbers read from text or written in base
  36, lengths in UTF-16 code units, and instants written as text.
\<close>

section \<open>Lines and words\<close>

definition newline :: string where "newline = [CHR 0x0A]"

definition split_lines :: "string \<Rightarrow> string list" where
  "split_lines s = split_on (CHR 0x0A) s"

definition unix_lines :: "string \<Rightarrow> string" where
  "unix_lines s = replace_all [CHR 0x0D, CHR 0x0A] newline s"

definition lower :: "string \<Rightarrow> string" where
  "lower s = map lower_char s"

text \<open>\<open>value.replace(/\s+/g, ' ')\<close>\<close>

function collapse_spaces :: "string \<Rightarrow> string" where
  "collapse_spaces s =
     (case s of [] \<Rightarrow> []
      | c # cs \<Rightarrow>
          if leading_unit white_space s = None then c # collapse_spaces cs
          else CHR '' '' # collapse_spaces (trim_start s))"
  by pat_completeness auto
termination
proof (relation "measure length")
  fix s c cs assume "s = c # cs" "leading_unit white_space s \<noteq> None"
  then obtain u where u: "leading_unit white_space s = Some u" by auto
  then have "strip_units white_space s = strip_units white_space (drop (length u) s)"
    by (subst strip_units.simps) simp
  moreover have "length (strip_units white_space (drop (length u) s)) \<le> length (drop (length u) s)"
    using suffix_length_le [OF suffix_strip_units] .
  moreover have "length (drop (length u) s) < length s"
    using leading_unit_Some [OF u] by (cases u) (auto simp: prefix_def)
  ultimately show "(trim_start s, s) \<in> measure length" by (simp add: trim_start_def)
qed auto

declare collapse_spaces.simps [simp del]

definition word_char :: "char \<Rightarrow> bool" where
  "word_char c \<longleftrightarrow> ascii_alnum c \<or> c = CHR ''_''"

text \<open>\<open>/^(w1|w2|...)\b/i\<close> for words that end in a letter.\<close>

definition starts_with_word :: "string list \<Rightarrow> string \<Rightarrow> bool" where
  "starts_with_word ws s =
     list_ex (\<lambda>w. starts_with (lower s) w
       \<and> (case drop (length w) s of [] \<Rightarrow> True | c # _ \<Rightarrow> \<not> word_char c)) ws"

definition line_terminators :: "string list" where
  "line_terminators =
     [[CHR 0x0A], [CHR 0x0D], [CHR 0xE2, CHR 0x80, CHR 0xA8], [CHR 0xE2, CHR 0x80, CHR 0xA9]]"

definition line_terminator_in :: "string \<Rightarrow> bool" where
  "line_terminator_in s = list_ex (has_substring s) line_terminators"

text \<open>What \<open>.*\<close> matches, and what is left after the end of that line.\<close>

fun take_line :: "string \<Rightarrow> string" where
  "take_line [] = []"
| "take_line (c # s) = (if leading_unit line_terminators (c # s) = None then c # take_line s else [])"

definition after_line :: "string \<Rightarrow> string" where
  "after_line s =
     (let r = drop (length (take_line s)) s in
      case leading_unit line_terminators r of Some u \<Rightarrow> drop (length u) r | None \<Rightarrow> [])"

lemma after_line_shorter: "s \<noteq> [] \<Longrightarrow> length (after_line s) < length s"
  by (auto simp: after_line_def Let_def split: option.splits dest!: leading_unit_Some)

text \<open>\<open>/^\[name:\s*(.+?)\]$/i\<close>, on a trimmed line\<close>

definition attachmentTag :: "string \<Rightarrow> string \<Rightarrow> bool" where
  "attachmentTag name line =
     (let opening = ''['' @ name @ '':'';
          inner = drop_last 1 (drop (length opening) line);
          title = trim_start inner
      in starts_with (lower line) opening \<and> ends_with line '']'' \<and> length opening < length line
         \<and> inner \<noteq> []
         \<and> (if title \<noteq> [] then \<not> line_terminator_in title
            else \<not> list_ex (ends_with inner) line_terminators))"


section \<open>Numbers\<close>

text \<open>\<open>Number(s)\<close> for a non-blank string: a decimal literal or a prefixed integer.\<close>

definition decimal_literal :: "string \<Rightarrow> rat option" where
  "decimal_literal s =
     (let ip = digit_run s;
          fp = (case snd ip of c # r \<Rightarrow> if c = CHR ''.'' then digit_run r else ([], snd ip)
                | [] \<Rightarrow> ([], []))
      in if fst ip = [] \<and> fst fp = [] then None
         else (case exp_part (snd fp) of
                 Some (e, []) \<Rightarrow> Some
                   ((of_nat (digits_val (fst ip)) + of_nat (digits_val (fst fp)) / 10 ^ length (fst fp))
                     * pow10 e)
               | _ \<Rightarrow> None))"

definition radix_literal :: "nat \<Rightarrow> string \<Rightarrow> rat option" where
  "radix_literal base s =
     (if s = [] then None
      else foldl (\<lambda>acc c. case (acc, hex_val c) of
             (Some n, Some d) \<Rightarrow> if d < base then Some (n * of_nat base + of_nat d) else None
           | _ \<Rightarrow> None) (Some 0) s)"

definition js_number :: "string \<Rightarrow> rat option" where
  "js_number s =
     (let t = trim s in
      case t of
        [] \<Rightarrow> Some 0
      | c # r \<Rightarrow>
          if c = CHR ''-'' then map_option uminus (decimal_literal r)
          else if c = CHR ''+'' then decimal_literal r
          else if starts_with t ''0x'' \<or> starts_with t ''0X'' then radix_literal 16 (drop 2 t)
          else if starts_with t ''0o'' \<or> starts_with t ''0O'' then radix_literal 8 (drop 2 t)
          else if starts_with t ''0b'' \<or> starts_with t ''0B'' then radix_literal 2 (drop 2 t)
          else decimal_literal t)"

definition trunc :: "rat \<Rightarrow> int" where
  "trunc q = (if q < 0 then \<lceil>q\<rceil> else \<lfloor>q\<rfloor>)"

fun base36 :: "nat \<Rightarrow> string" where
  "base36 n =
     (let d = char_of (if n mod 36 < 10 then 48 + n mod 36 else 87 + n mod 36)
      in if n < 36 then [d] else base36 (n div 36) @ [d])"

declare base36.simps [simp del]

text \<open>\<open>Number.isFinite\<close>: a larger number is read as an infinity.\<close>

definition finite_number :: "rat \<Rightarrow> bool" where
  "finite_number q \<longleftrightarrow> \<bar>q\<bar> < 2 ^ 1024 - 2 ^ 970"

section \<open>UTF-16 code units\<close>

text \<open>
  \<open>s.length\<close> counts code units: one for each character, two for one outside the basic plane, whose
  UTF-8 form has four bytes.  Continuation bytes count nothing.
\<close>

definition char_units :: "char \<Rightarrow> nat" where
  "char_units c = (let n = of_char c :: nat in
     if 128 \<le> n \<and> n < 192 then 0 else if 240 \<le> n then 2 else 1)"

definition units :: "string \<Rightarrow> nat" where
  "units s = sum_list (map char_units s)"

text \<open>\<open>s.slice(0, n)\<close>, which ends before a character that it would cut in half.\<close>

fun take_units :: "nat \<Rightarrow> string \<Rightarrow> string" where
  "take_units n [] = []"
| "take_units n (c # s) = (if char_units c \<le> n then c # take_units (n - char_units c) s else [])"

lemma units_simps [simp]: "units [] = 0" "units (c # s) = char_units c + units s"
  "units (s @ t) = units s + units t"
  by (simp_all add: units_def)

lemma units_take_units: "units (take_units n s) \<le> n"
  by (induction n s rule: take_units.induct) auto

lemma take_units_all: "units s \<le> n \<Longrightarrow> take_units n s = s"
  by (induction n s rule: take_units.induct) auto

text \<open>The first code unit of every character: \<open>for (const c of s) ... c.charCodeAt(0)\<close>.\<close>

definition low6 :: "char \<Rightarrow> nat" where
  "low6 c = of_char c mod 64"

fun char_codes :: "string \<Rightarrow> nat list" where
  "char_codes (a # b # c # d # s) =
     (let n = of_char a :: nat in
      if n < 128 then n # char_codes (b # c # d # s)
      else if n < 224 then (n mod 32 * 64 + low6 b) # char_codes (c # d # s)
      else if n < 240 then (n mod 16 * 4096 + low6 b * 64 + low6 c) # char_codes (d # s)
      else (0xD800 + (n mod 8 * 262144 + low6 b * 4096 + low6 c * 64 + low6 d - 0x10000) div 1024)
        # char_codes s)"
| "char_codes (a # b # c # []) =
     (let n = of_char a :: nat in
      if n < 128 then n # char_codes [b, c]
      else if n < 224 then (n mod 32 * 64 + low6 b) # char_codes [c]
      else [n mod 16 * 4096 + low6 b * 64 + low6 c])"
| "char_codes (a # b # []) =
     (let n = of_char a :: nat in
      if n < 128 then n # char_codes [b] else [n mod 32 * 64 + low6 b])"
| "char_codes [a] = [of_char a]"
| "char_codes [] = []"

section \<open>Instants\<close>

definition pad :: "nat \<Rightarrow> int \<Rightarrow> string" where
  "pad width n = (let s = show_nat (nat n) in replicate (width - length s) (CHR ''0'') @ s)"

text \<open>Year, month and day of a number of days since 1970-01-01.\<close>

definition civil_date :: "int \<Rightarrow> int \<times> int \<times> int" where
  "civil_date days =
     (let z = days + 719468;
          era = z div 146097;
          doe = z mod 146097;
          yoe = (doe - doe div 1460 + doe div 36524 - doe div 146096) div 365;
          doy = doe - (365 * yoe + yoe div 4 - yoe div 100);
          mp = (5 * doy + 2) div 153;
          d = doy - (153 * mp + 2) div 5 + 1;
          m = (if mp < 10 then mp + 3 else mp - 9)
      in (yoe + era * 400 + (if m \<le> 2 then 1 else 0), m, d))"

definition show_year :: "int \<Rightarrow> string" where
  "show_year y =
     (if 0 \<le> y \<and> y \<le> 9999 then pad 4 y
      else (if y < 0 then ''-'' else ''+'') @ pad 6 \<bar>y\<bar>)"

text \<open>\<open>new Date(ms).toISOString()\<close>\<close>

definition to_iso_string :: "int \<Rightarrow> string" where
  "to_iso_string ms =
     (let day = ms mod 86400000 in
      case civil_date (ms div 86400000) of (y, m, d) \<Rightarrow>
        show_year y @ ''-'' @ pad 2 m @ ''-'' @ pad 2 d @ ''T''
        @ pad 2 (day div 3600000) @ '':'' @ pad 2 (day div 60000 mod 60) @ '':''
        @ pad 2 (day div 1000 mod 60) @ ''.'' @ pad 3 (day mod 1000) @ ''Z'')"

text \<open>
  An instant is a number of milliseconds in the range of an ECMAScript time value;
  \<open>toISOString\<close> throws outside of it.
\<close>

definition time_value :: "int \<Rightarrow> bool" where
  "time_value ms \<longleftrightarrow> \<bar>ms\<bar> \<le> 8640000000000000"

text \<open>Days since 1970-01-01 of a date.\<close>

definition days_of_date :: "int \<Rightarrow> int \<Rightarrow> int \<Rightarrow> int" where
  "days_of_date y m d =
     (let y' = (if m \<le> 2 then y - 1 else y);
          era = y' div 400; yoe = y' mod 400;
          mp = (if m > 2 then m - 3 else m + 9);
          doy = (153 * mp + 2) div 5 + d - 1;
          doe = yoe * 365 + yoe div 4 - yoe div 100 + doy
      in era * 146097 + doe - 719468)"

text \<open>A number of exactly \<open>n\<close> digits, and the rest.\<close>

definition fixed_digits :: "nat \<Rightarrow> string \<Rightarrow> (int \<times> string) option" where
  "fixed_digits n s =
     (if n \<le> length s \<and> list_all is_digit (take n s)
      then Some (int (digits_val (take n s)), drop n s) else None)"

definition after_char :: "char \<Rightarrow> string \<Rightarrow> string option" where
  "after_char c s = (case s of x # r \<Rightarrow> if x = c then Some r else None | [] \<Rightarrow> None)"

text \<open>\<open>Date.parse\<close> of the form \<open>toISOString\<close> writes.\<close>

definition iso_year :: "string \<Rightarrow> (int \<times> string) option" where
  "iso_year s =
     (case s of
        [] \<Rightarrow> None
      | c # r \<Rightarrow>
          if c = CHR ''+'' then fixed_digits 6 r
          else if c = CHR ''-'' then map_option (\<lambda>(y, t). (- y, t)) (fixed_digits 6 r)
          else fixed_digits 4 s)"

definition iso_field :: "char \<Rightarrow> nat \<Rightarrow> string \<Rightarrow> (int \<times> string) option" where
  "iso_field c n s = Option.bind (after_char c s) (fixed_digits n)"

definition parse_iso :: "string \<Rightarrow> int option" where
  "parse_iso s =
     Option.bind (iso_year s) (\<lambda>(y, s1).
     Option.bind (iso_field (CHR ''-'') 2 s1) (\<lambda>(mo, s2).
     Option.bind (iso_field (CHR ''-'') 2 s2) (\<lambda>(d, s3).
     Option.bind (iso_field (CHR ''T'') 2 s3) (\<lambda>(h, s4).
     Option.bind (iso_field (CHR '':'') 2 s4) (\<lambda>(mi, s5).
     Option.bind (iso_field (CHR '':'') 2 s5) (\<lambda>(sec, s6).
     Option.bind (iso_field (CHR ''.'') 3 s6) (\<lambda>(ms, s7).
       let t = days_of_date y mo d * 86400000 + h * 3600000 + mi * 60000 + sec * 1000 + ms in
       if s7 = ''Z'' \<and> 1 \<le> mo \<and> mo \<le> 12 \<and> 1 \<le> d \<and> civil_date (days_of_date y mo d) = (y, mo, d)
          \<and> h < 24 \<and> mi < 60 \<and> sec < 60 \<and> time_value t
       then Some t else None)))))))"

text \<open>
  \<open>Date.parse\<close>.  \<open>other\<close> stands for the texts whose meaning depends on the engine or on the local
  time zone, and for the shorter ISO forms; nothing is \<open>NaN\<close>.
\<close>

definition date_parse :: "(string \<Rightarrow> int option) \<Rightarrow> string \<Rightarrow> int option" where
  "date_parse other s = (case parse_iso s of Some t \<Rightarrow> Some t | None \<Rightarrow> other s)"

end
