(* ===== verification/AgUiState.thy ===== *)
theory AgUiState
  imports JsText
begin

text \<open>
  The data of the AG-UI message reducer: chat messages (\<open>api/typesChat.ts\<close>,
  \<open>api/messages.ts\<close>), the state kept per thread (\<open>api/agUiMessagesState.ts\<close>) and the
  events (\<open>contracts/bridge-rpc/v2/ag-ui-event.schema.json\<close>).  An instant is a number of
  milliseconds within the range of an ECMAScript time value; the wall clock is an argument.
\<close>

definition timestampIso :: "int \<Rightarrow> int option \<Rightarrow> string" where
  "timestampIso now timestamp = to_iso_string (with_default timestamp now)"

section \<open>Messages\<close>

datatype messageRole =
  Developer | System | Assistant | User | Reasoning | Tool | Activity

record toolCall =
  tc_id :: string
  tc_name :: string
  tc_arguments :: string
  tc_encryptedValue :: "string option"

text \<open>
  The content of a message: text, nothing (an assistant message may have none), the parts of a
  user message, or the fields of an activity.  The last is any value, since a patch may replace
  the whole content; the code's readers throw on \<open>null\<close>, where these give no text.
\<close>

datatype messageContent =
    Text string
  | NoContent
  | ContentParts "jsv list"
  | Fields jsv

record chatMessage =
  cm_id :: string
  cm_role :: messageRole
  cm_content :: messageContent
  cm_name :: "string option"
  cm_toolCalls :: "toolCall list option"
  cm_toolCallId :: "string option"
  cm_activityType :: "string option"
  cm_encryptedValue :: "string option"
  cm_parts :: "jsv list option"
  cm_createdAt :: string

definition SUBAGENT_ACTIVITY_TYPE :: string where
  "SUBAGENT_ACTIVITY_TYPE = ''tethercode.subagent''"

definition COMPACTION_ACTIVITY_TYPE :: string where
  "COMPACTION_ACTIVITY_TYPE = ''tethercode.compaction''"

text \<open>A message with the fields every message has, and none of the optional ones.\<close>

definition plainMessage :: "string \<Rightarrow> messageRole \<Rightarrow> messageContent \<Rightarrow> string \<Rightarrow> chatMessage" where
  "plainMessage i role c created =
     \<lparr>cm_id = i, cm_role = role, cm_content = c, cm_name = None, cm_toolCalls = None,
      cm_toolCallId = None, cm_activityType = None, cm_encryptedValue = None, cm_parts = None,
      cm_createdAt = created\<rparr>"

definition text_content :: "messageContent \<Rightarrow> string" where
  "text_content c = (case c of Text s \<Rightarrow> s | _ \<Rightarrow> [])"

text \<open>The text of the parts whose type is \<open>text\<close>.\<close>

definition part_text :: "jsv \<Rightarrow> string list" where
  "part_text p = (case text_of_part p of Some t \<Rightarrow> [t] | None \<Rightarrow> [])"

definition getMessageText :: "chatMessage \<Rightarrow> string" where
  "getMessageText m =
     (case cm_role m of
        Activity \<Rightarrow>
          (case cm_content m of
             Fields v \<Rightarrow> with_default (as_string (opt_prop (js_record v) ''text'')) []
           | _ \<Rightarrow> [])
      | Assistant \<Rightarrow> text_content (cm_content m)
      | User \<Rightarrow>
          (case cm_content m of
             ContentParts ps \<Rightarrow> concat (concat (map part_text ps))
           | c \<Rightarrow> text_content c)
      | _ \<Rightarrow> text_content (cm_content m))"

definition getSubAgentMeta :: "chatMessage \<Rightarrow> jobj option" where
  "getSubAgentMeta m =
     (if cm_role m \<noteq> Activity \<or> cm_activityType m \<noteq> Some SUBAGENT_ACTIVITY_TYPE then None
      else case cm_content m of
        Fields v \<Rightarrow> toRecord (opt_prop (js_record v) ''subAgent'')
      | _ \<Rightarrow> None)"

definition bullet :: string where
  "bullet = [CHR 0xE2, CHR 0x80, CHR 0xA2, CHR '' '']"

definition getToolCallDisplayLines :: "chatMessage \<Rightarrow> string list" where
  "getToolCallDisplayLines m =
     (if cm_role m \<noteq> Assistant then []
      else map (\<lambda>call.
        let args = trim (tc_arguments call) in
        join_nonempty [CHR 0x0A]
          [bullet @ ''Called tool `'' @ tc_name call @ ''`'',
           if args \<noteq> [] \<and> args \<noteq> ''{}'' then ''  '' @ args else []])
        (with_default (cm_toolCalls m) []))"

definition createActivityMessage :: "string \<Rightarrow> string \<Rightarrow> jsv \<Rightarrow> string \<Rightarrow> chatMessage" where
  "createActivityMessage i activityType content created =
     (plainMessage i Activity (Fields content) created)\<lparr>cm_activityType := Some activityType\<rparr>"

section \<open>The state of a thread\<close>

record chunkAssembly =
  ca_count :: rat
  ca_chunks :: "(rat \<times> string) list"

datatype stepStatus = Running | Finished

record agUiThreadMessageState =
  ag_messages :: "chatMessage list"
  ag_authoritativeSnapshot :: bool
  ag_runByMessageId :: "(string \<times> string) list"
  ag_terminalMessageIds :: "string list"
  ag_replacesMessageIdByMessageId :: "(string \<times> string) list"
  ag_toolCallMessageIdByCallId :: "(string \<times> string) list"
  ag_toolResultMessageIdByCallId :: "(string \<times> string) list"
  ag_subagentToolCallIds :: "(string \<times> unit) list"
  ag_toolTextRevisionByCallId :: "(string \<times> string) list"
  ag_structuredRevisionByCallId :: "(string \<times> string) list"
  ag_structuredTextByCallId :: "(string \<times> string) list"
  ag_chunkAssemblies :: "(string \<times> chunkAssembly) list"
  ag_state :: jsv
  ag_steps :: "(string \<times> stepStatus) list"
  ag_rawEvents :: "(string option \<times> jsv) list"
  ag_customMetadata :: "(string \<times> jsv) list"
  ag_customMetadataOrder :: "string list"

definition MAX_MESSAGES_PER_THREAD :: nat where "MAX_MESSAGES_PER_THREAD = 128"

definition MAX_RAW_EVENTS_PER_THREAD :: nat where "MAX_RAW_EVENTS_PER_THREAD = 128"

definition MAX_CUSTOM_METADATA_ENTRIES :: nat where "MAX_CUSTOM_METADATA_ENTRIES = 128"

definition createAgUiThreadMessageState :: agUiThreadMessageState where
  "createAgUiThreadMessageState =
     \<lparr>ag_messages = [], ag_authoritativeSnapshot = False, ag_runByMessageId = [],
      ag_terminalMessageIds = [], ag_replacesMessageIdByMessageId = [],
      ag_toolCallMessageIdByCallId = [], ag_toolResultMessageIdByCallId = [],
      ag_subagentToolCallIds = [], ag_toolTextRevisionByCallId = [],
      ag_structuredRevisionByCallId = [], ag_structuredTextByCallId = [],
      ag_chunkAssemblies = [], ag_state = JNull, ag_steps = [], ag_rawEvents = [],
      ag_customMetadata = [], ag_customMetadataOrder = []\<rparr>"

section \<open>Events\<close>

datatype encryptedSubtype = EncryptedToolCall | EncryptedMessage

text \<open>
  A failed run has a message and maybe a code.  The last constructor stands for the schema's event types
  that the app does not support.
\<close>

datatype agUiEvent =
    RUN_STARTED string string
  | RUN_FINISHED string string
  | RUN_ERROR string "string option"
  | TEXT_MESSAGE_START string messageRole "string option" jsv
  | TEXT_MESSAGE_CONTENT string string
  | TEXT_MESSAGE_END string
  | TEXT_MESSAGE_CHUNK "string option" "messageRole option" "string option" "string option"
  | TOOL_CALL_START string string "string option"
  | TOOL_CALL_ARGS string string
  | TOOL_CALL_END string
  | TOOL_CALL_CHUNK "string option" "string option" "string option" "string option"
  | TOOL_CALL_RESULT string string string
  | STATE_SNAPSHOT jsv
  | STATE_DELTA "jsv list"
  | MESSAGES_SNAPSHOT "chatMessage list"
  | ACTIVITY_SNAPSHOT string string jobj
  | ACTIVITY_DELTA string string "jsv list"
  | RAW "string option" jsv
  | CUSTOM string jsv
  | STEP_STARTED string
  | STEP_FINISHED string
  | REASONING_START string
  | REASONING_MESSAGE_START string
  | REASONING_MESSAGE_CONTENT string string
  | REASONING_MESSAGE_END string
  | REASONING_MESSAGE_CHUNK "string option" "string option"
  | REASONING_END string
  | REASONING_ENCRYPTED_VALUE string string encryptedSubtype
  | UNSUPPORTED

record agUiEventEnvelope =
  en_threadId :: string
  en_runId :: string
  en_sourceTurnId :: "string option"
  en_event :: agUiEvent
  en_timestamp :: "int option"

record rpcNotification =
  rn_method :: string
  rn_params :: jsv
  rn_protocolVersion :: "int option"
  rn_streamId :: "string option"
  rn_eventId :: "int option"

text \<open>
  \<open>parse\<close> is \<open>EventSchemas.safeParse\<close> of the \<open>@ag-ui/core\<close> package: the event and its
  timestamp, or nothing.
\<close>

definition parseAgUiEventNotification ::
  "(jsv \<Rightarrow> (agUiEvent \<times> int option) option) \<Rightarrow> rpcNotification \<Rightarrow> agUiEventEnvelope option" where
  "parseAgUiEventNotification parse notification =
     (if rn_method notification \<noteq> ''bridge/agui.event'' then None
      else
        let params = js_record (rn_params notification) in
        case (nonEmptyString (opt_prop params ''threadId''),
              nonEmptyString (opt_prop params ''runId''),
              parse (opt_prop params ''event'')) of
          (Some threadId, Some runId, Some (event, timestamp)) \<Rightarrow>
            (let accepted =
               (case event of
                  UNSUPPORTED \<Rightarrow> False
                | RUN_STARTED t r \<Rightarrow> t = threadId \<and> r = runId
                | RUN_FINISHED t r \<Rightarrow> t = threadId \<and> r = runId
                | _ \<Rightarrow> True)
             in if accepted
                then Some \<lparr>en_threadId = threadId, en_runId = runId,
                  en_sourceTurnId = nonEmptyString (opt_prop params ''sourceTurnId''),
                  en_event = event, en_timestamp = timestamp\<rparr>
                else None)
        | _ \<Rightarrow> None)"

end
