(* ===== verification/AgUiReducer.thy ===== *)
theory AgUiReducer
  imports AgUiState
begin

text \<open>
  The AG-UI message reducer: \<open>api/agUiMessageMutations.ts\<close>,
  \<open>api/agUiToolAndCustomEventReducers.ts\<close>, \<open>api/agUiStructuredAndTerminalReducers.ts\<close>,
  \<open>api/agUiThreadEventReducer.ts\<close> and \<open>api/agUiMessagesReducerEntry.ts\<close>.  Every operation
  takes the wall clock \<open>now\<close> first.  Looking an id up with \<open>truthy_id\<close> is the code's
  truthiness test of the looked-up id, which the empty string fails.
\<close>

definition truthy_id :: "string option \<Rightarrow> string option" where
  "truthy_id i = (case i of Some s \<Rightarrow> if s = [] then None else Some s | None \<Rightarrow> None)"

section \<open>Message mutations\<close>

definition findMessage :: "agUiThreadMessageState \<Rightarrow> string \<Rightarrow> chatMessage option" where
  "findMessage current i = List.find (\<lambda>m. cm_id m = i) (ag_messages current)"

fun replace_first :: "('a \<Rightarrow> bool) \<Rightarrow> 'a \<Rightarrow> 'a list \<Rightarrow> 'a list" where
  "replace_first p y [] = []"
| "replace_first p y (x # xs) = (if p x then y # xs else x # replace_first p y xs)"

definition toolCall :: "string \<Rightarrow> string \<Rightarrow> string \<Rightarrow> toolCall" where
  "toolCall i name args =
     \<lparr>tc_id = i, tc_name = name, tc_arguments = args, tc_encryptedValue = None\<rparr>"

definition upsertToolCall :: "toolCall list \<Rightarrow> string \<Rightarrow> string \<Rightarrow> string \<Rightarrow> toolCall list" where
  "upsertToolCall calls i name args =
     (if \<exists>call \<in> set calls. tc_id call = i
      then replace_first (\<lambda>call. tc_id call = i) (toolCall i name args) calls
      else calls @ [toolCall i name args])"

definition rememberReplacement ::
  "agUiThreadMessageState \<Rightarrow> string \<Rightarrow> string option \<Rightarrow> agUiThreadMessageState" where
  "rememberReplacement current messageId replaces =
     (case replaces of
        None \<Rightarrow> current
      | Some r \<Rightarrow> current\<lparr>ag_replacesMessageIdByMessageId :=
          obj_set messageId r (ag_replacesMessageIdByMessageId current)\<rparr>)"

definition textMessage ::
  "int \<Rightarrow> string \<Rightarrow> messageRole \<Rightarrow> string \<Rightarrow> string option \<Rightarrow> chatMessage" where
  "textMessage now i role content name =
     (plainMessage i (if role \<in> {Developer, System, User} then role else Assistant)
       (Text content) (to_iso_string now))\<lparr>cm_name := truthy_id name\<rparr>"

definition upsertMessage ::
  "int \<Rightarrow> agUiThreadMessageState \<Rightarrow> chatMessage \<Rightarrow> string \<Rightarrow> int option
     \<Rightarrow> agUiThreadMessageState" where
  "upsertMessage now current message runId timestamp =
     (let existing = findMessage current (cm_id message);
          nextMessage = message\<lparr>cm_createdAt :=
            (case existing of Some e \<Rightarrow> cm_createdAt e | None \<Rightarrow> timestampIso now timestamp)\<rparr>;
          messages = (case existing of
            Some e \<Rightarrow> replace_first (\<lambda>m. cm_id m = cm_id message) nextMessage (ag_messages current)
          | None \<Rightarrow> ag_messages current @ [nextMessage])
      in current\<lparr>ag_messages := last_n MAX_MESSAGES_PER_THREAD messages,
           ag_runByMessageId := obj_set (cm_id message) runId (ag_runByMessageId current)\<rparr>)"

definition withText :: "chatMessage \<Rightarrow> string \<Rightarrow> chatMessage" where
  "withText message content =
     (case (cm_role message, cm_content message) of
        (Activity, Fields v) \<Rightarrow>
          message\<lparr>cm_content :=
            Fields (JObj (obj_set ''text'' (JStr content) (with_default (js_record v) [])))\<rparr>
      | (Activity, _) \<Rightarrow>
          message\<lparr>cm_content := Fields (JObj [(''text'', JStr content)])\<rparr>
      | _ \<Rightarrow> message\<lparr>cm_content := Text content\<rparr>)"

definition message_parts :: "chatMessage option \<Rightarrow> jsv list" where
  "message_parts m = with_default (Option.bind m cm_parts) []"

definition appendText ::
  "int \<Rightarrow> agUiThreadMessageState \<Rightarrow> string \<Rightarrow> string \<Rightarrow> string \<Rightarrow> int option \<Rightarrow> messageRole
     \<Rightarrow> agUiThreadMessageState" where
  "appendText now current messageId delta runId timestamp defaultRole =
     (let existing = findMessage current messageId in
      if defaultRole \<noteq> Reasoning \<and> map_option cm_role existing \<noteq> Some Reasoning
      then (let parts = appendOrderedPart (message_parts existing) (text_part delta);
                content = renderOrderedParts parts;
                message = (case existing of
                   Some e \<Rightarrow> (withText e content)\<lparr>cm_parts := Some parts\<rparr>
                 | None \<Rightarrow> (textMessage now messageId defaultRole content None)\<lparr>cm_parts := Some parts\<rparr>)
            in upsertMessage now current message runId timestamp)
      else (let content = (case existing of Some e \<Rightarrow> getMessageText e | None \<Rightarrow> []) @ delta in
            case existing of
              Some e \<Rightarrow> upsertMessage now current (withText e content) runId timestamp
            | None \<Rightarrow>
                if defaultRole = Reasoning
                then upsertMessage now current
                  (plainMessage messageId Reasoning (Text content) (timestampIso now timestamp))
                  runId timestamp
                else upsertMessage now current
                  (textMessage now messageId defaultRole content None) runId timestamp))"

definition upsertToolResult ::
  "int \<Rightarrow> agUiThreadMessageState \<Rightarrow> string \<Rightarrow> string \<Rightarrow> string \<Rightarrow> string \<Rightarrow> int option
     \<Rightarrow> agUiThreadMessageState" where
  "upsertToolResult now current runId messageId toolCallId content timestamp =
     (let toolMessage = (plainMessage messageId Tool (Text content) (timestampIso now timestamp))
            \<lparr>cm_toolCallId := Some toolCallId\<rparr>;
          next = upsertMessage now current toolMessage runId timestamp
      in next\<lparr>ag_toolResultMessageIdByCallId :=
           obj_set toolCallId messageId (ag_toolResultMessageIdByCallId next)\<rparr>)"

text \<open>The text of a message that is a tool result, the empty text otherwise.\<close>

definition toolText :: "chatMessage option \<Rightarrow> string" where
  "toolText m =
     (case m of Some e \<Rightarrow> if cm_role e = Tool then text_content (cm_content e) else [] | None \<Rightarrow> [])"

definition appendToolResult ::
  "int \<Rightarrow> agUiThreadMessageState \<Rightarrow> string \<Rightarrow> string \<Rightarrow> string \<Rightarrow> string \<Rightarrow> int option
     \<Rightarrow> agUiThreadMessageState" where
  "appendToolResult now current runId messageId toolCallId delta timestamp =
     (let previousId = truthy_id (map_of (ag_toolResultMessageIdByCallId current) toolCallId);
          previous = Option.bind previousId (findMessage current);
          withoutPrevious = (case previousId of
             Some p \<Rightarrow> if p \<noteq> messageId
               then current\<lparr>ag_messages := filter (\<lambda>m. cm_id m \<noteq> p) (ag_messages current)\<rparr>
               else current
           | None \<Rightarrow> current)
      in upsertToolResult now withoutPrevious runId messageId toolCallId
           (toolText previous @ delta) timestamp)"

definition reduceActivitySnapshot ::
  "int \<Rightarrow> agUiThreadMessageState \<Rightarrow> string \<Rightarrow> string \<Rightarrow> string \<Rightarrow> jobj \<Rightarrow> int option
     \<Rightarrow> agUiThreadMessageState" where
  "reduceActivitySnapshot now current runId messageId activityType content timestamp =
     (let subAgent = (if activityType = SUBAGENT_ACTIVITY_TYPE
            then js_record (prop_of content ''subAgent'') else None);
          suppressed = (case nonEmptyString (opt_prop subAgent ''toolCallId'') of
             None \<Rightarrow> current
           | Some t \<Rightarrow> current\<lparr>
               ag_messages := filter (\<lambda>m.
                 Some (cm_id m) \<noteq> map_of (ag_toolCallMessageIdByCallId current) t
                 \<and> Some (cm_id m) \<noteq> map_of (ag_toolResultMessageIdByCallId current) t)
                 (ag_messages current),
               ag_subagentToolCallIds := obj_set t () (ag_subagentToolCallIds current)\<rparr>)
      in upsertMessage now suppressed
           (createActivityMessage messageId activityType (JObj content) (timestampIso now timestamp))
           runId timestamp)"

definition startToolCall ::
  "int \<Rightarrow> agUiThreadMessageState \<Rightarrow> string \<Rightarrow> string \<Rightarrow> string \<Rightarrow> string option \<Rightarrow> int option
     \<Rightarrow> agUiThreadMessageState" where
  "startToolCall now current runId toolCallId toolCallName parentMessageId timestamp =
     (let messageId = with_default parentMessageId (''tool-call:'' @ toolCallId);
          fresh = (plainMessage messageId Assistant (Text []) (timestampIso now timestamp))
            \<lparr>cm_toolCalls := Some [toolCall toolCallId toolCallName []]\<rparr>;
          assistant = (case findMessage current messageId of
             Some e \<Rightarrow> if cm_role e = Assistant
               then e\<lparr>cm_toolCalls :=
                 Some (upsertToolCall (with_default (cm_toolCalls e) []) toolCallId toolCallName [])\<rparr>
               else fresh
           | None \<Rightarrow> fresh);
          next = upsertMessage now current assistant runId timestamp
      in next\<lparr>ag_toolCallMessageIdByCallId :=
           obj_set toolCallId messageId (ag_toolCallMessageIdByCallId next)\<rparr>)"

definition appendToolArgs ::
  "int \<Rightarrow> agUiThreadMessageState \<Rightarrow> string \<Rightarrow> string \<Rightarrow> string \<Rightarrow> int option
     \<Rightarrow> agUiThreadMessageState" where
  "appendToolArgs now current runId toolCallId delta timestamp =
     (let known = map_of (ag_toolCallMessageIdByCallId current) toolCallId;
          messageId = with_default known (''tool-call:'' @ toolCallId);
          started = (case truthy_id known of
             Some _ \<Rightarrow> current
           | None \<Rightarrow> startToolCall now current runId toolCallId ''tool'' None timestamp)
      in case findMessage started messageId of
           None \<Rightarrow> started
         | Some message \<Rightarrow>
             if cm_role message \<noteq> Assistant then started
             else (let calls = with_default (cm_toolCalls message) [];
                       existing = List.find (\<lambda>call. tc_id call = toolCallId) calls
                   in upsertMessage now started
                     (message\<lparr>cm_toolCalls := Some (upsertToolCall calls toolCallId
                        (case existing of Some c \<Rightarrow> tc_name c | None \<Rightarrow> ''tool'')
                        ((case existing of Some c \<Rightarrow> tc_arguments c | None \<Rightarrow> []) @ delta))\<rparr>)
                     runId timestamp))"

section \<open>Snapshots and terminal messages\<close>

definition messageUsesSuppressedTool :: "chatMessage \<Rightarrow> (string \<times> unit) list \<Rightarrow> bool" where
  "messageUsesSuppressedTool message suppressed =
     (case cm_role message of
        Tool \<Rightarrow> (case cm_toolCallId message of
          Some t \<Rightarrow> map_of suppressed t \<noteq> None | None \<Rightarrow> False)
      | Assistant \<Rightarrow>
          (\<exists>call \<in> set (with_default (cm_toolCalls message) []). map_of suppressed (tc_id call) \<noteq> None)
      | _ \<Rightarrow> False)"

text \<open>The tool call a subagent activity of a snapshot stands for.\<close>

definition subagentToolCallId :: "chatMessage \<Rightarrow> string option" where
  "subagentToolCallId message =
     (if cm_role message = Activity \<and> cm_activityType message = Some SUBAGENT_ACTIVITY_TYPE
      then (case cm_content message of
              Fields v \<Rightarrow> nonEmptyString
                (opt_prop (js_record (opt_prop (js_record v) ''subAgent'')) ''toolCallId'')
            | _ \<Rightarrow> None)
      else None)"

definition snapshotSubagentIds ::
  "chatMessage list \<Rightarrow> (string \<times> unit) list \<Rightarrow> (string \<times> unit) list" where
  "snapshotSubagentIds messages ids =
     fold (\<lambda>m ids. case subagentToolCallId m of Some t \<Rightarrow> obj_set t () ids | None \<Rightarrow> ids) messages ids"

definition applyMessagesSnapshot ::
  "int \<Rightarrow> agUiThreadMessageState \<Rightarrow> string \<Rightarrow> chatMessage list \<Rightarrow> int option
     \<Rightarrow> agUiThreadMessageState" where
  "applyMessagesSnapshot now current runId messages timestamp =
     (let suppressed = snapshotSubagentIds messages (ag_subagentToolCallIds current);
          previous = map_of (rev (map (\<lambda>m. (cm_id m, m)) (ag_messages current)));
          nextMessages = map (\<lambda>m. m\<lparr>
              cm_createdAt := (case previous (cm_id m) of
                Some p \<Rightarrow> cm_createdAt p | None \<Rightarrow> timestampIso now timestamp),
              cm_parts := Option.bind (previous (cm_id m)) cm_parts\<rparr>)
            (filter (\<lambda>m. \<not> messageUsesSuppressedTool m suppressed) messages)
      in current\<lparr>ag_messages := last_n MAX_MESSAGES_PER_THREAD nextMessages,
           ag_authoritativeSnapshot := True,
           ag_runByMessageId := from_entries (map (\<lambda>m. (cm_id m, runId)) nextMessages),
           ag_terminalMessageIds := map cm_id nextMessages,
           ag_subagentToolCallIds := suppressed\<rparr>)"

definition applyActivityDelta ::
  "int \<Rightarrow> agUiThreadMessageState \<Rightarrow> string \<Rightarrow> string \<Rightarrow> string \<Rightarrow> jsv list \<Rightarrow> int option
     \<Rightarrow> agUiThreadMessageState" where
  "applyActivityDelta now current runId messageId activityType patch timestamp =
     (let existing = findMessage current messageId;
          content = (case existing of
             Some e \<Rightarrow> (case (cm_role e, cm_content e) of (Activity, Fields v) \<Rightarrow> v | _ \<Rightarrow> JObj [])
           | None \<Rightarrow> JObj []);
          created = (case existing of
             Some e \<Rightarrow> cm_createdAt e | None \<Rightarrow> timestampIso now timestamp)
      in upsertMessage now current (createActivityMessage messageId activityType (applyJsonPatch content patch) created)
           runId timestamp)"

definition markTerminal :: "agUiThreadMessageState \<Rightarrow> string \<Rightarrow> agUiThreadMessageState" where
  "markTerminal current messageId =
     (if messageId \<in> set (ag_terminalMessageIds current) then current
      else current\<lparr>ag_terminalMessageIds := ag_terminalMessageIds current @ [messageId]\<rparr>)"

definition markRunTerminal :: "agUiThreadMessageState \<Rightarrow> string \<Rightarrow> agUiThreadMessageState" where
  "markRunTerminal current runId =
     (let ids = map fst (filter (\<lambda>(_, r). r = runId) (ag_runByMessageId current)) in
      if ids = [] then current
      else current\<lparr>ag_terminalMessageIds := dedupe (ag_terminalMessageIds current @ ids)\<rparr>)"

definition updateEncryptedValue ::
  "int \<Rightarrow> agUiThreadMessageState \<Rightarrow> string \<Rightarrow> string \<Rightarrow> encryptedSubtype
     \<Rightarrow> agUiThreadMessageState" where
  "updateEncryptedValue now current entityId encryptedValue subtype =
     (case subtype of
        EncryptedMessage \<Rightarrow>
          (case findMessage current entityId of
             None \<Rightarrow> current
           | Some message \<Rightarrow>
               upsertMessage now current (message\<lparr>cm_encryptedValue := Some encryptedValue\<rparr>)
                 (with_default (map_of (ag_runByMessageId current) entityId) []) None)
      | EncryptedToolCall \<Rightarrow>
          (case Option.bind (truthy_id (map_of (ag_toolCallMessageIdByCallId current) entityId))
              (findMessage current) of
             None \<Rightarrow> current
           | Some message \<Rightarrow>
               if cm_role message \<noteq> Assistant then current
               else upsertMessage now current
                 (message\<lparr>cm_toolCalls := map_option (map (\<lambda>call.
                    if tc_id call = entityId then call\<lparr>tc_encryptedValue := Some encryptedValue\<rparr>
                    else call)) (cm_toolCalls message)\<rparr>)
                 (with_default (map_of (ag_runByMessageId current) (cm_id message)) []) None))"

section \<open>Custom events\<close>

definition reduceStructuredMessageContent ::
  "int \<Rightarrow> agUiThreadMessageState \<Rightarrow> agUiEventEnvelope \<Rightarrow> jobj option
     \<Rightarrow> agUiThreadMessageState" where
  "reduceStructuredMessageContent now current envelope value =
     (let messageId = with_default (nonEmptyString (opt_prop value ''messageId''))
            (en_runId envelope @ '':content'');
          role = (if opt_prop value ''role'' = JStr ''thought'' then Reasoning
            else if opt_prop value ''role'' = JStr ''user'' then User else Assistant);
          parts = appendOrderedPart (message_parts (findMessage current messageId))
            (opt_prop value ''content'');
          base = (plainMessage messageId role (Text (renderOrderedParts parts))
            (timestampIso now (en_timestamp envelope)))\<lparr>cm_parts := Some parts\<rparr>
      in upsertMessage now current base (en_runId envelope) (en_timestamp envelope))"

definition reduceToolText ::
  "int \<Rightarrow> agUiThreadMessageState \<Rightarrow> agUiEventEnvelope \<Rightarrow> jobj option
     \<Rightarrow> agUiThreadMessageState" where
  "reduceToolText now current envelope value =
     (case (nonEmptyString (opt_prop value ''toolCallId''),
            nonEmptyString (opt_prop value ''revision''),
            as_string (opt_prop value ''content'')) of
        (Some toolCallId, Some revision, Some content) \<Rightarrow>
          (if map_of (ag_subagentToolCallIds current) toolCallId \<noteq> None then current
           else if map_of (ag_toolTextRevisionByCallId current) toolCallId = Some revision
           then current
           else
             let messageId = with_default
                   (map_of (ag_toolResultMessageIdByCallId current) toolCallId)
                   (''tool-result:'' @ toolCallId);
                 structured = with_default
                   (map_of (ag_structuredTextByCallId current) toolCallId) [];
                 next = upsertToolResult now current (en_runId envelope) messageId toolCallId
                   (join_nonempty [CHR 0x0A] [content, structured]) (en_timestamp envelope)
             in next\<lparr>ag_toolTextRevisionByCallId :=
                  obj_set toolCallId revision (ag_toolTextRevisionByCallId next)\<rparr>)
      | _ \<Rightarrow> current)"

text \<open>\<open>Array.isArray(v) && v.length === 0\<close>\<close>

definition emptyArray :: "jsv \<Rightarrow> bool" where
  "emptyArray v \<longleftrightarrow> v = JArr []"

definition value_text :: "jobj option \<Rightarrow> string" where
  "value_text value = (case value of Some kvs \<Rightarrow> json_text (JObj kvs) | None \<Rightarrow> ''null'')"

definition reduceToolContent ::
  "int \<Rightarrow> agUiThreadMessageState \<Rightarrow> agUiEventEnvelope \<Rightarrow> jobj option
     \<Rightarrow> agUiThreadMessageState" where
  "reduceToolContent now current envelope value =
     (let toolCallId = with_default (nonEmptyString (opt_prop value ''toolCallId'')) ''unknown'';
          revision = with_default (nonEmptyString (opt_prop value ''revision'')) (value_text value)
      in if map_of (ag_subagentToolCallIds current) toolCallId \<noteq> None then current
         else if map_of (ag_structuredRevisionByCallId current) toolCallId = Some revision
         then current
         else
           let structured =
                 (if emptyArray (opt_prop value ''content'') \<and> emptyArray (opt_prop value ''locations'')
                  then []
                  else with_default (renderAgUiCustomContent
                    (case value of Some kvs \<Rightarrow> JObj kvs | None \<Rightarrow> JNull)) []);
               messageId = with_default
                 (map_of (ag_toolResultMessageIdByCallId current) toolCallId)
                 (''tool-result:'' @ toolCallId);
               existingText = toolText (findMessage current messageId);
               previousStructured = with_default
                 (map_of (ag_structuredTextByCallId current) toolCallId) [];
               base = (if previousStructured \<noteq> [] \<and> ends_with existingText previousStructured
                 then trim_end (drop_last (length previousStructured) existingText)
                 else existingText);
               next = upsertToolResult now current (en_runId envelope) messageId toolCallId
                 (join_nonempty [CHR 0x0A] [base, structured]) (en_timestamp envelope)
           in next\<lparr>ag_structuredRevisionByCallId :=
                  obj_set toolCallId revision (ag_structuredRevisionByCallId next),
                ag_structuredTextByCallId :=
                  obj_set toolCallId structured (ag_structuredTextByCallId next)\<rparr>)"

text \<open>The ids of \<open>receiverThreadIds\<close> that are non-empty strings.\<close>

definition receiverThreadIds :: "jobj option \<Rightarrow> string list" where
  "receiverThreadIds value =
     (case as_array (opt_prop value ''receiverThreadIds'') of
        Some vs \<Rightarrow> List.map_filter nonEmptyString vs
      | None \<Rightarrow> [])"

definition subagentText :: "string option \<Rightarrow> string \<Rightarrow> string option \<Rightarrow> string" where
  "subagentText agentStatus receiver resultPreview =
     join_nonempty [CHR 0x0A]
       [bullet @ (if agentStatus = Some ''completed'' then ''Spawned sub-agent'' else ''Spawning sub-agent''),
        ''  Thread: '' @ receiver,
        (case agentStatus of Some s \<Rightarrow> ''  Status: '' @ s | None \<Rightarrow> []),
        (case resultPreview of Some p \<Rightarrow> ''  Result: '' @ p | None \<Rightarrow> [])]"

definition reduceSubagentActivity ::
  "int \<Rightarrow> agUiThreadMessageState \<Rightarrow> agUiEventEnvelope \<Rightarrow> jobj option
     \<Rightarrow> agUiThreadMessageState" where
  "reduceSubagentActivity now current envelope value =
     (let toolCallId = with_default (nonEmptyString (opt_prop value ''toolCallId'')) ''unknown'';
          receivers = receiverThreadIds value;
          agentStatus = nonEmptyString (opt_prop value ''agentStatus'')
      in case receivers of
           [] \<Rightarrow> current
         | receiver # _ \<Rightarrow>
             let meta = JObj
                   [(''toolCallId'', JStr toolCallId),
                    (''tool'', JStr (with_default (nonEmptyString (opt_prop value ''tool'')) ''spawnAgent'')),
                    (''senderThreadId'', JStr (with_default
                       (nonEmptyString (opt_prop value ''senderThreadId'')) (en_threadId envelope))),
                    (''receiverThreadIds'', JArr (map JStr (dedupe receivers))),
                    (''agentStatus'', (case agentStatus of Some s \<Rightarrow> JStr s | None \<Rightarrow> JUndefined)),
                    (''navigable'', JBool False)];
                 text = subagentText agentStatus receiver
                   (nonEmptyString (opt_prop value ''resultPreview''));
                 messages = filter (\<lambda>m. \<not> (cm_id m = ''tool-call:'' @ toolCallId
                     \<or> cm_id m = ''tool-result:'' @ toolCallId
                     \<or> cm_id m = ''subagent:'' @ toolCallId)) (ag_messages current)
             in upsertMessage now
                  (current\<lparr>ag_messages := messages,
                     ag_subagentToolCallIds := obj_set toolCallId () (ag_subagentToolCallIds current)\<rparr>)
                  (createActivityMessage (''subagent:'' @ toolCallId) SUBAGENT_ACTIVITY_TYPE
                     (JObj [(''text'', JStr text), (''subAgent'', meta)])
                     (timestampIso now (en_timestamp envelope)))
                  (en_runId envelope) (en_timestamp envelope))"

definition storeCustomMetadata ::
  "agUiThreadMessageState \<Rightarrow> string \<Rightarrow> jsv \<Rightarrow> agUiThreadMessageState" where
  "storeCustomMetadata current name value =
     (let order = last_n MAX_CUSTOM_METADATA_ENTRIES
            (filter (\<lambda>e. e \<noteq> name) (ag_customMetadataOrder current) @ [name])
      in current\<lparr>ag_customMetadata := from_entries (map (\<lambda>e. (e,
             if e = name then value else prop_of (ag_customMetadata current) e)) order),
           ag_customMetadataOrder := order\<rparr>)"

text \<open>
  \<open>reduceCustomChunk\<close> up to its recursive call: the chunk is ignored or stored, or it completes
  the assembly under a key, with the value its chunks spell.
\<close>

datatype chunkOutcome =
    Stored agUiThreadMessageState
  | Completed agUiThreadMessageState string jsv

definition chunkKey :: "string \<Rightarrow> string \<Rightarrow> string" where
  "chunkKey customName revision = customName @ CHR 0x00 # revision"

definition assembledText :: "rat \<Rightarrow> (rat \<times> string) list \<Rightarrow> string" where
  "assembledText count chunks =
     concat (map (\<lambda>i. with_default (map_of chunks (of_nat i)) []) [0..<nat \<lfloor>count\<rfloor>])"

definition reduceCustomChunk ::
  "agUiThreadMessageState \<Rightarrow> string \<Rightarrow> jobj option \<Rightarrow> chunkOutcome" where
  "reduceCustomChunk current customName value =
     (let canonicalId = nonEmptyString (opt_prop value ''canonicalId'');
          revision = nonEmptyString (opt_prop value ''revision'');
          index = with_default (as_number (opt_prop value ''index'')) (- 1);
          count = with_default (as_number (opt_prop value ''count'')) 0;
          chunk = with_default (as_string (opt_prop value ''data'')) []
      in case (canonicalId, revision) of
           (Some _, Some revision) \<Rightarrow>
             (if index < 0 \<or> count \<le> index \<or> chunk = [] then Stored current
              else
                let key = chunkKey customName revision;
                    chunks = (case map_of (ag_chunkAssemblies current) key of
                       Some existing \<Rightarrow>
                         if ca_count existing = count
                         then AList.update index chunk (ca_chunks existing)
                         else [(index, chunk)]
                     | None \<Rightarrow> [(index, chunk)]);
                    pending = current\<lparr>ag_chunkAssemblies :=
                      obj_set key \<lparr>ca_count = count, ca_chunks = chunks\<rparr> (ag_chunkAssemblies current)\<rparr>
                in if of_nat (length chunks) \<noteq> count then Stored pending
                   else (case json_parse (assembledText count chunks) of
                      Some v \<Rightarrow> Completed pending key v
                    | None \<Rightarrow> Stored pending))
         | _ \<Rightarrow> Stored current)"

text \<open>The event that a completed assembly spells has no timestamp of its own.\<close>

lemma drop_chunk_shorter:
  "ends_with name ''-chunk'' \<Longrightarrow> length (drop_last (length ''-chunk'') name) < length name"
  by (auto simp: ends_with_def suffix_def drop_last_def)

function reduceCustomEvent ::
  "int \<Rightarrow> agUiThreadMessageState \<Rightarrow> agUiEventEnvelope \<Rightarrow> string \<Rightarrow> jsv
     \<Rightarrow> agUiThreadMessageState" where
  "reduceCustomEvent now current envelope name value =
     (if ends_with name ''-chunk''
      then (case reduceCustomChunk current name (js_record value) of
              Stored s \<Rightarrow> s
            | Completed pending key v \<Rightarrow>
                (let completed = reduceCustomEvent now pending (envelope\<lparr>en_timestamp := None\<rparr>)
                       (drop_last (length ''-chunk'') name) v
                 in completed\<lparr>ag_chunkAssemblies :=
                      AList.delete key (ag_chunkAssemblies completed)\<rparr>))
      else if name = ''tethercode.dev/message-content''
      then reduceStructuredMessageContent now current envelope (js_record value)
      else if name = ''tethercode.dev/tool-text''
      then reduceToolText now current envelope (js_record value)
      else if name = ''tethercode.dev/tool-content''
      then reduceToolContent now current envelope (js_record value)
      else if name = ''tethercode.dev/subagent''
      then reduceSubagentActivity now current envelope (js_record value)
      else storeCustomMetadata current name value)"
  by pat_completeness auto
termination
  by (relation "measure (\<lambda>(now, current, envelope, name, value). length name)")
    (auto intro: drop_chunk_shorter [simplified])

declare reduceCustomEvent.simps [simp del]

section \<open>The reducer\<close>

text \<open>A text and a reasoning message that a chunk opens when it is not there yet.\<close>

definition openReasoning ::
  "int \<Rightarrow> agUiThreadMessageState \<Rightarrow> agUiEventEnvelope \<Rightarrow> string \<Rightarrow> agUiThreadMessageState" where
  "openReasoning now current envelope messageId =
     (case findMessage current messageId of
        Some _ \<Rightarrow> current
      | None \<Rightarrow> upsertMessage now current
          (plainMessage messageId Reasoning (Text []) (timestampIso now (en_timestamp envelope)))
          (en_runId envelope) (en_timestamp envelope))"

definition openText ::
  "int \<Rightarrow> agUiThreadMessageState \<Rightarrow> agUiEventEnvelope \<Rightarrow> string \<Rightarrow> messageRole \<Rightarrow> string option
     \<Rightarrow> agUiThreadMessageState" where
  "openText now current envelope messageId role name =
     (case findMessage current messageId of
        Some _ \<Rightarrow> current
      | None \<Rightarrow> upsertMessage now current (textMessage now messageId role [] name)
          (en_runId envelope) (en_timestamp envelope))"

definition suppressedTool :: "agUiThreadMessageState \<Rightarrow> string \<Rightarrow> bool" where
  "suppressedTool current toolCallId \<longleftrightarrow> map_of (ag_subagentToolCallIds current) toolCallId \<noteq> None"

definition reduceThreadState ::
  "int \<Rightarrow> agUiThreadMessageState \<Rightarrow> agUiEventEnvelope \<Rightarrow> agUiThreadMessageState" where
  "reduceThreadState now current envelope =
     (let runId = en_runId envelope; timestamp = en_timestamp envelope in
      case en_event envelope of
        RUN_STARTED _ _ \<Rightarrow> createAgUiThreadMessageState
      | TEXT_MESSAGE_START messageId role name replaces \<Rightarrow>
          rememberReplacement (openText now current envelope messageId role name) messageId
            (nonEmptyString replaces)
      | TEXT_MESSAGE_CONTENT messageId delta \<Rightarrow>
          appendText now current messageId delta runId timestamp Assistant
      | TEXT_MESSAGE_END messageId \<Rightarrow> markTerminal current messageId
      | TEXT_MESSAGE_CHUNK i r delta name \<Rightarrow>
          (let messageId = with_default i (runId @ '':text'');
               role = with_default r Assistant;
               next = openText now current envelope messageId role name
           in case truthy_id delta of
                Some d \<Rightarrow> appendText now next messageId d runId timestamp role
              | None \<Rightarrow> next)
      | REASONING_START messageId \<Rightarrow> openReasoning now current envelope messageId
      | REASONING_MESSAGE_START messageId \<Rightarrow> openReasoning now current envelope messageId
      | REASONING_MESSAGE_CONTENT messageId delta \<Rightarrow>
          appendText now current messageId delta runId timestamp Reasoning
      | REASONING_MESSAGE_CHUNK i delta \<Rightarrow>
          (let messageId = with_default i (runId @ '':reasoning'');
               next = openReasoning now current envelope messageId
           in case truthy_id delta of
                Some d \<Rightarrow> appendText now next messageId d runId timestamp Reasoning
              | None \<Rightarrow> next)
      | REASONING_MESSAGE_END messageId \<Rightarrow> markTerminal current messageId
      | REASONING_END messageId \<Rightarrow> markTerminal current messageId
      | REASONING_ENCRYPTED_VALUE entityId encryptedValue subtype \<Rightarrow>
          updateEncryptedValue now current entityId encryptedValue subtype
      | TOOL_CALL_START toolCallId name parent \<Rightarrow>
          (if suppressedTool current toolCallId then current
           else startToolCall now current runId toolCallId name parent timestamp)
      | TOOL_CALL_ARGS toolCallId delta \<Rightarrow>
          (if suppressedTool current toolCallId then current
           else appendToolArgs now current runId toolCallId delta timestamp)
      | TOOL_CALL_END toolCallId \<Rightarrow>
          (if suppressedTool current toolCallId then current
           else case truthy_id (map_of (ag_toolCallMessageIdByCallId current) toolCallId) of
             Some messageId \<Rightarrow> markTerminal current messageId
           | None \<Rightarrow> current)
      | TOOL_CALL_CHUNK i name parent delta \<Rightarrow>
          (case truthy_id i of
             None \<Rightarrow> current
           | Some toolCallId \<Rightarrow>
               if suppressedTool current toolCallId then current
               else
                 let next = (case truthy_id (map_of (ag_toolCallMessageIdByCallId current) toolCallId) of
                        Some _ \<Rightarrow> current
                      | None \<Rightarrow> startToolCall now current runId toolCallId (with_default name ''tool'')
                          parent timestamp)
                 in case truthy_id delta of
                      Some d \<Rightarrow> appendToolArgs now next runId toolCallId d timestamp
                    | None \<Rightarrow> next)
      | TOOL_CALL_RESULT messageId toolCallId content \<Rightarrow>
          (if suppressedTool current toolCallId then current
           else appendToolResult now current runId messageId toolCallId content timestamp)
      | MESSAGES_SNAPSHOT messages \<Rightarrow> applyMessagesSnapshot now current runId messages timestamp
      | ACTIVITY_SNAPSHOT messageId activityType content \<Rightarrow>
          reduceActivitySnapshot now current runId messageId activityType content timestamp
      | ACTIVITY_DELTA messageId activityType patch \<Rightarrow>
          applyActivityDelta now current runId messageId activityType patch timestamp
      | STATE_SNAPSHOT snapshot \<Rightarrow> current\<lparr>ag_state := snapshot\<rparr>
      | STATE_DELTA delta \<Rightarrow> current\<lparr>ag_state := applyJsonPatch (ag_state current) delta\<rparr>
      | STEP_STARTED stepName \<Rightarrow> current\<lparr>ag_steps := obj_set stepName Running (ag_steps current)\<rparr>
      | STEP_FINISHED stepName \<Rightarrow> current\<lparr>ag_steps := obj_set stepName Finished (ag_steps current)\<rparr>
      | RAW source event \<Rightarrow>
          current\<lparr>ag_rawEvents :=
            last_n MAX_RAW_EVENTS_PER_THREAD (ag_rawEvents current @ [(source, event)])\<rparr>
      | CUSTOM name value \<Rightarrow> reduceCustomEvent now current envelope name value
      | RUN_FINISHED _ _ \<Rightarrow> markRunTerminal current runId
      | RUN_ERROR _ _ \<Rightarrow> markRunTerminal current runId
      | UNSUPPORTED \<Rightarrow> current)"

text \<open>
  The code tells by object identity whether an event changed a thread.  The reducer's early
  returns give the object back; these events always build a new one.
\<close>

definition alwaysFresh :: "agUiEvent \<Rightarrow> bool" where
  "alwaysFresh event =
     (case event of
        RUN_STARTED _ _ \<Rightarrow> True
      | MESSAGES_SNAPSHOT _ \<Rightarrow> True
      | STATE_SNAPSHOT _ \<Rightarrow> True
      | STATE_DELTA _ \<Rightarrow> True
      | STEP_STARTED _ \<Rightarrow> True
      | STEP_FINISHED _ \<Rightarrow> True
      | RAW _ _ \<Rightarrow> True
      | _ \<Rightarrow> False)"

definition reduceAgUiMessageState ::
  "int \<Rightarrow> agUiEventEnvelope \<Rightarrow> (string \<times> agUiThreadMessageState) list
     \<Rightarrow> (string \<times> agUiThreadMessageState) list" where
  "reduceAgUiMessageState now envelope previous =
     (let current = with_default (map_of previous (en_threadId envelope)) createAgUiThreadMessageState;
          next = reduceThreadState now current envelope
      in if next = current \<and> \<not> alwaysFresh (en_event envelope) then previous
         else obj_set (en_threadId envelope) next previous)"

end
