(* ===== verification/AgUiInvariant.thy ===== *)
theory AgUiInvariant
  imports AgUiReducer
begin

text \<open>
  What every state of a thread satisfies: bounded message, raw-event and metadata lists,
  distinct message ids, an owning run for every message, and metadata stored under exactly the
  names in its order.  One preservation lemma per operation, then the step of the reducer.
\<close>

named_theorems ag_defs \<open>definitions of the reducer's operations\<close>
named_theorems ag_ok \<open>operations that keep a thread's invariant\<close>

definition messages_ok :: "agUiThreadMessageState \<Rightarrow> bool" where
  "messages_ok s \<longleftrightarrow>
     length (ag_messages s) \<le> MAX_MESSAGES_PER_THREAD
     \<and> distinct (map cm_id (ag_messages s))
     \<and> cm_id ` set (ag_messages s) \<subseteq> fst ` set (ag_runByMessageId s)"

definition logs_ok :: "agUiThreadMessageState \<Rightarrow> bool" where
  "logs_ok s \<longleftrightarrow>
     length (ag_rawEvents s) \<le> MAX_RAW_EVENTS_PER_THREAD
     \<and> length (ag_customMetadataOrder s) \<le> MAX_CUSTOM_METADATA_ENTRIES
     \<and> distinct (ag_customMetadataOrder s)
     \<and> fst ` set (ag_customMetadata s) = set (ag_customMetadataOrder s)"

definition thread_ok :: "agUiThreadMessageState \<Rightarrow> bool" where
  "thread_ok s \<longleftrightarrow> messages_ok s \<and> logs_ok s"

text \<open>The hypothesis on an event: a snapshot has no two messages with the same id.\<close>

definition event_ok :: "agUiEvent \<Rightarrow> bool" where
  "event_ok e = (case e of MESSAGES_SNAPSHOT ms \<Rightarrow> distinct (map cm_id ms) | _ \<Rightarrow> True)"

lemma thread_ok_create [simp]: "thread_ok createAgUiThreadMessageState"
  by (simp add: thread_ok_def messages_ok_def logs_ok_def createAgUiThreadMessageState_def)

text \<open>The invariant does not look at the other fields.\<close>

lemma thread_ok_frame [simp]:
  "thread_ok (s\<lparr>ag_authoritativeSnapshot := b\<rparr>) = thread_ok s"
  "thread_ok (s\<lparr>ag_terminalMessageIds := t\<rparr>) = thread_ok s"
  "thread_ok (s\<lparr>ag_replacesMessageIdByMessageId := r\<rparr>) = thread_ok s"
  "thread_ok (s\<lparr>ag_toolCallMessageIdByCallId := c\<rparr>) = thread_ok s"
  "thread_ok (s\<lparr>ag_toolResultMessageIdByCallId := c\<rparr>) = thread_ok s"
  "thread_ok (s\<lparr>ag_subagentToolCallIds := u\<rparr>) = thread_ok s"
  "thread_ok (s\<lparr>ag_toolTextRevisionByCallId := c\<rparr>) = thread_ok s"
  "thread_ok (s\<lparr>ag_structuredRevisionByCallId := c\<rparr>) = thread_ok s"
  "thread_ok (s\<lparr>ag_structuredTextByCallId := c\<rparr>) = thread_ok s"
  "thread_ok (s\<lparr>ag_chunkAssemblies := ca\<rparr>) = thread_ok s"
  "thread_ok (s\<lparr>ag_state := j\<rparr>) = thread_ok s"
  "thread_ok (s\<lparr>ag_steps := st\<rparr>) = thread_ok s"
  by (simp_all add: thread_ok_def messages_ok_def logs_ok_def)

section \<open>Messages\<close>

lemma replace_first_ids:
  "(\<forall>x \<in> set xs. p x \<longrightarrow> f x = f y) \<Longrightarrow> map f (replace_first p y xs) = map f xs"
  by (induction xs) auto

lemma length_replace_first [simp]: "length (replace_first p y xs) = length xs"
  by (induction xs) auto

lemma find_replace_first:
  "\<exists>x \<in> set xs. p x \<Longrightarrow> p y \<Longrightarrow> List.find p (replace_first p y xs) = Some y"
  by (induction xs) auto

lemma findMessage_Some: "findMessage s i = Some m \<Longrightarrow> m \<in> set (ag_messages s) \<and> cm_id m = i"
  by (auto simp: findMessage_def find_Some_iff)

lemma findMessage_None: "findMessage s i = None \<longleftrightarrow> i \<notin> cm_id ` set (ag_messages s)"
  by (auto simp: findMessage_def find_None_iff)

lemma findMessage_cong: "ag_messages s = ag_messages t \<Longrightarrow> findMessage s = findMessage t"
  by (simp add: fun_eq_iff findMessage_def)

lemma findMessage_frame [simp]:
  "findMessage (s\<lparr>ag_runByMessageId := r\<rparr>) = findMessage s"
  "findMessage (s\<lparr>ag_toolCallMessageIdByCallId := c\<rparr>) = findMessage s"
  "findMessage (s\<lparr>ag_toolResultMessageIdByCallId := c\<rparr>) = findMessage s"
  "findMessage (s\<lparr>ag_toolTextRevisionByCallId := c\<rparr>) = findMessage s"
  "findMessage (s\<lparr>ag_structuredRevisionByCallId := c\<rparr>) = findMessage s"
  "findMessage (s\<lparr>ag_structuredTextByCallId := c\<rparr>) = findMessage s"
  "findMessage (s\<lparr>ag_replacesMessageIdByMessageId := c\<rparr>) = findMessage s"
  "findMessage (s\<lparr>ag_subagentToolCallIds := u\<rparr>) = findMessage s"
  "findMessage (s\<lparr>ag_chunkAssemblies := ca\<rparr>) = findMessage s"
  by (rule findMessage_cong; simp)+

text \<open>The message \<open>upsertMessage\<close> stores: its creation time is that of the message it replaces.\<close>

definition stored ::
  "int \<Rightarrow> agUiThreadMessageState \<Rightarrow> chatMessage \<Rightarrow> int option \<Rightarrow> chatMessage" where
  "stored now s m timestamp =
     m\<lparr>cm_createdAt := (case findMessage s (cm_id m) of
        Some e \<Rightarrow> cm_createdAt e | None \<Rightarrow> timestampIso now timestamp)\<rparr>"

lemma stored_simps [simp]:
  "cm_id (stored now s m t) = cm_id m"
  "cm_role (stored now s m t) = cm_role m"
  "cm_content (stored now s m t) = cm_content m"
  "cm_parts (stored now s m t) = cm_parts m"
  "cm_toolCalls (stored now s m t) = cm_toolCalls m"
  by (simp_all add: stored_def)

lemma upsert_new:
  assumes "findMessage s (cm_id m) = None"
  shows "ag_messages (upsertMessage now s m run t)
    = last_n MAX_MESSAGES_PER_THREAD (ag_messages s @ [stored now s m t])"
  using assms by (simp add: upsertMessage_def stored_def Let_def)

lemma upsert_old:
  assumes "findMessage s (cm_id m) = Some e" "length (ag_messages s) \<le> MAX_MESSAGES_PER_THREAD"
  shows "ag_messages (upsertMessage now s m run t)
    = replace_first (\<lambda>x. cm_id x = cm_id m) (stored now s m t) (ag_messages s)"
  using assms by (simp add: upsertMessage_def stored_def Let_def)

lemma run_upsert [simp]:
  "ag_runByMessageId (upsertMessage now s m run t) = obj_set (cm_id m) run (ag_runByMessageId s)"
  by (simp add: upsertMessage_def Let_def)

lemma ids_upsert_old:
  assumes "findMessage s (cm_id m) = Some e" "length (ag_messages s) \<le> MAX_MESSAGES_PER_THREAD"
  shows "map cm_id (ag_messages (upsertMessage now s m run t)) = map cm_id (ag_messages s)"
  unfolding upsert_old [OF assms] by (rule replace_first_ids) simp

lemma messages_ok_upsert:
  assumes "messages_ok s"
  shows "messages_ok (upsertMessage now s m run t)"
proof (cases "findMessage s (cm_id m)")
  case None
  let ?ms = "ag_messages s @ [stored now s m t]"
  have "distinct (map cm_id ?ms)"
    using assms None by (auto simp: messages_ok_def findMessage_None)
  moreover have "cm_id ` set (last_n MAX_MESSAGES_PER_THREAD ?ms)
      \<subseteq> insert (cm_id m) (fst ` set (ag_runByMessageId s))"
    using image_mono [OF set_last_n [of MAX_MESSAGES_PER_THREAD ?ms], of cm_id] assms
    by (simp add: messages_ok_def) blast
  ultimately show ?thesis
    using None by (simp add: messages_ok_def upsert_new distinct_last_n map_last_n)
next
  case (Some e)
  have len: "length (ag_messages s) \<le> MAX_MESSAGES_PER_THREAD"
    using assms by (simp add: messages_ok_def)
  note ids = ids_upsert_old [OF Some len, of now run t]
  have "length (ag_messages (upsertMessage now s m run t)) = length (ag_messages s)"
    using ids by (metis length_map)
  moreover have "cm_id ` set (ag_messages (upsertMessage now s m run t)) = cm_id ` set (ag_messages s)"
    using ids by (metis list.set_map)
  ultimately show ?thesis
    using assms ids by (auto simp: messages_ok_def)
qed

lemma logs_ok_upsert [simp]: "logs_ok (upsertMessage now s m run t) = logs_ok s"
  by (simp add: logs_ok_def upsertMessage_def Let_def)

lemma thread_ok_upsert [ag_ok]: "thread_ok s \<Longrightarrow> thread_ok (upsertMessage now s m run t)"
  by (simp add: thread_ok_def messages_ok_upsert)

lemma thread_ok_filter [ag_ok]:
  "thread_ok s \<Longrightarrow> thread_ok (s\<lparr>ag_messages := filter p (ag_messages s)\<rparr>)"
  by (auto simp: thread_ok_def messages_ok_def logs_ok_def distinct_map_filter
      intro: order.trans [OF length_filter_le])

text \<open>Finding a message right after it was stored, and every other message.\<close>

lemma findMessage_upsert_same:
  assumes "messages_ok s"
  shows "findMessage (upsertMessage now s m run t) (cm_id m) = Some (stored now s m t)"
proof (cases "findMessage s (cm_id m)")
  case None
  let ?ms = "ag_messages s @ [stored now s m t]"
  obtain ys where ys: "last_n MAX_MESSAGES_PER_THREAD ?ms = ys @ [stored now s m t]"
      and sub: "set ys \<subseteq> set (ag_messages s)"
    by (auto simp: last_n_def MAX_MESSAGES_PER_THREAD_def dest: in_set_dropD)
  have "cm_id m \<notin> cm_id ` set ys" using None sub by (auto simp: findMessage_None)
  then have "List.find (\<lambda>x. cm_id x = cm_id m) (ys @ [stored now s m t]) = Some (stored now s m t)"
    by (induction ys) auto
  then show ?thesis by (simp add: findMessage_def upsert_new [OF None] ys)
next
  case (Some e)
  then have "\<exists>x \<in> set (ag_messages s). cm_id x = cm_id m"
    by (auto dest: findMessage_Some)
  with Some assms show ?thesis
    by (simp add: findMessage_def upsert_old messages_ok_def find_replace_first)
qed

section \<open>Operations\<close>

lemma thread_ok_remember [ag_ok]: "thread_ok s \<Longrightarrow> thread_ok (rememberReplacement s i r)"
  by (simp add: rememberReplacement_def split: option.split)

lemma thread_ok_openText [ag_ok]: "thread_ok s \<Longrightarrow> thread_ok (openText now s e i r n)"
  by (simp add: openText_def ag_ok split: option.split)

lemma thread_ok_openReasoning [ag_ok]: "thread_ok s \<Longrightarrow> thread_ok (openReasoning now s e i)"
  by (simp add: openReasoning_def ag_ok split: option.split)

lemma thread_ok_appendText [ag_ok]: "thread_ok s \<Longrightarrow> thread_ok (appendText now s i d run t r)"
  by (simp add: appendText_def Let_def ag_ok split: option.split)

lemma thread_ok_toolResult [ag_ok]:
  "thread_ok s \<Longrightarrow> thread_ok (upsertToolResult now s run i c text t)"
  by (simp add: upsertToolResult_def Let_def ag_ok)

lemma thread_ok_appendToolResult [ag_ok]:
  "thread_ok s \<Longrightarrow> thread_ok (appendToolResult now s run i c d t)"
  by (simp add: appendToolResult_def Let_def ag_ok split: option.split)

lemma thread_ok_activitySnapshot [ag_ok]:
  "thread_ok s \<Longrightarrow> thread_ok (reduceActivitySnapshot now s run i ty c t)"
  by (simp add: reduceActivitySnapshot_def Let_def ag_ok split: option.split)

lemma thread_ok_startToolCall [ag_ok]:
  "thread_ok s \<Longrightarrow> thread_ok (startToolCall now s run c n p t)"
  by (simp add: startToolCall_def Let_def ag_ok split: option.split)

lemma thread_ok_appendToolArgs [ag_ok]:
  "thread_ok s \<Longrightarrow> thread_ok (appendToolArgs now s run c d t)"
  by (simp add: appendToolArgs_def Let_def ag_ok split: option.split)

lemma thread_ok_activityDelta [ag_ok]:
  "thread_ok s \<Longrightarrow> thread_ok (applyActivityDelta now s run i ty p t)"
  by (simp add: applyActivityDelta_def Let_def ag_ok)

lemma thread_ok_markTerminal [ag_ok]: "thread_ok s \<Longrightarrow> thread_ok (markTerminal s i)"
  by (simp add: markTerminal_def)

lemma thread_ok_markRunTerminal [ag_ok]: "thread_ok s \<Longrightarrow> thread_ok (markRunTerminal s run)"
  by (simp add: markRunTerminal_def Let_def)

lemma thread_ok_encrypted [ag_ok]:
  "thread_ok s \<Longrightarrow> thread_ok (updateEncryptedValue now s i v sub)"
  by (simp add: updateEncryptedValue_def Let_def ag_ok split: option.split encryptedSubtype.split)

lemma thread_ok_structuredMessage [ag_ok]:
  "thread_ok s \<Longrightarrow> thread_ok (reduceStructuredMessageContent now s e v)"
  by (simp add: reduceStructuredMessageContent_def Let_def ag_ok)

lemma thread_ok_toolText [ag_ok]: "thread_ok s \<Longrightarrow> thread_ok (reduceToolText now s e v)"
  by (simp add: reduceToolText_def Let_def ag_ok split: option.split)

lemma thread_ok_toolContent [ag_ok]: "thread_ok s \<Longrightarrow> thread_ok (reduceToolContent now s e v)"
  by (simp add: reduceToolContent_def Let_def ag_ok)

lemma thread_ok_subagent [ag_ok]: "thread_ok s \<Longrightarrow> thread_ok (reduceSubagentActivity now s e v)"
  by (simp add: reduceSubagentActivity_def Let_def ag_ok split: list.split)

lemma thread_ok_raw [ag_ok]:
  "thread_ok s \<Longrightarrow> thread_ok (s\<lparr>ag_rawEvents := last_n MAX_RAW_EVENTS_PER_THREAD xs\<rparr>)"
  by (simp add: thread_ok_def messages_ok_def logs_ok_def)

lemma thread_ok_metadata [ag_ok]:
  assumes "thread_ok s"
  shows "thread_ok (storeCustomMetadata s name v)"
proof -
  have "distinct (filter (\<lambda>e. e \<noteq> name) (ag_customMetadataOrder s) @ [name])"
    using assms by (auto simp: thread_ok_def logs_ok_def)
  then show ?thesis
    using assms
    by (simp add: storeCustomMetadata_def Let_def thread_ok_def messages_ok_def logs_ok_def
        keys_from_entries distinct_last_n image_image)
qed

lemma thread_ok_snapshot [ag_ok]:
  assumes "thread_ok s" "distinct (map cm_id ms)"
  shows "thread_ok (applyMessagesSnapshot now s run ms t)"
proof -
  have sub: "cm_id ` set (last_n n (map f xs)) \<subseteq> cm_id ` set xs"
    if "\<And>x. cm_id (f x) = cm_id x" for n f and xs :: "chatMessage list"
    using set_last_n [of n "map f xs"] that by auto
  show ?thesis
    using assms
    by (auto simp: applyMessagesSnapshot_def Let_def thread_ok_def messages_ok_def logs_ok_def
        map_last_n distinct_last_n comp_def distinct_map_filter keys_from_entries image_image
        dest!: subsetD [OF sub, rotated] subsetD [OF set_last_n])
qed

lemma chunk_outcome_ok:
  assumes "thread_ok s"
  shows "reduceCustomChunk s name v = Stored s' \<Longrightarrow> thread_ok s'"
    and "reduceCustomChunk s name v = Completed s' key w \<Longrightarrow> thread_ok s'"
  using assms
  by (auto simp: reduceCustomChunk_def Let_def split: option.splits if_splits)

lemma thread_ok_custom [ag_ok]: "thread_ok s \<Longrightarrow> thread_ok (reduceCustomEvent now s e name v)"
proof (induction now s e name v rule: reduceCustomEvent.induct)
  case (1 now s e name v)
  show ?case
  proof (cases "ends_with name ''-chunk''")
    case False
    with "1.prems" show ?thesis by (simp add: reduceCustomEvent.simps [of now s e name v] ag_ok)
  next
    case True
    show ?thesis
    proof (cases "reduceCustomChunk s name (js_record v)")
      case (Stored s')
      with True chunk_outcome_ok(1) [OF "1.prems"] show ?thesis
        by (simp add: reduceCustomEvent.simps [of now s e name v])
    next
      case (Completed s' key w)
      with True chunk_outcome_ok(2) [OF "1.prems"] "1.IH" show ?thesis
        by (simp add: reduceCustomEvent.simps [of now s e name v] Let_def)
    qed
  qed
qed

lemma thread_ok_reduce:
  assumes "thread_ok s" "event_ok (en_event e)"
  shows "thread_ok (reduceThreadState now s e)"
  using assms
  by (auto simp: reduceThreadState_def Let_def event_ok_def ag_ok
      split: agUiEvent.splits option.splits)

interpretation ag_thread: machine "\<lambda>(now, e) s. reduceThreadState now s e" thread_ok
    "\<lambda>(now, e). event_ok (en_event e)"
  by unfold_locales (auto intro: thread_ok_reduce)

end
