(* ===== verification/JsonLaws.thy ===== *)
theory JsonLaws
  imports JsValue
begin

text \<open>
  \<open>JSON.parse\<close> inverts \<open>JSON.stringify\<close> on plain values (no \<open>undefined\<close>, integral numbers,
  objects whose properties are in enumeration order), and its fuel is enough on every input.
\<close>

section \<open>Characters and string literals\<close>

lemma hex_val_hex_digit [simp]: "d < 16 \<Longrightarrow> hex_val (hex_digit d) = Some d"
  by (auto simp: hex_val_def hex_digit_def Let_def of_char_of)

lemma hex_val_zero [simp]: "hex_val CHR ''0'' = Some 0"
  by (simp add: hex_val_def)

lemma char_of_of_char_nat [simp]: "char_of (of_char c :: nat) = c"
  by simp

lemma utf8_ascii: "n < 128 \<Longrightarrow> utf8 n = [char_of n]"
  by (simp add: utf8_def)

lemma decode_control:
  assumes "(of_char c :: nat) < 32"
  shows "decode_unicode (CHR ''0'' # CHR ''0'' # hex_digit (of_char c div 16)
           # hex_digit (of_char c mod 16) # x) = Some ([c], x)"
proof -
  have "(of_char c :: nat) div 16 * 16 + of_char c mod 16 = of_char c" by simp
  moreover have "(of_char c :: nat) div 16 < 16" using assms by simp
  ultimately show ?thesis
    using assms by (simp add: decode_unicode_def utf8_ascii)
qed

lemma string_body_escape:
  "string_body (escape_char c @ x) = map_option (\<lambda>(u, r). (c # u, r)) (string_body x)"
  by (auto simp: escape_char_def decode_control)

lemma string_body_quoted: "string_body (concat (map escape_char s) @ CHR 0x22 # r) = Some (s, r)"
  by (induction s) (simp_all add: string_body_escape)

section \<open>Numbers\<close>

definition delimited :: "string \<Rightarrow> bool" where
  "delimited r \<longleftrightarrow> (case r of [] \<Rightarrow> True | c # _ \<Rightarrow> c \<in> {CHR '','', CHR '']'', CHR ''}''})"

lemma delimited_Cons [simp]: "delimited (c # r) \<longleftrightarrow> c \<in> {CHR '','', CHR '']'', CHR ''}''}"
  and delimited_Nil [simp]: "delimited []"
  by (simp_all add: delimited_def)

lemma delimited_digit_run:
  assumes "list_all is_digit ds" "delimited r"
  shows "digit_run (ds @ r) = (ds, r)"
proof -
  have "takeWhile is_digit r = [] \<and> dropWhile is_digit r = r"
    using assms(2) by (cases r) (auto simp: is_digit_def)
  moreover have "takeWhile is_digit (ds @ r) = ds @ takeWhile is_digit r"
    and "dropWhile is_digit (ds @ r) = dropWhile is_digit r"
    using assms(1) by (simp_all add: list_all_iff takeWhile_append2 dropWhile_append2)
  ultimately show ?thesis by (simp add: digit_run_def)
qed

lemma delimited_frac: "delimited r \<Longrightarrow> frac_part r = Some ([], r)"
  by (cases r) (auto simp: frac_part_def)

lemma delimited_exp: "delimited r \<Longrightarrow> exp_part r = Some (0, r)"
  by (cases r) (auto simp: exp_part_def)

lemma show_nat_hd: "0 < n \<Longrightarrow> hd (show_nat n) \<noteq> CHR ''0''"
proof (induction n rule: show_nat.induct)
  case (1 n)
  show ?case
  proof (cases "n < 10")
    case True
    with "1.prems" have "(of_char (digit_char n) :: nat) \<noteq> of_char CHR ''0''"
      by (subst of_char_digit_char) simp_all
    then have "digit_char n \<noteq> CHR ''0''" by metis
    with True show ?thesis by (simp add: show_nat.simps [of n])
  next
    case False
    with "1.IH" show ?thesis by (simp add: show_nat.simps [of n])
  qed
qed

lemma list_all_show_nat: "list_all is_digit (show_nat n)"
  by (auto simp: list_all_iff intro: show_nat_digits)

lemma int_part_show_nat:
  assumes "delimited r"
  shows "int_part (show_nat n @ r) = Some (n, r)"
proof (cases "n = 0")
  case True
  then show ?thesis by (simp add: show_nat.simps int_part_def)
next
  case False
  obtain c cs where s: "show_nat n = c # cs" by (cases "show_nat n") auto
  with False have "c \<noteq> CHR ''0''" using show_nat_hd [of n] by simp
  moreover have "is_digit c" using show_nat_digits [of c n] s by simp
  moreover have "digit_run (c # cs @ r) = (show_nat n, r)"
    using delimited_digit_run [OF list_all_show_nat assms, of n] s by simp
  moreover have "digits_val (c # cs) = n" using digits_val_show_nat [of n] s by simp
  ultimately show ?thesis by (simp add: s int_part_def)
qed

lemma show_nat_not_minus: "show_nat n = c # cs \<Longrightarrow> c \<noteq> CHR ''-''"
  using show_nat_digits [of c n] by (auto simp: is_digit_def)

lemma parse_number_show_int:
  assumes "delimited r"
  shows "parse_number (show_int i @ r) = Some (of_int i, r)"
proof -
  obtain c cs where s: "show_nat (nat i) = c # cs" by (cases "show_nat (nat i)") auto
  have "\<not> starts_with (show_nat (nat i) @ r) ''-''"
    using show_nat_not_minus [OF s] s by simp
  then show ?thesis
    using assms
    by (auto simp: parse_number_def show_int_def Let_def int_part_show_nat delimited_frac
        delimited_exp pow10_def digits_val_def starts_with_def)
qed

lemma show_int_hd: "\<exists>c cs. show_int i = c # cs \<and> (c = CHR ''-'' \<or> is_digit c)"
proof (cases "i < 0")
  case True
  then show ?thesis by (simp add: show_int_def)
next
  case False
  obtain c cs where s: "show_nat (nat i) = c # cs" by (cases "show_nat (nat i)") auto
  with show_nat_digits [of c "nat i"] False show ?thesis by (simp add: show_int_def)
qed

section \<open>Values\<close>

text \<open>Values that survive \<open>JSON.parse(JSON.stringify(v))\<close> unchanged.\<close>

fun json_plain :: "jsv \<Rightarrow> bool" where
  "json_plain JUndefined = False"
| "json_plain JNull = True"
| "json_plain (JBool b) = True"
| "json_plain (JNum q) = (of_int \<lfloor>q\<rfloor> = q)"
| "json_plain (JStr s) = True"
| "json_plain (JArr vs) = list_all json_plain vs"
| "json_plain (JObj kvs) = (from_entries kvs = kvs \<and> list_all (\<lambda>(k, v). json_plain v) kvs)"

definition opens_value :: "char \<Rightarrow> bool" where
  "opens_value c \<longleftrightarrow> c = CHR 0x22 \<or> c = CHR ''['' \<or> c = CHR ''{'' \<or> c = CHR ''t'' \<or> c = CHR ''f''
     \<or> c = CHR ''n'' \<or> c = CHR ''-'' \<or> is_digit c"

lemma opening_not:
  "opens_value c \<Longrightarrow> c \<notin> {CHR 0x20, CHR 0x09, CHR 0x0A, CHR 0x0D, CHR '']'', CHR ''}'', CHR '',''}"
  by (auto simp: opens_value_def is_digit_def)

lemma json_text_opening: "json_plain v \<Longrightarrow> \<exists>c cs. json_text v = c # cs \<and> opens_value c"
proof (cases v)
  case (JNum q)
  assume "json_plain v"
  with JNum show ?thesis
    using show_int_hd [of "\<lfloor>q\<rfloor>"] by (auto simp: show_num_def opens_value_def)
qed (auto simp: opens_value_def quote_def)

lemma skip_ws_opening: "opens_value c \<Longrightarrow> skip_ws (c # s) = c # s"
  using opening_not [of c] by (simp add: skip_ws_def)

lemma skip_ws_value: "json_plain v \<Longrightarrow> skip_ws (json_text v @ r) = json_text v @ r"
  using json_text_opening [of v] skip_ws_opening by fastforce

lemma skip_ws_char [simp]:
  "c \<notin> {CHR 0x20, CHR 0x09, CHR 0x0A, CHR 0x0D} \<Longrightarrow> skip_ws (c # s) = c # s"
  by (simp add: skip_ws_def)

lemma skip_ws_quote [simp]: "skip_ws (quote s @ r) = quote s @ r"
  by (simp add: quote_def)

lemma string_body_quote: "string_body (tl (quote s @ r)) = Some (s, r)"
  using string_body_quoted [of s r] by (simp add: quote_def)

text \<open>What the parser does on one value's text, given enough fuel.\<close>

definition reads_back :: "jsv \<Rightarrow> bool" where
  "reads_back v \<longleftrightarrow>
     (\<forall>n r. delimited r \<longrightarrow> 2 * length (json_text v) + 1 \<le> n \<longrightarrow>
        parse_value n (json_text v @ r) = Some (v, r))"

lemma reads_backD:
  "reads_back v \<Longrightarrow> delimited r \<Longrightarrow> 2 * length (json_text v) + 1 \<le> n
     \<Longrightarrow> parse_value n (json_text v @ r) = Some (v, r)"
  by (simp add: reads_back_def)

lemma parse_elements_text:
  assumes "\<And>v. v \<in> set vs \<Longrightarrow> reads_back v" "vs \<noteq> []"
    and "2 * length (join '','' (map json_text vs)) + 2 \<le> n"
  shows "parse_elements n (join '','' (map json_text vs) @ CHR '']'' # r) = Some (vs, r)"
  using assms
proof (induction vs arbitrary: n)
  case Nil
  then show ?case by simp
next
  case (Cons v vs)
  obtain m where n: "n = Suc m" using Cons.prems(3) by (cases n) auto
  show ?case
  proof (cases "vs = []")
    case True
    with Cons.prems n have "parse_value m (json_text v @ CHR '']'' # r) = Some (v, CHR '']'' # r)"
      by (intro reads_backD) auto
    with True n show ?thesis by simp
  next
    case False
    let ?rest = "join '','' (map json_text vs) @ CHR '']'' # r"
    from False Cons.prems n
    have "parse_value m (json_text v @ CHR '','' # ?rest) = Some (v, CHR '','' # ?rest)"
      by (intro reads_backD) (auto simp: join_Cons)
    moreover have "parse_elements m ?rest = Some (vs, r)"
      using Cons.prems n False by (intro Cons.IH) (auto simp: join_Cons)
    ultimately show ?thesis using False n by (simp add: join_Cons)
  qed
qed

definition member_text :: "string \<times> jsv \<Rightarrow> string" where
  "member_text kv = quote (fst kv) @ '':'' @ json_text (snd kv)"

lemma member_text_pair: "member_text (k, v) = quote k @ '':'' @ json_text v"
  by (simp add: member_text_def)

lemma parse_members_text:
  assumes "\<And>k v. (k, v) \<in> set kvs \<Longrightarrow> reads_back v \<and> json_plain v" "kvs \<noteq> []"
    and "2 * length (join '','' (map member_text kvs)) + 2 \<le> n"
  shows "parse_members n acc (join '','' (map member_text kvs) @ CHR ''}'' # r)
    = Some (fold (\<lambda>(k, v). obj_set k v) kvs acc, r)"
  using assms
proof (induction kvs arbitrary: n acc)
  case Nil
  then show ?case by simp
next
  case (Cons kv kvs)
  obtain k v where kv: "kv = (k, v)" by (cases kv)
  obtain m where n: "n = Suc m" using Cons.prems(3) by (cases n) auto
  have q: "quote k @ x = CHR 0x22 # concat (map escape_char k) @ CHR 0x22 # x" for x
    by (simp add: quote_def)
  have v: "reads_back v" using Cons.prems(1) kv by auto
  show ?case
  proof (cases "kvs = []")
    case True
    with Cons.prems n kv have "parse_value m (json_text v @ CHR ''}'' # r) = Some (v, CHR ''}'' # r)"
      by (intro reads_backD [OF v]) (auto simp: member_text_def)
    with True n kv show ?thesis by (simp add: member_text_pair q string_body_quoted)
  next
    case False
    let ?rest = "join '','' (map member_text kvs) @ CHR ''}'' # r"
    from False Cons.prems n kv
    have "parse_value m (json_text v @ CHR '','' # ?rest) = Some (v, CHR '','' # ?rest)"
      by (intro reads_backD [OF v]) (auto simp: join_Cons member_text_def)
    moreover have "parse_members m (obj_set k v acc) ?rest
        = Some (fold (\<lambda>(k, v). obj_set k v) kvs (obj_set k v acc), r)"
      using Cons.prems n False by (intro Cons.IH) (auto simp: join_Cons)
    ultimately show ?thesis using False n kv
      by (simp add: join_Cons member_text_pair q string_body_quoted)
  qed
qed

lemma object_text:
  assumes "list_all (\<lambda>(k, v). json_plain v) kvs"
  shows "json_text (JObj kvs) = ''{'' @ join '','' (map member_text kvs) @ ''}''"
proof -
  have "filter (\<lambda>(k, v). v \<noteq> JUndefined) kvs = kvs"
    using assms by (auto simp: list_all_iff intro!: filter_True)
  then show ?thesis by (simp add: member_text_def [abs_def] case_prod_unfold)
qed

lemma join_map_not_Nil: "xs \<noteq> [] \<Longrightarrow> \<exists>y ys. join s (map f xs) = join s (f y # ys)"
  by (cases xs) auto

lemma reads_back_array:
  assumes "\<And>v. v \<in> set vs \<Longrightarrow> reads_back v \<and> json_plain v"
  shows "reads_back (JArr vs)"
  unfolding reads_back_def
proof (intro allI impI)
  fix n r
  assume n: "2 * length (json_text (JArr vs)) + 1 \<le> n"
  then obtain m where m: "n = Suc m" by (cases n) auto
  show "parse_value n (json_text (JArr vs) @ r) = Some (JArr vs, r)"
  proof (cases vs)
    case Nil
    with m show ?thesis by simp
  next
    case (Cons v ws)
    let ?t = "join '','' (map json_text vs) @ CHR '']'' # r"
    have "json_plain v" using assms Cons by simp
    then obtain c cs where c: "json_text v = c # cs" "opens_value c"
      using json_text_opening by blast
    then obtain ds where t: "?t = c # ds" using Cons by (cases ws) auto
    have "parse_elements m ?t = Some (vs, r)"
      using assms n m Cons by (intro parse_elements_text) auto
    then show ?thesis
      using m t c(2) opening_not [of c] skip_ws_opening [of c ds]
      by simp
  qed
qed

lemma reads_back_object:
  assumes "\<And>k v. (k, v) \<in> set kvs \<Longrightarrow> reads_back v \<and> json_plain v" "from_entries kvs = kvs"
  shows "reads_back (JObj kvs)"
  unfolding reads_back_def
proof (intro allI impI)
  fix n r
  assume n: "2 * length (json_text (JObj kvs)) + 1 \<le> n"
  have body: "json_text (JObj kvs) = ''{'' @ join '','' (map member_text kvs) @ ''}''"
    using assms(1) by (intro object_text) (auto simp: list_all_iff)
  from n obtain m where m: "n = Suc m" by (cases n) auto
  show "parse_value n (json_text (JObj kvs) @ r) = Some (JObj kvs, r)"
  proof (cases kvs)
    case Nil
    with m show ?thesis by simp
  next
    case (Cons kv ws)
    let ?t = "join '','' (map member_text kvs) @ CHR ''}'' # r"
    obtain ds where t: "?t = CHR 0x22 # ds"
      using Cons by (cases ws) (auto simp: member_text_def quote_def)
    have "parse_members m [] ?t = Some (fold (\<lambda>(k, v). obj_set k v) kvs [], r)"
      using assms n m Cons body by (intro parse_members_text) auto
    then show ?thesis
      using m t assms(2) unfolding body
      by (simp add: from_entries_def)
  qed
qed

lemma reads_back_plain: "json_plain v \<Longrightarrow> reads_back v"
proof (induction v rule: json_plain.induct)
  case (4 q)
  show ?case
    unfolding reads_back_def
  proof (intro allI impI)
    fix n r
    assume r: "delimited r" and n: "2 * length (json_text (JNum q)) + 1 \<le> n"
    then obtain m where m: "n = Suc m" by (cases n) auto
    obtain c cs where s: "show_int \<lfloor>q\<rfloor> = c # cs" and c: "c = CHR ''-'' \<or> is_digit c"
      using show_int_hd by blast
    from c have o: "opens_value c" and c': "c \<notin> {CHR 0x22, CHR ''['', CHR ''{'', CHR ''t'', CHR ''f'', CHR ''n''}"
      by (auto simp: opens_value_def is_digit_def)
    have body: "json_text (JNum q) = c # cs" using 4 s by (simp add: show_num_def)
    have "parse_number (c # cs @ r) = Some (q, r)"
      using parse_number_show_int [OF r, of "\<lfloor>q\<rfloor>"] 4 s by simp
    then show "parse_value n (json_text (JNum q) @ r) = Some (JNum q, r)"
      unfolding body m using c' skip_ws_opening [OF o, of "cs @ r"] by simp
  qed
next
  case (5 s)
  show ?case
  proof (unfold reads_back_def, intro allI impI)
    fix n r
    assume "2 * length (json_text (JStr s)) + 1 \<le> n"
    then obtain m where "n = Suc m" by (cases n) auto
    then show "parse_value n (json_text (JStr s) @ r) = Some (JStr s, r)"
      by (simp add: quote_def string_body_quoted)
  qed
next
  case (6 vs)
  then show ?case by (intro reads_back_array) (auto simp: list_all_iff)
next
  case (7 kvs)
  then show ?case by (intro reads_back_object) (auto simp: list_all_iff)
next
  case 2
  show ?case
    unfolding reads_back_def
    by (intro allI impI, rename_tac n r, case_tac n) simp_all
next
  case (3 b)
  show ?case
    unfolding reads_back_def
    by (intro allI impI, rename_tac n r, case_tac n) simp_all
qed simp

lemma json_parse_text: "json_plain v \<Longrightarrow> json_parse (json_text v) = Some v"
  using reads_backD [OF reads_back_plain, of v "[]" "2 * length (json_text v) + 2"]
  by (simp add: json_parse_def skip_ws_def)

section \<open>Fuel\<close>

lemma skip_ws_length: "length (skip_ws s) \<le> length s"
  by (simp add: skip_ws_def length_dropWhile_le)

lemma skip_ws_ConsD: "skip_ws s = c # r \<Longrightarrow> length r < length s"
  using skip_ws_length [of s] by simp

lemma digit_run_length: "length (snd (digit_run s)) \<le> length s"
  by (simp add: digit_run_def length_dropWhile_le)

lemma int_part_length: "int_part s = Some (i, r) \<Longrightarrow> length r < length s"
  by (cases s) (auto simp: int_part_def digit_run_def le_imp_less_Suc length_dropWhile_le
      split: if_splits)

lemma frac_part_length: "frac_part s = Some (t, r) \<Longrightarrow> length r \<le> length s"
proof (cases s)
  case (Cons c cs)
  assume "frac_part s = Some (t, r)"
  with Cons digit_run_length [of cs] show ?thesis
    by (auto simp: frac_part_def split: if_splits dest!: arg_cong [where f = snd])
qed (simp add: frac_part_def)

lemma exp_part_length: "exp_part s = Some (e, r) \<Longrightarrow> length r \<le> length s"
proof (cases s)
  case (Cons c cs)
  assume "exp_part s = Some (e, r)"
  with Cons digit_run_length [of cs] digit_run_length [of "tl cs"] show ?thesis
    by (auto simp: exp_part_def Let_def split: if_splits)
qed (simp add: exp_part_def)

lemma parse_number_length: "parse_number s = Some (q, r) \<Longrightarrow> length r < length s"
  by (cases s)
    (auto simp: parse_number_def Let_def split: option.splits if_splits
      dest!: int_part_length frac_part_length exp_part_length)

lemma starts_with_tl: "starts_with (skip_ws s) (c # t) \<Longrightarrow> length (tl (skip_ws s)) < length s"
  using skip_ws_length [of s] by (cases "skip_ws s") auto

lemma parser_consumes:
  shows "parse_value n s = Some (v, r) \<Longrightarrow> length r < length s"
    and "parse_elements n s = Some (vs, r) \<Longrightarrow> length r < length s"
    and "parse_members n acc s = Some (kvs, r) \<Longrightarrow> length r < length s"
proof (induction n s and n s and n acc s arbitrary: v r and vs r and kvs r
    rule: parse_value_parse_elements_parse_members.induct)
  case (2 n s)
  obtain c cs where s: "skip_ws s = c # cs"
    using "2.prems" by (auto split: list.splits)
  then have len: "length cs < length s" by (rule skip_ws_ConsD)
  have array: "length r' < length cs"
    if "parse_elements n cs = Some (vs, r')" "c = CHR ''[''" "\<not> starts_with (skip_ws cs) '']''"
    for vs r' using "2.IH"(1) [OF s _ that(2,3,1)] that(2) by simp
  have object: "length r' < length cs"
    if "parse_members n [] cs = Some (kvs, r')" "c = CHR ''{''" "\<not> starts_with (skip_ws cs) ''}''"
    for kvs r' using "2.IH"(2) [OF s _ _ that(2,3,1)] that(2) by simp
  from len "2.prems" show ?case
    by (auto simp: s split: if_splits
        dest!: string_body_length array object parse_number_length starts_with_tl)
next
  case (4 n s)
  obtain w r1 where w: "parse_value n s = Some (w, r1)"
    using "4.prems" by (auto split: option.splits)
  obtain c cs where s: "skip_ws r1 = c # cs"
    using "4.prems" w by (auto split: list.splits)
  from "4.IH"(1) [OF w] skip_ws_ConsD [OF s] "4.prems" w s show ?case
    by (auto split: if_splits dest!: "4.IH"(2) [OF w refl s])
next
  case (6 n acc s)
  obtain c cs k r1 v r2 d r3 where s: "skip_ws s = c # cs" and k: "string_body cs = Some (k, r1)"
    and v: "parse_value n (tl (skip_ws r1)) = Some (v, r2)" and d: "skip_ws r2 = d # r3"
    and q: "c = CHR 0x22" and colon: "starts_with (skip_ws r1) '':''"
    using "6.prems" by (auto split: list.splits option.splits if_splits)
  have "length r3 < length s"
    using skip_ws_ConsD [OF s] string_body_length [OF k] starts_with_tl [OF colon]
      "6.IH"(1) [OF s _ k refl _ v] q colon skip_ws_ConsD [OF d] by simp
  with "6.prems" s k v d q colon show ?case
    by (auto split: if_splits dest!: "6.IH"(2))
qed simp_all

text \<open>Fuel beyond twice the length of the input changes nothing.\<close>

lemma more_fuel:
  shows "2 * length s + 1 \<le> n \<Longrightarrow> parse_value (Suc n) s = parse_value n s"
    and "2 * length s + 2 \<le> n \<Longrightarrow> parse_elements (Suc n) s = parse_elements n s"
    and "2 * length s + 2 \<le> n \<Longrightarrow> parse_members (Suc n) acc s = parse_members n acc s"
proof (induction n s and n s and n acc s
    rule: parse_value_parse_elements_parse_members.induct)
  case (2 n s)
  show ?case
  proof (cases "skip_ws s")
    case Nil
    then show ?thesis by simp
  next
    case s: (Cons c cs)
    then have "length cs < length s" by (rule skip_ws_ConsD)
    with "2.prems" have n: "2 * length cs + 2 \<le> n" by simp
    have "parse_elements (Suc n) cs = parse_elements n cs"
      if "c = CHR ''[''" "\<not> starts_with (skip_ws cs) '']''"
      using "2.IH"(1) [OF s _ that n] that by simp
    moreover have "parse_members (Suc n) [] cs = parse_members n [] cs"
      if "c = CHR ''{''" "\<not> starts_with (skip_ws cs) ''}''"
      using "2.IH"(2) [OF s _ _ that n] that by simp
    ultimately show ?thesis
      unfolding parse_value.simps(2) [of "Suc n" s] parse_value.simps(2) [of n s] s by simp
  qed
next
  case (4 n s)
  have v: "parse_value (Suc n) s = parse_value n s" using "4.IH"(1) "4.prems" by simp
  show ?case
  proof (cases "parse_value n s")
    case None
    with v show ?thesis by simp
  next
    case (Some p)
    obtain w r1 where w: "parse_value n s = Some (w, r1)" using Some by (cases p) auto
    show ?thesis
    proof (cases "skip_ws r1")
      case Nil
      with v w show ?thesis by simp
    next
      case r1: (Cons c cs)
      have "2 * length cs + 2 \<le> n"
        using parser_consumes(1) [OF w] skip_ws_ConsD [OF r1] "4.prems" by simp
      then have "parse_elements (Suc n) cs = parse_elements n cs" if "c = CHR '',''"
        using "4.IH"(2) [OF w refl r1 that] by simp
      with v w r1 show ?thesis
        unfolding parse_elements.simps(2) [of "Suc n" s] parse_elements.simps(2) [of n s] by simp
    qed
  qed
next
  case (6 n acc s)
  show ?case
  proof (cases "\<exists>cs k r1. skip_ws s = CHR 0x22 # cs \<and> string_body cs = Some (k, r1)
      \<and> starts_with (skip_ws r1) '':''")
    case False
    then show ?thesis
      unfolding parse_members.simps(2) [of "Suc n" acc s] parse_members.simps(2) [of n acc s]
      by (auto split: list.splits option.splits)
  next
    case True
    then obtain cs k r1 where s: "skip_ws s = CHR 0x22 # cs" and k: "string_body cs = Some (k, r1)"
      and colon: "starts_with (skip_ws r1) '':''" by blast
    let ?t = "tl (skip_ws r1)"
    have t: "length ?t + 2 < length s"
      using skip_ws_ConsD [OF s] string_body_length [OF k] starts_with_tl [OF colon] by simp
    with "6.prems" have v: "parse_value (Suc n) ?t = parse_value n ?t"
      using "6.IH"(1) [OF s _ k refl] colon by simp
    have m: "parse_members (Suc n) (obj_set k w acc) ds = parse_members n (obj_set k w acc) ds"
      if w: "parse_value n ?t = Some (w, r2)" and d: "skip_ws r2 = CHR '','' # ds" for w r2 ds
    proof -
      have "2 * length ds + 2 \<le> n"
        using parser_consumes(1) [OF w] skip_ws_ConsD [OF d] t "6.prems" by simp
      then show ?thesis using "6.IH"(2) [OF s _ k refl _ w refl d] colon by simp
    qed
    show ?thesis
      unfolding parse_members.simps(2) [of "Suc n" acc s] parse_members.simps(2) [of n acc s]
      using v
      by (auto simp: s k colon m simp del: parse_value.simps parse_members.simps
          split: option.splits list.splits)
  qed
qed simp_all

lemma json_fuel_enough:
  "2 * length s + 2 \<le> n \<Longrightarrow> parse_value n s = parse_value (2 * length s + 2) s"
  by (induction n rule: dec_induct) (simp_all only: more_fuel(1))

end
