(* ===== verification/AgUiProperties.thy ===== *)
theory AgUiProperties
  imports AgUiInvariant JsonLaws
begin

text \<open>
  The properties of the AG-UI reducer: the invariant of a thread over any sequence of events,
  streamed text and tool arguments, reassembly of chunked custom events, replays of tool
  content, suppression of the tool calls a subagent stands for, and JSON patches.
\<close>

text \<open>The envelope of an event in the concrete inputs below.\<close>

abbreviation example :: "agUiEvent \<Rightarrow> agUiEventEnvelope" where
  "example event \<equiv> \<lparr>en_threadId = ''t'', en_runId = ''r'', en_sourceTurnId = None, en_event = event,
     en_timestamp = None\<rparr>"

section \<open>Fields an operation leaves alone\<close>

lemma upsert_frame [simp]:
  "ag_subagentToolCallIds (upsertMessage now s m run t) = ag_subagentToolCallIds s"
  "ag_toolCallMessageIdByCallId (upsertMessage now s m run t) = ag_toolCallMessageIdByCallId s"
  "ag_toolResultMessageIdByCallId (upsertMessage now s m run t) = ag_toolResultMessageIdByCallId s"
  "ag_toolTextRevisionByCallId (upsertMessage now s m run t) = ag_toolTextRevisionByCallId s"
  "ag_structuredRevisionByCallId (upsertMessage now s m run t) = ag_structuredRevisionByCallId s"
  "ag_structuredTextByCallId (upsertMessage now s m run t) = ag_structuredTextByCallId s"
  "ag_chunkAssemblies (upsertMessage now s m run t) = ag_chunkAssemblies s"
  by (simp_all add: upsertMessage_def Let_def)

lemma upsert_chunks [simp]:
  "upsertMessage now (s\<lparr>ag_chunkAssemblies := c\<rparr>) m run t
     = (upsertMessage now s m run t)\<lparr>ag_chunkAssemblies := c\<rparr>"
  by (simp add: upsertMessage_def Let_def split: option.split)

lemma toolResult_chunks [simp]:
  "upsertToolResult now (s\<lparr>ag_chunkAssemblies := c\<rparr>) run i call text t
     = (upsertToolResult now s run i call text t)\<lparr>ag_chunkAssemblies := c\<rparr>"
  by (simp add: upsertToolResult_def Let_def)

lemma toolResult_frame [simp]:
  "ag_subagentToolCallIds (upsertToolResult now s run i c text t) = ag_subagentToolCallIds s"
  "ag_toolTextRevisionByCallId (upsertToolResult now s run i c text t) = ag_toolTextRevisionByCallId s"
  "ag_structuredRevisionByCallId (upsertToolResult now s run i c text t) = ag_structuredRevisionByCallId s"
  "ag_structuredTextByCallId (upsertToolResult now s run i c text t) = ag_structuredTextByCallId s"
  "ag_chunkAssemblies (upsertToolResult now s run i c text t) = ag_chunkAssemblies s"
  by (simp_all add: upsertToolResult_def Let_def)

section \<open>All threads\<close>

definition threads_ok :: "(string \<times> agUiThreadMessageState) list \<Rightarrow> bool" where
  "threads_ok ts \<longleftrightarrow> (\<forall>t s. map_of ts t = Some s \<longrightarrow> thread_ok s)"

lemma threads_ok_reduce:
  assumes "threads_ok ts" "event_ok (en_event e)"
  shows "threads_ok (reduceAgUiMessageState now e ts)"
proof -
  have "thread_ok (with_default (map_of ts (en_threadId e)) createAgUiThreadMessageState)"
    using assms(1) by (auto simp: threads_ok_def with_default_def split: option.split)
  then have "thread_ok (reduceThreadState now
      (with_default (map_of ts (en_threadId e)) createAgUiThreadMessageState) e)"
    using assms(2) by (rule thread_ok_reduce)
  with assms(1) show ?thesis
    by (auto simp: threads_ok_def reduceAgUiMessageState_def Let_def split: if_splits)
qed

interpretation ag_threads: machine "\<lambda>(now, e). reduceAgUiMessageState now e" threads_ok
    "\<lambda>(now, e). event_ok (en_event e)"
  by unfold_locales (auto intro: threads_ok_reduce)

lemma not_chunk_names:
  "\<not> suffix ''-chunk'' ''tethercode.dev/tool-content''"
  "\<not> suffix ''-chunk'' ''tethercode.dev/tool-text''"
  "\<not> suffix ''-chunk'' ''tethercode.dev/subagent''"
  by code_simp+

section \<open>Streamed text\<close>

lemma text_of_text_part [simp]: "text_of_part (text_part t) = Some t"
  by (simp add: text_of_part_def text_part_def prop_of_def)

definition partsOf :: "string \<Rightarrow> jsv list" where
  "partsOf p = (if p = [] then [] else [text_part p])"

lemma append_partsOf: "appendOrderedPart (partsOf p) (text_part d) = partsOf (p @ d)"
  by (simp add: appendOrderedPart_def partsOf_def)

lemma contentType_text_part: "contentType (the (js_record (text_part t))) = Some ''text''"
  by (simp add: text_part_def contentType_def prop_of_def) code_simp

lemma render_text_part:
  "renderStructuredContent (text_part t) 0 = (if trim t \<noteq> [] then [t] else [])"
  using contentType_text_part [of t]
  by (subst renderStructuredContent.simps)
    (simp add: text_part_def nullish_def prop_of_def Let_def)

lemma renderParts_visible: "trim p \<noteq> [] \<Longrightarrow> renderOrderedParts (partsOf p) = p"
  by (cases "p = []")
    (auto simp: partsOf_def renderOrderedParts_def renderAgUiCustomContent_def Let_def
      render_text_part join_nonempty_def)

lemma stringify_text_part:
  "(case text_part t of JStr x \<Rightarrow> Some x | _ \<Rightarrow> json_stringify (text_part t))
     = Some (json_text (text_part t))"
  "json_text (text_part t) \<noteq> []"
  by (simp_all add: json_stringify_def text_part_def)

lemma renderParts_blank:
  "trim p = [] \<Longrightarrow> p \<noteq> [] \<Longrightarrow> renderOrderedParts (partsOf p) = json_text (text_part p)"
  by (simp add: partsOf_def renderOrderedParts_def renderAgUiCustomContent_def Let_def
      render_text_part join_nonempty_def stringify_text_part)

text \<open>A message whose only part is the text streamed so far.\<close>

definition streamed :: "agUiThreadMessageState \<Rightarrow> string \<Rightarrow> string \<Rightarrow> bool" where
  "streamed s i p \<longleftrightarrow> thread_ok s \<and>
     (\<exists>m. findMessage s i = Some m \<and> cm_role m = Assistant \<and> cm_parts m = Some (partsOf p)
        \<and> cm_content m = Text (renderOrderedParts (partsOf p)))"

lemma withText_assistant: "cm_role m = Assistant \<Longrightarrow> withText m c = m\<lparr>cm_content := Text c\<rparr>"
  by (simp add: withText_def)

lemma stream_first:
  assumes "thread_ok s" "findMessage s i = None"
  shows "streamed (appendText now s i d run t Assistant) i d"
proof -
  let ?m = "(textMessage now i Assistant (renderOrderedParts (partsOf d)) None)
      \<lparr>cm_parts := Some (partsOf d)\<rparr>"
  have "appendText now s i d run t Assistant = upsertMessage now s ?m run t"
    using assms append_partsOf [of "[]" d]
    by (simp add: appendText_def Let_def message_parts_def partsOf_def)
  moreover have "cm_id ?m = i" "cm_role ?m = Assistant" "cm_parts ?m = Some (partsOf d)"
    "cm_content ?m = Text (renderOrderedParts (partsOf d))"
    by (simp_all add: textMessage_def plainMessage_def)
  moreover have "findMessage (upsertMessage now s ?m run t) (cm_id ?m) = Some (stored now s ?m t)"
    using assms(1) by (intro findMessage_upsert_same) (simp add: thread_ok_def)
  ultimately show ?thesis
    using thread_ok_upsert [OF assms(1), of now ?m run t]
    by (simp only: streamed_def) (metis stored_simps(2,3,4))
qed

lemma stream_next:
  assumes "streamed s i p"
  shows "streamed (appendText now s i d run t Assistant) i (p @ d)"
proof -
  obtain m where ok: "thread_ok s" and m: "findMessage s i = Some m" "cm_role m = Assistant"
      "cm_parts m = Some (partsOf p)"
    using assms by (auto simp: streamed_def)
  let ?m = "m\<lparr>cm_content := Text (renderOrderedParts (partsOf (p @ d))),
      cm_parts := Some (partsOf (p @ d))\<rparr>"
  have "appendText now s i d run t Assistant = upsertMessage now s ?m run t"
    using m by (simp add: appendText_def Let_def message_parts_def append_partsOf withText_assistant)
  moreover have "cm_id ?m = i" using findMessage_Some [OF m(1)] by simp
  moreover have "cm_role ?m = Assistant" "cm_parts ?m = Some (partsOf (p @ d))"
    "cm_content ?m = Text (renderOrderedParts (partsOf (p @ d)))" using m(2) by simp_all
  moreover have "findMessage (upsertMessage now s ?m run t) (cm_id ?m) = Some (stored now s ?m t)"
    using ok by (intro findMessage_upsert_same) (simp add: thread_ok_def)
  ultimately show ?thesis
    using thread_ok_upsert [OF ok, of now ?m run t]
    by (simp only: streamed_def) (metis stored_simps(2,3,4))
qed

definition streamText ::
  "agUiEventEnvelope \<Rightarrow> string \<Rightarrow> (int \<times> int option \<times> string) list \<Rightarrow> agUiThreadMessageState
     \<Rightarrow> agUiThreadMessageState" where
  "streamText e i deltas s =
     fold (\<lambda>(now, ts, d) s. reduceThreadState now s
       (e\<lparr>en_event := TEXT_MESSAGE_CONTENT i d, en_timestamp := ts\<rparr>)) deltas s"

lemma reduce_content:
  "reduceThreadState now s (e\<lparr>en_event := TEXT_MESSAGE_CONTENT i d, en_timestamp := ts\<rparr>)
     = appendText now s i d (en_runId e) ts Assistant"
  by (simp add: reduceThreadState_def Let_def)

lemma stream_more:
  "streamed s i p \<Longrightarrow> streamed (streamText e i deltas s) i (p @ concat (map (snd \<circ> snd) deltas))"
proof (induction deltas arbitrary: s p)
  case Nil
  then show ?case by (simp add: streamText_def)
next
  case (Cons x deltas)
  obtain now ts d where x: "x = (now, ts, d)" by (cases x) auto
  from Cons.IH [OF stream_next [OF Cons.prems, of now d "en_runId e" ts]]
  show ?case by (simp add: x streamText_def reduce_content)
qed



text \<open>A message whose text so far is blank shows the JSON of its text part instead.\<close>

theorem blank_delta_shows_json:
  assumes "thread_ok s" "findMessage s i = None" "d \<noteq> []" "trim d = []"
  shows "\<exists>m. findMessage (streamText e i [(now, ts, d)] s) i = Some m
    \<and> cm_content m = Text (''{'' @ quote ''type'' @ '':'' @ quote ''text'' @ '',''
        @ quote ''text'' @ '':'' @ quote d @ ''}'')"
proof -
  have "streamed (streamText e i [(now, ts, d)] s) i d"
    using stream_first [OF assms(1,2)] by (simp add: streamText_def reduce_content)
  moreover have "json_text (text_part d) = ''{'' @ quote ''type'' @ '':'' @ quote ''text'' @ '',''
        @ quote ''text'' @ '':'' @ quote d @ ''}''"
    by (simp add: text_part_def)
  ultimately show ?thesis
    using assms by (auto simp: streamed_def renderParts_blank)
qed

lemma blank_delta_shows_json_witness:
  "\<exists>m. findMessage (streamText
        (example (UNSUPPORTED)) ''m1''
        [(5, None, '' '')] createAgUiThreadMessageState) ''m1'' = Some m
     \<and> cm_content m = Text (''{'' @ quote ''type'' @ '':'' @ quote ''text'' @ '',''
        @ quote ''text'' @ '':'' @ quote '' '' @ ''}'')"
proof -
  have "findMessage createAgUiThreadMessageState ''m1'' = None"
    by (simp add: findMessage_def createAgUiThreadMessageState_def)
  moreover have "trim '' '' = []" by code_simp
  ultimately show ?thesis
    using blank_delta_shows_json [of createAgUiThreadMessageState "''m1''" "'' ''"] by simp
qed

section \<open>Chunked custom events\<close>

lemma alist_update_middle [simp]:
  "k \<notin> fst ` set xs \<Longrightarrow> AList.update k w (xs @ (k, v) # ys) = xs @ (k, w) # ys"
  by (induction xs) auto

lemma alist_delete_middle:
  "k \<notin> fst ` set (xs @ ys) \<Longrightarrow> AList.delete k (xs @ (k, v) # ys) = xs @ ys"
  by (induction xs) (auto simp: delete_id)

lemma obj_set_new_split:
  assumes "k \<notin> fst ` set m"
  obtains xs ys where "m = xs @ ys" "\<And>v. obj_set k v m = xs @ (k, v) # ys"
proof (cases "array_index k")
  case None
  with assms that [of m "[]"] show ?thesis by (simp add: obj_set_def)
next
  case (Some i)
  with assms that [of "takeWhile (index_below i) m" "dropWhile (index_below i) m"]
  show ?thesis by (simp add: obj_set_def)
qed

lemma obj_set_overwrite:
  assumes "k \<notin> fst ` set m"
  shows "obj_set k w (obj_set k v m) = obj_set k w m"
proof -
  obtain xs ys where m: "m = xs @ ys" and s: "\<And>v. obj_set k v m = xs @ (k, v) # ys"
    using obj_set_new_split [OF assms] by blast
  have "obj_set k w (obj_set k v m) = AList.update k w (obj_set k v m)"
    by (subst obj_set_def) simp
  also have "\<dots> = obj_set k w m"
    unfolding s using assms m by (intro alist_update_middle) auto
  finally show ?thesis .
qed

lemma delete_obj_set_new:
  assumes "k \<notin> fst ` set m"
  shows "AList.delete k (obj_set k v m) = m"
proof -
  obtain xs ys where m: "m = xs @ ys" and s: "\<And>v. obj_set k v m = xs @ (k, v) # ys"
    using obj_set_new_split [OF assms] by blast
  have "k \<notin> fst ` set (xs @ ys)" using assms m by simp
  then have "AList.delete k (xs @ (k, v) # ys) = xs @ ys" by (rule alist_delete_middle)
  then show ?thesis by (simp only: s flip: m)
qed

text \<open>An event that is not a chunk neither reads nor changes the assemblies.\<close>

text \<open>The assemblies of an update are written outermost.\<close>

lemma chunks_outermost:
  "ag_messages_update f (ag_chunkAssemblies_update g s)
     = ag_chunkAssemblies_update g (ag_messages_update f s)"
  "ag_subagentToolCallIds_update h (ag_chunkAssemblies_update g s)
     = ag_chunkAssemblies_update g (ag_subagentToolCallIds_update h s)"
  "ag_customMetadata_update k (ag_chunkAssemblies_update g s)
     = ag_chunkAssemblies_update g (ag_customMetadata_update k s)"
  "ag_customMetadataOrder_update l (ag_chunkAssemblies_update g s)
     = ag_chunkAssemblies_update g (ag_customMetadataOrder_update l s)"
  by (cases s; simp)+

lemma structuredMessage_chunks:
  "reduceStructuredMessageContent now (s\<lparr>ag_chunkAssemblies := c\<rparr>) e v
     = (reduceStructuredMessageContent now s e v)\<lparr>ag_chunkAssemblies := c\<rparr>"
  "ag_chunkAssemblies (reduceStructuredMessageContent now s e v) = ag_chunkAssemblies s"
  by (simp_all add: reduceStructuredMessageContent_def Let_def)

lemma toolText_chunks:
  "reduceToolText now (s\<lparr>ag_chunkAssemblies := c\<rparr>) e v
     = (reduceToolText now s e v)\<lparr>ag_chunkAssemblies := c\<rparr>"
  "ag_chunkAssemblies (reduceToolText now s e v) = ag_chunkAssemblies s"
  by (simp_all add: reduceToolText_def Let_def split: option.split)

lemma toolContent_chunks:
  "reduceToolContent now (s\<lparr>ag_chunkAssemblies := c\<rparr>) e v
     = (reduceToolContent now s e v)\<lparr>ag_chunkAssemblies := c\<rparr>"
  "ag_chunkAssemblies (reduceToolContent now s e v) = ag_chunkAssemblies s"
  by (simp_all add: reduceToolContent_def Let_def)

lemma subagent_chunks:
  "reduceSubagentActivity now (s\<lparr>ag_chunkAssemblies := c\<rparr>) e v
     = (reduceSubagentActivity now s e v)\<lparr>ag_chunkAssemblies := c\<rparr>"
  "ag_chunkAssemblies (reduceSubagentActivity now s e v) = ag_chunkAssemblies s"
  by (simp_all add: reduceSubagentActivity_def Let_def chunks_outermost split: list.split)

lemma metadata_chunks:
  "storeCustomMetadata (s\<lparr>ag_chunkAssemblies := c\<rparr>) name v
     = (storeCustomMetadata s name v)\<lparr>ag_chunkAssemblies := c\<rparr>"
  "ag_chunkAssemblies (storeCustomMetadata s name v) = ag_chunkAssemblies s"
  by (simp_all add: storeCustomMetadata_def Let_def chunks_outermost cong: if_cong)

lemma custom_chunks_frame:
  assumes "\<not> ends_with name ''-chunk''"
  shows "reduceCustomEvent now (s\<lparr>ag_chunkAssemblies := c\<rparr>) e name v
      = (reduceCustomEvent now s e name v)\<lparr>ag_chunkAssemblies := c\<rparr>"
    and "ag_chunkAssemblies (reduceCustomEvent now s e name v) = ag_chunkAssemblies s"
  unfolding reduceCustomEvent.simps [of _ _ _ name]
  by (simp_all only: assms if_False if_distrib [of ag_chunkAssemblies] structuredMessage_chunks
      toolText_chunks toolContent_chunks subagent_chunks metadata_chunks
      if_distrib [of "ag_chunkAssemblies_update _"] if_cancel)

lemma custom_envelope:
  assumes "\<not> ends_with name ''-chunk''" "en_threadId e = en_threadId e'" "en_runId e = en_runId e'"
    and "en_timestamp e = en_timestamp e'"
  shows "reduceCustomEvent now s e name v = reduceCustomEvent now s e' name v"
  unfolding reduceCustomEvent.simps [of _ _ _ name] reduceStructuredMessageContent_def
    reduceToolText_def reduceToolContent_def reduceSubagentActivity_def
  by (simp only: assms if_False)

lemma custom_chunk:
  "reduceCustomEvent now s e (name @ ''-chunk'') v =
     (case reduceCustomChunk s (name @ ''-chunk'') (js_record v) of
        Stored s' \<Rightarrow> s'
      | Completed pending key w \<Rightarrow>
          (let completed = reduceCustomEvent now pending (e\<lparr>en_timestamp := None\<rparr>) name w
           in completed\<lparr>ag_chunkAssemblies := AList.delete key (ag_chunkAssemblies completed)\<rparr>))"
  unfolding reduceCustomEvent.simps [of now s e "name @ _"] drop_last_append
  by (simp add: ends_with_def suffixI)

definition chunkValue :: "string \<Rightarrow> string \<Rightarrow> nat \<Rightarrow> nat \<Rightarrow> string \<Rightarrow> jsv" where
  "chunkValue canonicalId revision count index piece =
     JObj [(''canonicalId'', JStr canonicalId), (''revision'', JStr revision),
       (''index'', JNum (of_nat index)), (''count'', JNum (of_nat count)), (''data'', JStr piece)]"

definition deliverChunks ::
  "int \<Rightarrow> agUiEventEnvelope \<Rightarrow> string \<Rightarrow> string \<Rightarrow> string \<Rightarrow> string list \<Rightarrow> nat list
     \<Rightarrow> agUiThreadMessageState \<Rightarrow> agUiThreadMessageState" where
  "deliverChunks now e name canonicalId revision pieces order s =
     fold (\<lambda>i s. reduceThreadState now s (e\<lparr>en_event :=
       CUSTOM (name @ ''-chunk'') (chunkValue canonicalId revision (length pieces) i (pieces ! i))\<rparr>))
       order s"

definition partialAssembly :: "string list \<Rightarrow> nat list \<Rightarrow> chunkAssembly" where
  "partialAssembly pieces order =
     \<lparr>ca_count = of_nat (length pieces), ca_chunks = map (\<lambda>i. (of_nat i, pieces ! i)) order\<rparr>"

lemma reduce_chunk:
  assumes "trim cid \<noteq> []" "trim rv = rv" "rv \<noteq> []" "i < length ps" "ps ! i \<noteq> []"
    and "i \<notin> set order"
    and "map_of (ag_chunkAssemblies s) (chunkKey nm rv)
      = (if order = [] then None else Some (partialAssembly ps order))"
  shows "reduceCustomChunk s nm (js_record (chunkValue cid rv (length ps) i (ps ! i))) =
    (let key = chunkKey nm rv; order' = order @ [i];
         pending = s\<lparr>ag_chunkAssemblies :=
           obj_set key (partialAssembly ps order') (ag_chunkAssemblies s)\<rparr>
     in if length order' \<noteq> length ps then Stored pending
        else (case json_parse (assembledText (of_nat (length ps))
                (ca_chunks (partialAssembly ps order'))) of
           Some v \<Rightarrow> Completed pending key v | None \<Rightarrow> Stored pending))"
proof -
  have new: "AList.update (of_nat i :: rat) (ps ! i) (map (\<lambda>i. (of_nat i, ps ! i)) order)
      = map (\<lambda>i. (of_nat i, ps ! i)) (order @ [i])"
    using assms(6) by (subst alist_update_new) auto
  have "with_default (case map_of (ag_chunkAssemblies s) (chunkKey nm rv) of
        Some existing \<Rightarrow> if ca_count existing = of_nat (length ps)
          then Some (AList.update (of_nat i) (ps ! i) (ca_chunks existing)) else None
      | None \<Rightarrow> None) [(of_nat i :: rat, ps ! i)] = map (\<lambda>i. (of_nat i, ps ! i)) (order @ [i])"
    by (cases "order = []") (simp_all add: assms(7) partialAssembly_def new)
  then have chunks: "(case map_of (ag_chunkAssemblies s) (chunkKey nm rv) of
        Some existing \<Rightarrow> if ca_count existing = of_nat (length ps)
          then AList.update (of_nat i) (ps ! i) (ca_chunks existing) else [(of_nat i :: rat, ps ! i)]
      | None \<Rightarrow> [(of_nat i, ps ! i)]) = map (\<lambda>i. (of_nat i, ps ! i)) (order @ [i])"
    by (auto split: option.splits if_splits)
  have fields: "nonEmptyString (JStr cid) = Some (trim cid)" "nonEmptyString (JStr rv) = Some rv"
    using assms(1,2,3) by simp_all
  show ?thesis
    unfolding reduceCustomChunk_def
    using assms(4,5)
    by (simp add: chunkValue_def prop_of_def opt_prop_def Let_def fields
        partialAssembly_def chunks del: map_append nonEmptyString.simps cong: option.case_cong)
qed

lemma deliver_partial:
  assumes "trim cid \<noteq> []" "trim rv = rv" "rv \<noteq> []" "[] \<notin> set ps"
    and "chunkKey (nm @ ''-chunk'') rv \<notin> fst ` set (ag_chunkAssemblies s)"
  shows "distinct order \<Longrightarrow> set order \<subseteq> {..<length ps} \<Longrightarrow> length order < length ps \<Longrightarrow>
    deliverChunks now e nm cid rv ps order s =
      (if order = [] then s else s\<lparr>ag_chunkAssemblies :=
        obj_set (chunkKey (nm @ ''-chunk'') rv) (partialAssembly ps order) (ag_chunkAssemblies s)\<rparr>)"
proof (induction order rule: rev_induct)
  case Nil
  then show ?case by (simp add: deliverChunks_def)
next
  case (snoc i order)
  let ?key = "chunkKey (nm @ ''-chunk'') rv"
  let ?t = "if order = [] then s else s\<lparr>ag_chunkAssemblies :=
        obj_set ?key (partialAssembly ps order) (ag_chunkAssemblies s)\<rparr>"
  have IH: "deliverChunks now e nm cid rv ps order s = ?t" using snoc by simp
  have "i < length ps" using snoc.prems(2) by simp
  then have piece: "ps ! i \<noteq> []" using assms(4) by (metis nth_mem)
  have none: "map_of (ag_chunkAssemblies s) ?key = None"
    using assms(5) by (simp add: map_of_eq_None_iff)
  have "reduceCustomChunk ?t (nm @ ''-chunk'') (js_record (chunkValue cid rv (length ps) i (ps ! i)))
      = Stored (?t\<lparr>ag_chunkAssemblies :=
          obj_set ?key (partialAssembly ps (order @ [i])) (ag_chunkAssemblies ?t)\<rparr>)"
    using snoc.prems none piece
    by (subst reduce_chunk [OF assms(1,2,3), where order = order]) (auto simp: Let_def)
  then have "reduceThreadState now ?t (e\<lparr>en_event := CUSTOM (nm @ ''-chunk'')
        (chunkValue cid rv (length ps) i (ps ! i))\<rparr>)
      = s\<lparr>ag_chunkAssemblies := obj_set ?key (partialAssembly ps (order @ [i])) (ag_chunkAssemblies s)\<rparr>"
    using obj_set_overwrite [OF assms(5)]
    by (cases "order = []") (simp_all add: reduceThreadState_def Let_def custom_chunk)
  with IH show ?case by (simp add: deliverChunks_def)
qed

lemma assembled_pieces:
  assumes "distinct order" "set order = {..<length ps}"
  shows "assembledText (of_nat (length ps)) (ca_chunks (partialAssembly ps order)) = concat ps"
proof -
  have lookup: "map_of (map (\<lambda>i. (of_nat i :: rat, ps ! i)) order) (of_nat k) = Some (ps ! k)"
    if "k < length ps" for k
  proof -
    have "k \<in> set order" using that assms(2) by simp
    then show ?thesis by (induction order) auto
  qed
  have "map (\<lambda>i. with_default (map_of (map (\<lambda>i. (of_nat i :: rat, ps ! i)) order) (of_nat i)) [])
      [0..<length ps] = map (\<lambda>i. ps ! i) [0..<length ps]"
    by (rule map_cong) (auto simp: lookup)
  then show ?thesis by (simp add: assembledText_def partialAssembly_def map_nth)
qed

text \<open>C7: reassembly.  A custom event split into chunks has, in whatever order the chunks
  arrive, the effect of the whole event.\<close>

theorem chunks_reassemble:
  assumes "json_plain v" "concat pieces = json_text v" "[] \<notin> set pieces"
    and "distinct order" "set order = {..<length pieces}"
    and "trim canonicalId \<noteq> []" "trim revision = revision" "revision \<noteq> []"
    and "chunkKey (name @ ''-chunk'') revision \<notin> fst ` set (ag_chunkAssemblies s)"
    and "\<not> ends_with name ''-chunk''"
  shows "deliverChunks now e name canonicalId revision pieces order s
    = reduceThreadState now s (e\<lparr>en_event := CUSTOM name v, en_timestamp := None\<rparr>)"
proof -
  let ?key = "chunkKey (name @ ''-chunk'') revision" and ?n = "length pieces"
  have "json_text v \<noteq> []" using json_text_opening [OF assms(1)] by auto
  then have "pieces \<noteq> []" unfolding assms(2) [symmetric] by (cases pieces) simp_all
  then have "0 \<in> set order" unfolding assms(5) by simp
  then obtain front i where order: "order = front @ [i]" by (cases order rule: rev_cases) auto
  have len: "length order = ?n"
    using assms(4,5) distinct_card [of order] by simp
  let ?t = "if front = [] then s else s\<lparr>ag_chunkAssemblies :=
        obj_set ?key (partialAssembly pieces front) (ag_chunkAssemblies s)\<rparr>"
  let ?pending = "s\<lparr>ag_chunkAssemblies :=
        obj_set ?key (partialAssembly pieces order) (ag_chunkAssemblies s)\<rparr>"
  have front: "deliverChunks now e name canonicalId revision pieces front s = ?t"
    using assms(4,5) len order by (intro deliver_partial [OF assms(6,7,8,3,9)]) auto
  have none: "map_of (ag_chunkAssemblies s) ?key = None"
    using assms(9) by (simp add: map_of_eq_None_iff)
  have i: "i < ?n" "i \<notin> set front" using assms(4,5) order by auto
  then have piece: "pieces ! i \<noteq> []" using assms(3) by (metis nth_mem)
  have parsed: "json_parse (assembledText (of_nat ?n) (ca_chunks (partialAssembly pieces order))) = Some v"
    using assms by (simp add: assembled_pieces json_parse_text)
  have lookup: "map_of (ag_chunkAssemblies ?t) ?key
      = (if front = [] then None else Some (partialAssembly pieces front))"
    by (simp add: none)
  have stack: "?t\<lparr>ag_chunkAssemblies :=
        obj_set ?key (partialAssembly pieces order) (ag_chunkAssemblies ?t)\<rparr> = ?pending"
    using obj_set_overwrite [OF assms(9)] by (cases "front = []") simp_all
  have "reduceCustomChunk ?t (name @ ''-chunk'')
      (js_record (chunkValue canonicalId revision ?n i (pieces ! i))) = Completed ?pending ?key v"
    unfolding reduce_chunk [OF assms(6,7,8) i(1) piece i(2) lookup] Let_def
    by (simp only: parsed len stack flip: order) simp
  then have "reduceThreadState now ?t (e\<lparr>en_event := CUSTOM (name @ ''-chunk'')
        (chunkValue canonicalId revision ?n i (pieces ! i))\<rparr>)
      = reduceCustomEvent now s (e\<lparr>en_event := CUSTOM name v, en_timestamp := None\<rparr>) name v"
    using delete_obj_set_new [OF assms(9)]
      custom_envelope [OF assms(10), of "e\<lparr>en_event := CUSTOM (name @ ''-chunk'')
        (chunkValue canonicalId revision ?n i (pieces ! i)), en_timestamp := None\<rparr>"
        "e\<lparr>en_event := CUSTOM name v, en_timestamp := None\<rparr>"]
    by (simp add: reduceThreadState_def Let_def custom_chunk custom_chunks_frame [OF assms(10)])
  with front show ?thesis
    by (simp add: deliverChunks_def order reduceThreadState_def Let_def)
qed

lemma chunks_reassemble_witness:
  "deliverChunks 7
      (example (UNSUPPORTED))
      ''acme/note'' ''c'' ''1'' [''nu'', ''ll''] [1, 0] createAgUiThreadMessageState
    = reduceThreadState 7 createAgUiThreadMessageState
      (example (CUSTOM ''acme/note'' JNull))"
proof -
  have "trim ''c'' \<noteq> []" "trim ''1'' = ''1''" "\<not> ends_with ''acme/note'' ''-chunk''"
    by code_simp+
  moreover have "set [1, 0] = {..<length [''nu'', ''ll'']}" by auto
  ultimately show ?thesis
    using chunks_reassemble [of JNull "[''nu'', ''ll'']" "[1, 0]" "''c''" "''1''" "''acme/note''"
        createAgUiThreadMessageState 7
        "(example (UNSUPPORTED))"]
    by (simp add: createAgUiThreadMessageState_def)
qed

section \<open>The invariant of every thread\<close>



section \<open>Replayed tool content\<close>

text \<open>A tool-content event delivered again with the same revision changes nothing.\<close>

theorem tool_content_idempotent:
  assumes "en_event e = CUSTOM ''tethercode.dev/tool-content'' v" "en_event e' = en_event e"
  shows "reduceThreadState now' (reduceThreadState now s e) e' = reduceThreadState now s e"
  using assms
  by (simp add: reduceThreadState_def Let_def reduceCustomEvent.simps ends_with_def not_chunk_names
      reduceToolContent_def)

lemma tool_content_idempotent_witness:
  "let e = (example (CUSTOM ''tethercode.dev/tool-content''
        (JObj [(''toolCallId'', JStr ''call''), (''revision'', JStr ''2''), (''content'', JArr [JStr ''x''])])));
       s = reduceThreadState 1 createAgUiThreadMessageState e
   in reduceThreadState 9 s e = s"
  unfolding Let_def by (rule tool_content_idempotent) simp_all

text \<open>So does a tool-text event.\<close>

theorem tool_text_idempotent:
  assumes "en_event e = CUSTOM ''tethercode.dev/tool-text'' v" "en_event e' = en_event e"
  shows "reduceThreadState now' (reduceThreadState now s e) e' = reduceThreadState now s e"
  using assms
  by (simp add: reduceThreadState_def Let_def reduceCustomEvent.simps ends_with_def not_chunk_names
      reduceToolText_def split: option.splits)

lemma tool_text_idempotent_witness:
  "let e = (example (CUSTOM ''tethercode.dev/tool-text''
        (JObj [(''toolCallId'', JStr ''call''), (''revision'', JStr ''2''), (''content'', JStr ''x'')])));
       s = reduceThreadState 1 createAgUiThreadMessageState e
   in reduceThreadState 9 s e = s"
  unfolding Let_def by (rule tool_text_idempotent) simp_all

section \<open>Suppressed tool calls\<close>

definition startsRun :: "agUiEvent \<Rightarrow> bool" where
  "startsRun event = (case event of RUN_STARTED _ _ \<Rightarrow> True | _ \<Rightarrow> False)"

text \<open>What every operation but the start of a run keeps: the suppressed calls only grow.\<close>

definition suppresses :: "(string \<times> unit) list \<Rightarrow> agUiThreadMessageState \<Rightarrow> bool" where
  "suppresses ids s \<longleftrightarrow> fst ` set ids \<subseteq> fst ` set (ag_subagentToolCallIds s)"

lemma suppressed_iff: "suppressedTool s t \<longleftrightarrow> t \<in> fst ` set (ag_subagentToolCallIds s)"
  by (simp add: suppressedTool_def map_of_eq_None_iff)

lemma calls_frame [simp]:
  "ag_subagentToolCallIds (rememberReplacement s i r) = ag_subagentToolCallIds s"
  "ag_subagentToolCallIds (openText now s e i role n) = ag_subagentToolCallIds s"
  "ag_subagentToolCallIds (openReasoning now s e i) = ag_subagentToolCallIds s"
  "ag_subagentToolCallIds (appendText now s i d run ts role) = ag_subagentToolCallIds s"
  "ag_subagentToolCallIds (startToolCall now s run c nm p ts) = ag_subagentToolCallIds s"
  "ag_subagentToolCallIds (markTerminal s i) = ag_subagentToolCallIds s"
  "ag_subagentToolCallIds (markRunTerminal s run) = ag_subagentToolCallIds s"
  "ag_subagentToolCallIds (applyActivityDelta now s run i ty ops ts) = ag_subagentToolCallIds s"
  "ag_subagentToolCallIds (appendToolResult now s run i c d ts) = ag_subagentToolCallIds s"
  by (simp_all add: rememberReplacement_def openText_def openReasoning_def appendText_def
      startToolCall_def markTerminal_def markRunTerminal_def applyActivityDelta_def
      appendToolResult_def Let_def split: option.split)

lemma calls_frame2 [simp]:
  "ag_subagentToolCallIds (appendToolArgs now s run c d ts) = ag_subagentToolCallIds s"
  "ag_subagentToolCallIds (updateEncryptedValue now s i v sub) = ag_subagentToolCallIds s"
  "ag_subagentToolCallIds (storeCustomMetadata s name w) = ag_subagentToolCallIds s"
  "ag_subagentToolCallIds (reduceStructuredMessageContent now s e val) = ag_subagentToolCallIds s"
  "ag_subagentToolCallIds (reduceToolText now s e val) = ag_subagentToolCallIds s"
  "ag_subagentToolCallIds (reduceToolContent now s e val) = ag_subagentToolCallIds s"
  by (simp_all add: appendToolArgs_def updateEncryptedValue_def storeCustomMetadata_def
      reduceStructuredMessageContent_def reduceToolText_def reduceToolContent_def Let_def
      split: option.split encryptedSubtype.split)

lemma snapshot_ids: "fst ` set ids \<subseteq> fst ` set (snapshotSubagentIds ms ids)"
  unfolding snapshotSubagentIds_def
proof (induction ms arbitrary: ids)
  case (Cons m ms)
  show ?case
  proof (cases "subagentToolCallId m")
    case None
    with Cons.IH [of ids] show ?thesis by simp
  next
    case (Some t)
    with Cons.IH [of "obj_set t () ids"] show ?thesis by simp
  qed
qed simp

lemma chunk_calls:
  "reduceCustomChunk s name v = Stored s' \<Longrightarrow> ag_subagentToolCallIds s' = ag_subagentToolCallIds s"
  "reduceCustomChunk s name v = Completed s' key w \<Longrightarrow> ag_subagentToolCallIds s' = ag_subagentToolCallIds s"
  by (auto simp: reduceCustomChunk_def Let_def split: option.splits if_splits)

lemma custom_suppresses: "suppresses ids s \<Longrightarrow> suppresses ids (reduceCustomEvent now s e name v)"
proof (induction now s e name v rule: reduceCustomEvent.induct)
  case (1 now s e name v)
  show ?case
  proof (cases "ends_with name ''-chunk''")
    case False
    with "1.prems" show ?thesis
      by (auto simp: reduceCustomEvent.simps [of now s e name v] suppresses_def
          reduceSubagentActivity_def Let_def split: list.splits)
  next
    case True
    show ?thesis
    proof (cases "reduceCustomChunk s name (js_record v)")
      case (Stored s')
      with True "1.prems" chunk_calls(1) [OF Stored] show ?thesis
        by (simp add: reduceCustomEvent.simps [of now s e name v] suppresses_def)
    next
      case (Completed s' key w)
      with "1.prems" chunk_calls(2) [OF Completed] have "suppresses ids s'"
        by (simp add: suppresses_def)
      with True Completed "1.IH" show ?thesis
        by (simp add: reduceCustomEvent.simps [of now s e name v] suppresses_def Let_def)
    qed
  qed
qed

lemma reduce_suppresses:
  assumes "suppresses ids s" "\<not> startsRun (en_event e)"
  shows "suppresses ids (reduceThreadState now s e)"
proof (cases "en_event e")
  case (CUSTOM name v)
  with assms custom_suppresses show ?thesis by (simp add: reduceThreadState_def)
next
  case (MESSAGES_SNAPSHOT ms)
  with assms snapshot_ids [of "ag_subagentToolCallIds s" ms] show ?thesis
    by (simp add: reduceThreadState_def suppresses_def applyMessagesSnapshot_def Let_def)
qed (use assms in \<open>auto simp: reduceThreadState_def Let_def startsRun_def suppresses_def
      reduceActivitySnapshot_def split: option.splits\<close>)

interpretation suppression: machine "\<lambda>(now, e) s. reduceThreadState now s e" "suppresses ids"
    "\<lambda>(now, e). \<not> startsRun (en_event e)" for ids
  by unfold_locales (auto intro: reduce_suppresses)

text \<open>C8: once a subagent stands for a tool call, no event of that call changes the thread, until
  a run starts: whatever events come between, starts, arguments, ends, chunks and results of the
  call are ignored.\<close>

theorem subagent_suppresses_tool:
  assumes "en_event e = CUSTOM ''tethercode.dev/subagent'' v"
    and "receiverThreadIds (js_record v) \<noteq> []"
    and "nonEmptyString (opt_prop (js_record v) ''toolCallId'') = Some t"
    and "\<forall>(now, e) \<in> set events. \<not> startsRun (en_event e)"
    and "s' = fold (\<lambda>(now, e) s. reduceThreadState now s e) events (reduceThreadState now s e)"
    and "en_event e' \<in> {TOOL_CALL_START t name parent, TOOL_CALL_ARGS t delta, TOOL_CALL_END t,
           TOOL_CALL_CHUNK (Some t) name' parent delta', TOOL_CALL_RESULT messageId t content}"
  shows "reduceThreadState now' s' e' = s'"
proof -
  have "t \<in> fst ` set (ag_subagentToolCallIds (reduceThreadState now s e))"
    using assms(1,2,3)
    by (cases "receiverThreadIds (js_record v)")
      (simp_all add: reduceThreadState_def Let_def reduceCustomEvent.simps ends_with_def
        not_chunk_names reduceSubagentActivity_def)
  then have "suppresses [(t, ())] (reduceThreadState now s e)" by (simp add: suppresses_def)
  moreover have "list_all (\<lambda>(now, e). \<not> startsRun (en_event e)) events"
    using assms(4) by (auto simp: list_all_iff)
  ultimately have "suppresses [(t, ())] s'"
    unfolding assms(5) by (rule suppression.run_inv)
  then have "suppressedTool s' t" by (simp add: suppresses_def suppressed_iff)
  with assms(6) show ?thesis
    by (auto simp: reduceThreadState_def Let_def truthy_id_def)
qed

lemma subagent_suppresses_tool_witness:
  "let s = reduceThreadState 1 createAgUiThreadMessageState (example (CUSTOM ''tethercode.dev/subagent''
        (JObj [(''toolCallId'', JStr ''call''), (''receiverThreadIds'', JArr [JStr ''w''])])));
       s' = reduceThreadState 2 s (example (STEP_STARTED ''plan''))
   in reduceThreadState 3 s' (example (TOOL_CALL_RESULT ''m'' ''call'' ''done'')) = s'"
proof -
  have v: "nonEmptyString (JStr ''call'') = Some ''call''" "nonEmptyString (JStr ''w'') = Some ''w''"
    by code_simp+
  show ?thesis
    unfolding Let_def
    by (rule subagent_suppresses_tool [where events = "[(2, example (STEP_STARTED ''plan''))]" and t = "''call''"
          and v = "JObj [(''toolCallId'', JStr ''call''), (''receiverThreadIds'', JArr [JStr ''w''])]"])
      (simp_all add: v opt_prop_def prop_of_def receiverThreadIds_def startsRun_def map_filter_def
        del: nonEmptyString.simps)
qed

section \<open>JSON patches\<close>

lemma getPatchParent_patch_at:
  "getPatchParent v segs = JObj kvs \<Longrightarrow> getPatchParent (patch_at segs f v) segs = f (JObj kvs)"
proof (induction v segs rule: getPatchParent.induct)
  case (2 xs seg segs)
  then show ?case by (cases segs) (auto split: option.splits if_splits)
next
  case (3 kvs' seg segs)
  then show ?case
    by (cases segs) (auto simp: prop_of_def update_conv' split: option.splits)
qed auto

lemma getPatchParent_last:
  "getPatchParent v segs = JObj kvs \<Longrightarrow> getPatchParent v (segs @ [k]) = prop_of kvs k"
  by (induction v segs rule: getPatchParent.induct) auto

text \<open>A patch that adds or replaces a property of an object the document has at that path
  is read back at that path, as a copy of the value, and leaves the other properties of that
  object as they were.\<close>

theorem patch_read_back:
  assumes "op = ''add'' \<or> op = ''replace''" "pointer_segments path = segs @ [k]"
    and "getPatchParent document segs = JObj kvs"
  shows "getPatchParent (apply_operation
        (JObj [(''op'', JStr op), (''path'', JStr path), (''value'', value)]) document) (segs @ [k'])
    = (if k' = k then cloneJson value else prop_of kvs k')"
proof -
  have op: "nonEmptyString (JStr op) = Some op" using assms(1) by (elim disjE) (simp; code_simp)+
  have "getPatchParent (patch_at segs (patch_container op k value) document) segs
      = JObj (obj_set k (cloneJson value) kvs)"
    using getPatchParent_patch_at [OF assms(3)] assms(1) by (auto simp: patch_container_def)
  from getPatchParent_last [OF this, of k'] show ?thesis
    by (simp add: apply_operation_def opt_prop_def prop_of_def op assms(2) del: nonEmptyString.simps)
qed

lemma patch_read_back_witness:
  "getPatchParent (apply_operation (JObj [(''op'', JStr ''replace''), (''path'', JStr ''/a/b''),
        (''value'', JBool True)]) (JObj [(''a'', JObj [(''b'', JNull), (''c'', JNull)])])) [''a'', ''b'']
     = JBool True"
proof -
  have "pointer_segments ''/a/b'' = [''a''] @ [''b'']" by code_simp
  from patch_read_back [OF disjI2 [OF refl] this, of "JObj [(''a'', JObj [(''b'', JNull), (''c'', JNull)])]"
      "[(''b'', JNull), (''c'', JNull)]" "JBool True" "''b''"]
  show ?thesis by (simp add: prop_of_def cloneJson_def)
qed

end
