(* ===== verification/WsClient.thy ===== *)
theory WsClient
  imports AgUiReducer
begin

text \<open>
  The websocket client of the bridge: \<open>api/wsErrors.ts\<close>, \<open>api/wsTypes.ts\<close>,
  \<open>api/wsEventParsingInternals.ts\<close> and the five layers of \<open>HostBridgeWsClient\<close>.  The fields
  of the class are a record; what the class does to the outside (events and status handed to
  listeners, sockets opened and closed, texts sent, promises settled) is appended to \<open>ws_out\<close>.
  The clock, the random jitter and the ready state of sockets are fields the environment sets.
  Every callback and every continuation of an \<open>await\<close> is a step of its own, so the runs of
  the model include every interleaving the event loop can produce.  \<open>parse\<close> is
  \<open>EventSchemas.safeParse\<close>.
\<close>

section \<open>Reading event records\<close>

definition readString :: "jsv \<Rightarrow> string option" where
  "readString v = as_string v"

definition readNumber :: "jsv \<Rightarrow> int option" where
  "readNumber v =
     (case v of
        JNum q \<Rightarrow> Some (trunc q)
      | JStr s \<Rightarrow> if trim s \<noteq> [] then map_option trunc (js_number s) else None
      | _ \<Rightarrow> None)"

definition readEventId :: "jobj \<Rightarrow> int option" where
  "readEventId r =
     (case or_else (readNumber (prop_of r ''eventId'')) (readNumber (prop_of r ''event_id'')) of
        None \<Rightarrow> None
      | Some i \<Rightarrow> if i < 1 then None else Some i)"

definition turnCompletionKey :: "string \<Rightarrow> string \<Rightarrow> string" where
  "turnCompletionKey threadId turnId = threadId @ ''::'' @ turnId"

record turnCompletionSnapshot =
  tu_threadId :: string
  tu_turnId :: "string option"
  tu_status :: "string option"
  tu_errorMessage :: "string option"
  tu_completedAt :: int

type_synonym eventParser = "jsv \<Rightarrow> (agUiEvent \<times> int option) option"

definition toAgUiTurnCompletionSnapshot ::
  "eventParser \<Rightarrow> int \<Rightarrow> rpcNotification \<Rightarrow> turnCompletionSnapshot option" where
  "toAgUiTurnCompletionSnapshot parse now event =
     (case parseAgUiEventNotification parse event of
        None \<Rightarrow> None
      | Some envelope \<Rightarrow>
          (case en_sourceTurnId envelope of
             None \<Rightarrow> None
           | Some turn \<Rightarrow>
               (case en_event envelope of
                  RUN_FINISHED _ _ \<Rightarrow> Some \<lparr>tu_threadId = en_threadId envelope, tu_turnId = Some turn,
                    tu_status = Some ''completed'', tu_errorMessage = None, tu_completedAt = now\<rparr>
                | RUN_ERROR message _ \<Rightarrow> Some \<lparr>tu_threadId = en_threadId envelope, tu_turnId = Some turn,
                    tu_status = Some ''failed'', tu_errorMessage = Some message, tu_completedAt = now\<rparr>
                | _ \<Rightarrow> None)))"

definition isFailedTurnStatus :: "string option \<Rightarrow> bool" where
  "isFailedTurnStatus status \<longleftrightarrow> status \<in> {Some ''failed'', Some ''interrupted'', Some ''error'',
     Some ''aborted'', Some ''cancelled'', Some ''canceled''}"

section \<open>State\<close>

definition PROTOCOL_VERSION :: int where "PROTOCOL_VERSION = 2"
definition TURN_COMPLETION_TTL_MS :: int where "TURN_COMPLETION_TTL_MS = 5 * 60 * 1000"
definition MAX_RECOVERY_BUFFERED_EVENTS :: nat where "MAX_RECOVERY_BUFFERED_EVENTS = 2048"

record wsConfig =
  cf_baseUrl :: string
  cf_authToken :: "string option"
  cf_allowQueryTokenAuth :: bool
  cf_platform :: string

text \<open>How a request ends: with a result, an RPC error, or the message of another error.\<close>

datatype settlement =
    Resolved jsv
  | RpcRequestError string rat string jsv
  | Rejected string

datatype requestCaller = Caller nat | ReplayRun nat

record pendingRequest =
  pr_method :: string
  pr_caller :: requestCaller

text \<open>
  A run of \<open>replayMissedEvents\<close>: about to request a page, awaiting the reply to a request,
  holding the reply its continuation has not read yet, or returned (\<open>True\<close>) or thrown.
\<close>

datatype replayPhase = Requesting | Waiting string | Replied settlement | Finished bool

record replayRun =
  rr_generation :: nat
  rr_cursor :: int
  rr_target :: "int option"
  rr_phase :: replayPhase

datatype readyState = Connecting | Open | Closing

text \<open>A socket with what its handlers close over: its generation and whether its promise is settled.\<close>

record socketState =
  so_generation :: nat
  so_settled :: bool
  so_readyState :: readyState

record reconnectTimer =
  rt_id :: nat
  rt_generation :: nat
  rt_delay :: nat

text \<open>
  \<open>Baseline n\<close> is not an effect of the code: it records that the last seen event id was set
  to \<open>n\<close> without delivering an event.
\<close>

datatype wsOutput =
    EmittedEvent rpcNotification
  | EmittedStatus bool
  | Baseline int
  | OpenedSocket nat string bool
  | ClosedSocket nat
  | SentText nat string
  | SettledRequest string settlement
  | FailedRequest nat string
  | SettledTurn nat "string option"

record wsClient =
  ws_config :: wsConfig
  ws_socket :: "nat option"
  ws_pendingSocket :: "nat option"
  ws_connected :: bool
  ws_shouldReconnect :: bool
  ws_reconnectAttempts :: nat
  ws_reconnectTimer :: "reconnectTimer option"
  ws_connectPromise :: "nat option"
  ws_connectGeneration :: nat
  ws_pendingRequests :: "(string \<times> pendingRequest) list"
  ws_recentTurnCompletions :: "(string \<times> turnCompletionSnapshot) list"
  ws_pendingEvents :: "(int \<times> rpcNotification) list"
  ws_lastSeenEventId :: int
  ws_replaySupported :: bool
  ws_replayInFlight :: "nat option"
  ws_replayGeneration :: nat
  ws_recoveryWatermark :: "int option"
  ws_awaitingFreshRecoveryBaseline :: bool
  ws_requestCounter :: nat
  ws_streamId :: "string option"
  ws_protocolError :: "int option"
  ws_waiters :: "(nat \<times> string \<times> string) list"
  ws_replays :: "(nat \<times> replayRun) list"
  ws_sockets :: "(nat \<times> socketState) list"
  ws_counter :: nat
  ws_now :: int
  ws_jitter :: nat
  ws_out :: "wsOutput list"

text \<open>The constructor: one trailing slash of the base URL goes, a blank token is none.\<close>

definition createWsClient :: "wsConfig \<Rightarrow> wsClient" where
  "createWsClient options =
     \<lparr>ws_config = options\<lparr>
        cf_baseUrl := (if ends_with (cf_baseUrl options) ''/'' then drop_last 1 (cf_baseUrl options)
                       else cf_baseUrl options),
        cf_authToken := (case map_option trim (cf_authToken options) of
          Some t \<Rightarrow> if t = [] then None else Some t | None \<Rightarrow> None)\<rparr>,
      ws_socket = None, ws_pendingSocket = None, ws_connected = False, ws_shouldReconnect = False,
      ws_reconnectAttempts = 0, ws_reconnectTimer = None, ws_connectPromise = None,
      ws_connectGeneration = 0, ws_pendingRequests = [], ws_recentTurnCompletions = [],
      ws_pendingEvents = [], ws_lastSeenEventId = 0, ws_replaySupported = True,
      ws_replayInFlight = None, ws_replayGeneration = 0, ws_recoveryWatermark = None,
      ws_awaitingFreshRecoveryBaseline = False, ws_requestCounter = 0, ws_streamId = None,
      ws_protocolError = None, ws_waiters = [], ws_replays = [], ws_sockets = [], ws_counter = 0,
      ws_now = 0, ws_jitter = 0, ws_out = []\<rparr>"

definition emit :: "wsOutput list \<Rightarrow> wsClient \<Rightarrow> wsClient" where
  "emit os s = s\<lparr>ws_out := ws_out s @ os\<rparr>"

section \<open>Turn completions\<close>

definition pruneTurnCompletions :: "wsClient \<Rightarrow> wsClient" where
  "pruneTurnCompletions s = s\<lparr>ws_recentTurnCompletions :=
     filter (\<lambda>(k, t). \<not> ws_now s - tu_completedAt t > TURN_COMPLETION_TTL_MS)
       (ws_recentTurnCompletions s)\<rparr>"

definition getTurnCompletion :: "string \<Rightarrow> string \<Rightarrow> wsClient \<Rightarrow> turnCompletionSnapshot option" where
  "getTurnCompletion threadId turnId s =
     map_of (ws_recentTurnCompletions (pruneTurnCompletions s)) (turnCompletionKey threadId turnId)"

definition rememberTurnCompletion :: "turnCompletionSnapshot \<Rightarrow> wsClient \<Rightarrow> wsClient" where
  "rememberTurnCompletion snapshot s =
     (case truthy_id (tu_turnId snapshot) of
        None \<Rightarrow> s
      | Some turn \<Rightarrow>
          let s' = pruneTurnCompletions s in
          s'\<lparr>ws_recentTurnCompletions :=
            AList.update (turnCompletionKey (tu_threadId snapshot) turn) snapshot
              (ws_recentTurnCompletions s')\<rparr>)"

text \<open>The message \<open>assertTurnSucceeded\<close> throws, if it does.\<close>

definition assertTurnSucceeded :: "turnCompletionSnapshot \<Rightarrow> string option" where
  "assertTurnSucceeded snapshot =
     (if isFailedTurnStatus (tu_status snapshot)
      then Some (with_default (tu_errorMessage snapshot)
             (''turn '' @ with_default (tu_status snapshot) ''failed''))
      else None)"

section \<open>Listeners\<close>

text \<open>The event listener of a \<open>waitForTurnCompletion\<close> that is still waiting.\<close>

definition notifyWaiter ::
  "eventParser \<Rightarrow> rpcNotification \<Rightarrow> nat \<times> string \<times> string \<Rightarrow> wsClient \<Rightarrow> wsClient" where
  "notifyWaiter parse event w s =
     (case w of (i, threadId, turnId) \<Rightarrow>
        (case toAgUiTurnCompletionSnapshot parse (ws_now s) event of
           None \<Rightarrow> s
         | Some completion \<Rightarrow>
             if tu_threadId completion \<noteq> threadId \<or> tu_turnId completion \<noteq> Some turnId then s
             else emit [SettledTurn i (assertTurnSucceeded completion)]
               ((rememberTurnCompletion completion s)\<lparr>ws_waiters := AList.delete i (ws_waiters s)\<rparr>)))"

definition emitEvent :: "eventParser \<Rightarrow> rpcNotification \<Rightarrow> wsClient \<Rightarrow> wsClient" where
  "emitEvent parse event s =
     fold (notifyWaiter parse event) (ws_waiters s) (emit [EmittedEvent event] s)"

definition emitStatus :: "bool \<Rightarrow> wsClient \<Rightarrow> wsClient" where
  "emitStatus up s = emit [EmittedStatus up] (s\<lparr>ws_connected := up\<rparr>)"

section \<open>Requests\<close>

text \<open>The promise of a request is settled: its entry and timeout go, and its caller hears of it.\<close>

definition replyTo :: "requestCaller \<Rightarrow> settlement \<Rightarrow> wsClient \<Rightarrow> wsClient" where
  "replyTo caller outcome s =
     (case caller of
        Caller _ \<Rightarrow> s
      | ReplayRun r \<Rightarrow>
          (case map_of (ws_replays s) r of
             Some run \<Rightarrow> s\<lparr>ws_replays := AList.update r (run\<lparr>rr_phase := Replied outcome\<rparr>) (ws_replays s)\<rparr>
           | None \<Rightarrow> s))"

definition settleRequest :: "string \<Rightarrow> settlement \<Rightarrow> wsClient \<Rightarrow> wsClient" where
  "settleRequest i outcome s =
     (case map_of (ws_pendingRequests s) i of
        None \<Rightarrow> s
      | Some p \<Rightarrow> replyTo (pr_caller p) outcome
          (emit [SettledRequest i outcome]
            (s\<lparr>ws_pendingRequests := AList.delete i (ws_pendingRequests s)\<rparr>)))"

definition rejectAllPending :: "string \<Rightarrow> wsClient \<Rightarrow> wsClient" where
  "rejectAllPending error s =
     fold (\<lambda>(i, p). settleRequest i (Rejected error)) (ws_pendingRequests s) s"

definition socketOpen :: "wsClient \<Rightarrow> bool" where
  "socketOpen s =
     (case Option.bind (ws_socket s) (map_of (ws_sockets s)) of
        Some so \<Rightarrow> so_readyState so = Open
      | None \<Rightarrow> False)"

text \<open>\<open>ensureConnected\<close>: go on, wait for the connection under way, or throw.\<close>

datatype readiness = Ready | WaitForConnect | NotConnected

definition ensureConnected :: "wsClient \<Rightarrow> readiness" where
  "ensureConnected s =
     (if ws_connected s \<and> socketOpen s then Ready
      else if ws_connectPromise s \<noteq> None then WaitForConnect
      else NotConnected)"

definition requestId :: "int \<Rightarrow> nat \<Rightarrow> string" where
  "requestId now counter = show_int now @ ''-'' @ show_nat counter"

text \<open>
  \<open>request\<close> after its \<open>await\<close>, on an open socket: the id and the text that is sent.  Sending on
  an open socket does not throw.
\<close>

definition sendRequest ::
  "requestCaller \<Rightarrow> string \<Rightarrow> jsv option \<Rightarrow> nat \<Rightarrow> wsClient \<Rightarrow> string \<times> wsClient" where
  "sendRequest caller method params socket s =
     (let counter = Suc (ws_requestCounter s);
          i = requestId (ws_now s) counter;
          payload = [(''id'', JStr i), (''method'', JStr method)]
            @ (case params of Some v \<Rightarrow> [(''params'', v)] | None \<Rightarrow> [])
      in (i, emit [SentText socket (json_text (JObj payload))]
           (s\<lparr>ws_requestCounter := counter,
              ws_pendingRequests := AList.update i \<lparr>pr_method = method, pr_caller = caller\<rparr>
                (ws_pendingRequests s)\<rparr>)))"

definition not_connected_error :: string where
  "not_connected_error = ''Unable to connect to bridge websocket''"

definition request :: "nat \<Rightarrow> string \<Rightarrow> jsv option \<Rightarrow> wsClient \<Rightarrow> wsClient" where
  "request caller method params s =
     (case ensureConnected s of
        WaitForConnect \<Rightarrow> s
      | NotConnected \<Rightarrow> emit [FailedRequest caller not_connected_error] s
      | Ready \<Rightarrow> (case ws_socket s of
          Some k \<Rightarrow> snd (sendRequest (Caller caller) method params k s)
        | None \<Rightarrow> emit [FailedRequest caller ''Bridge websocket is not connected''] s))"

text \<open>The timeout of a request.\<close>

definition requestTimeout :: "string \<Rightarrow> wsClient \<Rightarrow> wsClient" where
  "requestTimeout i s =
     (case map_of (ws_pendingRequests s) i of
        Some p \<Rightarrow> settleRequest i (Rejected (''RPC timeout for method: '' @ pr_method p)) s
      | None \<Rightarrow> s)"

definition waitForTurnCompletion :: "nat \<Rightarrow> string \<Rightarrow> string \<Rightarrow> wsClient \<Rightarrow> wsClient" where
  "waitForTurnCompletion i threadId turnId s =
     (case getTurnCompletion threadId turnId s of
        Some completion \<Rightarrow> emit [SettledTurn i (assertTurnSucceeded completion)] (pruneTurnCompletions s)
      | None \<Rightarrow> (pruneTurnCompletions s)\<lparr>ws_waiters := ws_waiters s @ [(i, threadId, turnId)]\<rparr>)"

definition waiterTimeout :: "nat \<Rightarrow> int \<Rightarrow> wsClient \<Rightarrow> wsClient" where
  "waiterTimeout i timeoutMs s =
     (case map_of (ws_waiters s) i of
        Some _ \<Rightarrow> emit [SettledTurn i (Some (''turn timed out after '' @ show_int timeoutMs @ ''ms''))]
          (s\<lparr>ws_waiters := AList.delete i (ws_waiters s)\<rparr>)
      | None \<Rightarrow> s)"

section \<open>Sockets\<close>

text \<open>\<open>s.replace(t, r)\<close> for strings: the first occurrence.\<close>

fun replace_once :: "string \<Rightarrow> string \<Rightarrow> string \<Rightarrow> string" where
  "replace_once t r [] = (if t = [] then r else [])"
| "replace_once t r (c # s) =
     (if starts_with (c # s) t then r @ drop (length t) (c # s) else c # replace_once t r s)"

definition uri_unreserved :: "char \<Rightarrow> bool" where
  "uri_unreserved c \<longleftrightarrow> (let n = of_char c :: nat in
     (48 \<le> n \<and> n \<le> 57) \<or> (65 \<le> n \<and> n \<le> 90) \<or> (97 \<le> n \<and> n \<le> 122))
     \<or> c \<in> set ''-_.!~*()'' \<or> c = CHR 0x27"

definition upper_hex :: "nat \<Rightarrow> char" where
  "upper_hex d = (if d < 10 then char_of (48 + d) else char_of (55 + d))"

definition encodeURIComponent :: "string \<Rightarrow> string" where
  "encodeURIComponent s = concat (map (\<lambda>c. if uri_unreserved c then [c]
     else [CHR ''%'', upper_hex (of_char c div 16), upper_hex (of_char c mod 16)]) s)"

definition shouldUseQueryTokenAuth :: "wsClient \<Rightarrow> bool" where
  "shouldUseQueryTokenAuth s \<longleftrightarrow>
     cf_authToken (ws_config s) \<noteq> None \<and> cf_allowQueryTokenAuth (ws_config s)
     \<and> (cf_platform (ws_config s) = ''android'' \<or> cf_platform (ws_config s) = ''web'')"

definition socketUrl :: "wsClient \<Rightarrow> string" where
  "socketUrl s =
     (let url = cf_baseUrl (ws_config s);
          wsBase = (if starts_with url ''https://'' then replace_once ''https://'' ''wss://'' url
                    else replace_once ''http://'' ''ws://'' url);
          base = wsBase @ ''/rpc''
      in case cf_authToken (ws_config s) of
           None \<Rightarrow> base
         | Some token \<Rightarrow>
             if \<not> shouldUseQueryTokenAuth s then base
             else base @ (if CHR ''?'' \<in> set base then ''&'' else ''?'') @ ''token='' @ encodeURIComponent token)"

definition shouldUseHeaderAuth :: "wsClient \<Rightarrow> bool" where
  "shouldUseHeaderAuth s \<longleftrightarrow>
     cf_authToken (ws_config s) \<noteq> None \<and> cf_platform (ws_config s) \<noteq> ''web''
     \<and> \<not> shouldUseQueryTokenAuth s"

text \<open>\<open>socket.close()\<close>: the close event comes later.\<close>

definition closeSocket :: "nat \<Rightarrow> wsClient \<Rightarrow> wsClient" where
  "closeSocket k s = emit [ClosedSocket k] (s\<lparr>ws_sockets :=
     AList.map_entry k (\<lambda>so. so\<lparr>so_readyState := Closing\<rparr>) (ws_sockets s)\<rparr>)"

definition settleSocket :: "nat \<Rightarrow> wsClient \<Rightarrow> wsClient" where
  "settleSocket k s = s\<lparr>ws_sockets := AList.map_entry k (\<lambda>so. so\<lparr>so_settled := True\<rparr>) (ws_sockets s)\<rparr>"

text \<open>
  \<open>openSocket\<close> up to the registration of its handlers.  The constructor of the platform does not
  throw on a URL the profile was validated with.
\<close>

definition openSocket :: "nat \<Rightarrow> wsClient \<Rightarrow> nat \<times> wsClient" where
  "openSocket generation s =
     (let k = ws_counter s in
      (k, emit [OpenedSocket k (socketUrl s) (shouldUseHeaderAuth s)]
        (s\<lparr>ws_counter := Suc k, ws_pendingSocket := Some k,
           ws_sockets := AList.update k
             \<lparr>so_generation = generation, so_settled = False, so_readyState = Connecting\<rparr>
             (ws_sockets s)\<rparr>)))"

definition connectionBusy :: "wsClient \<Rightarrow> bool" where
  "connectionBusy s \<longleftrightarrow> ws_socket s \<noteq> None \<or> ws_pendingSocket s \<noteq> None
     \<or> ws_connectPromise s \<noteq> None \<or> ws_reconnectTimer s \<noteq> None"

definition startConnect :: "wsClient \<Rightarrow> wsClient" where
  "startConnect s =
     (if \<not> ws_shouldReconnect s \<or> connectionBusy s then s
      else (let generation = Suc (ws_connectGeneration s);
                opened = openSocket generation (s\<lparr>ws_connectGeneration := generation\<rparr>)
            in (snd opened)\<lparr>ws_connectPromise := Some (fst opened)\<rparr>))"

definition scheduleReconnect :: "wsClient \<Rightarrow> wsClient" where
  "scheduleReconnect s =
     (if \<not> ws_shouldReconnect s \<or> connectionBusy s then s
      else (let attempt = ws_reconnectAttempts s;
                delay = min 5000 (500 * 2 ^ attempt) + ws_jitter s
            in s\<lparr>ws_reconnectAttempts := Suc attempt, ws_counter := Suc (ws_counter s),
                 ws_reconnectTimer := Some \<lparr>rt_id = ws_counter s,
                   rt_generation = ws_connectGeneration s, rt_delay = delay\<rparr>\<rparr>))"

text \<open>The \<open>finally\<close> of the promise of socket \<open>k\<close>, once the promise is settled.\<close>

definition connectSettled :: "nat \<Rightarrow> wsClient \<Rightarrow> wsClient" where
  "connectSettled k s =
     (case map_of (ws_sockets s) k of
        None \<Rightarrow> s
      | Some so \<Rightarrow>
          if \<not> so_settled so \<or> ws_connectPromise s \<noteq> Some k then s
          else (let s' = s\<lparr>ws_connectPromise := None\<rparr> in
                if ws_shouldReconnect s' \<and> so_generation so = ws_connectGeneration s'
                   \<and> ws_socket s' = None \<and> ws_pendingSocket s' = None
                then scheduleReconnect s' else s'))"

definition reconnectTimerFires :: "nat \<Rightarrow> wsClient \<Rightarrow> wsClient" where
  "reconnectTimerFires i s =
     (case ws_reconnectTimer s of
        None \<Rightarrow> s
      | Some t \<Rightarrow>
          if rt_id t \<noteq> i then s
          else (let s' = s\<lparr>ws_reconnectTimer := None\<rparr> in
                if \<not> ws_shouldReconnect s' \<or> rt_generation t \<noteq> ws_connectGeneration s' then s'
                else startConnect s'))"

definition connect :: "wsClient \<Rightarrow> wsClient" where
  "connect s = (if ws_protocolError s \<noteq> None then s
     else startConnect (s\<lparr>ws_shouldReconnect := True\<rparr>))"

definition close_opt :: "nat option \<Rightarrow> wsClient \<Rightarrow> wsClient" where
  "close_opt k s = (case k of Some k \<Rightarrow> closeSocket k s | None \<Rightarrow> s)"

definition disconnect :: "wsClient \<Rightarrow> wsClient" where
  "disconnect s =
     (let pendingSocket = ws_pendingSocket s; socket = ws_socket s;
          s' = s\<lparr>ws_shouldReconnect := False,
             ws_connectGeneration := Suc (ws_connectGeneration s), ws_reconnectAttempts := 0,
             ws_reconnectTimer := None, ws_replayGeneration := Suc (ws_replayGeneration s),
             ws_replayInFlight := None, ws_pendingSocket := None, ws_socket := None,
             ws_connectPromise := None\<rparr>
      in if socket = None \<and> pendingSocket = None then emitStatus False s'
         else rejectAllPending ''Bridge websocket disconnected'' (emitStatus False
           (close_opt socket
             (close_opt (if pendingSocket \<noteq> socket then pendingSocket else None) s'))))"

end
