(* ===== verification/WsDelivery.thy ===== *)
theory WsDelivery
  imports WsClient
begin

text \<open>
  Delivery of numbered events, recovery epochs and replays:
  \<open>HostBridgeWsClientReplayAndOrderingLayer\<close>, the incoming side of
  \<open>HostBridgeWsClientSocketTransportLayer\<close>, and the steps of the whole client.
\<close>

section \<open>Delivery\<close>

definition emitNumberedEvent :: "eventParser \<Rightarrow> rpcNotification \<Rightarrow> wsClient \<Rightarrow> wsClient" where
  "emitNumberedEvent parse event s =
     (case rn_eventId event of
        None \<Rightarrow> s
      | Some i \<Rightarrow>
          (let s1 = s\<lparr>ws_lastSeenEventId := i\<rparr>;
               s2 = (case toAgUiTurnCompletionSnapshot parse (ws_now s1) event of
                  Some completion \<Rightarrow> rememberTurnCompletion completion s1
                | None \<Rightarrow> s1)
           in emitEvent parse event s2))"

lemma remember_frame [simp]:
  "ws_pendingEvents (rememberTurnCompletion c s) = ws_pendingEvents s"
  "ws_lastSeenEventId (rememberTurnCompletion c s) = ws_lastSeenEventId s"
  "ws_out (rememberTurnCompletion c s) = ws_out s"
  by (simp_all add: rememberTurnCompletion_def pruneTurnCompletions_def Let_def split: option.split)

lemma pending_waiters:
  "ws_pendingEvents (fold (notifyWaiter parse e) ws s) = ws_pendingEvents s"
proof (induction ws arbitrary: s)
  case (Cons w ws)
  have "ws_pendingEvents (notifyWaiter parse e w s) = ws_pendingEvents s"
    by (simp add: notifyWaiter_def emit_def split: prod.split option.split)
  with Cons.IH show ?case by simp
qed simp

lemma pending_emit [simp]:
  "ws_pendingEvents (emit os s) = ws_pendingEvents s"
  "ws_pendingEvents (emitEvent parse e s) = ws_pendingEvents s"
  "ws_pendingEvents (emitNumberedEvent parse e s) = ws_pendingEvents s"
  by (simp_all add: emit_def emitEvent_def emitNumberedEvent_def pending_waiters Let_def
      split: option.split)

lemma delete_shorter: "map_of xs k = Some v \<Longrightarrow> length (AList.delete k xs) < length xs"
  by (induction xs) (auto simp: AList.delete_eq intro: le_imp_less_Suc)

function drainLoop :: "eventParser \<Rightarrow> wsClient \<Rightarrow> wsClient" where
  "drainLoop parse s =
     (case map_of (ws_pendingEvents s) (ws_lastSeenEventId s + 1) of
        None \<Rightarrow> s
      | Some event \<Rightarrow> drainLoop parse (emitNumberedEvent parse event
          (s\<lparr>ws_pendingEvents := AList.delete (ws_lastSeenEventId s + 1) (ws_pendingEvents s)\<rparr>)))"
  by pat_completeness auto
termination
  by (relation "measure (\<lambda>(parse, s). length (ws_pendingEvents s))") (auto intro: delete_shorter)

declare drainLoop.simps [simp del]

definition drainPendingEvents :: "eventParser \<Rightarrow> wsClient \<Rightarrow> wsClient" where
  "drainPendingEvents parse s = (if ws_recoveryWatermark s \<noteq> None then s else drainLoop parse s)"

definition hasPendingGap :: "wsClient \<Rightarrow> bool" where
  "hasPendingGap s \<longleftrightarrow> ws_pendingEvents s \<noteq> []
     \<and> map_of (ws_pendingEvents s) (ws_lastSeenEventId s + 1) = None"

section \<open>Recovery epochs\<close>

definition opt_num :: "int option \<Rightarrow> jsv" where
  "opt_num i = (case i of Some n \<Rightarrow> JNum (of_int n) | None \<Rightarrow> JNull)"

definition opt_str :: "string option \<Rightarrow> jsv" where
  "opt_str s = (case s of Some t \<Rightarrow> JStr t | None \<Rightarrow> JNull)"

text \<open>The event that tells the application to fetch a snapshot.\<close>

definition snapshotRequired ::
  "string \<Rightarrow> string option \<Rightarrow> int \<Rightarrow> int \<Rightarrow> int option \<Rightarrow> int option \<Rightarrow> string option
     \<Rightarrow> rpcNotification" where
  "snapshotRequired reason previousStreamId lastDelivered resumeAfter earliest latest streamId =
     \<lparr>rn_method = ''bridge/events/snapshotRequired'',
      rn_params = JObj [(''reason'', JStr reason), (''previousStreamId'', opt_str previousStreamId),
        (''lastDeliveredEventId'', JNum (of_int lastDelivered)),
        (''resumeAfterEventId'', JNum (of_int resumeAfter)),
        (''earliestEventId'', opt_num earliest), (''latestEventId'', opt_num latest)],
      rn_protocolVersion = Some PROTOCOL_VERSION, rn_streamId = streamId, rn_eventId = None\<rparr>"

definition resetRecoveryEpoch :: "eventParser \<Rightarrow> wsClient \<Rightarrow> wsClient" where
  "resetRecoveryEpoch parse s =
     (let lastDelivered = ws_lastSeenEventId s; previousStreamId = ws_streamId s;
          socket = ws_socket s; pendingSocket = ws_pendingSocket s;
          s1 = s\<lparr>ws_connectGeneration := Suc (ws_connectGeneration s),
             ws_replayGeneration := Suc (ws_replayGeneration s), ws_replayInFlight := None,
             ws_pendingEvents := [], ws_recoveryWatermark := Some 0,
             ws_awaitingFreshRecoveryBaseline := True, ws_lastSeenEventId := 0,
             ws_streamId := None, ws_socket := None, ws_pendingSocket := None,
             ws_connectPromise := None, ws_reconnectAttempts := 0, ws_reconnectTimer := None\<rparr>;
          s2 = close_opt socket
             (close_opt (if pendingSocket \<noteq> socket then pendingSocket else None) s1);
          s3 = rejectAllPending ''Bridge websocket recovery epoch reset'' (emitStatus False s2);
          s4 = emitEvent parse (snapshotRequired ''recoveryOverflow'' previousStreamId lastDelivered 0
             None None None) (emit [Baseline 0] s3)
      in if ws_shouldReconnect s4 then startConnect s4 else s4)"

definition resetDeliveryEpoch ::
  "eventParser \<Rightarrow> string \<Rightarrow> int option \<Rightarrow> int option \<Rightarrow> string option \<Rightarrow> wsClient \<Rightarrow> wsClient" where
  "resetDeliveryEpoch parse reason earliest latest previousStreamId s =
     (let lastDelivered = ws_lastSeenEventId s; resumeAfter = with_default latest 0;
          s1 = s\<lparr>ws_replayGeneration := Suc (ws_replayGeneration s),
             ws_pendingEvents := (if reason = ''streamChanged'' then []
               else filter (\<lambda>(i, e). \<not> i \<le> resumeAfter) (ws_pendingEvents s)),
             ws_lastSeenEventId := resumeAfter, ws_recoveryWatermark := Some resumeAfter,
             ws_replayInFlight := None\<rparr>
      in emitEvent parse (snapshotRequired reason previousStreamId lastDelivered resumeAfter
           earliest latest (ws_streamId s1)) (emit [Baseline resumeAfter] s1))"

definition handleRecoveryBufferOverflow :: "eventParser \<Rightarrow> wsClient \<Rightarrow> wsClient" where
  "handleRecoveryBufferOverflow parse s = resetRecoveryEpoch parse s"

datatype streamIdentity = Missing | Initial | Same | Changed | Unsupported

definition protocol_error :: "int \<Rightarrow> string" where
  "protocol_error received =
     ''Unsupported bridge protocol version '' @ show_int received @ ''; expected 2''"

definition applyStreamIdentity ::
  "eventParser \<Rightarrow> int option \<Rightarrow> string option \<Rightarrow> wsClient \<Rightarrow> streamIdentity \<times> wsClient" where
  "applyStreamIdentity parse protocolVersion streamId s =
     (case (protocolVersion, truthy_id streamId) of
        (Some version, Some stream) \<Rightarrow>
          if version \<noteq> PROTOCOL_VERSION
          then (Unsupported, close_opt (ws_socket s) (rejectAllPending (protocol_error version)
            (s\<lparr>ws_protocolError := Some version, ws_shouldReconnect := False,
               ws_connectGeneration := Suc (ws_connectGeneration s)\<rparr>)))
          else
            (let s1 = s\<lparr>ws_protocolError := None\<rparr> in
             case ws_streamId s1 of
               None \<Rightarrow> (Initial, s1\<lparr>ws_streamId := Some stream\<rparr>)
             | Some previous \<Rightarrow>
                 if previous = stream then (Same, s1)
                 else (Changed, resetDeliveryEpoch parse ''streamChanged'' None None (Some previous)
                        (s1\<lparr>ws_streamId := Some stream\<rparr>)))
      | _ \<Rightarrow> (Missing, s))"

section \<open>Replays\<close>

definition replayPossible :: "wsClient \<Rightarrow> bool" where
  "replayPossible s \<longleftrightarrow> ws_replaySupported s \<and> ws_replayInFlight s = None \<and> ws_connected s \<and> socketOpen s"

text \<open>\<open>scheduleReplay\<close> with \<open>replayMissedEvents\<close> up to its first request.\<close>

definition scheduleReplay :: "wsClient \<Rightarrow> wsClient" where
  "scheduleReplay s =
     (if \<not> replayPossible s then s
      else (let r = ws_counter s in
        s\<lparr>ws_counter := Suc r, ws_replayInFlight := Some r,
          ws_replays := AList.update r \<lparr>rr_generation = ws_replayGeneration s,
            rr_cursor = ws_lastSeenEventId s, rr_target = None, rr_phase = Requesting\<rparr>
            (ws_replays s)\<rparr>))"

definition setReplay :: "nat \<Rightarrow> replayRun \<Rightarrow> wsClient \<Rightarrow> wsClient" where
  "setReplay r run s = s\<lparr>ws_replays := AList.update r run (ws_replays s)\<rparr>"

definition drainAndReplay :: "eventParser \<Rightarrow> wsClient \<Rightarrow> wsClient" where
  "drainAndReplay parse s =
     (let s' = drainPendingEvents parse s in if hasPendingGap s' then scheduleReplay s' else s')"

definition acknowledgeSnapshotRecovery :: "eventParser \<Rightarrow> int \<Rightarrow> wsClient \<Rightarrow> bool \<times> wsClient" where
  "acknowledgeSnapshotRecovery parse resumeAfterEventId s =
     (if ws_recoveryWatermark s \<noteq> Some resumeAfterEventId then (False, s)
      else (True, drainAndReplay parse
        (s\<lparr>ws_recoveryWatermark := None, ws_awaitingFreshRecoveryBaseline := False\<rparr>)))"

section \<open>Incoming messages\<close>

definition notification_of ::
  "string \<Rightarrow> jsv \<Rightarrow> int option \<Rightarrow> string option \<Rightarrow> int option \<Rightarrow> rpcNotification" where
  "notification_of method params version streamId eventId =
     \<lparr>rn_method = method,
      rn_params = (case params of JObj _ \<Rightarrow> params | JArr _ \<Rightarrow> params | _ \<Rightarrow> JNull),
      rn_protocolVersion = version, rn_streamId = truthy_id streamId, rn_eventId = eventId\<rparr>"

text \<open>
  A numbered event: dropped, delivered, or buffered.  The flag tells whether the handler goes on
  to its last check, which an early return skips.
\<close>

definition handleNumberedEvent ::
  "eventParser \<Rightarrow> bool \<Rightarrow> rpcNotification \<Rightarrow> int \<Rightarrow> wsClient \<Rightarrow> bool \<times> wsClient" where
  "handleNumberedEvent parse fromReplay event eventId s =
     (let s1 = (if rn_protocolVersion event = None \<and> eventId = 1 \<and> ws_lastSeenEventId s > 1
            then resetDeliveryEpoch parse ''streamChanged'' None None (ws_streamId s) s else s)
      in if eventId \<le> ws_lastSeenEventId s1 \<or> map_of (ws_pendingEvents s1) eventId \<noteq> None
         then (False, s1)
         else if ws_lastSeenEventId s1 = 0 \<and> \<not> ws_awaitingFreshRecoveryBaseline s1
         then (True, emitNumberedEvent parse event s1)
         else
           (let s2 = s1\<lparr>ws_pendingEvents := AList.update eventId event (ws_pendingEvents s1)\<rparr> in
            if ws_recoveryWatermark s2 \<noteq> None
               \<and> length (ws_pendingEvents s2) > MAX_RECOVERY_BUFFERED_EVENTS
            then (False, handleRecoveryBufferOverflow parse s2)
            else if fromReplay then (True, drainPendingEvents parse s2)
            else if ws_replayInFlight s2 = None then (True, drainAndReplay parse s2)
            else (True, s2)))"

definition handleUnnumberedEvent :: "eventParser \<Rightarrow> rpcNotification \<Rightarrow> wsClient \<Rightarrow> wsClient" where
  "handleUnnumberedEvent parse event s =
     emitEvent parse event
       (case toAgUiTurnCompletionSnapshot parse (ws_now s) event of
          Some completion \<Rightarrow> rememberTurnCompletion completion s
        | None \<Rightarrow> s)"

definition handleNotificationRecord :: "eventParser \<Rightarrow> bool \<Rightarrow> jobj \<Rightarrow> wsClient \<Rightarrow> wsClient" where
  "handleNotificationRecord parse fromReplay r s =
     (case truthy_id (readString (prop_of r ''method'')) of
        None \<Rightarrow> s
      | Some method \<Rightarrow>
          (let protocolVersion = readNumber (prop_of r ''protocolVersion'');
               streamId = readString (prop_of r ''streamId'');
               identified = applyStreamIdentity parse protocolVersion streamId s;
               eventId = readEventId r;
               event = notification_of method (prop_of r ''params'') protocolVersion streamId eventId
           in if fst identified = Unsupported then snd identified
              else
                (let handled = (case eventId of
                       None \<Rightarrow> (True, handleUnnumberedEvent parse event (snd identified))
                     | Some i \<Rightarrow> handleNumberedEvent parse fromReplay event i (snd identified))
                 in if fst handled \<and> method = ''bridge/connection/state''
                       \<and> (fst identified = Same \<or> fst identified = Missing)
                       \<and> (ws_lastSeenEventId (snd handled) > 0
                          \<or> ws_recoveryWatermark (snd handled) \<noteq> None)
                    then scheduleReplay (snd handled) else snd handled)))"

definition handleIncoming :: "eventParser \<Rightarrow> string \<Rightarrow> wsClient \<Rightarrow> wsClient" where
  "handleIncoming parse raw s =
     (case Option.bind (json_parse raw) toRecord of
        None \<Rightarrow> s
      | Some r \<Rightarrow>
          (case prop_of r ''id'' of
             JNum _ \<Rightarrow> s
           | JStr i \<Rightarrow>
               (case map_of (ws_pendingRequests s) i of
                  None \<Rightarrow> s
                | Some pending \<Rightarrow>
                    (let error = toRecord (prop_of r ''error'') in
                     case (opt_prop error ''code'', opt_prop error ''message'') of
                       (JNum code, JStr message) \<Rightarrow>
                         settleRequest i (RpcRequestError (pr_method pending) code message
                           (opt_prop error ''data'')) s
                     | _ \<Rightarrow> settleRequest i (Resolved
                         (if nullish (prop_of r ''result'') then JNull else prop_of r ''result'')) s))
           | _ \<Rightarrow>
               (if as_string (prop_of r ''method'') \<noteq> None
                then handleNotificationRecord parse False r s else s)))"

section \<open>Replay runs\<close>

text \<open>The request of a run, once \<open>ensureConnected\<close> lets it go on.\<close>

definition replayRequest :: "nat \<Rightarrow> wsClient \<Rightarrow> wsClient" where
  "replayRequest r s =
     (case map_of (ws_replays s) r of
        None \<Rightarrow> s
      | Some run \<Rightarrow>
          if rr_phase run \<noteq> Requesting then s
          else (case ensureConnected s of
             WaitForConnect \<Rightarrow> s
           | NotConnected \<Rightarrow> setReplay r (run\<lparr>rr_phase := Finished False\<rparr>) s
           | Ready \<Rightarrow> (case ws_socket s of
               None \<Rightarrow> setReplay r (run\<lparr>rr_phase := Finished False\<rparr>) s
             | Some k \<Rightarrow>
                 (let sent = sendRequest (ReplayRun r) ''bridge/events/replay''
                        (Some (JObj [(''afterEventId'', JNum (of_int (rr_cursor run))),
                           (''limit'', JNum 200)])) k s
                  in setReplay r (run\<lparr>rr_phase := Waiting (fst sent)\<rparr>) (snd sent)))))"

definition handleReplayEntry :: "eventParser \<Rightarrow> jsv \<Rightarrow> wsClient \<Rightarrow> wsClient" where
  "handleReplayEntry parse entry s =
     (case toRecord entry of None \<Rightarrow> s | Some r \<Rightarrow> handleNotificationRecord parse True r s)"

definition pageEventIds :: "jsv list \<Rightarrow> int list" where
  "pageEventIds events = List.map_filter (\<lambda>entry. Option.bind (toRecord entry) readEventId) events"

text \<open>A page that cannot be reconciled with the cursor: the reason of the reset.\<close>

definition pageConflict :: "int \<Rightarrow> int option \<Rightarrow> int option \<Rightarrow> string option" where
  "pageConflict cursor earliest latest =
     (if (case latest of Some l \<Rightarrow> l < cursor | None \<Rightarrow> False) then Some ''replayInconsistent''
      else if (case earliest of Some e \<Rightarrow> e > cursor + 1 | None \<Rightarrow> False) then Some ''replayTruncated''
      else if earliest = None \<and> (case latest of Some l \<Rightarrow> l > cursor | None \<Rightarrow> False)
        then Some ''replayTruncated''
      else None)"

definition finishReplay :: "nat \<Rightarrow> replayRun \<Rightarrow> bool \<Rightarrow> wsClient \<Rightarrow> wsClient" where
  "finishReplay r run completed s = setReplay r (run\<lparr>rr_phase := Finished completed\<rparr>) s"

text \<open>The rest of a page once its events are handled: return, reset, or go on with the next page.\<close>

definition replayContinue ::
  "eventParser \<Rightarrow> nat \<Rightarrow> replayRun \<Rightarrow> jsv \<Rightarrow> int option \<Rightarrow> int option \<Rightarrow> wsClient \<Rightarrow> wsClient" where
  "replayContinue parse r run response earliest latest s =
     (let previousCursor = rr_cursor run; cursor = ws_lastSeenEventId s;
          events = with_default (as_array (opt_prop (toRecord response) ''events'')) [];
          ids = pageEventIds events;
          target = or_else (or_else (rr_target run) latest)
            (if ids = [] then None else Some (Max (set ids)));
          reset = finishReplay r run True
            (resetDeliveryEpoch parse ''replayInconsistent'' earliest latest (ws_streamId s) s)
      in if (case target of None \<Rightarrow> True | Some t \<Rightarrow> cursor \<ge> t) then finishReplay r run True s
         else if opt_prop (toRecord response) ''hasMore'' \<noteq> JBool True then reset
         else if cursor \<le> previousCursor then reset
         else if rr_generation run = ws_replayGeneration s
         then setReplay r (run\<lparr>rr_cursor := cursor, rr_target := target, rr_phase := Requesting\<rparr>) s
         else finishReplay r run True s)"

definition replayPage :: "eventParser \<Rightarrow> nat \<Rightarrow> replayRun \<Rightarrow> jsv \<Rightarrow> wsClient \<Rightarrow> wsClient" where
  "replayPage parse r run response s =
     (if rr_generation run \<noteq> ws_replayGeneration s then finishReplay r run True s
      else if response = JNull then finishReplay r run False s
      else
        (let page = toRecord response;
             identified = applyStreamIdentity parse (readNumber (opt_prop page ''protocolVersion''))
               (readString (opt_prop page ''streamId'')) s;
             s1 = snd identified;
             latest = readNumber (opt_prop page ''latestEventId'');
             earliest = readNumber (opt_prop page ''earliestEventId'')
         in if fst identified = Unsupported \<or> fst identified = Changed then finishReplay r run True s1
            else (case pageConflict (rr_cursor run) earliest latest of
               Some reason \<Rightarrow> finishReplay r run True
                 (resetDeliveryEpoch parse reason earliest latest (ws_streamId s1) s1)
             | None \<Rightarrow> replayContinue parse r run response earliest latest
                 (fold (handleReplayEntry parse)
                   (with_default (as_array (opt_prop page ''events'')) []) s1))))"

definition replayReply :: "eventParser \<Rightarrow> nat \<Rightarrow> wsClient \<Rightarrow> wsClient" where
  "replayReply parse r s =
     (case map_of (ws_replays s) r of
        None \<Rightarrow> s
      | Some run \<Rightarrow>
          (case rr_phase run of
             Replied outcome \<Rightarrow>
               (case outcome of
                  Resolved response \<Rightarrow> replayPage parse r run response s
                | RpcRequestError _ code _ _ \<Rightarrow>
                    if code = - 32601 then finishReplay r run True (s\<lparr>ws_replaySupported := False\<rparr>)
                    else finishReplay r run False s
                | Rejected _ \<Rightarrow> finishReplay r run False s)
           | _ \<Rightarrow> s))"

text \<open>The \<open>finally\<close> of a replay.\<close>

definition replaySettled :: "eventParser \<Rightarrow> nat \<Rightarrow> wsClient \<Rightarrow> wsClient" where
  "replaySettled parse r s =
     (case map_of (ws_replays s) r of
        None \<Rightarrow> s
      | Some run \<Rightarrow>
          (case rr_phase run of
             Finished completed \<Rightarrow>
               (let s1 = s\<lparr>ws_replays := AList.delete r (ws_replays s)\<rparr> in
                if ws_replayInFlight s1 \<noteq> Some r then s1
                else (let s2 = s1\<lparr>ws_replayInFlight := None\<rparr> in
                  if \<not> completed \<or> rr_generation run \<noteq> ws_replayGeneration s2 then s2
                  else drainAndReplay parse s2))
           | _ \<Rightarrow> s))"

section \<open>Socket handlers\<close>

definition socketOpened :: "nat \<Rightarrow> wsClient \<Rightarrow> wsClient" where
  "socketOpened k s =
     (case map_of (ws_sockets s) k of
        None \<Rightarrow> s
      | Some so \<Rightarrow>
          if so_readyState so \<noteq> Connecting then s
          else if so_generation so \<noteq> ws_connectGeneration s \<or> \<not> ws_shouldReconnect s
             \<or> ws_pendingSocket s \<noteq> Some k
          then settleSocket k (closeSocket k s)
          else emitStatus True ((settleSocket k s)\<lparr>
             ws_sockets := AList.map_entry k (\<lambda>so. so\<lparr>so_settled := True, so_readyState := Open\<rparr>) (ws_sockets s),
             ws_pendingSocket := None, ws_socket := Some k, ws_reconnectAttempts := 0\<rparr>))"

definition dropPending :: "nat \<Rightarrow> wsClient \<Rightarrow> wsClient" where
  "dropPending k s = (if ws_pendingSocket s = Some k then s\<lparr>ws_pendingSocket := None\<rparr> else s)"

definition socketClosed :: "nat \<Rightarrow> wsClient \<Rightarrow> wsClient" where
  "socketClosed k s =
     (case map_of (ws_sockets s) k of
        None \<Rightarrow> s
      | Some so \<Rightarrow>
          (let s1 = dropPending k (s\<lparr>ws_sockets :=
                 AList.map_entry k (\<lambda>so. so\<lparr>so_readyState := Closing\<rparr>) (ws_sockets s)\<rparr>);
               s2 = (if ws_socket s1 = Some k
                 then rejectAllPending ''Bridge websocket closed''
                   (emitStatus False (s1\<lparr>ws_socket := None\<rparr>))
                 else s1)
           in if \<not> so_settled so then settleSocket k s2
              else if ws_shouldReconnect s2 \<and> so_generation so = ws_connectGeneration s2
              then scheduleReconnect s2 else s2))"

definition socketFailed :: "nat \<Rightarrow> wsClient \<Rightarrow> wsClient" where
  "socketFailed k s =
     (case map_of (ws_sockets s) k of
        None \<Rightarrow> s
      | Some so \<Rightarrow>
          if \<not> so_settled so then closeSocket k (dropPending k (settleSocket k s))
          else if ws_socket s = Some k
          then (let s1 = rejectAllPending ''Bridge websocket error'' (emitStatus False
                   (closeSocket k (s\<lparr>ws_socket := None\<rparr>)))
                in if ws_shouldReconnect s1 \<and> so_generation so = ws_connectGeneration s1
                   then scheduleReconnect s1 else s1)
          else s)"

definition socketMessage :: "eventParser \<Rightarrow> nat \<Rightarrow> string \<Rightarrow> wsClient \<Rightarrow> wsClient" where
  "socketMessage parse k raw s =
     (case map_of (ws_sockets s) k of
        None \<Rightarrow> s
      | Some so \<Rightarrow>
          if so_generation so \<noteq> ws_connectGeneration s \<or> ws_socket s \<noteq> Some k then s
          else handleIncoming parse raw s)"

section \<open>The client\<close>

datatype wsEvent =
    Environment int nat
  | Connect
  | Disconnect
  | ResetRecovery
  | Acknowledge int
  | Request nat string "jsv option"
  | RequestTimedOut string
  | WaitForTurn nat string string
  | WaitTimedOut nat int
  | SocketOpens nat
  | SocketCloses nat
  | SocketFails nat
  | SocketReceives nat string
  | ConnectPromiseSettles nat
  | ReconnectTimerFires nat
  | ReplayRequests nat
  | ReplayReads nat
  | ReplaySettles nat

fun wsStep :: "eventParser \<Rightarrow> wsEvent \<Rightarrow> wsClient \<Rightarrow> wsClient" where
  "wsStep parse (Environment now jitter) s = s\<lparr>ws_now := now, ws_jitter := jitter\<rparr>"
| "wsStep parse Connect s = connect s"
| "wsStep parse Disconnect s = disconnect s"
| "wsStep parse ResetRecovery s = resetRecoveryEpoch parse s"
| "wsStep parse (Acknowledge i) s = snd (acknowledgeSnapshotRecovery parse i s)"
| "wsStep parse (Request caller method params) s = request caller method params s"
| "wsStep parse (RequestTimedOut i) s = requestTimeout i s"
| "wsStep parse (WaitForTurn i threadId turnId) s = waitForTurnCompletion i threadId turnId s"
| "wsStep parse (WaitTimedOut i ms) s = waiterTimeout i ms s"
| "wsStep parse (SocketOpens k) s = socketOpened k s"
| "wsStep parse (SocketCloses k) s = socketClosed k s"
| "wsStep parse (SocketFails k) s = socketFailed k s"
| "wsStep parse (SocketReceives k raw) s = socketMessage parse k raw s"
| "wsStep parse (ConnectPromiseSettles k) s = connectSettled k s"
| "wsStep parse (ReconnectTimerFires i) s = reconnectTimerFires i s"
| "wsStep parse (ReplayRequests r) s = replayRequest r s"
| "wsStep parse (ReplayReads r) s = replayReply parse r s"
| "wsStep parse (ReplaySettles r) s = replaySettled parse r s"

definition wsRun :: "eventParser \<Rightarrow> wsEvent list \<Rightarrow> wsClient \<Rightarrow> wsClient" where
  "wsRun parse events s = fold (wsStep parse) events s"

end
