(* ===== verification/WsOrder.thy ===== *)
theory WsOrder
  imports WsDelivery
begin

text \<open>
  The order of delivery.  What a run hands to its listeners is read off \<open>ws_out\<close>: every numbered
  event continues the numbering that the last numbered event, or the last recovery baseline,
  left off, and the last seen id is the end of that numbering.
\<close>

section \<open>The numbering of an output\<close>

definition numbered :: "wsOutput \<Rightarrow> bool" where
  "numbered x = (case x of EmittedEvent e \<Rightarrow> rn_eventId e \<noteq> None | Baseline i \<Rightarrow> True | _ \<Rightarrow> False)"

lemma numbered_simps [simp]:
  "numbered (EmittedEvent e) = (rn_eventId e \<noteq> None)"
  "numbered (Baseline i)"
  "\<not> numbered (EmittedStatus b)"
  "\<not> numbered (OpenedSocket k u h)"
  "\<not> numbered (ClosedSocket k)"
  "\<not> numbered (SentText k t)"
  "\<not> numbered (SettledRequest j r)"
  "\<not> numbered (FailedRequest n m)"
  "\<not> numbered (SettledTurn n w)"
  by (simp_all add: numbered_def)

text \<open>The id after an output, and that every numbered event is the next one; after \<open>0\<close> any is.\<close>

definition next_id :: "int \<Rightarrow> wsOutput \<Rightarrow> int" where
  "next_id n x = (case x of
     EmittedEvent e \<Rightarrow> with_default (rn_eventId e) n | Baseline i \<Rightarrow> i | _ \<Rightarrow> n)"

definition last_id :: "wsOutput list \<Rightarrow> int" where
  "last_id xs = foldl next_id 0 xs"

definition follows :: "int \<Rightarrow> wsOutput \<Rightarrow> bool" where
  "follows n x = (case x of
     EmittedEvent e \<Rightarrow> (case rn_eventId e of Some i \<Rightarrow> n = 0 \<or> i = n + 1 | None \<Rightarrow> True) | _ \<Rightarrow> True)"

definition in_order :: "wsOutput list \<Rightarrow> bool" where
  "in_order xs \<longleftrightarrow> (\<forall>k < length xs. follows (last_id (take k xs)) (xs ! k))"

lemma next_id_other: "\<not> numbered x \<Longrightarrow> next_id n x = n"
  by (simp add: next_id_def numbered_def split: wsOutput.splits)

lemma follows_other: "\<not> numbered x \<Longrightarrow> follows n x"
  by (simp add: follows_def numbered_def split: wsOutput.splits)

lemma last_id_snoc [simp]: "last_id (xs @ [x]) = next_id (last_id xs) x"
  by (simp add: last_id_def)

lemma last_id_Nil [simp]: "last_id [] = 0"
  by (simp add: last_id_def)

lemma in_order_snoc [simp]: "in_order (xs @ [x]) \<longleftrightarrow> in_order xs \<and> follows (last_id xs) x"
  by (auto simp: in_order_def nth_append less_Suc_eq)

lemma last_id_numbered: "last_id (filter numbered xs) = last_id xs"
  by (induction xs rule: rev_induct) (auto simp: next_id_other)

lemma in_order_numbered: "in_order (filter numbered xs) = in_order xs"
proof (induction xs rule: rev_induct)
  case (snoc x xs)
  then show ?case by (simp add: last_id_numbered follows_other)
qed (simp add: in_order_def)

section \<open>Operations that deliver nothing\<close>

definition view :: "wsClient \<Rightarrow> int \<times> (int \<times> rpcNotification) list \<times> wsOutput list" where
  "view s = (ws_lastSeenEventId s, ws_pendingEvents s, filter numbered (ws_out s))"

lemma view_emit [simp]: "filter numbered os = [] \<Longrightarrow> view (emit os s) = view s"
  by (simp add: view_def emit_def)

lemma view_frame [simp]:
  "view (s\<lparr>ws_socket := a\<rparr>) = view s"
  "view (s\<lparr>ws_pendingSocket := b\<rparr>) = view s"
  "view (s\<lparr>ws_connected := c\<rparr>) = view s"
  "view (s\<lparr>ws_shouldReconnect := c\<rparr>) = view s"
  "view (s\<lparr>ws_reconnectAttempts := n\<rparr>) = view s"
  "view (s\<lparr>ws_reconnectTimer := t\<rparr>) = view s"
  "view (s\<lparr>ws_connectPromise := b\<rparr>) = view s"
  "view (s\<lparr>ws_connectGeneration := n\<rparr>) = view s"
  "view (s\<lparr>ws_pendingRequests := p\<rparr>) = view s"
  "view (s\<lparr>ws_recentTurnCompletions := u\<rparr>) = view s"
  "view (s\<lparr>ws_replaySupported := c\<rparr>) = view s"
  "view (s\<lparr>ws_replayInFlight := b\<rparr>) = view s"
  "view (s\<lparr>ws_replayGeneration := n\<rparr>) = view s"
  "view (s\<lparr>ws_recoveryWatermark := v\<rparr>) = view s"
  "view (s\<lparr>ws_awaitingFreshRecoveryBaseline := c\<rparr>) = view s"
  "view (s\<lparr>ws_requestCounter := n\<rparr>) = view s"
  "view (s\<lparr>ws_streamId := w\<rparr>) = view s"
  "view (s\<lparr>ws_protocolError := v\<rparr>) = view s"
  "view (s\<lparr>ws_waiters := x\<rparr>) = view s"
  "view (s\<lparr>ws_replays := y\<rparr>) = view s"
  "view (s\<lparr>ws_sockets := z\<rparr>) = view s"
  "view (s\<lparr>ws_counter := n\<rparr>) = view s"
  "view (s\<lparr>ws_now := i\<rparr>) = view s"
  "view (s\<lparr>ws_jitter := n\<rparr>) = view s"
  by (simp_all add: view_def)

lemma view_set [simp]:
  "view (s\<lparr>ws_lastSeenEventId := i\<rparr>) = (i, snd (view s))"
  "view (s\<lparr>ws_pendingEvents := p\<rparr>) = (fst (view s), p, snd (snd (view s)))"
  by (simp_all add: view_def)

lemma view_remember [simp]:
  "view (pruneTurnCompletions s) = view s"
  "view (rememberTurnCompletion c s) = view s"
  by (simp_all add: pruneTurnCompletions_def rememberTurnCompletion_def Let_def split: option.split)

lemma view_fold: "(\<And>x s. x \<in> set xs \<Longrightarrow> view (f x s) = view s) \<Longrightarrow> view (fold f xs s) = view s"
  by (induction xs arbitrary: s) auto

lemma view_waiters: "view (fold (notifyWaiter parse e) ws s) = view s"
  by (rule view_fold) (simp add: notifyWaiter_def split: prod.split option.split)

lemma view_emitEvent [simp]: "rn_eventId e = None \<Longrightarrow> view (emitEvent parse e s) = view s"
  by (simp add: emitEvent_def view_waiters)

lemma view_status [simp]: "view (emitStatus b s) = view s"
  by (simp add: emitStatus_def)

lemma view_settle [simp]:
  "view (replyTo c r s) = view s"
  "view (settleRequest i r s) = view s"
  by (simp_all add: replyTo_def settleRequest_def split: requestCaller.split option.split)

lemma view_reject [simp]: "view (rejectAllPending m s) = view s"
  unfolding rejectAllPending_def by (rule view_fold) (simp split: prod.split)

lemma view_sockets [simp]:
  "view (closeSocket k s) = view s"
  "view (settleSocket k s) = view s"
  "view (snd (openSocket g s)) = view s"
  "view (close_opt o' s) = view s"
  by (simp_all add: closeSocket_def settleSocket_def openSocket_def close_opt_def Let_def split: option.split)

lemma view_connect [simp]:
  "view (startConnect s) = view s"
  "view (scheduleReconnect s) = view s"
  "view (connectSettled k s) = view s"
  "view (reconnectTimerFires k s) = view s"
  "view (connect s) = view s"
  "view (disconnect s) = view s"
  by (simp_all add: startConnect_def scheduleReconnect_def connectSettled_def
      reconnectTimerFires_def connect_def disconnect_def Let_def split: option.split)

lemma view_requests [simp]:
  "view (snd (sendRequest c m p k s)) = view s"
  "view (request n m p s) = view s"
  "view (requestTimeout i s) = view s"
  "view (waitForTurnCompletion n a b s) = view s"
  "view (waiterTimeout n ms s) = view s"
  by (simp_all add: sendRequest_def request_def requestTimeout_def waitForTurnCompletion_def
      waiterTimeout_def Let_def split: readiness.split option.split)

lemma view_replays [simp]:
  "view (scheduleReplay s) = view s"
  "view (setReplay r run s) = view s"
  "view (finishReplay r run b s) = view s"
  "view (replayRequest r s) = view s"
  by (simp_all add: scheduleReplay_def setReplay_def finishReplay_def replayRequest_def Let_def
      split: readiness.split option.split)

lemma view_socket_events [simp]:
  "view (socketOpened k s) = view s"
  "view (dropPending k s) = view s"
  "view (socketClosed k s) = view s"
  "view (socketFailed k s) = view s"
  by (simp_all add: socketOpened_def dropPending_def socketClosed_def socketFailed_def Let_def
      split: option.split)

section \<open>The invariant\<close>

definition order_ok :: "wsClient \<Rightarrow> bool" where
  "order_ok s \<longleftrightarrow> (case view s of (n, pending, os) \<Rightarrow>
     in_order os \<and> last_id os = n \<and> (\<forall>(i, e) \<in> set pending. rn_eventId e = Some i))"

lemma order_ok_intro:
  "view t = (n, pending, os) \<Longrightarrow> in_order os \<Longrightarrow> last_id os = n \<Longrightarrow>
     (\<And>i e. (i, e) \<in> set pending \<Longrightarrow> rn_eventId e = Some i) \<Longrightarrow> order_ok t"
  by (auto simp: order_ok_def)

lemma order_ok_elim:
  assumes "order_ok s"
  obtains os where "view s = (ws_lastSeenEventId s, ws_pendingEvents s, os)" "in_order os"
    "last_id os = ws_lastSeenEventId s"
    "\<And>i e. (i, e) \<in> set (ws_pendingEvents s) \<Longrightarrow> rn_eventId e = Some i"
  using assms by (auto simp: order_ok_def view_def)

lemma order_ok_view: "view s = view t \<Longrightarrow> order_ok s = order_ok t"
  by (simp add: order_ok_def)

lemmas order_ok_frame [simp] =
  view_frame [THEN order_ok_view] view_remember [THEN order_ok_view]
  view_emitEvent [THEN order_ok_view] view_emit [THEN order_ok_view]
  view_status [THEN order_ok_view] view_settle [THEN order_ok_view]
  view_reject [THEN order_ok_view] view_sockets [THEN order_ok_view]
  view_connect [THEN order_ok_view] view_requests [THEN order_ok_view]
  view_replays [THEN order_ok_view] view_socket_events [THEN order_ok_view]

lemma view_numbered:
  assumes "rn_eventId e = Some i"
  shows "view (emitNumberedEvent parse e s)
    = (i, ws_pendingEvents s, filter numbered (ws_out s) @ [EmittedEvent e])"
proof -
  let ?s = "s\<lparr>ws_lastSeenEventId := i\<rparr>"
  let ?t = "case toAgUiTurnCompletionSnapshot parse (ws_now ?s) e of
      Some c \<Rightarrow> rememberTurnCompletion c ?s | None \<Rightarrow> ?s"
  have "view ?t = view ?s" by (simp split: option.split)
  moreover have "view (emit [EmittedEvent e] t)
      = (ws_lastSeenEventId t, ws_pendingEvents t, filter numbered (ws_out t) @ [EmittedEvent e])" for t
    using assms by (simp add: view_def emit_def)
  ultimately show ?thesis
    using assms by (simp add: emitNumberedEvent_def emitEvent_def view_waiters Let_def) (simp add: view_def)
qed

lemma order_ok_numbered:
  assumes "order_ok s" "rn_eventId e = Some i"
    and "ws_lastSeenEventId s = 0 \<or> i = ws_lastSeenEventId s + 1"
  shows "order_ok (emitNumberedEvent parse e s)"
proof -
  from assms(1) have "in_order (filter numbered (ws_out s))"
    "last_id (filter numbered (ws_out s)) = ws_lastSeenEventId s"
    "\<And>i e. (i, e) \<in> set (ws_pendingEvents s) \<Longrightarrow> rn_eventId e = Some i"
    by (auto simp: order_ok_def view_def)
  with assms(2,3) show ?thesis
    by (intro order_ok_intro [OF view_numbered [OF assms(2)]]) (auto simp: follows_def next_id_def)
qed

lemma order_ok_fewer:
  "order_ok s \<Longrightarrow> set p \<subseteq> set (ws_pendingEvents s) \<Longrightarrow> order_ok (s\<lparr>ws_pendingEvents := p\<rparr>)"
  by (auto simp: order_ok_def view_def)

lemma order_ok_more:
  "order_ok s \<Longrightarrow> rn_eventId e = Some i \<Longrightarrow>
     order_ok (s\<lparr>ws_pendingEvents := AList.update i e (ws_pendingEvents s)\<rparr>)"
  by (auto simp: order_ok_def view_def dest!: subsetD [OF set_alist_update])

lemma order_ok_drainLoop: "order_ok s \<Longrightarrow> order_ok (drainLoop parse s)"
proof (induction parse s rule: drainLoop.induct)
  case (1 parse s)
  show ?case
  proof (cases "map_of (ws_pendingEvents s) (ws_lastSeenEventId s + 1)")
    case None
    with "1.prems" show ?thesis by (simp add: drainLoop.simps [of parse s])
  next
    case (Some e)
    let ?s = "s\<lparr>ws_pendingEvents := AList.delete (ws_lastSeenEventId s + 1) (ws_pendingEvents s)\<rparr>"
    have "rn_eventId e = Some (ws_lastSeenEventId s + 1)"
      using "1.prems" map_of_SomeD [OF Some] by (auto simp: order_ok_def view_def)
    moreover have "order_ok ?s"
      using "1.prems" by (intro order_ok_fewer) (auto simp: AList.delete_eq)
    ultimately have "order_ok (emitNumberedEvent parse e ?s)" by (intro order_ok_numbered) auto
    with "1.IH" [OF Some] Some show ?thesis by (simp add: drainLoop.simps [of parse s])
  qed
qed

lemma order_ok_drain: "order_ok s \<Longrightarrow> order_ok (drainPendingEvents parse s)"
  by (simp add: drainPendingEvents_def order_ok_drainLoop)

lemma order_ok_drainAndReplay: "order_ok s \<Longrightarrow> order_ok (drainAndReplay parse s)"
  by (simp add: drainAndReplay_def Let_def order_ok_drain)

lemma snapshot_unnumbered [simp]: "rn_eventId (snapshotRequired a b c d e f g) = None"
  by (simp add: snapshotRequired_def)

lemma view_baseline: "view (emit [Baseline n] s)
    = (ws_lastSeenEventId s, ws_pendingEvents s, filter numbered (ws_out s) @ [Baseline n])"
  by (simp add: view_def emit_def)

lemma order_ok_reset:
  assumes "order_ok s"
  shows "order_ok (resetDeliveryEpoch parse reason earliest latest previous s)"
proof -
  have v: "view (resetDeliveryEpoch parse reason earliest latest previous s)
      = (with_default latest 0, if reason = ''streamChanged'' then []
           else filter (\<lambda>(i, e). \<not> i \<le> with_default latest 0) (ws_pendingEvents s),
         filter numbered (ws_out s) @ [Baseline (with_default latest 0)])"
    by (simp add: resetDeliveryEpoch_def Let_def view_baseline)
  show ?thesis
    using assms
    by (intro order_ok_intro [OF v]) (auto simp: order_ok_def view_def next_id_def follows_def split: if_splits)
qed

lemma order_ok_resetRecovery:
  assumes "order_ok s"
  shows "order_ok (resetRecoveryEpoch parse s)"
proof -
  have base: "view (emit [Baseline 0] u) = (0, [], os @ [Baseline 0])" if "view u = (0, [], os)" for u os
    using that by (simp add: view_def emit_def)
  have v: "view (resetRecoveryEpoch parse s) = (0, [], snd (snd (view s)) @ [Baseline 0])"
    by (simp add: resetRecoveryEpoch_def Let_def base)
  show ?thesis
    using assms
    by (intro order_ok_intro [OF v]) (auto simp: order_ok_def view_def next_id_def follows_def)
qed

lemma order_ok_identity: "order_ok s \<Longrightarrow> order_ok (snd (applyStreamIdentity parse v i s))"
  by (simp add: applyStreamIdentity_def Let_def order_ok_reset split: option.split)

lemma order_ok_numberedEvent:
  assumes "order_ok s" "rn_eventId e = Some i"
  shows "order_ok (snd (handleNumberedEvent parse r e i s))"
proof -
  define s1 where "s1 = (if rn_protocolVersion e = None \<and> i = 1 \<and> ws_lastSeenEventId s > 1
    then resetDeliveryEpoch parse ''streamChanged'' None None (ws_streamId s) s else s)"
  have "order_ok s1" using assms(1) by (simp add: s1_def order_ok_reset)
  moreover from this have "order_ok (s1\<lparr>ws_pendingEvents := AList.update i e (ws_pendingEvents s1)\<rparr>)"
    using assms(2) by (rule order_ok_more)
  ultimately show ?thesis
    using assms(2)
    by (simp add: handleNumberedEvent_def Let_def handleRecoveryBufferOverflow_def
        order_ok_resetRecovery order_ok_drain order_ok_drainAndReplay order_ok_numbered
        flip: s1_def)
qed

lemma order_ok_unnumbered:
  "order_ok s \<Longrightarrow> rn_eventId e = None \<Longrightarrow> order_ok (handleUnnumberedEvent parse e s)"
  by (simp add: handleUnnumberedEvent_def split: option.split)

lemma notification_id [simp]: "rn_eventId (notification_of m p v t i) = i"
  by (simp add: notification_of_def)

lemma order_ok_notification:
  assumes "order_ok s"
  shows "order_ok (handleNotificationRecord parse r rec s)"
  using order_ok_identity [OF assms] assms
  by (simp add: handleNotificationRecord_def Let_def order_ok_numberedEvent order_ok_unnumbered
      split: option.split)

lemma order_ok_incoming: "order_ok s \<Longrightarrow> order_ok (handleIncoming parse raw s)"
  by (simp add: handleIncoming_def Let_def order_ok_notification split: option.split jsv.split)

lemma order_ok_entries: "order_ok s \<Longrightarrow> order_ok (fold (handleReplayEntry parse) es s)"
  by (induction es arbitrary: s)
    (simp_all add: handleReplayEntry_def order_ok_notification split: option.split)

lemma order_ok_continue: "order_ok s \<Longrightarrow> order_ok (replayContinue parse r run v e l s)"
  by (simp add: replayContinue_def Let_def order_ok_reset)

lemma order_ok_page:
  assumes "order_ok s"
  shows "order_ok (replayPage parse r run v s)"
  using order_ok_identity [OF assms] assms
  by (simp add: replayPage_def Let_def order_ok_continue order_ok_entries order_ok_reset
      split: option.split)

lemma order_ok_reply: "order_ok s \<Longrightarrow> order_ok (replayReply parse r s)"
  by (simp add: replayReply_def order_ok_page split: option.split replayPhase.split settlement.split)

lemma order_ok_settled: "order_ok s \<Longrightarrow> order_ok (replaySettled parse r s)"
  by (simp add: replaySettled_def Let_def order_ok_drainAndReplay split: option.split replayPhase.split)

lemma order_ok_step: "order_ok s \<Longrightarrow> order_ok (wsStep parse e s)"
  by (cases e)
    (simp_all add: order_ok_resetRecovery acknowledgeSnapshotRecovery_def order_ok_drainAndReplay
      socketMessage_def order_ok_incoming order_ok_reply order_ok_settled split: option.split)

lemma order_ok_create: "order_ok (createWsClient options)"
  by (simp add: order_ok_def view_def createWsClient_def in_order_def)

interpretation ws_order: machine "wsStep parse" order_ok "\<lambda>_. True" for parse
  by unfold_locales (rule order_ok_step)

text \<open>C2: ordered delivery.  Whatever the server sends and however callbacks interleave, every
  numbered event a client delivers is the successor of the last one, or of the last recovery
  baseline it announced; only after a baseline of \<open>0\<close> may it be any event.\<close>

theorem events_in_order:
  "in_order (ws_out (wsRun parse events (createWsClient options)))
   \<and> ws_lastSeenEventId (wsRun parse events (createWsClient options))
      = last_id (ws_out (wsRun parse events (createWsClient options)))"
proof -
  have "order_ok (wsRun parse events (createWsClient options))"
    unfolding wsRun_def
    by (rule ws_order.run_inv [OF order_ok_create]) (simp add: list_all_iff)
  then show ?thesis by (simp add: order_ok_def view_def in_order_numbered last_id_numbered)
qed

end
