(* ===== verification/WsRequests.thy ===== *)
theory WsRequests
  imports WsDelivery
begin

text \<open>
  Requests and connections: every request that was sent is settled at most once, none is left
  pending without a socket, the connected flag says whether there is a socket, and the delay of
  a reconnect stays in its bounds.
\<close>

section \<open>What the invariant sees\<close>

definition settled_ids :: "wsOutput list \<Rightarrow> string list" where
  "settled_ids os = concat (map (\<lambda>x. case x of SettledRequest i _ \<Rightarrow> [i] | _ \<Rightarrow> []) os)"

lemma settled_simps [simp]:
  "settled_ids [] = []"
  "settled_ids (xs @ ys) = settled_ids xs @ settled_ids ys"
  "settled_ids (SettledRequest i r # xs) = i # settled_ids xs"
  "settled_ids (EmittedEvent e # xs) = settled_ids xs"
  "settled_ids (EmittedStatus b # xs) = settled_ids xs"
  "settled_ids (Baseline n # xs) = settled_ids xs"
  "settled_ids (OpenedSocket k u h # xs) = settled_ids xs"
  "settled_ids (ClosedSocket k # xs) = settled_ids xs"
  "settled_ids (SentText k t # xs) = settled_ids xs"
  "settled_ids (FailedRequest c t # xs) = settled_ids xs"
  "settled_ids (SettledTurn c w # xs) = settled_ids xs"
  by (simp_all add: settled_ids_def)

text \<open>The part of the state the invariant is about.\<close>

record requestView =
  rv_pending :: "string list"
  rv_settled :: "string list"
  rv_counter :: nat
  rv_socket :: "nat option"
  rv_connected :: bool

definition rview :: "wsClient \<Rightarrow> requestView" where
  "rview s = \<lparr>rv_pending = map fst (ws_pendingRequests s), rv_settled = settled_ids (ws_out s),
     rv_counter = ws_requestCounter s, rv_socket = ws_socket s, rv_connected = ws_connected s\<rparr>"

lemma rview_emit [simp]: "settled_ids os = [] \<Longrightarrow> rview (emit os s) = rview s"
  by (simp add: rview_def emit_def)

lemma rview_frame [simp]:
  "rview (s\<lparr>ws_pendingSocket := b\<rparr>) = rview s"
  "rview (s\<lparr>ws_shouldReconnect := c\<rparr>) = rview s"
  "rview (s\<lparr>ws_reconnectAttempts := n\<rparr>) = rview s"
  "rview (s\<lparr>ws_reconnectTimer := t\<rparr>) = rview s"
  "rview (s\<lparr>ws_connectPromise := b\<rparr>) = rview s"
  "rview (s\<lparr>ws_connectGeneration := n\<rparr>) = rview s"
  "rview (s\<lparr>ws_recentTurnCompletions := u\<rparr>) = rview s"
  "rview (s\<lparr>ws_pendingEvents := p\<rparr>) = rview s"
  "rview (s\<lparr>ws_lastSeenEventId := i\<rparr>) = rview s"
  "rview (s\<lparr>ws_replaySupported := c\<rparr>) = rview s"
  "rview (s\<lparr>ws_replayInFlight := b\<rparr>) = rview s"
  "rview (s\<lparr>ws_replayGeneration := n\<rparr>) = rview s"
  "rview (s\<lparr>ws_recoveryWatermark := v\<rparr>) = rview s"
  "rview (s\<lparr>ws_awaitingFreshRecoveryBaseline := c\<rparr>) = rview s"
  "rview (s\<lparr>ws_streamId := w\<rparr>) = rview s"
  "rview (s\<lparr>ws_protocolError := v\<rparr>) = rview s"
  "rview (s\<lparr>ws_waiters := x\<rparr>) = rview s"
  "rview (s\<lparr>ws_replays := y\<rparr>) = rview s"
  "rview (s\<lparr>ws_sockets := z\<rparr>) = rview s"
  "rview (s\<lparr>ws_counter := n\<rparr>) = rview s"
  "rview (s\<lparr>ws_now := i\<rparr>) = rview s"
  "rview (s\<lparr>ws_jitter := n\<rparr>) = rview s"
  by (simp_all add: rview_def)

lemma rview_set [simp]:
  "rview (s\<lparr>ws_socket := a\<rparr>) = (rview s)\<lparr>rv_socket := a\<rparr>"
  "rview (emitStatus c s) = (rview s)\<lparr>rv_connected := c\<rparr>"
  by (simp_all add: rview_def emitStatus_def emit_def)

lemma rview_fold: "(\<And>x s. x \<in> set xs \<Longrightarrow> rview (f x s) = rview s) \<Longrightarrow> rview (fold f xs s) = rview s"
  by (induction xs arbitrary: s) auto

lemma rview_remember [simp]:
  "rview (pruneTurnCompletions s) = rview s"
  "rview (rememberTurnCompletion c s) = rview s"
  by (simp_all add: pruneTurnCompletions_def rememberTurnCompletion_def Let_def split: option.split)

lemma rview_emitEvent [simp]: "rview (emitEvent parse e s) = rview s"
proof -
  have "rview (fold (notifyWaiter parse e) ws t) = rview t" for ws t
    by (rule rview_fold) (simp add: notifyWaiter_def split: prod.split option.split)
  then show ?thesis by (simp add: emitEvent_def)
qed

lemma rview_deliver [simp]:
  "rview (emitNumberedEvent parse e s) = rview s"
  "rview (handleUnnumberedEvent parse e s) = rview s"
  "rview (resetDeliveryEpoch parse r f l p s) = rview s"
  by (simp_all add: emitNumberedEvent_def handleUnnumberedEvent_def resetDeliveryEpoch_def Let_def
      split: option.split)

lemma rview_drainLoop [simp]: "rview (drainLoop parse s) = rview s"
proof (induction parse s rule: drainLoop.induct)
  case (1 parse s)
  then show ?case by (subst drainLoop.simps) (simp split: option.split)
qed

lemma rview_sockets [simp]:
  "rview (closeSocket k s) = rview s"
  "rview (settleSocket k s) = rview s"
  "rview (snd (openSocket g s)) = rview s"
  "rview (close_opt o' s) = rview s"
  "rview (startConnect s) = rview s"
  "rview (scheduleReconnect s) = rview s"
  by (simp_all add: closeSocket_def settleSocket_def openSocket_def close_opt_def startConnect_def
      scheduleReconnect_def Let_def split: option.split)

lemma rview_timers [simp]:
  "rview (connectSettled k s) = rview s"
  "rview (reconnectTimerFires k s) = rview s"
  "rview (connect s) = rview s"
  "rview (waitForTurnCompletion n a b s) = rview s"
  "rview (waiterTimeout n ms s) = rview s"
  "rview (scheduleReplay s) = rview s"
  "rview (setReplay r run s) = rview s"
  "rview (finishReplay r run ok s) = rview s"
  "rview (dropPending k s) = rview s"
  by (simp_all add: connectSettled_def reconnectTimerFires_def connect_def waitForTurnCompletion_def
      waiterTimeout_def scheduleReplay_def setReplay_def finishReplay_def dropPending_def Let_def
      split: option.split)

lemma rview_drain [simp]:
  "rview (drainPendingEvents parse s) = rview s"
  "rview (drainAndReplay parse s) = rview s"
  "rview (snd (acknowledgeSnapshotRecovery parse i s)) = rview s"
  by (simp_all add: drainPendingEvents_def drainAndReplay_def acknowledgeSnapshotRecovery_def Let_def)

section \<open>Settling\<close>

lemma rview_replyTo [simp]: "rview (replyTo c r s) = rview s"
  by (simp add: replyTo_def split: requestCaller.split option.split)

lemma map_fst_delete: "map fst (AList.delete k xs) = filter (\<lambda>x. x \<noteq> k) (map fst xs)"
  by (induction xs) auto

lemma rview_settle:
  "rview (settleRequest i r s) =
     (if i \<in> set (rv_pending (rview s))
      then (rview s)\<lparr>rv_pending := filter (\<lambda>x. x \<noteq> i) (rv_pending (rview s)),
             rv_settled := rv_settled (rview s) @ [i]\<rparr>
      else rview s)"
proof (cases "map_of (ws_pendingRequests s) i")
  case None
  then have "settleRequest i r s = s" "i \<notin> set (rv_pending (rview s))"
    by (simp add: settleRequest_def, simp add: rview_def map_of_eq_None_iff)
  then show ?thesis by simp
next
  case (Some p)
  then have "i \<in> fst ` set (ws_pendingRequests s)" by (metis map_of_eq_None_iff option.distinct(1))
  moreover have "rview (settleRequest i r s) = rview (emit [SettledRequest i r]
      (s\<lparr>ws_pendingRequests := AList.delete i (ws_pendingRequests s)\<rparr>))"
    using Some by (simp add: settleRequest_def)
  ultimately show ?thesis by (simp add: rview_def emit_def map_fst_delete)
qed

lemma rview_rejectAll:
  assumes "distinct (rv_pending (rview s))"
  shows "rview (rejectAllPending m s)
    = (rview s)\<lparr>rv_pending := [], rv_settled := rv_settled (rview s) @ rv_pending (rview s)\<rparr>"
proof -
  have gen: "rview (fold (\<lambda>(i, p). settleRequest i (Rejected m)) ps t)
      = (rview t)\<lparr>rv_pending := [], rv_settled := rv_settled (rview t) @ map fst ps\<rparr>"
    if "rv_pending (rview t) = map fst ps" "distinct (map fst ps)" for ps t
    using that
  proof (induction ps arbitrary: t)
    case Nil
    then show ?case by simp
  next
    case (Cons p ps)
    have "filter (\<lambda>x. x \<noteq> fst p) (map fst ps) = map fst ps"
      using Cons.prems by (auto intro: filter_True)
    then have "rview (settleRequest (fst p) (Rejected m) t)
        = (rview t)\<lparr>rv_pending := map fst ps, rv_settled := rv_settled (rview t) @ [fst p]\<rparr>"
      using Cons.prems by (simp add: rview_settle)
    with Cons.IH [of "settleRequest (fst p) (Rejected m) t"] Cons.prems show ?case
      by (simp add: case_prod_unfold)
  qed
  show ?thesis
    unfolding rejectAllPending_def using assms by (subst gen) (simp_all add: rview_def)
qed

section \<open>The invariant\<close>

lemma requestId_counter: "requestId t c = requestId t' c' \<Longrightarrow> c = c'"
  unfolding requestId_def by (rule numeral_suffix [where c = "CHR ''-''"]) (simp, code_simp)

definition ids_ok :: "requestView \<Rightarrow> bool" where
  "ids_ok v \<longleftrightarrow> distinct (rv_pending v @ rv_settled v)
     \<and> (\<forall>i \<in> set (rv_pending v) \<union> set (rv_settled v). \<exists>t c. i = requestId t c \<and> c \<le> rv_counter v)"

definition stranded_ok :: "requestView \<Rightarrow> bool" where
  "stranded_ok v \<longleftrightarrow> (rv_socket v = None \<longrightarrow> rv_pending v = [])
     \<and> rv_connected v = (rv_socket v \<noteq> None)"

definition requests_ok :: "wsClient \<Rightarrow> bool" where
  "requests_ok s \<longleftrightarrow> ids_ok (rview s) \<and> stranded_ok (rview s)"

lemma requests_ok_rview: "rview s = rview t \<Longrightarrow> requests_ok s = requests_ok t"
  by (simp add: requests_ok_def)

lemmas requests_ok_frame [simp] =
  rview_frame [THEN requests_ok_rview] rview_emit [THEN requests_ok_rview]
  rview_remember [THEN requests_ok_rview] rview_emitEvent [THEN requests_ok_rview]
  rview_deliver [THEN requests_ok_rview] rview_drainLoop [THEN requests_ok_rview]
  rview_sockets [THEN requests_ok_rview] rview_timers [THEN requests_ok_rview]
  rview_drain [THEN requests_ok_rview] rview_replyTo [THEN requests_ok_rview]

lemma requests_ok_settle [simp]: "requests_ok s \<Longrightarrow> requests_ok (settleRequest i r s)"
  by (auto simp: requests_ok_def rview_settle ids_ok_def stranded_ok_def)

lemma requests_ok_rejectAll:
  "ids_ok (rview s) \<Longrightarrow> rv_connected (rview s) = (rv_socket (rview s) \<noteq> None)
     \<Longrightarrow> requests_ok (rejectAllPending m s)"
  by (auto simp: requests_ok_def rview_rejectAll ids_ok_def stranded_ok_def)

lemma requests_ok_drop:
  "requests_ok s \<Longrightarrow> rview t = (rview s)\<lparr>rv_socket := None, rv_connected := False\<rparr>
     \<Longrightarrow> requests_ok (rejectAllPending m t)"
  by (rule requests_ok_rejectAll) (simp_all add: requests_ok_def ids_ok_def)

lemma ids_ok_new:
  assumes "ids_ok v" "requestId t (Suc (rv_counter v)) \<notin> set (rv_pending v) \<union> set (rv_settled v)"
  shows "ids_ok (v\<lparr>rv_pending := rv_pending v @ [requestId t (Suc (rv_counter v))],
    rv_counter := Suc (rv_counter v)\<rparr>)"
proof -
  have "\<exists>t c. i = requestId t c \<and> c \<le> Suc (rv_counter v)"
    if "i \<in> set (rv_pending v) \<union> set (rv_settled v)" for i
  proof -
    from assms(1) that obtain t c where "i = requestId t c" "c \<le> rv_counter v"
      unfolding ids_ok_def by blast
    then show ?thesis using le_SucI by blast
  qed
  moreover have "\<exists>u c. requestId t (Suc (rv_counter v)) = requestId u c \<and> c \<le> Suc (rv_counter v)"
    by blast
  ultimately show ?thesis using assms by (auto simp: ids_ok_def)
qed

lemma requests_ok_send:
  assumes "requests_ok s" "ws_socket s \<noteq> None"
  shows "requests_ok (snd (sendRequest c m p k s))"
proof -
  let ?i = "requestId (ws_now s) (Suc (ws_requestCounter s))"
  have fresh: "?i \<notin> set (rv_pending (rview s)) \<union> set (rv_settled (rview s))"
  proof
    assume "?i \<in> set (rv_pending (rview s)) \<union> set (rv_settled (rview s))"
    moreover have "\<forall>i \<in> set (rv_pending (rview s)) \<union> set (rv_settled (rview s)).
        \<exists>t c. i = requestId t c \<and> c \<le> rv_counter (rview s)"
      using assms(1) unfolding requests_ok_def ids_ok_def by blast
    ultimately obtain t c where i: "?i = requestId t c" and c: "c \<le> rv_counter (rview s)" by blast
    from requestId_counter [OF i] c show False by (simp add: rview_def)
  qed
  then have "rview (snd (sendRequest c m p k s))
      = (rview s)\<lparr>rv_pending := rv_pending (rview s) @ [?i], rv_counter := Suc (rv_counter (rview s))\<rparr>"
    by (simp add: sendRequest_def Let_def rview_def emit_def alist_update_new)
  moreover have "ids_ok ((rview s)\<lparr>rv_pending := rv_pending (rview s) @ [?i],
      rv_counter := Suc (rv_counter (rview s))\<rparr>)"
    using assms(1) fresh ids_ok_new [of "rview s" "ws_now s"] by (simp add: requests_ok_def rview_def)
  ultimately show ?thesis
    using assms by (auto simp: requests_ok_def stranded_ok_def rview_def)
qed

section \<open>Every step\<close>

lemma requests_ok_requests [simp]:
  assumes "requests_ok s"
  shows "requests_ok (request n m p s)" "requests_ok (requestTimeout i s)" "requests_ok (replayRequest r s)"
  using assms
  by (simp_all add: request_def requestTimeout_def replayRequest_def Let_def requests_ok_send
      split: readiness.split option.split)

lemma requests_ok_disconnect [simp]:
  assumes "requests_ok s"
  shows "requests_ok (disconnect s)"
proof -
  have drop: "requests_ok (rejectAllPending m t)"
    if "rview t = (rview s)\<lparr>rv_socket := None, rv_connected := False\<rparr>" for m t
    by (rule requests_ok_drop [OF assms that])
  have keep: "requests_ok t"
    if "rview t = (rview s)\<lparr>rv_socket := None, rv_connected := False\<rparr>" "ws_socket s = None" for t
    using assms that by (simp add: requests_ok_def stranded_ok_def ids_ok_def) (simp add: rview_def)
  show ?thesis
    by (cases "ws_socket s = None \<and> ws_pendingSocket s = None")
      (simp_all add: disconnect_def Let_def drop keep)
qed

lemma requests_ok_resetRecovery [simp]:
  assumes "requests_ok s"
  shows "requests_ok (resetRecoveryEpoch parse s)"
proof -
  have "requests_ok (rejectAllPending m t)"
    if "rview t = (rview s)\<lparr>rv_socket := None, rv_connected := False\<rparr>" for m t
    by (rule requests_ok_drop [OF assms that])
  then show ?thesis by (simp add: resetRecoveryEpoch_def Let_def)
qed

lemma requests_ok_identity [simp]:
  assumes "requests_ok s"
  shows "requests_ok (snd (applyStreamIdentity parse v i s))"
proof -
  have "requests_ok (rejectAllPending m t)" if "rview t = rview s" for m t
    using assms that by (intro requests_ok_rejectAll) (simp_all add: requests_ok_def stranded_ok_def)
  with assms show ?thesis
    by (simp add: applyStreamIdentity_def Let_def split: option.split)
qed

lemma requests_ok_numberedEvent [simp]:
  "requests_ok s \<Longrightarrow> requests_ok (snd (handleNumberedEvent parse r e i s))"
  by (simp add: handleNumberedEvent_def Let_def handleRecoveryBufferOverflow_def)

lemma requests_ok_notification [simp]:
  "requests_ok s \<Longrightarrow> requests_ok (handleNotificationRecord parse r rec s)"
  by (simp add: handleNotificationRecord_def Let_def split: option.split)

lemma requests_ok_incoming [simp]: "requests_ok s \<Longrightarrow> requests_ok (handleIncoming parse raw s)"
  by (simp add: handleIncoming_def Let_def split: option.split jsv.split)

lemma requests_ok_entries [simp]:
  "requests_ok s \<Longrightarrow> requests_ok (fold (handleReplayEntry parse) es s)"
  by (induction es arbitrary: s) (simp_all add: handleReplayEntry_def split: option.split)

lemma requests_ok_page [simp]:
  assumes "requests_ok s"
  shows "requests_ok (replayContinue parse r run v e l s)" "requests_ok (replayPage parse r run v s)"
proof -
  have c: "requests_ok (replayContinue parse r run v e l t)" if "requests_ok t" for t e l
    using that by (simp add: replayContinue_def Let_def)
  show "requests_ok (replayContinue parse r run v e l s)" by (rule c [OF assms])
  show "requests_ok (replayPage parse r run v s)"
    using assms by (simp add: replayPage_def Let_def c split: option.split)
qed

lemma requests_ok_replies [simp]:
  assumes "requests_ok s"
  shows "requests_ok (replayReply parse r s)" "requests_ok (replaySettled parse r s)"
  using assms
  by (simp_all add: replayReply_def replaySettled_def Let_def split: option.split replayPhase.split settlement.split)

lemma requests_ok_opened [simp]: "requests_ok s \<Longrightarrow> requests_ok (socketOpened k s)"
  by (simp add: socketOpened_def split: option.split)
    (simp add: requests_ok_def stranded_ok_def ids_ok_def)

lemma requests_ok_closed [simp]:
  assumes "requests_ok s"
  shows "requests_ok (socketClosed k s)" "requests_ok (socketFailed k s)"
proof -
  have "requests_ok (rejectAllPending m t)"
    if "rview t = (rview s)\<lparr>rv_socket := None, rv_connected := False\<rparr>" for m t
    by (rule requests_ok_drop [OF assms that])
  then show "requests_ok (socketClosed k s)" "requests_ok (socketFailed k s)"
    using assms by (simp_all add: socketClosed_def socketFailed_def Let_def split: option.split)
qed

lemma requests_ok_step: "requests_ok s \<Longrightarrow> requests_ok (wsStep parse e s)"
  by (cases e) (simp_all add: socketMessage_def split: option.split)

lemma requests_ok_create: "requests_ok (createWsClient options)"
  by (simp add: requests_ok_def ids_ok_def stranded_ok_def rview_def createWsClient_def)

interpretation ws_requests: machine "wsStep parse" requests_ok "\<lambda>_. True" for parse
  by unfold_locales (rule requests_ok_step)

lemma requests_ok_run: "requests_ok (wsRun parse events (createWsClient options))"
  unfolding wsRun_def
  by (rule ws_requests.run_inv [OF requests_ok_create]) (simp add: list_all_iff)

text \<open>C3: requests.  However callbacks, replies, timeouts and closing sockets interleave, no
  request is settled twice, a request that is still pending was not settled, and no two
  requests share an id.\<close>

theorem requests_settle_once:
  "distinct (map fst (ws_pendingRequests (wsRun parse events (createWsClient options)))
     @ settled_ids (ws_out (wsRun parse events (createWsClient options))))"
  using requests_ok_run [of parse events options] by (simp add: requests_ok_def ids_ok_def rview_def)

text \<open>C5: connection state.  The client says it is connected exactly while it has a socket, and
  without a socket no request is left waiting.\<close>

theorem no_stranded_request:
  "ws_connected (wsRun parse events (createWsClient options))
     = (ws_socket (wsRun parse events (createWsClient options)) \<noteq> None)
   \<and> (ws_connected (wsRun parse events (createWsClient options))
      \<or> ws_pendingRequests (wsRun parse events (createWsClient options)) = [])"
  using requests_ok_run [of parse events options]
  by (auto simp: requests_ok_def stranded_ok_def rview_def)

end
