(* ===== verification/WsRecovery.thy ===== *)
theory WsRecovery
  imports WsDelivery
begin

text \<open>
  Recovery: what a snapshot acknowledgement delivers, how gaps in a replay are announced, what is
  held back while a snapshot is outstanding, the delays of reconnects, and an event that is lost
  when a live event takes the baseline of an acknowledged epoch.
\<close>

section \<open>Draining\<close>

lemma drainLoop_done:
  "map_of (ws_pendingEvents (drainLoop parse s)) (ws_lastSeenEventId (drainLoop parse s) + 1) = None"
proof (induction parse s rule: drainLoop.induct)
  case (1 parse s)
  show ?case
    by (cases "map_of (ws_pendingEvents s) (ws_lastSeenEventId s + 1)")
      (simp_all add: drainLoop.simps [of parse s] "1.IH")
qed

lemma emitEvent_frame [simp]:
  "ws_recoveryWatermark (emitEvent parse e s) = ws_recoveryWatermark s"
  "ws_lastSeenEventId (emitEvent parse e s) = ws_lastSeenEventId s"
  "ws_replayInFlight (emitEvent parse e s) = ws_replayInFlight s"
  "\<exists>more. ws_out (emitEvent parse e s) = ws_out s @ EmittedEvent e # more"
proof -
  have w: "ws_recoveryWatermark (fold (notifyWaiter parse e) ws t) = ws_recoveryWatermark t
      \<and> ws_lastSeenEventId (fold (notifyWaiter parse e) ws t) = ws_lastSeenEventId t
      \<and> ws_replayInFlight (fold (notifyWaiter parse e) ws t) = ws_replayInFlight t
      \<and> (\<exists>more. ws_out (fold (notifyWaiter parse e) ws t) = ws_out t @ more)" for ws t
  proof (induction ws arbitrary: t)
    case Nil
    then show ?case by simp
  next
    case (Cons x ws)
    have "ws_recoveryWatermark (notifyWaiter parse e x t) = ws_recoveryWatermark t
      \<and> ws_lastSeenEventId (notifyWaiter parse e x t) = ws_lastSeenEventId t
      \<and> ws_replayInFlight (notifyWaiter parse e x t) = ws_replayInFlight t
      \<and> (\<exists>more. ws_out (notifyWaiter parse e x t) = ws_out t @ more)"
      by (auto simp: notifyWaiter_def emit_def rememberTurnCompletion_def pruneTurnCompletions_def
          Let_def split: prod.split option.split)
    with Cons.IH [of "notifyWaiter parse e x t"] show ?case by auto
  qed
  show "ws_recoveryWatermark (emitEvent parse e s) = ws_recoveryWatermark s"
    "ws_lastSeenEventId (emitEvent parse e s) = ws_lastSeenEventId s"
    "ws_replayInFlight (emitEvent parse e s) = ws_replayInFlight s"
    "\<exists>more. ws_out (emitEvent parse e s) = ws_out s @ EmittedEvent e # more"
    using w [of "ws_waiters s" "emit [EmittedEvent e] s"] by (auto simp: emitEvent_def emit_def)
qed

lemma schedule_frame [simp]:
  "ws_pendingEvents (scheduleReplay s) = ws_pendingEvents s"
  "ws_lastSeenEventId (scheduleReplay s) = ws_lastSeenEventId s"
  "ws_recoveryWatermark (scheduleReplay s) = ws_recoveryWatermark s"
  by (simp_all add: scheduleReplay_def Let_def)

lemma watermark_numbered [simp]:
  "ws_recoveryWatermark (emitNumberedEvent parse e s) = ws_recoveryWatermark s"
  by (simp add: emitNumberedEvent_def Let_def rememberTurnCompletion_def pruneTurnCompletions_def
      split: option.split)

lemma watermark_drainLoop [simp]: "ws_recoveryWatermark (drainLoop parse s) = ws_recoveryWatermark s"
proof (induction parse s rule: drainLoop.induct)
  case (1 parse s)
  then show ?case by (subst drainLoop.simps) (simp split: option.split)
qed

text \<open>An acknowledgement takes effect only for the snapshot that is outstanding; then
  recovery is over, the buffered events that follow the snapshot are delivered, and if others
  are still buffered behind a gap a replay is under way whenever one is possible.\<close>

theorem acknowledgement_resumes:
  "acknowledgeSnapshotRecovery parse n s = (ok, s') \<Longrightarrow>
     (ok \<longleftrightarrow> ws_recoveryWatermark s = Some n) \<and> (\<not> ok \<longrightarrow> s' = s)
     \<and> (ok \<longrightarrow> ws_recoveryWatermark s' = None
          \<and> map_of (ws_pendingEvents s') (ws_lastSeenEventId s' + 1) = None
          \<and> (ws_pendingEvents s' \<noteq> [] \<longrightarrow> \<not> replayPossible s'))"
  using drainLoop_done [of parse "s\<lparr>ws_recoveryWatermark := None, ws_awaitingFreshRecoveryBaseline := False\<rparr>"]
  by (auto simp: acknowledgeSnapshotRecovery_def drainAndReplay_def drainPendingEvents_def Let_def
      hasPendingGap_def scheduleReplay_def replayPossible_def split: if_splits)

text \<open>A client of the concrete inputs below.\<close>

definition sampleConfig :: wsConfig where
  "sampleConfig = \<lparr>cf_baseUrl = ''http://h'', cf_authToken = None,
     cf_allowQueryTokenAuth = False, cf_platform = ''ios''\<rparr>"

lemma acknowledgement_resumes_witness:
  "ws_recoveryWatermark (snd (acknowledgeSnapshotRecovery (\<lambda>_. None) 4
     ((createWsClient sampleConfig)\<lparr>ws_recoveryWatermark := Some 4\<rparr>))) = None"
proof -
  obtain ok s' where r: "acknowledgeSnapshotRecovery (\<lambda>_. None) 4
      ((createWsClient sampleConfig)\<lparr>ws_recoveryWatermark := Some 4\<rparr>) = (ok, s')"
    by (rule prod.exhaust)
  from acknowledgement_resumes [OF r] r show ?thesis by simp
qed

section \<open>Buffering while a snapshot is outstanding\<close>

text \<open>While a snapshot is outstanding, a new event after the last seen one is not delivered but
  buffered, until the buffer holds more than 2048 events and a fresh epoch starts.\<close>

theorem recovery_holds_events_back:
  assumes "ws_recoveryWatermark s \<noteq> None" "ws_lastSeenEventId s \<noteq> 0 \<or> ws_awaitingFreshRecoveryBaseline s"
    and "ws_lastSeenEventId s < i" "map_of (ws_pendingEvents s) i = None"
    and "rn_protocolVersion e \<noteq> None" "length (ws_pendingEvents s) < 2048"
  shows "ws_out (snd (handleNumberedEvent parse r e i s)) = ws_out s
    \<and> map_of (ws_pendingEvents (snd (handleNumberedEvent parse r e i s))) i = Some e"
proof -
  have "length (AList.update i e (ws_pendingEvents s)) \<le> 2048"
    using assms(4,6) by (simp add: alist_update_new map_of_eq_None_iff)
  with assms show ?thesis
    by (auto simp: handleNumberedEvent_def Let_def drainPendingEvents_def drainAndReplay_def
        MAX_RECOVERY_BUFFERED_EVENTS_def scheduleReplay_def update_conv')
qed

lemma recovery_holds_events_back_witness:
  "ws_out (snd (handleNumberedEvent (\<lambda>_. None) False
      \<lparr>rn_method = ''m'', rn_params = JNull, rn_protocolVersion = Some 2, rn_streamId = None, rn_eventId = Some 9\<rparr> 9
      ((createWsClient sampleConfig)\<lparr>ws_recoveryWatermark := Some 4, ws_lastSeenEventId := 4\<rparr>))) = []"
  using recovery_holds_events_back [of "(createWsClient sampleConfig)\<lparr>ws_recoveryWatermark := Some 4, ws_lastSeenEventId := 4\<rparr>" 9
      "\<lparr>rn_method = ''m'', rn_params = JNull, rn_protocolVersion = Some 2, rn_streamId = None, rn_eventId = Some 9\<rparr>"]
  by (simp add: createWsClient_def)

section \<open>Replayed pages\<close>

text \<open>C6: a replayed page that starts beyond the next event, or ends before the cursor, is never
  passed over in silence: the client moves its baseline to the latest event of the server, holds
  events back, and tells its listeners that they need a snapshot.\<close>

theorem replay_gap_is_announced:
  assumes "map_of (ws_replays s) r = Some run" "rr_phase run = Replied (Resolved (JObj page))"
    and "rr_generation run = ws_replayGeneration s"
    and "readString (prop_of page ''streamId'') = ws_streamId s" "ws_streamId s \<noteq> Some []"
    and "readNumber (prop_of page ''protocolVersion'') = Some 2"
    and "readNumber (prop_of page ''latestEventId'') = Some latest"
    and "readNumber (prop_of page ''earliestEventId'') = Some earliest"
    and "latest < rr_cursor run \<or> earliest > rr_cursor run + 1"
  shows "ws_recoveryWatermark (replayReply parse r s) = Some latest
    \<and> ws_lastSeenEventId (replayReply parse r s) = latest
    \<and> (\<exists>e. EmittedEvent e \<in> set (ws_out (replayReply parse r s))
        \<and> rn_method e = ''bridge/events/snapshotRequired'')"
proof -
  define t where "t = snd (applyStreamIdentity parse (Some 2) (ws_streamId s) s)"
  have same: "fst (applyStreamIdentity parse (Some 2) (ws_streamId s) s) \<in> {Same, Missing}"
    using assms(5) by (auto simp: applyStreamIdentity_def truthy_id_def PROTOCOL_VERSION_def Let_def
        split: option.split)
  obtain reason where reason: "pageConflict (rr_cursor run) (Some earliest) (Some latest) = Some reason"
    using assms(9) by (cases "latest < rr_cursor run") (simp_all add: pageConflict_def)
  have eq: "replayReply parse r s = finishReplay r run True
      (resetDeliveryEpoch parse reason (Some earliest) (Some latest) (ws_streamId t) t)"
    using assms same reason
    by (auto simp: replayReply_def replayPage_def Let_def opt_prop_def t_def)
  define u where "u = emit [Baseline latest] (t\<lparr>ws_replayGeneration := Suc (ws_replayGeneration t),
      ws_pendingEvents := (if reason = ''streamChanged'' then []
        else filter (\<lambda>(i, e). \<not> i \<le> latest) (ws_pendingEvents t)),
      ws_lastSeenEventId := latest, ws_recoveryWatermark := Some latest, ws_replayInFlight := None\<rparr>)"
  define e where "e = snapshotRequired reason (ws_streamId t) (ws_lastSeenEventId t) latest (Some earliest)
      (Some latest) (ws_streamId t)"
  have u: "ws_recoveryWatermark u = Some latest" "ws_lastSeenEventId u = latest"
    by (simp_all add: u_def emit_def)
  have "replayReply parse r s = finishReplay r run True (emitEvent parse e u)"
    by (simp add: eq resetDeliveryEpoch_def Let_def u_def e_def)
  moreover have "rn_method e = ''bridge/events/snapshotRequired''"
    by (simp add: e_def snapshotRequired_def)
  moreover obtain more where "ws_out (emitEvent parse e u) = ws_out u @ EmittedEvent e # more"
    using emitEvent_frame(4) by blast
  ultimately show ?thesis
    using u by (auto simp: finishReplay_def setReplay_def intro: exI [of _ e])
qed

lemma replay_gap_is_announced_witness:
  "let page = [(''protocolVersion'', JNum 2), (''streamId'', JStr ''a''), (''earliestEventId'', JNum 8),
         (''latestEventId'', JNum 9)];
       run = \<lparr>rr_generation = 0, rr_cursor = 3, rr_target = None, rr_phase = Replied (Resolved (JObj page))\<rparr>;
       s = (createWsClient sampleConfig)\<lparr>ws_replays := [(0, run)], ws_streamId := Some ''a''\<rparr>
   in ws_recoveryWatermark (replayReply (\<lambda>_. None) 0 s) = Some 9"
proof -
  define page where "page = [(''protocolVersion'', JNum 2), (''streamId'', JStr ''a''),
    (''earliestEventId'', JNum 8), (''latestEventId'', JNum 9)]"
  define run where "run = \<lparr>rr_generation = 0, rr_cursor = 3, rr_target = None,
    rr_phase = Replied (Resolved (JObj page))\<rparr>"
  define s where "s = (createWsClient sampleConfig)\<lparr>ws_replays := [(0, run)], ws_streamId := Some ''a''\<rparr>"
  have s: "map_of (ws_replays s) 0 = Some run" "rr_generation run = ws_replayGeneration s"
    "rr_phase run = Replied (Resolved (JObj page))" "rr_cursor run = 3" "ws_streamId s = Some ''a''"
    by (simp_all add: s_def run_def createWsClient_def)
  have p: "readString (prop_of page ''streamId'') = Some ''a''" "readNumber (prop_of page ''protocolVersion'') = Some 2"
    "readNumber (prop_of page ''latestEventId'') = Some 9" "readNumber (prop_of page ''earliestEventId'') = Some 8"
    by (simp_all add: page_def readString_def readNumber_def prop_of_def trunc_def)
  have "ws_recoveryWatermark (replayReply (\<lambda>_. None) 0 s) = Some 9"
    using replay_gap_is_announced [OF s(1,3,2) _ _ p(2,3,4), of "\<lambda>_. None"] p(1) s(4,5) by simp
  then show ?thesis by (simp add: Let_def s_def run_def page_def)
qed

section \<open>Reconnects\<close>

text \<open>A reconnect is scheduled with exponential backoff: half a second doubled with every
  attempt up to five seconds, plus less than a quarter of a second of jitter.\<close>

theorem reconnect_backoff:
  assumes "ws_shouldReconnect s" "\<not> connectionBusy s" "ws_jitter s < 250"
  shows "\<exists>t. ws_reconnectTimer (scheduleReconnect s) = Some t
    \<and> ws_reconnectAttempts (scheduleReconnect s) = Suc (ws_reconnectAttempts s)
    \<and> rt_generation t = ws_connectGeneration s
    \<and> rt_delay t = min 5000 (500 * 2 ^ ws_reconnectAttempts s) + ws_jitter s
    \<and> 500 \<le> rt_delay t \<and> rt_delay t < 5250"
proof -
  have "(1 :: nat) \<le> 2 ^ ws_reconnectAttempts s" by simp
  then have "500 \<le> min 5000 (500 * 2 ^ ws_reconnectAttempts s :: nat)" by simp
  then have "500 \<le> min 5000 (500 * 2 ^ ws_reconnectAttempts s) + ws_jitter s" by linarith
  moreover have "min 5000 (500 * 2 ^ ws_reconnectAttempts s) + ws_jitter s < 5250"
    using assms(3) by linarith
  ultimately show ?thesis using assms by (simp add: scheduleReconnect_def Let_def)
qed

lemma reconnect_backoff_witness:
  "\<exists>t. ws_reconnectTimer (scheduleReconnect ((createWsClient sampleConfig)\<lparr>ws_shouldReconnect := True,
      ws_reconnectAttempts := 4\<rparr>)) = Some t \<and> rt_delay t = 5000"
proof -
  define s where "s = (createWsClient sampleConfig)\<lparr>ws_shouldReconnect := True, ws_reconnectAttempts := 4\<rparr>"
  have "ws_shouldReconnect s" "\<not> connectionBusy s" "ws_jitter s < 250" "ws_jitter s = 0"
    "ws_reconnectAttempts s = 4"
    by (simp_all add: s_def createWsClient_def connectionBusy_def)
  with reconnect_backoff [of s] show ?thesis by (auto simp flip: s_def)
qed

section \<open>An event that is lost\<close>

text \<open>A buffered event that the baseline has passed is never dropped and never delivered: every
  replay that completes with it still buffered starts the next replay at once, in the same
  situation.\<close>

theorem stale_event_restarts_replay:
  assumes "map_of (ws_replays s) r = Some run" "rr_phase run = Finished True"
    and "ws_replayInFlight s = Some r" "rr_generation run = ws_replayGeneration s"
    and "ws_replaySupported s" "ws_connected s" "socketOpen s"
    and "ws_pendingEvents s \<noteq> []" "\<forall>(i, e) \<in> set (ws_pendingEvents s). i \<le> ws_lastSeenEventId s"
  shows "let s' = replaySettled parse r s in
    ws_pendingEvents s' = ws_pendingEvents s \<and> ws_lastSeenEventId s' = ws_lastSeenEventId s
    \<and> ws_out s' = ws_out s \<and> ws_replayInFlight s' = Some (ws_counter s)
    \<and> map_option rr_phase (map_of (ws_replays s') (ws_counter s)) = Some Requesting"
proof -
  have none: "map_of (ws_pendingEvents s) (ws_lastSeenEventId s + 1) = None"
    using assms(9) by (force simp: map_of_eq_None_iff)
  then have "drainLoop parse t = t" if "ws_pendingEvents t = ws_pendingEvents s"
    "ws_lastSeenEventId t = ws_lastSeenEventId s" for t
    using that by (simp add: drainLoop.simps [of parse t])
  then have "drainPendingEvents parse t = t" if "ws_pendingEvents t = ws_pendingEvents s"
    "ws_lastSeenEventId t = ws_lastSeenEventId s" for t
    using that by (simp add: drainPendingEvents_def)
  with none assms show ?thesis
    by (simp add: replaySettled_def drainAndReplay_def Let_def hasPendingGap_def scheduleReplay_def
        replayPossible_def socketOpen_def update_conv')
qed

text \<open>
  The situation is reached: after a recovery epoch, event 5 is buffered, the snapshot is
  acknowledged, and the live event 6 arrives before the replay that would fetch event 5.
\<close>

definition liveEvent :: "string \<Rightarrow> string" where
  "liveEvent i = ''{'' @ quote ''method'' @ '':'' @ quote ''m'' @ '','' @ quote ''eventId'' @ '':'' @ i @ ''}''"

definition replayAnswer :: string where
  "replayAnswer = ''{'' @ quote ''id'' @ '':'' @ quote ''0-1'' @ '','' @ quote ''result'' @ '':{''
     @ quote ''earliestEventId'' @ '':1,'' @ quote ''latestEventId'' @ '':6}}''"

definition lostEventRun :: "wsEvent list" where
  "lostEventRun = [Connect, SocketOpens 0, ConnectPromiseSettles 0, ResetRecovery,
     SocketOpens 1, ConnectPromiseSettles 1, SocketReceives 1 (liveEvent ''5''), ReplayRequests 2,
     Acknowledge 0, SocketReceives 1 (liveEvent ''6''), SocketReceives 1 replayAnswer, ReplayReads 2]"

lemma stale_event_restarts_replay_witness:
  "let s' = replaySettled (\<lambda>_. None) 2 (wsRun (\<lambda>_. None) lostEventRun (createWsClient sampleConfig))
   in map fst (ws_pendingEvents s') = [5] \<and> ws_lastSeenEventId s' = 6 \<and> ws_replayInFlight s' = Some 3"
proof -
  define s where "s = wsRun (\<lambda>_. None) lostEventRun (createWsClient sampleConfig)"
  have run: "map_of (ws_replays s) 2 = Some \<lparr>rr_generation = 1, rr_cursor = 0, rr_target = None,
      rr_phase = Finished True\<rparr>"
    and fields: "ws_replayInFlight s = Some 2" "ws_replayGeneration s = 1" "ws_replaySupported s"
      "ws_connected s" "socketOpen s" "map fst (ws_pendingEvents s) = [5]" "ws_lastSeenEventId s = 6"
      "ws_counter s = 3"
    unfolding s_def by code_simp+
  have "ws_pendingEvents s \<noteq> []" "\<forall>(i, e) \<in> set (ws_pendingEvents s). i \<le> ws_lastSeenEventId s"
    using fields(6,7) by auto
  with stale_event_restarts_replay [OF run, of "\<lambda>_. None"] fields show ?thesis
    by (simp add: Let_def flip: s_def)
qed

end
