(* ===== verification/GitDiffLaws.thy ===== *)
theory GitDiffLaws
  imports GitDiff
begin

text \<open>
  What the diff parser guarantees for any input: line numbers, totals and ids; that a printed hunk
  reads back; and two inputs it misreads.
\<close>

section \<open>Numbering and counting\<close>

definition advance :: "unifiedDiffLine \<Rightarrow> nat \<times> nat \<Rightarrow> nat \<times> nat" where
  "advance l c = (case dl_kind l of
     ContextLine \<Rightarrow> (fst c + 1, snd c + 1) | AddLine \<Rightarrow> (fst c, snd c + 1)
   | RemoveLine \<Rightarrow> (fst c + 1, snd c) | MetaLine \<Rightarrow> c)"

definition cursors :: "unifiedDiffLine list \<Rightarrow> nat \<times> nat \<Rightarrow> nat \<times> nat" where
  "cursors ls c = fold advance ls c"

text \<open>A line's numbers are those of the cursors it is read at.\<close>

definition placed :: "nat \<times> nat \<Rightarrow> unifiedDiffLine \<Rightarrow> bool" where
  "placed c l \<longleftrightarrow>
     dl_oldLineNumber l = (if dl_kind l \<in> {ContextLine, RemoveLine} then Some (fst c) else None)
     \<and> dl_newLineNumber l = (if dl_kind l \<in> {ContextLine, AddLine} then Some (snd c) else None)"

definition numbered_hunk :: "unifiedDiffHunk \<Rightarrow> bool" where
  "numbered_hunk h \<longleftrightarrow> (\<forall>k < length (dh_lines h).
     placed (cursors (take k (dh_lines h)) (dh_oldStart h, dh_newStart h)) (dh_lines h ! k))"

definition count_kind :: "diffLineKind \<Rightarrow> unifiedDiffHunk list \<Rightarrow> nat" where
  "count_kind k hs = length (filter (\<lambda>l. dl_kind l = k) (concat (map dh_lines hs)))"

lemma count_kind_simps [simp]:
  "count_kind k [] = 0"
  "count_kind k (h # hs) = length (filter (\<lambda>l. dl_kind l = k) (dh_lines h)) + count_kind k hs"
  "count_kind k (hs @ hs') = count_kind k hs + count_kind k hs'"
  by (simp_all add: count_kind_def)

lemma numbered_empty [simp]: "dh_lines h = [] \<Longrightarrow> numbered_hunk h"
  by (simp add: numbered_hunk_def)

lemma numbered_snoc [simp]:
  "numbered_hunk (h\<lparr>dh_lines := dh_lines h @ [l]\<rparr>) \<longleftrightarrow>
     numbered_hunk h \<and> placed (cursors (dh_lines h) (dh_oldStart h, dh_newStart h)) l"
  by (auto simp: numbered_hunk_def nth_append less_Suc_eq)

section \<open>The parser's invariant\<close>

definition hunk_list :: "unifiedDiffHunk option \<Rightarrow> unifiedDiffHunk list" where
  "hunk_list h = (case h of Some x \<Rightarrow> [x] | None \<Rightarrow> [])"

lemma hunk_list_simps [simp]: "hunk_list None = []" "hunk_list (Some h) = [h]"
  by (simp_all add: hunk_list_def)

definition file_ok :: "nat \<Rightarrow> unifiedDiffFile \<Rightarrow> bool" where
  "file_ok i f \<longleftrightarrow> df_id f = df_displayPath f @ '':'' @ show_nat i
     \<and> list_all numbered_hunk (df_hunks f)
     \<and> df_additions f = count_kind AddLine (df_hunks f)
     \<and> df_deletions f = count_kind RemoveLine (df_hunks f)"

definition current_ok :: "diffParser \<Rightarrow> bool" where
  "current_ok p \<longleftrightarrow> (case dp_file p of
     None \<Rightarrow> dp_hunk p = None
   | Some f \<Rightarrow> list_all numbered_hunk (ip_hunks f @ hunk_list (dp_hunk p))
       \<and> ip_additions f = count_kind AddLine (ip_hunks f @ hunk_list (dp_hunk p))
       \<and> ip_deletions f = count_kind RemoveLine (ip_hunks f @ hunk_list (dp_hunk p)))"

definition cursor_ok :: "diffParser \<Rightarrow> bool" where
  "cursor_ok p \<longleftrightarrow> (\<forall>h. dp_hunk p = Some h \<longrightarrow>
     cursors (dh_lines h) (dh_oldStart h, dh_newStart h) = (dp_oldCursor p, dp_newCursor p))"

definition files_ok :: "unifiedDiffFile list \<Rightarrow> bool" where
  "files_ok fs \<longleftrightarrow> (\<forall>i < length fs. file_ok i (fs ! i))"

definition parser_ok :: "diffParser \<Rightarrow> bool" where
  "parser_ok p \<longleftrightarrow> files_ok (dp_files p) \<and> current_ok p \<and> cursor_ok p"

lemma files_ok_snoc: "files_ok fs \<Longrightarrow> file_ok (length fs) f \<Longrightarrow> files_ok (fs @ [f])"
  by (auto simp: files_ok_def nth_append less_Suc_eq)

lemma finalize_ok:
  "list_all numbered_hunk (ip_hunks f) \<Longrightarrow> ip_additions f = count_kind AddLine (ip_hunks f)
     \<Longrightarrow> ip_deletions f = count_kind RemoveLine (ip_hunks f) \<Longrightarrow> file_ok i (finalizeFile f i)"
  by (simp add: file_ok_def finalizeFile_def Let_def)

lemma flushHunk_fields [simp]:
  "dp_files (flushHunk p) = dp_files p" "dp_file p = None \<Longrightarrow> flushHunk p = p"
  "dp_file (flushHunk p) = None \<longleftrightarrow> dp_file p = None"
  by (simp_all add: flushHunk_def split: option.split)

lemma flushHunk_hunk: "current_ok p \<Longrightarrow> dp_hunk (flushHunk p) = None"
  by (auto simp: flushHunk_def current_ok_def split: option.splits)

lemma parser_ok_flushHunk: "parser_ok p \<Longrightarrow> parser_ok (flushHunk p)"
  by (cases "dp_file p"; cases "dp_hunk p")
    (simp_all add: parser_ok_def flushHunk_def current_ok_def cursor_ok_def)

lemma flushFile_fields: "current_ok p \<Longrightarrow> dp_file (flushFile p) = None \<and> dp_hunk (flushFile p) = None"
  by (auto simp: flushFile_def flushHunk_hunk Let_def current_ok_def split: option.splits)

lemma files_ok_flushFile:
  assumes "parser_ok p"
  shows "files_ok (dp_files (flushFile p))"
proof (cases "dp_file (flushHunk p)")
  case None
  with assms show ?thesis by (simp add: flushFile_def parser_ok_def)
next
  case (Some f)
  have "parser_ok (flushHunk p)" using assms by (rule parser_ok_flushHunk)
  moreover have "dp_hunk (flushHunk p) = None"
    using assms by (simp add: flushHunk_hunk parser_ok_def)
  ultimately have "files_ok (dp_files (flushHunk p))"
    "file_ok (length (dp_files (flushHunk p))) (finalizeFile f (length (dp_files (flushHunk p))))"
    using Some by (auto simp: parser_ok_def current_ok_def intro!: finalize_ok)
  then have "files_ok (dp_files (flushHunk p) @ [finalizeFile f (length (dp_files (flushHunk p)))])"
    by (rule files_ok_snoc)
  with Some show ?thesis by (simp add: flushFile_def)
qed

lemma cursors_snoc [simp]: "cursors (ls @ [l]) c = advance l (cursors ls c)"
  by (simp add: cursors_def)

lemma parser_ok_hunkLine:
  assumes "parser_ok p" "dp_file p = Some f" "dp_hunk p = Some h"
  shows "parser_ok (hunkLine line f h p)"
proof -
  have "cursors (dh_lines h) (dh_oldStart h, dh_newStart h) = (dp_oldCursor p, dp_newCursor p)"
    using assms by (simp add: parser_ok_def cursor_ok_def)
  with assms show ?thesis
    by (simp add: hunkLine_def addLine_def diffLine_def parser_ok_def current_ok_def cursor_ok_def
        placed_def advance_def)
qed

lemma metadata_fields [simp]:
  "ip_hunks (applyFileMetadata l f) = ip_hunks f" "ip_additions (applyFileMetadata l f) = ip_additions f"
  "ip_deletions (applyFileMetadata l f) = ip_deletions f"
  by (simp_all add: applyFileMetadata_def Let_def)

lemma parser_ok_step: "parser_ok p \<Longrightarrow> parser_ok (diffStep line p)"
proof -
  assume ok: "parser_ok p"
  have new: "parser_ok (flushFile p\<lparr>dp_file := Some f\<rparr>)"
    if "ip_hunks f = []" "ip_additions f = 0" "ip_deletions f = 0" for f
    using that flushFile_fields [of p] files_ok_flushFile [OF ok] ok
    by (simp add: parser_ok_def current_ok_def cursor_ok_def)
  have opened: "parser_ok (flushHunk p\<lparr>dp_oldCursor := a, dp_newCursor := b, dp_hunk := Some h\<rparr>)"
    if "dh_lines h = []" "dp_file p \<noteq> None" "dh_oldStart h = a" "dh_newStart h = b" for h a b
    using that flushHunk_hunk [of p] parser_ok_flushHunk [OF ok] ok
    by (auto simp: parser_ok_def current_ok_def cursor_ok_def cursors_def split: option.splits)
  have metadata: "parser_ok (p\<lparr>dp_file := Some (applyFileMetadata l f)\<rparr>)" if "dp_file p = Some f" for f l
    using that ok by (simp add: parser_ok_def current_ok_def cursor_ok_def)
  show ?thesis
    using ok new opened metadata parser_ok_flushHunk [OF ok] parser_ok_hunkLine [OF ok]
    by (auto simp: diffStep_def Let_def split: option.split)
qed

interpretation diff_parser: machine diffStep parser_ok "\<lambda>_. True"
  by unfold_locales (rule parser_ok_step)

lemma parsed_files_ok: "files_ok (dd_files (parseUnifiedGitDiff raw))"
proof -
  have "parser_ok emptyParser"
    by (simp add: parser_ok_def emptyParser_def files_ok_def current_ok_def cursor_ok_def)
  then have "parser_ok (fold diffStep (normalizedLines raw) emptyParser)"
    by (rule diff_parser.run_inv) (simp add: list_all_iff)
  then show ?thesis by (simp add: parseUnifiedGitDiff_def Let_def files_ok_flushFile)
qed

text \<open>Line numbers.  In every hunk of every parsed diff, whatever the text, each context and
  removed line has the number of its line in the old file, and each context and added line that
  of its line in the new file, counting from the starts of the hunk's header.\<close>

theorem diff_lines_numbered:
  "\<forall>f \<in> set (dd_files (parseUnifiedGitDiff raw)). \<forall>h \<in> set (df_hunks f). numbered_hunk h"
proof (intro ballI)
  fix f h assume f: "f \<in> set (dd_files (parseUnifiedGitDiff raw))" and h: "h \<in> set (df_hunks f)"
  obtain i where "i < length (dd_files (parseUnifiedGitDiff raw))" "f = dd_files (parseUnifiedGitDiff raw) ! i"
    using f by (auto simp: in_set_conv_nth)
  then have "file_ok i f" using parsed_files_ok [of raw] by (simp add: files_ok_def)
  with h show "numbered_hunk h" by (simp add: file_ok_def list_all_iff)
qed

lemma diff_lines_numbered_witness:
  "numbered_hunk (hd (df_hunks (hd (dd_files (parseUnifiedGitDiff
     (''diff --git a/x b/x'' @ [CHR 0x0A] @ ''@@ -3,2 +3,2 @@'' @ [CHR 0x0A] @ ''-a'' @ [CHR 0x0A] @ ''+b''))))))"
proof -
  let ?raw = "''diff --git a/x b/x'' @ [CHR 0x0A] @ ''@@ -3,2 +3,2 @@'' @ [CHR 0x0A] @ ''-a'' @ [CHR 0x0A] @ ''+b''"
  have "dd_files (parseUnifiedGitDiff ?raw) \<noteq> []" "df_hunks (hd (dd_files (parseUnifiedGitDiff ?raw))) \<noteq> []"
    by code_simp+
  then show ?thesis using diff_lines_numbered [of ?raw] by (meson hd_in_set)
qed

text \<open>Totals.  The totals of a parsed diff are the numbers of added and removed lines its hunks hold.\<close>

theorem diff_totals_count_lines:
  "dd_totalAdditions (parseUnifiedGitDiff raw)
     = count_kind AddLine (concat (map df_hunks (dd_files (parseUnifiedGitDiff raw))))
   \<and> dd_totalDeletions (parseUnifiedGitDiff raw)
     = count_kind RemoveLine (concat (map df_hunks (dd_files (parseUnifiedGitDiff raw))))"
proof -
  have sums: "sum_list (map df_additions fs) = count_kind AddLine (concat (map df_hunks fs))
      \<and> sum_list (map df_deletions fs) = count_kind RemoveLine (concat (map df_hunks fs))"
    if "\<forall>f \<in> set fs. df_additions f = count_kind AddLine (df_hunks f)
      \<and> df_deletions f = count_kind RemoveLine (df_hunks f)" for fs
    using that by (induction fs) auto
  have "\<forall>f \<in> set (dd_files (parseUnifiedGitDiff raw)). df_additions f = count_kind AddLine (df_hunks f)
      \<and> df_deletions f = count_kind RemoveLine (df_hunks f)"
    using parsed_files_ok [of raw] by (auto simp: files_ok_def file_ok_def in_set_conv_nth)
  from sums [OF this] show ?thesis by (simp add: parseUnifiedGitDiff_def Let_def)
qed

text \<open>No two files of a parsed diff have the same id, even when they have the same path.\<close>

theorem diff_file_ids_distinct: "distinct (map df_id (dd_files (parseUnifiedGitDiff raw)))"
proof -
  define fs where "fs = dd_files (parseUnifiedGitDiff raw)"
  have colon: "\<not> is_digit CHR '':''" by code_simp
  have "i = j" if "i < length fs" "j < length fs" "df_id (fs ! i) = df_id (fs ! j)" for i j
  proof -
    have "file_ok i (fs ! i)" "file_ok j (fs ! j)"
      using that parsed_files_ok [of raw] by (simp_all add: files_ok_def fs_def)
    with that(3) have "df_displayPath (fs ! i) @ CHR '':'' # show_nat i
        = df_displayPath (fs ! j) @ CHR '':'' # show_nat j"
      by (simp add: file_ok_def)
    then show ?thesis using colon by (rule numeral_suffix)
  qed
  then have "distinct (map df_id fs)" by (auto simp: distinct_conv_nth)
  then show ?thesis by (simp add: fs_def)
qed

section \<open>A printed hunk reads back\<close>

definition printLine :: "diffLineKind \<times> string \<Rightarrow> string" where
  "printLine l = (case fst l of ContextLine \<Rightarrow> CHR '' '' # snd l | AddLine \<Rightarrow> CHR ''+'' # snd l
     | RemoveLine \<Rightarrow> CHR ''-'' # snd l | MetaLine \<Rightarrow> backslash # snd l)"

definition readable :: "diffLineKind \<times> string \<Rightarrow> bool" where
  "readable l \<longleftrightarrow> fst l \<noteq> MetaLine \<and> CHR 0x1B \<notin> set (snd l)
     \<and> \<not> (fst l = AddLine \<and> starts_with (snd l) ''++ '')
     \<and> \<not> (fst l = RemoveLine \<and> starts_with (snd l) ''-- '')"

lemma stripAnsi_plain: "CHR 0x1B \<notin> set s \<Longrightarrow> stripAnsi s = s"
proof (induction s)
  case Nil
  then show ?case by (subst stripAnsi.simps) simp
next
  case (Cons c s)
  then have "ansi_match (c # s) = None" by (auto simp: ansi_match_def split: list.split)
  with Cons show ?case by (subst stripAnsi.simps) simp
qed

definition kinds_read :: "diffParser \<Rightarrow> (diffLineKind \<times> string) list \<Rightarrow> bool" where
  "kinds_read p ls \<longleftrightarrow> dp_file p \<noteq> None \<and>
     (\<exists>h. dp_hunk p = Some h \<and> map (\<lambda>l. (dl_kind l, dl_content l)) (dh_lines h) = ls)"

lemma kinds_read_step:
  assumes "kinds_read p ls" "readable l"
  shows "kinds_read (diffStep (printLine l) p) (ls @ [l])"
proof -
  obtain f h where f: "dp_file p = Some f" and h: "dp_hunk p = Some h"
    and ls: "map (\<lambda>l. (dl_kind l, dl_content l)) (dh_lines h) = ls"
    using assms(1) by (auto simp: kinds_read_def)
  obtain k c where l: "l = (k, c)" by (cases l) auto
  have "stripAnsi (printLine l) = printLine l"
    using assms(2) by (intro stripAnsi_plain) (auto simp: printLine_def readable_def l split: diffLineKind.split)
  with f h ls assms(2) show ?thesis
    by (cases k) (auto simp: diffStep_def hunkLine_def addLine_def diffLine_def kinds_read_def
        printLine_def readable_def l)
qed

text \<open>The lines of a hunk read back: printed with their marks, context, added and removed
  lines are parsed to the same kinds and contents, in order, unless an added line starts with two
  plus signs and a blank or a removed one with two dashes and a blank.\<close>

theorem hunk_reads_back:
  assumes "dp_file p \<noteq> None" "dp_hunk p = Some h" "dh_lines h = []" "list_all readable ls"
  shows "\<exists>h'. dp_hunk (fold diffStep (map printLine ls) p) = Some h'
    \<and> map (\<lambda>l. (dl_kind l, dl_content l)) (dh_lines h') = ls"
proof -
  have run: "kinds_read (fold diffStep (map printLine ls) q) (ks @ ls)"
    if "kinds_read q ks" "list_all readable ls" for q ks
    using that
  proof (induction ls arbitrary: q ks)
    case (Cons l ls)
    from Cons.IH [of "diffStep (printLine l) q" "ks @ [l]"] Cons.prems kinds_read_step
    show ?case by simp
  qed simp
  have "kinds_read p []" using assms by (simp add: kinds_read_def)
  from run [OF this assms(4)] show ?thesis by (auto simp: kinds_read_def)
qed

lemma hunk_reads_back_witness:
  "\<exists>h'. dp_hunk (fold diffStep (map printLine [(AddLine, ''x''), (RemoveLine, ''-y'')])
     (diffStep ''@@ -1 +1 @@'' (diffStep ''diff --git a/f b/f'' emptyParser))) = Some h'
     \<and> map (\<lambda>l. (dl_kind l, dl_content l)) (dh_lines h') = [(AddLine, ''x''), (RemoveLine, ''-y'')]"
proof -
  define p where "p = diffStep ''@@ -1 +1 @@'' (diffStep ''diff --git a/f b/f'' emptyParser)"
  have p: "dp_file p \<noteq> None" "dp_hunk p \<noteq> None" "dh_lines (the (dp_hunk p)) = []"
    unfolding p_def by code_simp+
  have "list_all readable [(AddLine, ''x''), (RemoveLine, ''-y'')]" by code_simp
  from hunk_reads_back [OF p(1) _ p(3) this] p(2) show ?thesis unfolding p_def by auto
qed

section \<open>Inputs that are misread\<close>

text \<open>A removed line whose text starts with two dashes and a blank is taken for a file header
  inside the hunk: it is shown as metadata, not counted as a deletion, and does not advance the
  numbering of the old file.\<close>

theorem dashes_misread:
  assumes "dp_file p = Some f" "dp_hunk p = Some h" "CHR 0x1B \<notin> set c"
  shows "\<exists>h'. dp_hunk (diffStep (printLine (RemoveLine, ''-- '' @ c)) p) = Some h'
    \<and> dl_kind (last (dh_lines h')) = MetaLine
    \<and> dp_file (diffStep (printLine (RemoveLine, ''-- '' @ c)) p) = Some f
    \<and> dp_oldCursor (diffStep (printLine (RemoveLine, ''-- '' @ c)) p) = dp_oldCursor p"
proof -
  have "stripAnsi (printLine (RemoveLine, ''-- '' @ c)) = printLine (RemoveLine, ''-- '' @ c)"
    using assms(3) by (intro stripAnsi_plain) (simp add: printLine_def)
  with assms show ?thesis
    by (simp add: diffStep_def hunkLine_def addLine_def diffLine_def printLine_def backslash_def)
qed

lemma dashes_misread_witness:
  "\<exists>h'. dp_hunk (diffStep ''--- SQL comment''
      (diffStep ''@@ -1 +1 @@'' (diffStep ''diff --git a/f b/f'' emptyParser))) = Some h'
    \<and> dl_kind (last (dh_lines h')) = MetaLine"
proof -
  define p where "p = diffStep ''@@ -1 +1 @@'' (diffStep ''diff --git a/f b/f'' emptyParser)"
  have p: "dp_file p \<noteq> None" "dp_hunk p \<noteq> None" unfolding p_def by code_simp+
  then obtain f h where "dp_file p = Some f" "dp_hunk p = Some h" by auto
  from dashes_misread [OF this, of "''SQL comment''"] show ?thesis
    by (auto simp: printLine_def simp flip: p_def)
qed

text \<open>How git quotes a path: backslash, quote, tab, newline and return are escaped.\<close>

definition gitQuote :: "string \<Rightarrow> string" where
  "gitQuote p = dquote # concat (map (\<lambda>c. if c = backslash \<or> c = dquote then [backslash, c]
     else if c = CHR 0x09 then [backslash, CHR ''t''] else if c = CHR 0x0A then [backslash, CHR ''n'']
     else if c = CHR 0x0D then [backslash, CHR ''r''] else [c]) p) @ [dquote]"

text \<open>A quoted path with a backslash before a t decodes to a tab: the escapes are undone one
  after the other instead of in one pass.\<close>

theorem backslash_path_misread:
  "decodeGitPath (gitQuote [CHR ''a'', backslash, CHR ''t'']) = [CHR ''a'', CHR 0x09]"
  by code_simp

section \<open>Review targets\<close>

text \<open>A review target is made for the line at an index exactly when it is not metadata and has
  a number and a path, and the context it quotes is at most five lines with the line itself at
  the position its index gives.\<close>

theorem review_target_context:
  assumes "i < length (dh_lines hunk)" "createGitReviewTarget file hunk (dh_lines hunk ! i) i = Some t"
  shows "rt_context t ! min i 2 = \<lparr>rc_old = dl_oldLineNumber (dh_lines hunk ! i),
      rc_new = dl_newLineNumber (dh_lines hunk ! i), rc_prefix = dl_prefix (dh_lines hunk ! i),
      rc_text = dl_content (dh_lines hunk ! i)\<rparr>
    \<and> length (rt_context t) \<le> 5 \<and> dl_kind (dh_lines hunk ! i) \<noteq> MetaLine
    \<and> (if rt_side t = OLD then dl_oldLineNumber (dh_lines hunk ! i)
        else dl_newLineNumber (dh_lines hunk ! i)) = Some (rt_line t)"
proof -
  define f where "f = (\<lambda>e :: unifiedDiffLine. \<lparr>rc_old = dl_oldLineNumber e, rc_new = dl_newLineNumber e,
    rc_prefix = dl_prefix e, rc_text = dl_content e\<rparr>)"
  have t: "rt_context t = map f (take (min (length (dh_lines hunk)) (i + 3) - (i - 2)) (drop (i - 2) (dh_lines hunk)))"
    and k: "dl_kind (dh_lines hunk ! i) \<noteq> MetaLine"
    and n: "(if rt_side t = OLD then dl_oldLineNumber (dh_lines hunk ! i)
        else dl_newLineNumber (dh_lines hunk ! i)) = Some (rt_line t)"
    using assms(2)
    by (auto simp: createGitReviewTarget_def Let_def f_def split: if_splits option.splits)
  have "i - 2 + min i 2 = i" by simp
  then have "rt_context t ! min i 2 = f (dh_lines hunk ! i)"
    using assms(1) by (simp add: t)
  then show ?thesis using k n by (simp add: t f_def)
qed

lemma review_target_context_witness:
  "let l = diffLine AddLine ''+'' ''x'' None (Some 4);
       h = \<lparr>dh_header = ''@@'', dh_oldStart = 4, dh_oldCount = 0, dh_newStart = 4, dh_newCount = 1,
         dh_lines = [l]\<rparr>;
       f = \<lparr>df_id = ''p:0'', df_oldPath = None, df_newPath = Some ''p'', df_displayPath = ''p'',
         df_status = Added, df_additions = 1, df_deletions = 0, df_hunks = [h]\<rparr>
   in map_option rt_line (createGitReviewTarget f h l 0) = Some 4"
proof -
  define l where "l = diffLine AddLine ''+'' ''x'' None (Some 4)"
  define h where "h = \<lparr>dh_header = ''@@'', dh_oldStart = 4, dh_oldCount = 0, dh_newStart = 4,
    dh_newCount = 1, dh_lines = [l]\<rparr>"
  define f where "f = \<lparr>df_id = ''p:0'', df_oldPath = None, df_newPath = Some ''p'', df_displayPath = ''p'',
    df_status = Added, df_additions = 1, df_deletions = 0, df_hunks = [h]\<rparr>"
  have len: "0 < length (dh_lines h)" "dh_lines h ! 0 = l" by (simp_all add: h_def)
  obtain t where t: "createGitReviewTarget f h l 0 = Some t" "rt_side t = NEW"
    by (simp add: createGitReviewTarget_def l_def f_def diffLine_def truthy_path_def)
  from review_target_context [OF len(1), of f t] t len(2) have "rt_line t = 4"
    by (simp add: l_def diffLine_def)
  with t(1) have "map_option rt_line (createGitReviewTarget f h l 0) = Some 4" by simp
  then show ?thesis by (simp only: Let_def l_def h_def f_def)
qed

end
