(* ===== verification/JsSort.thy ===== *)
theory JsSort
  imports Main "HOL-Library.Multiset"
begin

text \<open>
  \<open>Array.prototype.sort\<close> with a comparison function.  It is stable, so a consistent comparison
  determines the result.
\<close>

fun insert_by :: "('a \<Rightarrow> 'a \<Rightarrow> int) \<Rightarrow> 'a \<Rightarrow> 'a list \<Rightarrow> 'a list" where
  "insert_by cmp x [] = [x]"
| "insert_by cmp x (y # ys) = (if cmp x y \<le> 0 then x # y # ys else y # insert_by cmp x ys)"

definition sort_by :: "('a \<Rightarrow> 'a \<Rightarrow> int) \<Rightarrow> 'a list \<Rightarrow> 'a list" where
  "sort_by cmp xs = foldr (insert_by cmp) xs []"

lemma mset_insert_by: "mset (insert_by cmp x ys) = add_mset x (mset ys)"
  by (induction ys) auto

lemma mset_sort_by [simp]: "mset (sort_by cmp xs) = mset xs"
  unfolding sort_by_def by (induction xs) (simp_all add: mset_insert_by)

lemma set_sort_by [simp]: "set (sort_by cmp xs) = set xs"
  by (metis mset_sort_by set_mset_mset)

lemma distinct_map_sort_by [simp]: "distinct (map f (sort_by cmp xs)) = distinct (map f xs)"
proof -
  have "mset (map f (sort_by cmp xs)) = mset (map f xs)" by simp
  then show ?thesis by (metis mset_eq_imp_distinct_iff)
qed

lemma length_sort_by [simp]: "length (sort_by cmp xs) = length xs"
  by (metis mset_sort_by size_mset)

lemma sort_by_Cons: "sort_by cmp (x # xs) = insert_by cmp x (sort_by cmp xs)"
  by (simp add: sort_by_def)

lemma insert_first: "(\<And>y. y \<in> set ys \<Longrightarrow> cmp x y \<le> 0) \<Longrightarrow> insert_by cmp x ys = x # ys"
  by (cases ys) auto

text \<open>An element that comes before all others is sorted to the front.\<close>

lemma sort_first:
  assumes "\<And>y. y \<in> set (xs @ ys) \<Longrightarrow> cmp x y \<le> 0" "\<And>y. y \<in> set xs \<Longrightarrow> cmp y x > 0"
  shows "sort_by cmp (xs @ x # ys) = x # sort_by cmp (xs @ ys)"
  using assms
proof (induction xs)
  case Nil
  then have "insert_by cmp x (sort_by cmp ys) = x # sort_by cmp ys" by (intro insert_first) simp
  then show ?case by (simp add: sort_by_Cons)
next
  case (Cons y xs)
  then have "sort_by cmp (xs @ x # ys) = x # sort_by cmp (xs @ ys)" by simp
  then show ?case using Cons.prems(2) [of y] by (simp add: sort_by_Cons)
qed

end
