(* ===== verification/ChatTreeLaws.thy ===== *)
theory ChatTreeLaws
  imports ChatTree
begin

text \<open>
  The drawer's tree shows every chat that descends from a rootId exactly once, at its depth, for
  any comparison of strings, when ids are unique; building it needs no more fuel than there are
  chats.  Chats whose parents form a cycle are not shown.
\<close>

section \<open>Depth and descent\<close>

inductive rooted :: "chatSummary list \<Rightarrow> nat \<Rightarrow> chatSummary \<Rightarrow> bool" for chats where
  rootId: "c \<in> set chats \<Longrightarrow> listedParent chats c = None \<Longrightarrow> rooted chats 0 c"
| child: "rooted chats n p \<Longrightarrow> c \<in> set chats \<Longrightarrow> listedParent chats c = Some (ch_id p)
     \<Longrightarrow> rooted chats (Suc n) c"

inductive below :: "chatSummary list \<Rightarrow> chatSummary \<Rightarrow> nat \<Rightarrow> chatSummary \<Rightarrow> bool" for chats where
  self: "c \<in> set chats \<Longrightarrow> below chats c 0 c"
| step: "below chats c k p \<Longrightarrow> x \<in> set chats \<Longrightarrow> listedParent chats x = Some (ch_id p)
     \<Longrightarrow> below chats c (Suc k) x"

inductive_simps rooted_0: "rooted chats 0 c"
inductive_cases rooted_SucE: "rooted chats (Suc n) c"
inductive_cases below_0E: "below chats c 0 x"
inductive_cases below_SucE: "below chats c (Suc k) x"

lemma rooted_in: "rooted chats n c \<Longrightarrow> c \<in> set chats"
  by (cases rule: rooted.cases) auto

lemma below_in: "below chats c k x \<Longrightarrow> x \<in> set chats \<and> c \<in> set chats"
  by (induction rule: below.induct) auto

lemma same_id: "distinct (map ch_id chats) \<Longrightarrow> x \<in> set chats \<Longrightarrow> y \<in> set chats \<Longrightarrow> ch_id x = ch_id y
    \<Longrightarrow> x = y"
  by (meson distinct_map inj_onD)

lemma rooted_unique:
  assumes "distinct (map ch_id chats)"
  shows "rooted chats m c \<Longrightarrow> rooted chats n c \<Longrightarrow> m = n"
proof (induction m c arbitrary: n rule: rooted.induct)
  case (rootId c)
  then show ?case by (auto elim: rooted.cases)
next
  case (child m p c)
  from child.prems child.hyps(3) obtain k q where n: "n = Suc k" "rooted chats k q"
      "listedParent chats c = Some (ch_id q)"
    by (auto elim: rooted.cases)
  have "p = q"
    using assms n(2,3) child.hyps(1,3) rooted_in by (intro same_id [of chats]) auto
  with child.IH [of k] n show ?case by simp
qed

lemma rooted_below: "below chats c k x \<Longrightarrow> rooted chats m c \<Longrightarrow> rooted chats (m + k) x"
  by (induction rule: below.induct) (auto intro: rooted.child)

lemma below_unique:
  assumes "distinct (map ch_id chats)"
  shows "below chats c k x \<Longrightarrow> below chats d k x \<Longrightarrow> c = d"
proof (induction k arbitrary: x)
  case 0
  then show ?case by (auto elim!: below_0E)
next
  case (Suc k)
  from Suc.prems(1) obtain p where p: "below chats c k p" "listedParent chats x = Some (ch_id p)"
    by (auto elim: below_SucE)
  from Suc.prems(2) obtain q where q: "below chats d k q" "listedParent chats x = Some (ch_id q)"
    by (auto elim: below_SucE)
  have "p = q" using assms p q below_in by (intro same_id [of chats]) auto
  with Suc.IH p q show ?case by simp
qed

lemma below_first:
  "below chats c (Suc k) x \<longleftrightarrow> (\<exists>d. d \<in> set chats \<and> c \<in> set chats
     \<and> listedParent chats d = Some (ch_id c) \<and> below chats d k x)"
proof (induction k arbitrary: x)
  case 0
  show ?case
  proof
    assume "below chats c (Suc 0) x"
    then show "\<exists>d. d \<in> set chats \<and> c \<in> set chats \<and> listedParent chats d = Some (ch_id c) \<and> below chats d 0 x"
      by (auto elim!: below_SucE below_0E intro: below.self)
  next
    assume "\<exists>d. d \<in> set chats \<and> c \<in> set chats \<and> listedParent chats d = Some (ch_id c) \<and> below chats d 0 x"
    then show "below chats c (Suc 0) x" by (auto elim!: below_0E intro: below.intros)
  qed
next
  case (Suc k)
  show ?case
  proof
    assume "below chats c (Suc (Suc k)) x"
    then obtain p where "below chats c (Suc k) p" "x \<in> set chats" "listedParent chats x = Some (ch_id p)"
      by (auto elim: below_SucE)
    with Suc.IH show "\<exists>d. d \<in> set chats \<and> c \<in> set chats \<and> listedParent chats d = Some (ch_id c)
        \<and> below chats d (Suc k) x"
      by (meson below.step)
  next
    assume "\<exists>d. d \<in> set chats \<and> c \<in> set chats \<and> listedParent chats d = Some (ch_id c)
      \<and> below chats d (Suc k) x"
    then obtain d p where "d \<in> set chats" "c \<in> set chats" "listedParent chats d = Some (ch_id c)"
        "below chats d k p" "x \<in> set chats" "listedParent chats x = Some (ch_id p)"
      by (auto elim: below_SucE)
    with Suc.IH show "below chats c (Suc (Suc k)) x" by (meson below.step)
  qed
qed

lemma chain_of: "rooted chats m c \<Longrightarrow> i \<le> m \<Longrightarrow> \<exists>x. rooted chats i x"
proof (induction rule: rooted.induct)
  case (child n p c)
  then show ?case by (cases "i = Suc n") (auto intro: rooted.child)
qed (auto intro: rooted.rootId)

lemma rooted_bound:
  assumes "distinct (map ch_id chats)" "rooted chats m c"
  shows "m < length chats"
proof -
  define node where "node i = (SOME x. rooted chats i x)" for i
  have node: "rooted chats i (node i)" if "i \<le> m" for i
    using chain_of [OF assms(2) that] unfolding node_def by (rule someI_ex)
  have "inj_on node {0..m}"
    using node rooted_unique [OF assms(1)] by (intro inj_onI) (metis atLeastAtMost_iff)
  moreover have "node ` {0..m} \<subseteq> set chats" using rooted_in [OF node] by auto
  ultimately have "card {0..m} \<le> card (set chats)" by (meson List.finite_set card_inj_on_le)
  also have "\<dots> \<le> length chats" by (rule card_length)
  finally show ?thesis by simp
qed

section \<open>Branches\<close>

lemma concat_all_map:
  "(\<And>x. x \<in> set xs \<Longrightarrow> \<exists>r. f x = Some r \<and> P x r) \<Longrightarrow>
     \<exists>rs. concat_all (map f xs) = Some (concat rs) \<and> list_all2 P xs rs"
proof (induction xs)
  case (Cons x xs)
  from Cons.prems [of x] obtain r where "f x = Some r" "P x r" by auto
  moreover from Cons obtain rs where "concat_all (map f xs) = Some (concat rs)" "list_all2 P xs rs"
    by auto
  ultimately show ?case by (intro exI [of _ "r # rs"]) simp
qed simp

text \<open>The rows of a branch: every descendant once, at its level.\<close>

definition branch_rows :: "chatSummary list \<Rightarrow> nat \<Rightarrow> string \<Rightarrow> chatSummary \<Rightarrow> drawerThreadRow list \<Rightarrow> bool" where
  "branch_rows chats level rootId c rows \<longleftrightarrow>
     distinct (map ro_chat rows) \<and> ro_chat ` set rows = {x. \<exists>k. below chats c k x}
     \<and> (\<forall>r \<in> set rows. ro_rootThreadId r = rootId \<and> rooted chats (ro_indentLevel r) (ro_chat r))"

lemma children_iff: "x \<in> set (childrenByParentId chats p) \<longleftrightarrow> x \<in> set chats \<and> listedParent chats x = Some p"
  by (simp add: childrenByParentId_def)

lemma set_concat_rows:
  "list_all2 (\<lambda>c rows. ro_chat ` set rows = S c) cs rs \<Longrightarrow> ro_chat ` set (concat rs) = (\<Union>c \<in> set cs. S c)"
  by (induction rule: list_all2_induct) (auto simp: image_Un)

lemma list_all2_in: "list_all2 P xs ys \<Longrightarrow> y \<in> set ys \<Longrightarrow> \<exists>x \<in> set xs. P x y"
  by (induction rule: list_all2_induct) auto

lemma distinct_concat_rows:
  assumes "list_all2 (\<lambda>c rows. distinct (map ro_chat rows) \<and> ro_chat ` set rows = S c) cs rs"
    and "distinct cs" "\<And>c d. c \<in> set cs \<Longrightarrow> d \<in> set cs \<Longrightarrow> c \<noteq> d \<Longrightarrow> S c \<inter> S d = {}"
  shows "distinct (map ro_chat (concat rs))"
  using assms
proof (induction rule: list_all2_induct)
  case (Cons c cs rows rs)
  have tail: "list_all2 (\<lambda>c rows. ro_chat ` set rows = S c) cs rs"
    using Cons.hyps(2) by (rule list_all2_mono) simp
  have "S c \<inter> (\<Union>d \<in> set cs. S d) = {}" using Cons.prems by fastforce
  with Cons set_concat_rows [OF tail] show ?case by (simp add: map_concat image_UN)
qed simp

lemma branch_enough:
  assumes "distinct (map ch_id chats)"
  shows "rooted chats m c \<Longrightarrow> length chats \<le> n + m \<Longrightarrow>
    \<exists>rows. appendChatBranch n compare chats c m rootId = Some rows \<and> branch_rows chats m rootId c rows"
proof (induction n arbitrary: m c)
  case 0
  then show ?case using rooted_bound [OF assms, of m c] by simp
next
  case (Suc n)
  let ?cs = "sort_by (compareBranchChildren compare) (childrenByParentId chats (ch_id c))"
  let ?S = "\<lambda>d. {x. \<exists>k. below chats d k x}"
  have child: "rooted chats (Suc m) d" if "d \<in> set ?cs" for d
    using that Suc.prems(1) by (auto simp: children_iff intro: rooted.child)
  have "\<exists>rows. appendChatBranch n compare chats d (Suc m) rootId = Some rows
      \<and> branch_rows chats (Suc m) rootId d rows" if "d \<in> set ?cs" for d
    using Suc.IH [OF child [OF that]] Suc.prems(2) by simp
  then obtain rs where rs: "concat_all (map (\<lambda>d. appendChatBranch n compare chats d (m + 1) rootId) ?cs)
      = Some (concat rs)" and all: "list_all2 (branch_rows chats (Suc m) rootId) ?cs rs"
    using concat_all_map [of ?cs "\<lambda>d. appendChatBranch n compare chats d (m + 1) rootId"
        "branch_rows chats (Suc m) rootId"] by auto
  have level: "rooted chats (Suc m + k) x" if "d \<in> set ?cs" "below chats d k x" for d k x
    using rooted_below [OF that(2) child [OF that(1)]] .
  have disjoint: "?S d \<inter> ?S e = {}" if "d \<in> set ?cs" "e \<in> set ?cs" "d \<noteq> e" for d e
  proof (rule ccontr)
    assume "?S d \<inter> ?S e \<noteq> {}"
    then obtain x k l where x: "below chats d k x" "below chats e l x" by auto
    with level that have "rooted chats (Suc m + k) x" "rooted chats (Suc m + l) x" by auto
    then have "k = l" using rooted_unique [OF assms] by fastforce
    with x that(3) below_unique [OF assms] show False by blast
  qed
  have sets: "ro_chat ` set (concat rs) = (\<Union>d \<in> set ?cs. ?S d)"
    by (rule set_concat_rows) (rule list_all2_mono [OF all], simp add: branch_rows_def)
  have dist: "distinct (map ro_chat (concat rs))"
  proof (rule distinct_concat_rows [of ?S])
    show "list_all2 (\<lambda>d rows. distinct (map ro_chat rows) \<and> ro_chat ` set rows = ?S d) ?cs rs"
      by (rule list_all2_mono [OF all]) (simp add: branch_rows_def)
    have "distinct (map ch_id ?cs)"
      using assms by (simp add: childrenByParentId_def distinct_map_filter)
    then show "distinct ?cs" by (simp add: distinct_map)
  qed (use disjoint in auto)
  have fresh: "c \<notin> ro_chat ` set (concat rs)"
  proof
    assume "c \<in> ro_chat ` set (concat rs)"
    then have "c \<in> (\<Union>d \<in> set ?cs. ?S d)" by (simp only: sets)
    then obtain d k where "d \<in> set ?cs" "below chats d k c" by blast
    then have "rooted chats (Suc m + k) c" by (rule level)
    from rooted_unique [OF assms this Suc.prems(1)] show False by simp
  qed
  have step: "below chats c (Suc k) x \<longleftrightarrow> (\<exists>d \<in> set ?cs. below chats d k x)" for k x
    using rooted_in [OF Suc.prems(1)] by (auto simp: below_first children_iff)
  have all_below: "insert c (\<Union>d \<in> set ?cs. ?S d) = ?S c"
  proof (intro set_eqI iffI)
    fix x assume "x \<in> insert c (\<Union>d \<in> set ?cs. ?S d)"
    then show "x \<in> ?S c" using step below.self [OF rooted_in [OF Suc.prems(1)]] by blast
  next
    fix x assume "x \<in> ?S c"
    then obtain k where "below chats c k x" by blast
    then show "x \<in> insert c (\<Union>d \<in> set ?cs. ?S d)"
      using step by (cases k) (auto elim: below_0E)
  qed
  have levels: "ro_rootThreadId r = rootId \<and> rooted chats (ro_indentLevel r) (ro_chat r)"
    if "r \<in> set (concat rs)" for r
  proof -
    from that obtain rows where "rows \<in> set rs" "r \<in> set rows" by auto
    moreover from list_all2_in [OF all this(1)] obtain d where "branch_rows chats (Suc m) rootId d rows"
      by blast
    ultimately show ?thesis by (simp add: branch_rows_def)
  qed
  let ?row = "\<lparr>ro_chat = c, ro_indentLevel = m, ro_rootThreadId = rootId\<rparr>"
  have "branch_rows chats m rootId c (?row # concat rs)"
    using dist fresh sets all_below levels Suc.prems(1) by (auto simp: branch_rows_def)
  then show ?case using rs by simp
qed

section \<open>Workspaces\<close>

definition bucket_chats :: "(string \<times> workspaceBucket) list \<Rightarrow> chatSummary multiset" where
  "bucket_chats bs = mset (concat (map (bu_roots \<circ> snd) bs))"

lemma bucket_update_old:
  "map_of bs k = Some b \<Longrightarrow> mset (bu_roots b') = add_mset c (mset (bu_roots b))
     \<Longrightarrow> bucket_chats (AList.update k b' bs) = add_mset c (bucket_chats bs)"
  by (induction bs) (auto simp: bucket_chats_def)

lemma bucket_update_new:
  "map_of bs k = None \<Longrightarrow> bucket_chats (AList.update k b bs) = mset (bu_roots b) + bucket_chats bs"
  by (simp add: bucket_chats_def alist_update_new map_of_eq_None_iff)

lemma bucket_addRoot: "bucket_chats (addRoot compare c bs) = add_mset c (bucket_chats bs)"
  by (auto simp: addRoot_def Let_def bucket_update_new bucket_update_old split: option.split)

lemma bucket_rootsByWorkspace: "bucket_chats (rootsByWorkspace compare chats) = mset (rootChats chats)"
proof -
  have "bucket_chats (fold (addRoot compare) cs bs) = mset cs + bucket_chats bs" for cs bs
    by (induction cs arbitrary: bs) (simp_all add: bucket_addRoot)
  then show ?thesis by (simp add: rootsByWorkspace_def bucket_chats_def)
qed

text \<open>What a list of chats of depth 0 lists below it.\<close>

definition forest_rows :: "chatSummary list \<Rightarrow> chatSummary list \<Rightarrow> drawerThreadRow list \<Rightarrow> bool" where
  "forest_rows chats cs rows \<longleftrightarrow> distinct (map ro_chat rows)
     \<and> ro_chat ` set rows = {x. \<exists>c \<in> set cs. \<exists>k. below chats c k x}
     \<and> (\<forall>r \<in> set rows. rooted chats (ro_indentLevel r) (ro_chat r))"

lemma roots_disjoint:
  assumes "distinct (map ch_id chats)" "rooted chats m c" "rooted chats m d" "c \<noteq> d"
  shows "{x. \<exists>k. below chats c k x} \<inter> {x. \<exists>k. below chats d k x} = {}"
proof (rule ccontr)
  assume "\<not> ?thesis"
  then obtain x k l where x: "below chats c k x" "below chats d l x" by auto
  then have "rooted chats (m + k) x" "rooted chats (m + l) x" using assms(2,3) rooted_below by blast+
  then have "k = l" using rooted_unique [OF assms(1)] by fastforce
  with x below_unique [OF assms(1)] assms(4) show False by blast
qed

lemma bucket_enough:
  assumes "distinct (map ch_id chats)" "distinct (bu_roots b)" "\<And>c. c \<in> set (bu_roots b) \<Longrightarrow> rooted chats 0 c"
  shows "\<exists>rows. bucketRows (length chats) compare chats b = Some rows
    \<and> forest_rows chats (bu_roots b) rows"
proof -
  let ?cs = "sort_by (compareByUpdatedAtDesc compare) (bu_roots b)"
  let ?f = "\<lambda>c. appendChatBranch (length chats) compare chats c 0 (ch_id c)"
  let ?S = "\<lambda>c. {x. \<exists>k. below chats c k x}"
  have "\<exists>r. ?f c = Some r \<and> branch_rows chats 0 (ch_id c) c r" if "c \<in> set ?cs" for c
    using branch_enough [OF assms(1) assms(3)] that by simp
  then obtain rs where rs: "concat_all (map ?f ?cs) = Some (concat rs)"
      "list_all2 (\<lambda>c. branch_rows chats 0 (ch_id c) c) ?cs rs"
    using concat_all_map [of ?cs ?f "\<lambda>c. branch_rows chats 0 (ch_id c) c"] by blast
  have dist: "distinct (map ro_chat (concat rs))"
  proof (rule distinct_concat_rows [of ?S])
    show "list_all2 (\<lambda>d rows. distinct (map ro_chat rows) \<and> ro_chat ` set rows = ?S d) ?cs rs"
      by (rule list_all2_mono [OF rs(2)]) (simp add: branch_rows_def)
    show "distinct ?cs" using assms(2) by (metis mset_eq_imp_distinct_iff mset_sort_by)
  qed (use roots_disjoint [OF assms(1) assms(3) assms(3)] in auto)
  have "ro_chat ` set (concat rs) = (\<Union>c \<in> set ?cs. ?S c)"
    by (rule set_concat_rows) (rule list_all2_mono [OF rs(2)], simp add: branch_rows_def)
  then have sets: "ro_chat ` set (concat rs) = {x. \<exists>c \<in> set (bu_roots b). \<exists>k. below chats c k x}"
    unfolding set_sort_by by blast
  have levels: "rooted chats (ro_indentLevel r) (ro_chat r)" if "r \<in> set (concat rs)" for r
  proof -
    from that obtain rows where "rows \<in> set rs" "r \<in> set rows" by auto
    moreover from list_all2_in [OF rs(2) this(1)] obtain c where "branch_rows chats 0 (ch_id c) c rows"
      by blast
    ultimately show ?thesis by (simp add: branch_rows_def)
  qed
  have "forest_rows chats (bu_roots b) (concat rs)"
    unfolding forest_rows_def using dist sets levels by blast
  then show ?thesis using rs(1) by (simp add: bucketRows_def)
qed

section \<open>The drawer\<close>

lemma forest_append:
  assumes "distinct (map ch_id chats)" "forest_rows chats cs rows" "forest_rows chats ds rows'"
    and "distinct (cs @ ds)" "\<And>c. c \<in> set (cs @ ds) \<Longrightarrow> rooted chats 0 c"
  shows "forest_rows chats (cs @ ds) (rows @ rows')"
proof -
  have "ro_chat ` set rows \<inter> ro_chat ` set rows' = {}"
  proof (rule ccontr)
    assume "ro_chat ` set rows \<inter> ro_chat ` set rows' \<noteq> {}"
    then obtain x where "x \<in> ro_chat ` set rows" "x \<in> ro_chat ` set rows'" by blast
    then obtain c d k l where x: "c \<in> set cs" "below chats c k x" "d \<in> set ds" "below chats d l x"
      using assms(2,3) unfolding forest_rows_def by blast
    have "c \<noteq> d" using assms(4) x by auto
    from roots_disjoint [OF assms(1) assms(5) assms(5) this] x show False by auto
  qed
  moreover have "{x. \<exists>c \<in> set (cs @ ds). \<exists>k. below chats c k x}
      = ro_chat ` set rows \<union> ro_chat ` set rows'"
    using assms(2,3) unfolding forest_rows_def by auto
  ultimately show ?thesis
    using assms(2,3) unfolding forest_rows_def by (auto simp: image_Un)
qed

lemma forest_concat:
  assumes "distinct (map ch_id chats)"
  shows "list_all2 (\<lambda>e s. forest_rows chats (f e) (g s)) es ss \<Longrightarrow> distinct (concat (map f es)) \<Longrightarrow>
    (\<And>c. c \<in> set (concat (map f es)) \<Longrightarrow> rooted chats 0 c) \<Longrightarrow>
    forest_rows chats (concat (map f es)) (concat (map g ss))"
proof (induction rule: list_all2_induct)
  case Nil
  then show ?case by (simp add: forest_rows_def)
next
  case (Cons e es s ss)
  have "forest_rows chats (f e @ concat (map f es)) (g s @ concat (map g ss))"
    using Cons by (intro forest_append [OF assms]) auto
  then show ?case by simp
qed

lemma map_Some:
  "(\<And>x. x \<in> set xs \<Longrightarrow> \<exists>r. f x = Some r \<and> P x r) \<Longrightarrow> \<exists>rs. map f xs = map Some rs \<and> list_all2 P xs rs"
proof (induction xs)
  case (Cons x xs)
  from Cons.prems [of x] obtain r where "f x = Some r" "P x r" by auto
  moreover from Cons obtain rs where "map f xs = map Some rs" "list_all2 P xs rs" by auto
  ultimately show ?case by (intro exI [of _ "r # rs"]) simp
qed simp

lemma mset_concat_map: "mset (concat (map f xs)) = (\<Sum>x \<in># mset xs. mset (f x))"
  by (induction xs) simp_all

lemma rooted_from_root: "rooted chats m x \<longleftrightarrow> (\<exists>c \<in> set (rootChats chats). below chats c m x)"
proof
  show "rooted chats m x \<Longrightarrow> \<exists>c \<in> set (rootChats chats). below chats c m x"
  proof (induction rule: rooted.induct)
    case (rootId c)
    then show ?case by (auto simp: rootChats_def intro: below.self)
  next
    case (child n p c)
    then show ?case by (meson below.step)
  qed
next
  assume "\<exists>c \<in> set (rootChats chats). below chats c m x"
  then obtain c where "rooted chats 0 c" "below chats c m x"
    by (auto simp: rootChats_def intro: rooted.rootId)
  then show "rooted chats m x" using rooted_below by fastforce
qed

text \<open>The drawer lists every chat that descends from a root exactly once, under its ancestors,
  indented by its depth, whatever the order of the list and the comparison of strings.\<close>

theorem drawer_lists_each_chat_once:
  assumes "distinct (map ch_id chats)" "chats \<noteq> []"
  shows "\<exists>secs. buildChatWorkspaceSections (length chats) compare chats = map Some secs
    \<and> distinct (map ro_chat (concat (map se_data secs)))
    \<and> ro_chat ` set (concat (map se_data secs)) = {c. \<exists>m. rooted chats m c}
    \<and> (\<forall>r \<in> set (concat (map se_data secs)). rooted chats (ro_indentLevel r) (ro_chat r))"
proof -
  define es where "es = sort_by (\<lambda>left right. compare (bu_latestUpdatedAt (snd right))
    (bu_latestUpdatedAt (snd left))) (rootsByWorkspace compare chats)"
  define f where "f = bu_roots \<circ> (snd :: string \<times> workspaceBucket \<Rightarrow> workspaceBucket)"
  have "mset (concat (map f es)) = mset (rootChats chats)"
    using bucket_rootsByWorkspace [of compare chats]
    by (simp add: mset_concat_map es_def bucket_chats_def f_def)
  moreover have "distinct (rootChats chats)"
    using assms(1) by (simp add: rootChats_def distinct_map)
  ultimately have dist: "distinct (concat (map f es))" and cs: "set (concat (map f es)) = set (rootChats chats)"
    by (metis mset_eq_imp_distinct_iff, metis set_mset_mset)
  have root0: "rooted chats 0 c" if "c \<in> set (concat (map f es))" for c
    using that unfolding cs by (auto simp: rootChats_def intro: rooted.rootId)
  have "\<exists>s. workspaceSection (length chats) compare chats e = Some s
      \<and> forest_rows chats (f e) (se_data s)" if "e \<in> set es" for e
  proof -
    have "distinct (f e)" using dist that by (auto simp: distinct_concat_iff)
    moreover have "rooted chats 0 c" if "c \<in> set (f e)" for c
      using root0 [of c] that \<open>e \<in> set es\<close> by auto
    ultimately obtain rows where "bucketRows (length chats) compare chats (snd e) = Some rows"
        "forest_rows chats (f e) rows"
      using bucket_enough [OF assms(1), of "snd e" compare] by (auto simp: f_def)
    then show ?thesis by (simp add: workspaceSection_def)
  qed
  from map_Some [OF this, of es "\<lambda>e. e"] obtain ss
    where ss: "map (workspaceSection (length chats) compare chats) es = map Some ss"
      "list_all2 (\<lambda>e s. forest_rows chats (f e) (se_data s)) es ss"
    by auto
  have "forest_rows chats (concat (map f es)) (concat (map se_data ss))"
    by (rule forest_concat [OF assms(1) ss(2) dist root0])
  then have rows: "distinct (map ro_chat (concat (map se_data ss)))"
      "ro_chat ` set (concat (map se_data ss)) = {x. \<exists>c \<in> set (rootChats chats). \<exists>k. below chats c k x}"
      "\<forall>r \<in> set (concat (map se_data ss)). rooted chats (ro_indentLevel r) (ro_chat r)"
    unfolding forest_rows_def cs by blast+
  have "{x. \<exists>c \<in> set (rootChats chats). \<exists>k. below chats c k x} = {c. \<exists>m. rooted chats m c}"
    unfolding rooted_from_root by blast
  with rows ss(1) assms(2) show ?thesis
    by (intro exI [of _ ss]) (simp add: buildChatWorkspaceSections_def es_def)
qed

definition sampleChat :: "string \<Rightarrow> string option \<Rightarrow> chatSummary" where
  "sampleChat i parent = \<lparr>ch_id = i, ch_title = i, ch_status = Idle, ch_updatedAt = ''1'', ch_cwd = None,
     ch_parentThreadId = parent, ch_subAgentDepth = None\<rparr>"

lemma drawer_lists_each_chat_once_witness:
  "\<exists>secs. buildChatWorkspaceSections 2 (\<lambda>_ _. 0) [sampleChat ''b'' (Some ''a''), sampleChat ''a'' None] = map Some secs
    \<and> distinct (map ro_chat (concat (map se_data secs)))"
proof -
  have "distinct (map ch_id [sampleChat ''b'' (Some ''a''), sampleChat ''a'' None])"
    by (simp add: sampleChat_def)
  from drawer_lists_each_chat_once [OF this, of "\<lambda>_ _. 0"] show ?thesis by (auto simp: numeral_2_eq_2)
qed

text \<open>Chats whose parents form a cycle are in no section: two chats that name each other as
  parent both disappear from the drawer.\<close>

theorem cyclic_chats_disappear:
  assumes "i \<noteq> j" "trim i = i" "trim j = j" "i \<noteq> []" "j \<noteq> []"
  shows "buildChatWorkspaceSections fuel compare [sampleChat i (Some j), sampleChat j (Some i)] = []"
  using assms
  by (simp add: buildChatWorkspaceSections_def rootsByWorkspace_def rootChats_def listedParent_def
      normalizeThreadId_def sampleChat_def sort_by_def)

lemma cyclic_chats_disappear_witness:
  "buildChatWorkspaceSections 5 (\<lambda>_ _. 0) [sampleChat ''x'' (Some ''y''), sampleChat ''y'' (Some ''x'')] = []"
proof -
  have "trim ''x'' = ''x''" "trim ''y'' = ''y''" by code_simp+
  then show ?thesis by (intro cyclic_chats_disappear) simp_all
qed

end
