(* ===== verification/UrlRules.thy ===== *)
theory UrlRules
  imports JsText
begin

text \<open>
  Which URLs the client accepts: \<open>bridgeUrl.ts\<close> and \<open>browserPreview/constants.ts\<close>.  The class
  \<open>URL\<close> of the platform is a parameter, a record of its constructor (nothing where it throws),
  getters and setters.  Hosts are lower-cased as ASCII, which a parsed host is.
\<close>

record 'u urlApi =
  url_parse :: "string \<Rightarrow> 'u option"
  url_href :: "'u \<Rightarrow> string"
  url_protocol :: "'u \<Rightarrow> string"
  url_host :: "'u \<Rightarrow> string"
  url_hostname :: "'u \<Rightarrow> string"
  url_username :: "'u \<Rightarrow> string"
  url_password :: "'u \<Rightarrow> string"
  url_pathname :: "'u \<Rightarrow> string"
  url_setProtocol :: "string \<Rightarrow> 'u \<Rightarrow> 'u"
  url_setPathname :: "string \<Rightarrow> 'u \<Rightarrow> 'u"
  url_setSearch :: "string \<Rightarrow> 'u \<Rightarrow> 'u"
  url_setHash :: "string \<Rightarrow> 'u \<Rightarrow> 'u"
  url_setUsername :: "string \<Rightarrow> 'u \<Rightarrow> 'u"
  url_setPassword :: "string \<Rightarrow> 'u \<Rightarrow> 'u"

section \<open>Bridge URLs\<close>

definition SUPPORTED_PROTOCOLS :: "string list" where
  "SUPPORTED_PROTOCOLS = [''http:'', ''https:'', ''ws:'', ''wss:'']"

definition strip_slashes :: "string \<Rightarrow> string" where
  "strip_slashes s = rev (dropWhile (\<lambda>c. c = CHR ''/'') (rev s))"

definition drop_slash :: "string \<Rightarrow> string" where
  "drop_slash s = (if ends_with s ''/'' then drop_last 1 s else s)"

definition normalizeBridgeUrlInput :: "'u urlApi \<Rightarrow> string \<Rightarrow> string option" where
  "normalizeBridgeUrlInput api value =
     (let trimmed = trim value in
      if trimmed = [] then None
      else (case url_parse api trimmed of
         None \<Rightarrow> None
       | Some parsed \<Rightarrow>
           if url_protocol api parsed \<notin> set SUPPORTED_PROTOCOLS then None
           else if url_hostname api parsed = [] \<or> url_username api parsed \<noteq> []
             \<or> url_password api parsed \<noteq> [] then None
           else
             let protocol = url_protocol api parsed;
                 normalizedProtocol = (if protocol = ''ws:'' then ''http:''
                   else if protocol = ''wss:'' then ''https:'' else protocol);
                 normalizedPath = strip_slashes (url_pathname api parsed);
                 p1 = url_setProtocol api normalizedProtocol parsed;
                 p2 = url_setPathname api normalizedPath p1;
                 p3 = url_setSearch api [] p2;
                 p4 = url_setHash api [] p3;
                 p5 = url_setUsername api [] p4;
                 p6 = url_setPassword api [] p5
             in Some (drop_slash (url_href api p6))))"

definition octet :: "string \<Rightarrow> nat option" where
  "octet s = (if s \<noteq> [] \<and> length s \<le> 3 \<and> list_all is_digit s \<and> digits_val s \<le> 255
     then Some (digits_val s) else None)"

definition privateOctets :: "nat \<Rightarrow> nat \<Rightarrow> bool" where
  "privateOctets first second \<longleftrightarrow>
     first = 10 \<or> (first = 172 \<and> 16 \<le> second \<and> second \<le> 31) \<or> (first = 192 \<and> second = 168)
     \<or> (first = 169 \<and> second = 254) \<or> (first = 100 \<and> 64 \<le> second \<and> second \<le> 127)"

definition isLikelyPrivateHost :: "string \<Rightarrow> bool" where
  "isLikelyPrivateHost hostname =
     (let normalized = map lower_char (trim hostname);
          host = (if starts_with normalized ''['' \<and> ends_with normalized '']''
            then drop_last 1 (tl normalized) else normalized)
      in if host = [] then False
         else if host = ''localhost'' \<or> host = ''127.0.0.1'' \<or> host = ''::1'' \<or> ends_with host ''.local''
         then True
         else if CHR '':'' \<in> set host
         then starts_with host ''fc'' \<or> starts_with host ''fd'' \<or> starts_with host ''fe80:''
         else (case map octet (split_on CHR ''.'' host) of
            [Some first, Some second, Some third, Some fourth] \<Rightarrow> privateOctets first second
          | _ \<Rightarrow> False))"

definition isInsecureRemoteUrl :: "'u urlApi \<Rightarrow> string \<Rightarrow> bool" where
  "isInsecureRemoteUrl api url =
     (case url_parse api url of
        None \<Rightarrow> False
      | Some parsed \<Rightarrow> url_protocol api parsed = ''http:'' \<and> \<not> isLikelyPrivateHost (url_hostname api parsed))"

definition toBridgeHealthUrl :: "string \<Rightarrow> string" where
  "toBridgeHealthUrl baseUrl = drop_slash baseUrl @ ''/health''"

section \<open>Preview targets\<close>

definition LOOPBACK_HOSTS :: "string list" where
  "LOOPBACK_HOSTS = [''localhost'', ''127.0.0.1'', ''::1'', ''[::1]'']"

definition MAX_RECENT_TARGETS :: nat where "MAX_RECENT_TARGETS = 8"

text \<open>\<open>PORT_ONLY_PATTERN\<close>\<close>

definition portOnly :: "string \<Rightarrow> bool" where
  "portOnly s \<longleftrightarrow> 2 \<le> length s \<and> length s \<le> 5 \<and> list_all is_digit s"

text \<open>What may follow the host in \<open>LOCAL_PREVIEW_WITHOUT_SCHEME_PATTERN\<close>: a port, then a path.\<close>

definition localPreviewTail :: "string \<Rightarrow> bool" where
  "localPreviewTail s =
     (let port = (if starts_with s '':'' then digit_run (tl s) else ([], s));
          rest = snd port
      in (starts_with s '':'' \<longrightarrow> 1 \<le> length (fst port) \<and> length (fst port) \<le> 5)
         \<and> (case rest of
              [] \<Rightarrow> True
            | c # r \<Rightarrow> c \<in> set ''/?#'' \<and> list_all (\<lambda>t. \<not> has_substring r t) line_terminators))"

definition localPreviewWithoutScheme :: "string \<Rightarrow> bool" where
  "localPreviewWithoutScheme s =
     list_ex (\<lambda>host. starts_with (map lower_char s) host \<and> localPreviewTail (drop (length host) s))
       [''localhost'', ''127.0.0.1'', ''[::1]'']"

definition normalizePreviewTargetInput :: "'u urlApi \<Rightarrow> string \<Rightarrow> string option" where
  "normalizePreviewTargetInput api value =
     (let trimmed = trim value in
      if trimmed = [] then None
      else
        let candidate = (if portOnly trimmed then ''http://127.0.0.1:'' @ trimmed
              else if localPreviewWithoutScheme trimmed then ''http://'' @ trimmed
              else trimmed)
        in case url_parse api candidate of
             None \<Rightarrow> None
           | Some parsed \<Rightarrow>
               if url_protocol api parsed \<noteq> ''http:'' \<and> url_protocol api parsed \<noteq> ''https:'' then None
               else
                 let host = map lower_char (trim (url_host api parsed));
                     hostname = map lower_char (trim (url_hostname api parsed))
                 in if host \<notin> set LOOPBACK_HOSTS \<and> hostname \<notin> set LOOPBACK_HOSTS then None
                    else if url_username api parsed \<noteq> [] \<or> url_password api parsed \<noteq> [] then None
                    else
                      let p1 = url_setHash api [] parsed;
                          p2 = (if url_pathname api p1 = [] then url_setPathname api ''/'' p1 else p1)
                      in Some (url_href api p2))"

text \<open>The loop of \<open>dedupeRecentPreviewTargets\<close> over the values left, with what it kept so far.\<close>

fun dedupeTargets :: "'u urlApi \<Rightarrow> string list \<Rightarrow> string list \<Rightarrow> string list" where
  "dedupeTargets api deduped [] = deduped"
| "dedupeTargets api deduped (value # values) =
     (case normalizePreviewTargetInput api value of
        None \<Rightarrow> dedupeTargets api deduped values
      | Some normalized \<Rightarrow>
          if normalized = [] \<or> normalized \<in> set deduped then dedupeTargets api deduped values
          else
            let next = deduped @ [normalized] in
            if length next \<ge> MAX_RECENT_TARGETS then next else dedupeTargets api next values)"

definition dedupeRecentPreviewTargets :: "'u urlApi \<Rightarrow> string list \<Rightarrow> string list" where
  "dedupeRecentPreviewTargets api values = dedupeTargets api [] values"

datatype viewportPreset = Mobile | Desktop

record browserPreviewViewportSpec =
  vp_preset :: viewportPreset
  vp_width :: "rat option"
  vp_height :: "rat option"

definition MIN_BROWSER_PREVIEW_VIEWPORT_SIZE :: int where "MIN_BROWSER_PREVIEW_VIEWPORT_SIZE = 320"
definition MAX_BROWSER_PREVIEW_VIEWPORT_SIZE :: int where "MAX_BROWSER_PREVIEW_VIEWPORT_SIZE = 4096"

text \<open>\<open>Math.round\<close> rounds halves up.\<close>

definition normalizeViewportDimension :: "rat option \<Rightarrow> rat option" where
  "normalizeViewportDimension value =
     (case value of
        None \<Rightarrow> None
      | Some q \<Rightarrow>
          let normalized = \<lfloor>q + 1 / 2\<rfloor> in
          if normalized < MIN_BROWSER_PREVIEW_VIEWPORT_SIZE \<or> normalized > MAX_BROWSER_PREVIEW_VIEWPORT_SIZE
          then None else Some (of_int normalized))"

definition DEFAULT_BROWSER_PREVIEW_VIEWPORT :: browserPreviewViewportSpec where
  "DEFAULT_BROWSER_PREVIEW_VIEWPORT = \<lparr>vp_preset = Mobile, vp_width = None, vp_height = None\<rparr>"

definition normalizeBrowserPreviewViewportSpec ::
  "browserPreviewViewportSpec option \<Rightarrow> browserPreviewViewportSpec" where
  "normalizeBrowserPreviewViewportSpec viewport =
     (case viewport of
        None \<Rightarrow> DEFAULT_BROWSER_PREVIEW_VIEWPORT
      | Some v \<Rightarrow>
          if vp_preset v \<noteq> Desktop then DEFAULT_BROWSER_PREVIEW_VIEWPORT
          else \<lparr>vp_preset = Desktop, vp_width = normalizeViewportDimension (vp_width v),
             vp_height = normalizeViewportDimension (vp_height v)\<rparr>)"

section \<open>Laws\<close>

lemma dedupeTargets_ok:
  assumes "distinct deduped" "length deduped < MAX_RECENT_TARGETS"
  shows "distinct (dedupeTargets api deduped values) \<and> length (dedupeTargets api deduped values) \<le> MAX_RECENT_TARGETS"
  using assms
  by (induction api deduped "values" rule: dedupeTargets.induct) (auto simp: Let_def split: option.split)

lemma dedupeTargets_normal:
  "list_all (\<lambda>t. \<exists>v. normalizePreviewTargetInput api v = Some t) deduped \<Longrightarrow>
   list_all (\<lambda>t. \<exists>v. normalizePreviewTargetInput api v = Some t) (dedupeTargets api deduped values)"
  by (induction api deduped "values" rule: dedupeTargets.induct) (auto simp: Let_def split: option.split)

text \<open>The recent preview targets are at most eight, pairwise different, and each is a
  normalized loopback URL, whatever was stored.\<close>

theorem recent_targets_bounded:
  "length (dedupeRecentPreviewTargets api values) \<le> 8
   \<and> distinct (dedupeRecentPreviewTargets api values)
   \<and> list_all (\<lambda>t. \<exists>v. normalizePreviewTargetInput api v = Some t) (dedupeRecentPreviewTargets api values)"
  using dedupeTargets_ok [of "[]" api "values"] dedupeTargets_normal [of api "[]" "values"]
  by (simp add: dedupeRecentPreviewTargets_def MAX_RECENT_TARGETS_def)

section \<open>IPv4 hosts\<close>

definition dotted :: "nat list \<Rightarrow> string" where
  "dotted ns = join ''.'' (map show_nat ns)"

definition host_char :: "char \<Rightarrow> bool" where
  "host_char c \<longleftrightarrow> is_digit c \<or> c = CHR ''.''"

lemma not_host_char:
  "\<not> host_char CHR '':''" "\<not> host_char CHR ''l''" "\<not> host_char CHR ''[''"
  by (simp_all add: host_char_def is_digit_def)

lemma host_excludes:
  assumes "list_all host_char h"
  shows "CHR '':'' \<notin> set h" "\<not> ends_with h ''.local''" "\<not> starts_with h ''[''" "h \<noteq> ''localhost''"
    "h \<noteq> ''::1''"
  using assms not_host_char by (auto simp: list_all_iff ends_with_def suffix_def starts_with_def prefix_def)

definition graph_char :: "char \<Rightarrow> bool" where
  "graph_char c \<longleftrightarrow> 33 \<le> (of_char c :: nat) \<and> (of_char c :: nat) \<le> 126"

lemma no_space_graph: "\<forall>u \<in> set white_space. u \<noteq> [] \<and> \<not> graph_char (hd u) \<and> \<not> graph_char (last u)"
  by code_simp

lemma trim_graph:
  assumes "list_all graph_char s"
  shows "trim s = s"
proof -
  have "leading_unit white_space s = None"
    using no_space_graph assms
    by (cases s) (auto simp: leading_unit_None neq_Nil_conv prefix_Cons)
  moreover have "leading_unit (map rev white_space) (rev s) = None"
  proof (unfold leading_unit_None, intro ballI impI notI)
    fix u assume u: "u \<in> set (map rev white_space)" "u \<noteq> []" "prefix u (rev s)"
    then obtain w where w: "w \<in> set white_space" "u = rev w" by auto
    with u have "suffix w s" by (simp add: suffix_to_prefix)
    then have "set w \<subseteq> set s" by (auto simp: suffix_def)
    moreover from w no_space_graph have "w \<noteq> []" "\<not> graph_char (last w)" by auto
    ultimately show False using assms last_in_set by (auto simp: list_all_iff)
  qed
  ultimately show ?thesis by (simp add: trim_def trim_start_def trim_end_def strip_units_id)
qed

lemma trim_host: "list_all host_char s \<Longrightarrow> trim s = s"
  by (rule trim_graph) (auto simp: list_all_iff host_char_def graph_char_def is_digit_def)

lemma list_all_join: "list_all P sep \<Longrightarrow> list_all (list_all P) xs \<Longrightarrow> list_all P (join sep xs)"
  by (induction sep xs rule: join.induct) auto

lemma dotted_chars: "list_all host_char (dotted ns)"
  unfolding dotted_def
  by (rule list_all_join) (auto simp: host_char_def list_all_iff dest: show_nat_digits)

lemma split_dotted: "ns \<noteq> [] \<Longrightarrow> split_on CHR ''.'' (dotted ns) = map show_nat ns"
  unfolding dotted_def
  by (rule split_on_join) (auto dest!: show_nat_digits simp: is_digit_def)

lemma dotted_inject: "ms \<noteq> [] \<Longrightarrow> ns \<noteq> [] \<Longrightarrow> dotted ms = dotted ns \<longleftrightarrow> ms = ns"
  by (metis split_dotted inj_map_eq_map injI show_nat_inject)

lemma lower_host: "list_all host_char s \<Longrightarrow> map lower_char s = s"
  by (rule map_idI) (auto simp: list_all_iff lower_char_def host_char_def is_digit_def)

lemma octet_show_nat: "n \<le> 255 \<Longrightarrow> octet (show_nat n) = Some n"
proof -
  assume n: "n \<le> 255"
  then have "length (show_nat n) \<le> 3"
    by (subst show_nat.simps, simp, subst show_nat.simps, simp, subst show_nat.simps, simp)
  with n show ?thesis by (simp add: octet_def list_all_iff show_nat_digits)
qed

text \<open>A dotted IPv4 address counts as private exactly in the ranges 10/8, 172.16/12,
  192.168/16, 169.254/16 and 100.64/10 and for the loopback address.\<close>

theorem private_ipv4_ranges:
  assumes "list_all (\<lambda>n. n \<le> 255) [a, b, c, d]"
  shows "isLikelyPrivateHost (dotted [a, b, c, d]) \<longleftrightarrow> privateOctets a b \<or> [a, b, c, d] = [127, 0, 0, 1]"
proof -
  define h where "h = dotted [a, b, c, d]"
  have chars: "list_all host_char h" by (simp add: h_def dotted_chars)
  note not = host_excludes [OF chars]
  have "h \<noteq> []" by (auto simp: h_def dotted_def)
  have "h = dotted [127, 0, 0, 1] \<longleftrightarrow> [a, b, c, d] = [127, 0, 0, 1]"
    unfolding h_def by (rule dotted_inject) simp_all
  moreover have "dotted [127, 0, 0, 1] = ''127.0.0.1''" by code_simp
  moreover have "map octet (split_on CHR ''.'' h) = [Some a, Some b, Some c, Some d]"
    using assms by (simp add: h_def split_dotted octet_show_nat)
  ultimately show ?thesis
    unfolding h_def [symmetric] isLikelyPrivateHost_def
    using not \<open>h \<noteq> []\<close> by (auto simp: trim_host lower_host chars)
qed

theorem private_ipv4_ranges_witness:
  "\<not> isLikelyPrivateHost (dotted [172, 32, 0, 1]) \<and> isLikelyPrivateHost (dotted [100, 127, 0, 9])"
  using private_ipv4_ranges [of 172 32 0 1] private_ipv4_ranges [of 100 127 0 9]
  by (simp add: privateOctets_def)

end
