(* ===== verification/AppSettings.thy ===== *)
theory AppSettings
  imports UrlRules JsonLaws
begin

text \<open>
  The persisted settings: \<open>appSettings.ts\<close>, the settings part of \<open>appState/model.ts\<close> and the font
  preference of \<open>fonts.ts\<close>.  Every value is read from untyped JSON by a total normalizer and written
  back by \<open>JSON.stringify\<close>; the locales \<open>codec\<close> and \<open>stored\<close> state what such a pair promises.
\<close>

section \<open>Stored values\<close>

locale codec =
  fixes reads :: "jsv \<Rightarrow> 'a"
    and writes :: "'a \<Rightarrow> jsv"
    and ok :: "'a \<Rightarrow> bool"
  assumes reads_writes: "ok a \<Longrightarrow> reads (writes a) = a"
begin

lemma writes_inject: "ok a \<Longrightarrow> ok b \<Longrightarrow> writes a = writes b \<Longrightarrow> a = b"
  using reads_writes by metis

lemma reads_text:
  "ok a \<Longrightarrow> json_plain (writes a) \<Longrightarrow> map_option reads (json_parse (json_text (writes a))) = Some a"
  by (simp add: json_parse_text reads_writes)

end

locale stored = codec +
  assumes reads_ok: "ok (reads v)"
begin

lemma reads_again: "reads (writes (reads v)) = reads v"
  by (rule reads_writes [OF reads_ok])

lemma ok_iff: "ok a \<longleftrightarrow> reads (writes a) = a"
  using reads_writes reads_ok by metis

end

section \<open>The settings\<close>

datatype approvalMode = NormalApproval | Yolo
datatype appearancePreference = SystemAppearance | LightAppearance | DarkAppearance
datatype darkUiPalette = ClassicPalette | GreyPalette
datatype fontPreference =
  SystemFont | IbmPlex | SpaceGrotesk | JetbrainsMono | SourceCodePro | FiraCode | SpaceMono
datatype collaborationMode = DefaultMode | PlanMode

definition APP_SETTINGS_VERSION :: rat where "APP_SETTINGS_VERSION = 13"

text \<open>A \<open>null\<close> limit shows all chats.\<close>

type_synonym workspaceChatLimit = "rat option"

definition DEFAULT_WORKSPACE_CHAT_LIMIT :: workspaceChatLimit where
  "DEFAULT_WORKSPACE_CHAT_LIMIT = Some 5"

definition DEFAULT_FONT_PREFERENCE :: fontPreference where "DEFAULT_FONT_PREFERENCE = JetbrainsMono"

record appSettingsState =
  defaultStartCwd :: "string option"
  preferredAgentId :: "string option"
  agentSettings :: "(string \<times> collaborationMode) list"
  approvalMode :: approvalMode
  showToolCalls :: bool
  workspaceChatLimit :: workspaceChatLimit
  appearancePreference :: appearancePreference
  darkUiPalette :: darkUiPalette
  fontPreference :: fontPreference
  recentBrowserTargetUrls :: "string list"

record parsedAppSettings =
  parsedBridgeUrl :: "string option"
  parsedBridgeToken :: "string option"
  parsedSettings :: appSettingsState

definition createDefaultAppSettings :: appSettingsState where
  "createDefaultAppSettings =
     \<lparr>defaultStartCwd = None, preferredAgentId = None, agentSettings = [],
      approvalMode = NormalApproval, showToolCalls = True,
      workspaceChatLimit = DEFAULT_WORKSPACE_CHAT_LIMIT, appearancePreference = SystemAppearance,
      darkUiPalette = ClassicPalette, fontPreference = DEFAULT_FONT_PREFERENCE,
      recentBrowserTargetUrls = []\<rparr>"

definition emptyParsedSettings :: parsedAppSettings where
  "emptyParsedSettings =
     \<lparr>parsedBridgeUrl = None, parsedBridgeToken = None, parsedSettings = createDefaultAppSettings\<rparr>"

section \<open>Normalizers\<close>

definition normalizeStoredBridgeUrl :: "'u urlApi \<Rightarrow> jsv \<Rightarrow> string option" where
  "normalizeStoredBridgeUrl api value =
     (case value of JStr s \<Rightarrow> normalizeBridgeUrlInput api s | _ \<Rightarrow> None)"

text \<open>\<open>normalizeBridgeToken\<close>, \<open>normalizeDefaultStartCwd\<close> and \<open>normalizeAgentId\<close> are the same function,
  \<open>normalizeNullableString\<close> of \<open>model.ts\<close> too.\<close>

definition normalizeNullableString :: "jsv \<Rightarrow> string option" where
  "normalizeNullableString value =
     (case value of JStr s \<Rightarrow> if trim s \<noteq> [] then Some (trim s) else None | _ \<Rightarrow> None)"

text \<open>\<open>Number.parseInt(s, 10)\<close>; nothing for \<open>NaN\<close>.\<close>

definition parse_int :: "string \<Rightarrow> int option" where
  "parse_int s =
     (let t = trim_start s;
          digits = takeWhile is_digit
            (if starts_with t ''-'' \<or> starts_with t ''+'' then tl t else t)
      in if digits = [] then None
         else if starts_with t ''-'' then Some (- int (digits_val digits))
         else Some (int (digits_val digits)))"

definition normalizeWorkspaceChatLimit :: "jsv \<Rightarrow> workspaceChatLimit" where
  "normalizeWorkspaceChatLimit value =
     (if value = JNull \<or> value = JStr ''all'' then None
      else
        let numericValue =
          (case value of
             JNum q \<Rightarrow> Some q
           | JStr s \<Rightarrow> map_option of_int (parse_int (trim s))
           | _ \<Rightarrow> None)
        in if numericValue = Some 10 \<or> numericValue = Some 25 then numericValue
           else if numericValue = Some 5 then Some 5
           else DEFAULT_WORKSPACE_CHAT_LIMIT)"

definition normalizeCollaborationMode :: "jsv \<Rightarrow> collaborationMode" where
  "normalizeCollaborationMode value =
     (case value of
        JStr s \<Rightarrow> if map lower_char (trim s) = ''plan'' then PlanMode else DefaultMode
      | _ \<Rightarrow> DefaultMode)"

fun agentEntry :: "string \<times> jsv \<Rightarrow> (string \<times> collaborationMode) list \<Rightarrow> (string \<times> collaborationMode) list"
where
  "agentEntry (rawAgentId, rawEntry) normalized =
     (case (normalizeNullableString (JStr rawAgentId), toRecord rawEntry) of
        (Some agentId, Some entry) \<Rightarrow>
          obj_set agentId (normalizeCollaborationMode (prop_of entry ''collaborationMode'')) normalized
      | _ \<Rightarrow> normalized)"

definition normalizeAgentSettings :: "jsv \<Rightarrow> (string \<times> collaborationMode) list" where
  "normalizeAgentSettings value =
     (case js_entries value of None \<Rightarrow> [] | Some entries \<Rightarrow> fold agentEntry entries [])"

definition normalizeBrowserTargetUrls :: "'u urlApi \<Rightarrow> jsv \<Rightarrow> string list" where
  "normalizeBrowserTargetUrls api value =
     (case value of
        JArr entries \<Rightarrow>
          dedupeRecentPreviewTargets api
            (List.map_filter
              (\<lambda>entry. case entry of JStr s \<Rightarrow> normalizePreviewTargetInput api s | _ \<Rightarrow> None) entries)
      | _ \<Rightarrow> [])"

definition normalizeStoredApprovalMode :: "jsv \<Rightarrow> approvalMode" where
  "normalizeStoredApprovalMode value = (if value = JStr ''yolo'' then Yolo else NormalApproval)"

definition normalizeBoolean :: "jsv \<Rightarrow> bool" where
  "normalizeBoolean value \<longleftrightarrow> value = JBool True"

definition normalizeStoredDarkUiPalette :: "jsv \<Rightarrow> darkUiPalette" where
  "normalizeStoredDarkUiPalette value = (if value = JStr ''grey'' then GreyPalette else ClassicPalette)"

definition normalizeStoredAppearancePreference ::
  "jsv \<Rightarrow> appearancePreference \<Rightarrow> appearancePreference" where
  "normalizeStoredAppearancePreference value fallback =
     (if value = JStr ''light'' then LightAppearance
      else if value = JStr ''dark'' then DarkAppearance
      else if value = JStr ''system'' then SystemAppearance
      else fallback)"

definition normalizeFontPreference :: "jsv \<Rightarrow> fontPreference" where
  "normalizeFontPreference value =
     (if value = JStr ''system'' then SystemFont
      else if value = JStr ''ibmPlex'' then IbmPlex
      else if value = JStr ''spaceGrotesk'' then SpaceGrotesk
      else if value = JStr ''jetbrainsMono'' then JetbrainsMono
      else if value = JStr ''sourceCodePro'' then SourceCodePro
      else if value = JStr ''firaCode'' then FiraCode
      else if value = JStr ''spaceMono'' then SpaceMono
      else DEFAULT_FONT_PREFERENCE)"

definition parseAppSettings :: "'u urlApi \<Rightarrow> string \<Rightarrow> parsedAppSettings" where
  "parseAppSettings api raw =
     (if trim raw = [] then emptyParsedSettings
      else case json_parse raw of
        Some (JObj parsed) \<Rightarrow>
          if prop_of parsed ''version'' \<noteq> JNum APP_SETTINGS_VERSION then emptyParsedSettings
          else
            \<lparr>parsedBridgeUrl = normalizeStoredBridgeUrl api (prop_of parsed ''bridgeUrl''),
             parsedBridgeToken = normalizeNullableString (prop_of parsed ''bridgeToken''),
             parsedSettings =
               \<lparr>defaultStartCwd = normalizeNullableString (prop_of parsed ''defaultStartCwd''),
                preferredAgentId = normalizeNullableString (prop_of parsed ''preferredAgentId''),
                agentSettings = normalizeAgentSettings (prop_of parsed ''agentSettings''),
                approvalMode = normalizeStoredApprovalMode (prop_of parsed ''approvalMode''),
                showToolCalls =
                  (if prop_of parsed ''showToolCalls'' = JUndefined then True
                   else normalizeBoolean (prop_of parsed ''showToolCalls'')),
                workspaceChatLimit = normalizeWorkspaceChatLimit (prop_of parsed ''workspaceChatLimit''),
                appearancePreference = normalizeStoredAppearancePreference
                  (prop_of parsed ''appearancePreference'') SystemAppearance,
                darkUiPalette = normalizeStoredDarkUiPalette (prop_of parsed ''darkUiPalette''),
                fontPreference = normalizeFontPreference (prop_of parsed ''fontPreference''),
                recentBrowserTargetUrls =
                  normalizeBrowserTargetUrls api (prop_of parsed ''recentBrowserTargetUrls'')\<rparr>\<rparr>
      | _ \<Rightarrow> emptyParsedSettings)"

definition formatWorkspaceChatLimit :: "workspaceChatLimit \<Rightarrow> string" where
  "formatWorkspaceChatLimit value =
     (case value of None \<Rightarrow> ''All chats'' | Some q \<Rightarrow> show_num q @ '' chats'')"

section \<open>Settings as JSON\<close>

fun string_json :: "string option \<Rightarrow> jsv" where
  "string_json None = JNull"
| "string_json (Some s) = JStr s"

fun approval_json :: "approvalMode \<Rightarrow> jsv" where
  "approval_json NormalApproval = JStr ''normal''"
| "approval_json Yolo = JStr ''yolo''"

fun appearance_json :: "appearancePreference \<Rightarrow> jsv" where
  "appearance_json SystemAppearance = JStr ''system''"
| "appearance_json LightAppearance = JStr ''light''"
| "appearance_json DarkAppearance = JStr ''dark''"

fun palette_json :: "darkUiPalette \<Rightarrow> jsv" where
  "palette_json ClassicPalette = JStr ''classic''"
| "palette_json GreyPalette = JStr ''grey''"

fun font_json :: "fontPreference \<Rightarrow> jsv" where
  "font_json SystemFont = JStr ''system''"
| "font_json IbmPlex = JStr ''ibmPlex''"
| "font_json SpaceGrotesk = JStr ''spaceGrotesk''"
| "font_json JetbrainsMono = JStr ''jetbrainsMono''"
| "font_json SourceCodePro = JStr ''sourceCodePro''"
| "font_json FiraCode = JStr ''firaCode''"
| "font_json SpaceMono = JStr ''spaceMono''"

fun mode_json :: "collaborationMode \<Rightarrow> jsv" where
  "mode_json DefaultMode = JStr ''default''"
| "mode_json PlanMode = JStr ''plan''"

fun limit_json :: "workspaceChatLimit \<Rightarrow> jsv" where
  "limit_json None = JNull"
| "limit_json (Some q) = JNum q"

definition agents_json :: "(string \<times> collaborationMode) list \<Rightarrow> jsv" where
  "agents_json m = JObj (map (\<lambda>(k, mode). (k, JObj [(''collaborationMode'', mode_json mode)])) m)"

definition settings_obj :: "appSettingsState \<Rightarrow> jobj" where
  "settings_obj s =
     [(''defaultStartCwd'', string_json (defaultStartCwd s)),
      (''preferredAgentId'', string_json (preferredAgentId s)),
      (''agentSettings'', agents_json (agentSettings s)),
      (''approvalMode'', approval_json (approvalMode s)),
      (''showToolCalls'', JBool (showToolCalls s)),
      (''workspaceChatLimit'', limit_json (workspaceChatLimit s)),
      (''appearancePreference'', appearance_json (appearancePreference s)),
      (''darkUiPalette'', palette_json (darkUiPalette s)),
      (''fontPreference'', font_json (fontPreference s)),
      (''recentBrowserTargetUrls'', JArr (map JStr (recentBrowserTargetUrls s)))]"

text \<open>\<open>normalizeAppSettings\<close> writes the ten settings as JSON and reads them back.\<close>

definition normalizeAppSettings :: "'u urlApi \<Rightarrow> jsv \<Rightarrow> appSettingsState" where
  "normalizeAppSettings api value =
     (let record = with_default (toRecord value) [];
          parsed = parsedSettings (parseAppSettings api (json_text (JObj
            [(''version'', JNum APP_SETTINGS_VERSION),
             (''defaultStartCwd'', prop_of record ''defaultStartCwd''),
             (''preferredAgentId'', prop_of record ''preferredAgentId''),
             (''agentSettings'', prop_of record ''agentSettings''),
             (''approvalMode'', prop_of record ''approvalMode''),
             (''showToolCalls'', prop_of record ''showToolCalls''),
             (''workspaceChatLimit'', prop_of record ''workspaceChatLimit''),
             (''appearancePreference'', prop_of record ''appearancePreference''),
             (''darkUiPalette'', prop_of record ''darkUiPalette''),
             (''fontPreference'', prop_of record ''fontPreference''),
             (''recentBrowserTargetUrls'', prop_of record ''recentBrowserTargetUrls'')])))
      in parsed\<lparr>fontPreference := normalizeFontPreference (font_json (fontPreference parsed)),
           recentBrowserTargetUrls := dedupeRecentPreviewTargets api
             (List.map_filter (normalizePreviewTargetInput api) (recentBrowserTargetUrls parsed))\<rparr>)"

section \<open>The normalizers are stored values\<close>

interpretation approval: stored normalizeStoredApprovalMode approval_json "\<lambda>_. True"
proof unfold_locales
  show "normalizeStoredApprovalMode (approval_json a) = a" for a
    by (cases a) (simp_all add: normalizeStoredApprovalMode_def)
qed simp_all

interpretation palette: stored normalizeStoredDarkUiPalette palette_json "\<lambda>_. True"
proof unfold_locales
  show "normalizeStoredDarkUiPalette (palette_json a) = a" for a
    by (cases a) (simp_all add: normalizeStoredDarkUiPalette_def)
qed simp_all

interpretation appearance: stored "\<lambda>v. normalizeStoredAppearancePreference v fallback"
  appearance_json "\<lambda>_. True" for fallback
proof unfold_locales
  show "normalizeStoredAppearancePreference (appearance_json a) fallback = a" for a
    by (cases a) (simp_all add: normalizeStoredAppearancePreference_def)
qed simp_all

interpretation font: stored normalizeFontPreference font_json "\<lambda>_. True"
proof unfold_locales
  show "normalizeFontPreference (font_json a) = a" for a
    by (cases a) (simp_all add: normalizeFontPreference_def)
qed simp_all

lemma mode_trim [simp]: "trim ''plan'' = ''plan''" "trim ''default'' = ''default''"
  by code_simp+

interpretation mode: stored normalizeCollaborationMode mode_json "\<lambda>_. True"
proof unfold_locales
  show "normalizeCollaborationMode (mode_json a) = a" for a
    by (cases a) (simp_all add: normalizeCollaborationMode_def lower_char_def)
qed simp_all

definition limit_ok :: "workspaceChatLimit \<Rightarrow> bool" where
  "limit_ok l \<longleftrightarrow> l \<in> {None, Some 5, Some 10, Some 25}"

interpretation limit: stored normalizeWorkspaceChatLimit limit_json limit_ok
proof unfold_locales
  show "normalizeWorkspaceChatLimit (limit_json l) = l" if "limit_ok l" for l
    using that by (cases l) (auto simp: limit_ok_def normalizeWorkspaceChatLimit_def)
  show "limit_ok (normalizeWorkspaceChatLimit v)" for v
    by (auto simp: limit_ok_def normalizeWorkspaceChatLimit_def DEFAULT_WORKSPACE_CHAT_LIMIT_def Let_def)
qed

definition trimmed :: "string \<Rightarrow> bool" where
  "trimmed s \<longleftrightarrow> trim s = s \<and> s \<noteq> []"

lemma trimmed_trim [simp]: "trimmed (trim s) \<longleftrightarrow> trim s \<noteq> []"
  by (simp add: trimmed_def)

lemma nullable_JStr: "trimmed s \<Longrightarrow> normalizeNullableString (JStr s) = Some s"
  by (simp add: normalizeNullableString_def trimmed_def)

lemma nullable_trimmed: "normalizeNullableString v = Some s \<Longrightarrow> trimmed s"
  by (auto simp: normalizeNullableString_def split: jsv.splits if_splits)

interpretation nullable: stored normalizeNullableString string_json "pred_option trimmed"
proof unfold_locales
  show "normalizeNullableString (string_json a) = a" if "pred_option trimmed a" for a
    using that by (cases a) (simp_all add: nullable_JStr, simp add: normalizeNullableString_def)
  show "pred_option trimmed (normalizeNullableString v)" for v
    by (cases "normalizeNullableString v") (simp_all add: nullable_trimmed)
qed

section \<open>Objects in enumeration order\<close>

text \<open>Of two keys of an object, which comes first: array indices in numeric order, then the rest.\<close>

definition key_order :: "string \<Rightarrow> string \<Rightarrow> bool" where
  "key_order x y \<longleftrightarrow>
     x \<noteq> y \<and>
     (case array_index y of None \<Rightarrow> True | Some j \<Rightarrow> index_below j (x, ()))"

definition canonical :: "(string \<times> 'v) list \<Rightarrow> bool" where
  "canonical m \<longleftrightarrow> sorted_wrt key_order (map fst m)"

lemma canonical_Nil [simp]: "canonical []"
  by (simp add: canonical_def)

lemma canonical_distinct: "canonical m \<Longrightarrow> distinct (map fst m)"
  unfolding canonical_def
  by (induction m) (force simp: key_order_def)+

lemma index_below_unit: "index_below i (fst kv, ()) = index_below i kv"
  by (simp add: index_below_def)

lemma array_index_inject: "array_index k = Some i \<Longrightarrow> array_index k' = Some i \<Longrightarrow> k = k'"
  by (auto simp: array_index_def split: if_splits)

lemma canonical_insert:
  assumes "canonical m" "k \<notin> fst ` set m" "array_index k = Some i"
  shows "canonical (takeWhile (index_below i) m @ (k, v) # dropWhile (index_below i) m)"
proof -
  define xs ys where "xs = takeWhile (index_below i) m" and "ys = dropWhile (index_below i) m"
  have m: "m = xs @ ys" by (simp add: xs_def ys_def)
  have sorted: "sorted_wrt key_order (map fst (xs @ ys))" using assms(1) m by (simp add: canonical_def)
  have before: "key_order (fst x) k" if "x \<in> set xs" for x
  proof -
    from that have "index_below i x" unfolding xs_def by (rule set_takeWhileD [THEN conjunct2])
    moreover from that assms(2) m have "fst x \<noteq> k" by auto
    ultimately show ?thesis using assms(3) by (simp add: key_order_def index_below_def)
  qed
  have not_below: "\<not> index_below i y" if "y \<in> set ys" for y
  proof (cases ys)
    case (Cons z zs)
    then have z: "\<not> index_below i z" using hd_dropWhile [of "index_below i" m] by (auto simp: ys_def)
    have "y = z \<or> key_order (fst z) (fst y)" using that sorted Cons by (auto simp: sorted_wrt_append)
    with z show ?thesis
      by (auto simp: key_order_def index_below_def split: option.splits)
  qed (use that in simp)
  have after: "key_order k (fst y)" if y: "y \<in> set ys" for y
  proof -
    from y assms(2) m have "fst y \<noteq> k" by auto
    moreover have "i < j" if j: "array_index (fst y) = Some j" for j
    proof -
      have "i \<le> j" using not_below [OF y] j by (simp add: index_below_def)
      moreover have "i \<noteq> j" using array_index_inject assms(3) j \<open>fst y \<noteq> k\<close> by metis
      ultimately show ?thesis by simp
    qed
    ultimately show ?thesis
      using assms(3) by (auto simp: key_order_def index_below_def split: option.splits)
  qed
  show ?thesis
    using sorted before after
    by (auto simp: canonical_def xs_def [symmetric] ys_def [symmetric] sorted_wrt_append)
qed

lemma map_fst_update: "k \<in> fst ` set m \<Longrightarrow> map fst (AList.update k v m) = map fst m"
  by (induction m) auto

lemma canonical_obj_set:
  assumes "canonical m"
  shows "canonical (obj_set k v m)"
proof (cases "k \<in> fst ` set m")
  case True
  with assms show ?thesis by (simp add: obj_set_def canonical_def map_fst_update)
next
  case False
  with assms show ?thesis
  proof (cases "array_index k")
    case None
    with False assms show ?thesis
      by (auto simp: obj_set_def canonical_def sorted_wrt_append key_order_def)
  qed (simp add: obj_set_def canonical_insert)
qed

lemma obj_set_last: "canonical (m @ [(k, v)]) \<Longrightarrow> obj_set k v m = m @ [(k, v)]"
  unfolding canonical_def
  by (auto simp: obj_set_def sorted_wrt_append key_order_def index_below_def takeWhile_eq_all_conv
      dropWhile_eq_Nil_conv split: option.splits)

lemma canonical_butlast: "canonical (m @ ms) \<Longrightarrow> canonical m"
  by (simp add: canonical_def sorted_wrt_append)

lemma from_entries_canonical: "canonical m \<Longrightarrow> from_entries m = m"
proof (induction m rule: rev_induct)
  case (snoc x m)
  obtain k v where "x = (k, v)" by (cases x)
  with snoc canonical_butlast [of m "[x]"] obj_set_last [of m k v] show ?case
    by (simp add: from_entries_def)
qed (simp add: from_entries_def)

definition agents_ok :: "(string \<times> collaborationMode) list \<Rightarrow> bool" where
  "agents_ok m \<longleftrightarrow> canonical m \<and> list_all trimmed (map fst m)"

lemma agents_ok_Nil [simp]: "agents_ok []"
  by (simp add: agents_ok_def)

lemma agents_obj_set: "agents_ok m \<Longrightarrow> trimmed k \<Longrightarrow> agents_ok (obj_set k mode m)"
  by (simp add: agents_ok_def list_all_iff canonical_obj_set del: set_map) (simp add: list_all_iff)

lemma agentEntry_ok: "agents_ok m \<Longrightarrow> agents_ok (agentEntry e m)"
  by (cases e) (auto simp: agents_obj_set nullable_trimmed split: option.split)

lemma agents_fold_ok: "agents_ok m \<Longrightarrow> agents_ok (fold agentEntry es m)"
  by (induction es arbitrary: m) (auto simp: agentEntry_ok simp del: agentEntry.simps)

lemma agentEntry_written:
  "agents_ok (m @ [(k, mode)]) \<Longrightarrow>
   agentEntry (k, JObj [(''collaborationMode'', mode_json mode)]) m = m @ [(k, mode)]"
  by (simp add: agents_ok_def nullable_JStr obj_set_last prop_of_def mode.reads_writes)

lemma agents_read_back:
  "agents_ok m \<Longrightarrow>
   fold agentEntry (map (\<lambda>(k, mode). (k, JObj [(''collaborationMode'', mode_json mode)])) m) [] = m"
proof (induction m rule: rev_induct)
  case (snoc x m)
  obtain k mode where x: "x = (k, mode)" by (cases x)
  from snoc.prems have "agents_ok m"
    by (auto simp: agents_ok_def canonical_butlast)
  with snoc x show ?case by (simp add: agentEntry_written del: agentEntry.simps)
qed simp

interpretation agents: stored normalizeAgentSettings agents_json agents_ok
proof unfold_locales
  show "normalizeAgentSettings (agents_json m) = m" if "agents_ok m" for m
    using agents_read_back [OF that] by (simp add: normalizeAgentSettings_def agents_json_def js_entries_def)
  show "agents_ok (normalizeAgentSettings v)" for v
    by (simp add: normalizeAgentSettings_def agents_fold_ok split: option.split)
qed

lemma plain_mode [simp]: "json_plain (mode_json mode)"
  by (cases mode) simp_all

lemma plain_string [simp]: "json_plain (string_json a)"
  by (cases a) simp_all

lemma plain_object: "canonical kvs \<Longrightarrow> list_all (\<lambda>(k, v). json_plain v) kvs \<Longrightarrow> json_plain (JObj kvs)"
  by (simp add: from_entries_canonical)

lemma canonical_single [simp]: "canonical [x]"
  by (simp add: canonical_def)

lemma plain_agents [simp]: "agents_ok m \<Longrightarrow> json_plain (agents_json m)"
  unfolding agents_json_def
  by (rule plain_object)
    (auto simp: agents_ok_def canonical_def comp_def case_prod_beta list_all_iff from_entries_canonical)

section \<open>Preview targets and settings\<close>

definition targets_ok :: "'u urlApi \<Rightarrow> string list \<Rightarrow> bool" where
  "targets_ok api ts \<longleftrightarrow>
     distinct ts \<and> length ts \<le> MAX_RECENT_TARGETS
     \<and> list_all (\<lambda>t. t \<noteq> [] \<and> normalizePreviewTargetInput api t = Some t) ts"

text \<open>A URL that was normalized stays as it is when it is normalized again.\<close>

definition preview_stable :: "'u urlApi \<Rightarrow> bool" where
  "preview_stable api \<longleftrightarrow>
     (\<forall>v t. normalizePreviewTargetInput api v = Some t \<longrightarrow> normalizePreviewTargetInput api t = Some t)"

lemma dedupeTargets_fixed:
  "targets_ok api (kept @ ts) \<Longrightarrow> dedupeTargets api kept ts = kept @ ts"
proof (induction ts arbitrary: kept)
  case (Cons t ts)
  then have t: "normalizePreviewTargetInput api t = Some t" "t \<noteq> []" "t \<notin> set kept"
    by (auto simp: targets_ok_def)
  show ?case
  proof (cases "length (kept @ [t]) \<ge> MAX_RECENT_TARGETS")
    case True
    moreover have "length (kept @ t # ts) \<le> MAX_RECENT_TARGETS"
      using Cons.prems by (simp only: targets_ok_def)
    ultimately have "ts = []" by (cases ts) simp_all
    with t True show ?thesis by (simp add: Let_def)
  next
    case False
    with t Cons.IH [of "kept @ [t]"] Cons.prems show ?thesis by (simp add: Let_def)
  qed
qed simp

lemma dedupe_fixed: "targets_ok api ts \<Longrightarrow> dedupeRecentPreviewTargets api ts = ts"
  using dedupeTargets_fixed [of api "[]" ts] by (simp add: dedupeRecentPreviewTargets_def)

lemma map_filter_fixed: "(\<And>x. x \<in> set xs \<Longrightarrow> f x = Some x) \<Longrightarrow> List.map_filter f xs = xs"
  by (induction xs) (auto simp: List.map_filter_simps)

lemma targets_map_filter: "targets_ok api ts \<Longrightarrow> List.map_filter (normalizePreviewTargetInput api) ts = ts"
  by (rule map_filter_fixed) (auto simp: targets_ok_def list_all_iff)

lemma dedupeTargets_nonempty:
  "[] \<notin> set kept \<Longrightarrow> [] \<notin> set (dedupeTargets api kept ts)"
  by (induction api kept ts rule: dedupeTargets.induct) (auto simp: Let_def split: option.split)

lemma dedupe_targets_ok: "preview_stable api \<Longrightarrow> targets_ok api (dedupeRecentPreviewTargets api ts)"
  using dedupeTargets_ok [of "[]" api ts] dedupeTargets_normal [of api "[]" ts]
    dedupeTargets_nonempty [of "[]" api ts]
  unfolding preview_stable_def
  by (auto simp: targets_ok_def dedupeRecentPreviewTargets_def list_all_iff MAX_RECENT_TARGETS_def)

lemma targets_Nil [simp]: "targets_ok api []"
  by (simp add: targets_ok_def)

lemma normalized_targets_ok:
  "preview_stable api \<Longrightarrow> targets_ok api (normalizeBrowserTargetUrls api v)"
  by (cases v) (simp_all add: normalizeBrowserTargetUrls_def dedupe_targets_ok)

lemma map_filter_map: "List.map_filter f (map g xs) = List.map_filter (\<lambda>x. f (g x)) xs"
  by (induction xs) (simp_all add: List.map_filter_simps split: option.split)

lemma normalizeBrowserTargetUrls_fixed:
  assumes "targets_ok api ts"
  shows "normalizeBrowserTargetUrls api (JArr (map JStr ts)) = ts"
  using assms
  by (simp add: normalizeBrowserTargetUrls_def map_filter_map targets_map_filter dedupe_fixed)

definition settings_ok :: "'u urlApi \<Rightarrow> appSettingsState \<Rightarrow> bool" where
  "settings_ok api s \<longleftrightarrow>
     pred_option trimmed (defaultStartCwd s) \<and> pred_option trimmed (preferredAgentId s)
     \<and> agents_ok (agentSettings s) \<and> limit_ok (workspaceChatLimit s)
     \<and> targets_ok api (recentBrowserTargetUrls s)"

lemma default_settings_ok [simp]: "settings_ok api createDefaultAppSettings"
  by (simp add: settings_ok_def createDefaultAppSettings_def limit_ok_def targets_ok_def
      DEFAULT_WORKSPACE_CHAT_LIMIT_def)

lemma plain_codes [simp]:
  "json_plain (approval_json a)" "json_plain (appearance_json b)" "json_plain (palette_json c)"
  "json_plain (font_json f)"
  by ((cases a; simp), (cases b; simp), (cases c; simp), (cases f; simp))

lemma plain_limit [simp]: "limit_ok l \<Longrightarrow> json_plain (limit_json l)"
  by (auto simp: limit_ok_def)

lemma JStr_plain: "list_all json_plain (map JStr ts)"
  by (simp add: list_all_iff)

lemma parseAppSettings_normal:
  assumes "preview_stable api"
  shows "settings_ok api (parsedSettings (parseAppSettings api raw))"
proof -
  have read: "settings_ok api
     \<lparr>defaultStartCwd = normalizeNullableString a, preferredAgentId = normalizeNullableString b,
      agentSettings = normalizeAgentSettings c, approvalMode = d, showToolCalls = e,
      workspaceChatLimit = normalizeWorkspaceChatLimit f, appearancePreference = g,
      darkUiPalette = h, fontPreference = i,
      recentBrowserTargetUrls = normalizeBrowserTargetUrls api j\<rparr>" for a b c d e f g h i j
    using assms nullable.reads_ok agents.reads_ok limit.reads_ok normalized_targets_ok
    by (simp add: settings_ok_def)
  show ?thesis
  proof (cases "json_parse raw")
    case None
    then show ?thesis by (simp add: parseAppSettings_def emptyParsedSettings_def)
  next
    case (Some v)
    then show ?thesis
      by (cases v) (simp_all add: parseAppSettings_def emptyParsedSettings_def read)
  qed
qed

lemma normalizeAppSettings_ok:
  assumes "preview_stable api"
  shows "settings_ok api (normalizeAppSettings api v)"
proof -
  have "settings_ok api (s\<lparr>fontPreference := x, recentBrowserTargetUrls := dedupeRecentPreviewTargets api ts\<rparr>)"
    if "settings_ok api s" for s x ts
    using that assms by (simp add: settings_ok_def dedupe_targets_ok)
  then show ?thesis
    unfolding normalizeAppSettings_def Let_def using parseAppSettings_normal [OF assms] by blast
qed

lemma settings_plain: "settings_ok api s \<Longrightarrow> list_all (\<lambda>(k, v). json_plain v) (settings_obj s)"
  by (simp add: settings_obj_def settings_ok_def JStr_plain)

lemma stored_settings_plain:
  "settings_ok api s \<Longrightarrow> json_plain (JObj ((''version'', JNum APP_SETTINGS_VERSION) # settings_obj s))"
  by (rule plain_object)
    (simp_all add: settings_plain APP_SETTINGS_VERSION_def,
      simp add: settings_obj_def canonical_def key_order_def array_index_def is_digit_def)

lemma brace_not_space:
  "\<forall>u \<in> set white_space. \<not> prefix u (CHR ''{'' # s)"
  "\<forall>u \<in> set (map rev white_space). \<not> prefix u (CHR ''}'' # s)"
  by (simp_all add: white_space_def)

lemma trim_braces: "trim (''{'' @ s @ ''}'') = ''{'' @ s @ ''}''"
  using brace_not_space [of "s @ ''}''"] brace_not_space [of "rev s @ ''{''"]
  by (simp add: trim_def trim_start_def trim_end_def strip_units_id leading_unit_None)

lemma object_not_blank: "trim (json_text (JObj kvs)) = json_text (JObj kvs)" "json_text (JObj kvs) \<noteq> []"
  by (simp_all only: json_text.simps trim_braces) simp

abbreviation stored_settings :: "appSettingsState \<Rightarrow> jobj" where
  "stored_settings s \<equiv> (''version'', JNum APP_SETTINGS_VERSION) # settings_obj s"

lemma stored_settings_props:
  "prop_of (stored_settings s) ''version'' = JNum APP_SETTINGS_VERSION"
  "prop_of (stored_settings s) ''bridgeUrl'' = JUndefined"
  "prop_of (stored_settings s) ''bridgeToken'' = JUndefined"
  "prop_of (stored_settings s) ''defaultStartCwd'' = string_json (defaultStartCwd s)"
  "prop_of (stored_settings s) ''preferredAgentId'' = string_json (preferredAgentId s)"
  "prop_of (stored_settings s) ''agentSettings'' = agents_json (agentSettings s)"
  "prop_of (stored_settings s) ''approvalMode'' = approval_json (approvalMode s)"
  "prop_of (stored_settings s) ''showToolCalls'' = JBool (showToolCalls s)"
  "prop_of (stored_settings s) ''workspaceChatLimit'' = limit_json (workspaceChatLimit s)"
  "prop_of (stored_settings s) ''appearancePreference'' = appearance_json (appearancePreference s)"
  "prop_of (stored_settings s) ''darkUiPalette'' = palette_json (darkUiPalette s)"
  "prop_of (stored_settings s) ''fontPreference'' = font_json (fontPreference s)"
  "prop_of (stored_settings s) ''recentBrowserTargetUrls'' = JArr (map JStr (recentBrowserTargetUrls s))"
  by (simp_all add: prop_of_def settings_obj_def)

lemma settings_props:
  assumes "k \<noteq> ''version''"
  shows "prop_of (settings_obj s) k = prop_of (stored_settings s) k"
  using assms by (simp add: prop_of_def)

lemma undefined_absent:
  "normalizeNullableString JUndefined = None" "normalizeStoredBridgeUrl api JUndefined = None"
  by (simp_all add: normalizeNullableString_def normalizeStoredBridgeUrl_def)

lemma boolean_back: "normalizeBoolean (JBool b) = b"
  by (simp add: normalizeBoolean_def)

lemmas read_back =
  nullable.reads_writes agents.reads_writes limit.reads_writes approval.reads_writes
  appearance.reads_writes palette.reads_writes font.reads_writes normalizeBrowserTargetUrls_fixed
  undefined_absent boolean_back

lemma parse_stored_settings:
  assumes "settings_ok api s"
  shows "parseAppSettings api (json_text (JObj (stored_settings s)))
    = \<lparr>parsedBridgeUrl = None, parsedBridgeToken = None, parsedSettings = s\<rparr>"
proof -
  have parsed: "json_parse (json_text (JObj (stored_settings s))) = Some (JObj (stored_settings s))"
    by (rule json_parse_text [OF stored_settings_plain [OF assms]])
  show ?thesis
    unfolding parseAppSettings_def object_not_blank(1) parsed
    using assms
    by (simp add: object_not_blank stored_settings_props settings_ok_def read_back del: json_text.simps)
qed

lemma read_stored_settings:
  "normalizeAppSettings api (JObj (settings_obj s)) =
     (let parsed = parsedSettings (parseAppSettings api (json_text (JObj (stored_settings s))))
      in parsed\<lparr>fontPreference := normalizeFontPreference (font_json (fontPreference parsed)),
           recentBrowserTargetUrls := dedupeRecentPreviewTargets api
             (List.map_filter (normalizePreviewTargetInput api) (recentBrowserTargetUrls parsed))\<rparr>)"
  by (simp add: normalizeAppSettings_def settings_props stored_settings_props Let_def del: json_text.simps)
    (simp add: settings_obj_def del: json_text.simps)

interpretation settings: codec "normalizeAppSettings api" "\<lambda>s. JObj (settings_obj s)" "settings_ok api" for api
proof unfold_locales
  fix s assume s: "settings_ok api s"
  then have "targets_ok api (recentBrowserTargetUrls s)" by (simp add: settings_ok_def)
  with s show "normalizeAppSettings api (JObj (settings_obj s)) = s"
    by (simp add: read_stored_settings parse_stored_settings font.reads_writes targets_map_filter
        dedupe_fixed del: json_text.simps)
qed

end
