(* ===== verification/BridgeProfiles.thy ===== *)
theory BridgeProfiles
  imports AppSettings JsText
begin

text \<open>
  The bridge profiles of \<open>bridgeProfiles.ts\<close>: the store of connections, its operations and its
  normalization from JSON.  The clock and the random source are an argument, one reading per
  operation; a thrown \<open>Error\<close> is the left side of a sum.
\<close>

section \<open>Profiles\<close>

datatype jsError = JsError string

record clock =
  clock_now :: string
  clock_millis :: nat
  clock_random :: string

record bridgeProfile =
  bp_id :: string
  bp_name :: string
  bp_bridgeUrl :: string
  bp_bridgeToken :: string
  bp_createdAt :: string
  bp_updatedAt :: string

record bridgeProfileStore =
  activeProfileId :: "string option"
  profiles :: "bridgeProfile list"

record bridgeProfileDraft =
  bd_id :: "string option"
  bd_name :: "string option"
  bd_bridgeUrl :: string
  bd_bridgeToken :: string
  bd_activate :: "bool option"

definition createEmptyBridgeProfileStore :: bridgeProfileStore where
  "createEmptyBridgeProfileStore = \<lparr>activeProfileId = None, profiles = []\<rparr>"

definition createBridgeProfileId :: "clock \<Rightarrow> string" where
  "createBridgeProfileId clk =
     ''bridge-'' @ base36 (clock_millis clk) @ ''-'' @ take 6 (drop 2 (clock_random clk))"

definition normalizeTimestamp :: "clock \<Rightarrow> jsv \<Rightarrow> string" where
  "normalizeTimestamp clk value = with_default (normalizeNullableString value) (clock_now clk)"

definition deriveBridgeProfileName :: "'u urlApi \<Rightarrow> string option \<Rightarrow> string \<Rightarrow> string" where
  "deriveBridgeProfileName api value bridgeUrl =
     (let trimmedName = (case value of Some s \<Rightarrow> trim s | None \<Rightarrow> [])
      in if trimmedName \<noteq> [] then trimmedName
         else case url_parse api bridgeUrl of
           None \<Rightarrow> ''Bridge''
         | Some parsed \<Rightarrow>
             let host = trim (url_hostname api parsed) in if host \<noteq> [] then host else ''Bridge'')"

definition normalizeBridgeProfile :: "'u urlApi \<Rightarrow> clock \<Rightarrow> jsv \<Rightarrow> bridgeProfile option" where
  "normalizeBridgeProfile api clk value =
     (case toRecord value of
        None \<Rightarrow> None
      | Some record \<Rightarrow>
          (case (normalizeNullableString (prop_of record ''id''),
                 normalizeStoredBridgeUrl api (prop_of record ''bridgeUrl''),
                 normalizeNullableString (prop_of record ''bridgeToken'')) of
             (Some profileId, Some bridgeUrl, Some bridgeToken) \<Rightarrow>
               if bridgeUrl = [] then None
               else Some
                 \<lparr>bp_id = profileId,
                  bp_name = deriveBridgeProfileName api
                    (normalizeNullableString (prop_of record ''name'')) bridgeUrl,
                  bp_bridgeUrl = bridgeUrl, bp_bridgeToken = bridgeToken,
                  bp_createdAt = normalizeTimestamp clk (prop_of record ''createdAt''),
                  bp_updatedAt = normalizeTimestamp clk (prop_of record ''updatedAt'')\<rparr>
           | _ \<Rightarrow> None))"

section \<open>The store as JSON\<close>

definition profile_obj :: "bridgeProfile \<Rightarrow> jobj" where
  "profile_obj p =
     [(''id'', JStr (bp_id p)), (''name'', JStr (bp_name p)), (''bridgeUrl'', JStr (bp_bridgeUrl p)),
      (''bridgeToken'', JStr (bp_bridgeToken p)), (''createdAt'', JStr (bp_createdAt p)),
      (''updatedAt'', JStr (bp_updatedAt p))]"

definition store_json :: "bridgeProfileStore \<Rightarrow> jsv" where
  "store_json store =
     JObj [(''activeProfileId'', string_json (activeProfileId store)),
           (''profiles'', JArr (map (\<lambda>p. JObj (profile_obj p)) (profiles store)))]"

text \<open>What \<open>parseBridgeProfileStore\<close> and \<open>sanitizeBridgeProfileStore\<close> do with the entries and the
  active profile they read.\<close>

definition normalizedStore :: "'u urlApi \<Rightarrow> clock \<Rightarrow> jsv \<Rightarrow> jsv list \<Rightarrow> bridgeProfileStore" where
  "normalizedStore api clk active entries =
     (let ps = List.map_filter (normalizeBridgeProfile api clk) entries
      in \<lparr>activeProfileId =
            (case active of
               JStr a \<Rightarrow> if list_ex (\<lambda>profile. bp_id profile = a) ps then Some a else None
             | _ \<Rightarrow> None),
          profiles = ps\<rparr>)"

definition parseBridgeProfileStore :: "'u urlApi \<Rightarrow> clock \<Rightarrow> string option \<Rightarrow> bridgeProfileStore" where
  "parseBridgeProfileStore api clk raw =
     (case raw of
        None \<Rightarrow> createEmptyBridgeProfileStore
      | Some s \<Rightarrow>
          if trim s = [] then createEmptyBridgeProfileStore
          else case json_parse s of
            None \<Rightarrow> createEmptyBridgeProfileStore
          | Some parsed \<Rightarrow>
              (case toRecord parsed of
                 None \<Rightarrow> createEmptyBridgeProfileStore
               | Some record \<Rightarrow>
                   normalizedStore api clk (prop_of record ''activeProfileId'')
                     (with_default (as_array (prop_of record ''profiles'')) [])))"

definition sanitizeBridgeProfileStore :: "'u urlApi \<Rightarrow> clock \<Rightarrow> bridgeProfileStore \<Rightarrow> bridgeProfileStore" where
  "sanitizeBridgeProfileStore api clk store =
     normalizedStore api clk (string_json (activeProfileId store))
       (map (\<lambda>p. JObj (profile_obj p)) (profiles store))"

section \<open>Operations\<close>

definition findProfile :: "string \<Rightarrow> bridgeProfileStore \<Rightarrow> bridgeProfile option" where
  "findProfile profileId store = find (\<lambda>profile. bp_id profile = profileId) (profiles store)"

text \<open>The first profile with the id of the new one is replaced, otherwise it is appended.\<close>

fun putProfile :: "bridgeProfile \<Rightarrow> bridgeProfile list \<Rightarrow> bridgeProfile list" where
  "putProfile p [] = [p]"
| "putProfile p (q # qs) = (if bp_id q = bp_id p then p # qs else q # putProfile p qs)"

definition upsertBridgeProfile ::
  "'u urlApi \<Rightarrow> clock \<Rightarrow> bridgeProfileStore \<Rightarrow> bridgeProfileDraft
     \<Rightarrow> jsError + bridgeProfile \<times> bridgeProfileStore" where
  "upsertBridgeProfile api clk store draft =
     (case (normalizeBridgeUrlInput api (bd_bridgeUrl draft),
            normalizeNullableString (JStr (bd_bridgeToken draft))) of
        (Some normalizedUrl, Some normalizedToken) \<Rightarrow>
          if normalizedUrl = [] then Inl (JsError ''Bridge URL and token are required.'')
          else
            let existing = (case bd_id draft of
                  None \<Rightarrow> None
                | Some draftId \<Rightarrow> if draftId = [] then None else findProfile draftId store);
                now = clock_now clk;
                profileId = (case existing of Some p \<Rightarrow> bp_id p | None \<Rightarrow> createBridgeProfileId clk);
                nextProfile =
                  \<lparr>bp_id = profileId,
                   bp_name = deriveBridgeProfileName api (bd_name draft) normalizedUrl,
                   bp_bridgeUrl = normalizedUrl, bp_bridgeToken = normalizedToken,
                   bp_createdAt = (case existing of Some p \<Rightarrow> bp_createdAt p | None \<Rightarrow> now),
                   bp_updatedAt = now\<rparr>
            in Inr (nextProfile, sanitizeBridgeProfileStore api clk
                 \<lparr>activeProfileId =
                    (if bd_activate draft = Some False then activeProfileId store else Some profileId),
                  profiles = putProfile nextProfile (profiles store)\<rparr>)
      | _ \<Rightarrow> Inl (JsError ''Bridge URL and token are required.''))"

definition setActiveBridgeProfile ::
  "'u urlApi \<Rightarrow> clock \<Rightarrow> bridgeProfileStore \<Rightarrow> string option \<Rightarrow> bridgeProfileStore" where
  "setActiveBridgeProfile api clk store profileId =
     (case profileId of
        None \<Rightarrow> store\<lparr>activeProfileId := None\<rparr>
      | Some pid \<Rightarrow>
          if \<not> list_ex (\<lambda>profile. bp_id profile = pid) (profiles store)
          then sanitizeBridgeProfileStore api clk store
          else store\<lparr>activeProfileId := Some pid\<rparr>)"

definition renameBridgeProfile ::
  "'u urlApi \<Rightarrow> clock \<Rightarrow> bridgeProfileStore \<Rightarrow> string \<Rightarrow> string option \<Rightarrow> bridgeProfileStore" where
  "renameBridgeProfile api clk store profileId nextName =
     (case findProfile profileId store of
        None \<Rightarrow> sanitizeBridgeProfileStore api clk store
      | Some existing \<Rightarrow>
          sanitizeBridgeProfileStore api clk
            (store\<lparr>profiles := map (\<lambda>profile.
                if bp_id profile = profileId
                then profile\<lparr>bp_name := deriveBridgeProfileName api nextName (bp_bridgeUrl profile),
                             bp_updatedAt := clock_now clk\<rparr>
                else profile) (profiles store)\<rparr>))"

definition removeBridgeProfile ::
  "'u urlApi \<Rightarrow> clock \<Rightarrow> bridgeProfileStore \<Rightarrow> string \<Rightarrow> bridgeProfileStore" where
  "removeBridgeProfile api clk store profileId =
     (let nextProfiles = filter (\<lambda>profile. bp_id profile \<noteq> profileId) (profiles store);
          nextActiveProfileId =
            (if activeProfileId store = Some profileId
             then (case nextProfiles of [] \<Rightarrow> None | p # _ \<Rightarrow> Some (bp_id p))
             else activeProfileId store)
      in sanitizeBridgeProfileStore api clk
           \<lparr>activeProfileId = nextActiveProfileId, profiles = nextProfiles\<rparr>)"

definition getActiveBridgeProfile :: "bridgeProfileStore \<Rightarrow> bridgeProfile option" where
  "getActiveBridgeProfile store =
     (case activeProfileId store of
        None \<Rightarrow> None
      | Some a \<Rightarrow> if a = [] then None else findProfile a store)"

section \<open>Well-formed stores\<close>

definition profile_ok :: "'u urlApi \<Rightarrow> bridgeProfile \<Rightarrow> bool" where
  "profile_ok api p \<longleftrightarrow>
     trimmed (bp_id p) \<and> trimmed (bp_name p) \<and> trimmed (bp_bridgeToken p)
     \<and> trimmed (bp_createdAt p) \<and> trimmed (bp_updatedAt p) \<and> bp_bridgeUrl p \<noteq> []
     \<and> normalizeBridgeUrlInput api (bp_bridgeUrl p) = Some (bp_bridgeUrl p)"

definition store_ok :: "'u urlApi \<Rightarrow> bridgeProfileStore \<Rightarrow> bool" where
  "store_ok api store \<longleftrightarrow>
     list_all (profile_ok api) (profiles store)
     \<and> pred_option (\<lambda>a. a \<in> bp_id ` set (profiles store)) (activeProfileId store)"

text \<open>A bridge URL that was normalized stays as it is when it is normalized again.\<close>

definition bridge_stable :: "'u urlApi \<Rightarrow> bool" where
  "bridge_stable api \<longleftrightarrow>
     (\<forall>v t. normalizeBridgeUrlInput api v = Some t \<longrightarrow> normalizeBridgeUrlInput api t = Some t)"

text \<open>A timestamp has no white space around it, nor has the text of a random number.\<close>

definition clock_ok :: "clock \<Rightarrow> bool" where
  "clock_ok clk \<longleftrightarrow> trimmed (clock_now clk) \<and> list_all (\<lambda>c. ascii_alnum c \<or> c = CHR ''.'') (clock_random clk)"

lemma trimmed_Bridge [simp]: "trimmed ''Bridge''"
  by code_simp

lemma name_trimmed [simp]: "trimmed (deriveBridgeProfileName api v url)"
  by (simp add: deriveBridgeProfileName_def Let_def split: option.split)

lemma name_kept: "trimmed s \<Longrightarrow> deriveBridgeProfileName api (Some s) url = s"
  by (simp add: deriveBridgeProfileName_def trimmed_def)

lemma timestamp_trimmed: "clock_ok clk \<Longrightarrow> trimmed (normalizeTimestamp clk v)"
  by (cases "normalizeNullableString v")
    (simp_all add: normalizeTimestamp_def clock_ok_def nullable_trimmed)

lemma normalized_profile_ok:
  assumes "bridge_stable api" "clock_ok clk" "normalizeBridgeProfile api clk v = Some p"
  shows "profile_ok api p"
  using assms
  by (auto simp: normalizeBridgeProfile_def profile_ok_def timestamp_trimmed nullable_trimmed
      normalizeStoredBridgeUrl_def bridge_stable_def split: option.splits if_splits jsv.splits)

lemma read_profile: "profile_ok api p \<Longrightarrow> normalizeBridgeProfile api clk (JObj (profile_obj p)) = Some p"
  by (simp add: normalizeBridgeProfile_def profile_obj_def prop_of_def profile_ok_def nullable_JStr
      name_kept normalizeStoredBridgeUrl_def normalizeTimestamp_def)

lemma read_profiles:
  "list_all (profile_ok api) ps \<Longrightarrow>
   List.map_filter (normalizeBridgeProfile api clk) (map (\<lambda>p. JObj (profile_obj p)) ps) = ps"
  by (simp add: map_filter_map) (rule map_filter_fixed, simp add: list_all_iff read_profile)

lemma set_map_filter: "set (List.map_filter f xs) = {y. \<exists>x \<in> set xs. f x = Some y}"
  by (induction xs) (auto simp: List.map_filter_simps split: option.splits)

lemma normalizedStore_ok:
  assumes "bridge_stable api" "clock_ok clk"
  shows "store_ok api (normalizedStore api clk active entries)"
  using normalized_profile_ok [OF assms]
  by (auto simp: normalizedStore_def store_ok_def Let_def list_all_iff list_ex_iff set_map_filter
      split: jsv.split)

lemma sanitize_ok:
  "bridge_stable api \<Longrightarrow> clock_ok clk \<Longrightarrow> store_ok api (sanitizeBridgeProfileStore api clk store)"
  by (simp add: sanitizeBridgeProfileStore_def normalizedStore_ok)

lemma parse_store_ok:
  "bridge_stable api \<Longrightarrow> clock_ok clk \<Longrightarrow> store_ok api (parseBridgeProfileStore api clk raw)"
  by (simp add: parseBridgeProfileStore_def normalizedStore_ok split: option.split)
    (simp add: createEmptyBridgeProfileStore_def store_ok_def)

text \<open>Well-formed profiles are kept as they are; an active profile that is not there is dropped.\<close>

lemma sanitize_profiles:
  "list_all (profile_ok api) (profiles store) \<Longrightarrow>
   sanitizeBridgeProfileStore api clk store =
     store\<lparr>activeProfileId :=
       (case activeProfileId store of
          None \<Rightarrow> None
        | Some a \<Rightarrow> if a \<in> bp_id ` set (profiles store) then Some a else None)\<rparr>"
  by (cases store, cases "activeProfileId store")
    (auto simp: sanitizeBridgeProfileStore_def normalizedStore_def read_profiles list_ex_iff)

lemma sanitize_fixed: "store_ok api store \<Longrightarrow> sanitizeBridgeProfileStore api clk store = store"
  by (cases "activeProfileId store") (simp_all add: store_ok_def sanitize_profiles)

lemma plain_profile [simp]: "json_plain (JObj (profile_obj p))"
  by (rule plain_object) (simp_all add: profile_obj_def canonical_def key_order_def array_index_def is_digit_def)

lemma plain_store: "json_plain (store_json store)"
  unfolding store_json_def
  by (rule plain_object)
    (simp_all add: canonical_def key_order_def array_index_def is_digit_def list_all_iff del: json_plain.simps(7))

interpretation stored_profiles:
  codec "\<lambda>v. parseBridgeProfileStore api clk (Some (json_text v))" store_json "store_ok api" for api clk
proof unfold_locales
  fix store assume ok: "store_ok api store"
  have parsed: "json_parse (json_text (store_json store)) = Some (store_json store)"
    by (rule json_parse_text [OF plain_store])
  have "parseBridgeProfileStore api clk (Some (json_text (store_json store))) =
      sanitizeBridgeProfileStore api clk store"
    by (simp add: parseBridgeProfileStore_def parsed sanitizeBridgeProfileStore_def del: json_text.simps)
      (simp add: store_json_def object_not_blank prop_of_def del: json_text.simps)
  with ok show "parseBridgeProfileStore api clk (Some (json_text (store_json store))) = store"
    by (simp add: sanitize_fixed)
qed

section \<open>What the operations do\<close>

lemma base36_chars: "c \<in> set (base36 n) \<Longrightarrow> graph_char c"
proof (induction n rule: base36.induct)
  case (1 n)
  then show ?case
    by (subst (asm) base36.simps) (auto simp: Let_def graph_char_def of_char_of split: if_splits)
qed

lemma new_id_trimmed: "clock_ok clk \<Longrightarrow> trimmed (createBridgeProfileId clk)"
proof -
  assume "clock_ok clk"
  then have "graph_char c" if "c \<in> set (take 6 (drop 2 (clock_random clk)))" for c
    using that set_take_subset [of 6] set_drop_subset [of 2]
    by (fastforce simp: clock_ok_def list_all_iff ascii_alnum_def graph_char_def Let_def)
  then have "trim (createBridgeProfileId clk) = createBridgeProfileId clk"
    by (intro trim_graph) (auto simp: createBridgeProfileId_def list_all_iff base36_chars, auto simp: graph_char_def)
  then show ?thesis by (simp add: trimmed_def createBridgeProfileId_def)
qed

lemma putProfile_ids:
  "map bp_id (putProfile p ps) =
     (if bp_id p \<in> bp_id ` set ps then map bp_id ps else map bp_id ps @ [bp_id p])"
  by (induction ps) auto

lemma putProfile_ok: "list_all P ps \<Longrightarrow> P p \<Longrightarrow> list_all P (putProfile p ps)"
  by (induction ps) auto

lemma find_putProfile:
  "find (\<lambda>q. bp_id q = i) (putProfile p ps) =
     (if i = bp_id p then Some p else find (\<lambda>q. bp_id q = i) ps)"
  by (induction ps) auto

lemma findProfile_Some: "findProfile i store = Some p \<Longrightarrow> p \<in> set (profiles store) \<and> bp_id p = i"
  by (auto simp: findProfile_def find_Some_iff)

lemma findProfile_None: "findProfile i store = None \<longleftrightarrow> i \<notin> bp_id ` set (profiles store)"
  by (auto simp: findProfile_def find_None_iff)

definition draftTarget :: "bridgeProfileStore \<Rightarrow> bridgeProfileDraft \<Rightarrow> bridgeProfile option" where
  "draftTarget store draft =
     (case bd_id draft of
        None \<Rightarrow> None
      | Some draftId \<Rightarrow> if draftId = [] then None else findProfile draftId store)"

lemma upsert_result:
  assumes "upsertBridgeProfile api clk store draft = Inr (p, store')" "store_ok api store"
    "bridge_stable api" "clock_ok clk"
  shows "profile_ok api p"
    and "bp_id p = (case draftTarget store draft of Some q \<Rightarrow> bp_id q | None \<Rightarrow> createBridgeProfileId clk)"
    and "normalizeBridgeUrlInput api (bd_bridgeUrl draft) = Some (bp_bridgeUrl p)"
    and "bp_bridgeToken p = trim (bd_bridgeToken draft)"
    and "profiles store' = putProfile p (profiles store)"
    and "activeProfileId store' =
      (if bd_activate draft = Some False then activeProfileId store else Some (bp_id p))"
proof -
  from assms(1) obtain url where url: "normalizeBridgeUrlInput api (bd_bridgeUrl draft) = Some url" "url \<noteq> []"
    and token: "trim (bd_bridgeToken draft) \<noteq> []"
    by (auto simp: upsertBridgeProfile_def normalizeNullableString_def split: option.splits if_splits)
  have old: "profile_ok api q" if "draftTarget store draft = Some q" for q
    using that assms(2) findProfile_Some
    by (fastforce simp: draftTarget_def store_ok_def list_all_iff split: option.splits if_splits)
  have p: "p = \<lparr>bp_id = (case draftTarget store draft of Some q \<Rightarrow> bp_id q | None \<Rightarrow> createBridgeProfileId clk),
      bp_name = deriveBridgeProfileName api (bd_name draft) url, bp_bridgeUrl = url,
      bp_bridgeToken = trim (bd_bridgeToken draft),
      bp_createdAt = (case draftTarget store draft of Some q \<Rightarrow> bp_createdAt q | None \<Rightarrow> clock_now clk),
      bp_updatedAt = clock_now clk\<rparr>"
    and store': "store' = sanitizeBridgeProfileStore api clk
      \<lparr>activeProfileId = (if bd_activate draft = Some False then activeProfileId store else Some (bp_id p)),
       profiles = putProfile p (profiles store)\<rparr>"
    using assms(1) url token
    by (auto simp: upsertBridgeProfile_def normalizeNullableString_def draftTarget_def [symmetric] Let_def)
  show ok: "profile_ok api p"
    using url token old assms(3,4) new_id_trimmed [of clk]
    by (cases "draftTarget store draft")
      (auto simp: p profile_ok_def clock_ok_def bridge_stable_def)
  show "bp_id p = (case draftTarget store draft of Some q \<Rightarrow> bp_id q | None \<Rightarrow> createBridgeProfileId clk)"
    "normalizeBridgeUrlInput api (bd_bridgeUrl draft) = Some (bp_bridgeUrl p)"
    "bp_bridgeToken p = trim (bd_bridgeToken draft)"
    by (simp_all add: p url)
  let ?new = "\<lparr>activeProfileId = (if bd_activate draft = Some False then activeProfileId store else Some (bp_id p)),
       profiles = putProfile p (profiles store)\<rparr>"
  have "set (map bp_id (putProfile p (profiles store))) = insert (bp_id p) (bp_id ` set (profiles store))"
    by (auto simp: putProfile_ids)
  then have "store_ok api ?new"
    using assms(2) ok putProfile_ok [of "profile_ok api"]
    by (cases "activeProfileId store") (auto simp: store_ok_def)
  then have "store' = ?new" by (simp add: store' sanitize_fixed)
  then show "profiles store' = putProfile p (profiles store)"
    "activeProfileId store' = (if bd_activate draft = Some False then activeProfileId store else Some (bp_id p))"
    by simp_all
qed

lemma rename_result:
  assumes "store_ok api store" "clock_ok clk"
  shows "map bp_id (profiles (renameBridgeProfile api clk store i name)) = map bp_id (profiles store)"
    and "activeProfileId (renameBridgeProfile api clk store i name) = activeProfileId store"
    and "store_ok api (renameBridgeProfile api clk store i name)"
    and "map_option (\<lambda>p. (bp_bridgeUrl p, bp_bridgeToken p)) (findProfile j (renameBridgeProfile api clk store i name))
      = map_option (\<lambda>p. (bp_bridgeUrl p, bp_bridgeToken p)) (findProfile j store)"
proof -
  define f where "f profile = (if bp_id profile = i
      then profile\<lparr>bp_name := deriveBridgeProfileName api name (bp_bridgeUrl profile),
                   bp_updatedAt := clock_now clk\<rparr>
      else profile)" for profile :: bridgeProfile
  have f: "bp_id (f p) = bp_id p" "profile_ok api p \<Longrightarrow> profile_ok api (f p)" for p
    using assms(2) by (auto simp: f_def profile_ok_def clock_ok_def)
  then have ok: "store_ok api (store\<lparr>profiles := map f (profiles store)\<rparr>)"
    using assms(1) by (cases "activeProfileId store") (auto simp: store_ok_def list_all_iff image_image)
  then have new: "renameBridgeProfile api clk store i name =
      (if findProfile i store = None then store else store\<lparr>profiles := map f (profiles store)\<rparr>)"
    using assms(1)
    by (auto simp: renameBridgeProfile_def f_def [abs_def, symmetric] sanitize_fixed split: option.split)
  from new show "map bp_id (profiles (renameBridgeProfile api clk store i name)) = map bp_id (profiles store)"
    "activeProfileId (renameBridgeProfile api clk store i name) = activeProfileId store"
    "store_ok api (renameBridgeProfile api clk store i name)"
    using ok assms(1) f(1) by (auto simp: comp_def)
  have "map_option (\<lambda>p. (bp_bridgeUrl p, bp_bridgeToken p)) (find (\<lambda>p. bp_id p = j) (map f ps))
      = map_option (\<lambda>p. (bp_bridgeUrl p, bp_bridgeToken p)) (find (\<lambda>p. bp_id p = j) ps)" for ps
    by (induction ps) (auto simp: f_def)
  with new show "map_option (\<lambda>p. (bp_bridgeUrl p, bp_bridgeToken p)) (findProfile j (renameBridgeProfile api clk store i name))
      = map_option (\<lambda>p. (bp_bridgeUrl p, bp_bridgeToken p)) (findProfile j store)"
    by (simp add: findProfile_def)
qed

lemma remove_result:
  assumes "store_ok api store"
  shows "profiles (removeBridgeProfile api clk store i) = filter (\<lambda>p. bp_id p \<noteq> i) (profiles store)"
    and "store_ok api (removeBridgeProfile api clk store i)"
proof -
  define ps where "ps = filter (\<lambda>p. bp_id p \<noteq> i) (profiles store)"
  define new where "new = \<lparr>activeProfileId =
      (if activeProfileId store = Some i then (case ps of [] \<Rightarrow> None | p # _ \<Rightarrow> Some (bp_id p))
       else activeProfileId store), profiles = ps\<rparr>"
  have ps: "list_all (profile_ok api) ps" "\<And>a. a \<in> bp_id ` set ps \<longleftrightarrow> a \<in> bp_id ` set (profiles store) \<and> a \<noteq> i"
    using assms by (auto simp: ps_def store_ok_def list_all_iff)
  have "pred_option (\<lambda>a. a \<in> bp_id ` set ps) (activeProfileId new)"
  proof (cases "activeProfileId store = Some i")
    case True
    then show ?thesis by (cases ps) (simp_all add: new_def)
  next
    case False
    with assms show ?thesis
      by (cases "activeProfileId store") (simp_all add: new_def store_ok_def ps(2))
  qed
  then have "store_ok api new" using ps(1) by (simp add: store_ok_def) (simp add: new_def)
  then show "profiles (removeBridgeProfile api clk store i) = filter (\<lambda>p. bp_id p \<noteq> i) (profiles store)"
    "store_ok api (removeBridgeProfile api clk store i)"
    by (simp_all add: removeBridgeProfile_def ps_def [symmetric] new_def [symmetric] Let_def sanitize_fixed)
      (simp add: new_def)
qed

lemma setActive_result:
  assumes "store_ok api store"
  shows "profiles (setActiveBridgeProfile api clk store i) = profiles store"
    and "store_ok api (setActiveBridgeProfile api clk store i)"
  using assms
  by (auto simp: setActiveBridgeProfile_def sanitize_fixed store_ok_def list_ex_iff split: option.split)

end
