(* ===== verification/AppState.thy ===== *)
theory AppState
  imports BridgeProfiles
begin

text \<open>
  The application state of \<open>appState/model.ts\<close> and \<open>appState/reducer.ts\<close>: settings, bridge profiles
  and push registrations, the reducer over the eleven actions, and the text the state is saved as.
  A thrown error is the left side of a sum; the cause an \<open>AppStatePersistenceError\<close> carries is not
  kept.
\<close>

section \<open>Data\<close>

record pushEventPreferences =
  turnCompleted :: bool
  approvalRequested :: bool

record pushProfileRegistration =
  pr_profileId :: string
  pr_registrationId :: string
  pr_token :: "string option"

record pushSettingsState =
  optedOut :: bool
  events :: pushEventPreferences
  registrations :: "pushProfileRegistration list"

record appStateData =
  settings :: appSettingsState
  bridgeProfiles :: bridgeProfileStore
  push :: pushSettingsState

definition DEFAULT_PUSH_EVENT_PREFERENCES :: pushEventPreferences where
  "DEFAULT_PUSH_EVENT_PREFERENCES = \<lparr>turnCompleted = True, approvalRequested = True\<rparr>"

definition APP_STATE_VERSION :: rat where "APP_STATE_VERSION = 3"

datatype persistenceErrorCode = ReadFailed | InvalidData | WriteFailed
datatype persistenceOperation = LoadOp | ImportOp | WriteOp

datatype failure =
    Thrown jsError
  | PersistenceError persistenceErrorCode persistenceOperation string

record legacyAppStateSource =
  settingsRaw :: "string option"
  bridgeProfilesRaw :: "string option"

text \<open>The patch of \<open>settings/update\<close> is the object of the settings it changes.\<close>

datatype appStateAction =
    UpdateSettings jobj
  | RememberThread string collaborationMode
  | SaveProfile bridgeProfileDraft
  | SwitchProfile string
  | RenameProfile string string
  | RemoveProfile string
  | ClearProfiles
  | UpdatePush "bool option" "pushEventPreferences option"
  | EnsureRegistration string string
  | PushRegistered string string string
  | PushUnregistered string string

definition createDefaultPushSettings :: pushSettingsState where
  "createDefaultPushSettings =
     \<lparr>optedOut = False, events = DEFAULT_PUSH_EVENT_PREFERENCES, registrations = []\<rparr>"

definition createDefaultAppStateData :: appStateData where
  "createDefaultAppStateData =
     \<lparr>settings = createDefaultAppSettings, bridgeProfiles = createEmptyBridgeProfileStore,
      push = createDefaultPushSettings\<rparr>"

section \<open>Push settings\<close>

definition events_obj :: "pushEventPreferences \<Rightarrow> jobj" where
  "events_obj e =
     [(''turnCompleted'', JBool (turnCompleted e)), (''approvalRequested'', JBool (approvalRequested e))]"

definition registration_obj :: "pushProfileRegistration \<Rightarrow> jobj" where
  "registration_obj r =
     [(''profileId'', JStr (pr_profileId r)), (''registrationId'', JStr (pr_registrationId r)),
      (''token'', string_json (pr_token r))]"

definition push_obj :: "pushSettingsState \<Rightarrow> jobj" where
  "push_obj p =
     [(''optedOut'', JBool (optedOut p)), (''events'', JObj (events_obj (events p))),
      (''registrations'', JArr (map (\<lambda>r. JObj (registration_obj r)) (registrations p)))]"

text \<open>One turn of the loop over stored registrations; the sets of seen ids are those of the
  registrations kept so far.\<close>

definition keepRegistration ::
  "string list \<Rightarrow> jsv \<Rightarrow> pushProfileRegistration list \<Rightarrow> pushProfileRegistration list" where
  "keepRegistration knownProfiles value kept =
     (case toRecord value of
        None \<Rightarrow> kept
      | Some registration \<Rightarrow>
          (case (normalizeNullableString (prop_of registration ''profileId''),
                 normalizeNullableString (prop_of registration ''registrationId'')) of
             (Some profileId, Some registrationId) \<Rightarrow>
               if profileId \<notin> set knownProfiles
                  \<or> profileId \<in> pr_profileId ` set kept
                  \<or> registrationId \<in> pr_registrationId ` set kept
               then kept
               else kept @ [\<lparr>pr_profileId = profileId, pr_registrationId = registrationId,
                 pr_token = normalizeNullableString (prop_of registration ''token'')\<rparr>]
           | _ \<Rightarrow> kept))"

definition preference :: "jobj \<Rightarrow> string \<Rightarrow> bool \<Rightarrow> bool" where
  "preference evs key fallback = (case prop_of evs key of JBool b \<Rightarrow> b | _ \<Rightarrow> fallback)"

definition normalizePushSettings :: "jsv \<Rightarrow> bridgeProfileStore \<Rightarrow> pushSettingsState" where
  "normalizePushSettings value store =
     (let record = with_default (toRecord value) [];
          evs = with_default (toRecord (prop_of record ''events'')) [];
          knownProfiles = map bp_id (profiles store);
          regs = (case prop_of record ''registrations'' of
              JArr vs \<Rightarrow> fold (keepRegistration knownProfiles) vs []
            | _ \<Rightarrow> [])
      in \<lparr>optedOut = (prop_of record ''optedOut'' = JBool True),
          events = \<lparr>turnCompleted = preference evs ''turnCompleted''
                (turnCompleted DEFAULT_PUSH_EVENT_PREFERENCES),
              approvalRequested = preference evs ''approvalRequested''
                (approvalRequested DEFAULT_PUSH_EVENT_PREFERENCES)\<rparr>,
          registrations = regs\<rparr>)"

definition normalizeRequiredString :: "string \<Rightarrow> string \<Rightarrow> jsError + string" where
  "normalizeRequiredString value name =
     (case normalizeNullableString (JStr value) of
        None \<Rightarrow> Inl (JsError (name @ '' must not be empty.''))
      | Some normalized \<Rightarrow> Inr normalized)"

definition findRegistration :: "string \<Rightarrow> appStateData \<Rightarrow> pushProfileRegistration option" where
  "findRegistration profileId state =
     find (\<lambda>registration. pr_profileId registration = profileId) (registrations (push state))"

definition set_registrations ::
  "(pushProfileRegistration list \<Rightarrow> pushProfileRegistration list) \<Rightarrow> appStateData \<Rightarrow> appStateData" where
  "set_registrations f state =
     state\<lparr>push := (push state)\<lparr>registrations := f (registrations (push state))\<rparr>\<rparr>"

definition updatePushRegistration ::
  "appStateData \<Rightarrow> string \<Rightarrow> string \<Rightarrow> string \<Rightarrow> jsError + appStateData" where
  "updatePushRegistration state profileId registrationId token =
     (case normalizeRequiredString token ''token'' of
        Inl e \<Rightarrow> Inl e
      | Inr normalizedToken \<Rightarrow>
          (case findRegistration profileId state of
             None \<Rightarrow> Inr state
           | Some existing \<Rightarrow>
               if pr_registrationId existing \<noteq> registrationId then Inr state
               else Inr (set_registrations (map (\<lambda>registration.
                   if pr_profileId registration = profileId
                   then registration\<lparr>pr_token := Some normalizedToken\<rparr> else registration)) state)))"

section \<open>The reducer\<close>

definition rememberedMode :: "collaborationMode \<Rightarrow> collaborationMode" where
  "rememberedMode value = (if value = PlanMode then value else DefaultMode)"

definition bridgeIdentityChanged :: "'u urlApi \<Rightarrow> bridgeProfile option \<Rightarrow> bridgeProfileDraft \<Rightarrow> bool" where
  "bridgeIdentityChanged api existing draft =
     (case existing of
        None \<Rightarrow> False
      | Some p \<Rightarrow>
          Some (bp_bridgeUrl p) \<noteq> normalizeBridgeUrlInput api (bd_bridgeUrl draft)
          \<or> bp_bridgeToken p \<noteq> trim (bd_bridgeToken draft))"

fun appStateReducer ::
  "'u urlApi \<Rightarrow> clock \<Rightarrow> appStateData \<Rightarrow> appStateAction \<Rightarrow> jsError + appStateData" where
  "appStateReducer api clk state (UpdateSettings patch) =
     Inr (state\<lparr>settings := normalizeAppSettings api
       (JObj (fold (\<lambda>(k, v). obj_set k v) patch (settings_obj (settings state))))\<rparr>)"
| "appStateReducer api clk state (RememberThread agent collaborationMode) =
     (case normalizeNullableString (JStr agent) of
        None \<Rightarrow> Inr state
      | Some agentId \<Rightarrow>
          Inr (state\<lparr>settings := (settings state)\<lparr>preferredAgentId := Some agentId,
            agentSettings := obj_set agentId (rememberedMode collaborationMode)
              (agentSettings (settings state))\<rparr>\<rparr>))"
| "appStateReducer api clk state (SaveProfile draft) =
     (let existing = (case bd_id draft of
            None \<Rightarrow> None
          | Some draftId \<Rightarrow> if draftId = [] then None else findProfile draftId (bridgeProfiles state))
      in case upsertBridgeProfile api clk (bridgeProfiles state) draft of
           Inl e \<Rightarrow> Inl e
         | Inr (_, store) \<Rightarrow>
             Inr ((if bridgeIdentityChanged api existing draft
                   then set_registrations (filter (\<lambda>registration.
                     Some (pr_profileId registration) \<noteq> map_option bp_id existing)) state
                   else state)\<lparr>bridgeProfiles := store\<rparr>))"
| "appStateReducer api clk state (SwitchProfile profileId) =
     (if \<not> list_ex (\<lambda>profile. bp_id profile = profileId) (profiles (bridgeProfiles state))
      then Inl (JsError ''The selected bridge profile no longer exists.'')
      else Inr (state\<lparr>bridgeProfiles :=
        setActiveBridgeProfile api clk (bridgeProfiles state) (Some profileId)\<rparr>))"
| "appStateReducer api clk state (RenameProfile profileId name) =
     Inr (state\<lparr>bridgeProfiles :=
       renameBridgeProfile api clk (bridgeProfiles state) profileId (Some name)\<rparr>)"
| "appStateReducer api clk state (RemoveProfile profileId) =
     Inr (set_registrations (filter (\<lambda>registration. pr_profileId registration \<noteq> profileId))
       (state\<lparr>bridgeProfiles := removeBridgeProfile api clk (bridgeProfiles state) profileId\<rparr>))"
| "appStateReducer api clk state ClearProfiles =
     Inr (set_registrations (\<lambda>_. []) (state\<lparr>bridgeProfiles := createEmptyBridgeProfileStore\<rparr>))"
| "appStateReducer api clk state (UpdatePush opted evs) =
     Inr (state\<lparr>push := normalizePushSettings (JObj (push_obj
       ((push state)\<lparr>optedOut := with_default opted (optedOut (push state)),
          events := with_default evs (events (push state))\<rparr>))) (bridgeProfiles state)\<rparr>)"
| "appStateReducer api clk state (EnsureRegistration profileId registrationId) =
     (if \<not> list_ex (\<lambda>profile. bp_id profile = profileId) (profiles (bridgeProfiles state)) then Inr state
      else case findRegistration profileId state of
        Some existing \<Rightarrow> Inr state
      | None \<Rightarrow>
          (case normalizeRequiredString registrationId ''registrationId'' of
             Inl e \<Rightarrow> Inl e
           | Inr rid \<Rightarrow> Inr (set_registrations (\<lambda>regs. regs @
               [\<lparr>pr_profileId = profileId, pr_registrationId = rid, pr_token = None\<rparr>]) state)))"
| "appStateReducer api clk state (PushRegistered profileId registrationId token) =
     updatePushRegistration state profileId registrationId token"
| "appStateReducer api clk state (PushUnregistered profileId registrationId) =
     Inr (set_registrations (filter (\<lambda>registration.
       pr_profileId registration \<noteq> profileId \<or> pr_registrationId registration \<noteq> registrationId)) state)"

section \<open>Saving and loading\<close>

definition normalizeAppStateData ::
  "'u urlApi \<Rightarrow> clock \<Rightarrow> jsv \<Rightarrow> bridgeProfileStore \<Rightarrow> jsv \<Rightarrow> appStateData" where
  "normalizeAppStateData api clk settingsValue store pushValue =
     (let bps = parseBridgeProfileStore api clk (Some (json_text (store_json store)))
      in \<lparr>settings = normalizeAppSettings api settingsValue, bridgeProfiles = bps,
          push = normalizePushSettings pushValue bps\<rparr>)"

definition serializeAppState :: "'u urlApi \<Rightarrow> clock \<Rightarrow> appStateData \<Rightarrow> string" where
  "serializeAppState api clk data =
     (let normalized = normalizeAppStateData api clk (JObj (settings_obj (settings data)))
            (bridgeProfiles data) (JObj (push_obj (push data)))
      in json_text (JObj
           [(''version'', JNum APP_STATE_VERSION),
            (''settings'', JObj (settings_obj (settings normalized))),
            (''bridgeProfiles'', store_json (bridgeProfiles normalized)),
            (''push'', JObj (push_obj (push normalized)))]))"

definition invalidAppState :: failure where
  "invalidAppState =
     PersistenceError InvalidData LoadOp ''Saved app state is invalid and was not overwritten.''"

definition parsePersistedAppState :: "'u urlApi \<Rightarrow> clock \<Rightarrow> string \<Rightarrow> failure + appStateData" where
  "parsePersistedAppState api clk raw =
     (case json_parse raw of
        None \<Rightarrow> Inl invalidAppState
      | Some value \<Rightarrow>
          (case toRecord value of
             None \<Rightarrow> Inl invalidAppState
           | Some parsed \<Rightarrow>
               if prop_of parsed ''version'' \<notin> {JNum 1, JNum 2, JNum APP_STATE_VERSION}
               then Inl invalidAppState
               else
                 let stored = prop_of parsed ''bridgeProfiles'';
                     store = parseBridgeProfileStore api clk
                       (Some (json_text (if nullish stored then JObj [] else stored)))
                 in Inr (normalizeAppStateData api clk
                      (JObj (settings_obj (normalizeAppSettings api (prop_of parsed ''settings''))))
                      store (prop_of parsed ''push''))))"

definition importLegacyAppState ::
  "'u urlApi \<Rightarrow> clock \<Rightarrow> legacyAppStateSource \<Rightarrow> jsError + appStateData" where
  "importLegacyAppState api clk source =
     (let parsed = parseAppSettings api (with_default (settingsRaw source) []);
          stored = parseBridgeProfileStore api clk (bridgeProfilesRaw source);
          imported =
            (case (profiles stored, parsedBridgeUrl parsed, parsedBridgeToken parsed) of
               ([], Some url, Some token) \<Rightarrow>
                 if url = [] \<or> token = [] then Inr stored
                 else map_sum (\<lambda>e. e) snd (upsertBridgeProfile api clk stored
                   \<lparr>bd_id = None, bd_name = None, bd_bridgeUrl = url, bd_bridgeToken = token,
                    bd_activate = Some True\<rparr>)
             | _ \<Rightarrow> Inr stored)
      in map_sum (\<lambda>e. e) (\<lambda>store.
           \<lparr>settings = normalizeAppSettings api (JObj (settings_obj (parsedSettings parsed))),
            bridgeProfiles = store, push = createDefaultPushSettings\<rparr>) imported)"

text \<open>\<open>persistenceError\<close>: an error that already is an \<open>AppStatePersistenceError\<close> is kept.\<close>

definition persistenceError ::
  "persistenceErrorCode \<Rightarrow> persistenceOperation \<Rightarrow> string \<Rightarrow> failure \<Rightarrow> failure" where
  "persistenceError code operation message cause =
     (case cause of
        PersistenceError _ _ _ \<Rightarrow> cause
      | Thrown _ \<Rightarrow> PersistenceError code operation message)"

section \<open>Well-formed states\<close>

definition push_ok :: "bridgeProfileStore \<Rightarrow> pushSettingsState \<Rightarrow> bool" where
  "push_ok store p \<longleftrightarrow>
     distinct (map pr_profileId (registrations p)) \<and> distinct (map pr_registrationId (registrations p))
     \<and> pr_profileId ` set (registrations p) \<subseteq> bp_id ` set (profiles store)
     \<and> list_all (\<lambda>r. trimmed (pr_profileId r) \<and> trimmed (pr_registrationId r)
           \<and> pred_option trimmed (pr_token r)) (registrations p)"

definition state_ok :: "'u urlApi \<Rightarrow> appStateData \<Rightarrow> bool" where
  "state_ok api d \<longleftrightarrow>
     settings_ok api (settings d) \<and> store_ok api (bridgeProfiles d) \<and> push_ok (bridgeProfiles d) (push d)"

end
