(* ===== verification/AppStore.thy ===== *)
theory AppStore
  imports AppState
begin

text \<open>
  The store of \<open>appState/store.ts\<close> as a step relation.  The record holds the fields of the class
  and, for every asynchronous function under way, the point it waits at: loads of the initial
  state, the write loop, the chain of durable requests, retries.  \<open>st_disk\<close> is what storage holds: a
  read gives it and only a successful write changes it.  Listeners do not call back into the store.
\<close>

section \<open>State\<close>

datatype loadPhase =
    Reading
  | ReadingLegacy
  | Importing appStateData string

datatype loopPhase =
    LoopScheduled
  | LoopWriting appStateData string
  | LoopReturned

text \<open>A durable request waits for its turn, for a load, for the end of a write loop (or not, when
  there was none), or for its own write.\<close>

datatype durablePhase =
    DurableQueued
  | DurableInit nat
  | DurableFlush "nat option"
  | DurableWriting appStateData string

record appStore =
  st_loaded :: bool
  st_data :: appStateData
  st_error :: "failure option"
  st_initializePromise :: "nat option"
  st_loads :: "(nat \<times> loadPhase) list"
  st_nextLoad :: nat
  st_initializedSuccessfully :: bool
  st_pendingData :: "appStateData option"
  st_writeLoop :: "(nat \<times> loopPhase) option"
  st_nextLoop :: nat
  st_durableRequests :: nat
  st_durableChain :: "(appStateAction \<times> durablePhase) list"
  st_queuedActions :: "appStateAction list"
  st_retries :: "nat list"
  st_disk :: "string option"

definition createAppStateStore :: "string option \<Rightarrow> appStore" where
  "createAppStateStore disk =
     \<lparr>st_loaded = False, st_data = createDefaultAppStateData, st_error = None,
      st_initializePromise = None, st_loads = [], st_nextLoad = 0,
      st_initializedSuccessfully = False, st_pendingData = None, st_writeLoop = None,
      st_nextLoop = 0, st_durableRequests = 0, st_durableChain = [], st_queuedActions = [],
      st_retries = [], st_disk = disk\<rparr>"

section \<open>Synchronous parts\<close>

definition publish :: "appStateData \<Rightarrow> failure option \<Rightarrow> appStore \<Rightarrow> appStore" where
  "publish data persistenceErrorState s = s\<lparr>st_data := data, st_error := persistenceErrorState\<rparr>"

definition publishLoaded :: "appStateData \<Rightarrow> failure option \<Rightarrow> appStore \<Rightarrow> appStore" where
  "publishLoaded data persistenceErrorState s =
     (publish data persistenceErrorState s)\<lparr>st_loaded := True\<rparr>"

definition startWriteLoop :: "appStore \<Rightarrow> appStore" where
  "startWriteLoop s =
     (if st_writeLoop s \<noteq> None \<or> st_pendingData s = None then s
      else s\<lparr>st_writeLoop := Some (st_nextLoop s, LoopScheduled), st_nextLoop := st_nextLoop s + 1\<rparr>)"

definition queuePersistence :: "appStateData \<Rightarrow> appStore \<Rightarrow> appStore" where
  "queuePersistence data s = startWriteLoop (s\<lparr>st_pendingData := Some data\<rparr>)"

definition initialize :: "appStore \<Rightarrow> appStore" where
  "initialize s =
     (if st_initializePromise s \<noteq> None then s
      else s\<lparr>st_initializePromise := Some (st_nextLoad s),
             st_loads := st_loads s @ [(st_nextLoad s, Reading)], st_nextLoad := st_nextLoad s + 1\<rparr>)"

definition dispatch :: "'u urlApi \<Rightarrow> clock \<Rightarrow> appStateAction \<Rightarrow> appStore \<Rightarrow> jsError + appStore" where
  "dispatch api clk action s =
     (if \<not> st_loaded s then Inl (JsError ''App state has not loaded.'')
      else if st_durableRequests s > 0 then Inr (s\<lparr>st_queuedActions := st_queuedActions s @ [action]\<rparr>)
      else case appStateReducer api clk (st_data s) action of
        Inl e \<Rightarrow> Inl e
      | Inr data \<Rightarrow> Inr (queuePersistence data (publish data None s)))"

definition dispatchDurable :: "appStateAction \<Rightarrow> appStore \<Rightarrow> appStore" where
  "dispatchDurable action s =
     s\<lparr>st_durableRequests := st_durableRequests s + 1,
       st_durableChain := st_durableChain s @ [(action, DurableQueued)]\<rparr>"

text \<open>\<open>flushPersistence\<close> up to its \<open>await\<close>, and the loop it waits for.\<close>

definition flushStart :: "appStore \<Rightarrow> appStore" where
  "flushStart s =
     (if st_pendingData s \<noteq> None \<and> st_writeLoop s = None
      then startWriteLoop (publish (st_data s) None s) else s)"

definition loopEnded :: "nat option \<Rightarrow> appStore \<Rightarrow> bool" where
  "loopEnded awaited s \<longleftrightarrow> awaited = None \<or> map_option fst (st_writeLoop s) \<noteq> awaited"

text \<open>\<open>retryPersistence\<close> from the end of the loop it waited for; its \<open>flushPersistence\<close> finds a loop
  and changes nothing.\<close>

definition retryNow :: "appStore \<Rightarrow> appStore" where
  "retryNow s = startWriteLoop (publish (st_data s) None (s\<lparr>st_pendingData := Some (st_data s)\<rparr>))"

definition retryPersistence :: "appStore \<Rightarrow> appStore" where
  "retryPersistence s =
     (if \<not> st_initializedSuccessfully s then initialize (s\<lparr>st_initializePromise := None\<rparr>)
      else case st_writeLoop s of
        Some (k, phase) \<Rightarrow> s\<lparr>st_retries := st_retries s @ [k]\<rparr>
      | None \<Rightarrow> retryNow s)"

fun reduceAll ::
  "'u urlApi \<Rightarrow> clock \<Rightarrow> appStateData \<Rightarrow> appStateAction list \<Rightarrow> jsError + appStateData" where
  "reduceAll api clk data [] = Inr data"
| "reduceAll api clk data (action # actions) =
     (case appStateReducer api clk data action of
        Inl e \<Rightarrow> Inl e
      | Inr data' \<Rightarrow> reduceAll api clk data' actions)"

text \<open>When an action throws, the queue is already emptied and nothing is published.\<close>

definition applyQueuedActions :: "'u urlApi \<Rightarrow> clock \<Rightarrow> appStore \<Rightarrow> appStore" where
  "applyQueuedActions api clk s =
     (if st_queuedActions s = [] then s
      else
        let s' = s\<lparr>st_queuedActions := []\<rparr> in
        case reduceAll api clk (st_data s) (st_queuedActions s) of
          Inl e \<Rightarrow> s'
        | Inr data \<Rightarrow> queuePersistence data (publish data None s'))"

text \<open>The \<open>finally\<close> block of \<open>applyDurable\<close>.\<close>

definition durableFinally :: "'u urlApi \<Rightarrow> clock \<Rightarrow> appStore \<Rightarrow> appStore" where
  "durableFinally api clk s =
     (let s' = s\<lparr>st_durableRequests := st_durableRequests s - 1, st_durableChain := tl (st_durableChain s)\<rparr>
      in if st_durableRequests s' = 0 then applyQueuedActions api clk s' else s')"

definition durablePhaseTo :: "durablePhase \<Rightarrow> appStore \<Rightarrow> appStore" where
  "durablePhaseTo phase s =
     (case st_durableChain s of
        [] \<Rightarrow> s
      | (action, _) # rest \<Rightarrow> s\<lparr>st_durableChain := (action, phase) # rest\<rparr>)"

text \<open>\<open>applyDurable\<close> once the store has loaded, up to the \<open>await\<close> of \<open>flushPersistence\<close>.\<close>

definition durableFlushes :: "appStore \<Rightarrow> appStore" where
  "durableFlushes s =
     (let s' = flushStart s in durablePhaseTo (DurableFlush (map_option fst (st_writeLoop s'))) s')"

definition writeError :: "persistenceOperation \<Rightarrow> string \<Rightarrow> failure" where
  "writeError operation message = PersistenceError WriteFailed operation message"

definition removeLoad :: "nat \<Rightarrow> appStore \<Rightarrow> appStore" where
  "removeLoad i s = s\<lparr>st_loads := AList.delete i (st_loads s)\<rparr>"

text \<open>The loop condition of the write loop: the next write, or the end.\<close>

definition loopTurn :: "'u urlApi \<Rightarrow> clock \<Rightarrow> nat \<Rightarrow> appStore \<Rightarrow> appStore" where
  "loopTurn api clk k s =
     (case st_pendingData s of
        None \<Rightarrow> s\<lparr>st_writeLoop := Some (k, LoopReturned)\<rparr>
      | Some data \<Rightarrow>
          s\<lparr>st_pendingData := None,
            st_writeLoop := Some (k, LoopWriting data (serializeAppState api clk data))\<rparr>)"

section \<open>Steps\<close>

text \<open>The labels of the calls of the application; all other steps are continuations.\<close>

datatype storeLabel =
    CallInitialize
  | CallDispatch appStateAction
  | CallDurable appStateAction
  | CallRetry
  | CallFlush
  | RetryResumes
  | Continues

inductive store_step :: "'u urlApi \<Rightarrow> clock \<Rightarrow> storeLabel \<Rightarrow> appStore \<Rightarrow> appStore \<Rightarrow> bool"
  for api clk
where
  Initialize: "store_step api clk CallInitialize s (initialize s)"
| Dispatch: "dispatch api clk action s = Inr s' \<Longrightarrow> store_step api clk (CallDispatch action) s s'"
| Durable: "store_step api clk (CallDurable action) s (dispatchDurable action s)"
| Retry: "store_step api clk CallRetry s (retryPersistence s)"
| Flush: "store_step api clk CallFlush s (flushStart s)"
| Retry_resumes:
    "k \<in> set (st_retries s) \<Longrightarrow> loopEnded (Some k) s \<Longrightarrow>
     store_step api clk RetryResumes s (retryNow (s\<lparr>st_retries := remove1 k (st_retries s)\<rparr>))"
| Read_fails:
    "map_of (st_loads s) i = Some Reading \<Longrightarrow>
     store_step api clk Continues s (publishLoaded (st_data s)
       (Some (PersistenceError ReadFailed LoadOp ''Could not load saved app state.'')) (removeLoad i s))"
| Read_nothing:
    "map_of (st_loads s) i = Some Reading \<Longrightarrow> st_disk s = None \<Longrightarrow>
     store_step api clk Continues s (s\<lparr>st_loads := AList.update i ReadingLegacy (st_loads s)\<rparr>)"
| Read_state:
    "map_of (st_loads s) i = Some Reading \<Longrightarrow> st_disk s = Some raw \<Longrightarrow>
     parsePersistedAppState api clk raw = Inr data \<Longrightarrow>
     store_step api clk Continues s (publishLoaded data None
       (removeLoad i (s\<lparr>st_pendingData := None, st_initializedSuccessfully := True\<rparr>)))"
| Read_invalid:
    "map_of (st_loads s) i = Some Reading \<Longrightarrow> st_disk s = Some raw \<Longrightarrow>
     parsePersistedAppState api clk raw = Inl e \<Longrightarrow>
     store_step api clk Continues s (publishLoaded (st_data s)
       (Some (persistenceError ReadFailed LoadOp ''Could not load saved app state.'' e)) (removeLoad i s))"
| Legacy_fails:
    "map_of (st_loads s) i = Some ReadingLegacy \<Longrightarrow>
     store_step api clk Continues s (publishLoaded (st_data s)
       (Some (PersistenceError ReadFailed ImportOp ''Could not import the existing app settings.'')) (removeLoad i s))"
| Legacy_read:
    "map_of (st_loads s) i = Some ReadingLegacy \<Longrightarrow> importLegacyAppState api clk source = Inr data \<Longrightarrow>
     store_step api clk Continues s
       (s\<lparr>st_loads := AList.update i (Importing data (serializeAppState api clk data)) (st_loads s)\<rparr>)"
| Legacy_invalid:
    "map_of (st_loads s) i = Some ReadingLegacy \<Longrightarrow> importLegacyAppState api clk source = Inl e \<Longrightarrow>
     store_step api clk Continues s (publishLoaded (st_data s)
       (Some (persistenceError ReadFailed LoadOp ''Could not load saved app state.'' (Thrown e))) (removeLoad i s))"
| Import_saved:
    "map_of (st_loads s) i = Some (Importing data raw) \<Longrightarrow>
     store_step api clk Continues s (publishLoaded data None
       (removeLoad i (s\<lparr>st_disk := Some raw, st_pendingData := None, st_initializedSuccessfully := True\<rparr>)))"
| Import_fails:
    "map_of (st_loads s) i = Some (Importing data raw) \<Longrightarrow>
     store_step api clk Continues s (publishLoaded data
       (Some (writeError ImportOp ''Imported settings could not be saved. Retry before changing connections.''))
       (removeLoad i (s\<lparr>st_pendingData := Some data\<rparr>)))"
| Loop_starts:
    "st_writeLoop s = Some (k, LoopScheduled) \<Longrightarrow> store_step api clk Continues s (loopTurn api clk k s)"
| Loop_saved:
    "st_writeLoop s = Some (k, LoopWriting data raw) \<Longrightarrow>
     store_step api clk Continues s (loopTurn api clk k
       (publish (st_data s) None (s\<lparr>st_disk := Some raw, st_initializedSuccessfully := True\<rparr>)))"
| Loop_fails:
    "st_writeLoop s = Some (k, LoopWriting data raw) \<Longrightarrow>
     store_step api clk Continues s (publish (st_data s)
       (Some (writeError WriteOp ''Settings could not be saved. Retry to persist the latest changes.''))
       (s\<lparr>st_pendingData := Some (with_default (st_pendingData s) data), st_writeLoop := Some (k, LoopReturned)\<rparr>))"
| Loop_finally:
    "st_writeLoop s = Some (k, LoopReturned) \<Longrightarrow> store_step api clk Continues s (s\<lparr>st_writeLoop := None\<rparr>)"
| Durable_starts:
    "st_durableChain s = (action, DurableQueued) # rest \<Longrightarrow> st_loaded s \<Longrightarrow>
     store_step api clk Continues s (durableFlushes s)"
| Durable_initializes:
    "st_durableChain s = (action, DurableQueued) # rest \<Longrightarrow> \<not> st_loaded s \<Longrightarrow>
     st_initializePromise (initialize s) = Some i \<Longrightarrow>
     store_step api clk Continues s (durablePhaseTo (DurableInit i) (initialize s))"
| Durable_initialized:
    "st_durableChain s = (action, DurableInit i) # rest \<Longrightarrow> i \<notin> fst ` set (st_loads s) \<Longrightarrow>
     store_step api clk Continues s (durableFlushes s)"
| Durable_refused:
    "st_durableChain s = (action, DurableFlush k) # rest \<Longrightarrow> loopEnded k s \<Longrightarrow>
     st_error s \<noteq> None \<or> appStateReducer api clk (st_data s) action = Inl e \<Longrightarrow>
     store_step api clk Continues s (durableFinally api clk s)"
| Durable_writes:
    "st_durableChain s = (action, DurableFlush k) # rest \<Longrightarrow> loopEnded k s \<Longrightarrow> st_error s = None \<Longrightarrow>
     appStateReducer api clk (st_data s) action = Inr data \<Longrightarrow>
     store_step api clk Continues s (durablePhaseTo (DurableWriting data (serializeAppState api clk data)) s)"
| Durable_saved:
    "st_durableChain s = (action, DurableWriting data raw) # rest \<Longrightarrow>
     store_step api clk Continues s (durableFinally api clk
       (publish data None (s\<lparr>st_disk := Some raw, st_initializedSuccessfully := True\<rparr>)))"
| Durable_fails:
    "st_durableChain s = (action, DurableWriting data raw) # rest \<Longrightarrow>
     store_step api clk Continues s (durableFinally api clk (publish (st_data s)
       (Some (writeError WriteOp ''The app-state change was not saved. Please retry.'')) s))"

end
