(* ===== verification/AppStateLaws.thy ===== *)
theory AppStateLaws
  imports AppState
begin

text \<open>
  What the state of the application keeps: every action of the reducer and every load from storage
  gives a well-formed state, a well-formed state survives saving and loading unchanged, and a push
  registration never outlives the bridge it was made for.
\<close>

section \<open>Push settings\<close>

lemma keepRegistration_ok:
  assumes "distinct (map pr_profileId kept)" "distinct (map pr_registrationId kept)"
    "pr_profileId ` set kept \<subseteq> set known"
    "list_all (\<lambda>r. trimmed (pr_profileId r) \<and> trimmed (pr_registrationId r) \<and> pred_option trimmed (pr_token r)) kept"
    "kept' = keepRegistration known v kept"
  shows "distinct (map pr_profileId kept') \<and> distinct (map pr_registrationId kept')
     \<and> pr_profileId ` set kept' \<subseteq> set known
     \<and> list_all (\<lambda>r. trimmed (pr_profileId r) \<and> trimmed (pr_registrationId r)
           \<and> pred_option trimmed (pr_token r)) kept'"
  using assms nullable.reads_ok
  by (auto simp: keepRegistration_def nullable_trimmed split: option.split)

lemma keepRegistrations_ok:
  assumes "push_ok store \<lparr>optedOut = a, events = b, registrations = kept\<rparr>"
  shows "push_ok store \<lparr>optedOut = c, events = d,
    registrations = fold (keepRegistration (map bp_id (profiles store))) vs kept\<rparr>"
  using assms
proof (induction vs arbitrary: kept)
  case (Cons v vs)
  have "push_ok store \<lparr>optedOut = a, events = b,
      registrations = keepRegistration (map bp_id (profiles store)) v kept\<rparr>"
    using keepRegistration_ok [of kept "map bp_id (profiles store)" _ v] Cons.prems
    by (simp add: push_ok_def)
  then show ?case using Cons.IH by simp
qed (simp add: push_ok_def)

lemma push_ok_none [simp]: "push_ok store \<lparr>optedOut = a, events = b, registrations = []\<rparr>"
  by (simp add: push_ok_def)

lemma normalizePush_ok: "push_ok store (normalizePushSettings v store)"
  unfolding normalizePushSettings_def Let_def
  by (simp split: jsv.split add: keepRegistrations_ok [OF push_ok_none])

lemma keep_written:
  assumes "push_ok store \<lparr>optedOut = a, events = b, registrations = kept @ [r]\<rparr>"
  shows "keepRegistration (map bp_id (profiles store)) (JObj (registration_obj r)) kept = kept @ [r]"
  using assms
  by (auto simp: push_ok_def keepRegistration_def registration_obj_def prop_of_def nullable_JStr
      nullable.reads_writes)

lemma push_ok_butlast:
  "push_ok store \<lparr>optedOut = a, events = b, registrations = kept @ rs\<rparr> \<Longrightarrow>
   push_ok store \<lparr>optedOut = a, events = b, registrations = kept\<rparr>"
  by (auto simp: push_ok_def)

lemma registrations_read_back:
  "push_ok store \<lparr>optedOut = a, events = b, registrations = rs\<rparr> \<Longrightarrow>
   fold (keepRegistration (map bp_id (profiles store))) (map (\<lambda>r. JObj (registration_obj r)) rs) [] = rs"
proof (induction rs rule: rev_induct)
  case (snoc r rs)
  with push_ok_butlast [OF snoc.prems] show ?case by (simp add: keep_written)
qed simp

interpretation push_settings:
  stored "\<lambda>v. normalizePushSettings v store" "\<lambda>p. JObj (push_obj p)" "push_ok store" for store
proof unfold_locales
  fix p assume p: "push_ok store p"
  obtain a b rs where [simp]: "p = \<lparr>optedOut = a, events = b, registrations = rs\<rparr>"
    by (cases p)
  from registrations_read_back [OF p [simplified]]
  show "normalizePushSettings (JObj (push_obj p)) store = p"
    by (simp add: normalizePushSettings_def push_obj_def events_obj_def prop_of_def preference_def)
qed (rule normalizePush_ok)

section \<open>Saving and loading\<close>

lemma normalize_data_fixed:
  assumes "state_ok api d"
  shows "normalizeAppStateData api clk (JObj (settings_obj (settings d))) (bridgeProfiles d)
     (JObj (push_obj (push d))) = d"
  using assms
  by (simp add: normalizeAppStateData_def state_ok_def stored_profiles.reads_writes
      settings.reads_writes push_settings.reads_writes)

lemma normalize_data_ok:
  assumes "bridge_stable api" "preview_stable api" "clock_ok clk"
  shows "state_ok api (normalizeAppStateData api clk v store w)"
  using assms
  by (simp add: normalizeAppStateData_def state_ok_def Let_def parse_store_ok normalizePush_ok
      normalizeAppSettings_ok)

lemma plain_keys: "canonical kvs \<longleftrightarrow> sorted_wrt key_order (map fst kvs)"
  by (simp add: canonical_def)

lemma plain_settings: "settings_ok api s \<Longrightarrow> json_plain (JObj (settings_obj s))"
  by (rule plain_object)
    (simp_all add: settings_plain,
      simp add: settings_obj_def canonical_def key_order_def array_index_def is_digit_def)

lemma plain_registration: "json_plain (JObj (registration_obj r))"
  by (rule plain_object)
    (simp_all add: registration_obj_def canonical_def key_order_def array_index_def is_digit_def)

lemma plain_push: "json_plain (JObj (push_obj p))"
proof -
  have "json_plain (JObj (events_obj e))" for e
    by (rule plain_object)
      (simp_all add: events_obj_def canonical_def key_order_def array_index_def is_digit_def)
  then show ?thesis
    by (intro plain_object)
      (simp_all add: push_obj_def canonical_def key_order_def array_index_def is_digit_def list_all_iff
        plain_registration del: json_plain.simps(7))
qed

definition saved_obj :: "appStateData \<Rightarrow> jobj" where
  "saved_obj d =
     [(''version'', JNum APP_STATE_VERSION), (''settings'', JObj (settings_obj (settings d))),
      (''bridgeProfiles'', store_json (bridgeProfiles d)), (''push'', JObj (push_obj (push d)))]"

lemma plain_saved: "state_ok api d \<Longrightarrow> json_plain (JObj (saved_obj d))"
  by (rule plain_object)
    (simp_all add: saved_obj_def canonical_def key_order_def array_index_def is_digit_def plain_settings [of api]
      plain_push plain_store APP_STATE_VERSION_def state_ok_def del: json_plain.simps(7))

lemma serialize_ok: "state_ok api d \<Longrightarrow> serializeAppState api clk d = json_text (JObj (saved_obj d))"
  by (simp add: serializeAppState_def normalize_data_fixed saved_obj_def Let_def del: json_text.simps)

lemma load_saved:
  assumes "state_ok api d"
  shows "parsePersistedAppState api clk (serializeAppState api clk' d) = Inr d"
proof -
  have parsed: "json_parse (json_text (JObj (saved_obj d))) = Some (JObj (saved_obj d))"
    by (rule json_parse_text [OF plain_saved [OF assms]])
  have props: "prop_of (saved_obj d) ''version'' = JNum APP_STATE_VERSION"
    "prop_of (saved_obj d) ''settings'' = JObj (settings_obj (settings d))"
    "prop_of (saved_obj d) ''bridgeProfiles'' = store_json (bridgeProfiles d)"
    "prop_of (saved_obj d) ''push'' = JObj (push_obj (push d))"
    by (simp_all add: saved_obj_def prop_of_def)
  have "\<not> nullish (store_json s)" for s by (simp add: nullish_def store_json_def)
  with assms parsed props normalize_data_fixed [OF assms, of clk] show ?thesis
    by (simp add: parsePersistedAppState_def serialize_ok state_ok_def stored_profiles.reads_writes
        settings.reads_writes del: json_text.simps)
qed

text \<open>C13: what the store writes is what it loads: a well-formed state survives saving and parsing
  unchanged, whatever the clock shows.\<close>

theorem saved_state_loads_back:
  assumes "state_ok api d"
  shows "parsePersistedAppState api clk (serializeAppState api clk' d) = Inr d"
  using assms by (rule load_saved)

lemma load_ok:
  assumes "bridge_stable api" "preview_stable api" "clock_ok clk"
    "parsePersistedAppState api clk raw = Inr d"
  shows "state_ok api d"
  using assms(4) normalize_data_ok [OF assms(1-3)]
  by (auto simp: parsePersistedAppState_def Let_def simp del: json_text.simps split: option.splits if_splits)


section \<open>The reducer\<close>

text \<open>The ids the callers generate are fresh: that of a new profile, and the registration id.\<close>

fun action_fresh :: "clock \<Rightarrow> appStateData \<Rightarrow> appStateAction \<Rightarrow> bool" where
  "action_fresh clk d (SaveProfile draft) \<longleftrightarrow>
     draftTarget (bridgeProfiles d) draft \<noteq> None
     \<or> createBridgeProfileId clk \<notin> bp_id ` set (profiles (bridgeProfiles d))"
| "action_fresh clk d (EnsureRegistration profileId registrationId) \<longleftrightarrow>
     trim registrationId \<notin> pr_registrationId ` set (registrations (push d))"
| "action_fresh clk d _ \<longleftrightarrow> True"

lemma set_registrations_simps [simp]:
  "settings (set_registrations f d) = settings d"
  "bridgeProfiles (set_registrations f d) = bridgeProfiles d"
  "push (set_registrations f d) = (push d)\<lparr>registrations := f (registrations (push d))\<rparr>"
  by (simp_all add: set_registrations_def)

lemma distinct_map_sub: "distinct (map f xs) \<Longrightarrow> distinct (map f (filter P xs))"
  by (simp add: distinct_map inj_on_def)

lemma push_ok_filter:
  assumes "push_ok store p"
  shows "push_ok store (p\<lparr>registrations := filter P (registrations p)\<rparr>)"
  using assms by (auto simp: push_ok_def distinct_map_sub list_all_iff)

lemma push_ok_filter_to:
  assumes "push_ok store p" "\<And>r. r \<in> set (registrations p) \<Longrightarrow> P r \<Longrightarrow> pr_profileId r \<in> bp_id ` set (profiles store')"
  shows "push_ok store' (p\<lparr>registrations := filter P (registrations p)\<rparr>)"
proof -
  have "pr_profileId ` set (filter P (registrations p)) \<subseteq> bp_id ` set (profiles store')"
    using assms(2) by auto
  with push_ok_filter [OF assms(1), of P] show ?thesis by (simp add: push_ok_def)
qed

lemma push_ok_same: "push_ok store p \<Longrightarrow> bp_id ` set (profiles store) \<subseteq> bp_id ` set (profiles store') \<Longrightarrow> push_ok store' p"
  unfolding push_ok_def by (blast intro: subset_trans)

lemma push_ok_values: "push_ok store (p\<lparr>optedOut := a, events := b\<rparr>) \<longleftrightarrow> push_ok store p"
  by (simp add: push_ok_def)

lemma update_push_result:
  "state_ok api d \<Longrightarrow> appStateReducer api clk d (UpdatePush opted evs) =
     Inr (d\<lparr>push := (push d)\<lparr>optedOut := with_default opted (optedOut (push d)),
                           events := with_default evs (events (push d))\<rparr>\<rparr>)"
  by (simp add: state_ok_def push_settings.reads_writes push_ok_values)

lemma required_string: "normalizeRequiredString v name = Inr s \<longleftrightarrow> s = trim v \<and> trim v \<noteq> []"
  by (auto simp: normalizeRequiredString_def normalizeNullableString_def)

lemma save_result:
  assumes "appStateReducer api clk d (SaveProfile draft) = Inr d'"
  obtains p store where
    "upsertBridgeProfile api clk (bridgeProfiles d) draft = Inr (p, store)"
    "d' = (if bridgeIdentityChanged api (draftTarget (bridgeProfiles d) draft) draft
           then set_registrations (filter (\<lambda>r. Some (pr_profileId r)
             \<noteq> map_option bp_id (draftTarget (bridgeProfiles d) draft))) d
           else d)\<lparr>bridgeProfiles := store\<rparr>"
  using assms that
  by (auto simp: Let_def draftTarget_def [symmetric] split: sum.splits)

lemma reduce_save_ok:
  assumes "appStateReducer api clk d (SaveProfile draft) = Inr d'" "state_ok api d"
    "bridge_stable api" "clock_ok clk"
  shows "state_ok api d'"
proof -
  from save_result [OF assms(1)] obtain p store where
    up: "upsertBridgeProfile api clk (bridgeProfiles d) draft = Inr (p, store)"
    and d': "d' = (if bridgeIdentityChanged api (draftTarget (bridgeProfiles d) draft) draft
           then set_registrations (filter (\<lambda>r. Some (pr_profileId r)
             \<noteq> map_option bp_id (draftTarget (bridgeProfiles d) draft))) d
           else d)\<lparr>bridgeProfiles := store\<rparr>" by blast
  have store: "store_ok api (bridgeProfiles d)" using assms(2) by (simp add: state_ok_def)
  note up = upsert_result [OF up store assms(3,4)]
  have ids: "bp_id ` set (profiles store) = insert (bp_id p) (bp_id ` set (profiles (bridgeProfiles d)))"
    using arg_cong [OF putProfile_ids [of p "profiles (bridgeProfiles d)"], of set] up(5) by auto
  have "list_all (profile_ok api) (profiles store)"
    using store up(1) unfolding up(5) by (simp add: store_ok_def putProfile_ok)
  moreover have "pred_option (\<lambda>a. a \<in> bp_id ` set (profiles store)) (activeProfileId store)"
    using store unfolding ids up(6)
    by (cases "activeProfileId (bridgeProfiles d)") (simp_all add: store_ok_def)
  ultimately have "store_ok api store" by (simp add: store_ok_def)
  moreover have "push_ok store (push d')"
  proof -
    have "push_ok (bridgeProfiles d) (push d)" using assms(2) by (simp only: state_ok_def)
    then have "push_ok store (push d)" by (rule push_ok_same) (unfold ids, rule subset_insertI)
    then show ?thesis using push_ok_filter [of store "push d"] by (simp add: d' set_registrations_def)
  qed
  ultimately show ?thesis using assms(2) by (simp add: state_ok_def d')
qed

lemma update_registration_cases:
  assumes "updatePushRegistration d i r t = Inr d'"
  obtains "d' = d"
  | e where "findRegistration i d = Some e" "pr_registrationId e = r" "trim t \<noteq> []"
      "d' = set_registrations (map (\<lambda>x. if pr_profileId x = i then x\<lparr>pr_token := Some (trim t)\<rparr> else x)) d"
  using assms that
  by (auto simp: updatePushRegistration_def required_string split: sum.splits option.splits if_splits)

lemma update_registration_ok:
  assumes "updatePushRegistration d i r t = Inr d'" "state_ok api d"
  shows "state_ok api d'"
  using assms(1)
proof (cases rule: update_registration_cases)
  case (2 e)
  define f where "f x = (if pr_profileId x = i then x\<lparr>pr_token := Some (trim t)\<rparr> else x)"
    for x :: pushProfileRegistration
  have f: "pr_profileId (f x) = pr_profileId x" "pr_registrationId (f x) = pr_registrationId x"
    "pred_option trimmed (pr_token x) \<Longrightarrow> pred_option trimmed (pr_token (f x))" for x
    using 2 by (simp_all add: f_def)
  have "push_ok (bridgeProfiles d) (push d)" using assms(2) by (simp add: state_ok_def)
  then have "push_ok (bridgeProfiles d) ((push d)\<lparr>registrations := map f (registrations (push d))\<rparr>)"
    by (simp add: push_ok_def comp_def f image_image list_all_iff)
  with assms(2) 2(4) show ?thesis by (simp add: state_ok_def f_def [abs_def])
qed (use assms(2) in simp)

lemma ensure_registration_ok:
  assumes "appStateReducer api clk d (EnsureRegistration i r) = Inr d'" "state_ok api d"
    "action_fresh clk d (EnsureRegistration i r)"
  shows "state_ok api d'"
proof (cases "d' = d")
  case False
  with assms(1) have new: "i \<in> bp_id ` set (profiles (bridgeProfiles d))" "findRegistration i d = None"
    "trim r \<noteq> []"
    "d' = set_registrations (\<lambda>regs. regs @
       [\<lparr>pr_profileId = i, pr_registrationId = trim r, pr_token = None\<rparr>]) d"
    by (auto simp: required_string list_ex_iff split: sum.splits option.splits if_splits)
  have "trimmed i"
    using new(1) assms(2) by (auto simp: state_ok_def store_ok_def list_all_iff profile_ok_def)
  moreover have "i \<notin> pr_profileId ` set (registrations (push d))"
    using new(2) by (auto simp: findRegistration_def find_None_iff)
  ultimately have "push_ok (bridgeProfiles d) (push d')"
    using assms(2,3) new by (simp add: state_ok_def push_ok_def)
  with assms(2) new(4) show ?thesis by (simp add: state_ok_def)
qed (use assms(2) in simp)

lemma remember_thread_ok:
  "state_ok api d \<Longrightarrow> appStateReducer api clk d (RememberThread a m) = Inr d' \<Longrightarrow> state_ok api d'"
  by (auto simp: state_ok_def settings_ok_def nullable_trimmed agents_obj_set split: option.splits)

lemma reduce_ok:
  assumes "appStateReducer api clk d action = Inr d'" "state_ok api d" "action_fresh clk d action"
    "bridge_stable api" "preview_stable api" "clock_ok clk"
  shows "state_ok api d'"
proof (cases action)
  case (UpdateSettings patch)
  with assms show ?thesis by (auto simp: state_ok_def normalizeAppSettings_ok)
next
  case (RememberThread a m)
  with assms show ?thesis by (metis remember_thread_ok)
next
  case (SaveProfile draft)
  with assms show ?thesis by (metis reduce_save_ok)
next
  case (SwitchProfile i)
  then have "d' = d\<lparr>bridgeProfiles := setActiveBridgeProfile api clk (bridgeProfiles d) (Some i)\<rparr>"
    using assms(1) by (auto split: if_splits)
  with assms(2) setActive_result [of api "bridgeProfiles d" clk "Some i"] show ?thesis
    by (simp add: state_ok_def push_ok_def)
next
  case (RenameProfile i name)
  then have "d' = d\<lparr>bridgeProfiles := renameBridgeProfile api clk (bridgeProfiles d) i (Some name)\<rparr>"
    using assms(1) by simp
  moreover have "store_ok api (bridgeProfiles d)" using assms(2) by (simp add: state_ok_def)
  note rename = rename_result [OF this assms(6), where i = i and name = "Some name"]
  moreover from arg_cong [OF rename(1), of set]
  have "bp_id ` set (profiles (renameBridgeProfile api clk (bridgeProfiles d) i (Some name)))
      = bp_id ` set (profiles (bridgeProfiles d))" by simp
  ultimately show ?thesis using assms(2) by (simp add: state_ok_def push_ok_def)
next
  case (RemoveProfile i)
  then have d': "d' = set_registrations (filter (\<lambda>r. pr_profileId r \<noteq> i))
      (d\<lparr>bridgeProfiles := removeBridgeProfile api clk (bridgeProfiles d) i\<rparr>)"
    using assms(1) by simp
  have "store_ok api (bridgeProfiles d)" using assms(2) by (simp add: state_ok_def)
  note remove = remove_result [OF this, of clk i]
  have "push_ok (bridgeProfiles d) (push d)" using assms(2) by (simp add: state_ok_def)
  then have "push_ok (removeBridgeProfile api clk (bridgeProfiles d) i) (push d')"
    unfolding d' set_registrations_simps
    by (simp, intro push_ok_filter_to) (auto simp: remove push_ok_def)
  with assms(2) remove d' show ?thesis by (simp add: state_ok_def)
next
  case (UpdatePush opted evs)
  with assms show ?thesis by (auto simp: state_ok_def normalizePush_ok)
next
  case (EnsureRegistration i r)
  with assms show ?thesis by (metis ensure_registration_ok)
next
  case (PushRegistered i r t)
  with assms show ?thesis by (metis update_registration_ok appStateReducer.simps(10))
next
  case (PushUnregistered i r)
  then have "d' = set_registrations (filter (\<lambda>x. pr_profileId x \<noteq> i \<or> pr_registrationId x \<noteq> r)) d"
    using assms(1) by simp
  with assms(2) show ?thesis by (simp add: state_ok_def push_ok_filter)
next
  case ClearProfiles
  with assms show ?thesis
    by (auto simp: state_ok_def createEmptyBridgeProfileStore_def store_ok_def push_ok_def)
qed


section \<open>Registrations and bridges\<close>

text \<open>The bridge a profile id stands for.\<close>

definition bridgeOf :: "appStateData \<Rightarrow> string \<Rightarrow> (string \<times> string) option" where
  "bridgeOf d i = map_option (\<lambda>p. (bp_bridgeUrl p, bp_bridgeToken p)) (findProfile i (bridgeProfiles d))"

text \<open>A registration with a token was there before, with the same id and for the same bridge, and
  its token too unless this action brought it.\<close>

definition carried :: "appStateData \<Rightarrow> appStateAction \<Rightarrow> appStateData \<Rightarrow> pushProfileRegistration \<Rightarrow> bool" where
  "carried d action d' r \<longleftrightarrow>
     (\<exists>r0. r0 \<in> set (registrations (push d)) \<and> pr_profileId r0 = pr_profileId r
        \<and> pr_registrationId r0 = pr_registrationId r
        \<and> bridgeOf d' (pr_profileId r) = bridgeOf d (pr_profileId r)
        \<and> (pr_token r0 = pr_token r
           \<or> (\<exists>t. action = PushRegistered (pr_profileId r) (pr_registrationId r) t \<and> pr_token r = Some (trim t))))"

lemma carried_same:
  "r \<in> set (registrations (push d)) \<Longrightarrow> bridgeOf d' (pr_profileId r) = bridgeOf d (pr_profileId r) \<Longrightarrow>
   carried d action d' r"
  by (auto simp: carried_def)

lemma bridgeOf_cong: "bridgeProfiles d' = bridgeProfiles d \<Longrightarrow> bridgeOf d' i = bridgeOf d i"
  by (simp add: bridgeOf_def)

lemma bridgeOf_profiles: "profiles (bridgeProfiles d') = profiles (bridgeProfiles d) \<Longrightarrow> bridgeOf d' i = bridgeOf d i"
  by (simp add: bridgeOf_def findProfile_def)

lemma known_registration:
  "state_ok api d \<Longrightarrow> r \<in> set (registrations (push d)) \<Longrightarrow> pr_profileId r \<in> bp_id ` set (profiles (bridgeProfiles d))"
  by (auto simp: state_ok_def push_ok_def)

lemma draftTarget_Some:
  "draftTarget store draft = Some q \<Longrightarrow> findProfile (bp_id q) store = Some q"
  by (auto simp: draftTarget_def dest: findProfile_Some split: option.splits if_splits)

lemma save_carries:
  assumes "appStateReducer api clk d (SaveProfile draft) = Inr d'" "state_ok api d"
    "action_fresh clk d (SaveProfile draft)" "bridge_stable api" "clock_ok clk"
    "r \<in> set (registrations (push d'))"
  shows "carried d (SaveProfile draft) d' r"
proof -
  define target where "target = draftTarget (bridgeProfiles d) draft"
  from save_result [OF assms(1)] obtain p store where
    up: "upsertBridgeProfile api clk (bridgeProfiles d) draft = Inr (p, store)"
    and d': "d' = (if bridgeIdentityChanged api target draft
           then set_registrations (filter (\<lambda>r. Some (pr_profileId r) \<noteq> map_option bp_id target)) d
           else d)\<lparr>bridgeProfiles := store\<rparr>" unfolding target_def by blast
  have "store_ok api (bridgeProfiles d)" using assms(2) by (simp add: state_ok_def)
  note up = upsert_result [OF up this assms(4,5), folded target_def]
  from d' assms(6) have r: "r \<in> set (registrations (push d))"
    "bridgeIdentityChanged api target draft \<Longrightarrow> Some (pr_profileId r) \<noteq> map_option bp_id target"
    by (auto split: if_splits)
  have found: "findProfile i store = (if i = bp_id p then Some p else findProfile i (bridgeProfiles d))" for i
    by (simp add: findProfile_def up(5) find_putProfile)
  have "bridgeOf d' (pr_profileId r) = bridgeOf d (pr_profileId r)"
  proof (cases "pr_profileId r = bp_id p")
    case False
    then show ?thesis by (simp add: bridgeOf_def d' found)
  next
    case True
    with known_registration [OF assms(2) r(1)] assms(3) up(2) obtain q where q: "target = Some q"
      by (cases target) (auto simp: target_def)
    with up(2) True r(2) have "\<not> bridgeIdentityChanged api target draft" by auto
    with q up(3,4) have "bp_bridgeUrl p = bp_bridgeUrl q" "bp_bridgeToken p = bp_bridgeToken q"
      by (auto simp: bridgeIdentityChanged_def)
    moreover from q up(2) have "findProfile (bp_id p) (bridgeProfiles d) = Some q"
      using draftTarget_Some by (simp add: target_def)
    ultimately show ?thesis by (simp add: bridgeOf_def d' found True)
  qed
  with r(1) show ?thesis by (rule carried_same)
qed

text \<open>A push registration with a token always belongs to the bridge it was registered with:
  through every action it keeps its id, its profile still has the same URL and token, and its own
  token changes only by \<open>push/registered\<close> for exactly this registration.  Saving a profile with
  another URL or token, removing it or clearing all drops the registrations that no longer fit.\<close>

theorem registration_follows_bridge:
  assumes "appStateReducer api clk d action = Inr d'" "state_ok api d" "action_fresh clk d action"
    "bridge_stable api" "clock_ok clk" "r \<in> set (registrations (push d'))" "pr_token r \<noteq> None"
  shows "carried d action d' r"
proof (cases action)
  case (SaveProfile draft)
  with assms show ?thesis by (metis save_carries)
next
  case (SwitchProfile i)
  with assms(1,2,6) show ?thesis
    by (intro carried_same bridgeOf_profiles) (auto simp: setActive_result state_ok_def split: if_splits)
next
  case (RenameProfile i name)
  have "store_ok api (bridgeProfiles d)" using assms(2) by (simp add: state_ok_def)
  note rename = rename_result(4) [OF this assms(5), of "pr_profileId r" i "Some name"]
  from RenameProfile assms(1) have
    "d' = d\<lparr>bridgeProfiles := renameBridgeProfile api clk (bridgeProfiles d) i (Some name)\<rparr>" by simp
  with assms(6) rename show ?thesis by (intro carried_same) (simp_all add: bridgeOf_def)
next
  case (RemoveProfile i)
  then have d': "d' = set_registrations (filter (\<lambda>r. pr_profileId r \<noteq> i))
      (d\<lparr>bridgeProfiles := removeBridgeProfile api clk (bridgeProfiles d) i\<rparr>)"
    using assms(1) by simp
  have ok: "store_ok api (bridgeProfiles d)" using assms(2) by (simp add: state_ok_def)
  have "find (\<lambda>p. bp_id p = j) (filter (\<lambda>p. bp_id p \<noteq> i) ps) = find (\<lambda>p. bp_id p = j) ps" if "j \<noteq> i" for j and ps :: "bridgeProfile list"
    using that by (induction ps) auto
  with assms(6) show ?thesis
    by (intro carried_same) (auto simp: d' bridgeOf_def findProfile_def remove_result [OF ok])
next
  case (UpdatePush opted evs)
  with assms(1) update_push_result [OF assms(2), of clk opted evs]
  have "d' = d\<lparr>push := (push d)\<lparr>optedOut := with_default opted (optedOut (push d)),
     events := with_default evs (events (push d))\<rparr>\<rparr>" by simp
  with assms(6) show ?thesis by (intro carried_same bridgeOf_cong) simp_all
next
  case (EnsureRegistration i s)
  with assms(1,6,7) show ?thesis
    by (intro carried_same bridgeOf_cong) (auto split: if_splits option.splits sum.splits)
next
  case (PushRegistered i s t)
  with assms(1) have up: "updatePushRegistration d i s t = Inr d'" by simp
  then show ?thesis
  proof (cases rule: update_registration_cases)
    case (2 e)
    have e: "e \<in> set (registrations (push d))" "pr_profileId e = i"
      using 2(1) by (auto simp: findRegistration_def find_Some_iff)
    have "inj_on pr_profileId (set (registrations (push d)))"
      using assms(2) by (simp add: state_ok_def push_ok_def distinct_map)
    with e have same: "x = e" if "x \<in> set (registrations (push d))" "pr_profileId x = i" for x
      using that by (auto dest: inj_onD)
    from assms(6) 2(4) obtain x where x: "x \<in> set (registrations (push d))"
      "r = (if pr_profileId x = i then x\<lparr>pr_token := Some (trim t)\<rparr> else x)" by auto
    have "bridgeOf d' j = bridgeOf d j" for j by (rule bridgeOf_cong) (simp add: 2(4))
    then show ?thesis
      using x same [OF x(1)] e 2(2) PushRegistered by (auto simp: carried_def intro!: exI [of _ x])
  qed (use assms(6) in \<open>auto intro: carried_same\<close>)
next
  case (RememberThread a m)
  with assms(1,6) show ?thesis
    by (intro carried_same bridgeOf_cong) (auto split: option.splits)
qed (use assms in \<open>auto intro!: carried_same bridgeOf_cong\<close>)

section \<open>A platform that knows two URLs\<close>

definition demoBridge :: string where "demoBridge = ''http://10.0.0.2:4500/''"
definition demoPreview :: string where "demoPreview = ''http://127.0.0.1:3000/''"

definition demoUrl :: "string urlApi" where
  "demoUrl =
     \<lparr>url_parse = (\<lambda>s. if s = demoBridge \<or> s @ ''/'' = demoBridge then Some demoBridge
        else if s = demoPreview \<or> s @ ''/'' = demoPreview then Some demoPreview else None),
      url_href = (\<lambda>u. u), url_protocol = (\<lambda>_. ''http:''),
      url_host = (\<lambda>u. if u = demoBridge then ''10.0.0.2:4500'' else ''127.0.0.1:3000''),
      url_hostname = (\<lambda>u. if u = demoBridge then ''10.0.0.2'' else ''127.0.0.1''),
      url_username = (\<lambda>_. []), url_password = (\<lambda>_. []), url_pathname = (\<lambda>_. ''/''),
      url_setProtocol = (\<lambda>_ u. u), url_setPathname = (\<lambda>_ u. u), url_setSearch = (\<lambda>_ u. u),
      url_setHash = (\<lambda>_ u. u), url_setUsername = (\<lambda>_ u. u), url_setPassword = (\<lambda>_ u. u)\<rparr>"

lemma demo_preview_stable: "preview_stable demoUrl"
proof -
  have "t \<in> {demoBridge, demoPreview}" if "normalizePreviewTargetInput demoUrl v = Some t" for v t
    using that by (auto simp: normalizePreviewTargetInput_def demoUrl_def Let_def split: if_splits)
  moreover have "normalizePreviewTargetInput demoUrl demoPreview = Some demoPreview"
    "normalizePreviewTargetInput demoUrl v \<noteq> Some demoBridge" for v
  proof -
    show "normalizePreviewTargetInput demoUrl demoPreview = Some demoPreview" by code_simp
    have "map lower_char (trim (url_host demoUrl demoBridge)) \<notin> set LOOPBACK_HOSTS"
      "map lower_char (trim (url_hostname demoUrl demoBridge)) \<notin> set LOOPBACK_HOSTS" by code_simp+
    then show "normalizePreviewTargetInput demoUrl v \<noteq> Some demoBridge"
      by (auto simp: normalizePreviewTargetInput_def demoUrl_def Let_def demoBridge_def demoPreview_def split: if_splits)
  qed
  ultimately show ?thesis unfolding preview_stable_def by blast
qed

lemma demo_bridge_stable: "bridge_stable demoUrl"
proof -
  have "t \<in> {drop_slash demoBridge, drop_slash demoPreview}" if "normalizeBridgeUrlInput demoUrl v = Some t" for v t
    using that by (auto simp: normalizeBridgeUrlInput_def demoUrl_def Let_def split: if_splits)
  moreover have "normalizeBridgeUrlInput demoUrl (drop_slash demoBridge) = Some (drop_slash demoBridge)"
    by code_simp
  moreover have "normalizeBridgeUrlInput demoUrl (drop_slash demoPreview) = Some (drop_slash demoPreview)"
    by code_simp
  ultimately show ?thesis unfolding bridge_stable_def by blast
qed

definition demoClock :: clock where
  "demoClock = \<lparr>clock_now = ''2026-01-01T00:00:00.000Z'', clock_millis = 1767225600000, clock_random = ''0.4fzyo82m''\<rparr>"

definition demoProfile :: bridgeProfile where
  "demoProfile = \<lparr>bp_id = ''bridge-1'', bp_name = ''Desk'', bp_bridgeUrl = ''http://10.0.0.2:4500'',
     bp_bridgeToken = ''secret'', bp_createdAt = ''2025-12-31T00:00:00.000Z'',
     bp_updatedAt = ''2025-12-31T00:00:00.000Z''\<rparr>"

definition demoState :: appStateData where
  "demoState = createDefaultAppStateData
     \<lparr>bridgeProfiles := \<lparr>activeProfileId = Some ''bridge-1'', profiles = [demoProfile]\<rparr>,
      push := createDefaultPushSettings\<lparr>registrations :=
        [\<lparr>pr_profileId = ''bridge-1'', pr_registrationId = ''reg-1'', pr_token = Some ''push-token''\<rparr>]\<rparr>\<rparr>"

lemma trimmed_graph: "list_all graph_char s \<Longrightarrow> s \<noteq> [] \<Longrightarrow> trimmed s"
  by (simp add: trimmed_def trim_graph)

lemma demo_clock_ok: "clock_ok demoClock"
  by (simp add: clock_ok_def demoClock_def trimmed_graph graph_char_def ascii_alnum_def)

lemma demo_profile_ok: "profile_ok demoUrl demoProfile"
proof -
  have "normalizeBridgeUrlInput demoUrl (bp_bridgeUrl demoProfile) = Some (bp_bridgeUrl demoProfile)"
    by code_simp
  then show ?thesis
    by (simp add: profile_ok_def) (simp add: demoProfile_def trimmed_graph graph_char_def)
qed

lemma demo_state_ok: "state_ok demoUrl demoState"
proof -
  have "bp_id demoProfile = ''bridge-1''" by (simp add: demoProfile_def)
  then show ?thesis
    using demo_profile_ok
    by (simp add: state_ok_def demoState_def createDefaultAppStateData_def store_ok_def push_ok_def
        createDefaultPushSettings_def trimmed_graph graph_char_def)
qed

text \<open>Moving the profile to another bridge.\<close>

definition demoSave :: appStateAction where
  "demoSave = SaveProfile \<lparr>bd_id = Some ''bridge-1'', bd_name = None,
     bd_bridgeUrl = ''http://127.0.0.1:3000'', bd_bridgeToken = ''secret'', bd_activate = None\<rparr>"

lemma demo_save:
  "map_sum (\<lambda>e. e) (\<lambda>d. (map bp_bridgeUrl (profiles (bridgeProfiles d)), registrations (push d)))
     (appStateReducer demoUrl demoClock demoState demoSave) = Inr ([''http://127.0.0.1:3000''], [])"
proof -
  have url: "normalizeBridgeUrlInput demoUrl ''http://127.0.0.1:3000'' = Some ''http://127.0.0.1:3000''"
    by code_simp
  have "normalizeNullableString (JStr ''secret'') = Some ''secret''"
    by (simp add: nullable_JStr trimmed_graph graph_char_def)
  then obtain p store where up: "upsertBridgeProfile demoUrl demoClock (bridgeProfiles demoState)
      \<lparr>bd_id = Some ''bridge-1'', bd_name = None, bd_bridgeUrl = ''http://127.0.0.1:3000'',
       bd_bridgeToken = ''secret'', bd_activate = None\<rparr> = Inr (p, store)"
    using url by (simp add: upsertBridgeProfile_def Let_def)
  have "store_ok demoUrl (bridgeProfiles demoState)" using demo_state_ok by (simp add: state_ok_def)
  note result = upsert_result [OF up this demo_bridge_stable demo_clock_ok]
  have target: "draftTarget (bridgeProfiles demoState) \<lparr>bd_id = Some ''bridge-1'', bd_name = None,
      bd_bridgeUrl = ''http://127.0.0.1:3000'', bd_bridgeToken = ''secret'', bd_activate = None\<rparr> = Some demoProfile"
    by (simp add: draftTarget_def findProfile_def demoState_def demoProfile_def)
  with result(2,3,5) url have "map bp_bridgeUrl (profiles store) = [''http://127.0.0.1:3000'']"
    by (simp add: demoState_def demoProfile_def)
  moreover have "findProfile ''bridge-1'' (bridgeProfiles demoState) = Some demoProfile"
    by (simp add: findProfile_def demoState_def demoProfile_def)
  moreover have "bridgeIdentityChanged demoUrl (Some demoProfile) \<lparr>bd_id = Some ''bridge-1'', bd_name = None,
      bd_bridgeUrl = ''http://127.0.0.1:3000'', bd_bridgeToken = ''secret'', bd_activate = None\<rparr>"
    by (simp add: bridgeIdentityChanged_def demoProfile_def url)
  ultimately show ?thesis
    using up by (simp add: demoSave_def Let_def) (simp add: demoState_def demoProfile_def createDefaultPushSettings_def)
qed

section \<open>Witnesses\<close>

theorem saved_state_loads_back_witness:
  "parsePersistedAppState demoUrl demoClock (serializeAppState demoUrl demoClock demoState) = Inr demoState"
  by (rule saved_state_loads_back [OF demo_state_ok])

text \<open>A file of version 2 with nothing but its version.\<close>

definition demoFile :: string where
  "demoFile = ''{'' @ [CHR 0x22] @ ''version'' @ [CHR 0x22] @ '':2}''"

lemma demo_file: "json_parse demoFile = Some (JObj [(''version'', JNum 2)])"
  by code_simp


lemma demo_fresh: "action_fresh demoClock demoState demoSave"
  by (simp add: demoSave_def draftTarget_def findProfile_def demoState_def demoProfile_def)


theorem registration_follows_bridge_witness:
  "\<exists>d r. appStateReducer demoUrl demoClock demoState (PushRegistered ''bridge-1'' ''reg-1'' '' new '') = Inr d
     \<and> registrations (push d) = [r] \<and> pr_token r = Some ''new''
     \<and> carried demoState (PushRegistered ''bridge-1'' ''reg-1'' '' new '') d r"
proof -
  have "trim '' new '' = ''new''" by code_simp
  then obtain d r where d: "appStateReducer demoUrl demoClock demoState (PushRegistered ''bridge-1'' ''reg-1'' '' new '') = Inr d"
    "registrations (push d) = [r]" "pr_token r = Some ''new''"
    by (simp add: updatePushRegistration_def normalizeRequiredString_def normalizeNullableString_def
        findRegistration_def demoState_def)
  moreover from d have "carried demoState (PushRegistered ''bridge-1'' ''reg-1'' '' new '') d r"
    by (intro registration_follows_bridge [OF d(1) demo_state_ok _ demo_bridge_stable demo_clock_ok]) simp_all
  ultimately show ?thesis by blast
qed

end
