(* ===== verification/AppStoreLaws.thy ===== *)
theory AppStoreLaws
  imports AppStore AppStateLaws
begin

text \<open>
  What the store saves.  In every run in which the application calls the store as its screens do
  (nothing before a load has succeeded, no retry beside a durable request, no dispatch between the
  return of a write loop and its \<open>finally\<close>), what is shown is saved, or waiting, or being written.
  Three runs show what happens outside these conditions.
\<close>

section \<open>Runs\<close>

text \<open>Actions that bring no fresh id.\<close>

fun simple_action :: "appStateAction \<Rightarrow> bool" where
  "simple_action (EnsureRegistration _ _) \<longleftrightarrow> False"
| "simple_action (SaveProfile _) \<longleftrightarrow> False"
| "simple_action _ \<longleftrightarrow> True"

definition loop_returned :: "appStore \<Rightarrow> bool" where
  "loop_returned s \<longleftrightarrow> map_option snd (st_writeLoop s) = Some LoopReturned"

fun polite :: "storeLabel \<Rightarrow> appStore \<Rightarrow> bool" where
  "polite (CallDispatch action) s \<longleftrightarrow>
     st_initializedSuccessfully s \<and> simple_action action \<and> \<not> loop_returned s"
| "polite (CallDurable action) s \<longleftrightarrow> st_initializedSuccessfully s"
| "polite CallRetry s \<longleftrightarrow> st_loads s = [] \<and> st_durableChain s = []"
| "polite CallFlush s \<longleftrightarrow> st_initializedSuccessfully s \<and> st_durableChain s = []"
| "polite RetryResumes s \<longleftrightarrow> st_durableChain s = [] \<and> \<not> loop_returned s"
| "polite _ s \<longleftrightarrow> True"

text \<open>The ids a durable action brings are fresh when it is applied.\<close>

definition fresh_head :: "clock \<Rightarrow> appStore \<Rightarrow> bool" where
  "fresh_head clk s \<longleftrightarrow>
     (case st_durableChain s of [] \<Rightarrow> True | (action, _) # _ \<Rightarrow> action_fresh clk (st_data s) action)"

inductive reached :: "'u urlApi \<Rightarrow> string option \<Rightarrow> appStore \<Rightarrow> bool" for api disk where
  created: "reached api disk (createAppStateStore disk)"
| stepped: "reached api disk s \<Longrightarrow> store_step api clk label s s' \<Longrightarrow> clock_ok clk \<Longrightarrow> polite label s \<Longrightarrow>
    fresh_head clk s \<Longrightarrow> reached api disk s'"

section \<open>The invariant\<close>

definition readable :: "'u urlApi \<Rightarrow> string \<Rightarrow> appStateData \<Rightarrow> bool" where
  "readable api raw d \<longleftrightarrow> (\<exists>clk. parsePersistedAppState api clk raw = Inr d)"

definition saved :: "'u urlApi \<Rightarrow> appStore \<Rightarrow> bool" where
  "saved api s \<longleftrightarrow> (\<exists>raw. st_disk s = Some raw \<and> readable api raw (st_data s))"

lemma readable_serialized: "state_ok api d \<Longrightarrow> readable api (serializeAppState api clk d) d"
  unfolding readable_def by (intro exI) (rule load_saved)

fun loop_ok :: "'u urlApi \<Rightarrow> (nat \<times> loopPhase) option \<Rightarrow> appStateData option \<Rightarrow> appStateData \<Rightarrow> bool" where
  "loop_ok api (Some (k, LoopScheduled)) pending d \<longleftrightarrow> pending \<noteq> None"
| "loop_ok api (Some (k, LoopWriting w raw)) pending d \<longleftrightarrow>
     state_ok api w \<and> readable api raw w \<and> (pending = None \<longrightarrow> w = d)"
| "loop_ok api _ pending d \<longleftrightarrow> True"

fun pending_ok :: "appStateData option \<Rightarrow> appStateData \<Rightarrow> bool \<Rightarrow> bool" where
  "pending_ok None d attended \<longleftrightarrow> True"
| "pending_ok (Some p) d attended \<longleftrightarrow> p = d \<and> attended"

fun running :: "(nat \<times> loopPhase) option \<Rightarrow> bool" where
  "running (Some (k, LoopScheduled)) \<longleftrightarrow> True"
| "running (Some (k, LoopWriting w raw)) \<longleftrightarrow> True"
| "running _ \<longleftrightarrow> False"

fun writing :: "(nat \<times> loopPhase) option \<Rightarrow> bool" where
  "writing (Some (k, LoopWriting w raw)) \<longleftrightarrow> True"
| "writing _ \<longleftrightarrow> False"

fun durable_ok ::
  "'u urlApi \<Rightarrow> (appStateAction \<times> durablePhase) list \<Rightarrow> (nat \<times> loopPhase) option
     \<Rightarrow> appStateData option \<Rightarrow> bool" where
  "durable_ok api [] loop pending \<longleftrightarrow> True"
| "durable_ok api ((action, phase) # rest) loop pending \<longleftrightarrow>
     list_all (\<lambda>x. snd x = DurableQueued) rest
     \<and> (case phase of
          DurableQueued \<Rightarrow> True
        | DurableInit _ \<Rightarrow> False
        | DurableFlush k \<Rightarrow> loop = None \<or> map_option fst loop = k
        | DurableWriting d raw \<Rightarrow> loop = None \<and> pending = None \<and> state_ok api d \<and> readable api raw d)"

definition load_ok' :: "'u urlApi \<Rightarrow> nat \<times> loadPhase \<Rightarrow> bool" where
  "load_ok' api load \<longleftrightarrow>
     (case snd load of Importing d raw \<Rightarrow> state_ok api d \<and> readable api raw d | _ \<Rightarrow> True)"

definition store_inv :: "'u urlApi \<Rightarrow> appStore \<Rightarrow> bool" where
  "store_inv api s \<longleftrightarrow>
     state_ok api (st_data s)
     \<and> (if st_initializedSuccessfully s
        then st_loads s = [] \<and> st_loaded s \<and> st_initializePromise s \<noteq> None
        else st_writeLoop s = None \<and> st_durableChain s = [] \<and> st_retries s = [])
     \<and> length (st_loads s) \<le> 1 \<and> (st_initializePromise s = None \<longrightarrow> st_loads s = [])
     \<and> list_all (load_ok' api) (st_loads s)
     \<and> pending_ok (st_pendingData s) (st_data s) (running (st_writeLoop s) \<or> st_error s \<noteq> None)
     \<and> loop_ok api (st_writeLoop s) (st_pendingData s) (st_data s)
     \<and> (st_initializedSuccessfully s \<and> st_pendingData s = None \<and> \<not> writing (st_writeLoop s) \<longrightarrow> saved api s)
     \<and> durable_ok api (st_durableChain s) (st_writeLoop s) (st_pendingData s)
     \<and> st_durableRequests s = length (st_durableChain s)
     \<and> list_all simple_action (st_queuedActions s)
     \<and> (st_durableChain s = [] \<longrightarrow> st_queuedActions s = [])"

lemmas sync_defs =
  publish_def publishLoaded_def startWriteLoop_def queuePersistence_def initialize_def flushStart_def
  retryNow_def removeLoad_def loopTurn_def durableFlushes_def durablePhaseTo_def dispatchDurable_def

lemma default_state_ok: "state_ok api createDefaultAppStateData"
  by (simp add: state_ok_def createDefaultAppStateData_def createEmptyBridgeProfileStore_def store_ok_def
      createDefaultPushSettings_def)

lemma created_inv: "store_inv api (createAppStateStore disk)"
  by (simp add: store_inv_def createAppStateStore_def default_state_ok)

lemma single_load: "length xs \<le> 1 \<Longrightarrow> map_of xs i = Some p \<Longrightarrow> xs = [(i, p)]"
  by (cases xs) (auto split: if_splits)

lemma simple_fresh: "simple_action a \<Longrightarrow> action_fresh clk d a"
  by (cases a) auto

lemma reduce_simple:
  "appStateReducer api clk d a = Inr d' \<Longrightarrow> state_ok api d \<Longrightarrow> simple_action a \<Longrightarrow>
   bridge_stable api \<Longrightarrow> preview_stable api \<Longrightarrow> clock_ok clk \<Longrightarrow> state_ok api d'"
  by (rule reduce_ok) (assumption | rule simple_fresh)+

lemma reduceAll_ok:
  "reduceAll api clk d as = Inr d' \<Longrightarrow> state_ok api d \<Longrightarrow> list_all simple_action as \<Longrightarrow>
   bridge_stable api \<Longrightarrow> preview_stable api \<Longrightarrow> clock_ok clk \<Longrightarrow> state_ok api d'"
  by (induction as arbitrary: d) (auto split: sum.splits intro: reduce_simple)

section \<open>Every step keeps the invariant\<close>

lemma legacy_ok:
  assumes "importLegacyAppState api clk source = Inr d" "bridge_stable api" "preview_stable api" "clock_ok clk"
  shows "state_ok api d"
proof -
  define stored where "stored = parseBridgeProfileStore api clk (bridgeProfilesRaw source)"
  have stored: "store_ok api stored" using assms by (simp add: stored_def parse_store_ok)
  have up: "store_ok api store'" if up: "upsertBridgeProfile api clk stored draft = Inr (p, store')" for draft p store'
  proof -
    have "store' = sanitizeBridgeProfileStore api clk x \<Longrightarrow> store_ok api store'" for x
      using assms by (simp add: sanitize_ok)
    moreover from up obtain x where "store' = sanitizeBridgeProfileStore api clk x"
      by (auto simp: upsertBridgeProfile_def Let_def split: option.splits if_splits)
    ultimately show ?thesis by blast
  qed
  have "store_ok api (bridgeProfiles d) \<and> push d = createDefaultPushSettings \<and> (\<exists>v. settings d = normalizeAppSettings api v)"
    using assms(1) stored up
    by (auto simp: importLegacyAppState_def Let_def stored_def [symmetric] map_sum_def
        split: sum.splits list.splits option.splits if_splits)
  with assms show ?thesis
    by (auto simp: state_ok_def normalizeAppSettings_ok createDefaultPushSettings_def)
qed

lemma inv_put:
  assumes "store_inv api s" "st_initializedSuccessfully s" "st_durableChain s = []" "\<not> loop_returned s"
    "state_ok api d"
  shows "store_inv api (queuePersistence d (publish d None s))"
proof (cases "st_writeLoop s")
  case None
  with assms show ?thesis by (simp add: store_inv_def sync_defs)
next
  case (Some l)
  obtain k phase where l: "l = (k, phase)" by (cases l)
  with Some assms show ?thesis by (cases phase) (simp_all add: store_inv_def sync_defs loop_returned_def)
qed

lemma durable_queued: "list_all (\<lambda>x. snd x = DurableQueued) rest \<Longrightarrow> durable_ok api rest loop pending"
  by (cases rest) (auto)

lemma inv_finally:
  assumes "store_inv api (s\<lparr>st_durableChain := (a, DurableQueued) # rest\<rparr>)"
    "st_durableChain s = (a, phase) # rest" "st_writeLoop s = None" "st_initializedSuccessfully s"
    "bridge_stable api" "preview_stable api" "clock_ok clk"
  shows "store_inv api (durableFinally api clk s)"
proof -
  define s1 where "s1 = s\<lparr>st_durableRequests := st_durableRequests s - 1, st_durableChain := rest\<rparr>"
  have fin: "durableFinally api clk s = (if rest = [] then applyQueuedActions api clk s1 else s1)"
    using assms(1,2) by (simp add: durableFinally_def s1_def store_inv_def)
  have queued: "list_all (\<lambda>x. snd x = DurableQueued) rest" using assms(1) by (simp add: store_inv_def)
  show ?thesis
  proof (cases "rest = []")
    case False
    with assms queued show ?thesis
      unfolding fin by (simp add: store_inv_def s1_def durable_queued saved_def)
  next
    case True
    define s2 where "s2 = s1\<lparr>st_queuedActions := []\<rparr>"
    have s2: "store_inv api s2"
      using assms True by (simp add: store_inv_def s1_def s2_def saved_def)
    show ?thesis
    proof (cases "reduceAll api clk (st_data s1) (st_queuedActions s1)")
      case (Inr d)
      have "list_all simple_action (st_queuedActions s1)" "state_ok api (st_data s1)"
        using assms(1) by (simp_all add: store_inv_def s1_def)
      with Inr assms have "state_ok api d" by (metis reduceAll_ok)
      then have "store_inv api (queuePersistence d (publish d None s2))"
        using s2 assms True by (intro inv_put) (simp_all add: s2_def s1_def loop_returned_def)
      moreover have "st_queuedActions s1 = [] \<Longrightarrow> s1 = s2" by (cases s1) (simp add: s2_def)
      ultimately show ?thesis
        using True Inr s2 by (auto simp: fin applyQueuedActions_def s2_def [symmetric] Let_def)
    next
      case (Inl e)
      moreover have "st_queuedActions s1 = [] \<Longrightarrow> s1 = s2" by (cases s1) (simp add: s2_def)
      ultimately show ?thesis
        using True s2 by (auto simp: fin applyQueuedActions_def s2_def [symmetric] Let_def)
    qed
  qed
qed

lemma inv_dispatch:
  assumes "dispatch api clk a s = Inr s'" "store_inv api s" "polite (CallDispatch a) s"
    "bridge_stable api" "preview_stable api" "clock_ok clk"
  shows "store_inv api s'"
proof (cases "st_durableRequests s > 0")
  case True
  with assms(1) have "s' = s\<lparr>st_queuedActions := st_queuedActions s @ [a]\<rparr>"
    by (auto simp: dispatch_def split: if_splits)
  with True assms(2,3) show ?thesis by (auto simp: store_inv_def saved_def)
next
  case False
  with assms(1) obtain d where d: "appStateReducer api clk (st_data s) a = Inr d"
    "s' = queuePersistence d (publish d None s)"
    by (auto simp: dispatch_def split: if_splits sum.splits)
  have "state_ok api (st_data s)" using assms(2) by (simp add: store_inv_def)
  moreover have "simple_action a" "st_initializedSuccessfully s" "\<not> loop_returned s" using assms(3) by simp_all
  moreover have "st_durableChain s = []" using False assms(2) by (simp add: store_inv_def)
  ultimately show ?thesis
    using reduce_simple [OF d(1)] assms(2,4-6) unfolding d(2) by (intro inv_put)
qed

lemma inv_retryNow:
  assumes "store_inv api s" "st_initializedSuccessfully s" "st_durableChain s = []" "\<not> loop_returned s"
  shows "store_inv api (retryNow s)"
proof -
  have "retryNow s = queuePersistence (st_data s) (publish (st_data s) None s)"
    by (simp add: sync_defs)
  with assms show ?thesis using inv_put [of api s "st_data s"] by (simp add: store_inv_def)
qed

lemma durable_ok_loop:
  "durable_ok api chain (Some (k, phase)) pending \<Longrightarrow> durable_ok api chain (Some (k, phase')) pending'"
  by (cases chain; cases "hd chain") (auto split: durablePhase.splits)

lemma durable_ok_ended: "durable_ok api chain (Some l) pending \<Longrightarrow> durable_ok api chain None pending'"
  by (cases chain; cases "hd chain") (auto split: durablePhase.splits)

lemma inv_loop_initialized: "store_inv api s \<Longrightarrow> st_writeLoop s = Some l \<Longrightarrow> st_initializedSuccessfully s"
  by (auto simp: store_inv_def split: if_splits)

lemma inv_loopTurn:
  assumes "store_inv api s" "st_writeLoop s = Some (k, LoopScheduled)" "clock_ok clk"
  shows "store_inv api (loopTurn api clk k s)"
proof -
  note init = inv_loop_initialized [OF assms(1,2)]
  from assms obtain d where "st_pendingData s = Some d" "d = st_data s" "state_ok api d"
    by (cases "st_pendingData s") (auto simp: store_inv_def)
  moreover have "durable_ok api (st_durableChain s) (Some (k, LoopWriting d raw)) None" for raw
    using assms(1,2) durable_ok_loop by (simp add: store_inv_def) blast
  ultimately show ?thesis
    using assms init by (simp add: store_inv_def loopTurn_def readable_serialized)
qed

lemma inv_loads:
  assumes "store_inv api s" "map_of (st_loads s) i = Some phase"
  shows "st_loads s = [(i, phase)]" "\<not> st_initializedSuccessfully s" "st_writeLoop s = None"
    "st_durableChain s = []" "st_retries s = []"
  using assms single_load [of "st_loads s" i phase]
  by (auto simp: store_inv_def split: if_splits)

lemma inv_load_step:
  assumes "store_inv api s" "map_of (st_loads s) i = Some phase" "load_ok' api (i, phase')"
  shows "store_inv api (s\<lparr>st_loads := AList.update i phase' (st_loads s)\<rparr>)"
  using assms inv_loads [OF assms(1,2)] by (simp add: store_inv_def saved_def)

lemma inv_load_fails:
  assumes "store_inv api s" "map_of (st_loads s) i = Some phase"
  shows "store_inv api (publishLoaded (st_data s) (Some e) (removeLoad i s))"
  using assms inv_loads [OF assms]
  by (cases "st_pendingData s") (simp_all add: store_inv_def sync_defs saved_def)

lemma inv_load_done:
  assumes "store_inv api s" "map_of (st_loads s) i = Some phase" "state_ok api d"
    "st_disk s' = Some raw" "readable api raw d"
    "s' = s\<lparr>st_disk := disk, st_pendingData := None, st_initializedSuccessfully := True\<rparr>"
  shows "store_inv api (publishLoaded d None (removeLoad i s'))"
  using assms(3-) assms(1) inv_loads [OF assms(1,2)]
  by (auto simp: store_inv_def sync_defs saved_def)

lemma inv_loop_finish:
  assumes "store_inv api s" "st_writeLoop s = Some (k, LoopWriting d raw)" "clock_ok clk"
  shows "store_inv api (loopTurn api clk k
    (publish (st_data s) None (s\<lparr>st_disk := Some raw, st_initializedSuccessfully := True\<rparr>)))"
proof -
  note init = inv_loop_initialized [OF assms(1,2)]
  have durable: "durable_ok api (st_durableChain s) (Some (k, phase)) pending" for phase pending
    using assms(1,2) durable_ok_loop by (simp add: store_inv_def) blast
  show ?thesis
  proof (cases "st_pendingData s")
    case None
    with assms init durable show ?thesis by (auto simp: store_inv_def sync_defs saved_def)
  next
    case (Some p)
    with assms init durable show ?thesis
      by (simp add: store_inv_def sync_defs saved_def readable_serialized)
  qed
qed

lemma inv_loop_fails:
  assumes "store_inv api s" "st_writeLoop s = Some (k, LoopWriting d raw)"
  shows "store_inv api (publish (st_data s) (Some e)
    (s\<lparr>st_pendingData := Some (with_default (st_pendingData s) d), st_writeLoop := Some (k, LoopReturned)\<rparr>))"
proof -
  note init = inv_loop_initialized [OF assms]
  have durable: "durable_ok api (st_durableChain s) (Some (k, phase)) pending" for phase pending
    using assms durable_ok_loop by (simp add: store_inv_def) blast
  with assms init show ?thesis
    by (cases "st_pendingData s") (simp_all add: store_inv_def sync_defs)
qed

lemma inv_loop_finally:
  assumes "store_inv api s" "st_writeLoop s = Some (k, LoopReturned)"
  shows "store_inv api (s\<lparr>st_writeLoop := None\<rparr>)"
proof -
  note init = inv_loop_initialized [OF assms]
  have "durable_ok api (st_durableChain s) None (st_pendingData s)"
    using assms durable_ok_ended by (simp add: store_inv_def) blast
  with assms init show ?thesis
    by (simp add: store_inv_def saved_def)
qed

lemma inv_durable_initialized:
  "store_inv api s \<Longrightarrow> st_durableChain s \<noteq> [] \<Longrightarrow> st_initializedSuccessfully s"
  by (auto simp: store_inv_def split: if_splits)

lemma inv_durable_flushes:
  assumes "store_inv api s" "st_durableChain s = (a, DurableQueued) # rest"
  shows "store_inv api (durableFlushes s)"
proof -
  have init: "st_initializedSuccessfully s" using assms inv_durable_initialized by fastforce
  show ?thesis
  proof (cases "st_writeLoop s")
    case None
    then show ?thesis using assms init
      by (cases "st_pendingData s") (simp_all add: store_inv_def sync_defs saved_def)
  next
    case (Some l)
    obtain k phase where "l = (k, phase)" by (cases l)
    with Some assms init show ?thesis
      by (simp add: store_inv_def sync_defs saved_def)
  qed
qed

lemma inv_flush_ended:
  assumes "store_inv api s" "st_durableChain s = (a, DurableFlush k) # rest" "loopEnded k s"
  shows "st_writeLoop s = None" "st_error s = None \<Longrightarrow> st_pendingData s = None"
    "st_initializedSuccessfully s"
proof -
  show init: "st_initializedSuccessfully s" using assms(1,2) inv_durable_initialized by fastforce
  show loop: "st_writeLoop s = None"
    using assms by (cases "st_writeLoop s") (auto simp: store_inv_def loopEnded_def)
  then show "st_error s = None \<Longrightarrow> st_pendingData s = None"
    using assms(1) by (cases "st_pendingData s") (simp_all add: store_inv_def)
qed

lemma inv_durable_refused:
  assumes "store_inv api s" "st_durableChain s = (a, DurableFlush k) # rest" "loopEnded k s"
    "bridge_stable api" "preview_stable api" "clock_ok clk"
  shows "store_inv api (durableFinally api clk s)"
proof -
  note ended = inv_flush_ended [OF assms(1-3)]
  have "store_inv api (s\<lparr>st_durableChain := (a, DurableQueued) # rest\<rparr>)"
    using assms(1,2) ended by (simp add: store_inv_def saved_def)
  then show ?thesis by (rule inv_finally [OF _ assms(2)]) (use ended assms in simp_all)
qed

lemma inv_durable_writes:
  assumes "store_inv api s" "st_durableChain s = (a, DurableFlush k) # rest" "loopEnded k s"
    "st_error s = None" "appStateReducer api clk (st_data s) a = Inr d" "fresh_head clk s"
    "bridge_stable api" "preview_stable api" "clock_ok clk"
  shows "store_inv api (durablePhaseTo (DurableWriting d (serializeAppState api clk d)) s)"
proof -
  note ended = inv_flush_ended [OF assms(1-3)]
  have "action_fresh clk (st_data s) a" using assms(2,6) by (simp add: fresh_head_def)
  moreover have "state_ok api (st_data s)" using assms(1) by (simp add: store_inv_def)
  ultimately have "state_ok api d" using assms by (metis reduce_ok)
  with assms ended show ?thesis
    by (simp add: store_inv_def sync_defs saved_def readable_serialized)
qed

lemma inv_durable_ends:
  assumes "store_inv api s" "st_durableChain s = (a, DurableWriting d raw) # rest"
    "bridge_stable api" "preview_stable api" "clock_ok clk"
  shows "store_inv api (durableFinally api clk
      (publish d None (s\<lparr>st_disk := Some raw, st_initializedSuccessfully := True\<rparr>)))"
    and "store_inv api (durableFinally api clk (publish (st_data s) (Some e) s))"
proof -
  have init: "st_initializedSuccessfully s" using assms(1,2) inv_durable_initialized by fastforce
  show "store_inv api (durableFinally api clk
      (publish d None (s\<lparr>st_disk := Some raw, st_initializedSuccessfully := True\<rparr>)))"
    by (rule inv_finally) (use assms init in \<open>simp_all add: store_inv_def publish_def saved_def\<close>)
  show "store_inv api (durableFinally api clk (publish (st_data s) (Some e) s))"
    by (rule inv_finally) (use assms init in \<open>simp_all add: store_inv_def publish_def saved_def\<close>)
qed

lemma inv_retry:
  assumes "store_inv api s" "polite CallRetry s"
  shows "store_inv api (retryPersistence s)"
proof (cases "st_initializedSuccessfully s")
  case False
  with assms show ?thesis
    by (cases "st_pendingData s")
      (auto simp: retryPersistence_def store_inv_def initialize_def load_ok'_def)
next
  case True
  show ?thesis
  proof (cases "st_writeLoop s")
    case None
    with True assms show ?thesis by (simp add: retryPersistence_def inv_retryNow loop_returned_def)
  next
    case (Some l)
    with True assms show ?thesis
      by (cases l) (simp add: retryPersistence_def store_inv_def saved_def)
  qed
qed

lemma inv_flush:
  assumes "store_inv api s" "polite CallFlush s"
  shows "store_inv api (flushStart s)"
  using assms by (cases "st_pendingData s") (simp_all add: store_inv_def sync_defs)

lemma inv_initialize: "store_inv api s \<Longrightarrow> store_inv api (initialize s)"
  by (cases "st_pendingData s") (auto simp: store_inv_def initialize_def load_ok'_def split: if_splits)

lemma inv_durable_call:
  assumes "store_inv api s" "polite (CallDurable a) s"
  shows "store_inv api (dispatchDurable a s)"
proof -
  have "durable_ok api (st_durableChain s @ [(a, DurableQueued)]) (st_writeLoop s) (st_pendingData s)"
    using assms(1) by (cases "st_durableChain s"; cases "hd (st_durableChain s)") (auto simp: store_inv_def)
  with assms show ?thesis by (simp add: store_inv_def dispatchDurable_def saved_def)
qed

lemma step_inv:
  assumes "store_step api clk label s s'" "store_inv api s" "polite label s" "fresh_head clk s"
    "bridge_stable api" "preview_stable api" "clock_ok clk"
  shows "store_inv api s'"
  using assms(1)
proof cases
  case (Dispatch action)
  with assms show ?thesis by (auto intro: inv_dispatch)
next
  case (Retry_resumes k)
  let ?s = "s\<lparr>st_retries := remove1 k (st_retries s)\<rparr>"
  have "st_initializedSuccessfully s" using Retry_resumes assms(2) by (auto simp: store_inv_def split: if_splits)
  moreover have "store_inv api ?s" using assms(2) by (simp add: store_inv_def saved_def)
  ultimately show ?thesis
    using Retry_resumes assms(3) by (auto intro!: inv_retryNow simp: loop_returned_def)
next
  case (Read_nothing i)
  with assms(2) show ?thesis by (simp add: inv_load_step load_ok'_def)
next
  case (Legacy_read i source data)
  then have "state_ok api data" using assms by (auto intro: legacy_ok)
  then show ?thesis
    using Legacy_read assms(2) by (simp add: inv_load_step load_ok'_def readable_serialized)
next
  case (Read_state i raw data)
  then have "state_ok api data" using assms by (auto intro: load_ok)
  moreover have "readable api raw data" using Read_state by (auto simp: readable_def)
  moreover have "s\<lparr>st_pendingData := None, st_initializedSuccessfully := True\<rparr> =
      s\<lparr>st_disk := Some raw, st_pendingData := None, st_initializedSuccessfully := True\<rparr>"
    using Read_state by (cases s) simp
  ultimately show ?thesis
    using Read_state assms(2) by (auto intro!: inv_load_done [where raw = raw and disk = "Some raw"])
next
  case (Import_saved i data raw)
  then have "load_ok' api (i, Importing data raw)"
    using inv_loads [OF assms(2) Import_saved(3)] assms(2) by (simp add: store_inv_def)
  then have "state_ok api data" "readable api raw data" by (simp_all add: load_ok'_def)
  then show ?thesis
    unfolding Import_saved(2)
    by (intro inv_load_done [OF assms(2) Import_saved(3), where raw = raw and disk = "Some raw"]) simp_all
next
  case (Import_fails i data raw)
  note loads = inv_loads [OF assms(2) Import_fails(3)]
  from loads have "load_ok' api (i, Importing data raw)" using assms(2) by (simp add: store_inv_def)
  with Import_fails loads assms(2) show ?thesis
    by (simp add: store_inv_def sync_defs load_ok'_def)
next
  case (Durable_initializes action rest i)
  then show ?thesis using inv_durable_initialized [OF assms(2)] assms(2) by (simp add: store_inv_def)
next
  case (Durable_initialized action i rest)
  then show ?thesis using assms(2) by (simp add: store_inv_def)
next
  case (Durable_starts action rest)
  with assms(2) show ?thesis by (simp add: inv_durable_flushes)
next
  case (Durable_refused action k rest e)
  with assms show ?thesis by (auto intro: inv_durable_refused)
next
  case (Durable_writes action k rest data)
  with assms show ?thesis by (auto intro: inv_durable_writes)
next
  case (Durable_saved action data raw rest)
  with assms show ?thesis by (auto intro: inv_durable_ends)
next
  case (Durable_fails action data raw rest)
  with assms show ?thesis by (auto intro: inv_durable_ends)
qed (use assms in \<open>auto intro: inv_load_fails inv_loopTurn inv_loop_finish inv_loop_fails inv_loop_finally
      inv_retry inv_flush inv_initialize inv_durable_call\<close>)

lemma reached_inv:
  "reached api disk s \<Longrightarrow> bridge_stable api \<Longrightarrow> preview_stable api \<Longrightarrow> store_inv api s"
  by (induction rule: reached.induct) (auto intro: created_inv step_inv)


section \<open>The write loop ends with everything saved\<close>

definition store_run :: "'u urlApi \<Rightarrow> clock \<Rightarrow> appStore \<Rightarrow> appStore \<Rightarrow> bool" where
  "store_run api clk = (\<lambda>s s'. \<exists>label. store_step api clk label s s')\<^sup>*\<^sup>*"

lemma run_refl [simp]: "store_run api clk s s"
  by (simp add: store_run_def)

lemma run_step: "store_step api clk label s s' \<Longrightarrow> store_run api clk s' s'' \<Longrightarrow> store_run api clk s s''"
  unfolding store_run_def by (rule converse_rtranclp_into_rtranclp) auto

text \<open>Nothing is under way.\<close>

definition settled :: "appStore \<Rightarrow> bool" where
  "settled s \<longleftrightarrow>
     st_loaded s \<and> st_initializedSuccessfully s \<and> st_error s = None \<and> st_loads s = []
     \<and> st_pendingData s = None \<and> st_writeLoop s = None \<and> st_retries s = []
     \<and> st_durableChain s = [] \<and> st_durableRequests s = 0 \<and> st_queuedActions s = []"

text \<open>\<open>s\<close> after a loop has written \<open>raw\<close> and ended.\<close>

definition afterLoop :: "string \<Rightarrow> appStore \<Rightarrow> appStore" where
  "afterLoop raw s = s\<lparr>st_disk := Some raw, st_initializedSuccessfully := True, st_error := None,
     st_pendingData := None, st_writeLoop := None\<rparr>"

lemma run_last_write:
  assumes "st_writeLoop s = Some (k, LoopWriting d raw)" "st_pendingData s = None"
  shows "store_run api clk s (afterLoop raw s)"
proof -
  define s1 where "s1 = loopTurn api clk k
      (publish (st_data s) None (s\<lparr>st_disk := Some raw, st_initializedSuccessfully := True\<rparr>))"
  have "store_step api clk Continues s s1"
    unfolding s1_def by (rule Loop_saved) (rule assms)
  moreover have "st_writeLoop s1 = Some (k, LoopReturned)" "s1\<lparr>st_writeLoop := None\<rparr> = afterLoop raw s"
    using assms by (simp_all add: s1_def sync_defs afterLoop_def)
  then have "store_step api clk Continues s1 (afterLoop raw s)"
    using Loop_finally [of s1 k api clk] by simp
  ultimately show ?thesis by (meson run_step run_refl)
qed

lemma run_pending_write:
  assumes "st_writeLoop s = Some (k, LoopScheduled)" "st_pendingData s = Some d"
  shows "store_run api clk s (afterLoop (serializeAppState api clk d) s)"
proof -
  define s1 where "s1 = loopTurn api clk k s"
  have "store_step api clk Continues s s1" unfolding s1_def by (rule Loop_starts) (rule assms)
  moreover have "st_writeLoop s1 = Some (k, LoopWriting d (serializeAppState api clk d))" "st_pendingData s1 = None"
    "afterLoop raw s1 = afterLoop raw s" for raw
    using assms by (simp_all add: s1_def sync_defs afterLoop_def)
  ultimately show ?thesis using run_last_write [of s1 k] by (metis run_step)
qed

lemma run_next_write:
  assumes "st_writeLoop s = Some (k, LoopWriting w raw)" "st_pendingData s = Some d"
  shows "store_run api clk s (afterLoop (serializeAppState api clk d) s)"
proof -
  define s1 where "s1 = loopTurn api clk k
      (publish (st_data s) None (s\<lparr>st_disk := Some raw, st_initializedSuccessfully := True\<rparr>))"
  have "store_step api clk Continues s s1"
    unfolding s1_def by (rule Loop_saved) (rule assms)
  moreover have "st_writeLoop s1 = Some (k, LoopWriting d (serializeAppState api clk d))" "st_pendingData s1 = None"
    "afterLoop raw' s1 = afterLoop raw' s" for raw'
    using assms by (simp_all add: s1_def sync_defs afterLoop_def)
  ultimately show ?thesis using run_last_write [of s1 k] by (metis run_step)
qed


section \<open>Three runs that lose something\<close>

text \<open>A retry while a durable write is under way lets the old state win: the durable write
  succeeds and its state is shown, but the loop started by the retry then writes the state from
  before, and the store rests without an error over it.\<close>

theorem retry_overwrites_durable_write:
  assumes "settled s" "appStateReducer api clk (st_data s) a = Inr d"
  shows "\<exists>s'. store_run api clk s s' \<and> settled s' \<and> st_data s' = d
    \<and> st_disk s' = Some (serializeAppState api clk (st_data s))"
proof -
  define raw where "raw = serializeAppState api clk d"
  define s1 where "s1 = dispatchDurable a s"
  define s2 where "s2 = durableFlushes s1"
  define s3 where "s3 = durablePhaseTo (DurableWriting d raw) s2"
  define s4 where "s4 = retryPersistence s3"
  define s5 where "s5 = loopTurn api clk (st_nextLoop s) s4"
  define s6 where "s6 = durableFinally api clk
      (publish d None (s5\<lparr>st_disk := Some raw, st_initializedSuccessfully := True\<rparr>))"
  note rest = assms(1)[unfolded settled_def]
  have step1: "store_step api clk (CallDurable a) s s1" unfolding s1_def by (rule Durable)
  have chain1: "st_durableChain s1 = [(a, DurableQueued)]" "st_loaded s1"
    using rest by (simp_all add: s1_def dispatchDurable_def)
  have step2: "store_step api clk Continues s1 s2" unfolding s2_def by (rule Durable_starts [OF chain1])
  have chain2: "st_durableChain s2 = [(a, DurableFlush None)]" "loopEnded None s2" "st_error s2 = None"
    "appStateReducer api clk (st_data s2) a = Inr d"
    using rest assms(2) by (simp_all add: s2_def s1_def sync_defs loopEnded_def)
  have step3: "store_step api clk Continues s2 s3"
    unfolding s3_def raw_def by (rule Durable_writes [OF chain2])
  have step4: "store_step api clk CallRetry s3 s4" unfolding s4_def by (rule Retry)
  have loop4: "st_writeLoop s4 = Some (st_nextLoop s, LoopScheduled)" "st_pendingData s4 = Some (st_data s)"
    using rest by (simp_all add: s4_def s3_def s2_def s1_def retryPersistence_def sync_defs)
  have step5: "store_step api clk Continues s4 s5" unfolding s5_def by (rule Loop_starts) (rule loop4)
  have chain5: "st_durableChain s5 = [(a, DurableWriting d raw)]"
    using rest by (simp add: s5_def s4_def s3_def s2_def s1_def retryPersistence_def sync_defs)
  have step6: "store_step api clk Continues s5 s6" unfolding s6_def by (rule Durable_saved [OF chain5])
  have end6: "st_writeLoop s6 = Some (st_nextLoop s, LoopWriting (st_data s) (serializeAppState api clk (st_data s)))"
    "st_pendingData s6 = None" "st_data s6 = d" "st_loaded s6" "st_loads s6 = []" "st_retries s6 = []"
    "st_durableChain s6 = []" "st_durableRequests s6 = 0" "st_queuedActions s6 = []"
    using rest by (simp_all add: s6_def s5_def s4_def s3_def s2_def s1_def retryPersistence_def sync_defs
        durableFinally_def applyQueuedActions_def)
  have "store_run api clk s6 (afterLoop (serializeAppState api clk (st_data s)) s6)"
    by (rule run_last_write [OF end6(1,2)])
  then have "store_run api clk s (afterLoop (serializeAppState api clk (st_data s)) s6)"
    using step1 step2 step3 step4 step5 step6 by (meson run_step)
  with end6 show ?thesis
    by (intro exI [of _ "afterLoop (serializeAppState api clk (st_data s)) s6"])
      (simp add: settled_def afterLoop_def)
qed

text \<open>A dispatch between the return of the write loop and its \<open>finally\<close> is never written: the
  loop is not started because the old one is still recorded, and once that is cleared the new state
  waits with no error and no step left to take.\<close>

theorem dispatch_after_loop_not_written:
  assumes "st_writeLoop s = Some (k, LoopReturned)" "st_loaded s" "st_durableRequests s = 0"
    "st_durableChain s = []" "st_loads s = []" "appStateReducer api clk (st_data s) a = Inr d"
  shows "\<exists>s'. store_run api clk s s' \<and> st_data s' = d \<and> st_pendingData s' = Some d \<and> st_error s' = None
    \<and> st_disk s' = st_disk s \<and> (\<forall>clk' s''. \<not> store_step api clk' Continues s' s'')"
proof -
  define s1 where "s1 = queuePersistence d (publish d None s)"
  have "dispatch api clk a s = Inr s1" using assms by (simp add: dispatch_def s1_def)
  then have step1: "store_step api clk (CallDispatch a) s s1" by (rule Dispatch)
  have "st_writeLoop s1 = Some (k, LoopReturned)" using assms by (simp add: s1_def sync_defs)
  then have step2: "store_step api clk Continues s1 (s1\<lparr>st_writeLoop := None\<rparr>)" by (rule Loop_finally)
  have "\<not> store_step api clk' Continues (s1\<lparr>st_writeLoop := None\<rparr>) s''" for clk' s''
    using assms by (auto simp: s1_def sync_defs elim: store_step.cases)
  moreover have "store_run api clk s (s1\<lparr>st_writeLoop := None\<rparr>)"
    by (rule run_step [OF step1 run_step [OF step2 run_refl]])
  ultimately show ?thesis
    by (intro exI [of _ "s1\<lparr>st_writeLoop := None\<rparr>"]) (use assms in \<open>simp add: s1_def sync_defs\<close>)
qed

text \<open>When one of the actions queued behind a durable request throws, none of them is applied:
  the durable write has succeeded and its state is shown, and the queue is empty.\<close>

theorem throwing_queued_action_drops_queue:
  assumes "st_durableChain s = [(a, DurableWriting d raw)]" "st_durableRequests s = 1"
    "reduceAll api clk d (st_queuedActions s) = Inl e"
  shows "\<exists>s'. store_step api clk Continues s s' \<and> st_data s' = d \<and> st_disk s' = Some raw
    \<and> st_queuedActions s' = [] \<and> st_pendingData s' = st_pendingData s \<and> st_durableRequests s' = 0"
proof -
  define s' where "s' = durableFinally api clk
      (publish d None (s\<lparr>st_disk := Some raw, st_initializedSuccessfully := True\<rparr>))"
  have step: "store_step api clk Continues s s'"
    unfolding s'_def by (rule Durable_saved) (rule assms)
  have "st_queuedActions s \<noteq> []" using assms(3) by auto
  then have "s' = s\<lparr>st_disk := Some raw, st_initializedSuccessfully := True, st_data := d, st_error := None,
      st_durableRequests := 0, st_durableChain := [], st_queuedActions := []\<rparr>"
    using assms by (simp add: s'_def durableFinally_def applyQueuedActions_def publish_def Let_def)
  with step show ?thesis by (intro exI [of _ s']) simp
qed

section \<open>Witnesses\<close>

definition demoRaw :: string where "demoRaw = serializeAppState demoUrl demoClock demoState"

text \<open>The store after it has loaded \<open>demoState\<close>.\<close>

definition demoLoaded :: appStore where
  "demoLoaded = (createAppStateStore (Some demoRaw))
     \<lparr>st_loaded := True, st_data := demoState, st_initializePromise := Some 0, st_nextLoad := 1,
      st_initializedSuccessfully := True\<rparr>"

definition demoOptOut :: appStateData where
  "demoOptOut = demoState\<lparr>push := (push demoState)\<lparr>optedOut := True\<rparr>\<rparr>"

lemma demo_opt_out: "appStateReducer demoUrl clk demoState (UpdatePush (Some True) None) = Inr demoOptOut"
  using update_push_result [OF demo_state_ok, of clk "Some True" None]
  by (simp add: demoOptOut_def)

lemma demo_loaded_reached: "reached demoUrl (Some demoRaw) demoLoaded"
proof -
  define s0 where "s0 = createAppStateStore (Some demoRaw)"
  have "reached demoUrl (Some demoRaw) (initialize s0)"
    unfolding s0_def
    by (rule stepped [OF created Initialize demo_clock_ok])
      (simp_all add: fresh_head_def createAppStateStore_def)
  moreover have "parsePersistedAppState demoUrl demoClock demoRaw = Inr demoState"
    unfolding demoRaw_def by (rule load_saved [OF demo_state_ok])
  then have "store_step demoUrl demoClock Continues (initialize s0)
      (publishLoaded demoState None (removeLoad 0
        ((initialize s0)\<lparr>st_pendingData := None, st_initializedSuccessfully := True\<rparr>)))"
    by (intro Read_state) (simp_all add: s0_def initialize_def createAppStateStore_def)
  moreover have "publishLoaded demoState None (removeLoad 0
        ((initialize s0)\<lparr>st_pendingData := None, st_initializedSuccessfully := True\<rparr>)) = demoLoaded"
    by (simp add: s0_def demoLoaded_def createAppStateStore_def sync_defs)
  ultimately show ?thesis
    using stepped [of demoUrl "Some demoRaw" "initialize s0" demoClock Continues demoLoaded] demo_clock_ok
    by (simp add: fresh_head_def s0_def initialize_def createAppStateStore_def)
qed

definition demoDispatched :: appStore where
  "demoDispatched = demoLoaded\<lparr>st_data := demoOptOut, st_pendingData := Some demoOptOut,
     st_writeLoop := Some (0, LoopScheduled), st_nextLoop := 1\<rparr>"

lemma demo_dispatched_reached: "reached demoUrl (Some demoRaw) demoDispatched"
proof -
  have "dispatch demoUrl demoClock (UpdatePush (Some True) None) demoLoaded = Inr demoDispatched"
    using demo_opt_out [of demoClock]
    by (simp add: dispatch_def demoLoaded_def demoDispatched_def createAppStateStore_def sync_defs
        del: appStateReducer.simps)
  then have "store_step demoUrl demoClock (CallDispatch (UpdatePush (Some True) None)) demoLoaded demoDispatched"
    by (rule Dispatch)
  with demo_loaded_reached show ?thesis
    by (rule stepped [OF _ _ demo_clock_ok])
      (simp_all add: fresh_head_def demoLoaded_def createAppStateStore_def loop_returned_def)
qed



theorem retry_overwrites_durable_write_witness:
  "\<exists>s'. store_run demoUrl demoClock demoLoaded s' \<and> settled s' \<and> optedOut (push (st_data s'))
     \<and> st_disk s' = Some (serializeAppState demoUrl demoClock demoState) \<and> \<not> optedOut (push demoState)"
proof -
  have "settled demoLoaded" by (simp add: settled_def demoLoaded_def createAppStateStore_def)
  moreover have "st_data demoLoaded = demoState" by (simp add: demoLoaded_def)
  ultimately obtain s' where "store_run demoUrl demoClock demoLoaded s'" "settled s'" "st_data s' = demoOptOut"
    "st_disk s' = Some (serializeAppState demoUrl demoClock demoState)"
    using retry_overwrites_durable_write [of demoLoaded demoUrl demoClock] demo_opt_out by metis
  then show ?thesis
    by (auto simp: demoOptOut_def demoState_def createDefaultPushSettings_def intro!: exI [of _ s'])
qed

theorem dispatch_after_loop_not_written_witness:
  "\<exists>s'. store_run demoUrl demoClock (demoLoaded\<lparr>st_writeLoop := Some (0, LoopReturned)\<rparr>) s'
     \<and> st_pendingData s' = Some demoOptOut \<and> st_error s' = None
     \<and> (\<forall>clk' s''. \<not> store_step demoUrl clk' Continues s' s'')"
proof -
  let ?s = "demoLoaded\<lparr>st_writeLoop := Some (0, LoopReturned)\<rparr>"
  have "appStateReducer demoUrl demoClock (st_data ?s) (UpdatePush (Some True) None) = Inr demoOptOut"
    using demo_opt_out by (simp add: demoLoaded_def)
  from dispatch_after_loop_not_written [OF _ _ _ _ _ this, of 0] show ?thesis
    by (auto simp: demoLoaded_def createAppStateStore_def)
qed

definition demoQueued :: appStore where
  "demoQueued = demoLoaded\<lparr>st_durableRequests := 1,
      st_durableChain := [(RemoveProfile ''bridge-2'', DurableWriting demoState demoRaw)],
      st_queuedActions := [UpdatePush (Some True) None, SwitchProfile ''bridge-2'']\<rparr>"

theorem throwing_queued_action_drops_queue_witness:
  "\<exists>s'. store_step demoUrl demoClock Continues demoQueued s'
     \<and> \<not> optedOut (push (st_data s')) \<and> st_queuedActions s' = [] \<and> st_pendingData s' = None"
proof -
  have "profiles (bridgeProfiles demoOptOut) = [demoProfile]" "bp_id demoProfile = ''bridge-1''"
    by (simp_all add: demoOptOut_def demoState_def demoProfile_def)
  then have "reduceAll demoUrl demoClock demoState (st_queuedActions demoQueued)
      = Inl (JsError ''The selected bridge profile no longer exists.'')"
    using demo_opt_out [of demoClock]
    by (simp add: demoQueued_def del: appStateReducer.simps(8))
  from throwing_queued_action_drops_queue [OF _ _ this, of "RemoveProfile ''bridge-2''" demoRaw] show ?thesis
    by (auto simp: demoQueued_def demoLoaded_def createAppStateStore_def demoState_def createDefaultPushSettings_def)
qed

end
