(* ===== verification/Transcript.thy ===== *)
theory Transcript
  imports AgUiState
begin

text \<open>
  From the messages of a chat to what the transcript shows: visible messages and tool groups
  (\<open>screens/transcriptMessages.ts\<close>), the part of a subagent's transcript inherited from its parent
  (\<open>screens/subAgentTranscript.ts\<close>) and the merge with live messages
  (\<open>screens/controllers/transcriptProjectionController.ts\<close>).  Regular expressions are written out;
  \<open>\s\<close> is the white space of \<open>trim\<close>, and \<open>i\<close> folds ASCII letters.
\<close>

section \<open>Text\<close>

definition normalizeMessageContent :: "string \<Rightarrow> string" where
  "normalizeMessageContent s = trim (collapse_spaces s)"

text \<open>\<open>line.match(/^\<bullet>\s+(.+)$/)?.[1]?.trim()\<close> on a trimmed line\<close>

definition bullet_title :: "string \<Rightarrow> string option" where
  "bullet_title line =
     (let dot = butlast bullet; rest = drop (length dot) line; title = trim_start rest
      in if starts_with line dot \<and> title \<noteq> rest \<and> title \<noteq> [] \<and> \<not> line_terminator_in title
         then Some (trim title) else None)"

section \<open>Visible messages and tool groups\<close>

definition timeline_words :: "string list" where
  "timeline_words =
     [''reasoning'', ''thinking'', ''spawned sub-agent'', ''spawning sub-agent'', ''sub-agent'',
      ''waiting on sub-agent'', ''sent follow-up to sub-agent'', ''closed sub-agent thread'',
      ''updated sub-agent thread'', ''task'', ''compacted conversation context'',
      ''conversation compacted'']"

definition isLegacyToolTimelineContent :: "string \<Rightarrow> bool" where
  "isLegacyToolTimelineContent content =
     (case find (\<lambda>l. l \<noteq> []) (map trim (split_lines content)) of
        None \<Rightarrow> False
      | Some line \<Rightarrow>
          (case bullet_title line of
             None \<Rightarrow> False
           | Some title \<Rightarrow> title \<noteq> [] \<and> \<not> starts_with_word timeline_words title))"

definition visibleMessage :: "bool \<Rightarrow> chatMessage \<Rightarrow> bool" where
  "visibleMessage showToolCalls msg =
     (let shown = getMessageText msg; hasToolCalls = (getToolCallDisplayLines msg \<noteq> []) in
      if \<not> showToolCalls
         \<and> (cm_role msg = Tool \<or> hasToolCalls
            \<or> (cm_role msg = System \<and> isLegacyToolTimelineContent shown)
            \<or> (cm_role msg = Activity \<and> cm_activityType msg \<noteq> Some SUBAGENT_ACTIVITY_TYPE
                \<and> cm_activityType msg \<noteq> Some COMPACTION_ACTIVITY_TYPE))
      then False
      else if has_substring shown ''FINAL_TASK_RESULT_JSON'' then False
      else if has_substring shown ''Current working directory is:'' then False
      else if has_substring shown ''You are operating in task worktree'' then False
      else if cm_role msg = Assistant \<and> trim shown = [] \<and> \<not> hasToolCalls then False
      else True)"

definition getVisibleTranscriptMessages :: "chatMessage list \<Rightarrow> bool \<Rightarrow> chatMessage list" where
  "getVisibleTranscriptMessages messages showToolCalls = filter (visibleMessage showToolCalls) messages"

definition MAX_TOOL_MESSAGES_PER_TRANSCRIPT_GROUP :: nat where
  "MAX_TOOL_MESSAGES_PER_TRANSCRIPT_GROUP = 14"

datatype transcriptDisplayItem =
    MessageItem chatMessage string
  | ToolGroup string "chatMessage list"

definition isToolTranscriptMessage :: "chatMessage \<Rightarrow> bool" where
  "isToolTranscriptMessage message =
     (if cm_role message = Tool \<or> getToolCallDisplayLines message \<noteq> [] then True
      else if cm_role message \<noteq> System then False
      else isLegacyToolTimelineContent (getMessageText message))"

definition normalizeTranscriptKeyContent :: "string \<Rightarrow> string" where
  "normalizeTranscriptKeyContent s = trim (unix_lines s)"

definition buildTranscriptRenderKey :: "chatMessage \<Rightarrow> nat \<Rightarrow> string" where
  "buildTranscriptRenderKey message userMessageOrdinal =
     (if cm_role message \<noteq> User then cm_id message
      else ''user-'' @ show_nat userMessageOrdinal @ ''-''
        @ normalizeTranscriptKeyContent (getMessageText message))"

record displayBuild =
  db_items :: "transcriptDisplayItem list"
  db_toolBuffer :: "chatMessage list"
  db_userMessageOrdinal :: nat

definition flushToolBuffer :: "displayBuild \<Rightarrow> displayBuild" where
  "flushToolBuffer b =
     (if db_toolBuffer b = [] then b
      else b\<lparr>db_items := db_items b @
          [ToolGroup (''tool-group-'' @ cm_id (hd (db_toolBuffer b)) @ ''-''
             @ cm_id (last (db_toolBuffer b))) (db_toolBuffer b)],
        db_toolBuffer := []\<rparr>)"

definition displayStep :: "chatMessage \<Rightarrow> displayBuild \<Rightarrow> displayBuild" where
  "displayStep message b =
     (if isToolTranscriptMessage message then
        let b1 = b\<lparr>db_toolBuffer := db_toolBuffer b @ [message]\<rparr>
        in if length (db_toolBuffer b1) \<ge> MAX_TOOL_MESSAGES_PER_TRANSCRIPT_GROUP
           then flushToolBuffer b1 else b1
      else
        let b1 = flushToolBuffer b;
            ordinal = (if cm_role message = User then db_userMessageOrdinal b1 + 1
              else db_userMessageOrdinal b1)
        in b1\<lparr>db_userMessageOrdinal := ordinal,
              db_items := db_items b1 @ [MessageItem message (buildTranscriptRenderKey message ordinal)]\<rparr>)"

definition buildTranscriptDisplayItems :: "chatMessage list \<Rightarrow> transcriptDisplayItem list" where
  "buildTranscriptDisplayItems messages =
     db_items (flushToolBuffer (fold displayStep messages
       \<lparr>db_items = [], db_toolBuffer = [], db_userMessageOrdinal = 0\<rparr>))"

section \<open>Subagent status lines\<close>

definition statusLine :: "string \<Rightarrow> bool" where
  "statusLine line \<longleftrightarrow> starts_with (lower (trim_start line)) ''status:''"

definition replaceSubAgentStatusLine :: "string \<Rightarrow> string \<Rightarrow> string" where
  "replaceSubAgentStatusLine content status =
     (let line' = ''Status: '' @ status;
          lines = split_lines content;
          nextLines = map (\<lambda>line. if statusLine line
            then take (length line - length (trim_start line)) line @ line' else line) lines
      in if list_ex statusLine lines then join newline nextLines
         else join newline (nextLines @ [''  '' @ line']))"

text \<open>The receivers of a subagent activity: an array of thread ids when it has any.\<close>

definition receiverThreadIds :: "jobj \<Rightarrow> string list" where
  "receiverThreadIds meta =
     List.map_filter as_string (with_default (as_array (prop_of meta ''receiverThreadIds'')) [])"

definition syncSubAgentMessageStatus :: "(string \<times> string) list \<Rightarrow> chatMessage \<Rightarrow> chatMessage" where
  "syncSubAgentMessageStatus threadStatuses message =
     (case getSubAgentMeta message of
        None \<Rightarrow> message
      | Some meta \<Rightarrow>
          (case List.map_filter (map_of threadStatuses) (receiverThreadIds meta) of
             [] \<Rightarrow> message
           | nextStatus # _ \<Rightarrow>
               if nextStatus = [] then message
               else
                 let shown = getMessageText message;
                     nextContent = replaceSubAgentStatusLine shown nextStatus
                 in if nextContent = shown \<and> prop_of meta ''agentStatus'' = JStr nextStatus then message
                    else case cm_content message of
                      Fields v \<Rightarrow> message\<lparr>cm_content := Fields (JObj
                        (obj_set ''subAgent'' (JObj (obj_set ''agentStatus'' (JStr nextStatus) meta))
                          (obj_set ''text'' (JStr nextContent) (with_default (js_record v) []))))\<rparr>
                    | _ \<Rightarrow> message))"

text \<open>The code copies the list only from the first changed message on; as values it maps it.\<close>

definition syncVisibleSubAgentStatuses ::
  "chatMessage list \<Rightarrow> (string \<times> string) list \<Rightarrow> chatMessage list" where
  "syncVisibleSubAgentStatuses messages threadStatuses =
     (if threadStatuses = [] then messages else map (syncSubAgentMessageStatus threadStatuses) messages)"

section \<open>Inherited messages of a subagent\<close>

definition messagesMatch :: "chatMessage \<Rightarrow> chatMessage \<Rightarrow> bool" where
  "messagesMatch left right \<longleftrightarrow>
     cm_role left = cm_role right
     \<and> normalizeMessageContent (getMessageText left) = normalizeMessageContent (getMessageText right)"

fun sharedLeadingMessageCount :: "chatMessage list \<Rightarrow> chatMessage list \<Rightarrow> nat" where
  "sharedLeadingMessageCount (l # ls) (r # rs) =
     (if messagesMatch l r then Suc (sharedLeadingMessageCount ls rs) else 0)"
| "sharedLeadingMessageCount _ _ = 0"

definition normalizeUserPromptContent :: "string \<Rightarrow> string" where
  "normalizeUserPromptContent s =
     normalizeMessageContent (join newline
       (filter (\<lambda>line. \<not> list_ex (starts_with (lower line)) [''[file:'', ''[image:'', ''[local image:''])
         (filter (\<lambda>line. line \<noteq> []) (map trim (split_lines s)))))"

text \<open>The loop of \<open>findSpawnPrompt\<close> with the prompt it would fall back to.\<close>

fun spawnPrompt :: "string \<Rightarrow> string option \<Rightarrow> chatMessage list \<Rightarrow> string option" where
  "spawnPrompt childThreadId fallback [] = fallback"
| "spawnPrompt childThreadId fallback (message # messages) =
     (case getSubAgentMeta message of
        None \<Rightarrow> spawnPrompt childThreadId fallback messages
      | Some meta \<Rightarrow>
          let prompt = trim (with_default (as_string (prop_of meta ''prompt'')) []) in
          if childThreadId \<notin> set (receiverThreadIds meta) \<or> prompt = []
          then spawnPrompt childThreadId fallback messages
          else
            let tool = normalizeMessageContent (with_default (as_string (prop_of meta ''tool'')) []) in
            if tool = ''spawn_agent'' \<or> tool = ''spawnagent'' then Some prompt
            else spawnPrompt childThreadId (or_else fallback (Some prompt)) messages)"

definition findSpawnPrompt :: "chatMessage list \<Rightarrow> string \<Rightarrow> string option" where
  "findSpawnPrompt parentMessages childThreadId = spawnPrompt childThreadId None parentMessages"

definition promptStart :: "string \<Rightarrow> chatMessage \<Rightarrow> bool" where
  "promptStart prompt message =
     (cm_role message = User
      \<and> (let candidate = normalizeUserPromptContent (getMessageText message) in
         candidate \<noteq> [] \<and> (candidate = prompt \<or> has_substring candidate prompt \<or> has_substring prompt candidate)))"

definition findSpawnPromptStartIndex ::
  "chatMessage list \<Rightarrow> chatMessage list \<Rightarrow> string \<Rightarrow> nat option" where
  "findSpawnPromptStartIndex parentMessages childMessages childThreadId =
     (case findSpawnPrompt parentMessages childThreadId of
        None \<Rightarrow> None
      | Some prompt \<Rightarrow>
          let normalizedPrompt = normalizeMessageContent prompt in
          if normalizedPrompt = [] then None
          else find (\<lambda>index. sharedLeadingMessageCount parentMessages childMessages \<le> index
                 \<and> promptStart normalizedPrompt (childMessages ! index)) [0..<length childMessages])"

definition trimInheritedParentMessages ::
  "chatMessage list \<Rightarrow> chatMessage list \<Rightarrow> string \<Rightarrow> chatMessage list \<times> nat" where
  "trimInheritedParentMessages parentMessages childMessages childThreadId =
     (let normalizedChildThreadId = trim childThreadId;
          startIndex = (if normalizedChildThreadId = [] then None
            else findSpawnPromptStartIndex parentMessages childMessages normalizedChildThreadId);
          shared = sharedLeadingMessageCount parentMessages childMessages;
          byShared = (if shared \<le> 0 \<or> shared \<ge> length childMessages then (childMessages, 0)
            else (drop shared childMessages, shared))
      in case startIndex of
           Some i \<Rightarrow> if i > 0 \<and> i < length childMessages then (drop i childMessages, i) else byShared
         | None \<Rightarrow> byShared)"

section \<open>Merging live messages\<close>

definition isSyntheticUserAttachmentLine :: "string \<Rightarrow> bool" where
  "isSyntheticUserAttachmentLine line =
     (attachmentTag ''file'' line \<or> attachmentTag ''local image'' line \<or> attachmentTag ''image'' line)"

definition normalizeChatMessageMatchContent :: "string \<Rightarrow> string" where
  "normalizeChatMessageMatchContent s =
     trim (join newline (filter (\<lambda>line. \<not> isSyntheticUserAttachmentLine line)
       (map trim (split_lines (unix_lines s)))))"

definition matchContent :: "chatMessage \<Rightarrow> string" where
  "matchContent message = normalizeChatMessageMatchContent (getMessageText message)"

definition isTransientUserMessage :: "chatMessage \<Rightarrow> bool" where
  "isTransientUserMessage message \<longleftrightarrow>
     cm_role message = User
     \<and> (starts_with (cm_id message) ''msg-'' \<or> starts_with (cm_id message) ''local-user-'')"

definition persistedTwin :: "string \<Rightarrow> chatMessage option \<Rightarrow> bool" where
  "persistedTwin content neighbor =
     (case neighbor of
        None \<Rightarrow> False
      | Some m \<Rightarrow> cm_role m = User \<and> \<not> isTransientUserMessage m \<and> matchContent m = content)"

text \<open>The filter of \<open>dedupeTransientUserMessages\<close>, with the message before and those after.\<close>

fun dedupeFrom :: "chatMessage option \<Rightarrow> chatMessage list \<Rightarrow> chatMessage list" where
  "dedupeFrom before [] = []"
| "dedupeFrom before (message # after) =
     (let content = matchContent message;
          next = (case after of [] \<Rightarrow> None | m # _ \<Rightarrow> Some m);
          keep = (\<not> isTransientUserMessage message \<or> content = []
            \<or> \<not> (persistedTwin content before \<or> persistedTwin content next));
          rest = dedupeFrom (Some message) after
      in if keep then message # rest else rest)"

definition dedupeTransientUserMessages :: "chatMessage list \<Rightarrow> chatMessage list" where
  "dedupeTransientUserMessages messages = dedupeFrom None messages"

text \<open>\<open>a || b\<close> on strings\<close>

definition or_string :: "string \<Rightarrow> string \<Rightarrow> string" where
  "or_string a b = (if a \<noteq> [] then a else b)"

text \<open>The messages of an authoritative snapshot, with the time and parts of their persisted form.\<close>

definition snapshotMessages ::
  "string \<Rightarrow> string set \<Rightarrow> chatMessage list \<Rightarrow> chatMessage list \<Rightarrow> chatMessage list" where
  "snapshotMessages now replaced persistedMessages liveMessages =
     (let persistedById = map_of (map (\<lambda>m. (cm_id m, m)) (rev persistedMessages)) in
      map (\<lambda>message.
          let persisted = persistedById (cm_id message) in
          message\<lparr>cm_createdAt := or_string
              (or_string (case persisted of Some p \<Rightarrow> cm_createdAt p | None \<Rightarrow> []) (cm_createdAt message)) now,
            cm_parts := or_else (Option.bind persisted cm_parts) (cm_parts message)\<rparr>)
        (filter (\<lambda>m. cm_id m \<notin> replaced \<and> trim (getMessageText m) \<noteq> []) liveMessages))"

text \<open>The index of the message a live message stands for: the same message, or a trailing user
  message with the same text.\<close>

definition exactIndex :: "chatMessage list \<Rightarrow> chatMessage \<Rightarrow> nat option" where
  "exactIndex messages live =
     find (\<lambda>i. cm_role (messages ! i) = cm_role live
         \<and> (cm_id (messages ! i) = cm_id live \<or> ends_with (cm_id live) (''::item::'' @ cm_id (messages ! i))))
       [0..<length messages]"

definition persistedIndex :: "chatMessage list \<Rightarrow> chatMessage \<Rightarrow> nat option" where
  "persistedIndex messages live =
     or_else (exactIndex messages live)
       (if cm_role live = User \<and> messages \<noteq> [] \<and> cm_role (last messages) = User
           \<and> matchContent (last messages) = matchContent live
        then Some (length messages - 1) else None)"

definition extendMessage :: "chatMessage \<Rightarrow> string \<Rightarrow> chatMessage \<Rightarrow> chatMessage" where
  "extendMessage live liveText message =
     message\<lparr>cm_content :=
         (if cm_role message = Activity
          then (case cm_content message of
                  Fields v \<Rightarrow> Fields (JObj (obj_set ''text'' (JStr liveText) (with_default (js_record v) [])))
                | _ \<Rightarrow> Fields (JObj [(''text'', JStr liveText)]))
          else Text liveText),
       cm_parts := or_else (cm_parts live) (cm_parts message)\<rparr>"

definition mergeLive ::
  "string \<Rightarrow> string set \<Rightarrow> string list \<Rightarrow> chatMessage \<Rightarrow> chatMessage list \<Rightarrow> chatMessage list" where
  "mergeLive now replaced terminal live messages =
     (let liveText = trim (getMessageText live) in
      if liveText = [] \<or> cm_id live \<in> replaced then messages
      else case persistedIndex messages live of
        Some i \<Rightarrow>
          let persistedText = trim (getMessageText (messages ! i)) in
          if cm_id live \<notin> set terminal \<and> cm_role live \<noteq> User \<and> liveText \<noteq> persistedText
             \<and> starts_with liveText persistedText
          then messages[i := extendMessage live liveText (messages ! i)]
          else messages
      | None \<Rightarrow> messages @ [live\<lparr>cm_createdAt := or_string (cm_createdAt live) now\<rparr>])"

record transcriptProjection =
  tp_messages :: "chatMessage list"
  tp_items :: "transcriptDisplayItem list"
  tp_hiddenInheritedMessageCount :: nat

record transcriptChat =
  ct_id :: string
  ct_parentThreadId :: "string option"
  ct_messages :: "chatMessage list"

definition projectTranscript ::
  "string \<Rightarrow> transcriptChat \<Rightarrow> transcriptChat option \<Rightarrow> bool \<Rightarrow> (string \<times> string) list
     \<Rightarrow> agUiThreadMessageState option \<Rightarrow> transcriptProjection" where
  "projectTranscript now chat parentChat showToolCalls threadStatuses liveMessageState =
     (let child = getVisibleTranscriptMessages (ct_messages chat) showToolCalls;
          inherited =
            (case (ct_parentThreadId chat, parentChat) of
               (Some p, Some parent) \<Rightarrow>
                 if p = [] then (child, 0)
                 else trimInheritedParentMessages
                   (getVisibleTranscriptMessages (ct_messages parent) showToolCalls) child (ct_id chat)
             | _ \<Rightarrow> (child, 0));
          shown = dedupeTransientUserMessages (syncVisibleSubAgentStatuses (fst inherited) threadStatuses);
          live = (case liveMessageState of None \<Rightarrow> [] | Some l \<Rightarrow> ag_messages l);
          replaced = (case liveMessageState of None \<Rightarrow> {}
            | Some l \<Rightarrow> snd ` set (ag_replacesMessageIdByMessageId l));
          terminal = (case liveMessageState of None \<Rightarrow> [] | Some l \<Rightarrow> ag_terminalMessageIds l);
          base = (case liveMessageState of
              Some l \<Rightarrow> if ag_authoritativeSnapshot l then snapshotMessages now replaced shown live else shown
            | None \<Rightarrow> shown);
          messages = fold (mergeLive now replaced terminal) live base
      in \<lparr>tp_messages = messages, tp_items = buildTranscriptDisplayItems messages,
          tp_hiddenInheritedMessageCount = snd inherited\<rparr>)"

end
