(* ===== verification/TranscriptLaws.thy ===== *)
theory TranscriptLaws
  imports Transcript
begin

text \<open>
  What the transcript keeps: grouping shows every message once and in order, keys of user messages
  survive a change of id, the inherited part and the rest make up the child, and merging live
  messages loses neither persisted nor live ones.
\<close>

section \<open>Groups\<close>

fun itemMessages :: "transcriptDisplayItem \<Rightarrow> chatMessage list" where
  "itemMessages (MessageItem m k) = [m]"
| "itemMessages (ToolGroup i ms) = ms"

fun item_ok :: "transcriptDisplayItem \<Rightarrow> bool" where
  "item_ok (MessageItem m k) \<longleftrightarrow> \<not> isToolTranscriptMessage m"
| "item_ok (ToolGroup i ms) \<longleftrightarrow>
     ms \<noteq> [] \<and> length ms \<le> MAX_TOOL_MESSAGES_PER_TRANSCRIPT_GROUP \<and> list_all isToolTranscriptMessage ms"

definition shownMessages :: "transcriptDisplayItem list \<Rightarrow> chatMessage list" where
  "shownMessages items = concat (map itemMessages items)"

definition build_ok :: "displayBuild \<Rightarrow> bool" where
  "build_ok b \<longleftrightarrow>
     list_all item_ok (db_items b) \<and> list_all isToolTranscriptMessage (db_toolBuffer b)
     \<and> length (db_toolBuffer b) < MAX_TOOL_MESSAGES_PER_TRANSCRIPT_GROUP"

lemma flush_shows:
  "shownMessages (db_items (flushToolBuffer b)) = shownMessages (db_items b) @ db_toolBuffer b"
  "db_toolBuffer (flushToolBuffer b) = []"
  by (simp_all add: flushToolBuffer_def shownMessages_def)

lemma flush_items_ok:
  "list_all item_ok (db_items b) \<Longrightarrow> list_all isToolTranscriptMessage (db_toolBuffer b) \<Longrightarrow>
   length (db_toolBuffer b) \<le> MAX_TOOL_MESSAGES_PER_TRANSCRIPT_GROUP \<Longrightarrow>
   list_all item_ok (db_items (flushToolBuffer b))"
  by (simp add: flushToolBuffer_def)

lemma step_shows:
  "shownMessages (db_items (displayStep m b)) @ db_toolBuffer (displayStep m b)
     = shownMessages (db_items b) @ db_toolBuffer b @ [m]"
  by (simp add: displayStep_def Let_def flush_shows)
    (simp add: shownMessages_def flush_shows [unfolded shownMessages_def])

lemma step_ok: "build_ok b \<Longrightarrow> build_ok (displayStep m b)"
  by (auto simp: displayStep_def Let_def build_ok_def flush_shows flush_items_ok
      MAX_TOOL_MESSAGES_PER_TRANSCRIPT_GROUP_def)

interpretation display: machine displayStep build_ok "\<lambda>_. True"
  by unfold_locales (rule step_ok)

lemma fold_shows:
  "shownMessages (db_items (fold displayStep ms b)) @ db_toolBuffer (fold displayStep ms b)
     = shownMessages (db_items b) @ db_toolBuffer b @ ms"
proof (induction ms arbitrary: b)
  case (Cons m ms)
  have "shownMessages (db_items (fold displayStep ms (displayStep m b)))
      @ db_toolBuffer (fold displayStep ms (displayStep m b))
      = (shownMessages (db_items (displayStep m b)) @ db_toolBuffer (displayStep m b)) @ ms"
    using Cons.IH by simp
  then show ?case by (simp only: step_shows fold_simps append_assoc) simp
qed simp

text \<open>C35: the display items show every message exactly once and in order; a tool group is a
  non-empty run of at most fourteen tool messages, and no tool message stands alone.\<close>

theorem transcript_groups_all_messages:
  "shownMessages (buildTranscriptDisplayItems messages) = messages
   \<and> list_all item_ok (buildTranscriptDisplayItems messages)"
proof -
  let ?start = "\<lparr>db_items = [], db_toolBuffer = [], db_userMessageOrdinal = 0\<rparr>"
  have "build_ok ?start" by (simp add: build_ok_def MAX_TOOL_MESSAGES_PER_TRANSCRIPT_GROUP_def)
  then have "build_ok (fold displayStep messages ?start)"
    by (rule display.run_inv) (simp add: list_all_iff)
  then show ?thesis
    using fold_shows [of messages ?start]
    by (simp add: buildTranscriptDisplayItems_def flush_shows flush_items_ok build_ok_def)
      (simp add: shownMessages_def)
qed

section \<open>Keys\<close>

text \<open>Two transcripts that differ only in the ids of user messages.\<close>

definition reid :: "chatMessage \<Rightarrow> chatMessage \<Rightarrow> bool" where
  "reid m m' \<longleftrightarrow> (if cm_role m = User then m' = m\<lparr>cm_id := cm_id m'\<rparr> else m' = m)"

fun itemKeys :: "transcriptDisplayItem \<Rightarrow> string list" where
  "itemKeys (MessageItem m k) = [k]"
| "itemKeys (ToolGroup i ms) = [i]"

lemma reid_facts:
  assumes "reid m m'"
  shows "cm_role m' = cm_role m" "getMessageText m' = getMessageText m"
    "isToolTranscriptMessage m' = isToolTranscriptMessage m"
    "buildTranscriptRenderKey m' n = buildTranscriptRenderKey m n"
    "isToolTranscriptMessage m \<Longrightarrow> m' = m"
proof -
  from assms have "m' = m \<or> (\<exists>x. m' = m\<lparr>cm_id := x\<rparr>)"
    unfolding reid_def by (auto split: if_splits)
  then have role: "cm_role m' = cm_role m" and content: "cm_content m' = cm_content m" by auto
  show "cm_role m' = cm_role m" by (rule role)
  show same: "getMessageText m' = getMessageText m" by (simp only: getMessageText_def role content)
  have "m' = m" if "cm_role m \<noteq> User" using assms that by (simp add: reid_def)
  moreover have "\<not> isToolTranscriptMessage m \<and> \<not> isToolTranscriptMessage m'" if "cm_role m = User"
    using that role by (simp add: isToolTranscriptMessage_def getToolCallDisplayLines_def)
  ultimately show "isToolTranscriptMessage m' = isToolTranscriptMessage m"
    "isToolTranscriptMessage m \<Longrightarrow> m' = m" by blast+
  show "buildTranscriptRenderKey m' n = buildTranscriptRenderKey m n"
    using \<open>cm_role m \<noteq> User \<Longrightarrow> m' = m\<close> role same
    by (cases "cm_role m = User") (simp_all add: buildTranscriptRenderKey_def)
qed

definition same_build :: "displayBuild \<Rightarrow> displayBuild \<Rightarrow> bool" where
  "same_build b b' \<longleftrightarrow>
     map itemKeys (db_items b) = map itemKeys (db_items b') \<and> db_toolBuffer b = db_toolBuffer b'
     \<and> db_userMessageOrdinal b = db_userMessageOrdinal b'"

lemma same_flush: "same_build b b' \<Longrightarrow> same_build (flushToolBuffer b) (flushToolBuffer b')"
  by (simp add: same_build_def flushToolBuffer_def)

lemma same_step:
  assumes "same_build b b'" "reid m m'"
  shows "same_build (displayStep m b) (displayStep m' b')"
proof (cases "isToolTranscriptMessage m")
  case True
  then have "m' = m" by (rule reid_facts [OF assms(2)])
  let ?b = "b\<lparr>db_toolBuffer := db_toolBuffer b @ [m]\<rparr>" and ?b' = "b'\<lparr>db_toolBuffer := db_toolBuffer b' @ [m]\<rparr>"
  have "same_build ?b ?b'" "length (db_toolBuffer ?b) = length (db_toolBuffer ?b')"
    using assms(1) by (simp_all add: same_build_def)
  with True \<open>m' = m\<close> same_flush [of ?b ?b'] show ?thesis by (simp add: displayStep_def Let_def)
next
  case False
  then show ?thesis
    using same_flush [OF assms(1)] reid_facts [OF assms(2)]
    by (simp add: displayStep_def Let_def same_build_def)
qed

lemma same_fold:
  "list_all2 reid ms ms' \<Longrightarrow> same_build b b' \<Longrightarrow> same_build (fold displayStep ms b) (fold displayStep ms' b')"
  by (induction arbitrary: b b' rule: list_all2_induct) (auto intro: same_step)

text \<open>The keys the transcript renders with do not change when user messages get other ids (an
  optimistic message that becomes the persisted one), so no row is unmounted.\<close>

theorem render_keys_survive_new_ids:
  assumes "list_all2 reid messages messages'"
  shows "concat (map itemKeys (buildTranscriptDisplayItems messages'))
     = concat (map itemKeys (buildTranscriptDisplayItems messages))"
proof -
  let ?start = "\<lparr>db_items = [], db_toolBuffer = [], db_userMessageOrdinal = 0\<rparr>"
  have "same_build (flushToolBuffer (fold displayStep messages ?start)) (flushToolBuffer (fold displayStep messages' ?start))"
    by (rule same_flush [OF same_fold [OF assms]]) (simp add: same_build_def)
  then show ?thesis by (simp add: buildTranscriptDisplayItems_def same_build_def)
qed

section \<open>Inherited messages\<close>

lemma shared_length: "sharedLeadingMessageCount ps cs \<le> length cs"
  by (induction ps cs rule: sharedLeadingMessageCount.induct) auto

text \<open>What a subagent's transcript hides and what it shows make up the child's messages, and
  something is left to show whenever the child has messages.\<close>

theorem inherited_part_is_a_prefix:
  assumes "trimInheritedParentMessages parentMessages childMessages childThreadId = (shown, hidden)"
  shows "shown = drop hidden childMessages \<and> (childMessages \<noteq> [] \<longrightarrow> shown \<noteq> [])"
  using assms
  by (auto simp: trimInheritedParentMessages_def Let_def split: option.splits if_splits)

section \<open>Live messages\<close>

text \<open>A shown message stands for a live one: it has its id, or is the item the live id names, or is
  a user message with the same text.\<close>

definition standsFor :: "chatMessage \<Rightarrow> chatMessage \<Rightarrow> bool" where
  "standsFor m live \<longleftrightarrow>
     cm_role m = cm_role live
     \<and> (cm_id m = cm_id live \<or> ends_with (cm_id live) (''::item::'' @ cm_id m)
        \<or> (cm_role m = User \<and> matchContent m = matchContent live))"

lemma extend_same [simp]: "cm_id (extendMessage live t m) = cm_id m" "cm_role (extendMessage live t m) = cm_role m"
  by (simp_all add: extendMessage_def)

lemma exactIndex_Some:
  assumes "exactIndex messages live = Some i"
  shows "i < length messages" "cm_role (messages ! i) = cm_role live"
    "cm_id (messages ! i) = cm_id live \<or> ends_with (cm_id live) (''::item::'' @ cm_id (messages ! i))"
proof -
  from assms obtain j where "j < length [0..<length messages]" "i = [0..<length messages] ! j"
    "cm_role (messages ! i) = cm_role live
     \<and> (cm_id (messages ! i) = cm_id live \<or> ends_with (cm_id live) (''::item::'' @ cm_id (messages ! i)))"
    unfolding exactIndex_def find_Some_iff by blast
  then show "i < length messages" "cm_role (messages ! i) = cm_role live"
    "cm_id (messages ! i) = cm_id live \<or> ends_with (cm_id live) (''::item::'' @ cm_id (messages ! i))"
    by simp_all
qed

lemma persistedIndex_Some:
  assumes "persistedIndex messages live = Some i"
  shows "i < length messages" "cm_role (messages ! i) = cm_role live" "standsFor (messages ! i) live"
proof -
  show "i < length messages" "cm_role (messages ! i) = cm_role live" "standsFor (messages ! i) live"
  proof (atomize (full), cases "exactIndex messages live")
    case (Some j)
    with assms exactIndex_Some [OF Some]
    show "i < length messages \<and> cm_role (messages ! i) = cm_role live \<and> standsFor (messages ! i) live"
      by (auto simp: persistedIndex_def standsFor_def)
  next
    case None
    with assms show "i < length messages \<and> cm_role (messages ! i) = cm_role live \<and> standsFor (messages ! i) live"
      by (auto simp: persistedIndex_def standsFor_def last_conv_nth split: if_splits)
  qed
qed

text \<open>Merging changes only messages that are not the user's, keeps ids and roles, and appends.\<close>

definition grown :: "chatMessage list \<Rightarrow> chatMessage list \<Rightarrow> bool" where
  "grown ms ms' \<longleftrightarrow>
     length ms \<le> length ms'
     \<and> (\<forall>i < length ms. cm_id (ms' ! i) = cm_id (ms ! i) \<and> cm_role (ms' ! i) = cm_role (ms ! i)
          \<and> (cm_role (ms ! i) = User \<longrightarrow> ms' ! i = ms ! i))"

lemma grown_refl [simp]: "grown ms ms"
  by (simp add: grown_def)

lemma grown_trans: "grown a b \<Longrightarrow> grown b c \<Longrightarrow> grown a c"
  by (simp add: grown_def)

lemma grown_snoc: "grown ms (ms @ [m])"
  by (simp add: grown_def nth_append)

lemma merge_grown: "grown ms (mergeLive now replaced terminal live ms)"
proof (cases "persistedIndex ms live")
  case (Some i)
  note at_i = persistedIndex_Some [OF Some]
  have "grown ms (ms[i := extendMessage live t (ms ! i)])" if "cm_role live \<noteq> User" for t
    using at_i that by (simp add: grown_def nth_list_update)
  with Some show ?thesis by (simp add: mergeLive_def Let_def)
qed (simp add: mergeLive_def Let_def grown_snoc)

lemma fold_grown: "grown ms (fold (mergeLive now replaced terminal) lives ms)"
  by (induction lives arbitrary: ms) (auto intro: grown_trans merge_grown)

lemma grown_standsFor:
  assumes "grown ms ms'" "m \<in> set ms" "standsFor m live"
  shows "\<exists>m' \<in> set ms'. standsFor m' live"
proof -
  from assms(2) obtain i where i: "i < length ms" "m = ms ! i" by (auto simp: in_set_conv_nth)
  with assms have "i < length ms'" "cm_id (ms' ! i) = cm_id m" "cm_role (ms' ! i) = cm_role m"
    "cm_role m = User \<Longrightarrow> ms' ! i = m"
    by (auto simp: grown_def)
  with assms(3) have "standsFor (ms' ! i) live" by (auto simp: standsFor_def)
  moreover from \<open>i < length ms'\<close> have "ms' ! i \<in> set ms'" by (rule nth_mem)
  ultimately show ?thesis by (rule bexI)
qed

lemma merge_standsFor:
  assumes "trim (getMessageText live) \<noteq> []" "cm_id live \<notin> replaced"
  shows "\<exists>m \<in> set (mergeLive now replaced terminal live ms). standsFor m live"
proof (cases "persistedIndex ms live")
  case None
  have "standsFor (live\<lparr>cm_createdAt := c\<rparr>) live" for c by (simp add: standsFor_def)
  with None assms show ?thesis by (simp add: mergeLive_def)
next
  case (Some i)
  note at_i = persistedIndex_Some [OF Some]
  then have "ms ! i \<in> set ms" by simp
  from grown_standsFor [OF merge_grown this at_i(3)] show ?thesis .
qed

lemma fold_standsFor:
  "live \<in> set lives \<Longrightarrow> trim (getMessageText live) \<noteq> [] \<Longrightarrow> cm_id live \<notin> replaced \<Longrightarrow>
   \<exists>m \<in> set (fold (mergeLive now replaced terminal) lives ms). standsFor m live"
proof (induction lives arbitrary: ms)
  case (Cons l lives)
  show ?case
  proof (cases "live = l")
    case True
    from merge_standsFor [OF Cons.prems(2,3)] obtain m where
      "m \<in> set (mergeLive now replaced terminal live ms)" "standsFor m live" by blast
    with True show ?thesis by (auto intro: grown_standsFor [OF fold_grown])
  qed (use Cons in simp)
qed simp


lemma grown_prefix: "grown ms ms' \<Longrightarrow> prefix (map cm_id ms) (map cm_id ms')"
proof -
  assume "grown ms ms'"
  then have "map cm_id (take (length ms) ms') = map cm_id ms"
    by (auto simp: grown_def list_eq_iff_nth_eq)
  then show ?thesis
    by (metis append_take_drop_id map_append prefixI)
qed

text \<open>Unless it is an authoritative snapshot, the live state only appends rows to the transcript
  and extends the text of rows it already shows.\<close>

theorem live_state_only_appends:
  assumes "\<not> ag_authoritativeSnapshot state"
  shows "prefix
     (map cm_id (tp_messages (projectTranscript now chat parentChat showToolCalls threadStatuses None)))
     (map cm_id (tp_messages (projectTranscript now chat parentChat showToolCalls threadStatuses (Some state))))"
  using assms grown_prefix [OF fold_grown] by (simp add: projectTranscript_def Let_def)

section \<open>Witnesses\<close>

definition demoUser :: "string \<Rightarrow> chatMessage" where
  "demoUser i = plainMessage i User (Text ''run it'') ''2026-01-01T00:00:00.000Z''"

definition demoReply :: "string \<Rightarrow> string \<Rightarrow> chatMessage" where
  "demoReply i t = plainMessage i Assistant (Text t) []"

theorem render_keys_survive_new_ids_witness:
  "concat (map itemKeys (buildTranscriptDisplayItems [demoUser ''u1'', demoReply ''a1'' ''ok'']))
     = concat (map itemKeys (buildTranscriptDisplayItems [demoUser ''msg-7'', demoReply ''a1'' ''ok'']))"
  by (rule render_keys_survive_new_ids) (simp add: reid_def demoUser_def demoReply_def plainMessage_def)

theorem inherited_part_is_a_prefix_witness:
  "trimInheritedParentMessages [demoUser ''u1''] [demoUser ''u2'', demoReply ''a1'' ''ok''] ''t1''
     = ([demoReply ''a1'' ''ok''], 1) \<and> [demoReply ''a1'' ''ok''] = drop 1 [demoUser ''u2'', demoReply ''a1'' ''ok'']"
proof -
  have "trimInheritedParentMessages [demoUser ''u1''] [demoUser ''u2'', demoReply ''a1'' ''ok''] ''t1''
     = ([demoReply ''a1'' ''ok''], 1)"
    by code_simp
  from this inherited_part_is_a_prefix [OF this] show ?thesis by simp
qed

definition demoLive :: agUiThreadMessageState where
  "demoLive = createAgUiThreadMessageState\<lparr>ag_messages := [demoReply ''turn::item::a1'' ''ok then'']\<rparr>"


theorem live_state_only_appends_witness:
  "prefix
     (map cm_id (tp_messages (projectTranscript ''now''
       \<lparr>ct_id = ''t1'', ct_parentThreadId = None, ct_messages = [demoUser ''u1'']\<rparr> None True [] None)))
     (map cm_id (tp_messages (projectTranscript ''now''
       \<lparr>ct_id = ''t1'', ct_parentThreadId = None, ct_messages = [demoUser ''u1'']\<rparr> None True [] (Some demoLive))))"
  by (rule live_state_only_appends) (simp add: demoLive_def createAgUiThreadMessageState_def)

end
