(* ===== verification/ChatReaders.thy ===== *)
theory ChatReaders
  imports AgUiState
begin

text \<open>
  How the chat mapping reads the fields of what the bridge sends: strings, numbers, instants and
  error messages (\<open>api/chatMappingRawTypesAndReaders.ts\<close>, \<open>chatMappingStatusAndErrorProjection.ts\<close>),
  tool arguments (\<open>chatMappingToolArgumentParsers.ts\<close>) and previews of structured content
  (\<open>chatMappingStructuredContentPreview.ts\<close>).  A value a record stands for is kept where the code
  serializes it, since an array is a record there too.
\<close>

section \<open>Fields\<close>

text \<open>\<open>readString(v)?.trim()\<close>\<close>

definition trimmed_string :: "jsv \<Rightarrow> string option" where
  "trimmed_string v = map_option trim (as_string v)"

text \<open>\<open>a || b\<close> where the empty string counts as missing\<close>

definition non_empty :: "string option \<Rightarrow> string option" where
  "non_empty s = (if s = Some [] then None else s)"

text \<open>\<open>a ?? b ?? ...\<close>\<close>

definition first_some :: "'a option list \<Rightarrow> 'a option" where
  "first_some xs = foldr or_else xs None"

definition readStringArray :: "jsv \<Rightarrow> string list" where
  "readStringArray value =
     filter (\<lambda>s. s \<noteq> []) (map (\<lambda>v. with_default (trimmed_string v) []) (with_default (as_array value) []))"

text \<open>\<open>readNumber\<close>\<close>

definition readNumeric :: "jsv \<Rightarrow> rat option" where
  "readNumeric value =
     (case (case value of JNum q \<Rightarrow> Some q | JStr s \<Rightarrow> js_number s | _ \<Rightarrow> None) of
        Some q \<Rightarrow> if finite_number q then Some q else None
      | None \<Rightarrow> None)"

definition forward_slashes :: "string \<Rightarrow> string" where
  "forward_slashes s = map (\<lambda>c. if c = CHR 0x5C then CHR ''/'' else c) s"

definition changePath :: "jsv \<Rightarrow> string option" where
  "changePath change =
     (let r = toRecord change in
      first_some [trimmed_string change, trimmed_string (opt_prop r ''path''),
        trimmed_string (opt_prop r ''filePath''), trimmed_string (opt_prop r ''file_path'')])"

definition readFileChangePaths :: "jobj \<Rightarrow> string list" where
  "readFileChangePaths item =
     dedupe (map forward_slashes (filter (\<lambda>p. p \<noteq> [])
       (List.map_filter changePath (with_default (as_array (prop_of item ''changes'')) []))))"

definition toPreview :: "string \<Rightarrow> string" where
  "toPreview value =
     (let collapsed = trim (collapse_spaces value) in
      if units collapsed \<le> 180 then collapsed else take_units 177 collapsed @ ''...'')"

datatype chatError = ChatIdMissing | InvalidDate

text \<open>\<open>new Date(ms).toISOString()\<close>, which throws for an instant out of range.\<close>

definition date_iso :: "int \<Rightarrow> chatError + string" where
  "date_iso ms = (if time_value ms then Inr (to_iso_string ms) else Inl InvalidDate)"

definition unixSecondsToIso :: "rat \<Rightarrow> chatError + string" where
  "unixSecondsToIso value = date_iso (trunc (value * 1000))"

definition readTimestampSeconds :: "(string \<Rightarrow> int option) \<Rightarrow> jsv \<Rightarrow> rat option" where
  "readTimestampSeconds other value =
     (case (case readNumeric value of Some q \<Rightarrow> if q > 0 then Some q else None | None \<Rightarrow> None) of
        Some numeric \<Rightarrow> Some (if numeric > 1000000000000 then numeric / 1000 else numeric)
      | None \<Rightarrow>
          (case non_empty (trimmed_string value) of
             None \<Rightarrow> None
           | Some t \<Rightarrow>
               (case date_parse other t of
                  Some parsed \<Rightarrow> if parsed > 0 then Some (of_int parsed / 1000) else None
                | None \<Rightarrow> None)))"

text \<open>
  \<open>s.toLowerCase()\<close> as far as ASCII letters go: the Kelvin sign and the dotted capital I are the
  only others with one in their lower case.
\<close>

definition lower_ascii :: "string \<Rightarrow> string" where
  "lower_ascii s =
     lower (replace_all [CHR 0xC4, CHR 0xB0] [CHR ''i'', CHR 0xCC, CHR 0x87] (replace_all [CHR 0xE2, CHR 0x84, CHR 0xAA] ''k'' s))"

definition normalizeLifecycleStatus :: "string option \<Rightarrow> string option" where
  "normalizeLifecycleStatus value =
     (case non_empty value of
        None \<Rightarrow> None
      | Some v \<Rightarrow> non_empty (Some (filter ascii_alnum (lower_ascii (trim v)))))"

section \<open>Error messages\<close>

definition errorFields :: "string list" where
  "errorFields =
     [''message'', ''errorMessage'', ''error_message'', ''detail'', ''details'', ''reason'',
      ''description'', ''stderr'', ''error'']"

function readErrorMessage :: "jsv \<Rightarrow> nat \<Rightarrow> string option" where
  "readErrorMessage value depth =
     (if depth > 3 then None
      else case non_empty (trimmed_string value) of
        Some direct \<Rightarrow> Some direct
      | None \<Rightarrow>
          (case toRecord value of
             None \<Rightarrow> None
           | Some r \<Rightarrow> first_some (map (\<lambda>k. readErrorMessage (prop_of r k) (depth + 1)) errorFields)))"
  by pat_completeness auto
termination
  by (relation "measure (\<lambda>(value, depth). 4 - depth)") auto

declare readErrorMessage.simps [simp del]

section \<open>Tool arguments\<close>

definition normalizeType :: "string \<Rightarrow> string" where
  "normalizeType value = map lower_char (filter ascii_alnum value)"

text \<open>\<open>normalizeType(readString(v) ?? "")\<close>\<close>

definition type_of :: "jsv \<Rightarrow> string" where
  "type_of v = normalizeType (with_default (as_string v) [])"

definition ellipsis :: string where
  "ellipsis = [CHR 0xE2, CHR 0x80, CHR 0xA6]"

text \<open>The cut both normalizers end with, for a text that is not empty.\<close>

definition limited :: "string \<Rightarrow> nat \<Rightarrow> string option" where
  "limited cleaned maxChars =
     (if cleaned = [] then None
      else if units cleaned \<le> maxChars then Some cleaned
      else Some (take_units (max 1 (maxChars - 1)) cleaned @ ellipsis))"

definition normalizeInline :: "string option \<Rightarrow> nat \<Rightarrow> string option" where
  "normalizeInline value maxChars =
     (case non_empty value of
        None \<Rightarrow> None
      | Some v \<Rightarrow> limited (trim (collapse_spaces v)) maxChars)"

text \<open>\<open>/\u001b\[[0-9;]*[A-Za-z]/g\<close>\<close>

definition ascii_letter :: "char \<Rightarrow> bool" where
  "ascii_letter c \<longleftrightarrow> ascii_alnum c \<and> \<not> is_digit c"

definition color_code :: "string \<Rightarrow> nat option" where
  "color_code s =
     (if starts_with s [CHR 0x1B, CHR ''['']
      then (let args = takeWhile (\<lambda>c. is_digit c \<or> c = CHR '';'') (drop 2 s) in
            case drop (2 + length args) s of
              [] \<Rightarrow> None
            | c # _ \<Rightarrow> if ascii_letter c then Some (3 + length args) else None)
      else None)"

function strip_colors :: "string \<Rightarrow> string" where
  "strip_colors s =
     (case s of
        [] \<Rightarrow> []
      | c # r \<Rightarrow> (case color_code s of None \<Rightarrow> c # strip_colors r | Some n \<Rightarrow> strip_colors (drop n s)))"
  by pat_completeness auto
termination
  by (relation "measure length")
    (auto simp: color_code_def Let_def split: if_splits list.splits)

declare strip_colors.simps [simp del]

definition normalizeMultiline :: "string option \<Rightarrow> nat \<Rightarrow> string option" where
  "normalizeMultiline value maxChars =
     (case non_empty value of
        None \<Rightarrow> None
      | Some v \<Rightarrow> limited (trim (unix_lines (strip_colors v))) maxChars)"

definition content_lines :: "string \<Rightarrow> string list" where
  "content_lines s = filter (\<lambda>line. trim line \<noteq> []) (map trim_end (split_lines s))"

definition toNestedOutput :: "string \<Rightarrow> nat \<Rightarrow> nat \<Rightarrow> string option" where
  "toNestedOutput value maxLines maxChars =
     (case normalizeMultiline (Some value) maxChars of
        None \<Rightarrow> None
      | Some normalized \<Rightarrow>
          let lines = content_lines normalized in
          if lines = [] then None else Some (join newline (take maxLines lines)))"

definition toFileChangeTargetLabel :: "string \<Rightarrow> string" where
  "toFileChangeTargetLabel path =
     (let normalized = forward_slashes (trim path);
          names = filter (\<lambda>s. s \<noteq> []) (split_on (CHR ''/'') normalized)
      in if normalized = [] then ''file''
         else if names = [] then normalized else last names)"

definition parseJsonObject :: "string option \<Rightarrow> jsv option" where
  "parseJsonObject value =
     (case non_empty value of
        None \<Rightarrow> None
      | Some s \<Rightarrow>
          (case json_parse s of
             Some v \<Rightarrow> if toRecord v = None then None else Some v
           | None \<Rightarrow> None))"

text \<open>\<open>toRecord(v)\<close> as the value itself\<close>

definition record_value :: "jsv \<Rightarrow> jsv option" where
  "record_value v = (if toRecord v = None then None else Some v)"

definition readFunctionToolArguments :: "jobj \<Rightarrow> jsv option" where
  "readFunctionToolArguments item =
     first_some [record_value (prop_of item ''arguments''), record_value (prop_of item ''args''),
       parseJsonObject (as_string (prop_of item ''arguments'')),
       parseJsonObject (as_string (prop_of item ''args''))]"

definition readFunctionToolInput :: "jobj \<Rightarrow> string option" where
  "readFunctionToolInput item =
     first_some (map (\<lambda>k. normalizeMultiline (as_string (prop_of item k)) 1800)
       [''input'', ''arguments'', ''args''])"

definition readFunctionCommand :: "jobj option \<Rightarrow> string option" where
  "readFunctionCommand args =
     (case args of
        None \<Rightarrow> None
      | Some a \<Rightarrow>
          (case or_else (normalizeInline (as_string (prop_of a ''cmd'')) 240)
                        (normalizeInline (as_string (prop_of a ''command'')) 240) of
             Some direct \<Rightarrow> Some direct
           | None \<Rightarrow>
               let commandParts = readStringArray (prop_of a ''cmd'') @ readStringArray (prop_of a ''command'')
               in if commandParts \<noteq> [] then normalizeInline (Some (join '' '' commandParts)) 240 else None))"

text \<open>\<open>name.split("__")\<close>\<close>

fun split_underscores :: "string \<Rightarrow> string list" where
  "split_underscores [] = [[]]"
| "split_underscores [c] = [[c]]"
| "split_underscores (c # d # s) =
     (if c = CHR ''_'' \<and> d = CHR ''_'' then [] # split_underscores s
      else let ys = split_underscores (d # s) in (c # hd ys) # tl ys)"

text \<open>The server and the tool.\<close>

definition parseMcpFunctionToolName :: "string \<Rightarrow> (string \<times> string) option" where
  "parseMcpFunctionToolName name =
     (case filter (\<lambda>s. s \<noteq> []) (split_underscores name) of
        mcp # server # part # toolParts \<Rightarrow>
          if mcp = ''mcp'' then Some (server, join ''__'' (part # toolParts)) else None
      | _ \<Rightarrow> None)"

definition readFunctionSearchQuery :: "jobj option \<Rightarrow> string option" where
  "readFunctionSearchQuery args =
     (case args of
        None \<Rightarrow> None
      | Some a \<Rightarrow>
          (case non_empty (or_else (as_string (prop_of a ''q'')) (as_string (prop_of a ''query''))) of
             Some direct \<Rightarrow> Some direct
           | None \<Rightarrow>
               first_some (map (\<lambda>entry. non_empty (or_else (as_string (opt_prop (toRecord entry) ''q''))
                   (as_string (opt_prop (toRecord entry) ''query''))))
                 (with_default (or_else (as_array (prop_of a ''search_query''))
                   (as_array (prop_of a ''image_query''))) []))))"

text \<open>
  \<open>/^heading\s+(.+)$/gm\<close> of one heading: on the text after it, white space may run over line ends
  before the path, which ends with its line.
\<close>

definition heading_path :: "string \<Rightarrow> string \<Rightarrow> (string \<times> string) option" where
  "heading_path heading s =
     (let rest = drop (length heading) s; start = trim_start rest;
          line = take_line start
      in if starts_with s heading \<and> start \<noteq> rest \<and> start \<noteq> []
         then Some (trim line, drop (length line) start) else None)"

lemma after_line_le:
  assumes "length r < length s"
  shows "length (after_line r) < length s"
proof (cases r)
  case Nil
  have "find (\<lambda>u. False) us = None" for us :: "string list" by (simp add: find_None_iff)
  with Nil assms show ?thesis by (simp add: after_line_def leading_unit_def)
qed (use assms after_line_shorter [of r] in simp)

lemma heading_path_rest:
  assumes "heading_path heading s = Some (path, rest)"
  shows "length rest < length s"
proof -
  let ?r = "drop (length heading) s"
  have "suffix (trim_start ?r) ?r" by (simp add: trim_start_def suffix_strip_units)
  moreover have "trim_start ?r \<noteq> ?r" "rest = drop (length (take_line (trim_start ?r))) (trim_start ?r)"
    using assms by (auto simp: heading_path_def Let_def split: if_splits)
  ultimately show ?thesis by (auto simp: suffix_def) (metis (no_types, lifting) append_Nil length_0_conv
      length_append length_drop length_greater_0_conv less_add_same_cancel2 diff_le_self le_trans not_le)
qed

function heading_paths :: "string \<Rightarrow> string \<Rightarrow> string list" where
  "heading_paths heading s =
     (if s = [] then []
      else case heading_path heading s of
        Some (path, rest) \<Rightarrow> path # heading_paths heading (after_line rest)
      | None \<Rightarrow> heading_paths heading (after_line s))"
  by pat_completeness auto
termination
  by (relation "measure (\<lambda>(heading, s). length s)")
    (auto simp: after_line_shorter dest: heading_path_rest [THEN after_line_le])

declare heading_paths.simps [simp del]

definition readPatchTargetPaths :: "string \<Rightarrow> string list" where
  "readPatchTargetPaths input =
     dedupe (filter (\<lambda>p. p \<noteq> []) (concat (map (\<lambda>heading. heading_paths heading input)
       [''*** Update File:'', ''*** Move to:'', ''*** Add File:'', ''*** Delete File:''])))"

definition readReceiverThreadIds :: "jobj \<Rightarrow> string list" where
  "readReceiverThreadIds item =
     (let pluralIds = readStringArray (prop_of item ''receiverThreadIds'')
            @ readStringArray (prop_of item ''receiver_thread_ids'')
      in if pluralIds \<noteq> [] then dedupe pluralIds
         else filter (\<lambda>s. s \<noteq> []) (map (\<lambda>k. with_default (trimmed_string (prop_of item k)) [])
           [''newThreadId'', ''new_thread_id'', ''receiverThreadId'', ''receiver_thread_id'']))"

section \<open>Previews of structured content\<close>

definition withNestedDetail :: "string \<Rightarrow> string option \<Rightarrow> string" where
  "withNestedDetail title detail =
     (case content_lines (with_default detail []) of
        [] \<Rightarrow> title
      | first # rest \<Rightarrow>
          join newline (title # (''  '' @ [CHR 0xE2, CHR 0x94, CHR 0x94] @ '' '' @ first)
            # map (\<lambda>line. ''    '' @ line) rest))"

definition readStructuredText :: "jobj \<Rightarrow> string option" where
  "readStructuredText entry =
     or_else (trimmed_string (prop_of entry ''text''))
       (trimmed_string (opt_prop (toRecord (prop_of entry ''data'')) ''text''))"

text \<open>The first string among some fields of the entry, then among some of its data, trimmed.\<close>

definition field_or_data :: "jobj \<Rightarrow> string list \<Rightarrow> string list \<Rightarrow> string option" where
  "field_or_data entry ks dks =
     first_some (map (\<lambda>k. trimmed_string (prop_of entry k)) ks
       @ map (\<lambda>k. trimmed_string (opt_prop (toRecord (prop_of entry ''data'')) k)) dks)"

definition readStructuredImageUrl :: "jobj \<Rightarrow> string option" where
  "readStructuredImageUrl entry =
     (let inlineImageData = field_or_data entry [''data''] [''data''];
          inlineImageMimeType = field_or_data entry [''mimeType'', ''mime_type''] [''mimeType'', ''mime_type'']
      in case (non_empty inlineImageData, non_empty inlineImageMimeType) of
           (Some d, Some m) \<Rightarrow> Some (''data:'' @ m @ '';base64,'' @ d)
         | _ \<Rightarrow> field_or_data entry [''url'', ''image_url'', ''imageUrl''] [''url'', ''image_url'', ''imageUrl''])"

definition readStructuredLocalImagePath :: "jobj \<Rightarrow> string option" where
  "readStructuredLocalImagePath entry = field_or_data entry [''path''] [''path'']"

definition readStructuredMentionPath :: "jobj \<Rightarrow> string option" where
  "readStructuredMentionPath entry = field_or_data entry [''path''] [''path'']"

definition marker :: "string \<Rightarrow> string option \<Rightarrow> string list" where
  "marker name value = (case non_empty value of Some v \<Rightarrow> [''['' @ name @ '': '' @ v @ '']''] | None \<Rightarrow> [])"

definition stringifyStructuredContentEntry :: "jsv \<Rightarrow> string list" where
  "stringifyStructuredContentEntry entry =
     (case toRecord entry of
        None \<Rightarrow> (case non_empty (trimmed_string entry) of Some t \<Rightarrow> [t] | None \<Rightarrow> [])
      | Some r \<Rightarrow>
          let entryType = type_of (prop_of r ''type'') in
          if entryType \<in> set [''text'', ''inputtext'', ''outputtext'', ''summarytext'']
          then (case non_empty (readStructuredText r) of Some t \<Rightarrow> [t] | None \<Rightarrow> [])
          else if entryType \<in> set [''image'', ''inputimage'', ''localimage'']
          then (let localImagePath = marker ''local image'' (readStructuredLocalImagePath r) in
                if localImagePath \<noteq> [] then localImagePath else marker ''image'' (readStructuredImageUrl r))
          else if entryType = ''mention'' then marker ''file'' (readStructuredMentionPath r)
          else [])"

definition stringifyStructuredContentEntries :: "jsv list \<Rightarrow> string" where
  "stringifyStructuredContentEntries entries =
     join newline (concat (map stringifyStructuredContentEntry entries))"

definition first_non_empty :: "'a list list \<Rightarrow> 'a list" where
  "first_non_empty xss = with_default (find (\<lambda>xs. xs \<noteq> []) xss) []"

definition previewKeys :: "string list" where
  "previewKeys =
     [''content'', ''contents'', ''items'', ''item'', ''result'', ''results'', ''output'', ''data'',
      ''structuredContent'', ''structured_content'', ''_meta'', ''meta'']"

function extractStructuredContentPreviewLines :: "jsv \<Rightarrow> nat \<Rightarrow> string list" where
  "extractStructuredContentPreviewLines value depth =
     (if depth > 3 \<or> nullish value then []
      else case value of
        JArr vs \<Rightarrow>
          (let directLines = concat (map stringifyStructuredContentEntry vs) in
           if directLines \<noteq> [] then directLines
           else first_non_empty (map (\<lambda>v. extractStructuredContentPreviewLines v (depth + 1)) vs))
      | _ \<Rightarrow>
          (let directLines = stringifyStructuredContentEntry value in
           if directLines \<noteq> [] then directLines
           else case toRecord value of
             None \<Rightarrow> []
           | Some r \<Rightarrow> first_non_empty (map (\<lambda>v. extractStructuredContentPreviewLines v (depth + 1))
               (present_values r previewKeys))))"
  by pat_completeness auto
termination
  by (relation "measure (\<lambda>(value, depth). 4 - depth)") auto

declare extractStructuredContentPreviewLines.simps [simp del]

definition isImageMarker :: "string \<Rightarrow> bool" where
  "isImageMarker value = (attachmentTag ''image'' (trim value) \<or> attachmentTag ''local image'' (trim value))"

fun previewLines :: "nat \<Rightarrow> nat \<Rightarrow> nat \<Rightarrow> string list \<Rightarrow> string list" where
  "previewLines remainingChars textLineCount mediaLineCount [] = []"
| "previewLines remainingChars textLineCount mediaLineCount (line # lines) =
     (if isImageMarker line
      then (if mediaLineCount \<ge> 3 then []
            else line # previewLines remainingChars textLineCount (mediaLineCount + 1) lines)
      else if textLineCount \<ge> 8 \<or> remainingChars = 0 then []
      else case normalizeMultiline (Some line) remainingChars of
        None \<Rightarrow> previewLines remainingChars textLineCount mediaLineCount lines
      | Some normalizedLine \<Rightarrow>
          normalizedLine
            # previewLines (remainingChars - units normalizedLine) (textLineCount + 1) mediaLineCount lines)"

definition toStructuredContentPreview :: "jsv \<Rightarrow> nat \<Rightarrow> string option" where
  "toStructuredContentPreview value maxChars =
     (let shown = previewLines maxChars 0 0 (extractStructuredContentPreviewLines value 0)
      in if shown \<noteq> [] then Some (join newline shown) else None)"

definition toStructuredPreview :: "jsv \<Rightarrow> nat \<Rightarrow> string option" where
  "toStructuredPreview value maxChars =
     (if nullish value then None
      else case non_empty (toStructuredContentPreview value maxChars) of
        Some p \<Rightarrow> Some p
      | None \<Rightarrow>
          (case value of
             JStr s \<Rightarrow> normalizeMultiline (Some s) maxChars
           | _ \<Rightarrow> normalizeInline (Some (json_text value)) maxChars))"

definition reasoningTextFromItem :: "jobj \<Rightarrow> string option" where
  "reasoningTextFromItem item =
     (let blank = (\<lambda>s. trim s = []);
          listed = (\<lambda>k. let strings = readStringArray (prop_of item k) in
            if strings \<noteq> [] then Some (join newline strings)
            else case prop_of item k of
              JArr vs \<Rightarrow> (let s = stringifyStructuredContentEntries vs in if blank s then None else Some s)
            | _ \<Rightarrow> None)
      in case as_string (prop_of item ''text'') of
           Some t \<Rightarrow> if blank t then or_else (listed ''content'') (listed ''summary'') else Some t
         | None \<Rightarrow> or_else (listed ''content'') (listed ''summary''))"

text \<open>\<open>toSubAgentMeta\<close>, with the properties that are not undefined.\<close>

definition string_prop :: "string \<Rightarrow> string option \<Rightarrow> jobj" where
  "string_prop k v = (case v of Some s \<Rightarrow> [(k, JStr s)] | None \<Rightarrow> [])"

definition toSubAgentMeta :: "jobj \<Rightarrow> jobj option" where
  "toSubAgentMeta item =
     (let tool = as_string (prop_of item ''tool'');
          prompt = normalizeInline (as_string (prop_of item ''prompt'')) 4000;
          senderThreadId = normalizeInline (or_else (as_string (prop_of item ''senderThreadId''))
            (as_string (prop_of item ''sender_thread_id''))) 200;
          agentStatus = normalizeInline (or_else (as_string (prop_of item ''agentStatus''))
            (as_string (prop_of item ''agent_status''))) 200;
          receivers = readReceiverThreadIds item
      in if non_empty tool = None \<and> prompt = None \<and> senderThreadId = None \<and> receivers = [] \<and> agentStatus = None
         then None
         else Some (string_prop ''tool'' tool @ string_prop ''prompt'' prompt
           @ string_prop ''senderThreadId'' senderThreadId
           @ [(''receiverThreadIds'', JArr (map JStr receivers))]
           @ string_prop ''agentStatus'' agentStatus))"

end
