(* ===== verification/ChatTools.thy ===== *)
theory ChatTools
  imports ChatReaders
begin

text \<open>
  The text a tool item of a turn is shown with (\<open>api/chatMappingToolMessageProjection.ts\<close>): a title
  line and, below it, nested detail.
\<close>

definition failed_status :: "string \<Rightarrow> bool" where
  "failed_status status \<longleftrightarrow> status = ''failed'' \<or> status = ''error''"

definition in_progress_status :: "string \<Rightarrow> bool" where
  "in_progress_status status \<longleftrightarrow> status = ''running'' \<or> status = ''inprogress''"

text \<open>A title with its subject in backquotes.\<close>

definition ticked :: "string \<Rightarrow> string \<Rightarrow> string" where
  "ticked title subject = bullet @ title @ '' `'' @ subject @ ''`''"

text \<open>\<open>normalizeInline(readString(item.a) ?? readString(item.b), n)\<close>\<close>

definition inline_field :: "jobj \<Rightarrow> string list \<Rightarrow> nat \<Rightarrow> string option" where
  "inline_field item ks n = normalizeInline (first_some (map (\<lambda>k. as_string (prop_of item k)) ks)) n"

definition prefixed :: "string \<Rightarrow> string option \<Rightarrow> string" where
  "prefixed label v = (case v of Some s \<Rightarrow> label @ s | None \<Rightarrow> [])"

definition commandMessage :: "jobj \<Rightarrow> string" where
  "commandMessage item =
     (let command = with_default (inline_field item [''command''] 240) ''command'';
          status = type_of (prop_of item ''status'');
          output = or_else (normalizeMultiline (as_string (prop_of item ''aggregatedOutput'')) 2400)
            (normalizeMultiline (as_string (prop_of item ''aggregated_output'')) 2400);
          exitCode = or_else (readNumeric (prop_of item ''exitCode'')) (readNumeric (prop_of item ''exit_code''));
          title = ticked (if failed_status status then ''Command failed'' else ''Ran'') command;
          outputPreview = Option.bind output (\<lambda>s. toNestedOutput s 8 1600);
          detail = or_else outputPreview (map_option (\<lambda>q. ''exit code '' @ show_num q) exitCode)
      in withNestedDetail title detail)"

definition mcpMessage :: "jobj \<Rightarrow> string" where
  "mcpMessage item =
     (let server = inline_field item [''server''] 120;
          tool = inline_field item [''tool''] 120;
          joined = join_nonempty '' / '' [with_default server [], with_default tool []];
          label = (if joined = [] then ''MCP tool call'' else joined);
          status = type_of (prop_of item ''status'');
          errorDetail = or_else
            (normalizeInline (as_string (opt_prop (toRecord (prop_of item ''error'')) ''message'')) 240)
            (inline_field item [''error''] 240);
          resultDetail = toStructuredPreview (prop_of item ''result'') 240
      in if failed_status status
         then withNestedDetail (ticked ''Tool failed'' label) (or_else errorDetail resultDetail)
         else withNestedDetail (ticked ''Called tool'' label) resultDetail)"

definition outputMessage :: "jobj \<Rightarrow> string option" where
  "outputMessage item =
     (case or_else (normalizeMultiline (as_string (prop_of item ''output'')) 2400)
             (toStructuredPreview (prop_of item ''output'') 1200) of
        None \<Rightarrow> None
      | Some output \<Rightarrow>
          let title = (case inline_field item [''call_id'', ''callId''] 120 of
                Some callId \<Rightarrow> ticked ''Tool output'' callId
              | None \<Rightarrow> bullet @ ''Tool output'')
          in Some (withNestedDetail title (toNestedOutput output 8 1600)))"

definition collabTitle :: "string \<Rightarrow> string \<Rightarrow> string" where
  "collabTitle tool status =
     bullet @
     (if tool = ''spawnagent''
      then (if failed_status status then ''Sub-agent spawn failed''
            else if status \<in> set [''completed'', ''complete'', ''succeeded''] then ''Spawned sub-agent''
            else ''Spawning sub-agent'')
      else if tool = ''sendinput''
      then (if failed_status status then ''Sub-agent update failed'' else ''Sent follow-up to sub-agent'')
      else if tool = ''wait''
      then (if failed_status status then ''Waiting on sub-agent failed'' else ''Waiting on sub-agent'')
      else if tool = ''closeagent''
      then (if failed_status status then ''Closing sub-agent failed'' else ''Closed sub-agent thread'')
      else if failed_status status then ''Sub-agent action failed'' else ''Updated sub-agent thread'')"

definition collabMessage :: "jobj \<Rightarrow> string" where
  "collabMessage item =
     (let receivers = readReceiverThreadIds item;
          primaryReceiverThreadId =
            normalizeInline (case receivers of r # _ \<Rightarrow> Some r | [] \<Rightarrow> None) 120;
          newThreadId = normalizeInline (first_some [as_string (prop_of item ''newThreadId''),
            as_string (prop_of item ''new_thread_id''), primaryReceiverThreadId]) 120;
          detail = join_nonempty newline
            [prefixed ''Prompt: '' (inline_field item [''prompt''] 220),
             prefixed ''Thread: '' newThreadId,
             prefixed ''Target: '' primaryReceiverThreadId,
             prefixed ''From: '' (inline_field item [''senderThreadId'', ''sender_thread_id''] 120),
             prefixed ''Status: '' (inline_field item [''agentStatus'', ''agent_status''] 120)]
      in withNestedDetail (collabTitle (type_of (prop_of item ''tool'')) (type_of (prop_of item ''status'')))
           (non_empty (Some detail)))"

definition searchTitle :: "string option \<Rightarrow> string" where
  "searchTitle query =
     (case query of
        Some q \<Rightarrow> bullet @ ''Searched web for '' @ [CHR 0x22] @ q @ [CHR 0x22]
      | None \<Rightarrow> bullet @ ''Searched web'')"

definition searchMessage :: "jobj \<Rightarrow> string" where
  "searchMessage item =
     (let query = inline_field item [''query''] 180;
          action = toRecord (prop_of item ''action'');
          actionType = type_of (opt_prop action ''type'');
          detail =
            (if actionType = ''openpage''
             then or_else (normalizeInline (as_string (opt_prop action ''url'')) 240) query
             else if actionType = ''findinpage''
             then or_else (non_empty (Some (join_nonempty '' | ''
               [with_default (normalizeInline (as_string (opt_prop action ''url'')) 180) [],
                prefixed ''pattern: '' (normalizeInline (as_string (opt_prop action ''pattern'')) 120)]))) query
             else query)
      in withNestedDetail (searchTitle query) (if detail = query then None else detail))"

text \<open>The files a change is said to be made to.\<close>

definition target_suffix :: "string list \<Rightarrow> string" where
  "target_suffix paths =
     (case paths of
        [] \<Rightarrow> []
      | [p] \<Rightarrow> '' to '' @ toFileChangeTargetLabel p
      | p # ps \<Rightarrow> '' to '' @ toFileChangeTargetLabel p @ '' +'' @ show_nat (length ps) @ '' more'')"

definition listed_paths :: "string list \<Rightarrow> string option" where
  "listed_paths paths = (if paths = [] then None else Some (join newline paths))"

definition fileChangeMessage :: "jobj \<Rightarrow> string" where
  "fileChangeMessage item =
     (let paths = readFileChangePaths item;
          title = (if failed_status (type_of (prop_of item ''status'')) then ''File changes failed''
            else ''Applied file changes'')
      in withNestedDetail (bullet @ title @ target_suffix paths) (listed_paths paths))"

definition toFunctionToolLikeMessage :: "jobj \<Rightarrow> string" where
  "toFunctionToolLikeMessage item =
     (let toolName = with_default
            (inline_field item [''name'', ''tool'', ''function'', ''function_name''] 160) ''tool'';
          name = (if starts_with toolName ''functions.'' then drop 10 toolName else toolName);
          status = type_of (prop_of item ''status'');
          args = readFunctionToolArguments item;
          fields = Option.bind args toRecord;
          inputPreview = (case args of Some v \<Rightarrow> toStructuredPreview v 900 | None \<Rightarrow> readFunctionToolInput item);
          calls = (\<lambda>subject. ticked (if failed_status status then ''Tool failed''
            else if in_progress_status status then ''Calling tool'' else ''Called tool'') subject);
          input = map_option (\<lambda>p. ''Input: '' @ p) (non_empty inputPreview)
      in if name = ''exec_command''
         then (let command = with_default (or_else (readFunctionCommand fields)
                     (normalizeInline (readFunctionToolInput item) 240)) ''command'';
                   title = ticked (if failed_status status then ''Command failed''
                     else if in_progress_status status then ''Running command'' else ''Ran'') command
               in withNestedDetail title
                 (map_option (\<lambda>w. ''cwd: '' @ w) (normalizeInline (as_string (opt_prop fields ''workdir'')) 220)))
         else case parseMcpFunctionToolName name of
           Some (server, tool) \<Rightarrow> withNestedDetail (calls (server @ '' / '' @ tool)) input
         | None \<Rightarrow>
             if name = ''search_query'' \<or> name = ''image_query''
             then withNestedDetail (searchTitle (normalizeInline (readFunctionSearchQuery fields) 180)) None
             else if name = ''apply_patch''
             then (let paths = (case readFunctionToolInput item of Some p \<Rightarrow> readPatchTargetPaths p | None \<Rightarrow> [])
                   in withNestedDetail (bullet @ ''Applied file changes'' @ target_suffix paths) (listed_paths paths))
             else withNestedDetail (calls name) input)"

definition toToolLikeMessage :: "jobj \<Rightarrow> string option" where
  "toToolLikeMessage item =
     (case non_empty (as_string (prop_of item ''type'')) of
        None \<Rightarrow> None
      | Some rawType \<Rightarrow>
          let type = normalizeType rawType in
          if type = ''plan'' then normalizeMultiline (as_string (prop_of item ''text'')) 1800
          else if type = ''reasoning''
          then Some (withNestedDetail (bullet @ ''Reasoning'')
            (normalizeMultiline (reasoningTextFromItem item) 2400))
          else if type = ''commandexecution'' then Some (commandMessage item)
          else if type = ''mcptoolcall'' then Some (mcpMessage item)
          else if type = ''functioncall'' \<or> type = ''customtoolcall'' then Some (toFunctionToolLikeMessage item)
          else if type = ''functioncalloutput'' \<or> type = ''customtoolcalloutput'' then outputMessage item
          else if type = ''collabtoolcall'' then Some (collabMessage item)
          else if type = ''websearch'' then Some (searchMessage item)
          else if type = ''filechange'' then Some (fileChangeMessage item)
          else if type = ''imageview''
          then map_option (\<lambda>path. withNestedDetail (bullet @ ''Viewed image '' @ toFileChangeTargetLabel path)
            (Some path)) (inline_field item [''path''] 220)
          else if type = ''enteredreviewmode'' then Some (bullet @ ''Entered review mode'')
          else if type = ''exitedreviewmode'' then Some (bullet @ ''Exited review mode'')
          else if type = ''contextcompaction'' then Some (bullet @ ''Compacted conversation context'')
          else None)"

end
