(* ===== verification/ChatMapping.thy ===== *)
theory ChatMapping
  imports ChatTools "HOL-Library.Word"
begin

text \<open>
  From what the bridge sends for a thread to a chat: raw threads and snapshots, status and summary,
  plans, messages and the chat itself (\<open>api/chatMapping*.ts\<close>).  Map lookups of the code are lookups
  in association lists, the last entry first.  \<open>fresh n\<close> is the id made for the \<open>n\<close>-th message when
  it has none, \<open>other\<close> is the part of \<open>Date.parse\<close> that depends on the engine.
\<close>

section \<open>Raw data\<close>

record rawTurn =
  tn_id :: "string option"
  tn_status :: "string option"
  tn_fields :: jobj
  tn_items :: "jobj list option"

record snapshotMessage =
  sm_id :: string
  sm_role :: string
  sm_parts :: "jsv list"
  sm_truncated :: bool

datatype timelineKind = MessageEntry | ReasoningEntry | ToolEntry

record timelineEntry =
  te_sequence :: rat
  te_kind :: timelineKind
  te_canonicalId :: string

record snapshotTool =
  sl_id :: string
  sl_generation :: "rat option"
  sl_kind :: string
  sl_status :: string
  sl_title :: string
  sl_content :: string
  sl_structuredContent :: "jsv list"
  sl_locations :: "jsv list"
  sl_truncated :: bool

record rawSnapshotCollectionMetadata =
  co_truncated :: bool
  co_omittedCount :: rat
  co_oldestAvailableSequence :: "rat option"
  co_newestSequence :: "rat option"
  co_beforeCursor :: "string option"
  co_revision :: rat

record rawSnapshotContinuation =
  cn_revision :: rat
  cn_unavailableCount :: rat
  cn_earliestAvailableSequence :: "rat option"
  cn_latestAvailableSequence :: "rat option"
  cn_maxPageSize :: rat
  cn_maxHistoryEntries :: rat
  cn_maxHistoryBytes :: rat

record snapshotPlanEntry =
  sp_content :: string
  sp_priority :: string
  sp_status :: string

record configOption =
  cf_id :: string
  cf_value :: string
  cf_name :: "string option"
  cf_description :: "string option"
  cf_category :: "string option"
  cf_options :: "(string \<times> string \<times> string option) list"

record snapshotUsage =
  us_used :: "rat option"
  us_size :: "rat option"
  us_cost :: "string option"

record snapshotSession =
  ss_agentId :: string
  ss_threadId :: string
  ss_title :: "string option"
  ss_updatedAt :: "string option"
  ss_historyReconstruction :: bool

record snapshotActive =
  sa_runId :: "string option"
  sa_sourceTurnId :: "string option"
  sa_generation :: "rat option"
  sa_toolIds :: "string list"

record rawAcpSnapshot =
  ra_version :: rat
  ra_messages :: "snapshotMessage list"
  ra_timeline :: "timelineEntry list option"
  ra_tools :: "snapshotTool list"
  ra_messageCollection :: "rawSnapshotCollectionMetadata option"
  ra_reasoningCollection :: "rawSnapshotCollectionMetadata option"
  ra_toolCollection :: "rawSnapshotCollectionMetadata option"
  ra_continuation :: "rawSnapshotContinuation option"
  ra_plan :: "snapshotPlanEntry list"
  ra_usage :: snapshotUsage
  ra_mode :: "string option"
  ra_config :: "configOption list"
  ra_commands :: "(string \<times> string) list"
  ra_session :: snapshotSession
  ra_active :: snapshotActive

record rawThread =
  th_id :: "string option"
  th_agentId :: jsv
  th_name :: "string option"
  th_preview :: "string option"
  th_modelProvider :: "string option"
  th_agentNickname :: "string option"
  th_agentRole :: "string option"
  th_createdAt :: "rat option"
  th_updatedAt :: "rat option"
  th_status :: jsv
  th_cwd :: "string option"
  th_source :: jsv
  th_turns :: "rawTurn list option"
  th_acpSnapshot :: "rawAcpSnapshot option"

text \<open>\<open>readString(r.k) ?? ""\<close>, and the records among the entries of an array field\<close>

definition string_at :: "jobj \<Rightarrow> string \<Rightarrow> string" where
  "string_at r k = with_default (as_string (prop_of r k)) []"

definition records_at :: "jobj \<Rightarrow> string \<Rightarrow> jobj list" where
  "records_at r k = List.map_filter toRecord (with_default (as_array (prop_of r k)) [])"

definition array_at :: "jobj \<Rightarrow> string \<Rightarrow> jsv list" where
  "array_at r k = with_default (as_array (prop_of r k)) []"

definition readSnapshotMessages :: "jobj \<Rightarrow> snapshotMessage list" where
  "readSnapshotMessages snapshot =
     filter (\<lambda>m. sm_id m \<noteq> [] \<and> sm_role m \<noteq> [])
       (map (\<lambda>entry. \<lparr>sm_id = string_at entry ''id'', sm_role = string_at entry ''role'',
           sm_parts = array_at entry ''parts'', sm_truncated = (prop_of entry ''truncated'' = JBool True)\<rparr>)
         (records_at snapshot ''messages''))"

definition readSnapshotTools :: "jobj \<Rightarrow> snapshotTool list" where
  "readSnapshotTools snapshot =
     filter (\<lambda>t. sl_id t \<noteq> [])
       (map (\<lambda>entry. \<lparr>sl_id = string_at entry ''id'', sl_generation = readNumeric (prop_of entry ''generation''),
           sl_kind = string_at entry ''kind'', sl_status = string_at entry ''status'',
           sl_title = string_at entry ''title'', sl_content = string_at entry ''content'',
           sl_structuredContent = array_at entry ''structuredContent'',
           sl_locations = array_at entry ''locations'',
           sl_truncated = (prop_of entry ''truncated'' = JBool True)\<rparr>)
         (records_at snapshot ''tools''))"

fun timeline_kind :: "jsv \<Rightarrow> timelineKind option" where
  "timeline_kind (JStr s) =
     (if s = ''message'' then Some MessageEntry
      else if s = ''reasoning'' then Some ReasoningEntry
      else if s = ''tool'' then Some ToolEntry else None)"
| "timeline_kind _ = None"

definition readTimelineEntry :: "jobj \<Rightarrow> timelineEntry option" where
  "readTimelineEntry entry =
     (let sequence = with_default (readNumeric (prop_of entry ''sequence'')) (- 1);
          canonicalId = string_at entry ''canonicalId''
      in case timeline_kind (prop_of entry ''kind'') of
           Some kind \<Rightarrow>
             if sequence \<ge> 0 \<and> canonicalId \<noteq> []
             then Some \<lparr>te_sequence = sequence, te_kind = kind, te_canonicalId = canonicalId\<rparr> else None
         | None \<Rightarrow> None)"

definition readConfigOption :: "jobj \<Rightarrow> configOption" where
  "readConfigOption entry =
     \<lparr>cf_id = string_at entry ''id'', cf_value = string_at entry ''value'',
      cf_name = as_string (prop_of entry ''name''), cf_description = as_string (prop_of entry ''description''),
      cf_category = as_string (prop_of entry ''category''),
      cf_options = filter (\<lambda>(value, name, description). value \<noteq> [] \<and> name \<noteq> [])
        (map (\<lambda>option. (string_at option ''value'', string_at option ''name'',
            as_string (prop_of option ''description''))) (records_at entry ''options''))\<rparr>"

definition readCollection :: "jsv \<Rightarrow> rawSnapshotCollectionMetadata option" where
  "readCollection value =
     (case toRecord value of
        None \<Rightarrow> None
      | Some collection \<Rightarrow>
          map_option (\<lambda>revision.
            \<lparr>co_truncated = (prop_of collection ''truncated'' = JBool True),
             co_omittedCount = with_default (readNumeric (prop_of collection ''omittedCount'')) 0,
             co_oldestAvailableSequence = readNumeric (prop_of collection ''oldestAvailableSequence''),
             co_newestSequence = readNumeric (prop_of collection ''newestSequence''),
             co_beforeCursor = as_string (prop_of collection ''beforeCursor''),
             co_revision = revision\<rparr>) (readNumeric (prop_of collection ''revision'')))"

definition readContinuation :: "jsv \<Rightarrow> rawSnapshotContinuation option" where
  "readContinuation value =
     (case toRecord value of
        None \<Rightarrow> None
      | Some r \<Rightarrow>
          map_option (\<lambda>revision.
            \<lparr>cn_revision = revision,
             cn_unavailableCount = with_default (readNumeric (prop_of r ''unavailableCount'')) 0,
             cn_earliestAvailableSequence = readNumeric (prop_of r ''earliestAvailableSequence''),
             cn_latestAvailableSequence = readNumeric (prop_of r ''latestAvailableSequence''),
             cn_maxPageSize = with_default (readNumeric (prop_of r ''maxPageSize'')) 0,
             cn_maxHistoryEntries = with_default (readNumeric (prop_of r ''maxHistoryEntries'')) 0,
             cn_maxHistoryBytes = with_default (readNumeric (prop_of r ''maxHistoryBytes'')) 0\<rparr>)
            (readNumeric (prop_of r ''revision'')))"

definition toRawAcpSnapshot :: "jsv \<Rightarrow> rawAcpSnapshot option" where
  "toRawAcpSnapshot value =
     (case toRecord value of
        None \<Rightarrow> None
      | Some snapshot \<Rightarrow>
          (case (toRecord (prop_of snapshot ''session''), toRecord (prop_of snapshot ''active''),
                 readNumeric (prop_of snapshot ''version'')) of
             (Some session, Some active, Some version) \<Rightarrow>
               if version \<noteq> 1 \<and> version \<noteq> 2 then None
               else
                 let timeline = List.map_filter readTimelineEntry (records_at snapshot ''timeline'');
                     usage = with_default (toRecord (prop_of snapshot ''usage'')) []
                 in Some
                 \<lparr>ra_version = version,
                  ra_messages = readSnapshotMessages snapshot,
                  ra_timeline = (if timeline = [] then None else Some timeline),
                  ra_tools = readSnapshotTools snapshot,
                  ra_messageCollection = readCollection (prop_of snapshot ''messageCollection''),
                  ra_reasoningCollection = readCollection (prop_of snapshot ''reasoningCollection''),
                  ra_toolCollection = readCollection (prop_of snapshot ''toolCollection''),
                  ra_continuation = readContinuation (prop_of snapshot ''continuation''),
                  ra_plan = filter (\<lambda>p. sp_content p \<noteq> [])
                    (map (\<lambda>entry. \<lparr>sp_content = string_at entry ''content'',
                        sp_priority = string_at entry ''priority'', sp_status = string_at entry ''status''\<rparr>)
                      (records_at snapshot ''plan'')),
                  ra_usage = \<lparr>us_used = readNumeric (prop_of usage ''used''),
                    us_size = readNumeric (prop_of usage ''size''), us_cost = as_string (prop_of usage ''cost'')\<rparr>,
                  ra_mode = as_string (prop_of snapshot ''mode''),
                  ra_config = filter (\<lambda>c. cf_id c \<noteq> []) (map readConfigOption (records_at snapshot ''config'')),
                  ra_commands = filter (\<lambda>(name, description). name \<noteq> [])
                    (map (\<lambda>entry. (string_at entry ''name'', string_at entry ''description''))
                      (records_at snapshot ''commands'')),
                  ra_session = \<lparr>ss_agentId = string_at session ''agentId'',
                    ss_threadId = string_at session ''threadId'', ss_title = as_string (prop_of session ''title''),
                    ss_updatedAt = as_string (prop_of session ''updatedAt''),
                    ss_historyReconstruction = (prop_of session ''historyReconstruction'' = JBool True)\<rparr>,
                  ra_active = \<lparr>sa_runId = as_string (prop_of active ''runId''),
                    sa_sourceTurnId = as_string (prop_of active ''sourceTurnId''),
                    sa_generation = readNumeric (prop_of active ''generation''),
                    sa_toolIds = readStringArray (prop_of active ''toolIds'')\<rparr>\<rparr>
           | _ \<Rightarrow> None))"

text \<open>Of the fields of a turn the code keeps those an error message is read from.\<close>

definition toRawTurn :: "jsv \<Rightarrow> rawTurn option" where
  "toRawTurn value =
     map_option (\<lambda>r. \<lparr>tn_id = as_string (prop_of r ''id''), tn_status = as_string (prop_of r ''status''),
       tn_fields = filter (\<lambda>(k, v). k \<in> set errorFields) r,
       tn_items = map_option (List.map_filter toRecord) (as_array (prop_of r ''items''))\<rparr>) (toRecord value)"

definition toRawThread :: "(string \<Rightarrow> int option) \<Rightarrow> jsv \<Rightarrow> rawThread" where
  "toRawThread other value =
     (let r = with_default (toRecord value) []; str = (\<lambda>k. as_string (prop_of r k)) in
      \<lparr>th_id = str ''id'',
       th_agentId = prop_of r ''agentId'',
       th_name = first_some [str ''name'', str ''title'', str ''threadName'', str ''thread_name''],
       th_preview = str ''preview'',
       th_modelProvider = str ''modelProvider'',
       th_agentNickname = or_else (str ''agentNickname'') (str ''agent_nickname''),
       th_agentRole = or_else (str ''agentRole'') (str ''agent_role''),
       th_createdAt = readTimestampSeconds other (prop_of r ''createdAt''),
       th_updatedAt = readTimestampSeconds other (prop_of r ''updatedAt''),
       th_status = prop_of r ''status'',
       th_cwd = str ''cwd'',
       th_source = prop_of r ''source'',
       th_turns = map_option (List.map_filter toRawTurn) (as_array (prop_of r ''turns'')),
       th_acpSnapshot = toRawAcpSnapshot (prop_of r ''acpSnapshot'')\<rparr>)"

end
