(* ===== verification/ChatProjection.thy ===== *)
theory ChatProjection
  imports ChatMapping
begin

text \<open>
  The chat made of a raw thread: status and last error (\<open>chatMappingStatusAndErrorProjection.ts\<close>),
  summary (\<open>chatMappingSnapshotAndSummaryProjection.ts\<close>), plans (\<open>chatMappingPlanParsing.ts\<close>,
  \<open>chatMappingPlanExtraction.ts\<close>), messages (\<open>chatMappingMessageProjection.ts\<close>) and the chat
  (\<open>chatMappingChatProjection.ts\<close>).  The fields of a chat that are only copied
  (\<open>lastRunStartedAt\<close> and the like) are left out.
\<close>

section \<open>Status and errors\<close>

datatype chatStatus = ChatIdle | ChatRunning | ChatFailed | ChatComplete

definition active_turn_words :: "string list" where
  "active_turn_words = [''inprogress'', ''running'', ''active'', ''queued'', ''pending'']"

definition failed_turn_words :: "string list" where
  "failed_turn_words = [''failed'', ''interrupted'', ''error'', ''aborted'', ''cancelled'', ''canceled'']"

definition one_of :: "string option \<Rightarrow> string list \<Rightarrow> bool" where
  "one_of s ws \<longleftrightarrow> (case s of Some w \<Rightarrow> w \<in> set ws | None \<Rightarrow> False)"

definition turn_status :: "rawTurn \<Rightarrow> string option" where
  "turn_status turn = normalizeLifecycleStatus (tn_status turn)"

definition mapRawStatus :: "jsv \<Rightarrow> rawTurn list option \<Rightarrow> chatStatus" where
  "mapRawStatus status turns =
     (let statusType = normalizeLifecycleStatus
            (or_else (as_string (opt_prop (toRecord status) ''type'')) (as_string status));
          hasTurns = (turns \<noteq> None \<and> turns \<noteq> Some []);
          lastTurnStatus = (if hasTurns then turn_status (last (the turns)) else None);
          settled = (if hasTurns then ChatComplete else ChatIdle)
      in if one_of lastTurnStatus active_turn_words
         then (if one_of statusType [''idle'', ''notloaded''] then settled else ChatRunning)
         else if one_of lastTurnStatus failed_turn_words then ChatFailed
         else if one_of lastTurnStatus [''completed'', ''complete'', ''success'', ''succeeded''] then ChatComplete
         else if one_of statusType [''systemerror'', ''error'', ''failed''] then ChatFailed
         else if one_of statusType [''running'', ''inprogress'', ''queued'', ''pending''] then ChatRunning
         else if statusType = Some ''active'' then settled
         else if one_of statusType [''idle'', ''notloaded''] then settled
         else ChatIdle)"

definition extractLastError :: "rawTurn list \<Rightarrow> string option" where
  "extractLastError turns =
     map_option (\<lambda>turn.
       with_default (first_some (map (\<lambda>k. readErrorMessage (prop_of (tn_fields turn) k) 0)
           [''error'', ''message'', ''errorMessage'', ''error_message'', ''detail'', ''details'', ''reason'',
            ''description'', ''stderr'']))
         (''turn '' @ with_default (turn_status turn) []))
       (find (\<lambda>turn. one_of (turn_status turn) failed_turn_words) (rev turns))"

section \<open>Summary\<close>

definition readThreadItemText :: "jobj \<Rightarrow> string" where
  "readThreadItemText item =
     (case non_empty (as_string (prop_of item ''text'')) of
        Some t \<Rightarrow> t
      | None \<Rightarrow>
          concat (map (\<lambda>entry.
            let r = toRecord entry in
            if as_string (opt_prop r ''type'') = Some ''text''
            then with_default (as_string (opt_prop r ''text'')) [] else []) (array_at item ''content'')))"

definition readAgentId :: "jsv \<Rightarrow> string option" where
  "readAgentId value = non_empty (trimmed_string value)"

record threadSourceMetadata =
  so_kind :: "string option"
  so_parentThreadId :: "string option"
  so_subAgentDepth :: "rat option"

definition source_kind :: "string option \<Rightarrow> threadSourceMetadata" where
  "source_kind kind = \<lparr>so_kind = kind, so_parentThreadId = None, so_subAgentDepth = None\<rparr>"

text \<open>Kind, parent and depth of a record that names them.\<close>

definition source_fields :: "string \<Rightarrow> jobj \<Rightarrow> threadSourceMetadata" where
  "source_fields kind r =
     \<lparr>so_kind = Some kind,
      so_parentThreadId = or_else (as_string (prop_of r ''parentThreadId''))
        (as_string (prop_of r ''parent_thread_id'')),
      so_subAgentDepth = first_some [readNumeric (prop_of r ''depth''), readNumeric (prop_of r ''agentDepth''),
        readNumeric (prop_of r ''agent_depth'')]\<rparr>"

definition subAgentSource :: "jsv \<Rightarrow> threadSourceMetadata" where
  "subAgentSource subAgent =
     (case subAgent of
        JStr s \<Rightarrow> source_kind (Some
          (if s = ''review'' then ''subAgentReview''
           else if s = ''compact'' then ''subAgentCompact''
           else if s = ''memory_consolidation'' then ''subAgentOther'' else ''subAgent''))
      | _ \<Rightarrow>
          (case toRecord subAgent of
             None \<Rightarrow> source_kind (Some ''subAgent'')
           | Some r \<Rightarrow>
               (case toRecord (prop_of r ''thread_spawn'') of
                  Some threadSpawn \<Rightarrow> source_fields ''subAgentThreadSpawn'' threadSpawn
                | None \<Rightarrow>
                    if non_empty (as_string (prop_of r ''other'')) \<noteq> None then source_kind (Some ''subAgentOther'')
                    else source_fields ''subAgent'' r)))"

definition readThreadSourceMetadata :: "jsv \<Rightarrow> threadSourceMetadata" where
  "readThreadSourceMetadata source =
     (case source of
        JStr s \<Rightarrow> source_kind (Some s)
      | _ \<Rightarrow>
          (case toRecord source of
             None \<Rightarrow> source_kind None
           | Some r \<Rightarrow>
               (case non_empty (as_string (prop_of r ''kind'')) of
                  Some legacyKind \<Rightarrow> source_fields legacyKind r
                | None \<Rightarrow>
                    let subAgentValue = (if nullish (prop_of r ''subAgent'') then prop_of r ''subagent''
                          else prop_of r ''subAgent'')
                    in if subAgentValue \<noteq> JUndefined then subAgentSource subAgentValue
                       else case non_empty (as_string (prop_of r ''type'')) of
                         Some typeKind \<Rightarrow>
                           if starts_with typeKind ''subAgent'' then source_fields typeKind r else source_kind None
                       | None \<Rightarrow> source_kind None)))"

definition shortSessionId :: "string \<Rightarrow> string" where
  "shortSessionId value =
     (let short = last_n 8 (filter ascii_alnum (trim value)) in if short = [] then ''new'' else short)"

text \<open>\<open>(hash * 31 + code) >>> 0\<close> is arithmetic on 32-bit words.\<close>

definition stableThreadTimestampSeconds :: "string \<Rightarrow> rat" where
  "stableThreadTimestampSeconds threadId =
     (let hash = fold (\<lambda>code h. h * 31 + word_of_nat code) (char_codes threadId) (0 :: 32 word)
      in 1704067200 + of_nat (unat hash mod 31536000))"

definition firstUserMessagePreview :: "rawTurn list \<Rightarrow> string option" where
  "firstUserMessagePreview turns =
     find (\<lambda>preview. preview \<noteq> [])
       (map (\<lambda>item. toPreview (readThreadItemText item))
         (filter (\<lambda>item. prop_of item ''type'' = JStr ''userMessage'')
           (concat (map (\<lambda>turn. with_default (tn_items turn) []) turns))))"

record chatSummary =
  cs_id :: string
  cs_title :: string
  cs_status :: chatStatus
  cs_createdAt :: string
  cs_updatedAt :: string
  cs_statusUpdatedAt :: string
  cs_lastMessagePreview :: string
  cs_cwd :: "string option"
  cs_agentId :: "string option"
  cs_modelProvider :: "string option"
  cs_agentNickname :: "string option"
  cs_agentRole :: "string option"
  cs_sourceKind :: "string option"
  cs_parentThreadId :: "string option"
  cs_subAgentDepth :: "rat option"
  cs_lastError :: "string option"

definition summaryTitle :: "rawThread \<Rightarrow> string \<Rightarrow> string" where
  "summaryTitle raw threadId =
     (let named = first_some
            [non_empty (map_option trim (th_name raw)),
             non_empty (Some (toPreview (with_default (th_preview raw) []))),
             firstUserMessagePreview (with_default (th_turns raw) [])];
          session = (case th_acpSnapshot raw of Some s \<Rightarrow> ss_threadId (ra_session s) | None \<Rightarrow> []);
          fallbackTitle = (if session \<noteq> [] then ''Session '' @ shortSessionId session
            else ''Chat '' @ take_units 8 threadId)
      in toPreview (with_default named fallbackTitle))"

definition mapChatSummary :: "rawThread \<Rightarrow> chatError + chatSummary option" where
  "mapChatSummary raw =
     (case non_empty (th_id raw) of
        None \<Rightarrow> Inr None
      | Some i \<Rightarrow>
          let createdAtSeconds = with_default (or_else (th_createdAt raw) (th_updatedAt raw))
                (stableThreadTimestampSeconds i);
              updatedAtSeconds = with_default (or_else (th_updatedAt raw) (th_createdAt raw)) createdAtSeconds;
              turns = with_default (th_turns raw) [];
              source = readThreadSourceMetadata (th_source raw)
          in case (unixSecondsToIso createdAtSeconds, unixSecondsToIso updatedAtSeconds) of
               (Inr createdAt, Inr updatedAt) \<Rightarrow> Inr (Some
                 \<lparr>cs_id = i, cs_title = summaryTitle raw i, cs_status = mapRawStatus (th_status raw) (Some turns),
                  cs_createdAt = createdAt, cs_updatedAt = updatedAt, cs_statusUpdatedAt = updatedAt,
                  cs_lastMessagePreview = toPreview (with_default (th_preview raw) []), cs_cwd = th_cwd raw,
                  cs_agentId = readAgentId (th_agentId raw), cs_modelProvider = th_modelProvider raw,
                  cs_agentNickname = th_agentNickname raw, cs_agentRole = th_agentRole raw,
                  cs_sourceKind = so_kind source, cs_parentThreadId = so_parentThreadId source,
                  cs_subAgentDepth = so_subAgentDepth source, cs_lastError = extractLastError turns\<rparr>)
             | _ \<Rightarrow> Inl InvalidDate)"

section \<open>Plans\<close>

datatype planStepStatus = StepPending | StepInProgress | StepCompleted

record chatPlanSnapshot =
  cp_threadId :: string
  cp_turnId :: string
  cp_explanation :: "string option"
  cp_steps :: "(string \<times> planStepStatus) list"

definition normalizePlanStepStatus :: "string option \<Rightarrow> planStepStatus option" where
  "normalizePlanStepStatus value =
     (let normalized = filter ascii_letter (lower_ascii (trim (with_default value []))) in
      if normalized = ''pending'' then Some StepPending
      else if normalized = ''inprogress'' then Some StepInProgress
      else if normalized = ''completed'' \<or> normalized = ''complete'' then Some StepCompleted
      else None)"

text \<open>\<open>/^\d+[.)]\s+/\<close> with what follows the number and its mark\<close>

definition numbered :: "string \<Rightarrow> string option" where
  "numbered line =
     (case digit_run line of
        (ds, c # rest) \<Rightarrow>
          if ds \<noteq> [] \<and> (c = CHR ''.'' \<or> c = CHR '')'') \<and> trim_start rest \<noteq> rest then Some (trim_start rest) else None
      | _ \<Rightarrow> None)"

text \<open>\<open>/^\d+[.)]\s+(.+)$/\<close> on a trimmed line\<close>

definition numberedStep :: "string \<Rightarrow> string option" where
  "numberedStep line =
     (case numbered line of
        Some s \<Rightarrow> if s \<noteq> [] \<and> \<not> line_terminator_in s then Some (trim s) else None
      | None \<Rightarrow> None)"

definition explanationLines :: "string list \<Rightarrow> string list" where
  "explanationLines lines =
     (let first = (if length lines > 1 \<and> ends_with (lower (hd lines)) ''plan'' then tl lines else lines);
          body = (if first \<noteq> [] \<and> lower (hd first) = ''summary'' then tl first else first)
      in filter (\<lambda>line. lower line \<notin> set [''summary'', ''implementation plan'', ''proposed plan''])
           (takeWhile (\<lambda>line. numbered line = None) body))"

definition parsePlanTextSnapshot :: "string option \<Rightarrow> string \<Rightarrow> string \<Rightarrow> chatPlanSnapshot option" where
  "parsePlanTextSnapshot content threadId turnId =
     (let lines = filter (\<lambda>line. line \<noteq> [])
            (map trim (split_lines (unix_lines (trim (with_default content [])))));
          hasSummaryHeader = list_ex (\<lambda>line. lower line = ''summary'') lines;
          steps = map (\<lambda>s. (s, StepPending)) (List.map_filter numberedStep lines);
          explained = explanationLines lines;
          explanation = (if explained \<noteq> [] then Some (trim (join '' '' explained)) else None)
      in if lines = [] \<or> (\<not> hasSummaryHeader \<and> steps = []) \<or> (steps = [] \<and> non_empty explanation = None)
         then None
         else Some \<lparr>cp_threadId = threadId, cp_turnId = turnId, cp_explanation = explanation, cp_steps = steps\<rparr>)"

definition readPlanStep :: "jsv \<Rightarrow> (string \<times> planStepStatus) option" where
  "readPlanStep entry =
     (case toRecord entry of
        None \<Rightarrow> None
      | Some r \<Rightarrow>
          (case (non_empty (as_string (prop_of r ''step'')),
                 normalizePlanStepStatus (as_string (prop_of r ''status''))) of
             (Some step, Some status) \<Rightarrow> Some (step, status)
           | _ \<Rightarrow> None))"

definition toPlanSnapshot :: "jobj \<Rightarrow> string \<Rightarrow> string option \<Rightarrow> chatPlanSnapshot option" where
  "toPlanSnapshot item threadId fallbackTurnId =
     (case non_empty (first_some [as_string (prop_of item ''turnId''), as_string (prop_of item ''turn_id''),
             fallbackTurnId, as_string (prop_of item ''id'')]) of
        None \<Rightarrow> None
      | Some turnId \<Rightarrow>
          let rawSteps = with_default (or_else (as_array (prop_of item ''plan'')) (as_array (prop_of item ''steps''))) [];
              steps = List.map_filter readPlanStep rawSteps;
              explanation = as_string (prop_of item ''explanation'')
          in if steps = [] \<and> trim (with_default explanation []) = []
             then parsePlanTextSnapshot (as_string (prop_of item ''text'')) threadId turnId
             else Some \<lparr>cp_threadId = threadId, cp_turnId = turnId, cp_explanation = explanation,
               cp_steps = steps\<rparr>)"

definition extractActiveTurnId :: "rawTurn list \<Rightarrow> string option" where
  "extractActiveTurnId turns =
     first_some (map (\<lambda>turn.
         if one_of (turn_status turn) active_turn_words then non_empty (map_option trim (tn_id turn)) else None)
       (rev turns))"

text \<open>The plans of the items of a turn, in order.\<close>

definition turnPlans :: "string \<Rightarrow> rawTurn \<Rightarrow> chatPlanSnapshot list" where
  "turnPlans threadId turn =
     List.map_filter (\<lambda>item. if type_of (prop_of item ''type'') = ''plan''
         then toPlanSnapshot item threadId (tn_id turn) else None) (with_default (tn_items turn) [])"

definition last_opt :: "'a list \<Rightarrow> 'a option" where
  "last_opt xs = (if xs = [] then None else Some (last xs))"

record chatPlans =
  pl_latestPlan :: "chatPlanSnapshot option"
  pl_latestTurnPlan :: "chatPlanSnapshot option"
  pl_latestTurnStatus :: "string option"
  pl_activeTurnId :: "string option"

definition snapshotPlan :: "string \<Rightarrow> rawAcpSnapshot \<Rightarrow> chatPlanSnapshot option" where
  "snapshotPlan threadId snapshot =
     (if ra_plan snapshot = [] then None
      else Some \<lparr>cp_threadId = threadId,
        cp_turnId = with_default (sa_sourceTurnId (ra_active snapshot)) (threadId @ ''::snapshot''),
        cp_explanation = None,
        cp_steps = map (\<lambda>entry. (sp_content entry,
          if sp_status entry = ''completed'' then StepCompleted
          else if sp_status entry = ''inProgress'' \<or> sp_status entry = ''in_progress'' then StepInProgress
          else StepPending)) (ra_plan snapshot)\<rparr>)"

definition extractChatPlans :: "rawThread \<Rightarrow> chatPlans" where
  "extractChatPlans raw =
     (let threadId = trim (with_default (th_id raw) []);
          turns = with_default (th_turns raw) [];
          latestTurnStatus = Option.bind (last_opt turns) tn_status;
          activeTurnId = extractActiveTurnId turns
      in case (if threadId = [] then None else th_acpSnapshot raw) of
           Some snapshot \<Rightarrow>
             \<lparr>pl_latestPlan = snapshotPlan threadId snapshot, pl_latestTurnPlan = snapshotPlan threadId snapshot,
              pl_latestTurnStatus = Some (if non_empty (sa_runId (ra_active snapshot)) \<noteq> None
                then ''running'' else ''completed''),
              pl_activeTurnId = sa_sourceTurnId (ra_active snapshot)\<rparr>
         | None \<Rightarrow>
             if threadId = [] \<or> turns = []
             then \<lparr>pl_latestPlan = None, pl_latestTurnPlan = None, pl_latestTurnStatus = latestTurnStatus,
               pl_activeTurnId = activeTurnId\<rparr>
             else \<lparr>pl_latestPlan = last_opt (concat (map (turnPlans threadId) turns)),
               pl_latestTurnPlan = last_opt (turnPlans threadId (last turns)),
               pl_latestTurnStatus = latestTurnStatus, pl_activeTurnId = activeTurnId\<rparr>)"

end
