(* ===== verification/ChatMessages.thy ===== *)
theory ChatMessages
  imports ChatProjection
begin

text \<open>
  The messages of a chat from its snapshot or its turns (\<open>chatMappingMessageProjection.ts\<close>, the
  subagent part of \<open>chatMappingPlanParsing.ts\<close>), and the chat itself (\<open>chatMappingChatProjection.ts\<close>).
\<close>

section \<open>Subagents of a snapshot\<close>

definition base64_char :: "nat \<Rightarrow> char" where
  "base64_char n = ''ABCDEFGHIJKLMNOPQRSTUVWXYZabcdefghijklmnopqrstuvwxyz0123456789+/'' ! n"

text \<open>\<open>btoa\<close>\<close>

fun btoa :: "string \<Rightarrow> string" where
  "btoa [] = []"
| "btoa [a] =
     (let x = of_char a :: nat in [base64_char (x div 4), base64_char (x mod 4 * 16), CHR ''='', CHR ''=''])"
| "btoa [a, b] =
     (let x = of_char a :: nat; y = of_char b :: nat in
      [base64_char (x div 4), base64_char (x mod 4 * 16 + y div 16), base64_char (y mod 16 * 4), CHR ''=''])"
| "btoa (a # b # c # s) =
     (let x = of_char a :: nat; y = of_char b :: nat; z = of_char c :: nat in
      base64_char (x div 4) # base64_char (x mod 4 * 16 + y div 16) # base64_char (y mod 16 * 4 + z div 64)
        # base64_char (z mod 64) # btoa s)"

text \<open>Strings are their UTF-8 bytes already.\<close>

definition base64UrlUtf8 :: "string \<Rightarrow> string" where
  "base64UrlUtf8 value =
     rev (dropWhile (\<lambda>c. c = CHR ''='') (rev
       (replace_all ''/'' ''_'' (replace_all ''+'' ''-'' (btoa value)))))"

text \<open>\<open>/\bname="([^"]{1,max})"/\<close>; \<open>word\<close> says that the character before is a word character.\<close>

definition attribute_here :: "string \<Rightarrow> nat \<Rightarrow> string \<Rightarrow> string option" where
  "attribute_here name limit s =
     (let opening = name @ [CHR ''='', CHR 0x22];
          value = takeWhile (\<lambda>c. c \<noteq> CHR 0x22) (drop (length opening) s)
      in if starts_with s opening \<and> value \<noteq> [] \<and> units value \<le> limit
            \<and> length opening + length value < length s
         then Some value else None)"

fun attribute :: "string \<Rightarrow> nat \<Rightarrow> bool \<Rightarrow> string \<Rightarrow> string option" where
  "attribute name limit word [] = None"
| "attribute name limit word (c # s) =
     or_else (if word then None else attribute_here name limit (c # s)) (attribute name limit (word_char c) s)"

text \<open>What follows the first occurrence of a text, and what precedes it.\<close>

fun split_first :: "string \<Rightarrow> string \<Rightarrow> (string \<times> string) option" where
  "split_first t [] = None"
| "split_first t (c # s) =
     (if starts_with (c # s) t then Some ([], drop (length t) (c # s))
      else map_option (\<lambda>(before, after). (c # before, after)) (split_first t s))"

text \<open>\<open>/^<task\s+([^>]+)>/\<close>\<close>

definition taskHeader :: "string \<Rightarrow> string option" where
  "taskHeader content =
     (let s = trim_start content; rest = drop 5 s; attributes = takeWhile (\<lambda>c. c \<noteq> CHR ''>'') (trim_start rest)
      in if starts_with s ''<task'' \<and> trim_start rest \<noteq> rest \<and> attributes \<noteq> []
            \<and> length attributes < length (trim_start rest)
         then Some attributes else None)"

record taskSubagent =
  ts_threadId :: string
  ts_state :: string
  ts_result :: "string option"

definition parseSnapshotTaskSubagent :: "string \<Rightarrow> string option \<Rightarrow> taskSubagent option" where
  "parseSnapshotTaskSubagent content agentId =
     (let header = taskHeader content;
          field = (\<lambda>name limit. non_empty (map_option trim (Option.bind header (attribute name limit False))))
      in case (field ''id'' 1024, field ''state'' 64, non_empty (map_option trim agentId)) of
           (Some sessionId, Some state, Some agent) \<Rightarrow>
             (let body = Option.bind (split_first ''<task_result>'' content)
                    (\<lambda>(_, after). map_option fst (split_first ''</task_result>'' after))
              in Some \<lparr>ts_threadId = ''v1.'' @ base64UrlUtf8 agent @ ''.'' @ base64UrlUtf8 sessionId,
                ts_state = state, ts_result = map_option (take_units 2048) (non_empty (map_option trim body))\<rparr>)
         | _ \<Rightarrow> None)"

definition isSnapshotSubagentTool :: "snapshotTool \<Rightarrow> bool" where
  "isSnapshotSubagentTool tool =
     (filter (\<lambda>c. c \<notin> set ''-_ '') (lower_ascii (trim (sl_title tool)))
        \<in> set [''task'', ''spawnagent'', ''subagent''])"

section \<open>Messages of a snapshot\<close>

text \<open>\<open>isChatMessagePart\<close> of \<open>chatMappingPlanParsing.ts\<close>, which also takes arrays for records\<close>

definition isSnapshotPart :: "jsv \<Rightarrow> bool" where
  "isSnapshotPart value =
     (case Option.bind (toRecord value) (\<lambda>part. map_option (Pair part) (as_string (prop_of part ''type''))) of
        None \<Rightarrow> False
      | Some (part, type) \<Rightarrow>
          if type = ''text'' then as_string (prop_of part ''text'') \<noteq> None
          else if type = ''image'' \<or> type = ''audio'' then True
          else if type = ''resourceLink'' then as_string (prop_of part ''uri'') \<noteq> None
          else type = ''resource'' \<and> toRecord (prop_of part ''resource'') \<noteq> None)"

definition subagentState :: "string \<Rightarrow> string" where
  "subagentState status =
     (if lower_ascii status \<in> set [''failed'', ''error''] then ''failed''
      else if lower_ascii status \<in> set [''completed'', ''complete'', ''succeeded''] then ''completed''
      else ''running'')"

definition subagentMessage :: "string \<Rightarrow> snapshotTool \<Rightarrow> taskSubagent option \<Rightarrow> chatMessage" where
  "subagentMessage threadId tool task =
     (let state = (case task of Some t \<Rightarrow> ts_state t | None \<Rightarrow> subagentState (sl_status tool));
          shown = join_nonempty newline
            [bullet @ (if state = ''completed'' then ''Sub-agent completed''
               else if state = ''failed'' then ''Sub-agent failed'' else ''Sub-agent working''),
             prefixed ''  Thread: '' (map_option ts_threadId task),
             ''  Status: '' @ state,
             prefixed ''  Latest: '' (Option.bind task ts_result)]
      in createActivityMessage (''subagent:'' @ sl_id tool) SUBAGENT_ACTIVITY_TYPE
           (JObj [(''text'', JStr shown),
             (''subAgent'', JObj
               [(''toolCallId'', JStr (sl_id tool)), (''tool'', JStr ''spawnAgent''),
                (''senderThreadId'', JStr threadId),
                (''receiverThreadIds'', JArr (case task of Some t \<Rightarrow> [JStr (ts_threadId t)] | None \<Rightarrow> [])),
                (''agentStatus'', JStr state), (''navigable'', JBool (task \<noteq> None))])]) [])"

definition snapshotToolMessage :: "snapshotTool \<Rightarrow> chatMessage" where
  "snapshotToolMessage tool =
     (let structured = with_default (renderAgUiCustomContent (JObj
            [(''content'', JArr (sl_structuredContent tool)), (''locations'', JArr (sl_locations tool))])) [];
          details = join_nonempty newline
            [if sl_title tool \<noteq> [] then sl_title tool else sl_kind tool, sl_content tool, structured]
      in (plainMessage (''tool:'' @ sl_id tool) Tool
           (Text ((if details \<noteq> [] then details else sl_id tool)
             @ (if sl_truncated tool then newline @ ''[tool content truncated]'' else []))) [])
         \<lparr>cm_toolCallId := Some (sl_id tool)\<rparr>)"

definition shownMessage :: "snapshotMessage \<Rightarrow> chatMessage option" where
  "shownMessage message =
     (let parts = filter isSnapshotPart (sm_parts message);
          content = join_nonempty newline (map (\<lambda>p. with_default (renderAgUiCustomContent p) []) parts)
      in if content = [] then None
         else Some ((plainMessage (sm_id message)
             (if sm_role message = ''agent'' then Assistant
              else if sm_role message = ''user'' then User else Reasoning)
             (Text (content @ (if sm_truncated message then newline @ ''[message content truncated]'' else [])))
             [])\<lparr>cm_parts := Some parts\<rparr>))"

text \<open>\<open>new Map(entries).get(k)\<close>: of entries with one key the last counts.\<close>

definition map_get :: "('a \<Rightarrow> 'k) \<Rightarrow> 'a list \<Rightarrow> 'k \<Rightarrow> 'a option" where
  "map_get key xs = map_of (map (\<lambda>x. (key x, x)) (rev xs))"

definition entryMessage :: "string \<Rightarrow> rawAcpSnapshot \<Rightarrow> timelineEntry \<Rightarrow> chatMessage option" where
  "entryMessage threadId snapshot entry =
     (if te_kind entry = ToolEntry
      then Option.bind (map_get sl_id (ra_tools snapshot) (te_canonicalId entry)) (\<lambda>tool.
        let task = parseSnapshotTaskSubagent (sl_content tool) (Some (ss_agentId (ra_session snapshot)))
        in Some (if task \<noteq> None \<or> isSnapshotSubagentTool tool then subagentMessage threadId tool task
             else snapshotToolMessage tool))
      else Option.bind (map_get sm_id (ra_messages snapshot) (te_canonicalId entry)) shownMessage)"

definition snapshotTimeline :: "rawAcpSnapshot \<Rightarrow> timelineEntry list" where
  "snapshotTimeline snapshot =
     with_default (ra_timeline snapshot)
       (map (\<lambda>(i, m). \<lparr>te_sequence = of_nat i,
            te_kind = (if sm_role m = ''thought'' then ReasoningEntry else MessageEntry), te_canonicalId = sm_id m\<rparr>)
          (enumerate 0 (ra_messages snapshot))
        @ map (\<lambda>(i, t). \<lparr>te_sequence = of_nat i, te_kind = ToolEntry, te_canonicalId = sl_id t\<rparr>)
          (enumerate (length (ra_messages snapshot)) (ra_tools snapshot)))"

definition truncationNotes :: "rawAcpSnapshot \<Rightarrow> string list" where
  "truncationNotes snapshot =
     concat (map (\<lambda>(name, collection). case collection of
         Some c \<Rightarrow> if co_truncated c then [name @ '': '' @ show_num (co_omittedCount c) @ '' omitted''] else []
       | None \<Rightarrow> [])
       [(''messages'', ra_messageCollection snapshot), (''reasoning'', ra_reasoningCollection snapshot),
        (''tools'', ra_toolCollection snapshot)])
     @ (case ra_continuation snapshot of
          Some c \<Rightarrow> if cn_unavailableCount c > 0
            then [''older history unavailable: '' @ show_num (cn_unavailableCount c)] else []
        | None \<Rightarrow> [])"

text \<open>Messages with the offset of their time from the one the chat was made at.\<close>

definition datedMessages ::
  "int option \<Rightarrow> (int \<times> chatMessage) list \<Rightarrow> chatError + chatMessage list" where
  "datedMessages baseTs ms =
     (case baseTs of
        None \<Rightarrow> if ms = [] then Inr [] else Inl InvalidDate
      | Some base \<Rightarrow>
          if list_all (\<lambda>(offset, m). time_value (base + offset)) ms
          then Inr (map (\<lambda>(offset, m). m\<lparr>cm_createdAt := to_iso_string (base + offset)\<rparr>) ms)
          else Inl InvalidDate)"

definition snapshotMessagesOf :: "string option \<Rightarrow> rawAcpSnapshot \<Rightarrow> (int \<times> chatMessage) list" where
  "snapshotMessagesOf threadId snapshot =
     (let mapped = List.map_filter (\<lambda>(index, entry).
            map_option (Pair (int index * 1000)) (entryMessage (with_default threadId []) snapshot entry))
            (enumerate 0 (sort_key te_sequence (snapshotTimeline snapshot)));
          notes = truncationNotes snapshot
      in if notes = [] then mapped
         else (- 1, plainMessage (with_default threadId ''thread'' @ ''::snapshot-truncated'') System
           (Text (''Snapshot truncated ('' @ join '', '' notes @ '')'')) []) # mapped)"

section \<open>Messages of turns\<close>

definition itemMessage :: "string \<Rightarrow> jobj \<Rightarrow> chatMessage option" where
  "itemMessage localId item =
     (let type = type_of (prop_of item ''type'');
          i = with_default (as_string (prop_of item ''id'')) localId;
          content = stringifyStructuredContentEntries (array_at item ''content'')
      in if type = ''usermessage''
         then (if trim content = [] then None else Some (plainMessage i User (Text content) []))
         else if type = ''agentmessage''
         then (let shown = (if content \<noteq> [] then content else string_at item ''text'') in
               if trim shown = [] then None else Some (plainMessage i Assistant (Text shown) []))
         else case non_empty (toToolLikeMessage item) of
           None \<Rightarrow> None
         | Some shown \<Rightarrow> Some
             (if type = ''reasoning'' then plainMessage i Reasoning (Text shown) []
              else if type = ''collabtoolcall''
              then createActivityMessage i SUBAGENT_ACTIVITY_TYPE
                (JObj ((''text'', JStr shown) # (case toSubAgentMeta item of
                   Some meta \<Rightarrow> [(''subAgent'', JObj meta)] | None \<Rightarrow> []))) []
              else if type = ''contextcompaction''
              then createActivityMessage i COMPACTION_ACTIVITY_TYPE (JObj [(''text'', JStr shown)]) []
              else (plainMessage i Tool (Text shown) [])\<lparr>cm_toolCallId := Some (with_default
                (or_else (as_string (prop_of item ''callId'')) (as_string (prop_of item ''call_id''))) i)\<rparr>))"

definition turnMessages :: "(nat \<Rightarrow> string) \<Rightarrow> rawTurn list \<Rightarrow> chatMessage list" where
  "turnMessages fresh turns =
     fold (\<lambda>item messages. case itemMessage (fresh (length messages)) item of
         Some m \<Rightarrow> messages @ [m] | None \<Rightarrow> messages)
       (concat (map (\<lambda>turn. with_default (tn_items turn) []) turns)) []"

definition mapMessages ::
  "(string \<Rightarrow> int option) \<Rightarrow> (nat \<Rightarrow> string) \<Rightarrow> rawThread \<Rightarrow> string \<Rightarrow> chatError + chatMessage list" where
  "mapMessages other fresh raw fallbackCreatedAt =
     datedMessages (date_parse other fallbackCreatedAt)
       (case th_acpSnapshot raw of
          Some snapshot \<Rightarrow> snapshotMessagesOf (th_id raw) snapshot
        | None \<Rightarrow> map (\<lambda>(i, m). (int i * 1000, m))
            (enumerate 0 (turnMessages fresh (with_default (th_turns raw) []))))"

section \<open>The chat\<close>

record mappedChat = chatSummary +
  cd_messages :: "chatMessage list"
  cd_acpSnapshot :: "rawAcpSnapshot option"
  cd_plans :: chatPlans
  cd_acpUsage :: "snapshotUsage option"
  cd_acpMode :: "string option"
  cd_acpConfig :: "configOption list"
  cd_acpCommands :: "(string \<times> string) list"
  cd_acpActive :: "snapshotActive option"

definition mapChat ::
  "(string \<Rightarrow> int option) \<Rightarrow> (nat \<Rightarrow> string) \<Rightarrow> rawThread \<Rightarrow> chatError + mappedChat" where
  "mapChat other fresh raw =
     (case mapChatSummary raw of
        Inl e \<Rightarrow> Inl e
      | Inr None \<Rightarrow> Inl ChatIdMissing
      | Inr (Some summary) \<Rightarrow>
          (case mapMessages other fresh raw (cs_createdAt summary) of
             Inl e \<Rightarrow> Inl e
           | Inr messages \<Rightarrow>
               let snapshot = th_acpSnapshot raw;
                   lastPreview = (if messages \<noteq> [] then toPreview (getMessageText (last messages))
                     else cs_lastMessagePreview summary)
               in Inr (chatSummary.extend (summary\<lparr>cs_lastMessagePreview := lastPreview\<rparr>)
                 (mappedChat.fields messages snapshot (extractChatPlans raw) (map_option ra_usage snapshot)
                   (Option.bind snapshot ra_mode) (case snapshot of Some s \<Rightarrow> ra_config s | None \<Rightarrow> [])
                   (case snapshot of Some s \<Rightarrow> ra_commands s | None \<Rightarrow> []) (map_option ra_active snapshot)))))"

fun status_text :: "chatStatus \<Rightarrow> string" where
  "status_text ChatIdle = ''idle''"
| "status_text ChatRunning = ''running''"
| "status_text ChatFailed = ''error''"
| "status_text ChatComplete = ''complete''"

definition snapshotThread :: "mappedChat \<Rightarrow> rat \<Rightarrow> rat \<Rightarrow> rawAcpSnapshot \<Rightarrow> rawThread" where
  "snapshotThread chat createdAt updatedAt snapshot =
     \<lparr>th_id = Some (cs_id chat), th_agentId = (case cs_agentId chat of Some a \<Rightarrow> JStr a | None \<Rightarrow> JNull),
      th_name = Some (cs_title chat), th_preview = Some (cs_lastMessagePreview chat),
      th_modelProvider = cs_modelProvider chat, th_agentNickname = None, th_agentRole = None,
      th_createdAt = Some createdAt, th_updatedAt = Some updatedAt,
      th_status = JObj [(''type'', JStr (status_text (cs_status chat)))], th_cwd = cs_cwd chat,
      th_source = (case non_empty (cs_sourceKind chat) of
          Some kind \<Rightarrow> JObj [(''kind'', JStr kind)] | None \<Rightarrow> JUndefined),
      th_turns = None, th_acpSnapshot = Some snapshot\<rparr>"

definition applySnapshotToChat ::
  "(string \<Rightarrow> int option) \<Rightarrow> (nat \<Rightarrow> string) \<Rightarrow> mappedChat \<Rightarrow> rawAcpSnapshot \<Rightarrow> chatError + mappedChat" where
  "applySnapshotToChat other fresh chat snapshot =
     (case (date_parse other (cs_createdAt chat), date_parse other (cs_updatedAt chat)) of
        (Some createdAt, Some updatedAt) \<Rightarrow>
          map_sum (\<lambda>e. e)
            (\<lambda>mapped. mapped\<lparr>cs_title := cs_title chat, cs_status := cs_status chat,
               cs_statusUpdatedAt := cs_statusUpdatedAt chat, cd_acpSnapshot := Some snapshot\<rparr>)
            (mapChat other fresh (snapshotThread chat (of_int createdAt / 1000) (of_int updatedAt / 1000) snapshot))
      | _ \<Rightarrow> Inl (if cs_id chat = [] then ChatIdMissing else InvalidDate))"

end
