(* ===== verification/SnapshotPages.thy ===== *)
theory SnapshotPages
  imports ChatMessages
begin

text \<open>
  Loading earlier history: a page of a snapshot as it is read from the bridge
  (\<open>api/clientChatListInternals.ts\<close>), its merge into the snapshot of a chat
  (\<open>api/clientContractsAndSnapshotInternals.ts\<close>) and the controller that asks for the next page
  (\<open>screens/controllers/transcriptContinuationController.ts\<close>).
\<close>

section \<open>Pages\<close>

record snapshotPageEntry =
  pe_sequence :: rat
  pe_kind :: timelineKind
  pe_canonicalId :: string
  pe_message :: "snapshotMessage option"
  pe_tool :: "snapshotTool option"

record snapshotPageResponse =
  pg_entries :: "snapshotPageEntry list"
  pg_beforeCursor :: "string option"
  pg_afterCursor :: "string option"
  pg_hasMoreBefore :: bool
  pg_hasMoreAfter :: bool
  pg_unavailableCount :: rat
  pg_earliestAvailableSequence :: "rat option"
  pg_latestAvailableSequence :: "rat option"
  pg_revision :: rat

definition readFiniteNumber :: "jsv \<Rightarrow> rat option" where
  "readFiniteNumber value =
     (case value of JNum q \<Rightarrow> if finite_number q then Some q else None | _ \<Rightarrow> None)"

definition readPageMessage :: "string \<Rightarrow> jobj \<Rightarrow> snapshotMessage" where
  "readPageMessage canonicalId message =
     \<lparr>sm_id = with_default (as_string (prop_of message ''id'')) canonicalId,
      sm_role = string_at message ''role'', sm_parts = array_at message ''parts'',
      sm_truncated = (prop_of message ''truncated'' = JBool True)\<rparr>"

definition readPageTool :: "string \<Rightarrow> jobj \<Rightarrow> snapshotTool" where
  "readPageTool canonicalId tool =
     \<lparr>sl_id = with_default (as_string (prop_of tool ''id'')) canonicalId,
      sl_generation = readFiniteNumber (prop_of tool ''generation''), sl_kind = string_at tool ''kind'',
      sl_status = string_at tool ''status'', sl_title = string_at tool ''title'',
      sl_content = string_at tool ''content'', sl_structuredContent = array_at tool ''structuredContent'',
      sl_locations = array_at tool ''locations'', sl_truncated = (prop_of tool ''truncated'' = JBool True)\<rparr>"

definition readPageEntry :: "jsv \<Rightarrow> snapshotPageEntry option" where
  "readPageEntry value =
     (let entry = toRecord value in
      case (readFiniteNumber (opt_prop entry ''sequence''),
            non_empty (trimmed_string (opt_prop entry ''canonicalId'')), timeline_kind (opt_prop entry ''kind'')) of
        (Some sequence, Some canonicalId, Some kind) \<Rightarrow> Some
          \<lparr>pe_sequence = sequence, pe_kind = kind, pe_canonicalId = canonicalId,
           pe_message = map_option (readPageMessage canonicalId) (toRecord (opt_prop entry ''message'')),
           pe_tool = map_option (readPageTool canonicalId) (toRecord (opt_prop entry ''tool''))\<rparr>
      | _ \<Rightarrow> None)"

definition readSnapshotPageResponse :: "jsv \<Rightarrow> snapshotPageResponse" where
  "readSnapshotPageResponse value =
     (let r = with_default (toRecord value) [] in
      \<lparr>pg_entries = List.map_filter readPageEntry (array_at r ''entries''),
       pg_beforeCursor = as_string (prop_of r ''beforeCursor''),
       pg_afterCursor = as_string (prop_of r ''afterCursor''),
       pg_hasMoreBefore = (prop_of r ''hasMoreBefore'' = JBool True),
       pg_hasMoreAfter = (prop_of r ''hasMoreAfter'' = JBool True),
       pg_unavailableCount = with_default (readFiniteNumber (prop_of r ''unavailableCount'')) 0,
       pg_earliestAvailableSequence = readFiniteNumber (prop_of r ''earliestAvailableSequence''),
       pg_latestAvailableSequence = readFiniteNumber (prop_of r ''latestAvailableSequence''),
       pg_revision = with_default (readFiniteNumber (prop_of r ''revision'')) 0\<rparr>)"

section \<open>Merging a page\<close>

text \<open>\<open>new Map(xs.map((x) => [x.key, x]))\<close>\<close>

definition index_by :: "('a \<Rightarrow> 'k) \<Rightarrow> 'a list \<Rightarrow> ('k \<times> 'a) list" where
  "index_by key xs = fold (\<lambda>x. AList.update (key x) x) xs []"

record pageMerge =
  pm_messages :: "(string \<times> snapshotMessage) list"
  pm_tools :: "(string \<times> snapshotTool) list"
  pm_timeline :: "(rat \<times> timelineEntry) list"
  pm_addedByKind :: "(timelineKind \<times> nat) list"

definition page_timeline_entry :: "snapshotPageEntry \<Rightarrow> timelineEntry" where
  "page_timeline_entry entry =
     \<lparr>te_sequence = pe_sequence entry, te_kind = pe_kind entry, te_canonicalId = pe_canonicalId entry\<rparr>"

definition added :: "timelineKind \<Rightarrow> (timelineKind \<times> nat) list \<Rightarrow> nat" where
  "added kind counts = with_default (map_of counts kind) 0"

definition mergeEntry :: "snapshotPageEntry \<Rightarrow> pageMerge \<Rightarrow> pageMerge" where
  "mergeEntry entry s =
     (let existed = (map_of (pm_timeline s) (pe_sequence entry) \<noteq> None) in
      \<lparr>pm_messages = (case pe_message entry of
           Some m \<Rightarrow> AList.update (sm_id m) m (pm_messages s) | None \<Rightarrow> pm_messages s),
       pm_tools = (case pe_tool entry of
           Some t \<Rightarrow> AList.update (sl_id t) t (pm_tools s) | None \<Rightarrow> pm_tools s),
       pm_timeline = AList.update (pe_sequence entry) (page_timeline_entry entry) (pm_timeline s),
       pm_addedByKind = (if existed then pm_addedByKind s
         else AList.update (pe_kind entry) (added (pe_kind entry) (pm_addedByKind s) + 1) (pm_addedByKind s))\<rparr>)"

definition updateCollection ::
  "snapshotPageResponse \<Rightarrow> (timelineKind \<times> nat) list \<Rightarrow> timelineKind
     \<Rightarrow> rawSnapshotCollectionMetadata option \<Rightarrow> rawSnapshotCollectionMetadata option" where
  "updateCollection page counts kind metadata =
     map_option (\<lambda>c.
       c\<lparr>co_truncated := pg_hasMoreBefore page \<or> pg_unavailableCount page > 0,
         co_omittedCount := max 0 (co_omittedCount c - of_nat (added kind counts)),
         co_oldestAvailableSequence := pg_earliestAvailableSequence page,
         co_newestSequence := pg_latestAvailableSequence page,
         co_beforeCursor := (if pg_hasMoreBefore page then pg_beforeCursor page else None),
         co_revision := pg_revision page\<rparr>) metadata"

definition stale_revision :: "rawAcpSnapshot \<Rightarrow> snapshotPageResponse \<Rightarrow> (rat \<times> rat) option" where
  "stale_revision snapshot page =
     (case ra_continuation snapshot of
        Some c \<Rightarrow> if pg_revision page \<noteq> cn_revision c then Some (cn_revision c, pg_revision page) else None
      | None \<Rightarrow> None)"

text \<open>The left side is the expected and the received revision of a \<open>StaleSnapshotRevisionError\<close>.\<close>

definition mergeSnapshotPage ::
  "rawAcpSnapshot \<Rightarrow> snapshotPageResponse \<Rightarrow> (rat \<times> rat) + rawAcpSnapshot" where
  "mergeSnapshotPage snapshot page =
     (case stale_revision snapshot page of
        Some revisions \<Rightarrow> Inl revisions
      | None \<Rightarrow>
          let m = fold mergeEntry (pg_entries page)
                \<lparr>pm_messages = index_by sm_id (ra_messages snapshot), pm_tools = index_by sl_id (ra_tools snapshot),
                 pm_timeline = index_by te_sequence (with_default (ra_timeline snapshot) []),
                 pm_addedByKind = []\<rparr>
          in Inr (snapshot
            \<lparr>ra_timeline := Some (sort_key te_sequence (map snd (pm_timeline m))),
             ra_messages := map snd (pm_messages m),
             ra_tools := map snd (pm_tools m),
             ra_messageCollection :=
               updateCollection page (pm_addedByKind m) MessageEntry (ra_messageCollection snapshot),
             ra_reasoningCollection :=
               updateCollection page (pm_addedByKind m) ReasoningEntry (ra_reasoningCollection snapshot),
             ra_toolCollection :=
               updateCollection page (pm_addedByKind m) ToolEntry (ra_toolCollection snapshot),
             ra_continuation := map_option (\<lambda>c.
               c\<lparr>cn_revision := pg_revision page, cn_unavailableCount := pg_unavailableCount page,
                 cn_earliestAvailableSequence := pg_earliestAvailableSequence page,
                 cn_latestAvailableSequence := pg_latestAvailableSequence page\<rparr>) (ra_continuation snapshot)\<rparr>))"

section \<open>Asking for the next page\<close>

record transcriptContinuationState =
  tx_loading :: bool
  tx_error :: "string option"
  tx_exhausted :: bool
  tx_unavailableCount :: rat

text \<open>The cursor before the first collection that leaves something out.\<close>

definition earlierCursor :: "rawAcpSnapshot option \<Rightarrow> string option" where
  "earlierCursor snapshot =
     (case snapshot of
        None \<Rightarrow> None
      | Some s \<Rightarrow>
          first_some (map (\<lambda>collection. case collection of
              Some c \<Rightarrow> if co_omittedCount c > 0 then non_empty (co_beforeCursor c) else None
            | None \<Rightarrow> None)
            [ra_messageCollection s, ra_reasoningCollection s, ra_toolCollection s]))"

definition getTranscriptContinuationState :: "mappedChat \<Rightarrow> transcriptContinuationState" where
  "getTranscriptContinuationState chat =
     \<lparr>tx_loading = False, tx_error = None, tx_exhausted = (earlierCursor (cd_acpSnapshot chat) = None),
      tx_unavailableCount = (case Option.bind (cd_acpSnapshot chat) ra_continuation of
        Some c \<Rightarrow> cn_unavailableCount c | None \<Rightarrow> 0)\<rparr>"

datatype transcriptContinuationResult =
    Merged mappedChat transcriptContinuationState
  | Stale transcriptContinuationState

record snapshotPageRequest =
  pq_threadId :: string
  pq_beforeCursor :: string
  pq_revision :: rat
  pq_limit :: rat

text \<open>
  \<open>loadEarlier\<close> up to its \<open>await\<close>: a result at once, or a request; the field of the controller is
  the cursor in flight.
\<close>

definition loadEarlier ::
  "mappedChat \<Rightarrow> string option \<Rightarrow> (transcriptContinuationResult + snapshotPageRequest) \<times> string option" where
  "loadEarlier chat inFlightCursor =
     (let baseState = getTranscriptContinuationState chat;
          continuation = Option.bind (cd_acpSnapshot chat) ra_continuation
      in case (continuation, earlierCursor (cd_acpSnapshot chat)) of
           (Some c, Some beforeCursor) \<Rightarrow>
             if inFlightCursor = Some beforeCursor
             then (Inl (Merged chat (baseState\<lparr>tx_loading := True\<rparr>)), inFlightCursor)
             else (Inr \<lparr>pq_threadId = cs_id chat, pq_beforeCursor = beforeCursor, pq_revision = cn_revision c,
               pq_limit = (if cn_maxPageSize c \<noteq> 0 then cn_maxPageSize c else 50)\<rparr>, Some beforeCursor)
         | _ \<Rightarrow> (Inl (Merged chat baseState), inFlightCursor))"

datatype pageOutcome =
    PageRead jsv
  | PageFailed string

text \<open>
  The rest of it when the request has settled.  \<open>describe\<close> gives the message of the error that mapping
  the chat throws.
\<close>

definition loadFailed :: "mappedChat \<Rightarrow> string \<Rightarrow> transcriptContinuationResult" where
  "loadFailed chat message =
     Merged chat ((getTranscriptContinuationState chat)
       \<lparr>tx_error := Some (if message \<noteq> [] then message else ''Unable to load earlier history'')\<rparr>)"

definition mergedPage ::
  "(string \<Rightarrow> int option) \<Rightarrow> (nat \<Rightarrow> string) \<Rightarrow> (chatError \<Rightarrow> string) \<Rightarrow> mappedChat \<Rightarrow> rawAcpSnapshot
     \<Rightarrow> snapshotPageResponse \<Rightarrow> transcriptContinuationResult" where
  "mergedPage other fresh describe chat snapshot page =
     (case mergeSnapshotPage snapshot page of
        Inl _ \<Rightarrow> Stale (getTranscriptContinuationState chat)
      | Inr mergedSnapshot \<Rightarrow>
          (case applySnapshotToChat other fresh chat mergedSnapshot of
             Inl e \<Rightarrow> loadFailed chat (describe e)
           | Inr mergedChat \<Rightarrow> Merged mergedChat (getTranscriptContinuationState mergedChat)))"

definition loadEarlierSettled ::
  "(string \<Rightarrow> int option) \<Rightarrow> (nat \<Rightarrow> string) \<Rightarrow> (chatError \<Rightarrow> string) \<Rightarrow> mappedChat \<Rightarrow> string
     \<Rightarrow> pageOutcome \<Rightarrow> string option \<Rightarrow> transcriptContinuationResult \<times> string option" where
  "loadEarlierSettled other fresh describe chat beforeCursor outcome inFlightCursor =
     (case outcome of
        PageRead value \<Rightarrow>
          (case cd_acpSnapshot chat of
             Some snapshot \<Rightarrow>
               mergedPage other fresh describe chat snapshot (readSnapshotPageResponse value)
           | None \<Rightarrow> Merged chat (getTranscriptContinuationState chat))
      | PageFailed message \<Rightarrow> loadFailed chat message,
      if inFlightCursor = Some beforeCursor then None else inFlightCursor)"

end
