(* ===== verification/SnapshotPagesLaws.thy ===== *)
theory SnapshotPagesLaws
  imports SnapshotPages
begin

text \<open>
  Loading earlier history refines the union of finite maps: a snapshot stands for what it holds under
  each sequence number and each id, and merging a page adds what the page holds.  So a chat whose
  pages are all loaded maps to the messages of the whole history.
\<close>

section \<open>What a snapshot holds\<close>

definition timelineOf :: "rawAcpSnapshot \<Rightarrow> rat \<rightharpoonup> timelineEntry" where
  "timelineOf snapshot = map_of (index_by te_sequence (with_default (ra_timeline snapshot) []))"

definition messagesOf :: "rawAcpSnapshot \<Rightarrow> string \<rightharpoonup> snapshotMessage" where
  "messagesOf snapshot = map_get sm_id (ra_messages snapshot)"

definition toolsOf :: "rawAcpSnapshot \<Rightarrow> string \<rightharpoonup> snapshotTool" where
  "toolsOf snapshot = map_get sl_id (ra_tools snapshot)"

definition pageTimeline :: "snapshotPageResponse \<Rightarrow> rat \<rightharpoonup> timelineEntry" where
  "pageTimeline page =
     map_of (map (\<lambda>p. (pe_sequence p, page_timeline_entry p)) (rev (pg_entries page)))"

definition pageMessages :: "snapshotPageResponse \<Rightarrow> string \<rightharpoonup> snapshotMessage" where
  "pageMessages page = map_get sm_id (List.map_filter pe_message (pg_entries page))"

definition pageTools :: "snapshotPageResponse \<Rightarrow> string \<rightharpoonup> snapshotTool" where
  "pageTools page = map_get sl_id (List.map_filter pe_tool (pg_entries page))"

text \<open>Association lists whose keys are the keys of their values\<close>

definition keyed :: "('a \<Rightarrow> 'k) \<Rightarrow> ('k \<times> 'a) list \<Rightarrow> bool" where
  "keyed key m \<longleftrightarrow> distinct (map fst m) \<and> (\<forall>(k, v) \<in> set m. k = key v)"

lemma keyed_Nil [simp]: "keyed key []"
  by (simp add: keyed_def)

lemma keyed_update: "keyed key m \<Longrightarrow> keyed key (AList.update (key v) v m)"
  using set_alist_update [of "key v" v m] by (auto simp: keyed_def distinct_update)

lemma keyed_index: "keyed key (index_by key xs)"
proof -
  have "keyed key m \<Longrightarrow> keyed key (fold (\<lambda>x. AList.update (key x) x) xs m)" for m
    by (induction xs arbitrary: m) (simp_all add: keyed_update)
  then show ?thesis by (simp add: index_by_def)
qed

lemma keyed_values: "keyed key m \<Longrightarrow> map key (map snd m) = map fst m"
  by (auto simp: keyed_def)

lemma keyed_distinct: "keyed key m \<Longrightarrow> distinct (map key (map snd m))"
  by (simp only: keyed_values) (simp add: keyed_def)

lemma map_get_iff:
  assumes "distinct (map key xs)"
  shows "map_get key xs k = Some v \<longleftrightarrow> v \<in> set xs \<and> key v = k"
proof -
  have "distinct (map fst (map (\<lambda>x. (key x, x)) (rev xs)))"
    using assms by (simp add: comp_def rev_map [symmetric])
  then show ?thesis
    unfolding map_get_def by (subst map_of_eq_Some_iff) auto
qed

lemma map_get_cong:
  assumes "distinct (map key xs)" "distinct (map key ys)" "set xs = set ys"
  shows "map_get key xs = map_get key ys"
proof
  fix k
  have "map_get key xs k = Some v \<longleftrightarrow> map_get key ys k = Some v" for v
    using assms by (simp add: map_get_iff)
  then show "map_get key xs k = map_get key ys k" by (metis not_None_eq)
qed

lemma map_get_values:
  assumes "keyed key m"
  shows "map_get key (map snd m) = map_of m"
proof
  fix k
  have "map_get key (map snd m) k = Some v \<longleftrightarrow> map_of m k = Some v" for v
  proof -
    have "map_get key (map snd m) k = Some v \<longleftrightarrow> v \<in> snd ` set m \<and> key v = k"
      by (subst map_get_iff [OF keyed_distinct [OF assms]]) simp
    also have "\<dots> \<longleftrightarrow> (k, v) \<in> set m"
      using assms by (force simp: keyed_def image_iff)
    also have "\<dots> \<longleftrightarrow> map_of m k = Some v"
      using assms by (simp add: keyed_def map_of_eq_Some_iff)
    finally show ?thesis .
  qed
  then show "map_get key (map snd m) k = map_of m k" by (metis not_None_eq)
qed

lemma map_of_index_acc:
  "map_of (fold (\<lambda>x. AList.update (key x) x) xs m) = map_of m ++ map_get key xs"
  by (induction xs arbitrary: m) (simp_all add: map_get_def update_conv' map_add_upd_left)

lemma map_of_index: "map_of (index_by key xs) = map_get key xs"
  by (simp add: index_by_def map_of_index_acc)

section \<open>Merging is union\<close>

definition merge_start :: "rawAcpSnapshot \<Rightarrow> pageMerge" where
  "merge_start snapshot =
     \<lparr>pm_messages = index_by sm_id (ra_messages snapshot), pm_tools = index_by sl_id (ra_tools snapshot),
      pm_timeline = index_by te_sequence (with_default (ra_timeline snapshot) []), pm_addedByKind = []\<rparr>"

definition merge_ok :: "pageMerge \<Rightarrow> bool" where
  "merge_ok m \<longleftrightarrow> keyed sm_id (pm_messages m) \<and> keyed sl_id (pm_tools m) \<and> keyed te_sequence (pm_timeline m)"

lemma merge_start_ok: "merge_ok (merge_start snapshot)"
  by (simp add: merge_ok_def merge_start_def keyed_index)

lemma mergeEntry_ok: "merge_ok m \<Longrightarrow> merge_ok (mergeEntry p m)"
  using keyed_update [of te_sequence "pm_timeline m" "page_timeline_entry p"]
  by (auto simp: merge_ok_def mergeEntry_def Let_def page_timeline_entry_def keyed_update split: option.splits)

interpretation page_merge: machine mergeEntry merge_ok "\<lambda>_. True"
  by unfold_locales (rule mergeEntry_ok)

lemma fold_merge_ok: "merge_ok m \<Longrightarrow> merge_ok (fold mergeEntry ps m)"
  by (rule page_merge.run_inv) (simp_all add: list_all_iff)

lemma fold_merge_maps:
  "map_of (pm_timeline (fold mergeEntry ps m))
     = map_of (pm_timeline m) ++ map_of (map (\<lambda>p. (pe_sequence p, page_timeline_entry p)) (rev ps))"
  "map_of (pm_messages (fold mergeEntry ps m)) = map_of (pm_messages m) ++ map_get sm_id (List.map_filter pe_message ps)"
  "map_of (pm_tools (fold mergeEntry ps m)) = map_of (pm_tools m) ++ map_get sl_id (List.map_filter pe_tool ps)"
proof -
  show "map_of (pm_timeline (fold mergeEntry ps m))
     = map_of (pm_timeline m) ++ map_of (map (\<lambda>p. (pe_sequence p, page_timeline_entry p)) (rev ps))"
    by (induction ps arbitrary: m) (simp_all add: mergeEntry_def Let_def update_conv' map_add_upd_left)
  show "map_of (pm_messages (fold mergeEntry ps m))
     = map_of (pm_messages m) ++ map_get sm_id (List.map_filter pe_message ps)"
    by (induction ps arbitrary: m)
      (auto simp: mergeEntry_def Let_def update_conv' map_add_upd_left map_get_def List.map_filter_simps
        split: option.splits)
  show "map_of (pm_tools (fold mergeEntry ps m)) = map_of (pm_tools m) ++ map_get sl_id (List.map_filter pe_tool ps)"
    by (induction ps arbitrary: m)
      (auto simp: mergeEntry_def Let_def update_conv' map_add_upd_left map_get_def List.map_filter_simps
        split: option.splits)
qed

text \<open>The three fields a merge sets.\<close>

lemma merge_fields:
  assumes "mergeSnapshotPage snapshot page = Inr merged"
  defines "m \<equiv> fold mergeEntry (pg_entries page) (merge_start snapshot)"
  shows "ra_timeline merged = Some (sort_key te_sequence (map snd (pm_timeline m)))"
    "ra_messages merged = map snd (pm_messages m)" "ra_tools merged = map snd (pm_tools m)"
    "ra_session merged = ra_session snapshot"
  using assms by (auto simp: mergeSnapshotPage_def merge_start_def Let_def split: option.splits)

lemma distinct_sort_key: "distinct (map key xs) \<Longrightarrow> distinct (map key (sort_key key xs))"
  by (simp add: distinct_map)

lemma keyed_sort:
  fixes key :: "'a \<Rightarrow> 'k :: linorder"
  assumes "keyed key m"
  shows "map_get key (sort_key key (map snd m)) = map_of m"
proof -
  have "map_get key (sort_key key (map snd m)) = map_get key (map snd m)"
    by (rule map_get_cong) (simp_all only: keyed_distinct [OF assms] distinct_sort_key set_sort)
  with map_get_values [OF assms] show ?thesis by simp
qed

lemma merge_page_union:
  assumes "mergeSnapshotPage snapshot page = Inr merged"
  shows "timelineOf merged = timelineOf snapshot ++ pageTimeline page"
    "messagesOf merged = messagesOf snapshot ++ pageMessages page"
    "toolsOf merged = toolsOf snapshot ++ pageTools page"
    "sorted_wrt (<) (map te_sequence (with_default (ra_timeline merged) []))"
proof -
  let ?m = "fold mergeEntry (pg_entries page) (merge_start snapshot)"
  note fields = merge_fields [OF assms]
  have ok: "merge_ok ?m" by (rule fold_merge_ok [OF merge_start_ok])
  have "timelineOf merged = map_of (pm_timeline ?m)"
    using ok by (simp add: timelineOf_def fields map_of_index keyed_sort merge_ok_def)
  moreover have "messagesOf merged = map_of (pm_messages ?m)" "toolsOf merged = map_of (pm_tools ?m)"
    using ok by (simp_all add: messagesOf_def toolsOf_def fields map_get_values merge_ok_def)
  moreover have "map_of (pm_timeline (merge_start snapshot)) = timelineOf snapshot"
    "map_of (pm_messages (merge_start snapshot)) = messagesOf snapshot"
    "map_of (pm_tools (merge_start snapshot)) = toolsOf snapshot"
    by (simp_all add: merge_start_def timelineOf_def messagesOf_def toolsOf_def map_of_index)
  moreover have "sorted_wrt (<) (map te_sequence (with_default (ra_timeline merged) []))"
  proof -
    have "distinct (map te_sequence (sort_key te_sequence (map snd (pm_timeline ?m))))"
      using ok by (intro distinct_sort_key keyed_distinct) (simp add: merge_ok_def)
    then show ?thesis by (simp only: fields with_default_simps strict_sorted_iff sorted_sort_key simp_thms)
  qed
  ultimately show "timelineOf merged = timelineOf snapshot ++ pageTimeline page"
    "messagesOf merged = messagesOf snapshot ++ pageMessages page"
    "toolsOf merged = toolsOf snapshot ++ pageTools page"
    "sorted_wrt (<) (map te_sequence (with_default (ra_timeline merged) []))"
    by (simp_all add: fold_merge_maps pageTimeline_def pageMessages_def pageTools_def)
qed

text \<open>C30: merging a page refines the union of finite maps: what the merged snapshot holds for every
  sequence number and every id is what the page holds for it, and else what the snapshot held; its
  timeline is in order, one entry for each number.\<close>

theorem merge_page_is_union:
  assumes "mergeSnapshotPage snapshot page = Inr merged"
  shows "timelineOf merged = timelineOf snapshot ++ pageTimeline page
     \<and> messagesOf merged = messagesOf snapshot ++ pageMessages page
     \<and> toolsOf merged = toolsOf snapshot ++ pageTools page
     \<and> sorted_wrt (<) (map te_sequence (with_default (ra_timeline merged) []))"
  using merge_page_union [OF assms] by blast

section \<open>The whole history\<close>

text \<open>Whether some content is known of an entry as the whole history knows it.\<close>

definition holds ::
  "rawAcpSnapshot \<Rightarrow> (string \<rightharpoonup> snapshotTool) \<Rightarrow> (string \<rightharpoonup> snapshotMessage) \<Rightarrow> timelineEntry \<Rightarrow> bool" where
  "holds whole tools messages e \<longleftrightarrow>
     (if te_kind e = ToolEntry then tools (te_canonicalId e) = toolsOf whole (te_canonicalId e)
      else messages (te_canonicalId e) = messagesOf whole (te_canonicalId e))"

definition part_of :: "rawAcpSnapshot \<Rightarrow> rawAcpSnapshot \<Rightarrow> bool" where
  "part_of whole s \<longleftrightarrow>
     timelineOf s \<subseteq>\<^sub>m timelineOf whole \<and> messagesOf s \<subseteq>\<^sub>m messagesOf whole \<and> toolsOf s \<subseteq>\<^sub>m toolsOf whole
     \<and> ra_session s = ra_session whole \<and> (\<forall>e \<in> ran (timelineOf s). holds whole (toolsOf s) (messagesOf s) e)"

definition page_of :: "rawAcpSnapshot \<Rightarrow> snapshotPageResponse \<Rightarrow> bool" where
  "page_of whole p \<longleftrightarrow>
     pageTimeline p \<subseteq>\<^sub>m timelineOf whole \<and> pageMessages p \<subseteq>\<^sub>m messagesOf whole \<and> pageTools p \<subseteq>\<^sub>m toolsOf whole
     \<and> (\<forall>e \<in> ran (pageTimeline p). holds whole (pageTools p) (pageMessages p) e)"

lemma union_agrees:
  assumes "a \<subseteq>\<^sub>m c" "b \<subseteq>\<^sub>m c" "a k = c k \<or> b k = c k"
  shows "(a ++ b) k = c k"
proof (cases "b k")
  case None
  with assms show ?thesis
    by (cases "a k") (auto simp: map_add_def map_le_def domIff dest: bspec)
next
  case (Some v)
  with assms(2) show ?thesis by (auto simp: map_le_def dom_def dest: bspec)
qed

lemma merge_part_of:
  assumes "part_of whole s" "page_of whole p" "mergeSnapshotPage s p = Inr merged"
  shows "part_of whole merged" "dom (timelineOf merged) = dom (timelineOf s) \<union> dom (pageTimeline p)"
proof -
  note union = merge_page_union [OF assms(3)]
  have le: "timelineOf merged \<subseteq>\<^sub>m timelineOf whole" "messagesOf merged \<subseteq>\<^sub>m messagesOf whole"
    "toolsOf merged \<subseteq>\<^sub>m toolsOf whole"
    using assms(1,2) by (simp_all add: union part_of_def page_of_def map_add_le_mapI)
  have "holds whole (toolsOf merged) (messagesOf merged) e" if "e \<in> ran (timelineOf merged)" for e
  proof -
    from that have "e \<in> ran (timelineOf s) \<or> e \<in> ran (pageTimeline p)"
      by (auto simp: union ran_def map_add_def split: option.splits)
    then have "holds whole (toolsOf s) (messagesOf s) e \<or> holds whole (pageTools p) (pageMessages p) e"
      using assms(1,2) unfolding part_of_def page_of_def by blast
    with assms(1,2) show ?thesis
      unfolding holds_def union part_of_def page_of_def by (auto simp: union_agrees)
  qed
  with le assms(1) show "part_of whole merged"
    by (simp add: part_of_def merge_fields [OF assms(3)])
  show "dom (timelineOf merged) = dom (timelineOf s) \<union> dom (pageTimeline p)"
    by (simp add: union Un_commute)
qed

text \<open>Pages merged one after the other.\<close>

fun mergePages :: "rawAcpSnapshot \<Rightarrow> snapshotPageResponse list \<Rightarrow> (rat \<times> rat) + rawAcpSnapshot" where
  "mergePages s [] = Inr s"
| "mergePages s (p # ps) = (case mergeSnapshotPage s p of Inl e \<Rightarrow> Inl e | Inr s' \<Rightarrow> mergePages s' ps)"

lemma merge_pages_part_of:
  "part_of whole s \<Longrightarrow> (\<And>p. p \<in> set ps \<Longrightarrow> page_of whole p) \<Longrightarrow> mergePages s ps = Inr merged \<Longrightarrow>
   part_of whole merged \<and> dom (timelineOf merged) = dom (timelineOf s) \<union> (\<Union>p \<in> set ps. dom (pageTimeline p))"
proof (induction ps arbitrary: s)
  case (Cons p ps)
  then obtain s' where s': "mergeSnapshotPage s p = Inr s'" "mergePages s' ps = Inr merged"
    by (auto split: sum.splits)
  have "page_of whole p" using Cons.prems(2) by simp
  note step = merge_part_of [OF Cons.prems(1) this s'(1)]
  from Cons.IH [OF step(1) _ s'(2)] Cons.prems(2) step(2) show ?case by auto
qed simp

lemma merge_pages_timeline:
  "mergePages s ps = Inr merged \<Longrightarrow> ps \<noteq> [] \<Longrightarrow>
   \<exists>t. ra_timeline merged = Some t \<and> sorted_wrt (<) (map te_sequence t)"
proof (induction ps arbitrary: s)
  case (Cons p ps)
  then obtain s' where s': "mergeSnapshotPage s p = Inr s'" "mergePages s' ps = Inr merged"
    by (auto split: sum.splits)
  show ?case
  proof (cases "ps = []")
    case True
    with s' have "mergeSnapshotPage s p = Inr merged" by simp
    from merge_page_union(4) [OF this] merge_fields(1) [OF this] show ?thesis by auto
  qed (use Cons.IH s' in blast)
qed simp

lemma timeline_entries:
  assumes "ra_timeline s = Some t" "distinct (map te_sequence t)"
  shows "ran (timelineOf s) = set t"
  using assms by (auto simp: timelineOf_def map_of_index ran_def map_get_iff)

lemma map_filter_cong: "(\<And>x. x \<in> set xs \<Longrightarrow> f x = g x) \<Longrightarrow> List.map_filter f xs = List.map_filter g xs"
  by (induction xs) (auto simp: List.map_filter_simps split: option.splits)

lemma in_set_enumerate: "(i, x) \<in> set (enumerate n xs) \<Longrightarrow> x \<in> set xs"
  by (induction xs arbitrary: n) auto

lemma whole_history:
  assumes whole: "ra_timeline whole = Some t" "distinct (map te_sequence t)"
    and loaded: "part_of whole s" "ra_timeline s = Some t'" "sorted_wrt (<) (map te_sequence t')"
      "dom (timelineOf s) = dom (timelineOf whole)"
  shows "List.map_filter (\<lambda>(index, entry). map_option (Pair (int index * 1000)) (entryMessage i s entry))
       (enumerate 0 (sort_key te_sequence (snapshotTimeline s)))
     = List.map_filter (\<lambda>(index, entry). map_option (Pair (int index * 1000)) (entryMessage i whole entry))
       (enumerate 0 (sort_key te_sequence (snapshotTimeline whole)))"
proof -
  have t': "distinct (map te_sequence t')" "sorted (map te_sequence t')"
    using loaded(3) by (simp_all add: strict_sorted_iff)
  have "timelineOf s = timelineOf whole"
    using loaded(1,4) by (auto simp: part_of_def map_le_def intro: map_le_antisym)
  then have same: "set t' = set t"
    using timeline_entries [OF whole] timeline_entries [OF loaded(2) t'(1)] by simp
  have "sort_key te_sequence t' = sort_key te_sequence t"
  proof (rule map_sorted_distinct_set_unique [where f = te_sequence])
    show "inj_on te_sequence (set (sort_key te_sequence t') \<union> set (sort_key te_sequence t))"
      using t'(1) same by (simp add: distinct_map)
  qed (use t' whole(2) same in \<open>simp_all add: distinct_sort_key\<close>)
  moreover have "entryMessage i s e = entryMessage i whole e" if "e \<in> set t" for e
  proof -
    have "holds whole (toolsOf s) (messagesOf s) e"
      using loaded(1) timeline_entries [OF loaded(2) t'(1)] same that by (simp add: part_of_def)
    moreover have "ra_session s = ra_session whole" using loaded(1) by (simp add: part_of_def)
    ultimately show ?thesis
      by (simp add: entryMessage_def holds_def toolsOf_def messagesOf_def split: if_splits)
  qed
  ultimately show ?thesis
    using whole(1) loaded(2)
    by (auto simp: snapshotTimeline_def intro!: map_filter_cong dest: in_set_enumerate)
qed


section \<open>What a merge loses\<close>

lemma map_sum_Inr: "map_sum f g x = Inr y \<longleftrightarrow> (\<exists>z. x = Inr z \<and> y = g z)"
  by (cases x) auto

lemma kind_only_source:
  "so_parentThreadId (readThreadSourceMetadata (JObj [(''kind'', JStr k)])) = None"
  "so_subAgentDepth (readThreadSourceMetadata (JObj [(''kind'', JStr k)])) = None"
  "so_parentThreadId (readThreadSourceMetadata JUndefined) = None"
  "so_subAgentDepth (readThreadSourceMetadata JUndefined) = None"
  by (simp_all add: readThreadSourceMetadata_def source_kind_def source_fields_def non_empty_def prop_of_def
      or_else_def first_some_def readNumeric_def nullish_def)

lemma summary_source:
  assumes "mapChatSummary raw = Inr (Some summary)"
  shows "cs_parentThreadId summary = so_parentThreadId (readThreadSourceMetadata (th_source raw))"
    "cs_subAgentDepth summary = so_subAgentDepth (readThreadSourceMetadata (th_source raw))"
    "cs_agentNickname summary = th_agentNickname raw" "cs_agentRole summary = th_agentRole raw"
  using assms by (auto simp: mapChatSummary_def Let_def split: option.splits sum.splits)

lemma chat_summary:
  assumes "mapChat other fresh raw = Inr chat"
  obtains summary where "mapChatSummary raw = Inr (Some summary)"
    "cs_parentThreadId chat = cs_parentThreadId summary" "cs_subAgentDepth chat = cs_subAgentDepth summary"
    "cs_agentNickname chat = cs_agentNickname summary" "cs_agentRole chat = cs_agentRole summary"
proof -
  from assms obtain summary where summary: "mapChatSummary raw = Inr (Some summary)"
    by (auto simp: mapChat_def split: sum.splits option.splits)
  with assms obtain messages where "mapMessages other fresh raw (cs_createdAt summary) = Inr messages"
    by (auto simp: mapChat_def split: sum.splits)
  with assms summary show ?thesis
    by (intro that [OF summary]) (simp_all add: mapChat_def Let_def chatSummary.defs mappedChat.defs, safe, simp_all)
qed

text \<open>Loading earlier history forgets the parent of a subagent chat, its depth, nickname and role,
  since the chat is mapped again from a thread without them.\<close>

theorem earlier_history_forgets_parent:
  assumes "applySnapshotToChat other fresh chat snapshot = Inr updated"
  shows "cs_parentThreadId updated = None \<and> cs_subAgentDepth updated = None
     \<and> cs_agentNickname updated = None \<and> cs_agentRole updated = None"
proof -
  from assms obtain c u mapped where
    mapped: "mapChat other fresh (snapshotThread chat c u snapshot) = Inr mapped"
    and updated: "updated = mapped\<lparr>cs_title := cs_title chat, cs_status := cs_status chat,
      cs_statusUpdatedAt := cs_statusUpdatedAt chat, cd_acpSnapshot := Some snapshot\<rparr>"
    by (auto simp: applySnapshotToChat_def map_sum_Inr split: option.splits)
  obtain summary where summary: "mapChatSummary (snapshotThread chat c u snapshot) = Inr (Some summary)"
    and same: "cs_parentThreadId mapped = cs_parentThreadId summary"
      "cs_subAgentDepth mapped = cs_subAgentDepth summary"
      "cs_agentNickname mapped = cs_agentNickname summary" "cs_agentRole mapped = cs_agentRole summary"
    by (rule chat_summary [OF mapped])
  have "so_parentThreadId (readThreadSourceMetadata (th_source (snapshotThread chat c u snapshot))) = None"
    "so_subAgentDepth (readThreadSourceMetadata (th_source (snapshotThread chat c u snapshot))) = None"
    by (simp_all add: snapshotThread_def kind_only_source split: option.splits)
  then show ?thesis
    by (simp add: updated same summary_source [OF summary]) (simp add: snapshotThread_def)
qed

section \<open>Witnesses\<close>

definition demoMessage :: "string \<Rightarrow> string \<Rightarrow> snapshotMessage" where
  "demoMessage i t = \<lparr>sm_id = i, sm_role = ''agent'', sm_parts = [text_part t], sm_truncated = False\<rparr>"

definition demoEntry :: "rat \<Rightarrow> string \<Rightarrow> timelineEntry" where
  "demoEntry q i = \<lparr>te_sequence = q, te_kind = MessageEntry, te_canonicalId = i\<rparr>"

definition demoSnapshot :: "timelineEntry list \<Rightarrow> snapshotMessage list \<Rightarrow> rawAcpSnapshot" where
  "demoSnapshot timeline messages =
     \<lparr>ra_version = 2, ra_messages = messages, ra_timeline = Some timeline, ra_tools = [],
      ra_messageCollection = None, ra_reasoningCollection = None, ra_toolCollection = None,
      ra_continuation = None, ra_plan = [], ra_usage = \<lparr>us_used = None, us_size = None, us_cost = None\<rparr>,
      ra_mode = None, ra_config = [], ra_commands = [],
      ra_session = \<lparr>ss_agentId = ''agent'', ss_threadId = ''t1'', ss_title = None, ss_updatedAt = None,
        ss_historyReconstruction = False\<rparr>,
      ra_active = \<lparr>sa_runId = None, sa_sourceTurnId = None, sa_generation = None, sa_toolIds = []\<rparr>\<rparr>"

definition demoPage :: snapshotPageResponse where
  "demoPage =
     \<lparr>pg_entries = [\<lparr>pe_sequence = 1, pe_kind = MessageEntry, pe_canonicalId = ''m1'',
        pe_message = Some (demoMessage ''m1'' ''one''), pe_tool = None\<rparr>],
      pg_beforeCursor = None, pg_afterCursor = None, pg_hasMoreBefore = False, pg_hasMoreAfter = True,
      pg_unavailableCount = 0, pg_earliestAvailableSequence = Some 1, pg_latestAvailableSequence = Some 2,
      pg_revision = 1\<rparr>"

definition demoRecent :: rawAcpSnapshot where
  "demoRecent = demoSnapshot [demoEntry 2 ''m2''] [demoMessage ''m2'' ''two'']"

definition demoMerged :: rawAcpSnapshot where
  "demoMerged = demoSnapshot [demoEntry 1 ''m1'', demoEntry 2 ''m2'']
     [demoMessage ''m2'' ''two'', demoMessage ''m1'' ''one'']"

definition demoWhole :: rawAcpSnapshot where
  "demoWhole = demoSnapshot [demoEntry 1 ''m1'', demoEntry 2 ''m2'']
     [demoMessage ''m1'' ''one'', demoMessage ''m2'' ''two'']"

lemma demo_merge: "mergeSnapshotPage demoRecent demoPage = Inr demoMerged"
  by (simp add: mergeSnapshotPage_def stale_revision_def demoRecent_def demoPage_def demoMerged_def
      demoSnapshot_def demoEntry_def index_by_def mergeEntry_def page_timeline_entry_def demoMessage_def
      updateCollection_def)

lemma demo_holds:
  "timelineOf demoRecent = [2 \<mapsto> demoEntry 2 ''m2'']"
  "timelineOf demoWhole = [1 \<mapsto> demoEntry 1 ''m1'', 2 \<mapsto> demoEntry 2 ''m2'']"
  "messagesOf demoRecent = [''m2'' \<mapsto> demoMessage ''m2'' ''two'']"
  "messagesOf demoWhole = [''m1'' \<mapsto> demoMessage ''m1'' ''one'', ''m2'' \<mapsto> demoMessage ''m2'' ''two'']"
  "toolsOf demoRecent = Map.empty" "toolsOf demoWhole = Map.empty"
  "pageTimeline demoPage = [1 \<mapsto> demoEntry 1 ''m1'']"
  "pageMessages demoPage = [''m1'' \<mapsto> demoMessage ''m1'' ''one'']" "pageTools demoPage = Map.empty"
  by (auto simp: timelineOf_def messagesOf_def toolsOf_def pageTimeline_def pageMessages_def pageTools_def
      demoRecent_def demoWhole_def demoPage_def demoSnapshot_def demoEntry_def demoMessage_def index_by_def
      map_get_def page_timeline_entry_def List.map_filter_simps)

theorem merge_page_is_union_witness:
  "timelineOf demoMerged = timelineOf demoRecent ++ pageTimeline demoPage"
  using merge_page_is_union [OF demo_merge] by blast

lemma demo_parts: "part_of demoWhole demoRecent" "page_of demoWhole demoPage"
  by (auto simp: part_of_def page_of_def demo_holds holds_def demoEntry_def map_le_def ran_def)
    (simp add: demoWhole_def demoRecent_def demoSnapshot_def)


definition demoChat :: mappedChat where
  "demoChat =
     \<lparr>cs_id = ''t1'', cs_title = ''Chat'', cs_status = ChatIdle, cs_createdAt = ''2026-01-01T00:00:00.000Z'',
      cs_updatedAt = ''2026-01-01T00:00:00.000Z'', cs_statusUpdatedAt = ''2026-01-01T00:00:00.000Z'',
      cs_lastMessagePreview = [], cs_cwd = None, cs_agentId = None, cs_modelProvider = None,
      cs_agentNickname = Some ''Ada'', cs_agentRole = None, cs_sourceKind = Some ''subAgent'',
      cs_parentThreadId = Some ''t0'', cs_subAgentDepth = Some 1, cs_lastError = None,
      cd_messages = [], cd_acpSnapshot = Some demoRecent,
      cd_plans = \<lparr>pl_latestPlan = None, pl_latestTurnPlan = None, pl_latestTurnStatus = None,
        pl_activeTurnId = None\<rparr>,
      cd_acpUsage = None, cd_acpMode = None, cd_acpConfig = [], cd_acpCommands = [], cd_acpActive = None\<rparr>"

lemma demo_iso: "unixSecondsToIso 1767225600 = Inr ''2026-01-01T00:00:00.000Z''"
  by code_simp

lemma demo_parse: "date_parse other ''2026-01-01T00:00:00.000Z'' = Some 1767225600000"
proof -
  have "parse_iso ''2026-01-01T00:00:00.000Z'' = Some 1767225600000" by code_simp
  then show ?thesis by (simp add: date_parse_def)
qed

lemma demo_chat_maps: "\<exists>updated. applySnapshotToChat other fresh demoChat demoMerged = Inr updated"
proof -
  let ?raw = "snapshotThread demoChat 1767225600 1767225600 demoMerged"
  obtain summary where summary: "mapChatSummary ?raw = Inr (Some summary)"
    "cs_createdAt summary = ''2026-01-01T00:00:00.000Z''"
    by (simp add: mapChatSummary_def Let_def snapshotThread_def demoChat_def non_empty_def demo_iso)
  have "list_all (\<lambda>(offset, m). time_value (1767225600000 + offset)) (snapshotMessagesOf (Some ''t1'') demoMerged)"
    by code_simp
  then obtain messages where "mapMessages other fresh ?raw (cs_createdAt summary) = Inr messages"
    by (simp add: mapMessages_def summary demo_parse datedMessages_def)
      (simp add: snapshotThread_def demoChat_def)
  with summary have "\<exists>mapped. mapChat other fresh ?raw = Inr mapped"
    by (simp add: mapChat_def Let_def)
  moreover have "cs_createdAt demoChat = ''2026-01-01T00:00:00.000Z''" "cs_updatedAt demoChat = ''2026-01-01T00:00:00.000Z''"
    by (simp_all add: demoChat_def)
  ultimately show ?thesis by (auto simp: applySnapshotToChat_def demo_parse)
qed

theorem earlier_history_forgets_parent_witness:
  "cs_parentThreadId demoChat = Some ''t0''
   \<and> (\<exists>updated. applySnapshotToChat (\<lambda>_. None) (\<lambda>_. []) demoChat demoMerged = Inr updated
        \<and> cs_parentThreadId updated = None)"
proof -
  obtain updated where "applySnapshotToChat (\<lambda>_. None) (\<lambda>_. []) demoChat demoMerged = Inr updated"
    using demo_chat_maps by blast
  with earlier_history_forgets_parent [OF this] show ?thesis by (simp add: demoChat_def)
qed

end
