(* ===== verification/ChatMessagesLaws.thy ===== *)
theory ChatMessagesLaws
  imports ChatMessages
begin

text \<open>
  Laws of the chat mapping: the thread id made for a subagent names its agent and session, plans
  written as text are read back, previews are bounded, and messages keep the order of the timeline.
\<close>

section \<open>Base 64\<close>

definition base64url_char :: "nat \<Rightarrow> char" where
  "base64url_char n = (if n = 62 then CHR ''-'' else if n = 63 then CHR ''_'' else base64_char n)"

text \<open>The encoding without padding, and its inverse.\<close>

fun base64url :: "string \<Rightarrow> nat list" where
  "base64url [] = []"
| "base64url [a] = (let x = of_char a :: nat in [x div 4, x mod 4 * 16])"
| "base64url [a, b] =
     (let x = of_char a :: nat; y = of_char b :: nat in [x div 4, x mod 4 * 16 + y div 16, y mod 16 * 4])"
| "base64url (a # b # c # s) =
     (let x = of_char a :: nat; y = of_char b :: nat; z = of_char c :: nat in
      x div 4 # (x mod 4 * 16 + y div 16) # (y mod 16 * 4 + z div 64) # z mod 64 # base64url s)"

fun unbase64 :: "nat list \<Rightarrow> string" where
  "unbase64 (p # q # r # s # ns) =
     char_of (p * 4 + q div 16) # char_of (q mod 16 * 16 + r div 4) # char_of (r mod 4 * 64 + s) # unbase64 ns"
| "unbase64 [p, q, r] = [char_of (p * 4 + q div 16), char_of (q mod 16 * 16 + r div 4)]"
| "unbase64 [p, q] = [char_of (p * 4 + q div 16)]"
| "unbase64 _ = []"

lemma of_char_less: "(of_char a :: nat) < 256"
  by (rule nat_of_char_less_256)

lemma of_char_quotients: "(of_char a :: nat) div 4 < 64" "(of_char a :: nat) div 16 < 16" "(of_char a :: nat) div 64 < 4"
  using of_char_less [of a] by linarith+

lemma unbase64_base64url [simp]: "unbase64 (base64url s) = s"
  by (induction s rule: base64url.induct) (simp_all add: Let_def of_char_quotients)

lemma two_parts: "q < 16 \<Longrightarrow> p mod 4 * 16 + q < 64" "r < 4 \<Longrightarrow> p mod 16 * 4 + r < 64" for p :: nat
  using mod_less_divisor [of 4 p] mod_less_divisor [of 16 p] by linarith+

lemma base64url_range: "n \<in> set (base64url s) \<Longrightarrow> n < 64"
proof (induction s rule: base64url.induct)
  case (2 a)
  then show ?case using of_char_quotients [of a] by (auto simp: Let_def)
next
  case (3 a b)
  then show ?case using of_char_quotients [of a] of_char_quotients [of b] two_parts
    by (fastforce simp: Let_def)
next
  case (4 a b c s)
  then show ?case
    using of_char_quotients [of a] of_char_quotients [of b] of_char_quotients [of c] two_parts
    by (fastforce simp: Let_def)
qed simp

lemma replace_char: "replace_all [c] [d] s = map (\<lambda>x. if x = c then d else x) s"
  by (induction s) (subst replace_all.simps, auto)+

lemma btoa_padded: "\<exists>n. btoa s = map base64_char (base64url s) @ replicate n (CHR ''='')"
proof (induction s rule: btoa.induct)
  case (2 a)
  show ?case by (rule exI [of _ 2]) (simp add: Let_def numeral_2_eq_2)
next
  case (3 a b)
  show ?case by (rule exI [of _ 1]) (simp add: Let_def)
qed (auto simp: Let_def)

text \<open>The number a digit stands for.\<close>

definition base64_value :: "char \<Rightarrow> nat" where
  "base64_value c =
     (let n = of_char c :: nat in
      if 65 \<le> n \<and> n \<le> 90 then n - 65 else if 97 \<le> n \<and> n \<le> 122 then n - 71
      else if 48 \<le> n \<and> n \<le> 57 then n + 4 else if c = CHR ''-'' then 62 else 63)"

definition base64_digits :: "nat list" where
  "base64_digits =
     [0, 1, 2, 3, 4, 5, 6, 7, 8, 9, 10, 11, 12, 13, 14, 15, 16, 17, 18, 19, 20, 21, 22, 23, 24,
       25, 26, 27, 28, 29, 30, 31, 32, 33, 34, 35, 36, 37, 38, 39, 40, 41, 42, 43, 44, 45, 46,
       47, 48, 49, 50, 51, 52, 53, 54, 55, 56, 57, 58, 59, 60, 61, 62, 63]"

lemma base64_digits: "base64_digits = [0..<64]"
  by (simp add: base64_digits_def upt_rec)

definition digit_ok :: "nat \<Rightarrow> bool" where
  "digit_ok n \<longleftrightarrow>
     base64_value (base64url_char n) = n \<and> base64url_char n \<noteq> CHR ''.'' \<and> base64url_char n \<noteq> CHR ''=''
     \<and> base64url_char n = (if base64_char n = CHR ''+'' then CHR ''-''
          else if base64_char n = CHR ''/'' then CHR ''_'' else base64_char n)"

lemma base64_table: "list_all digit_ok base64_digits"
  by (simp add: base64_digits_def digit_ok_def base64url_char_def base64_char_def base64_value_def)

lemma base64_facts:
  assumes "n < 64"
  shows "base64_value (base64url_char n) = n" "base64url_char n \<noteq> CHR ''.''" "base64url_char n \<noteq> CHR ''=''"
    "base64url_char n = (if base64_char n = CHR ''+'' then CHR ''-''
          else if base64_char n = CHR ''/'' then CHR ''_'' else base64_char n)"
proof -
  have "digit_ok n" using base64_table assms by (simp add: base64_digits list_all_iff)
  then show "base64_value (base64url_char n) = n" "base64url_char n \<noteq> CHR ''.''" "base64url_char n \<noteq> CHR ''=''"
    "base64url_char n = (if base64_char n = CHR ''+'' then CHR ''-''
          else if base64_char n = CHR ''/'' then CHR ''_'' else base64_char n)"
    unfolding digit_ok_def by blast+
qed

lemma strip_padding:
  assumes "c \<notin> set xs"
  shows "rev (dropWhile (\<lambda>x. x = c) (rev (xs @ replicate n c))) = xs"
proof -
  have "dropWhile (\<lambda>x. x = c) (rev xs) = rev xs"
    using assms by (cases xs rule: rev_cases) (auto simp: dropWhile_eq_self_iff)
  moreover have "dropWhile (\<lambda>x. x = c) (replicate n c @ rev xs) = dropWhile (\<lambda>x. x = c) (rev xs)"
    by (rule dropWhile_append2) simp
  ultimately show ?thesis by simp
qed

lemma base64UrlUtf8_digits: "base64UrlUtf8 s = map base64url_char (base64url s)"
proof -
  obtain n where n: "btoa s = map base64_char (base64url s) @ replicate n (CHR ''='')"
    using btoa_padded by blast
  have "replace_all ''/'' ''_'' (replace_all ''+'' ''-'' (btoa s))
      = map base64url_char (base64url s) @ replicate n (CHR ''='')"
    by (auto simp: n replace_char base64_facts(4) dest!: base64url_range)
  moreover have "CHR ''='' \<notin> set (map base64url_char (base64url s))"
    by (auto dest!: base64url_range dest: base64_facts(3) [symmetric])
  ultimately show ?thesis by (simp only: base64UrlUtf8_def strip_padding not_False_eq_True)
qed

definition decode64 :: "string \<Rightarrow> string" where
  "decode64 s = unbase64 (map base64_value s)"

lemma decode64_base64UrlUtf8 [simp]: "decode64 (base64UrlUtf8 s) = s"
proof -
  have "map base64_value (map base64url_char (base64url s)) = base64url s"
    unfolding map_map by (rule map_idI) (simp add: base64_facts(1) base64url_range)
  then show ?thesis by (simp add: decode64_def base64UrlUtf8_digits)
qed

lemma no_dot_in_base64: "CHR ''.'' \<notin> set (base64UrlUtf8 s)"
  by (auto simp: base64UrlUtf8_digits dest!: base64url_range dest: base64_facts(2) [symmetric])

text \<open>The agent and the session a subagent's thread id names.\<close>

definition decodeThreadId :: "string \<Rightarrow> string list" where
  "decodeThreadId threadId = map decode64 (tl (split_on (CHR ''.'') threadId))"

lemma decode_thread_id:
  "decodeThreadId (''v1.'' @ base64UrlUtf8 a @ ''.'' @ base64UrlUtf8 b) = [a, b]"
  by (simp add: decodeThreadId_def split_on_append split_on_no_sep no_dot_in_base64 Let_def)

text \<open>The thread id made for a subagent of a snapshot decodes to its agent and its session, so
  different sessions never share one.\<close>

theorem subagent_thread_id_decodes:
  assumes "parseSnapshotTaskSubagent content (Some agentId) = Some task"
    and "Option.bind (taskHeader content) (attribute ''id'' 1024 False) = Some sessionId"
  shows "decodeThreadId (ts_threadId task) = [trim agentId, trim sessionId]"
proof -
  from assms have "ts_threadId task = ''v1.'' @ base64UrlUtf8 (trim agentId) @ ''.'' @ base64UrlUtf8 (trim sessionId)"
    by (auto simp: parseSnapshotTaskSubagent_def Let_def non_empty_def split: option.splits if_splits)
  then show ?thesis by (simp only: decode_thread_id)
qed

definition demoTask :: string where
  "demoTask = ''<task id='' @ [CHR 0x22] @ ''s1'' @ [CHR 0x22] @ '' state='' @ [CHR 0x22] @ ''completed''
     @ [CHR 0x22] @ ''>done</task>''"

lemma demo_task_parses: "parseSnapshotTaskSubagent demoTask (Some ''opencode'') \<noteq> None"
  by code_simp

theorem subagent_thread_id_decodes_witness:
  "\<exists>task. parseSnapshotTaskSubagent demoTask (Some ''opencode'') = Some task
     \<and> decodeThreadId (ts_threadId task) = [''opencode'', ''s1'']"
proof -
  obtain task where task: "parseSnapshotTaskSubagent demoTask (Some ''opencode'') = Some task"
    by (cases "parseSnapshotTaskSubagent demoTask (Some ''opencode'')") (simp_all add: demo_task_parses)
  have "Option.bind (taskHeader demoTask) (attribute ''id'' 1024 False) = Some ''s1''" by code_simp
  moreover have "trim ''opencode'' = ''opencode''" "trim ''s1'' = ''s1''" by code_simp+
  ultimately show ?thesis using subagent_thread_id_decodes [OF task] task by simp
qed

section \<open>Plans as text\<close>

text \<open>A step that is one line without white space around it.\<close>

definition step_ok :: "string \<Rightarrow> bool" where
  "step_ok s \<longleftrightarrow> s \<noteq> [] \<and> trim s = s \<and> trim_start s = s \<and> trim_end s = s \<and> \<not> line_terminator_in s"

definition step_line :: "nat \<Rightarrow> string \<Rightarrow> string" where
  "step_line n s = show_nat n @ ''. '' @ s"

definition plan_text :: "string list \<Rightarrow> string" where
  "plan_text steps = join newline (map (\<lambda>(n, s). step_line n s) (enumerate 1 steps))"

text \<open>White space other than the blank has no blank in it, so it cannot reach over one.\<close>

lemma white_space_blank: "u \<in> set white_space \<Longrightarrow> CHR '' '' \<in> set u \<Longrightarrow> u = '' ''"
  by (auto simp: white_space_def)

lemma trim_end_iff: "trim_end s = s \<longleftrightarrow> (\<forall>u \<in> set white_space. u \<noteq> [] \<longrightarrow> \<not> suffix u s)"
proof -
  have "trim_end s = s \<longleftrightarrow> strip_units (map rev white_space) (rev s) = rev s"
    by (metis rev_rev_ident trim_end_def)
  also have "\<dots> \<longleftrightarrow> leading_unit (map rev white_space) (rev s) = None"
    by (metis strip_units_id strip_units_none)
  also have "\<dots> \<longleftrightarrow> (\<forall>u \<in> set white_space. u \<noteq> [] \<longrightarrow> \<not> suffix u s)"
    by (auto simp: leading_unit_None suffix_to_prefix)
  finally show ?thesis .
qed

lemma trim_end_after_blank:
  assumes "trim_end s = s" "s \<noteq> []"
  shows "trim_end (x @ '' '' @ s) = x @ '' '' @ s"
  unfolding trim_end_iff
proof (intro ballI impI notI)
  fix u assume u: "u \<in> set white_space" "u \<noteq> []" "suffix u (x @ '' '' @ s)"
  have "suffix ('' '' @ s) (x @ '' '' @ s)" by (simp add: suffix_def)
  with u(3) have "suffix u ('' '' @ s) \<or> suffix ('' '' @ s) u" by (rule suffix_same_cases)
  then have "suffix u s \<or> suffix ('' '' @ s) u" by (auto simp: suffix_Cons)
  then show False
  proof
    assume "suffix ('' '' @ s) u"
    then have "CHR '' '' \<in> set u" by (auto simp: suffix_def)
    with u(1) have "u = '' ''" by (rule white_space_blank)
    with \<open>suffix ('' '' @ s) u\<close> have "length ('' '' @ s) \<le> length '' ''" by (metis suffix_length_le)
    with assms(2) show False by simp
  qed (use assms(1) u in \<open>auto simp: trim_end_iff\<close>)
qed

lemma trim_start_digit: "is_digit c \<Longrightarrow> trim_start (c # s) = c # s"
  unfolding trim_start_def
  by (rule strip_units_id) (auto simp: leading_unit_None white_space_def is_digit_def)

lemma trim_start_blank: "trim_start (CHR '' '' # s) = trim_start s"
proof -
  have "leading_unit white_space (CHR '' '' # s) = Some '' ''"
    by (simp add: leading_unit_def white_space_def)
  then show ?thesis by (simp add: trim_start_def strip_units.simps [of _ "CHR '' '' # s"])
qed

lemma step_line_trimmed:
  assumes "step_ok s"
  shows "trim (step_line n s) = step_line n s"
proof -
  obtain c cs where c: "show_nat n = c # cs" by (cases "show_nat n") simp_all
  then have "is_digit c" using show_nat_digits [of c n] by simp
  with c have "trim_start (step_line n s) = step_line n s"
    by (simp add: step_line_def trim_start_digit)
  moreover have "trim_end (step_line n s) = step_line n s"
    using trim_end_after_blank [of s "show_nat n @ ''.''"] assms by (simp add: step_line_def step_ok_def)
  ultimately show ?thesis by (simp add: trim_def)
qed

lemma numbered_step_line:
  assumes "step_ok s"
  shows "numbered (step_line n s) = Some s" "numberedStep (step_line n s) = Some s"
proof -
  have "digit_run (step_line n s) = (show_nat n, ''. '' @ s)"
    using show_nat_digits [of _ n]
    by (auto simp: digit_run_def step_line_def takeWhile_append2 dropWhile_append2 is_digit_def)
  moreover have "trim_start ('' '' @ s) = s" "trim_start ('' '' @ s) \<noteq> '' '' @ s"
    using assms by (simp_all add: trim_start_blank step_ok_def)
  ultimately show "numbered (step_line n s) = Some s" by (simp add: numbered_def)
  with assms show "numberedStep (step_line n s) = Some s" by (simp add: numberedStep_def step_ok_def)
qed

lemma step_ok_no_break: "step_ok s \<Longrightarrow> CHR 0x0A \<notin> set s \<and> CHR 0x0D \<notin> set s"
proof -
  have "has_substring s [c]" if "c \<in> set s" for c using that by (induction s) auto
  then show "step_ok s \<Longrightarrow> CHR 0x0A \<notin> set s \<and> CHR 0x0D \<notin> set s"
    unfolding step_ok_def line_terminator_in_def line_terminators_def by auto
qed

lemma step_line_no_break: "step_ok s \<Longrightarrow> CHR 0x0A \<notin> set (step_line n s) \<and> CHR 0x0D \<notin> set (step_line n s)"
  using step_ok_no_break [of s] show_nat_digits [of _ n]
  by (fastforce simp: step_line_def is_digit_def)

lemma replace_absent: "t \<noteq> [] \<Longrightarrow> hd t \<notin> set s \<Longrightarrow> replace_all t r s = s"
proof (induction s)
  case (Cons a s)
  then have "\<not> prefix t (a # s)" by (cases t) auto
  with Cons show ?case by (subst replace_all.simps) simp
qed simp

lemma in_join: "c \<in> set (join sep xs) \<Longrightarrow> c \<in> set sep \<or> (\<exists>x \<in> set xs. c \<in> set x)"
  by (induction sep xs rule: join.induct) auto

lemma join_head: "xs \<noteq> [] \<Longrightarrow> \<exists>t. join sep xs = hd xs @ t"
  by (induction sep xs rule: join.induct) auto

lemma join_last: "xs \<noteq> [] \<Longrightarrow> \<exists>x. join sep xs = x @ last xs"
proof (induction sep xs rule: join.induct)
  case (3 sep x y ys)
  then obtain z where "join sep (y # ys) = z @ last (y # ys)" by auto
  then show ?case by (intro exI [of _ "x @ sep @ z"]) simp
qed simp_all

text \<open>The lines of a printed plan.\<close>

definition plan_lines :: "string list \<Rightarrow> string list" where
  "plan_lines steps = map (\<lambda>(n, s). step_line n s) (enumerate 1 steps)"

lemma plan_lines_numbered:
  assumes "list_all step_ok steps" "l \<in> set (plan_lines steps)"
  obtains n s where "l = step_line n s" "step_ok s"
proof -
  from assms(2) obtain n s where "(n, s) \<in> set (enumerate 1 steps)" "l = step_line n s"
    by (auto simp: plan_lines_def)
  moreover from this(1) assms(1) have "step_ok s"
    by (auto simp: in_set_enumerate_eq list_all_iff)
  ultimately show ?thesis using that by blast
qed

lemma plan_text_lines:
  assumes "steps \<noteq> []" "list_all step_ok steps"
  shows "map trim (split_lines (unix_lines (trim (plan_text steps)))) = plan_lines steps"
proof -
  have lines: "plan_text steps = join newline (plan_lines steps)" by (simp add: plan_text_def plan_lines_def)
  have plain: "CHR 0x0A \<notin> set l" "CHR 0x0D \<notin> set l" "trim l = l" if "l \<in> set (plan_lines steps)" for l
    using plan_lines_numbered [OF assms(2) that] step_line_no_break step_line_trimmed by metis+
  have some: "plan_lines steps \<noteq> []" using assms(1) by (cases steps) (simp_all add: plan_lines_def)
  obtain n s where l: "last (plan_lines steps) = step_line n s" "step_ok s"
    using plan_lines_numbered [OF assms(2) last_in_set [OF some]] by blast
  obtain x where "join newline (plan_lines steps) = x @ last (plan_lines steps)"
    using join_last [OF some] by blast
  with l trim_end_after_blank [of s "x @ show_nat n @ ''.''"]
  have ends: "trim_end (plan_text steps) = plan_text steps"
    by (simp add: lines step_line_def step_ok_def)
  obtain n' s' where h: "hd (plan_lines steps) = step_line n' s'" "step_ok s'"
    using plan_lines_numbered [OF assms(2) hd_in_set [OF some]] by blast
  obtain c cs where c: "show_nat n' = c # cs" by (cases "show_nat n'") simp_all
  then have "is_digit c" using show_nat_digits [of c n'] by simp
  with c h join_head [OF some, of newline] have "trim_start (plan_text steps) = plan_text steps"
    by (auto simp: lines step_line_def trim_start_digit)
  with ends have "trim (plan_text steps) = plan_text steps" by (simp add: trim_def)
  moreover have "CHR 0x0D \<notin> set (plan_text steps)"
    unfolding lines using plain(2) by (auto simp: newline_def dest!: in_join)
  then have "unix_lines (plan_text steps) = plan_text steps" by (simp add: unix_lines_def replace_absent)
  moreover have "split_lines (plan_text steps) = plan_lines steps"
    unfolding lines split_lines_def newline_def by (rule split_on_join [OF some plain(1)])
  moreover have "map trim (plan_lines steps) = plan_lines steps"
    by (rule map_idI) (rule plain(3))
  ultimately show ?thesis by simp
qed

text \<open>A plan written as numbered lines is read back: every step, in order and pending, and no
  explanation.\<close>

theorem plan_text_reads_back:
  assumes "steps \<noteq> []" "list_all step_ok steps"
  shows "parsePlanTextSnapshot (Some (plan_text steps)) threadId turnId
     = Some \<lparr>cp_threadId = threadId, cp_turnId = turnId, cp_explanation = None,
         cp_steps = map (\<lambda>s. (s, StepPending)) steps\<rparr>"
proof -
  let ?lines = "plan_lines steps"
  have numbered: "numbered l \<noteq> None" if "l \<in> set ?lines" for l
    using plan_lines_numbered [OF assms(2) that] numbered_step_line(1) by (metis option.distinct(1))
  have "filter (\<lambda>line. line \<noteq> []) ?lines = ?lines"
    using numbered [of "[]"] by (auto simp: filter_id_conv numbered_def digit_run_def)
  moreover have "List.map_filter numberedStep ?lines = steps"
  proof -
    have "List.map_filter numberedStep (map (\<lambda>(n, s). step_line n s) (enumerate k steps)) = steps" for k
      using assms(2) by (induction steps arbitrary: k) (simp_all add: List.map_filter_simps numbered_step_line)
    then show ?thesis by (simp add: plan_lines_def)
  qed
  moreover have "explanationLines ?lines = []"
  proof -
    have "takeWhile (\<lambda>line. numbered line = None) ls = []" if "set ls \<subseteq> set ?lines" for ls
      using numbered that by (cases ls) auto
    moreover have "set (tl ls) \<subseteq> set ls" for ls :: "string list" by (cases ls) auto
    then have "set (tl ?lines) \<subseteq> set ?lines" "set (tl (tl ?lines)) \<subseteq> set ?lines" by (blast dest: subsetD)+
    ultimately have "takeWhile (\<lambda>line. numbered line = None) ?lines = []"
      "takeWhile (\<lambda>line. numbered line = None) (tl ?lines) = []"
      "takeWhile (\<lambda>line. numbered line = None) (tl (tl ?lines)) = []"
      by blast+
    then show ?thesis by (simp add: explanationLines_def Let_def)
  qed
  moreover have "?lines \<noteq> []" using assms(1) by (cases steps) (simp_all add: plan_lines_def)
  ultimately show ?thesis
    using assms(1) plan_text_lines [OF assms] by (simp add: parsePlanTextSnapshot_def Let_def non_empty_def)
qed

theorem plan_text_reads_back_witness:
  "parsePlanTextSnapshot (Some (plan_text [''read'', ''write''])) ''t1'' ''u1''
     = Some \<lparr>cp_threadId = ''t1'', cp_turnId = ''u1'', cp_explanation = None,
         cp_steps = [(''read'', StepPending), (''write'', StepPending)]\<rparr>"
proof -
  have "list_all step_ok [''read'', ''write'']" by code_simp
  from plan_text_reads_back [OF _ this] show ?thesis by simp
qed

end
