(* ===== verification/BridgeResponses.thy ===== *)
theory BridgeResponses
  imports ChatMessages
begin

text \<open>
  Readers of what the bridge answers and normal forms of what is asked of it:
  \<open>api/clientBridgeResponseNormalization.ts\<close>, the readers of \<open>api/clientChatListInternals.ts\<close> and
  those of \<open>api/HostBridgeApiClientHealthAndCacheLayer.ts\<close>.  A reader that throws does so with an
  instant out of range.  \<open>other\<close> is the part of \<open>Date.parse\<close> that depends on the engine.
\<close>

section \<open>Numbers and instants\<close>

definition js_round :: "rat \<Rightarrow> int" where
  "js_round q = \<lfloor>q + 1 / 2\<rfloor>"

text \<open>\<open>String(v)\<close>, which \<open>Number\<close> applies to arrays and objects\<close>

fun js_string :: "jsv \<Rightarrow> string" where
  "js_string (JStr s) = s"
| "js_string (JNum q) = show_num q"
| "js_string (JBool b) = (if b then ''true'' else ''false'')"
| "js_string JNull = ''null''"
| "js_string JUndefined = ''undefined''"
| "js_string (JArr vs) = join '','' (map (\<lambda>v. if nullish v then [] else js_string v) vs)"
| "js_string (JObj kvs) = ''[object Object]''"

text \<open>\<open>Number(v)\<close>, where nothing stands for \<open>NaN\<close>\<close>

definition number_of :: "jsv \<Rightarrow> rat option" where
  "number_of v =
     (case v of
        JNum q \<Rightarrow> Some q
      | JUndefined \<Rightarrow> None
      | JNull \<Rightarrow> Some 0
      | JBool b \<Rightarrow> Some (if b then 1 else 0)
      | _ \<Rightarrow> js_number (js_string v))"

text \<open>\<open>Math.max(0, Math.trunc(Number(v) || fallback))\<close>\<close>

definition count_or :: "jsv \<Rightarrow> nat \<Rightarrow> int" where
  "count_or v fallback =
     (case number_of v of
        Some q \<Rightarrow> if q = 0 then int fallback else max 0 (trunc q)
      | None \<Rightarrow> int fallback)"

definition readPositiveInteger :: "jsv \<Rightarrow> int option" where
  "readPositiveInteger value =
     (case value of
        JNum q \<Rightarrow> if finite_number q \<and> q > 0 then Some (trunc q) else None
      | JStr s \<Rightarrow>
          if trim s \<noteq> [] \<and> list_all is_digit (trim s)
          then (case parse_int s of Some i \<Rightarrow> if i > 0 then Some i else None | None \<Rightarrow> None)
          else None
      | _ \<Rightarrow> None)"

definition instant_of_number :: "rat \<Rightarrow> chatError + string option" where
  "instant_of_number q =
     map_sum (\<lambda>e. e) Some (date_iso (trunc (if q > 1000000000000 then q else q * 1000)))"

definition readTimestampIso :: "(string \<Rightarrow> int option) \<Rightarrow> jsv \<Rightarrow> chatError + string option" where
  "readTimestampIso other value =
     (case value of
        JStr s \<Rightarrow>
          if trim s = [] then Inr None
          else (case js_number (trim s) of
              Some q \<Rightarrow>
                if finite_number q \<and> q > 0 then instant_of_number q
                else (case date_parse other (trim s) of
                    Some ms \<Rightarrow> map_sum (\<lambda>e. e) Some (date_iso ms) | None \<Rightarrow> Inr None)
            | None \<Rightarrow>
                (case date_parse other (trim s) of
                    Some ms \<Rightarrow> map_sum (\<lambda>e. e) Some (date_iso ms) | None \<Rightarrow> Inr None))
      | JNum q \<Rightarrow> if finite_number q \<and> q > 0 then instant_of_number q else Inr None
      | _ \<Rightarrow> Inr None)"

text \<open>A list of readings, and the first error among them\<close>

fun collect :: "('e + 'a) list \<Rightarrow> 'e + 'a list" where
  "collect [] = Inr []"
| "collect (Inl e # xs) = Inl e"
| "collect (Inr x # xs) = (case collect xs of Inl e \<Rightarrow> Inl e | Inr ys \<Rightarrow> Inr (x # ys))"

definition keep_some :: "'a option list \<Rightarrow> 'a list" where
  "keep_some xs = List.map_filter (\<lambda>x. x) xs"

section \<open>Normal forms\<close>

definition normalizeCwd :: "string option \<Rightarrow> string option" where
  "normalizeCwd cwd = non_empty (map_option trim cwd)"

definition normalizeModel :: "string option \<Rightarrow> string option" where
  "normalizeModel model = non_empty (map_option trim model)"

definition normalizeAcpMode :: "string option \<Rightarrow> string option" where
  "normalizeAcpMode value =
     (case map_option trim value of
        Some mode \<Rightarrow>
          if mode \<noteq> [] \<and> length mode \<le> 128 \<and> list_all (\<lambda>c. word_char c \<or> c = CHR ''-'') mode
          then Some mode else None
      | None \<Rightarrow> None)"

definition one_word :: "string list \<Rightarrow> string option \<Rightarrow> string option" where
  "one_word words value =
     (case value of
        Some s \<Rightarrow> if lower (trim s) \<in> set words then Some (lower (trim s)) else None
      | None \<Rightarrow> None)"

definition efforts :: "string list" where
  "efforts = [''none'', ''minimal'', ''low'', ''medium'', ''high'', ''xhigh'', ''max'']"

definition normalizeEffort :: "string option \<Rightarrow> string option" where
  "normalizeEffort effort = one_word efforts effort"

definition normalizeServiceTier :: "string option \<Rightarrow> string option" where
  "normalizeServiceTier serviceTier = one_word [''flex'', ''fast''] serviceTier"

definition toThreadConfig :: "string option \<Rightarrow> jsv" where
  "toThreadConfig serviceTier =
     (case serviceTier of Some tier \<Rightarrow> JObj [(''service_tier'', JStr tier)] | None \<Rightarrow> JNull)"

definition approvalPolicies :: "string list" where
  "approvalPolicies = [''untrusted'', ''on-request'', ''on-failure'', ''never'']"

definition normalizeApprovalPolicy :: "string option \<Rightarrow> string option" where
  "normalizeApprovalPolicy policy = one_word approvalPolicies policy"

definition normalizeTurnStatus :: "string option \<Rightarrow> string option" where
  "normalizeTurnStatus status = non_empty (map_option (\<lambda>s. lower (trim s)) (non_empty status))"

section \<open>Workspaces and files\<close>

record workspaceEntry =
  we_path :: string
  we_chatCount :: int
  we_updatedAt :: "string option"

record workspaceListResponse =
  wl_bridgeRoot :: string
  wl_allowOutsideRootCwd :: bool
  wl_workspaces :: "workspaceEntry list"

definition readWorkspaceEntry :: "(string \<Rightarrow> int option) \<Rightarrow> jsv \<Rightarrow> chatError + workspaceEntry option" where
  "readWorkspaceEntry other entry =
     (case Option.bind (toRecord entry)
         (\<lambda>w. map_option (Pair w) (normalizeCwd (as_string (prop_of w ''path'')))) of
        None \<Rightarrow> Inr None
      | Some (workspace, path) \<Rightarrow>
          let chatCount = (case prop_of workspace ''chatCount'' of
                JNum q \<Rightarrow> max 0 (trunc q)
              | JStr s \<Rightarrow> max 0 (with_default (parse_int s) 0)
              | _ \<Rightarrow> 0)
          in map_sum (\<lambda>e. e) (\<lambda>updatedAt. Some
               \<lparr>we_path = path, we_chatCount = chatCount, we_updatedAt = updatedAt\<rparr>)
               (readTimestampIso other (prop_of workspace ''updatedAt'')))"

definition readWorkspaceListResponse ::
  "(string \<Rightarrow> int option) \<Rightarrow> jsv \<Rightarrow> chatError + workspaceListResponse" where
  "readWorkspaceListResponse other value =
     (let r = with_default (toRecord value) [] in
      map_sum (\<lambda>e. e) (\<lambda>workspaces.
          \<lparr>wl_bridgeRoot = with_default (normalizeCwd (as_string (prop_of r ''bridgeRoot''))) [],
           wl_allowOutsideRootCwd = (prop_of r ''allowOutsideRootCwd'' = JBool True),
           wl_workspaces = keep_some workspaces\<rparr>)
        (collect (map (readWorkspaceEntry other) (array_at r ''workspaces''))))"

record fileSystemEntry =
  fe_name :: string
  fe_path :: string
  fe_kind :: string
  fe_hidden :: bool
  fe_selectable :: bool
  fe_isGitRepo :: bool

record fileSystemListResponse =
  fl_bridgeRoot :: string
  fl_path :: string
  fl_parentPath :: "string option"
  fl_truncated :: bool
  fl_totalEntries :: int
  fl_omittedEntries :: int
  fl_maxEntries :: int
  fl_entries :: "fileSystemEntry list"

definition readFileSystemEntry :: "jsv \<Rightarrow> fileSystemEntry option" where
  "readFileSystemEntry entry =
     Option.bind (toRecord entry) (\<lambda>item.
     Option.bind (normalizeCwd (as_string (prop_of item ''path''))) (\<lambda>path.
     Option.bind (normalizeCwd (as_string (prop_of item ''name''))) (\<lambda>name.
       Some \<lparr>fe_name = name, fe_path = path,
             fe_kind = with_default (as_string (prop_of item ''kind'')) ''directory'',
             fe_hidden = (prop_of item ''hidden'' = JBool True),
             fe_selectable = (prop_of item ''selectable'' \<noteq> JBool False),
             fe_isGitRepo = (prop_of item ''isGitRepo'' = JBool True)\<rparr>)))"

definition readFileSystemListResponse :: "jsv \<Rightarrow> fileSystemListResponse" where
  "readFileSystemListResponse value =
     (let r = with_default (toRecord value) []; entries = array_at r ''entries'' in
      \<lparr>fl_bridgeRoot = with_default (normalizeCwd (as_string (prop_of r ''bridgeRoot''))) [],
       fl_path = with_default (normalizeCwd (as_string (prop_of r ''path''))) [],
       fl_parentPath = normalizeCwd (as_string (prop_of r ''parentPath'')),
       fl_truncated = (prop_of r ''truncated'' = JBool True),
       fl_totalEntries = count_or (prop_of r ''totalEntries'') (length entries),
       fl_omittedEntries = count_or (prop_of r ''omittedEntries'') 0,
       fl_maxEntries = count_or (prop_of r ''maxEntries'') (length entries),
       fl_entries = List.map_filter readFileSystemEntry entries\<rparr>)"

section \<open>Browser previews\<close>

definition readPort :: "jsv \<Rightarrow> int" where
  "readPort value =
     (case value of
        JNum q \<Rightarrow> max 1 (trunc q)
      | JStr s \<Rightarrow> max 1 (with_default (parse_int s) 0)
      | _ \<Rightarrow> 0)"

record browserPreviewSession =
  ps_sessionId :: string
  ps_targetUrl :: string
  ps_previewPort :: int
  ps_previewBaseUrl :: "string option"
  ps_bootstrapPath :: string
  ps_createdAt :: string
  ps_lastAccessedAt :: string
  ps_expiresAt :: string

definition readBrowserPreviewSession ::
  "(string \<Rightarrow> int option) \<Rightarrow> jsv \<Rightarrow> chatError + browserPreviewSession option" where
  "readBrowserPreviewSession other value =
     (case toRecord value of
        None \<Rightarrow> Inr None
      | Some r \<Rightarrow>
          let trimmed = (\<lambda>k. with_default (trimmed_string (prop_of r k)) []);
              previewPort = readPort (prop_of r ''previewPort'')
          in (case collect (map (\<lambda>k. readTimestampIso other (prop_of r k))
                  [''createdAt'', ''lastAccessedAt'', ''expiresAt'']) of
                Inr [Some createdAt, lastAccessedAt, Some expiresAt] \<Rightarrow>
                  Inr (if trimmed ''sessionId'' = [] \<or> trimmed ''targetUrl'' = []
                      \<or> trimmed ''bootstrapPath'' = [] \<or> previewPort \<le> 0 then None
                    else Some
                      \<lparr>ps_sessionId = trimmed ''sessionId'', ps_targetUrl = trimmed ''targetUrl'',
                       ps_previewPort = previewPort,
                       ps_previewBaseUrl = non_empty (Some (trimmed ''previewBaseUrl'')),
                       ps_bootstrapPath = trimmed ''bootstrapPath'', ps_createdAt = createdAt,
                       ps_lastAccessedAt = with_default lastAccessedAt createdAt,
                       ps_expiresAt = expiresAt\<rparr>)
              | Inr _ \<Rightarrow> Inr None
              | Inl e \<Rightarrow> Inl e))"

record previewSuggestion =
  sg_targetUrl :: string
  sg_label :: string
  sg_port :: int

record browserPreviewDiscoveryResponse =
  dr_scannedAt :: string
  dr_suggestions :: "previewSuggestion list"

definition readPreviewSuggestion :: "jsv \<Rightarrow> previewSuggestion option" where
  "readPreviewSuggestion entry =
     Option.bind (toRecord entry) (\<lambda>item.
       let targetUrl = with_default (trimmed_string (prop_of item ''targetUrl'')) [];
           label = with_default (trimmed_string (prop_of item ''label'')) [];
           port = readPort (prop_of item ''port'')
       in if targetUrl = [] \<or> label = [] \<or> port \<le> 0 then None
          else Some \<lparr>sg_targetUrl = targetUrl, sg_label = label, sg_port = port\<rparr>)"

definition readBrowserPreviewDiscoveryResponse ::
  "(string \<Rightarrow> int option) \<Rightarrow> jsv \<Rightarrow> chatError + browserPreviewDiscoveryResponse" where
  "readBrowserPreviewDiscoveryResponse other value =
     (let r = with_default (toRecord value) [] in
      map_sum (\<lambda>e. e) (\<lambda>scannedAt.
          \<lparr>dr_scannedAt = with_default scannedAt (to_iso_string 0),
           dr_suggestions = List.map_filter readPreviewSuggestion (array_at r ''suggestions'')\<rparr>)
        (readTimestampIso other (prop_of r ''scannedAt'')))"

section \<open>Models\<close>

record modelOption =
  mo_id :: string
  mo_displayName :: string
  mo_providerId :: "string option"
  mo_providerName :: "string option"
  mo_contextWindow :: "int option"
  mo_reasoningEffort :: "string list option"

definition readModelOption :: "jobj \<Rightarrow> modelOption option" where
  "readModelOption entry =
     (let i = with_default (trimmed_string (prop_of entry ''id'')) [];
          contextWindow = readPositiveInteger (prop_of entry ''contextWindow'');
          reasoningEffort = List.map_filter (\<lambda>v. normalizeEffort (as_string v)) (array_at entry ''reasoningEffort'')
      in if i = [] then None
         else Some
           \<lparr>mo_id = i, mo_displayName = with_default (trimmed_string (prop_of entry ''displayName'')) i,
            mo_providerId = non_empty (trimmed_string (prop_of entry ''providerId'')),
            mo_providerName = non_empty (trimmed_string (prop_of entry ''providerName'')),
            mo_contextWindow = (case contextWindow of Some w \<Rightarrow> if w > 0 then Some w else None | None \<Rightarrow> None),
            mo_reasoningEffort = (if reasoningEffort = [] then None else Some reasoningEffort)\<rparr>)"

end
