(* ===== verification/TurnInput.thy ===== *)
theory TurnInput
  imports BridgeResponses
begin

text \<open>
  What a turn is started with and how its echo is recognized: \<open>api/clientTurnInputInternals.ts\<close> and
  \<open>api/clientChatCloneAndRetryInternals.ts\<close>.
\<close>

section \<open>Input\<close>

record mentionInput =
  mi_path :: string
  mi_name :: "string option"

record turnInputMention =
  mn_name :: string
  mn_path :: string

definition mention_value :: "turnInputMention \<Rightarrow> jsv" where
  "mention_value m =
     JObj [(''type'', JStr ''mention''), (''name'', JStr (mn_name m)), (''path'', JStr (mn_path m))]"

definition image_value :: "string \<Rightarrow> jsv" where
  "image_value path = JObj [(''type'', JStr ''localImage''), (''path'', JStr path)]"

definition buildTurnInput :: "string \<Rightarrow> turnInputMention list \<Rightarrow> string list \<Rightarrow> jsv list" where
  "buildTurnInput content mentions localImages =
     JObj [(''type'', JStr ''text''), (''text'', JStr content), (''text_elements'', JArr [])]
     # map mention_value mentions @ map image_value localImages"

definition normalizeMentionName :: "string option \<Rightarrow> string \<Rightarrow> string" where
  "normalizeMentionName name path =
     (case non_empty (map_option trim name) of
        Some trimmed \<Rightarrow> trimmed
      | None \<Rightarrow>
          let segments = filter (\<lambda>s. s \<noteq> []) (split_on CHR ''/'' (forward_slashes path))
          in if segments \<noteq> [] \<and> trim (last segments) \<noteq> [] then trim (last segments) else path)"

text \<open>The entries whose key was not seen before, in order\<close>

definition unique_by :: "('a \<Rightarrow> 'k) \<Rightarrow> 'a list \<Rightarrow> 'a list" where
  "unique_by key xs = fold (\<lambda>x seen. if key x \<in> key ` set seen then seen else seen @ [x]) xs []"

definition normalizeMentions :: "mentionInput list option \<Rightarrow> turnInputMention list" where
  "normalizeMentions raw =
     map (\<lambda>(path, name). \<lparr>mn_name = normalizeMentionName name path, mn_path = path\<rparr>)
       (unique_by (\<lambda>(path, name). lower path)
         (filter (\<lambda>(path, name). path \<noteq> [])
           (map (\<lambda>entry. (trim (mi_path entry), mi_name entry)) (with_default raw []))))"

definition normalizeLocalImages :: "string list option \<Rightarrow> string list" where
  "normalizeLocalImages raw = unique_by lower (filter (\<lambda>p. p \<noteq> []) (map trim (with_default raw [])))"

definition toTurnCollaborationMode :: "string option \<Rightarrow> string option \<Rightarrow> string option \<Rightarrow> jsv" where
  "toTurnCollaborationMode value model effort =
     (case one_word [''plan'', ''default''] value of
        None \<Rightarrow> JNull
      | Some mode \<Rightarrow>
          (case non_empty model of
             None \<Rightarrow> JNull
           | Some m \<Rightarrow> JObj [(''mode'', JStr mode), (''settings'', JObj
               [(''model'', JStr m),
                (''reasoning_effort'', case effort of Some e \<Rightarrow> JStr e | None \<Rightarrow> JNull),
                (''developer_instructions'', JNull)])]))"

definition normalizeCollaborationMode :: "string option \<Rightarrow> string option" where
  "normalizeCollaborationMode value = one_word [''plan'', ''default''] value"

definition normalizeAgentName :: "string option \<Rightarrow> string option" where
  "normalizeAgentName value = non_empty (map_option trim value)"

definition normalizeAgentId :: "string option \<Rightarrow> string option" where
  "normalizeAgentId value = non_empty (map_option trim value)"

record threadRuntimeSettings =
  rs_model :: "string option"
  rs_effort :: "string option"

definition readThreadRuntimeSettings :: "jsv \<Rightarrow> threadRuntimeSettings" where
  "readThreadRuntimeSettings value =
     (let r = toRecord value in
      \<lparr>rs_model = normalizeModel (as_string (opt_prop r ''model'')),
       rs_effort = normalizeEffort (or_else (as_string (opt_prop r ''reasoningEffort''))
         (as_string (opt_prop r ''reasoning_effort'')))\<rparr>)"

section \<open>The echo of a message\<close>

definition buildExpectedUserMessageContent ::
  "string \<Rightarrow> turnInputMention list \<Rightarrow> string list \<Rightarrow> string" where
  "buildExpectedUserMessageContent content mentions localImages =
     join newline (filter (\<lambda>part. trim part \<noteq> [])
       (trim content # map (\<lambda>m. ''[file: '' @ mn_path m @ '']'') mentions
          @ map (\<lambda>path. ''[local image: '' @ path @ '']'') localImages))"

text \<open>The entries of an array that are records of a type\<close>

definition records_of_type :: "string \<Rightarrow> jsv \<Rightarrow> jobj list" where
  "records_of_type type value =
     filter (\<lambda>r. as_string (prop_of r ''type'') = Some type)
       (List.map_filter toRecord (with_default (as_array value) []))"

definition extractUserMessageText :: "jsv \<Rightarrow> string" where
  "extractUserMessageText value =
     join_nonempty newline (map (\<lambda>r. string_at r ''text'') (records_of_type ''text'' value))"

definition extractUserMessageMentions :: "jsv \<Rightarrow> turnInputMention list" where
  "extractUserMessageMentions value =
     List.map_filter (\<lambda>r. map_option
         (\<lambda>path. \<lparr>mn_name = normalizeMentionName (as_string (prop_of r ''name'')) path, mn_path = path\<rparr>)
         (non_empty (trimmed_string (prop_of r ''path''))))
       (records_of_type ''mention'' value)"

definition extractUserMessageLocalImages :: "jsv \<Rightarrow> string list" where
  "extractUserMessageLocalImages value =
     List.map_filter (\<lambda>r. non_empty (trimmed_string (prop_of r ''path''))) (records_of_type ''localImage'' value)"

definition chatHasRecentUserMessage ::
  "mappedChat \<Rightarrow> string \<Rightarrow> turnInputMention list \<Rightarrow> string list \<Rightarrow> nat \<Rightarrow> bool" where
  "chatHasRecentUserMessage chat content mentions localImages tailSize =
     (let normalized = buildExpectedUserMessageContent (trim content) mentions localImages in
      normalized = [] \<or> list_ex (\<lambda>m. cm_role m = User \<and> trim (getMessageText m) = normalized)
        (last_n tailSize (cd_messages chat)))"

definition rawThreadHasTurns :: "rawThread \<Rightarrow> bool" where
  "rawThreadHasTurns raw \<longleftrightarrow> with_default (th_turns raw) [] \<noteq> []"

definition itemHasContent :: "string \<Rightarrow> turnInputMention list \<Rightarrow> string list \<Rightarrow> jobj \<Rightarrow> bool" where
  "itemHasContent content mentions localImages item \<longleftrightarrow>
     as_string (prop_of item ''type'') = Some ''userMessage''
     \<and> buildExpectedUserMessageContent (trim (extractUserMessageText (prop_of item ''content'')))
         (extractUserMessageMentions (prop_of item ''content''))
         (extractUserMessageLocalImages (prop_of item ''content''))
       = buildExpectedUserMessageContent content mentions localImages"

definition rawThreadHasTurnUserMessage ::
  "rawThread \<Rightarrow> string \<Rightarrow> string \<Rightarrow> turnInputMention list \<Rightarrow> string list \<Rightarrow> bool" where
  "rawThreadHasTurnUserMessage raw turnId content mentions localImages =
     (trim content \<noteq> [] \<and> trim turnId \<noteq> []
      \<and> (case find (\<lambda>turn. tn_id turn = Some (trim turnId)) (with_default (th_turns raw) []) of
           Some turn \<Rightarrow> list_ex (itemHasContent (trim content) mentions localImages)
             (with_default (tn_items turn) [])
         | None \<Rightarrow> False))"

section \<open>Chats\<close>

definition chatShellFromSummary :: "chatSummary \<Rightarrow> mappedChat" where
  "chatShellFromSummary summary =
     chatSummary.extend summary
       (mappedChat.fields [] None
         \<lparr>pl_latestPlan = None, pl_latestTurnPlan = None, pl_latestTurnStatus = None, pl_activeTurnId = None\<rparr>
         None None [] [] None)"

definition appendSyntheticUserMessage ::
  "int \<Rightarrow> string \<Rightarrow> mappedChat \<Rightarrow> string \<Rightarrow> turnInputMention list \<Rightarrow> string list \<Rightarrow> mappedChat" where
  "appendSyntheticUserMessage now localId chat content mentions localImages =
     (let normalized = buildExpectedUserMessageContent (trim content) mentions localImages in
      if normalized = [] then chat
      else chat\<lparr>cs_updatedAt := to_iso_string now, cs_lastMessagePreview := take_units 120 normalized,
        cd_messages := cd_messages chat @ [plainMessage localId User (Text normalized) (to_iso_string now)]\<rparr>)"

section \<open>Errors\<close>

datatype apiError =
    RpcFailed rat string
  | ApiFailed string
  | ChatFailed chatError
  | NoObject
  | OtherReply

fun isRpcInvalidParamsError :: "apiError \<Rightarrow> bool" where
  "isRpcInvalidParamsError (RpcFailed code _) = (code = - 32602)"
| "isRpcInvalidParamsError _ = False"

fun error_message :: "apiError \<Rightarrow> string" where
  "error_message (RpcFailed _ message) = message"
| "error_message (ApiFailed message) = message"
| "error_message _ = []"

definition isMaterializationGapError :: "apiError \<Rightarrow> bool" where
  "isMaterializationGapError error \<longleftrightarrow> isRpcInvalidParamsError error
     \<and> has_substring (error_message error) ''includeTurns''
     \<and> (has_substring (error_message error) ''material'' \<or> has_substring (error_message error) ''materialis'')"

definition isTransientThreadReadError :: "apiError \<Rightarrow> bool" where
  "isTransientThreadReadError error =
     (case error of
        RpcFailed code message \<Rightarrow> code = - 32603
          \<and> list_all (has_substring (lower message))
              [''failed to read thread'', ''thread-store internal error'', ''rollout'', ''is empty'']
      | _ \<Rightarrow> False)"

end
