(* ===== verification/AsyncFlow.thy ===== *)
theory AsyncFlow
  imports Prelude
begin

text \<open>
  Asynchronous functions.  An action changes the state and gives a flow: a result or an error, a
  request whose reply goes on in a state that may have changed in between, or a call back that is
  told.  So an action runs without a break up to its next \<open>await\<close>, and what other operations do
  in the meantime is a relation between the states before and after.
\<close>

section \<open>Flows\<close>

text \<open>States, requests, replies, errors and results\<close>

datatype ('s, 'q, 'r, 'e, 'a) flow =
    Done "'e + 'a"
  | Ask 'q "'r \<Rightarrow> 's \<Rightarrow> 's \<times> ('s, 'q, 'r, 'e, 'a) flow"
  | Tell 'q "('s, 'q, 'r, 'e, 'a) flow"

type_synonym ('s, 'q, 'r, 'e, 'a) action = "'s \<Rightarrow> 's \<times> ('s, 'q, 'r, 'e, 'a) flow"

text \<open>A flow followed by what is done with its outcome\<close>

primrec continue ::
  "('s, 'q, 'r, 'e, 'a) flow \<Rightarrow> ('e + 'a \<Rightarrow> ('s, 'q, 'r, 'e, 'b) action) \<Rightarrow> ('s, 'q, 'r, 'e, 'b) action"
  where
  "continue (Done x) = (\<lambda>f s. f x s)"
| "continue (Ask q k) =
     (\<lambda>f s. (s, Ask q (\<lambda>r s'. case map_prod id continue (k r s') of (s'', g) \<Rightarrow> g f s'')))"
| "continue (Tell q m) = (\<lambda>f s. case continue m f s of (s', m') \<Rightarrow> (s', Tell q m'))"

definition settle ::
  "('s, 'q, 'r, 'e, 'a) action \<Rightarrow> ('e + 'a \<Rightarrow> ('s, 'q, 'r, 'e, 'b) action) \<Rightarrow> ('s, 'q, 'r, 'e, 'b) action"
  where
  "settle m f = (\<lambda>s. case m s of (s', m') \<Rightarrow> continue m' f s')"

definition give :: "'a \<Rightarrow> ('s, 'q, 'r, 'e, 'a) action" where
  "give x = (\<lambda>s. (s, Done (Inr x)))"

definition raise :: "'e \<Rightarrow> ('s, 'q, 'r, 'e, 'a) action" where
  "raise e = (\<lambda>s. (s, Done (Inl e)))"

definition outcome :: "'e + 'a \<Rightarrow> ('s, 'q, 'r, 'e, 'a) action" where
  "outcome x = (\<lambda>s. (s, Done x))"

definition ask :: "'q \<Rightarrow> ('r \<Rightarrow> 'e + 'a) \<Rightarrow> ('s, 'q, 'r, 'e, 'a) action" where
  "ask q f = (\<lambda>s. (s, Ask q (\<lambda>r s'. (s', Done (f r)))))"

definition tell :: "'q \<Rightarrow> ('s, 'q, 'r, 'e, unit) action" where
  "tell q = (\<lambda>s. (s, Tell q (Done (Inr ()))))"

definition change :: "('s \<Rightarrow> 's) \<Rightarrow> ('s, 'q, 'r, 'e, unit) action" where
  "change f = (\<lambda>s. (f s, Done (Inr ())))"

definition reading :: "('s \<Rightarrow> ('s, 'q, 'r, 'e, 'a) action) \<Rightarrow> ('s, 'q, 'r, 'e, 'a) action" where
  "reading f = (\<lambda>s. f s s)"

text \<open>\<open>await m\<close> and what follows it, \<open>try m catch h\<close>, and \<open>m.finally(f)\<close>\<close>

definition await ::
  "('s, 'q, 'r, 'e, 'a) action \<Rightarrow> ('a \<Rightarrow> ('s, 'q, 'r, 'e, 'b) action) \<Rightarrow> ('s, 'q, 'r, 'e, 'b) action" where
  "await m f = settle m (case_sum raise f)"

definition attempt ::
  "('s, 'q, 'r, 'e, 'a) action \<Rightarrow> ('e \<Rightarrow> ('s, 'q, 'r, 'e, 'a) action) \<Rightarrow> ('s, 'q, 'r, 'e, 'a) action" where
  "attempt m h = settle m (case_sum h give)"

definition at_last ::
  "('s, 'q, 'r, 'e, 'a) action \<Rightarrow> ('e + 'a \<Rightarrow> 's \<Rightarrow> 's) \<Rightarrow> ('s, 'q, 'r, 'e, 'a) action" where
  "at_last m f = settle m (\<lambda>x s. (f x s, Done x))"

section \<open>Runs\<close>

datatype ('q, 'r) event = Asked 'q 'r | Told 'q

text \<open>
  A run of a flow from a state, with the events in order, the last state and the outcome.  While a
  request is open other operations may take the state to any it is related to by \<open>rely\<close>.
\<close>

inductive runs ::
  "('s \<Rightarrow> 's \<Rightarrow> bool) \<Rightarrow> 's \<times> ('s, 'q, 'r, 'e, 'a) flow \<Rightarrow> ('q, 'r) event list \<Rightarrow> 's \<Rightarrow> 'e + 'a \<Rightarrow> bool"
  for rely :: "'s \<Rightarrow> 's \<Rightarrow> bool" where
  runs_Done: "runs rely (s, Done x) [] s x"
| runs_Ask: "rely s s' \<Longrightarrow> runs rely (k r s') es t x \<Longrightarrow> runs rely (s, Ask q k) (Asked q r # es) t x"
| runs_Tell: "runs rely (s, m) es t x \<Longrightarrow> runs rely (s, Tell q m) (Told q # es) t x"

inductive_simps runs_Done_iff [simp]: "runs rely (s, Done x) es t y"
inductive_simps runs_Ask_iff: "runs rely (s, Ask q k) es t y"
inductive_simps runs_Tell_iff: "runs rely (s, Tell q m) es t y"

text \<open>The runs of a flow followed by something are a run of each.\<close>

lemma runs_continue:
  "runs rely (continue m f s) es t x
     \<longleftrightarrow> (\<exists>es1 es2 u y. es = es1 @ es2 \<and> runs rely (s, m) es1 u y \<and> runs rely (f y u) es2 t x)"
proof (induction m arbitrary: s es)
  case (Done y)
  then show ?case by auto
next
  case (Ask q k)
  have step: "runs rely (case map_prod id continue (k r s') of (s'', g) \<Rightarrow> g f s'') es' t x
      \<longleftrightarrow> (\<exists>es1 es2 u y. es' = es1 @ es2 \<and> runs rely (k r s') es1 u y \<and> runs rely (f y u) es2 t x)"
    for r s' es'
  proof (cases "k r s'")
    case (Pair u n)
    have "(u, n) \<in> range (k r)" using Pair by (metis rangeI)
    then have "runs rely (continue n f u) es' t x
        \<longleftrightarrow> (\<exists>es1 es2 v y. es' = es1 @ es2 \<and> runs rely (u, n) es1 v y \<and> runs rely (f y v) es2 t x)"
      by (intro Ask.IH [of "k r" "(u, n)"]) simp_all
    with Pair show ?thesis by simp
  qed
  show ?case (is "?l \<longleftrightarrow> ?r")
  proof
    assume ?l
    then obtain s' r es' where "rely s s'" "es = Asked q r # es'"
        and "runs rely (case map_prod id continue (k r s') of (s'', g) \<Rightarrow> g f s'') es' t x"
      by (auto simp: runs_Ask_iff)
    with step obtain es1 es2 u y where "rely s s'" "es = (Asked q r # es1) @ es2"
        "runs rely (k r s') es1 u y" "runs rely (f y u) es2 t x" by fastforce
    then show ?r by (metis runs_Ask)
  next
    assume ?r
    then obtain r s' es1 es2 u y where "rely s s'" "es = Asked q r # es1 @ es2"
        and "runs rely (k r s') es1 u y" "runs rely (f y u) es2 t x"
      by (auto simp: runs_Ask_iff)
    moreover from this step
    have "runs rely (case map_prod id continue (k r s') of (s'', g) \<Rightarrow> g f s'') (es1 @ es2) t x" by blast
    ultimately show ?l by (simp add: runs_Ask)
  qed
next
  case (Tell q m)
  have step: "runs rely (continue m f s) es' t x
      \<longleftrightarrow> (\<exists>es1 es2 u y. es' = es1 @ es2 \<and> runs rely (s, m) es1 u y \<and> runs rely (f y u) es2 t x)" for es'
    by (rule Tell)
  obtain s' m' where m': "continue m f s = (s', m')" by fastforce
  show ?case (is "?l \<longleftrightarrow> ?r")
  proof
    assume ?l
    then obtain es' where "es = Told q # es'" "runs rely (continue m f s) es' t x"
      by (auto simp: m' runs_Tell_iff)
    with step obtain es1 es2 u y where "es = (Told q # es1) @ es2"
        "runs rely (s, m) es1 u y" "runs rely (f y u) es2 t x" by fastforce
    then show ?r by (metis runs_Tell)
  next
    assume ?r
    then obtain es1 es2 u y where "es = Told q # es1 @ es2"
        and "runs rely (s, m) es1 u y" "runs rely (f y u) es2 t x"
      by (auto simp: runs_Tell_iff)
    with step have "es = Told q # es1 @ es2" "runs rely (s', m') (es1 @ es2) t x" by (metis m')+
    then show ?l by (simp add: m' runs_Tell)
  qed
qed

named_theorems run_laws

lemma runs_settle [run_laws]:
  "runs rely (settle m f s) es t x
     \<longleftrightarrow> (\<exists>es1 es2 u y. es = es1 @ es2 \<and> runs rely (m s) es1 u y \<and> runs rely (f y u) es2 t x)"
  by (cases "m s") (simp add: settle_def runs_continue)

lemma runs_give [run_laws]: "runs rely (give v s) es t x \<longleftrightarrow> es = [] \<and> t = s \<and> x = Inr v"
  by (auto simp: give_def)

lemma runs_raise [run_laws]: "runs rely (raise e s) es t x \<longleftrightarrow> es = [] \<and> t = s \<and> x = Inl e"
  by (auto simp: raise_def)

lemma runs_outcome [run_laws]: "runs rely (outcome y s) es t x \<longleftrightarrow> es = [] \<and> t = s \<and> x = y"
  by (auto simp: outcome_def)

lemma runs_change [run_laws]: "runs rely (change f s) es t x \<longleftrightarrow> es = [] \<and> t = f s \<and> x = Inr ()"
  by (auto simp: change_def)

lemma runs_tell [run_laws]: "runs rely (tell q s) es t x \<longleftrightarrow> es = [Told q] \<and> t = s \<and> x = Inr ()"
  by (auto simp: tell_def runs_Tell_iff)

lemma runs_reading [run_laws]: "runs rely (reading g s) es t x \<longleftrightarrow> runs rely (g s s) es t x"
  by (simp add: reading_def)

lemma runs_ask [run_laws]:
  "runs rely (ask q f s) es t x \<longleftrightarrow> (\<exists>r. es = [Asked q r] \<and> rely s t \<and> x = f r)"
  by (auto simp: ask_def runs_Ask_iff)

lemma runs_await [run_laws]:
  "runs rely (await m f s) es t x
     \<longleftrightarrow> (\<exists>e. runs rely (m s) es t (Inl e) \<and> x = Inl e)
       \<or> (\<exists>es1 es2 u y. es = es1 @ es2 \<and> runs rely (m s) es1 u (Inr y) \<and> runs rely (f y u) es2 t x)"
  (is "_ \<longleftrightarrow> ?error \<or> ?goes_on")
proof
  assume "runs rely (await m f s) es t x"
  then obtain es1 es2 u y where *: "es = es1 @ es2" "runs rely (m s) es1 u y"
      "runs rely (case_sum raise f y u) es2 t x"
    unfolding await_def runs_settle by blast
  show "?error \<or> ?goes_on"
  proof (cases y)
    case (Inl e)
    with * show ?thesis by (simp add: runs_raise)
  next
    case (Inr v)
    with * show ?thesis by auto
  qed
next
  assume "?error \<or> ?goes_on"
  then show "runs rely (await m f s) es t x"
  proof
    assume ?error
    then obtain e where "runs rely (m s) es t (Inl e)" "x = Inl e" by blast
    moreover have "runs rely (case_sum raise f (Inl e) t) [] t (Inl e)" by (simp add: runs_raise)
    ultimately show ?thesis unfolding await_def runs_settle by (metis append_Nil2)
  next
    assume ?goes_on
    then obtain es1 es2 u y where "es = es1 @ es2" "runs rely (m s) es1 u (Inr y)"
        "runs rely (case_sum raise f (Inr y) u) es2 t x" by auto
    then show ?thesis unfolding await_def runs_settle by blast
  qed
qed

lemma runs_awaitI:
  "runs rely (m s) es1 u (Inr y) \<Longrightarrow> runs rely (f y u) es2 t x \<Longrightarrow> runs rely (await m f s) (es1 @ es2) t x"
  unfolding runs_await by blast

lemma runs_attempt [run_laws]:
  "runs rely (attempt m h s) es t x
     \<longleftrightarrow> (\<exists>y. runs rely (m s) es t (Inr y) \<and> x = Inr y)
       \<or> (\<exists>es1 es2 u e. es = es1 @ es2 \<and> runs rely (m s) es1 u (Inl e) \<and> runs rely (h e u) es2 t x)"
  (is "_ \<longleftrightarrow> ?done \<or> ?handled")
proof
  assume "runs rely (attempt m h s) es t x"
  then obtain es1 es2 u y where *: "es = es1 @ es2" "runs rely (m s) es1 u y"
      "runs rely (case_sum h give y u) es2 t x"
    unfolding attempt_def runs_settle by blast
  show "?done \<or> ?handled"
  proof (cases y)
    case (Inl e)
    with * show ?thesis by auto
  next
    case (Inr v)
    with * show ?thesis by (simp add: runs_give)
  qed
next
  assume "?done \<or> ?handled"
  then show "runs rely (attempt m h s) es t x"
  proof
    assume ?done
    then obtain y where "runs rely (m s) es t (Inr y)" "x = Inr y" by blast
    moreover have "runs rely (case_sum h give (Inr y) t) [] t (Inr y)" by (simp add: runs_give)
    ultimately show ?thesis unfolding attempt_def runs_settle by (metis append_Nil2)
  next
    assume ?handled
    then obtain es1 es2 u e where "es = es1 @ es2" "runs rely (m s) es1 u (Inl e)"
        "runs rely (case_sum h give (Inl e) u) es2 t x" by auto
    then show ?thesis unfolding attempt_def runs_settle by blast
  qed
qed

lemma runs_at_last [run_laws]:
  "runs rely (at_last m f s) es t x \<longleftrightarrow> (\<exists>u. runs rely (m s) es u x \<and> t = f x u)"
  by (auto simp: at_last_def runs_settle)

text \<open>A run in which nothing else happens, from the replies in order\<close>

primrec replay ::
  "('s, 'q, 'r, 'e, 'a) flow \<Rightarrow> 'r list \<Rightarrow> 's \<Rightarrow> (('q, 'r) event list \<times> 's \<times> ('e + 'a)) option" where
  "replay (Done x) = (\<lambda>rs s. if rs = [] then Some ([], s, x) else None)"
| "replay (Ask q k) =
     (\<lambda>rs s. case rs of
        [] \<Rightarrow> None
      | r # rs' \<Rightarrow> (case map_prod id replay (k r s) of
            (u, g) \<Rightarrow> map_option (\<lambda>(es, t, x). (Asked q r # es, t, x)) (g rs' u)))"
| "replay (Tell q m) = (\<lambda>rs s. map_option (\<lambda>(es, t, x). (Told q # es, t, x)) (replay m rs s))"

definition play ::
  "('s, 'q, 'r, 'e, 'a) action \<Rightarrow> 's \<Rightarrow> 'r list \<Rightarrow> (('q, 'r) event list \<times> 's \<times> ('e + 'a)) option" where
  "play m s rs = (case m s of (u, f) \<Rightarrow> replay f rs u)"

lemma replay_runs:
  assumes "reflp rely"
  shows "replay m rs s = Some (es, t, x) \<Longrightarrow> runs rely (s, m) es t x"
proof (induction m arbitrary: rs s es)
  case (Done y)
  then show ?case by (auto split: if_splits)
next
  case (Ask q k)
  then obtain r rs' where rs: "rs = r # rs'" by (cases rs) auto
  obtain u n where n: "k r s = (u, n)" by fastforce
  from Ask.prems rs n obtain es' where *: "rs = r # rs'" "k r s = (u, n)" "es = Asked q r # es'"
      "replay n rs' u = Some (es', t, x)"
    by auto
  have "(u, n) \<in> range (k r)" using *(2) by (metis rangeI)
  then have "runs rely (u, n) es' t x"
    using *(4) by (intro Ask.IH [of "k r" "(u, n)" n rs' u es']) simp_all
  with * assms show ?case by (auto simp: runs_Ask_iff reflp_def)
next
  case (Tell q m)
  then show ?case by (auto simp: runs_Tell_iff)
qed

lemma play_runs: "play m s rs = Some (es, t, x) \<Longrightarrow> reflp rely \<Longrightarrow> runs rely (m s) es t x"
  by (auto simp: play_def replay_runs split: prod.splits)

section \<open>Invariants\<close>

text \<open>
  \<open>kept I m\<close>: when the operations in between keep the invariant, so does every run of \<open>m\<close>.  Every
  operation of a component that keeps its invariant may then run at the same time as the others.
\<close>

definition kept :: "('s \<Rightarrow> bool) \<Rightarrow> ('s, 'q, 'r, 'e, 'a) action \<Rightarrow> bool" where
  "kept I m \<longleftrightarrow> (\<forall>s es t x. I s \<longrightarrow> runs (\<lambda>s s'. I s \<longrightarrow> I s') (m s) es t x \<longrightarrow> I t)"

named_theorems kept_intros

lemma kept_settle: "kept I m \<Longrightarrow> (\<And>x. kept I (f x)) \<Longrightarrow> kept I (settle m f)"
  unfolding kept_def runs_settle by metis

lemma kept_give [kept_intros]: "kept I (give x)"
  by (auto simp: kept_def run_laws)

lemma kept_raise [kept_intros]: "kept I (raise e)"
  by (auto simp: kept_def run_laws)

lemma kept_outcome [kept_intros]: "kept I (outcome y)"
  by (auto simp: kept_def run_laws)

lemma kept_tell [kept_intros]: "kept I (tell q)"
  by (auto simp: kept_def run_laws)

lemma kept_ask [kept_intros]: "kept I (ask q f)"
  by (auto simp: kept_def run_laws)

lemma kept_change [kept_intros]: "(\<And>s. I s \<Longrightarrow> I (f s)) \<Longrightarrow> kept I (change f)"
  by (auto simp: kept_def run_laws)

lemma kept_reading [kept_intros]: "(\<And>s. kept I (g s)) \<Longrightarrow> kept I (reading g)"
  unfolding kept_def runs_reading by blast

lemma kept_await [kept_intros]: "kept I m \<Longrightarrow> (\<And>x. kept I (f x)) \<Longrightarrow> kept I (await m f)"
  unfolding await_def by (rule kept_settle) (simp_all add: kept_raise split: sum.split)

lemma kept_attempt [kept_intros]: "kept I m \<Longrightarrow> (\<And>e. kept I (h e)) \<Longrightarrow> kept I (attempt m h)"
  unfolding attempt_def by (rule kept_settle) (simp_all add: kept_give split: sum.split)

lemma kept_at_last [kept_intros]:
  "kept I m \<Longrightarrow> (\<And>x s. I s \<Longrightarrow> I (f x s)) \<Longrightarrow> kept I (at_last m f)"
  unfolding kept_def runs_at_last by metis

section \<open>What is asked\<close>

text \<open>
  A bound on the total weight of the events of every run, whatever the replies and whatever happens
  in between.
\<close>

definition costs :: "(('q, 'r) event \<Rightarrow> nat) \<Rightarrow> nat \<Rightarrow> ('s, 'q, 'r, 'e, 'a) action \<Rightarrow> bool" where
  "costs c n m \<longleftrightarrow> (\<forall>rely s es t x. runs rely (m s) es t x \<longrightarrow> sum_list (map c es) \<le> n)"

named_theorems cost_intros

lemma costs_mono: "costs c k m \<Longrightarrow> k \<le> n \<Longrightarrow> costs c n m"
  unfolding costs_def by (meson order_trans)

lemma costs_give [cost_intros]: "costs c n (give x)"
  by (simp add: costs_def run_laws)

lemma costs_raise [cost_intros]: "costs c n (raise e)"
  by (simp add: costs_def run_laws)

lemma costs_outcome [cost_intros]: "costs c n (outcome y)"
  by (simp add: costs_def run_laws)

lemma costs_change [cost_intros]: "costs c n (change f)"
  by (simp add: costs_def run_laws)

lemma costs_tell [cost_intros]: "c (Told q) \<le> n \<Longrightarrow> costs c n (tell q)"
  by (simp add: costs_def run_laws)

lemma costs_ask [cost_intros]: "(\<And>r. c (Asked q r) \<le> n) \<Longrightarrow> costs c n (ask q f)"
  by (auto simp: costs_def run_laws)

lemma costs_reading [cost_intros]: "(\<And>s. costs c n (g s)) \<Longrightarrow> costs c n (reading g)"
  unfolding costs_def runs_reading by blast

lemma costs_settle: "costs c a m \<Longrightarrow> (\<And>x. costs c b (f x)) \<Longrightarrow> costs c (a + b) (settle m f)"
  unfolding costs_def runs_settle by (clarsimp, rule add_mono, blast+)

lemma costs_await: "costs c a m \<Longrightarrow> (\<And>x. costs c b (f x)) \<Longrightarrow> costs c (a + b) (await m f)"
  unfolding await_def by (rule costs_settle) (auto intro: costs_raise split: sum.split)

lemma costs_attempt: "costs c a m \<Longrightarrow> (\<And>e. costs c b (h e)) \<Longrightarrow> costs c (a + b) (attempt m h)"
  unfolding attempt_def by (rule costs_settle) (auto intro: costs_give split: sum.split)

lemma costs_at_last [cost_intros]: "costs c n m \<Longrightarrow> costs c n (at_last m f)"
  unfolding costs_def runs_at_last by blast

text \<open>Nothing of weight happens.\<close>

lemmas costs_await_0 = costs_await [where a = 0 and b = 0, simplified]
lemmas costs_attempt_0 = costs_attempt [where a = 0 and b = 0, simplified]
lemmas costs_settle_0 = costs_settle [where a = 0 and b = 0, simplified]

lemma costs_0: "costs c 0 m \<Longrightarrow> runs rely (m s) es t x \<Longrightarrow> ev \<in> set es \<Longrightarrow> c ev = 0"
proof -
  assume "costs c 0 m" "runs rely (m s) es t x" "ev \<in> set es"
  then have "sum_list (map c es) = 0" unfolding costs_def by (metis le_zero_eq)
  with \<open>ev \<in> set es\<close> show "c ev = 0" by simp
qed

end
