(* ===== verification/ApiClient.thy ===== *)
theory ApiClient
  imports TurnInput SnapshotPages AsyncFlow JsSort
begin

text \<open>
  The client the screens call, one class in layers: \<open>api/HostBridgeApiClientHealthAndCacheLayer.ts\<close>,
  \<open>HostBridgeApiClientChatListingLayer.ts\<close> and the reads of
  \<open>HostBridgeApiClientWorkspaceAndChatReadLayer.ts\<close> and \<open>HostBridgeApiClientTurnPreparationLayer.ts\<close>,
  with the helpers of \<open>api/clientChatListInternals.ts\<close>.  A method that awaits is an action: its
  requests to the bridge, its sleeps and the promises of others it waits for are what it asks.  A
  clone has the value of what it clones.  The clock of the client is set by what happens between
  steps; \<open>ev_localId\<close> are the ids made up for what has none, \<open>ev_compare\<close> is \<open>localeCompare\<close>.
\<close>

section \<open>State\<close>

record apiEnv =
  ev_otherDate :: "string \<Rightarrow> int option"
  ev_localId :: "nat \<Rightarrow> nat \<Rightarrow> string"
  ev_compare :: "string \<Rightarrow> string \<Rightarrow> int"

record listOptions =
  lo_agentId :: "string option"
  lo_includeSubAgents :: bool
  lo_limit :: "rat option"
  lo_cacheTtlMs :: "rat option"
  lo_forceRefresh :: bool

record allOptions =
  ao_includeSubAgents :: bool
  ao_pageLimit :: "rat option"
  ao_cacheTtlMs :: "rat option"
  ao_forceRefresh :: bool
  ao_onPage :: bool

record chatReadOptions =
  ko_cacheTtlMs :: "rat option"
  ko_forceRefresh :: bool

record chatListPage =
  gp_chats :: "chatSummary list"
  gp_nextCursor :: "string option"
  gp_backwardsCursor :: "string option"
  gp_diagnostics :: "string list"
  gp_partial :: bool

record chatListResult =
  gr_chats :: "chatSummary list"
  gr_diagnostics :: "string list"
  gr_partial :: bool

record apiClient =
  ac_now :: int
  ac_ids :: nat
  ac_submissions :: nat
  ac_promises :: nat
  ac_renamedTitles :: "(string \<times> string) list"
  ac_chatListCache :: "(string \<times> chatSummary list \<times> int) list"
  ac_allChatListCache :: "(string \<times> chatListResult \<times> int) list"
  ac_chatCache :: "(string \<times> mappedChat \<times> int) list"
  ac_chatListInFlight :: "(string \<times> nat) list"
  ac_allChatListInFlight :: "(string \<times> nat) list"
  ac_chatInFlight :: "(string \<times> nat) list"
  ac_streams :: "string list"

text \<open>What a promise others wait for may settle with\<close>

datatype apiValue =
    Json jsv
  | Woken
  | ChatsValue "chatSummary list"
  | ListValue chatListResult
  | ChatValue mappedChat

datatype apiCall =
    Rpc string jsv
  | SleepFor nat
  | JoinPromise nat
  | Settled nat "apiError + apiValue"
  | PageShown "chatSummary list" chatListPage
  | TurnStarted string
  | Upload string string jsv

type_synonym 'a call = "(apiClient, apiCall, apiError + apiValue, apiError, 'a) action"

definition rpc :: "string \<Rightarrow> jsv \<Rightarrow> jsv call" where
  "rpc name params = ask (Rpc name params) (\<lambda>reply. case reply of
      Inr (Json v) \<Rightarrow> Inr v | Inr _ \<Rightarrow> Inl OtherReply | Inl e \<Rightarrow> Inl e)"

definition sleep :: "nat \<Rightarrow> unit call" where
  "sleep ms = ask (SleepFor ms) (\<lambda>reply. Inr ())"

text \<open>A method that does not await\<close>

definition sync :: "(apiClient \<Rightarrow> apiClient \<times> (apiError + 'a)) \<Rightarrow> 'a call" where
  "sync f = (\<lambda>s. case f s of (t, x) \<Rightarrow> (t, Done x))"

text \<open>Reading a property of a response, which throws for \<open>null\<close> and \<open>undefined\<close>\<close>

definition response_record :: "jsv \<Rightarrow> apiError + jobj" where
  "response_record response =
     (if nullish response then Inl NoObject else Inr (case response of JObj kvs \<Rightarrow> kvs | _ \<Rightarrow> []))"

section \<open>Lists of chats\<close>

definition DEFAULT_CHAT_LIST_LIMIT :: int where "DEFAULT_CHAT_LIST_LIMIT = 20"
definition DEFAULT_SUB_AGENT_CHAT_LIST_LIMIT :: int where "DEFAULT_SUB_AGENT_CHAT_LIST_LIMIT = 50"
definition CHAT_LIST_STREAM_INITIAL_LIMIT :: int where "CHAT_LIST_STREAM_INITIAL_LIMIT = 5"
definition MAX_CHAT_LIST_PAGES :: nat where "MAX_CHAT_LIST_PAGES = 32"
definition DEFAULT_PREFETCH_CACHE_TTL_MS :: rat where "DEFAULT_PREFETCH_CACHE_TTL_MS = 30000"

definition isSubAgentSource :: "string option \<Rightarrow> bool" where
  "isSubAgentSource sourceKind \<longleftrightarrow> (case sourceKind of Some k \<Rightarrow> starts_with k ''subAgent'' | None \<Rightarrow> False)"

definition normalizeListLimit :: "rat option \<Rightarrow> int" where
  "normalizeListLimit limit =
     (case limit of
        Some q \<Rightarrow> if finite_number q then max 1 (min 200 (js_round q)) else DEFAULT_CHAT_LIST_LIMIT
      | None \<Rightarrow> DEFAULT_CHAT_LIST_LIMIT)"

definition normalizeCursor :: "string option \<Rightarrow> string option" where
  "normalizeCursor cursor = non_empty (map_option trim cursor)"

definition normalizeUniqueThreadIds :: "string list \<Rightarrow> string list" where
  "normalizeUniqueThreadIds ids = unique_by (\<lambda>i. i) (filter (\<lambda>i. i \<noteq> []) (map trim ids))"

definition normalizeConcurrency :: "rat option \<Rightarrow> int \<Rightarrow> int \<Rightarrow> int" where
  "normalizeConcurrency value fallback most =
     (case value of
        Some q \<Rightarrow> if finite_number q then max 1 (min most (js_round q)) else fallback
      | None \<Rightarrow> fallback)"

definition normalizeChatListStreamLimits :: "rat list option \<Rightarrow> int \<Rightarrow> int list" where
  "normalizeChatListStreamLimits limits fallbackLimit =
     (let raw = (case limits of Some ls \<Rightarrow> ls
            | None \<Rightarrow> [of_int CHAT_LIST_STREAM_INITIAL_LIMIT, of_int fallbackLimit]);
          normalized = unique_by (\<lambda>i. i) (map (\<lambda>l. normalizeListLimit (Some l)) raw)
      in if normalized \<noteq> [] then normalized else [normalizeListLimit (Some (of_int fallbackLimit))])"

text \<open>\<open>xs.sort((left, right) => right.updatedAt.localeCompare(left.updatedAt))\<close>\<close>

definition newest_first :: "(string \<Rightarrow> string \<Rightarrow> int) \<Rightarrow> chatSummary list \<Rightarrow> chatSummary list" where
  "newest_first compare chats = sort_by (\<lambda>l r. compare (cs_updatedAt r) (cs_updatedAt l)) chats"

definition byId :: "chatSummary list \<Rightarrow> (string \<times> chatSummary) list" where
  "byId chats = fold (\<lambda>chat. AList.update (cs_id chat) chat) chats []"

definition mergeChatSummariesById ::
  "(string \<Rightarrow> string \<Rightarrow> int) \<Rightarrow> chatSummary list \<Rightarrow> chatSummary list \<Rightarrow> chatSummary list" where
  "mergeChatSummariesById compare previous incoming =
     newest_first compare (map snd (byId (previous @ incoming)))"

definition list_limit :: "bool \<Rightarrow> rat option \<Rightarrow> int" where
  "list_limit includeSubAgents limit =
     normalizeListLimit (or_else limit (Some (of_int
       (if includeSubAgents then DEFAULT_SUB_AGENT_CHAT_LIST_LIMIT else DEFAULT_CHAT_LIST_LIMIT))))"

definition chatListCacheKey :: "listOptions \<Rightarrow> string" where
  "chatListCacheKey opts =
     (if lo_includeSubAgents opts then ''with-subagents'' else ''default'') @ '':''
     @ show_int (list_limit (lo_includeSubAgents opts) (lo_limit opts))"

definition allChatListCacheKey :: "allOptions \<Rightarrow> string" where
  "allChatListCacheKey opts = (if ao_includeSubAgents opts then ''with-subagents'' else ''default'')"

section \<open>Caches\<close>

definition mergeIntoAllChatListCaches :: "apiEnv \<Rightarrow> chatSummary list \<Rightarrow> apiClient \<Rightarrow> apiClient" where
  "mergeIntoAllChatListCaches env chats s =
     s\<lparr>ac_allChatListCache := map (\<lambda>(key, value, loadedAt).
         (key, value\<lparr>gr_chats := mergeChatSummariesById (ev_compare env) (gr_chats value) chats\<rparr>, loadedAt))
       (ac_allChatListCache s)\<rparr>"

definition peekChats :: "listOptions \<Rightarrow> apiClient \<Rightarrow> chatSummary list option" where
  "peekChats opts s = map_option fst (map_of (ac_chatListCache s) (chatListCacheKey opts))"

definition rememberChats :: "apiEnv \<Rightarrow> chatSummary list \<Rightarrow> listOptions \<Rightarrow> apiClient \<Rightarrow> apiClient" where
  "rememberChats env chats opts s =
     (let s1 = s\<lparr>ac_chatListCache := AList.update (chatListCacheKey opts) (chats, ac_now s) (ac_chatListCache s)\<rparr>
      in if chats \<noteq> [] then mergeIntoAllChatListCaches env chats s1 else s1)"

definition peekAllChats :: "allOptions \<Rightarrow> apiClient \<Rightarrow> chatSummary list option" where
  "peekAllChats opts s =
     map_option (\<lambda>(value, _). gr_chats value) (map_of (ac_allChatListCache s) (allChatListCacheKey opts))"

definition rememberAllChats :: "chatSummary list \<Rightarrow> allOptions \<Rightarrow> apiClient \<Rightarrow> apiClient" where
  "rememberAllChats chats opts s =
     s\<lparr>ac_allChatListCache := AList.update (allChatListCacheKey opts)
         (\<lparr>gr_chats = chats, gr_diagnostics = [], gr_partial = False\<rparr>, ac_now s) (ac_allChatListCache s)\<rparr>"

definition peekChat :: "string \<Rightarrow> apiClient \<Rightarrow> mappedChat option" where
  "peekChat i s = map_option fst (map_of (ac_chatCache s) (trim i))"

definition summary_of :: "mappedChat \<Rightarrow> chatSummary" where
  "summary_of chat = chatSummary.truncate chat"

definition with_id :: "string \<Rightarrow> chatSummary list \<Rightarrow> chatSummary option" where
  "with_id i chats = find (\<lambda>chat. cs_id chat = i) chats"

definition peekChatSummary :: "string \<Rightarrow> apiClient \<Rightarrow> chatSummary option" where
  "peekChatSummary i s =
     (let threadId = trim i in
      if threadId = [] then None
      else case map_of (ac_chatCache s) threadId of
        Some (chat, _) \<Rightarrow> Some (summary_of chat)
      | None \<Rightarrow> first_some
          (map (\<lambda>(_, chats, _). with_id threadId chats) (ac_chatListCache s)
           @ map (\<lambda>(_, value, _). with_id threadId (gr_chats value)) (ac_allChatListCache s)))"

definition peekChatShell :: "string \<Rightarrow> apiClient \<Rightarrow> mappedChat option" where
  "peekChatShell i s =
     (case peekChat i s of Some chat \<Rightarrow> Some chat | None \<Rightarrow> map_option chatShellFromSummary (peekChatSummary i s))"

text \<open>The first chat with the id of a chat is replaced by it.\<close>

fun replaceFirst :: "chatSummary \<Rightarrow> chatSummary list \<Rightarrow> chatSummary list" where
  "replaceFirst chat [] = []"
| "replaceFirst chat (c # cs) = (if cs_id c = cs_id chat then chat # cs else c # replaceFirst chat cs)"

definition rememberChat :: "mappedChat \<Rightarrow> apiClient \<Rightarrow> apiClient" where
  "rememberChat chat s =
     s\<lparr>ac_chatCache := AList.update (cs_id chat) (chat, ac_now s) (ac_chatCache s),
       ac_chatListCache := map (\<lambda>(key, chats, loadedAt). (key, replaceFirst (summary_of chat) chats, loadedAt))
         (ac_chatListCache s),
       ac_allChatListCache := map (\<lambda>(key, value, loadedAt).
           (key, value\<lparr>gr_chats := replaceFirst (summary_of chat) (gr_chats value)\<rparr>, loadedAt))
         (ac_allChatListCache s)\<rparr>"

text \<open>What a cache has for a key when it is young enough\<close>

definition fresh_entry :: "bool \<Rightarrow> rat option \<Rightarrow> int \<Rightarrow> ('v \<times> int) option \<Rightarrow> 'v option" where
  "fresh_entry forceRefresh cacheTtlMs now cached =
     (let ttl = max 0 (with_default cacheTtlMs 0) in
      case cached of
        Some (value, loadedAt) \<Rightarrow>
          if \<not> forceRefresh \<and> ttl > 0 \<and> of_int (now - loadedAt) \<le> ttl then Some value else None
      | None \<Rightarrow> None)"

section \<open>Titles\<close>

definition rememberRawThreadTitle :: "rawThread \<Rightarrow> apiClient \<Rightarrow> apiClient" where
  "rememberRawThreadTitle raw s =
     (case (non_empty (map_option trim (th_id raw)), non_empty (map_option trim (th_name raw))) of
        (Some threadId, Some title) \<Rightarrow>
          s\<lparr>ac_renamedTitles := AList.update threadId title (ac_renamedTitles s)\<rparr>
      | _ \<Rightarrow> s)"

definition applyRememberedTitle :: "'a chatSummary_scheme \<Rightarrow> apiClient \<Rightarrow> 'a chatSummary_scheme" where
  "applyRememberedTitle mapped s =
     (case non_empty (map_of (ac_renamedTitles s) (cs_id mapped)) of
        Some title \<Rightarrow> mapped\<lparr>cs_title := title\<rparr> | None \<Rightarrow> mapped)"

definition mapChatWithCachedTitle :: "apiEnv \<Rightarrow> rawThread \<Rightarrow> apiClient \<Rightarrow> apiClient \<times> (apiError + mappedChat)" where
  "mapChatWithCachedTitle env raw s =
     (let s1 = rememberRawThreadTitle raw (s\<lparr>ac_ids := ac_ids s + 1\<rparr>) in
      case mapChat (ev_otherDate env) (ev_localId env (ac_ids s)) raw of
        Inl e \<Rightarrow> (s1, Inl (ChatFailed e))
      | Inr mapped \<Rightarrow> let chat = applyRememberedTitle mapped s1 in (rememberChat chat s1, Inr chat))"

end
