(* ===== verification/ApiReads.thy ===== *)
theory ApiReads
  imports ApiClient
begin

text \<open>
  The methods of the client that list and read chats: listing with caches and shared requests,
  listing all pages, the stream of batches, reading a thread with its retries.
\<close>

section \<open>Shared requests\<close>

text \<open>
  A request under way under a key has a promise.  Who asks for the key meanwhile waits for it; who
  started it takes the key away when it ends and settles the promise with its outcome.
\<close>

definition joining :: "(apiValue \<Rightarrow> 'a option) \<Rightarrow> nat \<Rightarrow> 'a call" where
  "joining pick p = ask (JoinPromise p) (\<lambda>reply. case reply of
      Inl e \<Rightarrow> Inl e
    | Inr v \<Rightarrow> (case pick v of Some x \<Rightarrow> Inr x | None \<Rightarrow> Inl OtherReply))"

definition shared_request ::
  "(apiClient \<Rightarrow> (string \<times> nat) list) \<Rightarrow> (((string \<times> nat) list \<Rightarrow> (string \<times> nat) list) \<Rightarrow> apiClient \<Rightarrow> apiClient)
     \<Rightarrow> ('a \<Rightarrow> apiValue) \<Rightarrow> (apiValue \<Rightarrow> 'a option) \<Rightarrow> string \<Rightarrow> 'a call \<Rightarrow> 'a call" where
  "shared_request inFlight update value pick key request =
     reading (\<lambda>s. case map_of (inFlight s) key of
         Some p \<Rightarrow> joining pick p
       | None \<Rightarrow>
           let p = ac_promises s in
           await (change (\<lambda>s. update (AList.update key p) (s\<lparr>ac_promises := p + 1\<rparr>)))
             (\<lambda>_. settle (at_last request (\<lambda>_. update (AList.delete key)))
               (\<lambda>x. await (tell (Settled p (map_sum (\<lambda>e. e) value x))) (\<lambda>_. outcome x))))"

fun chats_value :: "apiValue \<Rightarrow> chatSummary list option" where
  "chats_value (ChatsValue v) = Some v" | "chats_value _ = None"

fun list_value :: "apiValue \<Rightarrow> chatListResult option" where
  "list_value (ListValue v) = Some v" | "list_value _ = None"

fun chat_value :: "apiValue \<Rightarrow> mappedChat option" where
  "chat_value (ChatValue v) = Some v" | "chat_value _ = None"

section \<open>Listing\<close>

definition CHAT_LIST_SOURCE_KINDS :: "string list" where
  "CHAT_LIST_SOURCE_KINDS = [''cli'', ''vscode'', ''exec'', ''appServer'', ''unknown'']"

definition CHAT_LIST_SOURCE_KINDS_WITH_SUBAGENTS :: "string list" where
  "CHAT_LIST_SOURCE_KINDS_WITH_SUBAGENTS = CHAT_LIST_SOURCE_KINDS @
     [''subAgent'', ''subAgentReview'', ''subAgentCompact'', ''subAgentThreadSpawn'', ''subAgentOther'']"

definition string_or_null :: "string option \<Rightarrow> jsv" where
  "string_or_null s = (case s of Some x \<Rightarrow> JStr x | None \<Rightarrow> JNull)"

text \<open>The summaries of the items in order; the titles of those before one that throws are kept.\<close>

fun mapItems :: "apiEnv \<Rightarrow> jsv list \<Rightarrow> apiClient \<Rightarrow> apiClient \<times> (apiError + chatSummary list)" where
  "mapItems env [] s = (s, Inr [])"
| "mapItems env (item # items) s =
     (let raw = toRawThread (ev_otherDate env) item; s1 = rememberRawThreadTitle raw s in
      case mapChatSummary raw of
        Inl e \<Rightarrow> (s1, Inl (ChatFailed e))
      | Inr mapped \<Rightarrow>
          (case mapItems env items s1 of
             (s2, Inl e) \<Rightarrow> (s2, Inl e)
           | (s2, Inr rest) \<Rightarrow>
               (s2, Inr ((case mapped of Some m \<Rightarrow> [applyRememberedTitle m s1] | None \<Rightarrow> []) @ rest))))"

definition mapChatListItems ::
  "apiEnv \<Rightarrow> jsv list \<Rightarrow> bool \<Rightarrow> apiClient \<Rightarrow> apiClient \<times> (apiError + chatSummary list)" where
  "mapChatListItems env listRaw includeSubAgents s =
     (case mapItems env listRaw s of
        (s1, Inl e) \<Rightarrow> (s1, Inl e)
      | (s1, Inr items) \<Rightarrow> (s1, Inr (newest_first (ev_compare env)
          (filter (\<lambda>item. includeSubAgents \<or> \<not> isSubAgentSource (cs_sourceKind item)) items))))"

definition chatPageParams :: "listOptions \<Rightarrow> string option \<Rightarrow> jsv" where
  "chatPageParams opts cursor = JObj
     [(''cursor'', string_or_null (normalizeCursor cursor)),
      (''limit'', JNum (of_int (list_limit (lo_includeSubAgents opts) (lo_limit opts)))),
      (''sortKey'', JStr ''updated_at''), (''modelProviders'', JNull),
      (''sourceKinds'', JArr (map JStr (if lo_includeSubAgents opts
         then CHAT_LIST_SOURCE_KINDS_WITH_SUBAGENTS else CHAT_LIST_SOURCE_KINDS))),
      (''archived'', JBool False), (''cwd'', JNull),
      (''agentId'', case lo_agentId opts of Some a \<Rightarrow> JStr a | None \<Rightarrow> JUndefined)]"

definition readChatPage :: "apiEnv \<Rightarrow> bool \<Rightarrow> jsv \<Rightarrow> apiClient \<Rightarrow> apiClient \<times> (apiError + chatListPage)" where
  "readChatPage env includeSubAgents response s =
     (case response_record response of
        Inl e \<Rightarrow> (s, Inl e)
      | Inr r \<Rightarrow>
          let field = (\<lambda>k k'. or_else (as_string (prop_of r k)) (as_string (prop_of r k')));
              diagnostics = as_array (prop_of r ''diagnostics'')
          in map_prod id (map_sum (\<lambda>e. e) (\<lambda>chats.
               \<lparr>gp_chats = chats, gp_nextCursor = field ''nextCursor'' ''next_cursor'',
                gp_backwardsCursor = field ''backwardsCursor'' ''backwards_cursor'',
                gp_diagnostics = List.map_filter (\<lambda>v. non_empty (as_string v)) (with_default diagnostics []),
                gp_partial = (prop_of r ''partial'' = JBool True \<or> with_default diagnostics [] \<noteq> [])\<rparr>))
             (mapChatListItems env (array_at r ''data'') includeSubAgents s))"

definition fetchChatPage :: "apiEnv \<Rightarrow> listOptions \<Rightarrow> string option \<Rightarrow> chatListPage call" where
  "fetchChatPage env opts cursor =
     await (rpc ''thread/list'' (chatPageParams opts cursor))
       (\<lambda>response. sync (readChatPage env (lo_includeSubAgents opts) response))"

definition fetchChats :: "apiEnv \<Rightarrow> listOptions \<Rightarrow> chatSummary list call" where
  "fetchChats env opts =
     await (fetchChatPage env opts None) (\<lambda>page.
     await (change (rememberChats env (gp_chats page) opts)) (\<lambda>_. give (gp_chats page)))"

definition listChats :: "apiEnv \<Rightarrow> listOptions \<Rightarrow> chatSummary list call" where
  "listChats env opts =
     reading (\<lambda>s. case fresh_entry (lo_forceRefresh opts) (lo_cacheTtlMs opts) (ac_now s)
           (map_of (ac_chatListCache s) (chatListCacheKey opts)) of
         Some chats \<Rightarrow> give chats
       | None \<Rightarrow> shared_request ac_chatListInFlight ac_chatListInFlight_update ChatsValue chats_value
           (chatListCacheKey opts) (fetchChats env opts))"

definition primeChats :: "apiEnv \<Rightarrow> listOptions \<Rightarrow> chatSummary list call" where
  "primeChats env opts =
     listChats env (opts\<lparr>lo_cacheTtlMs := or_else (lo_cacheTtlMs opts) (Some DEFAULT_PREFETCH_CACHE_TTL_MS)\<rparr>)"

section \<open>All pages\<close>

definition add_note :: "string \<Rightarrow> string list \<Rightarrow> string list" where
  "add_note d ds = (if d \<in> set ds then ds else ds @ [d])"

definition list_result :: "chatSummary list \<Rightarrow> string list \<Rightarrow> bool \<Rightarrow> chatListResult" where
  "list_result chats diagnostics part =
     \<lparr>gr_chats = chats, gr_diagnostics = diagnostics, gr_partial = part\<rparr>"

text \<open>
  The loop over the pages: the cursor of the next page, what was listed and noted so far, the
  cursors asked for and the number of pages.
\<close>

function fetchPages ::
  "apiEnv \<Rightarrow> allOptions \<Rightarrow> string option \<Rightarrow> chatListResult \<Rightarrow> string list \<Rightarrow> nat \<Rightarrow> chatListResult call" where
  "fetchPages env opts cursor listed seenCursors pageCount =
     (let requested = non_empty cursor;
          stopped = (\<lambda>note r. give (r\<lparr>gr_diagnostics := add_note note (gr_diagnostics r), gr_partial := True\<rparr>))
      in if pageCount \<ge> MAX_CHAT_LIST_PAGES
         then stopped ''Chat listing reached the 32-page safety limit.'' listed
         else if requested \<noteq> None \<and> the requested \<in> set seenCursors
         then stopped ''Chat listing repeated a page cursor.'' listed
         else await (fetchChatPage env
               \<lparr>lo_agentId = None, lo_includeSubAgents = ao_includeSubAgents opts,
                lo_limit = Some (of_int (list_limit (ao_includeSubAgents opts) (ao_pageLimit opts))),
                lo_cacheTtlMs = None, lo_forceRefresh = True\<rparr> cursor)
           (\<lambda>page.
             let chats = mergeChatSummariesById (ev_compare env) (gr_chats listed) (gp_chats page);
                 now_listed = list_result chats (fold add_note (gp_diagnostics page) (gr_diagnostics listed))
                   (gr_partial listed \<or> gp_partial page)
             in await (if ao_onPage opts then tell (PageShown chats page) else give ())
               (\<lambda>_. if non_empty (gp_nextCursor page) = None then give now_listed
                 else if length chats = length (gr_chats listed)
                 then stopped ''Chat listing made no progress on a page.'' now_listed
                 else fetchPages env opts (gp_nextCursor page) now_listed
                   (case requested of Some c \<Rightarrow> seenCursors @ [c] | None \<Rightarrow> seenCursors) (pageCount + 1))))"
  by pat_completeness auto
termination
  by (relation "measure (\<lambda>(env, opts, cursor, listed, seen, n). MAX_CHAT_LIST_PAGES - n)") auto

declare fetchPages.simps [simp del]

definition fetchAllChats :: "apiEnv \<Rightarrow> allOptions \<Rightarrow> chatListResult call" where
  "fetchAllChats env opts =
     await (fetchPages env opts None (list_result [] [] False) [] 0) (\<lambda>result.
     await (change (\<lambda>s. s\<lparr>ac_allChatListCache :=
         AList.update (allChatListCacheKey opts) (result, ac_now s) (ac_allChatListCache s)\<rparr>))
       (\<lambda>_. give result))"

definition listAllChats :: "apiEnv \<Rightarrow> allOptions \<Rightarrow> chatListResult call" where
  "listAllChats env opts =
     reading (\<lambda>s. case fresh_entry (ao_forceRefresh opts) (ao_cacheTtlMs opts) (ac_now s)
           (map_of (ac_allChatListCache s) (allChatListCacheKey opts)) of
         Some result \<Rightarrow> give result
       | None \<Rightarrow> shared_request ac_allChatListInFlight ac_allChatListInFlight_update ListValue list_value
           (allChatListCacheKey opts) (fetchAllChats env opts))"

section \<open>The stream of batches\<close>

text \<open>A listener is subscribed while its stream is among the streams of the client.\<close>

record chatListStreamBatch =
  cb_streamId :: string
  cb_limit :: int
  cb_done :: bool
  cb_chats :: "chatSummary list"

datatype streamOutput = Batch chatListStreamBatch | StreamFailed string

definition streamEvent ::
  "apiEnv \<Rightarrow> string \<Rightarrow> bool \<Rightarrow> string \<Rightarrow> jsv \<Rightarrow> apiClient \<Rightarrow> apiClient \<times> (apiError + streamOutput option)" where
  "streamEvent env streamId includeSubAgents eventMethod params s =
     (case toRecord params of
        None \<Rightarrow> (s, Inr None)
      | Some r \<Rightarrow>
          let unsubscribe = (\<lambda>s. s\<lparr>ac_streams := removeAll streamId (ac_streams s)\<rparr>) in
          if streamId \<notin> set (ac_streams s) \<or> as_string (prop_of r ''streamId'') \<noteq> Some streamId then (s, Inr None)
          else if eventMethod = ''bridge/thread/list/stream/error''
          then (unsubscribe s, Inr (Some (StreamFailed
            (with_default (as_string (prop_of r ''error'')) ''thread list stream failed''))))
          else if eventMethod \<noteq> ''bridge/thread/list/stream/batch'' then (s, Inr None)
          else let limit = normalizeListLimit (as_number (prop_of r ''limit''));
                   finished = (prop_of r ''done'' = JBool True)
               in (case mapChatListItems env (array_at r ''data'') includeSubAgents s of
                     (s1, Inl e) \<Rightarrow> (s1, Inl e)
                   | (s1, Inr chats) \<Rightarrow>
                       let s2 = rememberChats env chats
                             \<lparr>lo_agentId = None, lo_includeSubAgents = includeSubAgents, lo_limit = Some (of_int limit),
                              lo_cacheTtlMs = None, lo_forceRefresh = False\<rparr> s1
                       in (if finished then unsubscribe s2 else s2, Inr (Some (Batch
                            \<lparr>cb_streamId = streamId, cb_limit = limit, cb_done = finished, cb_chats = chats\<rparr>)))))"

text \<open>The request to cancel is sent and its reply is not waited for.\<close>

definition cancelStream :: "string \<Rightarrow> unit call" where
  "cancelStream streamId =
     reading (\<lambda>s. if streamId \<notin> set (ac_streams s) then give ()
       else await (change (\<lambda>s. s\<lparr>ac_streams := removeAll streamId (ac_streams s)\<rparr>))
         (\<lambda>_. tell (Rpc ''bridge/thread/list/stream/cancel'' (JObj [(''streamId'', JStr streamId)]))))"

definition startChatListStream :: "bool \<Rightarrow> rat list option \<Rightarrow> rat option \<Rightarrow> string \<Rightarrow> string call" where
  "startChatListStream includeSubAgents limits delayMs streamId =
     (let limits' = normalizeChatListStreamLimits limits
            (if includeSubAgents then DEFAULT_SUB_AGENT_CHAT_LIST_LIMIT else DEFAULT_CHAT_LIST_LIMIT)
      in await (change (\<lambda>s. s\<lparr>ac_streams := ac_streams s @ [streamId]\<rparr>))
        (\<lambda>_. attempt
          (await (rpc ''bridge/thread/list/stream/start'' (JObj
              [(''streamId'', JStr streamId), (''includeSubAgents'', JBool includeSubAgents),
               (''limits'', JArr (map (\<lambda>l. JNum (of_int l)) limits')),
               (''delayMs'', case delayMs of
                  Some q \<Rightarrow> if finite_number q then JNum (of_int (max 0 (js_round q))) else JUndefined
                | None \<Rightarrow> JUndefined)]))
            (\<lambda>response. await (outcome (response_record response))
              (\<lambda>r. if as_string (prop_of r ''streamId'') \<noteq> Some streamId \<or> prop_of r ''started'' = JBool False
                then raise (ApiFailed ''thread list stream did not start'') else give streamId)))
          (\<lambda>e. await (cancelStream streamId) (\<lambda>_. raise e))))"

section \<open>Reading a thread\<close>

definition TRANSIENT_THREAD_READ_RETRY_DELAYS_MS :: "nat list" where
  "TRANSIENT_THREAD_READ_RETRY_DELAYS_MS = [50, 100, 200, 400, 800]"

fun readThreadWithRetries :: "string \<Rightarrow> bool \<Rightarrow> nat list \<Rightarrow> jsv call" where
  "readThreadWithRetries threadId includeTurns delays =
     attempt (rpc ''thread/read'' (JObj [(''threadId'', JStr threadId), (''includeTurns'', JBool includeTurns)]))
       (\<lambda>e. if \<not> isTransientThreadReadError e then raise e
          else case delays of
            [] \<Rightarrow> raise e
          | d # ds \<Rightarrow> await (sleep d) (\<lambda>_. readThreadWithRetries threadId includeTurns ds))"

declare readThreadWithRetries.simps [simp del]

definition readAppServerThread :: "string \<Rightarrow> bool \<Rightarrow> jsv call" where
  "readAppServerThread threadId includeTurns =
     readThreadWithRetries threadId includeTurns TRANSIENT_THREAD_READ_RETRY_DELAYS_MS"

text \<open>
  A raw thread is read again from itself before it is mapped.  That changes nothing but instants
  that still are above the limit for milliseconds.
\<close>

definition reread :: "apiEnv \<Rightarrow> rawThread \<Rightarrow> rawThread" where
  "reread env raw =
     (let again = (\<lambda>t. Option.bind t (\<lambda>q. readTimestampSeconds (ev_otherDate env) (JNum q)))
      in raw\<lparr>th_createdAt := again (th_createdAt raw), th_updatedAt := again (th_updatedAt raw)\<rparr>)"

definition thread_of :: "apiEnv \<Rightarrow> jsv \<Rightarrow> apiError + rawThread" where
  "thread_of env response =
     map_sum (\<lambda>e. e) (\<lambda>r. toRawThread (ev_otherDate env) (prop_of r ''thread'')) (response_record response)"

definition snapshotOf :: "apiEnv \<Rightarrow> jsv \<Rightarrow> (rawThread \<times> mappedChat) call" where
  "snapshotOf env response =
     await (outcome (thread_of env response)) (\<lambda>raw.
     await (sync (mapChatWithCachedTitle env (reread env raw))) (\<lambda>chat. give (raw, chat)))"

definition readChatSnapshot :: "apiEnv \<Rightarrow> string \<Rightarrow> (rawThread \<times> mappedChat) call" where
  "readChatSnapshot env i =
     attempt (await (readAppServerThread i True) (snapshotOf env))
       (\<lambda>e. if \<not> isMaterializationGapError e then raise e
          else await (readAppServerThread i False) (snapshotOf env))"

definition getChat :: "apiEnv \<Rightarrow> string \<Rightarrow> chatReadOptions \<Rightarrow> mappedChat call" where
  "getChat env i opts =
     (let threadId = trim i in
      reading (\<lambda>s. case fresh_entry (ko_forceRefresh opts) (ko_cacheTtlMs opts) (ac_now s)
            (map_of (ac_chatCache s) threadId) of
          Some chat \<Rightarrow> give chat
        | None \<Rightarrow> shared_request ac_chatInFlight ac_chatInFlight_update ChatValue chat_value threadId
            (await (readChatSnapshot env threadId) (\<lambda>(_, chat).
               await (change (rememberChat chat)) (\<lambda>_. give chat)))))"

text \<open>\<open>{...cachedChat, ...summary, messages: cachedChat.messages}\<close>\<close>

definition with_summary :: "mappedChat \<Rightarrow> chatSummary \<Rightarrow> mappedChat" where
  "with_summary chat summary = chatSummary.extend summary (chatSummary.more chat)"

definition getChatSummary :: "apiEnv \<Rightarrow> string \<Rightarrow> chatSummary call" where
  "getChatSummary env i =
     await (readAppServerThread i False) (\<lambda>response.
     await (outcome (thread_of env response)) (\<lambda>raw.
     await (change (rememberRawThreadTitle raw)) (\<lambda>_.
       case mapChatSummary raw of
         Inl e \<Rightarrow> raise (ChatFailed e)
       | Inr None \<Rightarrow> raise (ChatFailed ChatIdMissing)
       | Inr (Some mapped) \<Rightarrow> reading (\<lambda>s.
           let summary = applyRememberedTitle mapped s in
           await (change (rememberChat (case peekChat (cs_id summary) s of
               Some chat \<Rightarrow> with_summary chat summary | None \<Rightarrow> chatShellFromSummary summary)))
             (\<lambda>_. give summary)))))"

definition readSnapshotPage ::
  "string \<Rightarrow> string option \<Rightarrow> string option \<Rightarrow> rat option \<Rightarrow> rat option \<Rightarrow> snapshotPageResponse call" where
  "readSnapshotPage threadId beforeCursor afterCursor revision limit =
     await (rpc ''thread/snapshot/page'' (JObj
         [(''threadId'', JStr threadId), (''beforeCursor'', string_or_null beforeCursor),
          (''afterCursor'', string_or_null afterCursor),
          (''revision'', case revision of Some q \<Rightarrow> JNum q | None \<Rightarrow> JUndefined),
          (''limit'', JNum (with_default limit 50))]))
       (\<lambda>response. give (readSnapshotPageResponse response))"

definition listLoadedChatIds :: "string list call" where
  "listLoadedChatIds =
     await (rpc ''thread/loaded/list'' JUndefined) (\<lambda>response.
     await (outcome (response_record response)) (\<lambda>r.
       give (filter (\<lambda>i. i \<noteq> []) (map (\<lambda>v. with_default (trimmed_string v) []) (array_at r ''data'')))))"

end
