(* ===== verification/ApiReadsLaws.thy ===== *)
theory ApiReadsLaws
  imports ApiReads
begin

text \<open>
  What the reads of the client promise in every run, whatever other operations and the bridge do
  meanwhile: bounds on what they ask, and listings that hold what the pages held.
\<close>

section \<open>What was asked and told\<close>

definition requests :: "string \<Rightarrow> (apiCall, 'r) event list \<Rightarrow> jsv list" where
  "requests name es = List.map_filter (\<lambda>ev. case ev of
      Asked (Rpc n p) r \<Rightarrow> if n = name then Some p else None | _ \<Rightarrow> None) es"

definition shown_pages :: "(apiCall, 'r) event list \<Rightarrow> chatListPage list" where
  "shown_pages es = List.map_filter (\<lambda>ev. case ev of Told (PageShown chats p) \<Rightarrow> Some p | _ \<Rightarrow> None) es"

lemma map_filter_append [simp]: "List.map_filter f (xs @ ys) = List.map_filter f xs @ List.map_filter f ys"
  by (simp add: List.map_filter_def)

lemma requests_simps [simp]:
  "requests name [] = []"
  "requests name (xs @ ys) = requests name xs @ requests name ys"
  "requests name (Asked (Rpc n p) r # es) = (if n = name then [p] else []) @ requests name es"
  "requests name (Told q # es) = requests name es"
  "requests name (Asked (SleepFor d) r # es) = requests name es"
  "requests name (Asked (JoinPromise k) r # es) = requests name es"
  by (simp_all add: requests_def List.map_filter_simps)

lemma shown_pages_simps [simp]:
  "shown_pages [] = []"
  "shown_pages (xs @ ys) = shown_pages xs @ shown_pages ys"
  "shown_pages (Told (PageShown chats p) # es) = p # shown_pages es"
  "shown_pages (Asked q r # es) = shown_pages es"
  by (simp_all add: shown_pages_def List.map_filter_simps)

lemma find_append: "find P (xs @ ys) = (case find P xs of Some x \<Rightarrow> Some x | None \<Rightarrow> find P ys)"
  by (induction xs) auto

lemma find_in: "find P xs = Some x \<Longrightarrow> x \<in> set xs \<and> P x"
  by (induction xs) (auto split: if_splits)

lemma runs_rpc [run_laws]:
  "runs rely (rpc name params s) es t x
     \<longleftrightarrow> (\<exists>r. es = [Asked (Rpc name params) r] \<and> rely s t \<and> x = (case r of
           Inr (Json v) \<Rightarrow> Inr v | Inr _ \<Rightarrow> Inl OtherReply | Inl e \<Rightarrow> Inl e))"
  by (simp add: rpc_def runs_ask)

lemma runs_sync [run_laws]: "runs rely (sync f s) es t x \<longleftrightarrow> es = [] \<and> f s = (t, x)"
  by (cases "f s") (auto simp: sync_def)

lemma runs_sleep [run_laws]:
  "runs rely (sleep ms s) es t x \<longleftrightarrow> (\<exists>r. es = [Asked (SleepFor ms) r] \<and> rely s t \<and> x = Inr ())"
  by (simp add: sleep_def runs_ask)

section \<open>Merging by id\<close>

lemma byId_keys: "fst ` set (fold (\<lambda>chat. AList.update (cs_id chat) chat) chats m)
    = fst ` set m \<union> cs_id ` set chats"
  by (induction chats arbitrary: m) (auto simp: dom_update)

lemma keyed_byId:
  "(\<forall>(k, c) \<in> set m. k = cs_id c) \<and> distinct (map fst m) \<Longrightarrow>
     (\<forall>(k, c) \<in> set (fold (\<lambda>chat. AList.update (cs_id chat) chat) chats m). k = cs_id c)
       \<and> distinct (map fst (fold (\<lambda>chat. AList.update (cs_id chat) chat) chats m))"
proof (induction chats arbitrary: m)
  case (Cons chat chats)
  have "set (AList.update k v m) \<subseteq> insert (k, v) (set m)" for k v
    by (induction m) auto
  with Cons.prems have "(\<forall>(k, c) \<in> set (AList.update (cs_id chat) chat m). k = cs_id c)
      \<and> distinct (map fst (AList.update (cs_id chat) chat m))"
    by (fastforce intro: distinct_update)
  then show ?case using Cons.IH by simp
qed simp

lemma ids_of_keyed: "\<forall>(k, c) \<in> set m. k = cs_id c \<Longrightarrow> map cs_id (map snd m) = map fst m"
  by (induction m) auto

lemma merged_ids:
  "cs_id ` set (mergeChatSummariesById compare previous incoming)
     = cs_id ` set previous \<union> cs_id ` set incoming"
proof -
  have keys: "map cs_id (map snd (byId (previous @ incoming))) = map fst (byId (previous @ incoming))"
    using keyed_byId [of "[]" "previous @ incoming"] by (intro ids_of_keyed) (simp add: byId_def)
  have "cs_id ` set (mergeChatSummariesById compare previous incoming)
      = set (map cs_id (map snd (byId (previous @ incoming))))"
    by (simp add: mergeChatSummariesById_def newest_first_def image_image)
  also have "\<dots> = fst ` set (byId (previous @ incoming))" by (simp only: keys) simp
  finally show ?thesis using byId_keys [of "previous @ incoming" "[]"] by (simp add: byId_def image_Un)
qed

lemma merged_distinct: "distinct (map cs_id (mergeChatSummariesById compare previous incoming))"
proof -
  have keys: "map cs_id (map snd (byId (previous @ incoming))) = map fst (byId (previous @ incoming))"
    using keyed_byId [of "[]" "previous @ incoming"] by (intro ids_of_keyed) (simp add: byId_def)
  have "distinct (map cs_id (map snd (byId (previous @ incoming))))"
    using keyed_byId [of "[]" "previous @ incoming"] by (simp only: keys) (simp add: byId_def)
  then show ?thesis by (simp add: mergeChatSummariesById_def newest_first_def)
qed

text \<open>The summary listed for an id is the last one there was.\<close>

lemma merged_member:
  assumes "chat \<in> set (mergeChatSummariesById compare previous incoming)"
  shows "chat \<in> set incoming \<or> chat \<in> set previous \<and> cs_id chat \<notin> cs_id ` set incoming"
proof -
  have last: "map_of (fold (\<lambda>chat. AList.update (cs_id chat) chat) chats m) i
      = (case with_id i (rev chats) of Some c \<Rightarrow> Some c | None \<Rightarrow> map_of m i)" for chats m i
  proof (induction chats arbitrary: m)
    case (Cons c chats)
    then show ?case by (auto simp: with_id_def update_conv' find_append split: option.splits)
  qed (simp add: with_id_def)
  let ?m = "byId (previous @ incoming)"
  from assms obtain i where i: "(i, chat) \<in> set ?m"
    by (auto simp: mergeChatSummariesById_def newest_first_def)
  have "distinct (map fst ?m)" "i = cs_id chat"
    using keyed_byId [of "[]" "previous @ incoming"] i by (auto simp: byId_def)
  with i have "map_of ?m (cs_id chat) = Some chat" by simp
  then have found: "with_id (cs_id chat) (rev (previous @ incoming)) = Some chat"
    using last [where chats = "previous @ incoming" and m = "[]" and i = "cs_id chat"]
    by (auto simp: byId_def split: option.splits)
  show ?thesis
  proof (cases "with_id (cs_id chat) (rev incoming)")
    case None
    with found have "with_id (cs_id chat) (rev previous) = Some chat"
      by (simp add: with_id_def find_append)
    then have "chat \<in> set previous"
      by (auto simp: with_id_def dest: find_in)
    moreover have "cs_id chat \<notin> cs_id ` set incoming"
      using None by (auto simp: with_id_def find_None_iff)
    ultimately show ?thesis by simp
  next
    case (Some c)
    with found have "with_id (cs_id chat) (rev incoming) = Some chat"
      by (simp add: with_id_def find_append)
    then have "chat \<in> set incoming"
      by (auto simp: with_id_def dest: find_in)
    then show ?thesis by simp
  qed
qed

section \<open>All pages\<close>

definition ids_of :: "chatSummary list \<Rightarrow> string set" where
  "ids_of chats = cs_id ` set chats"

text \<open>A summary that some page has and no later page has anew\<close>

definition latest :: "chatListPage list \<Rightarrow> chatSummary \<Rightarrow> bool" where
  "latest ps chat \<longleftrightarrow> (\<exists>before p after. ps = before @ p # after \<and> chat \<in> set (gp_chats p)
     \<and> (\<forall>q \<in> set after. cs_id chat \<notin> ids_of (gp_chats q)))"

definition page_options :: "allOptions \<Rightarrow> listOptions" where
  "page_options opts =
     \<lparr>lo_agentId = None, lo_includeSubAgents = ao_includeSubAgents opts,
      lo_limit = Some (of_int (list_limit (ao_includeSubAgents opts) (ao_pageLimit opts))),
      lo_cacheTtlMs = None, lo_forceRefresh = True\<rparr>"

lemma runs_page:
  "runs rely (fetchChatPage env opts cursor s) es t x
     \<Longrightarrow> \<exists>r. es = [Asked (Rpc ''thread/list'' (chatPageParams opts cursor)) r]"
  by (auto simp: fetchChatPage_def run_laws)

text \<open>One turn of the loop: it stops with what is listed, or a page comes, is shown and merged.\<close>

definition with_page :: "apiEnv \<Rightarrow> chatListResult \<Rightarrow> chatListPage \<Rightarrow> chatListResult" where
  "with_page env listed page =
     list_result (mergeChatSummariesById (ev_compare env) (gr_chats listed) (gp_chats page))
       (fold add_note (gp_diagnostics page) (gr_diagnostics listed)) (gr_partial listed \<or> gp_partial page)"

definition stopped :: "string \<Rightarrow> chatListResult \<Rightarrow> chatListResult" where
  "stopped msg r = r\<lparr>gr_diagnostics := add_note msg (gr_diagnostics r), gr_partial := True\<rparr>"

lemma fetch_turn:
  assumes "runs rely (fetchPages env opts cursor listed seen n s) es t x" "ao_onPage opts"
  obtains (early) msg where "es = []" "x = Inr (stopped msg listed)"
    | (failed) e r where "es = [Asked (Rpc ''thread/list'' (chatPageParams (page_options opts) cursor)) r]"
        "x = Inl e" "n < MAX_CHAT_LIST_PAGES"
    | (last) chats page r where "n < MAX_CHAT_LIST_PAGES"
        "es = [Asked (Rpc ''thread/list'' (chatPageParams (page_options opts) cursor)) r, Told (PageShown chats page)]"
        "x = Inr (with_page env listed page)" "non_empty (gp_nextCursor page) = None"
    | (stuck) msg chats page r where "n < MAX_CHAT_LIST_PAGES"
        "es = [Asked (Rpc ''thread/list'' (chatPageParams (page_options opts) cursor)) r, Told (PageShown chats page)]"
        "x = Inr (stopped msg (with_page env listed page))"
    | (more) chats page r es' seen' s' where "n < MAX_CHAT_LIST_PAGES"
        "es = Asked (Rpc ''thread/list'' (chatPageParams (page_options opts) cursor)) r # Told (PageShown chats page) # es'"
        "runs rely (fetchPages env opts (gp_nextCursor page) (with_page env listed page) seen' (n + 1) s') es' t x"
proof -
  let ?stop = "\<lambda>msg r. r\<lparr>gr_diagnostics := add_note msg (gr_diagnostics r), gr_partial := True\<rparr>"
  consider (limit) "n \<ge> MAX_CHAT_LIST_PAGES"
    | (again) "n < MAX_CHAT_LIST_PAGES" "non_empty cursor \<noteq> None" "the (non_empty cursor) \<in> set seen"
    | (page) "n < MAX_CHAT_LIST_PAGES" "\<not> (non_empty cursor \<noteq> None \<and> the (non_empty cursor) \<in> set seen)"
    using not_less by blast
  then show ?thesis
  proof cases
    case limit
    with assms(1) have "es = [] \<and> (\<exists>msg. x = Inr (stopped msg listed))"
      by (subst (asm) fetchPages.simps) (auto simp: Let_def run_laws stopped_def)
    with early show ?thesis by blast
  next
    case again
    with assms(1) have "es = [] \<and> (\<exists>msg. x = Inr (stopped msg listed))"
      by (subst (asm) fetchPages.simps) (auto simp: Let_def run_laws stopped_def)
    with early show ?thesis by blast
  next
    case page
    let ?seen = "case non_empty cursor of Some c \<Rightarrow> seen @ [c] | None \<Rightarrow> seen"
    let ?rest = "\<lambda>page. await (tell (PageShown (gr_chats (with_page env listed page)) page))
      (\<lambda>_. if non_empty (gp_nextCursor page) = None then give (with_page env listed page)
         else if length (gr_chats (with_page env listed page)) = length (gr_chats listed)
         then give (stopped ''Chat listing made no progress on a page.'' (with_page env listed page))
         else fetchPages env opts (gp_nextCursor page) (with_page env listed page) ?seen (n + 1))"
    have go: "(n \<ge> MAX_CHAT_LIST_PAGES) = False"
        "(non_empty cursor \<noteq> None \<and> the (non_empty cursor) \<in> set seen) = False"
      using page leD by blast+
    from assms have "runs rely (await (fetchChatPage env (page_options opts) cursor) ?rest s) es t x"
      by (subst (asm) fetchPages.simps)
        (simp only: Let_def go if_False if_True page_options_def with_page_def stopped_def list_result_def
           chatListResult.simps)
    then consider (error) e where "runs rely (fetchChatPage env (page_options opts) cursor s) es t (Inl e)" "x = Inl e"
      | (ok) es1 es2 u p where "es = es1 @ es2" "runs rely (fetchChatPage env (page_options opts) cursor s) es1 u (Inr p)"
          "runs rely (?rest p u) es2 t x"
      unfolding runs_await by blast
    then show ?thesis
    proof cases
      case error
      with runs_page [OF error(1)] failed page(1) show ?thesis by blast
    next
      case ok
      obtain r where es1: "es1 = [Asked (Rpc ''thread/list'' (chatPageParams (page_options opts) cursor)) r]"
        using runs_page [OF ok(2)] by blast
      from ok(3) obtain es3 where es2: "es2 = Told (PageShown (gr_chats (with_page env listed p)) p) # es3"
        and rest: "runs rely ((if non_empty (gp_nextCursor p) = None then give (with_page env listed p)
         else if length (gr_chats (with_page env listed p)) = length (gr_chats listed)
         then give (stopped ''Chat listing made no progress on a page.'' (with_page env listed p))
         else fetchPages env opts (gp_nextCursor p) (with_page env listed p) ?seen (n + 1)) u) es3 t x"
        unfolding runs_await runs_tell by auto
      show ?thesis
      proof (cases "non_empty (gp_nextCursor p) = None")
        case True
        with rest have "es3 = []" "x = Inr (with_page env listed p)" by (auto simp: runs_give)
        with True es1 es2 ok(1) last page(1) show ?thesis by simp
      next
        case unfinished: False
        show ?thesis
        proof (cases "length (gr_chats (with_page env listed p)) = length (gr_chats listed)")
          case True
          with rest unfinished have "es3 = []"
            "x = Inr (stopped ''Chat listing made no progress on a page.'' (with_page env listed p))"
            by (auto simp: runs_give)
          with es1 es2 ok(1) stuck page(1) show ?thesis by simp
        next
          case False
          with rest unfinished es1 es2 ok(1) more page(1) show ?thesis by simp
        qed
      qed
    qed
  qed
qed

lemma last_turn:
  assumes "runs rely (fetchChatPage env (page_options opts) cursor s) es u (Inr page)"
    and "n < MAX_CHAT_LIST_PAGES" "non_empty cursor = None" "ao_onPage opts" "non_empty (gp_nextCursor page) = None"
  shows "runs rely (fetchPages env opts cursor listed seen n s)
    (es @ [Told (PageShown (gr_chats (with_page env listed page)) page)]) u (Inr (with_page env listed page))"
proof -
  have go: "(n \<ge> MAX_CHAT_LIST_PAGES) = False"
      "(non_empty cursor \<noteq> None \<and> the (non_empty cursor) \<in> set seen) = False"
    using assms by simp_all
  show ?thesis
    by (subst fetchPages.simps, unfold Let_def go if_False page_options_def [symmetric],
        rule runs_awaitI, rule assms(1))
      (auto simp: assms runs_await runs_tell runs_give with_page_def list_result_def)
qed

lemma latest_Nil [simp]: "\<not> latest [] chat"
  by (simp add: latest_def)

lemma latest_Cons: "latest ps chat \<Longrightarrow> latest (p # ps) chat"
  unfolding latest_def by (metis append_Cons)

lemma latest_first:
  "chat \<in> set (gp_chats p) \<Longrightarrow> \<forall>q \<in> set ps. cs_id chat \<notin> ids_of (gp_chats q) \<Longrightarrow> latest (p # ps) chat"
  unfolding latest_def by (metis append_Nil)

text \<open>Induction over the turns of a run\<close>

lemma pages_induct [consumes 2, case_names early failed last stuck more]:
  assumes "runs rely (fetchPages env opts cursor listed seen n s) es t x" "ao_onPage opts"
    and early: "\<And>n cursor listed msg. P n cursor listed [] (Inr (stopped msg listed))"
    and failed: "\<And>n cursor listed r e. n < MAX_CHAT_LIST_PAGES \<Longrightarrow>
      P n cursor listed [Asked (Rpc ''thread/list'' (chatPageParams (page_options opts) cursor)) r] (Inl e)"
    and last: "\<And>n cursor listed chats page r. n < MAX_CHAT_LIST_PAGES \<Longrightarrow>
      non_empty (gp_nextCursor page) = None \<Longrightarrow>
      P n cursor listed [Asked (Rpc ''thread/list'' (chatPageParams (page_options opts) cursor)) r,
        Told (PageShown chats page)] (Inr (with_page env listed page))"
    and stuck: "\<And>n cursor listed chats page r msg. n < MAX_CHAT_LIST_PAGES \<Longrightarrow>
      P n cursor listed [Asked (Rpc ''thread/list'' (chatPageParams (page_options opts) cursor)) r,
        Told (PageShown chats page)] (Inr (stopped msg (with_page env listed page)))"
    and more: "\<And>n cursor listed chats page r es' x. n < MAX_CHAT_LIST_PAGES \<Longrightarrow>
      P (n + 1) (gp_nextCursor page) (with_page env listed page) es' x \<Longrightarrow>
      P n cursor listed (Asked (Rpc ''thread/list'' (chatPageParams (page_options opts) cursor)) r
        # Told (PageShown chats page) # es') x"
  shows "P n cursor listed es x"
  using assms(1)
proof (induction "MAX_CHAT_LIST_PAGES - n" arbitrary: cursor listed seen n s es rule: less_induct)
  case less
  from less.prems assms(2) show ?case
  proof (cases rule: fetch_turn)
    case (more chats page r es' seen' s')
    have "P (n + 1) (gp_nextCursor page) (with_page env listed page) es' x"
      by (rule less.hyps [OF _ more(3)]) (use more(1) in simp)
    with more(1,2) assms(7) show ?thesis by simp
  qed (auto intro: assms(3-6))
qed

text \<open>What a run of the loop leaves listed, from what was listed before\<close>

lemma pages_ids:
  assumes "runs rely (fetchPages env opts cursor listed seen n s) es t x" "ao_onPage opts"
  shows "x = Inr r \<longrightarrow> ids_of (gr_chats r)
    = ids_of (gr_chats listed) \<union> (\<Union>p \<in> set (shown_pages es). ids_of (gp_chats p))"
  using assms
  by (induction rule: pages_induct)
    (auto simp: stopped_def with_page_def list_result_def merged_ids [folded ids_of_def])

lemma pages_latest:
  assumes "runs rely (fetchPages env opts cursor listed seen n s) es t x" "ao_onPage opts"
  shows "x = Inr r \<and> chat \<in> set (gr_chats r) \<longrightarrow> latest (shown_pages es) chat
    \<or> chat \<in> set (gr_chats listed) \<and> (\<forall>p \<in> set (shown_pages es). cs_id chat \<notin> ids_of (gp_chats p))"
  using assms
proof (induction rule: pages_induct)
  case (last n cursor listed chats page r')
  show ?case using merged_member [of chat "ev_compare env" "gr_chats listed" "gp_chats page"]
    by (auto simp: with_page_def list_result_def ids_of_def intro: latest_first)
next
  case (stuck n cursor listed chats page r' msg)
  show ?case using merged_member [of chat "ev_compare env" "gr_chats listed" "gp_chats page"]
    by (auto simp: stopped_def with_page_def list_result_def ids_of_def intro: latest_first)
next
  case (more n cursor listed chats page r' es' x)
  then show ?case using merged_member [of chat "ev_compare env" "gr_chats listed" "gp_chats page"]
    by (auto simp: with_page_def list_result_def ids_of_def intro: latest_first latest_Cons)
qed (auto simp: stopped_def)

lemma pages_complete:
  assumes "runs rely (fetchPages env opts cursor listed seen n s) es t x" "ao_onPage opts"
  shows "x = Inr r \<and> \<not> gr_partial r \<longrightarrow> \<not> gr_partial listed \<and> shown_pages es \<noteq> []
    \<and> non_empty (gp_nextCursor (last (shown_pages es))) = None
    \<and> (\<forall>p \<in> set (shown_pages es). \<not> gp_partial p)"
  using assms
  by (induction rule: pages_induct) (auto simp: stopped_def with_page_def list_result_def)

text \<open>Each page but the first is asked for with the cursor of the page before.\<close>

lemma pages_requests:
  assumes "runs rely (fetchPages env opts cursor listed seen n s) es t x" "ao_onPage opts"
  shows "x = Inr r \<longrightarrow> requests ''thread/list'' es = map (chatPageParams (page_options opts))
    (take (length (shown_pages es)) (cursor # map gp_nextCursor (shown_pages es)))"
  using assms by (induction rule: pages_induct) auto

lemma pages_bounded:
  assumes "runs rely (fetchPages env opts cursor listed seen n s) es t x" "ao_onPage opts"
  shows "length (requests ''thread/list'' es) \<le> MAX_CHAT_LIST_PAGES - n"
  using assms by (induction rule: pages_induct) auto

text \<open>C16: listing all chats asks for at most 32 pages, each but the first with the cursor of the page
  before it.  What it returns has the ids of all pages, each with the summary of the last page that
  has it, and is then what the cache has.  When it does not say that it is partial, the last page was
  the last there is and none was partial.  All this holds whatever else happens meanwhile.\<close>

theorem listing_is_the_union_of_pages:
  assumes "runs rely (fetchAllChats env opts s) es t (Inr r)" "ao_onPage opts"
  shows "ids_of (gr_chats r) = (\<Union>p \<in> set (shown_pages es). ids_of (gp_chats p))
     \<and> (\<forall>chat \<in> set (gr_chats r). latest (shown_pages es) chat)
     \<and> length (requests ''thread/list'' es) \<le> 32
     \<and> requests ''thread/list'' es = map (chatPageParams (page_options opts))
         (take (length (shown_pages es)) (None # map gp_nextCursor (shown_pages es)))
     \<and> (\<not> gr_partial r \<longrightarrow> non_empty (gp_nextCursor (last (shown_pages es))) = None
         \<and> (\<forall>p \<in> set (shown_pages es). \<not> gp_partial p))
     \<and> map_of (ac_allChatListCache t) (allChatListCacheKey opts) = Some (r, ac_now t)"
proof -
  let ?m = "fetchPages env opts None (list_result [] [] False) [] 0"
  from assms(1) obtain u where run: "runs rely (?m s) es u (Inr r)"
    and t: "t = u\<lparr>ac_allChatListCache :=
      AList.update (allChatListCacheKey opts) (r, ac_now u) (ac_allChatListCache u)\<rparr>"
    by (auto simp: fetchAllChats_def run_laws)
  note facts = pages_ids [OF run assms(2)] pages_latest [OF run assms(2)] pages_complete [OF run assms(2)]
    pages_requests [OF run assms(2)] pages_bounded [OF run assms(2)]
  have "map_of (ac_allChatListCache t) (allChatListCacheKey opts) = Some (r, ac_now t)"
    by (simp add: t update_conv')
  moreover have "ids_of (gr_chats r) = (\<Union>p \<in> set (shown_pages es). ids_of (gp_chats p))"
    using facts(1) [of r] by (simp add: list_result_def ids_of_def)
  moreover have "\<forall>chat \<in> set (gr_chats r). latest (shown_pages es) chat"
    using facts(2) [of r] by (simp add: list_result_def)
  ultimately show ?thesis
    using facts(3) [of r] facts(4) [of r] facts(5) by (simp add: MAX_CHAT_LIST_PAGES_def)
qed

definition demoEnv :: apiEnv where
  "demoEnv = \<lparr>ev_otherDate = (\<lambda>_. None), ev_localId = (\<lambda>_ _. ''local''),
     ev_compare = (\<lambda>a b. int (length a) - int (length b))\<rparr>"

definition demoClient :: apiClient where
  "demoClient = \<lparr>ac_now = 0, ac_ids = 0, ac_submissions = 0, ac_promises = 0, ac_renamedTitles = [],
     ac_chatListCache = [], ac_allChatListCache = [], ac_chatCache = [], ac_chatListInFlight = [],
     ac_allChatListInFlight = [], ac_chatInFlight = [], ac_streams = []\<rparr>"

definition demoOptions :: allOptions where
  "demoOptions = \<lparr>ao_includeSubAgents = False, ao_pageLimit = None, ao_cacheTtlMs = None,
     ao_forceRefresh = True, ao_onPage = True\<rparr>"

definition demoThread :: "string \<Rightarrow> jsv" where
  "demoThread i = JObj [(''id'', JStr i), (''createdAt'', JNum 1), (''name'', JStr ''Fix'')]"

text \<open>A page with one thread\<close>

definition demoPage :: jsv where
  "demoPage = JObj [(''data'', JArr [demoThread ''a''])]"

lemma demo_summary:
  obtains m where "mapChatSummary (toRawThread (ev_otherDate demoEnv) (demoThread ''a'')) = Inr (Some m)"
    "cs_id m = ''a''" "cs_sourceKind m = None"
proof -
  have "case mapChatSummary (toRawThread (ev_otherDate demoEnv) (demoThread ''a'')) of
      Inr (Some m) \<Rightarrow> cs_id m = ''a'' \<and> cs_sourceKind m = None | _ \<Rightarrow> False"
    by (simp add: mapChatSummary_def toRawThread_def demoThread_def demoEnv_def non_empty_def or_else_def prop_of_def
      readTimestampSeconds_def readNumeric_def finite_number_def unixSecondsToIso_def date_iso_def time_value_def trunc_def
      readThreadSourceMetadata_def source_kind_def opt_prop_def toRecord.simps Let_def trimmed_string_def)
  then show ?thesis using that by (auto split: sum.splits option.splits)
qed

lemma demo_page:
  obtains u page m where "readChatPage demoEnv False demoPage demoClient = (u, Inr page)"
    "gp_chats page = [m]" "cs_id m = ''a''" "gp_nextCursor page = None" "\<not> gp_partial page"
proof -
  obtain m where m: "mapChatSummary (toRawThread (ev_otherDate demoEnv) (demoThread ''a'')) = Inr (Some m)"
    "cs_id m = ''a''" "cs_sourceKind m = None" by (rule demo_summary)
  let ?s = "rememberRawThreadTitle (toRawThread (ev_otherDate demoEnv) (demoThread ''a'')) demoClient"
  have titled: "cs_id (applyRememberedTitle m ?s) = ''a''" "cs_sourceKind (applyRememberedTitle m ?s) = None"
    using m by (auto simp: applyRememberedTitle_def split: option.splits)
  have "mapChatListItems demoEnv [demoThread ''a''] False demoClient = (?s, Inr [applyRememberedTitle m ?s])"
    using m titled by (simp add: mapChatListItems_def Let_def isSubAgentSource_def newest_first_def sort_by_def)
  then have "readChatPage demoEnv False demoPage demoClient = (?s, Inr
      \<lparr>gp_chats = [applyRememberedTitle m ?s], gp_nextCursor = None, gp_backwardsCursor = None,
       gp_diagnostics = [], gp_partial = False\<rparr>)"
    by (simp add: readChatPage_def demoPage_def response_record_def nullish_def array_at_def prop_of_def or_else_def
      List.map_filter_simps)
  with titled show ?thesis by (intro that) auto
qed

lemma demo_listing:
  "\<exists>es t r. runs (=) (fetchAllChats demoEnv demoOptions demoClient) es t (Inr r)
     \<and> gr_chats r \<noteq> [] \<and> \<not> gr_partial r"
proof -
  obtain u page m where page: "readChatPage demoEnv False demoPage demoClient = (u, Inr page)"
    "gp_chats page = [m]" "cs_id m = ''a''" "gp_nextCursor page = None" "\<not> gp_partial page" by (rule demo_page)
  define r where "r = with_page demoEnv (list_result [] [] False) page"
  have fetched: "runs (=) (fetchChatPage demoEnv (page_options demoOptions) None demoClient)
      [Asked (Rpc ''thread/list'' (chatPageParams (page_options demoOptions) None)) (Inr (Json demoPage))] u (Inr page)"
    by (rule play_runs [where rs = "[Inr (Json demoPage)]"])
      (simp_all add: page(1) play_def fetchChatPage_def await_def settle_def rpc_def ask_def sync_def
        page_options_def demoOptions_def reflp_def)
  have "\<exists>es. runs (=) (fetchPages demoEnv demoOptions None (list_result [] [] False) [] 0 demoClient) es u (Inr r)"
    unfolding r_def
    by (rule exI, rule last_turn [OF fetched])
      (simp_all add: page(4) MAX_CHAT_LIST_PAGES_def non_empty_def demoOptions_def)
  then obtain es where run: "runs (=) (fetchPages demoEnv demoOptions None (list_result [] [] False) [] 0 demoClient) es u (Inr r)"
    by blast
  have "\<exists>es t. runs (=) (fetchAllChats demoEnv demoOptions demoClient) es t (Inr r)"
    unfolding fetchAllChats_def
    by (intro exI, rule runs_awaitI, rule run) (auto simp: runs_await runs_change runs_give)
  moreover have "cs_id ` set (gr_chats r) = {''a''}" "\<not> gr_partial r"
    using merged_ids [of "ev_compare demoEnv" "[]" "[m]"] page(2,3,5)
    by (simp_all add: r_def with_page_def list_result_def)
  then have "gr_chats r \<noteq> [] \<and> \<not> gr_partial r" by force
  ultimately show ?thesis by blast
qed

theorem listing_is_the_union_of_pages_witness:
  "\<exists>es t r. runs (=) (fetchAllChats demoEnv demoOptions demoClient) es t (Inr r)
     \<and> gr_chats r \<noteq> [] \<and> \<not> gr_partial r
     \<and> ids_of (gr_chats r) = (\<Union>p \<in> set (shown_pages es). ids_of (gp_chats p))"
proof -
  obtain es t r where run: "runs (=) (fetchAllChats demoEnv demoOptions demoClient) es t (Inr r)"
    "gr_chats r \<noteq> []" "\<not> gr_partial r" using demo_listing by blast
  have "ao_onPage demoOptions" by (simp add: demoOptions_def)
  from conjunct1 [OF listing_is_the_union_of_pages [OF run(1) this]] run show ?thesis by blast
qed

end
