(* ===== verification/ApiTurns.thy ===== *)
theory ApiTurns
  imports ApiReads
begin

text \<open>
  The methods of the client that start chats and turns, send, steer and interrupt:
  \<open>api/HostBridgeApiClientTurnLifecycleLayer.ts\<close>, \<open>HostBridgeApiClientTurnPreparationLayer.ts\<close>, the
  rest of \<open>HostBridgeApiClientWorkspaceAndChatReadLayer.ts\<close> and the changes of
  \<open>HostBridgeApiClientHealthAndCacheLayer.ts\<close>.  Ids of threads and turns in replies are strings where
  they are present, as their types say.  The state of a queue is passed on as it is received.
\<close>

section \<open>Requests\<close>

record createChatRequest =
  cr_agentId :: "string option"
  cr_cwd :: "string option"
  cr_model :: "string option"
  cr_effort :: "string option"
  cr_agentMode :: "string option"
  cr_collaborationMode :: "string option"
  cr_serviceTier :: "string option"
  cr_approvalPolicy :: "string option"
  cr_message :: "string option"

record sendChatMessageRequest =
  sr_content :: string
  sr_role :: "string option"
  sr_cwd :: "string option"
  sr_model :: "string option"
  sr_effort :: "string option"
  sr_serviceTier :: "string option"
  sr_approvalPolicy :: "string option"
  sr_mentions :: "mentionInput list option"
  sr_localImages :: "string list option"
  sr_collaborationMode :: "string option"
  sr_agent :: "string option"

record prepareOptions =
  po_skipResume :: bool
  po_submissionId :: "string option"

record preparedTurnRequest =
  pt_content :: string
  pt_mentions :: "turnInputMention list"
  pt_localImages :: "string list"
  pt_turnStartParams :: jobj

datatype sendOrQueueResult = MessageQueued jsv | MessageSent jsv string mappedChat

definition MOBILE_DEVELOPER_INSTRUCTIONS :: string where
  "MOBILE_DEVELOPER_INSTRUCTIONS =
     ''When you need clarification, call request_user_input instead of asking only in plain text. ''
     @ ''Provide 2-3 concise options whenever possible and use isOther when free-form input is appropriate.''"

definition MOBILE_DEFAULT_SANDBOX :: string where
  "MOBILE_DEFAULT_SANDBOX = ''danger-full-access''"

definition approval_of :: "string option \<Rightarrow> string" where
  "approval_of policy = with_default (normalizeApprovalPolicy policy) ''untrusted''"

section \<open>Resuming a thread\<close>

definition resumeParams :: "string \<Rightarrow> string \<Rightarrow> string option \<Rightarrow> string option \<Rightarrow> jobj" where
  "resumeParams threadId cwd model approvalPolicy =
     [(''threadId'', JStr threadId), (''history'', JNull), (''path'', JNull),
      (''model'', string_or_null (normalizeModel model)), (''modelProvider'', JNull), (''cwd'', JStr cwd),
      (''approvalPolicy'', JStr (approval_of approvalPolicy)), (''sandbox'', JStr MOBILE_DEFAULT_SANDBOX),
      (''config'', JNull), (''baseInstructions'', JNull),
      (''developerInstructions'', JStr MOBILE_DEVELOPER_INSTRUCTIONS), (''personality'', JNull),
      (''experimentalRawEvents'', JBool True), (''persistExtendedHistory'', JBool True)]"

definition resumeThread ::
  "string \<Rightarrow> string option \<Rightarrow> string option \<Rightarrow> string option \<Rightarrow> threadRuntimeSettings call" where
  "resumeThread i cwd model approvalPolicy =
     (if trim i = [] then raise (ApiFailed ''thread id is required'')
      else case normalizeCwd cwd of
        None \<Rightarrow> raise (ApiFailed ''Cannot resume thread without its canonical workspace path'')
      | Some requestedCwd \<Rightarrow>
          await (rpc ''thread/resume'' (JObj (resumeParams (trim i) requestedCwd model approvalPolicy)))
            (\<lambda>response. give (readThreadRuntimeSettings response)))"

section \<open>Preparing a turn\<close>

definition no_settings :: threadRuntimeSettings where
  "no_settings = \<lparr>rs_model = None, rs_effort = None\<rparr>"

definition turnStartParams :: "string \<Rightarrow> sendChatMessageRequest \<Rightarrow> threadRuntimeSettings \<Rightarrow> jobj" where
  "turnStartParams i body resumed =
     (let effort = normalizeEffort (sr_effort body);
          mode = normalizeCollaborationMode (sr_collaborationMode body);
          effectiveModel = or_else (normalizeModel (sr_model body)) (rs_model resumed);
          effectiveEffort = (if mode \<noteq> None then or_else effort (rs_effort resumed) else effort)
      in [(''threadId'', JStr i),
          (''input'', JArr (buildTurnInput (trim (sr_content body)) (normalizeMentions (sr_mentions body))
             (normalizeLocalImages (sr_localImages body)))),
          (''cwd'', string_or_null (normalizeCwd (sr_cwd body))),
          (''approvalPolicy'', JStr (approval_of (sr_approvalPolicy body))),
          (''sandboxPolicy'', JNull), (''model'', string_or_null effectiveModel),
          (''effort'', string_or_null effectiveEffort),
          (''serviceTier'', string_or_null (normalizeServiceTier (sr_serviceTier body))),
          (''summary'', JStr ''auto''), (''personality'', JNull), (''outputSchema'', JNull),
          (''collaborationMode'', toTurnCollaborationMode mode effectiveModel effectiveEffort),
          (''agent'', string_or_null (normalizeAgentName (sr_agent body)))])"

definition prepareTurnRequest ::
  "string \<Rightarrow> sendChatMessageRequest \<Rightarrow> prepareOptions \<Rightarrow> preparedTurnRequest call" where
  "prepareTurnRequest i body opts =
     (if trim (sr_content body) = []
      then give \<lparr>pt_content = [], pt_mentions = [], pt_localImages = [],
        pt_turnStartParams = [(''threadId'', JStr i), (''input'', JArr [])]\<rparr>
      else if with_default (sr_role body) ''user'' \<noteq> ''user''
      then raise (ApiFailed ''Only user role is supported in bridge/chat messaging'')
      else await (if po_skipResume opts then give no_settings
           else resumeThread i (normalizeCwd (sr_cwd body)) (normalizeModel (sr_model body))
             (Some (approval_of (sr_approvalPolicy body))))
         (\<lambda>resumed. give
           \<lparr>pt_content = trim (sr_content body), pt_mentions = normalizeMentions (sr_mentions body),
            pt_localImages = normalizeLocalImages (sr_localImages body),
            pt_turnStartParams = turnStartParams i body resumed\<rparr>))"

section \<open>The chat with the message\<close>

definition shows_message ::
  "rawThread \<times> mappedChat \<Rightarrow> string \<Rightarrow> string \<Rightarrow> turnInputMention list \<Rightarrow> string list \<Rightarrow> bool" where
  "shows_message snapshot turnId content mentions localImages =
     (rawThreadHasTurnUserMessage (fst snapshot) turnId content mentions localImages
      \<or> \<not> rawThreadHasTurns (fst snapshot)
        \<and> chatHasRecentUserMessage (snd snapshot) content mentions localImages 8)"

fun awaitUserMessage ::
  "apiEnv \<Rightarrow> string \<Rightarrow> string \<Rightarrow> string \<Rightarrow> turnInputMention list \<Rightarrow> string list \<Rightarrow> nat list
     \<Rightarrow> rawThread \<times> mappedChat \<Rightarrow> mappedChat call" where
  "awaitUserMessage env i turnId content mentions localImages delays snapshot =
     (if shows_message snapshot turnId content mentions localImages
      then await (change (rememberChat (snd snapshot))) (\<lambda>_. give (snd snapshot))
      else case delays of
        [] \<Rightarrow> reading (\<lambda>s.
          let synthetic = appendSyntheticUserMessage (ac_now s) (ev_localId env (ac_ids s) 0) (snd snapshot)
                content mentions localImages
          in await (change (\<lambda>s. rememberChat synthetic (s\<lparr>ac_ids := ac_ids s + 1\<rparr>))) (\<lambda>_. give synthetic))
      | d # ds \<Rightarrow> await (sleep d) (\<lambda>_. await (readChatSnapshot env i)
          (awaitUserMessage env i turnId content mentions localImages ds)))"

declare awaitUserMessage.simps [simp del]

definition getChatWithUserMessage ::
  "apiEnv \<Rightarrow> string \<Rightarrow> string \<Rightarrow> string \<Rightarrow> turnInputMention list \<Rightarrow> string list \<Rightarrow> mappedChat call" where
  "getChatWithUserMessage env i turnId content mentions localImages =
     await (readChatSnapshot env i) (\<lambda>snapshot.
       if trim content = [] then give (snd snapshot)
       else awaitUserMessage env i turnId (trim content) mentions localImages [25, 50, 100, 150] snapshot)"

section \<open>Sending\<close>

definition default_read :: chatReadOptions where
  "default_read = \<lparr>ko_cacheTtlMs = None, ko_forceRefresh = False\<rparr>"

definition default_prepare :: prepareOptions where
  "default_prepare = \<lparr>po_skipResume = False, po_submissionId = None\<rparr>"

definition emptyQueue :: jsv where
  "emptyQueue = JObj
     [(''threadId'', JStr []), (''items'', JArr []), (''pendingSteers'', JArr []), (''pendingSteerCount'', JNum 0),
      (''waitingForToolCalls'', JBool False), (''steeringInFlight'', JBool False), (''lastError'', JNull)]"

definition readThreadQueue :: "string \<Rightarrow> jsv call" where
  "readThreadQueue threadId =
     (if trim threadId = [] then give emptyQueue
      else rpc ''bridge/thread/queue/read'' (JObj [(''threadId'', JStr (trim threadId))]))"

definition sendChatMessage :: "apiEnv \<Rightarrow> string \<Rightarrow> sendChatMessageRequest \<Rightarrow> mappedChat call" where
  "sendChatMessage env i body =
     await (prepareTurnRequest i body default_prepare) (\<lambda>prepared.
       if pt_content prepared = [] then getChat env i default_read
       else await (rpc ''turn/start'' (JObj (pt_turnStartParams prepared))) (\<lambda>turnStart.
         await (outcome (response_record turnStart)) (\<lambda>r.
         case non_empty (as_string (opt_prop (toRecord (prop_of r ''turn'')) ''id'')) of
           None \<Rightarrow> raise (ApiFailed ''turn/start did not return turn id'')
         | Some turnId \<Rightarrow> await (tell (TurnStarted turnId)) (\<lambda>_.
             getChatWithUserMessage env i turnId (pt_content prepared) (pt_mentions prepared)
               (pt_localImages prepared)))))"

definition createSubmissionId :: "apiClient \<Rightarrow> apiClient \<times> (apiError + string)" where
  "createSubmissionId s =
     (let n = ac_submissions s + 1
      in (s\<lparr>ac_submissions := n\<rparr>, Inr (''submission-'' @ base36 (nat (ac_now s)) @ ''-'' @ base36 n)))"

definition sendOrQueueChatMessage ::
  "apiEnv \<Rightarrow> string \<Rightarrow> sendChatMessageRequest \<Rightarrow> prepareOptions \<Rightarrow> sendOrQueueResult call" where
  "sendOrQueueChatMessage env i body opts =
     await (prepareTurnRequest i body opts) (\<lambda>prepared.
       if pt_content prepared = []
       then await (readThreadQueue i) (\<lambda>queue.
         await (getChat env i default_read) (\<lambda>chat. give (MessageSent queue [] chat)))
       else await (case non_empty (map_option trim (po_submissionId opts)) of
             Some submissionId \<Rightarrow> give submissionId | None \<Rightarrow> sync createSubmissionId)
         (\<lambda>submissionId.
           await (rpc ''bridge/thread/queue/send'' (JObj
               [(''threadId'', JStr i), (''submissionId'', JStr submissionId),
                (''content'', JStr (pt_content prepared)), (''turnStart'', JObj (pt_turnStartParams prepared))]))
             (\<lambda>response. await (outcome (response_record response)) (\<lambda>r.
               if prop_of r ''disposition'' = JStr ''queued'' then give (MessageQueued (prop_of r ''queue''))
               else case non_empty (trimmed_string (prop_of r ''turnId'')) of
                 None \<Rightarrow> raise (ApiFailed ''bridge/thread/queue/send did not return turn id for sent message'')
               | Some turnId \<Rightarrow>
                   await (getChatWithUserMessage env i turnId (pt_content prepared) (pt_mentions prepared)
                       (pt_localImages prepared))
                     (\<lambda>chat. give (MessageSent (prop_of r ''queue'') turnId chat))))))"

definition sendChatMessageIdempotent ::
  "apiEnv \<Rightarrow> string \<Rightarrow> sendChatMessageRequest \<Rightarrow> string \<Rightarrow> mappedChat call" where
  "sendChatMessageIdempotent env i body submissionId =
     await (sendOrQueueChatMessage env i body \<lparr>po_skipResume = False, po_submissionId = Some submissionId\<rparr>)
       (\<lambda>result. case result of
          MessageQueued queue \<Rightarrow> getChat env i default_read
        | MessageSent queue turnId chat \<Rightarrow> await (tell (TurnStarted turnId)) (\<lambda>_. give chat))"

definition steerChatTurn ::
  "string \<Rightarrow> string \<Rightarrow> string \<Rightarrow> mentionInput list option \<Rightarrow> string list option \<Rightarrow> unit call" where
  "steerChatTurn threadId expectedTurnId content mentions localImages =
     (if trim threadId = [] \<or> trim expectedTurnId = [] \<or> trim content = [] then give ()
      else await (rpc ''turn/steer'' (JObj
          [(''threadId'', JStr (trim threadId)), (''expectedTurnId'', JStr (trim expectedTurnId)),
           (''input'', JArr (buildTurnInput (trim content) (normalizeMentions mentions)
              (normalizeLocalImages localImages)))]))
        (\<lambda>_. give ()))"

section \<open>Interrupting\<close>

definition ACTIVE_TURN_STATUSES :: "string list" where
  "ACTIVE_TURN_STATUSES =
     [''inprogress'', ''in_progress'', ''running'', ''active'', ''queued'', ''pending'']"

definition interruptTurn :: "string \<Rightarrow> string \<Rightarrow> unit call" where
  "interruptTurn threadId turnId =
     (if trim threadId = [] \<or> trim turnId = []
      then raise (ApiFailed ''threadId and turnId are required to interrupt a turn'')
      else await (rpc ''turn/interrupt'' (JObj
          [(''threadId'', JStr (trim threadId)), (''turnId'', JStr (trim turnId))])) (\<lambda>_. give ()))"

text \<open>The id of the last turn that is active\<close>

definition lastActiveTurn :: "rawTurn list \<Rightarrow> string option" where
  "lastActiveTurn turns =
     Option.bind (find (\<lambda>turn. non_empty (tn_id turn) \<noteq> None
         \<and> (case normalizeTurnStatus (tn_status turn) of
              Some status \<Rightarrow> status \<in> set ACTIVE_TURN_STATUSES | None \<Rightarrow> False)) (rev turns)) tn_id"

definition interruptLatestTurn :: "apiEnv \<Rightarrow> string \<Rightarrow> string option call" where
  "interruptLatestTurn env threadId =
     (if trim threadId = [] then raise (ApiFailed ''threadId is required to interrupt the active turn'')
      else await (readChatSnapshot env (trim threadId)) (\<lambda>(raw, _).
        case lastActiveTurn (with_default (th_turns raw) []) of
          None \<Rightarrow> give None
        | Some turnId \<Rightarrow> await (interruptTurn (trim threadId) turnId) (\<lambda>_. give (Some turnId))))"

section \<open>Chats\<close>

definition threadStartParams :: "createChatRequest \<Rightarrow> jobj" where
  "threadStartParams body =
     [(''agentId'', case normalizeAgentId (cr_agentId body) of Some a \<Rightarrow> JStr a | None \<Rightarrow> JUndefined),
      (''model'', string_or_null (normalizeModel (cr_model body))),
      (''effort'', string_or_null (normalizeEffort (cr_effort body))),
      (''mode'', JStr (with_default (normalizeAcpMode (cr_agentMode body))
         (if cr_collaborationMode body = Some ''plan'' then ''plan'' else ''build''))),
      (''modelProvider'', JNull), (''cwd'', string_or_null (normalizeCwd (cr_cwd body))),
      (''approvalPolicy'', JStr (approval_of (cr_approvalPolicy body))),
      (''sandbox'', JStr MOBILE_DEFAULT_SANDBOX),
      (''config'', toThreadConfig (normalizeServiceTier (cr_serviceTier body))), (''baseInstructions'', JNull),
      (''developerInstructions'', JStr MOBILE_DEVELOPER_INSTRUCTIONS), (''personality'', JNull),
      (''ephemeral'', JNull), (''experimentalRawEvents'', JBool True), (''persistExtendedHistory'', JBool True)]"

definition mapped_thread :: "apiEnv \<Rightarrow> jsv \<Rightarrow> mappedChat call" where
  "mapped_thread env thread = sync (mapChatWithCachedTitle env (toRawThread (ev_otherDate env) thread))"

definition createChat :: "apiEnv \<Rightarrow> createChatRequest \<Rightarrow> mappedChat call" where
  "createChat env body =
     await (rpc ''thread/start'' (JObj (threadStartParams body))) (\<lambda>started.
     await (outcome (response_record started)) (\<lambda>r.
       case non_empty (as_string (opt_prop (toRecord (prop_of r ''thread'')) ''id'')) of
         None \<Rightarrow> raise (ApiFailed ''thread/start did not return a chat id'')
       | Some chatId \<Rightarrow>
           (case non_empty (map_option trim (cr_message body)) of
              Some initialPrompt \<Rightarrow> sendChatMessage env chatId
                \<lparr>sr_content = initialPrompt, sr_role = Some ''user'', sr_cwd = normalizeCwd (cr_cwd body),
                 sr_model = normalizeModel (cr_model body), sr_effort = normalizeEffort (cr_effort body),
                 sr_serviceTier = None, sr_approvalPolicy = Some (approval_of (cr_approvalPolicy body)),
                 sr_mentions = None, sr_localImages = None, sr_collaborationMode = None, sr_agent = None\<rparr>
            | None \<Rightarrow> mapped_thread env (prop_of r ''thread''))))"

definition createChatIdempotent :: "apiEnv \<Rightarrow> createChatRequest \<Rightarrow> string \<Rightarrow> mappedChat call" where
  "createChatIdempotent env body submissionId =
     await (rpc ''bridge/thread/create'' (JObj
         [(''submissionId'', JStr submissionId), (''threadStart'', JObj (threadStartParams body))])) (\<lambda>started.
     await (outcome (response_record started)) (\<lambda>r.
       case non_empty (as_string (opt_prop (toRecord (prop_of r ''thread'')) ''id'')) of
         None \<Rightarrow> raise (ApiFailed ''bridge/thread/create did not return a chat'')
       | Some chatId \<Rightarrow> mapped_thread env (prop_of r ''thread'')))"

text \<open>\<open>if (!v)\<close>\<close>

definition falsy :: "jsv \<Rightarrow> bool" where
  "falsy v \<longleftrightarrow> nullish v \<or> v = JBool False \<or> v = JStr [] \<or> v = JNum 0"

definition setThreadConfigOption :: "apiEnv \<Rightarrow> string \<Rightarrow> string \<Rightarrow> jsv \<Rightarrow> mappedChat call" where
  "setThreadConfigOption env threadId configId value =
     (if trim threadId = [] \<or> trim configId = []
      then raise (ApiFailed ''thread and config option are required'')
      else await (rpc ''thread/config/set'' (JObj
          [(''threadId'', JStr (trim threadId)), (''configId'', JStr (trim configId)), (''value'', value)]))
        (\<lambda>response. await (outcome (response_record response)) (\<lambda>r.
          if falsy (prop_of r ''thread'') then raise (ApiFailed ''thread/config/set did not return a chat'')
          else await (mapped_thread env (prop_of r ''thread'')) (\<lambda>chat.
            await (change (rememberChat chat)) (\<lambda>_. give chat)))))"

definition renameChat :: "apiEnv \<Rightarrow> string \<Rightarrow> string \<Rightarrow> mappedChat call" where
  "renameChat env threadId title =
     (if trim threadId = [] \<or> trim title = [] then raise (ApiFailed ''thread and title are required'')
      else await (rpc ''thread/name/update'' (JObj
          [(''threadId'', JStr (trim threadId)), (''title'', JStr (trim title))]))
        (\<lambda>response. await (outcome (response_record response)) (\<lambda>r.
          if falsy (prop_of r ''thread'') then raise (ApiFailed ''thread/name/update did not return a chat'')
          else await (mapped_thread env (prop_of r ''thread'')) (\<lambda>chat.
            await (change (\<lambda>s. rememberChat chat
                (s\<lparr>ac_renamedTitles := AList.update (cs_id chat) (trim title) (ac_renamedTitles s)\<rparr>)))
              (\<lambda>_. give chat)))))"

definition setChatWorkspace :: "apiEnv \<Rightarrow> string \<Rightarrow> string \<Rightarrow> mappedChat call" where
  "setChatWorkspace env i cwd =
     (case normalizeCwd (Some cwd) of
        None \<Rightarrow> raise (ApiFailed ''Workspace path cannot be empty'')
      | Some path \<Rightarrow>
          await (resumeThread i (Some path) None None) (\<lambda>_.
          await (getChat env i default_read) (\<lambda>updated. give (updated\<lparr>cs_cwd := Some path\<rparr>))))"

definition listModelOptions :: "string option \<Rightarrow> modelOption list call" where
  "listModelOptions agentId =
     await (rpc ''model/list'' (JObj [(''agentId'', string_or_null agentId)])) (\<lambda>response.
     await (outcome (response_record response)) (\<lambda>r.
       give (List.map_filter readModelOption (records_at r ''data''))))"

end
