(* ===== verification/ApiClientLaws.thy ===== *)
theory ApiClientLaws
  imports ApiReadsLaws ApiTurns
begin

text \<open>
  The state of the client stays well formed under every method, also when methods run at the same
  time; reads of one key are shared; reads of a thread are tried again only for transient errors.
\<close>

section \<open>A well-formed client\<close>

definition caches_ok :: "apiClient \<Rightarrow> bool" where
  "caches_ok s \<longleftrightarrow>
     (\<forall>(key, chat, loadedAt) \<in> set (ac_chatCache s). key = cs_id chat) \<and> distinct (map fst (ac_chatCache s))
     \<and> distinct (map fst (ac_chatListCache s)) \<and> distinct (map fst (ac_allChatListCache s))
     \<and> (\<forall>(key, value, loadedAt) \<in> set (ac_allChatListCache s). distinct (map cs_id (gr_chats value)))
     \<and> (\<forall>(i, title) \<in> set (ac_renamedTitles s). title \<noteq> [])"

definition promises_in :: "apiClient \<Rightarrow> nat list" where
  "promises_in s = map snd (ac_chatListInFlight s) @ map snd (ac_allChatListInFlight s) @ map snd (ac_chatInFlight s)"

definition flights_ok :: "apiClient \<Rightarrow> bool" where
  "flights_ok s \<longleftrightarrow>
     distinct (map fst (ac_chatListInFlight s)) \<and> distinct (map fst (ac_allChatListInFlight s))
     \<and> distinct (map fst (ac_chatInFlight s))
     \<and> distinct (promises_in s) \<and> (\<forall>p \<in> set (promises_in s). p < ac_promises s)"

definition client_ok :: "apiClient \<Rightarrow> bool" where
  "client_ok s \<longleftrightarrow> caches_ok s \<and> flights_ok s"

text \<open>The promises and the requests under way are not part of the caches, and the other way round.\<close>

lemma flights_ok_cong:
  "ac_promises t = ac_promises s \<Longrightarrow> ac_chatListInFlight t = ac_chatListInFlight s
     \<Longrightarrow> ac_allChatListInFlight t = ac_allChatListInFlight s \<Longrightarrow> ac_chatInFlight t = ac_chatInFlight s
     \<Longrightarrow> flights_ok t = flights_ok s"
  by (simp add: flights_ok_def promises_in_def)

lemma caches_ok_cong:
  "ac_chatCache t = ac_chatCache s \<Longrightarrow> ac_chatListCache t = ac_chatListCache s
     \<Longrightarrow> ac_allChatListCache t = ac_allChatListCache s \<Longrightarrow> ac_renamedTitles t = ac_renamedTitles s
     \<Longrightarrow> caches_ok t = caches_ok s"
  by (simp add: caches_ok_def)

lemma set_update: "set (AList.update k v m) \<subseteq> insert (k, v) (set m)"
  by (induction m) auto

lemma ids_replaceFirst [simp]: "map cs_id (replaceFirst chat chats) = map cs_id chats"
  by (induction chats) auto

section \<open>Changes of the caches\<close>

named_theorems cache_changes

lemma rememberChat_ok [cache_changes]:
  assumes "caches_ok s" shows "caches_ok (rememberChat chat s)"
  using assms set_update [of "cs_id chat" "(chat, ac_now s)" "ac_chatCache s"]
  by (fastforce simp: caches_ok_def rememberChat_def comp_def case_prod_beta distinct_update)

lemma mergeIntoAll_ok:
  assumes "caches_ok s" shows "caches_ok (mergeIntoAllChatListCaches env chats s)"
  using assms by (auto simp: caches_ok_def mergeIntoAllChatListCaches_def comp_def case_prod_beta merged_distinct)

lemma rememberChats_ok [cache_changes]:
  assumes "caches_ok s" shows "caches_ok (rememberChats env chats opts s)"
proof -
  let ?t = "s\<lparr>ac_chatListCache := AList.update (chatListCacheKey opts) (chats, ac_now s) (ac_chatListCache s)\<rparr>"
  have "caches_ok ?t" using assms by (simp add: caches_ok_def distinct_update)
  with mergeIntoAll_ok [OF this] show ?thesis
    unfolding rememberChats_def Let_def by (simp only: if_split) blast
qed

lemma rememberTitle_ok [cache_changes]:
  assumes "caches_ok s" shows "caches_ok (rememberRawThreadTitle raw s)"
proof -
  have "title \<noteq> []" if "(i, title) \<in> set (AList.update k v (ac_renamedTitles s))" "v \<noteq> []" for i k title v
    using that set_update [of k v "ac_renamedTitles s"] assms by (auto simp: caches_ok_def)
  then show ?thesis using assms
    by (auto simp: rememberRawThreadTitle_def caches_ok_def non_empty_def split: option.splits if_splits)
qed

lemma remembered_list_ok:
  assumes "caches_ok s" "distinct (map cs_id (gr_chats r))"
  shows "caches_ok (s\<lparr>ac_allChatListCache := AList.update key (r, now) (ac_allChatListCache s)\<rparr>)"
  using assms set_update [of key "(r, now)" "ac_allChatListCache s"]
  by (fastforce simp: caches_ok_def distinct_update)

text \<open>What leaves the requests under way as they are\<close>

definition same_flights :: "apiClient \<Rightarrow> apiClient \<Rightarrow> bool" where
  "same_flights s t \<longleftrightarrow> ac_promises t = ac_promises s \<and> ac_chatListInFlight t = ac_chatListInFlight s
     \<and> ac_allChatListInFlight t = ac_allChatListInFlight s \<and> ac_chatInFlight t = ac_chatInFlight s"

lemma same_flights_simps [simp]:
  "same_flights s s"
  "same_flights s (rememberChat chat t) \<longleftrightarrow> same_flights s t"
  "same_flights s (rememberChats env chats opts t) \<longleftrightarrow> same_flights s t"
  "same_flights s (t\<lparr>ac_ids := n\<rparr>) \<longleftrightarrow> same_flights s t"
  "same_flights s (t\<lparr>ac_renamedTitles := titles\<rparr>) \<longleftrightarrow> same_flights s t"
  "same_flights s (t\<lparr>ac_allChatListCache := c\<rparr>) \<longleftrightarrow> same_flights s t"
  "same_flights s (t\<lparr>ac_submissions := n\<rparr>) \<longleftrightarrow> same_flights s t"
  "same_flights s (t\<lparr>ac_streams := ss\<rparr>) \<longleftrightarrow> same_flights s t"
  by (simp_all add: same_flights_def rememberChat_def rememberChats_def mergeIntoAllChatListCaches_def Let_def)

lemma same_flights_title [simp]: "same_flights s (rememberRawThreadTitle raw t) \<longleftrightarrow> same_flights s t"
  unfolding rememberRawThreadTitle_def by (simp split: option.split)

lemma flights_same: "same_flights s t \<Longrightarrow> flights_ok t = flights_ok s"
  unfolding same_flights_def by (intro flights_ok_cong) simp_all

lemma client_ok_caches: "client_ok s \<Longrightarrow> caches_ok s"
  by (simp add: client_ok_def)

lemma client_okI: "caches_ok t \<Longrightarrow> same_flights s t \<Longrightarrow> client_ok s \<Longrightarrow> client_ok t"
  by (simp add: client_ok_def flights_same)

lemma mapChatWithCachedTitle_ok:
  assumes "caches_ok s" "mapChatWithCachedTitle env raw s = (t, x)"
  shows "caches_ok t \<and> same_flights s t"
proof -
  have "caches_ok (s\<lparr>ac_ids := ac_ids s + 1\<rparr>)" using assms(1) by (simp add: caches_ok_def)
  with assms(2) show ?thesis
    by (auto simp: mapChatWithCachedTitle_def Let_def cache_changes split: sum.splits)
qed

lemma mapItems_ok:
  "mapItems env items s = (t, x) \<Longrightarrow> caches_ok s \<Longrightarrow> caches_ok t \<and> same_flights s t"
proof (induction env items s arbitrary: t x rule: mapItems.induct)
  case (2 env item items s)
  let ?s1 = "rememberRawThreadTitle (toRawThread (ev_otherDate env) item) s"
  have s1: "caches_ok ?s1" "same_flights s ?s1" using 2(3) by (simp_all add: cache_changes)
  show ?case
  proof (cases "mapChatSummary (toRawThread (ev_otherDate env) item)")
    case (Inl e)
    with 2(2) s1 show ?thesis by (auto simp: Let_def)
  next
    case (Inr m)
    obtain u y where u: "mapItems env items ?s1 = (u, y)" by fastforce
    with 2(1) [OF refl refl Inr u s1(1)] s1(2) have "caches_ok u" "same_flights s u"
      by (auto simp: same_flights_def)
    with 2(2) u Inr show ?thesis by (auto simp: Let_def split: sum.splits)
  qed
qed simp

lemma readChatPage_ok:
  assumes "caches_ok s" "readChatPage env subAgents response s = (t, x)"
  shows "caches_ok t \<and> same_flights s t"
  using assms mapItems_ok
  by (auto simp: readChatPage_def mapChatListItems_def Let_def map_prod_def split: sum.splits prod.splits)


section \<open>Requests under way\<close>

text \<open>An action that starts with a change that depends on the state\<close>

lemma kept_reading_change:
  assumes "I s \<Longrightarrow> I (f s)" "\<And>x. kept I (g x)" "I s" "runs (\<lambda>s s'. I s \<longrightarrow> I s') (await (change f) g s) es t x"
  shows "I t"
proof -
  from assms(4) have "runs (\<lambda>s s'. I s \<longrightarrow> I s') (g () (f s)) es t x"
    unfolding runs_await runs_change by auto
  with assms(1-3) show ?thesis unfolding kept_def by blast
qed

lemma in_set_delete: "kv \<in> set (AList.delete k m) \<Longrightarrow> kv \<in> set m"
  by (simp add: AList.delete_eq)

lemma snd_delete: "set (map snd (AList.delete k m)) \<subseteq> set (map snd m)"
  by (auto simp: AList.delete_eq)

lemma distinct_snd_delete: "distinct (map snd m) \<Longrightarrow> distinct (map snd (AList.delete k m))"
  by (simp add: AList.delete_eq distinct_map_filter)

lemma new_key: "map_of m k = None \<Longrightarrow> AList.update k v m = m @ [(k, v)]"
  by (induction m) (auto split: if_splits)

lemma client_ok_start:
  assumes "client_ok s"
  shows "map_of (ac_chatListInFlight s) key = None \<Longrightarrow> client_ok (ac_chatListInFlight_update
           (AList.update key (ac_promises s)) (s\<lparr>ac_promises := ac_promises s + 1\<rparr>))"
    and "map_of (ac_allChatListInFlight s) key = None \<Longrightarrow> client_ok (ac_allChatListInFlight_update
           (AList.update key (ac_promises s)) (s\<lparr>ac_promises := ac_promises s + 1\<rparr>))"
    and "map_of (ac_chatInFlight s) key = None \<Longrightarrow> client_ok (ac_chatInFlight_update
           (AList.update key (ac_promises s)) (s\<lparr>ac_promises := ac_promises s + 1\<rparr>))"
  using assms
  by (auto simp: client_ok_def caches_ok_def flights_ok_def promises_in_def new_key map_of_eq_None_iff
      intro: less_SucI)

lemma client_ok_stop:
  assumes "client_ok s"
  shows "client_ok (ac_chatListInFlight_update (AList.delete key) s)"
    and "client_ok (ac_allChatListInFlight_update (AList.delete key) s)"
    and "client_ok (ac_chatInFlight_update (AList.delete key) s)"
  using assms
  by (auto simp: client_ok_def caches_ok_def flights_ok_def promises_in_def distinct_delete
      distinct_snd_delete dest!: in_set_delete)

lemma kept_shared_request:
  assumes "\<And>s. client_ok s \<Longrightarrow> map_of (inFlight s) key = None
      \<Longrightarrow> client_ok (update (AList.update key (ac_promises s)) (s\<lparr>ac_promises := ac_promises s + 1\<rparr>))"
    and "\<And>s. client_ok s \<Longrightarrow> client_ok (update (AList.delete key) s)"
    and "kept client_ok request"
  shows "kept client_ok (shared_request inFlight update value pick key request)"
  unfolding kept_def
proof (intro allI impI)
  fix s es t x
  assume s: "client_ok s"
    and run: "runs (\<lambda>s s'. client_ok s \<longrightarrow> client_ok s')
      (shared_request inFlight update value pick key request s) es t x"
  show "client_ok t"
  proof (cases "map_of (inFlight s) key")
    case (Some p)
    with run s show ?thesis by (auto simp: shared_request_def joining_def runs_reading runs_ask)
  next
    case None
    note run [unfolded shared_request_def runs_reading None option.case Let_def]
    with s show ?thesis
      by (rule kept_reading_change [rotated 2])
        (use assms None s in \<open>auto intro!: kept_settle kept_intros\<close>)
  qed
qed

lemmas kept_shared =
  kept_shared_request [where inFlight = ac_chatListInFlight and update = ac_chatListInFlight_update,
    OF client_ok_start(1) client_ok_stop(1)]
  kept_shared_request [where inFlight = ac_allChatListInFlight and update = ac_allChatListInFlight_update,
    OF client_ok_start(2) client_ok_stop(2)]
  kept_shared_request [where inFlight = ac_chatInFlight and update = ac_chatInFlight_update,
    OF client_ok_start(3) client_ok_stop(3)]


section \<open>Every method keeps the client well formed\<close>

lemma kept_if: "(b \<Longrightarrow> kept I m) \<Longrightarrow> (\<not> b \<Longrightarrow> kept I n) \<Longrightarrow> kept I (if b then m else n)"
  by simp

lemma kept_sync:
  "(\<And>s t x. caches_ok s \<Longrightarrow> f s = (t, x) \<Longrightarrow> caches_ok t \<and> same_flights s t) \<Longrightarrow> kept client_ok (sync f)"
  unfolding kept_def runs_sync by (blast intro: client_okI dest: client_ok_caches)

lemma kept_cache_change:
  "(\<And>s. caches_ok s \<Longrightarrow> caches_ok (f s)) \<Longrightarrow> (\<And>s. same_flights s (f s)) \<Longrightarrow> kept client_ok (change f)"
  by (rule kept_change) (blast intro: client_okI dest: client_ok_caches)

lemma kept_rpc [kept_intros]: "kept I (rpc name params)"
  by (simp add: rpc_def kept_ask)

lemma kept_sleep [kept_intros]: "kept I (sleep n)"
  by (simp add: sleep_def kept_ask)

lemma kept_rememberChat [kept_intros]: "kept client_ok (change (rememberChat chat))"
  by (rule kept_cache_change) (simp_all add: cache_changes)

lemma kept_rememberTitle [kept_intros]: "kept client_ok (change (rememberRawThreadTitle raw))"
  by (rule kept_cache_change) (simp_all add: cache_changes)

lemma kept_rememberChats [kept_intros]: "kept client_ok (change (rememberChats env chats opts))"
  by (rule kept_cache_change) (simp_all add: cache_changes)

lemma kept_mapped [kept_intros]: "kept client_ok (sync (mapChatWithCachedTitle env raw))"
  by (rule kept_sync) (rule mapChatWithCachedTitle_ok)

lemma kept_readChatPage [kept_intros]: "kept client_ok (sync (readChatPage env subAgents response))"
  by (rule kept_sync) (rule readChatPage_ok)

lemma kept_mapped_thread [kept_intros]: "kept client_ok (mapped_thread env thread)"
  unfolding mapped_thread_def by (rule kept_mapped)

lemma kept_createSubmissionId [kept_intros]: "kept client_ok (sync createSubmissionId)"
  by (rule kept_sync) (auto simp: createSubmissionId_def Let_def caches_ok_def)

lemma kept_fetchChatPage [kept_intros]: "kept client_ok (fetchChatPage env opts cursor)"
  unfolding fetchChatPage_def by (intro kept_intros)

lemma kept_listChats [kept_intros]: "kept client_ok (listChats env opts)"
  unfolding listChats_def fetchChats_def
  by (intro kept_intros kept_shared allI impI) (auto intro!: kept_intros kept_shared split: option.split)

lemma kept_readThreadWithRetries [kept_intros]:
  "kept client_ok (readThreadWithRetries threadId includeTurns delays)"
  by (induction delays)
    (auto simp: readThreadWithRetries.simps [of threadId] intro!: kept_intros)

lemma kept_readAppServerThread [kept_intros]: "kept client_ok (readAppServerThread threadId includeTurns)"
  unfolding readAppServerThread_def by (rule kept_readThreadWithRetries)

lemma kept_snapshotOf [kept_intros]: "kept client_ok (snapshotOf env response)"
  unfolding snapshotOf_def by (intro kept_intros)

lemma kept_readChatSnapshot [kept_intros]: "kept client_ok (readChatSnapshot env i)"
  unfolding readChatSnapshot_def by (auto intro!: kept_intros)

lemma kept_getChat [kept_intros]: "kept client_ok (getChat env i opts)"
  unfolding getChat_def Let_def
  by (auto intro!: kept_intros kept_shared split: option.split prod.split)

lemma kept_getChatSummary [kept_intros]: "kept client_ok (getChatSummary env i)"
  unfolding getChatSummary_def Let_def
  by (auto intro!: kept_intros split: option.split sum.split)

lemma kept_resumeThread [kept_intros]: "kept client_ok (resumeThread i cwd model approvalPolicy)"
  unfolding resumeThread_def by (auto intro!: kept_intros split: option.split)

lemma kept_prepareTurnRequest [kept_intros]: "kept client_ok (prepareTurnRequest i body opts)"
  unfolding prepareTurnRequest_def by (auto intro!: kept_intros)

lemma kept_awaitUserMessage [kept_intros]:
  "kept client_ok (awaitUserMessage env i turnId content mentions localImages delays snapshot)"
proof (induction delays arbitrary: snapshot)
  case Nil
  have "caches_ok (s\<lparr>ac_ids := n\<rparr>) = caches_ok s" for s n by (simp add: caches_ok_def)
  then show ?case
    unfolding awaitUserMessage.simps [of _ _ _ _ _ _ "[]"] Let_def list.case
    by (simp, intro impI conjI kept_intros kept_cache_change) (simp_all add: cache_changes)
next
  case (Cons d ds)
  then show ?case by (auto simp: awaitUserMessage.simps [of _ _ _ _ _ _ "d # ds"] intro!: kept_intros)
qed

lemma kept_getChatWithUserMessage [kept_intros]:
  "kept client_ok (getChatWithUserMessage env i turnId content mentions localImages)"
  unfolding getChatWithUserMessage_def by (auto intro!: kept_intros)

lemma kept_sendChatMessage [kept_intros]: "kept client_ok (sendChatMessage env i body)"
  unfolding sendChatMessage_def by (auto intro!: kept_intros split: option.split)

lemma kept_readThreadQueue [kept_intros]: "kept client_ok (readThreadQueue i)"
  unfolding readThreadQueue_def by (auto intro!: kept_intros)

lemma kept_sendOrQueueChatMessage [kept_intros]: "kept client_ok (sendOrQueueChatMessage env i body opts)"
  unfolding sendOrQueueChatMessage_def by (auto intro!: kept_intros split: option.split)

lemma kept_sendChatMessageIdempotent [kept_intros]: "kept client_ok (sendChatMessageIdempotent env i body n)"
  unfolding sendChatMessageIdempotent_def by (auto intro!: kept_intros split: sendOrQueueResult.split)

lemma kept_createChat [kept_intros]: "kept client_ok (createChat env body)"
  unfolding createChat_def by (auto intro!: kept_intros split: option.split)

lemma kept_createChatIdempotent [kept_intros]: "kept client_ok (createChatIdempotent env body n)"
  unfolding createChatIdempotent_def by (auto intro!: kept_intros split: option.split)

lemma kept_setThreadConfigOption [kept_intros]: "kept client_ok (setThreadConfigOption env i configId value)"
  unfolding setThreadConfigOption_def by (auto intro!: kept_intros)

lemma kept_setChatWorkspace [kept_intros]: "kept client_ok (setChatWorkspace env i cwd)"
  unfolding setChatWorkspace_def by (auto intro!: kept_intros split: option.split)

lemma kept_interruptTurn [kept_intros]: "kept I (interruptTurn i turnId)"
  unfolding interruptTurn_def by (auto intro!: kept_intros)

lemma kept_interruptLatestTurn [kept_intros]: "kept client_ok (interruptLatestTurn env i)"
  unfolding interruptLatestTurn_def by (auto intro!: kept_intros split: option.split)


text \<open>What is known of the result goes into what follows.\<close>

definition gives :: "('a \<Rightarrow> bool) \<Rightarrow> ('s, 'q, 'r, 'e, 'a) action \<Rightarrow> bool" where
  "gives P m \<longleftrightarrow> (\<forall>rely s es t x. runs rely (m s) es t (Inr x) \<longrightarrow> P x)"

lemma gives_give: "P x \<Longrightarrow> gives P (give x)"
  by (simp add: gives_def run_laws)

lemma gives_await: "(\<And>y. gives P (f y)) \<Longrightarrow> gives P (await m f)"
  unfolding gives_def runs_await by blast

lemma kept_await_given: "kept I m \<Longrightarrow> gives P m \<Longrightarrow> (\<And>x. P x \<Longrightarrow> kept I (f x)) \<Longrightarrow> kept I (await m f)"
  unfolding kept_def gives_def runs_await by blast

lemma kept_fetchPages [kept_intros]: "kept client_ok (fetchPages env opts cursor listed seen n)"
proof (induction env opts cursor listed seen n rule: fetchPages.induct)
  case (1 env opts cursor listed seen n)
  then show ?case
    by (subst fetchPages.simps) (auto simp: Let_def intro!: kept_intros)
qed

lemma listed_once:
  "distinct (map cs_id (gr_chats listed))
     \<Longrightarrow> gives (\<lambda>r. distinct (map cs_id (gr_chats r))) (fetchPages env opts cursor listed seen n)"
proof (induction env opts cursor listed seen n rule: fetchPages.induct)
  case (1 env opts cursor listed seen n)
  then show ?case
    by (subst fetchPages.simps)
      (auto simp: Let_def list_result_def merged_distinct intro!: gives_await gives_give)
qed

lemma kept_listAllChats [kept_intros]: "kept client_ok (listAllChats env opts)"
proof -
  have "kept client_ok (fetchAllChats env opts)"
    unfolding fetchAllChats_def
    by (rule kept_await_given [OF kept_fetchPages listed_once], simp add: list_result_def)
      (intro kept_await kept_give kept_cache_change, simp_all add: remembered_list_ok)
  then show ?thesis
    unfolding listAllChats_def by (auto intro!: kept_intros kept_shared split: option.split)
qed

lemma renamed_ok:
  assumes "caches_ok s" "title \<noteq> []"
  shows "caches_ok (s\<lparr>ac_renamedTitles := AList.update i title (ac_renamedTitles s)\<rparr>)"
  using assms set_update [of i title "ac_renamedTitles s"] by (auto simp: caches_ok_def)

lemma kept_renameChat [kept_intros]: "kept client_ok (renameChat env i title)"
proof -
  have renamed: "kept client_ok (change (\<lambda>s. rememberChat chat
      (s\<lparr>ac_renamedTitles := AList.update (cs_id chat) title (ac_renamedTitles s)\<rparr>)))" if "title \<noteq> []" for chat title
    using that by (intro kept_cache_change) (simp_all add: cache_changes renamed_ok)
  show ?thesis unfolding renameChat_def
    by (intro kept_if kept_raise kept_await kept_rpc kept_outcome kept_mapped_thread kept_give renamed) simp
qed

lemma kept_streams [kept_intros]: "kept client_ok (change (\<lambda>s. s\<lparr>ac_streams := f (ac_streams s)\<rparr>))"
  by (rule kept_cache_change) (simp_all add: caches_ok_def)

lemma kept_cancelStream [kept_intros]: "kept client_ok (cancelStream streamId)"
  unfolding cancelStream_def by (auto intro!: kept_intros)

lemma kept_startChatListStream [kept_intros]:
  "kept client_ok (startChatListStream includeSubAgents limits delayMs streamId)"
  unfolding startChatListStream_def Let_def by (auto intro!: kept_intros)

lemma mapChatListItems_ok:
  "caches_ok s \<Longrightarrow> mapChatListItems env items subAgents s = (t, x) \<Longrightarrow> caches_ok t \<and> same_flights s t"
  by (auto simp: mapChatListItems_def dest: mapItems_ok split: sum.splits prod.splits)

lemma streamEvent_ok:
  assumes "client_ok s" "streamEvent env streamId subAgents name params s = (t, x)"
  shows "client_ok t"
proof -
  have out: "client_ok u \<Longrightarrow> client_ok (u\<lparr>ac_streams := ss\<rparr>)" for u ss
    by (rule client_okI [where s = u]) (simp_all add: client_ok_def caches_ok_def)
  have batch: "client_ok (rememberChats env chats opts u)" "client_ok u"
    if "mapChatListItems env items subAgents s = (u, y)" for items u y chats opts
    using mapChatListItems_ok [OF client_ok_caches [OF assms(1)] that] assms(1)
    by (auto intro!: client_okI [of _ s] cache_changes)
  show ?thesis
  proof (cases "toRecord params")
    case None
    with assms show ?thesis by (simp add: streamEvent_def)
  next
    case (Some r)
    obtain u y where u: "mapChatListItems env (array_at r ''data'') subAgents s = (u, y)" by fastforce
    show ?thesis
      using assms(2) out [OF assms(1)] out [OF batch(1) [OF u]] batch [OF u] assms(1)
      by (cases y) (auto simp: streamEvent_def Some u Let_def split: if_splits)
  qed
qed


definition newClient :: "int \<Rightarrow> apiClient" where
  "newClient now = \<lparr>ac_now = now, ac_ids = 0, ac_submissions = 0, ac_promises = 0, ac_renamedTitles = [],
     ac_chatListCache = [], ac_allChatListCache = [], ac_chatCache = [], ac_chatListInFlight = [],
     ac_allChatListInFlight = [], ac_chatInFlight = [], ac_streams = []\<rparr>"


section \<open>Retries\<close>

text \<open>What a request gives and the replies to requests of a name\<close>

definition json_reply :: "apiError + apiValue \<Rightarrow> apiError + jsv" where
  "json_reply reply = (case reply of Inr (Json v) \<Rightarrow> Inr v | Inr _ \<Rightarrow> Inl OtherReply | Inl e \<Rightarrow> Inl e)"

definition replies :: "(apiCall, apiError + apiValue) event list \<Rightarrow> (apiError + jsv) list" where
  "replies es = List.map_filter (\<lambda>e. case e of Asked (Rpc _ _) r \<Rightarrow> Some (json_reply r) | _ \<Rightarrow> None) es"

definition sleeps :: "(apiCall, apiError + apiValue) event list \<Rightarrow> nat list" where
  "sleeps es = List.map_filter (\<lambda>e. case e of Asked (SleepFor d) _ \<Rightarrow> Some d | _ \<Rightarrow> None) es"

definition transient_reply :: "apiError + jsv \<Rightarrow> bool" where
  "transient_reply x \<longleftrightarrow> (case x of Inl e \<Rightarrow> isTransientThreadReadError e | Inr _ \<Rightarrow> False)"

lemmas rpc_run = runs_rpc [folded json_reply_def]

lemma retry_turn:
  assumes "runs rely (readThreadWithRetries threadId includeTurns delays s) es t x"
  obtains (last) r where
      "es = [Asked (Rpc ''thread/read'' (JObj [(''threadId'', JStr threadId), (''includeTurns'', JBool includeTurns)])) r]"
      "x = json_reply r" "transient_reply x \<Longrightarrow> delays = []"
    | (again) d ds e r r' es' u where
      "es = Asked (Rpc ''thread/read'' (JObj [(''threadId'', JStr threadId), (''includeTurns'', JBool includeTurns)])) r
        # Asked (SleepFor d) r' # es'" "delays = d # ds" "json_reply r = Inl e" "isTransientThreadReadError e"
      "runs rely (readThreadWithRetries threadId includeTurns ds u) es' t x"
proof -
  from assms [unfolded readThreadWithRetries.simps [of threadId includeTurns delays] runs_attempt rpc_run]
  consider (finished) r y where "json_reply r = Inr y" "x = Inr y"
      "es = [Asked (Rpc ''thread/read'' (JObj [(''threadId'', JStr threadId), (''includeTurns'', JBool includeTurns)])) r]"
    | (error) r e u es2 where "json_reply r = Inl e"
      "es = Asked (Rpc ''thread/read'' (JObj [(''threadId'', JStr threadId), (''includeTurns'', JBool includeTurns)])) r # es2"
      "runs rely ((if \<not> isTransientThreadReadError e then raise e
          else case delays of [] \<Rightarrow> raise e
          | d # ds \<Rightarrow> await (sleep d) (\<lambda>_. readThreadWithRetries threadId includeTurns ds)) u) es2 t x"
    by (elim disjE exE conjE) (metis, metis append_Cons append_Nil)
  then show thesis
  proof cases
    case finished
    then show thesis by (intro last [of r]) (simp_all add: transient_reply_def)
  next
    case error
    show thesis
    proof (cases "isTransientThreadReadError e \<and> delays \<noteq> []")
      case True
      then obtain d ds where d: "delays = d # ds" by (cases delays) auto
      from error(3) True obtain r' v es' where "es2 = Asked (SleepFor d) r' # es'"
          "runs rely (readThreadWithRetries threadId includeTurns ds v) es' t x"
        by (auto simp: d runs_await runs_sleep)
      with error(1,2) d True show thesis by (intro again [of r d r' es' ds e v]) simp_all
    next
      case False
      with error(3) have "x = Inl e" "es2 = []" by (auto simp: runs_raise split: if_splits)
      with error(1,2) False show thesis by (intro last [of r]) (auto simp: transient_reply_def)
    qed
  qed
qed

lemma retries_run:
  assumes "runs rely (readThreadWithRetries threadId includeTurns delays s) es t x"
  shows "\<exists>rs. replies es = rs @ [x] \<and> length rs \<le> length delays \<and> sleeps es = take (length rs) delays
    \<and> list_all transient_reply rs \<and> (transient_reply x \<longrightarrow> length rs = length delays)
    \<and> requests ''thread/read'' es = replicate (length rs + 1)
        (JObj [(''threadId'', JStr threadId), (''includeTurns'', JBool includeTurns)])"
  using assms
proof (induction delays arbitrary: s es)
  case Nil
  then show ?case
    by (cases rule: retry_turn) (simp_all add: replies_def sleeps_def List.map_filter_simps)
next
  case (Cons d ds)
  from Cons.prems show ?case
  proof (cases rule: retry_turn)
    case (last r)
    then show ?thesis
      by (intro exI [of _ "[]"]) (auto simp: replies_def sleeps_def List.map_filter_simps)
  next
    case (again d' ds' e r r' es' u)
    then have "runs rely (readThreadWithRetries threadId includeTurns ds u) es' t x" "d' = d" by simp_all
    from Cons.IH [OF this(1)] obtain rs where rs: "replies es' = rs @ [x]" "length rs \<le> length ds"
        "sleeps es' = take (length rs) ds" "list_all transient_reply rs" "transient_reply x \<longrightarrow> length rs = length ds"
        "requests ''thread/read'' es' = replicate (length rs + 1)
          (JObj [(''threadId'', JStr threadId), (''includeTurns'', JBool includeTurns)])" by blast
    have "replies es = Inl e # replies es'" "sleeps es = d # sleeps es'"
      "requests ''thread/read'' es = JObj [(''threadId'', JStr threadId), (''includeTurns'', JBool includeTurns)]
         # requests ''thread/read'' es'"
      using again(1,3) \<open>d' = d\<close> by (simp_all add: replies_def sleeps_def List.map_filter_simps)
    moreover have "transient_reply (Inl e)" using again(4) by (simp add: transient_reply_def)
    ultimately show ?thesis using rs by (intro exI [of _ "Inl e # rs"]) simp
  qed
qed

text \<open>A thread is read at most six times, waiting 50, 100, 200, 400 and 800 ms between the tries.
  Every reply but the last is a transient error, the outcome is the last reply, and it is a transient
  error only when all six were.\<close>

theorem thread_reads_are_retried:
  assumes "runs rely (readAppServerThread threadId includeTurns s) es t x"
  shows "\<exists>rs. replies es = rs @ [x] \<and> length rs \<le> 5 \<and> sleeps es = take (length rs) [50, 100, 200, 400, 800]
    \<and> list_all transient_reply rs \<and> (transient_reply x \<longrightarrow> length rs = 5)
    \<and> requests ''thread/read'' es = replicate (length rs + 1)
        (JObj [(''threadId'', JStr threadId), (''includeTurns'', JBool includeTurns)])"
proof -
  have "length TRANSIENT_THREAD_READ_RETRY_DELAYS_MS = 5" by (simp add: TRANSIENT_THREAD_READ_RETRY_DELAYS_MS_def)
  with retries_run [OF assms [unfolded readAppServerThread_def]] show ?thesis
    by (simp only: TRANSIENT_THREAD_READ_RETRY_DELAYS_MS_def)
qed

definition emptyRollout :: apiError where
  "emptyRollout = RpcFailed (- 32603) ''Failed to read thread: thread-store internal error: rollout x is empty''"

theorem thread_reads_are_retried_witness:
  "\<exists>es t. runs (=) (readAppServerThread ''a'' True demoClient) es t (Inr (JBool True)) \<and> sleeps es = [50]
     \<and> replies es = [Inl emptyRollout, Inr (JBool True)]"
proof -
  let ?p = "JObj [(''threadId'', JStr ''a''), (''includeTurns'', JBool True)]"
  let ?es = "[Asked (Rpc ''thread/read'' ?p) (Inl emptyRollout), Asked (SleepFor 50) (Inr Woken),
    Asked (Rpc ''thread/read'' ?p) (Inr (Json (JBool True)))]"
  have transient: "isTransientThreadReadError emptyRollout" by code_simp
  have run: "runs (=) (readAppServerThread ''a'' True demoClient) ?es demoClient (Inr (JBool True))"
    by (rule play_runs [where rs = "[Inl emptyRollout, Inr Woken, Inr (Json (JBool True))]"])
      (simp_all add: reflp_def play_def readAppServerThread_def TRANSIENT_THREAD_READ_RETRY_DELAYS_MS_def
        readThreadWithRetries.simps attempt_def settle_def rpc_def ask_def sleep_def await_def transient give_def)
  from thread_reads_are_retried [OF run]
  have "sleeps ?es = [50] \<and> replies ?es = [Inl emptyRollout, Inr (JBool True)]"
    by (auto simp: replies_def sleeps_def List.map_filter_simps json_reply_def)
  with run show ?thesis by blast
qed


section \<open>Shared reads\<close>

text \<open>Events that concern promises others wait for\<close>

fun of_promises :: "(apiCall, apiError + apiValue) event \<Rightarrow> nat" where
  "of_promises (Asked (JoinPromise p) r) = 1"
| "of_promises (Told (Settled p x)) = 1"
| "of_promises e = 0"

lemma promises_rpc [cost_intros]: "costs of_promises 0 (rpc name params)"
  unfolding rpc_def by (rule costs_ask) simp

lemma promises_sleep [cost_intros]: "costs of_promises 0 (sleep n)"
  unfolding sleep_def by (rule costs_ask) simp

lemma promises_sync [cost_intros]: "costs c 0 (sync f)"
  by (simp add: costs_def runs_sync)

lemma promises_retries [cost_intros]: "costs of_promises 0 (readThreadWithRetries threadId includeTurns delays)"
  by (induction delays)
    (auto simp: readThreadWithRetries.simps [of threadId]
      intro!: cost_intros costs_attempt_0 costs_await_0)

lemma promises_snapshot [cost_intros]: "costs of_promises 0 (readChatSnapshot env i)"
  unfolding readChatSnapshot_def readAppServerThread_def snapshotOf_def
  by (auto intro!: cost_intros costs_attempt_0 costs_await_0)

text \<open>The first thing an action does is to ask.\<close>

definition asks_in :: "('s, 'q, 'r, 'e, 'a) action \<Rightarrow> 's \<Rightarrow> 's \<Rightarrow> bool" where
  "asks_in m s s' \<longleftrightarrow> (\<exists>q k. m s = (s', Ask q k))"

lemma asks_settle: "asks_in m s s' \<Longrightarrow> asks_in (settle m f) s s'"
  by (auto simp: asks_in_def settle_def)

lemma asks_await: "asks_in m s s' \<Longrightarrow> asks_in (await m f) s s'"
  unfolding await_def by (rule asks_settle)

lemma asks_attempt: "asks_in m s s' \<Longrightarrow> asks_in (attempt m h) s s'"
  unfolding attempt_def by (rule asks_settle)

lemma asks_after_change: "asks_in (f ()) (g s) s' \<Longrightarrow> asks_in (await (change g) f) s s'"
  by (simp add: asks_in_def await_def settle_def change_def)

lemma asks_at_last: "asks_in m s s' \<Longrightarrow> asks_in (at_last m f) s s'"
  unfolding at_last_def by (rule asks_settle)

lemma asks_read: "asks_in (readChatSnapshot env i) s s"
  unfolding readChatSnapshot_def readAppServerThread_def
  by (intro asks_attempt asks_await, subst readThreadWithRetries.simps, intro asks_attempt)
    (simp add: asks_in_def rpc_def ask_def)

lemma asks_in_fst: "asks_in m s s' \<Longrightarrow> fst (m s) = s'"
  by (auto simp: asks_in_def)

lemma remember_run:
  "runs rely (await (change (rememberChat chat)) (\<lambda>_. give chat) s) es t x
     \<longleftrightarrow> es = [] \<and> t = rememberChat chat s \<and> x = Inr chat"
  by (auto simp: runs_await runs_change runs_give)

lemma remembered_chat:
  "map_of (ac_chatCache (rememberChat chat s)) (cs_id chat) = Some (chat, ac_now (rememberChat chat s))"
  by (simp add: rememberChat_def update_conv')

lemma shared_asks:
  assumes "map_of (inFlight s) key = None"
    "asks_in request (update (AList.update key (ac_promises s)) (s\<lparr>ac_promises := ac_promises s + 1\<rparr>)) u"
  shows "asks_in (shared_request inFlight update value pick key request) s u"
proof -
  let ?p = "ac_promises s"
  let ?m = "await (change (\<lambda>s. update (AList.update key ?p) (s\<lparr>ac_promises := ?p + 1\<rparr>)))
      (\<lambda>_. settle (at_last request (\<lambda>_. update (AList.delete key)))
        (\<lambda>x. await (tell (Settled ?p (map_sum (\<lambda>e. e) value x))) (\<lambda>_. outcome x)))"
  have "asks_in ?m s u"
    by (rule asks_after_change, rule asks_settle, rule asks_at_last, rule assms(2))
  moreover have "shared_request inFlight update value pick key request s = ?m s"
    using assms(1) by (simp add: shared_request_def reading_def Let_def)
  ultimately show ?thesis unfolding asks_in_def by simp
qed

lemma runs_awaitE:
  assumes "runs rely (await m f s) es t (Inr z)"
  obtains es1 es2 u y where "es = es1 @ es2" "runs rely (m s) es1 u (Inr y)" "runs rely (f y u) es2 t (Inr z)"
  using assms unfolding runs_await by auto

lemma costs_total: "costs c n m \<Longrightarrow> runs rely (m s) es t x \<Longrightarrow> sum_list (map c es) \<le> n"
  unfolding costs_def by blast

lemma read_and_remember:
  assumes "runs rely (await (readChatSnapshot env i) (\<lambda>(_, chat). await (change (rememberChat chat)) (\<lambda>_. give chat)) s)
    es u (Inr chat)"
  shows "map_of (ac_chatCache u) (cs_id chat) = Some (chat, ac_now u)"
  using assms
proof (rule runs_awaitE)
  fix es2 v y
  assume "runs rely ((case y of (_, chat) \<Rightarrow> await (change (rememberChat chat)) (\<lambda>_. give chat)) v) es2 u (Inr chat)"
  then have "u = rememberChat chat v" by (cases y) (simp add: remember_run)
  then show ?thesis by (simp only: remembered_chat)
qed

lemma shared_starter:
  assumes "runs rely (shared_request inFlight update value pick key request s) es t x"
    "map_of (inFlight s) key = None"
  obtains es' u where "es = es' @ [Told (Settled (ac_promises s) (map_sum (\<lambda>e. e) value x))]"
    "runs rely (request (update (AList.update key (ac_promises s)) (s\<lparr>ac_promises := ac_promises s + 1\<rparr>))) es' u x"
    "t = update (AList.delete key) u"
proof -
  from assms obtain es' u where u: "es = es' @ [Told (Settled (ac_promises s) (map_sum (\<lambda>e. e) value x))]"
      "runs rely (request (update (AList.update key (ac_promises s)) (s\<lparr>ac_promises := ac_promises s + 1\<rparr>))) es' u x"
      "t = update (AList.delete key) u"
    by (auto simp: shared_request_def Let_def runs_reading runs_await runs_change runs_settle runs_at_last runs_tell
        runs_outcome)
  then show thesis by (rule that)
qed

text \<open>While a read of a chat is under way, reading the chat again asks nothing of the bridge and
  ends as the first read does.  Who starts the read registers it before the first await; at the end the
  key is free again, the promise is settled once with the outcome, and a chat that was read is cached
  under its id.\<close>

theorem chat_reads_are_shared:
  assumes "runs rely (getChat env i opts s) es t x"
    "fresh_entry (ko_forceRefresh opts) (ko_cacheTtlMs opts) (ac_now s) (map_of (ac_chatCache s) (trim i)) = None"
  shows "case map_of (ac_chatInFlight s) (trim i) of
      Some p \<Rightarrow> \<exists>r. es = [Asked (JoinPromise p) r] \<and> (\<forall>y. r = map_sum id ChatValue y \<longrightarrow> x = y)
    | None \<Rightarrow> map_of (ac_chatInFlight (fst (getChat env i opts s))) (trim i) = Some (ac_promises s)
        \<and> (\<exists>es'. es = es' @ [Told (Settled (ac_promises s) (map_sum id ChatValue x))]
             \<and> sum_list (map of_promises es') = 0)
        \<and> map_of (ac_chatInFlight t) (trim i) = None
        \<and> (\<forall>chat. x = Inr chat \<longrightarrow> map_of (ac_chatCache t) (cs_id chat) = Some (chat, ac_now t))"
proof (cases "map_of (ac_chatInFlight s) (trim i)")
  case (Some p)
  have "joined = y" if "(case r of Inl e \<Rightarrow> Inl e
      | Inr v \<Rightarrow> (case chat_value v of Some z \<Rightarrow> Inr z | None \<Rightarrow> Inl OtherReply)) = joined"
    "r = map_sum id ChatValue y" for joined y :: "apiError + mappedChat" and r
    using that by (cases y) auto
  with assms Some show ?thesis
    by (auto simp: getChat_def Let_def runs_reading shared_request_def joining_def runs_ask)
next
  case None
  let ?request = "await (readChatSnapshot env (trim i)) (\<lambda>(_, chat). await (change (rememberChat chat)) (\<lambda>_. give chat))"
  let ?s = "ac_chatInFlight_update (AList.update (trim i) (ac_promises s)) (s\<lparr>ac_promises := ac_promises s + 1\<rparr>)"
  from assms have "runs rely (shared_request ac_chatInFlight ac_chatInFlight_update ChatValue chat_value (trim i)
      ?request s) es t x"
    by (simp add: getChat_def Let_def runs_reading)
  then obtain es' u where u: "es = es' @ [Told (Settled (ac_promises s) (map_sum (\<lambda>e. e) ChatValue x))]"
      "runs rely (?request ?s) es' u x" "t = ac_chatInFlight_update (AList.delete (trim i)) u"
    using None by (rule shared_starter)
  have "costs of_promises 0 ?request"
    by (intro costs_await_0 promises_snapshot, split prod.split)
      (intro allI impI costs_await_0 costs_change costs_give)
  from costs_total [OF this u(2)] have "sum_list (map of_promises es') = 0" by simp
  moreover have "map_of (ac_chatCache u) (cs_id chat) = Some (chat, ac_now u)" if x: "x = Inr chat" for chat
    using u(2) unfolding x by (rule read_and_remember)
  moreover have "fst (getChat env i opts s) = ?s"
  proof (rule asks_in_fst)
    have shared: "getChat env i opts s = shared_request ac_chatInFlight ac_chatInFlight_update ChatValue chat_value
        (trim i) ?request s"
      using assms(2) by (simp add: getChat_def Let_def reading_def)
    have "asks_in (shared_request ac_chatInFlight ac_chatInFlight_update ChatValue chat_value (trim i) ?request) s ?s"
      by (rule shared_asks, rule None, rule asks_await, rule asks_read)
    then show "asks_in (getChat env i opts) s ?s" unfolding asks_in_def shared .
  qed
  ultimately show ?thesis
    using None u(1,3) by (simp add: update_conv' id_def delete_conv')
qed


definition busyClient :: apiClient where
  "busyClient = demoClient\<lparr>ac_chatInFlight := [(''a'', 0)], ac_promises := 1\<rparr>"

definition plain_read :: chatReadOptions where
  "plain_read = \<lparr>ko_cacheTtlMs = None, ko_forceRefresh = False\<rparr>"

theorem chat_reads_are_shared_witness:
  "\<forall>chat. \<exists>es t. runs (=) (getChat demoEnv '' a '' plain_read busyClient) es t (Inr chat)
     \<and> (\<exists>r. es = [Asked (JoinPromise 0) r])"
proof
  fix chat :: mappedChat
  have idle: "fresh_entry (ko_forceRefresh plain_read) (ko_cacheTtlMs plain_read) (ac_now busyClient)
      (map_of (ac_chatCache busyClient) (trim '' a '')) = None"
    by (simp add: fresh_entry_def busyClient_def demoClient_def)
  have key: "trim '' a '' = ''a''" by code_simp
  have run: "runs (=) (getChat demoEnv '' a '' plain_read busyClient)
      [Asked (JoinPromise 0) (Inr (ChatValue chat))] busyClient (Inr chat)"
    using idle by (simp add: getChat_def Let_def key runs_reading shared_request_def joining_def runs_ask)
      (simp add: busyClient_def runs_reading joining_def runs_ask)
  from chat_reads_are_shared [OF run idle]
  have "\<exists>r. [Asked (JoinPromise 0) (Inr (ChatValue chat))] = [Asked (JoinPromise 0) r]"
    by (simp add: busyClient_def key)
  with run show "\<exists>es t. runs (=) (getChat demoEnv '' a '' plain_read busyClient) es t (Inr chat)
     \<and> (\<exists>r. es = [Asked (JoinPromise 0) r])" by blast
qed

end
