(* ===== verification/ApiTurnsLaws.thy ===== *)
theory ApiTurnsLaws
  imports ApiClientLaws
begin

text \<open>
  Sending: a message is put in the queue at most once, the echo of a message is recognized, and the
  chat that is returned shows the message that was sent.
\<close>

section \<open>Trimmed texts\<close>

text \<open>A text that is trimmed has no white space at its ends.\<close>

lemma trimmed_iff:
  "trim s = s \<longleftrightarrow> leading_unit white_space s = None \<and> leading_unit (map rev white_space) (rev s) = None"
proof
  assume t: "trim s = s"
  have "length s \<le> length (trim_start s)"
    using prefix_length_le [OF trim_end_prefix [of "trim_start s"]] t by (simp add: trim_def)
  moreover have "suffix (trim_start s) s" unfolding trim_start_def by (rule suffix_strip_units)
  ultimately have start: "trim_start s = s"
    by (metis suffix_length_le le_antisym suffix_def append_eq_append_conv append_Nil)
  then have "trim_end s = s" using t by (simp add: trim_def)
  then have "strip_units (map rev white_space) (rev s) = rev s" by (simp add: trim_end_def rev_swap)
  with start show "leading_unit white_space s = None \<and> leading_unit (map rev white_space) (rev s) = None"
    unfolding trim_start_def by (metis strip_units_none)
next
  assume "leading_unit white_space s = None \<and> leading_unit (map rev white_space) (rev s) = None"
  then show "trim s = s" by (simp add: trim_def trim_start_def trim_end_def strip_units_id)
qed

lemma units_one_line: "u \<in> set white_space \<Longrightarrow> u \<noteq> [] \<and> CHR 0x0A \<notin> set (tl u) \<and> last u \<noteq> CHR '']''"
  unfolding white_space_def by (simp only: set_simps insert_iff empty_iff) (elim disjE; simp)

lemma trim_marked:
  assumes "trim c = c" "c \<noteq> []"
  shows "trim (c @ newline @ r @ '']'') = c @ newline @ r @ '']''"
proof -
  have "\<not> prefix u (c @ newline @ r @ '']'')" if u: "u \<in> set white_space" for u
  proof
    assume p: "prefix u (c @ newline @ r @ '']'')"
    have "\<not> prefix u c" using assms(1) u units_one_line [OF u] by (simp add: trimmed_iff leading_unit_None)
    with p obtain v where v: "u = c @ CHR 0x0A # v"
      unfolding prefix_append newline_def by (metis append_Nil2 append_Cons append_Nil prefix_Cons prefix_order.refl)
    with assms(2) have "CHR 0x0A \<in> set (tl u)" by (cases c) auto
    with units_one_line [OF u] show False by blast
  qed
  moreover have "\<not> prefix (rev u) (rev (c @ newline @ r @ '']''))" if u: "u \<in> set white_space" for u
  proof
    assume "prefix (rev u) (rev (c @ newline @ r @ '']''))"
    then have "suffix u ((c @ newline @ r) @ '']'')" by (simp add: suffix_to_prefix)
    then have "last u = CHR '']''" using units_one_line [OF u] by (metis last_ConsL last_append list.distinct(1) suffix_def)
    with units_one_line [OF u] show False by blast
  qed
  ultimately show ?thesis by (auto simp: trimmed_iff leading_unit_None)
qed


section \<open>The echo of a message\<close>

lemma join_newline_shape:
  "\<forall>x \<in> set xs. \<exists>r. x = r @ '']'' \<Longrightarrow> xs \<noteq> [] \<Longrightarrow> \<exists>r. join newline (c # xs) = c @ newline @ r @ '']''"
proof (induction xs arbitrary: c)
  case (Cons x xs)
  obtain r where x: "x = r @ '']''" using Cons.prems(1) by auto
  show ?case
  proof (cases "xs = []")
    case True
    then show ?thesis by (simp add: x)
  next
    case False
    with Cons.IH [of x] Cons.prems(1) obtain r' where "join newline (x # xs) = x @ newline @ r' @ '']''" by auto
    then have "join newline (c # x # xs) = c @ newline @ (x @ newline @ r') @ '']''" by simp
    then show ?thesis by blast
  qed
qed simp

lemma trim_bracketed: "trim (CHR ''['' # r @ '']'') = CHR ''['' # r @ '']''"
proof -
  have "CHR ''['' # u \<notin> set white_space" for u by (simp add: white_space_def)
  then have "leading_unit white_space (CHR ''['' # r @ '']'') = None"
    by (auto simp: leading_unit_None prefix_Cons)
  moreover have "\<not> prefix (rev u) (rev (v @ '']''))" if "u \<in> set white_space" for u v
    using units_one_line [OF that] by (cases u rule: rev_cases) auto
  then have "leading_unit (map rev white_space) (rev ((CHR ''['' # r) @ '']'')) = None"
    unfolding leading_unit_None by (simp only: set_map) blast
  ultimately show ?thesis by (simp add: trimmed_iff)
qed

lemma expected_shape:
  assumes "trim content \<noteq> []"
  shows "buildExpectedUserMessageContent content mentions localImages
      = join newline (trim content # map (\<lambda>m. ''[file: '' @ mn_path m @ '']'') mentions
          @ map (\<lambda>path. ''[local image: '' @ path @ '']'') localImages)"
proof -
  have "trim (''[file: '' @ p @ '']'') = ''[file: '' @ p @ '']''"
    "trim (''[local image: '' @ p @ '']'') = ''[local image: '' @ p @ '']''" for p
    using trim_bracketed [of "''file: '' @ p"] trim_bracketed [of "''local image: '' @ p"] by simp_all
  with assms show ?thesis unfolding buildExpectedUserMessageContent_def by (simp add: filter_id_conv)
qed

lemma expected_trimmed:
  assumes "trim content \<noteq> []"
  shows "trim (buildExpectedUserMessageContent content mentions localImages)
      = buildExpectedUserMessageContent content mentions localImages"
    and "buildExpectedUserMessageContent content mentions localImages \<noteq> []"
proof -
  let ?xs = "map (\<lambda>m. ''[file: '' @ mn_path m @ '']'') mentions
      @ map (\<lambda>path. ''[local image: '' @ path @ '']'') localImages"
  have marks: "\<forall>x \<in> set ?xs. \<exists>r. x = r @ '']''"
    by (auto intro: exI [of _ "''[file: '' @ _"] exI [of _ "''[local image: '' @ _"])
  have "trim (join newline (trim content # ?xs)) = join newline (trim content # ?xs)
      \<and> join newline (trim content # ?xs) \<noteq> []"
  proof (cases "?xs = []")
    case True
    then show ?thesis using assms by simp
  next
    case False
    then obtain r where "join newline (trim content # ?xs) = trim content @ newline @ r @ '']''"
      using join_newline_shape [OF marks] by blast
    then show ?thesis using trim_marked [of "trim content" r] assms by simp
  qed
  then show "trim (buildExpectedUserMessageContent content mentions localImages)
      = buildExpectedUserMessageContent content mentions localImages"
    "buildExpectedUserMessageContent content mentions localImages \<noteq> []"
    unfolding expected_shape [OF assms] by blast+
qed

text \<open>What is read back from the input of a turn\<close>

lemma records_of_values:
  "records_of_type k (JArr (xs @ ys)) = records_of_type k (JArr xs) @ records_of_type k (JArr ys)"
  by (simp add: records_of_type_def)

lemma records_of_record:
  "records_of_type k (JArr (JObj r # vs))
     = (if as_string (prop_of r ''type'') = Some k then [r] else []) @ records_of_type k (JArr vs)"
  by (simp add: records_of_type_def List.map_filter_simps)

lemma records_of_mentions:
  "records_of_type ''mention'' (JArr (map mention_value ms))
     = map (\<lambda>m. [(''type'', JStr ''mention''), (''name'', JStr (mn_name m)), (''path'', JStr (mn_path m))]) ms"
  "records_of_type ''text'' (JArr (map mention_value ms)) = []"
  "records_of_type ''localImage'' (JArr (map mention_value ms)) = []"
  by (induction ms)
    (simp_all add: records_of_type_def mention_value_def List.map_filter_simps prop_of_def)

lemma records_of_images:
  "records_of_type ''localImage'' (JArr (map image_value ps))
     = map (\<lambda>p. [(''type'', JStr ''localImage''), (''path'', JStr p)]) ps"
  "records_of_type ''text'' (JArr (map image_value ps)) = []"
  "records_of_type ''mention'' (JArr (map image_value ps)) = []"
  by (induction ps)
    (simp_all add: records_of_type_def image_value_def List.map_filter_simps prop_of_def)


lemma unique_by_subset: "set (unique_by key xs) \<subseteq> set xs"
proof -
  have "set (fold (\<lambda>x seen. if key x \<in> key ` set seen then seen else seen @ [x]) xs seen) \<subseteq> set seen \<union> set xs" for seen
    by (induction xs arbitrary: seen) (auto split: if_splits, fastforce+)
  from this [of "[]"] show ?thesis by (simp add: unique_by_def)
qed

lemma image_paths: "path \<in> set (normalizeLocalImages raw) \<Longrightarrow> trim path = path \<and> path \<noteq> []"
  using unique_by_subset [of lower "filter (\<lambda>p. p \<noteq> []) (map trim (with_default raw []))"]
  by (auto simp: normalizeLocalImages_def)

lemma mention_paths: "m \<in> set (normalizeMentions raw) \<Longrightarrow> trim (mn_path m) = mn_path m \<and> mn_path m \<noteq> []"
  unfolding normalizeMentions_def
  using unique_by_subset [of "\<lambda>(path, name). lower path" "filter (\<lambda>(path, name). path \<noteq> [])
    (map (\<lambda>entry. (trim (mi_path entry), mi_name entry)) (with_default raw []))"]
  by fastforce

definition echoed :: "string \<Rightarrow> turnInputMention list \<Rightarrow> string list \<Rightarrow> jsv" where
  "echoed content mentions localImages = JArr (buildTurnInput content mentions localImages)"

lemma echoed_records:
  "records_of_type ''text'' (echoed c ms ps)
     = [[(''type'', JStr ''text''), (''text'', JStr c), (''text_elements'', JArr [])]]"
  "records_of_type ''mention'' (echoed c ms ps) = records_of_type ''mention'' (JArr (map mention_value ms))"
  "records_of_type ''localImage'' (echoed c ms ps) = records_of_type ''localImage'' (JArr (map image_value ps))"
  unfolding echoed_def buildTurnInput_def append_Cons records_of_record records_of_values
    records_of_mentions records_of_images
  by (simp_all add: prop_of_def)

lemma echoed_text: "c \<noteq> [] \<Longrightarrow> extractUserMessageText (echoed c ms ps) = c"
  by (simp add: extractUserMessageText_def echoed_records string_at_def prop_of_def join_nonempty_def)

lemma echoed_mentions:
  "\<forall>m \<in> set ms. trim (mn_path m) = mn_path m \<and> mn_path m \<noteq> []
     \<Longrightarrow> map mn_path (extractUserMessageMentions (echoed c ms ps)) = map mn_path ms"
  unfolding extractUserMessageMentions_def echoed_records records_of_mentions
  by (induction ms) (auto simp: List.map_filter_simps prop_of_def trimmed_string_def non_empty_def)

lemma echoed_images:
  "\<forall>p \<in> set ps. trim p = p \<and> p \<noteq> [] \<Longrightarrow> extractUserMessageLocalImages (echoed c ms ps) = ps"
  unfolding extractUserMessageLocalImages_def echoed_records records_of_images
  by (induction ps) (auto simp: List.map_filter_simps prop_of_def trimmed_string_def non_empty_def)

text \<open>Only the paths of the mentions show.\<close>

lemma expected_cong:
  assumes "map mn_path ms = map mn_path ns"
  shows "buildExpectedUserMessageContent c ms ps = buildExpectedUserMessageContent c ns ps"
proof -
  have "map (\<lambda>m. ''[file: '' @ mn_path m @ '']'') ms = map (\<lambda>p. ''[file: '' @ p @ '']'') (map mn_path ms)" for ms
    by (simp add: comp_def)
  with assms show ?thesis unfolding buildExpectedUserMessageContent_def by metis
qed

text \<open>The message a turn was started with is recognized in the turn the thread has: when the bridge
  gives back the input that was built from the text, the mentions and the local images, the turn shows
  the message.\<close>

theorem echo_is_recognized:
  assumes "find (\<lambda>turn. tn_id turn = Some (trim turnId)) (with_default (th_turns raw) []) = Some turn"
    "item \<in> set (with_default (tn_items turn) [])"
    "as_string (prop_of item ''type'') = Some ''userMessage''"
    "prop_of item ''content'' = JArr (buildTurnInput (trim content) (normalizeMentions mentions)
       (normalizeLocalImages localImages))"
    "trim content \<noteq> []" "trim turnId \<noteq> []"
  shows "rawThreadHasTurnUserMessage raw turnId content (normalizeMentions mentions) (normalizeLocalImages localImages)"
proof -
  let ?ms = "normalizeMentions mentions" and ?ps = "normalizeLocalImages localImages"
  let ?v = "echoed (trim content) ?ms ?ps"
  have "map mn_path (extractUserMessageMentions ?v) = map mn_path ?ms" using mention_paths by (intro echoed_mentions) blast
  moreover have "extractUserMessageLocalImages ?v = ?ps" using image_paths by (intro echoed_images) blast
  moreover have "extractUserMessageText ?v = trim content" by (rule echoed_text [OF assms(5)])
  ultimately have "itemHasContent (trim content) ?ms ?ps item"
    using assms(3,4) expected_cong [of "extractUserMessageMentions ?v" ?ms]
    by (simp add: itemHasContent_def echoed_def)
  then show ?thesis
    using assms(1,2,5,6) by (auto simp: rawThreadHasTurnUserMessage_def list_ex_iff)
qed


definition demoTurn :: rawTurn where
  "demoTurn = \<lparr>tn_id = Some ''t1'', tn_status = None, tn_fields = [], tn_items = Some
     [[(''type'', JStr ''userMessage''), (''content'', echoed ''look'' (normalizeMentions
         (Some [\<lparr>mi_path = '' src/a.ts '', mi_name = None\<rparr>])) (normalizeLocalImages (Some [''i.png'', ''I.png''])))]]\<rparr>"

definition demoRaw :: "rawTurn list \<Rightarrow> rawThread" where
  "demoRaw turns = \<lparr>th_id = Some ''a'', th_agentId = JUndefined, th_name = None, th_preview = None,
     th_modelProvider = None, th_agentNickname = None, th_agentRole = None, th_createdAt = None,
     th_updatedAt = None, th_status = JUndefined, th_cwd = None, th_source = JUndefined,
     th_turns = Some turns, th_acpSnapshot = None\<rparr>"

theorem echo_is_recognized_witness:
  "rawThreadHasTurnUserMessage (demoRaw [demoTurn]) ''t1'' '' look ''
     (normalizeMentions (Some [\<lparr>mi_path = '' src/a.ts '', mi_name = None\<rparr>]))
     (normalizeLocalImages (Some [''i.png'', ''I.png'']))"
proof (rule echo_is_recognized)
  have t: "trim ''t1'' = ''t1''" "trim '' look '' = ''look''" by code_simp+
  show "find (\<lambda>turn. tn_id turn = Some (trim ''t1'')) (with_default (th_turns (demoRaw [demoTurn])) []) = Some demoTurn"
    by (simp add: demoRaw_def demoTurn_def t)
  show "hd (the (tn_items demoTurn)) \<in> set (with_default (tn_items demoTurn) [])"
    "as_string (prop_of (hd (the (tn_items demoTurn))) ''type'') = Some ''userMessage''"
    "prop_of (hd (the (tn_items demoTurn))) ''content'' = JArr (buildTurnInput (trim '' look '')
      (normalizeMentions (Some [\<lparr>mi_path = '' src/a.ts '', mi_name = None\<rparr>]))
      (normalizeLocalImages (Some [''i.png'', ''I.png''])))"
    by (simp_all add: demoTurn_def prop_of_def echoed_def t)
  show "trim '' look '' \<noteq> []" "trim ''t1'' \<noteq> []" by (simp_all add: t)
qed

section \<open>The chat that shows the message\<close>

lemma synthetic_shows:
  assumes "trim content \<noteq> []"
  shows "chatHasRecentUserMessage (appendSyntheticUserMessage now localId chat content mentions localImages)
    content mentions localImages 8"
proof -
  let ?e = "buildExpectedUserMessageContent (trim content) mentions localImages"
  have e: "trim ?e = ?e" "?e \<noteq> []" using expected_trimmed [of "trim content"] assms by simp_all
  have "last_n 8 (xs @ [x]) = last_n 7 xs @ [x]" for xs :: "chatMessage list" and x
    by (simp add: last_n_def)
  then show ?thesis
    using e by (simp add: appendSyntheticUserMessage_def chatHasRecentUserMessage_def Let_def plainMessage_def
        getMessageText_def text_content_def)
qed

lemma shown_turn:
  assumes "runs rely (awaitUserMessage env i turnId content mentions localImages delays snapshot s) es t (Inr chat)"
    "trim content \<noteq> []"
  shows "((\<exists>raw. shows_message (raw, chat) turnId content mentions localImages)
      \<or> chatHasRecentUserMessage chat content mentions localImages 8)
    \<and> map_of (ac_chatCache t) (cs_id chat) = Some (chat, ac_now t)"
  using assms(1)
proof (induction delays arbitrary: snapshot s es)
  case Nil
  show ?case
  proof (cases "shows_message snapshot turnId content mentions localImages")
    case True
    with Nil have "t = rememberChat chat s" "chat = snd snapshot"
      by (simp_all add: awaitUserMessage.simps [of _ _ _ _ _ _ "[]"] remember_run)
    with True remembered_chat [of chat s] show ?thesis by (cases snapshot) auto
  next
    case False
    with Nil obtain u where "t = rememberChat chat u"
        "chat = appendSyntheticUserMessage (ac_now s) (ev_localId env (ac_ids s) 0) (snd snapshot) content mentions localImages"
      by (auto simp: awaitUserMessage.simps [of _ _ _ _ _ _ "[]"] runs_reading Let_def runs_await runs_change runs_give)
    with synthetic_shows [OF assms(2)] remembered_chat [of chat u] show ?thesis by auto
  qed
next
  case (Cons d ds)
  show ?case
  proof (cases "shows_message snapshot turnId content mentions localImages")
    case True
    with Cons.prems have "t = rememberChat chat s" "chat = snd snapshot"
      by (simp_all add: awaitUserMessage.simps [of _ _ _ _ _ _ "d # ds"] remember_run)
    with True remembered_chat [of chat s] show ?thesis by (cases snapshot) auto
  next
    case False
    from Cons.prems have "runs rely (await (sleep d) (\<lambda>_. await (readChatSnapshot env i)
          (awaitUserMessage env i turnId content mentions localImages ds)) s) es t (Inr chat)"
      by (simp only: awaitUserMessage.simps [of _ _ _ _ _ _ "d # ds"] False if_False list.case)
    then obtain u es2 next' where "runs rely (awaitUserMessage env i turnId content mentions localImages ds next' u) es2 t (Inr chat)"
      by (elim runs_awaitE) blast
    then show ?thesis by (rule Cons.IH)
  qed
qed


text \<open>Bounds on the reads and on the time slept\<close>

fun reads_of :: "(apiCall, apiError + apiValue) event \<Rightarrow> nat" where
  "reads_of (Asked (Rpc name params) r) = (if name = ''thread/read'' then 1 else 0)"
| "reads_of e = 0"

fun wait_of :: "(apiCall, apiError + apiValue) event \<Rightarrow> nat" where
  "wait_of (Asked (SleepFor d) r) = d"
| "wait_of e = 0"

lemma requests_count: "length (requests ''thread/read'' es) = sum_list (map reads_of es)"
proof (induction es)
  case (Cons e es)
  then show ?case by (cases e rule: reads_of.cases) (simp_all add: requests_def List.map_filter_simps)
qed simp

lemma sleeps_total: "sum_list (sleeps es) = sum_list (map wait_of es)"
proof (induction es)
  case (Cons e es)
  then show ?case by (cases e rule: wait_of.cases) (simp_all add: sleeps_def List.map_filter_simps)
qed (simp add: sleeps_def List.map_filter_simps)

lemma rpc_cost: "costs reads_of 1 (rpc name params)" "costs wait_of 0 (rpc name params)"
  unfolding rpc_def by (rule costs_ask, simp)+

lemma sleep_cost: "costs reads_of 0 (sleep d)" "costs wait_of d (sleep d)"
  unfolding sleep_def by (rule costs_ask, simp)+

lemma retries_cost:
  "costs reads_of (Suc (length delays)) (readThreadWithRetries threadId includeTurns delays)"
  "costs wait_of (sum_list delays) (readThreadWithRetries threadId includeTurns delays)"
proof (induction delays)
  case Nil
  have "costs reads_of (1 + 0) (readThreadWithRetries threadId includeTurns [])"
    by (subst readThreadWithRetries.simps) (intro costs_attempt rpc_cost, simp add: costs_raise)
  moreover have "costs wait_of (0 + 0) (readThreadWithRetries threadId includeTurns [])"
    by (subst readThreadWithRetries.simps) (intro costs_attempt rpc_cost, simp add: costs_raise)
  ultimately show "costs reads_of (Suc (length [])) (readThreadWithRetries threadId includeTurns [])"
    "costs wait_of (sum_list []) (readThreadWithRetries threadId includeTurns [])" by simp_all
next
  case (Cons d ds)
  have "costs reads_of (1 + (0 + Suc (length ds))) (readThreadWithRetries threadId includeTurns (d # ds))"
    by (subst readThreadWithRetries.simps)
      (rule costs_attempt, rule rpc_cost, simp add: costs_raise costs_await [OF sleep_cost(1) Cons.IH(1), simplified])
  then show "costs reads_of (Suc (length (d # ds))) (readThreadWithRetries threadId includeTurns (d # ds))" by simp
  have "costs wait_of (0 + (d + sum_list ds)) (readThreadWithRetries threadId includeTurns (d # ds))"
    by (subst readThreadWithRetries.simps)
      (rule costs_attempt, rule rpc_cost, simp add: costs_raise costs_await [OF sleep_cost(2) Cons.IH(2), simplified])
  then show "costs wait_of (sum_list (d # ds)) (readThreadWithRetries threadId includeTurns (d # ds))" by simp
qed

lemma thread_cost:
  "costs reads_of 6 (readAppServerThread threadId includeTurns)"
  "costs wait_of 1550 (readAppServerThread threadId includeTurns)"
  using retries_cost [of TRANSIENT_THREAD_READ_RETRY_DELAYS_MS]
  by (simp_all add: readAppServerThread_def TRANSIENT_THREAD_READ_RETRY_DELAYS_MS_def eval_nat_numeral)

lemma snapshotOf_cost: "costs c 0 (snapshotOf env response)"
  unfolding snapshotOf_def by (intro costs_await_0 costs_outcome promises_sync costs_give)

lemma snapshot_cost: "costs reads_of 12 (readChatSnapshot env i)" "costs wait_of 3100 (readChatSnapshot env i)"
proof -
  have "costs reads_of ((6 + 0) + (6 + 0)) (readChatSnapshot env i)"
    unfolding readChatSnapshot_def
    by (rule costs_attempt, rule costs_await, rule thread_cost, rule snapshotOf_cost)
      (auto simp: costs_raise intro!: costs_await [where a = 6 and b = 0, simplified] thread_cost snapshotOf_cost)
  then show "costs reads_of 12 (readChatSnapshot env i)" by simp
  have "costs wait_of ((1550 + 0) + (1550 + 0)) (readChatSnapshot env i)"
    unfolding readChatSnapshot_def
    by (rule costs_attempt, rule costs_await, rule thread_cost, rule snapshotOf_cost)
      (auto simp: costs_raise intro!: costs_await [where a = 1550 and b = 0, simplified] thread_cost snapshotOf_cost)
  then show "costs wait_of 3100 (readChatSnapshot env i)" by simp
qed

lemma remember_cost: "costs c n (await (change f) (\<lambda>_. give chat))"
  by (rule costs_mono [OF costs_await_0]) (intro costs_change costs_give, simp)+

lemma await_message_cost:
  "costs reads_of (12 * length delays) (awaitUserMessage env i turnId content mentions localImages delays snapshot)"
  "costs wait_of (sum_list delays + 3100 * length delays)
     (awaitUserMessage env i turnId content mentions localImages delays snapshot)"
proof (induction delays arbitrary: snapshot)
  case Nil
  {
    case 1
    show ?case by (auto simp: awaitUserMessage.simps [of _ _ _ _ _ _ "[]"] Let_def intro!: remember_cost costs_reading)
  next
    case 2
    show ?case by (auto simp: awaitUserMessage.simps [of _ _ _ _ _ _ "[]"] Let_def intro!: remember_cost costs_reading)
  }
next
  case (Cons d ds)
  {
    case 1
    have "costs reads_of (0 + (12 + 12 * length ds))
        (await (sleep d) (\<lambda>_. await (readChatSnapshot env i) (awaitUserMessage env i turnId content mentions localImages ds)))"
      by (intro costs_await sleep_cost snapshot_cost Cons.IH)
    then show ?case by (subst awaitUserMessage.simps) (simp add: remember_cost)
  next
    case 2
    have "costs wait_of (d + (3100 + (sum_list ds + 3100 * length ds)))
        (await (sleep d) (\<lambda>_. await (readChatSnapshot env i) (awaitUserMessage env i turnId content mentions localImages ds)))"
      by (intro costs_await sleep_cost snapshot_cost Cons.IH)
    then show ?case by (subst awaitUserMessage.simps) (simp add: remember_cost algebra_simps)
  }
qed


definition demoReply :: jsv where
  "demoReply = JObj [(''thread'', demoThread ''a'')]"

lemma demo_mapped:
  "\<exists>t chat. mapChatWithCachedTitle demoEnv (reread demoEnv (toRawThread (ev_otherDate demoEnv) (demoThread ''a''))) s
     = (t, Inr chat)"
proof -
  have again: "reread demoEnv (toRawThread (ev_otherDate demoEnv) (demoThread ''a''))
      = toRawThread (ev_otherDate demoEnv) (demoThread ''a'')"
    by (simp add: reread_def toRawThread_def demoThread_def demoEnv_def prop_of_def opt_prop_def toRecord.simps Let_def
      or_else_def readTimestampSeconds_def readNumeric_def finite_number_def trimmed_string_def non_empty_def)
  obtain m where m: "mapChatSummary (toRawThread (ev_otherDate demoEnv) (demoThread ''a'')) = Inr (Some m)"
    by (rule demo_summary)
  have "th_acpSnapshot (toRawThread (ev_otherDate demoEnv) (demoThread ''a'')) = None"
    "th_turns (toRawThread (ev_otherDate demoEnv) (demoThread ''a'')) = None"
    by (simp_all add: toRawThread_def demoThread_def prop_of_def opt_prop_def toRecord.simps Let_def toRawAcpSnapshot_def)
  then have "mapMessages (ev_otherDate demoEnv) fresh (toRawThread (ev_otherDate demoEnv) (demoThread ''a'')) c = Inr []"
    for fresh c
    by (simp add: mapMessages_def turnMessages_def datedMessages_def split: option.split)
  then show ?thesis by (simp add: again mapChatWithCachedTitle_def mapChat_def m Let_def)
qed

lemma demo_snapshot:
  "\<exists>es t snapshot. runs (=) (readChatSnapshot demoEnv ''a'' s) es t (Inr snapshot)"
proof -
  obtain t chat where m: "mapChatWithCachedTitle demoEnv
      (reread demoEnv (toRawThread (ev_otherDate demoEnv) (demoThread ''a''))) s = (t, Inr chat)"
    using demo_mapped by blast
  have thread: "thread_of demoEnv demoReply = Inr (toRawThread (ev_otherDate demoEnv) (demoThread ''a''))"
    by (simp add: thread_of_def demoReply_def response_record_def nullish_def prop_of_def)
  have "play (readChatSnapshot demoEnv ''a'') s [Inr (Json demoReply)]
      = Some ([Asked (Rpc ''thread/read'' (JObj [(''threadId'', JStr ''a''), (''includeTurns'', JBool True)]))
            (Inr (Json demoReply))], t, Inr (toRawThread (ev_otherDate demoEnv) (demoThread ''a''), chat))"
    by (simp add: play_def readChatSnapshot_def readAppServerThread_def readThreadWithRetries.simps [of "''a''"]
      attempt_def settle_def await_def rpc_def ask_def give_def snapshotOf_def outcome_def thread sync_def m)
  then have "runs (=) (readChatSnapshot demoEnv ''a'' s)
      [Asked (Rpc ''thread/read'' (JObj [(''threadId'', JStr ''a''), (''includeTurns'', JBool True)])) (Inr (Json demoReply))]
      t (Inr (toRawThread (ev_otherDate demoEnv) (demoThread ''a''), chat))"
    by (rule play_runs) (simp add: reflp_def)
  then show ?thesis by blast
qed

lemma demo_awaits: "\<exists>es t chat. runs (=) (awaitUserMessage demoEnv ''a'' turnId content ms ps delays snapshot s) es t (Inr chat)"
proof (induction delays arbitrary: snapshot s)
  case Nil
  show ?case by (auto simp: awaitUserMessage.simps [of _ _ _ _ _ _ "[]"] remember_run runs_reading Let_def
    runs_await runs_change runs_give)
next
  case (Cons d ds)
  obtain es u y where read: "runs (=) (readChatSnapshot demoEnv ''a'' s) es u (Inr y)" using demo_snapshot by blast
  obtain es2 t chat where later: "runs (=) (awaitUserMessage demoEnv ''a'' turnId content ms ps ds y u) es2 t (Inr chat)"
    using Cons.IH by blast
  have "runs (=) (await (sleep d) (\<lambda>_. await (readChatSnapshot demoEnv ''a'')
      (awaitUserMessage demoEnv ''a'' turnId content ms ps ds)) s)
      ([Asked (SleepFor d) (Inr Woken)] @ (es @ es2)) t (Inr chat)"
    by (rule runs_awaitI [where u = s and y = "()"], simp add: runs_sleep) (rule runs_awaitI, rule read, rule later)
  then show ?case
    by (cases "shows_message snapshot turnId content ms ps")
      (auto simp: awaitUserMessage.simps [of _ _ _ _ _ _ "d # ds"] remember_run simp del: append_Cons)
qed



section \<open>One request to send\<close>

definition names :: "(apiCall, apiError + apiValue) event list \<Rightarrow> string list" where
  "names es = List.map_filter (\<lambda>e. case e of Asked (Rpc name params) r \<Rightarrow> Some name | _ \<Rightarrow> None) es"

definition queueSend :: "string \<Rightarrow> string \<Rightarrow> string \<Rightarrow> jobj \<Rightarrow> apiCall" where
  "queueSend i submissionId content turnStart = Rpc ''bridge/thread/queue/send'' (JObj
     [(''threadId'', JStr i), (''submissionId'', JStr submissionId), (''content'', JStr content),
      (''turnStart'', JObj turnStart)])"

fun not_a_read :: "(apiCall, apiError + apiValue) event \<Rightarrow> nat" where
  "not_a_read (Asked (Rpc name params) r) = (if name = ''thread/read'' then 0 else 1)"
| "not_a_read e = 0"

lemma only_reads: "sum_list (map not_a_read es) = 0 \<longleftrightarrow> set (names es) \<subseteq> {''thread/read''}"
proof (induction es)
  case (Cons e es)
  then show ?case by (cases e rule: not_a_read.cases) (auto simp: names_def List.map_filter_simps)
qed (simp add: names_def List.map_filter_simps)

lemma reading_costs_nothing: "costs not_a_read 0 (readThreadWithRetries threadId includeTurns delays)"
proof (induction delays)
  case Nil
  show ?case
    by (subst readThreadWithRetries.simps, intro costs_attempt_0)
      (simp_all add: rpc_def costs_ask costs_raise)
next
  case (Cons d ds)
  show ?case
    by (subst readThreadWithRetries.simps, intro costs_attempt_0)
      (auto simp: rpc_def sleep_def costs_raise intro!: costs_ask costs_await_0 Cons.IH)
qed

lemma snapshot_only_reads: "costs not_a_read 0 (readChatSnapshot env i)"
  unfolding readChatSnapshot_def readAppServerThread_def
  by (intro costs_attempt_0 costs_await_0 snapshotOf_cost reading_costs_nothing)
    (auto simp: costs_raise intro!: costs_await_0 snapshotOf_cost reading_costs_nothing)

lemma await_only_reads:
  "costs not_a_read 0 (awaitUserMessage env i turnId content mentions localImages delays snapshot)"
proof (induction delays arbitrary: snapshot)
  case Nil
  show ?case by (auto simp: awaitUserMessage.simps [of _ _ _ _ _ _ "[]"] Let_def intro!: remember_cost costs_reading)
next
  case (Cons d ds)
  have "costs not_a_read 0 (await (sleep d) (\<lambda>_. await (readChatSnapshot env i)
      (awaitUserMessage env i turnId content mentions localImages ds)))"
    by (intro costs_await_0 snapshot_only_reads Cons.IH) (simp add: sleep_def costs_ask)
  then show ?case by (subst awaitUserMessage.simps) (simp add: remember_cost)
qed

lemma message_only_reads: "costs not_a_read 0 (getChatWithUserMessage env i turnId content mentions localImages)"
  unfolding getChatWithUserMessage_def
  by (intro costs_await_0 snapshot_only_reads) (simp add: costs_give await_only_reads)

text \<open>Preparing a turn asks at most to resume the thread.\<close>

lemma prepared:
  assumes "runs rely (prepareTurnRequest i body opts s) es t x" "trim (sr_content body) \<noteq> []"
  shows "case x of Inl e \<Rightarrow> names es = [] \<or> names es = [''thread/resume'']
    | Inr p \<Rightarrow> names es = (if po_skipResume opts then [] else [''thread/resume''])
        \<and> pt_content p = trim (sr_content body)
        \<and> (\<exists>resumed. pt_turnStartParams p = turnStartParams i body resumed)"
proof -
  have resume: "case y of Inl e \<Rightarrow> names es' = [] \<or> names es' = [''thread/resume'']
      | Inr r \<Rightarrow> names es' = [''thread/resume'']"
    if "runs rely (resumeThread i cwd model policy s) es' u y" for cwd model policy es' u y
    using that by (auto simp: resumeThread_def runs_raise runs_await rpc_run runs_give names_def List.map_filter_simps
        split: if_splits option.splits)
  show ?thesis
  proof (cases "with_default (sr_role body) ''user'' = ''user''")
    case False
    with assms show ?thesis by (simp add: prepareTurnRequest_def runs_raise names_def List.map_filter_simps)
  next
    case True
    show ?thesis
    proof (cases "po_skipResume opts")
      case skip: True
      with assms True show ?thesis
        by (auto simp: prepareTurnRequest_def runs_await runs_give names_def List.map_filter_simps)
    next
      case False
      with assms True have "runs rely (await (resumeThread i (normalizeCwd (sr_cwd body)) (normalizeModel (sr_model body))
          (Some (approval_of (sr_approvalPolicy body)))) (\<lambda>resumed. give
           \<lparr>pt_content = trim (sr_content body), pt_mentions = normalizeMentions (sr_mentions body),
            pt_localImages = normalizeLocalImages (sr_localImages body),
            pt_turnStartParams = turnStartParams i body resumed\<rparr>) s) es t x"
        by (simp add: prepareTurnRequest_def)
      with False show ?thesis
        unfolding runs_await [of _ "resumeThread i _ _ _"] runs_give
        by (auto dest!: resume)
    qed
  qed
qed


lemma names_append [simp]: "names (xs @ ys) = names xs @ names ys"
  by (simp add: names_def)

lemma submission_id_run:
  assumes "runs rely ((case non_empty (map_option trim wanted) of
      Some submissionId \<Rightarrow> give submissionId | None \<Rightarrow> sync createSubmissionId) s) es t x"
  shows "es = [] \<and> (\<exists>n. x = Inr n \<and> n \<noteq> [] \<and> (\<forall>m. non_empty (map_option trim wanted) = Some m \<longrightarrow> n = m))"
  using assms
  by (cases "non_empty (map_option trim wanted)")
    (auto simp: runs_give runs_sync createSubmissionId_def Let_def non_empty_def split: option.splits if_splits)

text \<open>The request to send and what is done with its reply\<close>

definition sent_reply :: "apiEnv \<Rightarrow> string \<Rightarrow> preparedTurnRequest \<Rightarrow> jsv \<Rightarrow> sendOrQueueResult call" where
  "sent_reply env i p response = await (outcome (response_record response)) (\<lambda>r.
       if prop_of r ''disposition'' = JStr ''queued'' then give (MessageQueued (prop_of r ''queue''))
       else case non_empty (trimmed_string (prop_of r ''turnId'')) of
         None \<Rightarrow> raise (ApiFailed ''bridge/thread/queue/send did not return turn id for sent message'')
       | Some turnId \<Rightarrow> await (getChatWithUserMessage env i turnId (pt_content p) (pt_mentions p) (pt_localImages p))
           (\<lambda>chat. give (MessageSent (prop_of r ''queue'') turnId chat)))"

definition send_prepared :: "apiEnv \<Rightarrow> string \<Rightarrow> prepareOptions \<Rightarrow> preparedTurnRequest \<Rightarrow> sendOrQueueResult call" where
  "send_prepared env i opts p = await (case non_empty (map_option trim (po_submissionId opts)) of
       Some submissionId \<Rightarrow> give submissionId | None \<Rightarrow> sync createSubmissionId)
     (\<lambda>submissionId. await (rpc ''bridge/thread/queue/send'' (JObj
         [(''threadId'', JStr i), (''submissionId'', JStr submissionId),
          (''content'', JStr (pt_content p)), (''turnStart'', JObj (pt_turnStartParams p))])) (sent_reply env i p))"

lemma sendOrQueue_prepared:
  "sendOrQueueChatMessage env i body opts = await (prepareTurnRequest i body opts) (\<lambda>p.
     if pt_content p = []
     then await (readThreadQueue i) (\<lambda>queue. await (getChat env i default_read) (\<lambda>chat. give (MessageSent queue [] chat)))
     else send_prepared env i opts p)"
  unfolding sendOrQueueChatMessage_def send_prepared_def sent_reply_def by (rule refl)

lemma after_send:
  assumes "runs rely (sent_reply env i p response s) es t x"
  shows "set (names es) \<subseteq> {''thread/read''} \<and> (\<forall>queue. x = Inr (MessageQueued queue) \<longrightarrow> es = [])"
proof -
  have "costs not_a_read 0 (sent_reply env i p response)"
    unfolding sent_reply_def by (intro costs_await_0 costs_outcome)
      (auto intro!: costs_await_0 message_only_reads costs_give costs_raise split: option.split)
  from costs_total [OF this assms] have "sum_list (map not_a_read es) = 0" by simp
  then have "set (names es) \<subseteq> {''thread/read''}" by (simp only: only_reads)
  moreover have "\<forall>queue. x = Inr (MessageQueued queue) \<longrightarrow> es = []"
    using assms unfolding sent_reply_def
    by (auto simp: runs_await runs_outcome runs_give runs_raise split: if_splits option.splits)
  ultimately show ?thesis by blast
qed

lemma send_run:
  assumes "runs rely (send_prepared env i opts p s) es t x"
  obtains r after submissionId where
    "es = Asked (queueSend i submissionId (pt_content p) (pt_turnStartParams p)) r # after" "submissionId \<noteq> []"
    "\<forall>wanted. non_empty (map_option trim (po_submissionId opts)) = Some wanted \<longrightarrow> submissionId = wanted"
    "set (names after) \<subseteq> {''thread/read''}" "\<forall>queue. x = Inr (MessageQueued queue) \<longrightarrow> after = []"
proof -
  let ?send = "\<lambda>n. await (rpc ''bridge/thread/queue/send'' (JObj
         [(''threadId'', JStr i), (''submissionId'', JStr n),
          (''content'', JStr (pt_content p)), (''turnStart'', JObj (pt_turnStartParams p))])) (sent_reply env i p)"
  from assms obtain v n where n: "n \<noteq> []"
      "\<forall>wanted. non_empty (map_option trim (po_submissionId opts)) = Some wanted \<longrightarrow> n = wanted"
    and sent: "runs rely (?send n v) es t x"
    unfolding send_prepared_def runs_await [of _ "case _ of None \<Rightarrow> _ | Some n \<Rightarrow> _ n"]
    by (auto dest!: submission_id_run)
  from sent [unfolded runs_await rpc_run] show thesis
  proof (elim disjE exE conjE)
    fix e r
    assume "x = Inl e" "es = [Asked (Rpc ''bridge/thread/queue/send'' (JObj
         [(''threadId'', JStr i), (''submissionId'', JStr n),
          (''content'', JStr (pt_content p)), (''turnStart'', JObj (pt_turnStartParams p))])) r]"
    then show thesis by (intro that [of n r "[]"]) (simp_all add: queueSend_def n names_def List.map_filter_simps)
  next
    fix es1 es2 u y r
    assume es: "es = es1 @ es2" "es1 = [Asked (Rpc ''bridge/thread/queue/send'' (JObj
         [(''threadId'', JStr i), (''submissionId'', JStr n),
          (''content'', JStr (pt_content p)), (''turnStart'', JObj (pt_turnStartParams p))])) r]"
      and rest: "runs rely (sent_reply env i p y u) es2 t x"
    from after_send [OF rest] es n show thesis by (intro that [of n r es2]) (simp_all add: queueSend_def)
  qed
qed

text \<open>C9: sending a message that is not blank ends in an error before anything is sent, or it puts the
  message in the queue exactly once: after the thread was resumed (unless that is skipped), under the
  submission id of the caller, or a new one, with the parameters of the turn.  After that the thread is
  only read, and not at all when the bridge queued the message.\<close>

theorem message_is_sent_once:
  assumes "runs rely (sendOrQueueChatMessage env i body opts s) es t x" "trim (sr_content body) \<noteq> []"
  shows "((\<exists>e. x = Inl e) \<and> (names es = [] \<or> names es = [''thread/resume'']))
    \<or> (\<exists>before r after submissionId resumed.
        es = before @ Asked (queueSend i submissionId (trim (sr_content body)) (turnStartParams i body resumed)) r # after
        \<and> names before = (if po_skipResume opts then [] else [''thread/resume''])
        \<and> submissionId \<noteq> []
        \<and> (\<forall>wanted. non_empty (map_option trim (po_submissionId opts)) = Some wanted \<longrightarrow> submissionId = wanted)
        \<and> set (names after) \<subseteq> {''thread/read''} \<and> (\<forall>queue. x = Inr (MessageQueued queue) \<longrightarrow> after = []))"
proof -
  from assms(1) [unfolded sendOrQueue_prepared runs_await [of _ "prepareTurnRequest i body opts"]]
  consider (failed) e where "x = Inl e" "runs rely (prepareTurnRequest i body opts s) es t (Inl e)"
    | (ready) es1 es2 u p where "es = es1 @ es2" "runs rely (prepareTurnRequest i body opts s) es1 u (Inr p)"
        "pt_content p \<noteq> [] \<Longrightarrow> runs rely (send_prepared env i opts p u) es2 t x"
    by (elim disjE exE conjE) (auto split: if_splits)
  then show ?thesis
  proof cases
    case failed
    with prepared [OF failed(2) assms(2)] show ?thesis by simp
  next
    case ready
    from prepared [OF ready(2) assms(2)] obtain resumed where
      p: "names es1 = (if po_skipResume opts then [] else [''thread/resume''])" "pt_content p = trim (sr_content body)"
        "pt_turnStartParams p = turnStartParams i body resumed" by auto
    with ready(3) assms(2) have "runs rely (send_prepared env i opts p u) es2 t x" by simp
    then obtain r after submissionId where
      "es2 = Asked (queueSend i submissionId (pt_content p) (pt_turnStartParams p)) r # after" "submissionId \<noteq> []"
      "\<forall>wanted. non_empty (map_option trim (po_submissionId opts)) = Some wanted \<longrightarrow> submissionId = wanted"
      "set (names after) \<subseteq> {''thread/read''}" "\<forall>queue. x = Inr (MessageQueued queue) \<longrightarrow> after = []"
      by (rule send_run)
    with ready(1) p show ?thesis
      by (intro disjI2 exI [of _ es1] exI [of _ r] exI [of _ after] exI [of _ submissionId] exI [of _ resumed]) simp
  qed
qed


definition demoBody :: sendChatMessageRequest where
  "demoBody = \<lparr>sr_content = ''hi'', sr_role = None, sr_cwd = None, sr_model = None, sr_effort = None,
     sr_serviceTier = None, sr_approvalPolicy = None, sr_mentions = None, sr_localImages = None,
     sr_collaborationMode = None, sr_agent = None\<rparr>"

theorem message_is_sent_once_witness:
  "\<exists>es t. runs (=) (sendOrQueueChatMessage demoEnv ''a'' demoBody \<lparr>po_skipResume = True, po_submissionId = Some ''s1''\<rparr>
       demoClient) es t (Inr (MessageQueued (JStr ''q'')))
     \<and> (\<exists>before r resumed. es = before @ [Asked (queueSend ''a'' ''s1'' ''hi'' (turnStartParams ''a'' demoBody resumed)) r])"
proof -
  let ?o = "\<lparr>po_skipResume = True, po_submissionId = Some ''s1''\<rparr>"
  let ?reply = "JObj [(''disposition'', JStr ''queued''), (''queue'', JStr ''q'')]"
  have hi: "trim ''hi'' = ''hi''" "trim ''s1'' = ''s1''" by code_simp+
  obtain es where "play (sendOrQueueChatMessage demoEnv ''a'' demoBody ?o) demoClient [Inr (Json ?reply)]
      = Some (es, demoClient, Inr (MessageQueued (JStr ''q'')))"
    by (simp add: play_def sendOrQueueChatMessage_def prepareTurnRequest_def demoBody_def hi non_empty_def await_def settle_def
      give_def rpc_def ask_def outcome_def response_record_def nullish_def prop_of_def)
  then have run: "runs (=) (sendOrQueueChatMessage demoEnv ''a'' demoBody ?o demoClient) es demoClient
      (Inr (MessageQueued (JStr ''q'')))"
    by (rule play_runs) (simp add: reflp_def)
  have "trim (sr_content demoBody) \<noteq> []" by (simp add: demoBody_def hi)
  from message_is_sent_once [OF run this] obtain before r after submissionId resumed where
    "es = before @ Asked (queueSend ''a'' submissionId (trim (sr_content demoBody)) (turnStartParams ''a'' demoBody resumed)) r
       # after" "submissionId = ''s1''" "after = []"
    by (auto simp: hi non_empty_def)
  with run show ?thesis by (auto simp: demoBody_def hi)
qed

end
