(* ===== verification/ApiBridge.thy ===== *)
theory ApiBridge
  imports ApiTurns
begin

text \<open>
  The other methods of the client: the requests to the bridge of
  \<open>api/HostBridgeApiClientBridgeActionsLayer.ts\<close> (queue, approvals, surfaces, terminal, git, uploads) and
  those for workspaces and previews of \<open>HostBridgeApiClientWorkspaceAndChatReadLayer.ts\<close>.  Replies that
  are only passed on are JSON values.
\<close>

section \<open>The bridge\<close>

record apiConfig =
  cf_bridgeUrl :: "string option"
  cf_authToken :: "string option"

text \<open>\<open>url.replace(/\/$/, "")\<close> and \<open>token.trim() || null\<close>\<close>

definition newConfig :: "string option \<Rightarrow> string option \<Rightarrow> apiConfig" where
  "newConfig bridgeUrl authToken =
     \<lparr>cf_bridgeUrl = map_option (\<lambda>url. if ends_with url ''/'' then butlast url else url) bridgeUrl,
      cf_authToken = non_empty (map_option trim authToken)\<rparr>"

definition health :: "jsv call" where
  "health = rpc ''bridge/health/read'' JUndefined"

definition readBridgeStatus :: "jsv call" where
  "readBridgeStatus = rpc ''bridge/status/read'' JUndefined"

definition readBridgeCapabilities :: "jsv call" where
  "readBridgeCapabilities = rpc ''bridge/capabilities/read'' JUndefined"

definition registerPushDevice :: "jsv \<Rightarrow> jsv call" where
  "registerPushDevice request = rpc ''bridge/push/register'' request"

definition unregisterPushDevice :: "jsv \<Rightarrow> jsv call" where
  "unregisterPushDevice request = rpc ''bridge/push/unregister'' request"

section \<open>Workspaces and previews\<close>

record fileSystemListRequest =
  fr_path :: "string option"
  fr_includeHidden :: bool
  fr_directoriesOnly :: "bool option"
  fr_includeGitRepo :: bool

definition read_dated :: "(chatError + 'a) \<Rightarrow> 'a call" where
  "read_dated x = outcome (map_sum ChatFailed (\<lambda>v. v) x)"

definition listWorkspaceRoots :: "apiEnv \<Rightarrow> rat \<Rightarrow> workspaceListResponse call" where
  "listWorkspaceRoots env limit =
     await (rpc ''bridge/workspaces/list'' (JObj [(''limit'', JNum limit)]))
       (\<lambda>response. read_dated (readWorkspaceListResponse (ev_otherDate env) response))"

definition listFilesystemEntries :: "fileSystemListRequest option \<Rightarrow> fileSystemListResponse call" where
  "listFilesystemEntries request =
     await (rpc ''bridge/fs/list'' (JObj
         ([(''path'', string_or_null (normalizeCwd (Option.bind request fr_path))),
           (''includeHidden'', JBool (request \<noteq> None \<and> fr_includeHidden (the request))),
           (''directoriesOnly'', JBool (Option.bind request fr_directoriesOnly \<noteq> Some False))]
          @ (if request \<noteq> None \<and> fr_includeGitRepo (the request) then [(''includeGitRepo'', JBool True)] else []))))
       (\<lambda>response. give (readFileSystemListResponse response))"

definition createBrowserPreviewSession :: "apiEnv \<Rightarrow> string \<Rightarrow> browserPreviewSession call" where
  "createBrowserPreviewSession env targetUrl =
     await (rpc ''bridge/browser/session/create'' (JObj [(''targetUrl'', JStr targetUrl)])) (\<lambda>response.
     await (read_dated (readBrowserPreviewSession (ev_otherDate env) response)) (\<lambda>session.
       case session of
         None \<Rightarrow> raise (ApiFailed ''bridge/browser/session/create returned an invalid session payload'')
       | Some found \<Rightarrow> give found))"

definition listBrowserPreviewSessions :: "apiEnv \<Rightarrow> browserPreviewSession list call" where
  "listBrowserPreviewSessions env =
     await (rpc ''bridge/browser/sessions/list'' JUndefined) (\<lambda>response.
     await (read_dated (collect (map (readBrowserPreviewSession (ev_otherDate env))
         (array_at (with_default (toRecord response) []) ''sessions'')))) (\<lambda>sessions. give (keep_some sessions)))"

definition closeBrowserPreviewSession :: "string \<Rightarrow> bool call" where
  "closeBrowserPreviewSession sessionId =
     await (rpc ''bridge/browser/session/close'' (JObj [(''sessionId'', JStr sessionId)])) (\<lambda>response.
     await (outcome (response_record response)) (\<lambda>r. give (prop_of r ''closed'' = JBool True)))"

definition discoverBrowserPreviewTargets :: "apiEnv \<Rightarrow> browserPreviewDiscoveryResponse call" where
  "discoverBrowserPreviewTargets env =
     await (rpc ''bridge/browser/targets/discover'' JUndefined)
       (\<lambda>response. read_dated (readBrowserPreviewDiscoveryResponse (ev_otherDate env) response))"

section \<open>Queue, approvals and surfaces\<close>

definition steerQueuedThreadMessage :: "string \<Rightarrow> string \<Rightarrow> jsv call" where
  "steerQueuedThreadMessage threadId itemId =
     rpc ''bridge/thread/queue/steer'' (JObj [(''threadId'', JStr (trim threadId)), (''itemId'', JStr (trim itemId))])"

definition cancelQueuedThreadMessage :: "string \<Rightarrow> string \<Rightarrow> jsv call" where
  "cancelQueuedThreadMessage threadId itemId =
     rpc ''bridge/thread/queue/cancel'' (JObj [(''threadId'', JStr (trim threadId)), (''itemId'', JStr (trim itemId))])"

definition listApprovals :: "jsv call" where
  "listApprovals = rpc ''bridge/approvals/list'' JUndefined"

definition listPendingUserInputs :: "jsv call" where
  "listPendingUserInputs = rpc ''bridge/userInput/list'' JUndefined"

definition resolveApproval :: "string \<Rightarrow> string \<Rightarrow> string \<Rightarrow> jsv call" where
  "resolveApproval i decision resolutionId =
     rpc ''bridge/approvals/resolve'' (JObj
       [(''id'', JStr i), (''decision'', JStr decision), (''resolutionId'', JStr resolutionId)])"

definition resolveUserInput :: "string \<Rightarrow> jsv \<Rightarrow> string option \<Rightarrow> jsv call" where
  "resolveUserInput i answers action =
     rpc ''bridge/userInput/resolve'' (JObj
       [(''id'', JStr i), (''answers'', answers),
        (''action'', case action of Some a \<Rightarrow> JStr a | None \<Rightarrow> JUndefined)])"

definition resolveBridgeUiSurface :: "string \<Rightarrow> string \<Rightarrow> string option \<Rightarrow> string \<Rightarrow> jsv call" where
  "resolveBridgeUiSurface i threadId turnId actionId =
     rpc ''bridge/ui/resolve'' (JObj
       [(''id'', JStr i), (''threadId'', JStr threadId), (''turnId'', string_or_null turnId),
        (''actionId'', JStr actionId)])"

definition dismissBridgeUiSurface :: "string \<Rightarrow> string option \<Rightarrow> jsv call" where
  "dismissBridgeUiSurface i threadId =
     rpc ''bridge/ui/dismiss'' (JObj [(''id'', JStr i), (''threadId'', string_or_null threadId)])"

definition execTerminal :: "jsv \<Rightarrow> jsv call" where
  "execTerminal body = rpc ''bridge/terminal/exec'' body"

section \<open>Uploads\<close>

record uploadAttachmentRequest =
  ua_uri :: string
  ua_fileName :: "string option"
  ua_mimeType :: "string option"
  ua_threadId :: "string option"
  ua_kind :: string

definition upload_fields :: "uploadAttachmentRequest \<Rightarrow> jobj" where
  "upload_fields body =
     (let field = (\<lambda>k v. case non_empty (map_option trim v) of Some t \<Rightarrow> [(k, JStr t)] | None \<Rightarrow> [])
      in (''kind'', JStr (ua_kind body)) # field ''fileName'' (ua_fileName body)
           @ field ''mimeType'' (ua_mimeType body) @ field ''threadId'' (ua_threadId body))"

text \<open>
  The upload is a request to the platform that is answered with the status and the body.  The options
  that are the same for all uploads are left out.
\<close>

definition uploadAttachment :: "apiConfig \<Rightarrow> uploadAttachmentRequest \<Rightarrow> jsv call" where
  "uploadAttachment config body =
     (case non_empty (cf_bridgeUrl config) of
        None \<Rightarrow> raise (ApiFailed ''Bridge URL is required for attachment uploads'')
      | Some bridgeUrl \<Rightarrow>
          await (ask (Upload (bridgeUrl @ ''/attachments'') (ua_uri body) (JObj
              [(''mimeType'', case ua_mimeType body of Some m \<Rightarrow> JStr m | None \<Rightarrow> JUndefined),
               (''parameters'', JObj (upload_fields body)),
               (''headers'', case non_empty (cf_authToken config) of
                  Some token \<Rightarrow> JObj [(''Authorization'', JStr (''Bearer '' @ token))] | None \<Rightarrow> JUndefined)]))
            (\<lambda>reply. case reply of Inl e \<Rightarrow> Inl e
               | Inr (Json (JObj r)) \<Rightarrow> Inr (with_default (as_number (prop_of r ''status'')) 0, string_at r ''body'')
               | Inr _ \<Rightarrow> Inl OtherReply))
          (\<lambda>(status, content).
            let payload = with_default (json_parse content) JNull
            in if status < 200 \<or> status \<ge> 300
               then raise (ApiFailed (with_default (as_string (opt_prop (toRecord payload) ''message''))
                 (''Attachment upload failed ('' @ js_string (JNum status) @ '')'')))
               else give payload))"

section \<open>GitHub and git\<close>

datatype gitHubAuthRequest =
    SingleToken string "string list option"
  | Grants "(string \<times> string list option) list"

fun requested_grants :: "gitHubAuthRequest \<Rightarrow> (string \<times> string list option) list" where
  "requested_grants (Grants grants) = grants"
| "requested_grants (SingleToken token repositories) = [(token, Some (with_default repositories []))]"

definition normalized_grants :: "(string \<times> string list option) list \<Rightarrow> (string \<times> string list) list" where
  "normalized_grants grants =
     filter (\<lambda>(token, _). token \<noteq> [])
       (map (\<lambda>(token, repositories).
          (trim token, filter (\<lambda>r. r \<noteq> []) (map trim (with_default repositories [])))) grants)"

definition installGitHubAuth :: "gitHubAuthRequest \<Rightarrow> jsv call" where
  "installGitHubAuth body =
     (let grants = normalized_grants (requested_grants body)
      in if grants = [] then raise (ApiFailed ''At least one GitHub auth grant is required'')
         else rpc ''bridge/github/auth/install'' (JObj [(''grants'', JArr (map (\<lambda>(token, repositories).
           JObj [(''accessToken'', JStr token), (''repositories'', JArr (map JStr repositories))]) grants))]))"

definition cwd_params :: "string option \<Rightarrow> jobj" where
  "cwd_params cwd = [(''cwd'', string_or_null (normalizeCwd cwd))]"

definition gitStatus :: "string option \<Rightarrow> jsv call" where
  "gitStatus cwd = rpc ''bridge/git/status'' (JObj (cwd_params cwd))"

definition gitDiff :: "string option \<Rightarrow> jsv call" where
  "gitDiff cwd = rpc ''bridge/git/diff'' (JObj (cwd_params cwd))"

definition gitHistory :: "string option \<Rightarrow> rat \<Rightarrow> jsv call" where
  "gitHistory cwd limit = rpc ''bridge/git/history'' (JObj (cwd_params cwd @ [(''limit'', JNum limit)]))"

definition gitBranches :: "string option \<Rightarrow> jsv call" where
  "gitBranches cwd = rpc ''bridge/git/branches'' (JObj (cwd_params cwd))"

definition gitClone :: "string \<Rightarrow> string option \<Rightarrow> string \<Rightarrow> jsv call" where
  "gitClone url parentPath directoryName =
     (if trim url = [] then raise (ApiFailed ''url must not be empty'')
      else if trim directoryName = [] then raise (ApiFailed ''directoryName must not be empty'')
      else rpc ''bridge/git/clone'' (JObj
        [(''url'', JStr (trim url)), (''parentPath'', string_or_null (normalizeCwd parentPath)),
         (''directoryName'', JStr (trim directoryName))]))"

definition gitStage :: "string \<Rightarrow> string option \<Rightarrow> jsv call" where
  "gitStage path cwd =
     (if trim path = [] then raise (ApiFailed ''path must not be empty'')
      else rpc ''bridge/git/stage'' (JObj ((''path'', JStr (trim path)) # cwd_params cwd)))"

definition gitStageAll :: "string option \<Rightarrow> jsv call" where
  "gitStageAll cwd = rpc ''bridge/git/stageAll'' (JObj (cwd_params cwd))"

definition gitUnstage :: "string \<Rightarrow> string option \<Rightarrow> jsv call" where
  "gitUnstage path cwd =
     (if trim path = [] then raise (ApiFailed ''path must not be empty'')
      else rpc ''bridge/git/unstage'' (JObj ((''path'', JStr (trim path)) # cwd_params cwd)))"

definition gitUnstageAll :: "string option \<Rightarrow> jsv call" where
  "gitUnstageAll cwd = rpc ''bridge/git/unstageAll'' (JObj (cwd_params cwd))"

definition gitCommit :: "string \<Rightarrow> string option \<Rightarrow> jsv call" where
  "gitCommit message cwd = rpc ''bridge/git/commit'' (JObj ((''message'', JStr message) # cwd_params cwd))"

definition gitSwitch :: "string \<Rightarrow> string option \<Rightarrow> jsv call" where
  "gitSwitch branch cwd =
     (if trim branch = [] then raise (ApiFailed ''branch must not be empty'')
      else rpc ''bridge/git/switch'' (JObj ((''branch'', JStr (trim branch)) # cwd_params cwd)))"

definition gitPush :: "string option \<Rightarrow> jsv call" where
  "gitPush cwd = rpc ''bridge/git/push'' (JObj (cwd_params cwd))"

end
