(* ===== verification/ReplayRecovery.thy ===== *)
theory ReplayRecovery
  imports ApiReads
begin

text \<open>
  Recovery after a gap in the replayed events: \<open>screens/controllers/replayRecoveryController.ts\<close> (what
  is loaded, by workers that take the next index when they are free) and
  \<open>screens/mainScreenReplayRecoveryEngine.ts\<close> (generations of attempts, retries and the reset of the
  epoch).  The same workers load summaries in \<open>getChatSummaries\<close> of
  \<open>api/HostBridgeApiClientTurnLifecycleLayer.ts\<close>.
\<close>

section \<open>Workers\<close>

text \<open>
  The values are mapped by index.  A worker runs without a break from the settlement it waited for to
  its next one, so the pool steps by settlements and by the abort of its signal, whose reason is kept.
  \<open>wp_asked\<close> are the indices given to the mapper so far.
\<close>

record ('e, 'v) pool =
  wp_size :: nat
  wp_next :: nat
  wp_active :: "nat list"
  wp_results :: "'v option list"
  wp_aborted :: "'e option"
  wp_failure :: "'e option"
  wp_asked :: "nat list"

datatype ('e, 'v) poolEvent =
    MapperSettled nat "'e + 'v"
  | Aborted 'e

text \<open>\<open>Promise.all\<close> rejects with the first error.\<close>

definition workerFails :: "'e \<Rightarrow> ('e, 'v) pool \<Rightarrow> ('e, 'v) pool" where
  "workerFails e p = p\<lparr>wp_failure := or_else (wp_failure p) (Some e)\<rparr>"

text \<open>A worker at the head of its loop\<close>

definition workerLoop :: "('e, 'v) pool \<Rightarrow> ('e, 'v) pool" where
  "workerLoop p =
     (if wp_next p < wp_size p
      then (case wp_aborted p of
          Some e \<Rightarrow> workerFails e p
        | None \<Rightarrow> p\<lparr>wp_next := wp_next p + 1, wp_active := wp_active p @ [wp_next p],
            wp_asked := wp_asked p @ [wp_next p]\<rparr>)
      else p)"

definition startPool :: "nat \<Rightarrow> nat \<Rightarrow> ('e, 'v) pool" where
  "startPool n concurrency =
     (workerLoop ^^ min concurrency n)
       \<lparr>wp_size = n, wp_next = 0, wp_active = [], wp_results = replicate n None, wp_aborted = None,
        wp_failure = None, wp_asked = []\<rparr>"

text \<open>A mapper that settles after the abort has nobody waiting for it.\<close>

fun poolStep :: "('e, 'v) poolEvent \<Rightarrow> ('e, 'v) pool \<Rightarrow> ('e, 'v) pool" where
  "poolStep (MapperSettled i x) p =
     (if i \<notin> set (wp_active p) then p
      else let q = p\<lparr>wp_active := remove1 i (wp_active p)\<rparr>
           in (case x of
                 Inl e \<Rightarrow> workerFails e q
               | Inr v \<Rightarrow> workerLoop (q\<lparr>wp_results := (wp_results q)[i := Some v]\<rparr>)))"
| "poolStep (Aborted e) p =
     (if wp_aborted p \<noteq> None then p
      else (if wp_active p = [] then p else workerFails e p)\<lparr>wp_aborted := Some e, wp_active := []\<rparr>)"

text \<open>What the caller gets, once it gets something\<close>

definition poolOutcome :: "('e, 'v) pool \<Rightarrow> ('e + 'v list) option" where
  "poolOutcome p =
     (case wp_failure p of
        Some e \<Rightarrow> Some (Inl e)
      | None \<Rightarrow> if wp_active p = [] then Some (Inr (map the (wp_results p))) else None)"

section \<open>Summaries\<close>

definition DEFAULT_CHAT_SUMMARY_HYDRATION_CONCURRENCY :: int where
  "DEFAULT_CHAT_SUMMARY_HYDRATION_CONCURRENCY = 4"

definition MAX_CHAT_SUMMARY_HYDRATION_CONCURRENCY :: int where
  "MAX_CHAT_SUMMARY_HYDRATION_CONCURRENCY = 8"

text \<open>The workers of \<open>getChatSummaries\<close>; a summary that cannot be read is nothing, never an error.\<close>

definition summaryPool :: "string list \<Rightarrow> rat option \<Rightarrow> (apiError, chatSummary option) pool" where
  "summaryPool ids concurrency =
     startPool (length (normalizeUniqueThreadIds ids))
       (nat (normalizeConcurrency concurrency DEFAULT_CHAT_SUMMARY_HYDRATION_CONCURRENCY
          MAX_CHAT_SUMMARY_HYDRATION_CONCURRENCY))"

definition summaryRead :: "nat \<Rightarrow> apiError + chatSummary \<Rightarrow> (apiError, chatSummary option) poolEvent" where
  "summaryRead i x = MapperSettled i (Inr (case x of Inr summary \<Rightarrow> Some summary | Inl _ \<Rightarrow> None))"

definition getChatSummaries :: "(apiError, chatSummary option) pool \<Rightarrow> chatSummary list option" where
  "getChatSummaries p =
     (case poolOutcome p of Some (Inr results) \<Rightarrow> Some (keep_some results) | _ \<Rightarrow> None)"

section \<open>The threads to recover\<close>

definition REPLAY_RECOVERY_CONCURRENCY :: nat where "REPLAY_RECOVERY_CONCURRENCY = 4"
definition REPLAY_RECOVERY_MAX_LOADED_THREADS :: nat where "REPLAY_RECOVERY_MAX_LOADED_THREADS = 2048"

datatype recoveryError = ProtocolLimit nat | Cancelled | OtherFailure

definition collectReplayRecoveryThreadIds :: "string option list list \<Rightarrow> string list" where
  "collectReplayRecoveryThreadIds sources =
     unique_by (\<lambda>i. i) (List.map_filter (\<lambda>i. non_empty (map_option trim i)) (concat sources))"

text \<open>From the loaded threads and the threads of approvals and user inputs to the ids to load\<close>

definition recoveryThreads ::
  "string option list \<Rightarrow> string list \<Rightarrow> string option list \<Rightarrow> string option list
     \<Rightarrow> recoveryError + string list" where
  "recoveryThreads tracked loaded approvals userInputs =
     (if length loaded > REPLAY_RECOVERY_MAX_LOADED_THREADS then Inl (ProtocolLimit (length loaded))
      else Inr (collectReplayRecoveryThreadIds [tracked, map Some loaded, approvals, userInputs]))"

definition recoveryPool :: "string list \<Rightarrow> (recoveryError, 'v) pool" where
  "recoveryPool threadIds = startPool (length threadIds) REPLAY_RECOVERY_CONCURRENCY"

section \<open>Attempts\<close>

text \<open>
  An attempt knows the call it belongs to.  What the engine tells others is appended to \<open>rr_out\<close>.
\<close>

record recoveryAttempt =
  ra_generation :: nat
  ra_resumeAfter :: "rat option"
  ra_acknowledge :: bool

datatype recoveryOutput =
    Fetching recoveryAttempt
  | Cancel nat
  | Installed recoveryAttempt
  | Acknowledged rat
  | EpochReset
  | LimitReached

record recovery =
  rr_generation :: nat
  rr_controller :: "nat option"
  rr_epochResetPending :: bool
  rr_timer :: "recoveryAttempt option"
  rr_running :: "recoveryAttempt list"
  rr_out :: "recoveryOutput list"

datatype recoveryEvent =
    RecoverGap "rat option" bool
  | FetchSettled recoveryAttempt "recoveryError option"
  | RetryDue
  | Unmounted

definition startRecovery :: recovery where
  "startRecovery = \<lparr>rr_generation = 0, rr_controller = None, rr_epochResetPending = False, rr_timer = None,
     rr_running = [], rr_out = []\<rparr>"

definition announce :: "recoveryOutput list \<Rightarrow> recovery \<Rightarrow> recovery" where
  "announce os r = r\<lparr>rr_out := rr_out r @ os\<rparr>"

definition attemptRecovery :: "recoveryAttempt \<Rightarrow> recovery \<Rightarrow> recovery" where
  "attemptRecovery a r = announce [Fetching a] (r\<lparr>rr_running := rr_running r @ [a]\<rparr>)"

definition cancelled_controller :: "recovery \<Rightarrow> recoveryOutput list" where
  "cancelled_controller r = (case rr_controller r of Some g \<Rightarrow> [Cancel g] | None \<Rightarrow> [])"

definition recoverReplayGap :: "rat option \<Rightarrow> bool \<Rightarrow> recovery \<Rightarrow> recovery" where
  "recoverReplayGap resumeAfterEventId acknowledge r =
     (let generation = rr_generation r + 1
      in attemptRecovery
           \<lparr>ra_generation = generation, ra_resumeAfter = resumeAfterEventId, ra_acknowledge = acknowledge\<rparr>
           (announce (cancelled_controller r)
              (r\<lparr>rr_generation := generation, rr_controller := Some generation, rr_timer := None\<rparr>)))"

definition attemptSucceeds :: "recoveryAttempt \<Rightarrow> recovery \<Rightarrow> recovery" where
  "attemptSucceeds a r =
     (if ra_generation a \<noteq> rr_generation r then r
      else announce (Installed a # (case ra_resumeAfter a of
             Some eventId \<Rightarrow> if ra_acknowledge a then [Acknowledged eventId] else [] | None \<Rightarrow> []))
           (r\<lparr>rr_epochResetPending := False\<rparr>))"

definition attemptFails :: "recoveryAttempt \<Rightarrow> recoveryError \<Rightarrow> recovery \<Rightarrow> recovery" where
  "attemptFails a e r =
     (if ra_generation a \<noteq> rr_generation r then r
      else case e of
        ProtocolLimit n \<Rightarrow>
          let s = r\<lparr>rr_generation := rr_generation r + 1, rr_controller := None\<rparr>
          in if rr_epochResetPending s then announce [LimitReached] s
             else announce [EpochReset] (s\<lparr>rr_epochResetPending := True\<rparr>)
      | _ \<Rightarrow> r\<lparr>rr_timer := Some a\<rparr>)"

fun recoveryStep :: "recoveryEvent \<Rightarrow> recovery \<Rightarrow> recovery" where
  "recoveryStep (RecoverGap resumeAfter acknowledge) r = recoverReplayGap resumeAfter acknowledge r"
| "recoveryStep (FetchSettled a failure) r =
     (if a \<notin> set (rr_running r) then r
      else let s = r\<lparr>rr_running := remove1 a (rr_running r)\<rparr>
           in (case failure of None \<Rightarrow> attemptSucceeds a s | Some e \<Rightarrow> attemptFails a e s))"
| "recoveryStep RetryDue r =
     (case rr_timer r of None \<Rightarrow> r | Some a \<Rightarrow> attemptRecovery a (r\<lparr>rr_timer := None\<rparr>))"
| "recoveryStep Unmounted r =
     announce (cancelled_controller r)
       (r\<lparr>rr_generation := rr_generation r + 1, rr_controller := None, rr_timer := None\<rparr>)"

end
