(* ===== verification/ReplayRecoveryLaws.thy ===== *)
theory ReplayRecoveryLaws
  imports ReplayRecovery
begin

text \<open>
  The pool of workers asks for every index once, never for more than its bound at a time, and gives the
  results in the order of the values.  Recovery installs only what the latest call loaded, acknowledges
  only what it installed, and resets the epoch at most once before it succeeds.
\<close>

section \<open>Workers\<close>

definition pool_ok :: "nat \<Rightarrow> nat \<Rightarrow> ('e, 'v) pool \<Rightarrow> bool" where
  "pool_ok n c p \<longleftrightarrow> wp_size p = n \<and> wp_asked p = [0..<wp_next p] \<and> wp_next p \<le> n
     \<and> length (wp_results p) = n \<and> distinct (wp_active p) \<and> set (wp_active p) \<subseteq> {..<wp_next p}
     \<and> length (wp_active p) \<le> c
     \<and> (wp_failure p = None \<longrightarrow>
          (\<forall>i < wp_next p. i \<in> set (wp_active p) \<or> wp_results p ! i \<noteq> None)
          \<and> (wp_next p < n \<longrightarrow> length (wp_active p) = min c n))"

lemma workers_started:
  assumes "k \<le> n"
  shows "(workerLoop ^^ k)
      \<lparr>wp_size = n, wp_next = 0, wp_active = [], wp_results = replicate n None, wp_aborted = None,
       wp_failure = None, wp_asked = []\<rparr>
    = \<lparr>wp_size = n, wp_next = k, wp_active = [0..<k], wp_results = replicate n None, wp_aborted = None,
       wp_failure = None, wp_asked = [0..<k]\<rparr>"
  using assms by (induction k) (simp_all add: workerLoop_def)

lemma pool_started: "pool_ok n c (startPool n c)"
  by (auto simp: startPool_def workers_started pool_ok_def)

lemma nth_updated: "xs[j := y] ! i = (if i = j \<and> j < length xs then y else xs ! i)"
  by (cases "j < length xs") (auto simp: nth_list_update list_update_beyond)

lemma shorter_without: "i \<in> set xs \<Longrightarrow> length (remove1 i xs) + 1 = length xs"
  by (simp add: length_remove1) (metis Suc_pred length_pos_if_in_set)

lemma pool_ok_loop:
  assumes "wp_size p = n" "wp_asked p = [0..<wp_next p]" "wp_next p \<le> n" "length (wp_results p) = n"
    "distinct (wp_active p)" "set (wp_active p) \<subseteq> {..<wp_next p}" "length (wp_active p) < c"
    "wp_failure p = None \<longrightarrow> (\<forall>i < wp_next p. i \<in> set (wp_active p) \<or> wp_results p ! i \<noteq> None)
       \<and> (wp_next p < n \<longrightarrow> length (wp_active p) + 1 = min c n)"
  shows "pool_ok n c (workerLoop p)"
proof (cases "wp_next p < n")
  case False
  with assms show ?thesis by (simp add: workerLoop_def pool_ok_def)
next
  case more: True
  show ?thesis
  proof (cases "wp_aborted p")
    case (Some e)
    with assms show ?thesis by (auto simp: workerLoop_def workerFails_def pool_ok_def or_else_def split: option.split)
  next
    case None
    with more assms show ?thesis by (auto simp: workerLoop_def pool_ok_def less_Suc_eq)
  qed
qed

lemma pool_step_ok:
  assumes "pool_ok n c p"
  shows "pool_ok n c (poolStep e p)"
proof (cases e)
  case (MapperSettled i x)
  show ?thesis
  proof (cases "i \<in> set (wp_active p)")
    case False
    with assms MapperSettled show ?thesis by simp
  next
    case i: True
    have shorter: "length (remove1 i (wp_active p)) + 1 = length (wp_active p)"
      by (rule shorter_without [OF i])
    show ?thesis
    proof (cases x)
      case (Inl e)
      with assms i shorter MapperSettled show ?thesis
        by (auto simp: pool_ok_def workerFails_def or_else_def split: option.split dest: in_set_remove1 [THEN iffD1, rotated]
            notin_set_remove1)
    next
      case (Inr v)
      have "pool_ok n c (workerLoop (p\<lparr>wp_active := remove1 i (wp_active p),
          wp_results := (wp_results p)[i := Some v]\<rparr>))"
        using assms i shorter
        by (intro pool_ok_loop) (auto simp: pool_ok_def nth_updated)
      with MapperSettled Inr i show ?thesis by simp
    qed
  qed
next
  case (Aborted e)
  with assms show ?thesis
    by (auto simp: pool_ok_def workerFails_def or_else_def split: option.split)
qed

interpretation workers: machine poolStep "pool_ok n c" "\<lambda>_. True" for n c
  by unfold_locales (rule pool_step_ok)

lemma pool_run_ok: "pool_ok n c (fold poolStep es (startPool n c))"
  by (rule workers.run_inv [OF pool_started]) (simp add: list_all_iff)

text \<open>A result is what the mapper settled with.\<close>

lemma loop_results [simp]: "wp_results (workerLoop p) = wp_results p"
  by (simp add: workerLoop_def workerFails_def split: option.split)

lemma fails_results [simp]: "wp_results (workerFails e p) = wp_results p"
  by (simp add: workerFails_def)

lemma results_settled:
  "i < n \<Longrightarrow> wp_results (fold poolStep es (startPool n c)) ! i = Some v \<Longrightarrow> MapperSettled i (Inr v) \<in> set es"
proof (induction es rule: rev_induct)
  case Nil
  then show ?case by (simp add: startPool_def workers_started)
next
  case (snoc e es)
  let ?p = "fold poolStep es (startPool n c)"
  have len: "length (wp_results ?p) = n" using pool_run_ok [of n c es] by (simp add: pool_ok_def)
  show ?case
  proof (cases e)
    case (MapperSettled j x)
    with snoc len show ?thesis
      by (cases x) (auto simp: nth_updated Let_def split: if_splits)
  next
    case (Aborted e)
    with snoc show ?thesis by (auto split: if_splits)
  qed
qed

text \<open>Runs in which every event changes the pool\<close>

fun settling :: "('e, 'v) poolEvent list \<Rightarrow> ('e, 'v) pool \<Rightarrow> bool" where
  "settling [] p \<longleftrightarrow> True"
| "settling (e # es) p \<longleftrightarrow>
     (case e of MapperSettled i x \<Rightarrow> i \<in> set (wp_active p) | Aborted _ \<Rightarrow> wp_aborted p = None)
     \<and> settling es (poolStep e p)"

definition work_left :: "('e, 'v) pool \<Rightarrow> nat" where
  "work_left p = (wp_size p - wp_next p) + length (wp_active p) + (if wp_aborted p = None then 1 else 0)"

lemma work_left_loop: "work_left (workerLoop p) \<le> work_left p"
  by (auto simp: work_left_def workerLoop_def workerFails_def split: option.split)

lemma work_left_step:
  assumes "settling [e] p"
  shows "work_left (poolStep e p) < work_left p"
proof (cases e)
  case (MapperSettled i x)
  with assms have i: "i \<in> set (wp_active p)" by simp
  then have "length (remove1 i (wp_active p)) < length (wp_active p)"
    using shorter_without by fastforce
  then have less: "work_left (p\<lparr>wp_active := remove1 i (wp_active p), wp_results := rs, wp_failure := f\<rparr>) < work_left p" for rs f
    by (simp add: work_left_def)
  show ?thesis
  proof (cases x)
    case (Inl e)
    with i MapperSettled less [where rs = "wp_results p"] show ?thesis by (simp add: workerFails_def)
  next
    case (Inr v)
    have "work_left (workerLoop (p\<lparr>wp_active := remove1 i (wp_active p), wp_results := (wp_results p)[i := Some v]\<rparr>))
        \<le> work_left (p\<lparr>wp_active := remove1 i (wp_active p), wp_results := (wp_results p)[i := Some v]\<rparr>)"
      by (rule work_left_loop)
    also have "\<dots> < work_left p" using less [where f = "wp_failure p"] by (simp add: work_left_def)
    finally show ?thesis using i MapperSettled Inr by simp
  qed
next
  case (Aborted e)
  with assms show ?thesis by (auto simp: work_left_def workerFails_def)
qed

lemma work_left_run: "settling es p \<Longrightarrow> length es + work_left (fold poolStep es p) \<le> work_left p"
proof (induction es arbitrary: p)
  case (Cons e es)
  then have "length es + work_left (fold poolStep es (poolStep e p)) \<le> work_left (poolStep e p)"
    "work_left (poolStep e p) < work_left p" using work_left_step [of e p] by simp_all
  then show ?case by simp
qed simp

text \<open>C29: workers.  Whatever the mapper does and in whatever order, every index is asked for at most once
  and in order, with at most \<open>c\<close> at a time; after at most \<open>n + 1\<close> settlements and aborts nothing is
  under way; then the caller has an outcome, and results are in the order of the values.\<close>

theorem workers_map_in_order:
  fixes es :: "('e, 'v) poolEvent list"
  shows "let p = fold poolStep es (startPool n c) in
    wp_asked p = [0..<wp_next p] \<and> wp_next p \<le> n \<and> length (wp_active p) \<le> c
    \<and> (settling es (startPool n c) \<longrightarrow> length es \<le> n + 1)
    \<and> (wp_active p = [] \<longrightarrow> poolOutcome p \<noteq> None)
    \<and> (\<forall>vs. 0 < c \<longrightarrow> poolOutcome p = Some (Inr vs) \<longrightarrow> wp_asked p = [0..<n] \<and> length vs = n
         \<and> (\<forall>i < n. MapperSettled i (Inr (vs ! i)) \<in> set es))"
proof -
  define p where "p = fold poolStep es (startPool n c)"
  have ok: "pool_ok n c p" unfolding p_def by (rule pool_run_ok)
  have ended: "wp_asked p = [0..<n] \<and> length vs = n \<and> (\<forall>i < n. MapperSettled i (Inr (vs ! i)) \<in> set es)"
    if c: "0 < c" and vs: "poolOutcome p = Some (Inr vs)" for vs
  proof -
    from vs have facts: "wp_failure p = None" "wp_active p = []" "vs = map the (wp_results p)"
      by (auto simp: poolOutcome_def split: option.splits if_splits)
    with ok c have all: "wp_next p = n" by (cases "wp_next p < n") (auto simp: pool_ok_def)
    have "MapperSettled i (Inr (vs ! i)) \<in> set es" if i: "i < n" for i
    proof -
      from ok facts all i obtain v where v: "wp_results p ! i = Some v" by (auto simp: pool_ok_def)
      with i facts ok have "vs ! i = v" by (simp add: pool_ok_def)
      with results_settled [of i n es c v] i v show ?thesis by (simp add: p_def)
    qed
    with ok facts all show ?thesis by (simp add: pool_ok_def)
  qed
  have start: "work_left (startPool n c :: ('e, 'v) pool) = n + 1"
    by (simp add: startPool_def workers_started work_left_def)
  have "length es \<le> n + 1" if "settling es (startPool n c)"
    using work_left_run [OF that] unfolding start by simp
  moreover have "poolOutcome p \<noteq> None" if "wp_active p = []"
    using that by (simp add: poolOutcome_def split: option.split)
  ultimately show ?thesis using ok ended unfolding Let_def p_def [symmetric] by (simp add: pool_ok_def)
qed

theorem workers_map_in_order_witness:
  "let es = [MapperSettled 1 (Inr 11), MapperSettled 0 (Inr 10), MapperSettled 2 (Inr 12)];
       p = fold poolStep es (startPool 3 2 :: (nat, nat) pool)
   in settling es (startPool 3 2 :: (nat, nat) pool) \<and> length es \<le> 3 + 1
      \<and> wp_active p = [] \<and> poolOutcome p = Some (Inr [10, 11, 12])
      \<and> wp_asked p = [0..<3] \<and> MapperSettled 2 (Inr 12) \<in> set es"
proof -
  define es :: "(nat, nat) poolEvent list" where
    "es = [MapperSettled 1 (Inr 11), MapperSettled 0 (Inr 10), MapperSettled 2 (Inr 12)]"
  let ?s = "startPool 3 2 :: (nat, nat) pool"
  let ?p = "fold poolStep es ?s"
  note run = es_def startPool_def workers_started workerLoop_def upt_rec numeral_eq_Suc
  have settling: "settling es ?s" by (simp add: run)
  have idle: "wp_active ?p = []" by (simp add: run)
  have outcome: "poolOutcome ?p = Some (Inr [10, 11, 12])" by (simp add: run poolOutcome_def)
  have all: "length es \<le> 3 + 1" "wp_asked ?p = [0..<3]" "\<forall>i < 3. MapperSettled i (Inr ([10, 11, 12] ! i)) \<in> set es"
    using workers_map_in_order [of es 3 2] settling outcome unfolding Let_def by (auto simp del: upt_Suc)
  have "MapperSettled 2 (Inr ([10, 11, 12] ! 2)) \<in> set es" using all(3) [THEN spec, of 2] by (rule mp) simp
  then show ?thesis using settling idle outcome all unfolding Let_def es_def [symmetric] by simp
qed

section \<open>Attempts\<close>

text \<open>A property of every output and those before it\<close>

definition each_output :: "('o list \<Rightarrow> 'o \<Rightarrow> bool) \<Rightarrow> 'o list \<Rightarrow> bool" where
  "each_output P out \<longleftrightarrow> (\<forall>before x after. out = before @ x # after \<longrightarrow> P before x)"

lemma each_output_Nil [simp]: "each_output P []"
  by (simp add: each_output_def)

lemma each_output_snoc [simp]: "each_output P (out @ [x]) \<longleftrightarrow> each_output P out \<and> P out x"
  unfolding each_output_def
proof (intro iffI conjI allI impI)
  fix before y after
  assume "\<forall>before y after. out @ [x] = before @ y # after \<longrightarrow> P before y" "out = before @ y # after"
  then show "P before y" by (metis append.assoc append_Cons)
next
  assume "\<forall>before y after. out @ [x] = before @ y # after \<longrightarrow> P before y"
  then show "P out x" by blast
next
  fix before y after
  assume *: "(\<forall>before y after. out = before @ y # after \<longrightarrow> P before y) \<and> P out x" "out @ [x] = before @ y # after"
  show "P before y" using * by (cases after rule: rev_cases) auto
qed

lemma each_output_two [simp]:
  "each_output P (out @ [x, y]) \<longleftrightarrow> each_output P out \<and> P out x \<and> P (out @ [x]) y"
  using each_output_snoc [of P "out @ [x]" y] by simp

text \<open>
  A snapshot is installed only for the latest call that fetches, and once; an acknowledgement follows
  the installation it belongs to; between two resets of the epoch something was installed.
\<close>

definition installed_since_reset :: "recoveryOutput list \<Rightarrow> bool" where
  "installed_since_reset out \<longleftrightarrow>
     (\<forall>before after. out = before @ EpochReset # after \<longrightarrow> (\<exists>a. Installed a \<in> set after))"

definition proper_output :: "recoveryOutput list \<Rightarrow> recoveryOutput \<Rightarrow> bool" where
  "proper_output before x =
     (case x of
        Installed a \<Rightarrow> (\<forall>b. Fetching b \<in> set before \<longrightarrow> ra_generation b \<le> ra_generation a)
          \<and> (\<forall>b. Installed b \<in> set before \<longrightarrow> ra_generation b < ra_generation a)
      | Acknowledged eventId \<Rightarrow>
          (\<exists>earlier a. before = earlier @ [Installed a] \<and> ra_acknowledge a \<and> ra_resumeAfter a = Some eventId)
      | EpochReset \<Rightarrow> installed_since_reset before
      | _ \<Rightarrow> True)"

lemma installed_since_simps [simp]:
  "installed_since_reset []"
  "installed_since_reset (out @ [Installed a])"
  "\<not> installed_since_reset (out @ [EpochReset])"
  "installed_since_reset (out @ [Fetching b]) \<longleftrightarrow> installed_since_reset out"
  "installed_since_reset (out @ [Cancel g]) \<longleftrightarrow> installed_since_reset out"
  "installed_since_reset (out @ [Acknowledged n]) \<longleftrightarrow> installed_since_reset out"
  "installed_since_reset (out @ [LimitReached]) \<longleftrightarrow> installed_since_reset out"
proof -
  have snoc: "installed_since_reset (out @ [x]) \<longleftrightarrow> (\<exists>a. x = Installed a) \<or> (x \<noteq> EpochReset \<and> installed_since_reset out)" for x
  proof (cases "\<exists>a. x = Installed a")
    case True
    then show ?thesis unfolding installed_since_reset_def
      by (auto simp: append_eq_append_conv2 Cons_eq_append_conv append_eq_Cons_conv)
  next
    case False
    show ?thesis
    proof (cases "x = EpochReset")
      case True
      then show ?thesis unfolding installed_since_reset_def by fastforce
    next
      case x: False
      have "installed_since_reset (out @ [x]) \<longleftrightarrow> installed_since_reset out"
        unfolding installed_since_reset_def
      proof (intro iffI allI impI)
        fix before after
        assume "\<forall>before after. out @ [x] = before @ EpochReset # after \<longrightarrow> (\<exists>a. Installed a \<in> set after)"
          "out = before @ EpochReset # after"
        then have "\<exists>a. Installed a \<in> set (after @ [x])" by (metis append_Cons append_assoc)
        with False show "\<exists>a. Installed a \<in> set after" by auto
      next
        fix before after
        assume *: "\<forall>before after. out = before @ EpochReset # after \<longrightarrow> (\<exists>a. Installed a \<in> set after)"
          "out @ [x] = before @ EpochReset # after"
        show "\<exists>a. Installed a \<in> set after" using * x by (cases after rule: rev_cases) auto
      qed
      with False x show ?thesis by simp
    qed
  qed
  show "installed_since_reset []" by (simp add: installed_since_reset_def)
  show "installed_since_reset (out @ [Installed a])" "\<not> installed_since_reset (out @ [EpochReset])"
    "installed_since_reset (out @ [Fetching b]) \<longleftrightarrow> installed_since_reset out"
    "installed_since_reset (out @ [Cancel g]) \<longleftrightarrow> installed_since_reset out"
    "installed_since_reset (out @ [Acknowledged n]) \<longleftrightarrow> installed_since_reset out"
    "installed_since_reset (out @ [LimitReached]) \<longleftrightarrow> installed_since_reset out"
    by (simp_all add: snoc)
qed

lemma installed_since_two [simp]:
  "installed_since_reset (out @ [Cancel g, Fetching b]) \<longleftrightarrow> installed_since_reset out"
  "installed_since_reset (out @ [Installed a, Acknowledged n])"
  using installed_since_simps(4) [of "out @ [Cancel g]" b] installed_since_simps(6) [of "out @ [Installed a]" n]
  by simp_all

definition attempts :: "recovery \<Rightarrow> recoveryAttempt list" where
  "attempts r = rr_running r @ (case rr_timer r of Some a \<Rightarrow> [a] | None \<Rightarrow> [])"

definition live :: "recovery \<Rightarrow> recoveryAttempt list" where
  "live r = filter (\<lambda>a. ra_generation a = rr_generation r) (attempts r)"

definition recovery_ok :: "recovery \<Rightarrow> bool" where
  "recovery_ok r \<longleftrightarrow> each_output proper_output (rr_out r)
     \<and> (\<forall>b. Fetching b \<in> set (rr_out r) \<longrightarrow> ra_generation b \<le> rr_generation r)
     \<and> (\<forall>b. Installed b \<in> set (rr_out r) \<longrightarrow> ra_generation b \<le> rr_generation r)
     \<and> (\<forall>a \<in> set (attempts r). ra_generation a \<le> rr_generation r)
     \<and> length (live r) \<le> 1
     \<and> (\<forall>b. Installed b \<in> set (rr_out r) \<longrightarrow> ra_generation b = rr_generation r \<longrightarrow> live r = [])
     \<and> (\<not> rr_epochResetPending r \<longrightarrow> installed_since_reset (rr_out r))"

lemma recovery_started: "recovery_ok startRecovery"
  by (simp add: recovery_ok_def startRecovery_def attempts_def live_def)

lemma nothing_newer: "\<forall>a \<in> set xs. ra_generation a \<le> g \<Longrightarrow> filter (\<lambda>a. ra_generation a = Suc g) xs = []"
  by (auto simp: filter_empty_conv)

lemma gap_ok: "recovery_ok r \<Longrightarrow> recovery_ok (recoverReplayGap resumeAfter acknowledge r)"
  by (cases "rr_controller r")
    (auto simp: recovery_ok_def recoverReplayGap_def attemptRecovery_def announce_def cancelled_controller_def
      proper_output_def attempts_def live_def Let_def nothing_newer le_Suc_eq)

lemma retry_ok: "recovery_ok r \<Longrightarrow> recovery_ok (recoveryStep RetryDue r)"
  by (cases "rr_timer r")
    (auto simp: recovery_ok_def attemptRecovery_def announce_def proper_output_def attempts_def live_def)

lemma unmount_ok: "recovery_ok r \<Longrightarrow> recovery_ok (recoveryStep Unmounted r)"
  by (cases "rr_controller r")
    (auto simp: recovery_ok_def announce_def cancelled_controller_def proper_output_def attempts_def live_def
      nothing_newer le_Suc_eq)

lemma live_one:
  assumes "recovery_ok r" "a \<in> set (rr_running r)" "ra_generation a = rr_generation r"
  shows "live r = [a]" "live (r\<lparr>rr_running := remove1 a (rr_running r)\<rparr>) = []"
proof -
  have "a \<in> set (live r)" using assms(2,3) by (simp add: live_def attempts_def)
  moreover have "length (live r) \<le> 1" using assms(1) by (simp add: recovery_ok_def)
  ultimately show one: "live r = [a]" by (cases "live r") auto
  have "live (r\<lparr>rr_running := remove1 a (rr_running r)\<rparr>) = remove1 a (live r)"
    using assms(2) by (simp add: live_def attempts_def filter_remove1 remove1_append)
  with one show "live (r\<lparr>rr_running := remove1 a (rr_running r)\<rparr>) = []" by simp
qed

lemma live_not_installed:
  assumes "recovery_ok r" "a \<in> set (rr_running r)" "ra_generation a = rr_generation r" "Installed b \<in> set (rr_out r)"
  shows "ra_generation b < ra_generation a"
proof -
  have "ra_generation b \<le> rr_generation r" "ra_generation b = rr_generation r \<longrightarrow> live r = []"
    using assms(1,4) by (auto simp: recovery_ok_def)
  then show ?thesis using live_one(1) [OF assms(1-3)] assms(3) by (cases "ra_generation b = rr_generation r") auto
qed

lemma fewer_running_ok:
  assumes "recovery_ok r" "a \<in> set (rr_running r)"
  shows "recovery_ok (r\<lparr>rr_running := remove1 a (rr_running r)\<rparr>)"
proof -
  let ?s = "r\<lparr>rr_running := remove1 a (rr_running r)\<rparr>"
  have "attempts ?s = remove1 a (attempts r)" using assms(2) by (simp add: attempts_def remove1_append)
  then have "set (attempts ?s) \<subseteq> set (attempts r)" "live ?s = remove1 a (live r)"
    by (simp_all add: set_remove1_subset live_def filter_remove1)
  moreover have "length (remove1 a (live r)) \<le> length (live r)" by (simp add: length_remove1)
  ultimately show ?thesis using assms(1) unfolding recovery_ok_def by auto
qed

lemma success_ok:
  assumes "recovery_ok r" "a \<in> set (rr_running r)"
  shows "recovery_ok (attemptSucceeds a (r\<lparr>rr_running := remove1 a (rr_running r)\<rparr>))"
proof (cases "ra_generation a = rr_generation r")
  case False
  with fewer_running_ok [OF assms] show ?thesis by (simp add: attemptSucceeds_def)
next
  case now: True
  let ?s = "r\<lparr>rr_running := remove1 a (rr_running r)\<rparr>"
  have gone: "live (?s\<lparr>rr_epochResetPending := False, rr_out := out\<rparr>) = []" for out
    using live_one(2) [OF assms now] by (simp add: live_def attempts_def)
  have fresh: "ra_generation b < ra_generation a" if "Installed b \<in> set (rr_out r)" for b
    by (rule live_not_installed [OF assms now that])
  have s: "recovery_ok ?s" by (rule fewer_running_ok [OF assms])
  have proper: "proper_output (rr_out r) (Installed a)"
    using assms(1) now fresh by (auto simp: proper_output_def recovery_ok_def)
  have base: "each_output proper_output (rr_out r)" using assms(1) by (simp add: recovery_ok_def)
  define os where "os = Installed a # (case ra_resumeAfter a of
      Some eventId \<Rightarrow> if ra_acknowledge a then [Acknowledged eventId] else [] | None \<Rightarrow> [])"
  have outs: "each_output proper_output (rr_out r @ os)" "installed_since_reset (rr_out r @ os)"
  proof -
    consider "os = [Installed a]" | n where "os = [Installed a] @ [Acknowledged n]" "ra_acknowledge a" "ra_resumeAfter a = Some n"
      by (cases "ra_resumeAfter a"; cases "ra_acknowledge a") (auto simp: os_def)
    then show "each_output proper_output (rr_out r @ os)" "installed_since_reset (rr_out r @ os)"
      by (cases; simp add: base proper; simp add: proper_output_def)+
  qed
  have members: "Fetching b \<in> set os \<longleftrightarrow> False" "Installed b \<in> set os \<longleftrightarrow> b = a" for b
    by (auto simp: os_def split: option.splits if_splits)
  show ?thesis
    using s now outs gone unfolding attemptSucceeds_def announce_def os_def [symmetric] recovery_ok_def
    by (auto simp: attempts_def members)
qed

lemma moved_on_ok: "recovery_ok r \<Longrightarrow> recovery_ok (r\<lparr>rr_generation := Suc (rr_generation r), rr_controller := None\<rparr>)"
  by (auto simp: recovery_ok_def attempts_def live_def nothing_newer le_Suc_eq)

lemma limit_ok: "recovery_ok r \<Longrightarrow> recovery_ok (announce [LimitReached] r)"
  by (simp add: recovery_ok_def announce_def proper_output_def attempts_def live_def)

lemma reset_ok:
  "recovery_ok r \<Longrightarrow> \<not> rr_epochResetPending r \<Longrightarrow>
     recovery_ok (announce [EpochReset] (r\<lparr>rr_epochResetPending := True\<rparr>))"
  by (simp add: recovery_ok_def announce_def proper_output_def attempts_def live_def)

lemma failure_ok:
  assumes "recovery_ok r" "a \<in> set (rr_running r)"
  shows "recovery_ok (attemptFails a e (r\<lparr>rr_running := remove1 a (rr_running r)\<rparr>))"
proof (cases "ra_generation a = rr_generation r")
  case False
  with fewer_running_ok [OF assms] show ?thesis by (simp add: attemptFails_def)
next
  case now: True
  let ?s = "r\<lparr>rr_running := remove1 a (rr_running r)\<rparr>"
  note s = fewer_running_ok [OF assms]
  have gone: "live ?s = []" by (rule live_one(2) [OF assms now])
  show ?thesis
  proof (cases "\<exists>n. e = ProtocolLimit n")
    case True
    with now moved_on_ok [OF s] limit_ok reset_ok show ?thesis
      by (auto simp: attemptFails_def Let_def)
  next
    case False
    have "ra_generation b \<noteq> rr_generation r" if "Installed b \<in> set (rr_out r)" for b
      using live_not_installed [OF assms now that] now by simp
    with False now s gone show ?thesis
      by (cases e) (auto simp: attemptFails_def recovery_ok_def attempts_def live_def)
  qed
qed

lemma recovery_step_ok: "recovery_ok r \<Longrightarrow> recovery_ok (recoveryStep e r)"
proof (cases e)
  case (FetchSettled a failure)
  moreover assume "recovery_ok r"
  ultimately show ?thesis
    by (cases failure) (simp_all add: success_ok failure_ok)
qed (use gap_ok retry_ok unmount_ok in simp_all)

interpretation recovery: machine recoveryStep recovery_ok "\<lambda>_. True"
  by unfold_locales (rule recovery_step_ok)

text \<open>C18: recovery.  Whatever calls, settlements, retries and unmounts happen, a snapshot is installed only
  when no later call has fetched, and once for a call; an event id is acknowledged only right after the
  snapshot of the call that carries it was installed, if that call is to be acknowledged; between two
  resets of the epoch a snapshot was installed.\<close>

theorem recovery_installs_latest:
  "each_output proper_output (rr_out (fold recoveryStep es startRecovery))"
proof -
  have "recovery_ok (fold recoveryStep es startRecovery)"
    by (rule recovery.run_inv [OF recovery_started]) (simp add: list_all_iff)
  then show ?thesis by (simp add: recovery_ok_def)
qed

end
