(* ===== verification/ScreenReaders.thy ===== *)
theory ScreenReaders
  imports ChatMessages BridgeResponses JsSort
begin

text \<open>
  What the chat screen reads from payloads (\<open>screens/mainScreenHelperPayloads.ts\<close>), the preferences
  for models (\<open>mainScreenHelperPreferences.ts\<close>), and paths, mentions and messages shown before the
  bridge has them (\<open>mainScreenHelperAttachments.ts\<close>).  \<open>now\<close> is the clock.
\<close>

section \<open>Payloads\<close>

definition screenStringArray :: "jsv \<Rightarrow> string list option" where
  "screenStringArray value =
     (case as_array value of
        None \<Rightarrow> None
      | Some vs \<Rightarrow> let values = List.map_filter as_string vs in if values = [] then None else Some values)"

definition readNumber :: "jsv \<Rightarrow> rat option" where
  "readNumber value =
     (case value of JNum q \<Rightarrow> if finite_number q then Some q else None | _ \<Rightarrow> None)"

definition readIntegerLike :: "jsv \<Rightarrow> nat option" where
  "readIntegerLike value =
     (case readNumber value of
        Some q \<Rightarrow> Some (nat \<lfloor>q\<rfloor>)
      | None \<Rightarrow>
          (case non_empty (trimmed_string value) of
             None \<Rightarrow> None
           | Some s \<Rightarrow>
               (case js_number s of
                  Some q \<Rightarrow> if finite_number q then Some (nat \<lfloor>q\<rfloor>) else None
                | None \<Rightarrow> None)))"

definition readBoolean :: "jsv \<Rightarrow> bool option" where
  "readBoolean value = (case value of JBool b \<Rightarrow> Some b | _ \<Rightarrow> None)"

record threadContextUsage =
  tu_totalTokens :: "rat option"
  tu_lastTokens :: "rat option"
  tu_modelContextWindow :: "rat option"
  tu_updatedAtMs :: int

definition mergeThreadContextUsage ::
  "threadContextUsage option \<Rightarrow> threadContextUsage option \<Rightarrow> threadContextUsage option" where
  "mergeThreadContextUsage previous later =
     (case later of
        None \<Rightarrow> previous
      | Some u \<Rightarrow> Some
          \<lparr>tu_totalTokens = or_else (tu_totalTokens u) (Option.bind previous tu_totalTokens),
           tu_lastTokens = or_else (tu_lastTokens u) (Option.bind previous tu_lastTokens),
           tu_modelContextWindow = or_else (tu_modelContextWindow u) (Option.bind previous tu_modelContextWindow),
           tu_updatedAtMs = tu_updatedAtMs u\<rparr>)"

text \<open>\<open>s.slice(-n)\<close>, which starts after a character that it would cut in half\<close>

function (sequential) last_units :: "nat \<Rightarrow> string \<Rightarrow> string" where
  "last_units n [] = []"
| "last_units n (c # s) =
     (if units (c # s) \<le> n then c # s
      else last_units n (dropWhile (\<lambda>d. char_units d = 0) s))"
  by pat_completeness auto
termination
  by (relation "measure (\<lambda>(n, s). length s)") (auto simp: less_Suc_eq_le length_dropWhile_le)

lemma units_last_units: "units (last_units n s) \<le> n"
  by (induction n s rule: last_units.induct) auto

definition compactPlanDelta :: "string \<Rightarrow> string" where
  "compactPlanDelta value =
     last_units 1200 (join newline (filter (\<lambda>line. line \<noteq> []) (map trim (split_lines value))))"

record activePlanState =
  ap_threadId :: string
  ap_turnId :: string
  ap_explanation :: "string option"
  ap_steps :: "(string \<times> planStepStatus) list"
  ap_deltaText :: string
  ap_updatedAt :: string

definition same_turn :: "activePlanState option \<Rightarrow> string \<Rightarrow> string \<Rightarrow> activePlanState option" where
  "same_turn previous threadId turnId =
     (case previous of
        Some p \<Rightarrow> if ap_threadId p = threadId \<and> ap_turnId p = turnId then Some p else None
      | None \<Rightarrow> None)"

definition buildNextPlanStateFromDelta ::
  "activePlanState option \<Rightarrow> string \<Rightarrow> string \<Rightarrow> string \<Rightarrow> int \<Rightarrow> activePlanState" where
  "buildNextPlanStateFromDelta previous threadId turnId rawDelta now =
     (let same = same_turn previous threadId turnId in
      \<lparr>ap_threadId = threadId, ap_turnId = turnId, ap_explanation = Option.bind same ap_explanation,
       ap_steps = (case same of Some p \<Rightarrow> ap_steps p | None \<Rightarrow> []),
       ap_deltaText = compactPlanDelta
         (case same of Some p \<Rightarrow> ap_deltaText p @ newline @ rawDelta | None \<Rightarrow> rawDelta),
       ap_updatedAt = to_iso_string now\<rparr>)"

definition buildNextPlanStateFromUpdate ::
  "activePlanState option \<Rightarrow> chatPlanSnapshot \<Rightarrow> int \<Rightarrow> activePlanState" where
  "buildNextPlanStateFromUpdate previous update now =
     \<lparr>ap_threadId = cp_threadId update, ap_turnId = cp_turnId update, ap_explanation = cp_explanation update,
      ap_steps = cp_steps update,
      ap_deltaText = (case same_turn previous (cp_threadId update) (cp_turnId update) of
        Some p \<Rightarrow> ap_deltaText p | None \<Rightarrow> []),
      ap_updatedAt = to_iso_string now\<rparr>"

definition stepStatusOf :: "string option \<Rightarrow> planStepStatus option" where
  "stepStatusOf status =
     (if status = Some ''pending'' then Some StepPending
      else if status = Some ''inProgress'' then Some StepInProgress
      else if status = Some ''completed'' then Some StepCompleted
      else None)"

text \<open>An entry of the plan: unlike in the chat mapping only the exact words count.\<close>

definition turnPlanStep :: "jsv \<Rightarrow> (string \<times> planStepStatus) option" where
  "turnPlanStep item =
     (case toRecord item of
        None \<Rightarrow> None
      | Some r \<Rightarrow>
          (case (non_empty (as_string (prop_of r ''step'')), stepStatusOf (as_string (prop_of r ''status''))) of
             (Some step, Some status) \<Rightarrow> Some (step, status)
           | _ \<Rightarrow> None))"

definition toTurnPlanUpdate :: "jsv \<Rightarrow> string option \<Rightarrow> chatPlanSnapshot option" where
  "toTurnPlanUpdate value fallbackThreadId =
     (case toRecord value of
        None \<Rightarrow> None
      | Some r \<Rightarrow>
          (case (non_empty (or_else (as_string (prop_of r ''threadId'')) fallbackThreadId),
                 non_empty (as_string (prop_of r ''turnId''))) of
             (Some threadId, Some turnId) \<Rightarrow> Some
               \<lparr>cp_threadId = threadId, cp_turnId = turnId, cp_explanation = as_string (prop_of r ''explanation''),
                cp_steps = List.map_filter turnPlanStep (with_default (as_array (prop_of r ''plan'')) [])\<rparr>
           | _ \<Rightarrow> None))"

definition renderPlanStatusGlyph :: "planStepStatus \<Rightarrow> string" where
  "renderPlanStatusGlyph status =
     (if status = StepCompleted then [CHR 0xE2, CHR 0x9C, CHR 0x94] else [CHR 0xE2, CHR 0x96, CHR 0xA1])"

section \<open>Preferences\<close>

definition AGENT_MODEL_PREFERENCE_PREFIX :: string where
  "AGENT_MODEL_PREFERENCE_PREFIX = ''__agent_model__:''"

record chatModelPreference =
  mp_modelId :: "string option"
  mp_effort :: "string option"
  mp_serviceTier :: "string option"
  mp_updatedAt :: string

definition agentModelPreferenceKey :: "string \<Rightarrow> string" where
  "agentModelPreferenceKey agentId = AGENT_MODEL_PREFERENCE_PREFIX @ trim agentId"

text \<open>The comparison is 0 when an instant cannot be read, as a comparison that gives \<open>NaN\<close> is.\<close>

definition later_first :: "(string \<Rightarrow> int option) \<Rightarrow> chatModelPreference \<Rightarrow> chatModelPreference \<Rightarrow> int" where
  "later_first other left right =
     (case (date_parse other (mp_updatedAt right), date_parse other (mp_updatedAt left)) of
        (Some r, Some l) \<Rightarrow> r - l
      | _ \<Rightarrow> 0)"

definition lastUsedModelPreference ::
  "(string \<Rightarrow> int option) \<Rightarrow> (string \<times> chatModelPreference) list \<Rightarrow> string option
     \<Rightarrow> chatModelPreference option" where
  "lastUsedModelPreference other preferences agentId =
     (let normalizedAgentId = trim (with_default agentId []) in
      if normalizedAgentId = [] then None
      else case map_of preferences (agentModelPreferenceKey normalizedAgentId) of
        Some explicit \<Rightarrow> Some explicit
      | None \<Rightarrow>
          (case sort_by (later_first other) (map snd (filter (\<lambda>(key, preference).
              \<not> starts_with key AGENT_MODEL_PREFERENCE_PREFIX \<and> non_empty (mp_modelId preference) \<noteq> None)
                preferences)) of
             [] \<Rightarrow> None
           | p # _ \<Rightarrow> Some p))"

definition withLastUsedModelPreference ::
  "(string \<times> chatModelPreference) list \<Rightarrow> string \<Rightarrow> chatModelPreference \<Rightarrow> int
     \<Rightarrow> (string \<times> chatModelPreference) list" where
  "withLastUsedModelPreference preferences agentId preference now =
     obj_set (agentModelPreferenceKey agentId) (preference\<lparr>mp_updatedAt := to_iso_string now\<rparr>) preferences"

text \<open>
  \<open>normalizeModelId\<close>, \<open>normalizeWorkspacePath\<close> and \<open>normalizeAttachmentPath\<close> all trim a string and
  drop an empty one.
\<close>

definition trimmed_or_none :: "string option \<Rightarrow> string option" where
  "trimmed_or_none value = non_empty (map_option trim value)"

definition normalizeModelId :: "string option \<Rightarrow> string option" where
  "normalizeModelId = trimmed_or_none"

definition normalizeReasoningEffort :: "string option \<Rightarrow> string option" where
  "normalizeReasoningEffort effort =
     (case effort of
        None \<Rightarrow> None
      | Some e \<Rightarrow>
          let normalized = lower_ascii (trim e) in
          if normalized \<in> set [''none'', ''minimal'', ''low'', ''medium'', ''high'', ''xhigh'', ''max'']
          then Some normalized else None)"

definition preferredServiceTier :: "string option \<Rightarrow> string option" where
  "preferredServiceTier serviceTier =
     (case serviceTier of
        None \<Rightarrow> None
      | Some t \<Rightarrow> let normalized = lower_ascii (trim t) in
          if normalized = ''flex'' \<or> normalized = ''fast'' then Some normalized else None)"

definition toSelectedServiceTier :: "string option \<Rightarrow> string option" where
  "toSelectedServiceTier serviceTier = (if serviceTier = Some ''fast'' then Some ''fast'' else None)"

text \<open>The selection is missing, or a tier, or none on purpose.\<close>

definition resolveSelectedServiceTier :: "string option option \<Rightarrow> string option \<Rightarrow> string option" where
  "resolveSelectedServiceTier selected defaultServiceTier =
     toSelectedServiceTier (case selected of Some tier \<Rightarrow> tier | None \<Rightarrow> defaultServiceTier)"

definition toApprovalPolicyForMode :: "string option \<Rightarrow> string" where
  "toApprovalPolicyForMode mode = (if mode = Some ''yolo'' then ''never'' else ''untrusted'')"

definition shouldSurfaceChatLoadError ::
  "bool option \<Rightarrow> string option \<Rightarrow> string \<Rightarrow> nat \<Rightarrow> bool" where
  "shouldSurfaceChatLoadError revalidate cachedChatId requestedChatId cachedMessageCount \<longleftrightarrow>
     \<not> (revalidate = Some True \<and> cachedChatId = Some requestedChatId \<and> cachedMessageCount > 0)"

section \<open>Paths\<close>

definition normalizeWorkspacePath :: "string option \<Rightarrow> string option" where
  "normalizeWorkspacePath = trimmed_or_none"

definition normalizeAttachmentPath :: "string option \<Rightarrow> string option" where
  "normalizeAttachmentPath = trimmed_or_none"

definition getWorkspaceBrowseCacheKey :: "string option \<Rightarrow> string" where
  "getWorkspaceBrowseCacheKey path = with_default path ''__bridge_default__''"

abbreviation slash :: char where "slash \<equiv> CHR ''/''"
abbreviation backslash :: char where "backslash \<equiv> CHR 0x5C"

definition normalizeCloneDirectoryName :: "string option \<Rightarrow> string option" where
  "normalizeCloneDirectoryName value =
     (case trimmed_or_none value of
        None \<Rightarrow> None
      | Some t \<Rightarrow> if t = ''.'' \<or> t = ''..'' \<or> slash \<in> set t \<or> backslash \<in> set t then None else Some t)"

text \<open>The text after the last slash or colon\<close>

definition after_last :: "(char \<Rightarrow> bool) \<Rightarrow> string \<Rightarrow> string" where
  "after_last P s = rev (takeWhile (\<lambda>c. \<not> P c) (rev s))"

definition without_git :: "string \<Rightarrow> string" where
  "without_git s = (if ends_with (lower s) ''.git'' then drop_last 4 s else s)"

definition deriveCloneDirectoryName :: "string option \<Rightarrow> string option" where
  "deriveCloneDirectoryName url =
     (case url of
        None \<Rightarrow> None
      | Some u \<Rightarrow>
          let trimmed = rev (dropWhile (\<lambda>c. c = slash) (rev (trim u))) in
          if trimmed = [] then None
          else normalizeCloneDirectoryName
            (Some (without_git (after_last (\<lambda>c. c = slash \<or> c = CHR '':'') trimmed))))"

definition formatGitCloneFailureMessage ::
  "rat option \<Rightarrow> string \<Rightarrow> string \<Rightarrow> bool \<Rightarrow> string \<Rightarrow> string option" where
  "formatGitCloneFailureMessage exitCode stdout stderr cloned fallbackLabel =
     (if cloned \<and> (exitCode = None \<or> exitCode = Some 0) then None
      else let detail = trim (if stderr \<noteq> [] then stderr else stdout) in
        Some (if detail \<noteq> [] then detail else ''Git clone failed for '' @ fallbackLabel @ ''.''))"

definition joinWorkspacePath :: "string \<Rightarrow> string \<Rightarrow> string" where
  "joinWorkspacePath parentPath child =
     (let separator = (if backslash \<in> set parentPath \<and> slash \<notin> set parentPath then [backslash] else [slash])
      in if ends_with parentPath [slash] \<or> ends_with parentPath [backslash] then parentPath @ child
         else parentPath @ separator @ child)"

definition isAbsoluteWorkspacePath :: "string \<Rightarrow> bool" where
  "isAbsoluteWorkspacePath path \<longleftrightarrow>
     starts_with path [slash]
     \<or> (case path of
          drive # colon # separator # _ \<Rightarrow>
            ascii_letter drive \<and> colon = CHR '':'' \<and> (separator = slash \<or> separator = backslash)
        | _ \<Rightarrow> False)"

definition resolveMentionPath :: "string \<Rightarrow> string option \<Rightarrow> string" where
  "resolveMentionPath path workspace =
     (case normalizeAttachmentPath (Some path) of
        None \<Rightarrow> path
      | Some p \<Rightarrow>
          if isAbsoluteWorkspacePath p then p
          else case normalizeWorkspacePath workspace of
            None \<Rightarrow> p
          | Some w \<Rightarrow> joinWorkspacePath w p)"

definition path_segments :: "string \<Rightarrow> string list" where
  "path_segments path = filter (\<lambda>s. s \<noteq> []) (split_on slash (forward_slashes path))"

definition toMentionInput :: "string \<Rightarrow> string option \<Rightarrow> string \<times> string" where
  "toMentionInput path workspace =
     (let resolvedPath = resolveMentionPath path workspace;
          segments = path_segments resolvedPath
      in (resolvedPath, if segments = [] then resolvedPath else last segments))"

definition toPathBasename :: "string \<Rightarrow> string" where
  "toPathBasename path =
     (let normalized = trim path; segments = path_segments normalized in
      if normalized = [] then ''image'' else if segments = [] then normalized else last segments)"

text \<open>What the candidates are sorted into: how well the text that is searched for fits\<close>

datatype pathMatch = ExactBasename | BasenamePrefix | PathPrefix | BasenameContains | PathContains

definition path_match :: "string \<Rightarrow> string \<Rightarrow> pathMatch option" where
  "path_match normalizedQuery trimmed =
     (let lowered = lower_ascii trimmed; basename = lower_ascii (toPathBasename trimmed) in
      if basename = normalizedQuery then Some ExactBasename
      else if starts_with basename normalizedQuery then Some BasenamePrefix
      else if starts_with lowered normalizedQuery then Some PathPrefix
      else if has_substring basename normalizedQuery then Some BasenameContains
      else if has_substring lowered normalizedQuery then Some PathContains
      else None)"

definition toAttachmentPathSuggestions :: "string list \<Rightarrow> string \<Rightarrow> string list \<Rightarrow> string list" where
  "toAttachmentPathSuggestions candidates query pendingMentionPaths =
     (let normalizedQuery = lower_ascii (trim query);
          selected = map (\<lambda>path. lower_ascii (trim path)) pendingMentionPaths;
          offered = filter (\<lambda>t. t \<noteq> [] \<and> lower_ascii t \<notin> set selected) (map trim candidates)
      in if normalizedQuery = [] then take 8 offered
         else take 8 (concat (map (\<lambda>m. filter (\<lambda>t. path_match normalizedQuery t = Some m) offered)
           [ExactBasename, BasenamePrefix, PathPrefix, BasenameContains, PathContains])))"

section \<open>Messages shown before the bridge has them\<close>

definition toOptimisticUserContent :: "string \<Rightarrow> string list \<Rightarrow> string list \<Rightarrow> string" where
  "toOptimisticUserContent content mentionPaths localImagePaths =
     (if mentionPaths = [] \<and> localImagePaths = [] then content
      else join newline (content # map (\<lambda>path. ''[file: '' @ path @ '']'') mentionPaths
        @ map (\<lambda>path. ''[local image: '' @ path @ '']'') localImagePaths))"

definition countUserMessages :: "chatMessage list \<Rightarrow> nat" where
  "countUserMessages messages = length (filter (\<lambda>m. cm_role m = User) messages)"

definition isSyntheticUserAttachmentLine :: "string \<Rightarrow> bool" where
  "isSyntheticUserAttachmentLine value \<longleftrightarrow>
     attachmentTag ''file'' value \<or> attachmentTag ''local image'' value \<or> attachmentTag ''image'' value"

definition normalizeChatMessageMatchContent :: "string \<Rightarrow> string" where
  "normalizeChatMessageMatchContent value =
     trim (join newline (filter (\<lambda>line. \<not> isSyntheticUserAttachmentLine line)
       (map trim (split_lines (unix_lines value)))))"

record pendingOptimisticUserMessage =
  po_message :: chatMessage
  po_userOrdinal :: nat

text \<open>Whether the chat does not have the message yet, as its user message with that ordinal\<close>

definition still_pending :: "chatMessage list \<Rightarrow> pendingOptimisticUserMessage \<Rightarrow> bool" where
  "still_pending messages entry \<longleftrightarrow>
     (let userMessages = filter (\<lambda>m. cm_role m = User) messages; i = po_userOrdinal entry in
      if i = 0 \<or> length userMessages < i then True
      else normalizeChatMessageMatchContent (getMessageText (userMessages ! (i - 1)))
        \<noteq> normalizeChatMessageMatchContent (getMessageText (po_message entry)))"

definition reconcileChatWithPendingOptimisticMessages ::
  "mappedChat \<Rightarrow> pendingOptimisticUserMessage list \<Rightarrow> mappedChat \<times> pendingOptimisticUserMessage list" where
  "reconcileChatWithPendingOptimisticMessages chat pendingMessages =
     (let remaining = filter (still_pending (cd_messages chat)) pendingMessages in
      if remaining = [] then (chat, [])
      else let preview = take_units 120 (normalizeChatMessageMatchContent (getMessageText (po_message (last remaining)))) in
        (chat\<lparr>cs_lastMessagePreview := (if preview \<noteq> [] then preview else cs_lastMessagePreview chat),
           cd_messages := cd_messages chat @ map po_message remaining\<rparr>, remaining))"

end
