(* ===== verification/ScreenText.thy ===== *)
theory ScreenText
  imports ScreenReaders
begin

text \<open>
  Text of the chat screen: options in a question (\<open>screens/mainScreenHelperInlineChoices.ts\<close>), slash
  commands and plans (\<open>mainScreenHelperPlansAndCommands.ts\<close>, the table of \<open>mainScreenHelperTypes.ts\<close>),
  snippets and the descriptions of tool events (\<open>mainScreenHelperTimeline.ts\<close>).
\<close>

section \<open>Options in a question\<close>

definition normalizeQuestionAnswers :: "string \<Rightarrow> string list" where
  "normalizeQuestionAnswers value =
     filter (\<lambda>line. line \<noteq> []) (map trim (concat (map (split_on (CHR '','')) (split_lines value))))"

abbreviation is_in :: "string \<Rightarrow> char \<Rightarrow> bool" where
  "is_in cs c \<equiv> c \<in> set cs"

definition emphasis_char :: "char \<Rightarrow> bool" where
  "emphasis_char c \<longleftrightarrow> c \<in> {CHR 0x60, CHR ''*'', CHR ''_'', CHR ''~''}"

definition stripOptionText :: "string \<Rightarrow> string" where
  "stripOptionText value =
     trim (collapse_spaces (rev (dropWhile emphasis_char (rev (dropWhile emphasis_char (trim value))))))"

definition bullet_char :: string where "bullet_char = [CHR 0xE2, CHR 0x80, CHR 0xA2]"

text \<open>\<open>/^[-*+\u2022]\s+/\<close> with what follows\<close>

definition bulleted :: "string \<Rightarrow> string option" where
  "bulleted s =
     (case leading_unit [''-'', ''*'', ''+'', bullet_char] s of
        Some u \<Rightarrow> let r = drop (length u) s in if trim_start r \<noteq> r then Some (trim_start r) else None
      | None \<Rightarrow> None)"

definition without_bullet :: "string \<Rightarrow> string" where
  "without_bullet s = with_default (bulleted s) s"

text \<open>The text before and after the first occurrence\<close>

fun split_at :: "string \<Rightarrow> string \<Rightarrow> (string \<times> string) option" where
  "split_at sep [] = None"
| "split_at sep (c # s) =
     (if starts_with (c # s) sep then Some ([], drop (length sep) (c # s))
      else map_option (\<lambda>(earlier, after). (c # earlier, after)) (split_at sep s))"

definition option_separators :: "string list" where
  "option_separators = ['' '' @ [CHR 0xE2, CHR 0x80, CHR 0x94] @ '' '', '' - '', '': '']"

definition split_option :: "string \<Rightarrow> string \<Rightarrow> (string \<times> string) option" where
  "split_option normalized separator =
     (case split_at separator normalized of
        Some (earlier, after) \<Rightarrow>
          if earlier = [] \<or> after = [] \<or> stripOptionText earlier = [] then None
          else Some (stripOptionText earlier, stripOptionText after)
      | None \<Rightarrow> None)"

definition splitOptionLine :: "string \<Rightarrow> string \<times> string" where
  "splitOptionLine value =
     (let normalized = trim (without_bullet value) in
      if normalized = [] then ([], [])
      else with_default (first_some (map (split_option normalized) option_separators))
        (stripOptionText normalized, []))"

definition isLikelyOptionContinuationLine :: "string \<Rightarrow> bool" where
  "isLikelyOptionContinuationLine value \<longleftrightarrow>
     (let trimmed = trim value in
      trimmed \<noteq> []
      \<and> (bulleted trimmed \<noteq> None
         \<or> starts_with_word [''impact'', ''tradeoff'', ''trade-off'', ''trade off'', ''reason'', ''because'',
             ''benefit'', ''cost'', ''why''] trimmed))"

text \<open>
  The mark of an option line: a number or a letter with a point, bracket, colon or dash, which may be
  missing after brackets and after "option 1".  A mark is given back to the text where nothing else
  would be left of it.
\<close>

abbreviation mark_char :: "char \<Rightarrow> bool" where
  "mark_char \<equiv> is_in ''.):-''"

definition line_text :: "string \<Rightarrow> string option" where
  "line_text s = (let t = trim_start s in if t \<noteq> [] \<and> \<not> line_terminator_in t then Some t else None)"

definition after_mark :: "string \<Rightarrow> string option" where
  "after_mark s = (case trim_start s of c # r \<Rightarrow> if mark_char c then line_text r else None | [] \<Rightarrow> None)"

definition after_optional_mark :: "string \<Rightarrow> string option" where
  "after_optional_mark s = or_else (after_mark s) (line_text s)"

definition option_letter :: "char \<Rightarrow> bool" where
  "option_letter c \<longleftrightarrow> is_in ''ABCabc'' c"

text \<open>One or two digits, the longer run first\<close>

definition short_numbers :: "string \<Rightarrow> string list" where
  "short_numbers s =
     (case s of
        a # b # r \<Rightarrow> if is_digit a then (if is_digit b then [r, b # r] else [b # r]) else []
      | [a] \<Rightarrow> if is_digit a then [[]] else []
      | [] \<Rightarrow> [])"

definition closing :: "char \<Rightarrow> string \<Rightarrow> string option" where
  "closing c s = after_char c s"

definition option_alternatives :: "string \<Rightarrow> string option list" where
  "option_alternatives s =
     map after_mark (short_numbers s)
     @ (case s of
          [] \<Rightarrow> []
        | c # r \<Rightarrow>
            (if c = CHR ''(''
             then map (\<lambda>t. Option.bind (closing (CHR '')'') t) after_optional_mark) (short_numbers r) else [])
            @ (if c = CHR ''[''
               then map (\<lambda>t. Option.bind (closing (CHR '']'') t) line_text) (short_numbers r) else [])
            @ (if option_letter c then [after_mark r] else [])
            @ (case s of
                 o1 # l # o2 # t \<Rightarrow>
                   if o1 = CHR ''('' \<and> option_letter l \<and> o2 = CHR '')'' then [after_optional_mark t] else []
               | _ \<Rightarrow> []))
     @ (if starts_with (lower s) ''option'' \<and> trim_start (drop 6 s) \<noteq> drop 6 s
        then map after_optional_mark (short_numbers (trim_start (drop 6 s))) else [])"

definition option_line :: "string \<Rightarrow> string option" where
  "option_line line =
     first_some (option_alternatives
       (case line of c # r \<Rightarrow> if is_in ''-*+'' c then trim_start r else line | [] \<Rightarrow> line))"

record inlineParse =
  ip_prompt :: "string list"
  ip_options :: "(string \<times> string) list"

definition continue_option :: "string \<Rightarrow> (string \<times> string) list \<Rightarrow> (string \<times> string) list" where
  "continue_option continuation options =
     (case last options of (label, description) \<Rightarrow>
        butlast options @ [(label, if description \<noteq> [] then description @ '' '' @ continuation else continuation)])"

definition inline_line :: "string \<Rightarrow> inlineParse \<Rightarrow> inlineParse" where
  "inline_line line p =
     (case (case option_line line of Some t \<Rightarrow> splitOptionLine t | None \<Rightarrow> ([], [])) of (label, description) \<Rightarrow>
        if label \<noteq> [] then p\<lparr>ip_options := ip_options p @ [(label, description)]\<rparr>
        else if ip_options p \<noteq> [] \<and> isLikelyOptionContinuationLine line
        then let continuation = stripOptionText (without_bullet line) in
          if continuation = [] then p else p\<lparr>ip_options := continue_option continuation (ip_options p)\<rparr>
        else p\<lparr>ip_prompt := ip_prompt p @ [line]\<rparr>)"

definition parseInlineOptionsFromQuestionText :: "string \<Rightarrow> string \<times> (string \<times> string) list option" where
  "parseInlineOptionsFromQuestionText value =
     (let lines = filter (\<lambda>line. line \<noteq> []) (map trim (split_lines value));
          p = fold inline_line lines \<lparr>ip_prompt = [], ip_options = []\<rparr>
      in if length (ip_options p) < 2 then (value, None)
         else (if ip_prompt p \<noteq> [] then join newline (ip_prompt p) else ''Select one option.'', Some (ip_options p)))"

text \<open>What follows an occurrence of the words that stand between word boundaries\<close>

fun phrase_rests :: "bool \<Rightarrow> string \<Rightarrow> string \<Rightarrow> string list" where
  "phrase_rests inside phrase [] = []"
| "phrase_rests inside phrase (c # s) =
     (if \<not> inside \<and> starts_with_word [phrase] (c # s) then [drop (length phrase) (c # s)] else [])
     @ phrase_rests (word_char c) phrase s"

definition has_phrase :: "string \<Rightarrow> string \<Rightarrow> bool" where
  "has_phrase phrase s \<longleftrightarrow> phrase_rests False phrase s \<noteq> []"

definition phrase_then :: "string \<Rightarrow> string list \<Rightarrow> string \<Rightarrow> bool" where
  "phrase_then phrase ws s \<longleftrightarrow>
     list_ex (\<lambda>rest. list_ex (\<lambda>w. has_phrase w (take_line rest)) ws) (phrase_rests False phrase s)"

text \<open>\<open>/\b(?:reply|respond)\s+with\b/\<close>\<close>

definition reply_with :: "string \<Rightarrow> bool" where
  "reply_with s \<longleftrightarrow>
     list_ex (\<lambda>rest. trim_start rest \<noteq> rest \<and> starts_with_word [''with''] (trim_start rest))
       (phrase_rests False ''reply'' s @ phrase_rests False ''respond'' s)"

definition has_choice_cue :: "string \<Rightarrow> bool" where
  "has_choice_cue s \<longleftrightarrow>
     list_ex (\<lambda>phrase. has_phrase phrase s)
       [''choose'', ''select'', ''pick'', ''would you like'', ''should i'', ''prefer'', ''confirm'']
     \<or> reply_with s
     \<or> phrase_then ''let me know'' [''which'', ''what'', ''option'', ''one''] s
     \<or> phrase_then ''which'' [''option'', ''one''] s \<or> phrase_then ''what'' [''option'', ''one''] s"

definition inlineChoice :: "chatMessage \<Rightarrow> (string \<times> (string \<times> string) list) option" where
  "inlineChoice message =
     (let messageText = getMessageText message in
      if cm_role message \<noteq> Assistant \<or> units messageText > 1200 then None
      else case parseInlineOptionsFromQuestionText messageText of
        (question, Some options) \<Rightarrow>
          let cueSource = trim question in
          if length options \<le> 5 \<and> (CHR 0x3F \<in> set cueSource \<or> has_choice_cue cueSource)
          then Some (cm_id message, options) else None
      | (_, None) \<Rightarrow> None)"

definition findInlineChoiceSet :: "chatMessage list \<Rightarrow> (string \<times> (string \<times> string) list) option" where
  "findInlineChoiceSet messages = first_some (map inlineChoice (rev messages))"

section \<open>Slash commands\<close>

record slashCommand =
  sc_name :: string
  sc_summary :: string
  sc_argsHint :: "string option"
  sc_mobileSupported :: bool
  sc_requiresOpenChat :: bool
  sc_aliases :: "string list"
  sc_availabilityNote :: "string option"

definition slash_command ::
  "string \<Rightarrow> string \<Rightarrow> string option \<Rightarrow> bool \<Rightarrow> bool \<Rightarrow> string list \<Rightarrow> string option \<Rightarrow> slashCommand" where
  "slash_command name summary argsHint supported requiresOpenChat aliases remark =
     \<lparr>sc_name = name, sc_summary = summary, sc_argsHint = argsHint, sc_mobileSupported = supported,
      sc_requiresOpenChat = requiresOpenChat, sc_aliases = aliases, sc_availabilityNote = remark\<rparr>"

definition SLASH_COMMANDS :: "slashCommand list" where
  "SLASH_COMMANDS =
     [slash_command ''permissions'' ''Set approvals and sandbox permissions'' None False False [] (Some ''Available in the desktop CLI only right now.''),
      slash_command ''agent'' ''Switch the active sub-agent thread'' (Some ''[thread]'') True True [] None,
      slash_command ''apps'' ''Browse and insert apps/connectors'' None False False [] (Some ''Available in the desktop CLI only right now.''),
      slash_command ''diff'' ''Open Git view for current chat'' None True True [] None,
      slash_command ''exit'' ''Exit the desktop CLI'' None False False [] (Some ''Not applicable on mobile.''),
      slash_command ''experimental'' ''Toggle experimental features'' None False False [] (Some ''Available in the desktop CLI only right now.''),
      slash_command ''feedback'' ''Send feedback diagnostics'' None False False [] (Some ''Available in the desktop CLI only right now.''),
      slash_command ''goal'' ''Create or inspect an active goal'' (Some ''[objective]'') True False [] None,
      slash_command ''init'' ''Generate AGENTS.md scaffold'' None False False [] (Some ''Available in the desktop CLI only right now.''),
      slash_command ''logout'' ''Sign out from the desktop agent'' None False False [] (Some ''Available in the desktop CLI only right now.''),
      slash_command ''mcp'' ''List configured MCP tools'' None False False [] (Some ''Available in the desktop CLI only right now.''),
      slash_command ''mention'' ''Attach file/folder context to prompt'' (Some ''<path>'') False False [] (Some ''Available in the desktop CLI only right now.''),
      slash_command ''model'' ''Open model picker or set model by id'' (Some ''<model-id>'') True False [] None,
      slash_command ''plan'' ''Toggle plan mode or run next prompt in plan mode'' (Some ''[prompt]'') True False [] None,
      slash_command ''personality'' ''Set response personality'' (Some ''<friendly|pragmatic|none>'') False False [] (Some ''Available in the desktop CLI only right now.''),
      slash_command ''ps'' ''Show background terminal jobs'' None False False [] (Some ''Available in the desktop CLI only right now.''),
      slash_command ''resume'' ''Resume a saved conversation'' None False False [] (Some ''Use chat list on mobile for now.''),
      slash_command ''new'' ''Start a new conversation'' None True False [] None,
      slash_command ''quit'' ''Exit the desktop CLI'' None False False [''exit''] (Some ''Not applicable on mobile.''),
      slash_command ''review'' ''Run review on uncommitted changes'' None True True [] None,
      slash_command ''status'' ''Show current session status'' None True False [] None,
      slash_command ''debug-config'' ''Inspect config layers and diagnostics'' None False False [] (Some ''Available in the desktop CLI only right now.''),
      slash_command ''statusline'' ''Configure footer status-line fields'' None False False [] (Some ''Available in the desktop CLI only right now.''),
      slash_command ''approvals'' ''Alias for /permissions'' None False False [''permissions''] (Some ''Alias supported in CLI; use /permissions there.''),
      slash_command ''help'' ''List slash commands'' None True False [] None]"

record slashCommandAvailability =
  av_hasOpenChat :: bool
  av_supportsGoal :: bool
  av_supportsPlanMode :: bool
  av_supportsReview :: bool

definition command_char :: "char \<Rightarrow> bool" where
  "command_char c \<longleftrightarrow> word_char c \<or> c = CHR ''-''"

definition parseSlashCommand :: "string \<Rightarrow> (string \<times> string) option" where
  "parseSlashCommand input =
     (let trimmed = trim input in
      if \<not> starts_with trimmed ''/'' then None
      else if trimmed = ''/'' then Some (''help'', [])
      else let name = takeWhile command_char (tl trimmed);
               args = trim_start (drop (length name) (tl trimmed))
        in if name = [] \<or> line_terminator_in args then None else Some (lower name, args))"

definition parseSlashQuery :: "string \<Rightarrow> string option" where
  "parseSlashQuery input =
     (let trimmed = trim_start input in
      if \<not> starts_with trimmed ''/'' then None
      else Some (lower_ascii (takeWhile (\<lambda>c. c \<noteq> CHR '' '') (collapse_spaces (tl trimmed)))))"

definition findSlashCommandDefinition :: "string \<Rightarrow> slashCommand option" where
  "findSlashCommandDefinition name =
     (let normalized = lower_ascii (trim name) in
      if normalized = [] then None
      else find (\<lambda>command. lower_ascii (sc_name command) = normalized
             \<or> list_ex (\<lambda>alias. lower_ascii alias = normalized) (sc_aliases command)) SLASH_COMMANDS)"

definition dedupeSlashCommandsByName :: "slashCommand list \<Rightarrow> slashCommand list" where
  "dedupeSlashCommandsByName commands =
     (let key = (\<lambda>command. lower_ascii (trim (sc_name command))) in
      fold (\<lambda>command result.
          if key command = [] \<or> key command \<in> key ` set result then result else result @ [command]) commands [])"

definition filterSlashCommands :: "string \<Rightarrow> slashCommand list \<Rightarrow> slashCommand list" where
  "filterSlashCommands query commands =
     (let normalized = lower_ascii (trim query); deduped = dedupeSlashCommandsByName commands in
      if normalized = [] then deduped
      else filter (\<lambda>command. has_substring (lower_ascii (sc_name command)) normalized
             \<or> has_substring (lower_ascii (sc_summary command)) normalized
             \<or> list_ex (\<lambda>alias. has_substring (lower_ascii alias) normalized) (sc_aliases command)) deduped)"

definition isSlashCommandAvailable :: "slashCommand \<Rightarrow> slashCommandAvailability \<Rightarrow> bool" where
  "isSlashCommandAvailable command availability =
     (if \<not> sc_mobileSupported command \<or> (sc_requiresOpenChat command \<and> \<not> av_hasOpenChat availability) then False
      else if sc_name command = ''goal'' then av_supportsGoal availability
      else if sc_name command = ''plan'' then av_supportsPlanMode availability
      else if sc_name command = ''review'' then av_supportsReview availability
      else True)"

section \<open>Snippets\<close>

text \<open>\<open>/(^|\n)\s{0,3}#{1,6}\s*/\<close>: what follows a heading mark\<close>

fun strip_spaces :: "nat \<Rightarrow> string \<Rightarrow> string" where
  "strip_spaces 0 s = s"
| "strip_spaces (Suc n) s =
     (case leading_unit white_space s of Some u \<Rightarrow> strip_spaces n (drop (length u) s) | None \<Rightarrow> s)"

definition heading_rest :: "string \<Rightarrow> string option" where
  "heading_rest s =
     (let r = strip_spaces 3 s; marks = min 6 (length (takeWhile (\<lambda>c. c = CHR ''#'') r)) in
      if marks = 0 then None else Some (trim_start (drop marks r)))"

lemma strip_spaces_shorter: "length (strip_spaces n s) \<le> length s"
proof (induction n s rule: strip_spaces.induct)
  case (2 n s)
  then show ?case
    by (auto split: option.split intro: le_trans [OF _ diff_le_self])
qed simp

lemma heading_rest_shorter: "heading_rest s = Some r \<Longrightarrow> length r < length s"
proof -
  assume r: "heading_rest s = Some r"
  let ?t = "strip_spaces 3 s" and ?m = "min 6 (length (takeWhile (\<lambda>c. c = CHR ''#'') (strip_spaces 3 s)))"
  from r have m: "?m \<noteq> 0" "r = trim_start (drop ?m ?t)"
    by (auto simp: heading_rest_def Let_def split: if_splits)
  have "length r \<le> length (drop ?m ?t)"
    unfolding m(2) trim_start_def by (rule suffix_length_le [OF suffix_strip_units])
  moreover have "?t \<noteq> []" using m(1) by auto
  then have "length (drop ?m ?t) < length ?t" using m(1) by (cases ?t) auto
  ultimately show "length r < length s" using strip_spaces_shorter [of 3 s] by linarith
qed

function strip_headings :: "bool \<Rightarrow> string \<Rightarrow> string" where
  "strip_headings at_start s =
     (case s of
        [] \<Rightarrow> []
      | c # r \<Rightarrow>
          (case (if at_start then heading_rest s else None) of
             Some t \<Rightarrow> strip_headings False t
           | None \<Rightarrow>
               (case (if c = CHR 0x0A then heading_rest r else None) of
                  Some t \<Rightarrow> c # strip_headings False t
                | None \<Rightarrow> c # strip_headings False r)))"
  by pat_completeness auto
termination
  by (relation "measure (\<lambda>(b, s). length s)")
    (auto split: if_splits dest: heading_rest_shorter)

declare strip_headings.simps [simp del]

text \<open>The text up to the closing mark on the same line, and what follows the mark\<close>

fun up_to :: "string \<Rightarrow> string \<Rightarrow> (string \<times> string) option" where
  "up_to close [] = None"
| "up_to close (c # s) =
     (if starts_with (c # s) close then Some ([], drop (length close) (c # s))
      else if leading_unit line_terminators (c # s) \<noteq> None then None
      else map_option (\<lambda>(inner, after). (c # inner, after)) (up_to close s))"

lemma up_to_shorter: "close \<noteq> [] \<Longrightarrow> up_to close s = Some (inner, after) \<Longrightarrow> length after \<le> length s"
  by (induction s arbitrary: inner) (auto split: if_splits)

function strip_bold :: "string \<Rightarrow> string" where
  "strip_bold s =
     (case s of
        [] \<Rightarrow> []
      | c # r \<Rightarrow>
          (case (if starts_with s ''**'' then up_to ''**'' (drop 2 s) else None) of
             Some (inner, after) \<Rightarrow> inner @ strip_bold after
           | None \<Rightarrow> c # strip_bold r))"
  by pat_completeness auto
termination
  by (relation "measure length") (auto split: if_splits dest!: up_to_shorter [rotated])

declare strip_bold.simps [simp del]

text \<open>\<open>/`([^`]+)`/\<close>\<close>

definition backtick :: char where "backtick = CHR 0x60"

function strip_code :: "string \<Rightarrow> string" where
  "strip_code s =
     (case s of
        [] \<Rightarrow> []
      | c # r \<Rightarrow>
          let inner = takeWhile (\<lambda>d. d \<noteq> backtick) r; after = drop (length inner) r in
          if c = backtick \<and> inner \<noteq> [] \<and> after \<noteq> [] then inner @ strip_code (tl after) else c # strip_code r)"
  by pat_completeness auto
termination
  by (relation "measure length") auto

declare strip_code.simps [simp del]

definition stripMarkdownInline :: "string \<Rightarrow> string" where
  "stripMarkdownInline value =
     filter (\<lambda>c. c \<noteq> CHR ''_'' \<and> c \<noteq> CHR ''~'') (strip_code (strip_bold (strip_headings True value)))"

definition toTickerSnippet :: "string option \<Rightarrow> nat \<Rightarrow> string option" where
  "toTickerSnippet value maxLength =
     (let cleaned = trim (collapse_spaces (with_default value [])) in
      if cleaned = [] then None
      else if units cleaned \<le> maxLength then Some cleaned
      else Some (take_units (max 1 (maxLength - 1)) cleaned @ ellipsis))"

text \<open>The longest end of the text before that the text after begins with\<close>

fun overlap :: "string \<Rightarrow> string \<Rightarrow> nat \<Rightarrow> nat" where
  "overlap earlier delta 0 = 0"
| "overlap earlier delta (Suc n) =
     (if ends_with earlier (take (Suc n) delta) then Suc n else overlap earlier delta n)"

definition mergeStreamingDelta :: "string option \<Rightarrow> string \<Rightarrow> string" where
  "mergeStreamingDelta previous delta =
     (let earlier = with_default previous [] in
      if delta = [] then earlier
      else if earlier = [] then delta
      else if delta = earlier \<or> ends_with earlier delta then earlier
      else if starts_with delta earlier then delta
      else earlier @ drop (overlap earlier delta (min (length earlier) (length delta))) delta)"

definition indented :: "string \<Rightarrow> string list \<Rightarrow> string" where
  "indented heading lines =
     (case lines of
        [] \<Rightarrow> heading
      | first # rest \<Rightarrow>
          join newline (heading # (''  '' @ [CHR 0xE2, CHR 0x94, CHR 0x94] @ '' '' @ first)
            # map (\<lambda>line. ''    '' @ line) rest))"

definition formatLiveReasoningMessage :: "string \<Rightarrow> string" where
  "formatLiveReasoningMessage s = indented (bullet_char @ '' Reasoning'') (content_lines (trim s))"

definition formatTimelineSystemMessage :: "string \<Rightarrow> string list \<Rightarrow> string" where
  "formatTimelineSystemMessage title details = indented title (concat (map content_lines details))"

section \<open>Tool events\<close>

definition buildToolEventDetail :: "string \<Rightarrow> string \<Rightarrow> string" where
  "buildToolEventDetail label status = label @ '' | '' @ status"

definition mcp_detail :: "jobj \<Rightarrow> string" where
  "mcp_detail item =
     (let names = List.map_filter (\<lambda>k. non_empty (as_string (prop_of item k))) [''server'', ''tool''] in
      if names = [] then ''Tool call'' else join '' / '' names)"

definition tool_detail :: "jobj \<Rightarrow> string" where
  "tool_detail item =
     with_default (or_else (as_string (prop_of item ''tool'')) (as_string (prop_of item ''name''))) ''Tool call''"

definition command_detail :: "jobj \<Rightarrow> string" where
  "command_detail item = with_default (toTickerSnippet (as_string (prop_of item ''command'')) 80) ''Command''"

definition describeStartedToolEvent :: "jobj \<Rightarrow> (string \<times> string) option" where
  "describeStartedToolEvent item =
     (let itemType = as_string (prop_of item ''type'') in
      if itemType = Some ''commandExecution''
      then Some (''command.running'', buildToolEventDetail (command_detail item) ''running'')
      else if itemType = Some ''fileChange''
      then Some (''file_change.running'', buildToolEventDetail ''Applying file changes'' ''running'')
      else if itemType = Some ''mcpToolCall''
      then Some (''tool.running'', buildToolEventDetail (mcp_detail item) ''running'')
      else if itemType = Some ''toolCall''
      then Some (''tool.running'', buildToolEventDetail (tool_detail item) ''running'')
      else None)"

text \<open>A change may be its path; otherwise the first of the three fields that is a string counts.\<close>

definition completedChangePath :: "jsv \<Rightarrow> string option" where
  "completedChangePath change =
     (let r = toRecord change in
      non_empty (first_some [trimmed_string change, trimmed_string (opt_prop r ''path''),
        trimmed_string (opt_prop r ''filePath''), trimmed_string (opt_prop r ''file_path'')]))"

definition readCompletedFileChangePaths :: "jobj \<Rightarrow> string list" where
  "readCompletedFileChangePaths item =
     fold (\<lambda>p seen. if p \<in> set seen then seen else seen @ [p])
       (map forward_slashes (List.map_filter completedChangePath
         (with_default (as_array (prop_of item ''changes'')) []))) []"

definition fileChangeTargetLabel :: "string \<Rightarrow> string" where
  "fileChangeTargetLabel path =
     (let normalized = forward_slashes (trim path);
          names = filter (\<lambda>s. s \<noteq> []) (split_on slash normalized)
      in if normalized = [] then ''file'' else if names = [] then normalized else last names)"

definition changed_file_label :: "string list \<Rightarrow> string" where
  "changed_file_label changedPaths =
     (case changedPaths of
        [] \<Rightarrow> ''File changes''
      | [path] \<Rightarrow> ''File changes: '' @ with_default (toTickerSnippet (Some (fileChangeTargetLabel path)) 48) ''file''
      | path # others \<Rightarrow>
          ''File changes: '' @ with_default (toTickerSnippet (Some (fileChangeTargetLabel path)) 40) ''file''
          @ '' +'' @ show_nat (length others))"

definition describeCompletedToolEvent :: "jobj \<Rightarrow> (string \<times> string) option" where
  "describeCompletedToolEvent item =
     (let itemType = as_string (prop_of item ''type''); rawStatus = as_string (prop_of item ''status'');
          status = (if rawStatus = Some ''failed'' \<or> rawStatus = Some ''error'' then ''error'' else ''complete'')
      in if itemType = Some ''commandExecution''
      then Some (''command.completed'', buildToolEventDetail (command_detail item) status)
      else if itemType = Some ''fileChange''
      then Some (''file_change.completed'',
        buildToolEventDetail (changed_file_label (readCompletedFileChangePaths item)) status)
      else if itemType = Some ''mcpToolCall''
      then Some (''tool.completed'', buildToolEventDetail (mcp_detail item) status)
      else if itemType = Some ''toolCall''
      then Some (''tool.completed'', buildToolEventDetail (tool_detail item) status)
      else None)"

definition describeWebSearchToolEvent :: "jobj \<Rightarrow> string \<times> string" where
  "describeWebSearchToolEvent msg =
     (''web_search.running'',
      buildToolEventDetail (case toTickerSnippet (as_string (prop_of msg ''query'')) 80 of
        Some query \<Rightarrow> ''Web search: '' @ query | None \<Rightarrow> ''Web search'') ''running'')"

record runEvent =
  re_id :: string
  re_threadId :: string
  re_eventType :: string
  re_at :: string
  re_detail :: string

definition MAX_ACTIVE_COMMANDS :: nat where "MAX_ACTIVE_COMMANDS = 16"

text \<open>\<open>random\<close> is the random part of the id.\<close>

definition appendRunEventHistory ::
  "runEvent list \<Rightarrow> string \<Rightarrow> string \<Rightarrow> string \<Rightarrow> int \<Rightarrow> string \<Rightarrow> runEvent list" where
  "appendRunEventHistory previous threadId eventType detail now random =
     (if previous \<noteq> [] \<and> re_eventType (last previous) = eventType \<and> re_detail (last previous) = detail
      then previous
      else last_n MAX_ACTIVE_COMMANDS (previous @
        [\<lparr>re_id = ''re-'' @ show_int now @ ''-'' @ random, re_threadId = threadId, re_eventType = eventType,
          re_at = to_iso_string now, re_detail = detail\<rparr>]))"

end
