(* ===== verification/BridgeSurfaces.thy ===== *)
theory BridgeSurfaces
  imports ScreenText
begin

text \<open>
  Requests for user input and the surfaces the bridge shows (\<open>screens/mainScreenHelperBridgeUi.ts\<close>), and
  what notifications say of their thread (\<open>mainScreenHelperStatus.ts\<close>).
\<close>

section \<open>Requests for user input\<close>

text \<open>\<open>qo_value\<close> is the value sent for the option.\<close>

record questionOption =
  qo_value :: string
  qo_label :: string
  qo_description :: string

record userInputQuestion =
  uq_id :: string
  uq_header :: string
  uq_question :: string
  uq_isOther :: bool
  uq_isSecret :: bool
  uq_required :: bool
  uq_fieldType :: string
  uq_defaultValue :: jsv
  uq_options :: "questionOption list option"

record pendingUserInputRequest =
  ui_requestId :: string
  ui_agentId :: "string option"
  ui_threadId :: string
  ui_turnId :: string
  ui_itemId :: string
  ui_message :: string
  ui_requestedAt :: string
  ui_questions :: "userInputQuestion list"

definition readUserInputFieldType :: "jsv \<Rightarrow> string" where
  "readUserInputFieldType value =
     (case value of
        JStr s \<Rightarrow> if s \<in> set [''string'', ''integer'', ''number'', ''boolean'', ''string-array''] then s else ''string''
      | _ \<Rightarrow> ''string'')"

definition readUserInputDefaultValue :: "jsv \<Rightarrow> jsv" where
  "readUserInputDefaultValue value =
     (case value of
        JStr _ \<Rightarrow> value
      | JBool _ \<Rightarrow> value
      | JNum q \<Rightarrow> if finite_number q then value else JNull
      | JArr vs \<Rightarrow> if list_all (\<lambda>v. as_string v \<noteq> None) vs then value else JNull
      | _ \<Rightarrow> JNull)"

text \<open>\<open>readString(r.k) ?? readString(r.l) ?? ...\<close>\<close>

definition first_field :: "jobj option \<Rightarrow> string list \<Rightarrow> string option" where
  "first_field r ks = first_some (map (\<lambda>k. as_string (opt_prop r k)) ks)"

definition questionOptionOf :: "jsv \<Rightarrow> questionOption option" where
  "questionOptionOf entry =
     (case toRecord entry of
        None \<Rightarrow> None
      | Some r \<Rightarrow>
          (case non_empty (first_field (Some r) [''label'', ''title'', ''value'', ''text'']) of
             None \<Rightarrow> None
           | Some label \<Rightarrow> Some
               \<lparr>qo_value = with_default (as_string (prop_of r ''value'')) label, qo_label = label,
                qo_description = with_default (first_field (Some r) [''description'', ''detail'']) []\<rparr>))"

definition questionOptions :: "jsv \<Rightarrow> (string \<times> string) list option \<Rightarrow> questionOption list option" where
  "questionOptions rawOptions inlineOptions =
     (let parsed = List.map_filter questionOptionOf (with_default (as_array rawOptions) []) in
      if parsed \<noteq> [] then Some parsed
      else map_option (map (\<lambda>(label, description).
        \<lparr>qo_value = label, qo_label = label, qo_description = description\<rparr>)) inlineOptions)"

definition questionOf :: "jsv \<Rightarrow> userInputQuestion option" where
  "questionOf item =
     (case toRecord item of
        None \<Rightarrow> None
      | Some r \<Rightarrow>
          (case (non_empty (as_string (prop_of r ''id'')), non_empty (as_string (prop_of r ''header'')),
                 non_empty (as_string (prop_of r ''question''))) of
             (Some questionId, Some header, Some question) \<Rightarrow>
               (case parseInlineOptionsFromQuestionText question of (asked, inlineOptions) \<Rightarrow> Some
                  \<lparr>uq_id = questionId, uq_header = header, uq_question = asked,
                   uq_isOther = with_default (readBoolean (prop_of r ''isOther'')) False,
                   uq_isSecret = with_default (readBoolean (prop_of r ''isSecret'')) False,
                   uq_required = with_default (readBoolean (prop_of r ''required'')) False,
                   uq_fieldType = readUserInputFieldType (prop_of r ''fieldType''),
                   uq_defaultValue = readUserInputDefaultValue (prop_of r ''defaultValue''),
                   uq_options = questionOptions (prop_of r ''options'') inlineOptions\<rparr>)
           | _ \<Rightarrow> None))"

definition toPendingUserInputRequest :: "jsv \<Rightarrow> pendingUserInputRequest option" where
  "toPendingUserInputRequest value =
     (case toRecord value of
        None \<Rightarrow> None
      | Some r \<Rightarrow>
          (let field = (\<lambda>k. non_empty (as_string (prop_of r k)));
               questions = List.map_filter questionOf (with_default (as_array (prop_of r ''questions'')) [])
           in case (non_empty (first_field (Some r) [''requestId'', ''id'']), field ''threadId'', field ''turnId'',
                    field ''itemId'', field ''requestedAt'') of
                (Some requestId, Some threadId, Some turnId, Some itemId, Some requestedAt) \<Rightarrow>
                  if questions = [] then None
                  else Some \<lparr>ui_requestId = requestId, ui_agentId = as_string (prop_of r ''agentId''),
                    ui_threadId = threadId, ui_turnId = turnId, ui_itemId = itemId,
                    ui_message = with_default (as_string (prop_of r ''message'')) (uq_question (hd questions)),
                    ui_requestedAt = requestedAt, ui_questions = questions\<rparr>
              | _ \<Rightarrow> None))"

text \<open>\<open>String(v)\<close> of a default value, with arrays joined by commas\<close>

definition default_text :: "jsv \<Rightarrow> string" where
  "default_text value =
     (case value of
        JArr vs \<Rightarrow> join '', '' (List.map_filter as_string vs)
      | JStr s \<Rightarrow> s
      | JNum q \<Rightarrow> show_num q
      | JBool b \<Rightarrow> if b then ''true'' else ''false''
      | _ \<Rightarrow> [])"

definition buildUserInputDrafts :: "pendingUserInputRequest \<Rightarrow> (string \<times> string) list" where
  "buildUserInputDrafts request =
     fold (\<lambda>question. obj_set (uq_id question) (default_text (uq_defaultValue question))) (ui_questions request) []"

section \<open>Surfaces\<close>

datatype bridgeUiBlock =
    TextBlock string
  | MarkdownBlock string
  | ChecklistBlock "(string \<times> planStepStatus option \<times> string option) list"
  | KeyValueBlock "(string \<times> string) list"
  | CodeBlock string "string option"
  | ProgressBlock string rat rat "string option"

record bridgeUiAction =
  ba_id :: string
  ba_label :: string
  ba_style :: "string option"
  ba_dismissesSurface :: bool

record bridgeUiSurface =
  bs_id :: string
  bs_threadId :: string
  bs_turnId :: "string option"
  bs_kind :: "string option"
  bs_presentation :: string
  bs_tone :: "string option"
  bs_title :: string
  bs_subtitle :: "string option"
  bs_bodyMarkdown :: "string option"
  bs_blocks :: "bridgeUiBlock list"
  bs_actions :: "bridgeUiAction list"
  bs_dismissible :: bool
  bs_createdAt :: "string option"
  bs_updatedAt :: "string option"

definition one_of_words :: "string list \<Rightarrow> string option \<Rightarrow> string option" where
  "one_of_words ws s = (case s of Some w \<Rightarrow> if w \<in> set ws then Some w else None | None \<Rightarrow> None)"

definition toBridgeUiAction :: "jsv \<Rightarrow> bridgeUiAction option" where
  "toBridgeUiAction value =
     (case toRecord value of
        None \<Rightarrow> None
      | Some r \<Rightarrow>
          (case (non_empty (as_string (prop_of r ''id'')), non_empty (as_string (prop_of r ''label''))) of
             (Some i, Some label) \<Rightarrow> Some
               \<lparr>ba_id = i, ba_label = label,
                ba_style = one_of_words [''primary'', ''secondary'', ''destructive''] (as_string (prop_of r ''style'')),
                ba_dismissesSurface = with_default (readBoolean (prop_of r ''dismissesSurface'')) True\<rparr>
           | _ \<Rightarrow> None))"

definition checklistItem :: "jsv \<Rightarrow> (string \<times> planStepStatus option \<times> string option) option" where
  "checklistItem item =
     (case toRecord item of
        None \<Rightarrow> None
      | Some r \<Rightarrow> map_option
          (\<lambda>label. (label, stepStatusOf (as_string (prop_of r ''status'')), as_string (prop_of r ''detail'')))
          (non_empty (as_string (prop_of r ''label''))))"

definition keyValueItem :: "jsv \<Rightarrow> (string \<times> string) option" where
  "keyValueItem item =
     (case toRecord item of
        None \<Rightarrow> None
      | Some r \<Rightarrow>
          (case (non_empty (as_string (prop_of r ''label'')), non_empty (as_string (prop_of r ''value''))) of
             (Some label, Some v) \<Rightarrow> Some (label, v)
           | _ \<Rightarrow> None))"

definition progressBlock :: "jobj \<Rightarrow> bridgeUiBlock option" where
  "progressBlock r =
     (case (non_empty (as_string (prop_of r ''label'')), readNumber (prop_of r ''value''),
            readNumber (prop_of r ''max'')) of
        (Some label, Some v, Some m) \<Rightarrow>
          if m \<le> 0 then None else Some (ProgressBlock label v m (as_string (prop_of r ''detail'')))
      | _ \<Rightarrow> None)"

definition toBridgeUiBlock :: "jsv \<Rightarrow> bridgeUiBlock option" where
  "toBridgeUiBlock value =
     (case toRecord value of
        None \<Rightarrow> None
      | Some r \<Rightarrow>
          (let kind = as_string (prop_of r ''type'');
               items = with_default (as_array (prop_of r ''items'')) [];
               shown = non_empty (as_string (prop_of r ''text''))
           in if kind = Some ''text'' then map_option TextBlock shown
              else if kind = Some ''markdown''
              then map_option MarkdownBlock (non_empty (as_string (prop_of r ''markdown'')))
              else if kind = Some ''checklist''
              then (let entries = List.map_filter checklistItem items in
                if entries = [] then None else Some (ChecklistBlock entries))
              else if kind = Some ''keyValue''
              then (let entries = List.map_filter keyValueItem items in
                if entries = [] then None else Some (KeyValueBlock entries))
              else if kind = Some ''code''
              then map_option (\<lambda>t. CodeBlock t (as_string (prop_of r ''language''))) shown
              else if kind = Some ''progress'' then progressBlock r
              else None))"

definition parseBridgeUiBlocks :: "jsv \<Rightarrow> bridgeUiBlock list" where
  "parseBridgeUiBlocks value = List.map_filter toBridgeUiBlock (with_default (as_array value) [])"

definition toBridgeUiSurface :: "jsv \<Rightarrow> bridgeUiSurface option" where
  "toBridgeUiSurface value =
     (case toRecord value of
        None \<Rightarrow> None
      | Some r \<Rightarrow>
          (let field = (\<lambda>k. as_string (prop_of r k)) in
           case (non_empty (field ''id''), non_empty (field ''threadId''), non_empty (field ''title''),
                 one_of_words [''workflowCard'', ''modal'', ''banner''] (field ''presentation'')) of
             (Some i, Some threadId, Some title, Some presentation) \<Rightarrow> Some
               \<lparr>bs_id = i, bs_threadId = threadId, bs_turnId = field ''turnId'', bs_kind = field ''kind'',
                bs_presentation = presentation,
                bs_tone = one_of_words [''info'', ''success'', ''warning'', ''error'', ''neutral''] (field ''tone''),
                bs_title = title, bs_subtitle = field ''subtitle'', bs_bodyMarkdown = field ''bodyMarkdown'',
                bs_blocks = parseBridgeUiBlocks (prop_of r ''blocks''),
                bs_actions = List.map_filter toBridgeUiAction (with_default (as_array (prop_of r ''actions'')) []),
                bs_dismissible = with_default (readBoolean (prop_of r ''dismissible'')) True,
                bs_createdAt = field ''createdAt'', bs_updatedAt = field ''updatedAt''\<rparr>
           | _ \<Rightarrow> None))"

definition parseGoalSlashObjective :: "string \<Rightarrow> string option" where
  "parseGoalSlashObjective input =
     (case parseSlashCommand input of
        Some (name, args) \<Rightarrow> if name = ''goal'' then non_empty (Some (trim args)) else None
      | None \<Rightarrow> None)"

definition buildOptimisticGoalBridgeUiSurface :: "string \<Rightarrow> string \<Rightarrow> string \<Rightarrow> bridgeUiSurface option" where
  "buildOptimisticGoalBridgeUiSurface threadId objective updatedAt =
     (if trim threadId = [] \<or> trim objective = [] then None
      else Some
        \<lparr>bs_id = ''goal-'' @ trim threadId, bs_threadId = trim threadId, bs_turnId = None, bs_kind = Some ''goal'',
         bs_presentation = ''workflowCard'', bs_tone = Some ''info'', bs_title = ''Goal'',
         bs_subtitle = Some ''Starting'', bs_bodyMarkdown = Some (trim objective),
         bs_blocks = [KeyValueBlock [(''Status'', ''Starting'')]],
         bs_actions = [\<lparr>ba_id = ''dismiss'', ba_label = ''Dismiss'', ba_style = Some ''secondary'',
           ba_dismissesSurface = True\<rparr>],
         bs_dismissible = True, bs_createdAt = Some updatedAt, bs_updatedAt = Some updatedAt\<rparr>)"

fun upsertBridgeUiSurfaceList :: "bridgeUiSurface list \<Rightarrow> bridgeUiSurface \<Rightarrow> bridgeUiSurface list" where
  "upsertBridgeUiSurfaceList [] surface = [surface]"
| "upsertBridgeUiSurfaceList (s # surfaces) surface =
     (if bs_id s = bs_id surface then surface # surfaces
      else s # upsertBridgeUiSurfaceList surfaces surface)"

definition removeBridgeUiSurfaceFromList :: "bridgeUiSurface list \<Rightarrow> string \<Rightarrow> bridgeUiSurface list" where
  "removeBridgeUiSurfaceFromList surfaces surfaceId = filter (\<lambda>s. bs_id s \<noteq> surfaceId) surfaces"

section \<open>Notifications\<close>

definition normalizeExternalStatusHint :: "string option \<Rightarrow> string option" where
  "normalizeExternalStatusHint value =
     (case non_empty value of
        None \<Rightarrow> None
      | Some v \<Rightarrow> non_empty (Some (filter ascii_alnum (lower_ascii (trim v)))))"

text \<open>\<open>toRecord(a.k) ?? toRecord(a.l) ?? ...\<close>, and the record of \<open>a.k ?? a.l\<close>\<close>

definition first_record :: "jsv list \<Rightarrow> jobj option" where
  "first_record vs = first_some (map toRecord vs)"

definition spawned_by :: "jobj option \<Rightarrow> jobj option" where
  "spawned_by source =
     toRecord (opt_prop (toRecord (let s = opt_prop source ''subagent'' in
       if nullish s then opt_prop source ''subAgent'' else s)) ''thread_spawn'')"

definition parent_ids :: "jobj option \<Rightarrow> jobj option \<Rightarrow> string option list" where
  "parent_ids source threadSource =
     map (\<lambda>r. first_field r [''parent_thread_id'', ''parentThreadId''])
       [source, spawned_by source, threadSource, spawned_by threadSource]"

text \<open>
  The parts of a notification that can name a thread: the message, the thread and its source, the
  source of the notification.  \<open>msgArg\<close> stands for the message where it was read before.
\<close>

definition notification_msg :: "jobj option \<Rightarrow> jobj option \<Rightarrow> jobj option" where
  "notification_msg params msgArg = or_else msgArg (toRecord (opt_prop params ''msg''))"

definition notification_thread :: "jobj option \<Rightarrow> jobj option \<Rightarrow> jobj option" where
  "notification_thread params msg =
     first_record [opt_prop params ''thread'', opt_prop params ''threadState'', opt_prop params ''thread_state'',
       opt_prop msg ''thread'']"

definition thread_id_words :: "string list" where
  "thread_id_words = [''thread_id'', ''threadId'', ''conversation_id'', ''conversationId'']"

definition extractNotificationThreadId :: "jobj option \<Rightarrow> jobj option \<Rightarrow> string option" where
  "extractNotificationThreadId params msgArg =
     (let msg = notification_msg params msgArg;
          thread = notification_thread params msg;
          threadSource = toRecord (opt_prop thread ''source'');
          turn = first_record [opt_prop params ''turn'', opt_prop msg ''turn''];
          source = first_record [opt_prop params ''source'', opt_prop msg ''source'']
      in first_some
           ([first_field msg thread_id_words, first_field params thread_id_words,
             first_field thread (''id'' # thread_id_words), first_field turn [''thread_id'', ''threadId''],
             first_field source thread_id_words] @ parent_ids source threadSource))"

definition extractNotificationParentThreadId :: "jobj option \<Rightarrow> jobj option \<Rightarrow> string option" where
  "extractNotificationParentThreadId params msgArg =
     (let msg = notification_msg params msgArg;
          thread = notification_thread params msg;
          source = first_record [opt_prop params ''source'', opt_prop msg ''source'']
      in first_some (parent_ids source (toRecord (opt_prop thread ''source''))))"

definition status_candidate :: "jsv \<Rightarrow> string option" where
  "status_candidate candidate =
     or_else (normalizeExternalStatusHint (as_string candidate))
       (normalizeExternalStatusHint (first_field (toRecord candidate) [''type'', ''status'', ''state'', ''phase'']))"

definition nested_status :: "jobj \<Rightarrow> string option" where
  "nested_status thread =
     normalizeExternalStatusHint (first_some
       [as_string (prop_of thread ''status''), as_string (opt_prop (toRecord (prop_of thread ''status'')) ''type''),
        as_string (prop_of thread ''state''), as_string (prop_of thread ''phase''),
        as_string (opt_prop (toRecord (prop_of thread ''lifecycle'')) ''status'')])"

definition extractExternalStatusHint :: "jobj \<Rightarrow> string option" where
  "extractExternalStatusHint params =
     or_else (first_some (map (\<lambda>k. status_candidate (prop_of params k))
         [''status'', ''threadStatus'', ''thread_status'', ''state'', ''phase'']))
       (Option.bind (first_record [prop_of params ''thread'', prop_of params ''threadState'', prop_of params ''thread_state''])
         nested_status)"

record approvalOption =
  ao_id :: string
  ao_label :: string
  ao_kind :: "string option"

record pendingApproval =
  pa_requestId :: string
  pa_agentId :: string
  pa_kind :: string
  pa_threadId :: string
  pa_turnId :: string
  pa_itemId :: string
  pa_title :: string
  pa_message :: string
  pa_requestedAt :: string
  pa_reason :: "string option"
  pa_command :: "string option"
  pa_cwd :: "string option"
  pa_grantRoot :: "string option"
  pa_proposedExecpolicyAmendment :: "string list option"
  pa_options :: "approvalOption list"

definition approvalOptionOf :: "jsv \<Rightarrow> approvalOption option" where
  "approvalOptionOf value =
     (let r = toRecord value in
      case (non_empty (as_string (opt_prop r ''id'')), non_empty (first_field r [''label'', ''name''])) of
        (Some i, Some label) \<Rightarrow> Some \<lparr>ao_id = i, ao_label = label, ao_kind = as_string (opt_prop r ''kind'')\<rparr>
      | _ \<Rightarrow> None)"

definition toPendingApproval :: "jsv \<Rightarrow> pendingApproval option" where
  "toPendingApproval value =
     (case toRecord value of
        None \<Rightarrow> None
      | Some r \<Rightarrow>
          (let field = (\<lambda>k. non_empty (as_string (prop_of r k)));
               described = (\<lambda>k. with_default (first_field (Some r) [k, ''reason'']) [])
           in case (non_empty (first_field (Some r) [''requestId'', ''id'']),
                    one_of_words [''commandExecution'', ''fileChange''] (field ''kind''),
                    field ''threadId'', field ''turnId'', field ''itemId'', field ''requestedAt'') of
                (Some requestId, Some kind, Some threadId, Some turnId, Some itemId, Some requestedAt) \<Rightarrow> Some
                  \<lparr>pa_requestId = requestId, pa_agentId = with_default (as_string (prop_of r ''agentId'')) [],
                   pa_kind = kind, pa_threadId = threadId, pa_turnId = turnId, pa_itemId = itemId,
                   pa_title = described ''title'', pa_message = described ''message'',
                   pa_requestedAt = requestedAt, pa_reason = as_string (prop_of r ''reason''),
                   pa_command = as_string (prop_of r ''command''), pa_cwd = as_string (prop_of r ''cwd''),
                   pa_grantRoot = as_string (prop_of r ''grantRoot''),
                   pa_proposedExecpolicyAmendment = screenStringArray (prop_of r ''proposedExecpolicyAmendment''),
                   pa_options = List.map_filter approvalOptionOf (with_default (as_array (prop_of r ''options'')) [])\<rparr>
              | _ \<Rightarrow> None))"

end
