(* ===== verification/ScreenFiles.thy ===== *)
theory ScreenFiles
  imports BridgeSurfaces
begin

text \<open>
  What the chat screen keeps on the device: favorites, drafts, preferences for models, plans and
  surfaces of chats (\<open>screens/mainScreenHelperPersistence.ts\<close>, written by
  \<open>screens/controllers/mainScreenPersistenceController.ts\<close> and \<open>draftController.ts\<close>), and the queue of
  a thread as the bridge sends it.
\<close>

section \<open>Files\<close>

definition WORKSPACE_FAVORITES_VERSION :: rat where "WORKSPACE_FAVORITES_VERSION = 1"
definition WORKSPACE_FAVORITES_LIMIT :: nat where "WORKSPACE_FAVORITES_LIMIT = 4"
definition CHAT_DRAFTS_VERSION :: rat where "CHAT_DRAFTS_VERSION = 2"
definition CHAT_MODEL_PREFERENCES_VERSION :: rat where "CHAT_MODEL_PREFERENCES_VERSION = 1"
definition CHAT_PLAN_SNAPSHOTS_VERSION :: rat where "CHAT_PLAN_SNAPSHOTS_VERSION = 1"
definition CHAT_BRIDGE_UI_SURFACES_VERSION :: rat where "CHAT_BRIDGE_UI_SURFACES_VERSION = 1"
definition CHAT_NEW_DRAFT_KEY :: string where "CHAT_NEW_DRAFT_KEY = ''__new_chat__''"

definition document_path :: "string \<Rightarrow> string option \<Rightarrow> string option" where
  "document_path file base =
     (case base of Some b \<Rightarrow> if trim b = [] then None else Some (b @ file) | None \<Rightarrow> None)"

definition getChatModelPreferencesPath :: "string option \<Rightarrow> string option" where
  "getChatModelPreferencesPath = document_path ''chat-model-preferences.json''"

definition getChatDraftsPath :: "string option \<Rightarrow> string option" where
  "getChatDraftsPath = document_path ''chat-drafts.json''"

definition getChatPlanSnapshotsPath :: "string option \<Rightarrow> string option" where
  "getChatPlanSnapshotsPath = document_path ''chat-plan-snapshots.json''"

definition getChatBridgeUiSurfacesPath :: "string option \<Rightarrow> string option" where
  "getChatBridgeUiSurfacesPath = document_path ''chat-bridge-ui-surfaces.json''"

definition getWorkspaceFavoritesPath :: "string option \<Rightarrow> string option" where
  "getWorkspaceFavoritesPath = document_path ''tethercode-workspace-favorites.json''"

text \<open>The record of a file of the version, and its entries\<close>

definition versioned :: "rat \<Rightarrow> string \<Rightarrow> jobj option" where
  "versioned version raw =
     (if trim raw = [] then None
      else case json_parse raw of
        None \<Rightarrow> None
      | Some parsed \<Rightarrow>
          (case toRecord parsed of
             Some r \<Rightarrow> if prop_of r ''version'' = JNum version then Some r else None
           | None \<Rightarrow> None))"

definition versioned_entries :: "rat \<Rightarrow> string \<Rightarrow> jobj" where
  "versioned_entries version raw =
     (case versioned version raw of
        Some r \<Rightarrow> with_default (js_entries (prop_of r ''entries'')) []
      | None \<Rightarrow> [])"

definition favorite_path :: "string list \<Rightarrow> jsv \<Rightarrow> string list" where
  "favorite_path paths path =
     (case normalizeWorkspacePath (as_string path) of
        None \<Rightarrow> paths
      | Some p \<Rightarrow> if p \<in> set paths \<or> WORKSPACE_FAVORITES_LIMIT \<le> length paths then paths else paths @ [p])"

definition parseWorkspaceFavoritePaths :: "string \<Rightarrow> string list" where
  "parseWorkspaceFavoritePaths raw =
     (case versioned WORKSPACE_FAVORITES_VERSION raw of
        None \<Rightarrow> []
      | Some r \<Rightarrow> foldl favorite_path [] (with_default (as_array (prop_of r ''paths'')) []))"

text \<open>Entries under the trimmed key, where the value can be read\<close>

definition keyed :: "(string \<Rightarrow> jsv \<Rightarrow> 'v option) \<Rightarrow> string \<times> jsv \<Rightarrow> (string \<times> 'v) list \<Rightarrow> (string \<times> 'v) list" where
  "keyed read entry result =
     (case entry of (rawKey, value) \<Rightarrow>
        (case (if trim rawKey = [] then None else read (trim rawKey) value) of
           Some v \<Rightarrow> obj_set (trim rawKey) v result
         | None \<Rightarrow> result))"

definition read_keyed :: "(string \<Rightarrow> jsv \<Rightarrow> 'v option) \<Rightarrow> jobj \<Rightarrow> (string \<times> 'v) list" where
  "read_keyed read entries = fold (keyed read) entries []"

definition draftOf :: "string \<Rightarrow> jsv \<Rightarrow> string option" where
  "draftOf key value = non_empty (map_option unix_lines (as_string value))"

definition parseChatDrafts :: "string \<Rightarrow> (string \<times> string) list" where
  "parseChatDrafts raw = read_keyed draftOf (versioned_entries CHAT_DRAFTS_VERSION raw)"

definition getDraftScopeKey :: "string option \<Rightarrow> string" where
  "getDraftScopeKey threadId = with_default (non_empty (map_option trim threadId)) CHAT_NEW_DRAFT_KEY"

definition epoch_iso :: string where "epoch_iso = to_iso_string 0"

definition modelPreferenceOf :: "string \<Rightarrow> jsv \<Rightarrow> chatModelPreference option" where
  "modelPreferenceOf chatId value =
     map_option (\<lambda>entry. let field = (\<lambda>k. as_string (prop_of entry k)) in
       \<lparr>mp_modelId = normalizeModelId (field ''modelId''), mp_effort = normalizeReasoningEffort (field ''effort''),
        mp_serviceTier = toSelectedServiceTier (preferredServiceTier (field ''serviceTier'')),
        mp_updatedAt = with_default (field ''updatedAt'') epoch_iso\<rparr>) (toRecord value)"

definition parseChatModelPreferences :: "string \<Rightarrow> (string \<times> chatModelPreference) list" where
  "parseChatModelPreferences raw =
     read_keyed modelPreferenceOf (versioned_entries CHAT_MODEL_PREFERENCES_VERSION raw)"

definition planSnapshotOf :: "string \<Rightarrow> jsv \<Rightarrow> activePlanState option" where
  "planSnapshotOf chatId value =
     (case toRecord value of
        None \<Rightarrow> None
      | Some entry \<Rightarrow>
          (let field = (\<lambda>k. as_string (prop_of entry k)) in
           case (non_empty (Some (with_default (field ''threadId'') chatId)), non_empty (field ''turnId'')) of
             (Some threadId, Some turnId) \<Rightarrow> Some
               \<lparr>ap_threadId = threadId, ap_turnId = turnId, ap_explanation = field ''explanation'',
                ap_steps = List.map_filter turnPlanStep (with_default (as_array (prop_of entry ''steps'')) []),
                ap_deltaText = with_default (field ''deltaText'') [],
                ap_updatedAt = with_default (field ''updatedAt'') epoch_iso\<rparr>
           | _ \<Rightarrow> None))"

definition parseChatPlanSnapshots :: "string \<Rightarrow> (string \<times> activePlanState) list" where
  "parseChatPlanSnapshots raw = read_keyed planSnapshotOf (versioned_entries CHAT_PLAN_SNAPSHOTS_VERSION raw)"

definition chatSurfacesOf :: "string \<Rightarrow> jsv \<Rightarrow> bridgeUiSurface list option" where
  "chatSurfacesOf chatId value =
     (let surfaces = filter (\<lambda>s. bs_threadId s = chatId)
            (List.map_filter toBridgeUiSurface (with_default (as_array value) []))
      in if surfaces = [] then None else Some surfaces)"

definition parseChatBridgeUiSurfaces :: "string \<Rightarrow> (string \<times> bridgeUiSurface list) list" where
  "parseChatBridgeUiSurfaces raw =
     read_keyed chatSurfacesOf (versioned_entries CHAT_BRIDGE_UI_SURFACES_VERSION raw)"

section \<open>What is written\<close>

definition versioned_file :: "rat \<Rightarrow> string \<Rightarrow> jsv \<Rightarrow> string" where
  "versioned_file version key contents =
     json_text (JObj [(''version'', JNum version), (key, contents)])"

definition optional_json :: "string option \<Rightarrow> jsv" where
  "optional_json s = (case s of Some t \<Rightarrow> JStr t | None \<Rightarrow> JNull)"

definition serializeDraftEntries :: "(string \<times> string) list \<Rightarrow> string" where
  "serializeDraftEntries entries =
     versioned_file CHAT_DRAFTS_VERSION ''entries'' (JObj (map (\<lambda>(k, d). (k, JStr d)) entries))"

definition preference_json :: "chatModelPreference \<Rightarrow> jsv" where
  "preference_json p = JObj
     [(''modelId'', optional_json (mp_modelId p)), (''effort'', optional_json (mp_effort p)),
      (''serviceTier'', optional_json (mp_serviceTier p)), (''updatedAt'', JStr (mp_updatedAt p))]"

definition saveModelPreferences :: "(string \<times> chatModelPreference) list \<Rightarrow> string" where
  "saveModelPreferences entries =
     versioned_file CHAT_MODEL_PREFERENCES_VERSION ''entries''
       (JObj (map (\<lambda>(k, p). (k, preference_json p)) entries))"

definition step_json :: "string \<times> planStepStatus \<Rightarrow> jsv" where
  "step_json s = JObj
     [(''step'', JStr (fst s)),
      (''status'', JStr (case snd s of StepPending \<Rightarrow> ''pending'' | StepInProgress \<Rightarrow> ''inProgress''
         | StepCompleted \<Rightarrow> ''completed''))]"

definition plan_json :: "activePlanState \<Rightarrow> jsv" where
  "plan_json p = JObj
     [(''threadId'', JStr (ap_threadId p)), (''turnId'', JStr (ap_turnId p)),
      (''explanation'', optional_json (ap_explanation p)), (''steps'', JArr (map step_json (ap_steps p))),
      (''deltaText'', JStr (ap_deltaText p)), (''updatedAt'', JStr (ap_updatedAt p))]"

definition savePlanSnapshots :: "(string \<times> activePlanState) list \<Rightarrow> string" where
  "savePlanSnapshots entries =
     versioned_file CHAT_PLAN_SNAPSHOTS_VERSION ''entries'' (JObj (map (\<lambda>(k, p). (k, plan_json p)) entries))"

definition saveWorkspaceFavorites :: "string list \<Rightarrow> string" where
  "saveWorkspaceFavorites paths = versioned_file WORKSPACE_FAVORITES_VERSION ''paths'' (JArr (map JStr paths))"

text \<open>
  Reading and writing through the storage.  A read gives the parsed text, or the fallback where there is
  no path or the storage fails; a failing write is ignored.
\<close>

definition stored_read :: "string option \<Rightarrow> (string \<Rightarrow> string option) \<Rightarrow> (string \<Rightarrow> 'v) \<Rightarrow> 'v \<Rightarrow> 'v" where
  "stored_read path storage parse fallback =
     (case path of
        None \<Rightarrow> fallback
      | Some p \<Rightarrow> if p = [] then fallback
          else (case storage p of Some raw \<Rightarrow> parse raw | None \<Rightarrow> fallback))"

definition stored_write ::
  "string option \<Rightarrow> (string \<Rightarrow> string option) \<Rightarrow> bool \<Rightarrow> string \<Rightarrow> (string \<Rightarrow> string option)" where
  "stored_write path storage fails contents =
     (case path of
        None \<Rightarrow> storage
      | Some p \<Rightarrow> if p = [] \<or> fails then storage else storage(p \<mapsto> contents))"

definition platform_path :: "string \<Rightarrow> string \<Rightarrow> string option \<Rightarrow> string option" where
  "platform_path platform name nativePath =
     (if platform = ''web'' then Some (''tethercode.main-screen.'' @ name) else nativePath)"

section \<open>The queue of a thread\<close>

record queuedMessage =
  qm_id :: string
  qm_createdAt :: string
  qm_content :: string

record threadQueueError =
  qe_message :: string
  qe_operation :: string
  qe_at :: string
  qe_itemId :: "string option"

record threadQueueState =
  qs_threadId :: string
  qs_items :: "queuedMessage list"
  qs_pendingSteers :: "queuedMessage list"
  qs_pendingSteerCount :: nat
  qs_waitingForToolCalls :: bool
  qs_steeringInFlight :: bool
  qs_lastError :: "threadQueueError option"

definition queuedMessageOf :: "jsv \<Rightarrow> queuedMessage option" where
  "queuedMessageOf item =
     (let entry = toRecord item in
      case (non_empty (trimmed_string (opt_prop entry ''id'')), non_empty (trimmed_string (opt_prop entry ''createdAt'')),
            non_empty (map_option unix_lines (as_string (opt_prop entry ''content'')))) of
        (Some i, Some createdAt, Some content) \<Rightarrow> Some \<lparr>qm_id = i, qm_createdAt = createdAt, qm_content = content\<rparr>
      | _ \<Rightarrow> None)"

definition queuedMessages :: "jsv \<Rightarrow> queuedMessage list" where
  "queuedMessages value = List.map_filter queuedMessageOf (with_default (as_array value) [])"

definition threadQueueErrorOf :: "jobj option \<Rightarrow> threadQueueError option" where
  "threadQueueErrorOf r =
     (let field = (\<lambda>k. non_empty (trimmed_string (opt_prop r k))) in
      case (field ''message'', field ''operation'', field ''at'') of
        (Some message, Some operation, Some instant) \<Rightarrow> Some
          \<lparr>qe_message = message, qe_operation = operation, qe_at = instant,
           qe_itemId = trimmed_string (opt_prop r ''itemId'')\<rparr>
      | _ \<Rightarrow> None)"

definition safe_integer :: "jsv \<Rightarrow> int option" where
  "safe_integer value =
     (case value of
        JNum q \<Rightarrow> if of_int \<lfloor>q\<rfloor> = q \<and> \<bar>q\<bar> \<le> 9007199254740991 then Some \<lfloor>q\<rfloor> else None
      | _ \<Rightarrow> None)"

definition parseBridgeThreadQueueState :: "jsv \<Rightarrow> threadQueueState option" where
  "parseBridgeThreadQueueState value =
     (case toRecord value of
        None \<Rightarrow> None
      | Some r \<Rightarrow>
          (case non_empty (trimmed_string (prop_of r ''threadId'')) of
             None \<Rightarrow> None
           | Some threadId \<Rightarrow>
               let steers = queuedMessages (prop_of r ''pendingSteers'') in Some
               \<lparr>qs_threadId = threadId, qs_items = queuedMessages (prop_of r ''items''), qs_pendingSteers = steers,
                qs_pendingSteerCount =
                  (case safe_integer (prop_of r ''pendingSteerCount'') of Some n \<Rightarrow> nat n | None \<Rightarrow> length steers),
                qs_waitingForToolCalls = (prop_of r ''waitingForToolCalls'' = JBool True),
                qs_steeringInFlight = (prop_of r ''steeringInFlight'' = JBool True),
                qs_lastError = threadQueueErrorOf (toRecord (prop_of r ''lastError''))\<rparr>))"

record steerOffer =
  so_hasQueuedMessage :: bool
  so_hasSelectedThread :: bool
  so_supportsSteer :: bool
  so_isPendingSteer :: bool
  so_isOptimistic :: bool
  so_actionInFlight :: bool

definition canOfferQueuedMessageSteer :: "steerOffer \<Rightarrow> bool" where
  "canOfferQueuedMessageSteer options \<longleftrightarrow>
     so_hasQueuedMessage options \<and> so_hasSelectedThread options \<and> so_supportsSteer options
     \<and> \<not> so_isPendingSteer options \<and> \<not> so_isOptimistic options \<and> \<not> so_actionInFlight options"

definition queuedMessageStatusLabel :: "bool \<Rightarrow> bool \<Rightarrow> bool \<Rightarrow> bool \<Rightarrow> bool \<Rightarrow> string" where
  "queuedMessageStatusLabel pendingSubmission steeringActive steeringInFlight steerPending waitingForToolCalls =
     (if pendingSubmission then ''Queueing message''
      else if steeringActive \<or> steeringInFlight then ''Steering turn''
      else if steerPending \<and> waitingForToolCalls then ''Will steer after the current tool finishes''
      else if steerPending then ''Waiting to steer''
      else ''Queued message'')"

end
