(* ===== verification/Submissions.thy ===== *)
theory Submissions
  imports ApiTurns ScreenFiles
begin

text \<open>
  From the composer to the bridge: drafts (\<open>screens/controllers/draftController.ts\<close>), submissions and
  their retries (\<open>submissionController.ts\<close>), answers and approvals (\<open>approvalController.ts\<close>), turns
  (\<open>turnExecutionController.ts\<close>) and when a chat counts as running (\<open>chatSyncController.ts\<close> with
  \<open>mainScreenHelperStatus.ts\<close>).
\<close>

section \<open>Drafts\<close>

definition submissionScopeKey :: "string \<Rightarrow> string option \<Rightarrow> string" where
  "submissionScopeKey profileId threadId =
     json_text (JArr [JStr (trim profileId), optional_json (non_empty (map_option trim threadId))])"

definition updateDraftEntries :: "(string \<times> string) list \<Rightarrow> string \<Rightarrow> string \<Rightarrow> (string \<times> string) list" where
  "updateDraftEntries entries ownerKey draft =
     (if trim draft \<noteq> [] then obj_set ownerKey draft entries else AList.delete ownerKey entries)"

record submissionDraftSnapshot =
  ds_scopeKey :: string
  ds_value :: string
  ds_revision :: nat

section \<open>Submissions\<close>

text \<open>
  A stored submission is taken out before it is handed out again and then marked as not cleared, so it
  is a value here.  \<open>sm_failed\<close> is a \<open>Map\<close> in the order of insertion.
\<close>

record composerSubmission =
  sb_id :: string
  sb_scopeKey :: string
  sb_draft :: string
  sb_mentions :: "string list"
  sb_localImages :: "string list"
  sb_clearedRevision :: "nat option"

record submissions =
  sm_failed :: "(string \<times> composerSubmission) list"
  sm_counter :: nat

definition newSubmissions :: submissions where
  "newSubmissions = \<lparr>sm_failed = [], sm_counter = 0\<rparr>"

definition FAILED_SUBMISSION_LIMIT :: nat where "FAILED_SUBMISSION_LIMIT = 32"

definition retryKey :: "string \<Rightarrow> string \<Rightarrow> string list \<Rightarrow> string list \<Rightarrow> string" where
  "retryKey scopeKey draft mentions localImages =
     json_text (JArr [JStr scopeKey, JStr draft, JArr (map JStr mentions), JArr (map JStr localImages)])"

definition key_of :: "composerSubmission \<Rightarrow> string" where
  "key_of s = retryKey (sb_scopeKey s) (sb_draft s) (sb_mentions s) (sb_localImages s)"

text \<open>
  What the outside gives to a new id: the generator of the owner, the identifiers of the two platforms
  where they can be had, the clock and the random digits.
\<close>

record idSource =
  is_generated :: string
  is_expoUuid :: "string option"
  is_webUuid :: "string option"
  is_now :: nat
  is_random :: string

definition createSubmissionNonce :: "idSource \<Rightarrow> string" where
  "createSubmissionNonce source =
     (let usable = (\<lambda>u. case u of Some v \<Rightarrow> if trim v \<noteq> [] then Some v else None | None \<Rightarrow> None) in
      with_default (or_else (usable (is_expoUuid source)) (usable (is_webUuid source)))
        (base36 (is_now source) @ ''-'' @ is_random source))"

definition begin_submission ::
  "submissionDraftSnapshot \<Rightarrow> string list \<Rightarrow> string list \<Rightarrow> idSource \<Rightarrow> submissions
     \<Rightarrow> composerSubmission \<times> submissions" where
  "begin_submission snapshot mentions localImages source c =
     (let key = retryKey (ds_scopeKey snapshot) (ds_value snapshot) mentions localImages in
      case map_of (sm_failed c) key of
        Some retry \<Rightarrow> (retry\<lparr>sb_clearedRevision := None\<rparr>, c\<lparr>sm_failed := AList.delete key (sm_failed c)\<rparr>)
      | None \<Rightarrow>
          let generated = trim (is_generated source); counter = sm_counter c + 1 in
          (\<lparr>sb_id = (if generated \<noteq> [] then generated
              else ''submission-'' @ createSubmissionNonce source @ ''-'' @ base36 counter),
            sb_scopeKey = ds_scopeKey snapshot, sb_draft = ds_value snapshot, sb_mentions = mentions,
            sb_localImages = localImages, sb_clearedRevision = None\<rparr>,
           c\<lparr>sm_counter := counter\<rparr>))"

definition markCleared :: "nat \<Rightarrow> composerSubmission \<Rightarrow> composerSubmission" where
  "markCleared revision submission = submission\<lparr>sb_clearedRevision := Some revision\<rparr>"

definition put_last :: "string \<Rightarrow> 'v \<Rightarrow> (string \<times> 'v) list \<Rightarrow> (string \<times> 'v) list" where
  "put_last k v m = AList.delete k m @ [(k, v)]"

definition fail_submission :: "composerSubmission \<Rightarrow> submissions \<Rightarrow> submissions" where
  "fail_submission submission c =
     c\<lparr>sm_failed := last_n FAILED_SUBMISSION_LIMIT (put_last (key_of submission) submission (sm_failed c))\<rparr>"

text \<open>Whether the text of a failed submission may be put back into the composer\<close>

definition may_restore :: "composerSubmission \<Rightarrow> submissionDraftSnapshot \<Rightarrow> bool" where
  "may_restore submission current \<longleftrightarrow>
     sb_clearedRevision submission \<noteq> None \<and> ds_scopeKey current = sb_scopeKey submission
     \<and> Some (ds_revision current) = sb_clearedRevision submission \<and> ds_value current = []"

definition succeed :: "composerSubmission \<Rightarrow> submissions \<Rightarrow> submissions" where
  "succeed submission c = c\<lparr>sm_failed := AList.delete (key_of submission) (sm_failed c)\<rparr>"

section \<open>Answers\<close>

definition must_be :: "string \<Rightarrow> string \<Rightarrow> string" where
  "must_be header kind = [CHR 0x22] @ header @ [CHR 0x22] @ '' must be '' @ kind"

text \<open>The value of a draft that is not blank, or what is wrong with it\<close>

definition answer_value :: "userInputQuestion \<Rightarrow> string \<Rightarrow> string + jsv" where
  "answer_value question draft =
     (let kind = uq_fieldType question; header = uq_header question;
          number = (case js_number draft of Some q \<Rightarrow> if finite_number q then Some q else None | None \<Rightarrow> None)
      in if kind = ''integer''
         then (case number of
             Some q \<Rightarrow> if of_int \<lfloor>q\<rfloor> = q then Inr (JNum q) else Inl (must_be header ''an integer'')
           | None \<Rightarrow> Inl (must_be header ''an integer''))
         else if kind = ''number''
         then (case number of Some q \<Rightarrow> Inr (JNum q) | None \<Rightarrow> Inl (must_be header ''a number''))
         else if kind = ''boolean''
         then (if draft = ''true'' then Inr (JBool True) else if draft = ''false'' then Inr (JBool False)
           else Inl (must_be header ''true or false''))
         else if kind = ''string-array'' then Inr (JArr (map JStr (normalizeQuestionAnswers draft)))
         else Inr (JStr draft))"

fun answer_questions ::
  "userInputQuestion list \<Rightarrow> (string \<times> string) list \<Rightarrow> jobj \<Rightarrow> string + jobj" where
  "answer_questions [] drafts answers = Inr answers"
| "answer_questions (question # questions) drafts answers =
     (let draft = trim (with_default (map_of drafts (uq_id question)) []) in
      if draft = []
      then if uq_required question then Inl (''Please answer '' @ [CHR 0x22] @ uq_header question @ [CHR 0x22])
        else answer_questions questions drafts answers
      else case answer_value question draft of
        Inl e \<Rightarrow> Inl e
      | Inr v \<Rightarrow> answer_questions questions drafts (obj_set (uq_id question) v answers))"

definition buildUserInputAnswers :: "pendingUserInputRequest \<Rightarrow> (string \<times> string) list \<Rightarrow> string + jobj" where
  "buildUserInputAnswers request drafts = answer_questions (ui_questions request) drafts []"

section \<open>Approvals\<close>

definition findForThread :: "string \<Rightarrow> pendingApproval list \<Rightarrow> pendingApproval option" where
  "findForThread threadId approvals = find (\<lambda>a. pa_threadId a = threadId) approvals"

record approvalResolutions =
  ar_failed :: "(string \<times> string) list"
  ar_counter :: nat

definition resolution_key :: "string \<Rightarrow> string \<Rightarrow> string" where
  "resolution_key approvalId optionId = approvalId @ '':'' @ optionId"

text \<open>\<open>resolveApproval\<close> up to the request, with the resolution id it sends, and after it\<close>

definition startResolution :: "string \<Rightarrow> string \<Rightarrow> nat \<Rightarrow> approvalResolutions \<Rightarrow> string \<times> approvalResolutions" where
  "startResolution approvalId optionId now a =
     (case map_of (ar_failed a) (resolution_key approvalId optionId) of
        Some resolutionId \<Rightarrow> (resolutionId, a)
      | None \<Rightarrow>
          let counter = ar_counter a + 1 in
          (''approval-'' @ base36 now @ ''-'' @ base36 counter, a\<lparr>ar_counter := counter\<rparr>))"

definition endResolution :: "string \<Rightarrow> string \<Rightarrow> string \<Rightarrow> bool \<Rightarrow> approvalResolutions \<Rightarrow> approvalResolutions" where
  "endResolution approvalId optionId resolutionId resolved a =
     (let key = resolution_key approvalId optionId in
      if resolved then a\<lparr>ar_failed := AList.delete key (ar_failed a)\<rparr>
      else a\<lparr>ar_failed := AList.update key resolutionId (ar_failed a)\<rparr>)"

section \<open>Turns\<close>

text \<open>The message may depend on the chat that was created.\<close>

definition createAndStart ::
  "apiEnv \<Rightarrow> string \<Rightarrow> createChatRequest \<Rightarrow> (mappedChat \<Rightarrow> sendChatMessageRequest) \<Rightarrow> mappedChat call" where
  "createAndStart env submissionId create message =
     await (createChatIdempotent env create submissionId) (\<lambda>created.
       sendChatMessageIdempotent env (cs_id created) (message created) submissionId)"

definition sendOrQueue ::
  "apiEnv \<Rightarrow> string \<Rightarrow> sendChatMessageRequest \<Rightarrow> bool \<Rightarrow> string \<Rightarrow> sendOrQueueResult call" where
  "sendOrQueue env threadId message skipResume submissionId =
     sendOrQueueChatMessage env threadId message \<lparr>po_skipResume = skipResume, po_submissionId = Some submissionId\<rparr>"

definition interrupt :: "apiEnv \<Rightarrow> string \<Rightarrow> string option \<Rightarrow> string option call" where
  "interrupt env threadId turnId =
     (case non_empty turnId of
        Some t \<Rightarrow> await (interruptTurn threadId t) (\<lambda>_. give (Some t))
      | None \<Rightarrow> interruptLatestTurn env threadId)"

section \<open>Whether a chat is running\<close>

definition RUN_WATCHDOG_MS :: int where "RUN_WATCHDOG_MS = 60000"
definition UNANSWERED_USER_RUNNING_TTL_MS :: int where "UNANSWERED_USER_RUNNING_TTL_MS = 90000"
definition ACTIVE_CHAT_SYNC_INTERVAL_MS :: int where "ACTIVE_CHAT_SYNC_INTERVAL_MS = 2000"
definition IDLE_CHAT_SYNC_INTERVAL_MS :: int where "IDLE_CHAT_SYNC_INTERVAL_MS = 5000"
definition BACKGROUND_CHAT_SYNC_INTERVAL_MS :: int where "BACKGROUND_CHAT_SYNC_INTERVAL_MS = 15000"

text \<open>Every status is definitive, so nothing is guessed from the messages.\<close>

definition isChatSummaryLikelyRunning :: "mappedChat \<Rightarrow> bool" where
  "isChatSummaryLikelyRunning chat \<longleftrightarrow> cs_status chat = ChatRunning"

definition isChatLikelyRunning :: "mappedChat \<Rightarrow> bool" where
  "isChatLikelyRunning chat \<longleftrightarrow> cs_status chat = ChatRunning"

definition latestAssistantMessage :: "chatMessage list \<Rightarrow> chatMessage option" where
  "latestAssistantMessage messages = find (\<lambda>m. cm_role m = Assistant) (rev messages)"

definition hasRecentUnansweredUserTurn :: "(string \<Rightarrow> int option) \<Rightarrow> int \<Rightarrow> mappedChat \<Rightarrow> bool" where
  "hasRecentUnansweredUserTurn other now chat \<longleftrightarrow>
     (let recent = takeWhile (\<lambda>m. cm_role m \<noteq> User) (rev (cd_messages chat));
          older = dropWhile (\<lambda>m. cm_role m \<noteq> User) (rev (cd_messages chat))
      in case older of
           [] \<Rightarrow> False
         | lastUser # _ \<Rightarrow>
             list_all (\<lambda>m. cm_role m \<noteq> Assistant) recent
             \<and> (case date_parse other (cm_createdAt lastUser) of
                  Some userCreatedAtMs \<Rightarrow> now - userCreatedAtMs < UNANSWERED_USER_RUNNING_TTL_MS
                | None \<Rightarrow> False))"

definition didAssistantMessageProgress :: "mappedChat option \<Rightarrow> mappedChat \<Rightarrow> bool" where
  "didAssistantMessageProgress previous chat =
     (case previous of
        None \<Rightarrow> False
      | Some p \<Rightarrow>
          if cs_id p \<noteq> cs_id chat then False
          else (case (latestAssistantMessage (cd_messages p), latestAssistantMessage (cd_messages chat)) of
             (_, None) \<Rightarrow> False
           | (None, Some m) \<Rightarrow> trim (getMessageText m) \<noteq> []
           | (Some old, Some m) \<Rightarrow>
               if cm_id m = cm_id old then units (getMessageText m) > units (getMessageText old)
               else length (cd_messages chat) > length (cd_messages p) \<and> trim (getMessageText m) \<noteq> []))"

record chatSyncAssessment =
  sa_terminal :: bool
  sa_shouldShowRunning :: bool
  sa_shouldRefreshWatchdog :: bool
  sa_watchdogDurationMs :: int

definition assessChatSync ::
  "(string \<Rightarrow> int option) \<Rightarrow> int \<Rightarrow> mappedChat option \<Rightarrow> mappedChat \<Rightarrow> bool \<Rightarrow> chatSyncAssessment" where
  "assessChatSync other now previous latest watchdogActive =
     (let terminal = (cs_status latest = ChatComplete \<or> cs_status latest = ChatProjection.ChatFailed);
          assistantProgress = (\<not> terminal \<and> didAssistantMessageProgress previous latest);
          pendingUserMessage = (\<not> terminal \<and> hasRecentUnansweredUserTurn other now latest);
          runningFromChat = (isChatLikelyRunning latest \<or> assistantProgress \<or> pendingUserMessage)
      in \<lparr>sa_terminal = terminal,
          sa_shouldShowRunning = (runningFromChat \<or> (\<not> terminal \<and> watchdogActive)),
          sa_shouldRefreshWatchdog = runningFromChat,
          sa_watchdogDurationMs =
            (if assistantProgress \<and> \<not> isChatLikelyRunning latest then RUN_WATCHDOG_MS div 4 else RUN_WATCHDOG_MS)\<rparr>)"

definition getChatSyncInterval :: "bool \<Rightarrow> bool \<Rightarrow> int" where
  "getChatSyncInterval appActive turnActive =
     (if \<not> appActive then BACKGROUND_CHAT_SYNC_INTERVAL_MS
      else if turnActive then ACTIVE_CHAT_SYNC_INTERVAL_MS else IDLE_CHAT_SYNC_INTERVAL_MS)"

end
