(* ===== verification/SubmissionsLaws.thy ===== *)
theory SubmissionsLaws
  imports Submissions AppSettings
begin

text \<open>
  What the screen keeps can be read back, drafts included; a failed submission is retried under its own
  id, and other submissions get new ones; answers that are sent have the types that were asked for.
\<close>

section \<open>Files\<close>

lemma read_keyed_map:
  assumes "canonical es" "\<And>k v. (k, v) \<in> set es \<Longrightarrow> trimmed k \<and> read k v = Some (g k v)"
  shows "read_keyed read es = map (\<lambda>(k, v). (k, g k v)) es"
  using assms
proof (induction es rule: rev_induct)
  case (snoc x es)
  obtain k v where x: "x = (k, v)" by (cases x)
  have last: "canonical (map (\<lambda>(k, v). (k, g k v)) (es @ [x]))"
    using snoc.prems(1) by (simp add: canonical_def o_def case_prod_beta)
  have "read_keyed read es = map (\<lambda>(k, v). (k, g k v)) es"
    using snoc by (intro snoc.IH) (auto intro: canonical_butlast)
  moreover have "trimmed k" "read k v = Some (g k v)" using snoc.prems(2) [of k v] x by simp_all
  moreover have "obj_set k (g k v) (map (\<lambda>(k, v). (k, g k v)) es) = map (\<lambda>(k, v). (k, g k v)) es @ [(k, g k v)]"
    using last x by (intro obj_set_last) simp
  ultimately show ?case using x by (simp add: read_keyed_def keyed_def trimmed_def)
qed (simp add: read_keyed_def)

lemma read_keyed_induct:
  assumes "P []" "\<And>m k v. P m \<Longrightarrow> trimmed k \<Longrightarrow> (\<exists>raw. read k raw = Some v) \<Longrightarrow> P (obj_set k v m)"
  shows "P (read_keyed read es)"
proof -
  have "P (keyed read e m)" if "P m" for e m
    using that assms(2) [OF that, of "trim (fst e)"] by (cases e) (auto simp: keyed_def split: option.split)
  then have "P m \<Longrightarrow> P (fold (keyed read) es m)" for m by (induction es arbitrary: m) simp_all
  then show ?thesis unfolding read_keyed_def using assms(1) .
qed

lemma entries_object:
  "from_entries [(''version'', a), (''entries'', b)] = [(''version'', a), (''entries'', b)]"
  "from_entries [(''version'', a), (''paths'', b)] = [(''version'', a), (''paths'', b)]"
  by (simp_all add: from_entries_def obj_set_def array_index_def is_digit_def)

lemma versioned_back:
  assumes "of_int \<lfloor>version\<rfloor> = version" "json_plain contents" "key \<in> {''entries'', ''paths''}"
  shows "\<exists>r. versioned version (versioned_file version key contents) = Some r \<and> prop_of r key = contents"
proof -
  have plain: "json_plain (JObj [(''version'', JNum version), (key, contents)])"
    using assms by (auto simp: entries_object)
  show ?thesis
    unfolding versioned_def versioned_file_def object_not_blank(1) json_parse_text [OF plain]
    using object_not_blank(2) assms(3) by (auto simp: prop_of_def)
qed

lemma plain_optional [simp]: "json_plain (optional_json s)"
  by (simp add: optional_json_def split: option.split)

lemma canonical_map_values: "canonical (map (\<lambda>(k, v). (k, f k v)) m) \<longleftrightarrow> canonical m"
  by (simp add: canonical_def o_def case_prod_beta)

lemma canonical_delete: "canonical m \<Longrightarrow> canonical (AList.delete k m)"
  by (simp add: canonical_def AList.delete_eq sorted_wrt_map sorted_wrt_filter)

lemma optional_string [simp]: "as_string (optional_json s) = s"
  by (simp add: optional_json_def split: option.split)

lemma in_map_filter: "x \<in> set (List.map_filter f xs) \<Longrightarrow> \<exists>y. f y = Some x"
  by (induction xs) (auto simp: List.map_filter_simps split: option.splits)

text \<open>How the value of an entry is read and written\<close>

locale entry_codec =
  fixes read :: "string \<Rightarrow> jsv \<Rightarrow> 'v option"
    and writes :: "'v \<Rightarrow> jsv"
    and kept :: "'v \<Rightarrow> bool"
    and change :: "'v \<Rightarrow> 'v"
  assumes read_writes: "kept v \<Longrightarrow> read k (writes v) = Some (change v)"
    and writes_plain: "json_plain (writes v)"
begin

lemma file_read:
  assumes "of_int \<lfloor>version\<rfloor> = version" "canonical m" "\<forall>(k, v) \<in> set m. trimmed k \<and> kept v"
  shows "read_keyed read (versioned_entries version
      (versioned_file version ''entries'' (JObj (map (\<lambda>(k, v). (k, writes v)) m)))) = map (\<lambda>(k, v). (k, change v)) m"
proof -
  let ?es = "map (\<lambda>(k, v). (k, writes v)) m"
  have canonical: "canonical ?es" using assms(2) by (simp add: canonical_map_values)
  then have "json_plain (JObj ?es)" by (rule plain_object) (auto simp: list_all_iff writes_plain)
  then obtain r where "versioned version (versioned_file version ''entries'' (JObj ?es)) = Some r"
    "prop_of r ''entries'' = JObj ?es"
    using versioned_back [OF assms(1), of "JObj ?es" "''entries''"] by auto
  then have "versioned_entries version (versioned_file version ''entries'' (JObj ?es)) = ?es"
    by (simp add: versioned_entries_def js_entries_def)
  moreover have "read_keyed read ?es = map (\<lambda>(k, v). (k, the (read k v))) ?es"
    using canonical assms(3) read_writes by (intro read_keyed_map) auto
  moreover have "\<dots> = map (\<lambda>(k, v). (k, change v)) m" using assms(3) read_writes by auto
  ultimately show ?thesis by simp
qed

end

locale stored_entries = entry_codec read writes kept "\<lambda>v. v"
  for read :: "string \<Rightarrow> jsv \<Rightarrow> 'v option" and writes kept +
  assumes read_kept: "trimmed k \<Longrightarrow> read k raw = Some v \<Longrightarrow> kept v"
begin

lemma entries_kept: "canonical (read_keyed read es) \<and> (\<forall>(k, v) \<in> set (read_keyed read es). trimmed k \<and> kept v)"
proof (rule read_keyed_induct)
  fix m :: "(string \<times> 'v) list" and k v
  assume m: "canonical m \<and> (\<forall>(k, v) \<in> set m. trimmed k \<and> kept v)" "trimmed k" "\<exists>raw. read k raw = Some v"
  have found: "map_of (obj_set k v m) j = Some x \<Longrightarrow> trimmed j \<and> kept x" for j x
    using m read_kept by (auto split: if_splits dest!: map_of_SomeD)
  have canonical: "canonical (obj_set k v m)" using m(1) by (simp add: canonical_obj_set)
  have "trimmed j \<and> kept x" if "(j, x) \<in> set (obj_set k v m)" for j x
    using found [of j x] map_of_is_SomeI [OF canonical_distinct [OF canonical] that] by simp
  with canonical show "canonical (obj_set k v m) \<and> (\<forall>(k, v) \<in> set (obj_set k v m). trimmed k \<and> kept v)"
    by blast
qed simp

lemma read_again:
  assumes "of_int \<lfloor>version\<rfloor> = version" "m = read_keyed read es"
  shows "read_keyed read (versioned_entries version
      (versioned_file version ''entries'' (JObj (map (\<lambda>(k, v). (k, writes v)) m)))) = m"
  using file_read [OF assms(1), of m] entries_kept [of es] unfolding assms(2) [symmetric] by (simp add: case_prod_beta)

end

lemma unix_lines_text: "d \<noteq> [] \<Longrightarrow> unix_lines d \<noteq> []"
proof (cases d)
  case (Cons c r)
  then show ?thesis unfolding unix_lines_def newline_def by (simp only: replace_all.simps [of _ _ "c # r"] list.case) simp
qed simp

interpretation drafts: entry_codec draftOf JStr "\<lambda>d. trim d \<noteq> []" unix_lines
proof unfold_locales
  show "draftOf k (JStr d) = Some (unix_lines d)" if "trim d \<noteq> []" for k d
  proof -
    have "d \<noteq> []" using that by auto
    then show ?thesis by (simp add: draftOf_def non_empty_def unix_lines_text)
  qed
qed simp

lemma step_back: "fst s \<noteq> [] \<Longrightarrow> turnPlanStep (step_json s) = Some s"
  by (cases s; cases "snd s") (auto simp: turnPlanStep_def step_json_def prop_of_def non_empty_def stepStatusOf_def)

lemma step_named: "turnPlanStep v = Some s \<Longrightarrow> fst s \<noteq> []"
  by (auto simp: turnPlanStep_def non_empty_def split: option.splits if_splits)

lemma map_filter_back: "\<forall>x \<in> set xs. f (g x) = Some x \<Longrightarrow> List.map_filter f (map g xs) = xs"
  by (induction xs) (auto simp: List.map_filter_simps)

interpretation plans: stored_entries planSnapshotOf plan_json
  "\<lambda>p. ap_threadId p \<noteq> [] \<and> ap_turnId p \<noteq> [] \<and> (\<forall>s \<in> set (ap_steps p). fst s \<noteq> [])"
proof unfold_locales
  show "planSnapshotOf k (plan_json p) = Some p"
    if "ap_threadId p \<noteq> [] \<and> ap_turnId p \<noteq> [] \<and> (\<forall>s \<in> set (ap_steps p). fst s \<noteq> [])" for k p
    using that by (cases p)
      (simp add: planSnapshotOf_def plan_json_def prop_of_def non_empty_def map_filter_back step_back)
  show "json_plain (plan_json p)" for p
    by (simp add: plan_json_def from_entries_def obj_set_def array_index_def is_digit_def list_all_iff step_json_def)
  show "ap_threadId p \<noteq> [] \<and> ap_turnId p \<noteq> [] \<and> (\<forall>s \<in> set (ap_steps p). fst s \<noteq> [])"
    if "planSnapshotOf k raw = Some p" for k raw p
    using that by (auto simp: planSnapshotOf_def non_empty_def Let_def dest!: in_map_filter step_named
      split: option.splits if_splits)
qed

definition preference_kept :: "chatModelPreference \<Rightarrow> bool" where
  "preference_kept p \<longleftrightarrow> normalizeModelId (mp_modelId p) = mp_modelId p
     \<and> normalizeReasoningEffort (mp_effort p) = mp_effort p
     \<and> toSelectedServiceTier (preferredServiceTier (mp_serviceTier p)) = mp_serviceTier p"

lemma effort_again: "normalizeReasoningEffort (normalizeReasoningEffort e) = normalizeReasoningEffort e"
proof (cases e)
  case (Some a)
  define W where "W = set [''none'', ''minimal'', ''low'', ''medium'', ''high'', ''xhigh'', ''max'']"
  have "list_all (\<lambda>w. lower_ascii (trim w) = w) [''none'', ''minimal'', ''low'', ''medium'', ''high'', ''xhigh'', ''max'']"
    by code_simp
  then have "w \<in> W \<Longrightarrow> lower_ascii (trim w) = w" for w unfolding list_all_iff W_def by blast
  then show ?thesis unfolding Some normalizeReasoningEffort_def Let_def W_def [symmetric] by simp
qed (simp add: normalizeReasoningEffort_def)

lemma model_again: "normalizeModelId (normalizeModelId m) = normalizeModelId m"
  by (cases m) (auto simp: normalizeModelId_def trimmed_or_none_def non_empty_def)

lemma tier_again: "toSelectedServiceTier (preferredServiceTier (toSelectedServiceTier t)) = toSelectedServiceTier t"
proof -
  have "preferredServiceTier (Some ''fast'') = Some ''fast''" by code_simp
  moreover have "preferredServiceTier None = None" by (simp add: preferredServiceTier_def)
  ultimately show ?thesis by (simp add: toSelectedServiceTier_def)
qed

interpretation preferences: stored_entries modelPreferenceOf preference_json preference_kept
proof unfold_locales
  show "modelPreferenceOf k (preference_json p) = Some p" if "preference_kept p" for k p
    using that by (cases p)
      (simp add: modelPreferenceOf_def preference_json_def prop_of_def preference_kept_def)
  show "json_plain (preference_json p)" for p
    by (simp add: preference_json_def from_entries_def obj_set_def array_index_def is_digit_def)
  show "preference_kept p" if "modelPreferenceOf k raw = Some p" for k raw p
    using that by (auto simp: modelPreferenceOf_def preference_kept_def effort_again model_again tier_again)
qed

lemma favorites_from:
  "distinct paths \<and> length paths \<le> 4 \<and> (\<forall>x \<in> set paths. trimmed x) \<Longrightarrow>
   distinct (foldl favorite_path paths vs) \<and> length (foldl favorite_path paths vs) \<le> 4
   \<and> (\<forall>x \<in> set (foldl favorite_path paths vs). trimmed x)"
proof (induction vs arbitrary: paths)
  case (Cons v vs)
  have "distinct (favorite_path paths v) \<and> length (favorite_path paths v) \<le> 4
    \<and> (\<forall>x \<in> set (favorite_path paths v). trimmed x)"
    using Cons.prems
    by (auto simp: favorite_path_def normalizeWorkspacePath_def trimmed_or_none_def non_empty_def
      WORKSPACE_FAVORITES_LIMIT_def split: option.splits if_splits)
  with Cons.IH show ?case by simp
qed simp

lemma favorites_back:
  "distinct (xs @ ys) \<Longrightarrow> length (xs @ ys) \<le> 4 \<Longrightarrow> \<forall>x \<in> set ys. trimmed x \<Longrightarrow>
   foldl favorite_path xs (map JStr ys) = xs @ ys"
  by (induction ys arbitrary: xs)
    (auto simp: favorite_path_def normalizeWorkspacePath_def trimmed_or_none_def non_empty_def trimmed_def
      WORKSPACE_FAVORITES_LIMIT_def)

text \<open>Files of the screen.  Whatever a file holds, the preferences, plans and favorites that were read
  from it, once written, are read back as they were; favorites are at most four different paths.\<close>

theorem screen_files_read_back:
  "parseChatModelPreferences (saveModelPreferences (parseChatModelPreferences raw)) = parseChatModelPreferences raw
   \<and> parseChatPlanSnapshots (savePlanSnapshots (parseChatPlanSnapshots raw)) = parseChatPlanSnapshots raw
   \<and> parseWorkspaceFavoritePaths (saveWorkspaceFavorites (parseWorkspaceFavoritePaths raw)) = parseWorkspaceFavoritePaths raw
   \<and> distinct (parseWorkspaceFavoritePaths raw) \<and> length (parseWorkspaceFavoritePaths raw) \<le> 4"
proof -
  let ?fs = "parseWorkspaceFavoritePaths raw"
  have fs: "distinct ?fs \<and> length ?fs \<le> 4 \<and> (\<forall>x \<in> set ?fs. trimmed x)"
    using favorites_from [of "[]"] by (auto simp: parseWorkspaceFavoritePaths_def split: option.split)
  obtain r where "versioned 1 (saveWorkspaceFavorites ?fs) = Some r" "prop_of r ''paths'' = JArr (map JStr ?fs)"
    using versioned_back [of 1 "JArr (map JStr ?fs)" "''paths''"]
    by (auto simp: saveWorkspaceFavorites_def WORKSPACE_FAVORITES_VERSION_def list_all_iff)
  then have "parseWorkspaceFavoritePaths (saveWorkspaceFavorites ?fs) = ?fs"
    using favorites_back [of "[]" ?fs] fs
    by (simp add: parseWorkspaceFavoritePaths_def [of "saveWorkspaceFavorites ?fs"] WORKSPACE_FAVORITES_VERSION_def)
  moreover have "parseChatModelPreferences (saveModelPreferences (parseChatModelPreferences raw)) = parseChatModelPreferences raw"
    unfolding parseChatModelPreferences_def saveModelPreferences_def
    by (rule preferences.read_again) (simp_all add: CHAT_MODEL_PREFERENCES_VERSION_def)
  moreover have "parseChatPlanSnapshots (savePlanSnapshots (parseChatPlanSnapshots raw)) = parseChatPlanSnapshots raw"
    unfolding parseChatPlanSnapshots_def savePlanSnapshots_def
    by (rule plans.read_again) (simp_all add: CHAT_PLAN_SNAPSHOTS_VERSION_def)
  ultimately show ?thesis using fs by simp
qed

section \<open>Drafts\<close>

definition scope_of :: "string \<Rightarrow> string option \<Rightarrow> string \<times> string option" where
  "scope_of profileId threadId = (trim profileId, non_empty (map_option trim threadId))"

lemma json_text_inject: "json_plain v \<Longrightarrow> json_plain w \<Longrightarrow> json_text v = json_text w \<longleftrightarrow> v = w"
  using json_parse_text by (metis option.inject)

lemma optional_json_inject [simp]: "optional_json s = optional_json t \<longleftrightarrow> s = t"
  using optional_string by metis

lemma scope_keys_differ:
  "submissionScopeKey p t = submissionScopeKey p' t' \<longleftrightarrow> scope_of p t = scope_of p' t'"
proof -
  have "submissionScopeKey p t = submissionScopeKey p' t' \<longleftrightarrow>
      JArr [JStr (trim p), optional_json (non_empty (map_option trim t))]
      = JArr [JStr (trim p'), optional_json (non_empty (map_option trim t'))]"
    unfolding submissionScopeKey_def by (rule json_text_inject) simp_all
  then show ?thesis by (auto simp: scope_of_def)
qed

lemma bracket_not_space:
  "\<forall>u \<in> set white_space. \<not> prefix u (CHR ''['' # s)" "\<forall>u \<in> set (map rev white_space). \<not> prefix u (CHR '']'' # s)"
  by (simp_all add: white_space_def)

lemma trim_brackets: "trim (''['' @ s @ '']'') = ''['' @ s @ '']''"
  using bracket_not_space [of "s @ '']''"] bracket_not_space [of "rev s @ ''[''"]
  by (simp add: trim_def trim_start_def trim_end_def strip_units_id leading_unit_None)

lemma scope_key_trimmed: "trimmed (submissionScopeKey p t)"
  by (simp only: submissionScopeKey_def json_text.simps trimmed_def trim_brackets) simp

text \<open>The entries after drafts were typed, and the last draft of a scope\<close>

definition draftsAfter :: "(string \<times> string option \<times> string) list \<Rightarrow> (string \<times> string) list" where
  "draftsAfter typed =
     fold (\<lambda>(p, t, draft) entries. updateDraftEntries entries (submissionScopeKey p t) draft) typed []"

definition lastDraft :: "string \<Rightarrow> string option \<Rightarrow> (string \<times> string option \<times> string) list \<Rightarrow> string option" where
  "lastDraft profileId threadId typed =
     (case rev (filter (\<lambda>(p, t, draft). scope_of p t = scope_of profileId threadId) typed) of
        (p, t, draft) # _ \<Rightarrow> if trim draft = [] then None else Some draft
      | [] \<Rightarrow> None)"

lemma drafts_kept:
  "canonical (draftsAfter typed) \<and> (\<forall>(k, d) \<in> set (draftsAfter typed). trimmed k \<and> trim d \<noteq> [])"
proof (induction typed rule: rev_induct)
  case (snoc x typed)
  obtain p t d where x: "x = (p, t, d)" by (cases x)
  let ?m = "draftsAfter typed"
  have step: "draftsAfter (typed @ [x]) = updateDraftEntries ?m (submissionScopeKey p t) d" by (simp add: draftsAfter_def x)
  have canonical: "canonical (draftsAfter (typed @ [x]))"
    using snoc unfolding step by (simp add: updateDraftEntries_def canonical_obj_set canonical_delete)
  have "trimmed k \<and> trim v \<noteq> []" if "(k, v) \<in> set (draftsAfter (typed @ [x]))" for k v
  proof -
    have "map_of (draftsAfter (typed @ [x])) k = Some v"
      using that canonical_distinct [OF canonical] by simp
    with snoc scope_key_trimmed show ?thesis
      unfolding step updateDraftEntries_def by (auto simp: delete_conv' split: if_splits dest!: map_of_SomeD)
  qed
  with canonical show ?case by blast
qed (simp add: draftsAfter_def)

lemma drafts_latest: "map_of (draftsAfter typed) (submissionScopeKey p t) = lastDraft p t typed"
proof (induction typed rule: rev_induct)
  case (snoc x typed)
  obtain p' t' d where x: "x = (p', t', d)" by (cases x)
  have "draftsAfter (typed @ [x]) = updateDraftEntries (draftsAfter typed) (submissionScopeKey p' t') d"
    by (simp add: draftsAfter_def x)
  moreover have "lastDraft p t (typed @ [x]) =
      (if scope_of p' t' = scope_of p t then if trim d = [] then None else Some d else lastDraft p t typed)"
    by (simp add: lastDraft_def x)
  ultimately show ?case using snoc scope_keys_differ [of p t p' t']
    by (auto simp: updateDraftEntries_def delete_conv')
qed (simp add: draftsAfter_def lastDraft_def)

text \<open>C15: drafts.  After any drafts were typed in any scopes, the file that is written gives every profile
  and thread its last draft back, with line feeds for line ends, and none where the last draft was blank.\<close>

theorem drafts_survive_restart:
  "map_of (parseChatDrafts (serializeDraftEntries (draftsAfter typed))) (submissionScopeKey profileId threadId)
   = map_option unix_lines (lastDraft profileId threadId typed)"
proof -
  have "parseChatDrafts (serializeDraftEntries (draftsAfter typed))
      = map (\<lambda>(k, d). (k, unix_lines d)) (draftsAfter typed)"
    unfolding parseChatDrafts_def serializeDraftEntries_def
    using drafts_kept [of typed] by (intro drafts.file_read) (simp_all add: CHAT_DRAFTS_VERSION_def)
  then show ?thesis by (simp add: map_of_map drafts_latest)
qed

section \<open>Submissions\<close>

lemma retryKey_inject:
  "retryKey scope draft mentions images = retryKey scope' draft' mentions' images' \<longleftrightarrow>
   (scope, draft, mentions, images) = (scope', draft', mentions', images')"
proof -
  have "inj JStr" by (simp add: inj_on_def)
  moreover have "retryKey scope draft mentions images = retryKey scope' draft' mentions' images' \<longleftrightarrow>
      JArr [JStr scope, JStr draft, JArr (map JStr mentions), JArr (map JStr images)]
      = JArr [JStr scope', JStr draft', JArr (map JStr mentions'), JArr (map JStr images')]"
    unfolding retryKey_def by (rule json_text_inject) (simp_all add: list_all_iff)
  ultimately show ?thesis by (simp add: inj_map_eq_map)
qed

text \<open>What happens to the controller, and which draft with which attachments an event is about\<close>

datatype submissionEvent =
    Began submissionDraftSnapshot "string list" "string list" idSource
  | Failed composerSubmission
  | Succeeded composerSubmission

definition draft_of :: "composerSubmission \<Rightarrow> string \<times> string \<times> string list \<times> string list" where
  "draft_of s = (sb_scopeKey s, sb_draft s, sb_mentions s, sb_localImages s)"

fun about :: "submissionEvent \<Rightarrow> string \<times> string \<times> string list \<times> string list" where
  "about (Began snapshot mentions images source) = (ds_scopeKey snapshot, ds_value snapshot, mentions, images)"
| "about (Failed s) = draft_of s"
| "about (Succeeded s) = draft_of s"

fun submissionStep :: "submissionEvent \<Rightarrow> submissions \<Rightarrow> submissions" where
  "submissionStep (Began snapshot mentions images source) c = snd (begin_submission snapshot mentions images source c)"
| "submissionStep (Failed s) c = fail_submission s c"
| "submissionStep (Succeeded s) c = succeed s c"

definition is_failure :: "submissionEvent \<Rightarrow> bool" where
  "is_failure e \<longleftrightarrow> (case e of Failed _ \<Rightarrow> True | _ \<Rightarrow> False)"

definition key_for :: "string \<times> string \<times> string list \<times> string list \<Rightarrow> string" where
  "key_for a = (case a of (scope, draft, mentions, images) \<Rightarrow> retryKey scope draft mentions images)"

lemma key_for_inject [simp]: "key_for a = key_for b \<longleftrightarrow> a = b"
  by (cases a; cases b) (simp add: key_for_def retryKey_inject)

lemma key_of_draft: "key_of s = key_for (draft_of s)"
  by (simp add: key_of_def key_for_def draft_of_def)

text \<open>The submission is stored with at most \<open>n\<close> after it.\<close>

definition stored_within :: "nat \<Rightarrow> composerSubmission \<Rightarrow> submissions \<Rightarrow> bool" where
  "stored_within n s c \<longleftrightarrow>
     (\<exists>xs ys. sm_failed c = xs @ (key_of s, s) # ys \<and> length ys \<le> n \<and> key_of s \<notin> fst ` set (xs @ ys))"

lemma stored_cong: "sm_failed d = sm_failed c \<Longrightarrow> stored_within n s d = stored_within n s c"
  by (simp add: stored_within_def)

lemma stored_put:
  "stored_within 0 s (fail_submission s c)"
proof -
  have "last_n FAILED_SUBMISSION_LIMIT (put_last (key_of s) s (sm_failed c))
      = last_n 31 (AList.delete (key_of s) (sm_failed c)) @ [(key_of s, s)]"
    by (simp add: put_last_def last_n_def FAILED_SUBMISSION_LIMIT_def)
  moreover have "key_of s \<notin> fst ` set (last_n 31 (AList.delete (key_of s) (sm_failed c)))"
    using set_last_n [of 31 "AList.delete (key_of s) (sm_failed c)"] by (auto simp: AList.delete_eq)
  ultimately show ?thesis unfolding stored_within_def fail_submission_def
    by (intro exI [of _ "last_n 31 (AList.delete (key_of s) (sm_failed c))"] exI [of _ "[]"]) simp
qed

lemma stored_delete:
  assumes "stored_within n s c" "k \<noteq> key_of s" "sm_failed d = AList.delete k (sm_failed c)"
  shows "stored_within n s d"
proof -
  obtain xs ys where "sm_failed c = xs @ (key_of s, s) # ys" "length ys \<le> n" "key_of s \<notin> fst ` set (xs @ ys)"
    using assms(1) by (auto simp: stored_within_def)
  with assms(2,3) show ?thesis unfolding stored_within_def
    by (intro exI [of _ "AList.delete k xs"] exI [of _ "AList.delete k ys"])
      (auto simp: AList.delete_eq intro: le_trans [OF length_filter_le])
qed

lemma last_n_keeps: "length zs \<le> n \<Longrightarrow> last_n n (xs @ zs) = last_n (n - length zs) xs @ zs"
  by (simp add: last_n_def)

lemma stored_fail_other:
  assumes "stored_within n s c" "n < 31" "key_of t \<noteq> key_of s"
  shows "stored_within (Suc n) s (fail_submission t c)"
proof -
  have "stored_within n s (succeed t c)" using assms(1,3) by (rule stored_delete) (simp add: succeed_def)
  then obtain xs ys where ys: "AList.delete (key_of t) (sm_failed c) = xs @ (key_of s, s) # ys" "length ys \<le> n"
    "key_of s \<notin> fst ` set (xs @ ys)"
    by (auto simp: stored_within_def succeed_def)
  define zs where "zs = (key_of s, s) # ys @ [(key_of t, t)]"
  define j where "j = 32 - length zs"
  have "length zs \<le> 32" using ys(2) assms(2) by (simp add: zs_def)
  then have "last_n 32 (xs @ zs) = last_n j xs @ zs" unfolding j_def by (rule last_n_keeps)
  then have "sm_failed (fail_submission t c) = last_n j xs @ (key_of s, s) # ys @ [(key_of t, t)]"
    by (simp add: fail_submission_def put_last_def FAILED_SUBMISSION_LIMIT_def ys(1) zs_def)
  moreover have "key_of s \<notin> fst ` set (last_n j xs @ ys @ [(key_of t, t)])"
    using ys(3) assms(3) set_last_n [of j xs] by auto
  moreover have "length (ys @ [(key_of t, t)]) \<le> Suc n" using ys(2) by simp
  ultimately show ?thesis unfolding stored_within_def by blast
qed

lemma stored_step:
  assumes "stored_within n s c" "about e \<noteq> draft_of s" "is_failure e \<longrightarrow> n < 31"
  shows "stored_within (n + (if is_failure e then 1 else 0)) s (submissionStep e c)"
proof (cases e)
  case (Began snapshot mentions images source)
  let ?k = "key_for (about e)"
  have "?k \<noteq> key_of s" using assms(2) by (simp add: key_of_draft)
  then have deleted: "stored_within n s d" if "sm_failed d = AList.delete ?k (sm_failed c)" for d
    using that by (rule stored_delete [OF assms(1)])
  have "sm_failed (submissionStep e c) = sm_failed c \<or> sm_failed (submissionStep e c) = AList.delete ?k (sm_failed c)"
    using Began by (simp add: begin_submission_def key_for_def Let_def split: option.split)
  then have "stored_within n s (submissionStep e c)" using deleted stored_cong assms(1) by blast
  with Began show ?thesis by (simp add: is_failure_def)
next
  case (Failed t)
  then show ?thesis using assms by (simp add: is_failure_def key_of_draft stored_fail_other)
next
  case (Succeeded t)
  then show ?thesis using assms stored_delete [OF assms(1), of "key_of t"]
    by (simp add: is_failure_def key_of_draft succeed_def)
qed

lemma stored_run:
  "stored_within n s c \<Longrightarrow> \<forall>e \<in> set es. about e \<noteq> draft_of s \<Longrightarrow> n + length (filter is_failure es) \<le> 31 \<Longrightarrow>
   stored_within (n + length (filter is_failure es)) s (fold submissionStep es c)"
proof (induction es arbitrary: n c)
  case (Cons e es)
  have "stored_within (n + (if is_failure e then 1 else 0)) s (submissionStep e c)"
    using Cons.prems by (intro stored_step) auto
  from Cons.IH [OF this] Cons.prems show ?case by (simp split: if_splits)
qed simp

text \<open>C11: retries.  After a submission failed, the same draft with the same attachments in the same scope
  begins with the submission that failed, under its id, and takes it out, whatever happened to other
  drafts in between, as long as fewer than 32 of them failed.\<close>

theorem failed_submission_is_retried:
  assumes "\<forall>e \<in> set es. about e \<noteq> draft_of s" "length (filter is_failure es) < 32"
    and "(ds_scopeKey snapshot, ds_value snapshot, mentions, images) = draft_of s"
  shows "case begin_submission snapshot mentions images source (fold submissionStep es (fail_submission s c)) of
      (retry, d) \<Rightarrow> retry = s\<lparr>sb_clearedRevision := None\<rparr> \<and> map_of (sm_failed d) (key_of s) = None"
proof -
  let ?c = "fold submissionStep es (fail_submission s c)"
  have "stored_within (length (filter is_failure es)) s ?c"
    using stored_run [OF stored_put, of es s c] assms(1,2) by simp
  then obtain xs ys where "sm_failed ?c = xs @ (key_of s, s) # ys" "key_of s \<notin> fst ` set (xs @ ys)"
    by (auto simp: stored_within_def)
  then have "map_of (sm_failed ?c) (key_of s) = Some s"
    using iffD2 [OF map_of_eq_None_iff, of "key_of s" xs] by (simp add: map_add_def image_Un)
  moreover have "retryKey (ds_scopeKey snapshot) (ds_value snapshot) mentions images = key_of s"
    using assms(3) by (simp add: draft_of_def key_of_def)
  ultimately show ?thesis by (simp add: begin_submission_def delete_conv')
qed

theorem failed_submission_is_retried_witness:
  "let s = \<lparr>sb_id = ''a'', sb_scopeKey = ''k'', sb_draft = ''hi'', sb_mentions = [], sb_localImages = [],
         sb_clearedRevision = Some 3\<rparr>;
       t = s\<lparr>sb_id := ''b'', sb_draft := ''ho''\<rparr>;
       snapshot = \<lparr>ds_scopeKey = ''k'', ds_value = ''hi'', ds_revision = 5\<rparr>;
       source = \<lparr>is_generated = [], is_expoUuid = None, is_webUuid = None, is_now = 0, is_random = ''x''\<rparr>
   in case begin_submission snapshot [] [] source (fold submissionStep [Failed t] (fail_submission s newSubmissions)) of
        (retry, d) \<Rightarrow> retry = s\<lparr>sb_clearedRevision := None\<rparr> \<and> map_of (sm_failed d) (key_of s) = None"
  unfolding Let_def
  by (rule failed_submission_is_retried) (simp_all add: draft_of_def is_failure_def)

section \<open>New ids\<close>

definition digit36 :: "nat \<Rightarrow> char" where
  "digit36 d = char_of (if d < 10 then 48 + d else 87 + d)"

lemma digit36_code: "d < 36 \<Longrightarrow> (of_char (digit36 d) :: nat) = (if d < 10 then 48 + d else 87 + d)"
  by (simp add: digit36_def)

lemma digit36_inject:
  assumes "c < 36" "d < 36"
  shows "digit36 c = digit36 d \<longleftrightarrow> c = d"
proof
  assume "digit36 c = digit36 d"
  then have "(of_char (digit36 c) :: nat) = of_char (digit36 d)" by simp
  then show "c = d" unfolding digit36_code [OF assms(1)] digit36_code [OF assms(2)] using assms by (simp split: if_splits)
qed simp

lemma base36_step: "base36 n = (if n < 36 then [] else base36 (n div 36)) @ [digit36 (n mod 36)]"
  by (subst base36.simps) (simp add: digit36_def Let_def)

lemma base36_not_Nil [simp]: "base36 n \<noteq> []"
  by (subst base36_step) simp

lemma base36_inject: "base36 m = base36 n \<Longrightarrow> m = n"
proof (induction m arbitrary: n rule: less_induct)
  case (less m)
  have ends: "digit36 (m mod 36) = digit36 (n mod 36)"
    and starts: "(if m < 36 then [] else base36 (m div 36)) = (if n < 36 then [] else base36 (n div 36))"
    using less.prems base36_step [of m] base36_step [of n] by auto
  have mods: "m mod 36 = n mod 36" using ends by (simp add: digit36_inject)
  show ?case
  proof (cases "m < 36 \<or> n < 36")
    case True
    with starts mods show ?thesis by (auto split: if_splits dest: sym)
  next
    case False
    with starts less.IH [of "m div 36" "n div 36"] have "m div 36 = n div 36" by simp
    with mods show ?thesis by (metis div_mult_mod_eq)
  qed
qed

lemma base36_no_dash: "CHR ''-'' \<notin> set (base36 n)"
proof (induction n rule: less_induct)
  case (less n)
  have "digit36 (n mod 36) \<noteq> CHR ''-''" using digit36_code [of "n mod 36"] by (auto split: if_splits)
  with less.IH [of "n div 36"] show ?case by (subst base36_step) simp
qed

lemma after_last_dash:
  assumes "a @ CHR ''-'' # base36 m = b @ CHR ''-'' # base36 n"
  shows "m = n"
proof -
  have "takeWhile (\<lambda>c. c \<noteq> CHR ''-'') (rev (a @ CHR ''-'' # base36 m)) = rev (base36 m)" for a m
  proof -
    have "\<forall>x \<in> set (rev (base36 m)). x \<noteq> CHR ''-''" using base36_no_dash [of m] by auto
    then have "takeWhile (\<lambda>c. c \<noteq> CHR ''-'') (rev (base36 m) @ CHR ''-'' # rev a) = rev (base36 m)"
      by (simp add: takeWhile_append2 takeWhile_append)
    then show ?thesis by simp
  qed
  from this [of a m] this [of b n] assms have "base36 m = base36 n" by (metis rev_rev_ident)
  then show ?thesis by (rule base36_inject)
qed

text \<open>The ids that are made in a run, without those that are given out again\<close>

fun newIds :: "submissionEvent list \<Rightarrow> submissions \<Rightarrow> string list" where
  "newIds [] c = []"
| "newIds (e # es) c =
     (case e of
        Began snapshot mentions images source \<Rightarrow>
          if sm_counter (submissionStep e c) = sm_counter c then []
          else [sb_id (fst (begin_submission snapshot mentions images source c))]
      | _ \<Rightarrow> []) @ newIds es (submissionStep e c)"

definition unaided :: "submissionEvent \<Rightarrow> bool" where
  "unaided e \<longleftrightarrow> (case e of Began snapshot mentions images source \<Rightarrow> trim (is_generated source) = [] | _ \<Rightarrow> True)"

lemma new_ids_numbered:
  "list_all unaided es \<Longrightarrow>
   \<exists>stems. newIds es c = map (\<lambda>(stem, i). stem @ CHR ''-'' # base36 i) (zip stems [sm_counter c + 1..<sm_counter c + 1 + length stems])"
proof (induction es arbitrary: c)
  case Nil
  then show ?case by (intro exI [of _ "[]"]) simp
next
  case (Cons e es)
  then obtain stems where stems: "newIds es (submissionStep e c) =
      map (\<lambda>(stem, i). stem @ CHR ''-'' # base36 i)
        (zip stems [sm_counter (submissionStep e c) + 1..<sm_counter (submissionStep e c) + 1 + length stems])"
    by auto
  show ?case
  proof (cases "sm_counter (submissionStep e c) = sm_counter c")
    case True
    with stems show ?thesis by (cases e) auto
  next
    case False
    then obtain snapshot mentions images source where e: "e = Began snapshot mentions images source"
      by (cases e) (auto simp: fail_submission_def succeed_def)
    let ?k = "retryKey (ds_scopeKey snapshot) (ds_value snapshot) mentions images"
    have none: "map_of (sm_failed c) ?k = None"
      using False e by (cases "map_of (sm_failed c) ?k") (simp_all add: begin_submission_def)
    then have counter: "sm_counter (submissionStep e c) = Suc (sm_counter c)" by (simp add: e begin_submission_def Let_def)
    have "trim (is_generated source) = []" using Cons.prems by (simp add: e unaided_def)
    with none have "sb_id (fst (begin_submission snapshot mentions images source c))
        = (''submission-'' @ createSubmissionNonce source) @ CHR ''-'' # base36 (Suc (sm_counter c))"
      by (simp add: begin_submission_def Let_def)
    with False e stems counter show ?thesis
      by (intro exI [of _ "(''submission-'' @ createSubmissionNonce source) # stems"])
        (simp add: upt_conv_Cons del: submissionStep.simps upt_Suc)
  qed
qed

text \<open>New ids.  Without a generator of the owner, the ids made in the life of a controller are all
  different, whatever the identifiers of the platform, the clock and the random digits are.\<close>

theorem new_submissions_have_new_ids:
  assumes "list_all unaided es"
  shows "distinct (newIds es newSubmissions)"
proof -
  obtain stems where ids: "newIds es newSubmissions =
      map (\<lambda>(stem, i). stem @ CHR ''-'' # base36 i) (zip stems [1..<1 + length stems])"
    using new_ids_numbered [OF assms, of newSubmissions] by (auto simp: newSubmissions_def)
  have "distinct (map snd (zip stems [1..<1 + length stems]))" by simp
  then have zipped: "distinct (zip stems [1..<1 + length stems])" "inj_on snd (set (zip stems [1..<1 + length stems]))"
    by (simp_all only: distinct_map)
  have "x = y" if "x \<in> set (zip stems [1..<1 + length stems])" "y \<in> set (zip stems [1..<1 + length stems])"
    "(\<lambda>(stem, i). stem @ CHR ''-'' # base36 i) x = (\<lambda>(stem, i). stem @ CHR ''-'' # base36 i) y" for x y
    using inj_onD [OF zipped(2) _ that(1,2)] that(3) by (cases x; cases y) (auto dest: after_last_dash)
  with zipped(1) have "distinct (map (\<lambda>(stem, i). stem @ CHR ''-'' # base36 i) (zip stems [1..<1 + length stems]))"
    unfolding distinct_map by (intro conjI inj_onI)
  then show ?thesis by (simp only: ids)
qed

theorem new_submissions_have_new_ids_witness:
  "let source = \<lparr>is_generated = [], is_expoUuid = Some ''u'', is_webUuid = None, is_now = 0, is_random = ''x''\<rparr>;
       start = Began \<lparr>ds_scopeKey = ''k'', ds_value = ''hi'', ds_revision = 5\<rparr> [] [] source
   in newIds [start, start] newSubmissions = [''submission-u-1'', ''submission-u-2'']
      \<and> distinct (newIds [start, start] newSubmissions)"
  unfolding Let_def
proof (intro conjI)
  let ?start = "Began \<lparr>ds_scopeKey = ''k'', ds_value = ''hi'', ds_revision = 5\<rparr> [] []
    \<lparr>is_generated = [], is_expoUuid = Some ''u'', is_webUuid = None, is_now = 0, is_random = ''x''\<rparr>"
  have trim: "trim ''u'' = ''u''" by code_simp
  have one: "base36 1 = ''1''" "base36 2 = ''2''" by code_simp+
  show "newIds [?start, ?start] newSubmissions = [''submission-u-1'', ''submission-u-2'']"
    using one trim by (simp add: newSubmissions_def begin_submission_def createSubmissionNonce_def Let_def numeral_2_eq_2)
  show "distinct (newIds [?start, ?start] newSubmissions)"
    by (rule new_submissions_have_new_ids) (simp add: unaided_def)
qed

section \<open>Answers\<close>

text \<open>The type of value that was asked for\<close>

definition of_field_type :: "userInputQuestion \<Rightarrow> jsv \<Rightarrow> bool" where
  "of_field_type question v \<longleftrightarrow>
     (case v of
        JNum q \<Rightarrow> finite_number q
          \<and> (uq_fieldType question = ''number'' \<or> (uq_fieldType question = ''integer'' \<and> of_int \<lfloor>q\<rfloor> = q))
      | JBool _ \<Rightarrow> uq_fieldType question = ''boolean''
      | JArr vs \<Rightarrow> uq_fieldType question = ''string-array'' \<and> list_all (\<lambda>w. nonEmptyString w \<noteq> None) vs
      | JStr s \<Rightarrow> trimmed s \<and> uq_fieldType question \<notin> set [''integer'', ''number'', ''boolean'', ''string-array'']
      | _ \<Rightarrow> False)"

definition draft_for :: "(string \<times> string) list \<Rightarrow> userInputQuestion \<Rightarrow> string" where
  "draft_for drafts question = trim (with_default (map_of drafts (uq_id question)) [])"

lemma answer_value_typed: "trimmed draft \<Longrightarrow> answer_value question draft = Inr v \<Longrightarrow> of_field_type question v"
  by (auto simp: answer_value_def of_field_type_def Let_def list_all_iff normalizeQuestionAnswers_def
    split: if_splits option.splits)

lemma answers_from:
  assumes "answer_questions questions drafts answers = Inr result"
  shows "(\<forall>k. map_of answers k \<noteq> None \<longrightarrow> map_of result k \<noteq> None)
    \<and> (\<forall>q \<in> set questions. uq_required q \<or> draft_for drafts q \<noteq> [] \<longrightarrow> map_of result (uq_id q) \<noteq> None)
    \<and> (\<forall>k v. map_of result k = Some v \<longrightarrow> map_of answers k = Some v
         \<or> (\<exists>q \<in> set questions. uq_id q = k \<and> of_field_type q v))"
  using assms
proof (induction questions arbitrary: answers)
  case (Cons q questions)
  show ?case
  proof (cases "draft_for drafts q = []")
    case True
    then have "answer_questions questions drafts answers = Inr result" "\<not> uq_required q"
      using Cons.prems by (auto simp: draft_for_def Let_def split: if_splits)
    with Cons.IH [of answers] True show ?thesis by auto
  next
    case False
    then obtain v where v: "answer_value q (draft_for drafts q) = Inr v"
      "answer_questions questions drafts (obj_set (uq_id q) v answers) = Inr result"
      using Cons.prems by (auto simp: draft_for_def Let_def split: sum.splits)
    have "of_field_type q v" using False v(1) by (intro answer_value_typed [of "draft_for drafts q"]) (simp_all add: draft_for_def)
    with Cons.IH [OF v(2)] show ?thesis by (auto split: if_splits)
  qed
qed simp

lemma answers_error:
  "answer_questions questions drafts answers = Inl e \<Longrightarrow>
   \<exists>q \<in> set questions. if draft_for drafts q = [] then uq_required q else answer_value q (draft_for drafts q) = Inl e"
proof (induction questions arbitrary: answers)
  case (Cons q questions)
  have "answer_questions (q # questions) drafts answers =
      (if draft_for drafts q = []
       then if uq_required q then Inl (''Please answer '' @ [CHR 0x22] @ uq_header q @ [CHR 0x22])
         else answer_questions questions drafts answers
       else case answer_value q (draft_for drafts q) of
         Inl e \<Rightarrow> Inl e | Inr v \<Rightarrow> answer_questions questions drafts (obj_set (uq_id q) v answers))"
    by (simp add: draft_for_def Let_def)
  with Cons.prems consider
      "if draft_for drafts q = [] then uq_required q else answer_value q (draft_for drafts q) = Inl e"
    | answers' where "answer_questions questions drafts answers' = Inl e"
    by (auto simp del: answer_questions.simps split: if_splits sum.splits)
  then show ?case
  proof cases
    case 1
    then show ?thesis by (intro bexI [of _ q]) simp_all
  next
    case 2
    from Cons.IH [OF this] show ?thesis by (meson list.set_intros(2))
  qed
qed simp

text \<open>Answers.  Answers are sent only when every required question and every question with a draft has
  one, and every answer has the type its question asks for; otherwise a question is named that is
  required and has no draft, or whose draft cannot be read as that type.\<close>

theorem answers_have_their_types:
  "case buildUserInputAnswers request drafts of
     Inr answers \<Rightarrow>
       (\<forall>q \<in> set (ui_questions request). uq_required q \<or> draft_for drafts q \<noteq> [] \<longrightarrow> map_of answers (uq_id q) \<noteq> None)
       \<and> (\<forall>k v. map_of answers k = Some v \<longrightarrow> (\<exists>q \<in> set (ui_questions request). uq_id q = k \<and> of_field_type q v))
   | Inl e \<Rightarrow> \<exists>q \<in> set (ui_questions request).
       if draft_for drafts q = [] then uq_required q else answer_value q (draft_for drafts q) = Inl e"
proof (cases "buildUserInputAnswers request drafts")
  case (Inl e)
  then show ?thesis using answers_error unfolding buildUserInputAnswers_def by simp
next
  case (Inr answers)
  then show ?thesis using answers_from [of "ui_questions request" drafts "[]" answers]
    unfolding buildUserInputAnswers_def by simp
qed

definition sample_request :: pendingUserInputRequest where
  "sample_request =
     \<lparr>ui_requestId = ''r'', ui_agentId = None, ui_threadId = ''t'', ui_turnId = ''u'', ui_itemId = ''i'', ui_message = ''m'',
      ui_requestedAt = ''now'',
      ui_questions = [\<lparr>uq_id = ''n'', uq_header = ''Count'', uq_question = ''How many?'', uq_isOther = False,
        uq_isSecret = False, uq_required = True, uq_fieldType = ''integer'', uq_defaultValue = JNull, uq_options = None\<rparr>]\<rparr>"

theorem answers_have_their_types_witness:
  "\<exists>answers. buildUserInputAnswers sample_request [(''n'', '' 12'')] = Inr answers
     \<and> (\<forall>q \<in> set (ui_questions sample_request). map_of answers (uq_id q) \<noteq> None)
     \<and> map_of answers ''n'' = Some (JNum 12) \<and> of_field_type (hd (ui_questions sample_request)) (JNum 12)"
proof -
  have built: "buildUserInputAnswers sample_request [(''n'', '' 12'')] = Inr [(''n'', JNum 12)]" by code_simp
  from answers_have_their_types [of sample_request "[(''n'', '' 12'')]"] show ?thesis
    unfolding built by (auto simp: sample_request_def)
qed

end
