(* ===== verification/ScreenState.thy ===== *)
theory ScreenState
  imports AgUiReducer Submissions SnapshotPages
begin

text \<open>
  The state of the chat screen and the operations on it: what is remembered of every thread
  (\<open>screens/mainScreenRuntimeWatchdogSync.tsx\<close>, \<open>mainScreenThreadRuntimeMutations.ts\<close>), the watchdog of
  the run and context usage (\<open>mainScreenThreadSnapshotStore.tsx\<close>), remembered plans and surfaces
  (\<open>mainScreenChatHydration.tsx\<close>), switching to a thread (\<open>mainScreenSelectedRuntimeSelectors.ts\<close>),
  live reasoning and stopping a turn (\<open>mainScreenReasoningAndInterrupt.ts\<close>, \<open>mainScreenTurnStopControl.ts\<close>),
  equivalent chats (\<open>mainScreenChatState.ts\<close>) and plans (\<open>mainScreenHelperPlansAndCommands.ts\<close>).

  A state setter takes effect at once and a render gives the refs the values of the state.
\<close>

section \<open>Activity and what is remembered of a thread\<close>

datatype activityTone = ToneRunning | ToneComplete | ToneError | ToneIdle

record activityState =
  at_tone :: activityTone
  at_title :: string
  at_detail :: "string option"

definition activity_of :: "activityTone \<Rightarrow> string \<Rightarrow> activityState" where
  "activity_of tone title = \<lparr>at_tone = tone, at_title = title, at_detail = None\<rparr>"

definition detailed :: "activityTone \<Rightarrow> string \<Rightarrow> string option \<Rightarrow> activityState" where
  "detailed tone title detail = \<lparr>at_tone = tone, at_title = title, at_detail = detail\<rparr>"

text \<open>A field that was never set is not there, one that was set may be null.\<close>

record threadRuntimeSnapshot =
  rt_activity :: "activityState option"
  rt_activeCommands :: "runEvent list option"
  rt_latestCommand :: "runEvent option option"
  rt_streamingText :: "string option option"
  rt_pendingApproval :: "pendingApproval option option"
  rt_pendingUserInput :: "pendingUserInputRequest option option"
  rt_bridgeUiSurfaces :: "bridgeUiSurface list option"
  rt_queuedMessages :: "queuedMessage list option"
  rt_pendingSteerMessageIds :: "string list option"
  rt_waitingForToolCalls :: "bool option"
  rt_steeringInFlight :: "bool option"
  rt_queuedMessageError :: "threadQueueError option option"
  rt_contextUsage :: "threadContextUsage option option"
  rt_plan :: "activePlanState option option"
  rt_activeTurnId :: "string option option"
  rt_runWatchdogUntil :: "int option"
  rt_updatedAtMs :: int

definition emptySnapshot :: "int \<Rightarrow> threadRuntimeSnapshot" where
  "emptySnapshot now =
     \<lparr>rt_activity = None, rt_activeCommands = None, rt_latestCommand = None, rt_streamingText = None,
      rt_pendingApproval = None, rt_pendingUserInput = None, rt_bridgeUiSurfaces = None, rt_queuedMessages = None,
      rt_pendingSteerMessageIds = None, rt_waitingForToolCalls = None, rt_steeringInFlight = None,
      rt_queuedMessageError = None, rt_contextUsage = None, rt_plan = None, rt_activeTurnId = None,
      rt_runWatchdogUntil = None, rt_updatedAtMs = now\<rparr>"

section \<open>The state of the screen\<close>

text \<open>What a handler asks for that is answered later.\<close>

record summaryCheck =
  sk_threadId :: string
  sk_statusHint :: "string option"
  sk_approvalId :: "string option"
  sk_inputId :: "string option"

record loadRequest =
  lq_chatId :: string
  lq_requestId :: nat
  lq_preserve :: bool
  lq_revalidate :: bool

datatype screenEffect =
    ReadThread loadRequest
  | ReadQueue string nat
  | FinishOpening loadRequest
  | LoadAgentDetail string
  | ReadChatSummary summaryCheck
  | ReadApprovals string
  | ReadChat string
  | Interrupt string "string option"
  | RecoverReplayGap "rat option" bool
  | RefreshAgentThreads string
  | SavePlans "(string \<times> activePlanState) list"
  | SaveSurfaces "(string \<times> bridgeUiSurface list) list"
  | RememberChat mappedChat
  | ResolveUserInput string "(string \<times> jsv) list"

record pendingPlanPrompt =
  pp_threadId :: string
  pp_turnId :: string

text \<open>
  The refs that a render sets come first, then what the screen shows, then the refs that only
  handlers change.  Timers are the instants at which they go off.
\<close>

record mainScreen =
  ms_chatIdRef :: "string option"
  ms_selectedChatRef :: "mappedChat option"
  ms_activeTurnIdRef :: "string option"
  ms_renderedApprovalId :: "string option"
  ms_renderedInputId :: "string option"
  ms_renderedStopping :: bool
  ms_selectedChatId :: "string option"
  ms_selectedChat :: "mappedChat option"
  ms_activity :: activityState
  ms_activeCommands :: "runEvent list"
  ms_streamingText :: "string option"
  ms_pendingApproval :: "pendingApproval option"
  ms_pendingUserInput :: "pendingUserInputRequest option"
  ms_userInputDrafts :: "(string \<times> string) list"
  ms_userInputError :: "string option"
  ms_resolvingUserInput :: bool
  ms_activePlan :: "activePlanState option"
  ms_activeSurfaces :: "bridgeUiSurface list"
  ms_activeTurnId :: "string option"
  ms_planMode :: bool
  ms_error :: "string option"
  ms_stoppingTurn :: bool
  ms_sending :: bool
  ms_creating :: bool
  ms_showDelayedActivity :: bool
  ms_planPrompts :: "(string \<times> pendingPlanPrompt) list"
  ms_live :: "(string \<times> agUiThreadMessageState) list"
  ms_recoveryBanner :: bool
  ms_runWatchdogNow :: int
  ms_snapshots :: "(string \<times> threadRuntimeSnapshot) list"
  ms_planSnapshots :: "(string \<times> activePlanState) list"
  ms_surfaceSnapshots :: "(string \<times> bridgeUiSurface list) list"
  ms_runWatchdogUntil :: int
  ms_watchdogTimer :: "int option"
  ms_stopRequested :: bool
  ms_stopMessageLogged :: bool
  ms_hadCommand :: bool
  ms_reasoningSummary :: "(string \<times> string) list"
  ms_threadReasoning :: "(string \<times> string) list"
  ms_liveReasoning :: "(string \<times> string) list"
  ms_liveReasoningIds :: "(string \<times> string) list"
  ms_planItemTurnIds :: "(string \<times> string) list"
  ms_pendingUserMessages :: "(string \<times> pendingOptimisticUserMessage list) list"
  ms_appActive :: bool
  ms_foregroundedAt :: int
  ms_disconnectTimer :: "int option"
  ms_loadRequest :: nat
  ms_openingChatId :: "string option"
  ms_openingStartedAt :: int
  ms_continuation :: transcriptContinuationState
  ms_autoPlanTurns :: "(string \<times> string) list"
  ms_syncQueued :: "string option"
  ms_syncInFlight :: bool
  ms_syncNextAllowedAt :: int
  ms_syncTimer :: "int option"
  ms_surfacesTimer :: "(int \<times> (string \<times> bridgeUiSurface list) list) option"
  ms_revision :: nat
  ms_effects :: "screenEffect list"

text \<open>
  What an operation reads from outside: the clock, the random part of a new id, whether the socket
  is connected, whether the context of the first hooks has the refs of the application state, how
  long to wait between full reads, and the sub-agent whose details are shown, with whether its chat
  was loaded.
\<close>

record screenEnv =
  se_now :: int
  se_random :: string
  se_connected :: bool
  se_hasAppRefs :: bool
  se_debounce :: int
  se_agentDetail :: "(string \<times> bool) option"

definition emit :: "screenEffect \<Rightarrow> mainScreen \<Rightarrow> mainScreen" where
  "emit e s = s\<lparr>ms_effects := ms_effects s @ [e]\<rparr>"

definition setActivity :: "activityState \<Rightarrow> mainScreen \<Rightarrow> mainScreen" where
  "setActivity a s = s\<lparr>ms_activity := a\<rparr>"

text \<open>\<open>loadChat\<close> up to its first \<open>await\<close>\<close>

definition loadChat :: "string \<Rightarrow> bool \<Rightarrow> bool \<Rightarrow> mainScreen \<Rightarrow> mainScreen" where
  "loadChat chatId preserve revalidate s =
     (let n = ms_loadRequest s + 1 in
      emit (ReadThread \<lparr>lq_chatId = chatId, lq_requestId = n, lq_preserve = preserve, lq_revalidate = revalidate\<rparr>)
        (emit (ReadQueue chatId n) (s\<lparr>ms_loadRequest := n\<rparr>)))"

text \<open>\<open>setActivity((prev) => prev.tone === 'running' ? prev : a)\<close>\<close>

definition keepRunning :: "activityState \<Rightarrow> mainScreen \<Rightarrow> mainScreen" where
  "keepRunning a s = (if at_tone (ms_activity s) = ToneRunning then s else setActivity a s)"

definition working :: activityState where "working = activity_of ToneRunning ''Working''"
definition planning :: activityState where "planning = activity_of ToneRunning ''Planning''"

text \<open>A render, after which handlers see the state as it is.\<close>

definition render :: "mainScreen \<Rightarrow> mainScreen" where
  "render s = s\<lparr>ms_chatIdRef := ms_selectedChatId s, ms_selectedChatRef := ms_selectedChat s,
     ms_activeTurnIdRef := ms_activeTurnId s, ms_renderedStopping := ms_stoppingTurn s,
     ms_renderedApprovalId := map_option pa_requestId (ms_pendingApproval s),
     ms_renderedInputId := map_option ui_requestId (ms_pendingUserInput s)\<rparr>"

section \<open>What is remembered of a thread\<close>

definition upsertThreadRuntimeSnapshot ::
  "int \<Rightarrow> string \<Rightarrow> (threadRuntimeSnapshot \<Rightarrow> threadRuntimeSnapshot) \<Rightarrow> mainScreen \<Rightarrow> mainScreen" where
  "upsertThreadRuntimeSnapshot now threadId updater s =
     (if threadId = [] then s
      else let previous = with_default (map_of (ms_snapshots s) threadId) (emptySnapshot now) in
        s\<lparr>ms_snapshots := obj_set threadId ((updater previous)\<lparr>rt_updatedAtMs := now\<rparr>) (ms_snapshots s)\<rparr>)"

definition bumpRevision :: "mainScreen \<Rightarrow> mainScreen" where
  "bumpRevision s = s\<lparr>ms_revision := ms_revision s + 1\<rparr>"

definition cacheThreadActivity :: "int \<Rightarrow> string \<Rightarrow> activityState \<Rightarrow> mainScreen \<Rightarrow> mainScreen" where
  "cacheThreadActivity now threadId a s =
     bumpRevision (upsertThreadRuntimeSnapshot now threadId (\<lambda>p. p\<lparr>rt_activity := Some a\<rparr>) s)"

definition cacheThreadStreamingDelta :: "int \<Rightarrow> string \<Rightarrow> string \<Rightarrow> mainScreen \<Rightarrow> mainScreen" where
  "cacheThreadStreamingDelta now threadId delta s =
     (if trim delta = [] then s
      else bumpRevision (upsertThreadRuntimeSnapshot now threadId
        (\<lambda>p. p\<lparr>rt_streamingText := Some (Some (mergeStreamingDelta (with_default (rt_streamingText p) None) delta))\<rparr>) s))"

definition cacheThreadActiveCommand ::
  "screenEnv \<Rightarrow> string \<Rightarrow> string \<times> string \<Rightarrow> mainScreen \<Rightarrow> mainScreen" where
  "cacheThreadActiveCommand env threadId tool s =
     bumpRevision (upsertThreadRuntimeSnapshot (se_now env) threadId (\<lambda>p.
       let commands = appendRunEventHistory (with_default (rt_activeCommands p) []) threadId (fst tool) (snd tool)
             (se_now env) (se_random env) in
       p\<lparr>rt_activeCommands := Some commands,
         rt_latestCommand := Some (if commands \<noteq> [] then Some (last commands) else with_default (rt_latestCommand p) None)\<rparr>) s)"

definition cacheThreadPendingApproval ::
  "int \<Rightarrow> string \<Rightarrow> pendingApproval option \<Rightarrow> mainScreen \<Rightarrow> mainScreen" where
  "cacheThreadPendingApproval now threadId approval s =
     bumpRevision (upsertThreadRuntimeSnapshot now threadId (\<lambda>p. p\<lparr>rt_pendingApproval := Some approval\<rparr>) s)"

definition cacheThreadPendingUserInputRequest ::
  "int \<Rightarrow> string \<Rightarrow> pendingUserInputRequest option \<Rightarrow> mainScreen \<Rightarrow> mainScreen" where
  "cacheThreadPendingUserInputRequest now threadId request s =
     bumpRevision (upsertThreadRuntimeSnapshot now threadId (\<lambda>p. p\<lparr>rt_pendingUserInput := Some request\<rparr>) s)"

definition cacheThreadQueueState :: "int \<Rightarrow> string \<Rightarrow> threadQueueState option \<Rightarrow> mainScreen \<Rightarrow> mainScreen" where
  "cacheThreadQueueState now threadId queue s =
     bumpRevision (upsertThreadRuntimeSnapshot now threadId (\<lambda>p.
       p\<lparr>rt_queuedMessages := Some (case queue of Some q \<Rightarrow> qs_pendingSteers q @ qs_items q | None \<Rightarrow> []),
         rt_pendingSteerMessageIds := Some (case queue of Some q \<Rightarrow> map qm_id (qs_pendingSteers q) | None \<Rightarrow> []),
         rt_waitingForToolCalls := Some (case queue of Some q \<Rightarrow> qs_waitingForToolCalls q | None \<Rightarrow> False),
         rt_steeringInFlight := Some (case queue of Some q \<Rightarrow> qs_steeringInFlight q | None \<Rightarrow> False),
         rt_queuedMessageError := Some (Option.bind queue qs_lastError)\<rparr>) s)"

text \<open>The parts of \<open>cacheThreadTurnState\<close>: only the watchdog, or the turn as well\<close>

definition cacheThreadWatchdog :: "int \<Rightarrow> string \<Rightarrow> mainScreen \<Rightarrow> mainScreen" where
  "cacheThreadWatchdog now threadId s =
     bumpRevision (upsertThreadRuntimeSnapshot now threadId (\<lambda>p. p\<lparr>rt_runWatchdogUntil := Some (now + RUN_WATCHDOG_MS)\<rparr>) s)"

definition cacheThreadTurnState ::
  "int \<Rightarrow> string \<Rightarrow> string option \<Rightarrow> int \<Rightarrow> mainScreen \<Rightarrow> mainScreen" where
  "cacheThreadTurnState now threadId turnId watchdogUntil s =
     bumpRevision (upsertThreadRuntimeSnapshot now threadId
       (\<lambda>p. p\<lparr>rt_activeTurnId := Some turnId, rt_runWatchdogUntil := Some watchdogUntil\<rparr>) s)"

definition cacheThreadContextUsage ::
  "int \<Rightarrow> string \<Rightarrow> threadContextUsage option \<Rightarrow> mainScreen \<Rightarrow> mainScreen" where
  "cacheThreadContextUsage now threadId usage s =
     (case usage of
        None \<Rightarrow> upsertThreadRuntimeSnapshot now threadId (\<lambda>p. p\<lparr>rt_contextUsage := Some None\<rparr>) s
      | Some u \<Rightarrow>
          let previous = Option.bind (map_of (ms_snapshots s) threadId) (\<lambda>p. with_default (rt_contextUsage p) None);
              merged = mergeThreadContextUsage previous (Some u) in
          upsertThreadRuntimeSnapshot now threadId (\<lambda>p.
            p\<lparr>rt_contextUsage := Some (mergeThreadContextUsage (with_default (rt_contextUsage p) None) merged)\<rparr>) s)"

section \<open>Remembered plans and surfaces\<close>

text \<open>Nothing is written when the plan is the one remembered, but for its thread.\<close>

definition same_plan :: "activePlanState option \<Rightarrow> activePlanState option \<Rightarrow> bool" where
  "same_plan previous plan \<longleftrightarrow>
     map_option ap_turnId previous = map_option ap_turnId plan
     \<and> map_option ap_explanation previous = map_option ap_explanation plan
     \<and> map_option ap_deltaText previous = map_option ap_deltaText plan
     \<and> map_option ap_updatedAt previous = map_option ap_updatedAt plan
     \<and> (case previous of Some p \<Rightarrow> ap_steps p | None \<Rightarrow> []) = (case plan of Some p \<Rightarrow> ap_steps p | None \<Rightarrow> [])"

definition rememberChatPlanSnapshot :: "string \<Rightarrow> activePlanState option \<Rightarrow> mainScreen \<Rightarrow> mainScreen" where
  "rememberChatPlanSnapshot chatId plan s =
     (let key = trim chatId in
      if key = [] \<or> same_plan (map_of (ms_planSnapshots s) key) plan then s
      else let plans = (case plan of
               Some p \<Rightarrow> obj_set key p (ms_planSnapshots s) | None \<Rightarrow> AList.delete key (ms_planSnapshots s))
        in emit (SavePlans plans) (s\<lparr>ms_planSnapshots := plans\<rparr>))"

text \<open>Surfaces are written when nothing changed for a while.\<close>

definition rememberBridgeUiSurfaceSnapshots ::
  "int \<Rightarrow> string \<Rightarrow> (bridgeUiSurface list \<Rightarrow> bridgeUiSurface list) \<Rightarrow> mainScreen \<Rightarrow> mainScreen" where
  "rememberBridgeUiSurfaceSnapshots now chatId updater s =
     (let key = trim chatId in
      if key = [] then s
      else let surfaces = updater (with_default (map_of (ms_surfaceSnapshots s) key) []);
               remembered = (if surfaces \<noteq> [] then obj_set key surfaces (ms_surfaceSnapshots s)
                 else AList.delete key (ms_surfaceSnapshots s))
        in s\<lparr>ms_surfaceSnapshots := remembered, ms_surfacesTimer := Some (now + 180, remembered)\<rparr>)"

definition surfacesTimerFires :: "mainScreen \<Rightarrow> mainScreen" where
  "surfacesTimerFires s =
     (case ms_surfacesTimer s of
        Some (_, remembered) \<Rightarrow> emit (SaveSurfaces remembered) (s\<lparr>ms_surfacesTimer := None\<rparr>)
      | None \<Rightarrow> s)"

definition cacheThreadPlan ::
  "int \<Rightarrow> string \<Rightarrow> (activePlanState option \<Rightarrow> activePlanState option) \<Rightarrow> mainScreen \<Rightarrow> mainScreen" where
  "cacheThreadPlan now threadId nextPlan s =
     (let t = upsertThreadRuntimeSnapshot now threadId
            (\<lambda>p. p\<lparr>rt_plan := Some (nextPlan (with_default (rt_plan p) None))\<rparr>) s
      in rememberChatPlanSnapshot threadId
           (Option.bind (map_of (ms_snapshots t) threadId) (\<lambda>p. with_default (rt_plan p) None)) t)"

definition updateThreadSurfaces ::
  "int \<Rightarrow> string \<Rightarrow> (bridgeUiSurface list \<Rightarrow> bridgeUiSurface list) \<Rightarrow> mainScreen \<Rightarrow> mainScreen" where
  "updateThreadSurfaces now threadId updater s =
     rememberBridgeUiSurfaceSnapshots now threadId updater
       (upsertThreadRuntimeSnapshot now threadId
         (\<lambda>p. p\<lparr>rt_bridgeUiSurfaces := Some (updater (with_default (rt_bridgeUiSurfaces p) []))\<rparr>) s)"

definition cacheThreadBridgeUiSurface :: "int \<Rightarrow> string \<Rightarrow> bridgeUiSurface \<Rightarrow> mainScreen \<Rightarrow> mainScreen" where
  "cacheThreadBridgeUiSurface now threadId surface s =
     bumpRevision (updateThreadSurfaces now threadId (\<lambda>previous. upsertBridgeUiSurfaceList previous surface) s)"

definition has_surface :: "string \<Rightarrow> threadRuntimeSnapshot \<Rightarrow> bool" where
  "has_surface surfaceId p \<longleftrightarrow> list_ex (\<lambda>f. bs_id f = surfaceId) (with_default (rt_bridgeUiSurfaces p) [])"

definition removeThreadBridgeUiSurface :: "int \<Rightarrow> string \<Rightarrow> string option \<Rightarrow> mainScreen \<Rightarrow> mainScreen" where
  "removeThreadBridgeUiSurface now surfaceId threadId s =
     (let removed = (\<lambda>previous. removeBridgeUiSurfaceFromList previous surfaceId) in
      bumpRevision (case non_empty threadId of
        Some t \<Rightarrow> updateThreadSurfaces now t removed s
      | None \<Rightarrow> fold (\<lambda>(t, p). if has_surface surfaceId p then updateThreadSurfaces now t removed else id)
          (ms_snapshots s) s))"

definition replaceThreadBridgeUiSurfaces ::
  "int \<Rightarrow> string \<Rightarrow> bridgeUiSurface list \<Rightarrow> mainScreen \<Rightarrow> mainScreen" where
  "replaceThreadBridgeUiSurfaces now threadId surfaces s =
     bumpRevision (updateThreadSurfaces now threadId (\<lambda>_. surfaces) s)"

definition clearPendingPlanImplementationPrompt :: "string \<Rightarrow> mainScreen \<Rightarrow> mainScreen" where
  "clearPendingPlanImplementationPrompt threadId s =
     (if threadId = [] then s else s\<lparr>ms_planPrompts := AList.delete threadId (ms_planPrompts s)\<rparr>)"

section \<open>The watchdog of the run\<close>

definition scheduleRunWatchdogExpiry :: "int \<Rightarrow> int \<Rightarrow> mainScreen \<Rightarrow> mainScreen" where
  "scheduleRunWatchdogExpiry now deadline s =
     s\<lparr>ms_watchdogTimer := (if deadline \<le> now then None else Some (deadline + 16))\<rparr>"

definition bumpRunWatchdogBy :: "int \<Rightarrow> int \<Rightarrow> mainScreen \<Rightarrow> mainScreen" where
  "bumpRunWatchdogBy duration now s =
     (let deadline = max (ms_runWatchdogUntil s) (now + duration) in
      scheduleRunWatchdogExpiry now deadline (s\<lparr>ms_runWatchdogUntil := deadline, ms_runWatchdogNow := now\<rparr>))"

definition bumpRunWatchdog :: "int \<Rightarrow> mainScreen \<Rightarrow> mainScreen" where
  "bumpRunWatchdog = bumpRunWatchdogBy RUN_WATCHDOG_MS"

definition clearRunWatchdog :: "int \<Rightarrow> mainScreen \<Rightarrow> mainScreen" where
  "clearRunWatchdog now s = s\<lparr>ms_runWatchdogUntil := 0, ms_watchdogTimer := None, ms_runWatchdogNow := now\<rparr>"

definition watchdogTimerFires :: "int \<Rightarrow> mainScreen \<Rightarrow> mainScreen" where
  "watchdogTimerFires now s = s\<lparr>ms_watchdogTimer := None, ms_runWatchdogNow := now\<rparr>"

definition readThreadContextUsage :: "int \<Rightarrow> jsv \<Rightarrow> threadContextUsage option" where
  "readThreadContextUsage now value =
     (case toRecord value of
        None \<Rightarrow> None
      | Some r \<Rightarrow>
          let info = toRecord (prop_of r ''info'');
              turn = toRecord (prop_of r ''turn'');
              tokenUsage = first_record [prop_of r ''tokenUsage'', prop_of r ''token_usage'',
                opt_prop info ''tokenUsage'', opt_prop info ''token_usage''];
              total = first_record [opt_prop tokenUsage ''total'', opt_prop info ''total_token_usage'',
                opt_prop info ''totalTokenUsage''];
              last = first_record [opt_prop tokenUsage ''last'', opt_prop info ''last_token_usage'',
                opt_prop info ''lastTokenUsage''];
              count = (\<lambda>vs. map_option of_nat (first_some (map readIntegerLike vs)));
              totalTokens = count [opt_prop total ''totalTokens'', opt_prop total ''total_tokens''];
              lastTokens = or_else (count [opt_prop last ''totalTokens'', opt_prop last ''total_tokens''])
                (map_option (\<lambda>_. 0) totalTokens);
              modelContextWindow = count [prop_of r ''modelContextWindow'', prop_of r ''model_context_window'',
                opt_prop turn ''modelContextWindow'', opt_prop turn ''model_context_window'',
                opt_prop tokenUsage ''modelContextWindow'', opt_prop tokenUsage ''model_context_window'',
                opt_prop info ''modelContextWindow'', opt_prop info ''model_context_window'']
          in if totalTokens = None \<and> modelContextWindow = None then None
             else Some \<lparr>tu_totalTokens = totalTokens, tu_lastTokens = lastTokens,
               tu_modelContextWindow = modelContextWindow, tu_updatedAtMs = now\<rparr>)"

section \<open>Plans\<close>

definition planningSnapshot :: "threadRuntimeSnapshot \<Rightarrow> bool" where
  "planningSnapshot p \<longleftrightarrow>
     non_empty (with_default (rt_activeTurnId p) None) \<noteq> None \<or> map_option at_title (rt_activity p) = Some ''Planning''"

text \<open>Whether the mode is plan\<close>

definition resolveSnapshotCollaborationMode :: "threadRuntimeSnapshot option \<Rightarrow> bool" where
  "resolveSnapshotCollaborationMode snapshot \<longleftrightarrow>
     (case snapshot of
        None \<Rightarrow> False
      | Some p \<Rightarrow> with_default (rt_pendingUserInput p) None \<noteq> None
          \<or> (with_default (rt_plan p) None \<noteq> None \<and> planningSnapshot p))"

text \<open>\<open>a < b\<close> for texts of ASCII characters, as instants are\<close>

fun text_less :: "string \<Rightarrow> string \<Rightarrow> bool" where
  "text_less _ [] = False"
| "text_less [] (_ # _) = True"
| "text_less (c # a) (d # b) = ((of_char c :: nat) < of_char d \<or> (c = d \<and> text_less a b))"

definition later_text :: "string \<Rightarrow> string \<Rightarrow> string" where
  "later_text a b = (if text_less b a then a else b)"

definition resolveDisplayedThreadPlan ::
  "activePlanState option \<Rightarrow> activePlanState option \<Rightarrow> threadRuntimeSnapshot option \<Rightarrow> activePlanState option" where
  "resolveDisplayedThreadPlan cachedPlan persistedPlan snapshot =
     (case (cachedPlan, persistedPlan) of
        (_, None) \<Rightarrow> cachedPlan
      | (None, Some _) \<Rightarrow> persistedPlan
      | (Some p, Some q) \<Rightarrow>
          if ap_turnId p = ap_turnId q
          then Some (p\<lparr>ap_explanation := or_else (ap_explanation p) (ap_explanation q),
            ap_steps := (if ap_steps p \<noteq> [] then ap_steps p else ap_steps q),
            ap_updatedAt := later_text (ap_updatedAt p) (ap_updatedAt q)\<rparr>)
          else if (case snapshot of Some r \<Rightarrow> planningSnapshot r | None \<Rightarrow> False) then cachedPlan else persistedPlan)"

definition toPersistedActivePlanState :: "chatPlanSnapshot option \<Rightarrow> string option \<Rightarrow> activePlanState option" where
  "toPersistedActivePlanState plan fallbackUpdatedAt =
     map_option (\<lambda>p. \<lparr>ap_threadId = cp_threadId p, ap_turnId = cp_turnId p, ap_explanation = cp_explanation p,
       ap_steps = cp_steps p, ap_deltaText = [], ap_updatedAt = with_default fallbackUpdatedAt epoch_iso\<rparr>) plan"

definition resolveUndismissedPlanImplementationPrompt ::
  "pendingPlanPrompt option \<Rightarrow> string option \<Rightarrow> pendingPlanPrompt option" where
  "resolveUndismissedPlanImplementationPrompt prompt dismissedTurnId =
     (case prompt of
        None \<Rightarrow> None
      | Some p \<Rightarrow> if non_empty dismissedTurnId = Some (pp_turnId p) then None else Some p)"

definition normalizePlanTurnStatus :: "string option \<Rightarrow> string option" where
  "normalizePlanTurnStatus status =
     (case non_empty status of
        None \<Rightarrow> None
      | Some s \<Rightarrow> non_empty (Some (filter ascii_alnum (lower (trim s)))))"

definition isCompletedPlanTurnStatus :: "string option \<Rightarrow> bool" where
  "isCompletedPlanTurnStatus status \<longleftrightarrow>
     normalizePlanTurnStatus status \<in> {Some ''complete'', Some ''completed'', Some ''success'', Some ''succeeded''}"

definition upper_first :: "string \<Rightarrow> string" where
  "upper_first s =
     (case s of c # r \<Rightarrow> (if c \<in> set ''abcdefghijklmnopqrstuvwxyz'' then char_of ((of_char c :: nat) - 32) else c) # r
      | [] \<Rightarrow> [])"

definition formatReasoningEffort :: "string \<Rightarrow> string" where
  "formatReasoningEffort effort =
     (if effort = ''xhigh'' then ''X-High''
      else if effort = ''max'' then ''Max''
      else if effort = ''none'' then ''None''
      else if effort = ''minimal'' then ''Minimal''
      else upper_first effort)"

definition shouldAutoEnablePlanModeFromChat :: "mappedChat \<Rightarrow> bool" where
  "shouldAutoEnablePlanModeFromChat chat \<longleftrightarrow>
     pl_latestTurnPlan (cd_plans chat) \<noteq> None
     \<or> (case latestAssistantMessage (cd_messages chat) of
          None \<Rightarrow> False
        | Some m \<Rightarrow> let normalized = lower (getMessageText m); mentions = has_substring normalized in
            mentions ''request_user_input is unavailable in default mode''
            \<or> (mentions ''request_user_input'' \<and> mentions ''default mode'' \<and> mentions ''plan mode''
              \<and> mentions ''unavailable''))"

definition resolvePersistedPlanImplementationPrompt ::
  "mappedChat option \<Rightarrow> string option \<Rightarrow> pendingPlanPrompt option" where
  "resolvePersistedPlanImplementationPrompt chat dismissedTurnId =
     (case chat of
        None \<Rightarrow> None
      | Some c \<Rightarrow>
          (case pl_latestTurnPlan (cd_plans c) of
             None \<Rightarrow> None
           | Some plan \<Rightarrow>
               if non_empty dismissedTurnId = Some (cp_turnId plan) then None
               else if isCompletedPlanTurnStatus (pl_latestTurnStatus (cd_plans c))
               then Some \<lparr>pp_threadId = cs_id c, pp_turnId = cp_turnId plan\<rparr>
               else None))"

definition isBridgeConnectionErrorMessage :: "string option \<Rightarrow> bool" where
  "isBridgeConnectionErrorMessage value \<longleftrightarrow>
     (case non_empty value of
        None \<Rightarrow> False
      | Some v \<Rightarrow> let normalized = lower (trim v) in
          has_substring normalized ''bridge websocket''
          \<or> has_substring normalized ''unable to connect to bridge websocket'')"

definition isBridgeRecoveryActivity :: "activityState option \<Rightarrow> bool" where
  "isBridgeRecoveryActivity a \<longleftrightarrow>
     (case a of
        None \<Rightarrow> False
      | Some b \<Rightarrow> lower (trim (at_title b)) \<in> {''disconnected'', ''bridge disconnected''}
          \<or> isBridgeConnectionErrorMessage (Some (at_title b)) \<or> isBridgeConnectionErrorMessage (at_detail b))"

definition getInitialVisibleMessageStartIndex :: "nat \<Rightarrow> nat" where
  "getInitialVisibleMessageStartIndex messageCount = (if messageCount \<le> 120 then 0 else messageCount - 80)"

section \<open>Equivalent chats\<close>

text \<open>\<open>JSON.stringify(message.content)\<close>\<close>

definition content_json :: "messageContent \<Rightarrow> string option" where
  "content_json c =
     json_stringify (case c of Text s \<Rightarrow> JStr s | NoContent \<Rightarrow> JUndefined | ContentParts ps \<Rightarrow> JArr ps | Fields v \<Rightarrow> v)"

definition areChatMessageSubAgentMetaEquivalent :: "jobj option \<Rightarrow> jobj option \<Rightarrow> bool" where
  "areChatMessageSubAgentMetaEquivalent previous later =
     (case (previous, later) of
        (Some p, Some n) \<Rightarrow>
          let same = (\<lambda>k. prop_of p k = prop_of n k);
              receivers = (\<lambda>m. with_default (as_array (prop_of m ''receiverThreadIds'')) [])
          in same ''tool'' \<and> same ''prompt'' \<and> same ''senderThreadId'' \<and> same ''agentStatus'' \<and> receivers p = receivers n
      | (None, None) \<Rightarrow> True
      | _ \<Rightarrow> False)"

definition same_message :: "chatMessage \<Rightarrow> chatMessage \<Rightarrow> bool" where
  "same_message left right \<longleftrightarrow>
     cm_id left = cm_id right \<and> cm_role left = cm_role right
     \<and> content_json (cm_content left) = content_json (cm_content right) \<and> cm_createdAt left = cm_createdAt right
     \<and> (cm_role left = Activity \<longrightarrow> cm_activityType left = cm_activityType right)
     \<and> areChatMessageSubAgentMetaEquivalent (getSubAgentMeta left) (getSubAgentMeta right)"

definition areChatMessagesEquivalent :: "chatMessage list \<Rightarrow> chatMessage list \<Rightarrow> bool" where
  "areChatMessagesEquivalent previous later = list_all2 same_message previous later"

text \<open>All fields of a summary and of a plan are compared.\<close>

definition areChatSummariesEquivalent :: "mappedChat \<Rightarrow> mappedChat \<Rightarrow> bool" where
  "areChatSummariesEquivalent previous later \<longleftrightarrow> chatSummary.truncate previous = chatSummary.truncate later"

definition areChatsEquivalent :: "mappedChat \<Rightarrow> mappedChat \<Rightarrow> bool" where
  "areChatsEquivalent previous later \<longleftrightarrow>
     areChatSummariesEquivalent previous later
     \<and> pl_latestPlan (cd_plans previous) = pl_latestPlan (cd_plans later)
     \<and> pl_latestTurnPlan (cd_plans previous) = pl_latestTurnPlan (cd_plans later)
     \<and> pl_latestTurnStatus (cd_plans previous) = pl_latestTurnStatus (cd_plans later)
     \<and> areChatMessagesEquivalent (cd_messages previous) (cd_messages later)"

definition preserveRecentUserTurnTranscript ::
  "(string \<Rightarrow> int option) \<Rightarrow> int \<Rightarrow> mappedChat \<Rightarrow> mappedChat \<Rightarrow> mappedChat" where
  "preserveRecentUserTurnTranscript other now previous later =
     (if cs_id previous \<noteq> cs_id later
         \<or> countUserMessages (cd_messages previous) \<le> countUserMessages (cd_messages later)
         \<or> \<not> (hasRecentUnansweredUserTurn other now previous \<or> cs_status previous = ChatRunning \<or> cs_status later = ChatRunning)
      then later
      else later\<lparr>cs_lastMessagePreview := cs_lastMessagePreview previous, cd_messages := cd_messages previous\<rparr>)"

definition resolveEquivalentChat :: "(string \<Rightarrow> int option) \<Rightarrow> int \<Rightarrow> mappedChat \<Rightarrow> mappedChat \<Rightarrow> mappedChat" where
  "resolveEquivalentChat other now previous later =
     (let stabilized = preserveRecentUserTurnTranscript other now previous later in
      if areChatsEquivalent previous stabilized then previous else stabilized)"

definition mergeChatSummaryPreservingMessages :: "mappedChat \<Rightarrow> chatSummary \<Rightarrow> mappedChat" where
  "mergeChatSummaryPreservingMessages previous summary =
     (let merged = chatSummary.extend summary (chatSummary.more previous) in
      if areChatsEquivalent previous merged then previous else merged)"

text \<open>\<open>setSelectedChat((prev) => prev && prev.id === id ? f(prev) : prev)\<close>\<close>

definition updateSelected :: "string \<Rightarrow> (mappedChat \<Rightarrow> mappedChat) \<Rightarrow> mainScreen \<Rightarrow> mainScreen" where
  "updateSelected threadId f s =
     s\<lparr>ms_selectedChat := map_option (\<lambda>c. if cs_id c = threadId then f c else c) (ms_selectedChat s)\<rparr>"

definition touched :: "string \<Rightarrow> mappedChat \<Rightarrow> mappedChat" where
  "touched instant c = c\<lparr>cs_updatedAt := instant, cs_statusUpdatedAt := instant\<rparr>"

text \<open>Messages that were sent and that the chat does not have yet\<close>

definition mergeChatWithPendingOptimisticMessages :: "mappedChat \<Rightarrow> mainScreen \<Rightarrow> mappedChat \<times> mainScreen" where
  "mergeChatWithPendingOptimisticMessages chat s =
     (let pending = with_default (map_of (ms_pendingUserMessages s) (cs_id chat)) [] in
      if pending = [] then (chat, s)
      else case reconcileChatWithPendingOptimisticMessages chat pending of
        (merged, remaining) \<Rightarrow>
          (merged, s\<lparr>ms_pendingUserMessages :=
             (if remaining \<noteq> [] then obj_set (cs_id chat) remaining (ms_pendingUserMessages s)
              else AList.delete (cs_id chat) (ms_pendingUserMessages s))\<rparr>))"

definition queueOptimisticUserMessage ::
  "string \<Rightarrow> chatMessage \<Rightarrow> mappedChat option \<Rightarrow> nat option \<Rightarrow> mainScreen \<Rightarrow> mainScreen" where
  "queueOptimisticUserMessage threadId message baseChat userOrdinal s =
     (if threadId = [] then s
      else let existing = with_default (map_of (ms_pendingUserMessages s) threadId) [];
          visible = (case ms_selectedChatRef s of
            Some c \<Rightarrow> if cs_id c = threadId then Some c else baseChat | None \<Rightarrow> baseChat);
          ordinal = with_default userOrdinal
            (max (case visible of Some c \<Rightarrow> countUserMessages (cd_messages c) | None \<Rightarrow> 0)
               (if existing \<noteq> [] then po_userOrdinal (last existing) else 0) + 1)
        in s\<lparr>ms_pendingUserMessages :=
             obj_set threadId (existing @ [\<lparr>po_message = message, po_userOrdinal = ordinal\<rparr>]) (ms_pendingUserMessages s)\<rparr>)"

definition discardOptimisticUserMessage :: "string \<Rightarrow> string \<Rightarrow> mainScreen \<Rightarrow> mainScreen" where
  "discardOptimisticUserMessage threadId messageId s =
     (let existing = with_default (map_of (ms_pendingUserMessages s) threadId) [];
          remaining = filter (\<lambda>e. cm_id (po_message e) \<noteq> messageId) existing
      in if threadId = [] \<or> messageId = [] \<or> existing = [] then s
         else s\<lparr>ms_pendingUserMessages :=
           (if remaining \<noteq> [] then obj_set threadId remaining (ms_pendingUserMessages s)
            else AList.delete threadId (ms_pendingUserMessages s))\<rparr>)"

section \<open>Switching to a thread\<close>

definition apply_some :: "'a option \<Rightarrow> ('a \<Rightarrow> mainScreen \<Rightarrow> mainScreen) \<Rightarrow> mainScreen \<Rightarrow> mainScreen" where
  "apply_some v f s = (case v of Some x \<Rightarrow> f x s | None \<Rightarrow> s)"

definition showPendingUserInput :: "pendingUserInputRequest option \<Rightarrow> mainScreen \<Rightarrow> mainScreen" where
  "showPendingUserInput request s =
     s\<lparr>ms_pendingUserInput := request,
       ms_userInputDrafts := (case request of Some r \<Rightarrow> buildUserInputDrafts r | None \<Rightarrow> []),
       ms_userInputError := None, ms_resolvingUserInput := False\<rparr>"

definition takeOverWatchdog :: "int \<Rightarrow> int \<Rightarrow> mainScreen \<Rightarrow> mainScreen" where
  "takeOverWatchdog now until s =
     (if until > ms_runWatchdogUntil s
      then scheduleRunWatchdogExpiry now until (s\<lparr>ms_runWatchdogUntil := until, ms_runWatchdogNow := now\<rparr>)
      else s)"

definition applyThreadRuntimeSnapshot :: "int \<Rightarrow> string \<Rightarrow> mainScreen \<Rightarrow> mainScreen" where
  "applyThreadRuntimeSnapshot now threadId s =
     (case (if threadId = [] then None else map_of (ms_snapshots s) threadId) of
        None \<Rightarrow> s\<lparr>ms_activePlan := None, ms_activeSurfaces := [], ms_planMode := False\<rparr>
      | Some p \<Rightarrow>
          let shown = s\<lparr>ms_planMode := resolveSnapshotCollaborationMode (Some p),
                ms_activeCommands := with_default (rt_activeCommands p) (ms_activeCommands s),
                ms_streamingText := with_default (rt_streamingText p) (ms_streamingText s),
                ms_pendingApproval := with_default (rt_pendingApproval p) (ms_pendingApproval s),
                ms_activePlan := with_default (rt_plan p) None,
                ms_activeSurfaces := with_default (rt_bridgeUiSurfaces p) [],
                ms_activeTurnId := with_default (rt_activeTurnId p) (ms_activeTurnId s),
                ms_activity := with_default (rt_activity p) (ms_activity s)\<rparr>
          in apply_some (rt_runWatchdogUntil p) (takeOverWatchdog now)
               (apply_some (rt_pendingUserInput p) showPendingUserInput shown))"

text \<open>The plans and surfaces read from the files when the screen starts\<close>

definition plansLoaded :: "int \<Rightarrow> (string \<times> activePlanState) list \<Rightarrow> mainScreen \<Rightarrow> mainScreen" where
  "plansLoaded now plans s =
     (let t = fold (\<lambda>(threadId, plan). upsertThreadRuntimeSnapshot now threadId (\<lambda>p. p\<lparr>rt_plan := Some (Some plan)\<rparr>))
            plans (s\<lparr>ms_planSnapshots := plans\<rparr>)
      in case non_empty (ms_chatIdRef t) of Some c \<Rightarrow> applyThreadRuntimeSnapshot now c t | None \<Rightarrow> t)"

definition surfacesLoaded :: "int \<Rightarrow> (string \<times> bridgeUiSurface list) list \<Rightarrow> mainScreen \<Rightarrow> mainScreen" where
  "surfacesLoaded now persisted s =
     (let add = (\<lambda>surfaces base. foldl upsertBridgeUiSurfaceList base surfaces);
          merged = fold (\<lambda>(threadId, surfaces) m.
            obj_set threadId (add surfaces (with_default (map_of m threadId) [])) m) (ms_surfaceSnapshots s) persisted;
          t = fold (\<lambda>(threadId, surfaces). upsertThreadRuntimeSnapshot now threadId
              (\<lambda>p. p\<lparr>rt_bridgeUiSurfaces := Some (add (with_default (rt_bridgeUiSurfaces p) []) surfaces)\<rparr>))
            merged (s\<lparr>ms_surfaceSnapshots := merged\<rparr>)
      in case non_empty (ms_chatIdRef t) of Some c \<Rightarrow> applyThreadRuntimeSnapshot now c t | None \<Rightarrow> t)"

definition waitingForApproval :: "pendingApproval \<Rightarrow> activityState" where
  "waitingForApproval a = detailed ToneIdle ''Waiting for approval'' (Some (with_default (pa_command a) (pa_kind a)))"

text \<open>\<open>refreshPendingApprovalsForThread\<close> once the approvals were read\<close>

definition approvalsRead :: "int \<Rightarrow> string \<Rightarrow> pendingApproval list \<Rightarrow> mainScreen \<Rightarrow> mainScreen" where
  "approvalsRead now threadId approvals s =
     (let match = find (\<lambda>a. pa_threadId a = threadId) approvals;
          t = cacheThreadPendingApproval now threadId match s
      in if ms_chatIdRef t \<noteq> Some threadId then t
         else let u = t\<lparr>ms_pendingApproval := match\<rparr> in
           case match of Some a \<Rightarrow> setActivity (waitingForApproval a) u | None \<Rightarrow> u)"

definition pushActiveCommand :: "screenEnv \<Rightarrow> string \<Rightarrow> string \<times> string \<Rightarrow> mainScreen \<Rightarrow> mainScreen" where
  "pushActiveCommand env threadId tool s =
     s\<lparr>ms_activeCommands := appendRunEventHistory (ms_activeCommands s) threadId (fst tool) (snd tool)
         (se_now env) (se_random env)\<rparr>"

section \<open>Live reasoning\<close>

definition put_reasoning :: "string \<Rightarrow> string \<Rightarrow> string \<Rightarrow> mappedChat \<Rightarrow> mappedChat" where
  "put_reasoning messageId content createdAt c =
     (let known = list_ex (\<lambda>m. cm_id m = messageId) (cd_messages c) in
      touched createdAt (c\<lparr>cd_messages :=
        map (\<lambda>m. if cm_id m = messageId then m\<lparr>cm_role := Reasoning, cm_content := Text content\<rparr> else m) (cd_messages c)
        @ (if known then [] else [plainMessage messageId Reasoning (Text content) createdAt])\<rparr>))"

definition upsertLiveReasoningMessage :: "screenEnv \<Rightarrow> string \<Rightarrow> string option \<Rightarrow> mainScreen \<Rightarrow> mainScreen" where
  "upsertLiveReasoningMessage env threadId delta s =
     (if threadId = [] \<or> ms_chatIdRef s \<noteq> Some threadId then s
      else let
          previous = with_default (map_of (ms_liveReasoning s) threadId) [];
          buffer = (case non_empty delta of Some d \<Rightarrow> mergeStreamingDelta (Some previous) d | None \<Rightarrow> previous);
          messageId = with_default (map_of (ms_liveReasoningIds s) threadId)
            (''local-reasoning-'' @ show_int (se_now env) @ ''-'' @ se_random env)
        in updateSelected threadId
             (put_reasoning messageId (formatLiveReasoningMessage buffer) (to_iso_string (se_now env)))
             (s\<lparr>ms_liveReasoning := (if buffer \<noteq> [] then obj_set threadId buffer (ms_liveReasoning s) else ms_liveReasoning s),
                ms_liveReasoningIds := obj_set threadId messageId (ms_liveReasoningIds s)\<rparr>))"

definition clearLiveReasoningMessage :: "string \<Rightarrow> mainScreen \<Rightarrow> mainScreen" where
  "clearLiveReasoningMessage threadId s =
     (if threadId = [] then s
      else s\<lparr>ms_liveReasoning := AList.delete threadId (ms_liveReasoning s),
        ms_liveReasoningIds := AList.delete threadId (ms_liveReasoningIds s)\<rparr>)"

section \<open>Stopping a turn\<close>

definition appendLocalSystemMessage :: "screenEnv \<Rightarrow> string \<Rightarrow> mainScreen \<Rightarrow> mainScreen" where
  "appendLocalSystemMessage env content s =
     (case non_empty (ms_chatIdRef s) of
        Some chatId \<Rightarrow>
          if trim content = [] then s
          else let createdAt = to_iso_string (se_now env) in
            updateSelected chatId (\<lambda>c. touched createdAt (c\<lparr>cd_messages := cd_messages c @
              [plainMessage (''local-system-'' @ show_int (se_now env) @ ''-'' @ se_random env) System
                 (Text (trim content)) createdAt]\<rparr>)) s
      | None \<Rightarrow> s)"

definition appendStopSystemMessageIfNeeded :: "screenEnv \<Rightarrow> mainScreen \<Rightarrow> mainScreen" where
  "appendStopSystemMessageIfNeeded env s =
     (if ms_stopMessageLogged s then s
      else appendLocalSystemMessage env ''Turn stopped by user.'' (s\<lparr>ms_stopMessageLogged := True\<rparr>))"

definition handleTurnFailure :: "screenEnv \<Rightarrow> string \<Rightarrow> mainScreen \<Rightarrow> mainScreen" where
  "handleTurnFailure env message s =
     (let interruptedByUser = (ms_stopRequested s
            \<and> (has_substring (lower message) ''turn aborted'' \<or> has_substring (lower message) ''interrupted''));
          t = (if interruptedByUser
            then setActivity (activity_of ToneComplete ''Turn stopped'')
              (appendStopSystemMessageIfNeeded env (s\<lparr>ms_error := None\<rparr>))
            else setActivity (detailed ToneError ''Turn failed'' (Some message)) (s\<lparr>ms_error := Some message\<rparr>))
      in clearRunWatchdog (se_now env)
           (t\<lparr>ms_activeTurnId := None, ms_stoppingTurn := False, ms_stopRequested := interruptedByUser\<rparr>))"

definition stoppingActivity :: activityState where
  "stoppingActivity = activity_of ToneRunning ''Stopping turn''"

text \<open>\<open>interruptActiveTurn\<close> and \<open>interruptLatestTurn\<close> once the request was answered\<close>

definition interruptFailed :: "string \<Rightarrow> mainScreen \<Rightarrow> mainScreen" where
  "interruptFailed message s =
     setActivity (detailed ToneError ''Failed to stop turn'' (Some message))
       (s\<lparr>ms_error := Some message, ms_stoppingTurn := False, ms_stopRequested := False\<rparr>)"

definition activeTurnInterrupted :: "mainScreen \<Rightarrow> mainScreen" where
  "activeTurnInterrupted s = setActivity stoppingActivity (s\<lparr>ms_error := None\<rparr>)"

definition latestTurnInterrupted :: "string option \<Rightarrow> mainScreen \<Rightarrow> mainScreen" where
  "latestTurnInterrupted turnId s =
     (case non_empty turnId of
        Some t \<Rightarrow> setActivity stoppingActivity (s\<lparr>ms_activeTurnId := Some t, ms_error := None\<rparr>)
      | None \<Rightarrow> setActivity (activity_of ToneIdle ''No active turn found'')
          (s\<lparr>ms_stoppingTurn := False, ms_stopRequested := False\<rparr>))"

definition registerTurnStarted :: "screenEnv \<Rightarrow> string \<Rightarrow> string \<Rightarrow> mainScreen \<Rightarrow> mainScreen" where
  "registerTurnStarted env threadId turnId s =
     (if threadId = [] \<or> turnId = []
         \<or> (case non_empty (ms_chatIdRef s) of Some c \<Rightarrow> c \<noteq> threadId | None \<Rightarrow> False) then s
      else let t = updateSelected threadId
              (\<lambda>c. (touched (to_iso_string (se_now env)) c)\<lparr>cs_status := ChatRunning, cs_lastError := None\<rparr>)
              (setActivity working (s\<lparr>ms_sending := False, ms_creating := False, ms_activeTurnId := Some turnId,
                 ms_activeTurnIdRef := Some turnId, ms_showDelayedActivity := True\<rparr>))
        in if ms_stopRequested t then emit (Interrupt threadId (Some turnId)) t else t)"

text \<open>\<open>handleStopTurn\<close> reads \<open>stoppingTurn\<close> as it was rendered.\<close>

definition handleStopTurn :: "mainScreen \<Rightarrow> mainScreen" where
  "handleStopTurn s =
     (if ms_renderedStopping s then s
      else let t = setActivity stoppingActivity
              (s\<lparr>ms_stopRequested := True, ms_stopMessageLogged := False, ms_stoppingTurn := True, ms_error := None\<rparr>)
        in case (non_empty (ms_chatIdRef s), non_empty (ms_activeTurnIdRef s)) of
          (Some threadId, Some turnId) \<Rightarrow> emit (Interrupt threadId (Some turnId)) t
        | (Some threadId, None) \<Rightarrow> emit (Interrupt threadId None) t
        | (None, _) \<Rightarrow> setActivity (activity_of ToneIdle ''No active turn found'')
            (t\<lparr>ms_stoppingTurn := False, ms_stopRequested := False\<rparr>))"

section \<open>Reading the chat after its status changed elsewhere\<close>

definition clearExternalStatusFullSync :: "mainScreen \<Rightarrow> mainScreen" where
  "clearExternalStatusFullSync s = s\<lparr>ms_syncTimer := None, ms_syncQueued := None\<rparr>"

definition drainExternalStatusFullSyncQueue :: "screenEnv \<Rightarrow> mainScreen \<Rightarrow> mainScreen" where
  "drainExternalStatusFullSyncQueue env s =
     (case non_empty (ms_syncQueued s) of
        None \<Rightarrow> s
      | Some threadId \<Rightarrow>
          if ms_syncInFlight s then s
          else if ms_chatIdRef s \<noteq> Some threadId then s\<lparr>ms_syncQueued := None\<rparr>
          else if ms_syncNextAllowedAt s > se_now env
          then s\<lparr>ms_syncTimer := Some (with_default (ms_syncTimer s) (ms_syncNextAllowedAt s))\<rparr>
          else emit (ReadChat threadId)
            (s\<lparr>ms_syncQueued := None, ms_syncInFlight := True, ms_syncNextAllowedAt := se_now env + se_debounce env\<rparr>))"

definition scheduleExternalStatusFullSync :: "screenEnv \<Rightarrow> string \<Rightarrow> mainScreen \<Rightarrow> mainScreen" where
  "scheduleExternalStatusFullSync env threadId s =
     (if ms_chatIdRef s \<noteq> Some threadId then s
      else drainExternalStatusFullSyncQueue env (s\<lparr>ms_syncQueued := Some threadId\<rparr>))"

definition syncTimerFires :: "screenEnv \<Rightarrow> mainScreen \<Rightarrow> mainScreen" where
  "syncTimerFires env s = drainExternalStatusFullSyncQueue env (s\<lparr>ms_syncTimer := None\<rparr>)"

text \<open>The chat was read, or could not be.\<close>

definition fullSyncRead ::
  "(string \<Rightarrow> int option) \<Rightarrow> screenEnv \<Rightarrow> string \<Rightarrow> mappedChat option \<Rightarrow> mainScreen \<Rightarrow> mainScreen" where
  "fullSyncRead other env threadId latest s =
     (let t = (case latest of
          None \<Rightarrow> s
        | Some chat \<Rightarrow>
            (case mergeChatWithPendingOptimisticMessages chat s of
               (resolved, u) \<Rightarrow>
                 if ms_chatIdRef u \<noteq> Some threadId then u
                 else let v = updateSelected (cs_id resolved) (\<lambda>c. resolveEquivalentChat other (se_now env) c resolved) u in
                   if isChatLikelyRunning resolved then keepRunning working (bumpRunWatchdog (se_now env) v) else v))
      in drainExternalStatusFullSyncQueue env (t\<lparr>ms_syncInFlight := False\<rparr>))"

section \<open>The connection\<close>

text \<open>
  \<open>mainScreenLifecycleRecovery.tsx\<close> looks for the refs of the application state in its context.  The
  screen (\<open>MainScreen.tsx\<close>) makes them in a later hook and passes on a new context, so it has none.
\<close>

definition clearDeferredDisconnectActivity :: "screenEnv \<Rightarrow> mainScreen \<Rightarrow> mainScreen" where
  "clearDeferredDisconnectActivity env s = (if se_hasAppRefs env then s\<lparr>ms_disconnectTimer := None\<rparr> else s)"

definition showDisconnected :: "screenEnv \<Rightarrow> mainScreen \<Rightarrow> mainScreen" where
  "showDisconnected env s =
     (let t = s\<lparr>ms_disconnectTimer := None\<rparr> in
      if \<not> ms_appActive t \<or> se_connected env then t
      else setActivity (detailed ToneError ''Bridge disconnected'' (Some ''Start the bridge to continue.''))
        (t\<lparr>ms_recoveryBanner := True\<rparr>))"

definition APP_FOCUS_DISCONNECT_GRACE_MS :: int where "APP_FOCUS_DISCONNECT_GRACE_MS = 5000"

definition scheduleDisconnectActivity :: "screenEnv \<Rightarrow> mainScreen \<Rightarrow> mainScreen" where
  "scheduleDisconnectActivity env s =
     (let t = clearDeferredDisconnectActivity env s;
          remaining = max 0 (APP_FOCUS_DISCONNECT_GRACE_MS - (se_now env - ms_foregroundedAt t))
      in if \<not> se_hasAppRefs env \<or> \<not> ms_appActive t then t
         else if remaining \<le> 0 then showDisconnected env t
         else t\<lparr>ms_disconnectTimer := Some (se_now env + remaining)\<rparr>)"

end
