(* ===== verification/ScreenEvents.thy ===== *)
theory ScreenEvents
  imports ScreenState
begin

text \<open>
  What the chat screen does with a notification of the bridge: the router
  (\<open>screens/mainScreenWsEventRouter.ts\<close>) and the handlers \<open>mainScreenAgUiRunEvents.ts\<close>,
  \<open>mainScreenThreadStateEvents.ts\<close>, \<open>mainScreenPlanAndReasoningEvents.ts\<close>,
  \<open>mainScreenTurnLifecycleEvents.ts\<close>, \<open>mainScreenBridgeInteractionEvents.ts\<close> and
  \<open>mainScreenBridgeConnectionEvents.ts\<close>.
\<close>

section \<open>Runs\<close>

definition is_current :: "mainScreen \<Rightarrow> string \<Rightarrow> bool" where
  "is_current s threadId \<longleftrightarrow> ms_chatIdRef s = Some threadId"

definition runStarted :: "screenEnv \<Rightarrow> string \<Rightarrow> string \<Rightarrow> mainScreen \<Rightarrow> mainScreen" where
  "runStarted env threadId turnId s =
     (let now = se_now env;
          t = clearLiveReasoningMessage threadId s;
          u = upsertThreadRuntimeSnapshot now threadId
            (\<lambda>p. p\<lparr>rt_activeCommands := Some [], rt_streamingText := Some None\<rparr>)
            (t\<lparr>ms_planItemTurnIds := AList.delete threadId (ms_planItemTurnIds t)\<rparr>)
      in if is_current s threadId
         then bumpRunWatchdog now (setActivity working
           ((registerTurnStarted env threadId turnId u)
             \<lparr>ms_error := None, ms_activeTurnId := Some turnId, ms_activeCommands := []\<rparr>))
         else cacheThreadActivity now threadId working
           (cacheThreadTurnState now threadId (Some turnId) (now + RUN_WATCHDOG_MS) u))"

text \<open>The turn ended: nothing for success, the message and the code of an error otherwise.\<close>

definition interrupt_codes :: "string list" where
  "interrupt_codes = [''interrupted'', ''cancelled'', ''canceled'', ''aborted'']"

definition interrupted_by_user :: "(string \<times> string option) option \<Rightarrow> mainScreen \<Rightarrow> bool" where
  "interrupted_by_user failure s \<longleftrightarrow>
     (case failure of Some (_, code) \<Rightarrow> with_default code [] \<in> set interrupt_codes | None \<Rightarrow> False) \<and> ms_stopRequested s"

definition terminalActivity :: "(string \<times> string option) option \<Rightarrow> bool \<Rightarrow> activityState" where
  "terminalActivity failure interruptedByUser =
     (case failure of
        None \<Rightarrow> activity_of ToneComplete ''Turn completed''
      | Some (message, _) \<Rightarrow>
          if interruptedByUser then activity_of ToneComplete ''Turn stopped''
          else detailed ToneError ''Turn failed'' (Some message))"

definition ended_chat :: "string \<Rightarrow> string option \<Rightarrow> mappedChat \<Rightarrow> mappedChat" where
  "ended_chat instant lastError c =
     (touched instant c)\<lparr>cs_status := (if lastError = None then ChatComplete else ChatProjection.ChatFailed),
        cs_lastError := lastError\<rparr>"

definition forgetTurn :: "string \<Rightarrow> mainScreen \<Rightarrow> mainScreen" where
  "forgetTurn threadId s =
     (let t = clearLiveReasoningMessage threadId (s\<lparr>ms_planItemTurnIds := AList.delete threadId (ms_planItemTurnIds s)\<rparr>)
      in t\<lparr>ms_threadReasoning := AList.delete threadId (ms_threadReasoning t)\<rparr>)"

definition idleScreen :: "mainScreen \<Rightarrow> mainScreen" where
  "idleScreen s =
     s\<lparr>ms_activeCommands := [], ms_streamingText := None, ms_pendingUserInput := None, ms_userInputDrafts := [],
       ms_userInputError := None, ms_resolvingUserInput := False, ms_activeTurnId := None, ms_stoppingTurn := False,
       ms_stopRequested := False, ms_hadCommand := False, ms_reasoningSummary := []\<rparr>"

definition runEnded :: "screenEnv \<Rightarrow> string \<Rightarrow> (string \<times> string option) option \<Rightarrow> mainScreen \<Rightarrow> mainScreen" where
  "runEnded env threadId failure s =
     (let now = se_now env;
          interruptedByUser = interrupted_by_user failure s;
          planTurnId = non_empty (map_of (ms_planItemTurnIds s) threadId);
          ended = terminalActivity failure interruptedByUser;
          lastError = (if interruptedByUser then None else map_option fst failure);
          t = bumpRevision (upsertThreadRuntimeSnapshot now threadId
            (\<lambda>p. p\<lparr>rt_activity := Some ended, rt_activeCommands := Some [], rt_streamingText := Some None,
               rt_pendingUserInput := Some None, rt_activeTurnId := Some None, rt_runWatchdogUntil := Some 0\<rparr>)
            (forgetTurn threadId s))
      in if \<not> is_current s threadId then t
         else let u = (idleScreen (clearRunWatchdog now t))\<lparr>ms_error := lastError\<rparr>;
                  v = setActivity ended (if interruptedByUser then appendStopSystemMessageIfNeeded env u else u);
                  w = updateSelected threadId (ended_chat (to_iso_string now) lastError) v
           in loadChat threadId False False
             (case (failure, planTurnId) of
                (None, Some turnId) \<Rightarrow>
                  w\<lparr>ms_planPrompts := obj_set threadId \<lparr>pp_threadId = threadId, pp_turnId = turnId\<rparr> (ms_planPrompts w)\<rparr>
              | _ \<Rightarrow> clearPendingPlanImplementationPrompt threadId w))"

definition SUBAGENT_EVENT :: string where "SUBAGENT_EVENT = ''tethercode.dev/subagent''"

definition processAgUiRunEvents :: "screenEnv \<Rightarrow> agUiEventEnvelope \<Rightarrow> mainScreen \<Rightarrow> mainScreen" where
  "processAgUiRunEvents env envelope s =
     (let threadId = en_threadId envelope;
          t = s\<lparr>ms_live := reduceAgUiMessageState (se_now env) envelope (ms_live s)\<rparr>
      in case en_event envelope of
           CUSTOM name _ \<Rightarrow> if name = SUBAGENT_EVENT then emit (RefreshAgentThreads threadId) t else t
         | RUN_STARTED _ _ \<Rightarrow> runStarted env threadId (with_default (en_sourceTurnId envelope) (en_runId envelope)) t
         | RUN_FINISHED _ _ \<Rightarrow> runEnded env threadId None t
         | RUN_ERROR message code \<Rightarrow> runEnded env threadId (Some (message, code)) t
         | _ \<Rightarrow> t)"

section \<open>The state of a thread\<close>

text \<open>\<open>readString(params?.a) ?? readString(params?.b)\<close>, and the thread of an item\<close>

definition either_field :: "jobj option \<Rightarrow> string \<Rightarrow> string \<Rightarrow> string option" where
  "either_field params a b = or_else (as_string (opt_prop params a)) (as_string (opt_prop params b))"

definition item_thread :: "jobj option \<Rightarrow> string option" where
  "item_thread params = non_empty (either_field params ''threadId'' ''thread_id'')"

definition cacheRunning :: "int \<Rightarrow> string \<Rightarrow> activityState \<Rightarrow> mainScreen \<Rightarrow> mainScreen" where
  "cacheRunning now threadId a s = cacheThreadActivity now threadId a (cacheThreadWatchdog now threadId s)"

definition snapshotRequired :: "screenEnv \<Rightarrow> jobj option \<Rightarrow> mainScreen \<Rightarrow> mainScreen" where
  "snapshotRequired env params s =
     (let now = se_now env;
          t = (clearRunWatchdog now s)\<lparr>ms_activeCommands := [], ms_streamingText := None, ms_live := [],
            ms_activeTurnId := None, ms_pendingApproval := None, ms_pendingUserInput := None, ms_activePlan := None,
            ms_activeSurfaces := []\<rparr>;
          u = (case non_empty (ms_chatIdRef s) of
            Some currentId \<Rightarrow> replaceThreadBridgeUiSurfaces now currentId [] t | None \<Rightarrow> t);
          v = emit (RecoverReplayGap (as_number (opt_prop params ''resumeAfterEventId''))
            (as_string (opt_prop params ''reason'') \<noteq> Some ''recoveryOverflow'')) (u\<lparr>ms_reasoningSummary := []\<rparr>)
      in case se_agentDetail env of
           Some (threadId, _) \<Rightarrow> if threadId = [] then v else emit (RefreshAgentThreads threadId) v
         | None \<Rightarrow> v)"

definition threadRenamed :: "jobj option \<Rightarrow> mainScreen \<Rightarrow> mainScreen" where
  "threadRenamed params s =
     (case non_empty (extractNotificationThreadId params None) of
        None \<Rightarrow> s
      | Some threadId \<Rightarrow>
          if \<not> is_current s threadId then s
          else (case either_field params ''threadName'' ''thread_name'' of
              Some name \<Rightarrow>
                if trim name \<noteq> [] then s\<lparr>ms_selectedChat := map_option (\<lambda>c. c\<lparr>cs_title := name\<rparr>) (ms_selectedChat s)\<rparr>
                else loadChat threadId True False s
            | None \<Rightarrow> loadChat threadId True False s))"

definition subAgentAdopted :: "screenEnv \<Rightarrow> jobj option \<Rightarrow> mainScreen \<Rightarrow> mainScreen" where
  "subAgentAdopted env params s =
     (case (non_empty (extractNotificationThreadId params None), se_agentDetail env) of
        (Some threadId, Some (detail, loaded)) \<Rightarrow>
          if threadId = detail \<and> \<not> loaded then emit (LoadAgentDetail threadId) s else s
      | _ \<Rightarrow> s)"

definition tokenUsageUpdated :: "screenEnv \<Rightarrow> jsv \<Rightarrow> jobj option \<Rightarrow> mainScreen \<Rightarrow> mainScreen" where
  "tokenUsageUpdated env value params s =
     (case (item_thread params, readThreadContextUsage (se_now env) value) of
        (Some threadId, Some usage) \<Rightarrow> cacheThreadContextUsage (se_now env) threadId (Some usage) s
      | _ \<Rightarrow> s)"

definition started_activity :: "string option \<Rightarrow> activityState option" where
  "started_activity itemType =
     (if itemType \<in> {Some ''commandExecution'', Some ''fileChange'', Some ''mcpToolCall'', Some ''reasoning''} then Some working
      else if itemType = Some ''plan'' then Some planning
      else None)"

definition itemStarted :: "screenEnv \<Rightarrow> jobj option \<Rightarrow> mainScreen \<Rightarrow> mainScreen" where
  "itemStarted env params s =
     (case item_thread params of
        None \<Rightarrow> s
      | Some threadId \<Rightarrow>
          let now = se_now env;
              item = toRecord (opt_prop params ''item'');
              itemType = as_string (opt_prop item ''type'');
              tool = Option.bind item describeStartedToolEvent;
              t = (case (itemType = Some ''plan'', non_empty (either_field params ''turnId'' ''turn_id'')) of
                (True, Some turnId) \<Rightarrow> s\<lparr>ms_planItemTurnIds := obj_set threadId turnId (ms_planItemTurnIds s)\<rparr>
              | _ \<Rightarrow> s)
          in if \<not> is_current s threadId
             then let u = apply_some tool (cacheThreadActiveCommand env threadId) (cacheThreadWatchdog now threadId t) in
               apply_some (started_activity itemType) (cacheThreadActivity now threadId) u
             else let u = apply_some tool
                 (\<lambda>e v. pushActiveCommand env threadId e (cacheThreadActiveCommand env threadId e v)) (bumpRunWatchdog now t) in
               if itemType = Some ''toolCall'' then setActivity working u
               else if itemType = Some ''plan'' then setActivity planning (u\<lparr>ms_planMode := True\<rparr>)
               else if itemType = Some ''reasoning'' then setActivity working (upsertLiveReasoningMessage env threadId None u)
               else apply_some (started_activity itemType) setActivity u)"

definition processThreadStateEvents :: "screenEnv \<Rightarrow> rpcNotification \<Rightarrow> mainScreen \<Rightarrow> mainScreen" where
  "processThreadStateEvents env event s =
     (let params = toRecord (rn_params event); m = rn_method event in
      if m = ''bridge/events/snapshotRequired'' then snapshotRequired env params s
      else if m = ''thread/name/updated'' then threadRenamed params s
      else if m = ''thread/subagent/adopted'' then subAgentAdopted env params s
      else if m = ''thread/tokenUsage/updated'' then tokenUsageUpdated env (rn_params event) params s
      else if m = ''item/started'' then itemStarted env params s
      else s)"

section \<open>Plans and reasoning\<close>

text \<open>\<open>/\*\*([^*]+)\*\*/\<close>\<close>

fun first_bold :: "string \<Rightarrow> string option" where
  "first_bold [] = None"
| "first_bold (c # s) =
     (let content = takeWhile (\<lambda>d. d \<noteq> CHR ''*'') (drop 2 (c # s)) in
      if starts_with (c # s) ''**'' \<and> content \<noteq> [] \<and> starts_with (drop (2 + length content) (c # s)) ''**'' then Some content
      else first_bold s)"

definition extractFirstBoldSnippet :: "string option \<Rightarrow> nat \<Rightarrow> string option" where
  "extractFirstBoldSnippet value maxLength =
     Option.bind (Option.bind (non_empty value) first_bold) (\<lambda>content. toTickerSnippet (Some content) maxLength)"

text \<open>What follows the heading and its mark or a space\<close>

definition heading_marks :: "string list" where
  "heading_marks = ['':'', ''-'', ''.'', [CHR 0xE2, CHR 0x80, CHR 0x93], [CHR 0xE2, CHR 0x80, CHR 0x94]]"

definition without_heading :: "string \<Rightarrow> string \<Rightarrow> string" where
  "without_heading heading cleaned =
     (let rest = drop (length heading) cleaned; spaced = trim_start rest in
      if \<not> starts_with (lower_ascii cleaned) (lower_ascii heading) then cleaned
      else case leading_unit heading_marks spaced of
        Some mark \<Rightarrow> trim_start (drop (length mark) spaced)
      | None \<Rightarrow> if spaced \<noteq> rest then spaced else cleaned)"

definition toReasoningActivityDetail :: "string option \<Rightarrow> string option \<Rightarrow> nat \<Rightarrow> string option" where
  "toReasoningActivityDetail value heading maxLength =
     (case non_empty value of
        None \<Rightarrow> None
      | Some v \<Rightarrow>
          let cleaned = trim (collapse_spaces (stripMarkdownInline v)) in
          if cleaned = [] then None
          else case non_empty heading of
            None \<Rightarrow> toTickerSnippet (Some cleaned) maxLength
          | Some h \<Rightarrow>
              let rest = trim (without_heading h cleaned) in
              if rest = [] \<or> lower rest = lower h then None else toTickerSnippet (Some rest) maxLength)"

definition planDelta :: "screenEnv \<Rightarrow> jobj option \<Rightarrow> mainScreen \<Rightarrow> mainScreen" where
  "planDelta env params s =
     (case item_thread params of
        None \<Rightarrow> s
      | Some threadId \<Rightarrow>
          let now = se_now env;
              turnId = with_default (as_string (opt_prop params ''turnId'')) ''unknown-turn'';
              rawDelta = with_default (as_string (opt_prop params ''delta'')) [];
              advanced = (\<lambda>previous. Some (buildNextPlanStateFromDelta previous threadId turnId rawDelta now));
              t = s\<lparr>ms_planItemTurnIds := obj_set threadId turnId (ms_planItemTurnIds s)\<rparr>
          in if \<not> is_current s threadId
             then cacheThreadPlan now threadId advanced (cacheRunning now threadId planning t)
             else let u = bumpRunWatchdog now (t\<lparr>ms_planMode := True\<rparr>);
                      v = cacheThreadPlan now threadId advanced (u\<lparr>ms_activePlan := advanced (ms_activePlan u)\<rparr>)
               in if at_tone (ms_activity v) = ToneRunning \<and> at_title (ms_activity v) = ''Planning'' then v
                  else setActivity planning v)"

definition summary_key :: "jobj option \<Rightarrow> string option" where
  "summary_key params =
     (case (non_empty (as_string (opt_prop params ''itemId'')), as_number (opt_prop params ''summaryIndex'')) of
        (Some itemId, Some n) \<Rightarrow> Some (itemId @ '':'' @ show_num n)
      | _ \<Rightarrow> None)"

definition summaryPartAdded :: "screenEnv \<Rightarrow> jobj option \<Rightarrow> mainScreen \<Rightarrow> mainScreen" where
  "summaryPartAdded env params s =
     (case item_thread params of
        None \<Rightarrow> s
      | Some threadId \<Rightarrow>
          if \<not> is_current s threadId then cacheThreadWatchdog (se_now env) threadId s
          else let t = bumpRunWatchdog (se_now env) s in
            case summary_key params of
              None \<Rightarrow> t
            | Some key \<Rightarrow>
                if map_of (ms_reasoningSummary t) key \<noteq> None then t
                else t\<lparr>ms_reasoningSummary := obj_set key [] (ms_reasoningSummary t)\<rparr>)"

definition reasoning_activity :: "string option \<Rightarrow> string \<Rightarrow> activityState \<Rightarrow> activityState" where
  "reasoning_activity heading content previous =
     detailed ToneRunning
       (with_default heading
         (if at_tone previous = ToneRunning \<and> trim (at_title previous) \<noteq> [] then at_title previous else ''Working''))
       (if heading \<noteq> None then None else toReasoningActivityDetail (Some content) None 64)"

definition summaryTextDelta :: "screenEnv \<Rightarrow> jobj option \<Rightarrow> mainScreen \<Rightarrow> mainScreen" where
  "summaryTextDelta env params s =
     (case item_thread params of
        None \<Rightarrow> s
      | Some threadId \<Rightarrow>
          let now = se_now env; delta = as_string (opt_prop params ''delta'') in
          if \<not> is_current s threadId
          then (case non_empty delta of
              None \<Rightarrow> s
            | Some d \<Rightarrow>
                let buffer = with_default (map_of (ms_threadReasoning s) threadId) [] @ d;
                    heading = extractFirstBoldSnippet (Some buffer) 56
                in cacheRunning now threadId
                     (detailed ToneRunning (with_default heading ''Working'')
                       (if heading \<noteq> None then None else toReasoningActivityDetail (Some buffer) None 64))
                     (s\<lparr>ms_threadReasoning := obj_set threadId buffer (ms_threadReasoning s)\<rparr>))
          else let t = bumpRunWatchdog now s; heading = extractFirstBoldSnippet delta 56 in
            case summary_key params of
              None \<Rightarrow> setActivity (reasoning_activity heading (with_default delta []) (ms_activity t)) t
            | Some key \<Rightarrow>
                let accumulated = with_default (map_of (ms_reasoningSummary t) key) [] @ with_default delta [] in
                setActivity
                  (reasoning_activity (or_else (extractFirstBoldSnippet (Some accumulated) 56) heading) accumulated
                    (ms_activity t))
                  (t\<lparr>ms_reasoningSummary := obj_set key accumulated (ms_reasoningSummary t)\<rparr>))"

definition reasoningTextDelta :: "screenEnv \<Rightarrow> jobj option \<Rightarrow> mainScreen \<Rightarrow> mainScreen" where
  "reasoningTextDelta env params s =
     (case item_thread params of
        None \<Rightarrow> s
      | Some threadId \<Rightarrow>
          if \<not> is_current s threadId then cacheThreadWatchdog (se_now env) threadId s
          else let t = bumpRunWatchdog (se_now env) s; delta = non_empty (as_string (opt_prop params ''delta'')) in
            keepRunning working (if delta \<noteq> None then upsertLiveReasoningMessage env threadId delta t else t))"

definition processPlanAndReasoningEvents :: "screenEnv \<Rightarrow> rpcNotification \<Rightarrow> mainScreen \<Rightarrow> mainScreen" where
  "processPlanAndReasoningEvents env event s =
     (let params = toRecord (rn_params event); m = rn_method event in
      if m = ''item/plan/delta'' then planDelta env params s
      else if m = ''item/reasoning/summaryPartAdded'' then summaryPartAdded env params s
      else if m = ''item/reasoning/summaryTextDelta'' then summaryTextDelta env params s
      else if m = ''item/reasoning/textDelta'' then reasoningTextDelta env params s
      else s)"

section \<open>The course of a turn\<close>

definition EXTERNAL_RUNNING_STATUS_HINTS :: "string list" where
  "EXTERNAL_RUNNING_STATUS_HINTS = [''running'', ''inprogress'', ''active'', ''queued'', ''pending'']"

definition EXTERNAL_COMPLETE_STATUS_HINTS :: "string list" where
  "EXTERNAL_COMPLETE_STATUS_HINTS = [''completed'', ''success'', ''succeeded'']"

definition EXTERNAL_ERROR_STATUS_HINTS :: "string list" where
  "EXTERNAL_ERROR_STATUS_HINTS = [''error'', ''failed'', ''cancelled'', ''canceled'']"

definition hinted :: "string list \<Rightarrow> string option \<Rightarrow> bool" where
  "hinted hints hint \<longleftrightarrow> (case hint of Some h \<Rightarrow> h \<in> set hints | None \<Rightarrow> False)"

definition terminal_hint :: "string option \<Rightarrow> bool" where
  "terminal_hint hint \<longleftrightarrow> hinted EXTERNAL_ERROR_STATUS_HINTS hint \<or> hinted EXTERNAL_COMPLETE_STATUS_HINTS hint"

text \<open>Output of a command or progress of a tool\<close>

definition commandProgress :: "screenEnv \<Rightarrow> jobj option \<Rightarrow> mainScreen \<Rightarrow> mainScreen" where
  "commandProgress env params s =
     (case item_thread params of
        None \<Rightarrow> s
      | Some threadId \<Rightarrow>
          if \<not> is_current s threadId then cacheRunning (se_now env) threadId working s
          else let t = bumpRunWatchdog (se_now env) s in
            if at_tone (ms_activity t) = ToneRunning \<and> at_title (ms_activity t) = ''Working'' then t
            else setActivity working t)"

definition terminalInteraction :: "screenEnv \<Rightarrow> jobj option \<Rightarrow> mainScreen \<Rightarrow> mainScreen" where
  "terminalInteraction env params s =
     (case item_thread params of
        None \<Rightarrow> s
      | Some threadId \<Rightarrow>
          if \<not> is_current s threadId then cacheRunning (se_now env) threadId working s
          else setActivity working (bumpRunWatchdog (se_now env) s))"

definition planUpdated :: "screenEnv \<Rightarrow> jsv \<Rightarrow> jobj option \<Rightarrow> mainScreen \<Rightarrow> mainScreen" where
  "planUpdated env value params s =
     (case non_empty (or_else (either_field params ''threadId'' ''thread_id'') (ms_chatIdRef s)) of
        None \<Rightarrow> s
      | Some threadId \<Rightarrow>
          let now = se_now env;
              update = toTurnPlanUpdate value (Some threadId);
              advanced = (\<lambda>u previous. Some (buildNextPlanStateFromUpdate previous u now))
          in if \<not> is_current s threadId
             then apply_some update (\<lambda>u. cacheThreadPlan now threadId (advanced u)) (cacheRunning now threadId planning s)
             else setActivity planning
               (apply_some update
                 (\<lambda>u t. cacheThreadPlan now threadId (advanced u) (t\<lparr>ms_activePlan := advanced u (ms_activePlan t)\<rparr>))
                 (bumpRunWatchdog now (s\<lparr>ms_planMode := True\<rparr>))))"

definition itemCompleted :: "screenEnv \<Rightarrow> jobj option \<Rightarrow> mainScreen \<Rightarrow> mainScreen" where
  "itemCompleted env params s =
     (case item_thread params of
        None \<Rightarrow> s
      | Some threadId \<Rightarrow>
          let item = toRecord (opt_prop params ''item'');
              failed = (as_string (opt_prop item ''status'') \<in> {Some ''failed'', Some ''error''});
              after = (if failed then activity_of ToneError ''Turn failed'' else working);
              command = (as_string (opt_prop item ''type'') = Some ''commandExecution'');
              tool = Option.bind item describeCompletedToolEvent;
              t = apply_some tool (cacheThreadActiveCommand env threadId) s
          in if \<not> is_current s threadId
             then (if command then cacheThreadActivity (se_now env) threadId after t else t)
             else let u = apply_some tool (pushActiveCommand env threadId) t in
               if command then setActivity after (u\<lparr>ms_hadCommand := True\<rparr>) else u)"

definition statusChanged :: "screenEnv \<Rightarrow> jobj option \<Rightarrow> mainScreen \<Rightarrow> mainScreen" where
  "statusChanged env params s =
     (case non_empty (extractNotificationThreadId params None) of
        None \<Rightarrow> s
      | Some threadId \<Rightarrow>
          let hint = Option.bind params extractExternalStatusHint in
          if is_current s threadId
          then let t = (if terminal_hint hint then s else keepRunning working (bumpRunWatchdog (se_now env) s));
                   check = \<lparr>sk_threadId = threadId, sk_statusHint = hint, sk_approvalId = ms_renderedApprovalId s,
                     sk_inputId = ms_renderedInputId s\<rparr>
            in scheduleExternalStatusFullSync env threadId (emit (ReadChatSummary check) t)
          else emit (ReadApprovals threadId)
            (if terminal_hint hint then s else cacheRunning (se_now env) threadId working s))"

definition processTurnLifecycleEvents :: "screenEnv \<Rightarrow> rpcNotification \<Rightarrow> mainScreen \<Rightarrow> mainScreen" where
  "processTurnLifecycleEvents env event s =
     (let params = toRecord (rn_params event); m = rn_method event in
      if m = ''item/commandExecution/outputDelta'' \<or> m = ''item/mcpToolCall/progress'' then commandProgress env params s
      else if m = ''item/commandExecution/terminalInteraction'' then terminalInteraction env params s
      else if m = ''turn/plan/updated'' then planUpdated env (rn_params event) params s
      else if m = ''turn/diff/updated'' then terminalInteraction env params s
      else if m = ''item/completed'' then itemCompleted env params s
      else if m = ''thread/status/changed'' then statusChanged env params s
      else s)"

text \<open>The summary that was asked for when the status of the thread changed\<close>

definition finished_activity :: "string option \<Rightarrow> chatSummary \<Rightarrow> activityState" where
  "finished_activity hint summary =
     (if hinted EXTERNAL_COMPLETE_STATUS_HINTS hint then activity_of ToneComplete ''Turn completed''
      else case cs_status summary of
        ChatProjection.ChatFailed \<Rightarrow> detailed ToneError ''Turn failed'' (cs_lastError summary)
      | ChatComplete \<Rightarrow> activity_of ToneComplete ''Turn completed''
      | _ \<Rightarrow> activity_of ToneIdle ''Ready'')"

definition summaryRead :: "screenEnv \<Rightarrow> summaryCheck \<Rightarrow> chatSummary \<Rightarrow> mainScreen \<Rightarrow> mainScreen" where
  "summaryRead env check summary s =
     (let now = se_now env; threadId = sk_threadId check; hint = sk_statusHint check in
      if \<not> is_current s threadId then s
      else let t = updateSelected (cs_id summary) (\<lambda>c. mergeChatSummaryPreservingMessages c summary) s in
        if hinted EXTERNAL_RUNNING_STATUS_HINTS hint \<or> cs_status summary = ChatRunning
          \<or> (\<not> terminal_hint hint \<and> ms_runWatchdogUntil t > now)
        then keepRunning working (bumpRunWatchdog now t)
        else let u = (cacheThreadTurnState now threadId None 0 (clearRunWatchdog now t))
              \<lparr>ms_activeTurnId := None, ms_stoppingTurn := False\<rparr> in
          if non_empty (sk_approvalId check) \<noteq> None \<or> non_empty (sk_inputId check) \<noteq> None then u
          else setActivity (finished_activity hint summary)
            (u\<lparr>ms_activeCommands := [], ms_streamingText := None, ms_reasoningSummary := [], ms_hadCommand := False\<rparr>))"

section \<open>Approvals, questions and surfaces\<close>

definition inputNeeded :: "pendingUserInputRequest \<Rightarrow> activityState" where
  "inputNeeded request = detailed ToneIdle ''Clarification needed''
     (Some (case ui_questions request of q # _ \<Rightarrow> uq_header q | [] \<Rightarrow> ''Answer required''))"

definition approvalRequested :: "screenEnv \<Rightarrow> pendingApproval \<Rightarrow> mainScreen \<Rightarrow> mainScreen" where
  "approvalRequested env approval s =
     (let now = se_now env; threadId = pa_threadId approval;
          t = cacheThreadActivity now threadId (waitingForApproval approval)
            (cacheThreadPendingApproval now threadId (Some approval) s)
      in if \<not> is_current s threadId then t
         else setActivity (waitingForApproval approval) ((clearRunWatchdog now t)\<lparr>ms_pendingApproval := Some approval\<rparr>))"

definition userInputRequested :: "screenEnv \<Rightarrow> pendingUserInputRequest \<Rightarrow> mainScreen \<Rightarrow> mainScreen" where
  "userInputRequested env request s =
     (let now = se_now env; threadId = ui_threadId request;
          t = cacheThreadActivity now threadId (inputNeeded request)
            (cacheThreadPendingUserInputRequest now threadId (Some request) s)
      in if \<not> is_current s threadId then t
         else setActivity (inputNeeded request)
           (showPendingUserInput (Some request) (clearRunWatchdog now (t\<lparr>ms_planMode := True\<rparr>))))"

text \<open>
  A request was resolved somewhere.  The id of the request of the selected thread is the remembered
  one, or else the one that was rendered.
\<close>

definition resolved_in_threads ::
  "(threadRuntimeSnapshot \<Rightarrow> string option) \<Rightarrow> (string \<Rightarrow> mainScreen \<Rightarrow> mainScreen) \<Rightarrow> string \<Rightarrow> mainScreen \<Rightarrow> mainScreen" where
  "resolved_in_threads request resolve resolvedId s =
     fold (\<lambda>(threadId, p). if request p = Some resolvedId then resolve threadId else id) (ms_snapshots s) s"

definition selected_request ::
  "(threadRuntimeSnapshot \<Rightarrow> string option) \<Rightarrow> string option \<Rightarrow> mainScreen \<Rightarrow> string option" where
  "selected_request request rendered s =
     (case non_empty (ms_chatIdRef s) of
        Some currentId \<Rightarrow> or_else (Option.bind (map_of (ms_snapshots s) currentId) request) rendered
      | None \<Rightarrow> rendered)"

definition input_of :: "threadRuntimeSnapshot \<Rightarrow> string option" where
  "input_of p = map_option ui_requestId (with_default (rt_pendingUserInput p) None)"

definition approval_of_thread :: "threadRuntimeSnapshot \<Rightarrow> string option" where
  "approval_of_thread p = map_option pa_requestId (with_default (rt_pendingApproval p) None)"

definition inputSubmitted :: activityState where "inputSubmitted = activity_of ToneRunning ''Input submitted''"
definition approvalResolved :: activityState where "approvalResolved = activity_of ToneRunning ''Approval resolved''"

definition userInputResolved :: "screenEnv \<Rightarrow> string option \<Rightarrow> mainScreen \<Rightarrow> mainScreen" where
  "userInputResolved env resolvedId s =
     (let now = se_now env;
          selected = non_empty (selected_request input_of (ms_renderedInputId s) s);
          t = apply_some (non_empty resolvedId) (resolved_in_threads input_of (\<lambda>threadId u.
            cacheThreadActivity now threadId inputSubmitted (cacheThreadPendingUserInputRequest now threadId None u))) s
      in if selected \<noteq> None \<and> resolvedId = selected
         then setActivity inputSubmitted (showPendingUserInput None (bumpRunWatchdog now t)) else t)"

definition approvalWasResolved :: "screenEnv \<Rightarrow> string option \<Rightarrow> mainScreen \<Rightarrow> mainScreen" where
  "approvalWasResolved env resolvedId s =
     (let now = se_now env;
          selected = non_empty (selected_request approval_of_thread (ms_renderedApprovalId s) s);
          t = apply_some (non_empty resolvedId) (resolved_in_threads approval_of_thread (\<lambda>threadId u.
            cacheThreadActivity now threadId approvalResolved (cacheThreadPendingApproval now threadId None u))) s
      in if selected \<noteq> None \<and> resolvedId = selected
         then setActivity approvalResolved ((bumpRunWatchdog now t)\<lparr>ms_pendingApproval := None\<rparr>) else t)"

definition surfacePresented :: "screenEnv \<Rightarrow> bridgeUiSurface \<Rightarrow> mainScreen \<Rightarrow> mainScreen" where
  "surfacePresented env surface s =
     (let t = cacheThreadBridgeUiSurface (se_now env) (bs_threadId surface) surface s in
      if is_current s (bs_threadId surface)
      then t\<lparr>ms_activeSurfaces := upsertBridgeUiSurfaceList (ms_activeSurfaces t) surface\<rparr> else t)"

definition surfaceDismissed :: "screenEnv \<Rightarrow> jobj option \<Rightarrow> mainScreen \<Rightarrow> mainScreen" where
  "surfaceDismissed env params s =
     (case non_empty (as_string (opt_prop params ''id'')) of
        None \<Rightarrow> s
      | Some surfaceId \<Rightarrow>
          let t = removeThreadBridgeUiSurface (se_now env) surfaceId (as_string (opt_prop params ''threadId'')) s in
          t\<lparr>ms_activeSurfaces := removeBridgeUiSurfaceFromList (ms_activeSurfaces t) surfaceId\<rparr>)"

definition processBridgeInteractionEvents :: "screenEnv \<Rightarrow> rpcNotification \<Rightarrow> mainScreen \<Rightarrow> mainScreen" where
  "processBridgeInteractionEvents env event s =
     (let params = rn_params event; m = rn_method event;
          resolvedId = as_string (opt_prop (toRecord params) ''id'') in
      if m = ''bridge/thread/queue/updated''
      then apply_some (parseBridgeThreadQueueState params)
        (\<lambda>q. cacheThreadQueueState (se_now env) (qs_threadId q) (Some q)) s
      else if m = ''bridge/approval.requested'' then apply_some (toPendingApproval params) (approvalRequested env) s
      else if m = ''bridge/userInput.requested''
      then apply_some (toPendingUserInputRequest params) (userInputRequested env) s
      else if m = ''bridge/userInput.resolved'' then userInputResolved env resolvedId s
      else if m = ''bridge/ui.present'' \<or> m = ''bridge/ui.update''
      then apply_some (toBridgeUiSurface params) (surfacePresented env) s
      else if m = ''bridge/ui.dismiss'' then surfaceDismissed env (toRecord params) s
      else if m = ''bridge/approval.resolved'' then approvalWasResolved env resolvedId s
      else s)"

section \<open>The connection\<close>

definition processBridgeConnectionEvents :: "screenEnv \<Rightarrow> rpcNotification \<Rightarrow> mainScreen \<Rightarrow> mainScreen" where
  "processBridgeConnectionEvents env event s =
     (let status = as_string (opt_prop (toRecord (rn_params event)) ''status'') in
      if status = Some ''connected''
      then let t = (clearDeferredDisconnectActivity env s)\<lparr>ms_recoveryBanner := False\<rparr> in
        (case non_empty (ms_chatIdRef s) of
           None \<Rightarrow> t
         | Some currentId \<Rightarrow>
             loadChat currentId True False
               (clearRunWatchdog (se_now env) (keepRunning (activity_of ToneIdle ''Connected'') t)))
      else if status = Some ''disconnected''
      then let t = clearRunWatchdog (se_now env) s in
        if \<not> ms_appActive t then clearDeferredDisconnectActivity env t else scheduleDisconnectActivity env t
      else s)"

section \<open>The router\<close>

definition thread_state_methods :: "string list" where
  "thread_state_methods =
     [''bridge/events/snapshotRequired'', ''thread/name/updated'', ''thread/subagent/adopted'',
      ''thread/tokenUsage/updated'', ''item/started'']"

definition progress_methods :: "string list" where
  "progress_methods =
     [''item/commandExecution/outputDelta'', ''item/mcpToolCall/progress'', ''item/commandExecution/terminalInteraction'']"

definition turn_methods :: "string list" where
  "turn_methods = [''turn/plan/updated'', ''turn/diff/updated'', ''item/completed'', ''thread/status/changed'']"

definition routeEvent ::
  "(jsv \<Rightarrow> (agUiEvent \<times> int option) option) \<Rightarrow> screenEnv \<Rightarrow> rpcNotification \<Rightarrow> mainScreen \<Rightarrow> mainScreen" where
  "routeEvent parse env event s =
     (let m = rn_method event in
      case parseAgUiEventNotification parse event of
        Some envelope \<Rightarrow> processAgUiRunEvents env envelope s
      | None \<Rightarrow>
          if m \<in> set thread_state_methods then processThreadStateEvents env event s
          else if m = ''item/plan/delta'' \<or> starts_with m ''item/reasoning/'' \<or> m \<in> set progress_methods
          then processPlanAndReasoningEvents env event s
          else if m \<in> set turn_methods then processTurnLifecycleEvents env event s
          else if starts_with m ''bridge/''
          then (if m = ''bridge/connection/state'' then processBridgeConnectionEvents env event s
            else processBridgeInteractionEvents env event s)
          else s)"

end
