(* ===== verification/ScreenLoading.thy ===== *)
theory ScreenLoading
  imports ScreenEvents
begin

text \<open>
  Opening and loading chats on the screen (\<open>screens/mainScreenChatNavigationAndAgentDetail.ts\<close>,
  \<open>mainScreenChatLoadPipeline.tsx\<close>), synchronization with the bridge and answers
  (\<open>mainScreenApprovalAndUserInputResolution.tsx\<close>), and what a recovery snapshot is put into
  (\<open>mainScreenReplayRecoveryEngine.ts\<close>).
\<close>

section \<open>The screen when it is mounted\<close>

text \<open>
  \<open>useMainScreenCoreBootstrap\<close>, with the refs of \<open>useMainScreenChatSessionState\<close>: the chat that is to be
  opened, when there is one, is selected, and it is shown if it has messages.
\<close>

definition initialScreen :: "int \<Rightarrow> bool \<Rightarrow> string option \<Rightarrow> mappedChat option \<Rightarrow> mainScreen" where
  "initialScreen now appActive pendingOpenChatId pendingOpenChatSnapshot =
     (let chat = (case (non_empty pendingOpenChatId, pendingOpenChatSnapshot) of
            (Some chatId, Some c) \<Rightarrow> if cs_id c = chatId \<and> cd_messages c \<noteq> [] then Some c else None
          | _ \<Rightarrow> None);
          selected = or_else (map_option cs_id chat) pendingOpenChatId
      in \<lparr>ms_chatIdRef = selected, ms_selectedChatRef = chat, ms_activeTurnIdRef = None, ms_renderedApprovalId = None,
          ms_renderedInputId = None, ms_renderedStopping = False, ms_selectedChatId = selected, ms_selectedChat = chat,
          ms_activity = activity_of ToneIdle ''Ready'', ms_activeCommands = [], ms_streamingText = None,
          ms_pendingApproval = None, ms_pendingUserInput = None, ms_userInputDrafts = [], ms_userInputError = None,
          ms_resolvingUserInput = False, ms_activePlan = None, ms_activeSurfaces = [], ms_activeTurnId = None,
          ms_planMode = False, ms_error = None, ms_stoppingTurn = False, ms_sending = False, ms_creating = False,
          ms_showDelayedActivity = False, ms_planPrompts = [], ms_live = [], ms_recoveryBanner = False,
          ms_runWatchdogNow = now, ms_snapshots = [], ms_planSnapshots = [], ms_surfaceSnapshots = [],
          ms_runWatchdogUntil = 0, ms_watchdogTimer = None, ms_stopRequested = False, ms_stopMessageLogged = False,
          ms_hadCommand = False, ms_reasoningSummary = [], ms_threadReasoning = [], ms_liveReasoning = [],
          ms_liveReasoningIds = [], ms_planItemTurnIds = [], ms_pendingUserMessages = [], ms_appActive = appActive,
          ms_foregroundedAt = (if appActive then now else 0), ms_disconnectTimer = None, ms_loadRequest = 0,
          ms_openingChatId = (if chat \<noteq> None then None else pendingOpenChatId),
          ms_openingStartedAt = (if chat \<noteq> None \<or> non_empty pendingOpenChatId = None then 0 else now),
          ms_continuation = (case chat of Some c \<Rightarrow> getTranscriptContinuationState c
            | None \<Rightarrow> \<lparr>tx_loading = False, tx_error = None, tx_exhausted = True, tx_unavailableCount = 0\<rparr>),
          ms_autoPlanTurns = [], ms_syncQueued = None, ms_syncInFlight = False, ms_syncNextAllowedAt = 0,
          ms_syncTimer = None, ms_surfacesTimer = None, ms_revision = 0, ms_effects = []\<rparr>)"

section \<open>Loading a chat\<close>

definition OPEN_CHAT_MIN_LOADING_MS :: int where "OPEN_CHAT_MIN_LOADING_MS = 250"

definition queueRead :: "int \<Rightarrow> string \<Rightarrow> nat \<Rightarrow> threadQueueState option \<Rightarrow> mainScreen \<Rightarrow> mainScreen" where
  "queueRead now chatId requestId queue s =
     (if requestId = ms_loadRequest s then cacheThreadQueueState now chatId queue s else s)"

definition loaded_activity :: "mappedChat \<Rightarrow> activityState" where
  "loaded_activity chat =
     (case cs_status chat of
        ChatComplete \<Rightarrow> activity_of ToneComplete ''Turn completed''
      | ChatProjection.ChatFailed \<Rightarrow> detailed ToneError ''Turn failed'' (cs_lastError chat)
      | _ \<Rightarrow> activity_of ToneIdle ''Ready'')"

definition showChat :: "(string \<Rightarrow> int option) \<Rightarrow> int \<Rightarrow> mappedChat \<Rightarrow> mainScreen \<Rightarrow> mainScreen" where
  "showChat other now chat s =
     s\<lparr>ms_selectedChat := Some (case ms_selectedChat s of
         Some c \<Rightarrow> if cs_id c = cs_id chat then resolveEquivalentChat other now c chat else chat
       | None \<Rightarrow> chat)\<rparr>"

text \<open>What is shown of a chat that was loaded: its run or its end, then what is remembered of its thread\<close>

definition showLoadedRun :: "int \<Rightarrow> string \<Rightarrow> mappedChat \<Rightarrow> mainScreen \<Rightarrow> mainScreen" where
  "showLoadedRun now chatId chat s =
     (if isChatLikelyRunning chat
      then let restored = or_else (non_empty (map_option trim (pl_activeTurnId (cd_plans chat))))
              (non_empty (map_option trim
                (Option.bind (map_of (ms_snapshots s) chatId) (\<lambda>p. with_default (rt_activeTurnId p) None)))) in
        setActivity working (cacheThreadTurnState now chatId restored (now + RUN_WATCHDOG_MS) s)
      else setActivity (loaded_activity chat) (cacheThreadTurnState now chatId None 0 (clearRunWatchdog now s)))"

definition resetRuntime :: "int \<Rightarrow> string \<Rightarrow> mappedChat \<Rightarrow> mainScreen \<Rightarrow> mainScreen" where
  "resetRuntime now chatId chat s =
     (let t = s\<lparr>ms_activeCommands := [], ms_pendingApproval := None, ms_streamingText := None, ms_activeTurnId := None,
            ms_stoppingTurn := False, ms_stopMessageLogged := False\<rparr>
      in applyThreadRuntimeSnapshot now chatId
           ((showLoadedRun now chatId chat t)\<lparr>ms_reasoningSummary := [], ms_hadCommand := False\<rparr>))"

definition finishOpening :: "loadRequest \<Rightarrow> mainScreen \<Rightarrow> mainScreen" where
  "finishOpening req s =
     (if lq_requestId req \<noteq> ms_loadRequest s \<or> ms_openingChatId s \<noteq> Some (lq_chatId req) then s
      else s\<lparr>ms_openingStartedAt := 0, ms_openingChatId := None\<rparr>)"

text \<open>A chat that opens is shown as loading for a while.\<close>

definition endLoading :: "int \<Rightarrow> loadRequest \<Rightarrow> mainScreen \<Rightarrow> mainScreen" where
  "endLoading now req s =
     (if ms_openingStartedAt s > 0 \<and> OPEN_CHAT_MIN_LOADING_MS - (now - ms_openingStartedAt s) > 0
      then emit (FinishOpening req) s else finishOpening req s)"

definition threadLoaded ::
  "(string \<Rightarrow> int option) \<Rightarrow> screenEnv \<Rightarrow> loadRequest \<Rightarrow> mappedChat \<Rightarrow> mainScreen \<Rightarrow> mainScreen" where
  "threadLoaded other env req loaded s =
     (case mergeChatWithPendingOptimisticMessages loaded s of
        (chat, t) \<Rightarrow>
          if lq_requestId req \<noteq> ms_loadRequest t then t
          else let now = se_now env; chatId = lq_chatId req;
              preserve = (lq_preserve req \<and> ms_chatIdRef t = Some chatId);
              u = (showChat other now chat (t\<lparr>ms_selectedChatId := Some chatId\<rparr>))
                \<lparr>ms_continuation := getTranscriptContinuationState chat, ms_error := None\<rparr>;
              v = (if preserve then u
                else resetRuntime now chatId chat (u\<lparr>ms_autoPlanTurns := AList.delete chatId (ms_autoPlanTurns u)\<rparr>))
            in endLoading now req (emit (ReadApprovals chatId) v))"

definition threadLoadFailed :: "loadRequest \<Rightarrow> string \<Rightarrow> mainScreen \<Rightarrow> mainScreen" where
  "threadLoadFailed req message s =
     (if lq_requestId req \<noteq> ms_loadRequest s then s
      else let cached = ms_selectedChatRef s;
          surfaced = shouldSurfaceChatLoadError (Some (lq_revalidate req)) (map_option cs_id cached) (lq_chatId req)
            (case cached of Some c \<Rightarrow> length (cd_messages c) | None \<Rightarrow> 0);
          t = (if surfaced then setActivity (detailed ToneError ''Failed to load chat'' (Some message))
                (s\<lparr>ms_error := Some message\<rparr>) else s)
        in t\<lparr>ms_openingStartedAt := 0, ms_openingChatId := None\<rparr>)"

section \<open>Opening a chat\<close>

text \<open>\<open>provided\<close> is the chat that was passed, \<open>peeked\<close> and \<open>shell\<close> what the API client has of it.\<close>

definition showSnapshot :: "mappedChat option \<Rightarrow> mainScreen \<Rightarrow> mainScreen" where
  "showSnapshot snapshot s =
     apply_some snapshot (\<lambda>c t. case mergeChatWithPendingOptimisticMessages c t of
       (chat, u) \<Rightarrow> u\<lparr>ms_selectedChat := Some chat\<rparr>) s"

definition openChatThread ::
  "screenEnv \<Rightarrow> string \<Rightarrow> mappedChat option \<Rightarrow> mappedChat option \<Rightarrow> mappedChat option \<Rightarrow> mainScreen \<Rightarrow> mainScreen" where
  "openChatThread env chatId optimistic peeked shell s =
     (let provided = (case optimistic of Some c \<Rightarrow> if cs_id c = chatId then Some c else None | None \<Rightarrow> None);
          hydrated = (case provided of Some c \<Rightarrow> if cd_messages c \<noteq> [] then Some c else None | None \<Rightarrow> None);
          cached = or_else hydrated peeked;
          snapshot = or_else cached (or_else provided shell);
          revalidate = (cached \<noteq> None)
      in if is_current s chatId
         then loadChat chatId True revalidate (emit (ReadApprovals chatId)
           (showSnapshot snapshot (s\<lparr>ms_selectedChatId := Some chatId, ms_openingStartedAt := 0,
              ms_openingChatId := None, ms_error := None\<rparr>)))
         else let t = s\<lparr>ms_selectedChatId := Some chatId,
                ms_openingStartedAt := (if revalidate then 0 else se_now env),
                ms_openingChatId := (if revalidate then None else Some chatId),
                ms_sending := False, ms_creating := False, ms_error := None, ms_pendingUserInput := None,
                ms_userInputDrafts := [], ms_userInputError := None, ms_resolvingUserInput := False,
                ms_activePlan := None, ms_activeTurnId := None, ms_stoppingTurn := False, ms_stopRequested := False,
                ms_stopMessageLogged := False, ms_autoPlanTurns := AList.delete chatId (ms_autoPlanTurns s)\<rparr>;
             u = showSnapshot snapshot (t\<lparr>ms_selectedChat := None\<rparr>)
           in loadChat chatId False revalidate (emit (ReadApprovals chatId)
                (applyThreadRuntimeSnapshot (se_now env) chatId (setActivity (activity_of ToneRunning ''Opening chat'') u))))"

section \<open>Synchronization\<close>

definition synchronized_activity :: "mappedChat \<Rightarrow> activityState \<Rightarrow> activityState" where
  "synchronized_activity chat previous =
     (case cs_status chat of
        ChatComplete \<Rightarrow>
          (if at_tone previous = ToneRunning then activity_of ToneComplete ''Turn completed'' else activity_of ToneIdle ''Ready'')
      | ChatProjection.ChatFailed \<Rightarrow>
          detailed ToneError
            (if at_tone previous = ToneError \<and> at_title previous \<noteq> [] then at_title previous else ''Turn failed'')
            (non_empty (or_else (non_empty (map_option trim (cs_lastError chat))) (at_detail previous)))
      | _ \<Rightarrow> activity_of ToneIdle ''Ready'')"

definition applySynchronizedChat ::
  "(string \<Rightarrow> int option) \<Rightarrow> screenEnv \<Rightarrow> mappedChat \<Rightarrow> chatSyncAssessment \<Rightarrow> mainScreen \<Rightarrow> mainScreen" where
  "applySynchronizedChat other env latest assessment s =
     (if ms_chatIdRef s \<noteq> Some (cs_id latest) then s
      else case mergeChatWithPendingOptimisticMessages latest s of
        (resolved, t) \<Rightarrow>
          let now = se_now env;
              pending = (non_empty (ms_renderedApprovalId s) \<noteq> None \<or> non_empty (ms_renderedInputId s) \<noteq> None);
              u = showChat other now resolved t; previous = ms_activity u; refresh = sa_shouldRefreshWatchdog assessment
          in if pending then u
             else if sa_shouldShowRunning assessment
             then (if \<not> refresh \<and> at_tone previous \<in> {ToneComplete, ToneError} then u
               else keepRunning working
                 (if refresh then bumpRunWatchdogBy (sa_watchdogDurationMs assessment) now u else u))
             else setActivity (synchronized_activity resolved previous)
               ((clearRunWatchdog now u)\<lparr>ms_activeCommands := [], ms_streamingText := None, ms_activeTurnId := None,
                  ms_stoppingTurn := False, ms_reasoningSummary := [], ms_hadCommand := False\<rparr>))"

section \<open>Answers\<close>

text \<open>\<open>handleResolveApproval\<close> after the request, with the chat that was selected before it\<close>

definition approvalAnswered :: "int \<Rightarrow> string option \<Rightarrow> mainScreen \<Rightarrow> mainScreen" where
  "approvalAnswered now selectedChatId s =
     (apply_some (non_empty selectedChatId) (\<lambda>c. cacheThreadPendingApproval now c None) s)\<lparr>ms_pendingApproval := None\<rparr>"

definition approvalNotAnswered :: "string \<Rightarrow> mainScreen \<Rightarrow> mainScreen" where
  "approvalNotAnswered message s = s\<lparr>ms_error := Some message\<rparr>"

definition setUserInputDraft :: "string \<Rightarrow> string \<Rightarrow> mainScreen \<Rightarrow> mainScreen" where
  "setUserInputDraft questionId value s =
     s\<lparr>ms_userInputDrafts := obj_set questionId value (ms_userInputDrafts s), ms_userInputError := None\<rparr>"

definition submitUserInputRequest :: "mainScreen \<Rightarrow> mainScreen" where
  "submitUserInputRequest s =
     (case ms_pendingUserInput s of
        None \<Rightarrow> s
      | Some request \<Rightarrow>
          if ms_resolvingUserInput s then s
          else (case buildUserInputAnswers request (ms_userInputDrafts s) of
              Inl e \<Rightarrow> s\<lparr>ms_userInputError := Some e\<rparr>
            | Inr answers \<Rightarrow>
                emit (ResolveUserInput (ui_requestId request) answers) (s\<lparr>ms_resolvingUserInput := True\<rparr>)))"

definition userInputAnswered :: "int \<Rightarrow> pendingUserInputRequest \<Rightarrow> string option \<Rightarrow> mainScreen \<Rightarrow> mainScreen" where
  "userInputAnswered now request failure s =
     (case failure of
        Some message \<Rightarrow> s\<lparr>ms_userInputError := Some message, ms_resolvingUserInput := False\<rparr>
      | None \<Rightarrow> bumpRunWatchdog now (setActivity inputSubmitted (showPendingUserInput None
          (cacheThreadPendingUserInputRequest now (ui_threadId request) None s))))"

section \<open>A recovery snapshot\<close>

record replayRecoverySnapshot =
  rv_approvals :: "pendingApproval list"
  rv_userInputs :: "pendingUserInputRequest list"
  rv_threads :: "(mappedChat \<times> threadQueueState) list"

text \<open>\<open>new Map(list.map((x) => [x.threadId, x]))\<close>: the last of a thread\<close>

definition by_thread :: "('a \<Rightarrow> string) \<Rightarrow> 'a list \<Rightarrow> string \<Rightarrow> 'a option" where
  "by_thread thread xs threadId = find (\<lambda>x. thread x = threadId) (rev xs)"

definition usage_value :: "snapshotUsage option \<Rightarrow> jsv" where
  "usage_value usage =
     (case usage of
        None \<Rightarrow> JUndefined
      | Some u \<Rightarrow>
          let number = (\<lambda>n. case n of Some q \<Rightarrow> JNum q | None \<Rightarrow> JUndefined) in
          JObj [(''used'', number (us_used u)), (''size'', number (us_size u)),
            (''cost'', case us_cost u of Some c \<Rightarrow> JStr c | None \<Rightarrow> JUndefined)])"

definition recovered_activity ::
  "pendingApproval option \<Rightarrow> pendingUserInputRequest option \<Rightarrow> mappedChat \<Rightarrow> activityState" where
  "recovered_activity approval request chat =
     (if approval \<noteq> None then activity_of ToneIdle ''Waiting for approval''
      else if request \<noteq> None then activity_of ToneIdle ''Waiting for input''
      else if isChatLikelyRunning chat then working
      else loaded_activity chat)"

definition recoveredSnapshot ::
  "int \<Rightarrow> pendingApproval option \<Rightarrow> pendingUserInputRequest option \<Rightarrow> activePlanState option \<Rightarrow> mappedChat \<Rightarrow>
     threadQueueState \<Rightarrow> threadRuntimeSnapshot" where
  "recoveredSnapshot now approval request plan chat queue =
     \<lparr>rt_activity = Some (recovered_activity approval request chat), rt_activeCommands = Some [],
      rt_latestCommand = Some None, rt_streamingText = Some None, rt_pendingApproval = Some approval,
      rt_pendingUserInput = Some request, rt_bridgeUiSurfaces = Some [],
      rt_queuedMessages = Some (qs_pendingSteers queue @ qs_items queue),
      rt_pendingSteerMessageIds = Some (map qm_id (qs_pendingSteers queue)),
      rt_waitingForToolCalls = Some (qs_waitingForToolCalls queue),
      rt_steeringInFlight = Some (qs_steeringInFlight queue), rt_queuedMessageError = Some (qs_lastError queue),
      rt_contextUsage = Some (readThreadContextUsage now (usage_value (cd_acpUsage chat))), rt_plan = Some plan,
      rt_activeTurnId = Some (or_else (pl_activeTurnId (cd_plans chat)) (Option.bind (cd_acpActive chat) sa_sourceTurnId)),
      rt_runWatchdogUntil = Some (if isChatLikelyRunning chat then now + RUN_WATCHDOG_MS else 0), rt_updatedAtMs = now\<rparr>"

definition installThread ::
  "int \<Rightarrow> replayRecoverySnapshot \<Rightarrow> mappedChat \<times> threadQueueState \<Rightarrow> mainScreen \<Rightarrow> mainScreen" where
  "installThread now snapshot entry s =
     (case entry of (chat, queue) \<Rightarrow>
        let threadId = cs_id chat;
            plan = toPersistedActivePlanState (pl_latestPlan (cd_plans chat)) (Some (cs_updatedAt chat));
            remembered = recoveredSnapshot now (by_thread pa_threadId (rv_approvals snapshot) threadId)
              (by_thread ui_threadId (rv_userInputs snapshot) threadId) plan chat queue
        in (emit (RememberChat chat) s)
             \<lparr>ms_snapshots := obj_set threadId remembered (ms_snapshots s),
              ms_planSnapshots := (case plan of
                Some p \<Rightarrow> obj_set threadId p (ms_planSnapshots s) | None \<Rightarrow> AList.delete threadId (ms_planSnapshots s)),
              ms_surfaceSnapshots := obj_set threadId [] (ms_surfaceSnapshots s)\<rparr>)"

definition installReplayRecoverySnapshot ::
  "(string \<Rightarrow> int option) \<Rightarrow> screenEnv \<Rightarrow> replayRecoverySnapshot \<Rightarrow> mainScreen \<Rightarrow> mainScreen" where
  "installReplayRecoverySnapshot other env snapshot s =
     (let now = se_now env;
          t = fold (installThread now snapshot) (rv_threads snapshot) (s\<lparr>ms_live := []\<rparr>)
      in bumpRevision
        (case find (\<lambda>(chat, _). ms_chatIdRef t = Some (cs_id chat)) (rv_threads snapshot) of
           Some (found, _) \<Rightarrow>
             (case mergeChatWithPendingOptimisticMessages found t of
                (selected, u) \<Rightarrow>
                  applyThreadRuntimeSnapshot now (cs_id selected)
                    ((showChat other now selected u)\<lparr>ms_continuation := getTranscriptContinuationState selected,
                       ms_stoppingTurn := False, ms_error := None\<rparr>))
         | None \<Rightarrow>
             t\<lparr>ms_activeCommands := [], ms_streamingText := None, ms_pendingApproval := None, ms_pendingUserInput := None,
               ms_userInputDrafts := [], ms_activePlan := None, ms_activeSurfaces := [], ms_activeTurnId := None\<rparr>))"

end
