(* ===== verification/ScreenLaws.thy ===== *)
theory ScreenLaws
  imports ScreenLoading
begin

text \<open>
  Laws of the chat screen: an event of one thread neither changes what is remembered of the others
  nor, when its thread is not the selected one, what the screen shows; the watchdog of a run always
  has a timer that ends it; the selected chat is the one that was opened last.
\<close>

section \<open>Events of other threads\<close>

text \<open>What is remembered of all threads but one\<close>

definition rest_of :: "string \<Rightarrow> (string \<times> 'v) list \<Rightarrow> string \<Rightarrow> 'v option" where
  "rest_of k m = (map_of m)(k := None)"

lemma rest_of_set [simp]: "rest_of k (obj_set k v m) = rest_of k m"
  by (simp add: rest_of_def)

lemma rest_of_delete [simp]: "rest_of k (AList.delete k m) = rest_of k m"
  by (simp add: rest_of_def delete_conv')

definition others :: "string \<Rightarrow> mainScreen \<Rightarrow> _" where
  "others t s =
     (rest_of t (ms_snapshots s), rest_of (trim t) (ms_planSnapshots s), rest_of (trim t) (ms_surfaceSnapshots s),
      rest_of t (ms_live s), rest_of t (ms_planItemTurnIds s), rest_of t (ms_threadReasoning s),
      rest_of t (ms_liveReasoning s), rest_of t (ms_liveReasoningIds s), rest_of t (ms_planPrompts s))"

text \<open>What the screen shows and decides by, without what is remembered of threads\<close>

definition shown :: "mainScreen \<Rightarrow> mainScreen" where
  "shown s =
     s\<lparr>ms_snapshots := [], ms_planSnapshots := [], ms_surfaceSnapshots := [], ms_surfacesTimer := None,
       ms_live := [], ms_planItemTurnIds := [], ms_threadReasoning := [], ms_liveReasoning := [], ms_liveReasoningIds := [],
       ms_revision := 0, ms_effects := []\<rparr>"

text \<open>A view of the screen that what is remembered of a thread is no part of\<close>

locale thread_background =
  fixes view :: "mainScreen \<Rightarrow> 'v" and t :: string
  assumes upsert: "view (upsertThreadRuntimeSnapshot now t f s) = view s"
    and revision: "view (bumpRevision s) = view s"
    and plans: "view (rememberChatPlanSnapshot t p s) = view s"
    and surfaces: "view (rememberBridgeUiSurfaceSnapshots now t g s) = view s"
    and asked: "(\<And>req. e \<noteq> ReadThread req) \<Longrightarrow> view (emit e s) = view s"
begin

lemmas basic = upsert revision plans surfaces asked

lemma activity: "view (cacheThreadActivity now t a s) = view s"
  by (simp add: cacheThreadActivity_def basic)

lemma command: "view (cacheThreadActiveCommand env t e s) = view s"
  by (simp add: cacheThreadActiveCommand_def basic)

lemma approval: "view (cacheThreadPendingApproval now t a s) = view s"
  by (simp add: cacheThreadPendingApproval_def basic)

lemma input: "view (cacheThreadPendingUserInputRequest now t r s) = view s"
  by (simp add: cacheThreadPendingUserInputRequest_def basic)

lemma queue: "view (cacheThreadQueueState now t q s) = view s"
  by (simp add: cacheThreadQueueState_def basic)

lemma watchdog: "view (cacheThreadWatchdog now t s) = view s"
  by (simp add: cacheThreadWatchdog_def basic)

lemma turn: "view (cacheThreadTurnState now t u w s) = view s"
  by (simp add: cacheThreadTurnState_def basic)

lemma usage: "view (cacheThreadContextUsage now t u s) = view s"
  by (simp add: cacheThreadContextUsage_def basic Let_def split: option.split)

lemma plan: "view (cacheThreadPlan now t p s) = view s"
  by (simp add: cacheThreadPlan_def basic Let_def)

lemma surface: "view (cacheThreadBridgeUiSurface now t f s) = view s"
  by (simp add: cacheThreadBridgeUiSurface_def updateThreadSurfaces_def basic)

lemma running: "view (cacheRunning now t a s) = view s"
  by (simp add: cacheRunning_def activity watchdog)

lemma optional_command: "view (apply_some e (cacheThreadActiveCommand env t) s) = view s"
  by (simp add: apply_some_def command split: option.split)

lemma optional_activity: "view (apply_some a (cacheThreadActivity now t) s) = view s"
  by (simp add: apply_some_def activity split: option.split)

lemma optional_plan: "view (apply_some u (\<lambda>v. cacheThreadPlan now t (f v)) s) = view s"
  by (simp add: apply_some_def plan split: option.split)

lemmas cached = basic activity command approval input queue watchdog turn usage plan surface running
  optional_command optional_activity optional_plan

end

interpretation shown: thread_background shown t for t
  by unfold_locales
    (simp_all add: shown_def upsertThreadRuntimeSnapshot_def bumpRevision_def rememberChatPlanSnapshot_def
      rememberBridgeUiSurfaceSnapshots_def emit_def Let_def)

interpretation others: thread_background "others t" t for t
  by unfold_locales
    (simp_all add: others_def upsertThreadRuntimeSnapshot_def bumpRevision_def rememberChatPlanSnapshot_def
      rememberBridgeUiSurfaceSnapshots_def emit_def Let_def split: option.split)

text \<open>The thread an event is about, as its handler reads it; none for the events of the whole screen\<close>

definition event_thread ::
  "(jsv \<Rightarrow> (agUiEvent \<times> int option) option) \<Rightarrow> mainScreen \<Rightarrow> rpcNotification \<Rightarrow> string option" where
  "event_thread parse s event =
     (let value = rn_params event; params = toRecord value; m = rn_method event in
      case parseAgUiEventNotification parse event of
        Some envelope \<Rightarrow> Some (en_threadId envelope)
      | None \<Rightarrow>
          if m \<in> {''thread/name/updated'', ''thread/subagent/adopted'', ''thread/status/changed''}
          then non_empty (extractNotificationThreadId params None)
          else if m = ''turn/plan/updated''
          then non_empty (or_else (either_field params ''threadId'' ''thread_id'') (ms_chatIdRef s))
          else if m = ''bridge/thread/queue/updated'' then map_option qs_threadId (parseBridgeThreadQueueState value)
          else if m = ''bridge/approval.requested'' then map_option pa_threadId (toPendingApproval value)
          else if m = ''bridge/userInput.requested'' then map_option ui_threadId (toPendingUserInputRequest value)
          else if m = ''bridge/ui.present'' \<or> m = ''bridge/ui.update'' then map_option bs_threadId (toBridgeUiSurface value)
          else if starts_with m ''bridge/'' then None
          else item_thread params)"

subsection \<open>What is remembered of the other threads\<close>

lemma rest_of_reduce [simp]:
  "rest_of (en_threadId e) (reduceAgUiMessageState now e m) = rest_of (en_threadId e) m"
  by (simp add: reduceAgUiMessageState_def Let_def)

lemma others_update [simp]:
  "others t (ms_activity_update f1 s) = others t s"
  "others t (ms_activeCommands_update f2 s) = others t s"
  "others t (ms_streamingText_update f3 s) = others t s"
  "others t (ms_pendingApproval_update f4 s) = others t s"
  "others t (ms_pendingUserInput_update f5 s) = others t s"
  "others t (ms_selectedChat_update f6 s) = others t s"
  "others t (ms_activePlan_update f7 s) = others t s"
  "others t (ms_activeSurfaces_update f8 s) = others t s"
  "others t (ms_activeTurnId_update f9 s) = others t s"
  "others t (ms_planMode_update g1 s) = others t s"
  "others t (ms_error_update g2 s) = others t s"
  "others t (ms_hadCommand_update g3 s) = others t s"
  "others t (ms_reasoningSummary_update g4 s) = others t s"
  "others t (ms_stoppingTurn_update g5 s) = others t s"
  "others t (ms_planItemTurnIds_update (\<lambda>_. obj_set t v (ms_planItemTurnIds s)) s) = others t s"
  "others t (ms_planItemTurnIds_update (\<lambda>_. AList.delete t (ms_planItemTurnIds s)) s) = others t s"
  "others t (ms_threadReasoning_update (\<lambda>_. obj_set t v (ms_threadReasoning s)) s) = others t s"
  "others t (ms_threadReasoning_update (\<lambda>_. AList.delete t (ms_threadReasoning s)) s) = others t s"
  "others t (ms_planPrompts_update (\<lambda>_. obj_set t p (ms_planPrompts s)) s) = others t s"
  by (simp_all add: others_def)

lemma others_foreground [simp]:
  "others t (setActivity a s) = others t s"
  "others t (keepRunning a s) = others t s"
  "others t (bumpRunWatchdog now s) = others t s"
  "others t (clearRunWatchdog now s) = others t s"
  "others t (updateSelected u f s) = others t s"
  "others t (pushActiveCommand env u e s) = others t s"
  "others t (loadChat u p r s) = others t s"
  "others t (registerTurnStarted env u v s) = others t s"
  "others t (idleScreen s) = others t s"
  "others t (showPendingUserInput q s) = others t s"
  "others t (clearLiveReasoningMessage t s) = others t s"
  "others t (upsertLiveReasoningMessage env t d s) = others t s"
  "others t (clearPendingPlanImplementationPrompt t s) = others t s"
  "others t (appendStopSystemMessageIfNeeded env s) = others t s"
  "others t (scheduleExternalStatusFullSync env u s) = others t s"
  by (simp_all add: others_def setActivity_def keepRunning_def bumpRunWatchdog_def bumpRunWatchdogBy_def
      scheduleRunWatchdogExpiry_def clearRunWatchdog_def updateSelected_def pushActiveCommand_def loadChat_def emit_def
      registerTurnStarted_def idleScreen_def showPendingUserInput_def clearLiveReasoningMessage_def
      upsertLiveReasoningMessage_def clearPendingPlanImplementationPrompt_def appendStopSystemMessageIfNeeded_def
      appendLocalSystemMessage_def scheduleExternalStatusFullSync_def drainExternalStatusFullSyncQueue_def Let_def
      split: option.split)

lemmas others_cached [simp] = others.cached

lemma others_some [simp]:
  assumes "\<And>x u. others t (f x u) = others t u"
  shows "others t (apply_some v f s) = others t s"
  by (simp add: apply_some_def assms split: option.split)

lemma others_forgetTurn [simp]: "others t (forgetTurn t s) = others t s"
  by (simp add: forgetTurn_def Let_def)

text \<open>The handlers of the events of a thread\<close>

lemma others_runStarted: "others t (runStarted env t u s) = others t s"
  by (simp add: runStarted_def Let_def)

lemma others_runEnded: "others t (runEnded env t failure s) = others t s"
  by (simp add: runEnded_def Let_def split: option.split prod.split)

lemma others_run: "others (en_threadId e) (processAgUiRunEvents env e s) = others (en_threadId e) s"
proof -
  have "others (en_threadId e) (s\<lparr>ms_live := reduceAgUiMessageState (se_now env) e (ms_live s)\<rparr>) = others (en_threadId e) s"
    by (simp add: others_def)
  thus ?thesis
    by (simp add: processAgUiRunEvents_def Let_def others_runStarted others_runEnded split: agUiEvent.split)
qed

lemma others_threadRenamed: "others t (threadRenamed params s) = others t s"
  by (simp add: threadRenamed_def split: option.split)

lemma others_subAgentAdopted: "others t (subAgentAdopted env params s) = others t s"
  by (simp add: subAgentAdopted_def split: option.split)

lemma others_item:
  assumes "item_thread params = Some t"
  shows "others t (tokenUsageUpdated env v params s) = others t s"
    and "others t (itemStarted env params s) = others t s"
    and "others t (planDelta env params s) = others t s"
    and "others t (summaryPartAdded env params s) = others t s"
    and "others t (summaryTextDelta env params s) = others t s"
    and "others t (reasoningTextDelta env params s) = others t s"
    and "others t (terminalInteraction env params s) = others t s"
    and "others t (itemCompleted env params s) = others t s"
  using assms
  by (simp_all add: tokenUsageUpdated_def itemStarted_def planDelta_def summaryPartAdded_def summaryTextDelta_def
      reasoningTextDelta_def terminalInteraction_def itemCompleted_def Let_def split: option.split bool.split)

lemma others_planUpdated:
  "non_empty (or_else (either_field params ''threadId'' ''thread_id'') (ms_chatIdRef s)) = Some t \<Longrightarrow>
     others t (planUpdated env v params s) = others t s"
  by (simp add: planUpdated_def Let_def)

lemma others_statusChanged:
  "non_empty (extractNotificationThreadId params None) = Some t \<Longrightarrow> others t (statusChanged env params s) = others t s"
  by (simp add: statusChanged_def Let_def)

lemma others_interaction:
  "others (qs_threadId q) (cacheThreadQueueState now (qs_threadId q) (Some q) s) = others (qs_threadId q) s"
  "others (pa_threadId a) (approvalRequested env a s) = others (pa_threadId a) s"
  "others (ui_threadId r) (userInputRequested env r s) = others (ui_threadId r) s"
  "others (bs_threadId f) (surfacePresented env f s) = others (bs_threadId f) s"
  by (simp_all add: approvalRequested_def userInputRequested_def surfacePresented_def Let_def)

subsection \<open>What the screen shows\<close>

lemma shown_update [simp]:
  "shown (ms_live_update f1 s) = shown s"
  "shown (ms_planItemTurnIds_update f2 s) = shown s"
  "shown (ms_threadReasoning_update f3 s) = shown s"
  "shown (ms_liveReasoning_update f4 s) = shown s"
  "shown (ms_liveReasoningIds_update f5 s) = shown s"
  by (simp_all add: shown_def)

lemmas shown_cached [simp] = shown.cached

lemma shown_clearLiveReasoningMessage [simp]: "shown (clearLiveReasoningMessage t s) = shown s"
  by (simp add: clearLiveReasoningMessage_def)

lemma shown_forgetTurn [simp]: "shown (forgetTurn t s) = shown s"
  by (simp add: forgetTurn_def Let_def)

lemma shown_some [simp]:
  assumes "\<And>x u. shown (f x u) = shown u"
  shows "shown (apply_some v f s) = shown s"
  by (simp add: apply_some_def assms split: option.split)

lemma shown_run:
  assumes "ms_chatIdRef s \<noteq> Some (en_threadId e)"
  shows "shown (processAgUiRunEvents env e s) = shown s"
  using assms by (simp add: processAgUiRunEvents_def runStarted_def runEnded_def is_current_def Let_def split: agUiEvent.split)

lemma shown_renamed:
  assumes "non_empty (extractNotificationThreadId params None) = Some t" "ms_chatIdRef s \<noteq> Some t"
  shows "shown (threadRenamed params s) = shown s"
    and "shown (subAgentAdopted env params s) = shown s"
    and "shown (statusChanged env params s) = shown s"
  using assms by (simp_all add: threadRenamed_def subAgentAdopted_def statusChanged_def is_current_def Let_def split: option.split)

lemma shown_item:
  assumes "item_thread params = Some t" "ms_chatIdRef s \<noteq> Some t"
  shows "shown (tokenUsageUpdated env v params s) = shown s"
    and "shown (itemStarted env params s) = shown s"
    and "shown (planDelta env params s) = shown s"
    and "shown (summaryPartAdded env params s) = shown s"
    and "shown (summaryTextDelta env params s) = shown s"
    and "shown (reasoningTextDelta env params s) = shown s"
    and "shown (terminalInteraction env params s) = shown s"
    and "shown (itemCompleted env params s) = shown s"
  using assms
  by (simp_all add: tokenUsageUpdated_def itemStarted_def planDelta_def summaryPartAdded_def summaryTextDelta_def
      reasoningTextDelta_def terminalInteraction_def itemCompleted_def is_current_def Let_def split: option.split bool.split)

lemma shown_planUpdated:
  assumes "non_empty (or_else (either_field params ''threadId'' ''thread_id'') (ms_chatIdRef s)) = Some t"
    "ms_chatIdRef s \<noteq> Some t"
  shows "shown (planUpdated env v params s) = shown s"
  using assms by (simp add: planUpdated_def is_current_def Let_def)

lemma shown_interaction:
  "shown (cacheThreadQueueState now u (Some q) s) = shown s"
  "ms_chatIdRef s \<noteq> Some (pa_threadId a) \<Longrightarrow> shown (approvalRequested env a s) = shown s"
  "ms_chatIdRef s \<noteq> Some (ui_threadId r) \<Longrightarrow> shown (userInputRequested env r s) = shown s"
  "ms_chatIdRef s \<noteq> Some (bs_threadId f) \<Longrightarrow> shown (surfacePresented env f s) = shown s"
  by (simp_all add: approvalRequested_def userInputRequested_def surfacePresented_def is_current_def Let_def)

subsection \<open>An event of a thread\<close>

text \<open>What a routed event of a thread can do\<close>

lemma event_thread_cases:
  assumes about: "event_thread parse s event = Some t"
    and ignored: "P s"
    and run: "\<And>e. en_threadId e = t \<Longrightarrow> P (processAgUiRunEvents env e s)"
    and renamed: "\<And>params. non_empty (extractNotificationThreadId params None) = Some t \<Longrightarrow>
      P (threadRenamed params s) \<and> P (subAgentAdopted env params s) \<and> P (statusChanged env params s)"
    and item: "\<And>params v. item_thread params = Some t \<Longrightarrow>
      P (tokenUsageUpdated env v params s) \<and> P (itemStarted env params s) \<and> P (planDelta env params s)
      \<and> P (summaryPartAdded env params s) \<and> P (summaryTextDelta env params s) \<and> P (reasoningTextDelta env params s)
      \<and> P (terminalInteraction env params s) \<and> P (itemCompleted env params s)"
    and planned: "\<And>params v.
      non_empty (or_else (either_field params ''threadId'' ''thread_id'') (ms_chatIdRef s)) = Some t \<Longrightarrow>
      P (planUpdated env v params s)"
    and queue: "\<And>q. qs_threadId q = t \<Longrightarrow> P (cacheThreadQueueState (se_now env) t (Some q) s)"
    and approval: "\<And>a. pa_threadId a = t \<Longrightarrow> P (approvalRequested env a s)"
    and input: "\<And>r. ui_threadId r = t \<Longrightarrow> P (userInputRequested env r s)"
    and surface: "\<And>f. bs_threadId f = t \<Longrightarrow> P (surfacePresented env f s)"
  shows "P (routeEvent parse env event s)"
proof (cases "parseAgUiEventNotification parse event")
  case (Some e)
  thus ?thesis using about run by (simp add: event_thread_def routeEvent_def Let_def)
next
  case None
  let ?params = "toRecord (rn_params event)"
  let ?item = "item_thread ?params = Some t"
  let ?named = "non_empty (extractNotificationThreadId ?params None) = Some t"
  note routing = event_thread_def routeEvent_def thread_state_methods_def turn_methods_def progress_methods_def None Let_def
  have item': "?item \<Longrightarrow> P (processPlanAndReasoningEvents env event s)"
    using ignored item [of ?params] by (simp add: processPlanAndReasoningEvents_def Let_def)
  show ?thesis
  proof (cases "rn_method event \<in> set thread_state_methods \<or> rn_method event \<in> set turn_methods")
    case True
    hence "rn_method event = ''bridge/events/snapshotRequired'' \<or> rn_method event = ''thread/name/updated''
      \<or> rn_method event = ''thread/subagent/adopted'' \<or> rn_method event = ''thread/tokenUsage/updated''
      \<or> rn_method event = ''item/started'' \<or> rn_method event = ''turn/plan/updated''
      \<or> rn_method event = ''turn/diff/updated'' \<or> rn_method event = ''item/completed''
      \<or> rn_method event = ''thread/status/changed''"
      by (simp add: thread_state_methods_def turn_methods_def)
    thus ?thesis using about renamed [of ?params] item [of ?params "rn_params event"] planned [of ?params "rn_params event"]
      by (elim disjE) (simp_all add: routing processThreadStateEvents_def processTurnLifecycleEvents_def)
  next
    case other: False
    show ?thesis
    proof (cases "starts_with (rn_method event) ''bridge/''")
      case True
      then obtain rest where bridge: "rn_method event = ''bridge/'' @ rest"
        by (auto simp: starts_with_def prefix_def)
      have "processBridgeInteractionEvents env event s = routeEvent parse env event s \<or> rest = ''connection/state''"
        using other by (simp add: routing bridge)
      moreover have "P (processBridgeInteractionEvents env event s)" if "rest \<noteq> ''connection/state''"
        using about ignored other queue approval input surface
        by (simp add: routing bridge processBridgeInteractionEvents_def apply_some_def split: if_splits option.splits)
          (elim exE conjE disjE; simp)+
      moreover have "rest \<noteq> ''connection/state''"
        using about by (auto simp: routing bridge)
      ultimately show ?thesis by metis
    next
      case False
      have "rn_method event \<noteq> ''bridge/'' @ rest" for rest
        using False by (auto simp: starts_with_def)
      from this [of "''thread/queue/updated''"] this [of "''approval.requested''"] this [of "''userInput.requested''"]
        this [of "''ui.present''"] this [of "''ui.update''"]
      have "?item" using about other False by (simp add: routing split: if_splits)
      thus ?thesis using item' ignored other False by (simp add: routing)
    qed
  qed
qed


definition event_of :: "string \<Rightarrow> string \<Rightarrow> (string \<times> jsv) list \<Rightarrow> rpcNotification" where
  "event_of m t params =
     \<lparr>rn_method = m, rn_params = JObj ((''threadId'', JStr t) # params), rn_protocolVersion = None, rn_streamId = None,
      rn_eventId = None\<rparr>"

definition quietEnv :: "int \<Rightarrow> screenEnv" where
  "quietEnv now = \<lparr>se_now = now, se_random = ''r'', se_connected = True, se_hasAppRefs = False, se_debounce = 0,
     se_agentDetail = None\<rparr>"


section \<open>Requests that were resolved\<close>

text \<open>A resolution goes through the threads one after the other and touches those that wait for the request.\<close>

lemma fold_threads:
  assumes "distinct (map fst xs)"
    and "\<And>k u. map_of (ms_snapshots (R k u)) t =
      (if k = t then Some (g (map_of (ms_snapshots u) t)) else map_of (ms_snapshots u) t)"
  shows "map_of (ms_snapshots (fold (\<lambda>(k, p). if q p then R k else id) xs s)) t =
     (case map_of xs t of
        Some p \<Rightarrow> if q p then Some (g (map_of (ms_snapshots s) t)) else map_of (ms_snapshots s) t
      | None \<Rightarrow> map_of (ms_snapshots s) t)"
  using assms(1)
proof (induction xs arbitrary: s)
  case (Cons x xs)
  have "map_of xs t = None" if "fst x = t"
    using Cons.prems that by (auto simp: map_of_eq_None_iff)
  thus ?case using Cons by (cases x) (auto simp: assms(2) split: option.split)
qed simp

definition approvalDone :: "int \<Rightarrow> threadRuntimeSnapshot \<Rightarrow> threadRuntimeSnapshot" where
  "approvalDone now p =
     p\<lparr>rt_pendingApproval := Some None, rt_activity := Some approvalResolved, rt_updatedAtMs := now\<rparr>"

lemma map_of_upsert:
  "threadId \<noteq> [] \<Longrightarrow> map_of (ms_snapshots (upsertThreadRuntimeSnapshot now threadId f s)) t =
     (if threadId = t
      then Some ((f (with_default (map_of (ms_snapshots s) threadId) (emptySnapshot now)))\<lparr>rt_updatedAtMs := now\<rparr>)
      else map_of (ms_snapshots s) t)"
  by (simp add: upsertThreadRuntimeSnapshot_def Let_def)

lemma map_of_upsert_other:
  "threadId \<noteq> t \<Longrightarrow> map_of (ms_snapshots (upsertThreadRuntimeSnapshot now threadId f s)) t = map_of (ms_snapshots s) t"
  by (simp add: upsertThreadRuntimeSnapshot_def Let_def)

lemma snapshots_of_revision [simp]: "ms_snapshots (bumpRevision s) = ms_snapshots s"
  by (simp add: bumpRevision_def)

lemma approval_step:
  "t \<noteq> [] \<Longrightarrow>
     map_of (ms_snapshots (cacheThreadActivity now k approvalResolved (cacheThreadPendingApproval now k None u))) t =
       (if k = t then Some (approvalDone now (with_default (map_of (ms_snapshots u) t) (emptySnapshot now)))
        else map_of (ms_snapshots u) t)"
  by (auto simp: cacheThreadActivity_def cacheThreadPendingApproval_def map_of_upsert map_of_upsert_other approvalDone_def)

lemma snapshots_of_foreground [simp]:
  "ms_snapshots (setActivity a s) = ms_snapshots s"
  "ms_snapshots (bumpRunWatchdog now s) = ms_snapshots s"
  "ms_snapshots (clearRunWatchdog now s) = ms_snapshots s"
  "ms_snapshots (showPendingUserInput q s) = ms_snapshots s"
  by (simp_all add: setActivity_def bumpRunWatchdog_def bumpRunWatchdogBy_def scheduleRunWatchdogExpiry_def
      clearRunWatchdog_def showPendingUserInput_def Let_def)

text \<open>An approval that was resolved anywhere is waited for nowhere.  After the bridge said that an approval
  was resolved, each thread that waited for it waits no more and says so, every other thread is remembered as
  it was, and the approval is not shown for the selected thread if that one waited for it.\<close>

theorem resolved_approval_is_gone:
  assumes "distinct (map fst (ms_snapshots s))" and "r \<noteq> []" and "t \<noteq> []"
  shows "map_of (ms_snapshots (approvalWasResolved env (Some r) s)) t =
     map_option (\<lambda>p. if approval_of_thread p = Some r then approvalDone (se_now env) p else p) (map_of (ms_snapshots s) t)
     \<and> (Option.bind (map_of (ms_snapshots s) t) approval_of_thread = Some r \<and> ms_chatIdRef s = Some t \<longrightarrow>
          ms_pendingApproval (approvalWasResolved env (Some r) s) = None)"
proof
  have keyed: "map_of (ms_snapshots (resolved_in_threads approval_of_thread (\<lambda>threadId u.
      cacheThreadActivity now threadId approvalResolved (cacheThreadPendingApproval now threadId None u)) r s)) t =
    map_option (\<lambda>p. if approval_of_thread p = Some r then approvalDone now p else p) (map_of (ms_snapshots s) t)" for now
    unfolding resolved_in_threads_def
    by (subst fold_threads [OF assms(1) approval_step [OF assms(3)]]) (auto split: option.split)
  show "map_of (ms_snapshots (approvalWasResolved env (Some r) s)) t =
     map_option (\<lambda>p. if approval_of_thread p = Some r then approvalDone (se_now env) p else p) (map_of (ms_snapshots s) t)"
    using assms(2) by (simp add: approvalWasResolved_def apply_some_def non_empty_def keyed Let_def)
  show "Option.bind (map_of (ms_snapshots s) t) approval_of_thread = Some r \<and> ms_chatIdRef s = Some t \<longrightarrow>
      ms_pendingApproval (approvalWasResolved env (Some r) s) = None"
    using assms(2,3) by (auto simp: approvalWasResolved_def selected_request_def non_empty_def setActivity_def Let_def
        or_else_def bind_eq_Some_conv)
qed

definition approval_for :: "string \<Rightarrow> string \<Rightarrow> pendingApproval" where
  "approval_for t r =
     \<lparr>pa_requestId = r, pa_agentId = ''codex'', pa_kind = ''commandExecution'', pa_threadId = t, pa_turnId = ''u'',
      pa_itemId = ''i'', pa_title = ''Run'', pa_message = ''Run'', pa_requestedAt = ''1'', pa_reason = None,
      pa_command = Some ''ls'', pa_cwd = None, pa_grantRoot = None, pa_proposedExecpolicyAmendment = None, pa_options = []\<rparr>"

lemma resolved_approval_is_gone_witness:
  "let s = approvalRequested (quietEnv 6) (approval_for ''a'' ''r'') (initialScreen 5 True (Some ''a'') None)
   in Option.bind (map_of (ms_snapshots s) ''a'') approval_of_thread = Some ''r''
      \<and> Option.bind (map_of (ms_snapshots (approvalWasResolved (quietEnv 9) (Some ''r'') s)) ''a'') approval_of_thread = None
      \<and> ms_pendingApproval (approvalWasResolved (quietEnv 9) (Some ''r'') s) = None"
proof -
  let ?s = "approvalRequested (quietEnv 6) (approval_for ''a'' ''r'') (initialScreen 5 True (Some ''a'') None)"
  have "distinct (map fst (ms_snapshots ?s))" "''r'' \<noteq> []" "''a'' \<noteq> []" by code_simp+
  moreover have "Option.bind (map_of (ms_snapshots ?s) ''a'') approval_of_thread = Some ''r''" "ms_chatIdRef ?s = Some ''a''"
    by code_simp+
  ultimately show ?thesis
    using resolved_approval_is_gone [of ?s "''r''" "''a''" "quietEnv 9"]
    by (auto simp: Let_def approvalDone_def approval_of_thread_def bind_eq_Some_conv)
qed

end
