(* ===== verification/ScreenRuns.thy ===== *)
theory ScreenRuns
  imports ScreenLaws
begin

text \<open>
  Runs of the chat screen: everything that can happen to it (events of the bridge, answers to what was
  asked, timers, actions of the user) as inputs, each followed by a render, and what holds at every
  moment of every run: the chat that is shown is the one that was opened last, and the watchdog of a
  run has a timer.
\<close>

section \<open>Inputs\<close>

datatype screenInput =
    BridgeEvent rpcNotification
  | ChatOpened string "mappedChat option" "mappedChat option" "mappedChat option"
  | QueueAnswer string nat "threadQueueState option"
  | ThreadAnswer loadRequest mappedChat
  | ThreadFailed loadRequest string
  | OpeningDue loadRequest
  | SummaryAnswer summaryCheck chatSummary
  | ApprovalsAnswer string "pendingApproval list"
  | FullSyncAnswer string "mappedChat option"
  | Synchronized mappedChat chatSyncAssessment
  | ApprovalAnswered "string option"
  | ApprovalNotAnswered string
  | DraftChanged string string
  | AnswersSubmitted
  | AnswersAccepted pendingUserInputRequest
  | AnswersRefused pendingUserInputRequest string
  | StopPressed
  | TurnAccepted string string
  | TurnRefused string
  | ActiveTurnInterrupted
  | LatestTurnInterrupted "string option"
  | InterruptRefused string
  | PlansRead "(string \<times> activePlanState) list"
  | SurfacesRead "(string \<times> bridgeUiSurface list) list"
  | SnapshotRecovered replayRecoverySnapshot
  | WatchdogDue
  | FullSyncDue
  | SurfacesDue
  | DisconnectDue

definition due :: "int \<Rightarrow> int option \<Rightarrow> bool" where
  "due now timer \<longleftrightarrow> (case timer of Some deadline \<Rightarrow> deadline \<le> now | None \<Rightarrow> False)"

text \<open>
  An answer to \<open>getChat\<close> comes only to a request that was made and is the chat that was asked for; a
  timer goes off only when it was set and its time has come.
\<close>

fun handle ::
  "(jsv \<Rightarrow> (agUiEvent \<times> int option) option) \<Rightarrow> (string \<Rightarrow> int option) \<Rightarrow> screenEnv \<Rightarrow> screenInput
     \<Rightarrow> mainScreen \<Rightarrow> mainScreen" where
  "handle parse other env (BridgeEvent event) s = routeEvent parse env event s"
| "handle parse other env (ChatOpened chatId optimistic peeked shell) s = openChatThread env chatId optimistic peeked shell s"
| "handle parse other env (QueueAnswer chatId requestId queue) s = queueRead (se_now env) chatId requestId queue s"
| "handle parse other env (ThreadAnswer req chat) s =
     (if ReadThread req \<in> set (ms_effects s) \<and> cs_id chat = lq_chatId req then threadLoaded other env req chat s else s)"
| "handle parse other env (ThreadFailed req message) s = threadLoadFailed req message s"
| "handle parse other env (OpeningDue req) s = finishOpening req s"
| "handle parse other env (SummaryAnswer check summary) s = summaryRead env check summary s"
| "handle parse other env (ApprovalsAnswer threadId approvals) s = approvalsRead (se_now env) threadId approvals s"
| "handle parse other env (FullSyncAnswer threadId latest) s = fullSyncRead other env threadId latest s"
| "handle parse other env (Synchronized latest assessment) s = applySynchronizedChat other env latest assessment s"
| "handle parse other env (ApprovalAnswered selectedChatId) s = approvalAnswered (se_now env) selectedChatId s"
| "handle parse other env (ApprovalNotAnswered message) s = approvalNotAnswered message s"
| "handle parse other env (DraftChanged questionId value) s = setUserInputDraft questionId value s"
| "handle parse other env AnswersSubmitted s = submitUserInputRequest s"
| "handle parse other env (AnswersAccepted request) s = userInputAnswered (se_now env) request None s"
| "handle parse other env (AnswersRefused request message) s = userInputAnswered (se_now env) request (Some message) s"
| "handle parse other env StopPressed s = handleStopTurn s"
| "handle parse other env (TurnAccepted threadId turnId) s = registerTurnStarted env threadId turnId s"
| "handle parse other env (TurnRefused message) s = handleTurnFailure env message s"
| "handle parse other env ActiveTurnInterrupted s = activeTurnInterrupted s"
| "handle parse other env (LatestTurnInterrupted turnId) s = latestTurnInterrupted turnId s"
| "handle parse other env (InterruptRefused message) s = interruptFailed message s"
| "handle parse other env (PlansRead plans) s = plansLoaded (se_now env) plans s"
| "handle parse other env (SurfacesRead surfaces) s = surfacesLoaded (se_now env) surfaces s"
| "handle parse other env (SnapshotRecovered snapshot) s = installReplayRecoverySnapshot other env snapshot s"
| "handle parse other env WatchdogDue s =
     (if due (se_now env) (ms_watchdogTimer s) then watchdogTimerFires (se_now env) s else s)"
| "handle parse other env FullSyncDue s = (if due (se_now env) (ms_syncTimer s) then syncTimerFires env s else s)"
| "handle parse other env SurfacesDue s =
     (if due (se_now env) (map_option fst (ms_surfacesTimer s)) then surfacesTimerFires s else s)"
| "handle parse other env DisconnectDue s = (if due (se_now env) (ms_disconnectTimer s) then showDisconnected env s else s)"

definition advance ::
  "(jsv \<Rightarrow> (agUiEvent \<times> int option) option) \<Rightarrow> (string \<Rightarrow> int option) \<Rightarrow> screenEnv \<times> screenInput
     \<Rightarrow> mainScreen \<Rightarrow> mainScreen" where
  "advance parse other i s = render (handle parse other (fst i) (snd i) s)"

section \<open>The selected chat\<close>

text \<open>What the selection depends on: the ids, the number of the last request and the chats that are being read\<close>

definition reads :: "mainScreen \<Rightarrow> loadRequest set" where
  "reads s = {req. ReadThread req \<in> set (ms_effects s)}"

definition selection :: "mainScreen \<Rightarrow> _" where
  "selection s = (ms_chatIdRef s, ms_selectedChatId s, map_option cs_id (ms_selectedChat s), ms_loadRequest s, reads s)"

text \<open>
  The chat that is shown is the selected one, and the only request whose answer is taken is for it.
\<close>

definition selected_ok :: "mainScreen \<Rightarrow> bool" where
  "selected_ok s \<longleftrightarrow>
     ms_chatIdRef s = ms_selectedChatId s
     \<and> (\<forall>chatId. map_option cs_id (ms_selectedChat s) = Some chatId \<longrightarrow> ms_selectedChatId s = Some chatId)
     \<and> (\<forall>req\<in>reads s. lq_requestId req \<le> ms_loadRequest s
          \<and> (lq_requestId req = ms_loadRequest s \<longrightarrow> ms_selectedChatId s = Some (lq_chatId req)))"

definition keeps :: "mainScreen \<Rightarrow> mainScreen \<Rightarrow> bool" where
  "keeps s u \<longleftrightarrow> (selected_ok s \<longrightarrow> selected_ok u \<and> ms_selectedChatId u = ms_selectedChatId s)"

lemma keeps_same: "selection u = selection s \<Longrightarrow> keeps s u"
  by (auto simp: keeps_def selected_ok_def selection_def)

lemma keeps_trans: "keeps s u \<Longrightarrow> keeps u v \<Longrightarrow> keeps s v"
  by (simp add: keeps_def)

lemma keeps_load:
  assumes "ms_chatIdRef s = Some t"
  shows "keeps s (loadChat t p r s)"
  using assms by (fastforce simp: keeps_def selected_ok_def loadChat_def emit_def reads_def Let_def)

interpretation selection: thread_background selection t for t
  by unfold_locales
    (auto simp: selection_def upsertThreadRuntimeSnapshot_def bumpRevision_def rememberChatPlanSnapshot_def reads_def
      rememberBridgeUiSurfaceSnapshots_def emit_def Let_def)

lemma selection_update [simp]:
  "selection (ms_activity_update f1 s) = selection s"
  "selection (ms_activeCommands_update f2 s) = selection s"
  "selection (ms_streamingText_update f3 s) = selection s"
  "selection (ms_pendingApproval_update f4 s) = selection s"
  "selection (ms_pendingUserInput_update f5 s) = selection s"
  "selection (ms_activePlan_update f7 s) = selection s"
  "selection (ms_activeSurfaces_update f8 s) = selection s"
  "selection (ms_activeTurnId_update f9 s) = selection s"
  "selection (ms_planMode_update g1 s) = selection s"
  "selection (ms_error_update g2 s) = selection s"
  "selection (ms_hadCommand_update g3 s) = selection s"
  "selection (ms_reasoningSummary_update g4 s) = selection s"
  "selection (ms_stoppingTurn_update g5 s) = selection s"
  "selection (ms_planItemTurnIds_update g6 s) = selection s"
  "selection (ms_threadReasoning_update g7 s) = selection s"
  "selection (ms_planPrompts_update g8 s) = selection s"
  "selection (ms_live_update g9 s) = selection s"
  "selection (ms_liveReasoning_update h1 s) = selection s"
  "selection (ms_liveReasoningIds_update h2 s) = selection s"
  "selection (ms_stopRequested_update h3 s) = selection s"
  "selection (ms_stopMessageLogged_update h4 s) = selection s"
  "selection (ms_recoveryBanner_update h5 s) = selection s"
  "selection (ms_pendingUserMessages_update h6 s) = selection s"
  "selection (ms_continuation_update h7 s) = selection s"
  "selection (ms_userInputDrafts_update h8 s) = selection s"
  "selection (ms_autoPlanTurns_update h9 s) = selection s"
  "selection (ms_snapshots_update i1 s) = selection s"
  "selection (ms_planSnapshots_update i2 s) = selection s"
  "selection (ms_surfaceSnapshots_update i3 s) = selection s"
  "selection (ms_syncInFlight_update i4 s) = selection s"
  "selection (ms_syncTimer_update i5 s) = selection s"
  "selection (ms_userInputError_update i6 s) = selection s"
  "selection (ms_resolvingUserInput_update i7 s) = selection s"
  "selection (ms_openingStartedAt_update i8 s) = selection s"
  "selection (ms_openingChatId_update i9 s) = selection s"
  "selection (ms_surfacesTimer_update j1 s) = selection s"
  "selection (ms_watchdogTimer_update j2 s) = selection s"
  "selection (ms_runWatchdogNow_update j3 s) = selection s"
  by (simp_all add: selection_def reads_def)

lemma selection_foreground [simp]:
  "selection (setActivity a s) = selection s"
  "selection (keepRunning a s) = selection s"
  "selection (bumpRunWatchdogBy d now s) = selection s"
  "selection (bumpRunWatchdog now s) = selection s"
  "selection (clearRunWatchdog now s) = selection s"
  "selection (takeOverWatchdog now until s) = selection s"
  "selection (pushActiveCommand env u e s) = selection s"
  "selection (idleScreen s) = selection s"
  "selection (showPendingUserInput q s) = selection s"
  "selection (clearLiveReasoningMessage t s) = selection s"
  "selection (clearPendingPlanImplementationPrompt t s) = selection s"
  "selection (forgetTurn t s) = selection s"
  "selection (drainExternalStatusFullSyncQueue env s) = selection s"
  "selection (scheduleExternalStatusFullSync env u s) = selection s"
  "selection (clearDeferredDisconnectActivity env s) = selection s"
  "selection (showDisconnected env s) = selection s"
  "selection (scheduleDisconnectActivity env s) = selection s"
  by (auto simp: selection_def reads_def setActivity_def keepRunning_def bumpRunWatchdog_def bumpRunWatchdogBy_def
      scheduleRunWatchdogExpiry_def clearRunWatchdog_def takeOverWatchdog_def pushActiveCommand_def emit_def idleScreen_def
      showPendingUserInput_def clearLiveReasoningMessage_def clearPendingPlanImplementationPrompt_def forgetTurn_def
      scheduleExternalStatusFullSync_def drainExternalStatusFullSyncQueue_def clearDeferredDisconnectActivity_def
      showDisconnected_def scheduleDisconnectActivity_def Let_def split: option.split)

lemmas selection_cached [simp] = selection.cached

lemma selection_some [simp]:
  assumes "\<And>x u. selection (f x u) = selection u"
  shows "selection (apply_some v f s) = selection s"
  by (simp add: apply_some_def assms split: option.split)

lemma selection_fold:
  assumes "\<And>x u. selection (f x u) = selection u"
  shows "selection (fold f xs s) = selection s"
  by (induction xs arbitrary: s) (simp_all add: assms)

lemma selection_fold_pairs:
  assumes "\<And>x y u. selection (f x y u) = selection u"
  shows "selection (fold (\<lambda>(x, y). f x y) xs s) = selection s"
  by (rule selection_fold) (simp add: assms split: prod.split)

text \<open>An update of the chat that leaves its id\<close>

lemma selection_updateSelected:
  "(\<And>c. cs_id c = u \<Longrightarrow> cs_id (f c) = u) \<Longrightarrow> selection (updateSelected u f s) = selection s"
  by (cases "ms_selectedChat s") (auto simp: selection_def updateSelected_def reads_def)

lemma cs_id_simps [simp]:
  "cs_id (touched instant c) = cs_id c"
  "cs_id (ended_chat instant e c) = cs_id c"
  "cs_id (put_reasoning m x instant c) = cs_id c"
  by (simp_all add: touched_def ended_chat_def put_reasoning_def Let_def)

lemma selection_reasoning [simp]:
  "selection (upsertLiveReasoningMessage env t d s) = selection s"
  "selection (appendLocalSystemMessage env x s) = selection s"
  "selection (appendStopSystemMessageIfNeeded env s) = selection s"
  "selection (registerTurnStarted env t u s) = selection s"
proof -
  show "selection (upsertLiveReasoningMessage env t d s) = selection s"
    by (simp add: upsertLiveReasoningMessage_def Let_def selection_updateSelected)
  show added: "selection (appendLocalSystemMessage env x s) = selection s" for x s
    by (simp add: appendLocalSystemMessage_def Let_def selection_updateSelected split: option.split)
  show "selection (appendStopSystemMessageIfNeeded env s) = selection s"
    by (simp add: appendStopSystemMessageIfNeeded_def added)
  have flags: "selection (s\<lparr>ms_sending := b, ms_creating := c, ms_activeTurnId := v, ms_activeTurnIdRef := w,
      ms_showDelayedActivity := d\<rparr>) = selection s" for s b c v w d
    by (simp add: selection_def reads_def)
  show "selection (registerTurnStarted env t u s) = selection s"
    by (simp add: registerTurnStarted_def Let_def selection_updateSelected flags)
qed

lemma cs_id_summary:
  "cs_id c = cs_id summary \<Longrightarrow> cs_id (mergeChatSummaryPreservingMessages c summary) = cs_id summary"
  by (simp add: mergeChatSummaryPreservingMessages_def Let_def chatSummary.defs)

lemma cs_id_resolve:
  "cs_id c = cs_id chat \<Longrightarrow> cs_id (resolveEquivalentChat other now c chat) = cs_id chat"
  by (simp add: resolveEquivalentChat_def preserveRecentUserTurnTranscript_def Let_def)

lemma merged_pending:
  "mergeChatWithPendingOptimisticMessages chat s = (merged, u) \<Longrightarrow>
     cs_id merged = cs_id chat \<and> selection u = selection s \<and> ms_effects u = ms_effects s"
  by (auto simp: mergeChatWithPendingOptimisticMessages_def reconcileChatWithPendingOptimisticMessages_def Let_def
      split: if_splits)

text \<open>The handlers of events, but for the reads they ask for\<close>

lemma selection_events:
  "selection (runStarted env t u s) = selection s"
  "selection (subAgentAdopted env params s) = selection s"
  "selection (tokenUsageUpdated env v params s) = selection s"
  "selection (itemStarted env params s) = selection s"
  "selection (planDelta env params s) = selection s"
  "selection (summaryPartAdded env params s) = selection s"
  "selection (summaryTextDelta env params s) = selection s"
  "selection (reasoningTextDelta env params s) = selection s"
  "selection (terminalInteraction env params s) = selection s"
  "selection (planUpdated env v params s) = selection s"
  "selection (itemCompleted env params s) = selection s"
  "selection (statusChanged env params s) = selection s"
  "selection (approvalRequested env a s) = selection s"
  "selection (userInputRequested env r s) = selection s"
  "selection (surfacePresented env f s) = selection s"
  by (simp_all add: runStarted_def subAgentAdopted_def tokenUsageUpdated_def itemStarted_def planDelta_def
      summaryPartAdded_def summaryTextDelta_def reasoningTextDelta_def terminalInteraction_def planUpdated_def
      itemCompleted_def statusChanged_def approvalRequested_def userInputRequested_def surfacePresented_def Let_def
      split: option.split bool.split)

lemma selection_surfaces [simp]:
  "selection (updateThreadSurfaces now t f s) = selection s"
  "selection (removeThreadBridgeUiSurface now i u s) = selection s"
  "selection (replaceThreadBridgeUiSurfaces now t fs s) = selection s"
proof -
  show each: "selection (updateThreadSurfaces now t f s) = selection s" for t f s
    by (simp add: updateThreadSurfaces_def)
  show "selection (removeThreadBridgeUiSurface now i u s) = selection s"
    unfolding removeThreadBridgeUiSurface_def
    by (auto simp: Let_def each intro!: selection_fold split: option.split)
  show "selection (replaceThreadBridgeUiSurfaces now t fs s) = selection s"
    by (simp add: replaceThreadBridgeUiSurfaces_def each)
qed

lemma selection_resolved:
  "selection (userInputResolved env i s) = selection s"
  "selection (approvalWasResolved env i s) = selection s"
  "selection (surfaceDismissed env params s) = selection s"
  "selection (snapshotRequired env params s) = selection s"
  by (auto simp: userInputResolved_def approvalWasResolved_def resolved_in_threads_def surfaceDismissed_def
      snapshotRequired_def Let_def split: option.split intro!: selection_some selection_fold)

subsection \<open>Every input\<close>

lemma keeps_runEnded: "keeps s (runEnded env t failure s)"
proof -
  have "ms_chatIdRef v = Some t \<Longrightarrow> selection v = selection s \<Longrightarrow> keeps s (loadChat t p r v)" for v p r
    by (blast intro: keeps_trans keeps_same keeps_load)
  moreover have "selection v = selection s \<Longrightarrow> is_current s t \<Longrightarrow> ms_chatIdRef v = Some t" for v
    by (simp add: selection_def is_current_def)
  ultimately show ?thesis
    by (auto simp: runEnded_def Let_def selection_updateSelected split: option.split prod.split intro: keeps_same)
qed

lemma keeps_run: "keeps s (processAgUiRunEvents env e s)"
proof -
  let ?t = "s\<lparr>ms_live := reduceAgUiMessageState (se_now env) e (ms_live s)\<rparr>"
  have live: "keeps s ?t" by (simp add: keeps_same)
  have ended: "keeps s (runEnded env t failure ?t)" for t failure
    by (rule keeps_trans [OF live keeps_runEnded])
  show ?thesis
    by (auto simp: processAgUiRunEvents_def Let_def ended selection_events intro: keeps_same split: agUiEvent.split)
qed

lemma keeps_renamed: "keeps s (threadRenamed params s)"
proof -
  have named: "keeps s (s\<lparr>ms_selectedChat := map_option (\<lambda>c. c\<lparr>cs_title := name\<rparr>) (ms_selectedChat s)\<rparr>)" for name
    by (rule keeps_same) (cases "ms_selectedChat s", simp_all add: selection_def reads_def)
  show ?thesis
    by (auto simp: threadRenamed_def is_current_def named keeps_load split: option.split intro: keeps_same)
qed

lemma keeps_connection: "keeps s (processBridgeConnectionEvents env event s)"
proof -
  have loaded: "ms_chatIdRef s = Some t \<Longrightarrow> selection v = selection s \<Longrightarrow> keeps s (loadChat t p r v)" for v t p r
    by (rule keeps_trans [OF keeps_same keeps_load]) (auto simp: selection_def)
  have current: "non_empty (ms_chatIdRef s) = Some t \<Longrightarrow> ms_chatIdRef s = Some t" for t
    by (simp add: non_empty_def split: if_splits)
  show ?thesis
    by (auto simp: processBridgeConnectionEvents_def Let_def split: option.split intro: keeps_same loaded current)
qed

lemma keeps_event: "keeps s (routeEvent parse env event s)"
proof -
  have "keeps s (processThreadStateEvents env event s)"
    by (auto simp: processThreadStateEvents_def Let_def keeps_renamed selection_events selection_resolved intro: keeps_same)
  moreover have "keeps s (processPlanAndReasoningEvents env event s)"
    by (auto simp: processPlanAndReasoningEvents_def Let_def selection_events intro: keeps_same)
  moreover have "keeps s (processBridgeInteractionEvents env event s)"
    by (auto simp: processBridgeInteractionEvents_def Let_def selection_events selection_resolved
        intro!: keeps_same selection_some)
  moreover have "rn_method event \<in> set turn_methods \<Longrightarrow> keeps s (processTurnLifecycleEvents env event s)"
    by (auto simp: processTurnLifecycleEvents_def turn_methods_def Let_def selection_events intro: keeps_same)
  ultimately show ?thesis
    by (simp add: routeEvent_def Let_def keeps_run keeps_connection keeps_same split: option.split)
qed

text \<open>The API client has a chat under its own id.\<close>

fun peeks_own :: "screenInput \<Rightarrow> bool" where
  "peeks_own (ChatOpened chatId optimistic peeked shell) \<longleftrightarrow>
     (\<forall>c. peeked = Some c \<longrightarrow> cs_id c = chatId) \<and> (\<forall>c. shell = Some c \<longrightarrow> cs_id c = chatId)"
| "peeks_own _ \<longleftrightarrow> True"

fun opens :: "screenInput \<Rightarrow> string option" where
  "opens (ChatOpened chatId optimistic peeked shell) = Some chatId"
| "opens _ = None"

text \<open>Before the request is made for the thread that is opened\<close>

definition ready :: "mainScreen \<Rightarrow> string \<Rightarrow> mainScreen \<Rightarrow> bool" where
  "ready s t v \<longleftrightarrow>
     ms_selectedChatId v = Some t \<and> (\<forall>chatId. map_option cs_id (ms_selectedChat v) = Some chatId \<longrightarrow> chatId = t)
     \<and> reads v = reads s \<and> ms_loadRequest v = ms_loadRequest s"

lemma ready_same: "selection v = selection u \<Longrightarrow> ready s t v = ready s t u"
  by (simp add: ready_def selection_def)

lemma selected_by_load:
  assumes "selected_ok s" "ready s t v"
  shows "selected_ok (render (loadChat t p r v)) \<and> ms_selectedChatId (render (loadChat t p r v)) = Some t"
proof -
  have "reads (render (loadChat t p r v)) = insert \<lparr>lq_chatId = t, lq_requestId = ms_loadRequest s + 1, lq_preserve = p,
      lq_revalidate = r\<rparr> (reads s)"
    using assms by (auto simp: ready_def reads_def render_def loadChat_def emit_def Let_def)
  moreover have "\<forall>req\<in>reads s. lq_requestId req \<le> ms_loadRequest s"
    using assms(1) by (simp add: selected_ok_def)
  ultimately show ?thesis
    using assms by (auto simp: ready_def selected_ok_def loadChat_def emit_def render_def Let_def)
qed

lemma applied_snapshot [simp]: "selection (applyThreadRuntimeSnapshot now t s) = selection s"
  by (simp add: applyThreadRuntimeSnapshot_def Let_def split: option.split)

lemma ready_snapshot:
  assumes "\<forall>c. snapshot = Some c \<longrightarrow> cs_id c = t" "ready s t v"
  shows "ready s t (showSnapshot snapshot v)"
proof (cases snapshot)
  case None
  thus ?thesis using assms by (simp add: showSnapshot_def apply_some_def)
next
  case (Some c)
  then obtain merged u where "mergeChatWithPendingOptimisticMessages c v = (merged, u)"
    by (meson surj_pair)
  moreover from merged_pending [OF this] have "cs_id merged = cs_id c" "selection u = selection v" "ms_effects u = ms_effects v"
    by simp_all
  ultimately show ?thesis using assms Some
    by (simp add: showSnapshot_def apply_some_def ready_def selection_def reads_def)
qed

lemma opened_selects:
  assumes ok: "selected_ok s" and own: "peeks_own (ChatOpened t optimistic peeked shell)"
  shows "selected_ok (render (openChatThread env t optimistic peeked shell s))
     \<and> ms_selectedChatId (render (openChatThread env t optimistic peeked shell s)) = Some t"
proof -
  define provided where "provided = (case optimistic of Some c \<Rightarrow> if cs_id c = t then Some c else None | None \<Rightarrow> None)"
  define hydrated where "hydrated = (case provided of Some c \<Rightarrow> if cd_messages c \<noteq> [] then Some c else None | None \<Rightarrow> None)"
  define snapshot where "snapshot = or_else (or_else hydrated peeked) (or_else provided shell)"
  have "\<forall>c. provided = Some c \<longrightarrow> cs_id c = t" by (auto simp: provided_def split: option.splits)
  moreover from this have "\<forall>c. hydrated = Some c \<longrightarrow> cs_id c = t" by (auto simp: hydrated_def split: option.splits)
  ultimately have mine: "\<forall>c. snapshot = Some c \<longrightarrow> cs_id c = t"
    using own by (auto simp: snapshot_def or_else_def split: option.splits)
  have asked: "ready s t (emit (ReadApprovals t) v)" if "ready s t v" for v
    using that ready_same [of "emit (ReadApprovals t) v" v] by simp
  have applied: "ready s t (applyThreadRuntimeSnapshot now t (setActivity a (showSnapshot snapshot v)))"
    if "ready s t v" for now a v
    using ready_snapshot [OF mine that] ready_same [of "applyThreadRuntimeSnapshot now t (setActivity a (showSnapshot snapshot v))"]
    by simp
  have here: "ready s t (s\<lparr>ms_selectedChatId := Some t, ms_openingStartedAt := 0, ms_openingChatId := None, ms_error := None\<rparr>)"
    if "is_current s t"
    using ok that by (auto simp: ready_def selected_ok_def is_current_def reads_def)
  note folded = provided_def [symmetric] hydrated_def [symmetric] snapshot_def [symmetric]
  show ?thesis
  proof (cases "is_current s t")
    case True
    thus ?thesis
      using selected_by_load [OF ok asked [OF ready_snapshot [OF mine here [OF True]]]]
      by (simp add: openChatThread_def Let_def folded)
  next
    case False
    thus ?thesis unfolding openChatThread_def Let_def folded if_not_P [OF False]
      by (intro selected_by_load [OF ok] asked applied) (simp add: ready_def reads_def)
  qed
qed

text \<open>A chat that is shown in place of the selected one has its id.\<close>

lemma selection_showChat:
  "selection (showChat other now chat s) =
     (ms_chatIdRef s, ms_selectedChatId s, Some (cs_id chat), ms_loadRequest s, reads s)"
  by (auto simp: selection_def showChat_def reads_def cs_id_resolve split: option.split)

lemma keeps_shown:
  assumes "selection v = (ms_chatIdRef s, ms_selectedChatId s, Some chatId, ms_loadRequest s, reads s)"
    and "selected_ok s \<Longrightarrow> ms_selectedChatId s = Some chatId"
  shows "keeps s v"
proof -
  have v: "ms_chatIdRef v = ms_chatIdRef s" "ms_selectedChatId v = ms_selectedChatId s"
    "map_option cs_id (ms_selectedChat v) = Some chatId" "ms_loadRequest v = ms_loadRequest s" "reads v = reads s"
    using assms(1) by (simp_all only: selection_def prod.inject)
  show ?thesis
    using assms(2) unfolding keeps_def selected_ok_def v by simp
qed

lemma selection_opening [simp]:
  "selection (finishOpening req s) = selection s"
  "selection (endLoading now req s) = selection s"
proof -
  show finished: "selection (finishOpening req s) = selection s"
    by (simp add: finishOpening_def selection_def reads_def)
  show "selection (endLoading now req s) = selection s"
    by (simp add: endLoading_def finished)
qed

lemma selection_loaded [simp]:
  "selection (showLoadedRun now t chat s) = selection s"
  "selection (resetRuntime now t chat s) = selection s"
proof -
  show run: "selection (showLoadedRun now t chat s) = selection s" for s
    by (simp add: showLoadedRun_def Let_def)
  show "selection (resetRuntime now t chat s) = selection s"
    by (simp add: resetRuntime_def Let_def run)
qed

lemma keeps_threadLoaded:
  assumes "req \<in> reads s" "cs_id chat = lq_chatId req"
  shows "keeps s (threadLoaded other env req chat s)"
proof -
  obtain merged u where merge: "mergeChatWithPendingOptimisticMessages chat s = (merged, u)"
    by (meson surj_pair)
  from merged_pending [OF this] have m: "cs_id merged = cs_id chat" "selection u = selection s" by simp_all
  show ?thesis
  proof (cases "lq_requestId req = ms_loadRequest u")
    case False
    thus ?thesis using m by (simp add: threadLoaded_def merge keeps_same)
  next
    case True
    let ?now = "se_now env" and ?t = "lq_chatId req"
    let ?shown = "showChat other ?now merged (u\<lparr>ms_selectedChatId := Some ?t\<rparr>)"
    have selected: "ms_selectedChatId s = Some ?t" if "selected_ok s"
      using that assms(1) True m(2) by (simp add: selected_ok_def selection_def)
    have "selection ?shown = (ms_chatIdRef s, Some ?t, Some ?t, ms_loadRequest s, reads s)"
      using m assms(2) by (simp add: selection_showChat) (simp add: selection_def reads_def)
    moreover have "selection (threadLoaded other env req chat s) = selection ?shown"
      using True by (simp add: threadLoaded_def merge Let_def)
    ultimately have "selected_ok s \<Longrightarrow> selection (threadLoaded other env req chat s) =
        (ms_chatIdRef s, ms_selectedChatId s, Some ?t, ms_loadRequest s, reads s)"
      using selected by simp
    thus ?thesis
      using keeps_shown [of "threadLoaded other env req chat s" s ?t] selected unfolding keeps_def by blast
  qed
qed

lemma keeps_synchronized: "keeps s (applySynchronizedChat other env latest assessment s)"
proof -
  obtain merged u where merge: "mergeChatWithPendingOptimisticMessages latest s = (merged, u)"
    by (meson surj_pair)
  from merged_pending [OF this] have m: "cs_id merged = cs_id latest" "selection u = selection s" by simp_all
  show ?thesis
  proof (cases "ms_chatIdRef s = Some (cs_id latest)")
    case True
    have "selection (applySynchronizedChat other env latest assessment s) = selection (showChat other (se_now env) merged u)"
      using True by (simp add: applySynchronizedChat_def merge Let_def)
    also have "\<dots> = (ms_chatIdRef s, ms_selectedChatId s, Some (cs_id latest), ms_loadRequest s, reads s)"
      using m by (simp add: selection_showChat) (simp add: selection_def)
    finally show ?thesis by (rule keeps_shown) (use True in \<open>simp add: selected_ok_def\<close>)
  qed (simp add: applySynchronizedChat_def keeps_same)
qed

lemma find_holds: "find P xs = Some x \<Longrightarrow> P x"
  by (induction xs) (auto split: if_splits)

lemma keeps_recovered: "keeps s (installReplayRecoverySnapshot other env snapshot s)"
proof -
  define t where "t = fold (installThread (se_now env) snapshot) (rv_threads snapshot) (s\<lparr>ms_live := []\<rparr>)"
  have "selection (installThread now snapshot x u) = selection u" for now x u
    by (cases x) (simp add: installThread_def Let_def)
  hence t: "selection t = selection s"
    unfolding t_def by (subst selection_fold) simp_all
  show ?thesis
  proof (cases "find (\<lambda>(chat, _). ms_chatIdRef t = Some (cs_id chat)) (rv_threads snapshot)")
    case None
    thus ?thesis using t
      by (auto simp: installReplayRecoverySnapshot_def Let_def t_def [symmetric] intro: keeps_same)
  next
    case (Some x)
    then obtain chat queue where x: "x = (chat, queue)" "ms_chatIdRef t = Some (cs_id chat)"
      by (cases x) (auto dest: find_holds)
    obtain merged u where merge: "mergeChatWithPendingOptimisticMessages chat t = (merged, u)"
      by (meson surj_pair)
    from merged_pending [OF this] have m: "cs_id merged = cs_id chat" "selection u = selection s" using t by simp_all
    have "selection (installReplayRecoverySnapshot other env snapshot s) = selection (showChat other (se_now env) merged u)"
      using Some by (simp add: installReplayRecoverySnapshot_def Let_def t_def [symmetric] x(1) merge)
    also have "\<dots> = (ms_chatIdRef s, ms_selectedChatId s, Some (cs_id chat), ms_loadRequest s, reads s)"
      using m by (simp add: selection_showChat) (simp add: selection_def)
    finally show ?thesis
      by (rule keeps_shown) (use x(2) t in \<open>auto simp: selected_ok_def selection_def\<close>)
  qed
qed

lemma selection_answers:
  "selection (queueRead now t n q s) = selection s"
  "selection (threadLoadFailed req message s) = selection s"
  "selection (summaryRead env check summary s) = selection s"
  "selection (approvalsRead now t approvals s) = selection s"
  "selection (fullSyncRead other env t latest s) = selection s"
  "selection (approvalAnswered now chosen s) = selection s"
  "selection (approvalNotAnswered message s) = selection s"
  "selection (setUserInputDraft i v s) = selection s"
  "selection (submitUserInputRequest s) = selection s"
  "selection (userInputAnswered now request failure s) = selection s"
  "selection (handleStopTurn s) = selection s"
  "selection (handleTurnFailure env message s) = selection s"
  "selection (activeTurnInterrupted s) = selection s"
  "selection (latestTurnInterrupted turn s) = selection s"
  "selection (interruptFailed message s) = selection s"
  "selection (plansLoaded now plans s) = selection s"
  "selection (surfacesLoaded now surfaces s) = selection s"
  "selection (watchdogTimerFires now s) = selection s"
  "selection (syncTimerFires env s) = selection s"
  "selection (surfacesTimerFires s) = selection s"
proof -
  show "selection (fullSyncRead other env t latest s) = selection s"
  proof (cases latest)
    case (Some chat)
    obtain merged u where merge: "mergeChatWithPendingOptimisticMessages chat s = (merged, u)"
      by (meson surj_pair)
    show ?thesis using merged_pending [OF merge] Some
      by (simp add: fullSyncRead_def merge selection_updateSelected cs_id_resolve Let_def)
  qed (simp add: fullSyncRead_def)
  show "selection (plansLoaded now plans s) = selection s"
    by (auto simp: plansLoaded_def Let_def selection_fold_pairs split: option.split)
  show "selection (surfacesLoaded now surfaces s) = selection s"
    by (auto simp: surfacesLoaded_def Let_def selection_fold_pairs split: option.split)
qed (auto simp: queueRead_def threadLoadFailed_def summaryRead_def selection_updateSelected cs_id_summary approvalsRead_def
    approvalAnswered_def approvalNotAnswered_def setUserInputDraft_def submitUserInputRequest_def userInputAnswered_def
    handleStopTurn_def handleTurnFailure_def activeTurnInterrupted_def latestTurnInterrupted_def interruptFailed_def
    watchdogTimerFires_def syncTimerFires_def surfacesTimerFires_def Let_def split: option.split sum.split)

lemma keeps_handled:
  assumes "opens i = None"
  shows "keeps s (handle parse other env i s)"
proof (cases i)
  case (ThreadAnswer req chat)
  thus ?thesis using keeps_threadLoaded [of req s chat other env] by (simp add: reads_def keeps_same)
qed (use assms in \<open>auto simp: selection_answers keeps_event keeps_synchronized keeps_recovered intro: keeps_same\<close>)

text \<open>One input and the render after it\<close>

lemma advance_selects:
  assumes "selected_ok s" "peeks_own (snd i)"
  shows "selected_ok (advance parse other i s)
     \<and> ms_selectedChatId (advance parse other i s) =
         (case opens (snd i) of Some t \<Rightarrow> Some t | None \<Rightarrow> ms_selectedChatId s)"
proof (cases "opens (snd i)")
  case None
  from keeps_handled [OF this, of s parse other "fst i"] assms(1)
  have "selected_ok (handle parse other (fst i) (snd i) s)"
    "ms_selectedChatId (handle parse other (fst i) (snd i) s) = ms_selectedChatId s"
    by (simp_all add: keeps_def)
  thus ?thesis using None by (simp add: advance_def selected_ok_def render_def reads_def)
next
  case (Some t)
  then obtain optimistic peeked shell where i: "snd i = ChatOpened t optimistic peeked shell"
    by (cases "snd i") simp_all
  show ?thesis using opened_selects [OF assms(1), of t optimistic peeked shell "fst i"] assms(2) by (simp add: advance_def i)
qed

interpretation selected: machine "advance parse other" selected_ok "\<lambda>i. peeks_own (snd i)" for parse other
  by unfold_locales (use advance_selects in blast)

fun last_opened :: "string option \<Rightarrow> screenInput list \<Rightarrow> string option" where
  "last_opened current [] = current"
| "last_opened current (i # is) = last_opened (case opens i of Some t \<Rightarrow> Some t | None \<Rightarrow> current) is"

lemma selects_last_opened:
  "selected_ok s \<Longrightarrow> list_all (\<lambda>i. peeks_own (snd i)) is \<Longrightarrow>
     ms_selectedChatId (fold (advance parse other) is s) = last_opened (ms_selectedChatId s) (map snd is)"
  by (induction "is" arbitrary: s) (simp_all add: advance_selects)

lemma initially_selected:
  "selected_ok (initialScreen now active pending snapshot)
     \<and> ms_selectedChatId (initialScreen now active pending snapshot) = pending"
  by (auto simp: initialScreen_def selected_ok_def reads_def non_empty_def or_else_def Let_def split: option.splits if_splits)


definition chat_with :: "string \<Rightarrow> chatStatus \<Rightarrow> mappedChat" where
  "chat_with chatId status =
     chatShellFromSummary
       \<lparr>cs_id = chatId, cs_title = ''Chat'', cs_status = status, cs_createdAt = ''2026-01-01T00:00:00.000Z'',
        cs_updatedAt = ''2026-01-01T00:00:00.000Z'', cs_statusUpdatedAt = ''2026-01-01T00:00:00.000Z'',
        cs_lastMessagePreview = [], cs_cwd = None, cs_agentId = None, cs_modelProvider = None, cs_agentNickname = None,
        cs_agentRole = None, cs_sourceKind = None, cs_parentThreadId = None, cs_subAgentDepth = None, cs_lastError = None\<rparr>"

definition first_read :: loadRequest where
  "first_read = \<lparr>lq_chatId = ''a'', lq_requestId = 1, lq_preserve = False, lq_revalidate = False\<rparr>"

text \<open>The answer for the first chat comes when the second one was opened.\<close>

definition late_run :: "(screenEnv \<times> screenInput) list" where
  "late_run =
     [(quietEnv 6, ChatOpened ''a'' None None None), (quietEnv 7, ChatOpened ''b'' None None None),
      (quietEnv 8, ThreadAnswer first_read (chat_with ''a'' ChatComplete))]"


section \<open>The watchdog\<close>

text \<open>
  A run counts as alive while \<open>runWatchdogUntil\<close> is later than \<open>runWatchdogNow\<close>, which is read when the
  screen renders.  Nothing else makes the screen look at the clock again than the timer.
\<close>

definition armed :: "mainScreen \<Rightarrow> bool" where
  "armed s \<longleftrightarrow>
     (ms_runWatchdogNow s < ms_runWatchdogUntil s \<longrightarrow> ms_watchdogTimer s \<noteq> None)
     \<and> (\<forall>deadline. ms_watchdogTimer s = Some deadline \<longrightarrow> deadline = ms_runWatchdogUntil s + 16)"

lemma armed_update [simp]:
  "armed (ms_chatIdRef_update f0 s) = armed s"
  "armed (ms_selectedChatRef_update f1 s) = armed s"
  "armed (ms_activeTurnIdRef_update f2 s) = armed s"
  "armed (ms_renderedApprovalId_update f3 s) = armed s"
  "armed (ms_renderedInputId_update f4 s) = armed s"
  "armed (ms_renderedStopping_update f5 s) = armed s"
  "armed (ms_selectedChatId_update f6 s) = armed s"
  "armed (ms_selectedChat_update f7 s) = armed s"
  "armed (ms_activity_update f8 s) = armed s"
  "armed (ms_activeCommands_update f9 s) = armed s"
  "armed (ms_streamingText_update f10 s) = armed s"
  "armed (ms_pendingApproval_update f11 s) = armed s"
  "armed (ms_pendingUserInput_update f12 s) = armed s"
  "armed (ms_userInputDrafts_update f13 s) = armed s"
  "armed (ms_userInputError_update f14 s) = armed s"
  "armed (ms_resolvingUserInput_update f15 s) = armed s"
  "armed (ms_activePlan_update f16 s) = armed s"
  "armed (ms_activeSurfaces_update f17 s) = armed s"
  "armed (ms_activeTurnId_update f18 s) = armed s"
  "armed (ms_planMode_update f19 s) = armed s"
  "armed (ms_error_update f20 s) = armed s"
  "armed (ms_stoppingTurn_update f21 s) = armed s"
  "armed (ms_sending_update f22 s) = armed s"
  "armed (ms_creating_update f23 s) = armed s"
  "armed (ms_showDelayedActivity_update f24 s) = armed s"
  "armed (ms_planPrompts_update f25 s) = armed s"
  "armed (ms_live_update f26 s) = armed s"
  "armed (ms_recoveryBanner_update f27 s) = armed s"
  "armed (ms_snapshots_update f28 s) = armed s"
  "armed (ms_planSnapshots_update f29 s) = armed s"
  "armed (ms_surfaceSnapshots_update f30 s) = armed s"
  "armed (ms_stopRequested_update f31 s) = armed s"
  "armed (ms_stopMessageLogged_update f32 s) = armed s"
  "armed (ms_hadCommand_update f33 s) = armed s"
  "armed (ms_reasoningSummary_update f34 s) = armed s"
  "armed (ms_threadReasoning_update f35 s) = armed s"
  "armed (ms_liveReasoning_update f36 s) = armed s"
  "armed (ms_liveReasoningIds_update f37 s) = armed s"
  "armed (ms_planItemTurnIds_update f38 s) = armed s"
  "armed (ms_pendingUserMessages_update f39 s) = armed s"
  "armed (ms_appActive_update f40 s) = armed s"
  "armed (ms_foregroundedAt_update f41 s) = armed s"
  "armed (ms_disconnectTimer_update f42 s) = armed s"
  "armed (ms_loadRequest_update f43 s) = armed s"
  "armed (ms_openingChatId_update f44 s) = armed s"
  "armed (ms_openingStartedAt_update f45 s) = armed s"
  "armed (ms_continuation_update f46 s) = armed s"
  "armed (ms_autoPlanTurns_update f47 s) = armed s"
  "armed (ms_syncQueued_update f48 s) = armed s"
  "armed (ms_syncInFlight_update f49 s) = armed s"
  "armed (ms_syncNextAllowedAt_update f50 s) = armed s"
  "armed (ms_syncTimer_update f51 s) = armed s"
  "armed (ms_surfacesTimer_update f52 s) = armed s"
  "armed (ms_revision_update f53 s) = armed s"
  "armed (ms_effects_update f54 s) = armed s"
  by (simp_all add: armed_def)

lemma armed_bump [simp]: "armed (bumpRunWatchdogBy d now s)"
  by (auto simp: armed_def bumpRunWatchdogBy_def scheduleRunWatchdogExpiry_def Let_def)

lemma armed_bumped [simp]: "armed (bumpRunWatchdog now s)"
  by (simp add: bumpRunWatchdog_def)

lemma armed_clear [simp]: "0 \<le> now \<Longrightarrow> armed (clearRunWatchdog now s)"
  by (simp add: armed_def clearRunWatchdog_def)

lemma armed_takeOver [simp]: "armed s \<Longrightarrow> armed (takeOverWatchdog now until s)"
  by (simp add: armed_def takeOverWatchdog_def scheduleRunWatchdogExpiry_def)

interpretation armed: thread_background armed t for t
  by unfold_locales
    (simp_all add: upsertThreadRuntimeSnapshot_def bumpRevision_def rememberChatPlanSnapshot_def
      rememberBridgeUiSurfaceSnapshots_def emit_def Let_def)

lemmas armed_cached [simp] = armed.cached

lemma armed_foreground [simp]:
  "armed (setActivity a s) = armed s"
  "armed (emit eff s) = armed s"
  "armed (loadChat t p r s) = armed s"
  "armed (updateSelected t f s) = armed s"
  "armed (pushActiveCommand env t e s) = armed s"
  "armed (idleScreen s) = armed s"
  "armed (showPendingUserInput q s) = armed s"
  "armed (clearLiveReasoningMessage t s) = armed s"
  "armed (clearPendingPlanImplementationPrompt t s) = armed s"
  "armed (forgetTurn t s) = armed s"
  "armed (upsertLiveReasoningMessage env t d s) = armed s"
  "armed (appendLocalSystemMessage env x s) = armed s"
  "armed (appendStopSystemMessageIfNeeded env s) = armed s"
  "armed (registerTurnStarted env t u s) = armed s"
  "armed (drainExternalStatusFullSyncQueue env s) = armed s"
  "armed (scheduleExternalStatusFullSync env t s) = armed s"
  "armed (clearDeferredDisconnectActivity env s) = armed s"
  "armed (showDisconnected env s) = armed s"
  "armed (scheduleDisconnectActivity env s) = armed s"
  by (simp_all add: setActivity_def emit_def loadChat_def updateSelected_def pushActiveCommand_def idleScreen_def
      showPendingUserInput_def clearLiveReasoningMessage_def clearPendingPlanImplementationPrompt_def forgetTurn_def
      upsertLiveReasoningMessage_def appendLocalSystemMessage_def appendStopSystemMessageIfNeeded_def
      registerTurnStarted_def drainExternalStatusFullSyncQueue_def scheduleExternalStatusFullSync_def
      clearDeferredDisconnectActivity_def showDisconnected_def scheduleDisconnectActivity_def Let_def split: option.split)

lemma armed_keepRunning [simp]: "armed (keepRunning a s) = armed s"
  by (simp add: keepRunning_def)

lemma armed_some:
  assumes "armed s" "\<And>x u. armed u \<Longrightarrow> armed (f x u)"
  shows "armed (apply_some v f s)"
  by (simp add: apply_some_def assms split: option.split)

lemma armed_fold:
  assumes "armed s" "\<And>x u. armed u \<Longrightarrow> armed (f x u)"
  shows "armed (fold f xs s)"
  using assms(1) by (induction xs arbitrary: s) (simp_all add: assms(2))

lemma armed_pairs:
  assumes "armed s" "\<And>x y u. armed u \<Longrightarrow> armed (f x y u)"
  shows "armed (fold (\<lambda>(x, y). f x y) xs s)"
  using assms(1) by (rule armed_fold) (simp add: assms(2) split: prod.split)

text \<open>The handlers\<close>

lemma armed_events:
  assumes "0 \<le> se_now env" "armed s"
  shows "armed (runStarted env t u s)"
    and "armed (runEnded env t failure s)"
    and "armed (threadRenamed params s)"
    and "armed (subAgentAdopted env params s)"
    and "armed (tokenUsageUpdated env v params s)"
    and "armed (itemStarted env params s)"
    and "armed (planDelta env params s)"
    and "armed (summaryPartAdded env params s)"
    and "armed (summaryTextDelta env params s)"
    and "armed (reasoningTextDelta env params s)"
    and "armed (terminalInteraction env params s)"
    and "armed (planUpdated env v params s)"
    and "armed (itemCompleted env params s)"
    and "armed (statusChanged env params s)"
    and "armed (approvalRequested env a s)"
    and "armed (userInputRequested env r s)"
    and "armed (surfacePresented env f s)"
    and "armed (processBridgeConnectionEvents env event s)"
  using assms
  by (simp_all add: runStarted_def runEnded_def threadRenamed_def subAgentAdopted_def tokenUsageUpdated_def itemStarted_def
      planDelta_def summaryPartAdded_def summaryTextDelta_def reasoningTextDelta_def terminalInteraction_def
      planUpdated_def itemCompleted_def statusChanged_def approvalRequested_def userInputRequested_def
      surfacePresented_def processBridgeConnectionEvents_def armed_some Let_def
      split: option.split bool.split prod.split)

lemma armed_surfaces [simp]:
  "armed (updateThreadSurfaces now t f s) = armed s"
  "armed (replaceThreadBridgeUiSurfaces now t fs s) = armed s"
  by (simp_all add: updateThreadSurfaces_def replaceThreadBridgeUiSurfaces_def)

lemma armed_removed: "armed s \<Longrightarrow> armed (removeThreadBridgeUiSurface now i u s)"
  by (auto simp: removeThreadBridgeUiSurface_def Let_def split: option.split intro: armed_pairs)

lemma armed_resolved:
  assumes "0 \<le> se_now env" "armed s"
  shows "armed (userInputResolved env i s)"
    and "armed (approvalWasResolved env i s)"
    and "armed (surfaceDismissed env params s)"
    and "armed (snapshotRequired env params s)"
  using assms
  by (auto simp: userInputResolved_def approvalWasResolved_def resolved_in_threads_def surfaceDismissed_def
      snapshotRequired_def armed_removed Let_def split: option.split intro!: armed_some armed_pairs)

lemma armed_event:
  assumes "0 \<le> se_now env" "armed s"
  shows "armed (routeEvent parse env event s)"
proof -
  have "armed (processAgUiRunEvents env e s)" for e
    using assms by (simp add: processAgUiRunEvents_def Let_def armed_events split: agUiEvent.split)
  moreover have "armed (processThreadStateEvents env event s)"
    using assms by (simp add: processThreadStateEvents_def Let_def armed_events armed_resolved)
  moreover have "armed (processPlanAndReasoningEvents env event s)"
    using assms by (simp add: processPlanAndReasoningEvents_def Let_def armed_events)
  moreover have "armed (processBridgeInteractionEvents env event s)"
    using assms by (simp add: processBridgeInteractionEvents_def Let_def armed_events armed_resolved armed_some)
  moreover have "rn_method event \<in> set turn_methods \<Longrightarrow> armed (processTurnLifecycleEvents env event s)"
    using assms by (auto simp: processTurnLifecycleEvents_def turn_methods_def Let_def armed_events)
  ultimately show ?thesis
    using assms by (simp add: routeEvent_def Let_def armed_events split: option.split)
qed

lemma armed_merge:
  "mergeChatWithPendingOptimisticMessages chat s = (merged, u) \<Longrightarrow> armed u = armed s"
  by (auto simp: mergeChatWithPendingOptimisticMessages_def Let_def split: if_splits prod.splits)

lemma armed_applied [simp]: "armed s \<Longrightarrow> armed (applyThreadRuntimeSnapshot now t s)"
  by (auto simp: applyThreadRuntimeSnapshot_def Let_def split: option.split intro!: armed_some)

lemma armed_showing [simp]:
  "armed (showChat other now chat s) = armed s"
  "armed (showSnapshot snapshot s) = armed s"
  "armed (finishOpening req s) = armed s"
  "armed (endLoading now req s) = armed s"
  by (simp_all add: showChat_def showSnapshot_def finishOpening_def endLoading_def apply_some_def armed_merge
      split: option.split prod.split)

lemma armed_loaded: "0 \<le> now \<Longrightarrow> armed s \<Longrightarrow> armed (resetRuntime now t chat s)"
  by (simp add: resetRuntime_def showLoadedRun_def Let_def)

lemma armed_answers:
  assumes "0 \<le> se_now env" "armed s"
  shows "armed (openChatThread env t optimistic peeked shell s)"
    and "armed (queueRead (se_now env) t n q s)"
    and "armed (threadLoaded other env req chat s)"
    and "armed (threadLoadFailed req message s)"
    and "armed (summaryRead env check summary s)"
    and "armed (approvalsRead (se_now env) t approvals s)"
    and "armed (fullSyncRead other env t latest s)"
    and "armed (applySynchronizedChat other env chat assessment s)"
    and "armed (approvalAnswered (se_now env) chosen s)"
    and "armed (approvalNotAnswered message s)"
    and "armed (setUserInputDraft i v s)"
    and "armed (submitUserInputRequest s)"
    and "armed (userInputAnswered (se_now env) request failure s)"
  using assms
  by (simp_all add: openChatThread_def queueRead_def threadLoaded_def threadLoadFailed_def summaryRead_def
      approvalsRead_def fullSyncRead_def applySynchronizedChat_def approvalAnswered_def approvalNotAnswered_def
      setUserInputDraft_def submitUserInputRequest_def userInputAnswered_def armed_loaded armed_some armed_merge Let_def
      split: option.split prod.split sum.split)

lemma armed_turns:
  assumes "0 \<le> se_now env" "armed s"
  shows "armed (handleStopTurn s)"
    and "armed (handleTurnFailure env message s)"
    and "armed (activeTurnInterrupted s)"
    and "armed (latestTurnInterrupted turn s)"
    and "armed (interruptFailed message s)"
    and "armed (syncTimerFires env s)"
    and "armed (surfacesTimerFires s)"
  using assms
  by (simp_all add: handleStopTurn_def handleTurnFailure_def activeTurnInterrupted_def latestTurnInterrupted_def
      interruptFailed_def syncTimerFires_def surfacesTimerFires_def Let_def split: option.split)

lemma armed_files:
  assumes "armed s"
  shows "armed (plansLoaded now plans s)" and "armed (surfacesLoaded now surfaces s)"
    and "armed (installReplayRecoverySnapshot other env snapshot s)"
proof -
  show "armed (plansLoaded now plans s)"
    using assms by (auto simp: plansLoaded_def Let_def split: option.split intro!: armed_applied armed_pairs)
  show "armed (surfacesLoaded now surfaces s)"
    using assms by (auto simp: surfacesLoaded_def Let_def split: option.split intro!: armed_applied armed_pairs)
  have "armed (fold (installThread (se_now env) snapshot) (rv_threads snapshot) (s\<lparr>ms_live := []\<rparr>))"
    using assms by (intro armed_fold) (auto simp: installThread_def Let_def split: prod.split)
  thus "armed (installReplayRecoverySnapshot other env snapshot s)"
    by (auto simp: installReplayRecoverySnapshot_def Let_def armed_merge split: option.split prod.split)
qed

text \<open>The timer goes off when the deadline is past.\<close>

lemma armed_fires:
  "armed s \<Longrightarrow> due now (ms_watchdogTimer s) \<Longrightarrow> armed (watchdogTimerFires now s)"
  by (auto simp: armed_def watchdogTimerFires_def due_def split: option.splits)

lemma armed_advance:
  assumes "armed s" "0 \<le> se_now (fst i)"
  shows "armed (advance parse other i s)"
proof -
  have "armed (handle parse other (fst i) (snd i) s)"
    using assms
    by (cases "snd i")
      (simp_all add: armed_event armed_answers armed_turns armed_files armed_fires)
  thus ?thesis by (simp add: advance_def render_def)
qed

interpretation watched: machine "advance parse other" armed "\<lambda>i. 0 \<le> se_now (fst i)" for parse other
  by unfold_locales (simp add: armed_advance)

text \<open>C21: No run is shown for ever.  Whatever happens to the screen, while a run counts as alive (its watchdog
  expires later than the instant at which the screen last looked) the timer is set for 16 ms after the
  watchdog expires; and when it goes off the run no longer counts as alive.\<close>

theorem alive_run_is_watched:
  assumes "list_all (\<lambda>i. 0 \<le> se_now (fst i)) is" and "0 \<le> start"
  shows "let s = fold (advance parse other) is (initialScreen start active pending snapshot)
    in (ms_runWatchdogNow s < ms_runWatchdogUntil s \<longrightarrow> ms_watchdogTimer s = Some (ms_runWatchdogUntil s + 16))
       \<and> (\<forall>now. due now (ms_watchdogTimer s) \<longrightarrow>
            ms_runWatchdogUntil (watchdogTimerFires now s) < ms_runWatchdogNow (watchdogTimerFires now s))"
proof -
  have "armed (initialScreen start active pending snapshot)"
    using assms(2) by (simp add: armed_def initialScreen_def Let_def)
  hence "armed (fold (advance parse other) is (initialScreen start active pending snapshot))"
    using assms(1) by (rule watched.run_inv)
  thus ?thesis by (auto simp: Let_def armed_def due_def watchdogTimerFires_def split: option.splits)
qed

text \<open>A run of the opened chat starts.\<close>

definition started_run :: "(screenEnv \<times> screenInput) list" where
  "started_run =
     [(quietEnv 6, ChatOpened ''a'' None None None), (quietEnv 7, TurnAccepted ''a'' ''u''),
      (quietEnv 8, BridgeEvent (event_of ''item/started'' ''a'' []))]"

lemma alive_run_is_watched_witness:
  "ms_watchdogTimer (fold (advance (\<lambda>_. None) (\<lambda>_. None)) started_run (initialScreen 5 True None None)) =
     Some (8 + RUN_WATCHDOG_MS + 16)"
proof -
  let ?s = "fold (advance (\<lambda>_. None) (\<lambda>_. None)) started_run (initialScreen 5 True None None)"
  have "list_all (\<lambda>i. 0 \<le> se_now (fst i)) started_run" "(0 :: int) \<le> 5" by code_simp+
  from alive_run_is_watched [OF this, of "\<lambda>_. None" "\<lambda>_. None" True None None]
  have "ms_runWatchdogNow ?s < ms_runWatchdogUntil ?s \<longrightarrow> ms_watchdogTimer ?s = Some (ms_runWatchdogUntil ?s + 16)"
    by (simp add: Let_def)
  moreover have "ms_runWatchdogNow ?s < ms_runWatchdogUntil ?s" "ms_runWatchdogUntil ?s = 8 + RUN_WATCHDOG_MS"
    by code_simp+
  ultimately show ?thesis by simp
qed

end
