(* ===== verification/ScreenLimits.thy ===== *)
theory ScreenLimits
  imports ScreenRuns
begin

text \<open>
  Limits of the chat screen that the model shows: a run whose chat is read again is shown as completed, a lost
  connection is not shown, progress of commands and tools is dropped by the router, and what an earlier chat
  or a later plan left behind.
\<close>

section \<open>A run that started while the chat was read\<close>

text \<open>What is remembered of the activity of the selected thread is only its end.\<close>

lemma ended_is_remembered:
  assumes "t \<noteq> []"
  shows "\<exists>p. map_of (ms_snapshots (runEnded env t failure s)) t = Some p
     \<and> rt_activity p = Some (terminalActivity failure (interrupted_by_user failure s))"
proof -
  have same: "ms_snapshots (loadChat a b c u) = ms_snapshots u" "ms_snapshots (updateSelected a f u) = ms_snapshots u"
    "ms_snapshots (idleScreen u) = ms_snapshots u" "ms_snapshots (clearPendingPlanImplementationPrompt a u) = ms_snapshots u"
    "ms_snapshots (appendStopSystemMessageIfNeeded env u) = ms_snapshots u" for a b c f u
    by (simp_all add: loadChat_def emit_def updateSelected_def idleScreen_def clearPendingPlanImplementationPrompt_def
        appendStopSystemMessageIfNeeded_def appendLocalSystemMessage_def Let_def split: option.split)
  show ?thesis using assms
    by (simp add: runEnded_def Let_def same map_of_upsert split: option.split prod.split)
qed

lemma ended_keeps_selection: "ms_chatIdRef (runEnded env t failure s) = ms_chatIdRef s"
proof -
  have ref: "ms_chatIdRef v = fst (selection v)" "ms_chatIdRef (loadChat a b c v) = fst (selection v)" for v a b c
    by (simp_all add: selection_def loadChat_def emit_def Let_def)
  show ?thesis unfolding ref(1)
    by (simp add: runEnded_def Let_def ref(2) selection_updateSelected ref(1) [symmetric] split: option.split prod.split)
      (simp add: ref selection_updateSelected)
qed

lemma started_is_not_remembered:
  assumes "ms_chatIdRef s = Some t" "map_of (ms_snapshots s) t = Some p" "t \<noteq> []"
  shows "\<exists>q. map_of (ms_snapshots (runStarted env t turn s)) t = Some q \<and> rt_activity q = rt_activity p"
proof -
  have same: "ms_snapshots (registerTurnStarted env t turn u) = ms_snapshots u"
    "ms_snapshots (clearLiveReasoningMessage t u) = ms_snapshots u" for u
    by (simp_all add: registerTurnStarted_def clearLiveReasoningMessage_def updateSelected_def setActivity_def emit_def Let_def
        split: option.split)
  show ?thesis using assms
    by (simp add: runStarted_def Let_def is_current_def same map_of_upsert)
qed

lemma loaded_shows_remembered:
  assumes "lq_requestId req = ms_loadRequest s" "\<not> lq_preserve req" "isChatLikelyRunning merged" "lq_chatId req \<noteq> []"
    and merge: "mergeChatWithPendingOptimisticMessages chat s = (merged, u)"
    and p: "map_of (ms_snapshots s) (lq_chatId req) = Some p" "rt_activity p = Some a"
  shows "ms_activity (threadLoaded other env req chat s) = a"
proof -
  have u: "ms_snapshots u = ms_snapshots s" "ms_loadRequest u = ms_loadRequest s"
    using merge by (auto simp: mergeChatWithPendingOptimisticMessages_def Let_def split: if_splits prod.splits)
  have kept: "ms_activity (endLoading now req v) = ms_activity v" "ms_activity (emit e v) = ms_activity v"
    "ms_activity (showPendingUserInput q v) = ms_activity v" "ms_activity (takeOverWatchdog now w v) = ms_activity v"
    for now v e q w
    by (simp_all add: endLoading_def finishOpening_def emit_def showPendingUserInput_def takeOverWatchdog_def
        scheduleRunWatchdogExpiry_def)
  have applied: "ms_activity (applyThreadRuntimeSnapshot now t v) = a"
    if "map_of (ms_snapshots v) t = Some q" "rt_activity q = Some a" "t \<noteq> []" for now t v q
    using that by (simp add: applyThreadRuntimeSnapshot_def Let_def apply_some_def kept split: option.split)
  show ?thesis using assms u
    by (simp add: threadLoaded_def Let_def kept resetRuntime_def showLoadedRun_def applied showChat_def
        cacheThreadTurnState_def map_of_upsert)
qed

text \<open>A run that started while its chat was being read is shown as completed.  The end of a run of the
  selected thread asks for its chat.  When the next run starts before the answer comes, and the chat that was
  read is running, the answer replaces "Working" by the end of the previous run: what is remembered of the
  activity of the selected thread was not changed when the run started.\<close>

theorem running_chat_shows_previous_end:
  assumes "t \<noteq> []" and "ms_chatIdRef s = Some t"
    and "lq_requestId req = ms_loadRequest (runStarted env2 t turn (runEnded env1 t None s))"
    and "lq_chatId req = t" and "\<not> lq_preserve req"
    and "isChatLikelyRunning (fst (mergeChatWithPendingOptimisticMessages chat (runStarted env2 t turn (runEnded env1 t None s))))"
  shows "ms_activity (runStarted env2 t turn (runEnded env1 t None s)) = working
     \<and> ms_activity (threadLoaded other env3 req chat (runStarted env2 t turn (runEnded env1 t None s)))
         = activity_of ToneComplete ''Turn completed''"
proof
  let ?u = "runEnded env1 t None s"
  let ?v = "runStarted env2 t turn ?u"
  have current: "ms_chatIdRef ?u = Some t" using assms(2) by (simp add: ended_keeps_selection)
  show "ms_activity ?v = working"
    using current by (simp add: runStarted_def is_current_def setActivity_def bumpRunWatchdog_def bumpRunWatchdogBy_def
        scheduleRunWatchdogExpiry_def Let_def)
  obtain p where p: "map_of (ms_snapshots ?u) t = Some p" "rt_activity p = Some (activity_of ToneComplete ''Turn completed'')"
    using ended_is_remembered [OF assms(1), of env1 None s] by (auto simp: terminalActivity_def)
  then obtain q where q: "map_of (ms_snapshots ?v) t = Some q" "rt_activity q = Some (activity_of ToneComplete ''Turn completed'')"
    using started_is_not_remembered [OF current p(1) assms(1), of env2 turn] by auto
  obtain merged w where "mergeChatWithPendingOptimisticMessages chat ?v = (merged, w)"
    by (meson surj_pair)
  with loaded_shows_remembered [OF assms(3,5) _ _ this, of _ _ other env3] assms q
  show "ms_activity (threadLoaded other env3 req chat ?v) = activity_of ToneComplete ''Turn completed''"
    by simp
qed

definition next_run_read :: loadRequest where
  "next_run_read = \<lparr>lq_chatId = ''a'', lq_requestId = 1, lq_preserve = False, lq_revalidate = False\<rparr>"

lemma running_chat_shows_previous_end_witness:
  "let s = runStarted (quietEnv 7) ''a'' ''u2'' (runEnded (quietEnv 6) ''a'' None (initialScreen 5 True (Some ''a'') None))
   in ReadThread next_run_read \<in> set (ms_effects s) \<and> ms_activity s = working
      \<and> ms_activity (threadLoaded (\<lambda>_. None) (quietEnv 8) next_run_read (chat_with ''a'' ChatRunning) s)
          = activity_of ToneComplete ''Turn completed''"
proof -
  let ?s = "initialScreen 5 True (Some ''a'') None"
  let ?u = "runStarted (quietEnv 7) ''a'' ''u2'' (runEnded (quietEnv 6) ''a'' None ?s)"
  have "ms_chatIdRef ?s = Some ''a''" "lq_requestId next_run_read = ms_loadRequest ?u"
    "isChatLikelyRunning (fst (mergeChatWithPendingOptimisticMessages (chat_with ''a'' ChatRunning) ?u))"
    "ReadThread next_run_read \<in> set (ms_effects ?u)"
    by code_simp+
  thus ?thesis
    using running_chat_shows_previous_end [of "''a''" ?s next_run_read "quietEnv 7" "''u2''" "quietEnv 6"
        "chat_with ''a'' ChatRunning" "\<lambda>_. None" "quietEnv 8"]
    by (simp add: Let_def next_run_read_def)
qed

section \<open>A lost connection\<close>

text \<open>A lost connection is never shown.  Without the refs of the application state in the context of
  \<open>useMainScreenLifecycleRecovery\<close>, as the screen mounts it, a notification that the bridge is disconnected
  ends the watchdog and does nothing else, whether the application is in the foreground or not: neither the
  activity "Bridge disconnected" nor the banner appears, and no timer is set that would show them.\<close>

theorem lost_connection_is_not_shown:
  assumes "\<not> se_hasAppRefs env" and "rn_method event = ''bridge/connection/state''"
    and "as_string (opt_prop (toRecord (rn_params event)) ''status'') = Some ''disconnected''"
  shows "routeEvent parse env event s = clearRunWatchdog (se_now env) s"
proof -
  have "routeEvent parse env event s = processBridgeConnectionEvents env event s"
    by (simp add: routeEvent_def parseAgUiEventNotification_def assms(2) thread_state_methods_def progress_methods_def
        turn_methods_def)
  also have "\<dots> = clearRunWatchdog (se_now env) s"
    using assms(1) by (simp add: processBridgeConnectionEvents_def assms(3) scheduleDisconnectActivity_def
        clearDeferredDisconnectActivity_def Let_def)
  finally show ?thesis .
qed

definition disconnection :: rpcNotification where
  "disconnection =
     \<lparr>rn_method = ''bridge/connection/state'', rn_params = JObj [(''status'', JStr ''disconnected'')],
      rn_protocolVersion = None, rn_streamId = None, rn_eventId = None\<rparr>"

lemma lost_connection_is_not_shown_witness:
  "let s = initialScreen 5 True (Some ''a'') None
   in ms_activity (routeEvent (\<lambda>_. None) (quietEnv 9) disconnection s) = activity_of ToneIdle ''Ready''
      \<and> ms_disconnectTimer (routeEvent (\<lambda>_. None) (quietEnv 9) disconnection s) = None"
proof -
  let ?s = "initialScreen 5 True (Some ''a'') None"
  have "\<not> se_hasAppRefs (quietEnv 9)" "rn_method disconnection = ''bridge/connection/state''"
    "as_string (opt_prop (toRecord (rn_params disconnection)) ''status'') = Some ''disconnected''"
    by code_simp+
  from lost_connection_is_not_shown [OF this, of "\<lambda>_. None" ?s]
  have "routeEvent (\<lambda>_. None) (quietEnv 9) disconnection ?s = clearRunWatchdog (se_now (quietEnv 9)) ?s" .
  moreover have "ms_activity (clearRunWatchdog (se_now (quietEnv 9)) ?s) = activity_of ToneIdle ''Ready''"
    "ms_disconnectTimer (clearRunWatchdog (se_now (quietEnv 9)) ?s) = None"
    by code_simp+
  ultimately show ?thesis by (simp add: Let_def)
qed

section \<open>Progress of commands and tools\<close>

text \<open>
  The router gives these events to a handler that has no branch for them; the branch is in another
  handler, and it would show the activity and refresh the watchdog.
\<close>

theorem progress_is_dropped:
  assumes "rn_method event \<in> set progress_methods"
  shows "routeEvent parse env event s = s"
proof -
  have "rn_method event = ''item/commandExecution/outputDelta'' \<or> rn_method event = ''item/mcpToolCall/progress''
      \<or> rn_method event = ''item/commandExecution/terminalInteraction''"
    using assms by (simp add: progress_methods_def)
  thus ?thesis
    by (elim disjE) (simp_all add: routeEvent_def parseAgUiEventNotification_def thread_state_methods_def
        progress_methods_def processPlanAndReasoningEvents_def)
qed

section \<open>What an earlier chat or a file leaves behind\<close>

text \<open>A chat that nothing is remembered of opens with the approval and the commands of the chat before it.\<close>

theorem opened_chat_keeps_approval:
  assumes "ms_chatIdRef s \<noteq> Some t" "map_of (ms_snapshots s) t = None"
  shows "ms_pendingApproval (openChatThread env t None None None s) = ms_pendingApproval s
     \<and> ms_activeCommands (openChatThread env t None None None s) = ms_activeCommands s"
  using assms
  by (simp add: openChatThread_def Let_def is_current_def showSnapshot_def apply_some_def or_else_def loadChat_def emit_def
      applyThreadRuntimeSnapshot_def setActivity_def)

text \<open>The plans of the file replace those that events brought before it was read.\<close>

theorem file_replaces_plans: "ms_planSnapshots (plansLoaded now plans s) = plans"
proof -
  have "ms_planSnapshots (fold (\<lambda>(threadId, plan). upsertThreadRuntimeSnapshot now threadId
      (\<lambda>p. p\<lparr>rt_plan := Some (Some plan)\<rparr>)) xs u) = ms_planSnapshots u" for xs u
    by (induction xs arbitrary: u) (simp_all add: upsertThreadRuntimeSnapshot_def Let_def split: prod.split)
  moreover have "ms_planSnapshots (applyThreadRuntimeSnapshot now t u) = ms_planSnapshots u" for t u
    by (simp add: applyThreadRuntimeSnapshot_def apply_some_def takeOverWatchdog_def scheduleRunWatchdogExpiry_def
        showPendingUserInput_def Let_def split: option.split)
  ultimately show ?thesis by (simp add: plansLoaded_def Let_def split: option.split)
qed

end
