(* ===== verification/DrawerChats.thy ===== *)
theory DrawerChats
  imports ApiClient AgUiState BridgeSurfaces ScreenFiles
begin

text \<open>
  The chats of the drawer: which are listed, searched and merged (\<open>navigation/drawerChats.ts\<close>,
  \<open>drawerContentHelpers.ts\<close>), pinned chats and workspaces (\<open>useDrawerPins.ts\<close>,
  \<open>drawerContentPersistence.ts\<close>) and the indicators of running chats (\<open>drawerRuntimeIndicators.ts\<close>).
  \<open>compare\<close> is \<open>localeCompare\<close>.
\<close>

section \<open>Lists of chats\<close>

definition isSubAgentChat :: "chatSummary \<Rightarrow> bool" where
  "isSubAgentChat chat \<longleftrightarrow>
     non_empty (cs_parentThreadId chat) \<noteq> None
     \<or> (case cs_sourceKind chat of Some k \<Rightarrow> starts_with k ''subAgent'' | None \<Rightarrow> False)"

definition filterDrawerChats :: "chatSummary list \<Rightarrow> chatSummary list" where
  "filterDrawerChats chats = filter (\<lambda>c. \<not> isSubAgentChat c) chats"

definition filterDrawerChatsByAgents :: "chatSummary list \<Rightarrow> string list \<Rightarrow> chatSummary list" where
  "filterDrawerChatsByAgents chats agentIds =
     (let allowed = dedupe (filter (\<lambda>i. i \<noteq> []) (map trim agentIds)) in
      if allowed = [] then chats
      else filter (\<lambda>c. case cs_agentId c of Some a \<Rightarrow> a \<in> set allowed | None \<Rightarrow> False) chats)"

definition normalizeSearchQuery :: "string \<Rightarrow> string list" where
  "normalizeSearchQuery query = filter (\<lambda>t. t \<noteq> []) (split_on CHR '' '' (collapse_spaces (lower (trim query))))"

definition haystack :: "chatSummary \<Rightarrow> string" where
  "haystack c =
     lower (join [CHR 0x0A] (filter (\<lambda>v. trim v \<noteq> [])
       ([cs_title c, cs_lastMessagePreview c] @ List.map_filter id [cs_cwd c, cs_lastError c])))"

definition searchDrawerChats :: "chatSummary list \<Rightarrow> string \<Rightarrow> chatSummary list" where
  "searchDrawerChats chats query =
     (let terms = normalizeSearchQuery query in
      if terms = [] then chats else filter (\<lambda>c. list_all (has_substring (haystack c)) terms) chats)"

definition sortChats :: "(string \<Rightarrow> string \<Rightarrow> int) \<Rightarrow> chatSummary list \<Rightarrow> chatSummary list" where
  "sortChats compare chats = sort_by (\<lambda>a b. compare (cs_updatedAt b) (cs_updatedAt a)) chats"

definition dedupeChatsById :: "(string \<Rightarrow> string \<Rightarrow> int) \<Rightarrow> chatSummary list \<Rightarrow> chatSummary list" where
  "dedupeChatsById compare chats =
     map snd (fold (\<lambda>chat m.
       case map_of m (cs_id chat) of
         None \<Rightarrow> AList.update (cs_id chat) chat m
       | Some existing \<Rightarrow>
           if compare (cs_updatedAt chat) (cs_updatedAt existing) > 0 then AList.update (cs_id chat) chat m else m)
       chats [])"

text \<open>A map from ids to chats, in the order in which the ids came first\<close>

definition put_chats :: "chatSummary list \<Rightarrow> (string \<times> chatSummary) list \<Rightarrow> (string \<times> chatSummary) list" where
  "put_chats chats m = fold (\<lambda>c. AList.update (cs_id c) c) chats m"

definition mergeDrawerChatBatch ::
  "(string \<Rightarrow> string \<Rightarrow> int) \<Rightarrow> chatSummary list \<Rightarrow> chatSummary list \<Rightarrow> chatSummary list" where
  "mergeDrawerChatBatch compare previous incoming =
     (if previous = [] then sortChats compare incoming
      else sortChats compare (map snd (put_chats incoming (put_chats previous []))))"

definition same_row :: "chatSummary \<Rightarrow> chatSummary \<Rightarrow> bool" where
  "same_row l r \<longleftrightarrow>
     cs_id l = cs_id r \<and> cs_title l = cs_title r \<and> cs_status l = cs_status r \<and> cs_updatedAt l = cs_updatedAt r
     \<and> cs_lastMessagePreview l = cs_lastMessagePreview r \<and> cs_cwd l = cs_cwd r \<and> cs_agentId l = cs_agentId r
     \<and> cs_sourceKind l = cs_sourceKind r \<and> cs_parentThreadId l = cs_parentThreadId r
     \<and> cs_subAgentDepth l = cs_subAgentDepth r \<and> cs_lastError l = cs_lastError r"

definition areDrawerChatListsEquivalent :: "chatSummary list \<Rightarrow> chatSummary list \<Rightarrow> bool" where
  "areDrawerChatListsEquivalent previous later = list_all2 same_row previous later"

text \<open>How long ago; \<open>NaN\<close> when the instant cannot be read\<close>

definition relativeTime :: "(string \<Rightarrow> int option) \<Rightarrow> int \<Rightarrow> string \<Rightarrow> string" where
  "relativeTime other now instant =
     (case date_parse other instant of
        None \<Rightarrow> ''NaNmo''
      | Some t \<Rightarrow>
          let diff = max 0 (now - t); minutes = diff div 60000; hours = diff div 3600000; days = diff div 86400000;
              weeks = days div 7
          in if minutes < 1 then ''now''
             else if minutes < 60 then show_int minutes @ ''m''
             else if hours < 24 then show_int hours @ ''h''
             else if days < 7 then show_int days @ ''d''
             else if weeks < 5 then show_int weeks @ ''w''
             else show_int (days div 30) @ ''mo'')"

definition getDrawerChatSubtitle :: "chatSummary \<Rightarrow> string option" where
  "getDrawerChatSubtitle chat =
     (case non_empty (map_option trim (cs_lastError chat)) of
        Some e \<Rightarrow> Some e
      | None \<Rightarrow>
          let preview = trim (cs_lastMessagePreview chat) in
          if preview \<noteq> [] \<and> preview \<noteq> trim (cs_title chat) then Some preview else None)"

section \<open>Pins\<close>

definition PINNED_WORKSPACE_PATHS_LIMIT :: nat where "PINNED_WORKSPACE_PATHS_LIMIT = 4"
definition PINNED_WORKSPACE_PATHS_VERSION :: rat where "PINNED_WORKSPACE_PATHS_VERSION = 1"

definition documentPath :: "string \<Rightarrow> string option \<Rightarrow> string option" where
  "documentPath filename base = map_option (\<lambda>b. b @ filename) (non_empty base)"

definition parseStringList :: "string \<Rightarrow> string \<Rightarrow> string list" where
  "parseStringList raw property =
     (case json_parse raw of
        None \<Rightarrow> []
      | Some parsed \<Rightarrow>
          let values = (case parsed of JArr vs \<Rightarrow> Some vs | _ \<Rightarrow> as_array (opt_prop (toRecord parsed) property)) in
          dedupe (filter (\<lambda>s. s \<noteq> []) (List.map_filter trimmed_string (with_default values []))))"

text \<open>The text of the file, or that it could not be read\<close>

definition loadPinnedChatIds :: "string option \<Rightarrow> string list" where
  "loadPinnedChatIds file = (case file of Some raw \<Rightarrow> parseStringList raw ''ids'' | None \<Rightarrow> [])"

definition loadPinnedWorkspacePaths :: "string option \<Rightarrow> string list" where
  "loadPinnedWorkspacePaths file =
     (case file of Some raw \<Rightarrow> take PINNED_WORKSPACE_PATHS_LIMIT (parseStringList raw ''paths'') | None \<Rightarrow> [])"

definition persistPinnedChatIds :: "string list \<Rightarrow> string" where
  "persistPinnedChatIds ids = json_text (JObj [(''ids'', JArr (map JStr ids))])"

definition persistPinnedWorkspacePaths :: "string list \<Rightarrow> string" where
  "persistPinnedWorkspacePaths paths =
     json_text (JObj [(''version'', JNum PINNED_WORKSPACE_PATHS_VERSION), (''paths'', JArr (map JStr paths))])"

text \<open>\<open>showChatPinAction\<close> and \<open>showWorkspacePinAction\<close>: what is pinned after the action\<close>

definition toggleChatPin :: "string \<Rightarrow> string list \<Rightarrow> string list" where
  "toggleChatPin chatId previous =
     (if chatId \<in> set previous then filter (\<lambda>i. i \<noteq> chatId) previous
      else chatId # filter (\<lambda>i. i \<noteq> chatId) previous)"

definition toggleWorkspacePin :: "string \<Rightarrow> string list \<Rightarrow> string list" where
  "toggleWorkspacePin key previous =
     (if key \<in> set previous then filter (\<lambda>p. p \<noteq> key) previous
      else take PINNED_WORKSPACE_PATHS_LIMIT (key # filter (\<lambda>p. p \<noteq> key) previous))"

section \<open>Indicators of running chats\<close>

datatype indicatorSource = Heartbeat | Lifecycle

record drawerRunIndicator =
  di_source :: indicatorSource
  di_updatedAt :: int

type_synonym drawerRunIndicatorMap = "(string \<times> drawerRunIndicator) list"

definition RUN_HEARTBEAT_STALE_MS :: int where "RUN_HEARTBEAT_STALE_MS = 20000"
definition RUN_LIFECYCLE_SAFETY_STALE_MS :: int where "RUN_LIFECYCLE_SAFETY_STALE_MS = 6 * 60 * 60 * 1000"
definition RUN_INDICATOR_REFRESH_MIN_MS :: int where "RUN_INDICATOR_REFRESH_MIN_MS = 3000"
definition CHAT_STATUS_EVENT_SKEW_MS :: int where "CHAT_STATUS_EVENT_SKEW_MS = 1000"

definition DRAWER_RUNNING_STATUS_HINTS :: "string list" where
  "DRAWER_RUNNING_STATUS_HINTS = [''running'', ''inprogress'', ''active'', ''queued'', ''pending'']"

definition DRAWER_NON_RUNNING_STATUS_HINTS :: "string list" where
  "DRAWER_NON_RUNNING_STATUS_HINTS =
     [''complete'', ''completed'', ''success'', ''succeeded'', ''failed'', ''error'', ''interrupted'', ''aborted'',
      ''idle'', ''notloaded'']"

definition DRAWER_LIFECYCLE_METHODS :: "string list" where
  "DRAWER_LIFECYCLE_METHODS = [''bridge/approval.requested'', ''bridge/userInput.requested'']"

definition DRAWER_HEARTBEAT_METHODS :: "string list" where
  "DRAWER_HEARTBEAT_METHODS =
     [''item/started'', ''item/plan/delta'', ''item/reasoning/summaryPartAdded'', ''item/reasoning/summaryTextDelta'',
      ''item/reasoning/textDelta'', ''item/commandExecution/outputDelta'', ''item/mcpToolCall/progress'',
      ''turn/plan/updated'', ''turn/diff/updated'']"

definition isDrawerRunIndicatorActive :: "drawerRunIndicator option \<Rightarrow> int \<Rightarrow> bool" where
  "isDrawerRunIndicatorActive indicator now \<longleftrightarrow>
     (case indicator of
        None \<Rightarrow> False
      | Some i \<Rightarrow>
          now - di_updatedAt i < (if di_source i = Lifecycle then RUN_LIFECYCLE_SAFETY_STALE_MS else RUN_HEARTBEAT_STALE_MS))"

definition isDrawerChatRunning :: "chatSummary \<Rightarrow> drawerRunIndicatorMap \<Rightarrow> int \<Rightarrow> bool" where
  "isDrawerChatRunning chat indicators now \<longleftrightarrow>
     cs_status chat = ChatRunning \<or> isDrawerRunIndicatorActive (map_of indicators (cs_id chat)) now"

definition countDrawerRunningChats :: "chatSummary list \<Rightarrow> drawerRunIndicatorMap \<Rightarrow> int \<Rightarrow> nat" where
  "countDrawerRunningChats chats indicators now = length (filter (\<lambda>c. isDrawerChatRunning c indicators now) chats)"

definition setRunningIndicator ::
  "string \<Rightarrow> indicatorSource \<Rightarrow> int \<Rightarrow> drawerRunIndicatorMap \<Rightarrow> drawerRunIndicatorMap" where
  "setRunningIndicator threadId source now previous =
     (let existing = map_of previous threadId;
          nextSource = (if map_option di_source existing = Some Lifecycle \<or> source = Lifecycle then Lifecycle else Heartbeat);
          nextUpdatedAt = (case existing of Some e \<Rightarrow> max (di_updatedAt e) now | None \<Rightarrow> now)
      in case existing of
           Some e \<Rightarrow>
             if di_source e = nextSource \<and> nextUpdatedAt - di_updatedAt e < RUN_INDICATOR_REFRESH_MIN_MS then previous
             else obj_set threadId \<lparr>di_source = nextSource, di_updatedAt = nextUpdatedAt\<rparr> previous
         | None \<Rightarrow> obj_set threadId \<lparr>di_source = nextSource, di_updatedAt = nextUpdatedAt\<rparr> previous)"

definition clearRunningIndicator :: "string \<Rightarrow> drawerRunIndicatorMap \<Rightarrow> drawerRunIndicatorMap" where
  "clearRunningIndicator threadId previous =
     (if map_of previous threadId = None then previous else AList.delete threadId previous)"

definition parseTimestamp :: "(string \<Rightarrow> int option) \<Rightarrow> string \<Rightarrow> int option" where
  "parseTimestamp other value = (if value = [] then None else date_parse other value)"

definition statusAt :: "(string \<Rightarrow> int option) \<Rightarrow> chatSummary \<Rightarrow> int option" where
  "statusAt other chat = or_else (parseTimestamp other (cs_statusUpdatedAt chat)) (parseTimestamp other (cs_updatedAt chat))"

definition shouldChatSnapshotClearIndicator ::
  "(string \<Rightarrow> int option) \<Rightarrow> chatSummary \<Rightarrow> drawerRunIndicator \<Rightarrow> bool" where
  "shouldChatSnapshotClearIndicator other chat indicator \<longleftrightarrow>
     (case statusAt other chat of
        None \<Rightarrow> False
      | Some t \<Rightarrow> t + CHAT_STATUS_EVENT_SKEW_MS \<ge> di_updatedAt indicator)"

definition pruneStaleDrawerRunIndicators :: "int \<Rightarrow> drawerRunIndicatorMap \<Rightarrow> drawerRunIndicatorMap" where
  "pruneStaleDrawerRunIndicators now previous = filter (\<lambda>(_, i). isDrawerRunIndicatorActive (Some i) now) previous"

definition reconcileChat ::
  "(string \<Rightarrow> int option) \<Rightarrow> int \<Rightarrow> chatSummary \<Rightarrow> drawerRunIndicatorMap \<Rightarrow> drawerRunIndicatorMap" where
  "reconcileChat other now chat m =
     (if cs_status chat = ChatRunning
      then setRunningIndicator (cs_id chat) Lifecycle (with_default (statusAt other chat) now) m
      else case map_of m (cs_id chat) of
        Some existing \<Rightarrow>
          if shouldChatSnapshotClearIndicator other chat existing then clearRunningIndicator (cs_id chat) m else m
      | None \<Rightarrow> m)"

definition reconcileDrawerRunIndicatorsWithChats ::
  "(string \<Rightarrow> int option) \<Rightarrow> int \<Rightarrow> chatSummary list \<Rightarrow> drawerRunIndicatorMap \<Rightarrow> drawerRunIndicatorMap" where
  "reconcileDrawerRunIndicatorsWithChats other now chats previous =
     fold (reconcileChat other now) chats (pruneStaleDrawerRunIndicators now previous)"

definition readNonEmptyString :: "jsv \<Rightarrow> string option" where
  "readNonEmptyString value = non_empty (trimmed_string value)"

definition first_id :: "jobj option \<Rightarrow> string list \<Rightarrow> string option" where
  "first_id r ks = first_some (map (\<lambda>k. readNonEmptyString (opt_prop r k)) ks)"

definition extractDrawerNotificationThreadId :: "jobj option \<Rightarrow> jobj option \<Rightarrow> string option" where
  "extractDrawerNotificationThreadId params msgArg =
     (let msg = notification_msg params msgArg;
          thread = notification_thread params msg;
          threadSource = toRecord (opt_prop thread ''source'');
          turn = first_record [opt_prop params ''turn'', opt_prop msg ''turn''];
          source = first_record [opt_prop params ''source'', opt_prop msg ''source'']
      in first_some
           ([first_id msg thread_id_words, first_id params thread_id_words, first_id thread (''id'' # thread_id_words),
             first_id turn [''thread_id'', ''threadId''], first_id source thread_id_words]
            @ map (\<lambda>r. first_id r [''parent_thread_id'', ''parentThreadId''])
                [source, spawned_by source, threadSource, spawned_by threadSource]))"

definition normalizeToken :: "string option \<Rightarrow> string option" where
  "normalizeToken value =
     (case non_empty value of
        None \<Rightarrow> None
      | Some v \<Rightarrow> non_empty (Some (filter ascii_alnum (lower_ascii (trim v)))))"

definition extractDrawerStatusHint :: "jobj option \<Rightarrow> string option" where
  "extractDrawerStatusHint params =
     (case params of
        None \<Rightarrow> None
      | Some _ \<Rightarrow>
          let msg = toRecord (opt_prop params ''msg'');
              thread = notification_thread params msg;
              status = first_record [opt_prop params ''status'', opt_prop msg ''status'', opt_prop thread ''status'']
          in normalizeToken (first_some (map as_string
               [opt_prop params ''status'', opt_prop msg ''status'', opt_prop status ''type'', opt_prop status ''status'',
                opt_prop thread ''status''])))"

definition updateDrawerRunIndicatorsForEvent ::
  "(jsv \<Rightarrow> (agUiEvent \<times> int option) option) \<Rightarrow> int \<Rightarrow> rpcNotification
     \<Rightarrow> drawerRunIndicatorMap \<Rightarrow> drawerRunIndicatorMap" where
  "updateDrawerRunIndicatorsForEvent parse now event previous =
     (case parseAgUiEventNotification parse event of
        Some agUi \<Rightarrow>
          (case en_event agUi of
             RUN_STARTED _ _ \<Rightarrow> setRunningIndicator (en_threadId agUi) Lifecycle now previous
           | TEXT_MESSAGE_CONTENT _ _ \<Rightarrow> setRunningIndicator (en_threadId agUi) Heartbeat now previous
           | RUN_FINISHED _ _ \<Rightarrow> clearRunningIndicator (en_threadId agUi) previous
           | RUN_ERROR _ _ \<Rightarrow> clearRunningIndicator (en_threadId agUi) previous
           | _ \<Rightarrow> previous)
      | None \<Rightarrow>
          let params = toRecord (rn_params event); m = rn_method event in
          (case extractDrawerNotificationThreadId params None of
            None \<Rightarrow> previous
          | Some threadId \<Rightarrow>
              if m = ''thread/status/changed''
              then (case extractDrawerStatusHint params of
                  None \<Rightarrow> previous
                | Some hint \<Rightarrow>
                    if hint \<in> set DRAWER_RUNNING_STATUS_HINTS then setRunningIndicator threadId Lifecycle now previous
                    else if hint \<in> set DRAWER_NON_RUNNING_STATUS_HINTS then clearRunningIndicator threadId previous
                    else previous)
              else if m \<in> set DRAWER_LIFECYCLE_METHODS then setRunningIndicator threadId Lifecycle now previous
              else if m \<in> set DRAWER_HEARTBEAT_METHODS then setRunningIndicator threadId Heartbeat now previous
              else previous))"

definition drawerEventRequiresRefresh ::
  "(jsv \<Rightarrow> (agUiEvent \<times> int option) option) \<Rightarrow> rpcNotification \<Rightarrow> bool" where
  "drawerEventRequiresRefresh parse event \<longleftrightarrow>
     rn_method event \<in> {''thread/started'', ''thread/name/updated'', ''thread/status/changed''}
     \<or> (case map_option en_event (parseAgUiEventNotification parse event) of
          Some (RUN_STARTED _ _) \<Rightarrow> True
        | Some (RUN_FINISHED _ _) \<Rightarrow> True
        | Some (RUN_ERROR _ _) \<Rightarrow> True
        | _ \<Rightarrow> False)"

end
