(* ===== verification/DrawerLoading.thy ===== *)
theory DrawerLoading
  imports DrawerChats
begin

text \<open>
  How the drawer loads its chats (\<open>navigation/useDrawerChatLoading.ts\<close>): the load under way and the one
  that is queued, the stream of batches, the deep list of all chats, the refresh timers and the
  indicators.  Requests are calls under way, their answers are operations; timers are the instants
  at which they are due.  A state setter takes effect at once and effects run after every input.
\<close>

section \<open>State\<close>

definition DRAWER_REFRESH_CONNECTED_MS :: int where "DRAWER_REFRESH_CONNECTED_MS = 10000"
definition DRAWER_REFRESH_DISCONNECTED_MS :: int where "DRAWER_REFRESH_DISCONNECTED_MS = 5000"
definition DRAWER_EVENT_REFRESH_DEBOUNCE_MS :: int where "DRAWER_EVENT_REFRESH_DEBOUNCE_MS = 250"
definition DRAWER_OPEN_STALE_REFRESH_MS :: int where "DRAWER_OPEN_STALE_REFRESH_MS = 15000"
definition DRAWER_FAST_CHAT_LIST_LIMIT :: nat where "DRAWER_FAST_CHAT_LIST_LIMIT = 5"
definition DRAWER_FULL_CHAT_LIST_LIMIT :: nat where "DRAWER_FULL_CHAT_LIST_LIMIT = 20"
definition DRAWER_DEEP_LOAD_DELAY_MS :: int where "DRAWER_DEEP_LOAD_DELAY_MS = 2500"

text \<open>What is asked, with what the code does with the answer; the first flag is \<open>showRefresh\<close>\<close>

datatype drawerCall =
    PrimeList bool
  | LatestList bool bool
  | StartStream nat bool bool
  | FastList bool bool
  | FullList bool bool
  | LoadedIds "chatSummary list" "nat option"
  | Summaries "string list" "chatSummary list" "nat option"
  | AllChats bool

datatype drawerOutput = RememberChats "chatSummary list" nat | CancelStream nat

text \<open>A stream with \<open>showRefresh\<close> and whether it has finished\<close>

record drawerStream =
  ds_showRefresh :: bool
  ds_finished :: bool

record drawerLoading =
  dl_chats :: "chatSummary list"
  dl_chatsRef :: "chatSummary list"
  dl_loading :: bool
  dl_loadingOlderChats :: bool
  dl_partialHistoryDiagnostics :: "string list"
  dl_refreshing :: bool
  dl_runIndicators :: drawerRunIndicatorMap
  dl_wsConnected :: bool
  dl_active :: bool
  dl_inFlight :: bool
  dl_loadActive :: bool
  dl_queued :: "(bool \<times> bool) option"
  dl_scheduled :: "int option"
  dl_scheduledForce :: bool
  dl_deepScheduled :: "int option"
  dl_stream :: "nat option"
  dl_streams :: "(nat \<times> drawerStream) list"
  dl_nextStream :: nat
  dl_deepInFlight :: bool
  dl_hasLoadedDeep :: bool
  dl_hasHydratedOnce :: bool
  dl_lastLoadedAt :: int
  dl_canRetryDeep :: bool
  dl_calls :: "drawerCall list"
  dl_out :: "drawerOutput list"

text \<open>
  The clock, \<open>localeCompare\<close>, the engine's part of \<open>Date.parse\<close> and what the client's caches have at
  the time of the operation
\<close>

record drawerEnv =
  de_now :: int
  de_compare :: "string \<Rightarrow> string \<Rightarrow> int"
  de_other :: "string \<Rightarrow> int option"
  de_peekAll :: "chatSummary list option"
  de_peekFull :: "chatSummary list option"
  de_peekFast :: "chatSummary list option"

definition newDrawer :: "bool \<Rightarrow> bool \<Rightarrow> drawerLoading" where
  "newDrawer active online =
     \<lparr>dl_chats = [], dl_chatsRef = [], dl_loading = True, dl_loadingOlderChats = False,
      dl_partialHistoryDiagnostics = [], dl_refreshing = False, dl_runIndicators = [], dl_wsConnected = online,
      dl_active = active, dl_inFlight = False, dl_loadActive = active, dl_queued = None, dl_scheduled = None, dl_scheduledForce = False,
      dl_deepScheduled = None, dl_stream = None, dl_streams = [], dl_nextStream = 0, dl_deepInFlight = False,
      dl_hasLoadedDeep = False, dl_hasHydratedOnce = False, dl_lastLoadedAt = 0, dl_canRetryDeep = False,
      dl_calls = [], dl_out = []\<rparr>"

definition call :: "drawerCall \<Rightarrow> drawerLoading \<Rightarrow> drawerLoading" where
  "call c s = s\<lparr>dl_calls := dl_calls s @ [c]\<rparr>"

definition answered :: "drawerCall \<Rightarrow> drawerLoading \<Rightarrow> drawerLoading" where
  "answered c s = s\<lparr>dl_calls := remove1 c (dl_calls s)\<rparr>"

section \<open>Chats that arrive\<close>

definition next_chats :: "drawerEnv \<Rightarrow> chatSummary list \<Rightarrow> drawerLoading \<Rightarrow> chatSummary list" where
  "next_chats env rawChats s =
     (let incomingChats = sortChats (de_compare env) (dedupeChatsById (de_compare env) (filterDrawerChats rawChats)) in
      if dl_hasHydratedOnce s \<or> length (dl_chatsRef s) > length incomingChats
      then mergeDrawerChatBatch (de_compare env) (dl_chatsRef s) incomingChats else incomingChats)"

definition applyChats :: "drawerEnv \<Rightarrow> chatSummary list \<Rightarrow> nat option \<Rightarrow> drawerLoading \<Rightarrow> drawerLoading" where
  "applyChats env rawChats cacheLimit s =
     (let nextChats = next_chats env rawChats s in
      s\<lparr>dl_chatsRef := nextChats,
        dl_chats := (if areDrawerChatListsEquivalent (dl_chats s) nextChats then dl_chats s else nextChats),
        dl_out := dl_out s @ (case cacheLimit of
            Some limit \<Rightarrow> if limit = 0 then [] else [RememberChats nextChats (max limit (min (length nextChats) 200))]
          | None \<Rightarrow> []),
        dl_hasHydratedOnce := True, dl_lastLoadedAt := de_now env, dl_loading := False,
        dl_runIndicators := reconcileDrawerRunIndicatorsWithChats (de_other env) (de_now env) nextChats
          (dl_runIndicators s)\<rparr>)"

definition whenActive :: "(drawerLoading \<Rightarrow> drawerLoading) \<Rightarrow> drawerLoading \<Rightarrow> drawerLoading" where
  "whenActive f s = (if dl_active s then f s else s)"

text \<open>\<open>hydrateLoadedChats\<close>: chats that are loaded on the bridge but not listed\<close>

definition hydrateLoadedChats :: "chatSummary list \<Rightarrow> nat option \<Rightarrow> drawerLoading \<Rightarrow> drawerLoading" where
  "hydrateLoadedChats listedChats cacheLimit s = call (LoadedIds listedChats cacheLimit) s"

definition loadedIdsRead ::
  "chatSummary list \<Rightarrow> nat option \<Rightarrow> string list option \<Rightarrow> drawerLoading \<Rightarrow> drawerLoading" where
  "loadedIdsRead listedChats cacheLimit loadedIds s =
     (let s = answered (LoadedIds listedChats cacheLimit) s in
      case loadedIds of
        None \<Rightarrow> s
      | Some ids \<Rightarrow>
          let missingIds = filter (\<lambda>i. i \<notin> cs_id ` set listedChats) ids in
          if missingIds = [] then s else call (Summaries missingIds listedChats cacheLimit) s)"

definition summariesRead ::
  "drawerEnv \<Rightarrow> string list \<Rightarrow> chatSummary list \<Rightarrow> nat option \<Rightarrow> chatSummary list option
     \<Rightarrow> drawerLoading \<Rightarrow> drawerLoading" where
  "summariesRead env missingIds listedChats cacheLimit loadedChats s =
     (let s = answered (Summaries missingIds listedChats cacheLimit) s in
      case loadedChats of
        None \<Rightarrow> s
      | Some chats \<Rightarrow>
          if chats \<noteq> [] \<and> dl_active s then applyChats env (listedChats @ chats) cacheLimit s else s)"

section \<open>The deep list\<close>

definition applyCachedDeepChats :: "drawerEnv \<Rightarrow> drawerLoading \<Rightarrow> drawerLoading option" where
  "applyCachedDeepChats env s =
     (case de_peekAll env of
        None \<Rightarrow> None
      | Some cached \<Rightarrow>
          Some (applyChats env cached None
            (s\<lparr>dl_hasLoadedDeep := True,
               dl_loadingOlderChats := (if dl_active s then False else dl_loadingOlderChats s)\<rparr>)))"

definition startDeepLoad :: "bool \<Rightarrow> drawerLoading \<Rightarrow> drawerLoading" where
  "startDeepLoad forceDeepRefresh s =
     call (AllChats forceDeepRefresh)
       (s\<lparr>dl_loadingOlderChats := dl_loadingOlderChats s \<or> dl_active s, dl_deepInFlight := True\<rparr>)"

definition loadDeepChatsOnce :: "drawerEnv \<Rightarrow> bool \<Rightarrow> drawerLoading \<Rightarrow> drawerLoading" where
  "loadDeepChatsOnce env forceDeepRefresh s =
     (if dl_hasLoadedDeep s \<or> dl_deepInFlight s then s
      else if forceDeepRefresh then startDeepLoad True s
      else case applyCachedDeepChats env s of Some s' \<Rightarrow> s' | None \<Rightarrow> startDeepLoad False s)"

definition deepPage :: "drawerEnv \<Rightarrow> chatSummary list \<Rightarrow> drawerLoading \<Rightarrow> drawerLoading" where
  "deepPage env loadedChats s = whenActive (applyChats env loadedChats None) s"

text \<open>The chats, and the diagnostics when the history is partial; nothing when the request failed\<close>

definition deepRead ::
  "drawerEnv \<Rightarrow> bool \<Rightarrow> (chatSummary list \<times> string list option) option \<Rightarrow> drawerLoading \<Rightarrow> drawerLoading" where
  "deepRead env force result s =
     (let s = answered (AllChats force) s;
          s = (case result of
                 None \<Rightarrow> s
               | Some (chats, diagnostics) \<Rightarrow>
                   whenActive (\<lambda>s. (hydrateLoadedChats chats None (applyChats env chats None s))
                       \<lparr>dl_partialHistoryDiagnostics := with_default diagnostics []\<rparr>)
                     (s\<lparr>dl_hasLoadedDeep := True\<rparr>))
      in whenActive (\<lambda>s. s\<lparr>dl_loadingOlderChats := False\<rparr>) (s\<lparr>dl_deepInFlight := False\<rparr>))"

definition scheduleDeepLoadChatsOnce :: "drawerEnv \<Rightarrow> drawerLoading \<Rightarrow> drawerLoading" where
  "scheduleDeepLoadChatsOnce env s =
     (if dl_deepInFlight s then whenActive (\<lambda>s. s\<lparr>dl_loadingOlderChats := True\<rparr>) s
      else if dl_hasLoadedDeep s \<or> dl_deepScheduled s \<noteq> None then s
      else case applyCachedDeepChats env s of
        Some s' \<Rightarrow> s'
      | None \<Rightarrow> s\<lparr>dl_deepScheduled := Some (de_now env + DRAWER_DEEP_LOAD_DELAY_MS)\<rparr>)"

definition deepTimerFires :: "drawerEnv \<Rightarrow> drawerLoading \<Rightarrow> drawerLoading" where
  "deepTimerFires env s = whenActive (loadDeepChatsOnce env False) (s\<lparr>dl_deepScheduled := None\<rparr>)"

definition retryDeepChatList :: "drawerEnv \<Rightarrow> drawerLoading \<Rightarrow> drawerLoading" where
  "retryDeepChatList env s =
     (if dl_canRetryDeep s then loadDeepChatsOnce env True (s\<lparr>dl_hasLoadedDeep := False\<rparr>) else s)"

section \<open>Loading\<close>

definition cancelChatListStream :: "drawerLoading \<Rightarrow> drawerLoading" where
  "cancelChatListStream s =
     s\<lparr>dl_out := dl_out s @ (case dl_stream s of Some i \<Rightarrow> [CancelStream i] | None \<Rightarrow> []),
       dl_stream := None, dl_deepScheduled := None\<rparr>"

definition list_limit :: "bool \<Rightarrow> nat" where
  "list_limit showRefresh = (if showRefresh then DRAWER_FULL_CHAT_LIST_LIMIT else DRAWER_FAST_CHAT_LIST_LIMIT)"

definition applyCachedLists :: "drawerEnv \<Rightarrow> drawerLoading \<Rightarrow> drawerLoading" where
  "applyCachedLists env s =
     (case de_peekFull env of
        Some cached \<Rightarrow> applyChats env cached (Some DRAWER_FULL_CHAT_LIST_LIMIT) s
      | None \<Rightarrow>
          (case de_peekFast env of
             Some cached \<Rightarrow> applyChats env cached (Some DRAWER_FAST_CHAT_LIST_LIMIT) s
           | None \<Rightarrow> s))"

text \<open>\<open>loadChatsNow\<close> up to its first \<open>await\<close>\<close>

definition loadChatsNow :: "drawerEnv \<Rightarrow> bool \<Rightarrow> bool \<Rightarrow> drawerLoading \<Rightarrow> drawerLoading" where
  "loadChatsNow env showRefresh forceRefresh s =
     (let s = s\<lparr>dl_refreshing := dl_refreshing s \<or> showRefresh, dl_canRetryDeep := True\<rparr> in
      if \<not> dl_active s then call (PrimeList forceRefresh) s
      else case applyCachedDeepChats env s of
        Some s' \<Rightarrow> call (LatestList showRefresh forceRefresh) s'
      | None \<Rightarrow>
          let s = cancelChatListStream (applyCachedLists env s); i = dl_nextStream s in
          call (StartStream i showRefresh forceRefresh)
            (s\<lparr>dl_nextStream := Suc i,
               dl_streams := (i, \<lparr>ds_showRefresh = showRefresh, ds_finished = False\<rparr>) # dl_streams s\<rparr>))"

definition merge_queued :: "bool \<Rightarrow> bool \<Rightarrow> (bool \<times> bool) option \<Rightarrow> bool \<times> bool" where
  "merge_queued showRefresh forceRefresh queued =
     (case queued of
        Some (show, force) \<Rightarrow> (showRefresh \<or> show, forceRefresh \<or> force)
      | None \<Rightarrow> (showRefresh, forceRefresh))"

text \<open>\<open>active\<close> is the flag the callback was made with.\<close>

definition loadChatsWith :: "drawerEnv \<Rightarrow> bool \<Rightarrow> bool \<Rightarrow> bool \<Rightarrow> drawerLoading \<Rightarrow> drawerLoading" where
  "loadChatsWith env active showRefresh forceRefresh s =
     (if \<not> active \<and> dl_hasHydratedOnce s then s
      else if dl_stream s \<noteq> None \<and> \<not> showRefresh then s
      else let s = (if showRefresh then s\<lparr>dl_scheduled := None\<rparr> else s) in
        if dl_inFlight s then s\<lparr>dl_queued := Some (merge_queued showRefresh forceRefresh (dl_queued s))\<rparr>
        else loadChatsNow env showRefresh forceRefresh (s\<lparr>dl_inFlight := True, dl_loadActive := active\<rparr>))"

definition loadChats :: "drawerEnv \<Rightarrow> bool \<Rightarrow> bool \<Rightarrow> drawerLoading \<Rightarrow> drawerLoading" where
  "loadChats env showRefresh forceRefresh s = loadChatsWith env (dl_active s) showRefresh forceRefresh s"

text \<open>The load is over: what was queued meanwhile is started by the callback that started the load.\<close>

definition endLoad :: "drawerEnv \<Rightarrow> drawerLoading \<Rightarrow> drawerLoading" where
  "endLoad env s =
     (let queuedRequest = dl_queued s; s = s\<lparr>dl_inFlight := False, dl_queued := None\<rparr> in
      case queuedRequest of
        None \<Rightarrow> s
      | Some (showRefresh, forceRefresh) \<Rightarrow>
          if dl_stream s \<noteq> None \<and> \<not> showRefresh then s
          else loadChatsWith env (dl_loadActive s) showRefresh forceRefresh s)"

text \<open>The \<open>finally\<close> of \<open>loadChatsNow\<close> when no stream goes on\<close>

definition endShown :: "drawerEnv \<Rightarrow> bool \<Rightarrow> drawerLoading \<Rightarrow> drawerLoading" where
  "endShown env showRefresh s =
     endLoad env (s\<lparr>dl_refreshing := dl_refreshing s \<and> \<not> showRefresh, dl_loading := False\<rparr>)"

definition primed :: "drawerEnv \<Rightarrow> bool \<Rightarrow> drawerLoading \<Rightarrow> drawerLoading" where
  "primed env forceRefresh s = endLoad env (answered (PrimeList forceRefresh) s)"

definition latestRead ::
  "drawerEnv \<Rightarrow> bool \<Rightarrow> bool \<Rightarrow> chatSummary list option \<Rightarrow> drawerLoading \<Rightarrow> drawerLoading" where
  "latestRead env showRefresh forceRefresh result s =
     (let s = answered (LatestList showRefresh forceRefresh) s in
      endShown env showRefresh
        (case result of
           Some chats \<Rightarrow> whenActive (applyChats env chats (Some (list_limit showRefresh))) s
         | None \<Rightarrow> s))"

definition fastRead ::
  "drawerEnv \<Rightarrow> bool \<Rightarrow> bool \<Rightarrow> chatSummary list option \<Rightarrow> drawerLoading \<Rightarrow> drawerLoading" where
  "fastRead env showRefresh forceRefresh result s =
     (let s = answered (FastList showRefresh forceRefresh) s in
      case result of
        None \<Rightarrow> endShown env showRefresh s
      | Some chats \<Rightarrow>
          call (FullList showRefresh forceRefresh)
            (whenActive (applyChats env chats (Some DRAWER_FAST_CHAT_LIST_LIMIT)) s))"

definition fullRead ::
  "drawerEnv \<Rightarrow> bool \<Rightarrow> bool \<Rightarrow> chatSummary list option \<Rightarrow> drawerLoading \<Rightarrow> drawerLoading" where
  "fullRead env showRefresh forceRefresh result s =
     (let s = answered (FullList showRefresh forceRefresh) s in
      endShown env showRefresh
        (case result of
           None \<Rightarrow> s
         | Some chats \<Rightarrow>
             whenActive (\<lambda>s. scheduleDeepLoadChatsOnce env
               (hydrateLoadedChats chats (Some DRAWER_FULL_CHAT_LIST_LIMIT)
                 (applyChats env chats (Some DRAWER_FULL_CHAT_LIST_LIMIT) s))) s))"

section \<open>The stream\<close>

definition finished_stream :: "nat \<Rightarrow> drawerLoading \<Rightarrow> bool" where
  "finished_stream i s = (case map_of (dl_streams s) i of Some d \<Rightarrow> ds_finished d | None \<Rightarrow> True)"

definition finishStream :: "nat \<Rightarrow> drawerLoading \<Rightarrow> drawerLoading" where
  "finishStream i s =
     s\<lparr>dl_streams := map (\<lambda>(j, d). (j, if j = i then d\<lparr>ds_finished := True\<rparr> else d)) (dl_streams s), dl_stream := None\<rparr>"

definition shows_refresh :: "nat \<Rightarrow> drawerLoading \<Rightarrow> bool" where
  "shows_refresh i s = (case map_of (dl_streams s) i of Some d \<Rightarrow> ds_showRefresh d | None \<Rightarrow> False)"

definition streamBatch ::
  "drawerEnv \<Rightarrow> nat \<Rightarrow> chatSummary list \<Rightarrow> nat \<Rightarrow> bool \<Rightarrow> drawerLoading \<Rightarrow> drawerLoading" where
  "streamBatch env i chats limit isLast s =
     (if \<not> dl_active s then s
      else let s = applyChats env chats (Some limit) s;
               s = s\<lparr>dl_refreshing := dl_refreshing s \<and> \<not> shows_refresh i s\<rparr>
        in if isLast then scheduleDeepLoadChatsOnce env (hydrateLoadedChats chats (Some limit) (finishStream i s)) else s)"

definition streamFailed :: "nat \<Rightarrow> drawerLoading \<Rightarrow> drawerLoading" where
  "streamFailed i s =
     (finishStream i s)\<lparr>dl_refreshing := dl_refreshing s \<and> \<not> shows_refresh i s, dl_loading := False\<rparr>"

definition streamStarted :: "drawerEnv \<Rightarrow> nat \<Rightarrow> bool \<Rightarrow> bool \<Rightarrow> drawerLoading \<Rightarrow> drawerLoading" where
  "streamStarted env i showRefresh forceRefresh s =
     (let s = answered (StartStream i showRefresh forceRefresh) s in
      if finished_stream i s then endShown env showRefresh s else endLoad env (s\<lparr>dl_stream := Some i\<rparr>))"

definition streamNotStarted :: "nat \<Rightarrow> bool \<Rightarrow> bool \<Rightarrow> drawerLoading \<Rightarrow> drawerLoading" where
  "streamNotStarted i showRefresh forceRefresh s =
     call (FastList showRefresh forceRefresh) (answered (StartStream i showRefresh forceRefresh) s)"

section \<open>Events and timers\<close>

definition scheduleLoadChats :: "drawerEnv \<Rightarrow> int \<Rightarrow> bool \<Rightarrow> drawerLoading \<Rightarrow> drawerLoading" where
  "scheduleLoadChats env delay forceRefresh s =
     (if \<not> dl_active s then s
      else if dl_scheduled s \<noteq> None then s\<lparr>dl_scheduledForce := dl_scheduledForce s \<or> forceRefresh\<rparr>
      else s\<lparr>dl_scheduledForce := forceRefresh, dl_scheduled := Some (de_now env + delay)\<rparr>)"

definition loadTimerFires :: "drawerEnv \<Rightarrow> drawerLoading \<Rightarrow> drawerLoading" where
  "loadTimerFires env s =
     loadChats env False (dl_scheduledForce s) (s\<lparr>dl_scheduled := None, dl_scheduledForce := False\<rparr>)"

definition primeOrRefresh :: "drawerEnv \<Rightarrow> bool \<Rightarrow> drawerLoading \<Rightarrow> drawerLoading" where
  "primeOrRefresh env online s =
     (let s = s\<lparr>dl_wsConnected := online\<rparr>;
          shouldRefreshVisibleDrawer = (dl_active s \<and> de_now env - dl_lastLoadedAt s > DRAWER_OPEN_STALE_REFRESH_MS)
      in if dl_hasHydratedOnce s \<and> \<not> shouldRefreshVisibleDrawer then s
         else loadChats env False shouldRefreshVisibleDrawer s)"

definition drawerClosed :: "drawerLoading \<Rightarrow> drawerLoading" where
  "drawerClosed s =
     (cancelChatListStream (s\<lparr>dl_scheduled := None, dl_scheduledForce := False\<rparr>))
       \<lparr>dl_queued := None, dl_refreshing := False, dl_loadingOlderChats := False\<rparr>"

text \<open>The drawer is opened or closed; the effects run in the order of the code.\<close>

definition activeChanged :: "drawerEnv \<Rightarrow> bool \<Rightarrow> bool \<Rightarrow> drawerLoading \<Rightarrow> drawerLoading" where
  "activeChanged env active online s =
     (let s = primeOrRefresh env online (s\<lparr>dl_active := active\<rparr>) in if active then s else drawerClosed s)"

definition mountDrawer :: "drawerEnv \<Rightarrow> bool \<Rightarrow> bool \<Rightarrow> drawerLoading" where
  "mountDrawer env active online = activeChanged env active online (newDrawer active online)"

definition drawerEvent ::
  "(jsv \<Rightarrow> (agUiEvent \<times> int option) option) \<Rightarrow> drawerEnv \<Rightarrow> rpcNotification \<Rightarrow> drawerLoading \<Rightarrow> drawerLoading" where
  "drawerEvent parse env event s =
     (if rn_method event = ''bridge/events/snapshotRequired''
      then scheduleLoadChats env 0 True (s\<lparr>dl_runIndicators := []\<rparr>)
      else let s = s\<lparr>dl_runIndicators := updateDrawerRunIndicatorsForEvent parse (de_now env) event (dl_runIndicators s)\<rparr>
        in if drawerEventRequiresRefresh parse event then scheduleLoadChats env DRAWER_EVENT_REFRESH_DEBOUNCE_MS True s
           else s)"

definition drawerStatus :: "drawerEnv \<Rightarrow> bool \<Rightarrow> drawerLoading \<Rightarrow> drawerLoading" where
  "drawerStatus env online s =
     (let s = s\<lparr>dl_wsConnected := online\<rparr> in
      if online then scheduleLoadChats env DRAWER_EVENT_REFRESH_DEBOUNCE_MS True s else s)"

definition pruneTimerFires :: "drawerEnv \<Rightarrow> drawerLoading \<Rightarrow> drawerLoading" where
  "pruneTimerFires env s = s\<lparr>dl_runIndicators := pruneStaleDrawerRunIndicators (de_now env) (dl_runIndicators s)\<rparr>"

definition refresh_interval :: "drawerLoading \<Rightarrow> int option" where
  "refresh_interval s =
     (if \<not> dl_active s then None
      else Some (if dl_wsConnected s then DRAWER_REFRESH_CONNECTED_MS else DRAWER_REFRESH_DISCONNECTED_MS))"

definition refreshTimerFires :: "drawerEnv \<Rightarrow> drawerLoading \<Rightarrow> drawerLoading" where
  "refreshTimerFires env s = scheduleLoadChats env DRAWER_EVENT_REFRESH_DEBOUNCE_MS False s"

end
