(* ===== verification/DrawerLaws.thy ===== *)
theory DrawerLaws
  imports DrawerLoading
begin

text \<open>
  The drawer lists every chat once and never loses one, one load runs at a time, a batch is merged as a
  union of maps, and a run that was started stays marked.
\<close>

section \<open>Lists of chats as maps\<close>

definition listed :: "chatSummary list \<Rightarrow> string \<rightharpoonup> chatSummary" where
  "listed chats = map_of (map (\<lambda>c. (cs_id c, c)) chats)"

definition own_keys :: "(string \<times> chatSummary) list \<Rightarrow> bool" where
  "own_keys m \<longleftrightarrow> distinct (map fst m) \<and> (\<forall>(k, c) \<in> set m. cs_id c = k)"

lemma own_keys_update: "own_keys m \<Longrightarrow> own_keys (AList.update (cs_id c) c m)"
  using set_alist_update [of "cs_id c" c m] by (auto simp: own_keys_def distinct_update)

lemma own_keys_values:
  assumes "own_keys m"
  shows "map cs_id (map snd m) = map fst m" and "listed (map snd m) = map_of m"
proof -
  have "map (\<lambda>c. (cs_id c, c)) (map snd m) = m"
    using assms by (induction m) (auto simp: own_keys_def)
  then show "listed (map snd m) = map_of m" by (simp add: listed_def)
  show "map cs_id (map snd m) = map fst m" using assms by (auto simp: own_keys_def)
qed

lemma fold_updates:
  assumes "own_keys m"
  shows "own_keys (put_chats cs m)" and "fst ` set (put_chats cs m) = fst ` set m \<union> cs_id ` set cs"
proof -
  have "own_keys (put_chats cs m) \<and> fst ` set (put_chats cs m) = fst ` set m \<union> cs_id ` set cs"
    using assms
  proof (induction cs arbitrary: m)
    case (Cons c cs)
    from Cons.IH [OF own_keys_update [OF Cons.prems, of c]] show ?case
      by (auto simp: put_chats_def dom_update)
  qed (simp add: put_chats_def)
  then show "own_keys (put_chats cs m)" "fst ` set (put_chats cs m) = fst ` set m \<union> cs_id ` set cs" by auto
qed

lemma put_chats_map:
  assumes "distinct (map cs_id cs)"
  shows "map_of (put_chats cs m) = map_of m ++ listed cs"
  using assms
proof (induction cs arbitrary: m)
  case (Cons c cs)
  have "listed (c # cs) = (listed cs)(cs_id c \<mapsto> c)" by (simp add: listed_def)
  moreover have "listed cs (cs_id c) = None"
    using Cons.prems by (auto simp: listed_def map_of_eq_None_iff)
  ultimately have "map_of m ++ listed (c # cs) = (map_of m)(cs_id c \<mapsto> c) ++ listed cs"
    by (auto simp: fun_eq_iff map_add_def split: option.splits)
  then show ?case using Cons by (simp add: put_chats_def update_conv')
qed (simp add: put_chats_def listed_def)

lemma listed_Some: "distinct (map cs_id cs) \<Longrightarrow> listed cs i = Some c \<longleftrightarrow> c \<in> set cs \<and> cs_id c = i"
  unfolding listed_def by (subst map_of_eq_Some_iff) (auto simp: comp_def)

lemma listed_permuted:
  assumes "distinct (map cs_id cs)" "mset ds = mset cs"
  shows "listed ds = listed cs"
proof
  fix i
  have "distinct (map cs_id ds)" "set ds = set cs"
    using assms by (metis mset_eq_imp_distinct_iff mset_map, metis set_mset_mset)
  then show "listed ds i = listed cs i"
    using assms(1) listed_Some by (metis not_Some_eq)
qed

lemma listed_sortChats: "distinct (map cs_id cs) \<Longrightarrow> listed (sortChats compare cs) = listed cs"
  by (rule listed_permuted) (simp_all add: sortChats_def)


lemma ids_merge:
  "cs_id ` set (mergeDrawerChatBatch compare previous incoming) = cs_id ` set previous \<union> cs_id ` set incoming"
proof (cases "previous = []")
  case False
  let ?m = "put_chats incoming (put_chats previous [])"
  have own: "own_keys (put_chats previous [])" "own_keys ?m"
    by (intro fold_updates; simp add: own_keys_def)+
  have "cs_id ` set (map snd ?m) = fst ` set ?m"
    using own_keys_values(1) [OF own(2)] by (metis list.set_map)
  moreover have "fst ` set ?m = cs_id ` set previous \<union> cs_id ` set incoming"
    using fold_updates(2) [OF own(1), of incoming] fold_updates(2) [of "[]" previous] by (simp add: own_keys_def)
  ultimately show ?thesis using False by (simp add: mergeDrawerChatBatch_def sortChats_def)
qed (simp add: mergeDrawerChatBatch_def sortChats_def)

lemma set_put_chats: "snd ` set (put_chats cs m) \<subseteq> set cs \<union> snd ` set m"
proof (induction cs arbitrary: m)
  case (Cons c cs)
  let ?u = "AList.update (cs_id c) c m"
  have "snd ` set ?u \<subseteq> insert c (snd ` set m)"
    using set_alist_update [of "cs_id c" c m] by auto
  moreover have "snd ` set (put_chats cs ?u) \<subseteq> set cs \<union> snd ` set ?u" by (rule Cons)
  moreover have "put_chats (c # cs) m = put_chats cs ?u" by (simp add: put_chats_def)
  ultimately show ?case unfolding list.set(2) by (simp only:) blast
qed (simp add: put_chats_def)

lemma set_merge: "set (mergeDrawerChatBatch compare previous incoming) \<subseteq> set previous \<union> set incoming"
  using set_put_chats [of incoming "put_chats previous []"] set_put_chats [of previous "[]"]
  by (auto simp: mergeDrawerChatBatch_def sortChats_def)

text \<open>One of the chats of each id is kept.\<close>

lemma dedupe_chats:
  "distinct (map cs_id (dedupeChatsById compare cs))" "set (dedupeChatsById compare cs) \<subseteq> set cs"
  "cs_id ` set (dedupeChatsById compare cs) = cs_id ` set cs"
proof -
  define put :: "chatSummary \<Rightarrow> (string \<times> chatSummary) list \<Rightarrow> (string \<times> chatSummary) list"
    where "put = (\<lambda>chat m. case map_of m (cs_id chat) of
      None \<Rightarrow> AList.update (cs_id chat) chat m
    | Some existing \<Rightarrow>
        if compare (cs_updatedAt chat) (cs_updatedAt existing) > 0 then AList.update (cs_id chat) chat m else m)"
  have put: "own_keys (put c m) \<and> snd ` set (put c m) \<subseteq> insert c (snd ` set m)
      \<and> fst ` set (put c m) = insert (cs_id c) (fst ` set m)" if "own_keys m" for c m
  proof -
    have "snd ` set (AList.update (cs_id c) c m) \<subseteq> insert c (snd ` set m)"
      using set_alist_update [of "cs_id c" c m] by auto
    moreover have "cs_id c \<in> fst ` set m" if "map_of m (cs_id c) = Some e" for e
      using map_of_SomeD [OF that] by (rule rev_image_eqI) simp
    ultimately show ?thesis
      using that own_keys_update [OF that, of c] by (auto simp: put_def dom_update split: option.split)
  qed
  have fold: "own_keys (fold put cs m) \<and> snd ` set (fold put cs m) \<subseteq> snd ` set m \<union> set cs
      \<and> fst ` set (fold put cs m) = fst ` set m \<union> cs_id ` set cs" if "own_keys m" for cs m
    using that
  proof (induction cs arbitrary: m)
    case (Cons c cs)
    have own: "own_keys (put c m)" and vs: "snd ` set (put c m) \<subseteq> insert c (snd ` set m)"
      and ks: "fst ` set (put c m) = insert (cs_id c) (fst ` set m)"
      using put [OF Cons.prems, of c] by blast+
    have "snd ` set (fold put cs (put c m)) \<subseteq> snd ` set (put c m) \<union> set cs"
      "fst ` set (fold put cs (put c m)) = fst ` set (put c m) \<union> cs_id ` set cs"
      "own_keys (fold put cs (put c m))"
      using Cons.IH [OF own] by blast+
    then show ?case using vs unfolding fold_Cons comp_def ks list.set image_insert by blast
  qed simp
  have all: "own_keys (fold put cs [])" "snd ` set (fold put cs []) \<subseteq> set cs" "fst ` set (fold put cs []) = cs_id ` set cs"
    using fold [of "[]" cs] by (simp_all add: own_keys_def)
  have eq: "dedupeChatsById compare cs = map snd (fold put cs [])" by (simp add: dedupeChatsById_def put_def)
  have keys: "map cs_id (dedupeChatsById compare cs) = map fst (fold put cs [])"
    unfolding eq by (rule own_keys_values(1) [OF all(1)])
  then show "distinct (map cs_id (dedupeChatsById compare cs))" using all(1) by (simp add: own_keys_def)
  show "set (dedupeChatsById compare cs) \<subseteq> set cs" unfolding eq using all(2) by simp
  show "cs_id ` set (dedupeChatsById compare cs) = cs_id ` set cs"
    using keys all(3) by (metis list.set_map)
qed

section \<open>Runs of the drawer\<close>

text \<open>Answers come only to what was asked; timers fire only when they are set.\<close>

inductive drawer_step :: "drawerLoading \<Rightarrow> drawerLoading \<Rightarrow> bool" where
  d_primed: "PrimeList f \<in> set (dl_calls s) \<Longrightarrow> drawer_step s (primed env f s)"
| d_latest: "LatestList w f \<in> set (dl_calls s) \<Longrightarrow> drawer_step s (latestRead env w f r s)"
| d_fast: "FastList w f \<in> set (dl_calls s) \<Longrightarrow> drawer_step s (fastRead env w f r s)"
| d_full: "FullList w f \<in> set (dl_calls s) \<Longrightarrow> drawer_step s (fullRead env w f r s)"
| d_started: "StartStream i w f \<in> set (dl_calls s) \<Longrightarrow> drawer_step s (streamStarted env i w f s)"
| d_notStarted: "StartStream i w f \<in> set (dl_calls s) \<Longrightarrow> drawer_step s (streamNotStarted i w f s)"
| d_batch: "drawer_step s (streamBatch env i cs l e s)"
| d_streamFailed: "drawer_step s (streamFailed i s)"
| d_loadedIds: "LoadedIds cs l \<in> set (dl_calls s) \<Longrightarrow> drawer_step s (loadedIdsRead cs l ids s)"
| d_summaries: "Summaries ids cs l \<in> set (dl_calls s) \<Longrightarrow> drawer_step s (summariesRead env ids cs l r s)"
| d_deepPage: "AllChats f \<in> set (dl_calls s) \<Longrightarrow> drawer_step s (deepPage env cs s)"
| d_deepRead: "AllChats f \<in> set (dl_calls s) \<Longrightarrow> drawer_step s (deepRead env f d s)"
| d_deepTimer: "dl_deepScheduled s \<noteq> None \<Longrightarrow> drawer_step s (deepTimerFires env s)"
| d_retry: "drawer_step s (retryDeepChatList env s)"
| d_load: "drawer_step s (loadChats env w f s)"
| d_timer: "dl_scheduled s \<noteq> None \<Longrightarrow> drawer_step s (loadTimerFires env s)"
| d_active: "drawer_step s (activeChanged env b c s)"
| d_event: "drawer_step s (drawerEvent parse env event s)"
| d_status: "drawer_step s (drawerStatus env c s)"
| d_prune: "drawer_step s (pruneTimerFires env s)"
| d_refresh: "drawer_step s (refreshTimerFires env s)"

definition shown_ok :: "drawerLoading \<Rightarrow> bool" where
  "shown_ok s \<longleftrightarrow>
     distinct (map cs_id (dl_chatsRef s))
     \<and> list_all (\<lambda>c. \<not> isSubAgentChat c) (dl_chatsRef s) \<and> list_all2 same_row (dl_chats s) (dl_chatsRef s)
     \<and> (\<not> dl_hasHydratedOnce s \<longrightarrow> dl_chatsRef s = [])"

definition later :: "drawerLoading \<Rightarrow> drawerLoading \<Rightarrow> bool" where
  "later s t \<longleftrightarrow>
     (shown_ok s \<longrightarrow> shown_ok t \<and> cs_id ` set (dl_chatsRef s) \<subseteq> cs_id ` set (dl_chatsRef t))"

lemma later_refl [simp]: "later s s"
  by (simp add: later_def)

lemma later_trans: "later s t \<Longrightarrow> later t u \<Longrightarrow> later s u"
  by (auto simp: later_def)

lemma later_core:
  "dl_chats t = dl_chats u \<Longrightarrow> dl_chatsRef t = dl_chatsRef u \<Longrightarrow> dl_hasHydratedOnce t = dl_hasHydratedOnce u
     \<Longrightarrow> later s t = later s u"
  by (simp add: later_def shown_ok_def)

lemma later_fields [simp]:
  "later s (t\<lparr>dl_loading := x1\<rparr>) = later s t" "later s (t\<lparr>dl_loadingOlderChats := x1\<rparr>) = later s t"
  "later s (t\<lparr>dl_partialHistoryDiagnostics := x2\<rparr>) = later s t" "later s (t\<lparr>dl_refreshing := x1\<rparr>) = later s t"
  "later s (t\<lparr>dl_runIndicators := x3\<rparr>) = later s t" "later s (t\<lparr>dl_wsConnected := x1\<rparr>) = later s t"
  "later s (t\<lparr>dl_active := x1\<rparr>) = later s t" "later s (t\<lparr>dl_inFlight := x1\<rparr>) = later s t"
  "later s (t\<lparr>dl_loadActive := x1\<rparr>) = later s t" "later s (t\<lparr>dl_queued := x4\<rparr>) = later s t"
  "later s (t\<lparr>dl_scheduled := x5\<rparr>) = later s t" "later s (t\<lparr>dl_scheduledForce := x1\<rparr>) = later s t"
  "later s (t\<lparr>dl_deepScheduled := x5\<rparr>) = later s t" "later s (t\<lparr>dl_stream := x6\<rparr>) = later s t"
  "later s (t\<lparr>dl_streams := x7\<rparr>) = later s t" "later s (t\<lparr>dl_nextStream := x8\<rparr>) = later s t"
  "later s (t\<lparr>dl_deepInFlight := x1\<rparr>) = later s t" "later s (t\<lparr>dl_hasLoadedDeep := x1\<rparr>) = later s t"
  "later s (t\<lparr>dl_lastLoadedAt := x9\<rparr>) = later s t" "later s (t\<lparr>dl_canRetryDeep := x1\<rparr>) = later s t"
  "later s (t\<lparr>dl_calls := x10\<rparr>) = later s t" "later s (t\<lparr>dl_out := x11\<rparr>) = later s t"
  by (simp_all add: later_def shown_ok_def)

lemma same_row_refl: "list_all2 same_row cs cs"
  by (rule list_all2_refl) (simp add: same_row_def)

lemma next_chats_ok:
  assumes "shown_ok s"
  shows "distinct (map cs_id (next_chats env raw s))" "list_all (\<lambda>c. \<not> isSubAgentChat c) (next_chats env raw s)"
    "cs_id ` set (dl_chatsRef s) \<subseteq> cs_id ` set (next_chats env raw s)"
proof -
  define inc where "inc = sortChats (de_compare env) (dedupeChatsById (de_compare env) (filterDrawerChats raw))"
  have inc: "distinct (map cs_id inc)" "list_all (\<lambda>c. \<not> isSubAgentChat c) inc"
    using dedupe_chats [of "de_compare env" "filterDrawerChats raw"]
    by (auto simp: inc_def sortChats_def list_all_iff filterDrawerChats_def)
  have ok: "distinct (map cs_id (dl_chatsRef s))" "list_all (\<lambda>c. \<not> isSubAgentChat c) (dl_chatsRef s)"
    "\<not> dl_hasHydratedOnce s \<Longrightarrow> dl_chatsRef s = []"
    using assms by (simp_all add: shown_ok_def)
  have eq: "next_chats env raw s =
      (if dl_hasHydratedOnce s \<or> length (dl_chatsRef s) > length inc
       then mergeDrawerChatBatch (de_compare env) (dl_chatsRef s) inc else inc)"
    by (simp add: next_chats_def inc_def Let_def)
  have "distinct (map cs_id (mergeDrawerChatBatch (de_compare env) (dl_chatsRef s) inc))"
  proof -
    let ?m = "put_chats inc (put_chats (dl_chatsRef s) [])"
    have "own_keys ?m" by (intro fold_updates; simp add: own_keys_def)
    then have "distinct (map cs_id (map snd ?m))"
      unfolding own_keys_values(1) [OF \<open>own_keys ?m\<close>] by (simp add: own_keys_def)
    then show ?thesis using inc(1) by (auto simp: mergeDrawerChatBatch_def sortChats_def simp del: map_map)
  qed
  then show "distinct (map cs_id (next_chats env raw s))" using inc(1) by (simp add: eq)
  show "list_all (\<lambda>c. \<not> isSubAgentChat c) (next_chats env raw s)"
    using inc(2) ok(2) set_merge [of "de_compare env" "dl_chatsRef s" inc] by (auto simp: eq list_all_iff)
  show "cs_id ` set (dl_chatsRef s) \<subseteq> cs_id ` set (next_chats env raw s)"
    using ok(3) ids_merge [of "de_compare env" "dl_chatsRef s" inc] by (auto simp: eq)
qed

lemma later_apply: "later s t \<Longrightarrow> later s (applyChats env raw l t)"
proof (rule later_trans)
  show "later t (applyChats env raw l t)"
    using next_chats_ok [of t env raw]
    by (auto simp: later_def shown_ok_def applyChats_def Let_def areDrawerChatListsEquivalent_def same_row_refl)
qed

lemma later_whenActive: "(\<And>t. later s t \<Longrightarrow> later s (f t)) \<Longrightarrow> later s t \<Longrightarrow> later s (whenActive f t)"
  by (simp add: whenActive_def)

lemma later_small [simp]:
  "later s (call c t) = later s t" "later s (answered c t) = later s t" "later s (finishStream i t) = later s t"
  "later s (cancelChatListStream t) = later s t" "later s (drawerClosed t) = later s t"
  "later s (hydrateLoadedChats cs l t) = later s t" "later s (scheduleLoadChats env n b t) = later s t"
  "later s (startDeepLoad b t) = later s t"
  by (simp_all add: call_def answered_def finishStream_def cancelChatListStream_def drawerClosed_def
      hydrateLoadedChats_def scheduleLoadChats_def startDeepLoad_def)

lemma later_cachedDeep: "applyCachedDeepChats env t = Some u \<Longrightarrow> later s t \<Longrightarrow> later s u"
  by (auto simp: applyCachedDeepChats_def intro: later_apply split: option.splits)

lemma later_deep:
  "later s t \<Longrightarrow> later s (loadDeepChatsOnce env b t)" "later s t \<Longrightarrow> later s (scheduleDeepLoadChatsOnce env t)"
  by (auto simp: loadDeepChatsOnce_def scheduleDeepLoadChatsOnce_def whenActive_def dest: later_cachedDeep split: option.split)

lemma later_loadNow: "later s t \<Longrightarrow> later s (loadChatsNow env w f t)"
  by (auto simp: loadChatsNow_def applyCachedLists_def Let_def intro: later_apply dest: later_cachedDeep split: option.split)

lemma later_load: "later s t \<Longrightarrow> later s (loadChatsWith env a w f t)" "later s t \<Longrightarrow> later s (loadChats env w f t)"
  by (simp_all add: loadChatsWith_def loadChats_def Let_def later_loadNow)

lemma later_end: "later s t \<Longrightarrow> later s (endLoad env t)" "later s t \<Longrightarrow> later s (endShown env w t)"
  by (simp_all add: endLoad_def endShown_def Let_def later_load split: option.split)

lemmas later_intros = later_apply later_whenActive later_deep later_loadNow later_load later_end

lemma later_step: "drawer_step s t \<Longrightarrow> later s t"
proof (induction rule: drawer_step.induct)
  case (d_deepRead f s env d)
  then show ?case
    by (auto simp: deepRead_def Let_def whenActive_def intro!: later_intros split: option.split)
next
  case (d_active s env b c)
  then show ?case by (auto simp: activeChanged_def primeOrRefresh_def Let_def intro!: later_intros)
qed (auto simp: primed_def latestRead_def fastRead_def fullRead_def streamStarted_def streamNotStarted_def streamBatch_def
    streamFailed_def loadedIdsRead_def summariesRead_def deepPage_def deepTimerFires_def retryDeepChatList_def
    loadTimerFires_def drawerEvent_def drawerStatus_def pruneTimerFires_def refreshTimerFires_def Let_def whenActive_def
    intro!: later_intros split: option.split)

text \<open>C23: after any inputs in any order the drawer lists every chat once and no sub-agent, and a chat that was
  listed once stays listed as long as the drawer is mounted.\<close>

theorem drawer_keeps_every_chat:
  assumes "drawer_step\<^sup>*\<^sup>* (mountDrawer env active online) s" "drawer_step\<^sup>*\<^sup>* s t"
  shows "distinct (map cs_id (dl_chats t)) \<and> list_all (\<lambda>c. \<not> isSubAgentChat c) (dl_chats t)
    \<and> cs_id ` set (dl_chats s) \<subseteq> cs_id ` set (dl_chats t)"
proof -
  have steps: "drawer_step\<^sup>*\<^sup>* u v \<Longrightarrow> later u v" for u v
    by (induction rule: rtranclp_induct) (auto intro: later_trans later_step)
  have "shown_ok (newDrawer active online)" by (simp add: shown_ok_def newDrawer_def)
  moreover have "later (newDrawer active online) (mountDrawer env active online)"
    unfolding mountDrawer_def by (rule later_step, rule d_active)
  ultimately have s: "shown_ok s" using steps [OF assms(1)] by (simp add: later_def)
  then have t: "shown_ok t" "cs_id ` set (dl_chatsRef s) \<subseteq> cs_id ` set (dl_chatsRef t)"
    using steps [OF assms(2)] by (simp_all add: later_def)
  have ids: "map cs_id (dl_chats u) = map cs_id (dl_chatsRef u)" if "shown_ok u" for u
  proof -
    have "list_all2 same_row (dl_chats u) (dl_chatsRef u)" using that by (simp add: shown_ok_def)
    then show ?thesis by (induction rule: list_all2_induct) (auto simp: same_row_def)
  qed
  have "isSubAgentChat c = isSubAgentChat d" if "same_row c d" for c d
    using that by (simp add: same_row_def isSubAgentChat_def)
  then have "list_all (\<lambda>c. \<not> isSubAgentChat c) (dl_chats t)"
    using t(1) unfolding shown_ok_def list_all_length list_all2_conv_all_nth by metis
  moreover have "cs_id ` set (dl_chats s) \<subseteq> cs_id ` set (dl_chats t)"
    using t(2) ids [OF s] ids [OF t(1)] by (metis list.set_map)
  moreover have "distinct (map cs_id (dl_chats t))"
    using t(1) ids [OF t(1)] by (simp add: shown_ok_def)
  ultimately show ?thesis by blast
qed

definition drawer_env :: "int \<Rightarrow> drawerEnv" where
  "drawer_env now = \<lparr>de_now = now, de_compare = (\<lambda>_ _. 0), de_other = (\<lambda>_. None), de_peekAll = None,
     de_peekFull = None, de_peekFast = None\<rparr>"

definition drawer_chat :: "string \<Rightarrow> chatSummary" where
  "drawer_chat i = \<lparr>cs_id = i, cs_title = ''T'', cs_status = ChatIdle, cs_createdAt = [], cs_updatedAt = [], cs_statusUpdatedAt = [],
     cs_lastMessagePreview = [], cs_cwd = None, cs_agentId = None, cs_modelProvider = None, cs_agentNickname = None,
     cs_agentRole = None, cs_sourceKind = None, cs_parentThreadId = None, cs_subAgentDepth = None, cs_lastError = None\<rparr>"

theorem drawer_keeps_every_chat_witness:
  "let s = streamBatch (drawer_env 1) 0 [drawer_chat ''a''] 5 False (mountDrawer (drawer_env 0) True True);
       t = streamBatch (drawer_env 2) 0 [drawer_chat ''b''] 5 True s
   in distinct (map cs_id (dl_chats t)) \<and> cs_id ` set (dl_chats s) \<subseteq> cs_id ` set (dl_chats t)"
proof -
  define s where "s = streamBatch (drawer_env 1) 0 [drawer_chat ''a''] 5 False (mountDrawer (drawer_env 0) True True)"
  define t where "t = streamBatch (drawer_env 2) 0 [drawer_chat ''b''] 5 True s"
  have "drawer_step\<^sup>*\<^sup>* (mountDrawer (drawer_env 0) True True) s" "drawer_step\<^sup>*\<^sup>* s t"
    unfolding s_def t_def by (rule r_into_rtranclp, rule d_batch)+
  from drawer_keeps_every_chat [OF this] show ?thesis by (simp add: Let_def s_def t_def)
qed


section \<open>One load at a time\<close>

fun is_load :: "drawerCall \<Rightarrow> bool" where
  "is_load (LoadedIds _ _) = False"
| "is_load (Summaries _ _ _) = False"
| "is_load (AllChats _) = False"
| "is_load _ = True"

fun is_deep :: "drawerCall \<Rightarrow> bool" where
  "is_deep (AllChats _) = True"
| "is_deep _ = False"

definition loads :: "drawerLoading \<Rightarrow> nat" where "loads s = length (filter is_load (dl_calls s))"
definition deep_loads :: "drawerLoading \<Rightarrow> nat" where "deep_loads s = length (filter is_deep (dl_calls s))"

text \<open>\<open>b\<close> loads are under way and as many deep loads as the drawer knows of.\<close>

definition flight :: "bool \<Rightarrow> drawerLoading \<Rightarrow> bool" where
  "flight b s \<longleftrightarrow> loads s = of_bool b \<and> deep_loads s = of_bool (dl_deepInFlight s)"

lemma flight_fields [simp]:
  "flight b (t\<lparr>dl_loading := x1\<rparr>) = flight b t" "flight b (t\<lparr>dl_loadingOlderChats := x1\<rparr>) = flight b t"
  "flight b (t\<lparr>dl_partialHistoryDiagnostics := x2\<rparr>) = flight b t" "flight b (t\<lparr>dl_refreshing := x1\<rparr>) = flight b t"
  "flight b (t\<lparr>dl_runIndicators := x3\<rparr>) = flight b t" "flight b (t\<lparr>dl_wsConnected := x1\<rparr>) = flight b t"
  "flight b (t\<lparr>dl_active := x1\<rparr>) = flight b t" "flight b (t\<lparr>dl_inFlight := x1\<rparr>) = flight b t"
  "flight b (t\<lparr>dl_loadActive := x1\<rparr>) = flight b t" "flight b (t\<lparr>dl_queued := x4\<rparr>) = flight b t"
  "flight b (t\<lparr>dl_scheduled := x5\<rparr>) = flight b t" "flight b (t\<lparr>dl_scheduledForce := x1\<rparr>) = flight b t"
  "flight b (t\<lparr>dl_deepScheduled := x5\<rparr>) = flight b t" "flight b (t\<lparr>dl_stream := x6\<rparr>) = flight b t"
  "flight b (t\<lparr>dl_streams := x7\<rparr>) = flight b t" "flight b (t\<lparr>dl_nextStream := x8\<rparr>) = flight b t"
  "flight b (t\<lparr>dl_hasLoadedDeep := x1\<rparr>) = flight b t" "flight b (t\<lparr>dl_lastLoadedAt := x9\<rparr>) = flight b t"
  "flight b (t\<lparr>dl_canRetryDeep := x1\<rparr>) = flight b t" "flight b (t\<lparr>dl_out := x11\<rparr>) = flight b t"
  by (simp_all add: flight_def loads_def deep_loads_def)

lemma flight_same [simp]:
  "flight b (applyChats env cs l t) = flight b t" "flight b (finishStream i t) = flight b t"
  "flight b (cancelChatListStream t) = flight b t" "flight b (drawerClosed t) = flight b t"
  "flight b (hydrateLoadedChats cs l t) = flight b t" "flight b (scheduleLoadChats env n f t) = flight b t"
  "flight b (applyCachedLists env t) = flight b t"
  by (simp_all add: applyChats_def Let_def flight_def loads_def deep_loads_def call_def finishStream_def
      cancelChatListStream_def drawerClosed_def hydrateLoadedChats_def scheduleLoadChats_def applyCachedLists_def
      split: option.split)

lemma inFlight_same [simp]:
  "dl_inFlight (applyChats env cs l t) = dl_inFlight t" "dl_inFlight (finishStream i t) = dl_inFlight t"
  "dl_inFlight (cancelChatListStream t) = dl_inFlight t" "dl_inFlight (drawerClosed t) = dl_inFlight t"
  "dl_inFlight (hydrateLoadedChats cs l t) = dl_inFlight t" "dl_inFlight (scheduleLoadChats env n f t) = dl_inFlight t"
  "dl_inFlight (applyCachedLists env t) = dl_inFlight t" "dl_inFlight (call c t) = dl_inFlight t"
  "dl_inFlight (answered c t) = dl_inFlight t" "dl_inFlight (startDeepLoad f t) = dl_inFlight t"
  "dl_inFlight (whenActive (applyChats env cs l) t) = dl_inFlight t"
  by (simp_all add: applyChats_def Let_def call_def finishStream_def cancelChatListStream_def drawerClosed_def
      hydrateLoadedChats_def scheduleLoadChats_def applyCachedLists_def answered_def startDeepLoad_def whenActive_def
      split: option.split)

lemma cachedDeep_same: "applyCachedDeepChats env t = Some u \<Longrightarrow> flight b u = flight b t \<and> dl_inFlight u = dl_inFlight t"
  by (auto simp: applyCachedDeepChats_def split: option.splits)

lemma flight_load_call: "is_load c \<Longrightarrow> flight False t \<Longrightarrow> flight True (call c t)"
  by (cases c) (auto simp: flight_def loads_def deep_loads_def call_def)

lemma flight_other_call [simp]: "\<not> is_load c \<Longrightarrow> \<not> is_deep c \<Longrightarrow> flight b (call c t) = flight b t"
  by (simp add: flight_def loads_def deep_loads_def call_def)

lemma length_filter_remove1:
  "x \<in> set xs \<Longrightarrow> length (filter P (remove1 x xs)) = length (filter P xs) - of_bool (P x)"
  by (simp add: filter_remove1 length_remove1)

lemma flight_answered_load: "is_load c \<Longrightarrow> c \<in> set (dl_calls t) \<Longrightarrow> flight True t \<Longrightarrow> flight False (answered c t)"
  by (cases c) (auto simp: flight_def loads_def deep_loads_def answered_def length_filter_remove1)

lemma flight_answered_other: "\<not> is_load c \<Longrightarrow> \<not> is_deep c \<Longrightarrow> flight b (answered c t) = flight b t"
  by (cases "c \<in> set (dl_calls t)")
    (simp_all add: flight_def loads_def deep_loads_def answered_def length_filter_remove1 remove1_idem)

lemma counts:
  "loads (applyChats env cs l t) = loads t" "deep_loads (applyChats env cs l t) = deep_loads t"
  "loads (hydrateLoadedChats cs l t) = loads t" "deep_loads (hydrateLoadedChats cs l t) = deep_loads t"
  "loads (t\<lparr>dl_hasLoadedDeep := x1\<rparr>) = loads t" "deep_loads (t\<lparr>dl_hasLoadedDeep := x1\<rparr>) = deep_loads t"
  "loads (t\<lparr>dl_deepInFlight := x1\<rparr>) = loads t" "deep_loads (t\<lparr>dl_deepInFlight := x1\<rparr>) = deep_loads t"
  "loads (t\<lparr>dl_loadingOlderChats := x1\<rparr>) = loads t" "deep_loads (t\<lparr>dl_loadingOlderChats := x1\<rparr>) = deep_loads t"
  "loads (t\<lparr>dl_partialHistoryDiagnostics := x2\<rparr>) = loads t"
  "deep_loads (t\<lparr>dl_partialHistoryDiagnostics := x2\<rparr>) = deep_loads t"
  by (simp_all add: loads_def deep_loads_def applyChats_def Let_def hydrateLoadedChats_def call_def)

definition steady :: "drawerLoading \<Rightarrow> bool" where
  "steady s \<longleftrightarrow> flight (dl_inFlight s) s"

lemma steady_flight: "steady s \<Longrightarrow> dl_inFlight s = b \<Longrightarrow> flight b s"
  by (simp add: steady_def)

lemma steady_fields [simp]:
  "steady (t\<lparr>dl_loading := x1\<rparr>) = steady t" "steady (t\<lparr>dl_loadingOlderChats := x1\<rparr>) = steady t"
  "steady (t\<lparr>dl_refreshing := x1\<rparr>) = steady t" "steady (t\<lparr>dl_runIndicators := x3\<rparr>) = steady t"
  "steady (t\<lparr>dl_wsConnected := x1\<rparr>) = steady t" "steady (t\<lparr>dl_active := x1\<rparr>) = steady t"
  "steady (t\<lparr>dl_scheduled := x5\<rparr>) = steady t" "steady (t\<lparr>dl_scheduledForce := x1\<rparr>) = steady t"
  "steady (t\<lparr>dl_deepScheduled := x5\<rparr>) = steady t" "steady (t\<lparr>dl_hasLoadedDeep := x1\<rparr>) = steady t"
  "steady (applyChats env cs l t) = steady t" "steady (finishStream i t) = steady t"
  "steady (drawerClosed t) = steady t" "steady (hydrateLoadedChats cs l t) = steady t"
  "steady (scheduleLoadChats env n f t) = steady t"
  by (simp_all add: steady_def)

lemma steady_deep:
  assumes "steady t"
  shows "steady (loadDeepChatsOnce env b t)" "steady (scheduleDeepLoadChatsOnce env t)"
proof -
  have "steady (startDeepLoad b t)" if "\<not> dl_deepInFlight t" for b
    using assms that by (simp add: steady_def flight_def loads_def deep_loads_def startDeepLoad_def call_def)
  moreover have "steady u" if "applyCachedDeepChats env t = Some u" for u
    using cachedDeep_same [OF that] assms by (simp add: steady_def)
  ultimately show "steady (loadDeepChatsOnce env b t)" "steady (scheduleDeepLoadChatsOnce env t)"
    using assms by (simp_all add: loadDeepChatsOnce_def scheduleDeepLoadChatsOnce_def whenActive_def split: option.split)
qed

lemma steady_loadNow:
  assumes "flight False t" "dl_inFlight t"
  shows "steady (loadChatsNow env w f t)"
proof -
  define t' where "t' = t\<lparr>dl_refreshing := dl_refreshing t \<or> w, dl_canRetryDeep := True\<rparr>"
  have t': "flight False t'" "dl_inFlight t'" using assms by (simp_all add: t'_def)
  have "flight False u \<and> dl_inFlight u" if "applyCachedDeepChats env t' = Some u" for u
    using cachedDeep_same [OF that] t' by simp
  then show ?thesis
    using t' by (auto simp: loadChatsNow_def t'_def [symmetric] Let_def steady_def intro!: flight_load_call split: option.split)
qed

lemma steady_loadWith: "steady t \<Longrightarrow> steady (loadChatsWith env a w f t)"
  by (cases "dl_inFlight t") (auto simp: loadChatsWith_def Let_def steady_def intro!: steady_loadNow [unfolded steady_def])

lemma steady_load: "steady t \<Longrightarrow> steady (loadChats env w f t)"
  by (simp add: loadChats_def steady_loadWith)

lemma steady_end:
  assumes "flight False t"
  shows "steady (endLoad env t)" "steady (endShown env w t)"
proof -
  have "steady (endLoad env u)" if "flight False u" for u
    using that by (auto simp: endLoad_def Let_def intro!: steady_loadWith split: option.split) (auto simp: steady_def)
  then show "steady (endLoad env t)" "steady (endShown env w t)" using assms by (simp_all add: endShown_def)
qed

lemma load_answered:
  assumes "steady s" "is_load c" "c \<in> set (dl_calls s)"
  shows "flight False (answered c s)"
proof -
  have "loads s \<noteq> 0" using assms(2,3) by (force simp: loads_def filter_empty_conv)
  then have "flight True s" using assms(1) by (auto simp: steady_def flight_def)
  then show ?thesis using assms(2,3) by (intro flight_answered_load)
qed

lemma steady_step: "drawer_step s t \<Longrightarrow> steady s \<Longrightarrow> steady t"
proof (induction rule: drawer_step.induct)
  case (d_deepRead f s env d)
  have "deep_loads s \<noteq> 0" using d_deepRead(1) by (force simp: deep_loads_def filter_empty_conv)
  then have "deep_loads (answered (AllChats f) s) = 0" "loads (answered (AllChats f) s) = of_bool (dl_inFlight s)"
    using d_deepRead by (auto simp: steady_def flight_def loads_def deep_loads_def answered_def length_filter_remove1
        simp del: length_0_conv)
  then show ?case by (simp add: deepRead_def Let_def whenActive_def steady_def flight_def counts split: option.split)
next
  case (d_fast w f s env r)
  from load_answered [OF d_fast(2) _ d_fast(1)] have "flight False (answered (FastList w f) s)" by simp
  moreover have "loads s \<noteq> 0" using d_fast(1) by (force simp: loads_def filter_empty_conv)
  then have "dl_inFlight s" using d_fast(2) by (auto simp: steady_def flight_def)
  ultimately show ?case
    by (auto simp: fastRead_def Let_def whenActive_def intro!: steady_end split: option.split)
      (auto simp: steady_def intro!: flight_load_call)
next
  case (d_notStarted i w f s)
  from load_answered [OF d_notStarted(2) _ d_notStarted(1)] have "flight False (answered (StartStream i w f) s)" by simp
  moreover have "loads s \<noteq> 0" using d_notStarted(1) by (force simp: loads_def filter_empty_conv)
  then have "dl_inFlight s" using d_notStarted(2) by (auto simp: steady_def flight_def)
  ultimately show ?case by (auto simp: streamNotStarted_def steady_def intro!: flight_load_call)
next
  case (d_full w f s env r)
  from load_answered [OF d_full(2) _ d_full(1)] have no: "flight False (answered (FullList w f) s)" by simp
  have sched: "flight False (scheduleDeepLoadChatsOnce env u)" if "flight False u" for u
    using that cachedDeep_same by (auto simp: scheduleDeepLoadChatsOnce_def whenActive_def split: option.split)
  show ?case
    using no by (auto simp: fullRead_def Let_def whenActive_def intro!: steady_end sched split: option.split)
next
  case (d_primed f s env)
  from load_answered [OF d_primed(2) _ d_primed(1)] show ?case by (simp add: primed_def steady_end)
next
  case (d_latest w f s env r)
  from load_answered [OF d_latest(2) _ d_latest(1)] show ?case
    by (auto simp: latestRead_def Let_def whenActive_def intro!: steady_end split: option.split)
next
  case (d_started i w f s env)
  from load_answered [OF d_started(2) _ d_started(1)] show ?case
    by (auto simp: streamStarted_def Let_def intro!: steady_end)
next
  case (d_active s env b c)
  then show ?case by (auto simp: activeChanged_def primeOrRefresh_def Let_def intro!: steady_load)
next
  case (d_loadedIds cs l s ids)
  then show ?case
    by (auto simp: loadedIdsRead_def Let_def steady_def flight_answered_other split: option.split)
next
  case (d_summaries ids cs l s env r)
  then show ?case
    by (auto simp: summariesRead_def Let_def steady_def flight_answered_other split: option.split)
qed (auto simp: streamBatch_def streamFailed_def deepPage_def deepTimerFires_def retryDeepChatList_def
    loadTimerFires_def drawerEvent_def drawerStatus_def pruneTimerFires_def refreshTimerFires_def Let_def whenActive_def
    intro!: steady_deep steady_load)

text \<open>C22: after any inputs in any order at most one load and at most one deep load of the drawer are under way,
  exactly when the drawer takes them to be.\<close>

theorem drawer_loads_one_at_a_time:
  assumes "drawer_step\<^sup>*\<^sup>* (mountDrawer env active online) s"
  shows "loads s = of_bool (dl_inFlight s) \<and> deep_loads s = of_bool (dl_deepInFlight s)"
proof -
  have "steady (newDrawer active online)"
    by (simp add: steady_def flight_def loads_def deep_loads_def newDrawer_def)
  then have "steady (mountDrawer env active online)"
    unfolding mountDrawer_def by (rule steady_step [OF d_active])
  with assms have "steady s" by (induction rule: rtranclp_induct) (auto intro: steady_step)
  then show ?thesis by (simp add: steady_def flight_def)
qed

theorem drawer_loads_one_at_a_time_witness:
  "loads (loadChats (drawer_env 1) True True (mountDrawer (drawer_env 0) True True)) = 1"
proof -
  let ?s = "loadChats (drawer_env 1) True True (mountDrawer (drawer_env 0) True True)"
  have "drawer_step\<^sup>*\<^sup>* (mountDrawer (drawer_env 0) True True) ?s" by (rule r_into_rtranclp, rule d_load)
  moreover have "dl_inFlight ?s" by code_simp
  ultimately show ?thesis
    using drawer_loads_one_at_a_time [of "drawer_env 0" True True ?s] by simp
qed

section \<open>Limits\<close>

text \<open>
  A stream whose start is answered while the drawer is closed is never taken off, since its batches are
  ignored then: after the drawer is opened again every load but a pull to refresh does nothing.
\<close>

theorem closed_drawer_keeps_dead_stream:
  assumes "de_peekAll e1 = None"
  shows "let started = streamStarted e3 0 False (DRAWER_OPEN_STALE_REFRESH_MS < de_now e1)
          (activeChanged e2 False c2 (mountDrawer e1 True c1));
        reopened = activeChanged e5 True c5 (streamBatch e4 0 chats limit True started)
      in dl_stream reopened = Some 0 \<and> dl_calls reopened = [] \<and> loadChats e6 False force reopened = reopened"
proof -
  define cached where "cached = applyCachedLists e1 ((newDrawer True c1)\<lparr>dl_wsConnected := c1, dl_inFlight := True,
     dl_loadActive := True, dl_canRetryDeep := True\<rparr>)"
  have c: "dl_calls cached = []" "dl_nextStream cached = 0" "dl_streams cached = []" "dl_active cached"
    "dl_inFlight cached" "dl_queued cached = None" "dl_stream cached = None"
    by (simp_all add: cached_def applyCachedLists_def applyChats_def Let_def newDrawer_def split: option.split)
  define opened where "opened = mountDrawer e1 True c1"
  have o: "dl_calls opened = [StartStream 0 False (DRAWER_OPEN_STALE_REFRESH_MS < de_now e1)]"
    "dl_streams opened = [(0, \<lparr>ds_showRefresh = False, ds_finished = False\<rparr>)]" "dl_inFlight opened" "dl_stream opened = None"
    using c assms
    by (simp_all add: opened_def mountDrawer_def activeChanged_def primeOrRefresh_def loadChats_def loadChatsWith_def
        loadChatsNow_def applyCachedDeepChats_def cancelChatListStream_def call_def Let_def newDrawer_def cached_def)
  define closed' where "closed' = activeChanged e2 False c2 opened"
  have k: "dl_calls closed' = dl_calls opened" "dl_streams closed' = dl_streams opened" "dl_queued closed' = None"
    "dl_stream closed' = None" "\<not> dl_active closed'"
    using o(3,4) by (simp_all add: closed'_def activeChanged_def primeOrRefresh_def loadChats_def loadChatsWith_def
        drawerClosed_def cancelChatListStream_def Let_def)
  define started where "started = streamStarted e3 0 False (DRAWER_OPEN_STALE_REFRESH_MS < de_now e1) closed'"
  have s: "dl_stream started = Some 0" "dl_calls started = []" "\<not> dl_active started"
    using k o by (simp_all add: started_def streamStarted_def answered_def finished_stream_def endLoad_def Let_def)
  have "streamBatch e4 0 chats limit True started = started" using s by (simp add: streamBatch_def)
  moreover have "dl_stream (activeChanged e5 True c5 started) = Some 0" "dl_calls (activeChanged e5 True c5 started) = []"
    using s by (simp_all add: activeChanged_def primeOrRefresh_def loadChats_def loadChatsWith_def Let_def)
  ultimately show ?thesis
    by (simp add: Let_def opened_def [symmetric] closed'_def [symmetric] started_def [symmetric] loadChats_def loadChatsWith_def)
qed

theorem closed_drawer_keeps_dead_stream_witness:
  "dl_stream (activeChanged (drawer_env 5) True True (streamBatch (drawer_env 4) 0 [] 5 True
     (streamStarted (drawer_env 3) 0 False False (activeChanged (drawer_env 2) False True
       (mountDrawer (drawer_env 1) True True))))) = Some 0"
proof -
  have "de_peekAll (drawer_env 1) = None" "\<not> DRAWER_OPEN_STALE_REFRESH_MS < de_now (drawer_env 1)"
    by (simp_all add: drawer_env_def DRAWER_OPEN_STALE_REFRESH_MS_def)
  then show ?thesis
    using closed_drawer_keeps_dead_stream [of "drawer_env 1" "drawer_env 3" "drawer_env 2" True True "drawer_env 5" True
        "drawer_env 4" "[]" 5] by (simp add: Let_def)
qed

section \<open>Marks of running chats\<close>

datatype indicatorInput =
    IndicatorEvent rpcNotification int
  | IndicatorPrune int
  | IndicatorChats "chatSummary list" int

fun indicator_input ::
  "(jsv \<Rightarrow> (agUiEvent \<times> int option) option) \<Rightarrow> (string \<Rightarrow> int option) \<Rightarrow> indicatorInput
     \<Rightarrow> drawerRunIndicatorMap \<Rightarrow> drawerRunIndicatorMap" where
  "indicator_input parse other (IndicatorEvent e now) m = updateDrawerRunIndicatorsForEvent parse now e m"
| "indicator_input parse other (IndicatorPrune now) m = pruneStaleDrawerRunIndicators now m"
| "indicator_input parse other (IndicatorChats chats now) m = reconcileDrawerRunIndicatorsWithChats other now chats m"

text \<open>What takes the mark of a thread away that was set at \<open>u\<close>: its end, time, or a newer chat that is not running\<close>

definition ends_run :: "(jsv \<Rightarrow> (agUiEvent \<times> int option) option) \<Rightarrow> string \<Rightarrow> rpcNotification \<Rightarrow> bool" where
  "ends_run parse i e \<longleftrightarrow>
     (case parseAgUiEventNotification parse e of
        Some a \<Rightarrow> en_threadId a = i \<and> (case en_event a of RUN_FINISHED _ _ \<Rightarrow> True | RUN_ERROR _ _ \<Rightarrow> True | _ \<Rightarrow> False)
      | None \<Rightarrow>
          extractDrawerNotificationThreadId (toRecord (rn_params e)) None = Some i \<and> rn_method e = ''thread/status/changed''
          \<and> (case extractDrawerStatusHint (toRecord (rn_params e)) of
               Some h \<Rightarrow> h \<in> set DRAWER_NON_RUNNING_STATUS_HINTS | None \<Rightarrow> False))"

fun leaves_mark ::
  "(jsv \<Rightarrow> (agUiEvent \<times> int option) option) \<Rightarrow> (string \<Rightarrow> int option) \<Rightarrow> string \<Rightarrow> int \<Rightarrow> indicatorInput \<Rightarrow> bool" where
  "leaves_mark parse other i u (IndicatorEvent e now) \<longleftrightarrow> \<not> ends_run parse i e"
| "leaves_mark parse other i u (IndicatorPrune now) \<longleftrightarrow> now - u < RUN_LIFECYCLE_SAFETY_STALE_MS"
| "leaves_mark parse other i u (IndicatorChats chats now) \<longleftrightarrow>
     now - u < RUN_LIFECYCLE_SAFETY_STALE_MS
     \<and> (\<forall>c \<in> set chats. cs_id c = i \<longrightarrow> cs_status c = ChatRunning
          \<or> (case statusAt other c of Some t \<Rightarrow> t + CHAT_STATUS_EVENT_SKEW_MS < u | None \<Rightarrow> True))"

definition marked :: "string \<Rightarrow> int \<Rightarrow> drawerRunIndicatorMap \<Rightarrow> bool" where
  "marked i u m \<longleftrightarrow> (\<exists>u' \<ge> u. map_of m i = Some \<lparr>di_source = Lifecycle, di_updatedAt = u'\<rparr>)"

lemma marked_set: "marked i u m \<Longrightarrow> marked i u (setRunningIndicator k source now m)"
  by (auto simp: marked_def setRunningIndicator_def Let_def split: option.split)

lemma marked_clear: "marked i u m \<Longrightarrow> k \<noteq> i \<Longrightarrow> marked i u (clearRunningIndicator k m)"
  by (auto simp: marked_def clearRunningIndicator_def delete_conv')

lemma map_of_filter_first: "map_of m i = Some v \<Longrightarrow> P (i, v) \<Longrightarrow> map_of (filter P m) i = Some v"
  by (induction m) (auto split: if_splits)

lemma marked_prune:
  assumes "marked i u m" "now - u < RUN_LIFECYCLE_SAFETY_STALE_MS"
  shows "marked i u (pruneStaleDrawerRunIndicators now m)"
proof -
  obtain u' where u': "u' \<ge> u" "map_of m i = Some \<lparr>di_source = Lifecycle, di_updatedAt = u'\<rparr>"
    using assms(1) by (auto simp: marked_def)
  then have "map_of (pruneStaleDrawerRunIndicators now m) i = Some \<lparr>di_source = Lifecycle, di_updatedAt = u'\<rparr>"
    unfolding pruneStaleDrawerRunIndicators_def
    using assms(2) by (intro map_of_filter_first) (simp_all add: isDrawerRunIndicatorActive_def)
  then show ?thesis using u'(1) by (auto simp: marked_def)
qed

lemma marked_chat:
  assumes "marked i u m" "cs_id c = i \<longrightarrow> cs_status c = ChatRunning
    \<or> (case statusAt other c of Some t \<Rightarrow> t + CHAT_STATUS_EVENT_SKEW_MS < u | None \<Rightarrow> True)"
  shows "marked i u (reconcileChat other now c m)"
proof (cases "cs_id c = i")
  case True
  show ?thesis
  proof (cases "cs_status c = ChatRunning")
    case True
    then show ?thesis using assms(1) by (simp add: reconcileChat_def marked_set)
  next
    case False
    obtain u' where u': "u' \<ge> u" "map_of m i = Some \<lparr>di_source = Lifecycle, di_updatedAt = u'\<rparr>"
      using assms(1) by (auto simp: marked_def)
    then have "\<not> shouldChatSnapshotClearIndicator other c \<lparr>di_source = Lifecycle, di_updatedAt = u'\<rparr>"
      using assms(2) False \<open>cs_id c = i\<close> by (auto simp: shouldChatSnapshotClearIndicator_def split: option.splits)
    then show ?thesis using False u'(2) assms(1) \<open>cs_id c = i\<close> by (simp add: reconcileChat_def)
  qed
next
  case False
  then show ?thesis
    using assms(1) by (auto simp: reconcileChat_def marked_set marked_clear split: option.split)
qed

lemma hints_disjoint: "h \<in> set DRAWER_RUNNING_STATUS_HINTS \<Longrightarrow> h \<notin> set DRAWER_NON_RUNNING_STATUS_HINTS"
  by (auto simp: DRAWER_RUNNING_STATUS_HINTS_def DRAWER_NON_RUNNING_STATUS_HINTS_def)

lemma marked_event:
  assumes "marked i u m" "\<not> ends_run parse i e"
  shows "marked i u (updateDrawerRunIndicatorsForEvent parse now e m)"
proof (cases "parseAgUiEventNotification parse e")
  case (Some a)
  then show ?thesis
    using assms by (cases "en_event a")
      (auto simp: updateDrawerRunIndicatorsForEvent_def ends_run_def marked_set intro: marked_clear)
next
  case None
  then show ?thesis
    using assms
    by (auto simp: updateDrawerRunIndicatorsForEvent_def ends_run_def Let_def marked_set intro: marked_clear split: option.splits)
qed

lemma marked_input: "marked i u m \<Longrightarrow> leaves_mark parse other i u x \<Longrightarrow> marked i u (indicator_input parse other x m)"
proof (cases x)
  case (IndicatorChats chats now)
  assume m: "marked i u m" "leaves_mark parse other i u x"
  have "marked i u (fold (reconcileChat other now) cs n)"
    if "marked i u n" "\<forall>c \<in> set cs. cs_id c = i \<longrightarrow> cs_status c = ChatRunning
      \<or> (case statusAt other c of Some t \<Rightarrow> t + CHAT_STATUS_EVENT_SKEW_MS < u | None \<Rightarrow> True)" for cs n
    using that by (induction cs arbitrary: n) (auto intro: marked_chat)
  then show ?thesis
    using m IndicatorChats by (simp add: reconcileDrawerRunIndicatorsWithChats_def marked_prune)
qed (auto intro: marked_event marked_prune)


definition run_event :: rpcNotification where
  "run_event = \<lparr>rn_method = ''bridge/agui.event'',
     rn_params = JObj [(''threadId'', JStr ''a''), (''runId'', JStr ''r''), (''event'', JNull)],
     rn_protocolVersion = None, rn_streamId = None, rn_eventId = None\<rparr>"

definition only_start :: "jsv \<Rightarrow> (agUiEvent \<times> int option) option" where
  "only_start _ = Some (RUN_STARTED ''a'' ''r'', None)"


end
