(* ===== verification/AgentThreads.thy ===== *)
theory AgentThreads
  imports ScreenState "HOL-Library.Word"
begin

text \<open>
  The threads of sub-agents: which belong together and in which order (\<open>screens/agentThreads.ts\<close>,
  \<open>controllers/agentThreadsController.ts\<close>), and how one is shown (\<open>screens/agentThreadDisplay.ts\<close>).
\<close>

section \<open>The thread a thread comes from\<close>

text \<open>\<open>new Map\<close> of chats: the last chat of an id in the place of the first\<close>

definition chatMap :: "chatSummary list \<Rightarrow> (string \<times> chatSummary) list" where
  "chatMap chats = fold (\<lambda>c. AList.update (cs_id c) c) chats []"

text \<open>\<open>current?.parentThreadId?.trim()\<close>, when it is not empty\<close>

definition parent_of :: "(string \<times> chatSummary) list \<Rightarrow> string \<Rightarrow> string option" where
  "parent_of m currentId =
     Option.bind (map_of m currentId) (\<lambda>c. non_empty (map_option trim (cs_parentThreadId c)))"

text \<open>The loop ends at a thread that was seen, so parents that form a cycle do no harm.\<close>

function root_after :: "(string \<times> chatSummary) list \<Rightarrow> string set \<Rightarrow> string \<Rightarrow> string" where
  "root_after m seen currentId =
     (if currentId \<in> seen then currentId
      else case parent_of m currentId of
        None \<Rightarrow> currentId
      | Some parentThreadId \<Rightarrow>
          if map_of m parentThreadId = None then parentThreadId
          else root_after m (insert currentId seen) parentThreadId)"
  by pat_completeness auto

termination
proof (relation "measure (\<lambda>(m, seen, _). card (fst ` set m - seen))")
  fix m :: "(string \<times> chatSummary) list" and seen currentId parentThreadId
  assume new: "currentId \<notin> seen" and up: "parent_of m currentId = Some parentThreadId"
  then have "currentId \<in> fst ` set m"
    by (auto simp: parent_of_def bind_eq_Some_conv dest: map_of_SomeD intro: rev_image_eqI)
  then have "card (fst ` set m - insert currentId seen) < card (fst ` set m - seen)"
    using new by (intro psubset_card_mono) auto
  then show "((m, insert currentId seen, parentThreadId), (m, seen, currentId))
      \<in> measure (\<lambda>(m, seen, _). card (fst ` set m - seen))"
    by simp
qed simp

declare root_after.simps [simp del]

definition resolveRootThreadId :: "string \<Rightarrow> (string \<times> chatSummary) list \<Rightarrow> string" where
  "resolveRootThreadId threadId m = root_after m {} threadId"

text \<open>The root first, then those that run, by depth, the newest first\<close>

definition compareAgentThreads ::
  "(string \<Rightarrow> string \<Rightarrow> int) \<Rightarrow> string \<Rightarrow> chatSummary \<Rightarrow> chatSummary \<Rightarrow> int" where
  "compareAgentThreads compare rootThreadId l r =
     (let running = (\<lambda>c. cs_status c = ChatRunning); depth = (\<lambda>c. with_default (cs_subAgentDepth c) 0) in
      if cs_id l = rootThreadId \<and> cs_id r \<noteq> rootThreadId then - 1
      else if cs_id r = rootThreadId \<and> cs_id l \<noteq> rootThreadId then 1
      else if running l \<and> \<not> running r then - 1
      else if running r \<and> \<not> running l then 1
      else if depth l \<noteq> depth r then (if depth l < depth r then - 1 else 1)
      else compare (cs_updatedAt r) (cs_updatedAt l))"

record relatedAgentThreads =
  rg_rootThreadId :: "string option"
  rg_threads :: "chatSummary list"

definition collectRelatedAgentThreads ::
  "(string \<Rightarrow> string \<Rightarrow> int) \<Rightarrow> chatSummary list \<Rightarrow> chatSummary option \<Rightarrow> relatedAgentThreads" where
  "collectRelatedAgentThreads compare chats focusChat =
     (case focusChat of
        None \<Rightarrow> \<lparr>rg_rootThreadId = None, rg_threads = []\<rparr>
      | Some focus \<Rightarrow>
          let known = chatMap chats;
              m = (if map_of known (cs_id focus) = None then AList.update (cs_id focus) focus known else known);
              root = resolveRootThreadId (cs_id focus) m
          in \<lparr>rg_rootThreadId = Some root,
              rg_threads = sort_by (compareAgentThreads compare root)
                (filter (\<lambda>c. resolveRootThreadId (cs_id c) m = root) (map snd m))\<rparr>)"

text \<open>\<open>loadRelated\<close> after its requests: what was listed, what is loaded only, and the chat it falls back to\<close>

definition missingIds :: "chatSummary list \<Rightarrow> string list \<Rightarrow> string list" where
  "missingIds listed loadedIds = filter (\<lambda>i. i \<notin> cs_id ` set listed) loadedIds"

definition loadRelated ::
  "(string \<Rightarrow> string \<Rightarrow> int) \<Rightarrow> string \<Rightarrow> chatSummary option \<Rightarrow> chatSummary list \<Rightarrow> chatSummary list
     \<Rightarrow> relatedAgentThreads" where
  "loadRelated compare focusChatId fallback listed loadedOnly =
     (let chats = listed @ loadedOnly in
      collectRelatedAgentThreads compare chats (or_else (find (\<lambda>c. cs_id c = focusChatId) chats) fallback))"

section \<open>Finding and describing a thread\<close>

definition findMatchingAgentThread :: "chatSummary list \<Rightarrow> string \<Rightarrow> chatSummary option" where
  "findMatchingAgentThread threads query =
     (let normalized = lower (trim query); low = (\<lambda>v. lower (trim v));
          mentions = (\<lambda>v. has_substring v normalized) in
      if normalized = [] then None
      else or_else (find (\<lambda>c. lower (cs_id c) = normalized \<or> low (cs_title c) = normalized) threads)
        (find (\<lambda>c. mentions (lower (cs_id c)) \<or> mentions (low (with_default (cs_agentNickname c) []))
           \<or> mentions (low (with_default (cs_agentRole c) [])) \<or> mentions (low (cs_title c))
           \<or> mentions (low (cs_lastMessagePreview c))) threads))"

definition describeAgentThreadSource :: "chatSummary \<Rightarrow> string option \<Rightarrow> string" where
  "describeAgentThreadSource chat rootThreadId =
     (if non_empty rootThreadId = Some (cs_id chat) then ''Main thread''
      else let kind = cs_sourceKind chat in
        if kind = Some ''subAgentReview'' then ''Review agent''
        else if kind = Some ''subAgentCompact'' then ''Compaction agent''
        else if kind = Some ''subAgentThreadSpawn'' \<or> kind = Some ''subAgent'' then ''Spawned sub-agent''
        else if kind = Some ''subAgentOther'' then ''Sub-agent''
        else ''Agent thread'')"

record liveAgentPanelThread =
  lp_id :: string
  lp_isRootThread :: bool
  lp_isActive :: bool

definition collectLiveAgentPanelThreadIds :: "liveAgentPanelThread list \<Rightarrow> string list" where
  "collectLiveAgentPanelThreadIds threads =
     (if list_ex (\<lambda>t. \<not> lp_isRootThread t \<and> lp_isActive t) threads
      then map lp_id (filter (\<lambda>t. lp_isRootThread t \<or> lp_isActive t) threads) else [])"

text \<open>\<open>a?.trim() || b?.trim() || ...\<close>\<close>

definition resolveAgentActivitySummary ::
  "string option \<Rightarrow> string option \<Rightarrow> string option \<Rightarrow> string option \<Rightarrow> string \<Rightarrow> string" where
  "resolveAgentActivitySummary runtimeDetail latestCommandDetail role preview sourceDescription =
     with_default
       (first_some (map (\<lambda>v. non_empty (map_option trim v)) [runtimeDetail, latestCommandDetail, role, preview]))
       sourceDescription"

section \<open>How a thread is shown\<close>

text \<open>The UTF-16 code units of a text\<close>

fun byte_at :: "string \<Rightarrow> nat \<Rightarrow> nat" where
  "byte_at s i = (if i < length s then of_char (s ! i) mod 64 else 0)"

definition pair_units :: "nat \<Rightarrow> nat list" where
  "pair_units cp = [0xD800 + (cp - 0x10000) div 0x400, 0xDC00 + (cp - 0x10000) mod 0x400]"

fun code_units :: "string \<Rightarrow> nat list" where
  "code_units [] = []"
| "code_units (c # s) =
     (let b = of_char c :: nat in
      if b < 0x80 then b # code_units s
      else if b < 0xE0 then ((b mod 32) * 64 + byte_at s 0) # code_units (drop 1 s)
      else if b < 0xF0 then ((b mod 16) * 4096 + byte_at s 0 * 64 + byte_at s 1) # code_units (drop 2 s)
      else pair_units ((b mod 8) * 262144 + byte_at s 0 * 4096 + byte_at s 1 * 64 + byte_at s 2) @ code_units (drop 3 s))"

definition AGENT_ACCENT_PALETTE :: "string list" where
  "AGENT_ACCENT_PALETTE = [''#F5A524'', ''#4CC9F0'', ''#7ED957'', ''#FF8A65'', ''#F472B6'', ''#8BD3DD'']"

text \<open>\<open>hash * 33 + code\<close> is below $2^{53}$, so the unsigned shift keeps its last 32 bits.\<close>

definition accent_hash :: "string \<Rightarrow> 32 word" where
  "accent_hash threadId = foldl (\<lambda>hash code. hash * 33 + of_nat code) 0 (code_units threadId)"

definition getAgentThreadAccentColor :: "string \<Rightarrow> string" where
  "getAgentThreadAccentColor threadId =
     AGENT_ACCENT_PALETTE ! (unat (accent_hash threadId) mod length AGENT_ACCENT_PALETTE)"

record agentThreadDisplayState =
  ad_icon :: string
  ad_label :: string
  ad_detail :: "string option"
  ad_tone :: activityTone
  ad_accentColor :: string
  ad_statusColor :: string
  ad_statusSurfaceColor :: string
  ad_statusBorderColor :: string
  ad_isActive :: bool

definition normalizeValue :: "string option \<Rightarrow> string option" where
  "normalizeValue value = non_empty (map_option trim value)"

definition normalizeRunningLabel :: "string option \<Rightarrow> string" where
  "normalizeRunningLabel activityTitle =
     (let normalized = non_empty (map_option (\<lambda>t. lower (trim t)) activityTitle) in
      if normalized \<in> {None, Some ''turn started'', Some ''ready'', Some ''working''} then ''Working''
      else if normalized = Some ''reasoning'' then ''Reasoning''
      else if normalized = Some ''planning'' then ''Planning''
      else with_default activityTitle ''Working'')"

text \<open>A title that says no more than the label is left out.\<close>

definition title_unless :: "string list \<Rightarrow> string option \<Rightarrow> string option" where
  "title_unless plain activityTitle =
     (case non_empty activityTitle of
        Some t \<Rightarrow> if lower (trim t) \<in> set plain then None else Some t
      | None \<Rightarrow> None)"

definition normalizeRunningDetail :: "string option \<Rightarrow> string option" where
  "normalizeRunningDetail = title_unless [''working'', ''reasoning'', ''planning'', ''turn started'', ''ready'']"

definition normalizeCompleteActivityTitle :: "string option \<Rightarrow> string option" where
  "normalizeCompleteActivityTitle = title_unless [''turn completed'', ''ready'']"

definition normalizeErrorActivityTitle :: "string option \<Rightarrow> string option" where
  "normalizeErrorActivityTitle = title_unless [''turn failed'', ''turn interrupted'', ''error'']"

definition runningIconForLabel :: "string \<Rightarrow> string" where
  "runningIconForLabel label =
     (let normalized = lower (trim label) in
      if normalized = ''planning'' then ''map-outline''
      else if normalized = ''reasoning'' then ''sparkles-outline''
      else ''sync-outline'')"

text \<open>\<open>colors\<close> has the two colours of the theme, for errors and for what is idle.\<close>

definition resolveAgentRuntimeStatus ::
  "string \<times> string \<Rightarrow> chatSummary \<Rightarrow> threadRuntimeSnapshot option \<Rightarrow> int \<Rightarrow> string \<Rightarrow> agentThreadDisplayState" where
  "resolveAgentRuntimeStatus colors chat snapshot nowMs accent =
     (let activity = Option.bind snapshot rt_activity;
          tone = map_option at_tone activity;
          activityTitle = normalizeValue (map_option at_title activity);
          activityDetail = normalizeValue (Option.bind activity at_detail);
          hasActiveTurn = (non_empty (Option.bind snapshot (\<lambda>p. with_default (rt_activeTurnId p) None)) \<noteq> None);
          watchdogActive = (case Option.bind snapshot rt_runWatchdogUntil of Some t \<Rightarrow> t > nowMs | None \<Rightarrow> False);
          hasActiveCommands = (with_default (Option.bind snapshot rt_activeCommands) [] \<noteq> []);
          needsApproval = (Option.bind snapshot (\<lambda>p. with_default (rt_pendingApproval p) None) \<noteq> None);
          needsInput = (Option.bind snapshot (\<lambda>p. with_default (rt_pendingUserInput p) None) \<noteq> None);
          shown = (\<lambda>icon label detail tone color surface border active.
            \<lparr>ad_icon = icon, ad_label = label, ad_detail = detail, ad_tone = tone, ad_accentColor = accent,
             ad_statusColor = color, ad_statusSurfaceColor = surface, ad_statusBorderColor = border, ad_isActive = active\<rparr>);
          waiting = or_else activityDetail (normalizeRunningDetail activityTitle)
      in if cs_status chat = ChatProjection.ChatFailed \<or> tone = Some ToneError
         then shown ''alert-circle-outline'' ''Error''
           (first_some [activityDetail, normalizeErrorActivityTitle activityTitle, normalizeValue (cs_lastError chat)])
           ToneError (fst colors) ''rgba(239, 68, 68, 0.16)'' ''rgba(239, 68, 68, 0.42)'' False
         else if needsApproval
         then shown ''hand-left-outline'' ''Needs approval'' waiting ToneRunning ''#F5A524''
           ''rgba(245, 165, 36, 0.16)'' ''rgba(245, 165, 36, 0.4)'' True
         else if needsInput
         then shown ''help-circle-outline'' ''Needs input'' waiting ToneRunning ''#F5A524''
           ''rgba(245, 165, 36, 0.16)'' ''rgba(245, 165, 36, 0.4)'' True
         else if tone = Some ToneRunning \<or> cs_status chat = ChatRunning \<or> hasActiveTurn \<or> watchdogActive
           \<or> hasActiveCommands
         then (let label = normalizeRunningLabel activityTitle in
           shown (runningIconForLabel label) label activityDetail ToneRunning ''#7EE787''
             ''rgba(126, 231, 135, 0.14)'' ''rgba(126, 231, 135, 0.34)'' True)
         else if cs_status chat = ChatComplete \<or> tone = Some ToneComplete
         then shown ''checkmark-circle-outline'' ''Complete''
           (or_else activityDetail (normalizeCompleteActivityTitle activityTitle)) ToneComplete ''#93C5FD''
           ''rgba(147, 197, 253, 0.15)'' ''rgba(147, 197, 253, 0.34)'' False
         else shown ''ellipse-outline'' ''Idle'' None ToneIdle (snd colors)
           ''rgba(180, 188, 203, 0.12)'' ''rgba(180, 188, 203, 0.24)'' False)"

definition buildAgentThreadDisplayState ::
  "string \<times> string \<Rightarrow> chatSummary \<Rightarrow> threadRuntimeSnapshot option \<Rightarrow> int \<Rightarrow> agentThreadDisplayState" where
  "buildAgentThreadDisplayState colors chat snapshot nowMs =
     resolveAgentRuntimeStatus colors chat snapshot nowMs (getAgentThreadAccentColor (cs_id chat))"

end
