(* ===== verification/AgentThreadsLaws.thy ===== *)
theory AgentThreadsLaws
  imports AgentThreads
begin

text \<open>
  The threads related to a thread are those that have its root, each once and the root first; the root is
  found by going up the parents and is an end of them, or the parents form a cycle through it.
\<close>

section \<open>The root\<close>

definition parent :: "(string \<times> chatSummary) list \<Rightarrow> string \<Rightarrow> string \<Rightarrow> bool" where
  "parent m i p \<longleftrightarrow> parent_of m i = Some p"

lemma root_cases:
  "i \<in> seen \<Longrightarrow> root_after m seen i = i"
  "parent_of m i = None \<Longrightarrow> root_after m seen i = i"
  "i \<notin> seen \<Longrightarrow> parent_of m i = Some p \<Longrightarrow> map_of m p = None \<Longrightarrow> root_after m seen i = p"
  "i \<notin> seen \<Longrightarrow> parent_of m i = Some p \<Longrightarrow> map_of m p = Some c
     \<Longrightarrow> root_after m seen i = root_after m (insert i seen) p"
  by (simp_all add: root_after.simps [of m seen i])

lemma root_after_ancestor:
  "(\<forall>j \<in> seen. (parent m)\<^sup>+\<^sup>+ j i) \<Longrightarrow>
     (parent m)\<^sup>*\<^sup>* i (root_after m seen i)
     \<and> (parent_of m (root_after m seen i) = None \<or> (parent m)\<^sup>+\<^sup>+ (root_after m seen i) (root_after m seen i))"
proof (induction m seen i rule: root_after.induct)
  case (1 m seen i)
  show ?case
  proof (cases "i \<in> seen")
    case True
    then show ?thesis using 1(2) by (simp add: root_cases)
  next
    case new: False
    show ?thesis
    proof (cases "parent_of m i")
      case None
      then show ?thesis using new by (simp add: root_cases)
    next
      case (Some p)
      then have ip: "parent m i p" by (simp add: parent_def)
      show ?thesis
      proof (cases "map_of m p = None")
        case True
        then have "parent_of m p = None" by (simp add: parent_of_def)
        then show ?thesis using ip new Some True by (simp add: root_cases)
      next
        case False
        have "\<forall>j \<in> insert i seen. (parent m)\<^sup>+\<^sup>+ j p"
          using 1(2) ip by (auto intro: tranclp.trancl_into_trancl)
        from 1(1) [OF new Some False this] have "(parent m)\<^sup>*\<^sup>* i (root_after m (insert i seen) p)
            \<and> (parent_of m (root_after m (insert i seen) p) = None
               \<or> (parent m)\<^sup>+\<^sup>+ (root_after m (insert i seen) p) (root_after m (insert i seen) p))"
          using ip by (auto intro: converse_rtranclp_into_rtranclp)
        moreover have "root_after m seen i = root_after m (insert i seen) p"
          using new Some False by (auto simp: root_cases)
        ultimately show ?thesis by simp
      qed
    qed
  qed
qed

text \<open>C36: the root of a thread is the thread or an ancestor of it, and it has no parent itself, unless the
  parents form a cycle through it.\<close>

theorem root_is_topmost_ancestor:
  "(parent m)\<^sup>*\<^sup>* threadId (resolveRootThreadId threadId m)
     \<and> (parent_of m (resolveRootThreadId threadId m) = None
        \<or> (parent m)\<^sup>+\<^sup>+ (resolveRootThreadId threadId m) (resolveRootThreadId threadId m))"
  unfolding resolveRootThreadId_def by (rule root_after_ancestor) simp

text \<open>A known root is its own root: the way up from it is the end of the way that found it.\<close>

lemma root_after_less_seen:
  "root_after m seen i = r \<Longrightarrow> seen' \<subseteq> seen \<Longrightarrow> r \<in> seen' \<Longrightarrow> root_after m seen' i = r"
proof (induction m seen i arbitrary: seen' rule: root_after.induct)
  case (1 m seen i)
  show ?case
  proof (cases "i \<in> seen")
    case True
    then have "r = i" using 1(2) by (simp add: root_cases)
    then show ?thesis using 1(4) by (simp add: root_cases)
  next
    case False
    then have new: "i \<notin> seen'" using 1(3) by blast
    show ?thesis
    proof (cases "parent_of m i")
      case None
      then show ?thesis using 1(2) False new by (simp add: root_cases)
    next
      case (Some p)
      show ?thesis
      proof (cases "map_of m p")
        case None
        then show ?thesis using 1(2) False new Some by (simp add: root_cases)
      next
        case known: (Some q)
        have up: "root_after m (insert i seen) p = r"
          using 1(2) root_cases(4) [OF False Some known] by simp
        have "map_of m p \<noteq> None" using known by simp
        then have "root_after m (insert i seen') p = r"
          using 1(1) [OF False Some _ up, of "insert i seen'"] 1(3,4) by blast
        then show ?thesis using root_cases(4) [OF new Some known] by simp
      qed
    qed
  qed
qed

lemma root_after_again:
  "root_after m seen i = r \<Longrightarrow> r \<notin> seen \<Longrightarrow> map_of m r \<noteq> None \<Longrightarrow> root_after m {} r = r"
proof (induction m seen i rule: root_after.induct)
  case (1 m seen i)
  have new: "i \<notin> seen" using 1(2,3) by (auto simp: root_cases)
  show ?case
  proof (cases "parent_of m i")
    case None
    then show ?thesis using 1(2) new by (simp add: root_cases)
  next
    case (Some p)
    show ?thesis
    proof (cases "map_of m p")
      case None
      then show ?thesis using 1(2,4) new Some by (simp add: root_cases)
    next
      case known: (Some q)
      have up: "root_after m (insert i seen) p = r"
        using 1(2) root_cases(4) [OF new Some known] by simp
      show ?thesis
      proof (cases "r = i")
        case True
        then have "root_after m {i} p = r" using root_after_less_seen [OF up, of "{i}"] by simp
        then show ?thesis using root_cases(4) [OF _ Some known, of "{}"] True by simp
      next
        case False
        then show ?thesis using 1(1) [OF new Some _ up] 1(3,4) known by simp
      qed
    qed
  qed
qed

lemma root_of_root:
  "map_of m (resolveRootThreadId i m) \<noteq> None \<Longrightarrow>
     resolveRootThreadId (resolveRootThreadId i m) m = resolveRootThreadId i m"
  unfolding resolveRootThreadId_def by (rule root_after_again [OF refl]) simp

section \<open>Related threads\<close>

definition keyed_by_id :: "(string \<times> chatSummary) list \<Rightarrow> bool" where
  "keyed_by_id m \<longleftrightarrow> distinct (map fst m) \<and> (\<forall>(k, c) \<in> set m. cs_id c = k)"

lemma keyed_chat_update: "keyed_by_id m \<Longrightarrow> keyed_by_id (AList.update (cs_id c) c m)"
  using set_alist_update [of "cs_id c" c m] by (auto simp: keyed_by_id_def distinct_update)

lemma keyed_chatMap: "keyed_by_id (chatMap chats)"
proof -
  have "keyed_by_id m \<Longrightarrow> keyed_by_id (fold (\<lambda>c. AList.update (cs_id c) c) chats m)" for m
    by (induction chats arbitrary: m) (simp_all add: keyed_chat_update)
  from this [of "[]"] show ?thesis by (simp add: chatMap_def) (simp add: keyed_by_id_def)
qed

definition known_threads :: "chatSummary list \<Rightarrow> chatSummary \<Rightarrow> (string \<times> chatSummary) list" where
  "known_threads chats focus =
     (if map_of (chatMap chats) (cs_id focus) = None then AList.update (cs_id focus) focus (chatMap chats)
      else chatMap chats)"

lemma keyed_known: "keyed_by_id (known_threads chats focus)"
  by (simp add: known_threads_def keyed_chatMap keyed_chat_update)

lemma ids_of_keyed_chats: "keyed_by_id m \<Longrightarrow> map cs_id (map snd m) = map fst m"
  by (auto simp: keyed_by_id_def)

text \<open>C0: the threads related to a thread are, once each, all known threads with the same root, among them the
  thread itself; when the root is known it comes first.\<close>

theorem related_threads_share_root:
  "let m = known_threads chats focus; r = collectRelatedAgentThreads compare chats (Some focus);
       top = resolveRootThreadId (cs_id focus) m
   in rg_rootThreadId r = Some top \<and> distinct (map cs_id (rg_threads r))
      \<and> set (rg_threads r) = {c. map_of m (cs_id c) = Some c \<and> resolveRootThreadId (cs_id c) m = top}
      \<and> cs_id focus \<in> cs_id ` set (rg_threads r)
      \<and> (map_of m top = None \<or> (\<exists>c rest. rg_threads r = c # rest \<and> cs_id c = top))"
proof -
  define m where "m = known_threads chats focus"
  define top where "top = resolveRootThreadId (cs_id focus) m"
  define r where "r = collectRelatedAgentThreads compare chats (Some focus)"
  define same where "same = filter (\<lambda>c. resolveRootThreadId (cs_id c) m = top) (map snd m)"
  have r: "rg_rootThreadId r = Some top" "rg_threads r = sort_by (compareAgentThreads compare top) same"
    by (simp_all add: r_def collectRelatedAgentThreads_def Let_def known_threads_def [symmetric] m_def [symmetric]
        top_def [symmetric] same_def)
  have keyed: "keyed_by_id m" unfolding m_def by (rule keyed_known)
  have vals: "c \<in> snd ` set m \<longleftrightarrow> map_of m (cs_id c) = Some c" for c
  proof
    assume "c \<in> snd ` set m"
    then have "(cs_id c, c) \<in> set m" using keyed by (auto simp: keyed_by_id_def)
    then show "map_of m (cs_id c) = Some c" using keyed by (simp add: keyed_by_id_def)
  next
    assume "map_of m (cs_id c) = Some c"
    then show "c \<in> snd ` set m" by (auto dest: map_of_SomeD intro: rev_image_eqI)
  qed
  have "distinct (map cs_id (map snd m))" unfolding ids_of_keyed_chats [OF keyed] using keyed by (simp add: keyed_by_id_def)
  then have d: "distinct (map cs_id same)"
    unfolding same_def by (rule distinct_map_filter)
  have same_set: "set same = {c. map_of m (cs_id c) = Some c \<and> resolveRootThreadId (cs_id c) m = top}"
    using vals by (auto simp: same_def)
  obtain f where f: "map_of m (cs_id focus) = Some f"
    by (cases "map_of (chatMap chats) (cs_id focus)") (auto simp: m_def known_threads_def update_conv')
  have fid: "cs_id f = cs_id focus" using map_of_SomeD [OF f] keyed by (auto simp: keyed_by_id_def)
  then have "f \<in> set same" using f by (simp add: same_set top_def)
  then have focus: "cs_id focus \<in> cs_id ` set same" using fid by (metis imageI)
  have first: "\<exists>c rest. sort_by (compareAgentThreads compare top) same = c # rest \<and> cs_id c = top"
    if known: "map_of m top \<noteq> None"
  proof -
    have again: "resolveRootThreadId top m = top"
      using root_of_root [of m "cs_id focus"] known by (simp add: top_def)
    obtain c where c: "map_of m top = Some c" using known by auto
    have cid: "cs_id c = top" using map_of_SomeD [OF c] keyed by (auto simp: keyed_by_id_def)
    then have "c \<in> set same" using c again by (simp add: same_set)
    then obtain xs ys where xy: "same = xs @ c # ys" by (meson split_list)
    have "cs_id y \<noteq> top" if "y \<in> set (xs @ ys)" for y
      using d that cid by (auto simp: xy) (metis imageI)+
    then have "sort_by (compareAgentThreads compare top) same = c # sort_by (compareAgentThreads compare top) (xs @ ys)"
      unfolding xy by (intro sort_first) (auto simp: compareAgentThreads_def Let_def cid)
    then show ?thesis using cid by blast
  qed
  show ?thesis
    unfolding m_def [symmetric] r_def [symmetric] top_def [symmetric] Let_def r
    using d same_set focus first by (cases "map_of m top = None") simp_all
qed

end
