(* ===== verification/Attachments.thy ===== *)
theory Attachments
  imports ApiBridge ScreenText
begin

text \<open>
  The attachments of the composer (\<open>controllers/attachmentController.ts\<close>,
  \<open>attachmentUploadController.ts\<close>): paths that will be sent, files of the phone that are uploaded, and
  how both follow the draft.  What the pickers, the file system, the upload and the terminal answer
  are inputs; what is asked of them is recorded in order.
\<close>

section \<open>Mentions in a draft\<close>

text \<open>\<open>/(^|[^\w])@label(?=$|[^\w])/i\<close>; the flag says whether \<open>s\<close> follows the start or no word character\<close>

fun mentions_label :: "bool \<Rightarrow> string \<Rightarrow> string \<Rightarrow> bool" where
  "mentions_label b label [] \<longleftrightarrow> False"
| "mentions_label b label (c # s) \<longleftrightarrow>
     b \<and> c = CHR ''@'' \<and> starts_with (lower_ascii s) (lower_ascii label)
       \<and> (case drop (length label) s of [] \<Rightarrow> True | d # _ \<Rightarrow> \<not> word_char d)
     \<or> mentions_label (\<not> word_char c) label s"

definition draftContainsMentionLabel :: "string \<Rightarrow> string \<Rightarrow> bool" where
  "draftContainsMentionLabel draft label = (trim label \<noteq> [] \<and> mentions_label True (trim label) draft)"

text \<open>The mention that is being typed: \<open>/(?:^|[\s(])@[^\s()]*$/\<close>\<close>

definition active_mention :: "string \<Rightarrow> nat option" where
  "active_mention s =
     find (\<lambda>i. s ! i = CHR ''@''
       \<and> (i = 0 \<or> list_ex (ends_with (take i s)) (''('' # white_space))
       \<and> list_all (\<lambda>u. \<not> has_substring (drop (Suc i) s) u) ([''('', '')''] @ white_space)) [0..<length s]"

definition parseMentionQuery :: "string \<Rightarrow> string option" where
  "parseMentionQuery input =
     (let normalized = replace_all [CHR 0x0D, CHR 0x0A] [CHR 0x0A] input in
      map_option (\<lambda>i. drop (Suc i) normalized) (active_mention normalized))"

definition blank :: "char \<Rightarrow> bool" where
  "blank c \<longleftrightarrow> c = CHR '' '' \<or> c = CHR 0x09"

function squeeze_blanks :: "string \<Rightarrow> string" where
  "squeeze_blanks [] = []"
| "squeeze_blanks [a] = [a]"
| "squeeze_blanks (a # b # s) =
     (if blank a \<and> blank b then CHR '' '' # squeeze_blanks (dropWhile blank s) else a # squeeze_blanks (b # s))"
  by pat_completeness auto

termination
  by (relation "measure length") (simp_all add: le_imp_less_Suc length_dropWhile_le less_SucI)

definition replaceActiveMentionQueryWithSelection :: "string \<Rightarrow> string \<Rightarrow> string" where
  "replaceActiveMentionQueryWithSelection input label =
     (if trim label = [] then input
      else squeeze_blanks (case active_mention input of
        Some i \<Rightarrow> take i input @ ''@'' @ trim label @ '' ''
      | None \<Rightarrow> input))"

section \<open>State\<close>

definition ATTACHMENT_MAX_BYTES :: int where "ATTACHMENT_MAX_BYTES = 20 * 1024 * 1024"
definition ATTACHMENT_MAX_LABEL :: string where "ATTACHMENT_MAX_LABEL = ''20 MB''"
definition IMAGE_MAX_DIMENSION :: int where "IMAGE_MAX_DIMENSION = 2048"

definition attachmentSizeError :: "int \<Rightarrow> string option" where
  "attachmentSizeError sizeBytes =
     (if sizeBytes > ATTACHMENT_MAX_BYTES then Some (''Attachment exceeds the '' @ ATTACHMENT_MAX_LABEL @ '' limit'')
      else None)"

text \<open>\<open>pa_failed\<close> is the status \<open>failed\<close>, otherwise \<open>uploading\<close>.\<close>

record preparedAttachment =
  pa_id :: string
  pa_uri :: string
  pa_fileName :: "string option"
  pa_mimeType :: "string option"
  pa_kind :: string
  pa_sizeBytes :: int
  pa_failed :: bool

definition retainFailedPreparedAttachment ::
  "preparedAttachment list \<Rightarrow> string \<Rightarrow> preparedAttachment list" where
  "retainFailedPreparedAttachment attachments i =
     map (\<lambda>a. if pa_id a = i then a\<lparr>pa_failed := True\<rparr> else a) attachments"

text \<open>
  The arguments of \<open>upload\<close>, with the chat that was shown when it was called and whether a picker
  waits for it
\<close>

record uploadRequest =
  up_uri :: string
  up_fileName :: "string option"
  up_mimeType :: "string option"
  up_kind :: string
  up_knownSize :: "int option"
  up_threadId :: "string option"
  up_picker :: bool

datatype menuAction = WorkspacePath | PhoneFile | PhoneImage | PhoneCamera

datatype attachmentEffect =
    ReadInfo uploadRequest
  | SendUpload preparedAttachment uploadAttachmentRequest bool
  | ListFiles string
  | OpenPicker menuAction

record attachments =
  am_modalVisible :: bool
  am_menuVisible :: bool
  am_pathDraft :: string
  am_pendingAction :: "menuAction option"
  am_mentions :: "string list"
  am_images :: "string list"
  am_fileCandidates :: "string list"
  am_loadingFileCandidates :: bool
  am_cache :: "(string \<times> string list) list"
  am_inFlight :: "string list"
  am_workspace :: "string option"
  am_submissionPending :: bool
  am_skipNextDraftReconcile :: bool
  am_pickerInProgress :: bool
  am_prepared :: "preparedAttachment list"
  am_draft :: string
  am_error :: "string option"
  am_chatId :: "string option"
  am_effects :: "attachmentEffect list"

definition newAttachments :: "string option \<Rightarrow> string \<Rightarrow> string option \<Rightarrow> attachments" where
  "newAttachments workspace draft chatId =
     \<lparr>am_modalVisible = False, am_menuVisible = False, am_pathDraft = [], am_pendingAction = None,
      am_mentions = [], am_images = [], am_fileCandidates = [], am_loadingFileCandidates = False, am_cache = [],
      am_inFlight = [], am_workspace = workspace, am_submissionPending = False, am_skipNextDraftReconcile = False,
      am_pickerInProgress = False, am_prepared = [], am_draft = draft, am_error = None, am_chatId = chatId,
      am_effects = []\<rparr>"

definition request :: "attachmentEffect \<Rightarrow> attachments \<Rightarrow> attachments" where
  "request e s = s\<lparr>am_effects := am_effects s @ [e]\<rparr>"

definition failed :: "string \<Rightarrow> attachments \<Rightarrow> attachments" where
  "failed e s = s\<lparr>am_error := Some e\<rparr>"

section \<open>Paths\<close>

definition addUniqueAttachmentPath :: "string list \<Rightarrow> string \<Rightarrow> string list option" where
  "addUniqueAttachmentPath paths rawPath =
     (case normalizeAttachmentPath (Some rawPath) of
        None \<Rightarrow> None
      | Some normalized \<Rightarrow>
          Some (if lower_ascii normalized \<in> lower_ascii ` set paths then paths else paths @ [normalized]))"

definition addMention :: "string option \<Rightarrow> attachments \<Rightarrow> bool \<times> attachments" where
  "addMention rawPath s =
     (case normalizeAttachmentPath rawPath of
        None \<Rightarrow> (False, failed ''Enter a file path to attach'' s)
      | Some normalized \<Rightarrow>
          (True, s\<lparr>am_mentions := with_default (addUniqueAttachmentPath (am_mentions s) normalized) (am_mentions s),
            am_error := None\<rparr>))"

definition addImage :: "string option \<Rightarrow> attachments \<Rightarrow> bool \<times> attachments" where
  "addImage rawPath s =
     (case normalizeAttachmentPath rawPath of
        None \<Rightarrow> (False, failed ''Image path is invalid'' s)
      | Some normalized \<Rightarrow>
          (True, s\<lparr>am_images := with_default (addUniqueAttachmentPath (am_images s) normalized) (am_images s),
            am_error := None\<rparr>))"

section \<open>Uploads\<close>

text \<open>A picker that waited for the upload is at its end.\<close>

definition endPicker :: "bool \<Rightarrow> attachments \<Rightarrow> attachments" where
  "endPicker waits s = (if waits then s\<lparr>am_pickerInProgress := False\<rparr> else s)"

definition upload :: "uploadRequest \<Rightarrow> attachments \<Rightarrow> attachments" where
  "upload r s =
     (case normalizeAttachmentPath (Some (up_uri r)) of
        None \<Rightarrow> endPicker (up_picker r) (failed ''Unable to read attachment from this device'' s)
      | Some normalizedUri \<Rightarrow> request (ReadInfo (r\<lparr>up_uri := normalizedUri\<rparr>)) s)"

record fileInfo =
  fi_exists :: bool
  fi_isDirectory :: bool
  fi_size :: int

text \<open>The size of what is uploaded, or why it is not; \<open>Inl\<close> is the message of an error that was thrown.\<close>

definition upload_size :: "uploadRequest \<Rightarrow> string + fileInfo \<Rightarrow> string + int" where
  "upload_size r info =
     (case info of
        Inl e \<Rightarrow> Inl e
      | Inr i \<Rightarrow>
          if \<not> fi_exists i \<or> fi_isDirectory i then Inl ''Unable to read attachment from this device''
          else let sizeBytes = with_default (up_knownSize r) (fi_size i) in
            if sizeBytes \<le> 0 then Inl ''Attachment is empty''
            else (case attachmentSizeError sizeBytes of Some e \<Rightarrow> Inl e | None \<Rightarrow> Inr sizeBytes))"

definition prepared_of :: "uploadRequest \<Rightarrow> int \<Rightarrow> preparedAttachment" where
  "prepared_of r sizeBytes =
     \<lparr>pa_id = up_kind r @ '':'' @ up_uri r, pa_uri = up_uri r, pa_fileName = up_fileName r,
      pa_mimeType = up_mimeType r, pa_kind = up_kind r, pa_sizeBytes = sizeBytes, pa_failed = False\<rparr>"

definition infoRead :: "uploadRequest \<Rightarrow> string + fileInfo \<Rightarrow> attachments \<Rightarrow> attachments" where
  "infoRead r info s =
     (case upload_size r info of
        Inl e \<Rightarrow> endPicker (up_picker r) (failed e s)
      | Inr sizeBytes \<Rightarrow>
          let prepared = prepared_of r sizeBytes in
          request (SendUpload prepared
              \<lparr>ua_uri = up_uri r, ua_fileName = up_fileName r, ua_mimeType = up_mimeType r,
               ua_threadId = up_threadId r, ua_kind = up_kind r\<rparr> (up_picker r))
            (s\<lparr>am_prepared := filter (\<lambda>a. pa_id a \<noteq> pa_id prepared) (am_prepared s) @ [prepared]\<rparr>))"

text \<open>The answer to an upload: what it is on the bridge and where, or the message of the error\<close>

definition uploadAnswered ::
  "preparedAttachment \<Rightarrow> bool \<Rightarrow> string + (string \<times> string option) \<Rightarrow> attachments \<Rightarrow> attachments" where
  "uploadAnswered prepared waits answer s =
     endPicker waits (case answer of
        Inl e \<Rightarrow>
          failed e (s\<lparr>am_prepared := retainFailedPreparedAttachment (am_prepared s) (pa_id prepared)\<rparr>)
      | Inr (kind, path) \<Rightarrow>
          let s = snd (if kind = ''image'' then addImage path s else addMention path s) in
          s\<lparr>am_prepared := filter (\<lambda>a. pa_id a \<noteq> pa_id prepared) (am_prepared s), am_error := None\<rparr>)"

definition retry_request :: "string option \<Rightarrow> preparedAttachment \<Rightarrow> uploadRequest" where
  "retry_request chatId a =
     \<lparr>up_uri = pa_uri a, up_fileName = pa_fileName a, up_mimeType = pa_mimeType a, up_kind = pa_kind a,
      up_knownSize = Some (pa_sizeBytes a), up_threadId = chatId, up_picker = False\<rparr>"

definition retryFailedUploads :: "attachments \<Rightarrow> attachments" where
  "retryFailedUploads s = fold (\<lambda>a. upload (retry_request (am_chatId s) a)) (filter pa_failed (am_prepared s)) s"

definition uploading :: "attachments \<Rightarrow> bool" where
  "uploading s \<longleftrightarrow> list_ex (\<lambda>a. \<not> pa_failed a) (am_prepared s)"

section \<open>Pickers\<close>

definition runPicker :: "menuAction \<Rightarrow> attachments \<Rightarrow> attachments" where
  "runPicker action s =
     (if am_pickerInProgress s then s else request (OpenPicker action) (s\<lparr>am_pickerInProgress := True\<rparr>))"

text \<open>A picker that threw, was refused a permission or was cancelled\<close>

definition pickerEnded :: "string option \<Rightarrow> attachments \<Rightarrow> attachments" where
  "pickerEnded e s = endPicker True (case e of Some m \<Rightarrow> failed m s | None \<Rightarrow> s)"

record pickedFile =
  pf_uri :: string
  pf_name :: "string option"
  pf_mimeType :: "string option"
  pf_size :: "int option"

definition filePicked :: "pickedFile \<Rightarrow> attachments \<Rightarrow> attachments" where
  "filePicked file s =
     (case Option.bind (pf_size file) attachmentSizeError of
        Some e \<Rightarrow> pickerEnded (Some e) s
      | None \<Rightarrow>
          upload \<lparr>up_uri = pf_uri file, up_fileName = pf_name file, up_mimeType = pf_mimeType file,
            up_kind = ''file'', up_knownSize = pf_size file, up_threadId = am_chatId s, up_picker = True\<rparr> s)"

text \<open>Without a permission there is no picture; an iPhone asks for none to read its library.\<close>

definition imagePermission :: "menuAction \<Rightarrow> bool \<Rightarrow> bool \<Rightarrow> string option" where
  "imagePermission action ios granted =
     (if action = PhoneCamera then (if granted then None else Some ''Camera permission is required to take a photo'')
      else if ios \<or> granted then None else Some ''Photo library permission is required to attach images'')"

datatype resize = ToWidth int | ToHeight int

definition resize_of :: "int \<Rightarrow> int \<Rightarrow> resize option" where
  "resize_of width height =
     (if max width height > IMAGE_MAX_DIMENSION
      then Some (if width \<ge> height then ToWidth IMAGE_MAX_DIMENSION else ToHeight IMAGE_MAX_DIMENSION) else None)"

record pickedImage =
  pi_uri :: string
  pi_width :: int
  pi_height :: int
  pi_fileName :: "string option"
  pi_fileSize :: "int option"

text \<open>\<open>render\<close> resizes and compresses: the file that results and what is known of it.\<close>

definition prepareImage ::
  "(string \<Rightarrow> string + fileInfo) \<Rightarrow> (string \<Rightarrow> resize option \<Rightarrow> string + string) \<Rightarrow> pickedImage \<Rightarrow> string + string" where
  "prepareImage infoOf render picked =
     (case infoOf (pi_uri picked) of
        Inl e \<Rightarrow> Inl e
      | Inr source \<Rightarrow>
          if \<not> fi_exists source \<or> fi_isDirectory source then Inl ''Unable to read image''
          else (case attachmentSizeError (with_default (pi_fileSize picked) (fi_size source)) of
            Some e \<Rightarrow> Inl e
          | None \<Rightarrow>
              (case render (pi_uri picked) (resize_of (pi_width picked) (pi_height picked)) of
                 Inl e \<Rightarrow> Inl e
               | Inr uri \<Rightarrow>
                   (case infoOf uri of
                      Inl e \<Rightarrow> Inl e
                    | Inr info \<Rightarrow>
                        if \<not> fi_exists info \<or> fi_isDirectory info then Inl ''Unable to prepare image''
                        else if attachmentSizeError (fi_size info) \<noteq> None
                        then Inl (''Compressed image still exceeds the '' @ ATTACHMENT_MAX_LABEL @ '' limit'')
                        else Inr uri))))"

text \<open>\<open>fileName.replace(/\.[^./\\]+$/, '')\<close>: what follows the last dot, if it is no path and not empty\<close>

definition without_extension :: "string \<Rightarrow> string" where
  "without_extension fileName =
     (let tail = rev (takeWhile (\<lambda>c. c \<notin> {CHR ''.'', slash, backslash}) (rev fileName));
          stem = take (length fileName - length tail) fileName
      in if tail \<noteq> [] \<and> ends_with stem ''.'' then butlast stem else fileName)"

definition toJpegFileName :: "string \<Rightarrow> string" where
  "toJpegFileName fileName =
     with_default (non_empty (Some (trim (without_extension fileName)))) ''image'' @ ''.jpg''"

definition imagePicked :: "menuAction \<Rightarrow> pickedImage \<Rightarrow> string + string \<Rightarrow> attachments \<Rightarrow> attachments" where
  "imagePicked action picked prepared s =
     (case prepared of
        Inl e \<Rightarrow> pickerEnded (Some e) s
      | Inr uri \<Rightarrow>
          upload \<lparr>up_uri = uri,
            up_fileName = Some (toJpegFileName (with_default (pi_fileName picked)
              (if action = PhoneCamera then ''camera-photo.jpg'' else ''image.jpg''))),
            up_mimeType = Some ''image/jpeg'', up_kind = ''image'', up_knownSize = None,
            up_threadId = am_chatId s, up_picker = True\<rparr> s)"

section \<open>Files of the workspace\<close>

definition candidate_lines :: "string + rat \<times> string \<Rightarrow> string list" where
  "candidate_lines response =
     (case response of
        Inl _ \<Rightarrow> []
      | Inr (code, stdout) \<Rightarrow>
          if code \<noteq> 0 then []
          else take 8000 (filter (\<lambda>l. l \<noteq> []) (map trim (split_on CHR 0x0A stdout))))"

text \<open>\<open>override\<close> is only given for the workspace that the effect found.\<close>

definition loadCandidates :: "string option \<Rightarrow> attachments \<Rightarrow> attachments" where
  "loadCandidates override s =
     (case normalizeWorkspacePath (or_else override (am_workspace s)) of
        None \<Rightarrow>
          if non_empty (am_workspace s) = None then s\<lparr>am_fileCandidates := [], am_loadingFileCandidates := False\<rparr> else s
      | Some cwd \<Rightarrow>
          (case map_of (am_cache s) cwd of
             Some cached \<Rightarrow> if am_workspace s = Some cwd then s\<lparr>am_fileCandidates := cached\<rparr> else s
           | None \<Rightarrow>
               let s = (if cwd \<in> set (am_inFlight s) then s
                        else request (ListFiles cwd) (s\<lparr>am_inFlight := cwd # am_inFlight s\<rparr>))
               in if am_workspace s = Some cwd then s\<lparr>am_loadingFileCandidates := True\<rparr> else s))"

text \<open>The files were listed; all who wait do the same with them.\<close>

definition candidatesRead :: "string \<Rightarrow> string + rat \<times> string \<Rightarrow> attachments \<Rightarrow> attachments" where
  "candidatesRead cwd response s =
     (let lines = candidate_lines response;
          s = s\<lparr>am_cache := AList.update cwd lines (am_cache s), am_inFlight := removeAll cwd (am_inFlight s)\<rparr>
      in if am_workspace s = Some cwd then s\<lparr>am_fileCandidates := lines, am_loadingFileCandidates := False\<rparr> else s)"

definition workspaceChanged :: "string option \<Rightarrow> attachments \<Rightarrow> attachments" where
  "workspaceChanged workspace s =
     (let s = s\<lparr>am_workspace := workspace\<rparr> in
      case normalizeWorkspacePath workspace of
        None \<Rightarrow> s\<lparr>am_fileCandidates := [], am_loadingFileCandidates := False\<rparr>
      | Some cwd \<Rightarrow>
          let cached = map_of (am_cache s) cwd;
              s = s\<lparr>am_fileCandidates := with_default cached [], am_loadingFileCandidates := False\<rparr>
          in if cached = None then loadCandidates (Some cwd) s else s)"

section \<open>The composer\<close>

definition openPathModal :: "attachments \<Rightarrow> attachments" where
  "openPathModal s =
     (if am_pickerInProgress s then s
      else loadCandidates None (s\<lparr>am_pathDraft := [], am_modalVisible := True, am_error := None\<rparr>))"

text \<open>A mention that the draft does not name any more is dropped; a submission keeps them all.\<close>

definition draftChanged :: "string \<Rightarrow> attachments \<Rightarrow> attachments" where
  "draftChanged draft s =
     (let s = s\<lparr>am_draft := draft\<rparr> in
      if am_submissionPending s then s
      else if am_skipNextDraftReconcile s then s\<lparr>am_skipNextDraftReconcile := False\<rparr>
      else s\<lparr>am_mentions := filter (\<lambda>p. draftContainsMentionLabel draft (toPathBasename p)) (am_mentions s)\<rparr>)"

definition menuTimerFires :: "attachments \<Rightarrow> attachments" where
  "menuTimerFires s =
     (if am_menuVisible s then s
      else case am_pendingAction s of
        None \<Rightarrow> s
      | Some action \<Rightarrow>
          let s = s\<lparr>am_pendingAction := None\<rparr> in
          if action = WorkspacePath then openPathModal s else runPicker action s)"

definition clear :: "attachments \<Rightarrow> attachments" where
  "clear s =
     s\<lparr>am_modalVisible := False, am_menuVisible := False, am_pathDraft := [], am_mentions := [], am_images := [],
       am_fileCandidates := [], am_loadingFileCandidates := False, am_prepared := []\<rparr>"

definition middle_dot :: string where "middle_dot = '' '' @ [CHR 0xC2, CHR 0xB7] @ '' ''"

definition composerAttachments :: "attachments \<Rightarrow> (string \<times> string) list" where
  "composerAttachments s =
     map (\<lambda>p. (''image:'' @ p, ''image'' @ middle_dot @ toPathBasename p)) (am_images s)
     @ map (\<lambda>a. (''prepared:'' @ pa_id a,
         (if pa_failed a then ''retry'' else ''uploading'') @ middle_dot
           @ with_default (pa_fileName a) (toPathBasename (pa_uri a)))) (am_prepared s)"

definition hasFailedUploads :: "attachments \<Rightarrow> bool" where
  "hasFailedUploads s \<longleftrightarrow> list_ex pa_failed (am_prepared s)"

definition pathSuggestions :: "attachments \<Rightarrow> string list" where
  "pathSuggestions s = toAttachmentPathSuggestions (am_fileCandidates s) (am_pathDraft s) (am_mentions s)"

definition mentionSuggestions :: "string \<Rightarrow> attachments \<Rightarrow> string list" where
  "mentionSuggestions query s = toAttachmentPathSuggestions (am_fileCandidates s) query (am_mentions s)"

definition openMenu :: "attachments \<Rightarrow> attachments" where
  "openMenu s = (if am_pickerInProgress s \<or> uploading s then s else s\<lparr>am_menuVisible := True\<rparr>)"

definition closeMenu :: "attachments \<Rightarrow> attachments" where
  "closeMenu s = s\<lparr>am_menuVisible := False\<rparr>"

definition requestMenuAction :: "menuAction \<Rightarrow> attachments \<Rightarrow> attachments" where
  "requestMenuAction action s = s\<lparr>am_menuVisible := False, am_pendingAction := Some action\<rparr>"

definition closePathModal :: "attachments \<Rightarrow> attachments" where
  "closePathModal s = s\<lparr>am_modalVisible := False, am_pathDraft := []\<rparr>"

definition selectPathSuggestion :: "string \<Rightarrow> attachments \<Rightarrow> attachments" where
  "selectPathSuggestion path s =
     (let (added, s) = addMention (Some path) s in if added then closePathModal s else s)"

definition submitPath :: "attachments \<Rightarrow> attachments" where
  "submitPath s = selectPathSuggestion (am_pathDraft s) s"

text \<open>The changed draft is seen by the effect of \<open>draftChanged\<close>.\<close>

definition selectMentionSuggestion :: "string \<Rightarrow> attachments \<Rightarrow> attachments" where
  "selectMentionSuggestion path s =
     (let (added, s) = addMention (Some path) s;
          draft = replaceActiveMentionQueryWithSelection (am_draft s) (toPathBasename path)
      in if added \<and> draft \<noteq> am_draft s then draftChanged draft s else s)"

definition removeMentionPath :: "string \<Rightarrow> attachments \<Rightarrow> attachments" where
  "removeMentionPath path s = s\<lparr>am_mentions := filter (\<lambda>p. p \<noteq> path) (am_mentions s)\<rparr>"

definition removeComposerAttachment :: "string \<Rightarrow> attachments \<Rightarrow> attachments" where
  "removeComposerAttachment i s =
     (if starts_with i ''prepared:'' then s\<lparr>am_prepared := filter (\<lambda>a. pa_id a \<noteq> drop 9 i) (am_prepared s)\<rparr>
      else if starts_with i ''file:'' then removeMentionPath (drop 5 i) s
      else if starts_with i ''image:'' then s\<lparr>am_images := filter (\<lambda>p. p \<noteq> drop 6 i) (am_images s)\<rparr>
      else s)"

definition clearPending :: "attachments \<Rightarrow> attachments" where
  "clearPending s = s\<lparr>am_mentions := [], am_images := []\<rparr>"

definition beginSubmission :: "attachments \<Rightarrow> attachments" where
  "beginSubmission s = s\<lparr>am_submissionPending := True\<rparr>"

definition finishSubmission :: "bool \<Rightarrow> bool \<Rightarrow> attachments \<Rightarrow> attachments" where
  "finishSubmission succeeded restoringDraft s =
     (let s = s\<lparr>am_submissionPending := False, am_skipNextDraftReconcile := restoringDraft\<rparr> in
      if succeeded then clearPending s else s)"

text \<open>The mentions, path and name, and the images of a turn\<close>

definition toTurnInputs :: "string option \<Rightarrow> attachments \<Rightarrow> (string \<times> string) list \<times> string list" where
  "toTurnInputs cwd s = (map (\<lambda>p. toMentionInput p cwd) (am_mentions s), am_images s)"

end
