(* ===== verification/AttachmentsLaws.thy ===== *)
theory AttachmentsLaws
  imports Attachments
begin

text \<open>
  The attachments of the composer stay well formed under all operations in any order, a failed upload
  can be tried again, and a submission keeps what it sends.
\<close>

section \<open>Steps\<close>

text \<open>Every operation of the composer and every answer to what was asked, in any order\<close>

inductive attachment_step :: "attachments \<Rightarrow> attachments \<Rightarrow> bool" where
  step_infoRead: "ReadInfo r \<in> set (am_effects s) \<Longrightarrow> attachment_step s (infoRead r info s)"
| step_uploadAnswered:
    "SendUpload a q waits \<in> set (am_effects s) \<Longrightarrow> attachment_step s (uploadAnswered a waits answer s)"
| step_retry: "attachment_step s (retryFailedUploads s)"
| step_pickerEnded: "attachment_step s (pickerEnded e s)"
| step_filePicked: "attachment_step s (filePicked f s)"
| step_imagePicked: "attachment_step s (imagePicked action picked p s)"
| step_candidatesRead: "ListFiles cwd \<in> set (am_effects s) \<Longrightarrow> attachment_step s (candidatesRead cwd response s)"
| step_workspaceChanged: "attachment_step s (workspaceChanged w s)"
| step_chatChanged: "attachment_step s (s\<lparr>am_chatId := i\<rparr>)"
| step_draftChanged: "attachment_step s (draftChanged d s)"
| step_menuTimer: "attachment_step s (menuTimerFires s)"
| step_clear: "attachment_step s (clear s)"
| step_pathDraft: "attachment_step s (s\<lparr>am_pathDraft := d\<rparr>)"
| step_openMenu: "attachment_step s (openMenu s)"
| step_closeMenu: "attachment_step s (closeMenu s)"
| step_requestMenuAction: "attachment_step s (requestMenuAction action s)"
| step_closePathModal: "attachment_step s (closePathModal s)"
| step_selectPath: "attachment_step s (selectPathSuggestion p s)"
| step_submitPath: "attachment_step s (submitPath s)"
| step_selectMention: "attachment_step s (selectMentionSuggestion p s)"
| step_removeMention: "attachment_step s (removeMentionPath p s)"
| step_removeAttachment: "attachment_step s (removeComposerAttachment p s)"
| step_clearPending: "attachment_step s (clearPending s)"
| step_beginSubmission: "attachment_step s (beginSubmission s)"
| step_finishSubmission: "attachment_step s (finishSubmission ok restoring s)"

definition paths_ok :: "string list \<Rightarrow> bool" where
  "paths_ok ps \<longleftrightarrow> distinct (map lower_ascii ps) \<and> list_all (\<lambda>p. p \<noteq> [] \<and> trim p = p) ps"

definition prepared_ok :: "preparedAttachment \<Rightarrow> bool" where
  "prepared_ok a \<longleftrightarrow>
     0 < pa_sizeBytes a \<and> pa_sizeBytes a \<le> ATTACHMENT_MAX_BYTES \<and> pa_id a = pa_kind a @ '':'' @ pa_uri a
       \<and> pa_uri a \<noteq> [] \<and> trim (pa_uri a) = pa_uri a"

fun effect_ok :: "attachmentEffect \<Rightarrow> bool" where
  "effect_ok (SendUpload a r _) \<longleftrightarrow> prepared_ok a \<and> ua_uri r = pa_uri a \<and> ua_kind r = pa_kind a"
| "effect_ok (ReadInfo r) \<longleftrightarrow> up_uri r \<noteq> [] \<and> trim (up_uri r) = up_uri r"
| "effect_ok _ \<longleftrightarrow> True"

definition attachments_ok :: "attachments \<Rightarrow> bool" where
  "attachments_ok s \<longleftrightarrow>
     paths_ok (am_mentions s) \<and> paths_ok (am_images s) \<and> distinct (map pa_id (am_prepared s))
     \<and> list_all prepared_ok (am_prepared s) \<and> list_all effect_ok (am_effects s)"

named_theorems attachment_defs "operations of the composer"

declare failed_def [attachment_defs] request_def [attachment_defs] endPicker_def [attachment_defs]
  pickerEnded_def [attachment_defs] closePathModal_def [attachment_defs] requestMenuAction_def [attachment_defs]
  closeMenu_def [attachment_defs] openMenu_def [attachment_defs] clearPending_def [attachment_defs]
  beginSubmission_def [attachment_defs] finishSubmission_def [attachment_defs] clear_def [attachment_defs]
  runPicker_def [attachment_defs] candidatesRead_def [attachment_defs]

section \<open>Lists of paths\<close>

lemma paths_ok_Nil [simp]: "paths_ok []" by (simp add: paths_ok_def)

lemma distinct_map_filter': "distinct (map f xs) \<Longrightarrow> distinct (map f (filter P xs))"
  by (induction xs) auto

lemma list_all_filter: "list_all P xs \<Longrightarrow> list_all P (filter Q xs)"
  by (simp add: list_all_iff)

lemma paths_ok_filter [intro]: "paths_ok ps \<Longrightarrow> paths_ok (filter P ps)"
  by (simp add: paths_ok_def distinct_map_filter' list_all_filter)

lemma normalized_path:
  "normalizeAttachmentPath p = Some q \<longleftrightarrow> (\<exists>r. p = Some r \<and> q = trim r \<and> q \<noteq> [])"
  by (cases p) (auto simp: normalizeAttachmentPath_def trimmed_or_none_def non_empty_def split: option.splits if_splits)

lemma add_unique_ok:
  assumes "paths_ok ps" "addUniqueAttachmentPath ps raw = Some qs"
  shows "paths_ok qs"
  using assms
  by (auto simp: addUniqueAttachmentPath_def normalized_path paths_ok_def split: option.splits if_splits)

lemma with_unique_ok: "paths_ok ps \<Longrightarrow> paths_ok (with_default (addUniqueAttachmentPath ps raw) ps)"
  by (cases "addUniqueAttachmentPath ps raw") (auto dest: add_unique_ok simp: with_default_def)

section \<open>Every operation keeps the state well formed\<close>

text \<open>What does not touch the paths, the uploads and the effects\<close>

definition same_core :: "attachments \<Rightarrow> attachments \<Rightarrow> bool" where
  "same_core s t \<longleftrightarrow>
     am_mentions t = am_mentions s \<and> am_images t = am_images s \<and> am_prepared t = am_prepared s
       \<and> am_effects t = am_effects s"

lemma same_core_ok: "same_core s t \<Longrightarrow> attachments_ok t = attachments_ok s"
  by (simp add: same_core_def attachments_ok_def)

lemma ok_request [simp]: "attachments_ok (request e s) \<longleftrightarrow> attachments_ok s \<and> effect_ok e"
  by (auto simp: attachments_ok_def request_def)

lemma ok_failed [simp]: "attachments_ok (failed e s) = attachments_ok s"
  by (rule same_core_ok) (simp add: same_core_def failed_def)

lemma ok_endPicker [simp]: "attachments_ok (endPicker w s) = attachments_ok s"
  by (rule same_core_ok) (simp add: same_core_def endPicker_def)

lemma ok_pickerEnded [simp]: "attachments_ok (pickerEnded e s) = attachments_ok s"
  by (simp add: pickerEnded_def split: option.splits)

lemma ok_addMention: "attachments_ok s \<Longrightarrow> attachments_ok (snd (addMention p s))"
  by (auto simp: addMention_def attachments_ok_def with_unique_ok failed_def split: option.splits)

lemma ok_addImage: "attachments_ok s \<Longrightarrow> attachments_ok (snd (addImage p s))"
  by (auto simp: addImage_def attachments_ok_def with_unique_ok failed_def split: option.splits)

lemma ok_upload: "attachments_ok s \<Longrightarrow> attachments_ok (upload r s)"
  by (auto simp: upload_def normalized_path split: option.splits)

lemma ok_retryFailedUploads: "attachments_ok s \<Longrightarrow> attachments_ok (retryFailedUploads s)"
proof -
  have "attachments_ok s \<Longrightarrow> attachments_ok (fold (\<lambda>a. upload (retry_request i a)) as s)" for i as s
    by (induction as arbitrary: s) (simp_all add: ok_upload)
  then show "attachments_ok s \<Longrightarrow> attachments_ok (retryFailedUploads s)"
    by (simp add: retryFailedUploads_def)
qed

lemma upload_size_bounds:
  "upload_size r info = Inr n \<Longrightarrow> 0 < n \<and> n \<le> ATTACHMENT_MAX_BYTES"
  by (auto simp: upload_size_def attachmentSizeError_def Let_def split: sum.splits if_splits option.splits)

lemma ok_infoRead:
  assumes "attachments_ok s" and asked: "ReadInfo r \<in> set (am_effects s)"
  shows "attachments_ok (infoRead r info s)"
proof (cases "upload_size r info")
  case (Inl e)
  then show ?thesis using assms by (simp add: infoRead_def)
next
  case (Inr n)
  have "effect_ok (ReadInfo r)" using assms by (auto simp: attachments_ok_def list_all_iff)
  then have new: "prepared_ok (prepared_of r n)"
    using upload_size_bounds [OF Inr] by (simp add: prepared_ok_def prepared_of_def)
  have "attachments_ok (s\<lparr>am_prepared :=
      filter (\<lambda>a. pa_id a \<noteq> pa_id (prepared_of r n)) (am_prepared s) @ [prepared_of r n]\<rparr>)"
    using assms(1) new
    by (auto simp: attachments_ok_def distinct_map_filter' list_all_filter)
  then show ?thesis
    using Inr new by (simp add: infoRead_def Let_def prepared_of_def)
qed

lemma ok_filter_prepared:
  "attachments_ok s \<Longrightarrow> attachments_ok (s\<lparr>am_prepared := filter P (am_prepared s), am_error := e\<rparr>)"
  by (simp add: attachments_ok_def distinct_map_filter' list_all_filter)

lemma ok_retain:
  "attachments_ok s \<Longrightarrow> attachments_ok (s\<lparr>am_prepared := retainFailedPreparedAttachment (am_prepared s) i\<rparr>)"
proof -
  have "map pa_id (retainFailedPreparedAttachment as i) = map pa_id as" for as
    by (simp add: retainFailedPreparedAttachment_def)
  moreover have "list_all prepared_ok as \<Longrightarrow> list_all prepared_ok (retainFailedPreparedAttachment as i)" for as
    by (auto simp: retainFailedPreparedAttachment_def list_all_iff prepared_ok_def)
  ultimately show "attachments_ok s \<Longrightarrow> ?thesis" by (simp add: attachments_ok_def)
qed

lemma ok_uploadAnswered: "attachments_ok s \<Longrightarrow> attachments_ok (uploadAnswered a waits answer s)"
  by (auto simp: uploadAnswered_def Let_def ok_retain ok_filter_prepared ok_addImage ok_addMention split: sum.splits)

lemma ok_loadCandidates: "attachments_ok s \<Longrightarrow> attachments_ok (loadCandidates w s)"
  by (auto simp: loadCandidates_def Let_def attachments_ok_def request_def split: option.splits)

lemma ok_workspaceChanged: "attachments_ok s \<Longrightarrow> attachments_ok (workspaceChanged w s)"
  by (auto simp: workspaceChanged_def Let_def attachments_ok_def intro!: ok_loadCandidates [unfolded attachments_ok_def]
      split: option.splits)

lemma ok_draftChanged: "attachments_ok s \<Longrightarrow> attachments_ok (draftChanged d s)"
  by (auto simp: draftChanged_def Let_def attachments_ok_def)

lemma ok_selectMention: "attachments_ok s \<Longrightarrow> attachments_ok (selectMentionSuggestion p s)"
  using ok_addMention [of s "Some p"]
  by (auto simp: selectMentionSuggestion_def Let_def ok_draftChanged split: prod.splits)

lemma ok_selectPath: "attachments_ok s \<Longrightarrow> attachments_ok (selectPathSuggestion p s)"
  using ok_addMention [of s "Some p"]
  by (auto simp: selectPathSuggestion_def closePathModal_def attachments_ok_def split: prod.splits)

lemma ok_runPicker: "attachments_ok s \<Longrightarrow> attachments_ok (runPicker action s)"
  by (auto simp: runPicker_def attachments_ok_def request_def)

lemma ok_menuTimer: "attachments_ok s \<Longrightarrow> attachments_ok (menuTimerFires s)"
  by (auto simp: menuTimerFires_def openPathModal_def Let_def split: option.splits
      intro!: ok_loadCandidates ok_runPicker) (simp_all add: attachments_ok_def)

lemma ok_remove:
  "attachments_ok s \<Longrightarrow> attachments_ok (removeMentionPath p s)"
  "attachments_ok s \<Longrightarrow> attachments_ok (removeComposerAttachment p s)"
  by (auto simp: removeMentionPath_def removeComposerAttachment_def attachments_ok_def distinct_map_filter' list_all_filter)

lemma ok_picked:
  "attachments_ok s \<Longrightarrow> attachments_ok (filePicked f s)"
  "attachments_ok s \<Longrightarrow> attachments_ok (imagePicked action picked p s)"
  by (auto simp: filePicked_def imagePicked_def ok_upload split: option.splits sum.splits)

lemma step_keeps_ok: "attachment_step s t \<Longrightarrow> attachments_ok s \<Longrightarrow> attachments_ok t"
proof (induction rule: attachment_step.induct)
  case (step_submitPath s)
  then show ?case by (simp add: submitPath_def ok_selectPath)
qed (simp_all add: ok_infoRead ok_uploadAnswered ok_retryFailedUploads ok_picked ok_workspaceChanged ok_draftChanged
    ok_menuTimer ok_selectPath ok_selectMention ok_remove,
  simp_all add: attachment_defs attachments_ok_def Let_def)

definition attachments_reachable :: "string option \<Rightarrow> attachments \<Rightarrow> bool" where
  "attachments_reachable workspace s \<longleftrightarrow>
     (\<exists>draft chatId. attachment_step\<^sup>*\<^sup>* (workspaceChanged workspace (newAttachments workspace draft chatId)) s)"

lemma ok_new: "attachments_ok (newAttachments w d i)"
  by (simp add: attachments_ok_def newAttachments_def)

section \<open>Retrying an upload\<close>

lemma upload_core [simp]:
  "am_mentions (upload r s) = am_mentions s" "am_images (upload r s) = am_images s"
  "am_prepared (upload r s) = am_prepared s"
  by (simp_all add: upload_def attachment_defs split: option.split)

lemma upload_asks:
  "trim (up_uri r) = up_uri r \<Longrightarrow> up_uri r \<noteq> [] \<Longrightarrow> am_effects (upload r s) = am_effects s @ [ReadInfo r]"
  by (simp add: upload_def normalizeAttachmentPath_def trimmed_or_none_def non_empty_def request_def)

lemma upload_effects_grow: "set (am_effects s) \<subseteq> set (am_effects (upload r s))"
  by (auto simp: upload_def attachment_defs split: option.split)

lemma uploads_grow: "set (am_effects s) \<subseteq> set (am_effects (fold (\<lambda>a. upload (retry_request i a)) as s))"
proof (induction as arbitrary: s)
  case (Cons a as)
  then show ?case using upload_effects_grow [of s "retry_request i a"] by fastforce
qed simp

lemma retry_asks:
  assumes "a \<in> set as" "trim (pa_uri a) = pa_uri a" "pa_uri a \<noteq> []"
  shows "ReadInfo (retry_request i a) \<in> set (am_effects (fold (\<lambda>a. upload (retry_request i a)) as s))"
  using assms
proof (induction as arbitrary: s)
  case (Cons b as)
  show ?case
  proof (cases "b = a")
    case True
    then have "ReadInfo (retry_request i a) \<in> set (am_effects (upload (retry_request i b) s))"
      using Cons.prems by (subst upload_asks) (simp_all add: retry_request_def)
    then show ?thesis using uploads_grow by fastforce
  next
    case False
    then show ?thesis using Cons by simp
  qed
qed simp

lemma uploads_core [simp]:
  "am_prepared (fold (\<lambda>a. upload (retry_request i a)) as s) = am_prepared s"
  by (induction as arbitrary: s) simp_all

lemma normalized_again: "normalizeAttachmentPath path = Some p \<Longrightarrow> normalizeAttachmentPath (Some p) = Some p"
  by (auto simp: normalized_path)

lemma added_unique:
  assumes "normalizeAttachmentPath (Some p) = Some p"
  shows "lower_ascii p \<in> lower_ascii ` set (with_default (addUniqueAttachmentPath ps p) ps)"
  using assms by (auto simp: addUniqueAttachmentPath_def)

lemma added_path:
  assumes "normalizeAttachmentPath path = Some p"
  shows "lower_ascii p \<in> lower_ascii ` set (am_images (snd (addImage path s)))"
    and "lower_ascii p \<in> lower_ascii ` set (am_mentions (snd (addMention path s)))"
  using added_unique [OF normalized_again [OF assms]] by (simp_all add: addImage_def addMention_def assms)


definition report :: preparedAttachment where
  "report = \<lparr>pa_id = ''file:/a.pdf'', pa_uri = ''/a.pdf'', pa_fileName = None, pa_mimeType = None, pa_kind = ''file'',
     pa_sizeBytes = 100, pa_failed = False\<rparr>"

definition uploading_report :: attachments where
  "uploading_report = (newAttachments None [] None)\<lparr>am_prepared := [report]\<rparr>"


section \<open>What is attached\<close>

text \<open>C27: after any operations and answers in any order every attached path is trimmed and not empty and is
  attached once up to the case of its letters, the listed uploads are for different files, and a file
  that is listed or was ever sent has at least one byte and at most 20 MB.\<close>

theorem attachments_stay_well_formed:
  assumes "attachments_reachable workspace s"
  shows "attachments_ok s"
proof -
  obtain draft chatId where
    "attachment_step\<^sup>*\<^sup>* (workspaceChanged workspace (newAttachments workspace draft chatId)) s"
    using assms by (auto simp: attachments_reachable_def)
  then show ?thesis
    by (induction rule: rtranclp_induct) (auto intro: step_keeps_ok ok_workspaceChanged ok_new)
qed

theorem attachments_stay_well_formed_witness:
  "attachments_ok (beginSubmission (workspaceChanged None (newAttachments None [] None)))"
  by (rule attachments_stay_well_formed [of None])
    (unfold attachments_reachable_def, intro exI, rule r_into_rtranclp, rule step_beginSubmission)

text \<open>C28: whatever is typed while a message is sent, a message that fails and whose text is put back keeps
  its mentions and images.\<close>

theorem failed_submission_keeps_attachments:
  "let s' = draftChanged restored (finishSubmission False True (fold draftChanged typed (beginSubmission s)))
   in am_mentions s' = am_mentions s \<and> am_images s' = am_images s \<and> am_prepared s' = am_prepared s
      \<and> \<not> am_submissionPending s'"
proof -
  have "let t = fold draftChanged typed u in am_submissionPending t \<and> am_mentions t = am_mentions u
      \<and> am_images t = am_images u \<and> am_prepared t = am_prepared u" if "am_submissionPending u" for u
    using that by (induction typed arbitrary: u) (simp_all add: Let_def draftChanged_def)
  from this [of "beginSubmission s"] show ?thesis
    by (simp add: Let_def draftChanged_def finishSubmission_def beginSubmission_def)
qed

section \<open>Limits\<close>

text \<open>A file that was uploaded is not sent when the draft changes afterwards and does not name it.\<close>

theorem typing_drops_uploaded_file:
  assumes "\<not> am_submissionPending s" "\<not> am_skipNextDraftReconcile s" "\<not> draftContainsMentionLabel draft (toPathBasename p)"
  shows "p \<notin> set (am_mentions (draftChanged draft (uploadAnswered a waits (Inr (''file'', Some p)) s)))"
  using assms by (auto simp: draftChanged_def Let_def uploadAnswered_def addMention_def attachment_defs split: option.splits)

theorem typing_drops_uploaded_file_witness:
  "''/up/a.pdf'' \<notin> set (am_mentions
     (draftChanged ''What is this?'' (uploadAnswered report False (Inr (''file'', Some ''/up/a.pdf'')) uploading_report)))"
proof -
  have "\<not> am_submissionPending uploading_report" "\<not> am_skipNextDraftReconcile uploading_report"
    "\<not> draftContainsMentionLabel ''What is this?'' (toPathBasename ''/up/a.pdf'')" by code_simp+
  then show ?thesis by (rule typing_drops_uploaded_file)
qed

text \<open>An upload that ends after the attachments were cleared, say for another chat, is attached to that one.\<close>

lemma upload_outlives_clear:
  assumes "normalizeAttachmentPath path = Some p"
  shows "am_mentions (uploadAnswered a waits (Inr (''file'', path)) (clear s)) = [p]"
  using normalized_again [OF assms]
  by (simp add: uploadAnswered_def Let_def endPicker_def addMention_def addUniqueAttachmentPath_def clear_def assms)

text \<open>The error of an upload without a path is cleared again at once.\<close>

lemma missing_path_is_not_reported: "am_error (uploadAnswered a waits (Inr (kind, None)) s) = None"
  by (simp add: uploadAnswered_def Let_def endPicker_def)

end
