(* ===== verification/SnapshotCache.thy ===== *)
theory SnapshotCache
  imports WsClient JsSort BridgeResponses
begin

text \<open>
  The snapshots of chats that are kept between starts of the app (\<open>chatSnapshotCache.ts\<close>).  A
  cached chat is the JavaScript object it is.  \<open>valid\<close> is \<open>MessageSchema.safeParse\<close> of the AG-UI
  library, \<open>compare\<close> is \<open>localeCompare\<close> and \<open>now\<close> the one reading of the clock of an operation.
\<close>

section \<open>Entries\<close>

definition CHAT_SNAPSHOT_CACHE_VERSION :: rat where "CHAT_SNAPSHOT_CACHE_VERSION = 1"
definition CHAT_SNAPSHOT_CACHE_MAX_ENTRIES :: nat where "CHAT_SNAPSHOT_CACHE_MAX_ENTRIES = 20"
definition CHAT_SNAPSHOT_CACHE_MAX_BYTES :: nat where "CHAT_SNAPSHOT_CACHE_MAX_BYTES = 8 * 1024 * 1024"
definition CHAT_SNAPSHOT_CACHE_MAX_AGE_MS :: int where "CHAT_SNAPSHOT_CACHE_MAX_AGE_MS = 30 * 24 * 60 * 60 * 1000"

record chatSnapshotCacheEntry =
  ce_chat :: jsv
  ce_cachedAt :: string
  ce_lastAccessedAt :: string

record chatSnapshotCache =
  sc_profileId :: string
  sc_selectedChatId :: "string option"
  sc_updatedAt :: string
  sc_entries :: "chatSnapshotCacheEntry list"

definition chat_id :: "chatSnapshotCacheEntry \<Rightarrow> string option" where
  "chat_id e = as_string (opt_prop (toRecord (ce_chat e)) ''id'')"

definition createEmptyChatSnapshotCache :: "string \<Rightarrow> string \<Rightarrow> chatSnapshotCache" where
  "createEmptyChatSnapshotCache profileId now =
     \<lparr>sc_profileId = profileId, sc_selectedChatId = None, sc_updatedAt = now, sc_entries = []\<rparr>"

definition entry_json :: "chatSnapshotCacheEntry \<Rightarrow> jsv" where
  "entry_json e =
     JObj [(''chat'', ce_chat e), (''cachedAt'', JStr (ce_cachedAt e)), (''lastAccessedAt'', JStr (ce_lastAccessedAt e))]"

definition cache_json :: "chatSnapshotCache \<Rightarrow> jsv" where
  "cache_json c =
     JObj [(''version'', JNum CHAT_SNAPSHOT_CACHE_VERSION), (''profileId'', JStr (sc_profileId c)),
       (''selectedChatId'', case sc_selectedChatId c of Some i \<Rightarrow> JStr i | None \<Rightarrow> JNull),
       (''updatedAt'', JStr (sc_updatedAt c)), (''entries'', JArr (map entry_json (sc_entries c)))]"

section \<open>Bounds\<close>

text \<open>The selected chat first, then the one used last\<close>

definition by_use ::
  "(string \<Rightarrow> string \<Rightarrow> int) \<Rightarrow> string option \<Rightarrow> chatSnapshotCacheEntry \<Rightarrow> chatSnapshotCacheEntry \<Rightarrow> int" where
  "by_use compare selected l r =
     (if selected \<noteq> None \<and> chat_id l = selected then - 1
      else if selected \<noteq> None \<and> chat_id r = selected then 1
      else compare (ce_lastAccessedAt r) (ce_lastAccessedAt l))"

definition fits :: "chatSnapshotCache \<Rightarrow> chatSnapshotCacheEntry list \<Rightarrow> bool" where
  "fits cache entries \<longleftrightarrow> units (json_text (cache_json (cache\<lparr>sc_entries := entries\<rparr>))) \<le> CHAT_SNAPSHOT_CACHE_MAX_BYTES"

fun keep_entries ::
  "chatSnapshotCache \<Rightarrow> chatSnapshotCacheEntry list \<Rightarrow> chatSnapshotCacheEntry list \<Rightarrow> chatSnapshotCacheEntry list" where
  "keep_entries cache kept [] = kept"
| "keep_entries cache kept (e # es) =
     (if length kept \<ge> CHAT_SNAPSHOT_CACHE_MAX_ENTRIES then kept
      else keep_entries cache (if fits cache (kept @ [e]) then kept @ [e] else kept) es)"

definition boundChatSnapshotCache :: "(string \<Rightarrow> string \<Rightarrow> int) \<Rightarrow> chatSnapshotCache \<Rightarrow> chatSnapshotCache" where
  "boundChatSnapshotCache compare cache =
     (let selected = sc_selectedChatId cache;
          entries = keep_entries cache [] (sort_by (by_use compare selected) (sc_entries cache))
      in cache\<lparr>sc_selectedChatId := (if list_ex (\<lambda>e. chat_id e = selected) entries then selected else None),
               sc_entries := entries\<rparr>)"

section \<open>Reading\<close>

definition SUBAGENT_ACTIVITY :: string where "SUBAGENT_ACTIVITY = ''tethercode.subagent''"
definition COMPACTION_ACTIVITY :: string where "COMPACTION_ACTIVITY = ''tethercode.compaction''"

definition migrated_activity :: "jobj \<Rightarrow> string \<Rightarrow> jobj \<Rightarrow> jsv" where
  "migrated_activity value type content =
     JObj [(''id'', JStr (js_string (prop_of value ''id''))), (''role'', JStr ''activity''), (''activityType'', JStr type),
       (''content'', JObj content), (''createdAt'', JStr (js_string (prop_of value ''createdAt'')))]"

definition migrateLegacyMessage :: "jobj \<Rightarrow> jsv" where
  "migrateLegacyMessage value =
     (let systemKind = as_string (prop_of value ''systemKind'');
          content = with_default (as_string (prop_of value ''content'')) [];
          meta = prop_of value ''subAgentMeta''
      in if systemKind = Some ''reasoning''
         then JObj (obj_set ''content'' (JStr content) (obj_set ''role'' (JStr ''reasoning'') value))
         else if systemKind = Some ''tool''
         then JObj (obj_set ''content'' (JStr content) (obj_set ''toolCallId''
           (JStr (with_default (as_string (prop_of value ''toolCallId'')) (js_string (prop_of value ''id''))))
           (obj_set ''role'' (JStr ''tool'') value)))
         else if systemKind = Some ''subAgent''
         then migrated_activity value SUBAGENT_ACTIVITY
           ((''text'', JStr content) # (if toRecord meta \<noteq> None then [(''subAgent'', meta)] else []))
         else if systemKind = Some ''compaction''
         then migrated_activity value COMPACTION_ACTIVITY [(''text'', JStr content)]
         else JObj value)"

text \<open>Every message that is an object is migrated.\<close>

definition migrate_message :: "jsv \<Rightarrow> jsv" where
  "migrate_message m = (case m of JObj r \<Rightarrow> migrateLegacyMessage r | _ \<Rightarrow> m)"

definition migrateLegacyChat :: "jsv \<Rightarrow> jsv" where
  "migrateLegacyChat value =
     (case value of
        JObj chat \<Rightarrow>
          (case prop_of chat ''messages'' of
             JArr messages \<Rightarrow> JObj (obj_set ''messages'' (JArr (map migrate_message messages)) chat)
           | _ \<Rightarrow> value)
      | _ \<Rightarrow> value)"

definition isChatMessagePart :: "jsv \<Rightarrow> bool" where
  "isChatMessagePart value \<longleftrightarrow>
     (case toRecord value of
        None \<Rightarrow> False
      | Some part \<Rightarrow>
          let type = as_string (prop_of part ''type'') in
          if type = Some ''text'' then as_string (prop_of part ''text'') \<noteq> None
          else if type = Some ''image'' \<or> type = Some ''audio'' then True
          else if type = Some ''resourceLink'' then as_string (prop_of part ''uri'') \<noteq> None
          else type = Some ''resource'' \<and> js_record (prop_of part ''resource'') \<noteq> None)"

definition isChatMessage :: "(jsv \<Rightarrow> bool) \<Rightarrow> jsv \<Rightarrow> bool" where
  "isChatMessage valid value \<longleftrightarrow>
     (case toRecord value of
        None \<Rightarrow> False
      | Some message \<Rightarrow>
          valid (migrateLegacyMessage message) \<and> as_string (prop_of message ''createdAt'') \<noteq> None
          \<and> (prop_of message ''parts'' = JUndefined
             \<or> (case as_array (prop_of message ''parts'') of Some ps \<Rightarrow> list_all isChatMessagePart ps | None \<Rightarrow> False)))"

definition isChat :: "(jsv \<Rightarrow> bool) \<Rightarrow> jsv \<Rightarrow> bool" where
  "isChat valid value \<longleftrightarrow>
     (case toRecord value of
        None \<Rightarrow> False
      | Some chat \<Rightarrow>
          non_empty (as_string (prop_of chat ''id'')) \<noteq> None
          \<and> list_all (\<lambda>k. as_string (prop_of chat k) \<noteq> None)
              [''title'', ''status'', ''createdAt'', ''updatedAt'', ''statusUpdatedAt'', ''lastMessagePreview'']
          \<and> (case as_array (prop_of chat ''messages'') of Some ms \<Rightarrow> list_all (isChatMessage valid) ms | None \<Rightarrow> False))"

text \<open>\<open>JSON.parse(JSON.stringify(chat))\<close>\<close>

definition cloneChat :: "jsv \<Rightarrow> jsv" where
  "cloneChat chat = with_default (json_parse (json_text chat)) JNull"

definition instant_of :: "(string \<Rightarrow> int option) \<Rightarrow> jsv \<Rightarrow> string option" where
  "instant_of other v =
     (case as_string v of Some s \<Rightarrow> if date_parse other s \<noteq> None then Some s else None | None \<Rightarrow> None)"

definition normalizeCacheEntry ::
  "(jsv \<Rightarrow> bool) \<Rightarrow> (string \<Rightarrow> int option) \<Rightarrow> jsv \<Rightarrow> chatSnapshotCacheEntry option" where
  "normalizeCacheEntry valid other value =
     (let entry = toRecord value; migratedChat = migrateLegacyChat (opt_prop entry ''chat'') in
      case (instant_of other (opt_prop entry ''cachedAt''), instant_of other (opt_prop entry ''lastAccessedAt'')) of
        (Some cachedAt, Some lastAccessedAt) \<Rightarrow>
          if isChat valid migratedChat
          then Some \<lparr>ce_chat = cloneChat migratedChat, ce_cachedAt = cachedAt, ce_lastAccessedAt = lastAccessedAt\<rparr>
          else None
      | _ \<Rightarrow> None)"

definition fresh_entry :: "(string \<Rightarrow> int option) \<Rightarrow> int \<Rightarrow> chatSnapshotCacheEntry \<Rightarrow> bool" where
  "fresh_entry other now e \<longleftrightarrow>
     (case date_parse other (ce_cachedAt e) of Some t \<Rightarrow> now - t \<le> CHAT_SNAPSHOT_CACHE_MAX_AGE_MS | None \<Rightarrow> False)"

definition parseChatSnapshotCache ::
  "(jsv \<Rightarrow> bool) \<Rightarrow> (string \<Rightarrow> int option) \<Rightarrow> (string \<Rightarrow> string \<Rightarrow> int) \<Rightarrow> string \<Rightarrow> string \<Rightarrow> int
     \<Rightarrow> chatSnapshotCache" where
  "parseChatSnapshotCache valid other compare raw profileId now =
     (let parsed = Option.bind (json_parse raw) toRecord; empty = createEmptyChatSnapshotCache profileId (to_iso_string now) in
      case as_array (opt_prop parsed ''entries'') of
        None \<Rightarrow> empty
      | Some stored \<Rightarrow>
          if opt_prop parsed ''version'' \<noteq> JNum CHAT_SNAPSHOT_CACHE_VERSION \<or> opt_prop parsed ''profileId'' \<noteq> JStr profileId
          then empty
          else let entries = sort_by (\<lambda>l r. compare (ce_lastAccessedAt r) (ce_lastAccessedAt l))
                     (filter (fresh_entry other now) (List.map_filter (normalizeCacheEntry valid other) stored));
                   selected = as_string (opt_prop parsed ''selectedChatId'')
               in boundChatSnapshotCache compare
                    \<lparr>sc_profileId = profileId,
                     sc_selectedChatId = (if list_ex (\<lambda>e. chat_id e = selected) entries then selected else None),
                     sc_updatedAt = with_default (instant_of other (opt_prop parsed ''updatedAt'')) (to_iso_string now),
                     sc_entries = entries\<rparr>)"

section \<open>Updating\<close>

definition used_now :: "string \<Rightarrow> string \<Rightarrow> chatSnapshotCacheEntry list \<Rightarrow> chatSnapshotCacheEntry list" where
  "used_now selected now entries =
     (case find (\<lambda>(_, e). chat_id e = Some selected) (enumerate 0 entries) of
        Some (i, e) \<Rightarrow> entries[i := e\<lparr>ce_lastAccessedAt := now\<rparr>]
      | None \<Rightarrow> entries)"

definition updateChatSnapshotCache ::
  "(jsv \<Rightarrow> bool) \<Rightarrow> (string \<Rightarrow> string \<Rightarrow> int) \<Rightarrow> chatSnapshotCache \<Rightarrow> string option \<Rightarrow> jsv option \<Rightarrow> string
     \<Rightarrow> chatSnapshotCache" where
  "updateChatSnapshotCache valid compare cache selectedChatId chat now =
     (let selected = non_empty (map_option trim selectedChatId);
          chatId = Option.bind chat (\<lambda>c. as_string (opt_prop (toRecord c) ''id''));
          others = map (\<lambda>e. e\<lparr>ce_chat := cloneChat (ce_chat e)\<rparr>)
            (filter (\<lambda>e. chatId = None \<or> chat_id e \<noteq> chatId) (sc_entries cache));
          entries =
            (case chat of
               Some c \<Rightarrow>
                 if isChat valid c then \<lparr>ce_chat = cloneChat c, ce_cachedAt = now, ce_lastAccessedAt = now\<rparr> # others
                 else (case selected of Some i \<Rightarrow> used_now i now others | None \<Rightarrow> others)
             | None \<Rightarrow> (case selected of Some i \<Rightarrow> used_now i now others | None \<Rightarrow> others))
      in boundChatSnapshotCache compare
           \<lparr>sc_profileId = sc_profileId cache, sc_selectedChatId = selected, sc_updatedAt = now, sc_entries = entries\<rparr>)"

section \<open>The file\<close>

definition getChatSnapshotCachePath :: "string \<Rightarrow> string option \<Rightarrow> string option" where
  "getChatSnapshotCachePath profileId base =
     (case non_empty base of
        None \<Rightarrow> None
      | Some b \<Rightarrow>
          if trim profileId = [] then None
          else Some (b @ ''tethercode-chat-cache/'' @ encodeURIComponent profileId @ ''/snapshots.json''))"

text \<open>The file is read, or cannot be.\<close>

definition loadChatSnapshotCache ::
  "(jsv \<Rightarrow> bool) \<Rightarrow> (string \<Rightarrow> int option) \<Rightarrow> (string \<Rightarrow> string \<Rightarrow> int) \<Rightarrow> string option
     \<Rightarrow> (string \<Rightarrow> string option) \<Rightarrow> string \<Rightarrow> int \<Rightarrow> chatSnapshotCache" where
  "loadChatSnapshotCache valid other compare base files profileId now =
     (case Option.bind (getChatSnapshotCachePath profileId base) files of
        Some raw \<Rightarrow> parseChatSnapshotCache valid other compare raw profileId now
      | None \<Rightarrow> createEmptyChatSnapshotCache profileId (to_iso_string now))"

definition saved_text :: "(string \<Rightarrow> string \<Rightarrow> int) \<Rightarrow> chatSnapshotCache \<Rightarrow> string" where
  "saved_text compare cache = json_text (cache_json (boundChatSnapshotCache compare cache))"

text \<open>
  Writes of one path wait for the one before: \<open>cw_chains\<close> has the last write of every path that has
  one, \<open>cw_pending\<close> the writes not done yet with the write each waits for.
\<close>

record cacheWrite =
  wr_id :: nat
  wr_path :: string
  wr_after :: "nat option"
  wr_text :: string

record cacheWrites =
  cw_files :: "(string \<times> string) list"
  cw_chains :: "(string \<times> nat) list"
  cw_pending :: "cacheWrite list"
  cw_next :: nat

definition saveChatSnapshotCache ::
  "(string \<Rightarrow> string \<Rightarrow> int) \<Rightarrow> string option \<Rightarrow> chatSnapshotCache \<Rightarrow> cacheWrites \<Rightarrow> cacheWrites" where
  "saveChatSnapshotCache compare base cache w =
     (case getChatSnapshotCachePath (sc_profileId cache) base of
        None \<Rightarrow> w
      | Some path \<Rightarrow>
          w\<lparr>cw_chains := AList.update path (cw_next w) (cw_chains w),
            cw_pending := cw_pending w @ [\<lparr>wr_id = cw_next w, wr_path = path, wr_after = map_of (cw_chains w) path,
              wr_text = saved_text compare cache\<rparr>],
            cw_next := Suc (cw_next w)\<rparr>)"

text \<open>A write runs when the one it waits for has settled; \<open>ok\<close> tells whether the file system takes it.\<close>

definition may_write :: "cacheWrite \<Rightarrow> cacheWrites \<Rightarrow> bool" where
  "may_write x w \<longleftrightarrow> x \<in> set (cw_pending w) \<and> (\<forall>i. wr_after x = Some i \<longrightarrow> i \<notin> wr_id ` set (cw_pending w))"

definition written :: "cacheWrite \<Rightarrow> bool \<Rightarrow> cacheWrites \<Rightarrow> cacheWrites" where
  "written x ok w =
     w\<lparr>cw_files := (if ok then AList.update (wr_path x) (wr_text x) (cw_files w) else cw_files w),
       cw_chains := (if map_of (cw_chains w) (wr_path x) = Some (wr_id x) then AList.delete (wr_path x) (cw_chains w)
         else cw_chains w),
       cw_pending := filter (\<lambda>y. wr_id y \<noteq> wr_id x) (cw_pending w)\<rparr>"

definition deleteChatSnapshotCache :: "string option \<Rightarrow> string \<Rightarrow> cacheWrites \<Rightarrow> cacheWrites" where
  "deleteChatSnapshotCache base profileId w =
     (case getChatSnapshotCachePath profileId base of
        None \<Rightarrow> w
      | Some path \<Rightarrow> w\<lparr>cw_files := AList.delete path (cw_files w), cw_chains := AList.delete path (cw_chains w)\<rparr>)"

end
