(* ===== verification/SnapshotCacheLaws.thy ===== *)
theory SnapshotCacheLaws
  imports SnapshotCache JsonLaws
begin

text \<open>
  The snapshot cache stays within its bounds, keeps the selected chat, reads back what was saved, and
  the last save of a file wins.
\<close>

section \<open>Bounds\<close>

lemma units_append [simp]: "units (a @ b) = units a + units b"
  by (simp add: units_def)

lemma units_Nil [simp]: "units [] = 0"
  by (simp add: units_def)

lemma keep_entries_kept: "\<exists>es'. keep_entries cache kept es = kept @ es' \<and> set es' \<subseteq> set es"
proof (induction es arbitrary: kept)
  case (Cons e es)
  show ?case
    using Cons [of kept] Cons [of "kept @ [e]"] by auto
qed simp

lemma keep_entries_bounded:
  "length kept \<le> CHAT_SNAPSHOT_CACHE_MAX_ENTRIES \<Longrightarrow> length (keep_entries cache kept es) \<le> CHAT_SNAPSHOT_CACHE_MAX_ENTRIES"
  by (induction es arbitrary: kept) auto

lemma keep_entries_fit:
  "kept = [] \<or> fits cache kept \<Longrightarrow> keep_entries cache kept es = [] \<or> fits cache (keep_entries cache kept es)"
  by (induction es arbitrary: kept) auto

definition selected_json :: "string option \<Rightarrow> jsv" where
  "selected_json s = (case s of Some i \<Rightarrow> JStr i | None \<Rightarrow> JNull)"

lemma selected_size: "2 \<le> units (json_text (selected_json s))" "units (json_text (selected_json None)) = 4"
proof -
  have q: "char_units CHR 0x22 = 1" "char_units CHR ''n'' = 1" "char_units CHR ''u'' = 1" "char_units CHR ''l'' = 1"
    by code_simp+
  have "2 \<le> units (quote t)" for t by (simp add: quote_def units_def q)
  then show "2 \<le> units (json_text (selected_json s))" "units (json_text (selected_json None)) = 4"
    by (auto simp: selected_json_def units_def q [unfolded units_def] split: option.split)
qed

lemma cache_size:
  "units (json_text (cache_json (c\<lparr>sc_selectedChatId := t\<rparr>))) + units (json_text (selected_json (sc_selectedChatId c)))
     = units (json_text (cache_json c)) + units (json_text (selected_json t))"
proof -
  have sel: "(case x of Some i \<Rightarrow> JStr i | None \<Rightarrow> JNull) = selected_json x" for x by (simp add: selected_json_def)
  have "selected_json x \<noteq> JUndefined" for x by (simp add: selected_json_def split: option.split)
  then show ?thesis by (simp add: cache_json_def sel units_def)
qed

lemma bound_entries:
  "sc_entries (boundChatSnapshotCache compare cache)
     = keep_entries cache [] (sort_by (by_use compare (sc_selectedChatId cache)) (sc_entries cache))"
  by (simp add: boundChatSnapshotCache_def Let_def)


section \<open>The selected chat\<close>

lemma by_use_selected:
  "chat_id x = Some i \<Longrightarrow> by_use compare (Some i) x y = - 1"
  "chat_id x = Some i \<Longrightarrow> chat_id y \<noteq> Some i \<Longrightarrow> by_use compare (Some i) y x = 1"
  by (simp_all add: by_use_def)

lemma sort_selected_first:
  assumes "chat_id x = Some i" "\<forall>y \<in> set xs. chat_id y \<noteq> Some i"
  shows "sort_by (by_use compare (Some i)) (xs @ x # ys) = x # sort_by (by_use compare (Some i)) (xs @ ys)"
  by (rule sort_first) (use by_use_selected [OF assms(1)] assms(2) in auto)

lemma keep_first:
  assumes "fits cache [e]"
  shows "\<exists>es'. keep_entries cache [] (e # es) = e # es'"
  using assms keep_entries_kept [of cache "[e]" es] by (auto simp: CHAT_SNAPSHOT_CACHE_MAX_ENTRIES_def)


section \<open>Reading back\<close>

definition current_message :: "jsv \<Rightarrow> bool" where
  "current_message m \<longleftrightarrow>
     (case m of
        JObj r \<Rightarrow> as_string (prop_of r ''systemKind'')
          \<notin> {Some ''reasoning'', Some ''tool'', Some ''subAgent'', Some ''compaction''}
      | _ \<Rightarrow> True)"

text \<open>An entry that the app can have saved and that is not older than thirty days\<close>

definition entry_ok :: "(jsv \<Rightarrow> bool) \<Rightarrow> (string \<Rightarrow> int option) \<Rightarrow> int \<Rightarrow> chatSnapshotCacheEntry \<Rightarrow> bool" where
  "entry_ok valid other now e \<longleftrightarrow>
     json_plain (ce_chat e) \<and> isChat valid (ce_chat e)
     \<and> list_all current_message (with_default (as_array (opt_prop (toRecord (ce_chat e)) ''messages'')) [])
     \<and> date_parse other (ce_cachedAt e) \<noteq> None \<and> date_parse other (ce_lastAccessedAt e) \<noteq> None
     \<and> fresh_entry other now e"

lemma migrate_current: "current_message m \<Longrightarrow> migrate_message m = m"
  by (cases m) (simp_all add: current_message_def migrate_message_def migrateLegacyMessage_def Let_def)

lemma update_same: "map_of m k = Some v \<Longrightarrow> AList.update k v m = m"
  by (induction m) (auto split: if_splits)

lemma obj_set_same: "map_of m k = Some v \<Longrightarrow> obj_set k v m = m"
  by (auto simp: obj_set_def update_same dest: map_of_SomeD intro: rev_image_eqI)

lemma migrate_current_chat:
  assumes "list_all current_message (with_default (as_array (opt_prop (toRecord chat) ''messages'')) [])"
  shows "migrateLegacyChat chat = chat"
proof (cases chat)
  case (JObj r)
  show ?thesis
  proof (cases "prop_of r ''messages''")
    case (JArr ms)
    then have "map_of r ''messages'' = Some (JArr ms)" by (auto simp: prop_of_def split: option.splits)
    moreover have "map migrate_message ms = ms"
      using assms JObj JArr by (auto simp: opt_prop_def list_all_iff migrate_current intro!: map_idI)
    ultimately show ?thesis using JObj JArr by (simp add: migrateLegacyChat_def obj_set_same)
  qed (simp_all add: JObj migrateLegacyChat_def)
qed (simp_all add: migrateLegacyChat_def)

lemma read_entry:
  assumes "entry_ok valid other now e"
  shows "normalizeCacheEntry valid other (entry_json e) = Some e"
proof -
  have "migrateLegacyChat (ce_chat e) = ce_chat e" "cloneChat (ce_chat e) = ce_chat e"
    using assms migrate_current_chat by (simp_all add: entry_ok_def cloneChat_def json_parse_text)
  then show ?thesis
    using assms by (simp add: normalizeCacheEntry_def entry_json_def opt_prop_def prop_of_def instant_of_def entry_ok_def Let_def)
qed

lemma keys_entries_found:
  "from_entries [(''chat'', a), (''cachedAt'', b), (''lastAccessedAt'', c)]
     = [(''chat'', a), (''cachedAt'', b), (''lastAccessedAt'', c)]"
  "from_entries [(''version'', a), (''profileId'', b), (''selectedChatId'', c), (''updatedAt'', d), (''entries'', e)]
     = [(''version'', a), (''profileId'', b), (''selectedChatId'', c), (''updatedAt'', d), (''entries'', e)]"
proof -
  have idx: "array_index k = None" if "k \<in> {''chat'', ''cachedAt'', ''lastAccessedAt'', ''version'', ''profileId'',
      ''selectedChatId'', ''updatedAt'', ''entries''}" for k
    using that by (auto simp: array_index_def is_digit_def)
  then show
    "from_entries [(''chat'', a), (''cachedAt'', b), (''lastAccessedAt'', c)]
       = [(''chat'', a), (''cachedAt'', b), (''lastAccessedAt'', c)]"
    "from_entries [(''version'', a), (''profileId'', b), (''selectedChatId'', c), (''updatedAt'', d), (''entries'', e)]
       = [(''version'', a), (''profileId'', b), (''selectedChatId'', c), (''updatedAt'', d), (''entries'', e)]"
    by (simp_all add: from_entries_def obj_set_def)
qed

lemma plain_cache:
  assumes "list_all (\<lambda>e. json_plain (ce_chat e)) (sc_entries c)"
  shows "json_plain (cache_json c)"
proof -
  have "json_plain (entry_json e)" if "json_plain (ce_chat e)" for e
    using that by (simp add: entry_json_def keys_entries_found)
  then show ?thesis
    using assms by (auto simp: cache_json_def keys_entries_found list_all_iff CHAT_SNAPSHOT_CACHE_VERSION_def split: option.split)
qed

lemma keep_all:
  "length (keep_entries cache kept es) \<le> length kept + length es"
  "length (keep_entries cache kept es) = length kept + length es \<Longrightarrow> keep_entries cache kept es = kept @ es"
proof (induction es arbitrary: kept)
  case (Cons e es)
  {
    case 1
    show ?case using Cons(1) [of kept] Cons(1) [of "kept @ [e]"] by auto
  next
    case 2
    then show ?case using Cons(1) [of kept] Cons(2) [of "kept @ [e]"] by (auto split: if_splits)
  }
qed simp_all

lemma sort_by_cong:
  assumes "\<And>x y. x \<in> set xs \<Longrightarrow> y \<in> set xs \<Longrightarrow> f x y = g x y"
  shows "sort_by f xs = sort_by g xs"
proof -
  have ins: "(\<And>y. y \<in> set ys \<Longrightarrow> f x y = g x y) \<Longrightarrow> insert_by f x ys = insert_by g x ys" for x ys
    by (induction ys) auto
  show ?thesis using assms
  proof (induction xs)
    case (Cons x xs)
    then have "sort_by f xs = sort_by g xs" by simp
    then show ?case using ins [of "sort_by g xs" x] Cons.prems by (simp add: sort_by_Cons)
  qed (simp add: sort_by_def)
qed

lemma insert_by_split: "\<exists>us vs. ys = us @ vs \<and> insert_by cmp x ys = us @ x # vs"
proof (induction ys)
  case (Cons y ys)
  then obtain us vs where "ys = us @ vs" "insert_by cmp x ys = us @ x # vs" by blast
  then show ?case
    by (cases "cmp x y \<le> 0") (auto intro: exI [of _ "[]"] exI [of _ "y # us"])
qed simp

text \<open>Sorting by use alone and then with the selected chat first changes nothing when it was so sorted.\<close>

lemma sort_twice:
  assumes sorted: "sort_by (by_use compare s) es = es" and "distinct (map chat_id es)"
    and "s = None \<or> s \<in> chat_id ` set es"
  shows "sort_by (by_use compare s) (sort_by (by_use compare None) es) = es"
proof (cases s)
  case None
  then show ?thesis using sorted by simp
next
  case (Some i)
  then obtain x where x: "x \<in> set es" "chat_id x = Some i" using assms(3) by auto
  then obtain xs ys where es: "es = xs @ x # ys" by (meson split_list)
  have others: "\<forall>y \<in> set (xs @ ys). chat_id y \<noteq> Some i" using assms(2) x(2) by (auto simp: es) (metis imageI)+
  define R where "R = sort_by (by_use compare s) (xs @ ys)"
  have ER: "es = x # R"
    using sort_selected_first [OF x(2), of xs compare ys] others sorted by (simp add: es Some R_def)
  have noR: "\<forall>y \<in> set R. chat_id y \<noteq> Some i" using others by (simp add: R_def)
  have R: "sort_by (by_use compare s) R = R"
    using sorted sort_selected_first [OF x(2), of "[]" compare R] by (simp add: ER Some)
  have "sort_by (by_use compare None) R = sort_by (by_use compare s) R"
    by (rule sort_by_cong) (use noR in \<open>simp add: by_use_def Some\<close>)
  then have "sort_by (by_use compare None) es = insert_by (by_use compare None) x R"
    by (simp add: ER sort_by_Cons R)
  moreover obtain us vs where uv: "R = us @ vs" "insert_by (by_use compare None) x R = us @ x # vs"
    using insert_by_split by metis
  moreover have "sort_by (by_use compare s) (us @ x # vs) = x # sort_by (by_use compare s) R"
    using sort_selected_first [OF x(2), of us compare vs] noR by (simp add: Some uv(1))
  ultimately show ?thesis by (metis R ER)
qed

text \<open>C38: a cache that is within its bounds, holds different chats of the current message format and is not
  older than thirty days is loaded exactly as it was saved.\<close>

theorem saved_cache_loads_back:
  assumes within: "boundChatSnapshotCache compare c = c"
    and ok: "list_all (entry_ok valid other now) (sc_entries c)" "distinct (map chat_id (sc_entries c))"
    and updated: "date_parse other (sc_updatedAt c) \<noteq> None"
    and path: "getChatSnapshotCachePath (sc_profileId c) base = Some path" "files path = Some (saved_text compare c)"
  shows "loadChatSnapshotCache valid other compare base files (sc_profileId c) now = c"
proof -
  let ?es = "sc_entries c" and ?s = "sc_selectedChatId c"
  have kept: "keep_entries c [] (sort_by (by_use compare ?s) ?es) = ?es"
    using arg_cong [OF within, of sc_entries] by (simp add: bound_entries)
  then have sorted: "sort_by (by_use compare ?s) ?es = ?es"
    using keep_all(2) [of c "[]" "sort_by (by_use compare ?s) ?es"] by simp
  have selected: "?s = None \<or> ?s \<in> chat_id ` set ?es"
    using arg_cong [OF within, of sc_selectedChatId]
    by (auto simp: boundChatSnapshotCache_def Let_def kept list_ex_iff split: if_splits intro: rev_image_eqI)
  have parsed: "json_parse (json_text (cache_json c)) = Some (cache_json c)"
    using ok(1) by (intro json_parse_text plain_cache) (auto simp: list_all_iff entry_ok_def)
  have "List.map_filter (normalizeCacheEntry valid other \<circ> entry_json) es = es"
    if "list_all (entry_ok valid other now) es" for es
    using that by (induction es) (auto simp: List.map_filter_simps read_entry)
  then have "List.map_filter (normalizeCacheEntry valid other \<circ> entry_json) ?es = ?es" using ok(1) .
  moreover have "filter (fresh_entry other now) ?es = ?es"
    using ok(1) by (auto simp: list_all_iff entry_ok_def)
  ultimately have stored: "filter (fresh_entry other now)
      (List.map_filter (normalizeCacheEntry valid other) (map entry_json ?es)) = ?es"
    by (simp add: List.map_filter_def comp_def filter_map)
  let ?by = "\<lambda>l r. compare (ce_lastAccessedAt r) (ce_lastAccessedAt l)"
  have by_none: "?by = by_use compare None" by (simp add: by_use_def fun_eq_iff)
  have sel: "as_string (case ?s of Some i \<Rightarrow> JStr i | None \<Rightarrow> JNull) = ?s" by (cases ?s) simp_all
  let ?c = "c\<lparr>sc_entries := sort_by ?by ?es\<rparr>"
  have "boundChatSnapshotCache compare ?c = c"
  proof -
    have same: "keep_entries (c\<lparr>sc_entries := xs\<rparr>) kept es = keep_entries c kept es" for xs kept es
      by (induction es arbitrary: kept) (simp_all add: fits_def)
    have es: "keep_entries ?c [] (sort_by (by_use compare ?s) (sort_by ?by ?es)) = ?es"
      unfolding by_none using kept sorted sort_twice [OF sorted ok(2) selected] same by simp
    have "(if list_ex (\<lambda>e. chat_id e = ?s) ?es then ?s else None) = ?s"
      using selected by (auto simp: list_ex_iff)
    then show ?thesis by (simp add: boundChatSnapshotCache_def Let_def es)
  qed
  moreover have "parseChatSnapshotCache valid other compare (json_text (cache_json c)) (sc_profileId c) now
      = boundChatSnapshotCache compare ?c"
  proof -
    have ex: "\<not> list_ex (\<lambda>e. chat_id e = ?s) (sort_by ?by ?es) \<Longrightarrow> ?s = None"
      using selected by (auto simp: list_ex_iff)
    have whole: "\<lparr>sc_profileId = sc_profileId c, sc_selectedChatId = ?s, sc_updatedAt = sc_updatedAt c, sc_entries = es\<rparr>
        = c\<lparr>sc_entries := es\<rparr>" for es
      by (cases c) simp
    have fields: "opt_prop (Option.bind (Some (cache_json c)) toRecord) k =
        (if k = ''version'' then JNum 1 else if k = ''profileId'' then JStr (sc_profileId c)
         else if k = ''selectedChatId'' then (case ?s of Some i \<Rightarrow> JStr i | None \<Rightarrow> JNull)
         else if k = ''updatedAt'' then JStr (sc_updatedAt c)
         else if k = ''entries'' then JArr (map entry_json ?es) else JUndefined)" for k
      by (simp add: cache_json_def opt_prop_def prop_of_def CHAT_SNAPSHOT_CACHE_VERSION_def)
    show ?thesis
    proof (cases "list_ex (\<lambda>e. chat_id e = ?s) (sort_by ?by ?es)")
      case True
      then show ?thesis
        using updated unfolding parseChatSnapshotCache_def parsed Let_def fields
        by (simp add: stored sel instant_of_def CHAT_SNAPSHOT_CACHE_VERSION_def whole)
    next
      case False
      have "\<lparr>sc_profileId = sc_profileId c, sc_selectedChatId = None, sc_updatedAt = sc_updatedAt c, sc_entries = es\<rparr>
          = c\<lparr>sc_entries := es\<rparr>" for es
        using whole [of es] ex [OF False] by simp
      then show ?thesis
        using updated False unfolding parseChatSnapshotCache_def parsed Let_def fields
        by (simp add: stored sel instant_of_def CHAT_SNAPSHOT_CACHE_VERSION_def)
    qed
  qed
  ultimately show ?thesis
    by (simp add: loadChatSnapshotCache_def path saved_text_def within)
qed

definition cached_chat :: jsv where
  "cached_chat = JObj [(''id'', JStr ''c1''), (''title'', JStr ''T''), (''status'', JStr ''idle''),
     (''createdAt'', JStr ''t''), (''updatedAt'', JStr ''t''), (''statusUpdatedAt'', JStr ''t''),
     (''lastMessagePreview'', JStr []),
     (''messages'', JArr [JObj [(''id'', JStr ''m''), (''role'', JStr ''user''), (''content'', JStr ''hi''),
       (''createdAt'', JStr ''t'')]])]"

definition cached_at :: string where "cached_at = ''2026-01-01T00:00:00.000Z''"

definition one_chat :: chatSnapshotCache where
  "one_chat = \<lparr>sc_profileId = ''p'', sc_selectedChatId = Some ''c1'', sc_updatedAt = cached_at,
     sc_entries = [\<lparr>ce_chat = cached_chat, ce_cachedAt = cached_at, ce_lastAccessedAt = cached_at\<rparr>]\<rparr>"

definition one_path :: string where "one_path = ''/d/tethercode-chat-cache/p/snapshots.json''"

definition all_valid :: "jsv \<Rightarrow> bool" where "all_valid _ = True"
definition no_dates :: "string \<Rightarrow> int option" where "no_dates _ = None"
definition equal_text :: "string \<Rightarrow> string \<Rightarrow> int" where "equal_text _ _ = 0"

definition one_entry :: chatSnapshotCacheEntry where
  "one_entry = \<lparr>ce_chat = cached_chat, ce_cachedAt = cached_at, ce_lastAccessedAt = cached_at\<rparr>"

lemma one_fits: "fits (\<lparr>sc_profileId = ''p'', sc_selectedChatId = Some ''c1'', sc_updatedAt = cached_at, sc_entries = es\<rparr>) [one_entry]"
proof -
  have "units (json_text (cache_json
      \<lparr>sc_profileId = ''p'', sc_selectedChatId = Some ''c1'', sc_updatedAt = cached_at, sc_entries = [one_entry]\<rparr>)) \<le> 600"
    by code_simp
  then show ?thesis by (simp add: fits_def CHAT_SNAPSHOT_CACHE_MAX_BYTES_def)
qed

lemma one_bounded: "boundChatSnapshotCache equal_text one_chat = one_chat"
proof -
  have "chat_id one_entry = Some ''c1''" by code_simp
  moreover have one: "one_chat = \<lparr>sc_profileId = ''p'', sc_selectedChatId = Some ''c1'', sc_updatedAt = cached_at, sc_entries = [one_entry]\<rparr>"
    by (simp add: one_chat_def one_entry_def)
  ultimately show ?thesis
    using one_fits unfolding one by (simp add: boundChatSnapshotCache_def Let_def sort_by_def CHAT_SNAPSHOT_CACHE_MAX_ENTRIES_def)
qed

theorem saved_cache_loads_back_witness:
  "loadChatSnapshotCache all_valid no_dates equal_text (Some ''/d/'') [one_path \<mapsto> saved_text equal_text one_chat] ''p'' 1767225600000
     = one_chat"
proof -
  note one_bounded
  moreover have "list_all (entry_ok all_valid no_dates 1767225600000) (sc_entries one_chat)" by code_simp
  moreover have "distinct (map chat_id (sc_entries one_chat))" by code_simp
  moreover have "date_parse no_dates (sc_updatedAt one_chat) \<noteq> None" by code_simp
  moreover have "getChatSnapshotCachePath (sc_profileId one_chat) (Some ''/d/'') = Some one_path" by code_simp
  moreover have "sc_profileId one_chat = ''p''" by (simp add: one_chat_def)
  ultimately show ?thesis
    using saved_cache_loads_back [of equal_text one_chat all_valid no_dates 1767225600000 "Some ''/d/''" one_path
        "[one_path \<mapsto> saved_text equal_text one_chat]"] by simp
qed


section \<open>The order of writes\<close>

text \<open>
  Saves and writes in any order; a chain also goes on after a write that failed.  \<open>saved\<close> remembers the
  text of the last save of each path and \<open>failing\<close> whether a write of the path failed since.
\<close>

record savedFiles =
  sf_writes :: cacheWrites
  sf_saved :: "string \<Rightarrow> string option"
  sf_failed :: "string set"

definition noWrites :: "(string \<times> string) list \<Rightarrow> savedFiles" where
  "noWrites files =
     \<lparr>sf_writes = \<lparr>cw_files = files, cw_chains = [], cw_pending = [], cw_next = 0\<rparr>, sf_saved = (\<lambda>_. None), sf_failed = {}\<rparr>"

inductive save_step :: "(string \<Rightarrow> string \<Rightarrow> int) \<Rightarrow> string option \<Rightarrow> savedFiles \<Rightarrow> savedFiles \<Rightarrow> bool"
  for compare base where
  save_cache: "getChatSnapshotCachePath (sc_profileId c) base = Some path \<Longrightarrow>
    save_step compare base s (s\<lparr>sf_writes := saveChatSnapshotCache compare base c (sf_writes s),
      sf_saved := (sf_saved s)(path \<mapsto> saved_text compare c), sf_failed := sf_failed s - {path}\<rparr>)"
| write_done: "may_write x (sf_writes s) \<Longrightarrow>
    save_step compare base s (s\<lparr>sf_writes := written x ok (sf_writes s),
      sf_failed := (if ok then sf_failed s else insert (wr_path x) (sf_failed s))\<rparr>)"

definition writes_of :: "string \<Rightarrow> cacheWrites \<Rightarrow> cacheWrite list" where
  "writes_of path w = filter (\<lambda>x. wr_path x = path) (cw_pending w)"

text \<open>Every write waits for the one before it, and the last one writes what was saved last.\<close>

fun waits_in_line :: "cacheWrite list \<Rightarrow> bool" where
  "waits_in_line (x # y # xs) \<longleftrightarrow> wr_after y = Some (wr_id x) \<and> waits_in_line (y # xs)"
| "waits_in_line _ \<longleftrightarrow> True"

definition path_ok :: "savedFiles \<Rightarrow> string \<Rightarrow> bool" where
  "path_ok s path \<longleftrightarrow>
     (let w = sf_writes s; line = writes_of path w in
      waits_in_line line \<and> map_of (cw_chains w) path = (if line = [] then None else Some (wr_id (last line)))
      \<and> (if line = []
         then path \<notin> sf_failed s \<longrightarrow> (\<forall>t. sf_saved s path = Some t \<longrightarrow> map_of (cw_files w) path = Some t)
         else sf_saved s path = Some (wr_text (last line))))"

definition writes_ok :: "savedFiles \<Rightarrow> bool" where
  "writes_ok s \<longleftrightarrow>
     (let w = sf_writes s in
      distinct (map wr_id (cw_pending w)) \<and> (\<forall>x \<in> set (cw_pending w). wr_id x < cw_next w) \<and> (\<forall>path. path_ok s path))"

lemma line_append:
  "waits_in_line (xs @ [x]) \<longleftrightarrow> waits_in_line xs \<and> (xs \<noteq> [] \<longrightarrow> wr_after x = Some (wr_id (last xs)))"
  by (induction xs rule: waits_in_line.induct) auto

lemma line_tl: "waits_in_line (x # xs) \<Longrightarrow> waits_in_line xs"
  by (cases xs) auto

lemma line_first:
  assumes "waits_in_line xs" "x \<in> set xs" "\<forall>i. wr_after x = Some i \<longrightarrow> i \<notin> wr_id ` set xs"
  shows "x = hd xs"
  using assms by (induction xs rule: waits_in_line.induct) auto

lemma writes_of_saved:
  assumes "getChatSnapshotCachePath (sc_profileId c) base = Some path"
  shows "writes_of p (saveChatSnapshotCache compare base c w) =
    (if p = path
     then writes_of p w @ [\<lparr>wr_id = cw_next w, wr_path = path, wr_after = map_of (cw_chains w) path,
       wr_text = saved_text compare c\<rparr>]
     else writes_of p w)"
  using assms by (simp add: writes_of_def saveChatSnapshotCache_def)

lemma writes_of_written:
  assumes "distinct (map wr_id (cw_pending w))" "x \<in> set (cw_pending w)"
    and "waits_in_line (writes_of (wr_path x) w)" "may_write x w"
  shows "writes_of p (written x ok w) = (if p = wr_path x then tl (writes_of p w) else writes_of p w)"
proof -
  have same: "y = x" if "y \<in> set (cw_pending w)" "wr_id y = wr_id x" for y
    using assms(1,2) that by (meson distinct_map inj_onD)
  have all: "writes_of p (written x ok w) = filter (\<lambda>y. y \<noteq> x) (writes_of p w)"
    by (auto simp: writes_of_def written_def intro!: filter_cong dest: same)
  show ?thesis
  proof (cases "p = wr_path x")
    case True
    have "x \<in> set (writes_of p w)" using assms(2) True by (simp add: writes_of_def)
    moreover have "\<forall>i. wr_after x = Some i \<longrightarrow> i \<notin> wr_id ` set (writes_of p w)"
      using assms(4) by (auto simp: may_write_def writes_of_def)
    ultimately have hd: "x = hd (writes_of p w)" "writes_of p w \<noteq> []"
      using line_first [of "writes_of p w" x] assms(3) True by auto
    have "distinct (writes_of p w)"
      using assms(1) by (simp add: writes_of_def distinct_map)
    then have "filter (\<lambda>y. y \<noteq> x) (writes_of p w) = tl (writes_of p w)"
      using hd by (cases "writes_of p w") (auto simp: filter_id_conv)
    then show ?thesis using all True by simp
  next
    case False
    then have "filter (\<lambda>y. y \<noteq> x) (writes_of p w) = writes_of p w"
      by (auto simp: writes_of_def intro!: filter_cong)
    then show ?thesis using all False by simp
  qed
qed

lemma save_keeps_ok:
  assumes "writes_ok s" "getChatSnapshotCachePath (sc_profileId c) base = Some path"
  shows "writes_ok (s\<lparr>sf_writes := saveChatSnapshotCache compare base c (sf_writes s),
      sf_saved := (sf_saved s)(path \<mapsto> saved_text compare c), sf_failed := sf_failed s - {path}\<rparr>)" (is "writes_ok ?s")
proof -
  let ?w = "sf_writes s" and ?w' = "saveChatSnapshotCache compare base c (sf_writes s)"
  have "distinct (map wr_id (cw_pending ?w'))" "\<forall>x \<in> set (cw_pending ?w'). wr_id x < cw_next ?w'"
    using assms by (auto simp: writes_ok_def Let_def saveChatSnapshotCache_def less_Suc_eq)
  moreover have "path_ok ?s p" for p
  proof -
    have "map_of (cw_chains ?w') p = (if p = path then Some (cw_next ?w) else map_of (cw_chains ?w) p)"
      "cw_files ?w' = cw_files ?w"
      using assms(2) by (simp_all add: saveChatSnapshotCache_def update_conv')
    moreover have "path_ok s p" using assms(1) by (simp add: writes_ok_def Let_def)
    ultimately show ?thesis
      using assms(2) by (auto simp: path_ok_def Let_def writes_of_saved line_append split: if_splits)
  qed
  ultimately show ?thesis by (simp add: writes_ok_def Let_def)
qed

lemma write_keeps_ok:
  assumes "writes_ok s" "may_write x (sf_writes s)"
  shows "writes_ok (s\<lparr>sf_writes := written x ok (sf_writes s),
      sf_failed := (if ok then sf_failed s else insert (wr_path x) (sf_failed s))\<rparr>)" (is "writes_ok ?s")
proof -
  let ?w = "sf_writes s" and ?w' = "written x ok (sf_writes s)"
  have d: "distinct (map wr_id (cw_pending ?w))" and x: "x \<in> set (cw_pending ?w)"
    using assms by (simp_all add: writes_ok_def Let_def may_write_def)
  have ok: "path_ok s p" for p using assms(1) by (simp add: writes_ok_def Let_def)
  have line: "waits_in_line (writes_of (wr_path x) ?w)"
    using ok [of "wr_path x"] by (simp add: path_ok_def Let_def)
  have of: "writes_of p ?w' = (if p = wr_path x then tl (writes_of p ?w) else writes_of p ?w)" for p
    by (rule writes_of_written [OF d x line assms(2)])
  have xin: "x \<in> set (writes_of (wr_path x) ?w)" using x by (simp add: writes_of_def)
  have "\<forall>i. wr_after x = Some i \<longrightarrow> i \<notin> wr_id ` set (writes_of (wr_path x) ?w)"
    using assms(2) by (auto simp: may_write_def writes_of_def)
  then obtain rest where rest: "writes_of (wr_path x) ?w = x # rest"
    using line_first [OF line xin] xin by (cases "writes_of (wr_path x) ?w") auto
  have chains: "map_of (cw_chains ?w') p = (if p = wr_path x \<and> rest = [] then None else map_of (cw_chains ?w) p)" for p
  proof -
    have "map_of (cw_chains ?w) (wr_path x) = Some (wr_id (last (x # rest)))"
      using ok [of "wr_path x"] by (simp add: path_ok_def Let_def rest)
    moreover have "wr_id (last rest) \<noteq> wr_id x" if "rest \<noteq> []"
    proof -
      have "distinct (map wr_id (writes_of (wr_path x) ?w))" using d by (simp add: writes_of_def distinct_map_filter)
      then show ?thesis using that by (auto simp: rest) (metis image_eqI last_in_set)
    qed
    ultimately show ?thesis by (auto simp: written_def delete_conv')
  qed
  have files: "map_of (cw_files ?w') p =
      (if ok \<and> p = wr_path x then Some (wr_text x) else map_of (cw_files ?w) p)" for p
    by (auto simp: written_def update_conv')
  have "path_ok ?s p" for p
  proof (cases "p = wr_path x")
    case True
    then show ?thesis
      using ok [of p] line_tl [of x rest]
      by (cases "rest = []") (simp_all add: path_ok_def Let_def of rest chains files)
  next
    case False
    then show ?thesis
      using ok [of p] by (auto simp: path_ok_def Let_def of chains files split: if_splits)
  qed
  moreover have "distinct (map wr_id (cw_pending ?w'))" "\<forall>y \<in> set (cw_pending ?w'). wr_id y < cw_next ?w'"
    using assms(1) by (auto simp: writes_ok_def Let_def written_def distinct_map_filter)
  ultimately show ?thesis by (simp add: writes_ok_def Let_def)
qed


definition one_write :: cacheWrite where
  "one_write = \<lparr>wr_id = 0, wr_path = one_path, wr_after = None, wr_text = saved_text equal_text one_chat\<rparr>"

definition one_saved :: savedFiles where
  "one_saved = (noWrites [])\<lparr>sf_writes := saveChatSnapshotCache equal_text (Some ''/d/'') one_chat (sf_writes (noWrites [])),
     sf_saved := [one_path \<mapsto> saved_text equal_text one_chat], sf_failed := {}\<rparr>"

lemma one_cache_path: "getChatSnapshotCachePath (sc_profileId one_chat) (Some ''/d/'') = Some one_path"
  by code_simp

lemma one_saved_pending:
  "sf_writes one_saved = \<lparr>cw_files = [], cw_chains = [(one_path, 0)], cw_pending = [one_write], cw_next = 1\<rparr>"
  by (simp add: one_saved_def saveChatSnapshotCache_def one_cache_path noWrites_def one_write_def)


section \<open>Limits\<close>

text \<open>
  Deleting a cache does not wait for its writes: one that is under way puts the deleted file back.
\<close>

lemma deleted_cache_returns:
  assumes "getChatSnapshotCachePath profileId base = Some path" "x \<in> set (cw_pending w)" "wr_path x = path"
  shows "map_of (cw_files (written x True (deleteChatSnapshotCache base profileId w))) path = Some (wr_text x)"
  using assms by (simp add: deleteChatSnapshotCache_def written_def update_conv')

end
