(* ===== verification/Spec2Isabelle.thy ===== *)
theory Spec2Isabelle
  imports AgUiProperties WsOrder WsRequests WsRecovery GitDiffLaws ChatTreeLaws AppStoreLaws
    TranscriptLaws SnapshotPagesLaws ChatMessagesLaws ApiTurnsLaws ApiBridge ReplayRecoveryLaws
    SubmissionsLaws ScreenLimits DrawerLaws AgentThreadsLaws AttachmentsLaws SnapshotCacheLaws
begin

text \<open>
  Verification library of the TetherCode mobile client, the TypeScript program under
  \<open>apps/mobile/src\<close>.  The application talks to a bridge (a server that runs coding agents) over one
  websocket.  Notifications from the bridge carry AG-UI events; they are reduced to a state for each
  thread, merged with the persisted chat and shown as a transcript.  Profiles of bridges, settings
  and push registrations are kept in one state that is saved to a file.  This library models the
  parts that decide what is delivered, kept, saved and shown, and leaves aside views, styles and
  calls to the platform.

  Theories and the code they model (paths below \<open>apps/mobile/src\<close>)

  \<^item> Prelude, JsValue, JsonLaws: the language.  Strings are the UTF-8 bytes of JavaScript strings,
    numbers exact rationals, JSON values a datatype whose objects are association lists in the order
    of insertion.  \<open>JSON.parse\<close>, \<open>JSON.stringify\<close>, \<open>trim\<close>, \<open>split\<close>, \<open>slice\<close> and dates are functions;
    JsonLaws shows that parsing what was printed gives the value back.  The locale \<open>machine\<close> of the
    prelude is the interface of every component that steps: a step function and an invariant that
    it keeps.  It is interpreted for each of them.
  \<^item> AgUiContent, AgUiState, AgUiReducer: \<open>api/agUi*.ts\<close> and \<open>api/messages.ts\<close>.  The record
    \<open>agUiThreadMessageState\<close> has the fields of the type of that name, \<open>reduceThreadState\<close> is the
    switch over all events.  AgUiInvariant shows bounds and consistency of a thread state,
    AgUiProperties streaming, chunk reassembly, suppression, patches and replayed content.
  \<^item> WsClient, WsDelivery: the layers \<open>api/HostBridgeWsClient*.ts\<close> of one class.  The record \<open>wsClient\<close>
    has its fields; callbacks, timers and continuations after an \<open>await\<close> are operations, and
    \<open>ws_step\<close> collects them.  What the class tells others (socket sends, events, settlements,
    status) is appended to an output trace.  WsOrder, WsRequests and WsRecovery show ordered
    delivery, settlement of requests, connection state, replay and recovery.
  \<^item> GitDiff, GitDiffLaws: \<open>screens/gitDiff.ts\<close> and \<open>screens/gitDiffReview.ts\<close>.
  \<^item> ChatTree, ChatTreeLaws: \<open>navigation/chatThreadTree.ts\<close>.
  \<^item> UrlRules, AppSettings, BridgeProfiles, AppState: \<open>bridgeUrl.ts\<close>, \<open>browserPreview/constants.ts\<close>,
    \<open>appSettings.ts\<close>, \<open>bridgeProfiles.ts\<close>, \<open>appState/model.ts\<close> and \<open>appState/reducer.ts\<close>.
    The locales \<open>codec\<close> and \<open>stored\<close> state what saving and loading owe each other; AppStateLaws
    shows the invariant of the reducer and that a saved state loads back.
  \<^item> AppStore, AppStoreLaws: \<open>appState/store.ts\<close>, the class as the inductive relation \<open>store_step\<close>
    over calls and continuations, with storage as a field that only writes change.
  \<^item> Transcript, TranscriptLaws: \<open>screens/transcriptMessages.ts\<close>, \<open>screens/subAgentTranscript.ts\<close> and
    \<open>screens/controllers/transcriptProjectionController.ts\<close>.
\<close>

end
